(* ===== verification/Cray_Prelude.thy ===== *)
theory Cray_Prelude
  imports Main "HOL-Library.Word"
begin

unbundle bit_operations_syntax

text \<open>
  Shared vocabulary of the development: the C++ integer types as words, the counted
  \<open>for\<close> loop, the exceptions of the simulator, and the generic lemmas about words and
  loops that the components use. \<open>bitfield\<close> collects the bit-by-bit readings of the
  simulator's bit manipulation routines, \<open>exec_ok\<close> the rules that show that an
  operation stays within a relation between its start and its end state.
\<close>

named_theorems bitfield "bit-by-bit readings of bit manipulation routines"
named_theorems exec_ok "operations that keep a contract"

section \<open>Integer types\<close>

type_synonym uint8 = "8 word"
type_synonym uint16 = "16 word"
type_synonym uint32 = "32 word"
type_synonym uint64 = "64 word"

section \<open>Words\<close>

text \<open>Equality of words bit by bit, with the bits in range.\<close>

lemma word_eq_by_bits:
  fixes x y :: "'a::len word"
  assumes "\<And>n. n < LENGTH('a) \<Longrightarrow> bit x n \<longleftrightarrow> bit y n"
  shows "x = y"
  using assms by (rule bit_word_eqI)

lemma mask_shift [bitfield]:
  "push_bit n 1 - 1 = (mask n :: 'a::len word)"
  by (simp add: mask_eq_exp_minus_1 push_bit_eq_mult)

lemma bit_imp_less_length: "bit (x :: 'a::len word) n \<Longrightarrow> n < LENGTH('a)"
  by (rule bit_imp_le_length)

lemma and_single_bit_eq_0:
  fixes x :: "'a::len word"
  assumes "n < LENGTH('a)"
  shows "x AND push_bit n 1 = 0 \<longleftrightarrow> \<not> bit x n"
proof
  assume "x AND push_bit n 1 = 0"
  then have "\<not> bit (x AND push_bit n 1) n" by simp
  with assms show "\<not> bit x n" by (simp add: bit_simps)
next
  assume "\<not> bit x n"
  then show "x AND push_bit n 1 = 0"
    by (intro word_eq_by_bits) (auto simp: bit_simps)
qed

lemma and_exp_eq_0 [simp]:
  fixes x :: "'a::len word"
  shows "n < LENGTH('a) \<Longrightarrow> x AND 2 ^ n = 0 \<longleftrightarrow> \<not> bit x n"
  using and_single_bit_eq_0[of n x] by (simp add: push_bit_eq_mult)

lemma bit_single: "bit (push_bit k 1 :: 'a::len word) n \<longleftrightarrow> n = k \<and> k < LENGTH('a)"
proof
  assume b: "bit (push_bit k 1 :: 'a word) n"
  then have "n < LENGTH('a)" by (rule bit_imp_less_length)
  with b show "n = k \<and> k < LENGTH('a)" by (simp only: bit_push_bit_iff bit_1_iff) simp
next
  assume "n = k \<and> k < LENGTH('a)"
  then show "bit (push_bit k 1 :: 'a word) n"
    by (simp only: bit_push_bit_iff bit_1_iff possible_bit_word) simp
qed

lemma drop_bit_lsb: "drop_bit k (x :: 'a::len word) AND 1 \<noteq> 0 \<longleftrightarrow> bit x k"
  by (simp add: and_one_eq bit_iff_odd_drop_bit odd_iff_mod_2_eq_one)

text \<open>Truncation commutes with arithmetic and with the bitwise operations.\<close>

lemma ucast_down_arith:
  fixes a b :: "'a::len word"
  assumes "LENGTH('b::len) \<le> LENGTH('a)"
  shows "(ucast (a + b) :: 'b word) = ucast a + ucast b"
    and "(ucast (a - b) :: 'b word) = ucast a - ucast b"
    and "(ucast (a * b) :: 'b word) = ucast a * ucast b"
    and "(ucast (- a) :: 'b word) = - ucast a"
proof -
  have t: "take_bit LENGTH('b) (take_bit LENGTH('a) k) = take_bit LENGTH('b) k" for k :: int
    using assms by (simp add: min_def)
  show "(ucast (a + b) :: 'b word) = ucast a + ucast b"
    by transfer (metis t take_bit_add)
  show "(ucast (a - b) :: 'b word) = ucast a - ucast b"
    by transfer (metis t take_bit_diff)
  show "(ucast (a * b) :: 'b word) = ucast a * ucast b"
    by transfer (metis t take_bit_mult)
  show "(ucast (- a) :: 'b word) = - ucast a"
    by transfer (metis t take_bit_minus)
qed

lemma ucast_bitwise:
  fixes a b :: "'a::len word"
  shows "LENGTH('b::len) \<le> LENGTH('a) \<Longrightarrow> (ucast (NOT a) :: 'b word) = NOT (ucast a)"
    and "(ucast (a AND b) :: 'b word) = ucast a AND ucast b"
    and "(ucast (a OR b) :: 'b word) = ucast a OR ucast b"
    and "(ucast (a XOR b) :: 'b word) = ucast a XOR ucast b"
  by (auto intro!: bit_word_eqI simp: bit_simps)

section \<open>Counted loops\<close>

text \<open>\<open>for (size_t i = lo; i < hi; ++i) s = f(i, s)\<close>.\<close>

definition for_loop :: "nat \<Rightarrow> nat \<Rightarrow> (nat \<Rightarrow> 's \<Rightarrow> 's) \<Rightarrow> 's \<Rightarrow> 's" where
  "for_loop lo hi f s = fold f [lo..<hi] s"

lemma for_loop_empty [simp]: "hi \<le> lo \<Longrightarrow> for_loop lo hi f s = s"
  by (simp add: for_loop_def)

lemma for_loop_Suc: "lo \<le> hi \<Longrightarrow> for_loop lo (Suc hi) f s = f hi (for_loop lo hi f s)"
  by (simp add: for_loop_def)

lemma for_loop_first: "lo < hi \<Longrightarrow> for_loop lo hi f s = for_loop (Suc lo) hi f (f lo s)"
  by (simp add: for_loop_def upt_conv_Cons)

text \<open>An invariant indexed by the loop counter.\<close>

lemma for_loop_invariant:
  assumes "lo \<le> hi" and "I lo s"
    and "\<And>i s. lo \<le> i \<Longrightarrow> i < hi \<Longrightarrow> I i s \<Longrightarrow> I (Suc i) (f i s)"
  shows "I hi (for_loop lo hi f s)"
proof -
  have "I k (for_loop lo k f s)" if "lo \<le> k" "k \<le> hi" for k
    using that
  proof (induction k)
    case 0
    with assms(2) show ?case by simp
  next
    case (Suc k)
    show ?case
    proof (cases "lo = Suc k")
      case True
      with assms(2) show ?thesis by simp
    next
      case False
      with Suc.prems have "lo \<le> k" by simp
      with Suc show ?thesis by (simp add: for_loop_Suc assms(3))
    qed
  qed
  with assms(1) show ?thesis by simp
qed

text \<open>What no turn of the loop changes is not changed by the loop.\<close>

lemma for_loop_preserves:
  assumes "\<And>i u. g (f i u) = g u"
  shows "g (for_loop lo hi f s) = g s"
proof (cases "lo \<le> hi")
  case True
  then show ?thesis
    by (rule for_loop_invariant[where I = "\<lambda>_ u. g u = g s"]) (simp_all add: assms)
qed simp

text \<open>The loop that writes element \<open>i\<close> of an array from its index: what it leaves.\<close>

lemma for_loop_pointwise:
  assumes "\<And>i g. lo \<le> i \<Longrightarrow> i < hi \<Longrightarrow>
      (\<forall>j. \<not> (lo \<le> j \<and> j < i) \<longrightarrow> g j = a j) \<Longrightarrow> f i g = g(i := h i)"
  shows "for_loop lo hi f a = (\<lambda>i. if lo \<le> i \<and> i < hi then h i else a i)"
proof (cases "lo \<le> hi")
  case True
  then have "for_loop lo hi f a = (\<lambda>i. if lo \<le> i \<and> i < hi then h i else a i)"
  proof (rule for_loop_invariant
      [where I = "\<lambda>k g. g = (\<lambda>i. if lo \<le> i \<and> i < k then h i else a i)"])
    fix i g
    assume i: "lo \<le> i" "i < hi"
      and g: "g = (\<lambda>j. if lo \<le> j \<and> j < i then h j else a j)"
    have "f i g = g(i := h i)"
      by (rule assms[OF i]) (simp add: g)
    then show "f i g = (\<lambda>j. if lo \<le> j \<and> j < Suc i then h j else a j)"
      using i by (auto simp: g fun_eq_iff less_Suc_eq)
  qed (auto simp: fun_eq_iff)
  then show ?thesis .
next
  case False
  then show ?thesis by (auto simp: fun_eq_iff)
qed

section \<open>Fields of a packed state\<close>

text \<open>
  A field of a packed word or packet: a reader, a writer and the values that fit. The
  laws are what the code relies on wherever it packs several values into one word.
\<close>

locale field =
  fixes get :: "'s \<Rightarrow> 'v" and put :: "'v \<Rightarrow> 's \<Rightarrow> 's" and fits :: "'v \<Rightarrow> bool"
  assumes get_put: "fits v \<Longrightarrow> get (put v s) = v"
    and put_get: "put (get s) s = s"
    and put_put: "put v (put w s) = put v s"
    and fits_get: "fits (get s)"
begin

lemma put_id_iff: "fits v \<Longrightarrow> put v s = s \<longleftrightarrow> get s = v"
  by (metis get_put put_get)

lemma put_inj: "fits v \<Longrightarrow> fits w \<Longrightarrow> put v s = put w s \<Longrightarrow> v = w"
  by (metis get_put)

lemma state_from_put: "\<exists>v. fits v \<and> put v s = s"
  using fits_get put_get by blast

end

text \<open>Two fields that do not overlap: writing one leaves what the other reads.\<close>

locale field_pair = f: field get1 put1 fits1 + g: field get2 put2 fits2
  for get1 :: "'s \<Rightarrow> 'v" and put1 fits1 and get2 :: "'s \<Rightarrow> 'w" and put2 fits2 +
  assumes puts_commute: "put1 v (put2 w s) = put2 w (put1 v s)"
begin

lemma get1_put2 : "get1 (put2 w s) = get1 s"
  by (metis f.fits_get f.get_put f.put_get puts_commute)

lemma get2_put1 : "get2 (put1 v s) = get2 s"
  by (metis g.fits_get g.get_put g.put_get puts_commute)

lemma both_read: "fits1 v \<Longrightarrow> fits2 w \<Longrightarrow>
    get1 (put1 v (put2 w s)) = v \<and> get2 (put1 v (put2 w s)) = w"
  by (simp add: f.get_put g.get_put get2_put1)

end

section \<open>Exceptions\<close>

text \<open>
  The exception classes of the simulator, without their message texts. \<open>UndefinedBehaviour\<close>
  is not one of them: it marks an access past the end of a vector, which C++ leaves undefined.
  Neither is \<open>DoesNotReturn\<close>, which marks a loop that runs forever.
\<close>

datatype exn =
    InstFetchOutOfBoundsError
  | DataReadOutOfBoundsError
  | DataWriteOutOfBoundsError
  | UnknownInstError
  | UndocumentedInstError
  | TerminateInstError
  | InstExecError
  | InstUnimplementedError
  | AssertError
  | GenericError
  | ReadOutOfBoundsError
  | TerminateError
  | InvalidParameterError
  | UndefinedBehaviour
  | DoesNotReturn

text \<open>
  A computation that may throw: C++ keeps the side effects made before the \<open>throw\<close>,
  so the state is returned in either case.
\<close>

type_synonym ('s, 'a) exec = "'s \<Rightarrow> (exn + 'a) \<times> 's"

definition throwE :: "exn \<Rightarrow> ('s, 'a) exec" where
  "throwE e s = (Inl e, s)"

definition returnE :: "'a \<Rightarrow> ('s, 'a) exec" where
  "returnE x s = (Inr x, s)"

definition bindE :: "('s, 'a) exec \<Rightarrow> ('a \<Rightarrow> ('s, 'b) exec) \<Rightarrow> ('s, 'b) exec" where
  "bindE m f s = (case m s of (Inl e, s') \<Rightarrow> (Inl e, s') | (Inr x, s') \<Rightarrow> f x s')"

text \<open>A loop whose body may throw, over the indices of a list.\<close>

fun forE :: "nat list \<Rightarrow> (nat \<Rightarrow> ('s, unit) exec) \<Rightarrow> ('s, unit) exec" where
  "forE [] f s = (Inr (), s)"
| "forE (i # is) f s = (case f i s of (Inl e, s') \<Rightarrow> (Inl e, s') | (Inr _, s') \<Rightarrow> forE is f s')"

lemma bindE_Inl: "m s = (Inl e, s') \<Longrightarrow> bindE m f s = (Inl e, s')"
  by (simp add: bindE_def)

lemma bindE_Inr: "m s = (Inr x, s') \<Longrightarrow> bindE m f s = f x s'"
  by (simp add: bindE_def)

lemma bindE_return [simp]: "bindE (returnE x) f = f x"
  by (rule ext) (simp add: bindE_def returnE_def)

lemma bindE_throw [simp]: "bindE (throwE e) f = throwE e"
  by (rule ext) (simp add: bindE_def throwE_def)

lemma forE_append:
  "forE (is @ js) f s =
     (case forE is f s of (Inl e, s') \<Rightarrow> (Inl e, s') | (Inr _, s') \<Rightarrow> forE js f s')"
  by (induction "is" f s rule: forE.induct) (auto split: prod.splits sum.splits)

text \<open>A throwing loop whose turns all return is a plain loop.\<close>

lemma forE_for_loop:
  assumes "P s" "lo \<le> hi"
    and "\<And>i u. lo \<le> i \<Longrightarrow> i < hi \<Longrightarrow> P u \<Longrightarrow> f i u = (Inr (), g i u) \<and> P (g i u)"
  shows "forE [lo..<hi] f s = (Inr (), for_loop lo hi g s)" "P (for_loop lo hi g s)"
proof -
  have "P (for_loop lo hi g s) \<and> forE [lo..<hi] f s = (Inr (), for_loop lo hi g s)"
  proof (rule for_loop_invariant[where I = "\<lambda>k u. P u \<and> forE [lo..<k] f s = (Inr (), u)"])
    fix i u
    assume i: "lo \<le> i" "i < hi" and I: "P u \<and> forE [lo..<i] f s = (Inr (), u)"
    with assms(3)[OF i, of u] show "P (g i u) \<and> forE [lo..<Suc i] f s = (Inr (), g i u)"
      by (simp add: forE_append)
  qed (use assms(1,2) in simp_all)
  then show "forE [lo..<hi] f s = (Inr (), for_loop lo hi g s)" "P (for_loop lo hi g s)" by simp_all
qed

section \<open>Contracts of computations\<close>

text \<open>
  Frame conditions, invariants and isolation properties are all of one form: the end state
  is related to the start state by a reflexive and transitive relation, on normal return
  and on a throw alike, and only certain exceptions leave the computation. \<open>keeps\<close> says so
  of the outcome of a computation that began in \<open>s\<close>; the locale states what is needed of
  the relation and of the permitted exceptions, and shows that sequencing and looping keep
  the contract.
\<close>

definition keeps :: "('s \<Rightarrow> 's \<Rightarrow> bool) \<Rightarrow> ('s \<Rightarrow> exn \<Rightarrow> bool) \<Rightarrow> 's \<Rightarrow> (exn + 'a) \<times> 's \<Rightarrow> bool" where
  "keeps R E s out \<longleftrightarrow> R s (snd out) \<and> (\<forall>e. fst out = Inl e \<longrightarrow> E s e)"

locale step_contract =
  fixes R :: "'s \<Rightarrow> 's \<Rightarrow> bool" and E :: "'s \<Rightarrow> exn \<Rightarrow> bool"
  assumes R_refl: "R s s"
    and R_trans: "R s t \<Longrightarrow> R t u \<Longrightarrow> R s u"
    and E_back: "R s t \<Longrightarrow> E t e \<Longrightarrow> E s e"
begin

lemma keeps_Inr: "R s t \<Longrightarrow> keeps R E s (Inr x, t)"
  by (simp add: keeps_def)

lemma keeps_Inl: "R s t \<Longrightarrow> E t e \<Longrightarrow> keeps R E s (Inl e, t)"
  by (auto simp: keeps_def intro: E_back)

lemma keeps_start: "R s t \<Longrightarrow> keeps R E t out \<Longrightarrow> keeps R E s out"
  by (auto simp: keeps_def intro: R_trans E_back)

lemma keeps_bindE:
  assumes "keeps R E s (m t)" and "\<And>x u. m t = (Inr x, u) \<Longrightarrow> R s u \<Longrightarrow> keeps R E s (f x u)"
  shows "keeps R E s (bindE m f t)"
  using assms by (auto simp: keeps_def bindE_def split: prod.splits sum.splits)

lemma keeps_forE:
  assumes "R s t" and "\<And>i u. i \<in> set is \<Longrightarrow> R s u \<Longrightarrow> keeps R E s (f i u)"
  shows "keeps R E s (forE is f t)"
  using assms
proof (induction "is" arbitrary: t)
  case Nil
  then show ?case by (simp add: keeps_Inr)
next
  case (Cons i "is")
  have step: "keeps R E s (f i t)" using Cons.prems by simp
  show ?case
  proof (cases "f i t")
    case (Pair r u)
    with step have "R s u" by (simp add: keeps_def)
    with Cons.IH[of u] Cons.prems(2) have "keeps R E s (forE is f u)" by simp
    with Pair step show ?thesis by (auto simp: keeps_def split: sum.splits)
  qed
qed

lemma for_loop_within:
  assumes "R s t" and "\<And>i u. R s u \<Longrightarrow> R s (f i u)"
  shows "R s (for_loop lo hi f t)"
proof (cases "lo \<le> hi")
  case True
  then show ?thesis
    by (rule for_loop_invariant[where I = "\<lambda>_ u. R s u"]) (auto intro: assms)
next
  case False
  then show ?thesis using assms(1) by simp
qed

end

end
