(* ===== verification/Cray_Utils.thy ===== *)
theory Cray_Utils
  imports Cray_Prelude
begin

text \<open>
  The bit manipulation helpers of \<^verbatim>\<open>sim_lib/utils.h\<close>: byte and bit order reversal, reading
  and writing bit ranges, and the machine types. A bit range is named by its two end
  indices in either order, as in the code; the indices are at most 63 (31), since a
  larger shift is undefined in C++.
\<close>

section \<open>Byte order\<close>

text \<open>
  The builtins of GCC reverse the bytes; \<^verbatim>\<open>utils.h\<close> spells them out with shifts and masks
  in the variant it keeps under \<open>#if 0\<close>, which is the text followed here.
\<close>

definition SwapBytes16 :: "uint16 \<Rightarrow> uint16" where
  "SwapBytes16 aInput = (push_bit 8 (aInput AND 0x00ff)) OR (drop_bit 8 (aInput AND 0xff00))"

definition SwapBytes32 :: "uint32 \<Rightarrow> uint32" where
  "SwapBytes32 aInput =
     push_bit 24 (aInput AND 0x000000ff) OR push_bit 8 (aInput AND 0x0000ff00) OR
     drop_bit 8 (aInput AND 0x00ff0000) OR drop_bit 24 (aInput AND 0xff000000)"

definition byte_of :: "nat \<Rightarrow> uint64 \<Rightarrow> uint64" where
  "byte_of k x = drop_bit (8 * k) x AND 0xff"

definition SwapBytes64 :: "uint64 \<Rightarrow> uint64" where
  "SwapBytes64 aInput =
     push_bit 56 (byte_of 0 aInput) OR push_bit 48 (byte_of 1 aInput) OR
     push_bit 40 (byte_of 2 aInput) OR push_bit 32 (byte_of 3 aInput) OR
     push_bit 24 (byte_of 4 aInput) OR push_bit 16 (byte_of 5 aInput) OR
     push_bit 8 (byte_of 6 aInput) OR byte_of 7 aInput"

definition SwapBytesInWords :: "uint64 \<Rightarrow> uint64" where
  "SwapBytesInWords aInput =
     (let parcel = (\<lambda>k. ucast (SwapBytes16 (ucast (drop_bit (16 * k) aInput))) :: uint64)
      in parcel 0 OR push_bit 16 (parcel 1) OR push_bit 32 (parcel 2) OR push_bit 48 (parcel 3))"

lemma mask_8_bits [simp]: "(0xff :: 'a::len word) = mask 8"
  by (simp add: mask_numeral)

lemma bit_byte_of: "bit (byte_of k x) n \<longleftrightarrow> n < 8 \<and> bit x (8 * k + n)"
  by (auto simp: byte_of_def bit_simps)

lemma bit_SwapBytes64 [bitfield]:
  assumes "q < 8" and "r < 8"
  shows "bit (SwapBytes64 x) (8 * q + r) \<longleftrightarrow> bit x (8 * (7 - q) + r)"
proof -
  from assms(1) have "q = 0 \<or> q = 1 \<or> q = 2 \<or> q = 3 \<or> q = 4 \<or> q = 5 \<or> q = 6 \<or> q = 7"
    by arith
  with assms(2) show ?thesis
    by (elim disjE) (simp_all add: SwapBytes64_def bit_simps bit_byte_of)
qed

lemma SwapBytes64_involution [simp]: "SwapBytes64 (SwapBytes64 x) = x"
proof (rule word_eq_by_bits)
  fix n :: nat
  assume "n < LENGTH(64)"
  then have "n div 8 < 8" "n mod 8 < 8" "8 * (n div 8) + n mod 8 = n" by auto
  moreover have "bit (SwapBytes64 (SwapBytes64 x)) (8 * q + r) \<longleftrightarrow> bit x (8 * q + r)"
    if "q < 8" "r < 8" for q r
    using that bit_SwapBytes64[of q r "SwapBytes64 x"] bit_SwapBytes64[of "7 - q" r x] by simp
  ultimately show "bit (SwapBytes64 (SwapBytes64 x)) n \<longleftrightarrow> bit x n" by metis
qed

lemma SwapBytes16_involution [simp]: "SwapBytes16 (SwapBytes16 x) = x"
  by (rule word_eq_by_bits) (auto simp: SwapBytes16_def bit_simps word_size)

section \<open>Bit order\<close>

text \<open>The loop of the template \<open>SwapBits\<close>: it ends when the output mask has run out.\<close>

function SwapBits_loop ::
    "'a::len word \<Rightarrow> 'a word \<Rightarrow> 'a word \<Rightarrow> 'a word \<Rightarrow> 'a word" where
  "SwapBits_loop aInput InMask OutMask Output =
     (if OutMask \<noteq> 0
      then SwapBits_loop aInput (push_bit 1 InMask) (drop_bit 1 OutMask)
             (if aInput AND InMask \<noteq> 0 then Output OR OutMask else Output)
      else Output)"
  by pat_completeness auto
termination
proof (relation "measure (\<lambda>(_, _, OutMask, _). unat OutMask)", goal_cases)
  case (2 aInput InMask OutMask Output)
  then have "0 < unat OutMask" by (simp add: unat_gt_0)
  then show ?case by (simp add: drop_bit_eq_div unat_div)
qed simp

declare SwapBits_loop.simps [simp del]

definition SwapBits :: "'a::len word \<Rightarrow> 'a word" where
  "SwapBits aInput = SwapBits_loop aInput 1 (push_bit (LENGTH('a) - 1) 1) 0"

section \<open>Bit ranges\<close>

definition GetBits :: "uint64 \<Rightarrow> nat \<Rightarrow> nat \<Rightarrow> uint64" where
  "GetBits aData aStartIdx aEndIdx =
     (let StartIdx = min aStartIdx aEndIdx; EndIdx = max aStartIdx aEndIdx in
      if StartIdx = 0 \<and> EndIdx = 63 then aData
      else drop_bit StartIdx aData AND (push_bit (EndIdx - StartIdx + 1) 1 - 1))"

definition GetBits32 :: "uint32 \<Rightarrow> nat \<Rightarrow> nat \<Rightarrow> uint32" where
  "GetBits32 aData aStartIdx aEndIdx =
     (let StartIdx = min aStartIdx aEndIdx; EndIdx = max aStartIdx aEndIdx in
      if StartIdx = 0 \<and> EndIdx = 31 then aData
      else drop_bit StartIdx aData AND (push_bit (EndIdx - StartIdx + 1) 1 - 1))"

definition GetBitsReverse :: "uint64 \<Rightarrow> nat \<Rightarrow> nat \<Rightarrow> uint64" where
  "GetBitsReverse aData aStartIdx aEndIdx = GetBits aData (63 - aStartIdx) (63 - aEndIdx)"

definition GetBitsReverse32 :: "uint32 \<Rightarrow> nat \<Rightarrow> nat \<Rightarrow> uint32" where
  "GetBitsReverse32 aData aStartIdx aEndIdx = GetBits32 aData (31 - aStartIdx) (31 - aEndIdx)"

definition GetBit :: "uint64 \<Rightarrow> nat \<Rightarrow> uint64" where
  "GetBit aData aIdx = GetBits aData aIdx aIdx"

definition SetBits :: "uint64 \<Rightarrow> nat \<Rightarrow> nat \<Rightarrow> uint64 \<Rightarrow> uint64" where
  "SetBits aData aStartIdx aEndIdx aValue =
     (let StartIdx = min aStartIdx aEndIdx; EndIdx = max aStartIdx aEndIdx in
      if StartIdx = 0 \<and> EndIdx = 63 then aValue
      else let Mask = push_bit StartIdx (push_bit (EndIdx - StartIdx + 1) 1 - 1) in
        (aData AND NOT Mask) OR (push_bit StartIdx aValue AND Mask))"

definition SetBitsReverse :: "uint64 \<Rightarrow> nat \<Rightarrow> nat \<Rightarrow> uint64 \<Rightarrow> uint64" where
  "SetBitsReverse aData aStartIdx aEndIdx aValue =
     SetBits aData (63 - aStartIdx) (63 - aEndIdx) aValue"

text \<open>The macro \<open>SET_BITS(aValue, aMask, aNewValue)\<close>.\<close>

definition SET_BITS :: "'a::len word \<Rightarrow> 'a word \<Rightarrow> 'a word \<Rightarrow> 'a word" where
  "SET_BITS aValue aMask aNewValue = (aValue AND NOT aMask) OR aNewValue"

lemma bit_GetBits [bitfield]:
  assumes "a \<le> 63" and "b \<le> 63"
  shows "bit (GetBits d a b) n \<longleftrightarrow> n \<le> max a b - min a b \<and> bit d (min a b + n)"
  using assms bit_imp_less_length[of d "min a b + n"]
  unfolding GetBits_def Let_def mask_shift by (auto simp: bit_simps min_def max_def)

lemma bit_GetBits32 [bitfield]:
  assumes "a \<le> 31" and "b \<le> 31"
  shows "bit (GetBits32 d a b) n \<longleftrightarrow> n \<le> max a b - min a b \<and> bit d (min a b + n)"
  using assms bit_imp_less_length[of d "min a b + n"]
  unfolding GetBits32_def Let_def mask_shift by (auto simp: bit_simps min_def max_def)

lemma bit_SetBits [bitfield]:
  assumes "a \<le> 63" and "b \<le> 63" and "n < 64"
  shows "bit (SetBits d a b v) n \<longleftrightarrow>
     (if min a b \<le> n \<and> n \<le> max a b then bit v (n - min a b) else bit d n)"
  using assms
  unfolding SetBits_def Let_def mask_shift by (auto simp: bit_simps min_def max_def)

lemma bit_SetBits_iff:
  assumes "a \<le> 63" and "b \<le> 63"
  shows "bit (SetBits d a b v) n \<longleftrightarrow>
     n < 64 \<and> (if min a b \<le> n \<and> n \<le> max a b then bit v (n - min a b) else bit d n)"
  using assms bit_imp_less_length[of "SetBits d a b v" n]
  by (cases "n < 64") (auto simp: bit_SetBits)

lemma GetBits_swap: "GetBits d a b = GetBits d b a"
  by (simp add: GetBits_def min.commute max.commute)

lemma SetBits_swap: "SetBits d a b v = SetBits d b a v"
  by (simp add: SetBits_def min.commute max.commute)

lemma GetBit_eq_0_iff [simp]:
  assumes "n \<le> 63"
  shows "GetBit x n = 0 \<longleftrightarrow> \<not> bit x n"
proof -
  have "bit (GetBit x n) m \<longleftrightarrow> m = 0 \<and> bit x n" for m
    using assms by (auto simp: GetBit_def bit_GetBits)
  then show ?thesis by (metis bit_0_eq bot_apply bot_bool_def word_eq_by_bits)
qed

text \<open>Reading what was written, reading beside it, and writing over it.\<close>

lemma GetBits_SetBits_same:
  assumes "a \<le> 63" "b \<le> 63"
  shows "GetBits (SetBits d a b v) a b = take_bit (Suc (max a b - min a b)) v"
proof (rule word_eq_by_bits)
  fix n :: nat
  assume "n < LENGTH(64)"
  with assms show "bit (GetBits (SetBits d a b v) a b) n \<longleftrightarrow>
      bit (take_bit (Suc (max a b - min a b)) v) n"
    by (auto simp: bit_GetBits bit_SetBits_iff bit_simps less_Suc_eq_le dest: bit_imp_less_length)
qed

lemma GetBits_SetBits_other:
  assumes "a \<le> 63" "b \<le> 63" "c \<le> 63" "e \<le> 63"
    and "max a b < min c e \<or> max c e < min a b"
  shows "GetBits (SetBits d a b v) c e = GetBits d c e"
  using assms
  by (intro word_eq_by_bits) (auto simp: bit_GetBits bit_SetBits_iff dest: bit_imp_less_length)

lemma SetBits_GetBits_id:
  assumes "a \<le> 63" "b \<le> 63"
  shows "SetBits d a b (GetBits d a b) = d"
  using assms by (intro word_eq_by_bits) (auto simp: bit_GetBits bit_SetBits)

lemma SetBits_SetBits_same:
  assumes "a \<le> 63" "b \<le> 63"
  shows "SetBits (SetBits d a b w) a b v = SetBits d a b v"
  using assms by (intro word_eq_by_bits) (auto simp: bit_SetBits)

lemma SetBits_commute:
  assumes "a \<le> 63" "b \<le> 63" "c \<le> 63" "e \<le> 63"
    and "max a b < min c e \<or> max c e < min a b"
  shows "SetBits (SetBits d a b v) c e w = SetBits (SetBits d c e w) a b v"
  using assms by (intro word_eq_by_bits) (auto simp: bit_SetBits)

lemma unat_GetBits_less:
  assumes "a \<le> 63" "b \<le> 63"
  shows "unat (GetBits d a b) < 2 ^ Suc (max a b - min a b)"
proof -
  have "take_bit (Suc (max a b - min a b)) (GetBits d a b) = GetBits d a b"
    using assms by (intro word_eq_by_bits) (auto simp: bit_simps bit_GetBits)
  then show ?thesis by (metis take_bit_nat_less_exp unsigned_take_bit_eq)
qed

text \<open>A bit range of a 64-bit word is a field in the sense of the prelude.\<close>

locale bit_range =
  fixes lo hi :: nat
  assumes lo_hi: "lo \<le> hi" and hi: "hi \<le> 63"
begin

definition rget :: "uint64 \<Rightarrow> uint64" where "rget d = GetBits d hi lo"
definition rput :: "uint64 \<Rightarrow> uint64 \<Rightarrow> uint64" where "rput v d = SetBits d hi lo v"
definition rfits :: "uint64 \<Rightarrow> bool" where "rfits v \<longleftrightarrow> take_bit (Suc (hi - lo)) v = v"

lemma range_field: "field rget rput rfits"
proof
  show "rfits v \<Longrightarrow> rget (rput v s) = v" for v s
    using lo_hi hi unfolding rget_def rput_def rfits_def
    by (simp only: GetBits_SetBits_same order.trans[OF lo_hi hi] max_absorb1 min_absorb2)
  show "rput (rget s) s = s" for s
    using lo_hi hi by (simp add: rget_def rput_def SetBits_GetBits_id)
  show "rput v (rput w s) = rput v s" for v w s
    using lo_hi hi by (simp add: rput_def SetBits_SetBits_same)
  show "rfits (rget s)" for s
    using lo_hi hi unfolding rget_def rfits_def
    by (intro word_eq_by_bits) (auto simp: bit_simps bit_GetBits)
qed

end

sublocale bit_range \<subseteq> field rget rput rfits
  by (rule range_field)

text \<open>Bit reversal: the loop computes the library's \<open>word_reverse\<close>.\<close>

lemma drop_bit_1_single:
  "k < LENGTH('a) \<Longrightarrow>
     drop_bit 1 (push_bit k 1 :: 'a::len word) = (if k = 0 then 0 else push_bit (k - 1) 1)"
  by (intro word_eq_by_bits) (auto simp: bit_simps)

lemma bit_SwapBits_loop:
  fixes x :: "'a::len word"
  assumes "k \<le> LENGTH('a)" and "n < LENGTH('a)"
  shows "bit (SwapBits_loop x (push_bit (LENGTH('a) - k) 1)
            (if k = 0 then 0 else push_bit (k - 1) 1) out) n \<longleftrightarrow>
         bit out n \<or> (n < k \<and> bit x (LENGTH('a) - 1 - n))"
  using assms
proof (induction k arbitrary: out)
  case 0
  then show ?case by (simp add: SwapBits_loop.simps)
next
  case (Suc k)
  define out' where "out' =
    (if x AND push_bit (LENGTH('a) - Suc k) 1 \<noteq> 0 then out OR push_bit k 1 else out)"
  have k: "k < LENGTH('a)" using Suc.prems by simp
  have "(push_bit k 1 :: 'a word) \<noteq> 0"
  proof
    assume "(push_bit k 1 :: 'a word) = 0"
    then have "\<not> bit (push_bit k 1 :: 'a word) k" by (simp only: bit_0_eq bot_apply bot_bool_def simp_thms)
    moreover have "bit (push_bit k 1 :: 'a word) k"
      using k by (simp only: bit_push_bit_iff bit_1_iff possible_bit_word) simp
    ultimately show False by contradiction
  qed
  moreover have "push_bit 1 (push_bit (LENGTH('a) - Suc k) 1) = (push_bit (LENGTH('a) - k) 1 :: 'a word)"
  proof -
    have "1 + (LENGTH('a) - Suc k) = LENGTH('a) - k" using k by simp
    then show ?thesis by (simp only: push_bit_push_bit)
  qed
  ultimately have "SwapBits_loop x (push_bit (LENGTH('a) - Suc k) 1) (push_bit k 1) out =
      SwapBits_loop x (push_bit (LENGTH('a) - k) 1) (if k = 0 then 0 else push_bit (k - 1) 1) out'"
    by (subst SwapBits_loop.simps) (simp only: drop_bit_1_single[OF k] out'_def if_True simp_thms)
  with Suc.IH[of out'] k Suc.prems(2) show ?case
    by (auto simp: out'_def bit_simps less_Suc_eq)
qed

lemma SwapBits_is_reverse: "SwapBits (x :: 'a::len word) = word_reverse x"
proof (rule word_eq_by_bits)
  fix n :: nat
  assume n: "n < LENGTH('a)"
  have "LENGTH('a) \<noteq> 0" by simp
  with n bit_SwapBits_loop[of "LENGTH('a)" n x 0] show "bit (SwapBits x) n = bit (word_reverse x) n"
    by (simp add: SwapBits_def bit_word_reverse_iff)
qed

section \<open>Machine types\<close>

datatype MachineTypes_e = XMP1xx | XMP2xx | XMP4xx | YMP | C90 | T90 | YEL | J90 | SV1

definition IsXmp :: "MachineTypes_e \<Rightarrow> bool" where
  "IsXmp aMachineType \<longleftrightarrow>
     aMachineType = XMP1xx \<or> aMachineType = XMP2xx \<or> aMachineType = XMP4xx"

lemma IsXmp_simps [simp]:
  "IsXmp XMP1xx" "IsXmp XMP2xx" "IsXmp XMP4xx" "\<not> IsXmp YMP" "\<not> IsXmp C90"
  "\<not> IsXmp T90" "\<not> IsXmp YEL" "\<not> IsXmp J90" "\<not> IsXmp SV1"
  by (simp_all add: IsXmp_def)

end
