(* ===== verification/Cray_Types.thy ===== *)
theory Cray_Types
  imports Cray_Utils
begin

text \<open>
  The address types of \<^verbatim>\<open>sim_lib/cray_types.h\<close>. A \<open>CXmpAddr_t\<close> is a 24-bit X-MP address
  that the class keeps in a \<open>uint32_t\<close> whose upper byte is zero; every operation masks its
  result again. \<open>xmp_valid\<close> is that class invariant, and \<open>xmp_abs\<close> reads the value as
  a 24-bit word: the operations refine the arithmetic of \<open>24 word\<close>.
\<close>

type_synonym CInt_t = uint64
type_synonym CParcel_t = uint16
type_synonym CAddr_t = uint32
type_synonym CProgramAddr_t = uint32
type_synonym CXmpAddr_t = uint32

definition cBitCnt :: nat where "cBitCnt = 24"
definition cMask :: uint32 where "cMask = push_bit cBitCnt 1 - 1"

definition CXmpAddr_of :: "uint64 \<Rightarrow> CXmpAddr_t" where
  "CXmpAddr_of aVal = ucast (aVal AND ucast cMask)"

definition CXmpAddr_of32 :: "uint32 \<Rightarrow> CXmpAddr_t" where
  "CXmpAddr_of32 aVal = CXmpAddr_of (ucast aVal)"

definition xmp_max :: CXmpAddr_t where "xmp_max = CXmpAddr_of32 cMask"
definition xmp_short_max :: CXmpAddr_t where "xmp_short_max = CXmpAddr_of32 (cMask div 4)"

definition SignExtend :: "CXmpAddr_t \<Rightarrow> uint32" where
  "SignExtend aA =
     (if aA AND drop_bit 1 (xmp_max + 1) \<noteq> 0 then aA OR NOT xmp_max else aA)"

definition SignExtendShort :: "CXmpAddr_t \<Rightarrow> CXmpAddr_t" where
  "SignExtendShort aA =
     (if aA AND drop_bit 1 (xmp_short_max + 1) \<noteq> 0
      then CXmpAddr_of32 (aA OR NOT xmp_short_max) else aA)"

definition SignExtendLongLong :: "CXmpAddr_t \<Rightarrow> uint64" where
  "SignExtendLongLong aA =
     (if aA AND drop_bit 1 (xmp_max + 1) \<noteq> 0 then ucast aA OR NOT (ucast xmp_max) else ucast aA)"

definition ApplyShortMask :: "CXmpAddr_t \<Rightarrow> CXmpAddr_t" where
  "ApplyShortMask aA = CXmpAddr_of32 (aA AND xmp_short_max)"

text \<open>The overloads for plain 32-bit addresses: only the C++ type changes, or widens.\<close>

definition SignExtend32 :: "uint32 \<Rightarrow> uint32" where "SignExtend32 aA = aA"
definition SignExtendLongLong32 :: "uint32 \<Rightarrow> uint64" where
  "SignExtendLongLong32 aA = scast (SignExtend32 aA)"
definition ZeroExtend :: "uint32 \<Rightarrow> uint32" where "ZeroExtend aA = aA"

text \<open>The operators between two addresses.\<close>

definition xmp_and :: "CXmpAddr_t \<Rightarrow> CXmpAddr_t \<Rightarrow> CXmpAddr_t" where
  "xmp_and aA aB = CXmpAddr_of32 (aA AND aB)"
definition xmp_or :: "CXmpAddr_t \<Rightarrow> CXmpAddr_t \<Rightarrow> CXmpAddr_t" where
  "xmp_or aA aB = CXmpAddr_of32 (aA OR aB)"
definition xmp_xor :: "CXmpAddr_t \<Rightarrow> CXmpAddr_t \<Rightarrow> CXmpAddr_t" where
  "xmp_xor aA aB = CXmpAddr_of32 (aA XOR aB)"
definition xmp_plus :: "CXmpAddr_t \<Rightarrow> CXmpAddr_t \<Rightarrow> CXmpAddr_t" where
  "xmp_plus aA aB = CXmpAddr_of32 (aA + aB)"
definition xmp_minus :: "CXmpAddr_t \<Rightarrow> CXmpAddr_t \<Rightarrow> CXmpAddr_t" where
  "xmp_minus aA aB = CXmpAddr_of32 (aA - aB)"
definition xmp_times :: "CXmpAddr_t \<Rightarrow> CXmpAddr_t \<Rightarrow> CXmpAddr_t" where
  "xmp_times aA aB = CXmpAddr_of32 (aA * aB)"
definition xmp_not :: "CXmpAddr_t \<Rightarrow> CXmpAddr_t" where
  "xmp_not aA = CXmpAddr_of32 (NOT aA)"
definition xmp_uminus :: "CXmpAddr_t \<Rightarrow> CXmpAddr_t" where
  "xmp_uminus aA = CXmpAddr_of32 (- SignExtend aA)"
definition xmp_incr :: "CXmpAddr_t \<Rightarrow> CXmpAddr_t" where
  "xmp_incr aA = (aA + 1) AND cMask"
definition xmp_assign :: "uint64 \<Rightarrow> CXmpAddr_t" where
  "xmp_assign aVal = ucast (aVal AND ucast cMask)"
definition xmp_less :: "CXmpAddr_t \<Rightarrow> CXmpAddr_t \<Rightarrow> bool" where
  "xmp_less aA aB \<longleftrightarrow> aA < aB"

text \<open>
  Division and remainder are undefined in C++ for a zero divisor: \<open>None\<close>.
\<close>

definition xmp_div :: "CXmpAddr_t \<Rightarrow> CXmpAddr_t \<Rightarrow> CXmpAddr_t option" where
  "xmp_div aA aB = (if aB = 0 then None else Some (CXmpAddr_of32 (aA div aB)))"
definition xmp_mod :: "CXmpAddr_t \<Rightarrow> CXmpAddr_t \<Rightarrow> CXmpAddr_t option" where
  "xmp_mod aA aB = (if aB = 0 then None else Some (CXmpAddr_of32 (aA mod aB)))"

text \<open>
  The compound assignments, for an address operand: the object after the statement. The body
  \<open>{ *this + aB; return *this; }\<close> computes the sum and drops it.
\<close>

definition xmp_plus_assign :: "CXmpAddr_t \<Rightarrow> CXmpAddr_t \<Rightarrow> CXmpAddr_t" where
  "xmp_plus_assign this aB = (let dropped = xmp_plus this aB in this)"
definition xmp_minus_assign :: "CXmpAddr_t \<Rightarrow> CXmpAddr_t \<Rightarrow> CXmpAddr_t" where
  "xmp_minus_assign this aB = (let dropped = xmp_minus this aB in this)"
definition xmp_times_assign :: "CXmpAddr_t \<Rightarrow> CXmpAddr_t \<Rightarrow> CXmpAddr_t" where
  "xmp_times_assign this aB = (let dropped = xmp_times this aB in this)"

section \<open>The class invariant and the 24-bit reading\<close>

definition xmp_valid :: "CXmpAddr_t \<Rightarrow> bool" where
  "xmp_valid aA \<longleftrightarrow> aA AND NOT cMask = 0"

definition xmp_abs :: "CXmpAddr_t \<Rightarrow> 24 word" where
  "xmp_abs aA = ucast aA"

lemma cMask_mask: "cMask = mask 24"
  unfolding cMask_def cBitCnt_def mask_shift ..

lemma bit_CXmpAddr_of32: "bit (CXmpAddr_of32 v) n \<longleftrightarrow> n < 24 \<and> bit v n"
  by (auto simp: CXmpAddr_of32_def CXmpAddr_of_def cMask_mask bit_simps)

lemma CXmpAddr_of32_mask: "CXmpAddr_of32 v = v AND cMask"
  by (intro word_eq_by_bits) (auto simp: bit_CXmpAddr_of32 cMask_mask bit_simps)

lemma xmp_max_mask: "xmp_max = mask 24"
  by (intro word_eq_by_bits) (auto simp: xmp_max_def bit_CXmpAddr_of32 cMask_mask bit_simps)

lemma xmp_short_max_mask: "xmp_short_max = mask 22"
proof -
  have "cMask div 4 = (mask 22 :: uint32)" by (simp add: cMask_mask mask_eq_exp_minus_1)
  then show ?thesis
    by (intro word_eq_by_bits) (auto simp: xmp_short_max_def bit_CXmpAddr_of32 bit_simps)
qed

lemma xmp_valid_iff: "xmp_valid a \<longleftrightarrow> (\<forall>n. bit a n \<longrightarrow> n < 24)"
  using bit_imp_less_length[of a]
  by (fastforce simp: xmp_valid_def bit_eq_iff cMask_mask bit_simps not_less)

lemma xmp_valid_of32 [simp]: "xmp_valid (CXmpAddr_of32 v)"
  by (simp add: xmp_valid_iff bit_CXmpAddr_of32)

lemma xmp_abs_of32: "xmp_abs (CXmpAddr_of32 v) = ucast v"
  by (intro word_eq_by_bits) (simp add: xmp_abs_def bit_CXmpAddr_of32 bit_simps)

text \<open>The three sign extensions, with the test of the sign bit read as a bit.\<close>

lemma xmp_sign_bit: "drop_bit 1 (xmp_max + 1) = (2 ^ 23 :: uint32)"
  by (simp add: xmp_max_mask mask_eq_exp_minus_1)

lemma xmp_short_sign_bit: "drop_bit 1 (xmp_short_max + 1) = (2 ^ 21 :: uint32)"
  by (simp add: xmp_short_max_mask mask_eq_exp_minus_1)

lemma SignExtend_alt: "SignExtend a = (if bit a 23 then a OR NOT (mask 24) else a)"
  unfolding SignExtend_def xmp_sign_bit unfolding xmp_max_mask
  using and_exp_eq_0[of 23 a] by simp

lemma SignExtendLongLong_alt:
  "SignExtendLongLong a = (if bit a 23 then ucast a OR NOT (mask 24) else ucast a)"
proof -
  have "ucast (mask 24 :: uint32) = (mask 24 :: uint64)"
    by (intro word_eq_by_bits) (auto simp: bit_simps)
  then show ?thesis
    unfolding SignExtendLongLong_def xmp_sign_bit unfolding xmp_max_mask
    using and_exp_eq_0[of 23 a] by simp
qed

lemma SignExtendShort_alt:
  "SignExtendShort a = (if bit a 21 then CXmpAddr_of32 (a OR NOT (mask 22)) else a)"
  unfolding SignExtendShort_def xmp_short_sign_bit unfolding xmp_short_max_mask
  using and_exp_eq_0[of 21 a] by simp

lemma bit_scast_24:
  "bit (scast (v :: 24 word) :: 'a::len word) n \<longleftrightarrow> n < LENGTH('a) \<and> bit v (if n < 24 then n else 23)"
proof (cases "n < 23")
  case True
  then show ?thesis by (auto simp: bit_simps)
next
  case False
  then have "n = 23 \<or> 24 \<le> n" by auto
  then show ?thesis by (auto simp: bit_simps)
qed

lemma SignExtend_scast:
  assumes "xmp_valid a"
  shows "SignExtend a = scast (xmp_abs a)"
  using assms
  by (intro word_eq_by_bits)
    (auto simp: SignExtend_alt xmp_abs_def bit_scast_24 bit_unsigned_iff bit_or_iff bit_not_iff
      bit_mask_iff xmp_valid_iff not_less)

lemma SignExtendLongLong_scast:
  assumes "xmp_valid a"
  shows "SignExtendLongLong a = scast (xmp_abs a)"
  using assms
  by (intro word_eq_by_bits)
    (auto simp: SignExtendLongLong_alt xmp_abs_def bit_scast_24 bit_unsigned_iff bit_or_iff
      bit_not_iff bit_mask_iff xmp_valid_iff not_less)

lemma SignExtendShort_valid: "xmp_valid a \<Longrightarrow> xmp_valid (SignExtendShort a)"
  by (simp add: SignExtendShort_alt)

text \<open>A displacement of 22 bits, read as a signed 22-bit number.\<close>

lemma SignExtendShort_scast:
  assumes "take_bit 22 a = a"
  shows "xmp_abs (SignExtendShort a) = scast (ucast a :: 22 word)"
proof (rule word_eq_by_bits)
  fix n :: nat
  assume n: "n < LENGTH(24)"
  have high: "\<not> bit a m" if "22 \<le> m" for m
    using that by (subst assms[symmetric]) (simp add: bit_simps)
  show "bit (xmp_abs (SignExtendShort a)) n \<longleftrightarrow> bit (scast (ucast a :: 22 word) :: 24 word) n"
  proof (cases "n < 22")
    case True
    then have "n < 21 \<or> n = 21" by auto
    then show ?thesis
      by (auto simp: SignExtendShort_alt xmp_abs_def bit_CXmpAddr_of32 bit_simps min_def)
  next
    case False
    with n have "n = 22 \<or> n = 23" by auto
    with high show ?thesis
      by (auto simp: SignExtendShort_alt xmp_abs_def bit_CXmpAddr_of32 bit_simps min_def)
  qed
qed

section \<open>The operators as arithmetic of 24-bit words\<close>

text \<open>
  What the code relies on from a masked integer class: the invariant holds of every
  result, and reading a result is the operation on the readings.
\<close>

locale masked_operator =
  fixes valid :: "'c \<Rightarrow> bool" and abs :: "'c \<Rightarrow> 'a"
    and cop :: "'c \<Rightarrow> 'c \<Rightarrow> 'c" and aop :: "'a \<Rightarrow> 'a \<Rightarrow> 'a"
  assumes valid_cop: "valid x \<Longrightarrow> valid y \<Longrightarrow> valid (cop x y)"
    and abs_cop: "valid x \<Longrightarrow> valid y \<Longrightarrow> abs (cop x y) = aop (abs x) (abs y)"
begin

lemma valid_fold: "valid a \<Longrightarrow> (\<And>x. x \<in> set xs \<Longrightarrow> valid x) \<Longrightarrow> valid (fold cop xs a)"
  by (induction xs arbitrary: a) (simp_all add: valid_cop)

lemma abs_fold:
  "valid a \<Longrightarrow> (\<And>x. x \<in> set xs \<Longrightarrow> valid x) \<Longrightarrow>
     abs (fold cop xs a) = fold aop (map abs xs) (abs a)"
  by (induction xs arbitrary: a) (simp_all add: valid_cop abs_cop)

end

named_theorems xmp_ops "the readings of the address operators"

lemma xmp_arith [xmp_ops]:
  "xmp_abs (xmp_plus a b) = xmp_abs a + xmp_abs b"
  "xmp_abs (xmp_minus a b) = xmp_abs a - xmp_abs b"
  "xmp_abs (xmp_times a b) = xmp_abs a * xmp_abs b"
  by (simp_all add: xmp_plus_def xmp_minus_def xmp_times_def xmp_abs_of32)
    (simp_all add: xmp_abs_def ucast_down_arith)

lemma xmp_bitwise [xmp_ops]:
  "xmp_abs (xmp_and a b) = xmp_abs a AND xmp_abs b"
  "xmp_abs (xmp_or a b) = xmp_abs a OR xmp_abs b"
  "xmp_abs (xmp_xor a b) = xmp_abs a XOR xmp_abs b"
  "xmp_abs (xmp_not a) = NOT (xmp_abs a)"
  by (simp_all add: xmp_and_def xmp_or_def xmp_xor_def xmp_not_def xmp_abs_of32)
    (simp_all add: xmp_abs_def ucast_bitwise)

lemma xmp_valid_results [xmp_ops]:
  "xmp_valid (xmp_plus a b)" "xmp_valid (xmp_minus a b)" "xmp_valid (xmp_times a b)"
  "xmp_valid (xmp_and a b)" "xmp_valid (xmp_or a b)" "xmp_valid (xmp_xor a b)"
  "xmp_valid (xmp_not a)" "xmp_valid (xmp_uminus a)"
  by (simp_all add: xmp_plus_def xmp_minus_def xmp_times_def xmp_and_def xmp_or_def xmp_xor_def
      xmp_not_def xmp_uminus_def)

lemma ucast_scast_24: "ucast (scast (v :: 24 word) :: uint32) = v"
  by (intro word_eq_by_bits) (simp add: bit_unsigned_iff bit_scast_24)

lemma xmp_abs_uminus [xmp_ops]: "xmp_valid a \<Longrightarrow> xmp_abs (xmp_uminus a) = - xmp_abs a"
  by (simp add: xmp_uminus_def xmp_abs_of32 SignExtend_scast ucast_down_arith ucast_scast_24)

interpretation xplus: masked_operator xmp_valid xmp_abs xmp_plus "(+)"
  by unfold_locales (simp_all add: xmp_ops)

interpretation xminus: masked_operator xmp_valid xmp_abs xmp_minus "(-)"
  by unfold_locales (simp_all add: xmp_ops)

interpretation xtimes: masked_operator xmp_valid xmp_abs xmp_times "(*)"
  by unfold_locales (simp_all add: xmp_ops)

interpretation xand: masked_operator xmp_valid xmp_abs xmp_and "(AND)"
  by unfold_locales (simp_all add: xmp_ops)

interpretation xor: masked_operator xmp_valid xmp_abs xmp_or "(OR)"
  by unfold_locales (simp_all add: xmp_ops)

interpretation xxor: masked_operator xmp_valid xmp_abs xmp_xor "(XOR)"
  by unfold_locales (simp_all add: xmp_ops)

end
