(* ===== verification/Cray_Memory.thy ===== *)
theory Cray_Memory
  imports Cray_Types
begin

text \<open>
  The memory of the mainframe: \<open>std::vector<uint8_t> mMemory\<close> of \<^verbatim>\<open>sim_lib/cray_mainframe.h\<close>,
  accessed through pointer casts by words, parcels and bytes. The host is little-endian, so
  a cast access composes the bytes at rising addresses from the low end; the code then
  swaps the bytes to the Cray's order. The vector is a function from the byte index, its
  size is kept beside it.
\<close>

type_synonym memory = "nat \<Rightarrow> uint8"

section \<open>Little-endian accesses\<close>

text \<open>\<open>*(uint64_t *)(&mMemory[a])\<close> and \<open>*(uint16_t *)(&mMemory[a])\<close>.\<close>

definition load64 :: "memory \<Rightarrow> nat \<Rightarrow> uint64" where
  "load64 m a =
     ucast (m a) OR push_bit 8 (ucast (m (a + 1))) OR push_bit 16 (ucast (m (a + 2))) OR
     push_bit 24 (ucast (m (a + 3))) OR push_bit 32 (ucast (m (a + 4))) OR
     push_bit 40 (ucast (m (a + 5))) OR push_bit 48 (ucast (m (a + 6))) OR
     push_bit 56 (ucast (m (a + 7)))"

definition store64 :: "nat \<Rightarrow> uint64 \<Rightarrow> memory \<Rightarrow> memory" where
  "store64 a v m = (\<lambda>x. if a \<le> x \<and> x < a + 8 then ucast (drop_bit (8 * (x - a)) v) else m x)"

definition load16 :: "memory \<Rightarrow> nat \<Rightarrow> uint16" where
  "load16 m a = ucast (m a) OR push_bit 8 (ucast (m (a + 1)))"

definition store16 :: "nat \<Rightarrow> uint16 \<Rightarrow> memory \<Rightarrow> memory" where
  "store16 a v m = (\<lambda>x. if a \<le> x \<and> x < a + 2 then ucast (drop_bit (8 * (x - a)) v) else m x)"

lemma bit_load64 [bitfield]:
  assumes "q < 8" "r < 8"
  shows "bit (load64 m a) (8 * q + r) \<longleftrightarrow> bit (m (a + q)) r"
proof -
  have high: "\<not> bit (x :: uint8) n" if "8 \<le> n" for x n
    using that bit_imp_less_length[of x n] by auto
  from assms(1) have "q = 0 \<or> q = 1 \<or> q = 2 \<or> q = 3 \<or> q = 4 \<or> q = 5 \<or> q = 6 \<or> q = 7"
    by arith
  with assms(2) show ?thesis
    by (elim disjE) (simp_all add: load64_def bit_simps high)
qed

lemma byte_index: "n < 64 \<Longrightarrow> \<exists>q r. n = 8 * q + r \<and> q < 8 \<and> r < (8 :: nat)"
  by (rule exI[of _ "n div 8"], rule exI[of _ "n mod 8"]) auto

lemma load64_eqI:
  assumes "\<And>q. q < 8 \<Longrightarrow> m (a + q) = m' (b + q)"
  shows "load64 m a = load64 m' b"
proof (rule word_eq_by_bits)
  fix n :: nat
  assume "n < LENGTH(64)"
  then obtain q r where "n = 8 * q + r" "q < 8" "r < 8" using byte_index[of n] by auto
  with assms show "bit (load64 m a) n = bit (load64 m' b) n" by (simp add: bit_load64)
qed

lemma load64_store64_same [simp]: "load64 (store64 a v m) a = v"
proof (rule word_eq_by_bits)
  fix n :: nat
  assume "n < LENGTH(64)"
  then obtain q r where "n = 8 * q + r" "q < 8" "r < 8" using byte_index[of n] by auto
  then show "bit (load64 (store64 a v m) a) n = bit v n"
    by (simp add: bit_load64 store64_def bit_simps)
qed

lemma load64_store64_other:
  "a + 8 \<le> b \<or> b + 8 \<le> a \<Longrightarrow> load64 (store64 a v m) b = load64 m b"
  by (rule load64_eqI) (auto simp: store64_def)

lemma store64_store64_same: "store64 a v (store64 a w m) = store64 a v m"
  by (auto simp: store64_def fun_eq_iff)

lemma store64_commute:
  "a + 8 \<le> b \<or> b + 8 \<le> a \<Longrightarrow> store64 a v (store64 b w m) = store64 b w (store64 a v m)"
  by (auto simp: store64_def fun_eq_iff)

lemma store64_load64: "store64 a (load64 m a) m = m"
proof
  fix x
  show "store64 a (load64 m a) m x = m x"
  proof (cases "a \<le> x \<and> x < a + 8")
    case True
    then obtain q where q: "x = a + q" "q < 8" using le_Suc_ex[of a x] by auto
    have "ucast (drop_bit (8 * q) (load64 m a)) = m (a + q)"
    proof (rule word_eq_by_bits)
      fix r :: nat
      assume "r < LENGTH(8)"
      then show "bit (ucast (drop_bit (8 * q) (load64 m a)) :: uint8) r = bit (m (a + q)) r"
        using q(2) bit_load64[of q r m a] by (simp add: bit_simps)
    qed
    with q show ?thesis by (simp add: store64_def)
  qed (auto simp: store64_def)
qed

lemma store64_outside: "x < a \<or> a + 8 \<le> x \<Longrightarrow> store64 a v m x = m x"
  by (auto simp: store64_def)

section \<open>Memory as an array of cells\<close>

text \<open>
  What the instructions rely on from a memory: an address in range reads back what was
  written to it last, and writes to different addresses do not disturb each other. \<open>ok\<close>
  says which addresses are in range.
\<close>

locale word_memory =
  fixes ok :: "'a \<Rightarrow> bool" and rd :: "'a \<Rightarrow> 'm \<Rightarrow> 'v" and wr :: "'a \<Rightarrow> 'v \<Rightarrow> 'm \<Rightarrow> 'm"
  assumes rd_same: "ok a \<Longrightarrow> rd a (wr a v m) = v"
    and rd_other: "ok a \<Longrightarrow> ok b \<Longrightarrow> a \<noteq> b \<Longrightarrow> rd b (wr a v m) = rd b m"
    and wr_wr: "ok a \<Longrightarrow> wr a v (wr a w m) = wr a v m"
    and wr_rd: "ok a \<Longrightarrow> wr a (rd a m) m = m"
    and wr_commute: "ok a \<Longrightarrow> ok b \<Longrightarrow> a \<noteq> b \<Longrightarrow> wr a v (wr b w m) = wr b w (wr a v m)"
begin

lemma cell_field: "ok a \<Longrightarrow> field (rd a) (wr a) (\<lambda>_. True)"
  by unfold_locales (simp_all add: rd_same wr_wr wr_rd)

text \<open>A loop that writes to different addresses, and what it leaves at each of them.\<close>

lemma rd_loop:
  assumes "\<And>i. i < n \<Longrightarrow> ok (addr i)" "\<And>i j. i < n \<Longrightarrow> j < n \<Longrightarrow> addr i = addr j \<Longrightarrow> i = j"
  shows "k < n \<Longrightarrow> rd (addr k) (for_loop 0 n (\<lambda>i. wr (addr i) (val i)) m) = val k"
    and "ok b \<Longrightarrow> (\<And>i. i < n \<Longrightarrow> addr i \<noteq> b) \<Longrightarrow> rd b (for_loop 0 n (\<lambda>i. wr (addr i) (val i)) m) = rd b m"
proof -
  show "rd (addr k) (for_loop 0 n (\<lambda>i. wr (addr i) (val i)) m) = val k" if "k < n"
  proof -
    have "\<forall>j<n. rd (addr j) (for_loop 0 n (\<lambda>i. wr (addr i) (val i)) m) = val j"
    proof (rule for_loop_invariant[where I = "\<lambda>k m. \<forall>j<k. rd (addr j) m = val j"])
      fix i u
      assume i: "i < n" and I: "\<forall>j<i. rd (addr j) u = val j"
      show "\<forall>j<Suc i. rd (addr j) (wr (addr i) (val i) u) = val j"
      proof (intro allI impI)
        fix j
        assume j: "j < Suc i"
        show "rd (addr j) (wr (addr i) (val i) u) = val j"
        proof (cases "j = i")
          case True
          then show ?thesis using i by (simp add: rd_same assms(1))
        next
          case False
          then have "addr i \<noteq> addr j" using assms(2)[of i j] i j by auto
          then show ?thesis using i j False I by (simp add: rd_other assms(1))
        qed
      qed
    qed simp_all
    with that show ?thesis by simp
  qed
  show "rd b (for_loop 0 n (\<lambda>i. wr (addr i) (val i)) m) = rd b m"
    if "ok b" "\<And>i. i < n \<Longrightarrow> addr i \<noteq> b"
    by (rule for_loop_invariant[where I = "\<lambda>_ u. rd b u = rd b m"])
      (use that assms(1) in \<open>simp_all add: rd_other\<close>)
qed

end

interpretation words: word_memory "\<lambda>_. True" "\<lambda>a m. load64 m (8 * a)" "\<lambda>a. store64 (8 * a)"
proof
  show "load64 (store64 (8 * a) v m) (8 * b) = load64 m (8 * b)" if "a \<noteq> b" for a b :: nat and v m
    using that by (intro load64_store64_other) auto
  show "store64 (8 * a) v (store64 (8 * b) w m) = store64 (8 * b) w (store64 (8 * a) v m)"
    if "a \<noteq> b" for a b :: nat and v w m
    using that by (intro store64_commute) auto
qed (simp_all add: store64_store64_same store64_load64)

end
