(* ===== verification/Exchange_Packet.thy ===== *)
theory Exchange_Packet
  imports Cray_Memory
begin

text \<open>
  The exchange packet of \<^verbatim>\<open>sim_lib/exchange_packet.h\<close>: the mode register \<open>Mode_c\<close>, the
  interrupt flags \<open>Flags_c\<close> and the sixteen words that an exchange swaps with memory. The
  layout of the words differs between the X-MP and the later machines; the getters and
  setters follow the tables \<open>CREATE_FIELD\<close>, \<open>CREATE_PROT_FIELD\<close> and
  \<open>CREATE_UNIFIED_FIELD\<close> of the header. An array is a function from its index.
\<close>

section \<open>The mode register\<close>

record Mode_c =
  mWaitingForSemaphore :: bool
  mYmpEnableSecondVectorLogical :: bool
  mSv1BitMatrixLoaded :: bool
  mFloatingPointErrorStatus :: bool
  mBidirectionalMemoryMode :: bool
  mOperandRangeErrorMode :: bool
  mFloatingPointErrorMode :: bool
  mUncorrectableMemoryErrorMode :: bool
  mCorrectableMemoryErrorMode :: bool
  mYmpEnhancedAddressingMode :: bool
  mSelectedForExternalInterrupts :: bool
  mInterruptMonitorMode :: bool
  mMonitorMode :: bool
  modeMachineType :: MachineTypes_e

text \<open>The default constructor; it leaves the machine type as it finds it.\<close>

definition Mode_c_default :: "MachineTypes_e \<Rightarrow> Mode_c" where
  "Mode_c_default mt = \<lparr>mWaitingForSemaphore = False,
     mYmpEnableSecondVectorLogical = False,
     mSv1BitMatrixLoaded = False,
     mFloatingPointErrorStatus = False,
     mBidirectionalMemoryMode = False,
     mOperandRangeErrorMode = False,
     mFloatingPointErrorMode = False,
     mUncorrectableMemoryErrorMode = False,
     mCorrectableMemoryErrorMode = False,
     mYmpEnhancedAddressingMode = False,
     mSelectedForExternalInterrupts = False,
     mInterruptMonitorMode = False,
     mMonitorMode = False,
     modeMachineType = mt\<rparr>"

definition Mode_c_of :: "uint16 \<Rightarrow> MachineTypes_e \<Rightarrow> Mode_c" where
  "Mode_c_of aData aMachineType =
     (if IsXmp aMachineType then
       \<lparr>mWaitingForSemaphore = (aData AND 0x0010 \<noteq> 0),
        mYmpEnableSecondVectorLogical = False,
        mSv1BitMatrixLoaded = False,
        mFloatingPointErrorStatus = (aData AND 0x0008 \<noteq> 0),
        mBidirectionalMemoryMode = (aData AND 0x0004 \<noteq> 0),
        mOperandRangeErrorMode = (aData AND 0x0200 \<noteq> 0),
        mFloatingPointErrorMode = (aData AND 0x0080 \<noteq> 0),
        mUncorrectableMemoryErrorMode = (aData AND 0x0040 \<noteq> 0),
        mCorrectableMemoryErrorMode = (aData AND 0x0100 \<noteq> 0),
        mYmpEnhancedAddressingMode = False,
        mSelectedForExternalInterrupts = (aData AND 0x0002 \<noteq> 0),
        mInterruptMonitorMode = (aData AND 0x0001 \<noteq> 0),
        mMonitorMode = (aData AND 0x0020 \<noteq> 0),
        modeMachineType = aMachineType\<rparr>
      else
       \<lparr>mWaitingForSemaphore = (aData AND 0x1000 \<noteq> 0),
        mYmpEnableSecondVectorLogical = (aData AND 0x0800 \<noteq> 0),
        mSv1BitMatrixLoaded = (if aMachineType = SV1 then aData AND 0x0400 \<noteq> 0 else False),
        mFloatingPointErrorStatus = (aData AND 0x0200 \<noteq> 0),
        mBidirectionalMemoryMode = (aData AND 0x0100 \<noteq> 0),
        mOperandRangeErrorMode = (aData AND 0x0080 \<noteq> 0),
        mFloatingPointErrorMode = (aData AND 0x0040 \<noteq> 0),
        mUncorrectableMemoryErrorMode = (aData AND 0x0020 \<noteq> 0),
        mCorrectableMemoryErrorMode = (aData AND 0x0010 \<noteq> 0),
        mYmpEnhancedAddressingMode = (aData AND 0x0008 \<noteq> 0),
        mSelectedForExternalInterrupts = (aData AND 0x0004 \<noteq> 0),
        mInterruptMonitorMode = (aData AND 0x0002 \<noteq> 0),
        mMonitorMode = (aData AND 0x0001 \<noteq> 0),
        modeMachineType = aMachineType\<rparr>)"

definition GetRawValue :: "Mode_c \<Rightarrow> uint16" where
  "GetRawValue m =
     (if IsXmp (modeMachineType m) then
        (if mWaitingForSemaphore m then 0x0010 else 0) OR
        (if mFloatingPointErrorStatus m then 0x0008 else 0) OR
        (if mBidirectionalMemoryMode m then 0x0004 else 0) OR
        (if mOperandRangeErrorMode m then 0x0200 else 0) OR
        (if mFloatingPointErrorMode m then 0x0080 else 0) OR
        (if mUncorrectableMemoryErrorMode m then 0x0040 else 0) OR
        (if mCorrectableMemoryErrorMode m then 0x0100 else 0) OR
        (if mSelectedForExternalInterrupts m then 0x0002 else 0) OR
        (if mInterruptMonitorMode m then 0x0001 else 0) OR
        (if mMonitorMode m then 0x0020 else 0)
      else
        (if mWaitingForSemaphore m then 0x1000 else 0) OR
        (if mYmpEnableSecondVectorLogical m then 0x0800 else 0) OR
        (if modeMachineType m = SV1 then (if mSv1BitMatrixLoaded m then 0x0400 else 0) else 0) OR
        (if mFloatingPointErrorStatus m then 0x0200 else 0) OR
        (if mBidirectionalMemoryMode m then 0x0100 else 0) OR
        (if mOperandRangeErrorMode m then 0x0080 else 0) OR
        (if mFloatingPointErrorMode m then 0x0040 else 0) OR
        (if mUncorrectableMemoryErrorMode m then 0x0020 else 0) OR
        (if mCorrectableMemoryErrorMode m then 0x0010 else 0) OR
        (if mYmpEnhancedAddressingMode m then 0x0008 else 0) OR
        (if mSelectedForExternalInterrupts m then 0x0004 else 0) OR
        (if mInterruptMonitorMode m then 0x0002 else 0) OR
        (if mMonitorMode m then 0x0001 else 0))"

section \<open>The interrupt flags\<close>

type_synonym Flags_c = uint16

definition F_InterProcessorInterrupt :: uint16 where "F_InterProcessorInterrupt = 0x0400"
definition F_Deadlock :: uint16 where "F_Deadlock = 0x0200"
definition F_ProgrammableClockInterrupt :: uint16 where "F_ProgrammableClockInterrupt = 0x0100"
definition F_McuInterrupt :: uint16 where "F_McuInterrupt = 0x0080"
definition F_FloatingPointError :: uint16 where "F_FloatingPointError = 0x0040"
definition F_OperandRangeError :: uint16 where "F_OperandRangeError = 0x0020"
definition F_ProgramRangeError :: uint16 where "F_ProgramRangeError = 0x0010"
definition F_MemoryError :: uint16 where "F_MemoryError = 0x0008"
definition F_IoInterrupt :: uint16 where "F_IoInterrupt = 0x0004"
definition F_ErrorExit :: uint16 where "F_ErrorExit = 0x0002"
definition F_NormalExit :: uint16 where "F_NormalExit = 0x0001"

definition SetInterProcessorInterrupt :: "Flags_c \<Rightarrow> Flags_c" where "SetInterProcessorInterrupt d = d OR F_InterProcessorInterrupt"
definition SetDeadlock :: "Flags_c \<Rightarrow> Flags_c" where "SetDeadlock d = d OR F_Deadlock"
definition SetProgrammableClockInterrupt :: "Flags_c \<Rightarrow> Flags_c" where "SetProgrammableClockInterrupt d = d OR F_ProgrammableClockInterrupt"
definition SetMcuInterrupt :: "Flags_c \<Rightarrow> Flags_c" where "SetMcuInterrupt d = d OR F_McuInterrupt"
definition SetFloatingPointError :: "Flags_c \<Rightarrow> Flags_c" where "SetFloatingPointError d = d OR F_FloatingPointError"
definition SetOperandRangeError :: "Flags_c \<Rightarrow> Flags_c" where "SetOperandRangeError d = d OR F_OperandRangeError"
definition SetProgramRangeError :: "Flags_c \<Rightarrow> Flags_c" where "SetProgramRangeError d = d OR F_ProgramRangeError"
definition SetMemoryError :: "Flags_c \<Rightarrow> Flags_c" where "SetMemoryError d = d OR F_MemoryError"
definition SetIoInterrupt :: "Flags_c \<Rightarrow> Flags_c" where "SetIoInterrupt d = d OR F_IoInterrupt"
definition SetErrorExit :: "Flags_c \<Rightarrow> Flags_c" where "SetErrorExit d = d OR F_ErrorExit"
definition SetNormalExit :: "Flags_c \<Rightarrow> Flags_c" where "SetNormalExit d = d OR F_NormalExit"
definition ClearInterProcessorInterrupt :: "Flags_c \<Rightarrow> Flags_c" where "ClearInterProcessorInterrupt d = d AND NOT F_InterProcessorInterrupt"
definition ClearDeadlock :: "Flags_c \<Rightarrow> Flags_c" where "ClearDeadlock d = d AND NOT F_Deadlock"
definition ClearProgrammableClockInterrupt :: "Flags_c \<Rightarrow> Flags_c" where "ClearProgrammableClockInterrupt d = d AND NOT F_ProgrammableClockInterrupt"
definition ClearMcuInterrupt :: "Flags_c \<Rightarrow> Flags_c" where "ClearMcuInterrupt d = d AND NOT F_McuInterrupt"
definition ClearFloatingPointError :: "Flags_c \<Rightarrow> Flags_c" where "ClearFloatingPointError d = d AND NOT F_FloatingPointError"
definition ClearOperandRangeError :: "Flags_c \<Rightarrow> Flags_c" where "ClearOperandRangeError d = d AND NOT F_OperandRangeError"
definition ClearProgramRangeError :: "Flags_c \<Rightarrow> Flags_c" where "ClearProgramRangeError d = d AND NOT F_ProgramRangeError"
definition ClearMemoryError :: "Flags_c \<Rightarrow> Flags_c" where "ClearMemoryError d = d AND NOT F_MemoryError"
definition ClearIoInterrupt :: "Flags_c \<Rightarrow> Flags_c" where "ClearIoInterrupt d = d AND NOT F_IoInterrupt"
definition ClearErrorExit :: "Flags_c \<Rightarrow> Flags_c" where "ClearErrorExit d = d AND NOT F_ErrorExit"
definition ClearNormalExit :: "Flags_c \<Rightarrow> Flags_c" where "ClearNormalExit d = d AND NOT F_NormalExit"
definition ClearBits :: "uint16 \<Rightarrow> Flags_c \<Rightarrow> Flags_c" where "ClearBits aMask d = d AND NOT aMask"

section \<open>The packet\<close>

record ExchangePacket_c =
  epMachineType :: MachineTypes_e
  Data :: "nat \<Rightarrow> uint64"

definition mDataSize :: nat where "mDataSize = 16"

definition PutWord :: "nat \<Rightarrow> uint64 \<Rightarrow> ExchangePacket_c \<Rightarrow> ExchangePacket_c" where
  "PutWord w v ep = ep\<lparr>Data := (Data ep)(w := v)\<rparr>"

definition GetProtectionBits :: "ExchangePacket_c \<Rightarrow> nat option" where
  "GetProtectionBits ep = (case epMachineType ep of
     XMP1xx \<Rightarrow> Some 19 | XMP2xx \<Rightarrow> Some 17 | XMP4xx \<Rightarrow> Some 18 | YMP \<Rightarrow> Some 24
   | YEL \<Rightarrow> Some 23 | J90 \<Rightarrow> Some 22 | SV1 \<Rightarrow> Some 22 | _ \<Rightarrow> None)"

definition GetProtectionTop :: "ExchangePacket_c \<Rightarrow> nat option" where
  "GetProtectionTop ep = (case epMachineType ep of
     XMP1xx \<Rightarrow> Some (63 - 16) | XMP2xx \<Rightarrow> Some (63 - 18) | XMP4xx \<Rightarrow> Some (63 - 16)
   | YMP \<Rightarrow> Some 55 | YEL \<Rightarrow> Some 54 | J90 \<Rightarrow> Some 55 | SV1 \<Rightarrow> Some 55 | _ \<Rightarrow> None)"

definition GetProtectionShift :: "ExchangePacket_c \<Rightarrow> nat option" where
  "GetProtectionShift ep = (case epMachineType ep of
     XMP1xx \<Rightarrow> Some 5 | XMP2xx \<Rightarrow> Some 5 | XMP4xx \<Rightarrow> Some 6 | YMP \<Rightarrow> Some 8
   | YEL \<Rightarrow> Some 8 | J90 \<Rightarrow> Some 10 | SV1 \<Rightarrow> Some 10 | _ \<Rightarrow> None)"

definition GetXmpProcessorNumber :: "ExchangePacket_c \<Rightarrow> uint8" where
  "GetXmpProcessorNumber ep = ucast (GetBits (Data ep 0) (63 - 0) (63 - 1))"
definition SetXmpProcessorNumber :: "uint8 \<Rightarrow> ExchangePacket_c \<Rightarrow> ExchangePacket_c" where
  "SetXmpProcessorNumber aValue ep = PutWord 0 (SetBits (Data ep 0) (63 - 0) (63 - 1) (ucast aValue)) ep"

definition GetXmpErrorType :: "ExchangePacket_c \<Rightarrow> uint8" where
  "GetXmpErrorType ep = ucast (GetBits (Data ep 0) (63 - 2) (63 - 3))"
definition SetXmpErrorType :: "uint8 \<Rightarrow> ExchangePacket_c \<Rightarrow> ExchangePacket_c" where
  "SetXmpErrorType aValue ep = PutWord 0 (SetBits (Data ep 0) (63 - 2) (63 - 3) (ucast aValue)) ep"

definition GetXmpSyndrome :: "ExchangePacket_c \<Rightarrow> uint8" where
  "GetXmpSyndrome ep = ucast (GetBits (Data ep 0) (63 - 4) (63 - 11))"
definition SetXmpSyndrome :: "uint8 \<Rightarrow> ExchangePacket_c \<Rightarrow> ExchangePacket_c" where
  "SetXmpSyndrome aValue ep = PutWord 0 (SetBits (Data ep 0) (63 - 4) (63 - 11) (ucast aValue)) ep"

definition GetXmpProgramAddress :: "ExchangePacket_c \<Rightarrow> CProgramAddr_t" where
  "GetXmpProgramAddress ep = ucast (GetBits (Data ep 0) (63 - 16) (63 - 39))"
definition SetXmpProgramAddress :: "CProgramAddr_t \<Rightarrow> ExchangePacket_c \<Rightarrow> ExchangePacket_c" where
  "SetXmpProgramAddress aValue ep = PutWord 0 (SetBits (Data ep 0) (63 - 16) (63 - 39) (ucast aValue)) ep"

definition GetXmpReadMode :: "ExchangePacket_c \<Rightarrow> uint8" where
  "GetXmpReadMode ep = ucast (GetBits (Data ep 1) (63 - 0) (63 - 1))"
definition SetXmpReadMode :: "uint8 \<Rightarrow> ExchangePacket_c \<Rightarrow> ExchangePacket_c" where
  "SetXmpReadMode aValue ep = PutWord 1 (SetBits (Data ep 1) (63 - 0) (63 - 1) (ucast aValue)) ep"

definition GetXmpReadAddress :: "ExchangePacket_c \<Rightarrow> CAddr_t" where
  "GetXmpReadAddress ep = ucast (push_bit 6 (GetBits (Data ep 1) (63 - 2) (63 - 11)))"
definition SetXmpReadAddress :: "CAddr_t \<Rightarrow> ExchangePacket_c \<Rightarrow> ExchangePacket_c" where
  "SetXmpReadAddress aValue ep = PutWord 1 (SetBits (Data ep 1) (63 - 2) (63 - 11) (drop_bit 6 (ucast aValue))) ep"

definition GetXmpVectorNotUsed :: "ExchangePacket_c \<Rightarrow> uint8" where
  "GetXmpVectorNotUsed ep = ucast (GetBits (Data ep 2) (63 - 0) (63 - 0))"
definition SetXmpVectorNotUsed :: "uint8 \<Rightarrow> ExchangePacket_c \<Rightarrow> ExchangePacket_c" where
  "SetXmpVectorNotUsed aValue ep = PutWord 2 (SetBits (Data ep 2) (63 - 0) (63 - 0) (ucast aValue)) ep"

definition GetXmpEnableSecondVectorLogical :: "ExchangePacket_c \<Rightarrow> uint8" where
  "GetXmpEnableSecondVectorLogical ep = ucast (GetBits (Data ep 3) (63 - 0) (63 - 0))"
definition SetXmpEnableSecondVectorLogical :: "uint8 \<Rightarrow> ExchangePacket_c \<Rightarrow> ExchangePacket_c" where
  "SetXmpEnableSecondVectorLogical aValue ep = PutWord 3 (SetBits (Data ep 3) (63 - 0) (63 - 0) (ucast aValue)) ep"

definition GetXmpExchangeAddress :: "ExchangePacket_c \<Rightarrow> uint8" where
  "GetXmpExchangeAddress ep = ucast (GetBits (Data ep 3) (63 - 16) (63 - 23))"
definition SetXmpExchangeAddress :: "uint8 \<Rightarrow> ExchangePacket_c \<Rightarrow> ExchangePacket_c" where
  "SetXmpExchangeAddress aValue ep = PutWord 3 (SetBits (Data ep 3) (63 - 16) (63 - 23) (ucast aValue)) ep"

definition GetXmpVectorLength :: "ExchangePacket_c \<Rightarrow> uint8" where
  "GetXmpVectorLength ep = ucast (GetBits (Data ep 3) (63 - 24) (63 - 30))"
definition SetXmpVectorLength :: "uint8 \<Rightarrow> ExchangePacket_c \<Rightarrow> ExchangePacket_c" where
  "SetXmpVectorLength aValue ep = PutWord 3 (SetBits (Data ep 3) (63 - 24) (63 - 30) (ucast aValue)) ep"

definition GetXmpEnhancedAddressingMode :: "ExchangePacket_c \<Rightarrow> uint8" where
  "GetXmpEnhancedAddressingMode ep = ucast (GetBits (Data ep 4) (63 - 0) (63 - 0))"
definition SetXmpEnhancedAddressingMode :: "uint8 \<Rightarrow> ExchangePacket_c \<Rightarrow> ExchangePacket_c" where
  "SetXmpEnhancedAddressingMode aValue ep = PutWord 4 (SetBits (Data ep 4) (63 - 0) (63 - 0) (ucast aValue)) ep"

definition GetXmpProgramState :: "ExchangePacket_c \<Rightarrow> uint8" where
  "GetXmpProgramState ep = ucast (GetBits (Data ep 4) (63 - 35) (63 - 35))"
definition SetXmpProgramState :: "uint8 \<Rightarrow> ExchangePacket_c \<Rightarrow> ExchangePacket_c" where
  "SetXmpProgramState aValue ep = PutWord 4 (SetBits (Data ep 4) (63 - 35) (63 - 35) (ucast aValue)) ep"

definition GetXmpClusterNumber :: "ExchangePacket_c \<Rightarrow> uint8" where
  "GetXmpClusterNumber ep = ucast (GetBits (Data ep 4) (63 - 37) (63 - 39))"
definition SetXmpClusterNumber :: "uint8 \<Rightarrow> ExchangePacket_c \<Rightarrow> ExchangePacket_c" where
  "SetXmpClusterNumber aValue ep = PutWord 4 (SetBits (Data ep 4) (63 - 37) (63 - 39) (ucast aValue)) ep"

definition GetYmpProcessorNumber :: "ExchangePacket_c \<Rightarrow> uint8" where
  "GetYmpProcessorNumber ep = ucast (GetBits (Data ep 0) (63 - 0) (63 - 7))"
definition SetYmpProcessorNumber :: "uint8 \<Rightarrow> ExchangePacket_c \<Rightarrow> ExchangePacket_c" where
  "SetYmpProcessorNumber aValue ep = PutWord 0 (SetBits (Data ep 0) (63 - 0) (63 - 7) (ucast aValue)) ep"

definition GetYmpProgramAddress :: "ExchangePacket_c \<Rightarrow> CProgramAddr_t" where
  "GetYmpProgramAddress ep = ucast (GetBits (Data ep 0) (63 - 8) (63 - 31))"
definition SetYmpProgramAddress :: "CProgramAddr_t \<Rightarrow> ExchangePacket_c \<Rightarrow> ExchangePacket_c" where
  "SetYmpProgramAddress aValue ep = PutWord 0 (SetBits (Data ep 0) (63 - 8) (63 - 31) (ucast aValue)) ep"

definition GetYmpSyndrome :: "ExchangePacket_c \<Rightarrow> uint8" where
  "GetYmpSyndrome ep = ucast (GetBits (Data ep 1) (63 - 0) (63 - 7))"
definition SetYmpSyndrome :: "uint8 \<Rightarrow> ExchangePacket_c \<Rightarrow> ExchangePacket_c" where
  "SetYmpSyndrome aValue ep = PutWord 1 (SetBits (Data ep 1) (63 - 0) (63 - 7) (ucast aValue)) ep"

definition GetYmpReadAddress :: "ExchangePacket_c \<Rightarrow> CAddr_t" where
  "GetYmpReadAddress ep = ucast (GetBits (Data ep 2) (63 - 0) (63 - 7))"
definition SetYmpReadAddress :: "CAddr_t \<Rightarrow> ExchangePacket_c \<Rightarrow> ExchangePacket_c" where
  "SetYmpReadAddress aValue ep = PutWord 2 (SetBits (Data ep 2) (63 - 0) (63 - 7) (ucast aValue)) ep"

definition GetYmpExchangeAddress :: "ExchangePacket_c \<Rightarrow> uint8" where
  "GetYmpExchangeAddress ep = ucast (GetBits (Data ep 5) (63 - 8) (63 - 15))"
definition SetYmpExchangeAddress :: "uint8 \<Rightarrow> ExchangePacket_c \<Rightarrow> ExchangePacket_c" where
  "SetYmpExchangeAddress aValue ep = PutWord 5 (SetBits (Data ep 5) (63 - 8) (63 - 15) (ucast aValue)) ep"

definition GetYmpVectorLength :: "ExchangePacket_c \<Rightarrow> uint8" where
  "GetYmpVectorLength ep = ucast (GetBits (Data ep 5) (63 - 16) (63 - 22))"
definition SetYmpVectorLength :: "uint8 \<Rightarrow> ExchangePacket_c \<Rightarrow> ExchangePacket_c" where
  "SetYmpVectorLength aValue ep = PutWord 5 (SetBits (Data ep 5) (63 - 16) (63 - 22) (ucast aValue)) ep"

definition GetYmpClusterNumber :: "ExchangePacket_c \<Rightarrow> uint8" where
  "GetYmpClusterNumber ep = ucast (GetBits (Data ep 5) (63 - 24) (63 - 31))"
definition SetYmpClusterNumber :: "uint8 \<Rightarrow> ExchangePacket_c \<Rightarrow> ExchangePacket_c" where
  "SetYmpClusterNumber aValue ep = PutWord 5 (SetBits (Data ep 5) (63 - 24) (63 - 31) (ucast aValue)) ep"

definition GetYmpVectorNotUsed :: "ExchangePacket_c \<Rightarrow> uint8" where
  "GetYmpVectorNotUsed ep = ucast (GetBits (Data ep 6) (63 - 0) (63 - 0))"
definition SetYmpVectorNotUsed :: "uint8 \<Rightarrow> ExchangePacket_c \<Rightarrow> ExchangePacket_c" where
  "SetYmpVectorNotUsed aValue ep = PutWord 6 (SetBits (Data ep 6) (63 - 0) (63 - 0) (ucast aValue)) ep"

definition GetYmpProcessorType :: "ExchangePacket_c \<Rightarrow> uint8" where
  "GetYmpProcessorType ep = ucast (GetBits (Data ep 7) (63 - 0) (63 - 1))"
definition SetYmpProcessorType :: "uint8 \<Rightarrow> ExchangePacket_c \<Rightarrow> ExchangePacket_c" where
  "SetYmpProcessorType aValue ep = PutWord 7 (SetBits (Data ep 7) (63 - 0) (63 - 1) (ucast aValue)) ep"

text \<open>
  The address fields of \<open>CREATE_PROT_FIELD\<close> sit at a place that depends on the machine
  type: \<open>None\<close> where the code throws for an unknown type.
\<close>

definition GetProt :: "nat \<Rightarrow> ExchangePacket_c \<Rightarrow> CAddr_t option" where
  "GetProt w ep = (case (GetProtectionTop ep, GetProtectionBits ep, GetProtectionShift ep) of
     (Some t, Some b, Some sh) \<Rightarrow> Some (ucast (push_bit sh (GetBits (Data ep w) t (t - b + 1))))
   | _ \<Rightarrow> None)"
definition SetProt :: "nat \<Rightarrow> CAddr_t \<Rightarrow> ExchangePacket_c \<Rightarrow> ExchangePacket_c option" where
  "SetProt w aValue ep = (case (GetProtectionTop ep, GetProtectionBits ep, GetProtectionShift ep) of
     (Some t, Some b, Some sh) \<Rightarrow>
       Some (PutWord w (SetBits (Data ep w) t (t - b + 1) (drop_bit sh (ucast aValue))) ep)
   | _ \<Rightarrow> None)"

definition GetXmpInstBaseAddr :: "ExchangePacket_c \<Rightarrow> CAddr_t option" where
  "GetXmpInstBaseAddr = GetProt 1"
definition SetXmpInstBaseAddr :: "CAddr_t \<Rightarrow> ExchangePacket_c \<Rightarrow> ExchangePacket_c option" where
  "SetXmpInstBaseAddr = SetProt 1"

definition GetXmpInstLimitAddr :: "ExchangePacket_c \<Rightarrow> CAddr_t option" where
  "GetXmpInstLimitAddr = GetProt 2"
definition SetXmpInstLimitAddr :: "CAddr_t \<Rightarrow> ExchangePacket_c \<Rightarrow> ExchangePacket_c option" where
  "SetXmpInstLimitAddr = SetProt 2"

definition GetXmpDataBaseAddr :: "ExchangePacket_c \<Rightarrow> CAddr_t option" where
  "GetXmpDataBaseAddr = GetProt 4"
definition SetXmpDataBaseAddr :: "CAddr_t \<Rightarrow> ExchangePacket_c \<Rightarrow> ExchangePacket_c option" where
  "SetXmpDataBaseAddr = SetProt 4"

definition GetXmpDataLimitAddr :: "ExchangePacket_c \<Rightarrow> CAddr_t option" where
  "GetXmpDataLimitAddr = GetProt 5"
definition SetXmpDataLimitAddr :: "CAddr_t \<Rightarrow> ExchangePacket_c \<Rightarrow> ExchangePacket_c option" where
  "SetXmpDataLimitAddr = SetProt 5"

definition GetYmpInstBaseAddr :: "ExchangePacket_c \<Rightarrow> CAddr_t option" where
  "GetYmpInstBaseAddr = GetProt 1"
definition SetYmpInstBaseAddr :: "CAddr_t \<Rightarrow> ExchangePacket_c \<Rightarrow> ExchangePacket_c option" where
  "SetYmpInstBaseAddr = SetProt 1"

definition GetYmpInstLimitAddr :: "ExchangePacket_c \<Rightarrow> CAddr_t option" where
  "GetYmpInstLimitAddr = GetProt 2"
definition SetYmpInstLimitAddr :: "CAddr_t \<Rightarrow> ExchangePacket_c \<Rightarrow> ExchangePacket_c option" where
  "SetYmpInstLimitAddr = SetProt 2"

definition GetYmpDataBaseAddr :: "ExchangePacket_c \<Rightarrow> CAddr_t option" where
  "GetYmpDataBaseAddr = GetProt 3"
definition SetYmpDataBaseAddr :: "CAddr_t \<Rightarrow> ExchangePacket_c \<Rightarrow> ExchangePacket_c option" where
  "SetYmpDataBaseAddr = SetProt 3"

definition GetYmpDataLimitAddr :: "ExchangePacket_c \<Rightarrow> CAddr_t option" where
  "GetYmpDataLimitAddr = GetProt 4"
definition SetYmpDataLimitAddr :: "CAddr_t \<Rightarrow> ExchangePacket_c \<Rightarrow> ExchangePacket_c option" where
  "SetYmpDataLimitAddr = SetProt 4"

text \<open>The fields of \<open>CREATE_UNIFIED_FIELD\<close>.\<close>

definition GetProcessorNumber :: "ExchangePacket_c \<Rightarrow> uint8" where
  "GetProcessorNumber ep = (if IsXmp (epMachineType ep) then GetXmpProcessorNumber ep else GetYmpProcessorNumber ep)"
definition SetProcessorNumber :: "uint8 \<Rightarrow> ExchangePacket_c \<Rightarrow> ExchangePacket_c" where
  "SetProcessorNumber aValue ep =
     (if IsXmp (epMachineType ep) then SetXmpProcessorNumber aValue ep else SetYmpProcessorNumber aValue ep)"

definition GetSyndrome :: "ExchangePacket_c \<Rightarrow> uint8" where
  "GetSyndrome ep = (if IsXmp (epMachineType ep) then GetXmpSyndrome ep else GetYmpSyndrome ep)"
definition SetSyndrome :: "uint8 \<Rightarrow> ExchangePacket_c \<Rightarrow> ExchangePacket_c" where
  "SetSyndrome aValue ep =
     (if IsXmp (epMachineType ep) then SetXmpSyndrome aValue ep else SetYmpSyndrome aValue ep)"

definition GetProgramAddress :: "ExchangePacket_c \<Rightarrow> CProgramAddr_t" where
  "GetProgramAddress ep = (if IsXmp (epMachineType ep) then GetXmpProgramAddress ep else GetYmpProgramAddress ep)"
definition SetProgramAddress :: "CProgramAddr_t \<Rightarrow> ExchangePacket_c \<Rightarrow> ExchangePacket_c" where
  "SetProgramAddress aValue ep =
     (if IsXmp (epMachineType ep) then SetXmpProgramAddress aValue ep else SetYmpProgramAddress aValue ep)"

definition GetExchangeAddress :: "ExchangePacket_c \<Rightarrow> uint8" where
  "GetExchangeAddress ep = (if IsXmp (epMachineType ep) then GetXmpExchangeAddress ep else GetYmpExchangeAddress ep)"
definition SetExchangeAddress :: "uint8 \<Rightarrow> ExchangePacket_c \<Rightarrow> ExchangePacket_c" where
  "SetExchangeAddress aValue ep =
     (if IsXmp (epMachineType ep) then SetXmpExchangeAddress aValue ep else SetYmpExchangeAddress aValue ep)"

definition GetVectorLength :: "ExchangePacket_c \<Rightarrow> uint8" where
  "GetVectorLength ep = (if IsXmp (epMachineType ep) then GetXmpVectorLength ep else GetYmpVectorLength ep)"
definition SetVectorLength :: "uint8 \<Rightarrow> ExchangePacket_c \<Rightarrow> ExchangePacket_c" where
  "SetVectorLength aValue ep =
     (if IsXmp (epMachineType ep) then SetXmpVectorLength aValue ep else SetYmpVectorLength aValue ep)"

definition GetClusterNumber :: "ExchangePacket_c \<Rightarrow> uint8" where
  "GetClusterNumber ep = (if IsXmp (epMachineType ep) then GetXmpClusterNumber ep else GetYmpClusterNumber ep)"
definition SetClusterNumber :: "uint8 \<Rightarrow> ExchangePacket_c \<Rightarrow> ExchangePacket_c" where
  "SetClusterNumber aValue ep =
     (if IsXmp (epMachineType ep) then SetXmpClusterNumber aValue ep else SetYmpClusterNumber aValue ep)"

definition GetVectorNotUsed :: "ExchangePacket_c \<Rightarrow> uint8" where
  "GetVectorNotUsed ep = (if IsXmp (epMachineType ep) then GetXmpVectorNotUsed ep else GetYmpVectorNotUsed ep)"
definition SetVectorNotUsed :: "uint8 \<Rightarrow> ExchangePacket_c \<Rightarrow> ExchangePacket_c" where
  "SetVectorNotUsed aValue ep =
     (if IsXmp (epMachineType ep) then SetXmpVectorNotUsed aValue ep else SetYmpVectorNotUsed aValue ep)"

definition GetInstBaseAddr :: "ExchangePacket_c \<Rightarrow> CAddr_t option" where
  "GetInstBaseAddr ep = (if IsXmp (epMachineType ep) then GetXmpInstBaseAddr ep else GetYmpInstBaseAddr ep)"
definition SetInstBaseAddr :: "CAddr_t \<Rightarrow> ExchangePacket_c \<Rightarrow> ExchangePacket_c option" where
  "SetInstBaseAddr aValue ep =
     (if IsXmp (epMachineType ep) then SetXmpInstBaseAddr aValue ep else SetYmpInstBaseAddr aValue ep)"

definition GetInstLimitAddr :: "ExchangePacket_c \<Rightarrow> CAddr_t option" where
  "GetInstLimitAddr ep = (if IsXmp (epMachineType ep) then GetXmpInstLimitAddr ep else GetYmpInstLimitAddr ep)"
definition SetInstLimitAddr :: "CAddr_t \<Rightarrow> ExchangePacket_c \<Rightarrow> ExchangePacket_c option" where
  "SetInstLimitAddr aValue ep =
     (if IsXmp (epMachineType ep) then SetXmpInstLimitAddr aValue ep else SetYmpInstLimitAddr aValue ep)"

definition GetDataBaseAddr :: "ExchangePacket_c \<Rightarrow> CAddr_t option" where
  "GetDataBaseAddr ep = (if IsXmp (epMachineType ep) then GetXmpDataBaseAddr ep else GetYmpDataBaseAddr ep)"
definition SetDataBaseAddr :: "CAddr_t \<Rightarrow> ExchangePacket_c \<Rightarrow> ExchangePacket_c option" where
  "SetDataBaseAddr aValue ep =
     (if IsXmp (epMachineType ep) then SetXmpDataBaseAddr aValue ep else SetYmpDataBaseAddr aValue ep)"

definition GetDataLimitAddr :: "ExchangePacket_c \<Rightarrow> CAddr_t option" where
  "GetDataLimitAddr ep = (if IsXmp (epMachineType ep) then GetXmpDataLimitAddr ep else GetYmpDataLimitAddr ep)"
definition SetDataLimitAddr :: "CAddr_t \<Rightarrow> ExchangePacket_c \<Rightarrow> ExchangePacket_c option" where
  "SetDataLimitAddr aValue ep =
     (if IsXmp (epMachineType ep) then SetXmpDataLimitAddr aValue ep else SetYmpDataLimitAddr aValue ep)"

text \<open>The two mode fields of the X-MP and the two of the Y-MP are joined by hand in the code.\<close>

definition GetMode :: "ExchangePacket_c \<Rightarrow> Mode_c" where
  "GetMode ep =
     (if IsXmp (epMachineType ep)
      then Mode_c_of (push_bit 5 (ucast (GetBits (Data ep 2) (63 - 35) (63 - 39)))
                      OR ucast (GetBits (Data ep 1) (63 - 35) (63 - 39))) (epMachineType ep)
      else Mode_c_of (ucast (GetBits (Data ep 6) 32 43 OR push_bit 12 (GetBits (Data ep 6) 62 62)))
                     (epMachineType ep))"

definition SetMode :: "Mode_c \<Rightarrow> ExchangePacket_c \<Rightarrow> ExchangePacket_c" where
  "SetMode aMode ep =
     (let RawMode = GetRawValue aMode in
      if IsXmp (epMachineType ep) then
        let ep = PutWord 2 (SetBits (Data ep 2) (63 - 35) (63 - 39) (ucast (drop_bit 5 RawMode))) ep
        in PutWord 1 (SetBits (Data ep 1) (63 - 35) (63 - 39) (ucast RawMode)) ep
      else
        let ep = PutWord 6 (SetBits (Data ep 6) 32 43 (ucast (RawMode AND 0x0fff))) ep
        in PutWord 6 (SetBits (Data ep 6) 62 62 (ucast (drop_bit 12 (RawMode AND 0x1000)))) ep)"

definition GetFlag :: "ExchangePacket_c \<Rightarrow> Flags_c" where
  "GetFlag ep =
     (if IsXmp (epMachineType ep)
      then push_bit 9 (ucast (GetBits (Data ep 3) (63 - 14) (63 - 15)))
           OR ucast (GetBits (Data ep 3) (63 - 31) (63 - 39))
      else ucast (GetBits (Data ep 6) 44 55))"

definition SetFlag :: "Flags_c \<Rightarrow> ExchangePacket_c \<Rightarrow> ExchangePacket_c" where
  "SetFlag aFlag ep =
     (if IsXmp (epMachineType ep) then
        let ep = PutWord 3 (SetBits (Data ep 3) (63 - 14) (63 - 15) (ucast (drop_bit 9 aFlag))) ep
        in PutWord 3 (SetBits (Data ep 3) (63 - 31) (63 - 39) (ucast aFlag)) ep
      else PutWord 6 (SetBits (Data ep 6) 44 55 (ucast aFlag)) ep)"

definition ClearFlags :: "ExchangePacket_c \<Rightarrow> ExchangePacket_c" where
  "ClearFlags ep = SetFlag 0 ep"

definition GetEnableSecondVectorLogical :: "ExchangePacket_c \<Rightarrow> uint8" where
  "GetEnableSecondVectorLogical ep =
     (if IsXmp (epMachineType ep) then GetXmpEnableSecondVectorLogical ep
      else if mYmpEnableSecondVectorLogical (GetMode ep) then 1 else 0)"

text \<open>The assertion in \<open>SetYmpEnableSecondVectorLogical\<close> cannot fail on this branch.\<close>

definition SetEnableSecondVectorLogical :: "uint8 \<Rightarrow> ExchangePacket_c \<Rightarrow> ExchangePacket_c" where
  "SetEnableSecondVectorLogical aValue ep =
     (if IsXmp (epMachineType ep) then SetXmpEnableSecondVectorLogical aValue ep
      else SetMode ((GetMode ep)\<lparr>mYmpEnableSecondVectorLogical := (aValue \<noteq> 0)\<rparr>) ep)"

definition GetA :: "nat \<Rightarrow> ExchangePacket_c \<Rightarrow> CAddr_t" where
  "GetA aIdx ep = ucast (GetBits (Data ep aIdx) (32 - 1) 0)"

definition SetA :: "nat \<Rightarrow> CAddr_t \<Rightarrow> ExchangePacket_c \<Rightarrow> ExchangePacket_c" where
  "SetA aIdx aAddr ep =
     (if IsXmp (epMachineType ep)
      then PutWord aIdx (SetBits (Data ep aIdx) (cBitCnt - 1) 0 (ucast aAddr)) ep
      else PutWord aIdx (SetBits (Data ep aIdx) (32 - 1) 0 (ucast aAddr)) ep)"

definition GetS :: "nat \<Rightarrow> ExchangePacket_c \<Rightarrow> uint64" where
  "GetS aIdx ep = Data ep (8 + aIdx)"

definition SetS :: "nat \<Rightarrow> uint64 \<Rightarrow> ExchangePacket_c \<Rightarrow> ExchangePacket_c" where
  "SetS aIdx aS ep = PutWord (8 + aIdx) aS ep"

text \<open>The constructors, and the transfer to and from memory.\<close>

definition SetProcessorType :: "ExchangePacket_c \<Rightarrow> ExchangePacket_c" where
  "SetProcessorType ep =
     (let ep = (if epMachineType ep = J90 then SetYmpProcessorType 0 ep else ep)
      in if epMachineType ep = SV1 then SetYmpProcessorType 2 ep else ep)"

definition ExchangePacket_new :: "MachineTypes_e \<Rightarrow> ExchangePacket_c" where
  "ExchangePacket_new aMachineType =
     SetProcessorType \<lparr>epMachineType = aMachineType, Data = (\<lambda>_. 0)\<rparr>"

definition Read_packet :: "memory \<Rightarrow> nat \<Rightarrow> ExchangePacket_c \<Rightarrow> ExchangePacket_c" where
  "Read_packet mem aMem ep =
     ep\<lparr>Data := for_loop 0 mDataSize (\<lambda>i d. d(i := SwapBytes64 (load64 mem (aMem + 8 * i)))) (Data ep)\<rparr>"

definition ExchangePacket_from :: "MachineTypes_e \<Rightarrow> memory \<Rightarrow> nat \<Rightarrow> ExchangePacket_c" where
  "ExchangePacket_from aMachineType mem aMem =
     SetProcessorType (Read_packet mem aMem \<lparr>epMachineType = aMachineType, Data = (\<lambda>_. 0)\<rparr>)"

definition Write_packet :: "ExchangePacket_c \<Rightarrow> nat \<Rightarrow> memory \<Rightarrow> memory" where
  "Write_packet ep aMem mem =
     for_loop 0 mDataSize (\<lambda>i m. store64 (aMem + 8 * i) (SwapBytes64 (Data ep i)) m) mem"

section \<open>Modes and raw values\<close>

text \<open>A mode bit that the machine type does not have is clear.\<close>

definition mode_valid :: "Mode_c \<Rightarrow> bool" where
  "mode_valid m \<longleftrightarrow>
     (IsXmp (modeMachineType m) \<longrightarrow>
        \<not> mYmpEnableSecondVectorLogical m \<and> \<not> mYmpEnhancedAddressingMode m) \<and>
     (modeMachineType m \<noteq> SV1 \<longrightarrow> \<not> mSv1BitMatrixLoaded m)"

lemma and_power_test:
  fixes d :: uint16
  shows "d AND 0x0001 \<noteq> 0 \<longleftrightarrow> bit d 0" "d AND 0x0002 \<noteq> 0 \<longleftrightarrow> bit d 1"
    "d AND 0x0004 \<noteq> 0 \<longleftrightarrow> bit d 2" "d AND 0x0008 \<noteq> 0 \<longleftrightarrow> bit d 3"
    "d AND 0x0010 \<noteq> 0 \<longleftrightarrow> bit d 4" "d AND 0x0020 \<noteq> 0 \<longleftrightarrow> bit d 5"
    "d AND 0x0040 \<noteq> 0 \<longleftrightarrow> bit d 6" "d AND 0x0080 \<noteq> 0 \<longleftrightarrow> bit d 7"
    "d AND 0x0100 \<noteq> 0 \<longleftrightarrow> bit d 8" "d AND 0x0200 \<noteq> 0 \<longleftrightarrow> bit d 9"
    "d AND 0x0400 \<noteq> 0 \<longleftrightarrow> bit d 10" "d AND 0x0800 \<noteq> 0 \<longleftrightarrow> bit d 11"
    "d AND 0x1000 \<noteq> 0 \<longleftrightarrow> bit d 12"
  using and_exp_eq_0[of 0 d] and_exp_eq_0[of 1 d] and_exp_eq_0[of 2 d] and_exp_eq_0[of 3 d]
    and_exp_eq_0[of 4 d] and_exp_eq_0[of 5 d] and_exp_eq_0[of 6 d] and_exp_eq_0[of 7 d]
    and_exp_eq_0[of 8 d] and_exp_eq_0[of 9 d] and_exp_eq_0[of 10 d] and_exp_eq_0[of 11 d]
    and_exp_eq_0[of 12 d]
  by simp_all

lemma bit_if_mask: "bit (if c then x else 0) n \<longleftrightarrow> c \<and> bit (x :: 'a::len word) n"
  by simp

lemma bit_mode_masks:
  "bit (0x0001 :: uint16) n \<longleftrightarrow> n = 0" "bit (0x0002 :: uint16) n \<longleftrightarrow> n = 1"
  "bit (0x0004 :: uint16) n \<longleftrightarrow> n = 2" "bit (0x0008 :: uint16) n \<longleftrightarrow> n = 3"
  "bit (0x0010 :: uint16) n \<longleftrightarrow> n = 4" "bit (0x0020 :: uint16) n \<longleftrightarrow> n = 5"
  "bit (0x0040 :: uint16) n \<longleftrightarrow> n = 6" "bit (0x0080 :: uint16) n \<longleftrightarrow> n = 7"
  "bit (0x0100 :: uint16) n \<longleftrightarrow> n = 8" "bit (0x0200 :: uint16) n \<longleftrightarrow> n = 9"
  "bit (0x0400 :: uint16) n \<longleftrightarrow> n = 10" "bit (0x0800 :: uint16) n \<longleftrightarrow> n = 11"
  "bit (0x1000 :: uint16) n \<longleftrightarrow> n = 12"
proof -
  have b: "bit x n \<longleftrightarrow> n = k" if "x = push_bit k 1" "k < 16" for k and x :: uint16
    using that by (simp only: bit_single) simp
  show "bit (0x0001 :: uint16) n \<longleftrightarrow> n = 0" "bit (0x0002 :: uint16) n \<longleftrightarrow> n = 1"
    "bit (0x0004 :: uint16) n \<longleftrightarrow> n = 2" "bit (0x0008 :: uint16) n \<longleftrightarrow> n = 3"
    "bit (0x0010 :: uint16) n \<longleftrightarrow> n = 4" "bit (0x0020 :: uint16) n \<longleftrightarrow> n = 5"
    "bit (0x0040 :: uint16) n \<longleftrightarrow> n = 6" "bit (0x0080 :: uint16) n \<longleftrightarrow> n = 7"
    "bit (0x0100 :: uint16) n \<longleftrightarrow> n = 8" "bit (0x0200 :: uint16) n \<longleftrightarrow> n = 9"
    "bit (0x0400 :: uint16) n \<longleftrightarrow> n = 10" "bit (0x0800 :: uint16) n \<longleftrightarrow> n = 11"
    "bit (0x1000 :: uint16) n \<longleftrightarrow> n = 12"
    by (rule b; simp add: push_bit_eq_mult)+
qed

lemma bit_GetRawValue:
  "bit (GetRawValue m) n \<longleftrightarrow>
    (if IsXmp (modeMachineType m) then
       mWaitingForSemaphore m \<and> n = 4 \<or>
       mFloatingPointErrorStatus m \<and> n = 3 \<or>
       mBidirectionalMemoryMode m \<and> n = 2 \<or>
       mOperandRangeErrorMode m \<and> n = 9 \<or>
       mFloatingPointErrorMode m \<and> n = 7 \<or>
       mUncorrectableMemoryErrorMode m \<and> n = 6 \<or>
       mCorrectableMemoryErrorMode m \<and> n = 8 \<or>
       mSelectedForExternalInterrupts m \<and> n = 1 \<or>
       mInterruptMonitorMode m \<and> n = 0 \<or>
       mMonitorMode m \<and> n = 5
     else
       mWaitingForSemaphore m \<and> n = 12 \<or>
       mYmpEnableSecondVectorLogical m \<and> n = 11 \<or>
       modeMachineType m = SV1 \<and> mSv1BitMatrixLoaded m \<and> n = 10 \<or>
       mFloatingPointErrorStatus m \<and> n = 9 \<or>
       mBidirectionalMemoryMode m \<and> n = 8 \<or>
       mOperandRangeErrorMode m \<and> n = 7 \<or>
       mFloatingPointErrorMode m \<and> n = 6 \<or>
       mUncorrectableMemoryErrorMode m \<and> n = 5 \<or>
       mCorrectableMemoryErrorMode m \<and> n = 4 \<or>
       mYmpEnhancedAddressingMode m \<and> n = 3 \<or>
       mSelectedForExternalInterrupts m \<and> n = 2 \<or>
       mInterruptMonitorMode m \<and> n = 1 \<or>
       mMonitorMode m \<and> n = 0)"
  unfolding GetRawValue_def
  by (cases "IsXmp (modeMachineType m)";
      simp only: if_True if_False bit_or_iff bit_if_mask bit_mode_masks)

lemma Mode_c_of_GetRawValue:
  assumes "mode_valid m"
  shows "Mode_c_of (GetRawValue m) (modeMachineType m) = m"
  using assms unfolding Mode_c_of_def and_power_test
  by (simp add: bit_GetRawValue mode_valid_def)

section \<open>Reading back what was written\<close>

lemma PutWord_simps [simp]:
  "epMachineType (PutWord w v ep) = epMachineType ep"
  "Data (PutWord w v ep) = (Data ep)(w := v)"
  by (simp_all add: PutWord_def)

lemma machine_type_kept [simp]:
  "epMachineType (SetMode m ep) = epMachineType ep"
  "epMachineType (SetFlag f ep) = epMachineType ep"
  "epMachineType (ClearFlags ep) = epMachineType ep"
  "epMachineType (SetProcessorType ep) = epMachineType ep"
  "epMachineType (ExchangePacket_new mt) = mt"
  "epMachineType (ExchangePacket_from mt mem a) = mt"
  by (simp_all add: SetMode_def SetFlag_def ClearFlags_def SetProcessorType_def Let_def
      SetYmpProcessorType_def ExchangePacket_new_def ExchangePacket_from_def Read_packet_def)

lemma bit_uint64_of_16: "bit (ucast (x :: uint16) :: uint64) n \<longleftrightarrow> n < 16 \<and> bit x n"
  by (auto simp: bit_simps dest: bit_imp_less_length)

lemma Mode_c_of_cong:
  assumes "\<And>n. n < 13 \<Longrightarrow> bit d n \<longleftrightarrow> bit e n"
  shows "Mode_c_of d mt = Mode_c_of e mt"
  unfolding Mode_c_of_def and_power_test using assms by simp

lemma mask_uint16: "(0x0fff :: uint16) = mask 12"
  by (simp add: mask_eq_exp_minus_1)

lemma GetMode_SetMode_Xmp:
  assumes "IsXmp (epMachineType ep)" "IsXmp (modeMachineType m)"
  shows "GetMode (SetMode m ep) = Mode_c_of (GetRawValue m) (epMachineType ep)"
proof -
  have high: "n < 10" if "bit (GetRawValue m) n" for n
    using that assms(2) by (auto simp: bit_GetRawValue)
  have "GetMode (SetMode m ep) = Mode_c_of
      (push_bit 5 (ucast (GetBits (SetBits (Data ep 2) 28 24 (ucast (drop_bit 5 (GetRawValue m)))) 28 24))
        OR ucast (GetBits (SetBits (Data ep 1) 28 24 (ucast (GetRawValue m))) 28 24)) (epMachineType ep)"
    using assms by (simp add: GetMode_def SetMode_def Let_def)
  also have "\<dots> = Mode_c_of (GetRawValue m) (epMachineType ep)"
  proof (rule Mode_c_of_cong)
    fix n :: nat
    assume "n < 13"
    then show "bit (push_bit 5 (ucast (GetBits (SetBits (Data ep 2) 28 24
          (ucast (drop_bit 5 (GetRawValue m)))) 28 24))
        OR ucast (GetBits (SetBits (Data ep 1) 28 24 (ucast (GetRawValue m))) 28 24) :: uint16) n
      = bit (GetRawValue m) n"
      by (auto simp: bit_or_iff bit_push_bit_iff bit_unsigned_iff bit_GetBits bit_SetBits_iff
          bit_uint64_of_16 bit_drop_bit_eq not_le dest: high)
  qed
  finally show ?thesis .
qed

lemma GetMode_SetMode_Ymp:
  assumes "\<not> IsXmp (epMachineType ep)" "\<not> IsXmp (modeMachineType m)"
  shows "GetMode (SetMode m ep) = Mode_c_of (GetRawValue m) (epMachineType ep)"
proof -
  let ?w = "SetBits (SetBits (Data ep 6) 32 43 (ucast (GetRawValue m AND mask 12))) 62 62
      (ucast (drop_bit 12 (GetRawValue m AND 0x1000)))"
  have "GetMode (SetMode m ep) = Mode_c_of
      (ucast (GetBits ?w 32 43 OR push_bit 12 (GetBits ?w 62 62))) (epMachineType ep)"
    using assms by (simp add: GetMode_def SetMode_def Let_def mask_uint16)
  also have "\<dots> = Mode_c_of (GetRawValue m) (epMachineType ep)"
  proof (rule Mode_c_of_cong)
    fix n :: nat
    assume n: "n < 13"
    show "bit (ucast (GetBits ?w 32 43 OR push_bit 12 (GetBits ?w 62 62)) :: uint16) n
      = bit (GetRawValue m) n"
    proof (cases "n = 12")
      case True
      then show ?thesis
        by (simp add: bit_or_iff bit_push_bit_iff bit_unsigned_iff bit_GetBits bit_SetBits_iff
            bit_uint64_of_16 bit_drop_bit_eq bit_and_iff bit_mode_masks)
    next
      case False
      with n show ?thesis
        by (auto simp: bit_or_iff bit_push_bit_iff bit_unsigned_iff bit_GetBits bit_SetBits_iff
            bit_uint64_of_16 bit_drop_bit_eq bit_and_iff bit_mask_iff)
    qed
  qed
  finally show ?thesis .
qed

lemma GetMode_SetMode:
  assumes "mode_valid m" "modeMachineType m = epMachineType ep"
  shows "GetMode (SetMode m ep) = m"
  using GetMode_SetMode_Xmp[of ep m] GetMode_SetMode_Ymp[of ep m] Mode_c_of_GetRawValue[OF assms(1)]
    assms(2) by metis

lemma GetFlag_SetFlag:
  "GetFlag (SetFlag f ep) = f AND (if IsXmp (epMachineType ep) then mask 11 else mask 12)"
proof (rule word_eq_by_bits)
  fix n :: nat
  assume n: "n < LENGTH(16)"
  show "bit (GetFlag (SetFlag f ep)) n =
      bit (f AND (if IsXmp (epMachineType ep) then mask 11 else mask 12)) n"
    using n by (auto simp: GetFlag_def SetFlag_def Let_def bit_or_iff bit_and_iff bit_mask_iff
        bit_push_bit_iff bit_unsigned_iff bit_GetBits bit_SetBits_iff bit_drop_bit_eq
        bit_uint64_of_16 not_le less_Suc_eq)
qed

lemma GetFlag_ClearFlags: "GetFlag (ClearFlags ep) = 0"
  by (simp add: ClearFlags_def GetFlag_SetFlag)

text \<open>The mode and the flags of the Y-MP share word 6 of the packet without overlap.\<close>

interpretation ymp_mode: bit_range 32 43
  by unfold_locales simp_all
interpretation ymp_flag: bit_range 44 55
  by unfold_locales simp_all
interpretation ymp_mode_flag: field_pair ymp_mode.rget ymp_mode.rput ymp_mode.rfits
    ymp_flag.rget ymp_flag.rput ymp_flag.rfits
  by unfold_locales (simp add: ymp_mode.rput_def ymp_flag.rput_def SetBits_commute)

lemma SetFlag_keeps_mode: "GetMode (SetFlag f ep) = GetMode ep"
proof -
  have "GetBits (SetBits (Data ep 6) 44 55 v) 32 43 = GetBits (Data ep 6) 32 43" for v
    using ymp_mode_flag.get1_put2[of v "Data ep 6"]
    by (simp only: ymp_mode.rget_def ymp_flag.rput_def GetBits_swap[of _ 32 43] SetBits_swap[of _ 44 55])
  moreover have "GetBits (SetBits (Data ep 6) 44 55 v) 62 62 = GetBits (Data ep 6) 62 62" for v
    by (rule GetBits_SetBits_other) simp_all
  ultimately show ?thesis
    by (simp add: GetMode_def SetFlag_def Let_def)
qed

section \<open>Packets in memory\<close>

lemma Read_packet_Data:
  "Data (Read_packet mem a ep) i =
     (if i < 16 then SwapBytes64 (load64 mem (a + 8 * i)) else Data ep i)"
  unfolding Read_packet_def mDataSize_def
  by (simp add: for_loop_pointwise[where h = "\<lambda>i. SwapBytes64 (load64 mem (a + 8 * i))"])

lemma Write_packet_load:
  assumes "i < 16"
  shows "load64 (Write_packet ep a mem) (a + 8 * i) = SwapBytes64 (Data ep i)"
proof -
  let ?f = "\<lambda>i m. store64 (a + 8 * i) (SwapBytes64 (Data ep i)) m"
  have "\<forall>j<16. load64 (for_loop 0 16 ?f mem) (a + 8 * j) = SwapBytes64 (Data ep j)"
  proof (rule for_loop_invariant[where
        I = "\<lambda>k m. \<forall>j<k. load64 m (a + 8 * j) = SwapBytes64 (Data ep j)"])
    fix i m
    assume "\<forall>j<i. load64 m (a + 8 * j) = SwapBytes64 (Data ep j)"
    then show "\<forall>j<Suc i. load64 (?f i m) (a + 8 * j) = SwapBytes64 (Data ep j)"
      by (auto simp: less_Suc_eq load64_store64_other)
  qed simp_all
  with assms show ?thesis by (simp add: Write_packet_def mDataSize_def)
qed

lemma Write_packet_outside:
  assumes "x < a \<or> a + 128 \<le> x"
  shows "Write_packet ep a mem x = mem x"
proof -
  let ?f = "\<lambda>i m. store64 (a + 8 * i) (SwapBytes64 (Data ep i)) m"
  have "for_loop 0 16 ?f mem x = mem x"
    by (rule for_loop_invariant[where I = "\<lambda>k m. m x = mem x"])
      (use assms in \<open>auto simp: store64_def\<close>)
  then show ?thesis by (simp add: Write_packet_def mDataSize_def)
qed

lemma packet_memory_roundtrip:
  assumes "i < 16"
  shows "Data (Read_packet (Write_packet ep a mem) a ep') i = Data ep i"
  using assms by (simp add: Read_packet_Data Write_packet_load)

end
