(* ===== verification/Mainframe.thy ===== *)
theory Mainframe
  imports Exchange_Packet
begin

text \<open>
  The state that the processors share: class \<open>Mainframe_c\<close> of \<^verbatim>\<open>sim_lib/cray_mainframe.h\<close>
  and \<^verbatim>\<open>.cpp\<close>, the clusters of shared registers, and the I/O channels of
  \<^verbatim>\<open>sim_lib/cray_channels.h\<close> and \<^verbatim>\<open>.cpp\<close> with the four channel classes defined there. A
  processor's external interrupt flags, which other threads set, are part of this state;
  a flag is \<open>True\<close> when the code's inverted \<open>std::atomic_flag\<close> is clear. What the mainframe
  asks of a processor through the interface \<open>Cpu_c\<close> when it routes an interrupt is kept
  in \<open>mCpus\<close>. Logging, watch points and debug events are left out.
\<close>

section \<open>State\<close>

datatype ChannelKind = LoggerChannel bool | DisconnectedChannel | FileInputChannel | FileOutputChannel

record channel =
  chKind :: ChannelKind
  mAddress :: CAddr_t
  mLimit :: CAddr_t
  mInterruptPending :: bool
  mError :: bool
  mActive :: bool
  mChannelId :: nat
  chFile :: "uint8 list"  \<comment> \<open>bytes still to be read, or bytes written\<close>
  chEof :: bool

record cluster =
  SB :: "nat \<Rightarrow> CAddr_t"
  ST :: "nat \<Rightarrow> CInt_t"
  SM :: "nat \<Rightarrow> bool"
  TestAndSetBlockedCnt :: uint64
  ClusterCpuCnt :: uint64

record external_ints =
  xInterProcessor :: bool
  xDeadLock :: bool
  xMcu :: bool
  xIo :: bool

record cpu_view =
  vTsBlocked :: bool
  vSelectedForExternalInterrupts :: bool
  vCluster :: uint8

record mainframe =
  mMachineType :: MachineTypes_e
  mMemory :: memory
  mMemorySize :: nat
  mChannels :: "channel option list"
  mClusters :: "cluster list"
  mCpus :: "cpu_view list"
  mPending :: "nat \<Rightarrow> external_ints"
  mLastCpuIssuedCI :: nat
  mIoMasterClear :: bool
  mRealTimeClock :: CInt_t
  mRealTimeClockIncrement :: CInt_t
  mRealTimeClockChunkLimit :: CInt_t
  mLastRealTimeReading :: CInt_t
  mUseHostRealTimeClock :: bool
  mRealTimeStart :: uint64
  mHostWall :: uint64  \<comment> \<open>the host timer's reading, set by the environment\<close>
  mDeltaClocks :: "uint64 \<Rightarrow> CInt_t"  \<comment> \<open>division by the system clock period\<close>

definition mMemSizeInWords :: "mainframe \<Rightarrow> nat" where
  "mMemSizeInWords mf = mMemorySize mf div 8"

definition mMemSizeInParcels :: "mainframe \<Rightarrow> nat" where
  "mMemSizeInParcels mf = mMemorySize mf div 2"

section \<open>Memory accesses by type\<close>

text \<open>
  \<open>aAddr * 8\<close> is computed in the 32 bits of \<open>CAddr_t\<close>; only the read without watch points
  widens the address first and checks it.
\<close>

definition MemRead :: "CAddr_t \<Rightarrow> mainframe \<Rightarrow> CInt_t" where
  "MemRead aAddr mf = load64 (mMemory mf) (unat (aAddr * 8))"

definition MemWrite :: "CAddr_t \<Rightarrow> CInt_t \<Rightarrow> mainframe \<Rightarrow> mainframe" where
  "MemWrite aAddr aVal mf = mf\<lparr>mMemory := store64 (unat (aAddr * 8)) aVal (mMemory mf)\<rparr>"

text \<open>The words of the installed memory, which has at most \<open>2 ^ 29\<close> words, as cells.\<close>

lemma unat_times_8: "unat a < 2 ^ 29 \<Longrightarrow> unat (a * 8) = 8 * unat (a :: CAddr_t)"
  by (simp add: unat_mult_lem[THEN iffD1])

interpretation mem: word_memory "\<lambda>a. unat a < 2 ^ 29" MemRead MemWrite
proof
  fix a b :: CAddr_t and v w :: CInt_t and m :: mainframe
  assume a: "unat a < 2 ^ 29"
  note this [simp]
  show "MemRead a (MemWrite a v m) = v" "MemWrite a v (MemWrite a w m) = MemWrite a v m"
      "MemWrite a (MemRead a m) m = m"
    by (simp_all add: MemRead_def MemWrite_def store64_store64_same store64_load64)
  assume b: "unat b < 2 ^ 29" and "a \<noteq> b"
  then have ne: "unat a \<noteq> unat b" by (metis unsigned_word_eqI)
  show "MemRead b (MemWrite a v m) = MemRead b m"
    using words.rd_other[OF TrueI TrueI ne] by (simp add: MemRead_def MemWrite_def unat_times_8[OF a] unat_times_8[OF b])
  show "MemWrite a v (MemWrite b w m) = MemWrite b w (MemWrite a v m)"
    using words.wr_commute[OF TrueI TrueI ne] by (simp add: MemWrite_def unat_times_8[OF a] unat_times_8[OF b])
qed

definition MemReadNoWatchpoint :: "CAddr_t \<Rightarrow> (mainframe, CInt_t) exec" where
  "MemReadNoWatchpoint aAddr mf =
     (if unat aAddr * 8 \<ge> mMemorySize mf then throwE ReadOutOfBoundsError mf
      else (Inr (load64 (mMemory mf) (unat aAddr * 8)), mf))"

section \<open>Interrupt routing\<close>

definition SetIoInterrupt_at :: "nat \<Rightarrow> mainframe \<Rightarrow> mainframe" where
  "SetIoInterrupt_at cpu mf = mf\<lparr>mPending := (mPending mf)(cpu := (mPending mf cpu)\<lparr>xIo := True\<rparr>)\<rparr>"

definition SetDeadLockInterrupt_at :: "nat \<Rightarrow> mainframe \<Rightarrow> mainframe" where
  "SetDeadLockInterrupt_at cpu mf =
     mf\<lparr>mPending := (mPending mf)(cpu := (mPending mf cpu)\<lparr>xDeadLock := True\<rparr>)\<rparr>"

definition SetInterProcessorInterrupt_at :: "nat \<Rightarrow> mainframe \<Rightarrow> mainframe" where
  "SetInterProcessorInterrupt_at cpu mf =
     mf\<lparr>mPending := (mPending mf)(cpu := (mPending mf cpu)\<lparr>xInterProcessor := True\<rparr>)\<rparr>"

text \<open>The index of the first processor with a property.\<close>

definition first_cpu :: "(cpu_view \<Rightarrow> bool) \<Rightarrow> mainframe \<Rightarrow> nat option" where
  "first_cpu P mf = List.find (\<lambda>i. P (mCpus mf ! i)) [0..<length (mCpus mf)]"

definition RouteChannelInterrupt :: "mainframe \<Rightarrow> mainframe" where
  "RouteChannelInterrupt mf =
     (case first_cpu vSelectedForExternalInterrupts mf of
        Some cpu \<Rightarrow> SetIoInterrupt_at cpu mf
      | None \<Rightarrow> (case first_cpu vTsBlocked mf of
          Some cpu \<Rightarrow> SetIoInterrupt_at cpu mf
        | None \<Rightarrow> SetIoInterrupt_at (mLastCpuIssuedCI mf) mf))"

definition HandleDeadLock :: "uint16 \<Rightarrow> (mainframe, unit) exec" where
  "HandleDeadLock aCluster mf =
     (if aCluster = 0 then throwE AssertError mf
      else (Inr (), for_loop 0 (length (mCpus mf))
        (\<lambda>Cpu m. if ucast (vCluster (mCpus m ! Cpu)) = aCluster then SetDeadLockInterrupt_at Cpu m else m) mf))"

section \<open>Channels\<close>

text \<open>The channel at an index; the code has checked that it exists.\<close>

definition chan :: "mainframe \<Rightarrow> nat \<Rightarrow> channel" where
  "chan mf ix = the (mChannels mf ! ix)"

definition upd_chan :: "nat \<Rightarrow> (channel \<Rightarrow> channel) \<Rightarrow> mainframe \<Rightarrow> mainframe" where
  "upd_chan ix f mf = mf\<lparr>mChannels := (mChannels mf)[ix := Some (f (chan mf ix))]\<rparr>"

definition SetInterruptPending :: "bool \<Rightarrow> nat \<Rightarrow> mainframe \<Rightarrow> mainframe" where
  "SetInterruptPending aInterruptPending ix mf =
     (let mf = (if aInterruptPending \<and> \<not> mInterruptPending (chan mf ix) then RouteChannelInterrupt mf else mf)
      in upd_chan ix (mInterruptPending_update (\<lambda>_. aInterruptPending)) mf)"

text \<open>\<open>SetActive(false)\<close>: none of the four classes handles the deactivation.\<close>

definition SetInactive :: "nat \<Rightarrow> mainframe \<Rightarrow> mainframe" where
  "SetInactive ix mf =
     (if mActive (chan mf ix) then upd_chan ix (mActive_update (\<lambda>_. False)) mf else mf)"

definition GetData :: "nat \<Rightarrow> (mainframe, CInt_t) exec" where
  "GetData ix mf =
     (if \<not> mActive (chan mf ix) then throwE AssertError mf
      else if mAddress (chan mf ix) = mLimit (chan mf ix) then throwE AssertError mf
      else case MemReadNoWatchpoint (mAddress (chan mf ix)) mf of
        (Inl e, mf) \<Rightarrow> (Inl e, mf)
      | (Inr v, mf) \<Rightarrow>
          (let RetVal = SwapBytes64 v;
               mf = upd_chan ix (\<lambda>c. c\<lparr>mAddress := mAddress c + 1\<rparr>) mf
           in if mAddress (chan mf ix) = mLimit (chan mf ix)
              then (Inr RetVal, SetInactive ix (SetInterruptPending True ix mf))
              else (Inr RetVal, mf)))"

definition Disconnect :: "nat \<Rightarrow> mainframe \<Rightarrow> mainframe" where
  "Disconnect ix mf = SetInterruptPending True ix (SetInactive ix mf)"

definition SetData :: "CInt_t \<Rightarrow> bool \<Rightarrow> nat \<Rightarrow> (mainframe, unit) exec" where
  "SetData aData aWithDisconnect ix mf =
     (if \<not> mActive (chan mf ix) then throwE AssertError mf
      else if mAddress (chan mf ix) = mLimit (chan mf ix) then throwE AssertError mf
      else
        (let mf = MemWrite (mAddress (chan mf ix)) (SwapBytes64 aData) mf;
             mf = upd_chan ix (\<lambda>c. c\<lparr>mAddress := mAddress c + 1\<rparr>) mf
         in (Inr (), if aWithDisconnect then Disconnect ix mf else mf)))"

definition SetError :: "nat \<Rightarrow> mainframe \<Rightarrow> mainframe" where
  "SetError ix mf = SetInterruptPending True ix (upd_chan ix (mError_update (\<lambda>_. True)) mf)"

section \<open>Facts about the channel state\<close>

lemma chan_upd_chan [simp]:
  "ix < length (mChannels mf) \<Longrightarrow> chan (upd_chan ix f mf) ix = f (chan mf ix)"
  by (simp add: chan_def upd_chan_def)

lemma chan_upd_chan_other [simp]: "ix \<noteq> iy \<Longrightarrow> chan (upd_chan ix f mf) iy = chan mf iy"
  by (simp add: chan_def upd_chan_def)

lemma length_upd_chan [simp]: "length (mChannels (upd_chan ix f mf)) = length (mChannels mf)"
  by (simp add: upd_chan_def)

lemma mMemory_upd_chan [simp]: "mMemory (upd_chan ix f mf) = mMemory mf"
  by (simp add: upd_chan_def)

lemma channels_of_routing [simp]:
  "mChannels (RouteChannelInterrupt mf) = mChannels mf"
  "mMemory (RouteChannelInterrupt mf) = mMemory mf"
  "mMemorySize (RouteChannelInterrupt mf) = mMemorySize mf"
  "chan (RouteChannelInterrupt mf) ix = chan mf ix"
  by (simp_all add: RouteChannelInterrupt_def SetIoInterrupt_at_def chan_def split: option.splits)

lemma SetInterruptPending_simps [simp]:
  "length (mChannels (SetInterruptPending b ix mf)) = length (mChannels mf)"
  "mMemory (SetInterruptPending b ix mf) = mMemory mf"
  "ix < length (mChannels mf) \<Longrightarrow>
     chan (SetInterruptPending b ix mf) ix = (chan mf ix)\<lparr>mInterruptPending := b\<rparr>"
  by (simp_all add: SetInterruptPending_def Let_def)

lemma SetInactive_simps [simp]:
  "length (mChannels (SetInactive ix mf)) = length (mChannels mf)"
  "mMemory (SetInactive ix mf) = mMemory mf"
  "ix < length (mChannels mf) \<Longrightarrow> chan (SetInactive ix mf) ix = (chan mf ix)\<lparr>mActive := False\<rparr>"
  by (simp_all add: SetInactive_def)

lemma length_MemWrite [simp]:
  "mChannels (MemWrite a v mf) = mChannels mf" "chan (MemWrite a v mf) ix = chan mf ix"
  by (simp_all add: MemWrite_def chan_def)

text \<open>One word taken: the address moves on, and the channel stops exactly at its limit.\<close>

lemma GetData_step:
  assumes "ix < length (mChannels mf)" "GetData ix mf = (Inr v, mf')"
  shows "mActive (chan mf ix)" "mAddress (chan mf ix) \<noteq> mLimit (chan mf ix)"
    "mAddress (chan mf' ix) = mAddress (chan mf ix) + 1" "mLimit (chan mf' ix) = mLimit (chan mf ix)"
    "length (mChannels mf') = length (mChannels mf)" "mMemory mf' = mMemory mf"
    "mActive (chan mf' ix) \<longleftrightarrow> mAddress (chan mf' ix) \<noteq> mLimit (chan mf' ix)"
    "v = SwapBytes64 (load64 (mMemory mf) (unat (mAddress (chan mf ix)) * 8))"
  using assms
  by (auto simp: GetData_def MemReadNoWatchpoint_def throwE_def Let_def split: if_splits)

section \<open>Activation and the operations of the processor\<close>

text \<open>
  \<open>while (IsActive()) GetData();\<close> of the output \<open>LoggerChannel_c\<close>. The index is that of an
  existing channel.
\<close>

lemma distance_decreases:
  fixes a l :: uint32
  assumes "a \<noteq> l"
  shows "unat (l - (a + 1)) < unat (l - a)"
proof -
  have "l - (a + 1) = (l - a) - 1" by simp
  moreover have "l - a \<noteq> 0" using assms by simp
  ultimately show ?thesis by (metis measure_unat)
qed

function LoggerChannel_drain :: "nat \<Rightarrow> (mainframe, unit) exec" where
  "LoggerChannel_drain ix mf =
     (if ix < length (mChannels mf) \<and> mActive (chan mf ix)
      then (case GetData ix mf of
              (Inl e, mf') \<Rightarrow> (Inl e, mf')
            | (Inr v, mf') \<Rightarrow> LoggerChannel_drain ix mf')
      else (Inr (), mf))"
  by pat_completeness auto
termination
proof (relation "measure (\<lambda>(ix, mf). unat (mLimit (chan mf ix) - mAddress (chan mf ix)))", goal_cases)
  case (2 ix mf r mf' v)
  then have step: "GetData ix mf = (Inr v, mf')" by (metis sum.collapse(2) prod.inject)
  from 2 have "ix < length (mChannels mf)" by simp
  note st = GetData_step[OF this step]
  show ?case using st(2) by (simp add: st(3,4) distance_decreases)
qed simp

declare LoggerChannel_drain.simps [simp del]

definition HandleActivation :: "nat \<Rightarrow> (mainframe, unit) exec" where
  "HandleActivation ix mf =
     (case chKind (chan mf ix) of
        LoggerChannel mInput \<Rightarrow> if mInput then (Inr (), mf) else LoggerChannel_drain ix mf
      | _ \<Rightarrow> (Inr (), mf))"

definition SetActive :: "bool \<Rightarrow> nat \<Rightarrow> (mainframe, unit) exec" where
  "SetActive aActive ix mf =
     (if mActive (chan mf ix) \<noteq> aActive then
        (let mf = upd_chan ix (mActive_update (\<lambda>_. aActive)) mf
         in if aActive then HandleActivation ix mf else (Inr (), mf))
      else (Inr (), mf))"

definition SetAddress :: "CAddr_t \<Rightarrow> nat \<Rightarrow> (mainframe, unit) exec" where
  "SetAddress aAddress ix mf =
     (let mf = upd_chan ix (mAddress_update (\<lambda>_. aAddress)) mf in
      case SetActive (mAddress (chan mf ix) \<noteq> mLimit (chan mf ix)) ix mf of
        (Inl e, mf) \<Rightarrow> (Inl e, mf)
      | (Inr _, mf) \<Rightarrow> (Inr (), upd_chan ix (mError_update (\<lambda>_. False)) mf))"

definition SetLimit :: "CAddr_t \<Rightarrow> nat \<Rightarrow> mainframe \<Rightarrow> mainframe" where
  "SetLimit aLimit ix mf = upd_chan ix (mLimit_update (\<lambda>_. aLimit)) mf"

definition ClearInterrupt :: "nat \<Rightarrow> mainframe \<Rightarrow> mainframe" where
  "ClearInterrupt ix mf = SetInterruptPending False ix mf"

definition ClearError :: "nat \<Rightarrow> mainframe \<Rightarrow> mainframe" where
  "ClearError ix mf = upd_chan ix (mError_update (\<lambda>_. False)) mf"

definition MainframeSideMasterClear :: "nat \<Rightarrow> mainframe \<Rightarrow> mainframe" where
  "MainframeSideMasterClear ix mf =
     (let mf = upd_chan ix (mAddress_update (\<lambda>_. 0)) mf;
          mf = upd_chan ix (mLimit_update (\<lambda>_. 0)) mf;
          mf = SetInterruptPending False ix mf;
          mf = upd_chan ix (mError_update (\<lambda>_. False)) mf
      in SetInactive ix mf)"

definition IoMasterClear :: "bool \<Rightarrow> mainframe \<Rightarrow> mainframe" where
  "IoMasterClear aMasterClear mf =
     (let mf = (if mIoMasterClear mf \<and> \<not> aMasterClear
                then for_loop 0 (length (mChannels mf))
                  (\<lambda>ix m. if mChannels m ! ix \<noteq> None then MainframeSideMasterClear ix m else m) mf
                else mf)
      in mf\<lparr>mIoMasterClear := aMasterClear\<rparr>)"

section \<open>The ticked channels\<close>

text \<open>
  \<open>mFile.read\<close> of eight bytes: a short read leaves the rest of the zeroed word and sets the
  end-of-file state, after which the stream is no longer good.
\<close>

definition word_of_bytes :: "uint8 list \<Rightarrow> uint64" where
  "word_of_bytes bs = load64 (\<lambda>i. if i < length bs then bs ! i else 0) 0"

definition bytes_of_word :: "uint64 \<Rightarrow> uint8 list" where
  "bytes_of_word w = map (\<lambda>k. ucast (drop_bit (8 * k) w)) [0..<8]"

definition FileInputChannel_tick :: "nat \<Rightarrow> (mainframe, unit) exec" where
  "FileInputChannel_tick ix mf =
     (if mActive (chan mf ix) then
        if \<not> chEof (chan mf ix) then
          (let File = chFile (chan mf ix);
               Data = word_of_bytes (take 8 File);
               eof = (length File < 8);
               mf = upd_chan ix (\<lambda>c. c\<lparr>chFile := drop 8 File, chEof := eof\<rparr>) mf
           in case SetData (SwapBytes64 Data) False ix mf of
                (Inl e, mf) \<Rightarrow> (Inl e, mf)
              | (Inr _, mf) \<Rightarrow> (Inr (), if eof then Disconnect ix mf else mf))
        else (Inr (), mf)
      else (Inr (), mf))"

definition FileOutputChannel_tick :: "nat \<Rightarrow> (mainframe, unit) exec" where
  "FileOutputChannel_tick ix mf =
     (if mActive (chan mf ix) then
        (case GetData ix mf of
           (Inl e, mf) \<Rightarrow> (Inl e, mf)
         | (Inr v, mf) \<Rightarrow>
             (Inr (), upd_chan ix (\<lambda>c. c\<lparr>chFile := chFile c @ bytes_of_word (SwapBytes64 v)\<rparr>) mf))
      else (Inr (), mf))"

definition ChannelTick_one :: "nat \<Rightarrow> (mainframe, unit) exec" where
  "ChannelTick_one ix mf =
     (case mChannels mf ! ix of
        None \<Rightarrow> (Inr (), mf)
      | Some c \<Rightarrow> (case chKind c of
          FileInputChannel \<Rightarrow> FileInputChannel_tick ix mf
        | FileOutputChannel \<Rightarrow> FileOutputChannel_tick ix mf
        | _ \<Rightarrow> (Inr (), mf)))"

definition ChannelTick :: "(mainframe, unit) exec" where
  "ChannelTick mf = forE [0..<length (mChannels mf)] ChannelTick_one mf"

section \<open>The real-time clock and the host interface\<close>

definition GetRealTimeClock :: "mainframe \<Rightarrow> CInt_t \<times> mainframe" where
  "GetRealTimeClock mf =
     (if mUseHostRealTimeClock mf then
        (let DeltaClocks = mDeltaClocks mf (mHostWall mf - mRealTimeStart mf);
             NewRTC = mRealTimeClock mf + DeltaClocks
         in if NewRTC > mLastRealTimeReading mf + mRealTimeClockChunkLimit mf
            then (NewRTC, mf\<lparr>mLastRealTimeReading := NewRTC\<rparr>)
            else let NewRTC = mLastRealTimeReading mf + mRealTimeClockIncrement mf
                 in (NewRTC, mf\<lparr>mLastRealTimeReading := NewRTC\<rparr>))
      else (mRealTimeClock mf, mf))"

definition SetRealTimeClock :: "CInt_t \<Rightarrow> mainframe \<Rightarrow> mainframe" where
  "SetRealTimeClock aValue mf =
     (let mf = (if mUseHostRealTimeClock mf
                then mf\<lparr>mRealTimeStart := mHostWall mf, mLastRealTimeReading := 0\<rparr> else mf)
      in mf\<lparr>mRealTimeClock := aValue\<rparr>)"

definition UpdateRealTimeClock :: "mainframe \<Rightarrow> mainframe" where
  "UpdateRealTimeClock mf =
     (if \<not> mUseHostRealTimeClock mf
      then mf\<lparr>mRealTimeClock := mRealTimeClock mf + mRealTimeClockIncrement mf\<rparr> else mf)"

definition SimToHost :: "CInt_t \<Rightarrow> (mainframe, CInt_t) exec" where
  "SimToHost aValue mf =
     (if aValue AND 0xffffffff = 0x65786974 then throwE TerminateError mf
      else (Inr (push_bit 63 1 OR aValue), mf))"

definition HostToSim :: CInt_t where
  "HostToSim = push_bit 63 1"

end
