(* ===== verification/Cray_Float.thy ===== *)
theory Cray_Float
  imports Cray_Types
begin

text \<open>
  The Cray floating point format: class \<open>CFloat_t\<close> of \<^verbatim>\<open>sim_lib/cray_types.h\<close> and its
  arithmetic in \<^verbatim>\<open>sim_lib/cray_float.cpp\<close>. A number is one 64-bit word: sign (bit 63), a
  15-bit biased exponent, a 48-bit fraction with no hidden bit. The C++ types \<open>long\<close> and
  \<open>long long\<close> of the exponents and of the fractions in the adder are read as \<open>int\<close>: the
  values are at most 17 and 50 bits wide, so they cannot overflow. The multiplier and the
  reciprocal work on \<open>uint64_t\<close> and are modelled on words.
\<close>

type_synonym CFloat_t = uint64

definition FractSignMask :: uint64 where "FractSignMask = 0x8000000000000000"
definition ExpMask :: uint64 where "ExpMask = 0x7fff000000000000"
definition FractMask :: uint64 where "FractMask = 0x0000ffffffffffff"
definition ExpBitPos :: nat where "ExpBitPos = 48"
definition ExpSize :: nat where "ExpSize = 15"
definition ExpOfs :: int where "ExpOfs = 16385"  \<comment> \<open>\<open>040001\<close>\<close>
definition ExpMax :: int where "ExpMax = 24575"  \<comment> \<open>\<open>057777\<close>\<close>
definition ExpMin :: int where "ExpMin = 8192"   \<comment> \<open>\<open>020000\<close>\<close>
definition FractSize :: nat where "FractSize = 48"

text \<open>The constructor \<open>CFloat_t(long aExp, bool aFractPositive, unsigned long long aFract)\<close>.\<close>

definition CFloat_of :: "int \<Rightarrow> bool \<Rightarrow> uint64 \<Rightarrow> CFloat_t" where
  "CFloat_of aExp aFractPositive aFract =
     push_bit ExpBitPos (word_of_int (aExp + ExpOfs) AND (push_bit ExpSize 1 - 1))
     OR (if aFractPositive then 0 else FractSignMask)
     OR (aFract AND (push_bit FractSize 1 - 1))"

definition RawExp :: "CFloat_t \<Rightarrow> int" where
  "RawExp Value = uint (drop_bit ExpBitPos (Value AND ExpMask))"

definition IsExpValid :: "CFloat_t \<Rightarrow> bool" where
  "IsExpValid Value = (if RawExp Value > ExpMax then False
     else if RawExp Value < ExpMin then False else True)"

definition UnderflowOrValue :: "CFloat_t \<Rightarrow> CFloat_t" where
  "UnderflowOrValue this = (if RawExp this < ExpMin then 0 else this)"

definition Exp :: "CFloat_t \<Rightarrow> int" where
  "Exp Value = RawExp Value - ExpOfs"

definition UFract :: "CFloat_t \<Rightarrow> uint64" where
  "UFract Value = Value AND FractMask"

definition Fract :: "CFloat_t \<Rightarrow> int" where
  "Fract Value = (if Value AND FractSignMask \<noteq> 0 then - uint (UFract Value) else uint (UFract Value))"

definition IsNormalized :: "CFloat_t \<Rightarrow> bool" where
  "IsNormalized Value \<longleftrightarrow> Value AND push_bit (FractSize - 1) 1 \<noteq> 0"

definition IsPositive :: "CFloat_t \<Rightarrow> bool" where
  "IsPositive Value \<longleftrightarrow> Value AND FractSignMask = 0"

definition FlipSign :: "CFloat_t \<Rightarrow> CFloat_t" where
  "FlipSign Value = Value XOR FractSignMask"

section \<open>Bits of the fields\<close>

lemma float_masks:
  "FractMask = mask 48" "FractSignMask = push_bit 63 1"
  "ExpMask = push_bit 48 (mask 15)"
  by (simp_all add: FractMask_def FractSignMask_def ExpMask_def mask_eq_exp_minus_1 push_bit_eq_mult)

lemma bit_FractSignMask: "bit FractSignMask n \<longleftrightarrow> n = 63"
  unfolding float_masks bit_single by simp

lemma IsPositive_bit: "IsPositive v \<longleftrightarrow> \<not> bit v 63"
  using and_single_bit_eq_0[of 63 v] unfolding IsPositive_def float_masks by simp

lemma IsNormalized_bit: "IsNormalized v \<longleftrightarrow> bit v 47"
  using and_single_bit_eq_0[of 47 v] unfolding IsNormalized_def FractSize_def by simp

lemma bit_UFract: "bit (UFract v) n \<longleftrightarrow> n < 48 \<and> bit v n"
  by (auto simp: UFract_def float_masks(1) bit_simps)

lemma UFract_take_bit: "UFract v = take_bit 48 v"
  by (intro word_eq_by_bits) (auto simp: bit_UFract bit_simps)

lemma UFract_less: "uint (UFract v) < 2 ^ 48"
  using take_bit_int_less_exp[of 48 "uint v"] by (simp add: UFract_take_bit unsigned_take_bit_eq)

lemma RawExp_word: "drop_bit ExpBitPos (v AND ExpMask) = take_bit 15 (drop_bit 48 v)"
  unfolding float_masks(3) ExpBitPos_def
  by (intro word_eq_by_bits) (auto simp: bit_simps)

lemma RawExp_take_bit: "RawExp v = take_bit 15 (uint (drop_bit 48 v))"
  unfolding RawExp_def RawExp_word by (simp only: unsigned_take_bit_eq)

lemma RawExp_bounds: "0 \<le> RawExp v" "RawExp v < 2 ^ 15"
  unfolding RawExp_take_bit using take_bit_int_less_exp[of 15] by simp_all

lemma bit_RawExp: "bit (RawExp v) n \<longleftrightarrow> n < 15 \<and> bit v (48 + n)"
  by (auto simp: RawExp_take_bit bit_simps)

lemma CFloat_of_bits:
  assumes "n < 64"
  shows "bit (CFloat_of e p f) n \<longleftrightarrow>
    (if n < 48 then bit f n else if n < 63 then bit (e + ExpOfs) (n - 48) else \<not> p)"
  using assms
  unfolding CFloat_of_def ExpBitPos_def ExpSize_def FractSize_def mask_shift
  by (auto simp: bit_or_iff bit_and_iff bit_push_bit_iff bit_mask_iff bit_word_of_int_iff
      bit_FractSignMask simp del: of_int_add)

lemma UFract_CFloat_of: "UFract (CFloat_of e p f) = take_bit 48 f"
  by (intro word_eq_by_bits) (auto simp: bit_UFract CFloat_of_bits bit_simps)

lemma IsPositive_CFloat_of [simp]: "IsPositive (CFloat_of e p f) = p"
  by (simp add: IsPositive_bit CFloat_of_bits)

lemma RawExp_CFloat_of: "RawExp (CFloat_of e p f) = take_bit 15 (e + ExpOfs)"
  by (rule bit_eqI) (auto simp: bit_RawExp CFloat_of_bits bit_simps)

text \<open>The three fields determine the number.\<close>

lemma float_eq_fields:
  assumes "UFract x = UFract y" "RawExp x = RawExp y" "IsPositive x = IsPositive y"
  shows "x = y"
proof (rule word_eq_by_bits)
  fix n :: nat
  assume "n < LENGTH(64)"
  then consider "n < 48" | m where "n = 48 + m" "m < 15" | "n = 63"
    using le_Suc_ex[of 48 n] by fastforce
  then show "bit x n = bit y n"
  proof cases
    case 1
    with assms(1) show ?thesis by (metis bit_UFract)
  next
    case 2
    with assms(2) show ?thesis by (metis bit_RawExp)
  next
    case 3
    with assms(3) show ?thesis by (simp add: IsPositive_bit)
  qed
qed

section \<open>Normalization\<close>

definition Normalize_step :: "CFloat_t \<Rightarrow> CFloat_t" where
  "Normalize_step Value = (Value AND FractSignMask)
     OR (((Value AND ExpMask) - push_bit ExpBitPos 1) AND ExpMask)
     OR (push_bit 1 Value AND FractMask)"

lemma ExpMask_minus:
  "(v AND ExpMask) - push_bit ExpBitPos 1 = push_bit 48 (take_bit 15 (drop_bit 48 v) - 1)"
proof -
  have "v AND ExpMask = push_bit 48 (take_bit 15 (drop_bit 48 v))"
    by (intro word_eq_by_bits) (auto simp: float_masks bit_simps)
  then show ?thesis by (simp add: ExpBitPos_def push_bit_eq_mult algebra_simps)
qed

lemma Normalize_step_fields:
  shows "UFract (Normalize_step v) = take_bit 48 (push_bit 1 v)"
    and "IsPositive (Normalize_step v) = IsPositive v"
    and "0 < RawExp v \<Longrightarrow> RawExp (Normalize_step v) = RawExp v - 1"
proof -
  show "UFract (Normalize_step v) = take_bit 48 (push_bit 1 v)"
    unfolding Normalize_step_def ExpMask_minus
    by (intro word_eq_by_bits)
      (auto simp: bit_UFract bit_simps bit_FractSignMask float_masks(1,3))
  show "IsPositive (Normalize_step v) = IsPositive v"
    unfolding Normalize_step_def ExpMask_minus
    by (simp add: IsPositive_bit bit_simps bit_FractSignMask float_masks(1,3))
next
  assume pos: "0 < RawExp v"
  let ?w = "take_bit 15 (drop_bit 48 v)"
  have w: "uint ?w = RawExp v"
    unfolding RawExp_take_bit by (simp only: unsigned_take_bit_eq)
  have "RawExp (Normalize_step v) = take_bit 15 (uint (?w - 1))"
    unfolding Normalize_step_def ExpMask_minus
    by (rule bit_eqI)
      (auto simp: bit_RawExp bit_simps bit_FractSignMask float_masks(1,3))
  also have "uint (?w - 1) = RawExp v - 1"
    using pos w uint_sub_lem[of 1 ?w] by simp
  also have "take_bit 15 (RawExp v - 1) = RawExp v - 1"
    using pos RawExp_bounds(2)[of v] by (simp add: take_bit_int_eq_self)
  finally show "RawExp (Normalize_step v) = RawExp v - 1" .
qed

text \<open>The loop of \<open>CFloat_t::Normalize\<close>: the exponent goes down in every turn.\<close>

function Normalize_loop :: "CFloat_t \<Rightarrow> CFloat_t" where
  "Normalize_loop Value =
     (if Value AND push_bit (FractSize - 1) 1 = 0 \<and> RawExp Value > ExpMin
      then Normalize_loop (Normalize_step Value)
      else Value)"
  by pat_completeness auto
termination
  by (relation "measure (\<lambda>v. nat (RawExp v))") (auto simp: Normalize_step_fields ExpMin_def)

declare Normalize_loop.simps [simp del]

definition Normalize :: "CFloat_t \<Rightarrow> CFloat_t" where
  "Normalize Value = (if Value AND FractMask = 0 then 0 else Normalize_loop Value)"

lemma nat_diff_Suc: "r \<le> (s :: int) \<Longrightarrow> e = s + 1 \<Longrightarrow> nat (e - r) = Suc (nat (s - r))"
  by simp

text \<open>
  Normalization keeps the sign and the value \<open>fraction * 2 ^ exponent\<close>, and ends with
  the top fraction bit set unless the exponent has reached its minimum.
\<close>

lemma Normalize_step_UFract:
  assumes "\<not> IsNormalized v"
  shows "uint (UFract (Normalize_step v)) = 2 * uint (UFract v)"
proof -
  have "UFract (Normalize_step v) = push_bit 1 (UFract v)"
  proof (rule word_eq_by_bits)
    fix n :: nat
    assume "n < LENGTH(64)"
    with assms show "bit (UFract (Normalize_step v)) n \<longleftrightarrow> bit (push_bit 1 (UFract v)) n"
      by (cases "n = 48") (auto simp: Normalize_step_fields bit_UFract bit_simps IsNormalized_bit
          simp del: push_bit_Suc)
  qed
  then show ?thesis
    using UFract_less[of v] by (simp add: push_bit_eq_mult uint_word_ariths)
qed

lemma Normalize_loop_correct:
  defines "r \<equiv> Normalize_loop"
  shows "IsPositive (r v) = IsPositive v"
    and "RawExp (r v) \<le> RawExp v"
    and "uint (UFract (r v)) = uint (UFract v) * 2 ^ nat (RawExp v - RawExp (r v))"
    and "IsNormalized (r v) \<or> RawExp (r v) \<le> ExpMin"
    and "ExpMin \<le> RawExp v \<Longrightarrow> ExpMin \<le> RawExp (r v)"
proof -
  have "IsPositive (r v) = IsPositive v \<and> RawExp (r v) \<le> RawExp v \<and>
      uint (UFract (r v)) = uint (UFract v) * 2 ^ nat (RawExp v - RawExp (r v)) \<and>
      (IsNormalized (r v) \<or> RawExp (r v) \<le> ExpMin) \<and>
      (ExpMin \<le> RawExp v \<longrightarrow> ExpMin \<le> RawExp (r v))"
    unfolding r_def
  proof (induction v rule: Normalize_loop.induct)
    case (1 v)
    show ?case
    proof (cases "\<not> IsNormalized v \<and> ExpMin < RawExp v")
      case True
      let ?s = "Normalize_step v" and ?r = "Normalize_loop (Normalize_step v)"
      from True have "0 < RawExp v" by (simp add: ExpMin_def)
      then have e: "RawExp ?s = RawExp v - 1" by (rule Normalize_step_fields)
      have f: "uint (UFract ?s) = 2 * uint (UFract v)" using True by (simp add: Normalize_step_UFract)
      from True have c: "v AND push_bit (FractSize - 1) 1 = 0 \<and> RawExp v > ExpMin"
        by (simp add: IsNormalized_def)
      have IH: "IsPositive ?r = IsPositive ?s \<and> RawExp ?r \<le> RawExp ?s \<and>
          uint (UFract ?r) = uint (UFract ?s) * 2 ^ nat (RawExp ?s - RawExp ?r) \<and>
          (IsNormalized ?r \<or> RawExp ?r \<le> ExpMin) \<and>
          (ExpMin \<le> RawExp ?s \<longrightarrow> ExpMin \<le> RawExp ?r)"
        by (rule "1.IH"[OF c])
      have "nat (RawExp v - RawExp ?r) = Suc (nat (RawExp ?s - RawExp ?r))"
        using IH e by (intro nat_diff_Suc) simp_all
      moreover have "Normalize_loop v = ?r"
        using c by (subst Normalize_loop.simps) simp
      ultimately show ?thesis using IH e f True by (simp add: Normalize_step_fields)
    next
      case False
      then have "Normalize_loop v = v"
        by (subst Normalize_loop.simps) (auto simp: IsNormalized_def)
      with False show ?thesis by auto
    qed
  qed
  then show "IsPositive (r v) = IsPositive v" "RawExp (r v) \<le> RawExp v"
    "uint (UFract (r v)) = uint (UFract v) * 2 ^ nat (RawExp v - RawExp (r v))"
    "IsNormalized (r v) \<or> RawExp (r v) \<le> ExpMin"
    "ExpMin \<le> RawExp v \<Longrightarrow> ExpMin \<le> RawExp (r v)" by auto
qed

section \<open>Addition\<close>

definition Shift :: "int \<Rightarrow> int \<Rightarrow> int" where
  "Shift aFract aAmount = drop_bit (nat aAmount) aFract"

text \<open>The signed sum of the aligned fractions: its sign and its magnitude.\<close>

definition add_fracts :: "bool \<Rightarrow> bool \<Rightarrow> int \<Rightarrow> int \<Rightarrow> bool \<times> int" where
  "add_fracts APos BPos FractA FractB =
     (if \<not> APos \<and> \<not> BPos then (False, FractA + FractB)
      else if APos \<and> BPos then (True, FractA + FractB)
      else if APos \<and> \<not> BPos then
        (let ResultFract = FractA - FractB in
         if ResultFract < 0 then (False, - ResultFract) else (True, ResultFract))
      else
        (let ResultFract = FractB - FractA in
         if ResultFract < 0 then (False, - ResultFract) else (True, ResultFract)))"

definition float_add :: "CFloat_t \<Rightarrow> CFloat_t \<Rightarrow> CFloat_t" where
  "float_add aA aB =
     (let A = UnderflowOrValue aA; B = UnderflowOrValue aB;
          ExpA = Exp A; ExpB = Exp B;
          FractA = uint (UFract A); FractB = uint (UFract B);
          (FractA, FractB, ResultExp) =
            (if ExpA > ExpB then (FractA, Shift FractB (min 63 (ExpA - ExpB)), ExpA)
             else if ExpA < ExpB then (Shift FractA (min 63 (ExpB - ExpA)), FractB, ExpB)
             else (FractA, FractB, ExpB));
          (ResultPositive, ResultFract) =
            add_fracts (IsPositive A) (IsPositive B) FractA FractB;
          (ResultExp, ResultFract) =
            (if \<bar>ResultFract\<bar> AND push_bit FractSize 1 \<noteq> 0
             then (ResultExp + 1, Shift ResultFract 1) else (ResultExp, ResultFract));
          RetVal = Normalize (CFloat_of ResultExp ResultPositive (word_of_int ResultFract))
      in UnderflowOrValue RetVal)"

definition float_neg :: "CFloat_t \<Rightarrow> CFloat_t" where
  "float_neg aA = FlipSign aA"

definition float_sub :: "CFloat_t \<Rightarrow> CFloat_t \<Rightarrow> CFloat_t" where
  "float_sub aA aB = float_add aA (float_neg aB)"

lemma add_fracts_commute: "add_fracts p q a b = add_fracts q p b a"
  by (auto simp: add_fracts_def Let_def)

lemma float_add_commute: "float_add a b = float_add b a"
  unfolding float_add_def Let_def
  by (subst add_fracts_commute) (auto split: prod.splits simp: add_fracts_commute)

lemma FlipSign_fields:
  "UFract (FlipSign v) = UFract v" "RawExp (FlipSign v) = RawExp v"
  "IsPositive (FlipSign v) = (\<not> IsPositive v)"
  by (rule word_eq_by_bits bit_eqI; auto simp: FlipSign_def bit_UFract bit_RawExp bit_simps bit_FractSignMask)+
    (simp add: FlipSign_def IsPositive_bit bit_simps bit_FractSignMask)

lemma FlipSign_FlipSign [simp]: "FlipSign (FlipSign v) = v"
  by (simp add: FlipSign_def xor.assoc)

lemma Normalize_0_fract: "UFract v = 0 \<Longrightarrow> Normalize v = 0"
  by (simp add: Normalize_def UFract_def)

lemma UnderflowOrValue_0 [simp]: "UnderflowOrValue 0 = 0"
  by (simp add: UnderflowOrValue_def)

lemma zero_fields [simp]: "UFract 0 = 0" "RawExp 0 = 0" "IsPositive 0"
  by (simp_all add: UFract_def RawExp_def IsPositive_def)

lemma float_sub_self: "float_sub v v = 0"
proof -
  have u: "UnderflowOrValue (FlipSign v) = (if RawExp v < ExpMin then 0 else FlipSign v)"
    by (simp add: UnderflowOrValue_def FlipSign_fields)
  show ?thesis
    unfolding float_sub_def float_neg_def float_add_def u
    by (auto simp: UnderflowOrValue_def[of v] Let_def Exp_def FlipSign_fields add_fracts_def
        Normalize_0_fract UFract_CFloat_of)
qed

section \<open>Multiplication\<close>

text \<open>
  \<open>Mult\<close>: the products of the fraction bits are summed in 56-bit registers, a correction is
  added for the part that was cut off, and the result is shifted by at most one place.
\<close>

definition Mult_loop :: "uint64 \<Rightarrow> uint64 \<Rightarrow> uint64 \<times> uint64" where
  "Mult_loop FractA FractB = for_loop 0 48
     (\<lambda>BitIdx (FractA, ResultFract).
        (drop_bit 1 FractA,
         if drop_bit (47 + 8 - BitIdx) FractB AND 1 \<noteq> 0 then ResultFract + FractA else ResultFract))
     (FractA, 0)"

definition CorrectionFactor :: "bool \<Rightarrow> bool \<Rightarrow> bool \<Rightarrow> uint64" where
  "CorrectionFactor aDoRounding aHalfPrecision aTwoMinus =
     (let CorrectionFactor = 18;
          CorrectionFactor = (if aDoRounding then CorrectionFactor OR (0x80 OR 0x40) else CorrectionFactor);
          CorrectionFactor = (if aHalfPrecision
            then CorrectionFactor OR (push_bit 24 1 OR push_bit 25 1) else CorrectionFactor)
      in if aTwoMinus then NOT CorrectionFactor else CorrectionFactor)"

text \<open>The second half of \<open>Mult\<close>, after the summing loop: correction and renormalization.\<close>

definition Mult_finish :: "bool \<Rightarrow> int \<Rightarrow> bool \<Rightarrow> uint64 \<Rightarrow> bool \<Rightarrow> bool \<Rightarrow> bool \<Rightarrow> CFloat_t" where
  "Mult_finish IntegerMult Exponent ResultPositive ResultFract aDoRounding aHalfPrecision aTwoMinus =
     (let ResultFract = ResultFract + CorrectionFactor aDoRounding aHalfPrecision aTwoMinus;
          ResultFract = (if aTwoMinus then NOT ResultFract else ResultFract);
          (Exponent, ResultPositive, ResultFract) =
            (if \<not> IntegerMult then
               let (Exponent, ResultFract) =
                     (if ResultFract AND push_bit 56 1 \<noteq> 0 then (Exponent + 1, drop_bit 1 ResultFract)
                      else (Exponent, ResultFract));
                   (Exponent, ResultPositive, ResultFract) =
                     (if Exponent + ExpOfs < ExpMin then (- ExpOfs, True, 0)
                      else (Exponent, ResultPositive, ResultFract))
               in (Exponent, ResultPositive,
                   if aHalfPrecision then ResultFract AND 0xFFFFFFFFF8000000 else ResultFract)
             else (Exponent, ResultPositive, drop_bit 1 ResultFract))
      in CFloat_of Exponent ResultPositive (drop_bit 8 ResultFract))"

definition Mult :: "CFloat_t \<Rightarrow> CFloat_t \<Rightarrow> bool \<Rightarrow> bool \<Rightarrow> bool \<Rightarrow> CFloat_t" where
  "Mult aA aB aDoRounding aHalfPrecision aTwoMinus =
     (let A = (if RawExp aA = 0 then aA else UnderflowOrValue aA);
          B = (if RawExp aB = 0 then aB else UnderflowOrValue aB) in
      if A = 0 then 0 else if B = 0 then 0 else
      let IntegerMult = (RawExp A = 0 \<and> RawExp B = 0) in
      Mult_finish IntegerMult
        (if IntegerMult then - ExpOfs else Exp A + Exp B)
        (IsPositive A = IsPositive B)
        (snd (Mult_loop (push_bit 8 (UFract A)) (push_bit 8 (UFract B))))
        aDoRounding aHalfPrecision aTwoMinus)"

definition float_mult :: "CFloat_t \<Rightarrow> CFloat_t \<Rightarrow> CFloat_t" where
  "float_mult aA aB = Mult aA aB False False False"

definition ReciprocIterate :: "CFloat_t \<Rightarrow> CFloat_t \<Rightarrow> CFloat_t" where
  "ReciprocIterate aLeft aRight = Mult aLeft aRight False False True"

definition RoundedMult :: "CFloat_t \<Rightarrow> CFloat_t \<Rightarrow> CFloat_t" where
  "RoundedMult aLeft aRight = Mult aLeft aRight True False False"

definition HalfPrecisionMult :: "CFloat_t \<Rightarrow> CFloat_t \<Rightarrow> CFloat_t" where
  "HalfPrecisionMult aLeft aRight = Mult aLeft aRight False True False"

lemma uint_drop_bit: "uint (drop_bit n (w :: 'a::len word)) = uint w div 2 ^ n"
proof -
  have "uint (drop_bit n w) = drop_bit n (uint w)"
    by (rule bit_eqI) (auto simp: bit_uint_iff bit_drop_bit_eq dest: bit_imp_less_length)
  then show ?thesis by (simp only: drop_bit_eq_div)
qed

text \<open>What the loop adds up, as a sum of shifted copies over the bits of the other factor.\<close>

definition partial_products :: "int \<Rightarrow> uint64 \<Rightarrow> nat \<Rightarrow> int" where
  "partial_products a b k = (\<Sum>i<k. if bit b (47 - i) then (a * 2 ^ 8) div 2 ^ i else 0)"

lemma partial_products_bound:
  assumes "0 \<le> a" "a < 2 ^ 48"
  shows "0 \<le> partial_products a b k" "partial_products a b k \<le> int k * 2 ^ 56"
proof -
  have t: "0 \<le> (a * 2 ^ 8) div 2 ^ i \<and> (a * 2 ^ 8) div 2 ^ i \<le> 2 ^ 56" for i
  proof -
    have "(a * 2 ^ 8) div 2 ^ i \<le> (a * 2 ^ 8) div 1"
      using assms by (intro zdiv_mono2) simp_all
    with assms show ?thesis by (simp add: pos_imp_zdiv_nonneg_iff)
  qed
  show "0 \<le> partial_products a b k"
    unfolding partial_products_def using t by (intro sum_nonneg) simp
  have "partial_products a b k \<le> (\<Sum>i<k. 2 ^ 56)"
    unfolding partial_products_def using t by (intro sum_mono) (simp add: order.trans)
  then show "partial_products a b k \<le> int k * 2 ^ 56" by simp
qed

lemma Mult_loop_sum:
  "uint (snd (Mult_loop (push_bit 8 (UFract A)) (push_bit 8 (UFract B)))) =
     partial_products (uint (UFract A)) (UFract B) 48"
proof -
  let ?FA = "push_bit 8 (UFract A)" and ?FB = "push_bit 8 (UFract B)"
  let ?f = "\<lambda>BitIdx (FractA :: uint64, ResultFract).
        (drop_bit 1 FractA,
         if drop_bit (47 + 8 - BitIdx) ?FB AND 1 \<noteq> 0 then ResultFract + FractA else ResultFract)"
  let ?I = "\<lambda>k (F, R). F = drop_bit k ?FA \<and>
      uint R = partial_products (uint (UFract A)) (UFract B) k \<and> k \<le> 48"
  have a: "uint ?FA = uint (UFract A) * 2 ^ 8"
    using UFract_less[of A] by (simp add: push_bit_eq_mult uint_word_ariths)
  have "?I 48 (for_loop 0 48 ?f (?FA, 0))"
  proof (rule for_loop_invariant[where I = ?I])
    show "?I 0 (?FA, 0)" by (simp add: partial_products_def)
  next
    fix i and s :: "uint64 \<times> uint64"
    assume i: "i < 48" and I: "?I i s"
    obtain F R where s: "s = (F, R)" by force
    have F: "uint F = (uint (UFract A) * 2 ^ 8) div 2 ^ i"
      using I s a by (simp only: case_prod_conv uint_drop_bit)
    have b: "drop_bit (47 + 8 - i) ?FB AND 1 \<noteq> 0 \<longleftrightarrow> bit (UFract B) (47 - i)"
      using i by (simp only: drop_bit_lsb bit_push_bit_iff) auto
    have pp: "partial_products (uint (UFract A)) (UFract B) (Suc i) =
        uint R + (if bit (UFract B) (47 - i) then uint F else 0)"
      using I s F by (simp add: partial_products_def)
    have "partial_products (uint (UFract A)) (UFract B) (Suc i) \<le> int (Suc i) * 2 ^ 56"
      using UFract_less[of A] by (intro partial_products_bound) simp_all
    also have "\<dots> \<le> 48 * 2 ^ 56" using i by simp
    finally have "uint R + (if bit (UFract B) (47 - i) then uint F else 0) < 2 ^ 64"
      by (simp add: pp)
    then have "uint (R + F) = uint R + uint F" if "bit (UFract B) (47 - i)"
      using that uint_add_lem[of R F] by simp
    with pp b I s i show "?I (Suc i) (?f i s)"
      by (auto simp: drop_bit_drop_bit)
  qed simp
  then show ?thesis by (simp add: Mult_loop_def split: prod.splits)
qed

lemma div_bounds:
  assumes "0 < (y :: int)"
  shows "x div y * y \<le> x" "x < (x div y + 1) * y"
proof -
  have "x = x div y * y + x mod y" by simp
  with pos_mod_bound[OF assms, of x] pos_mod_sign[OF assms, of x]
  show "x div y * y \<le> x" "x < (x div y + 1) * y"
    unfolding distrib_right by linarith+
qed

lemma bits_sum:
  fixes w :: uint64
  assumes "w = take_bit n w"
  shows "uint w = (\<Sum>j<n. if bit w j then 2 ^ j else 0)"
proof -
  have "uint w = take_bit n (uint w)"
    using assms by (metis unsigned_take_bit_eq)
  also have "\<dots> = (\<Sum>k = 0..<n. push_bit k (of_bool (bit (uint w) k)))"
    by (rule take_bit_sum)
  also have "\<dots> = (\<Sum>j<n. if bit w j then 2 ^ j else 0)"
    by (intro sum.cong) (auto simp: bit_uint_iff push_bit_eq_mult dest: bit_imp_less_length)
  finally show ?thesis .
qed

text \<open>The sum is the exact product scaled by \<open>2 ^ 39\<close>, short by less than 48 units.\<close>

lemma partial_products_exact:
  fixes a :: int and b :: CFloat_t
  assumes "b = take_bit 48 b"
  defines "p \<equiv> partial_products a b 48"
  shows "2 ^ 39 * p \<le> a * uint b" "a * uint b < 2 ^ 39 * (p + 48)"
proof -
  let ?t = "\<lambda>i. if bit b (47 - i) then (a * 2 ^ 8) div 2 ^ i else 0"
  let ?e = "\<lambda>i. if bit b (47 - i) then a * 2 ^ (47 - i) else 0"
  have "a * uint b = (\<Sum>j<48. if bit b j then a * 2 ^ j else 0)"
    by (subst bits_sum[OF assms(1)]) (auto simp: sum_distrib_left intro!: sum.cong)
  also have "\<dots> = (\<Sum>i<48. ?e i)"
    by (rule sum.reindex_bij_witness[of _ "\<lambda>i. 47 - i" "\<lambda>j. 47 - j"]) auto
  finally have e: "a * uint b = (\<Sum>i<48. ?e i)" .
  have t: "2 ^ 39 * ?t i \<le> ?e i \<and> ?e i < 2 ^ 39 * (?t i + 1)" if "i < 48" for i
  proof -
    have p: "(2 :: int) ^ 39 * 2 ^ 8 = 2 ^ (47 - i) * 2 ^ i"
      using that by (simp flip: power_add)
    let ?q = "(a * 2 ^ 8) div 2 ^ i"
    have lo: "?q * 2 ^ i \<le> a * 2 ^ 8" and hi: "a * 2 ^ 8 < (?q + 1) * 2 ^ i"
      by (rule div_bounds; simp)+
    have "2 ^ 39 * ?q * 2 ^ i \<le> a * 2 ^ (47 - i) * 2 ^ i"
      using mult_left_mono[OF lo, of "2 ^ 39"] p by (simp add: algebra_simps)
    moreover have "a * 2 ^ (47 - i) * 2 ^ i < 2 ^ 39 * (?q + 1) * 2 ^ i"
      using mult_strict_left_mono[OF hi, of "2 ^ 39"] p by (simp add: algebra_simps)
    ultimately show ?thesis by simp
  qed
  have "2 ^ 39 * p = (\<Sum>i<48. 2 ^ 39 * ?t i)"
    by (simp add: p_def partial_products_def sum_distrib_left)
  also have "\<dots> \<le> (\<Sum>i<48. ?e i)" using t by (intro sum_mono) blast
  finally show "2 ^ 39 * p \<le> a * uint b" by (simp add: e)
  have "(\<Sum>i<48. ?e i) < (\<Sum>i<48. 2 ^ 39 * (?t i + 1))"
    using t by (intro sum_strict_mono) (auto simp: lessThan_empty_iff)
  also have "\<dots> = 2 ^ 39 * (p + 48)"
    by (simp add: p_def partial_products_def sum_distrib_left[symmetric] sum.distrib)
  finally show "a * uint b < 2 ^ 39 * (p + 48)" by (simp add: e)
qed

text \<open>The sum as a symmetric double sum over the bits of both fractions.\<close>

lemma shifted_copy_sum:
  fixes a :: uint64
  assumes "a = take_bit 48 a" "i < 48"
  shows "(uint a * 2 ^ 8) div 2 ^ i = (\<Sum>j<48. if bit a j \<and> i \<le> j + 8 then 2 ^ (j + 8 - i) else 0)"
proof -
  have high: "n < 48" if "bit a n" for n
    using that by (subst (asm) assms(1)) (simp add: bit_take_bit_iff)
  have bits: "bit (drop_bit i (push_bit 8 (uint a))) k \<longleftrightarrow> 8 \<le> k + i \<and> bit a (k + i - 8)" for k
    by (auto simp: bit_drop_bit_eq bit_push_bit_iff bit_uint_iff add.commute dest: bit_imp_less_length)
  have "(uint a * 2 ^ 8) div 2 ^ i = drop_bit i (push_bit 8 (uint a))"
    by (simp only: drop_bit_eq_div push_bit_eq_mult)
  also have "\<dots> = take_bit 56 (drop_bit i (push_bit 8 (uint a)))"
    by (rule bit_eqI) (auto simp: bit_take_bit_iff bits dest: high)
  also have "\<dots> = (\<Sum>k = 0..<56. push_bit k (of_bool (bit (drop_bit i (push_bit 8 (uint a))) k)))"
    by (rule take_bit_sum)
  also have "\<dots> = (\<Sum>k = 0..<56. if 8 \<le> k + i \<and> bit a (k + i - 8) then 2 ^ k else 0)"
    unfolding bits by (intro sum.cong) (auto simp: push_bit_eq_mult)
  also have "\<dots> = (\<Sum>k\<in>{k. k < 56 \<and> 8 \<le> k + i \<and> bit a (k + i - 8)}. 2 ^ k)"
    by (subst sum.inter_filter[symmetric]) (auto intro: sum.cong)
  also have "\<dots> = (\<Sum>j\<in>{j. j < 48 \<and> bit a j \<and> i \<le> j + 8}. 2 ^ (j + 8 - i))"
    using assms(2)
    by (intro sum.reindex_bij_witness[of _ "\<lambda>j. j + 8 - i" "\<lambda>k. k + i - 8"]) (auto dest: high)
  also have "\<dots> = (\<Sum>j<48. if bit a j \<and> i \<le> j + 8 then 2 ^ (j + 8 - i) else 0)"
    by (subst sum.inter_filter[symmetric]) (auto intro: sum.cong)
  finally show ?thesis .
qed

lemma partial_products_bits:
  fixes a b :: uint64
  assumes "a = take_bit 48 a"
  shows "partial_products (uint a) b 48 =
    (\<Sum>k<48. \<Sum>j<48. if bit a j \<and> bit b k \<and> 39 \<le> j + k then 2 ^ (j + k - 39) else 0)"
proof -
  have "partial_products (uint a) b 48 =
      (\<Sum>i<48. if bit b (47 - i) then
         (\<Sum>j<48. if bit a j \<and> i \<le> j + 8 then 2 ^ (j + 8 - i) else 0) else 0)"
    unfolding partial_products_def
    by (intro sum.cong refl if_cong) (use shifted_copy_sum[OF assms] in simp)
  also have "\<dots> = (\<Sum>k<48. if bit b k then
         (\<Sum>j<48. if bit a j \<and> 47 - k \<le> j + 8 then 2 ^ (j + 8 - (47 - k)) else 0) else 0)"
    by (rule sum.reindex_bij_witness[of _ "\<lambda>k. 47 - k" "\<lambda>k. 47 - k"]) (auto intro!: sum.cong)
  also have "\<dots> = (\<Sum>k<48. \<Sum>j<48. if bit a j \<and> bit b k \<and> 39 \<le> j + k then 2 ^ (j + k - 39) else 0)"
    by (intro sum.cong refl) (auto intro!: sum.cong sum.neutral[symmetric])
  finally show ?thesis .
qed

lemma partial_products_commute:
  fixes a b :: uint64
  assumes "a = take_bit 48 a" "b = take_bit 48 b"
  shows "partial_products (uint a) b 48 = partial_products (uint b) a 48"
  unfolding partial_products_bits[OF assms(1)] partial_products_bits[OF assms(2)]
  by (subst sum.swap) (auto intro!: sum.cong simp: add.commute)

lemma Mult_loop_commute:
  "snd (Mult_loop (push_bit 8 (UFract A)) (push_bit 8 (UFract B))) =
   snd (Mult_loop (push_bit 8 (UFract B)) (push_bit 8 (UFract A)))"
proof -
  have t: "UFract v = take_bit 48 (UFract v)" for v by (simp add: UFract_take_bit)
  show ?thesis
    using partial_products_commute[OF t t, of A B]
    by (simp only: word_uint_eq_iff[of "snd _"] Mult_loop_sum)
qed

lemma arg_cong4:
  "a = a' \<Longrightarrow> b = b' \<Longrightarrow> c = c' \<Longrightarrow> d = d' \<Longrightarrow> f a b c d = f a' b' c' d'"
  by simp

lemma Mult_commute: "Mult a b r h t = Mult b a r h t"
proof -
  have "Mult_finish (RawExp A = 0 \<and> RawExp B = 0)
      (if RawExp A = 0 \<and> RawExp B = 0 then - ExpOfs else Exp A + Exp B) (IsPositive A = IsPositive B)
      (snd (Mult_loop (push_bit 8 (UFract A)) (push_bit 8 (UFract B)))) =
    Mult_finish (RawExp B = 0 \<and> RawExp A = 0)
      (if RawExp B = 0 \<and> RawExp A = 0 then - ExpOfs else Exp B + Exp A) (IsPositive B = IsPositive A)
      (snd (Mult_loop (push_bit 8 (UFract B)) (push_bit 8 (UFract A))))" for A B
    by (intro arg_cong4[where f = Mult_finish] Mult_loop_commute) auto
  then have "(if A = 0 then 0 else if B = 0 then 0 else Mult_finish (RawExp A = 0 \<and> RawExp B = 0)
      (if RawExp A = 0 \<and> RawExp B = 0 then - ExpOfs else Exp A + Exp B) (IsPositive A = IsPositive B)
      (snd (Mult_loop (push_bit 8 (UFract A)) (push_bit 8 (UFract B)))) r h t) =
    (if B = 0 then 0 else if A = 0 then 0 else Mult_finish (RawExp B = 0 \<and> RawExp A = 0)
      (if RawExp B = 0 \<and> RawExp A = 0 then - ExpOfs else Exp B + Exp A) (IsPositive B = IsPositive A)
      (snd (Mult_loop (push_bit 8 (UFract B)) (push_bit 8 (UFract A)))) r h t)" for A B
    by (cases "A = 0"; cases "B = 0"; simp only: simp_thms if_True if_False)
  then show ?thesis unfolding Mult_def Let_def by (simp only:)
qed

text \<open>
  The accuracy of the full-precision product of normalized operands: with \<open>e\<close> the shift that
  renormalization made, the result's fraction is within 18/256 of a unit in the last place
  above the exact product and within a unit and 30/256 below it.
\<close>

lemma partial_products_top:
  fixes b :: uint64
  assumes "0 \<le> a" "bit b 47"
  shows "a * 2 ^ 8 \<le> partial_products a b 48"
proof -
  let ?t = "\<lambda>i. if bit b (47 - i) then (a * 2 ^ 8) div 2 ^ i else 0"
  have "?t 0 \<le> (\<Sum>i<48. ?t i)"
    using assms(1) by (intro member_le_sum) (auto simp: pos_imp_zdiv_nonneg_iff)
  with assms(2) show ?thesis by (simp add: partial_products_def)
qed

lemma IsNormalized_UFract: "IsNormalized v \<Longrightarrow> 2 ^ 47 \<le> uint (UFract v)"
proof -
  assume "IsNormalized v"
  then have "bit (uint (UFract v)) 47" by (simp add: IsNormalized_bit bit_UFract bit_uint_iff)
  then have "\<not> uint (UFract v) < 2 ^ 47"
    by (metis bit_take_bit_iff less_irrefl take_bit_int_eq_self uint_ge_0)
  then show ?thesis by simp
qed

lemma UFract_ge_IsNormalized:
  assumes "2 ^ 47 \<le> uint (UFract v)"
  shows "IsNormalized v"
proof (rule ccontr)
  assume n: "\<not> IsNormalized v"
  have "UFract v = take_bit 47 (UFract v)"
  proof (rule word_eq_by_bits)
    fix k :: nat
    assume "k < LENGTH(64)"
    have "k < 48 \<Longrightarrow> bit v k \<Longrightarrow> k < 47"
      using n by (cases "k = 47") (simp_all add: IsNormalized_bit)
    then show "bit (UFract v) k \<longleftrightarrow> bit (take_bit 47 (UFract v)) k"
      by (auto simp: bit_UFract bit_take_bit_iff)
  qed
  then have "uint (UFract v) < 2 ^ 47"
    by (metis take_bit_int_less_exp unsigned_take_bit_eq)
  with assms show False by simp
qed

lemma Mult_finish_full:
  fixes R :: uint64 and p :: bool
  assumes R: "2 ^ 55 \<le> uint R" "uint R + 18 < 2 ^ 57"
    and E: "ExpMin \<le> E + ExpOfs" "E + ExpOfs + 1 < 2 ^ 15"
  defines "r \<equiv> Mult_finish False E p R False False False"
  shows "\<exists>e\<in>{0, 1::nat}. RawExp r = E + ExpOfs + int e \<and> IsPositive r = p \<and>
     uint (UFract r) = (uint R + 18) div 2 ^ (8 + e) \<and> IsNormalized r"
proof -
  let ?R = "R + 18"
  have u: "uint ?R = uint R + 18"
    using R(2) uint_add_lem[of R 18] by simp
  define e :: nat where "e = (if bit ?R 56 then 1 else 0)"
  have shifted: "(if bit ?R 56 then (E + 1, drop_bit 1 ?R) else (E, ?R)) = (E + int e, drop_bit e ?R)"
    by (simp add: e_def)
  have m: "?R AND push_bit 56 1 \<noteq> 0 \<longleftrightarrow> bit ?R 56"
    by (subst and_single_bit_eq_0) simp_all
  have under: "\<not> E + int e + ExpOfs < ExpMin" using E(1) by simp
  have r: "r = CFloat_of (E + int e) p (drop_bit 8 (drop_bit e ?R))"
    by (simp only: r_def Mult_finish_def CorrectionFactor_def Let_def if_False not_False_eq_True
        if_True m shifted case_prod_conv under)
  have lo: "2 ^ 56 \<le> uint ?R \<longleftrightarrow> bit ?R 56"
  proof -
    have "bit ?R 56 \<longleftrightarrow> odd (uint ?R div 2 ^ 56)"
      using bit_uint_iff[of ?R 56] by (simp only: bit_iff_odd[of "uint ?R"]) simp
    moreover have "uint ?R div 2 ^ 56 = (if 2 ^ 56 \<le> uint ?R then 1 else 0)"
      using R(2) u by (auto simp: div_int_pos_iff not_le intro: int_div_pos_eq[where r = "uint ?R - 2 ^ 56"])
    ultimately show ?thesis by simp
  qed
  let ?q = "(uint R + 18) div 2 ^ (8 + e)"
  have q: "2 ^ 47 \<le> ?q \<and> ?q < 2 ^ 48"
  proof (cases "bit ?R 56")
    case True
    then have "e = 1" "2 ^ 56 \<le> uint R + 18" using lo u by (simp_all add: e_def)
    with R(2) div_bounds[of 512 "uint R + 18"] show ?thesis by simp
  next
    case False
    then have "e = 0" "uint R + 18 < 2 ^ 56" using lo u by (simp_all add: e_def)
    with R(1) div_bounds[of 256 "uint R + 18"] show ?thesis by simp
  qed
  have F: "uint (UFract r) = ?q"
  proof -
    have "uint (drop_bit 8 (drop_bit e ?R)) = ?q"
      by (simp only: drop_bit_drop_bit uint_drop_bit u)
    then show ?thesis
      using q by (simp add: r UFract_CFloat_of unsigned_take_bit_eq take_bit_int_eq_self)
  qed
  moreover have "RawExp r = E + ExpOfs + int e"
  proof -
    have "0 \<le> E + int e + ExpOfs" "E + int e + ExpOfs < 2 ^ 15"
      using E by (simp_all add: ExpMin_def e_def)
    then show ?thesis by (simp add: r RawExp_CFloat_of take_bit_int_eq_self)
  qed
  moreover have "IsNormalized r" using q F by (intro UFract_ge_IsNormalized) simp
  ultimately show ?thesis by (intro bexI[of _ e]) (auto simp: r e_def)
qed

lemma float_mult_correct:
  assumes norm: "IsNormalized a" "IsNormalized b"
    and exps: "ExpMin \<le> RawExp a" "ExpMin \<le> RawExp b"
      "ExpMin \<le> Exp a + Exp b + ExpOfs" "Exp a + Exp b + ExpOfs + 1 < 2 ^ 15"
  defines "AB \<equiv> uint (UFract a) * uint (UFract b)" and "r \<equiv> float_mult a b"
  shows "\<exists>e\<in>{0, 1::nat}. RawExp r = Exp a + Exp b + ExpOfs + int e \<and>
     IsPositive r = (IsPositive a = IsPositive b) \<and> IsNormalized r \<and>
     2 ^ (47 + e) * uint (UFract r) \<le> AB + 18 * 2 ^ 39 \<and>
     AB < 2 ^ (47 + e) * (uint (UFract r) + 1) + 30 * 2 ^ 39"
proof -
  let ?R = "snd (Mult_loop (push_bit 8 (UFract a)) (push_bit 8 (UFract b)))"
  have R: "uint ?R = partial_products (uint (UFract a)) (UFract b) 48"
    by (rule Mult_loop_sum)
  have t: "UFract b = take_bit 48 (UFract b)" by (simp add: UFract_take_bit)
  have ex: "2 ^ 39 * uint ?R \<le> AB" "AB < 2 ^ 39 * (uint ?R + 48)"
    unfolding R AB_def by (rule partial_products_exact[OF t])+
  have "bit (UFract b) 47" using norm(2) by (simp add: IsNormalized_bit bit_UFract)
  then have "uint (UFract a) * 2 ^ 8 \<le> uint ?R"
    unfolding R by (intro partial_products_top) simp_all
  then have lo: "2 ^ 55 \<le> uint ?R" using IsNormalized_UFract[OF norm(1)] by simp
  have "AB \<le> (2 ^ 48 - 1) * (2 ^ 48 - 1)"
    unfolding AB_def using UFract_less[of a] UFract_less[of b] by (intro mult_mono) simp_all
  with ex(1) have hi: "uint ?R + 18 < 2 ^ 57" by simp
  have n0: "RawExp a \<noteq> 0" "RawExp b \<noteq> 0" "a \<noteq> 0" "b \<noteq> 0"
    using exps(1,2) by (auto simp: ExpMin_def)
  have u: "UnderflowOrValue a = a" "UnderflowOrValue b = b"
    using exps(1,2) by (simp_all add: UnderflowOrValue_def)
  have "r = Mult_finish False (Exp a + Exp b) (IsPositive a = IsPositive b) ?R False False False"
    unfolding r_def float_mult_def Mult_def Let_def u using n0 by simp
  then obtain e :: nat where e: "e \<in> {0, 1}" "RawExp r = Exp a + Exp b + ExpOfs + int e"
      "IsPositive r = (IsPositive a = IsPositive b)" "IsNormalized r"
      "uint (UFract r) = (uint ?R + 18) div 2 ^ (8 + e)"
    using Mult_finish_full[OF lo hi exps(3,4), of "IsPositive a = IsPositive b"] by metis
  have p: "(2 :: int) ^ (47 + e) = 2 ^ 39 * 2 ^ (8 + e)" by (simp add: power_add)
  have "uint (UFract r) * 2 ^ (8 + e) \<le> uint ?R + 18"
      "uint ?R + 18 < (uint (UFract r) + 1) * 2 ^ (8 + e)"
    unfolding e(5) by (rule div_bounds; simp)+
  then have "2 ^ (47 + e) * uint (UFract r) \<le> 2 ^ 39 * (uint ?R + 18)"
      "2 ^ 39 * (uint ?R + 18) < 2 ^ (47 + e) * (uint (UFract r) + 1)"
    unfolding p by (simp_all add: algebra_simps)
  with e ex show ?thesis by (intro bexI[of _ e]) auto
qed

section \<open>Reciprocal approximation\<close>

definition ReciprocLookup_s :: "uint64 list" where
  "ReciprocLookup_s = [
   0x7FBF804, 0x7EBE824, 0x7DBD864, 0x7CBC8C4, 0x7BBB944, 0x7ABA9E4, 0x7A3A240, 0x7939310,
   0x7838400, 0x7737510, 0x76B6DA4, 0x75B5EE4, 0x74B5044, 0x7434900, 0x7333A90, 0x7232C40,
   0x71B2524, 0x70B1704, 0x7031000, 0x6F30210, 0x6EAFB24, 0x6DAED64, 0x6D2E690, 0x6C2D900,
   0x6BAD244, 0x6AAC4E4, 0x6A2BE40, 0x69AB7A4, 0x68AAA84, 0x682A400, 0x67A9D84, 0x66A90A4,
   0x6628A40, 0x65A83E4, 0x6527D90, 0x6427100, 0x63A6AC4, 0x6326490, 0x62A5E64, 0x6225840,
   0x6124C10, 0x60A4604, 0x6024000, 0x5FA3A04, 0x5F23410, 0x5EA2E24, 0x5E22840, 0x5DA2264,
   0x5D21C90, 0x5CA16C4, 0x5C21100, 0x5BA0B44, 0x5B20590, 0x5A9FFE4, 0x5A1FA40, 0x599F4A4,
   0x591EF10, 0x589E984, 0x581E400, 0x579DE84, 0x571D910, 0x569D3A4, 0x561CE40, 0x559C8E4,
   0x551C390, 0x549BE44, 0x541B900, 0x541B900, 0x539B3C4, 0x531AE90, 0x529A964, 0x521A440,
   0x5199F24, 0x5199F24, 0x5119A10, 0x5099504, 0x5019000, 0x4F98B04, 0x4F98B04, 0x4F18610,
   0x4E98124, 0x4E17C40, 0x4E17C40, 0x4D97764, 0x4D17290, 0x4C96DC4, 0x4C96DC4, 0x4C16900,
   0x4B96444, 0x4B96444, 0x4B15F90, 0x4A95AE4, 0x4A95AE4, 0x4A15640, 0x49951A4, 0x49951A4,
   0x4914D10, 0x4894884, 0x4894884, 0x4814400, 0x4793F84, 0x4793F84, 0x4713B10, 0x4713B10,
   0x46936A4, 0x4613240, 0x4613240, 0x4592DE4, 0x4592DE4, 0x4512990, 0x4492544, 0x4492544,
   0x4412100, 0x4412100, 0x4391CC4, 0x4391CC4, 0x4311890, 0x4291464, 0x4291464, 0x4211040,
   0x4211040, 0x4190C24, 0x4190C24, 0x4110810, 0x4110810, 0x4090404, 0x4090404, 0x4010000]"

text \<open>One line of the partial product sums: \<open>(GetBit(A, n) != 0 ? (B >> sh) : 0) & ~m\<close>.\<close>

definition FinalMul_term :: "uint64 \<Rightarrow> uint64 \<Rightarrow> nat \<Rightarrow> nat \<Rightarrow> uint64 \<Rightarrow> uint64" where
  "FinalMul_term A B n sh m = (if GetBit A n \<noteq> 0 then drop_bit sh B else 0) AND NOT m"

definition ReciprocApproxFinalMul :: "CInt_t \<Rightarrow> CInt_t \<Rightarrow> bool \<Rightarrow> CInt_t" where
  "ReciprocApproxFinalMul aA aB aDoFinalRounding =
     (let A = aA AND (push_bit 37 1 - 1);
          B = push_bit 3 (aB AND (push_bit 37 1 - 1));
          P = 0;
          SubP = 0;
          SubP = SubP + FinalMul_term A B 0 35 3;
          SubP = SubP + FinalMul_term A B 1 34 3;
          SubP = SubP + FinalMul_term A B 3 32 3;
          SubP = SubP + FinalMul_term A B 4 31 3;
          SubP = SubP + FinalMul_term A B 5 30 3;
          SubP = SubP + FinalMul_term A B 6 29 3;
          SubP = SubP + FinalMul_term A B 7 28 3;
          SubP = SubP AND NOT 7;
          P = P + SubP;
          SubP = 0;
          SubP = SubP + FinalMul_term A B 8 27 1;
          SubP = SubP + FinalMul_term A B 9 26 0;
          SubP = SubP + FinalMul_term A B 10 25 0;
          SubP = SubP + FinalMul_term A B 11 24 0;
          SubP = SubP AND NOT 3;
          P = P + SubP;
          SubP = 0;
          SubP = SubP + FinalMul_term A B 12 23 3;
          SubP = SubP + FinalMul_term A B 13 22 3;
          SubP = SubP + FinalMul_term A B 14 21 7;
          SubP = SubP + FinalMul_term A B 15 20 15;
          P = P + SubP;
          SubP = 0;
          SubP = SubP + FinalMul_term A B 16 19 3;
          SubP = SubP + FinalMul_term A B 17 18 7;
          SubP = SubP + FinalMul_term A B 18 17 3;
          SubP = SubP + FinalMul_term A B 19 16 3;
          SubP = SubP + FinalMul_term A B 20 15 3;
          SubP = SubP + FinalMul_term A B 21 14 3;
          SubP = SubP + FinalMul_term A B 22 13 3;
          SubP = SubP + FinalMul_term A B 23 12 3;
          SubP = SubP AND NOT 7;
          P = P + SubP;
          SubP = 0;
          SubP = SubP + FinalMul_term A B 24 11 1;
          SubP = SubP + FinalMul_term A B 25 10 0;
          SubP = SubP + FinalMul_term A B 26 9 0;
          SubP = SubP + FinalMul_term A B 27 8 0;
          SubP = SubP AND NOT 3;
          P = P + SubP;
          SubP = 0;
          SubP = SubP + FinalMul_term A B 28 7 3;
          SubP = SubP + FinalMul_term A B 29 6 3;
          SubP = SubP + FinalMul_term A B 30 5 7;
          SubP = SubP + FinalMul_term A B 31 4 15;
          P = P + SubP;
          SubP = 0;
          SubP = SubP + FinalMul_term A B 32 3 3;
          SubP = SubP + FinalMul_term A B 33 2 3;
          SubP = SubP + FinalMul_term A B 34 1 3;
          SubP = SubP + FinalMul_term A B 35 0 3;
          SubP = SubP AND NOT 7;
          P = P + SubP;
          P = drop_bit 2 P
      in if aDoFinalRounding
         then let Bit1 = (if GetBit P 1 \<noteq> 0 then 1 else 0);
                  P = drop_bit 2 P;
                  P = P + Bit1
              in drop_bit 2 P
         else P)"

definition FractionalMult :: "uint64 \<Rightarrow> uint64 \<Rightarrow> nat \<Rightarrow> uint64" where
  "FractionalMult aA aB aBitCnt = for_loop 0 aBitCnt
     (\<lambda>BitIdx RetVal. RetVal + (if GetBit aA BitIdx \<noteq> 0 then drop_bit (aBitCnt - BitIdx - 1) aB else 0)) 0"

text \<open>The two Newton steps on the fraction, and the assembly of the result.\<close>

definition ReciprocApprox_fract :: "uint64 \<Rightarrow> uint64" where
  "ReciprocApprox_fract aInput =
     (let LookupIdx = unat (drop_bit 40 aInput AND 127);
          LookupVal = ReciprocLookup_s ! LookupIdx;
          twiceA0 = drop_bit 18 LookupVal;
          A0sq = drop_bit 2 LookupVal AND 0xffff;
          Mantissa = aInput AND FractMask;
          A0sqB = FractionalMult A0sq (drop_bit 24 Mantissa) 16;
          RoundedA0 = push_bit 8 (push_bit 8 twiceA0 + 1) + drop_bit 1 twiceA0;
          A1 = drop_bit 6 (RoundedA0 - A0sqB - 256);
          A1 = A1 AND (push_bit 18 1 - 1);
          A1sq = A1 * A1;
          B2 = drop_bit 11 (Mantissa OR push_bit 47 1);
          A1sqB2 = ReciprocApproxFinalMul A1sq B2 True;
          FinalMantissa = push_bit 31 A1 - push_bit 14 A1sqB2 - 1
      in (FinalMantissa OR push_bit 47 1) AND 0xffffffff8000)"

definition ReciprocApprox :: "CFloat_t \<Rightarrow> CFloat_t" where
  "ReciprocApprox aInput =
     (let FinalMantissa = ReciprocApprox_fract aInput;
          Exponent = (word_of_int (RawExp aInput) :: uint16);
          Sign = (drop_bit 63 aInput = 0);
          (FinalExp, FinalMantissa) =
            (if Exponent < 0x6000 \<and> Exponent > 0x2001
             then (word_of_int (2 * ExpOfs - uint Exponent - 1) :: uint16, FinalMantissa)
             else (0x6000, FinalMantissa AND NOT (push_bit 47 1)))
      in CFloat_of (uint FinalExp - ExpOfs) Sign FinalMantissa)"

text \<open>The table access of \<open>CRAY_ASSERT\<close> is within bounds for every input.\<close>

lemma ReciprocLookup_bounds: "unat (drop_bit 40 x AND 127) < length ReciprocLookup_s"
proof -
  have "drop_bit 40 x AND 127 = take_bit 7 (drop_bit 40 x)"
    by (simp add: take_bit_eq_mask mask_eq_exp_minus_1)
  then have "unat (drop_bit 40 x AND 127) < 2 ^ 7"
    by (metis take_bit_nat_less_exp unsigned_take_bit_eq)
  then show ?thesis by (simp add: ReciprocLookup_s_def)
qed

lemma fract_mask_bits:
  fixes X :: uint64
  defines "r \<equiv> (X OR push_bit 47 1) AND 0xffffffff8000"
  shows "bit r 47" "n < 15 \<Longrightarrow> \<not> bit r n" "bit r n \<Longrightarrow> n < 48"
proof -
  have m: "0xffffffff8000 = push_bit 15 (mask 33 :: uint64)"
    by (simp add: push_bit_eq_mult mask_eq_exp_minus_1)
  show "bit r 47" "n < 15 \<Longrightarrow> \<not> bit r n" "bit r n \<Longrightarrow> n < 48"
    unfolding r_def m by (auto simp: bit_and_iff bit_or_iff bit_single bit_push_bit_iff bit_mask_iff)
qed

lemma ReciprocApprox_fract_bits:
  "bit (ReciprocApprox_fract v) 47" "n < 15 \<Longrightarrow> \<not> bit (ReciprocApprox_fract v) n"
  "bit (ReciprocApprox_fract v) n \<Longrightarrow> n < 48"
  unfolding ReciprocApprox_fract_def Let_def by (fact fract_mask_bits)+

lemma positive_drop: "drop_bit 63 v = 0 \<longleftrightarrow> IsPositive v" for v :: uint64
proof
  assume "drop_bit 63 v = 0"
  then have "\<not> bit (drop_bit 63 v) 0" by simp
  then show "IsPositive v" by (simp add: IsPositive_bit bit_drop_bit_eq)
next
  assume p: "IsPositive v"
  show "drop_bit 63 v = 0"
  proof (rule word_eq_by_bits)
    fix n :: nat
    show "bit (drop_bit 63 v) n \<longleftrightarrow> bit (0 :: uint64) n"
      using p bit_imp_less_length[of v "63 + n"]
      by (cases "n = 0") (auto simp: IsPositive_bit bit_drop_bit_eq)
  qed
qed

lemma RawExp_uint16: "uint (word_of_int (RawExp v) :: uint16) = RawExp v"
  using RawExp_bounds[of v] by (simp add: uint_word_of_int)

lemma ReciprocApprox_valid:
  assumes "0x2001 < RawExp v" "RawExp v < 0x6000"
  defines "r \<equiv> ReciprocApprox v"
  shows "RawExp r = 2 * ExpOfs - 1 - RawExp v \<and> IsPositive r = IsPositive v \<and> IsNormalized r \<and>
    UFract r = ReciprocApprox_fract v"
proof -
  have c: "(word_of_int (RawExp v) :: uint16) < 0x6000 \<and> (word_of_int (RawExp v) :: uint16) > 0x2001"
    using assms by (simp add: word_less_def RawExp_uint16)
  have e: "uint (word_of_int (2 * ExpOfs - RawExp v - 1) :: uint16) = 2 * ExpOfs - RawExp v - 1"
    using assms by (simp add: uint_word_of_int ExpOfs_def del: of_int_diff)
  have r: "r = CFloat_of (2 * ExpOfs - RawExp v - 1 - ExpOfs) (IsPositive v) (ReciprocApprox_fract v)"
    unfolding r_def ReciprocApprox_def Let_def
    by (simp only: c simp_thms if_True case_prod_conv RawExp_uint16 e positive_drop)
  have "UFract r = ReciprocApprox_fract v"
  proof (rule word_eq_by_bits)
    fix n :: nat
    show "bit (UFract r) n = bit (ReciprocApprox_fract v) n"
      using ReciprocApprox_fract_bits(3)[of v n]
      by (auto simp: r UFract_CFloat_of bit_take_bit_iff)
  qed
  moreover have "RawExp r = 2 * ExpOfs - 1 - RawExp v"
    using assms(1,2) by (simp add: r RawExp_CFloat_of take_bit_int_eq_self ExpOfs_def)
  moreover have "IsNormalized r"
    by (simp add: r IsNormalized_bit CFloat_of_bits ReciprocApprox_fract_bits)
  ultimately show ?thesis by (simp add: r)
qed

end
