(* ===== verification/Machine.thy ===== *)
theory Machine
  imports Mainframe Cray_Float
begin

text \<open>
  The state of one processor, class \<open>SoftCpu_c\<close> of \<^verbatim>\<open>sim_lib/cray_softcpu.h\<close>, and the helpers
  that its instructions are written with: the fields of an instruction, the register
  references with their special values for register 0, the memory accesses relative to the
  base addresses, the cluster and interrupt bookkeeping, and the bit counting and shift
  functions. Register files are functions from the register index. The history buffer, the
  log, the performance counters and the breakpoints are left out.
\<close>

section \<open>State\<close>

record CpuState_s =
  stA :: "nat \<Rightarrow> CAddr_t"
  stB :: "nat \<Rightarrow> CAddr_t"
  stS :: "nat \<Rightarrow> CInt_t"
  stT :: "nat \<Rightarrow> CInt_t"
  stV :: "nat \<Rightarrow> nat \<Rightarrow> CInt_t"
  VL :: uint8
  VM :: CInt_t
  ExchangePacketAddress :: uint8
  ProgramAddress :: CProgramAddr_t
  InstBaseAddr :: CAddr_t
  InstLimitAddr :: CAddr_t
  DataBaseAddr :: CAddr_t
  DataLimitAddr :: CAddr_t
  Mode :: Mode_c
  Flags :: Flags_c
  InterruptMask :: Flags_c
  PeriodicInterruptLimit :: uint32
  PeriodicInterruptCountDown :: uint32
  PeriodicInterruptEnabled :: bool
  Cluster :: uint8
  TestAndSetBlocked :: bool
  VectorNotUsed :: bool
  EnableSecondVectorLogical :: bool
  XmpProgramState :: bool
  BitMatrix :: "nat \<Rightarrow> CInt_t"
  AddrMask :: CAddr_t
  XMode :: bool
  XmpEnhancedAddressingMode :: bool

record MemoryPoke_s =
  pokeAddr :: CAddr_t
  pokeValue :: CInt_t
  IsParcelPoke :: bool

record SoftCpu_c =
  mState :: CpuState_s
  mCallStack :: "CpuState_s list"
  mCpuId :: nat
  mInReset :: bool
  mThrowOnUnknown :: bool
  mThrowOnUnimplemented :: bool
  mTimerIncrement :: uint32
  mInstructionBurstSize :: nat
  mInstCnt :: uint64
  mMemoryPokes :: "MemoryPoke_s list"
  mMainframe :: mainframe

definition cVecSize :: nat where "cVecSize = 64"

section \<open>Instruction fields\<close>

definition FirstParcel :: "uint64 \<Rightarrow> uint64" where "FirstParcel aInst = drop_bit 32 aInst AND 0xffff"
definition SecondParcel :: "uint64 \<Rightarrow> uint64" where "SecondParcel aInst = drop_bit 16 aInst AND 0xffff"
definition ThirdParcel :: "uint64 \<Rightarrow> uint64" where "ThirdParcel aInst = aInst AND 0xffff"

definition FieldG :: "uint64 \<Rightarrow> nat" where "FieldG w = unat (drop_bit 12 (FirstParcel w AND 0xf000))"
definition FieldH :: "uint64 \<Rightarrow> nat" where "FieldH w = unat (drop_bit 9 (FirstParcel w AND 0x0e00))"
definition FieldGH :: "uint64 \<Rightarrow> nat" where "FieldGH w = unat (drop_bit 9 (FirstParcel w AND 0xfe00))"
definition FieldI :: "uint64 \<Rightarrow> nat" where "FieldI w = unat (drop_bit 6 (FirstParcel w AND 0x01c0))"
definition FieldJ :: "uint64 \<Rightarrow> nat" where "FieldJ w = unat (drop_bit 3 (FirstParcel w AND 0x0038))"
definition FieldK :: "uint64 \<Rightarrow> nat" where "FieldK w = unat (FirstParcel w AND 0x0007)"
definition FieldJK :: "uint64 \<Rightarrow> nat" where "FieldJK w = unat (FirstParcel w AND 0x003f)"
definition FieldIJK :: "uint64 \<Rightarrow> nat" where "FieldIJK w = unat (FirstParcel w AND 0x01ff)"
definition FieldM :: "uint64 \<Rightarrow> uint64" where "FieldM w = SecondParcel w"
definition FieldJKM :: "uint64 \<Rightarrow> uint64" where "FieldJKM w = drop_bit 16 (w AND 0x003fffff0000)"
definition FieldIJKM :: "uint64 \<Rightarrow> uint64" where "FieldIJKM w = drop_bit 16 (w AND 0x01ffffff0000)"
definition FieldMN :: "uint64 \<Rightarrow> uint64" where
  "FieldMN w = SecondParcel w OR push_bit 16 (ThirdParcel w)"

section \<open>Machine type and mode tests\<close>

definition GetMachineType :: "SoftCpu_c \<Rightarrow> MachineTypes_e" where
  "GetMachineType s = mMachineType (mMainframe s)"
definition cpu_IsXmp :: "SoftCpu_c \<Rightarrow> bool" where
  "cpu_IsXmp s = IsXmp (GetMachineType s)"
definition IsJ90OrSV1 :: "SoftCpu_c \<Rightarrow> bool" where
  "IsJ90OrSV1 s \<longleftrightarrow> GetMachineType s = J90 \<or> GetMachineType s = SV1"
definition IsSV1 :: "SoftCpu_c \<Rightarrow> bool" where
  "IsSV1 s \<longleftrightarrow> GetMachineType s = SV1"
definition IsXMode :: "SoftCpu_c \<Rightarrow> bool" where
  "IsXMode s = XMode (mState s)"
definition GetAddrMask :: "SoftCpu_c \<Rightarrow> CAddr_t" where
  "GetAddrMask s = AddrMask (mState s)"
definition IsMonitorMode :: "SoftCpu_c \<Rightarrow> bool" where
  "IsMonitorMode s = mMonitorMode (Mode (mState s))"

definition cpu_SignExtend :: "CAddr_t \<Rightarrow> SoftCpu_c \<Rightarrow> uint32" where
  "cpu_SignExtend aA s = (if IsXMode s then SignExtend (CXmpAddr_of32 aA) else SignExtend32 aA)"

section \<open>Register references\<close>

text \<open>
  The macros \<open>RefAi\<close>, \<open>RefAj\<close>, \<open>RefAk\<close> and their kin: a read masks an address register, and
  register 0 reads as a constant where the macro has a special value.
\<close>

definition RefA :: "nat \<Rightarrow> SoftCpu_c \<Rightarrow> CAddr_t" where
  "RefA i s = GetAddrMask s AND stA (mState s) i"
definition RefAh :: "nat \<Rightarrow> SoftCpu_c \<Rightarrow> CAddr_t" where
  "RefAh h s = (if h = 0 then 0 else RefA h s)"
definition RefAj :: "nat \<Rightarrow> SoftCpu_c \<Rightarrow> CAddr_t" where
  "RefAj j s = (if j = 0 then 0 else RefA j s)"
definition RefAk :: "nat \<Rightarrow> SoftCpu_c \<Rightarrow> CAddr_t" where
  "RefAk k s = (if k = 0 then 1 else RefA k s)"

definition RefS :: "nat \<Rightarrow> SoftCpu_c \<Rightarrow> CInt_t" where
  "RefS i s = stS (mState s) i"
definition RefSj :: "nat \<Rightarrow> SoftCpu_c \<Rightarrow> CInt_t" where
  "RefSj j s = (if j = 0 then 0 else stS (mState s) j)"
definition RefSk :: "nat \<Rightarrow> SoftCpu_c \<Rightarrow> CInt_t" where
  "RefSk k s = (if k = 0 then 0x8000000000000000 else stS (mState s) k)"

definition RefB :: "nat \<Rightarrow> SoftCpu_c \<Rightarrow> CAddr_t" where
  "RefB jk s = GetAddrMask s AND stB (mState s) jk"
definition RefT :: "nat \<Rightarrow> SoftCpu_c \<Rightarrow> CInt_t" where
  "RefT jk s = stT (mState s) jk"

definition own_cluster :: "SoftCpu_c \<Rightarrow> cluster" where
  "own_cluster s = mClusters (mMainframe s) ! (unat (Cluster (mState s)) - 1)"

definition RefSB :: "nat \<Rightarrow> SoftCpu_c \<Rightarrow> CAddr_t" where
  "RefSB j s = GetAddrMask s AND SB (own_cluster s) j"
definition RefST :: "nat \<Rightarrow> SoftCpu_c \<Rightarrow> CInt_t" where
  "RefST j s = ST (own_cluster s) j"

definition upd_state :: "(CpuState_s \<Rightarrow> CpuState_s) \<Rightarrow> SoftCpu_c \<Rightarrow> SoftCpu_c" where
  "upd_state f s = s\<lparr>mState := f (mState s)\<rparr>"
definition upd_mainframe :: "(mainframe \<Rightarrow> mainframe) \<Rightarrow> SoftCpu_c \<Rightarrow> SoftCpu_c" where
  "upd_mainframe f s = s\<lparr>mMainframe := f (mMainframe s)\<rparr>"
definition upd_cluster :: "(cluster \<Rightarrow> cluster) \<Rightarrow> SoftCpu_c \<Rightarrow> SoftCpu_c" where
  "upd_cluster f s = upd_mainframe (\<lambda>mf. mf\<lparr>mClusters :=
     (mClusters mf)[unat (Cluster (mState s)) - 1 := f (own_cluster s)]\<rparr>) s"

definition PutA :: "nat \<Rightarrow> CAddr_t \<Rightarrow> SoftCpu_c \<Rightarrow> SoftCpu_c" where
  "PutA i aValue s = upd_state (\<lambda>c. c\<lparr>stA := (stA c)(i := aValue AND GetAddrMask s)\<rparr>) s"
definition PutS :: "nat \<Rightarrow> CInt_t \<Rightarrow> SoftCpu_c \<Rightarrow> SoftCpu_c" where
  "PutS i aValue s = upd_state (\<lambda>c. c\<lparr>stS := (stS c)(i := aValue)\<rparr>) s"
definition PutB :: "nat \<Rightarrow> CAddr_t \<Rightarrow> SoftCpu_c \<Rightarrow> SoftCpu_c" where
  "PutB i aValue s = upd_state (\<lambda>c. c\<lparr>stB := (stB c)(i := aValue AND GetAddrMask s)\<rparr>) s"
definition PutT :: "nat \<Rightarrow> CInt_t \<Rightarrow> SoftCpu_c \<Rightarrow> SoftCpu_c" where
  "PutT i aValue s = upd_state (\<lambda>c. c\<lparr>stT := (stT c)(i := aValue)\<rparr>) s"
definition PutSB :: "nat \<Rightarrow> CAddr_t \<Rightarrow> SoftCpu_c \<Rightarrow> SoftCpu_c" where
  "PutSB j aValue s = upd_cluster (\<lambda>c. c\<lparr>SB := (SB c)(j := aValue AND GetAddrMask s)\<rparr>) s"
definition PutST :: "nat \<Rightarrow> CInt_t \<Rightarrow> SoftCpu_c \<Rightarrow> SoftCpu_c" where
  "PutST j aValue s = upd_cluster (\<lambda>c. c\<lparr>ST := (ST c)(j := aValue)\<rparr>) s"
definition PutV :: "nat \<Rightarrow> nat \<Rightarrow> CInt_t \<Rightarrow> SoftCpu_c \<Rightarrow> SoftCpu_c" where
  "PutV i n aValue s = upd_state (\<lambda>c. c\<lparr>stV := (stV c)(i := (stV c i)(n := aValue))\<rparr>) s"
definition PutBM :: "nat \<Rightarrow> CInt_t \<Rightarrow> SoftCpu_c \<Rightarrow> SoftCpu_c" where
  "PutBM n aValue s = upd_state (\<lambda>c. c\<lparr>BitMatrix := (BitMatrix c)(n := aValue)\<rparr>) s"
definition VectorUsed :: "SoftCpu_c \<Rightarrow> SoftCpu_c" where
  "VectorUsed s = upd_state (VectorNotUsed_update (\<lambda>_. False)) s"
definition PutVM :: "CInt_t \<Rightarrow> SoftCpu_c \<Rightarrow> SoftCpu_c" where
  "PutVM aValue s = VectorUsed (upd_state (VM_update (\<lambda>_. aValue)) s)"
definition PutVL :: "uint8 \<Rightarrow> SoftCpu_c \<Rightarrow> SoftCpu_c" where
  "PutVL aValue s = upd_state (VL_update (\<lambda>_. aValue)) s"
definition PutP :: "CProgramAddr_t \<Rightarrow> SoftCpu_c \<Rightarrow> SoftCpu_c" where
  "PutP aValue s = upd_state (ProgramAddress_update (\<lambda>_. aValue)) s"
definition upd_Flags :: "(Flags_c \<Rightarrow> Flags_c) \<Rightarrow> SoftCpu_c \<Rightarrow> SoftCpu_c" where
  "upd_Flags f s = upd_state (Flags_update f) s"
definition upd_Mode :: "(Mode_c \<Rightarrow> Mode_c) \<Rightarrow> SoftCpu_c \<Rightarrow> SoftCpu_c" where
  "upd_Mode f s = upd_state (Mode_update f) s"

section \<open>Results of an instruction\<close>

text \<open>
  An instruction returns the increment of the program address and whether to leave the
  instruction burst, or throws. The three macros \<open>CRAY_UNKNOWN\<close>, \<open>CRAY_UNIMPLEMENTED\<close> and
  \<open>CRAY_UNDOCUMENTED_FLOW_THROUGH\<close> depend on the configuration.
\<close>

type_synonym inst = "(SoftCpu_c, nat \<times> bool) exec"

definition ret :: "nat \<Rightarrow> inst" where "ret n s = (Inr (n, False), s)"
definition ret_break :: "nat \<Rightarrow> inst" where "ret_break n s = (Inr (n, True), s)"

definition CRAY_UNKNOWN :: inst where
  "CRAY_UNKNOWN s = (if mThrowOnUnknown s then (Inl UnknownInstError, s) else ret 1 s)"
definition CRAY_UNIMPLEMENTED :: inst where
  "CRAY_UNIMPLEMENTED s = (if mThrowOnUnimplemented s then (Inl InstUnimplementedError, s) else ret 1 s)"
definition CRAY_UNDOCUMENTED :: "bool \<Rightarrow> inst \<Rightarrow> inst" where
  "CRAY_UNDOCUMENTED aCond rest s =
     (if \<not> aCond \<and> mThrowOnUnknown s then (Inl UndocumentedInstError, s) else rest s)"
definition CRAY_ASSERT :: "bool \<Rightarrow> inst \<Rightarrow> inst" where
  "CRAY_ASSERT aCond rest s = (if aCond then rest s else (Inl AssertError, s))"

text \<open>Run a computation without a result of its own, then return.\<close>

definition and_then :: "(SoftCpu_c, unit) exec \<Rightarrow> inst \<Rightarrow> inst" where
  "and_then m rest s = bindE m (\<lambda>_. rest) s"

definition on_mainframe :: "(mainframe, 'a) exec \<Rightarrow> (SoftCpu_c, 'a) exec" where
  "on_mainframe m s = (case m (mMainframe s) of (r, mf) \<Rightarrow> (r, s\<lparr>mMainframe := mf\<rparr>))"

section \<open>Memory\<close>

text \<open>
  \<open>PhysicalAddress %= cMemSize\<close>; the memory is not empty, otherwise the remainder is
  undefined in the code.
\<close>

definition DataAddress :: "CAddr_t \<Rightarrow> SoftCpu_c \<Rightarrow> CAddr_t" where
  "DataAddress aAddr s =
     of_nat (unat (aAddr + DataBaseAddr (mState s)) mod mMemSizeInWords (mMainframe s))"

definition ReadDataMem :: "CAddr_t \<Rightarrow> SoftCpu_c \<Rightarrow> exn + CInt_t" where
  "ReadDataMem aAddr s =
     (let PhysicalAddress = DataAddress aAddr s in
      if PhysicalAddress \<ge> DataLimitAddr (mState s) then
        if mOperandRangeErrorMode (Mode (mState s)) then Inl DataReadOutOfBoundsError else Inr 0
      else if \<not> unat PhysicalAddress < mMemSizeInWords (mMainframe s) then Inl AssertError
      else Inr (SwapBytes64 (MemRead PhysicalAddress (mMainframe s))))"

definition WriteDataMem :: "CAddr_t \<Rightarrow> CInt_t \<Rightarrow> (SoftCpu_c, unit) exec" where
  "WriteDataMem aAddr aData s =
     (let PhysicalAddress = DataAddress aAddr s in
      if PhysicalAddress \<ge> DataLimitAddr (mState s) then
        if mOperandRangeErrorMode (Mode (mState s)) then (Inl DataWriteOutOfBoundsError, s) else (Inr (), s)
      else if \<not> unat PhysicalAddress < mMemSizeInWords (mMainframe s) then (Inl AssertError, s)
      else (Inr (), upd_mainframe (MemWrite PhysicalAddress (SwapBytes64 aData)) s))"

text \<open>The overload for an address operand.\<close>

definition WriteDataMemAddr :: "CAddr_t \<Rightarrow> CAddr_t \<Rightarrow> (SoftCpu_c, unit) exec" where
  "WriteDataMemAddr aAddr aData = WriteDataMem aAddr (ucast (ZeroExtend aData))"

text \<open>\<open>InstMemRead_s\<close>: the three parcels, and the constant size 3.\<close>

definition ReadInstMem :: "CProgramAddr_t \<Rightarrow> SoftCpu_c \<Rightarrow> exn + uint64" where
  "ReadInstMem aAddr s =
     (let mf = mMainframe s;
          PhysicalAddress = unat (aAddr + InstBaseAddr (mState s) * 4) mod mMemSizeInParcels mf in
      if PhysicalAddress div 4 \<ge> unat (InstLimitAddr (mState s)) then Inl InstFetchOutOfBoundsError
      else
        let parcel = (\<lambda>n. ucast (SwapBytes16 (load16 (mMemory mf) (2 * PhysicalAddress + 2 * n))) :: uint64)
        in Inr (push_bit 32 (parcel 0) OR push_bit 16 (parcel 1) OR parcel 2))"

text \<open>A load continues with the word read, or throws.\<close>

definition with_read :: "CAddr_t \<Rightarrow> (CInt_t \<Rightarrow> (SoftCpu_c, 'a) exec) \<Rightarrow> (SoftCpu_c, 'a) exec" where
  "with_read aAddr f s = (case ReadDataMem aAddr s of Inl e \<Rightarrow> (Inl e, s) | Inr v \<Rightarrow> f v s)"

section \<open>Status register and clusters\<close>

definition GetSR :: "nat \<Rightarrow> SoftCpu_c \<Rightarrow> exn + CInt_t" where
  "GetSR aSrIdx s =
     (if aSrIdx = 0 then
        (let c = mState s; M = Mode c;
             RetVal = SetBits 0 63 63 (if Cluster c \<noteq> 0 then 1 else 0);
             RetVal = (if cpu_IsXmp s then SetBits RetVal 57 57 (if XmpProgramState c then 1 else 0) else RetVal);
             RetVal = (if IsJ90OrSV1 s then SetBits RetVal 57 57 (if mSv1BitMatrixLoaded M then 1 else 0) else RetVal);
             RetVal = SetBits RetVal 51 51 (if mFloatingPointErrorStatus M then 1 else 0);
             RetVal = SetBits RetVal 50 50 (if mFloatingPointErrorMode M then 1 else 0);
             RetVal = SetBits RetVal 49 49 (if mOperandRangeErrorMode M then 1 else 0);
             RetVal = SetBits RetVal 48 48 (if mBidirectionalMemoryMode M then 1 else 0);
             RetVal = SetBits RetVal 44 40 (of_nat (mCpuId s));
             RetVal = SetBits RetVal 37 32 (ucast (Cluster c))
         in Inr RetVal)
      else Inl GenericError)"

definition upd_ClusterCpuCnt :: "(uint64 \<Rightarrow> uint64) \<Rightarrow> uint8 \<Rightarrow> (SoftCpu_c, unit) exec" where
  "upd_ClusterCpuCnt f aCluster s =
     (let ix = unat aCluster - 1; mf = mMainframe s in
      if ix < length (mClusters mf)
      then (Inr (), upd_mainframe (\<lambda>mf. mf\<lparr>mClusters :=
             (mClusters mf)[ix := ClusterCpuCnt_update f (mClusters mf ! ix)]\<rparr>) s)
      else (Inl AssertError, s))"

definition SetCluster :: "uint8 \<Rightarrow> (SoftCpu_c, unit) exec" where
  "SetCluster aCluster s =
     (let old = Cluster (mState s) in
      bindE (if old \<noteq> aCluster \<and> old \<noteq> 0 then upd_ClusterCpuCnt (\<lambda>n. n - 1) old else returnE ())
        (\<lambda>_. bindE (if old \<noteq> aCluster \<and> aCluster \<noteq> 0
                    then upd_ClusterCpuCnt (\<lambda>n. n + 1) aCluster else returnE ())
          (\<lambda>_ s. (Inr (), upd_state (Cluster_update (\<lambda>_. aCluster)) s))) s)"

section \<open>Interrupt masks\<close>

definition InterruptMaskFromState :: "SoftCpu_c \<Rightarrow> uint16" where
  "InterruptMaskFromState s =
     (let M = Mode (mState s) in
      if mMonitorMode M then
        if mInterruptMonitorMode M then
          F_Deadlock OR F_McuInterrupt OR F_FloatingPointError OR F_OperandRangeError OR
          F_ProgramRangeError OR F_MemoryError OR F_ErrorExit OR F_NormalExit
        else
          (if mInReset s then F_InterProcessorInterrupt else 0) OR
          F_McuInterrupt OR F_MemoryError OR F_ErrorExit OR F_NormalExit
      else
        F_InterProcessorInterrupt OR F_Deadlock OR F_ProgrammableClockInterrupt OR F_McuInterrupt OR
        (if mFloatingPointErrorMode M then F_FloatingPointError else 0) OR
        (if mOperandRangeErrorMode M then F_OperandRangeError else 0) OR
        F_ProgramRangeError OR
        (if mCorrectableMemoryErrorMode M \<or> mUncorrectableMemoryErrorMode M then F_MemoryError else 0) OR
        F_IoInterrupt OR F_ErrorExit OR F_NormalExit)"

definition CalcInterruptMask :: "SoftCpu_c \<Rightarrow> SoftCpu_c" where
  "CalcInterruptMask s = upd_state (InterruptMask_update (\<lambda>_. InterruptMaskFromState s)) s"

section \<open>Counting bits and shifting\<close>

definition PopulationCnt :: "CInt_t \<Rightarrow> CAddr_t" where
  "PopulationCnt aS = snd (for_loop 0 64
     (\<lambda>i (Mask, RetVal). (push_bit 1 Mask, if aS AND Mask \<noteq> 0 then RetVal + 1 else RetVal)) (1, 0))"

definition PopulationCntParity :: "CInt_t \<Rightarrow> CAddr_t" where
  "PopulationCntParity aS = PopulationCnt aS AND 1"

text \<open>The loop of \<open>LeadingZeroCnt\<close>, \<open>n\<close> turns before its end; it returns from inside.\<close>

fun LeadingZeroCnt_loop :: "nat \<Rightarrow> CInt_t \<Rightarrow> CInt_t \<Rightarrow> CAddr_t \<Rightarrow> CAddr_t" where
  "LeadingZeroCnt_loop 0 aS Mask RetVal = RetVal"
| "LeadingZeroCnt_loop (Suc n) aS Mask RetVal =
     (if aS AND Mask \<noteq> 0 then RetVal
      else LeadingZeroCnt_loop n aS (drop_bit 1 Mask) (RetVal + 1))"

definition LeadingZeroCnt :: "CInt_t \<Rightarrow> CAddr_t" where
  "LeadingZeroCnt aS = LeadingZeroCnt_loop 64 aS 0x8000000000000000 0"

definition ShiftRight :: "CInt_t \<Rightarrow> CAddr_t \<Rightarrow> CInt_t" where
  "ShiftRight aValue aAmount = (if aAmount \<ge> 64 then 0 else drop_bit (unat aAmount) aValue)"

definition ShiftLeft :: "CInt_t \<Rightarrow> CAddr_t \<Rightarrow> CInt_t" where
  "ShiftLeft aValue aAmount = (if aAmount \<ge> 64 then 0 else push_bit (unat aAmount) aValue)"

definition DoubleShiftRight :: "CInt_t \<Rightarrow> CInt_t \<Rightarrow> CAddr_t \<Rightarrow> CInt_t" where
  "DoubleShiftRight aFirst aSecond aAmount =
     (if aAmount \<ge> 128 then 0
      else if aAmount \<ge> 64 then drop_bit (unat aAmount - 64) aFirst
      else if aAmount = 0 then aSecond
      else drop_bit (unat aAmount) aSecond OR push_bit (64 - unat aAmount) aFirst)"

definition DoubleShiftLeft :: "CInt_t \<Rightarrow> CInt_t \<Rightarrow> CAddr_t \<Rightarrow> CInt_t" where
  "DoubleShiftLeft aFirst aSecond aAmount =
     (if aAmount \<ge> 128 then 0
      else if aAmount \<ge> 64 then push_bit (unat aAmount - 64) aSecond
      else if aAmount = 0 then aFirst
      else push_bit (unat aAmount) aFirst OR drop_bit (64 - unat aAmount) aSecond)"

lemma PopulationCnt_card: "PopulationCnt x = of_nat (card {n. bit x n})"
proof -
  let ?f = "\<lambda>i :: nat. \<lambda>(Mask, RetVal). (push_bit 1 Mask, if x AND Mask \<noteq> 0 then RetVal + 1 else RetVal)"
  let ?I = "\<lambda>k (M, R). M = (push_bit k 1 :: uint64) \<and> R = (of_nat (card {n. n < k \<and> bit x n}) :: uint32)"
  have "?I 64 (for_loop 0 64 ?f (1, 0))"
  proof (rule for_loop_invariant[where I = ?I])
    fix i and s :: "uint64 \<times> uint32"
    assume i: "i < 64" and I: "?I i s"
    obtain M R where s: "s = (M, R)" by force
    have t: "x AND push_bit i 1 = 0 \<longleftrightarrow> \<not> bit x i"
      using i by (intro and_single_bit_eq_0) simp
    have "{n. n < Suc i \<and> bit x n} = (if bit x i then insert i {n. n < i \<and> bit x n} else {n. n < i \<and> bit x n})"
      by (auto simp: less_Suc_eq)
    moreover have "push_bit 1 (push_bit i 1) = (push_bit (Suc i) 1 :: uint64)"
      by (simp only: push_bit_push_bit) simp
    ultimately show "?I (Suc i) (?f i s)"
      using I t by (simp only: s case_prod_conv) auto
  qed simp_all
  moreover have "{n. n < 64 \<and> bit x n} = {n. bit x n}"
    by (auto dest: bit_imp_less_length)
  ultimately show ?thesis by (simp add: PopulationCnt_def split: prod.splits)
qed

text \<open>The count of leading zeros: the bits above are clear and the next one is set.\<close>

lemma LeadingZeroCnt_loop_spec:
  fixes x :: uint64
  assumes "n \<le> 64" "\<And>m. n \<le> m \<Longrightarrow> \<not> bit x m"
  shows "LeadingZeroCnt_loop n x (if n = 0 then 0 else push_bit (n - 1) 1) (of_nat (64 - n)) =
    of_nat (if x = 0 then 64 else 63 - Max {m. bit x m})"
  using assms
proof (induction n)
  case 0
  then have "x = 0" by (intro word_eq_by_bits) simp
  then show ?case by simp
next
  case (Suc n)
  have t: "x AND push_bit n 1 = 0 \<longleftrightarrow> \<not> bit x n"
    using Suc.prems by (intro and_single_bit_eq_0) simp
  show ?case
  proof (cases "bit x n")
    case True
    have "Max {m. bit x m} = n"
      using True Suc.prems(2) by (intro Max_eqI) (auto simp: not_less_eq_eq[symmetric] intro: finite_subset[of _ "{..n}"])
    moreover have "x \<noteq> 0" using True by auto
    ultimately show ?thesis using True t by simp
  next
    case False
    have "LeadingZeroCnt_loop n x (if n = 0 then 0 else push_bit (n - 1) 1) (of_nat (64 - n)) =
        of_nat (if x = 0 then 64 else 63 - Max {m. bit x m})"
    proof (rule Suc.IH)
      show "\<not> bit x m" if "n \<le> m" for m
        using that False Suc.prems(2)[of m] by (cases "m = n") simp_all
    qed (use Suc.prems in simp)
    moreover have "drop_bit 1 (push_bit n 1 :: uint64) = (if n = 0 then 0 else push_bit (n - 1) 1)"
      using Suc.prems by (intro drop_bit_1_single) simp
    moreover have "(of_nat (64 - Suc n) :: uint32) + 1 = of_nat (64 - n)"
      using Suc.prems by (metis Suc_diff_Suc Suc_le_lessD add.commute of_nat_Suc)
    ultimately show ?thesis using False t by simp
  qed
qed

lemma LeadingZeroCnt_spec:
  "LeadingZeroCnt x = of_nat (if x = 0 then 64 else 63 - Max {m. bit x m})"
  using LeadingZeroCnt_loop_spec[of 64 x] bit_imp_less_length[of x]
  by (simp add: LeadingZeroCnt_def push_bit_eq_mult not_le[symmetric]) fastforce

text \<open>A double shift is a window of the 128-bit concatenation of its operands.\<close>

lemma bit_cat_128:
  "bit (word_cat (a :: uint64) (b :: uint64) :: 128 word) n \<longleftrightarrow>
     (if n < 64 then bit b n else n < 128 \<and> bit a (n - 64))"
  by (auto simp: bit_word_cat_iff)

lemma DoubleShiftRight_window:
  "DoubleShiftRight a b n = ucast (drop_bit (unat n) (word_cat a b :: 128 word))"
proof (rule word_eq_by_bits)
  fix k :: nat
  assume k: "k < LENGTH(64)"
  have n: "n \<ge> 128 \<longleftrightarrow> 128 \<le> unat n" "n \<ge> 64 \<longleftrightarrow> 64 \<le> unat n" "n = 0 \<longleftrightarrow> unat n = 0"
    by (simp_all add: word_le_nat_alt unat_eq_0)
  have high: "\<not> bit x m" if "64 \<le> m" for m and x :: uint64
    using that bit_imp_less_length[of x m] by auto
  show "bit (DoubleShiftRight a b n) k = bit (ucast (drop_bit (unat n) (word_cat a b :: 128 word)) :: uint64) k"
    using k unfolding DoubleShiftRight_def n
    by (auto simp: bit_unsigned_iff bit_drop_bit_eq bit_cat_128 bit_or_iff bit_push_bit_iff high
        add.commute diff_diff_right dest: bit_imp_less_length)
qed

lemma DoubleShiftLeft_window:
  "DoubleShiftLeft a b n = ucast (drop_bit 64 (push_bit (unat n) (word_cat a b :: 128 word)))"
proof (rule word_eq_by_bits)
  fix k :: nat
  assume k: "k < LENGTH(64)"
  have n: "n \<ge> 128 \<longleftrightarrow> 128 \<le> unat n" "n \<ge> 64 \<longleftrightarrow> 64 \<le> unat n" "n = 0 \<longleftrightarrow> unat n = 0"
    by (simp_all add: word_le_nat_alt unat_eq_0)
  have high: "\<not> bit x m" if "64 \<le> m" for m and x :: uint64
    using that bit_imp_less_length[of x m] by auto
  show "bit (DoubleShiftLeft a b n) k =
      bit (ucast (drop_bit 64 (push_bit (unat n) (word_cat a b :: 128 word))) :: uint64) k"
    using k unfolding DoubleShiftLeft_def n
    by (auto simp: bit_unsigned_iff bit_drop_bit_eq bit_cat_128 bit_or_iff bit_push_bit_iff high
        add.commute)
qed

end
