(* ===== verification/Inst_0000_0037.thy ===== *)
theory Inst_0000_0037
  imports Machine
begin

text \<open>
  The instructions 0000 to 0037 of \<^verbatim>\<open>sim_lib/cray_cpu_inst_0000_0037.h\<close>: exits, channel and
  monitor operations, modes, semaphores, jumps, and the address registers. Each definition
  is the instance of the template with \<open>aDoExecute = true\<close>; octal opcodes and masks are
  written in decimal or hexadecimal.
\<close>

section \<open>0000 to 0004\<close>

definition Decode0000 :: "uint64 \<Rightarrow> inst" where
  "Decode0000 w = CRAY_ASSERT (FieldGH w = 0) (\<lambda>s. ret_break 1 (upd_Flags SetErrorExit s))"

text \<open>
  What the mainframe sees of this processor when a channel operation routes an interrupt
  back to the processors.
\<close>

definition PublishView :: "SoftCpu_c \<Rightarrow> SoftCpu_c" where
  "PublishView s = upd_mainframe (\<lambda>mf. mf\<lparr>mCpus := (mCpus mf)[mCpuId s :=
     \<lparr>vTsBlocked = TestAndSetBlocked (mState s),
      vSelectedForExternalInterrupts = mSelectedForExternalInterrupts (Mode (mState s)),
      vCluster = Cluster (mState s)\<rparr>]\<rparr>) s"

definition GetChannelCnt :: "SoftCpu_c \<Rightarrow> nat" where
  "GetChannelCnt s = length (mChannels (mMainframe s))"

definition GetChannel :: "nat \<Rightarrow> SoftCpu_c \<Rightarrow> channel option" where
  "GetChannel ix s = mChannels (mMainframe s) ! ix"

text \<open>The channel index of an address operand: \<open>size_t(CAddr_t(RefAj)) - 8\<close>.\<close>

definition ChIdx64 :: "CAddr_t \<Rightarrow> nat" where
  "ChIdx64 a = unat ((ucast a :: uint64) - 8)"

definition Inst_CA :: "nat \<Rightarrow> nat \<Rightarrow> inst" where
  "Inst_CA j k s =
     (if \<not> cpu_IsXmp s \<and> j = 0 then ret 1 s
      else if IsMonitorMode s then
        (let ChIdx = ChIdx64 (RefAj j s) in
         if ChIdx \<ge> GetChannelCnt s then (Inl InstExecError, s)
         else if GetChannel ChIdx s = None then ret_break 1 s
         else and_then (on_mainframe (SetAddress (RefAk k s) ChIdx)) (ret_break 1) (PublishView s))
      else ret 1 s)"

definition Inst_CL :: "nat \<Rightarrow> nat \<Rightarrow> inst" where
  "Inst_CL j k s =
     (if \<not> cpu_IsXmp s \<and> j = 0 then ret 1 s
      else if IsMonitorMode s then
        (let ChIdx = ChIdx64 (RefAj j s) in
         if ChIdx \<ge> GetChannelCnt s then (Inl InstExecError, s)
         else if GetChannel ChIdx s = None then ret_break 1 s
         else ret_break 1 (upd_mainframe (SetLimit (RefAk k s) ChIdx) s))
      else ret 1 s)"

definition Inst_CI :: "nat \<Rightarrow> inst" where
  "Inst_CI j s =
     (if \<not> cpu_IsXmp s \<and> j = 0 then ret 1 s
      else if IsMonitorMode s then
        (let ChIdx = ChIdx64 (RefAj j s) in
         if ChIdx \<ge> GetChannelCnt s then ret_break 1 s
         else if GetChannel ChIdx s = None then ret_break 1 s
         else ret_break 1 (upd_mainframe (\<lambda>mf. ClearError ChIdx (ClearInterrupt ChIdx mf)) s))
      else ret 1 s)"

definition Inst_MC :: "nat \<Rightarrow> inst" where
  "Inst_MC j s =
     (if \<not> cpu_IsXmp s \<and> j = 0 then ret 1 s
      else if IsMonitorMode s then
        (let ChIdx = ChIdx64 (RefAj j s);
             s = (if ChIdx \<ge> GetChannelCnt s then s
                  else if GetChannel ChIdx s = None then s
                  else upd_mainframe (\<lambda>mf. MainframeSideMasterClear ChIdx
                         (ClearError ChIdx (ClearInterrupt ChIdx mf))) s)
         in ret_break 1 (upd_Flags ClearIoInterrupt s))
      else ret 1 s)"

definition Inst_XA :: "nat \<Rightarrow> inst" where
  "Inst_XA j s =
     (if \<not> cpu_IsXmp s \<and> j = 0 then ret 1 s
      else if IsMonitorMode s then
        ret 1 (upd_state (ExchangePacketAddress_update (\<lambda>_. ucast (drop_bit 4 (RefAj j s)))) s)
      else ret 1 s)"

definition Inst_IP :: "nat \<Rightarrow> inst" where
  "Inst_IP j s =
     (if IsMonitorMode s then
        CRAY_ASSERT (cpu_IsXmp s \<or> \<not> IsXMode s) (\<lambda>s.
          let CpuIdx = (if cpu_IsXmp s then j else unat (RefAj j s)) in
          if CpuIdx \<ge> length (mCpus (mMainframe s)) then (Inl InstExecError, s)
          else if CpuIdx \<noteq> mCpuId s
          then ret_break 1 (upd_mainframe (SetInterProcessorInterrupt_at CpuIdx) s)
          else ret 1 s) s
      else ret 1 s)"

definition Inst_CLN :: "nat \<Rightarrow> inst" where
  "Inst_CLN j s =
     (if IsMonitorMode s then
        CRAY_ASSERT (cpu_IsXmp s \<or> \<not> IsXMode s) (\<lambda>s.
          let ClusterIdx = (if cpu_IsXmp s then j else unat (RefAj j s)) in
          if ClusterIdx > length (mClusters (mMainframe s)) then (Inl InstExecError, s)
          else and_then (SetCluster (of_nat ClusterIdx)) (ret 1) s) s
      else ret 1 s)"

text \<open>Case 4 of 0001: the clocks, the interprocessor interrupt and the cluster number.\<close>

definition Inst_clocks :: "nat \<Rightarrow> nat \<Rightarrow> inst" where
  "Inst_clocks j k s =
     (if k = 0 then
        (if IsMonitorMode s then ret 1 (upd_mainframe (SetRealTimeClock (RefSj j s)) s) else ret 1 s)
      else if k = 1 then Inst_IP j s
      else if k = 2 then
        (if IsMonitorMode s then ret_break 1 (upd_Flags ClearInterProcessorInterrupt s) else ret 1 s)
      else if k = 3 then Inst_CLN j s
      else if k = 4 then
        (if IsMonitorMode s then
           let limit = ucast (RefSj j s) in
           ret_break 1 (upd_state (\<lambda>c. c\<lparr>PeriodicInterruptLimit := limit, PeriodicInterruptCountDown := limit\<rparr>) s)
         else ret 1 s)
      else if k = 5 then
        (if IsMonitorMode s then ret_break 1 (upd_Flags ClearProgrammableClockInterrupt s) else ret 1 s)
      else if k = 6 then
        (if IsMonitorMode s then ret_break 1 (upd_state (PeriodicInterruptEnabled_update (\<lambda>_. True)) s)
         else ret 1 s)
      else if k = 7 then
        (if IsMonitorMode s then ret_break 1 (upd_state (PeriodicInterruptEnabled_update (\<lambda>_. False)) s)
         else ret 1 s)
      else CRAY_UNKNOWN s)"

text \<open>Case 5 of 0001: performance monitor and maintenance modes.\<close>

definition Inst_maintenance :: "nat \<Rightarrow> nat \<Rightarrow> inst" where
  "Inst_maintenance j k s =
     (if k = 0 then ret 1 s
      else if k = 1 then
        (if j = 0 then
           (if \<not> cpu_IsXmp s then CRAY_UNKNOWN s
            else if IsMonitorMode s then CRAY_UNIMPLEMENTED s else ret 1 s)
         else if j = 1 \<or> j = 2 \<or> j = 3 then
           (if IsMonitorMode s then CRAY_UNIMPLEMENTED s else ret 1 s)
         else CRAY_UNKNOWN s)
      else CRAY_UNKNOWN s)"

definition Decode0001 :: "uint64 \<Rightarrow> inst" where
  "Decode0001 w = CRAY_ASSERT (FieldGH w = 1) (\<lambda>s.
     let i = FieldI w; j = FieldJ w; k = FieldK w in
     if i = 0 then Inst_CA j k s
     else if i = 1 then Inst_CL j k s
     else if i = 2 then (if k = 0 then Inst_CI j s else if k = 1 then Inst_MC j s else CRAY_UNKNOWN s)
     else if i = 3 then Inst_XA j s
     else if i = 4 then Inst_clocks j k s
     else if i = 5 then Inst_maintenance j k s
     else if i = 6 then
       (if cpu_IsXmp s then CRAY_UNKNOWN s else if k = 1 then ret 1 s else CRAY_UNKNOWN s)
     else if i = 7 then
       (if j = 0 then
          (if k = 2 \<or> k = 3 \<or> k = 4 \<or> k = 6 then ret 1 s else CRAY_UNKNOWN s)
        else CRAY_UNKNOWN s)
     else CRAY_UNKNOWN s)"

definition SetVL :: "nat \<Rightarrow> SoftCpu_c \<Rightarrow> SoftCpu_c" where
  "SetVL k s =
     (let NewLength = (ucast (RefAk k s AND 0x3f) :: uint8) in
      PutVL (if NewLength = 0 then 64 else NewLength) s)"

definition Decode0002 :: "uint64 \<Rightarrow> inst" where
  "Decode0002 w = CRAY_ASSERT (FieldGH w = 2) (\<lambda>s.
     let i = FieldI w; k = FieldK w; jk = FieldJK w in
     if i = 0 then ret 1 (SetVL k s)
     else if i = 1 then CRAY_UNDOCUMENTED (jk = 0) (\<lambda>s. ret 1
       (upd_Flags ClearFloatingPointError
         (CalcInterruptMask (upd_Mode (mFloatingPointErrorMode_update (\<lambda>_. True)) s)))) s
     else if i = 2 then
       (if jk = 0 then ret 1
          (upd_Flags ClearFloatingPointError
            (CalcInterruptMask (upd_Mode (mFloatingPointErrorMode_update (\<lambda>_. False)) s)))
        else if jk = 8 then
          (if IsSV1 s
           then ret 1 (CalcInterruptMask (upd_Mode (mSv1BitMatrixLoaded_update (\<lambda>_. False)) s))
           else CRAY_UNKNOWN s)
        else CRAY_UNKNOWN s)
     else if i = 3 then CRAY_UNDOCUMENTED (jk = 0) (\<lambda>s. ret 1
       (CalcInterruptMask (upd_Mode (mOperandRangeErrorMode_update (\<lambda>_. True)) s))) s
     else if i = 4 then CRAY_UNDOCUMENTED (jk = 0) (\<lambda>s. ret 1
       (CalcInterruptMask (upd_Mode (mOperandRangeErrorMode_update (\<lambda>_. False)) s))) s
     else if i = 5 then CRAY_UNDOCUMENTED (jk = 0) (\<lambda>s. ret 1
       (CalcInterruptMask (upd_Mode (mBidirectionalMemoryMode_update (\<lambda>_. True)) s))) s
     else if i = 6 then CRAY_UNDOCUMENTED (jk = 0) (\<lambda>s. ret 1
       (CalcInterruptMask (upd_Mode (mBidirectionalMemoryMode_update (\<lambda>_. False)) s))) s
     else if i = 7 then
       (if jk = 0 then ret_break 1 s
        else if jk = 3 \<or> jk = 4 \<or> jk = 5 \<or> jk = 6 then
          (if IsJ90OrSV1 s then ret 1 s else CRAY_UNKNOWN s)
        else if jk = 7 then (if IsJ90OrSV1 s then ret_break 1 s else CRAY_UNKNOWN s)
        else CRAY_UNKNOWN s)
     else CRAY_UNKNOWN s)"

text \<open>The index that \<open>GetCluster\<close> asserts.\<close>

definition GetCluster_ok :: "SoftCpu_c \<Rightarrow> bool" where
  "GetCluster_ok s \<longleftrightarrow> unat (Cluster (mState s)) - 1 < length (mClusters (mMainframe s))"

definition PutSM :: "nat \<Rightarrow> bool \<Rightarrow> SoftCpu_c \<Rightarrow> SoftCpu_c" where
  "PutSM jk b s = upd_cluster (\<lambda>c. c\<lparr>SM := (SM c)(jk := b)\<rparr>) s"

definition upd_TestAndSetBlockedCnt :: "(uint64 \<Rightarrow> uint64) \<Rightarrow> SoftCpu_c \<Rightarrow> SoftCpu_c" where
  "upd_TestAndSetBlockedCnt f s = upd_cluster (TestAndSetBlockedCnt_update f) s"

definition PutBlocked :: "bool \<Rightarrow> SoftCpu_c \<Rightarrow> SoftCpu_c" where
  "PutBlocked b s = upd_state (TestAndSetBlocked_update (\<lambda>_. b)) s"

text \<open>
  Test and set. The cluster mutex makes the whole instruction atomic with respect to the
  other processors of the cluster.
\<close>

definition Inst_TS :: "nat \<Rightarrow> inst" where
  "Inst_TS jk s =
     (if Cluster (mState s) = 0 then ret 1 s
      else CRAY_ASSERT (GetCluster_ok s) (\<lambda>s.
        if jk > 31 then (Inl InstExecError, s)
        else if \<not> SM (own_cluster s) jk then
          (let s = PutSM jk True s;
               s = (if TestAndSetBlocked (mState s) then upd_TestAndSetBlockedCnt (\<lambda>n. n - 1) s else s)
           in ret_break 1 (PutBlocked False s))
        else
          (let s = PutSM jk True s;
               s = (if \<not> TestAndSetBlocked (mState s) then upd_TestAndSetBlockedCnt (\<lambda>n. n + 1) s else s)
           in ret_break 0 (PutBlocked True s))) s)"

definition Inst_SM :: "bool \<Rightarrow> nat \<Rightarrow> inst" where
  "Inst_SM b jk s =
     (if Cluster (mState s) > 0 then
        if jk > 31 then (Inl InstExecError, s)
        else CRAY_ASSERT (GetCluster_ok s) (\<lambda>s. ret_break 1 (PutSM jk b s)) s
      else ret 1 s)"

definition Decode0003 :: "uint64 \<Rightarrow> inst" where
  "Decode0003 w = CRAY_ASSERT (FieldGH w = 3) (\<lambda>s.
     let i = FieldI w; j = FieldJ w; jk = FieldJK w in
     if i = 0 then ret 1 (PutVM (RefSj j s) s)
     else if i = 4 then Inst_TS jk s
     else if i = 6 then Inst_SM False jk s
     else if i = 7 then Inst_SM True jk s
     else CRAY_UNKNOWN s)"

definition Decode0004 :: "uint64 \<Rightarrow> inst" where
  "Decode0004 w = CRAY_ASSERT (FieldGH w = 4) (\<lambda>s. ret_break 1 (upd_Flags SetNormalExit s))"

section \<open>Jumps\<close>

definition Decode0005 :: "uint64 \<Rightarrow> inst" where
  "Decode0005 w = CRAY_ASSERT (FieldGH w = 5) (\<lambda>s.
     let i = FieldI w; jk = FieldJK w in
     if i \<noteq> 0 then CRAY_UNKNOWN s
     else
       let s = PutP (RefB jk s) s;
           s = (if mCallStack s \<noteq> [] \<and> ProgramAddress (last (mCallStack s)) = RefB jk s
                then s\<lparr>mCallStack := butlast (mCallStack s)\<rparr> else s)
       in ret 0 s)"

definition Decode0006 :: "uint64 \<Rightarrow> inst" where
  "Decode0006 w = CRAY_ASSERT (FieldGH w = 6) (\<lambda>s.
     let Target = ucast (FieldIJKM w AND (push_bit 24 1 - 1)) in ret 0 (PutP Target s))"

definition Decode0007 :: "uint64 \<Rightarrow> inst" where
  "Decode0007 w = CRAY_ASSERT (FieldGH w = 7) (\<lambda>s.
     let Target = ucast (FieldIJKM w AND (push_bit 24 1 - 1));
         s = PutP (ProgramAddress (mState s) + 2) s;
         s = PutB 0 (ProgramAddress (mState s)) s;
         s = s\<lparr>mCallStack := mCallStack s @ [mState s]\<rparr>
     in ret 0 (PutP Target s))"

text \<open>
  The body that 0010 to 0017 share: a conditional jump, or with the top bit of \<open>i\<close> set the
  load of a 24-bit constant on an X-MP.
\<close>

definition cond_jump :: "(SoftCpu_c \<Rightarrow> bool) \<Rightarrow> uint64 \<Rightarrow> inst" where
  "cond_jump cond w s =
     (if FieldI w AND 4 = 0 then
        (if cond s then ret 0 (PutP (ucast (FieldIJKM w)) s) else ret 2 s)
      else if IsXMode s
      then ret 2 (PutA (FieldH w) (ucast (FieldIJKM w AND (push_bit 24 1 - 1))) s)
      else ret 2 s)"

definition Decode0010 :: "uint64 \<Rightarrow> inst" where
  "Decode0010 w = CRAY_ASSERT (FieldGH w = 8) (cond_jump (\<lambda>s. RefA 0 s = 0) w)"
definition Decode0011 :: "uint64 \<Rightarrow> inst" where
  "Decode0011 w = CRAY_ASSERT (FieldGH w = 9) (cond_jump (\<lambda>s. RefA 0 s \<noteq> 0) w)"
definition Decode0012 :: "uint64 \<Rightarrow> inst" where
  "Decode0012 w = CRAY_ASSERT (FieldGH w = 10) (cond_jump (\<lambda>s. sint (cpu_SignExtend (RefA 0 s) s) \<ge> 0) w)"
definition Decode0013 :: "uint64 \<Rightarrow> inst" where
  "Decode0013 w = CRAY_ASSERT (FieldGH w = 11) (cond_jump (\<lambda>s. sint (cpu_SignExtend (RefA 0 s) s) < 0) w)"
definition Decode0014 :: "uint64 \<Rightarrow> inst" where
  "Decode0014 w = CRAY_ASSERT (FieldGH w = 12) (cond_jump (\<lambda>s. RefS 0 s = 0) w)"
definition Decode0015 :: "uint64 \<Rightarrow> inst" where
  "Decode0015 w = CRAY_ASSERT (FieldGH w = 13) (cond_jump (\<lambda>s. RefS 0 s \<noteq> 0) w)"
definition Decode0016 :: "uint64 \<Rightarrow> inst" where
  "Decode0016 w = CRAY_ASSERT (FieldGH w = 14) (cond_jump (\<lambda>s. sint (RefS 0 s) \<ge> 0) w)"
definition Decode0017 :: "uint64 \<Rightarrow> inst" where
  "Decode0017 w = CRAY_ASSERT (FieldGH w = 15) (cond_jump (\<lambda>s. sint (RefS 0 s) < 0) w)"

section \<open>Address registers\<close>

definition Decode0020 :: "uint64 \<Rightarrow> inst" where
  "Decode0020 w = CRAY_ASSERT (FieldGH w = 16) (\<lambda>s.
     let i = FieldI w; jk = FieldJK w in
     if IsXMode s then ret 2 (PutA i (ucast (FieldJKM w)) s)
     else CRAY_UNDOCUMENTED (jk = 0) (\<lambda>s. ret 3 (PutA i (ucast (FieldMN w)) s)) s)"

definition Decode0021 :: "uint64 \<Rightarrow> inst" where
  "Decode0021 w = CRAY_ASSERT (FieldGH w = 17) (\<lambda>s.
     let i = FieldI w; jk = FieldJK w in
     if IsXMode s then ret 2 (PutA i (NOT (ucast (FieldJKM w))) s)
     else CRAY_UNDOCUMENTED (jk = 0) (\<lambda>s. ret 3 (PutA i (NOT (ucast (FieldMN w))) s)) s)"

definition Decode0022 :: "uint64 \<Rightarrow> inst" where
  "Decode0022 w = CRAY_ASSERT (FieldGH w = 18) (\<lambda>s.
     ret 1 (PutA (FieldI w) (of_nat (FieldJK w)) s))"

definition Decode0023 :: "uint64 \<Rightarrow> inst" where
  "Decode0023 w = CRAY_ASSERT (FieldGH w = 19) (\<lambda>s.
     let i = FieldI w; j = FieldJ w; k = FieldK w in
     if k = 0 then ret 1 (PutA i (ucast (RefSj j s)) s)
     else if k = 1 then ret 1 (PutA i (ucast (VL (mState s))) s)
     else ret 1 s)"

definition Decode0024 :: "uint64 \<Rightarrow> inst" where
  "Decode0024 w = CRAY_ASSERT (FieldGH w = 20) (\<lambda>s. ret 1 (PutA (FieldI w) (RefB (FieldJK w) s) s))"

definition Decode0025 :: "uint64 \<Rightarrow> inst" where
  "Decode0025 w = CRAY_ASSERT (FieldGH w = 21) (\<lambda>s. ret 1 (PutB (FieldJK w) (RefA (FieldI w) s) s))"

definition Decode0026 :: "uint64 \<Rightarrow> inst" where
  "Decode0026 w = CRAY_ASSERT (FieldGH w = 22) (\<lambda>s.
     let i = FieldI w; j = FieldJ w; k = FieldK w in
     if k = 0 then ret 1 (PutA i (PopulationCnt (RefSj j s)) s)
     else if k = 1 then ret 1 (PutA i (PopulationCntParity (RefSj j s)) s)
     else if k = 7 then
       (if Cluster (mState s) = 0 then ret 1 (PutA i 0 s)
        else CRAY_ASSERT (GetCluster_ok s) (\<lambda>s. ret 1 (PutA i (RefSB j s) s)) s)
     else CRAY_UNKNOWN s)"

definition Decode0027 :: "uint64 \<Rightarrow> inst" where
  "Decode0027 w = CRAY_ASSERT (FieldGH w = 23) (\<lambda>s.
     let i = FieldI w; j = FieldJ w; k = FieldK w in
     if k = 0 then ret 1 (PutA i (LeadingZeroCnt (RefSj j s)) s)
     else if k = 7 then
       (if Cluster (mState s) \<noteq> 0
        then CRAY_ASSERT (GetCluster_ok s) (\<lambda>s. ret 1 (PutSB j (RefA i s) s)) s
        else ret 1 s)
     else CRAY_UNKNOWN s)"

definition Decode0030 :: "uint64 \<Rightarrow> inst" where
  "Decode0030 w = CRAY_ASSERT (FieldGH w = 24) (\<lambda>s.
     ret 1 (PutA (FieldI w) (RefAj (FieldJ w) s + RefAk (FieldK w) s) s))"

definition Decode0031 :: "uint64 \<Rightarrow> inst" where
  "Decode0031 w = CRAY_ASSERT (FieldGH w = 25) (\<lambda>s.
     ret 1 (PutA (FieldI w) (RefAj (FieldJ w) s - RefAk (FieldK w) s) s))"

text \<open>The product of two \<open>int\<close> values, of which the low 32 bits are kept.\<close>

definition Decode0032 :: "uint64 \<Rightarrow> inst" where
  "Decode0032 w = CRAY_ASSERT (FieldGH w = 26) (\<lambda>s.
     ret 1 (PutA (FieldI w) (RefAj (FieldJ w) s * RefAk (FieldK w) s) s))"

text \<open>The number of the first channel with a pending interrupt, 0 if there is none.\<close>

definition InterruptingChannel :: "mainframe \<Rightarrow> nat" where
  "InterruptingChannel mf =
     (case List.find (\<lambda>c. case c of None \<Rightarrow> False | Some ch \<Rightarrow> mInterruptPending ch) (mChannels mf) of
        Some (Some ch) \<Rightarrow> mChannelId ch | _ \<Rightarrow> 0)"

definition Decode0033 :: "uint64 \<Rightarrow> inst" where
  "Decode0033 w = CRAY_ASSERT (FieldGH w = 27) (\<lambda>s.
     let i = FieldI w; j = FieldJ w; k = FieldK w in
     if j = 0 then ret_break 1 (PutA i (of_nat (InterruptingChannel (mMainframe s))) s)
     else if k = 0 then
       (let ChIdx = unat (RefAj j s - 8) in
        if ChIdx \<ge> GetChannelCnt s then (Inl InstExecError, s)
        else ret_break 1 (PutA i (case GetChannel ChIdx s of Some ch \<Rightarrow> mAddress ch | None \<Rightarrow> 0) s))
     else if k = 1 then
       (let ChIdx = unat (RefAj j s - 8) in
        if ChIdx \<ge> GetChannelCnt s then (Inl InstExecError, s)
        else ret_break 1 (PutA i (case GetChannel ChIdx s of
               Some ch \<Rightarrow> if mError ch then 1 else 0 | None \<Rightarrow> 0) s))
     else CRAY_UNKNOWN s)"

section \<open>Block transfers\<close>

text \<open>The register index runs on from \<open>jk\<close> and wraps from 63 to 0.\<close>

definition TransferSize :: "nat \<Rightarrow> SoftCpu_c \<Rightarrow> nat" where
  "TransferSize i s = unat (RefA i s AND 127)"

definition Decode0034 :: "uint64 \<Rightarrow> inst" where
  "Decode0034 w = CRAY_ASSERT (FieldGH w = 28) (\<lambda>s.
     and_then (forE [0..<TransferSize (FieldI w) s] (\<lambda>Idx s.
         with_read (RefA 0 s + of_nat Idx) (\<lambda>v s.
           (Inr (), PutB ((FieldJK w + Idx) mod 64) (ucast v) s)) s))
       (ret 1) s)"

definition Decode0035 :: "uint64 \<Rightarrow> inst" where
  "Decode0035 w = CRAY_ASSERT (FieldGH w = 29) (\<lambda>s.
     and_then (forE [0..<TransferSize (FieldI w) s] (\<lambda>Idx s.
         WriteDataMemAddr (RefA 0 s + of_nat Idx) (RefB ((FieldJK w + Idx) mod 64) s) s))
       (ret 1) s)"

definition Decode0036 :: "uint64 \<Rightarrow> inst" where
  "Decode0036 w = CRAY_ASSERT (FieldGH w = 30) (\<lambda>s.
     and_then (forE [0..<TransferSize (FieldI w) s] (\<lambda>Idx s.
         with_read (RefA 0 s + of_nat Idx) (\<lambda>v s.
           (Inr (), PutT ((FieldJK w + Idx) mod 64) v s)) s))
       (ret 1) s)"

definition Decode0037 :: "uint64 \<Rightarrow> inst" where
  "Decode0037 w = CRAY_ASSERT (FieldGH w = 31) (\<lambda>s.
     and_then (forE [0..<TransferSize (FieldI w) s] (\<lambda>Idx s.
         WriteDataMem (RefA 0 s + of_nat Idx) (RefT ((FieldJK w + Idx) mod 64) s) s))
       (ret 1) s)"

end
