(* ===== verification/Inst_0040_0077.thy ===== *)
theory Inst_0040_0077
  imports Inst_0000_0037
begin

text \<open>
  The instructions 0040 to 0077 of \<^verbatim>\<open>sim_lib/cray_cpu_inst_0040_0077.h\<close>: constants, logic,
  shifts and arithmetic on the scalar registers, the real-time clock, the shared registers
  and the special registers. Octal opcodes are written in decimal.
\<close>

section \<open>Constants and logic\<close>

definition Decode0040 :: "uint64 \<Rightarrow> inst" where
  "Decode0040 w = CRAY_ASSERT (FieldGH w = 32) (\<lambda>s.
     let i = FieldI w; jk = FieldJK w in
     if IsXMode s then ret 2 (PutS i (FieldJKM w) s)
     else CRAY_UNDOCUMENTED (jk = 0) (\<lambda>s. ret 3 (PutS i (FieldMN w) s)) s)"

definition Decode0041 :: "uint64 \<Rightarrow> inst" where
  "Decode0041 w = CRAY_ASSERT (FieldGH w = 33) (\<lambda>s.
     let i = FieldI w; jk = FieldJK w in
     if IsXMode s then ret 2 (PutS i (NOT (FieldJKM w)) s)
     else CRAY_UNDOCUMENTED (jk = 0) (\<lambda>s. ret 3 (PutS i (NOT (FieldMN w)) s)) s)"

definition Decode0042 :: "uint64 \<Rightarrow> inst" where
  "Decode0042 w = CRAY_ASSERT (FieldGH w = 34) (\<lambda>s.
     ret 1 (PutS (FieldI w) (drop_bit (FieldJK w) 0xffffffffffffffff) s))"

definition Decode0043 :: "uint64 \<Rightarrow> inst" where
  "Decode0043 w = CRAY_ASSERT (FieldGH w = 35) (\<lambda>s.
     let jk = FieldJK w in
     if jk = 0 then ret 1 (PutS (FieldI w) 0 s)
     else ret 1 (PutS (FieldI w) (push_bit (64 - jk) 0xffffffffffffffff) s))"

definition Decode0044 :: "uint64 \<Rightarrow> inst" where
  "Decode0044 w = CRAY_ASSERT (FieldGH w = 36) (\<lambda>s.
     let i = FieldI w; j = FieldJ w; k = FieldK w in
     ret 1 (PutS i (RefSj j s AND RefSk k s) s))"

definition Decode0045 :: "uint64 \<Rightarrow> inst" where
  "Decode0045 w = CRAY_ASSERT (FieldGH w = 37) (\<lambda>s.
     let i = FieldI w; j = FieldJ w; k = FieldK w in
     ret 1 (PutS i (RefSj j s AND NOT (RefSk k s)) s))"

definition Decode0046 :: "uint64 \<Rightarrow> inst" where
  "Decode0046 w = CRAY_ASSERT (FieldGH w = 38) (\<lambda>s.
     let i = FieldI w; j = FieldJ w; k = FieldK w in
     ret 1 (PutS i (RefSj j s XOR RefSk k s) s))"

definition Decode0047 :: "uint64 \<Rightarrow> inst" where
  "Decode0047 w = CRAY_ASSERT (FieldGH w = 39) (\<lambda>s.
     let i = FieldI w; j = FieldJ w; k = FieldK w in
     ret 1 (PutS i (NOT (RefSj j s) XOR RefSk k s) s))"

definition Decode0050 :: "uint64 \<Rightarrow> inst" where
  "Decode0050 w = CRAY_ASSERT (FieldGH w = 40) (\<lambda>s.
     let i = FieldI w; j = FieldJ w; k = FieldK w in
     ret 1 (PutS i ((RefSj j s AND RefSk k s) OR (RefS i s AND NOT (RefSk k s))) s))"

definition Decode0051 :: "uint64 \<Rightarrow> inst" where
  "Decode0051 w = CRAY_ASSERT (FieldGH w = 41) (\<lambda>s.
     let i = FieldI w; j = FieldJ w; k = FieldK w in
     ret 1 (PutS i (RefSj j s OR RefSk k s) s))"

section \<open>Shifts\<close>

definition Decode0052 :: "uint64 \<Rightarrow> inst" where
  "Decode0052 w = CRAY_ASSERT (FieldGH w = 42) (\<lambda>s.
     let i = FieldI w; jk = FieldJK w in
     ret 1 (PutS 0 (ShiftLeft (RefS i s) (of_nat jk)) s))"

definition Decode0053 :: "uint64 \<Rightarrow> inst" where
  "Decode0053 w = CRAY_ASSERT (FieldGH w = 43) (\<lambda>s.
     let i = FieldI w; jk = FieldJK w in
     ret 1 (PutS 0 (ShiftRight (RefS i s) (of_nat (64 - jk))) s))"

definition Decode0054 :: "uint64 \<Rightarrow> inst" where
  "Decode0054 w = CRAY_ASSERT (FieldGH w = 44) (\<lambda>s.
     let i = FieldI w; jk = FieldJK w in
     ret 1 (PutS i (ShiftLeft (RefS i s) (of_nat jk)) s))"

definition Decode0055 :: "uint64 \<Rightarrow> inst" where
  "Decode0055 w = CRAY_ASSERT (FieldGH w = 45) (\<lambda>s.
     let i = FieldI w; jk = FieldJK w in
     ret 1 (PutS i (ShiftRight (RefS i s) (of_nat (64 - jk))) s))"

definition Decode0056 :: "uint64 \<Rightarrow> inst" where
  "Decode0056 w = CRAY_ASSERT (FieldGH w = 46) (\<lambda>s.
     let i = FieldI w; j = FieldJ w; k = FieldK w in
     ret 1 (PutS i (DoubleShiftLeft (RefS i s) (RefSj j s) (RefAk k s)) s))"

definition Decode0057 :: "uint64 \<Rightarrow> inst" where
  "Decode0057 w = CRAY_ASSERT (FieldGH w = 47) (\<lambda>s.
     let i = FieldI w; j = FieldJ w; k = FieldK w in
     ret 1 (PutS i (DoubleShiftRight (RefSj j s) (RefS i s) (RefAk k s)) s))"

section \<open>Arithmetic\<close>

definition Decode0060 :: "uint64 \<Rightarrow> inst" where
  "Decode0060 w = CRAY_ASSERT (FieldGH w = 48) (\<lambda>s.
     let i = FieldI w; j = FieldJ w; k = FieldK w in
     ret 1 (PutS i (RefSj j s + RefSk k s) s))"

definition Decode0061 :: "uint64 \<Rightarrow> inst" where
  "Decode0061 w = CRAY_ASSERT (FieldGH w = 49) (\<lambda>s.
     let i = FieldI w; j = FieldJ w; k = FieldK w in
     ret 1 (PutS i (RefSj j s - RefSk k s) s))"

definition Decode0062 :: "uint64 \<Rightarrow> inst" where
  "Decode0062 w = CRAY_ASSERT (FieldGH w = 50) (\<lambda>s.
     let i = FieldI w; j = FieldJ w; k = FieldK w in
     ret 1 (PutS i (float_add (RefSj j s) (RefSk k s)) s))"

definition Decode0063 :: "uint64 \<Rightarrow> inst" where
  "Decode0063 w = CRAY_ASSERT (FieldGH w = 51) (\<lambda>s.
     let i = FieldI w; j = FieldJ w; k = FieldK w in
     ret 1 (PutS i (float_sub (RefSj j s) (RefSk k s)) s))"

definition Decode0064 :: "uint64 \<Rightarrow> inst" where
  "Decode0064 w = CRAY_ASSERT (FieldGH w = 52) (\<lambda>s.
     let i = FieldI w; j = FieldJ w; k = FieldK w in
     ret 1 (PutS i (float_mult (RefSj j s) (RefSk k s)) s))"

definition Decode0065 :: "uint64 \<Rightarrow> inst" where
  "Decode0065 w = CRAY_ASSERT (FieldGH w = 53) (\<lambda>s.
     let i = FieldI w; j = FieldJ w; k = FieldK w in
     ret 1 (PutS i (HalfPrecisionMult (RefSj j s) (RefSk k s)) s))"

definition Decode0066 :: "uint64 \<Rightarrow> inst" where
  "Decode0066 w = CRAY_ASSERT (FieldGH w = 54) (\<lambda>s.
     let i = FieldI w; j = FieldJ w; k = FieldK w in
     ret 1 (PutS i (RoundedMult (RefSj j s) (RefSk k s)) s))"

definition Decode0067 :: "uint64 \<Rightarrow> inst" where
  "Decode0067 w = CRAY_ASSERT (FieldGH w = 55) (\<lambda>s.
     let i = FieldI w; j = FieldJ w; k = FieldK w in
     ret 1 (PutS i (ReciprocIterate (RefSj j s) (RefSk k s)) s))"

text \<open>
  The product with the bit matrix: the reads of the matrix mark the vector registers as
  used, if there is one.
\<close>

definition BitMatrixProduct :: "CInt_t \<Rightarrow> SoftCpu_c \<Rightarrow> CInt_t" where
  "BitMatrixProduct v s =
     for_loop 0 (unat (VL (mState s))) (\<lambda>n Result. Result XOR (v AND BitMatrix (mState s) n)) 0"

definition BitMatrixRead :: "SoftCpu_c \<Rightarrow> SoftCpu_c" where
  "BitMatrixRead s = (if VL (mState s) > 0 then VectorUsed s else s)"

definition Decode0070 :: "uint64 \<Rightarrow> inst" where
  "Decode0070 w = CRAY_ASSERT (FieldGH w = 56) (\<lambda>s.
     let i = FieldI w; j = FieldJ w; k = FieldK w in
     if k = 0 then ret 1 (PutS i (ReciprocApprox (RefSj j s)) s)
     else if k = 6 then
       (if IsSV1 s then
          CRAY_UNDOCUMENTED (mSv1BitMatrixLoaded (Mode (mState s))) (\<lambda>s.
            let Result = BitMatrixProduct (RefSj j s) s in
            ret 1 (PutS i Result (BitMatrixRead s))) s
        else CRAY_UNKNOWN s)
     else CRAY_UNKNOWN s)"

text \<open>
  \<open>int32_t Ak\<close>, its sign and \<open>abs(Ak)\<close>, which is joined to a 64-bit value and so sign
  extended.
\<close>

definition FloatOfAddr :: "uint32 \<Rightarrow> CInt_t" where
  "FloatOfAddr Ak =
     (let Result = push_bit 48 0x4030 :: CInt_t;
          Result = (if sint Ak < 0 then Result OR FractSignMask else Result)
      in Result OR scast (if sint Ak < 0 then - Ak else Ak))"

definition Decode0071 :: "uint64 \<Rightarrow> inst" where
  "Decode0071 w = CRAY_ASSERT (FieldGH w = 57) (\<lambda>s.
     let i = FieldI w; j = FieldJ w; k = FieldK w in
     if j = 0 then ret 1 (PutS i (ucast (RefAk k s)) s)
     else if j = 1 then
       ret 1 (PutS i (if IsXMode s then SignExtendLongLong (CXmpAddr_of32 (RefAk k s))
                      else SignExtendLongLong32 (RefAk k s)) s)
     else if j = 2 then ret 1 (PutS i (FloatOfAddr (cpu_SignExtend (RefAk k s) s)) s)
     else if j = 3 then ret 1 (PutS i 0x4030C00000000000 s)
     else if j = 4 then ret 1 (PutS i 0x4000800000000000 s)
     else if j = 5 then ret 1 (PutS i 0x4001800000000000 s)
     else if j = 6 then ret 1 (PutS i 0x4002800000000000 s)
     else if j = 7 then ret 1 (PutS i 0x4003800000000000 s)
     else CRAY_UNKNOWN s)"

section \<open>Clock, semaphores, shared and special registers\<close>

definition ReadSM :: "(nat \<Rightarrow> bool) \<Rightarrow> uint64" where
  "ReadSM sm = for_loop 0 32
     (\<lambda>i RetVal. push_bit 1 (if sm i then RetVal OR push_bit 31 1 else RetVal)) 0"

definition StoreSM :: "uint64 \<Rightarrow> (nat \<Rightarrow> bool) \<Rightarrow> (nat \<Rightarrow> bool)" where
  "StoreSM NewVal sm = for_loop 0 32 (\<lambda>i sm. sm(i := (GetBit NewVal (63 - i) \<noteq> 0))) sm"

definition Decode0072 :: "uint64 \<Rightarrow> inst" where
  "Decode0072 w = CRAY_ASSERT (FieldGH w = 58) (\<lambda>s.
     let i = FieldI w; j = FieldJ w; k = FieldK w in
     if k = 0 then
       (let (rt, mf) = GetRealTimeClock (mMainframe s)
        in ret_break 1 (PutS i rt (s\<lparr>mMainframe := mf\<rparr>)))
     else if k = 2 then
       (if Cluster (mState s) > 0
        then CRAY_ASSERT (GetCluster_ok s) (\<lambda>s. ret_break 1 (PutS i (ReadSM (SM (own_cluster s))) s)) s
        else ret 1 s)
     else if k = 3 then
       (if Cluster (mState s) > 0
        then CRAY_ASSERT (GetCluster_ok s) (\<lambda>s. ret_break 1 (PutS i (RefST j s) s)) s
        else ret 1 s)
     else CRAY_UNKNOWN s)"

text \<open>Cases 4 and 7 of \<open>j\<close> do their transfer and then fall into \<open>CRAY_UNKNOWN\<close>.\<close>

definition Inst_SR :: "nat \<Rightarrow> nat \<Rightarrow> inst" where
  "Inst_SR i j s =
     (if j = 0 then
        (case GetSR 0 s of Inl e \<Rightarrow> (Inl e, s) | Inr v \<Rightarrow> ret_break 1 (PutS i v s))
      else if j = 1 then (if IsMonitorMode s then ret 1 (PutS i 0 s) else ret 1 s)
      else if j = 2 \<or> j = 3 then ret 1 s
      else if j = 4 then
        bindE (on_mainframe (SimToHost (RefS i s))) (\<lambda>v s. CRAY_UNKNOWN (PutS i v s)) s
      else if j = 5 then CRAY_UNKNOWN s
      else if j = 6 then (if \<not> cpu_IsXmp s then ret 1 s else CRAY_UNKNOWN s)
      else if j = 7 then CRAY_UNKNOWN (PutS i HostToSim s)
      else CRAY_UNKNOWN s)"

definition Decode0073 :: "uint64 \<Rightarrow> inst" where
  "Decode0073 w = CRAY_ASSERT (FieldGH w = 59) (\<lambda>s.
     let i = FieldI w; j = FieldJ w; k = FieldK w in
     if k = 0 then ret 1 (PutS i (VM (mState s)) s)
     else if k = 1 then Inst_SR i j s
     else if k = 2 then
       (if Cluster (mState s) > 0
        then CRAY_ASSERT (GetCluster_ok s) (\<lambda>s.
          ret_break 1 (upd_cluster (\<lambda>c. c\<lparr>SM := StoreSM (RefS i s) (SM c)\<rparr>) s)) s
        else ret 1 s)
     else if k = 3 then
       (if Cluster (mState s) > 0
        then CRAY_ASSERT (GetCluster_ok s) (\<lambda>s. ret_break 1 (PutST j (RefS i s) s)) s
        else ret 1 s)
     else if k = 5 then
       (if i = 0 \<and> j = 1 then (Inl TerminateInstError, s) else CRAY_UNKNOWN s)
     else CRAY_UNKNOWN s)"

definition Decode0074 :: "uint64 \<Rightarrow> inst" where
  "Decode0074 w = CRAY_ASSERT (FieldGH w = 60) (\<lambda>s. ret 1 (PutS (FieldI w) (RefT (FieldJK w) s) s))"

definition Decode0075 :: "uint64 \<Rightarrow> inst" where
  "Decode0075 w = CRAY_ASSERT (FieldGH w = 61) (\<lambda>s. ret 1 (PutT (FieldJK w) (RefS (FieldI w) s) s))"

definition Decode0076 :: "uint64 \<Rightarrow> inst" where
  "Decode0076 w = CRAY_ASSERT (FieldGH w = 62) (\<lambda>s.
     let i = FieldI w; j = FieldJ w; k = FieldK w in
     ret 1 (PutS i (stV (mState s) j (unat (RefAk k s) mod cVecSize)) s))"

definition Decode0077 :: "uint64 \<Rightarrow> inst" where
  "Decode0077 w = CRAY_ASSERT (FieldGH w = 63) (\<lambda>s.
     let i = FieldI w; j = FieldJ w; k = FieldK w in
     ret 1 (VectorUsed (PutV i (unat (RefAk k s) mod cVecSize) (RefSj j s) s)))"

end
