(* ===== verification/Inst_0100_0137.thy ===== *)
theory Inst_0100_0137
  imports Inst_0040_0077
begin

text \<open>
  The instructions 0100 to 0137 of \<^verbatim>\<open>sim_lib/cray_cpu_inst_0100_0137.h\<close>: loads and stores
  of the A and S registers at an offset from an address register.
\<close>

text \<open>The address computation that the four instructions repeat.\<close>

definition MemOffset :: "uint64 \<Rightarrow> SoftCpu_c \<Rightarrow> CAddr_t" where
  "MemOffset w s =
     (if IsXMode s then cpu_SignExtend (SignExtendShort (CXmpAddr_of (FieldJKM w))) s
      else ucast (FieldMN w))"

definition MemOperand :: "uint64 \<Rightarrow> SoftCpu_c \<Rightarrow> CAddr_t" where
  "MemOperand w s =
     (let Addr = RefAh (FieldH w) s + MemOffset w s in
      if cpu_IsXmp s then
        if \<not> XmpEnhancedAddressingMode (mState s) then ApplyShortMask (CXmpAddr_of32 Addr) else Addr
      else Addr)"

definition MemParcels :: "SoftCpu_c \<Rightarrow> nat" where
  "MemParcels s = (if IsXMode s then 2 else 3)"

definition Decode010x :: "uint64 \<Rightarrow> inst" where
  "Decode010x w = CRAY_ASSERT (FieldGH w div 8 = 8) (\<lambda>s.
     CRAY_UNDOCUMENTED (IsXMode s \<or> FieldJK w = 0) (\<lambda>s.
       with_read (MemOperand w s) (\<lambda>v s. ret (MemParcels s) (PutA (FieldI w) (ucast v) s)) s) s)"

definition Decode011x :: "uint64 \<Rightarrow> inst" where
  "Decode011x w = CRAY_ASSERT (FieldGH w div 8 = 9) (\<lambda>s.
     CRAY_UNDOCUMENTED (IsXMode s \<or> FieldJK w = 0) (\<lambda>s.
       and_then (WriteDataMemAddr (MemOperand w s) (RefA (FieldI w) s))
         (\<lambda>s. ret (MemParcels s) s) s) s)"

definition Decode012x :: "uint64 \<Rightarrow> inst" where
  "Decode012x w = CRAY_ASSERT (FieldGH w div 8 = 10) (\<lambda>s.
     CRAY_UNDOCUMENTED (IsXMode s \<or> FieldJK w = 0) (\<lambda>s.
       with_read (MemOperand w s) (\<lambda>v s. ret (MemParcels s) (PutS (FieldI w) v s)) s) s)"

definition Decode013x :: "uint64 \<Rightarrow> inst" where
  "Decode013x w = CRAY_ASSERT (FieldGH w div 8 = 11) (\<lambda>s.
     CRAY_UNDOCUMENTED (IsXMode s \<or> FieldJK w = 0) (\<lambda>s.
       and_then (WriteDataMem (MemOperand w s) (RefS (FieldI w) s))
         (\<lambda>s. ret (MemParcels s) s) s) s)"

end
