(* ===== verification/Inst_0140_0177.thy ===== *)
theory Inst_0140_0177
  imports Inst_0100_0137
begin

text \<open>
  The vector instructions 0140 to 0177 of \<^verbatim>\<open>sim_lib/cray_cpu_inst_0140_0177.h\<close>. A vector
  operation is a loop over the first \<open>VL\<close> elements that reads and writes the register file
  element by element, so that an operand which is also the result is read as it stands
  when the loop reaches the element. Octal opcodes are written in decimal.
\<close>

section \<open>The integer product of the later machines\<close>

text \<open>\<open>do { ... } while (S0 != 0)\<close>: shifting left, \<open>S4\<close> runs out of bits.\<close>

lemma word_reverse_shift:
  "word_reverse (push_bit 1 (x :: uint64)) = drop_bit 1 (word_reverse x)"
proof (rule word_eq_by_bits)
  fix n :: nat
  assume "n < LENGTH(64)"
  then show "bit (word_reverse (push_bit 1 x)) n = bit (drop_bit 1 (word_reverse x)) n"
    by (auto simp: bit_word_reverse_iff bit_push_bit_iff bit_drop_bit_eq simp del: push_bit_Suc)
qed

lemma word_reverse_zero: "word_reverse (0 :: uint64) = 0"
  by (rule word_eq_by_bits) (simp add: bit_word_reverse_iff)

function IntMult_loop1 :: "uint64 \<Rightarrow> uint64 \<Rightarrow> uint64 \<Rightarrow> uint64" where
  "IntMult_loop1 S3 S4 S5 =
     (let S0 = push_bit 1 S4; S4 = push_bit 1 S4;
          S5 = (if sint S0 < 0 then S5 + S3 else S5);
          S3 = drop_bit 1 S3
      in if S0 \<noteq> 0 then IntMult_loop1 S3 S4 S5 else S5)"
  by pat_completeness auto
termination
proof (relation "measure (\<lambda>(S3, S4, S5). unat (word_reverse S4))", goal_cases)
  case (2 S3 S4 S5 x xa xb xc)
  have "unat (word_reverse (push_bit 1 S4)) = unat (word_reverse S4) div 2"
    by (simp only: word_reverse_shift drop_bit_eq_div) (simp add: unat_div)
  moreover have "unat (word_reverse (push_bit 1 S4)) \<noteq> 0"
    using 2 by (metis unat_eq_0 word_rev_rev word_reverse_zero)
  ultimately have "unat (word_reverse (push_bit 1 S4)) < unat (word_reverse S4)" by simp
  with 2 show ?case by simp
qed simp

declare IntMult_loop1.simps [simp del]

definition IntMult_loop2 :: "uint64 \<Rightarrow> uint64 \<Rightarrow> uint64" where
  "IntMult_loop2 S3 S4 = snd (snd (for_loop 0 15
     (\<lambda>n (S3, S4, S6).
        let S0 = push_bit 63 S4; S4 = drop_bit 1 S4
        in (push_bit 1 S3, S4, if sint S0 < 0 then S6 + S3 else S6))
     (S3, S4, 0)))"

definition IntMult :: "uint64 \<Rightarrow> uint64 \<Rightarrow> uint64" where
  "IntMult aScalar aVector =
     (let S1 = aScalar; S2 = aVector;
          S5 = push_bit 48 1 - 1;
          S3 = S1 AND S5; S4 = S2 AND S5;
          S5 = 9;
          S4 = push_bit 15 S4; S3 = push_bit 7 S3;
          S5 = IntMult_loop1 S3 S4 S5;
          S5 = drop_bit 7 S5;
          S3 = drop_bit 48 S1; S4 = drop_bit 16 S2;
          S6 = push_bit 15 1 - 1;
          S3 = S3 AND S6; S4 = S4 AND S6;
          S6 = IntMult_loop2 S3 S4;
          S6 = push_bit 17 S6;
          S4 = S5 + S6;
          S3 = push_bit 32 1 - 1
      in S4 AND S3)"

section \<open>Element-wise operations\<close>

definition VLen :: "SoftCpu_c \<Rightarrow> nat" where
  "VLen s = unat (VL (mState s))"

definition RefV :: "nat \<Rightarrow> nat \<Rightarrow> SoftCpu_c \<Rightarrow> CInt_t" where
  "RefV i n s = stV (mState s) i n"

text \<open>
  The loop \<open>for (Idx = 0; Idx < VL; ++Idx) V[i][Idx] = f(Idx)\<close>, with \<open>f\<close> evaluated in the
  state that the loop has reached, and the frame that the element-wise instructions share.
\<close>

definition vector_loop :: "nat \<Rightarrow> (nat \<Rightarrow> SoftCpu_c \<Rightarrow> CInt_t) \<Rightarrow> SoftCpu_c \<Rightarrow> SoftCpu_c" where
  "vector_loop i f s = for_loop 0 (VLen s) (\<lambda>Idx s. PutV i Idx (f Idx s) s) s"

definition vector_inst :: "nat \<Rightarrow> (nat \<Rightarrow> SoftCpu_c \<Rightarrow> CInt_t) \<Rightarrow> inst" where
  "vector_inst i f = (\<lambda>s. CRAY_ASSERT (VLen s \<le> cVecSize) (\<lambda>s. ret 1 (VectorUsed (vector_loop i f s))) s)"

text \<open>The mask of element \<open>Idx\<close>: bit 63 shifted right once per turn.\<close>

definition ElementMask :: "nat \<Rightarrow> uint64" where
  "ElementMask Idx = drop_bit Idx 0x8000000000000000"

definition Decode0140 :: "uint64 \<Rightarrow> inst" where
  "Decode0140 w = CRAY_ASSERT (FieldGH w = 96) (\<lambda>s.
     let i = FieldI w; j = FieldJ w; k = FieldK w in
     vector_inst i (\<lambda>Idx s. RefSj j s AND RefV k Idx s) s)"

definition Decode0141 :: "uint64 \<Rightarrow> inst" where
  "Decode0141 w = CRAY_ASSERT (FieldGH w = 97) (\<lambda>s.
     let i = FieldI w; j = FieldJ w; k = FieldK w in
     vector_inst i (\<lambda>Idx s. RefV j Idx s AND RefV k Idx s) s)"

definition Decode0142 :: "uint64 \<Rightarrow> inst" where
  "Decode0142 w = CRAY_ASSERT (FieldGH w = 98) (\<lambda>s.
     let i = FieldI w; j = FieldJ w; k = FieldK w in
     vector_inst i (\<lambda>Idx s. RefSj j s OR RefV k Idx s) s)"

definition Decode0143 :: "uint64 \<Rightarrow> inst" where
  "Decode0143 w = CRAY_ASSERT (FieldGH w = 99) (\<lambda>s.
     let i = FieldI w; j = FieldJ w; k = FieldK w in
     vector_inst i (\<lambda>Idx s. RefV j Idx s OR RefV k Idx s) s)"

definition Decode0144 :: "uint64 \<Rightarrow> inst" where
  "Decode0144 w = CRAY_ASSERT (FieldGH w = 100) (\<lambda>s.
     let i = FieldI w; j = FieldJ w; k = FieldK w in
     vector_inst i (\<lambda>Idx s. RefSj j s XOR RefV k Idx s) s)"

definition Decode0145 :: "uint64 \<Rightarrow> inst" where
  "Decode0145 w = CRAY_ASSERT (FieldGH w = 101) (\<lambda>s.
     let i = FieldI w; j = FieldJ w; k = FieldK w in
     vector_inst i (\<lambda>Idx s. RefV j Idx s XOR RefV k Idx s) s)"

definition Decode0146 :: "uint64 \<Rightarrow> inst" where
  "Decode0146 w = CRAY_ASSERT (FieldGH w = 102) (\<lambda>s.
     let i = FieldI w; j = FieldJ w; k = FieldK w in
     vector_inst i (\<lambda>Idx s. if VM (mState s) AND ElementMask Idx \<noteq> 0 then RefSj j s else RefV k Idx s) s)"

definition Decode0147 :: "uint64 \<Rightarrow> inst" where
  "Decode0147 w = CRAY_ASSERT (FieldGH w = 103) (\<lambda>s.
     let i = FieldI w; j = FieldJ w; k = FieldK w in
     vector_inst i (\<lambda>Idx s. if VM (mState s) AND ElementMask Idx \<noteq> 0 then RefV j Idx s else RefV k Idx s) s)"

definition Decode0150 :: "uint64 \<Rightarrow> inst" where
  "Decode0150 w = CRAY_ASSERT (FieldGH w = 104) (\<lambda>s.
     let i = FieldI w; j = FieldJ w; k = FieldK w in
     vector_inst i (\<lambda>Idx s. ShiftLeft (RefV j Idx s) (RefAk k s)) s)"

definition Decode0151 :: "uint64 \<Rightarrow> inst" where
  "Decode0151 w = CRAY_ASSERT (FieldGH w = 105) (\<lambda>s.
     let i = FieldI w; j = FieldJ w; k = FieldK w in
     vector_inst i (\<lambda>Idx s. ShiftRight (RefV j Idx s) (RefAk k s)) s)"

definition Decode0152 :: "uint64 \<Rightarrow> inst" where
  "Decode0152 w = CRAY_ASSERT (FieldGH w = 106) (\<lambda>s.
     let i = FieldI w; j = FieldJ w; k = FieldK w in
     CRAY_UNDOCUMENTED (VLen s \<noteq> 0) (\<lambda>s. CRAY_ASSERT (VLen s \<le> cVecSize) (\<lambda>s.
       let last = VLen s - 1;
           s = (if VLen s \<noteq> 0 then
                  let s = for_loop 0 last (\<lambda>Idx s.
                            PutV i Idx (DoubleShiftLeft (RefV j Idx s) (RefV j (Idx + 1) s) (RefAk k s)) s) s
                  in PutV i last (DoubleShiftLeft (RefV j last s) 0 (RefAk k s)) s
                else s)
       in ret 1 (VectorUsed s)) s) s)"

definition Decode0153 :: "uint64 \<Rightarrow> inst" where
  "Decode0153 w = CRAY_ASSERT (FieldGH w = 107) (\<lambda>s.
     let i = FieldI w; j = FieldJ w; k = FieldK w in
     CRAY_ASSERT (VLen s \<le> cVecSize) (\<lambda>s.
       let s = PutV i 0 (DoubleShiftRight 0 (RefV j 0 s) (RefAk k s)) s;
           s = for_loop 1 (VLen s) (\<lambda>Idx s.
                 PutV i Idx (DoubleShiftRight (RefV j (Idx - 1) s) (RefV j Idx s) (RefAk k s)) s) s
       in ret 1 (VectorUsed s)) s)"

definition Decode0154 :: "uint64 \<Rightarrow> inst" where
  "Decode0154 w = CRAY_ASSERT (FieldGH w = 108) (\<lambda>s.
     let i = FieldI w; j = FieldJ w; k = FieldK w in
     vector_inst i (\<lambda>Idx s. RefSj j s + RefV k Idx s) s)"

definition Decode0155 :: "uint64 \<Rightarrow> inst" where
  "Decode0155 w = CRAY_ASSERT (FieldGH w = 109) (\<lambda>s.
     let i = FieldI w; j = FieldJ w; k = FieldK w in
     vector_inst i (\<lambda>Idx s. RefV j Idx s + RefV k Idx s) s)"

definition Decode0156 :: "uint64 \<Rightarrow> inst" where
  "Decode0156 w = CRAY_ASSERT (FieldGH w = 110) (\<lambda>s.
     let i = FieldI w; j = FieldJ w; k = FieldK w in
     vector_inst i (\<lambda>Idx s. RefSj j s - RefV k Idx s) s)"

definition Decode0157 :: "uint64 \<Rightarrow> inst" where
  "Decode0157 w = CRAY_ASSERT (FieldGH w = 111) (\<lambda>s.
     let i = FieldI w; j = FieldJ w; k = FieldK w in
     vector_inst i (\<lambda>Idx s. RefV j Idx s - RefV k Idx s) s)"

section \<open>Floating point\<close>

definition Decode0160 :: "uint64 \<Rightarrow> inst" where
  "Decode0160 w = CRAY_ASSERT (FieldGH w = 112) (\<lambda>s.
     let i = FieldI w; j = FieldJ w; k = FieldK w in
     vector_inst i (\<lambda>Idx s. float_mult (RefSj j s) (RefV k Idx s)) s)"

definition Decode0161 :: "uint64 \<Rightarrow> inst" where
  "Decode0161 w = CRAY_ASSERT (FieldGH w = 113) (\<lambda>s.
     let i = FieldI w; j = FieldJ w; k = FieldK w in
     vector_inst i (\<lambda>Idx s. float_mult (RefV j Idx s) (RefV k Idx s)) s)"

definition Decode0162 :: "uint64 \<Rightarrow> inst" where
  "Decode0162 w = CRAY_ASSERT (FieldGH w = 114) (\<lambda>s.
     let i = FieldI w; j = FieldJ w; k = FieldK w in
     vector_inst i (\<lambda>Idx s. float_mult (RefSj j s) (RefV k Idx s)) s)"

definition Decode0163 :: "uint64 \<Rightarrow> inst" where
  "Decode0163 w = CRAY_ASSERT (FieldGH w = 115) (\<lambda>s.
     let i = FieldI w; j = FieldJ w; k = FieldK w in
     vector_inst i (\<lambda>Idx s. float_mult (RefV j Idx s) (RefV k Idx s)) s)"

definition Decode0164 :: "uint64 \<Rightarrow> inst" where
  "Decode0164 w = CRAY_ASSERT (FieldGH w = 116) (\<lambda>s.
     let i = FieldI w; j = FieldJ w; k = FieldK w in
     vector_inst i (\<lambda>Idx s. RoundedMult (RefSj j s) (RefV k Idx s)) s)"

definition Decode0165 :: "uint64 \<Rightarrow> inst" where
  "Decode0165 w = CRAY_ASSERT (FieldGH w = 117) (\<lambda>s.
     let i = FieldI w; j = FieldJ w; k = FieldK w in
     vector_inst i (\<lambda>Idx s. RoundedMult (RefV j Idx s) (RefV k Idx s)) s)"

text \<open>0166 is a reciprocal iteration in X mode and an integer product otherwise.\<close>

definition Decode0166 :: "uint64 \<Rightarrow> inst" where
  "Decode0166 w = (\<lambda>s.
     let i = FieldI w; j = FieldJ w; k = FieldK w in
     if IsXMode s
     then CRAY_ASSERT (FieldGH w = 118)
       (vector_inst i (\<lambda>Idx s. ReciprocIterate (RefSj j s) (RefV k Idx s))) s
     else CRAY_ASSERT (FieldGH w = 118)
       (vector_inst i (\<lambda>Idx s. IntMult (RefSj j s) (RefV k Idx s))) s)"

definition Decode0167 :: "uint64 \<Rightarrow> inst" where
  "Decode0167 w = CRAY_ASSERT (FieldGH w = 119) (\<lambda>s.
     let i = FieldI w; j = FieldJ w; k = FieldK w in
     vector_inst i (\<lambda>Idx s. ReciprocIterate (RefV j Idx s) (RefV k Idx s)) s)"

definition Decode0170 :: "uint64 \<Rightarrow> inst" where
  "Decode0170 w = CRAY_ASSERT (FieldGH w = 120) (\<lambda>s.
     let i = FieldI w; j = FieldJ w; k = FieldK w in
     vector_inst i (\<lambda>Idx s. float_add (RefSj j s) (RefV k Idx s)) s)"

definition Decode0171 :: "uint64 \<Rightarrow> inst" where
  "Decode0171 w = CRAY_ASSERT (FieldGH w = 121) (\<lambda>s.
     let i = FieldI w; j = FieldJ w; k = FieldK w in
     vector_inst i (\<lambda>Idx s. float_add (RefV j Idx s) (RefV k Idx s)) s)"

definition Decode0172 :: "uint64 \<Rightarrow> inst" where
  "Decode0172 w = CRAY_ASSERT (FieldGH w = 122) (\<lambda>s.
     let i = FieldI w; j = FieldJ w; k = FieldK w in
     vector_inst i (\<lambda>Idx s. float_sub (RefSj j s) (RefV k Idx s)) s)"

definition Decode0173 :: "uint64 \<Rightarrow> inst" where
  "Decode0173 w = CRAY_ASSERT (FieldGH w = 123) (\<lambda>s.
     let i = FieldI w; j = FieldJ w; k = FieldK w in
     vector_inst i (\<lambda>Idx s. float_sub (RefV j Idx s) (RefV k Idx s)) s)"

section \<open>0174: reciprocals, counts and the bit matrix\<close>

text \<open>
  In case 6 the loop variable \<open>j\<close> hides the field \<open>j\<close>, so that \<open>RefSj\<close> is the S register of
  the loop index; an index of 8 or more is outside the array \<open>S[8]\<close>, and what is read
  there is left open by \<open>stS\<close>.
\<close>

definition SetSv1BitMatrixLoaded :: "bool \<Rightarrow> inst \<Rightarrow> inst" where
  "SetSv1BitMatrixLoaded aValue rest s =
     CRAY_ASSERT (modeMachineType (Mode (mState s)) = SV1 \<or> \<not> aValue)
       (\<lambda>s. rest (upd_Mode (mSv1BitMatrixLoaded_update (\<lambda>_. aValue)) s)) s"

definition Inst_BMM :: "nat \<Rightarrow> inst" where
  "Inst_BMM j s = CRAY_ASSERT (VLen s \<le> cVecSize) (\<lambda>s.
     SetSv1BitMatrixLoaded True (ret 1)
       (VectorUsed (for_loop 0 (VLen s) (\<lambda>Idx s. PutBM Idx (RefV j Idx s) (VectorUsed s)) s))) s"

definition Inst_VxBM :: "nat \<Rightarrow> inst" where
  "Inst_VxBM i s = CRAY_UNDOCUMENTED (mSv1BitMatrixLoaded (Mode (mState s))) (\<lambda>s.
     CRAY_ASSERT (VLen s \<le> cVecSize) (\<lambda>s.
       ret 1 (VectorUsed (for_loop 0 (VLen s) (\<lambda>j s.
         let Result = BitMatrixProduct (RefSj j s) s in PutV i j Result (BitMatrixRead s)) s))) s) s"

definition Decode0174 :: "uint64 \<Rightarrow> inst" where
  "Decode0174 w = CRAY_ASSERT (FieldGH w = 124) (\<lambda>s.
     let i = FieldI w; j = FieldJ w; k = FieldK w in
     if k = 0 then vector_inst i (\<lambda>Idx s. ReciprocApprox (RefV j Idx s)) s
     else if k = 1 then vector_inst i (\<lambda>Idx s. ucast (PopulationCnt (RefV j Idx s))) s
     else if k = 2 then vector_inst i (\<lambda>Idx s. ucast (PopulationCntParity (RefV j Idx s))) s
     else if k = 3 then
       (if IsJ90OrSV1 s then vector_inst i (\<lambda>Idx s. ucast (LeadingZeroCnt (RefV j Idx s))) s
        else CRAY_UNKNOWN s)
     else if k = 4 then (if IsSV1 s then Inst_BMM j s else CRAY_UNKNOWN s)
     else if k = 6 then (if IsSV1 s then Inst_VxBM i s else CRAY_UNKNOWN s)
     else CRAY_UNKNOWN s)"

section \<open>0175: vector masks\<close>

text \<open>The four tests; cases 4 to 7 also store the indices of the elements that pass.\<close>

definition VmTest :: "nat \<Rightarrow> CInt_t \<Rightarrow> bool" where
  "VmTest k v =
     (if k = 0 then v = 0 else if k = 1 then v \<noteq> 0 else if k = 2 then sint v \<ge> 0 else sint v < 0)"

definition Inst_VM :: "nat \<Rightarrow> nat \<Rightarrow> inst" where
  "Inst_VM j k s = CRAY_ASSERT (VLen s \<le> cVecSize) (\<lambda>s.
     let NewVM = for_loop 0 (VLen s) (\<lambda>Idx NewVM.
           if VmTest k (RefV j Idx s) then NewVM OR ElementMask Idx else NewVM OR 0) 0
     in ret 1 (VectorUsed (PutVM NewVM s))) s"

definition Inst_VM_compress :: "nat \<Rightarrow> nat \<Rightarrow> nat \<Rightarrow> inst" where
  "Inst_VM_compress i j k s = CRAY_ASSERT (VLen s \<le> cVecSize) (\<lambda>s.
     let (s, NewVM, DstIdx) = for_loop 0 (VLen s) (\<lambda>Idx (s, NewVM, DstIdx).
           if VmTest k (RefV j Idx s)
           then (PutV i DstIdx (of_nat Idx) s, NewVM OR ElementMask Idx, DstIdx + 1)
           else (s, NewVM, DstIdx)) (s, 0, 0)
     in ret 1 (VectorUsed (PutVM NewVM s))) s"

definition Decode0175 :: "uint64 \<Rightarrow> inst" where
  "Decode0175 w = CRAY_ASSERT (FieldGH w = 125) (\<lambda>s.
     let i = FieldI w; j = FieldJ w; k = FieldK w in
     if k < 4 then Inst_VM j k s
     else if k < 8 then Inst_VM_compress i j (k - 4) s
     else CRAY_UNKNOWN s)"

section \<open>0176 and 0177: vector loads and stores\<close>

definition StrideAddr :: "nat \<Rightarrow> nat \<Rightarrow> SoftCpu_c \<Rightarrow> CAddr_t" where
  "StrideAddr k Idx s = RefA 0 s + cpu_SignExtend (RefAk k s) s * of_nat Idx"

definition GatherAddr :: "nat \<Rightarrow> nat \<Rightarrow> SoftCpu_c \<Rightarrow> CAddr_t" where
  "GatherAddr k Idx s = RefA 0 s + ucast (RefV k Idx s)"

definition Decode0176 :: "uint64 \<Rightarrow> inst" where
  "Decode0176 w = CRAY_ASSERT (FieldGH w = 126) (\<lambda>s.
     let i = FieldI w; j = FieldJ w; k = FieldK w in
     if j = 0 then CRAY_ASSERT (VLen s \<le> cVecSize) (\<lambda>s.
       and_then (forE [0..<VLen s] (\<lambda>Idx s.
           with_read (StrideAddr k Idx s) (\<lambda>v s. (Inr (), PutV i Idx v s)) s))
         (\<lambda>s. ret 1 (VectorUsed s)) s) s
     else if j = 1 then CRAY_ASSERT (VLen s \<le> cVecSize) (\<lambda>s.
       and_then (forE [0..<VLen s] (\<lambda>Idx s.
           with_read (GatherAddr k Idx s) (\<lambda>v s. (Inr (), PutV i Idx v s)) s))
         (\<lambda>s. ret 1 (VectorUsed s)) s) s
     else CRAY_UNIMPLEMENTED s)"

definition Decode0177 :: "uint64 \<Rightarrow> inst" where
  "Decode0177 w = CRAY_ASSERT (FieldGH w = 127) (\<lambda>s.
     let i = FieldI w; j = FieldJ w; k = FieldK w in
     if i = 0 then CRAY_ASSERT (VLen s \<le> cVecSize) (\<lambda>s.
       and_then (forE [0..<VLen s] (\<lambda>Idx s. WriteDataMem (StrideAddr k Idx s) (RefV j Idx s) s))
         (ret 1) s) s
     else if i = 1 then CRAY_ASSERT (VLen s \<le> cVecSize) (\<lambda>s.
       and_then (forE [0..<VLen s] (\<lambda>Idx s. WriteDataMem (GatherAddr k Idx s) (RefV j Idx s) s))
         (ret 1) s) s
     else CRAY_UNIMPLEMENTED s)"

end
