(* ===== verification/Cpu.thy ===== *)
theory Cpu
  imports Inst_0140_0177
begin

text \<open>
  The processor as a whole, from \<^verbatim>\<open>sim_lib/cray_softcpu.cpp\<close>: instruction dispatch, the
  single step, the exchange of the register state with a packet in memory, interrupts and
  counters, and the tick that runs a burst of instructions.
\<close>

section \<open>Dispatch\<close>

definition mInstImplementations :: "(uint64 \<Rightarrow> inst) list" where
  "mInstImplementations = [
     Decode0000, Decode0001, Decode0002, Decode0003, Decode0004, Decode0005, Decode0006, Decode0007,
     Decode0010, Decode0011, Decode0012, Decode0013, Decode0014, Decode0015, Decode0016, Decode0017,
     Decode0020, Decode0021, Decode0022, Decode0023, Decode0024, Decode0025, Decode0026, Decode0027,
     Decode0030, Decode0031, Decode0032, Decode0033, Decode0034, Decode0035, Decode0036, Decode0037,
     Decode0040, Decode0041, Decode0042, Decode0043, Decode0044, Decode0045, Decode0046, Decode0047,
     Decode0050, Decode0051, Decode0052, Decode0053, Decode0054, Decode0055, Decode0056, Decode0057,
     Decode0060, Decode0061, Decode0062, Decode0063, Decode0064, Decode0065, Decode0066, Decode0067,
     Decode0070, Decode0071, Decode0072, Decode0073, Decode0074, Decode0075, Decode0076, Decode0077,
     Decode010x, Decode010x, Decode010x, Decode010x, Decode010x, Decode010x, Decode010x, Decode010x,
     Decode011x, Decode011x, Decode011x, Decode011x, Decode011x, Decode011x, Decode011x, Decode011x,
     Decode012x, Decode012x, Decode012x, Decode012x, Decode012x, Decode012x, Decode012x, Decode012x,
     Decode013x, Decode013x, Decode013x, Decode013x, Decode013x, Decode013x, Decode013x, Decode013x,
     Decode0140, Decode0141, Decode0142, Decode0143, Decode0144, Decode0145, Decode0146, Decode0147,
     Decode0150, Decode0151, Decode0152, Decode0153, Decode0154, Decode0155, Decode0156, Decode0157,
     Decode0160, Decode0161, Decode0162, Decode0163, Decode0164, Decode0165, Decode0166, Decode0167,
     Decode0170, Decode0171, Decode0172, Decode0173, Decode0174, Decode0175, Decode0176, Decode0177]"

definition Decode :: "uint64 \<Rightarrow> inst" where
  "Decode aParcels = CRAY_ASSERT (FieldGH aParcels < 128)
     (\<lambda>s. (mInstImplementations ! FieldGH aParcels) aParcels s)"

definition SingleStep :: "(SoftCpu_c, bool) exec" where
  "SingleStep s =
     (case ReadInstMem (ProgramAddress (mState s)) s of
        Inl e \<Rightarrow> (Inl e, s)
      | Inr Parcels \<Rightarrow> bindE (Decode Parcels)
          (\<lambda>(ProgramAddressIncrement, BreakBurst) s.
             (Inr BreakBurst, PutP (ProgramAddress (mState s) + of_nat ProgramAddressIncrement) s)) s)"

section \<open>Exchange\<close>

definition handled_flags :: uint16 where
  "handled_flags = F_IoInterrupt OR F_InterProcessorInterrupt OR F_Deadlock OR F_McuInterrupt OR
     F_FloatingPointError OR F_OperandRangeError OR F_ProgramRangeError OR F_MemoryError OR
     F_NormalExit OR F_ErrorExit"

definition FiringInterrupts :: "SoftCpu_c \<Rightarrow> uint16" where
  "FiringInterrupts s = InterruptMaskFromState s AND Flags (mState s)"

definition bool8 :: "bool \<Rightarrow> uint8" where "bool8 b = (if b then 1 else 0)"

text \<open>The packet, \<open>None\<close> where the code throws for an unknown machine type.\<close>

definition packet_of :: "SoftCpu_c \<Rightarrow> ExchangePacket_c option" where
  "packet_of s =
     (let c = mState s; xmp = cpu_IsXmp s;
          ep = ExchangePacket_new (GetMachineType s);
          ep = SetProcessorNumber (of_nat (mCpuId s)) ep;
          ep = SetSyndrome 0 ep;
          ep = SetProgramAddress (ProgramAddress c) ep;
          ep = (if xmp then SetXmpReadAddress 0 ep else ep)
      in Option.bind (SetInstBaseAddr (InstBaseAddr c) ep) (\<lambda>ep.
         Option.bind (SetInstLimitAddr (InstLimitAddr c) ep) (\<lambda>ep.
           let ep = SetVectorNotUsed (bool8 (VectorNotUsed c)) ep;
               ep = SetExchangeAddress (ExchangePacketAddress c) ep;
               ep = SetVectorLength (VL c) ep;
               ep = (if xmp then SetXmpEnhancedAddressingMode (bool8 (XmpEnhancedAddressingMode c)) ep else ep)
           in Option.bind (SetDataBaseAddr (DataBaseAddr c) ep) (\<lambda>ep.
             let ep = (if xmp then SetXmpProgramState (bool8 (XmpProgramState c)) ep else ep);
                 ep = SetClusterNumber (Cluster c) ep
             in Option.bind (SetDataLimitAddr (DataLimitAddr c) ep) (\<lambda>ep.
               let ep = SetMode (Mode c) ep;
                   ep = SetEnableSecondVectorLogical (bool8 (EnableSecondVectorLogical c)) ep;
                   ep = SetFlag (FiringInterrupts s) ep;
                   ep = for_loop 0 8 (\<lambda>i ep. SetS i (stS c i) (SetA i (stA c i) ep)) ep
               in Some ep)))))"

definition CreateExchangePacket :: "(SoftCpu_c, ExchangePacket_c) exec" where
  "CreateExchangePacket s =
     (case packet_of s of
        None \<Rightarrow> (Inl GenericError, s)
      | Some ep \<Rightarrow> (Inr ep, upd_Flags (ClearBits (FiringInterrupts s AND handled_flags)) s))"

definition XMode_of :: "Mode_c \<Rightarrow> MachineTypes_e \<Rightarrow> bool option" where
  "XMode_of m mt = (case mt of
     XMP1xx \<Rightarrow> Some True | XMP2xx \<Rightarrow> Some True | XMP4xx \<Rightarrow> Some True
   | J90 \<Rightarrow> Some False | SV1 \<Rightarrow> Some False
   | YEL \<Rightarrow> Some (\<not> mYmpEnhancedAddressingMode m) | YMP \<Rightarrow> Some (\<not> mYmpEnhancedAddressingMode m)
   | _ \<Rightarrow> None)"

text \<open>The assignments before and after the cluster is switched.\<close>

definition restore_first :: "ExchangePacket_c \<Rightarrow> SoftCpu_c \<Rightarrow> SoftCpu_c option" where
  "restore_first aEP s =
     Option.bind (GetInstBaseAddr aEP) (\<lambda>iba. Option.bind (GetInstLimitAddr aEP) (\<lambda>ila.
     Option.bind (GetDataBaseAddr aEP) (\<lambda>dba.
       Some (upd_state (\<lambda>c. c\<lparr>
         ProgramAddress := GetProgramAddress aEP,
         InstBaseAddr := iba, InstLimitAddr := ila,
         VectorNotUsed := True,
         EnableSecondVectorLogical := (GetEnableSecondVectorLogical aEP \<noteq> 0),
         ExchangePacketAddress := GetExchangeAddress aEP,
         VL := GetVectorLength aEP,
         XmpEnhancedAddressingMode :=
           (if cpu_IsXmp s then GetXmpEnhancedAddressingMode aEP \<noteq> 0 else False),
         DataBaseAddr := dba,
         XmpProgramState :=
           (if cpu_IsXmp s then GetXmpProgramState aEP \<noteq> 0 else XmpProgramState c)\<rparr>) s))))"

definition restore_last :: "ExchangePacket_c \<Rightarrow> (SoftCpu_c, unit) exec" where
  "restore_last aEP s =
     (case GetDataLimitAddr aEP of
        None \<Rightarrow> (Inl GenericError, s)
      | Some dla \<Rightarrow>
          (let s = upd_state (\<lambda>c. c\<lparr>DataLimitAddr := dla, Mode := GetMode aEP\<rparr>) s;
               s = CalcInterruptMask s;
               s = for_loop 0 8 (\<lambda>i s. upd_state (\<lambda>c. c\<lparr>stA := (stA c)(i := GetA i aEP),
                     stS := (stS c)(i := GetS i aEP)\<rparr>) s) s
           in case XMode_of (Mode (mState s)) (GetMachineType s) of
                None \<Rightarrow> (Inl GenericError, s)
              | Some x \<Rightarrow> (Inr (), upd_state (\<lambda>c. c\<lparr>XMode := x,
                    AddrMask := (if x then xmp_max else - 1)\<rparr>) s)))"

text \<open>A throw in the middle leaves the assignments made before it; those are kept apart here.\<close>

definition RestoreFromExchangePacket :: "ExchangePacket_c \<Rightarrow> (SoftCpu_c, unit) exec" where
  "RestoreFromExchangePacket aEP s =
     (case restore_first aEP s of
        None \<Rightarrow> (Inl GenericError, upd_state (ProgramAddress_update (\<lambda>_. GetProgramAddress aEP)) s)
      | Some s \<Rightarrow> bindE (SetCluster (GetClusterNumber aEP)) (\<lambda>_. restore_last aEP) s)"

definition ReadExchangePacket :: "CAddr_t \<Rightarrow> SoftCpu_c \<Rightarrow> ExchangePacket_c" where
  "ReadExchangePacket aMemAddr s =
     ExchangePacket_from (GetMachineType s) (mMemory (mMainframe s)) (unat (aMemAddr * 8))"

definition WriteExchangePacket :: "ExchangePacket_c \<Rightarrow> CAddr_t \<Rightarrow> SoftCpu_c \<Rightarrow> SoftCpu_c" where
  "WriteExchangePacket aExchangePacket aMemAddr s =
     upd_mainframe (\<lambda>mf. mf\<lparr>mMemory := Write_packet aExchangePacket (unat (aMemAddr * 8)) (mMemory mf)\<rparr>) s"

definition Exchange :: "(SoftCpu_c, unit) exec" where
  "Exchange s =
     (let XP = ucast (ExchangePacketAddress (mState s)) * 16;
          NewContext = ReadExchangePacket XP s
      in bindE CreateExchangePacket (\<lambda>CurrentContext s.
           let NewContext = ClearFlags NewContext;
               s = WriteExchangePacket CurrentContext (ucast (ExchangePacketAddress (mState s)) * 16) s
           in RestoreFromExchangePacket NewContext s) s)"

section \<open>Interrupts and counters\<close>

definition own_pending :: "SoftCpu_c \<Rightarrow> external_ints" where
  "own_pending s = mPending (mMainframe s) (mCpuId s)"

definition InitNotIntFlags :: "SoftCpu_c \<Rightarrow> SoftCpu_c" where
  "InitNotIntFlags s = upd_mainframe (\<lambda>mf. mf\<lparr>mPending := (mPending mf)(mCpuId s :=
     \<lparr>xInterProcessor = False, xDeadLock = False, xMcu = False, xIo = False\<rparr>)\<rparr>) s"

definition MirrorExternalInterrupts :: "SoftCpu_c \<Rightarrow> SoftCpu_c" where
  "MirrorExternalInterrupts s =
     (let p = own_pending s;
          set = (\<lambda>b f d. if b then f d else d);
          s = upd_Flags (set (xInterProcessor p) SetInterProcessorInterrupt) s;
          s = upd_Flags (set (xDeadLock p) SetDeadlock) s;
          s = upd_Flags (set (xMcu p) SetMcuInterrupt) s;
          s = upd_Flags (set (xIo p) SetIoInterrupt) s
      in InitNotIntFlags s)"

definition CheckInterrupts :: "SoftCpu_c \<Rightarrow> bool \<times> SoftCpu_c" where
  "CheckInterrupts s =
     (let s = MirrorExternalInterrupts s in
      if Flags (mState s) = 0 then (False, s)
      else (InterruptMaskFromState s AND Flags (mState s) \<noteq> 0, s))"

definition HandleCounters :: "SoftCpu_c \<Rightarrow> SoftCpu_c" where
  "HandleCounters s =
     (let c = mState s in
      if PeriodicInterruptCountDown c = 0 then
        (let s = (if PeriodicInterruptEnabled c then upd_Flags SetProgrammableClockInterrupt s else s)
         in upd_state (\<lambda>c. c\<lparr>PeriodicInterruptCountDown := PeriodicInterruptLimit c\<rparr>) s)
      else if PeriodicInterruptCountDown c < mTimerIncrement s then
        upd_state (\<lambda>c. c\<lparr>PeriodicInterruptCountDown := 0\<rparr>) s
      else
        upd_state (\<lambda>c. c\<lparr>PeriodicInterruptCountDown := PeriodicInterruptCountDown c - mTimerIncrement s\<rparr>) s)"

definition MasterClear :: "SoftCpu_c \<Rightarrow> SoftCpu_c" where
  "MasterClear s =
     (let s = s\<lparr>mInReset := True\<rparr>;
          s = upd_state (TestAndSetBlocked_update (\<lambda>_. False)) s;
          s = upd_Mode (mMonitorMode_update (\<lambda>_. False)) s;
          s = CalcInterruptMask s;
          s = upd_Flags (\<lambda>_. 0) s
      in InitNotIntFlags s)"

definition cpu_SetMcuInterrupt :: "SoftCpu_c \<Rightarrow> SoftCpu_c" where
  "cpu_SetMcuInterrupt s = upd_mainframe (\<lambda>mf. mf\<lparr>mPending := (mPending mf)(mCpuId s :=
     (mPending mf (mCpuId s))\<lparr>xMcu := True\<rparr>)\<rparr>) s"

definition apply_poke :: "MemoryPoke_s \<Rightarrow> memory \<Rightarrow> memory" where
  "apply_poke p m =
     (if IsParcelPoke p
      then store16 (unat (pokeAddr p) * 2) (SwapBytes16 (ucast (pokeValue p))) m
      else store64 (unat (pokeAddr p) * 8) (SwapBytes64 (pokeValue p)) m)"

definition cpu_DeadStart :: "SoftCpu_c \<Rightarrow> SoftCpu_c" where
  "cpu_DeadStart s = cpu_SetMcuInterrupt
     (upd_mainframe (\<lambda>mf. mf\<lparr>mMemory := fold apply_poke (mMemoryPokes s) (mMemory mf)\<rparr>) s)"

section \<open>The tick\<close>

text \<open>At most \<open>n\<close> further instructions of the burst.\<close>

fun burst :: "nat \<Rightarrow> (SoftCpu_c, unit) exec" where
  "burst 0 s = (Inr (), s)"
| "burst (Suc n) s =
     (case SingleStep (s\<lparr>mInstCnt := mInstCnt s + 1\<rparr>) of
        (Inl e, s) \<Rightarrow> (Inl e, s)
      | (Inr True, s) \<Rightarrow> (Inr (), s)
      | (Inr False, s) \<Rightarrow> burst n s)"

text \<open>The three range errors become interrupt flags; any other exception leaves the tick.\<close>

definition catch_range_errors :: "(exn + unit) \<times> SoftCpu_c \<Rightarrow> (exn + unit) \<times> SoftCpu_c" where
  "catch_range_errors r =
     (case r of
        (Inl InstFetchOutOfBoundsError, s) \<Rightarrow> (Inr (), upd_Flags SetProgramRangeError s)
      | (Inl DataReadOutOfBoundsError, s) \<Rightarrow> (Inr (), upd_Flags SetOperandRangeError s)
      | (Inl DataWriteOutOfBoundsError, s) \<Rightarrow> (Inr (), upd_Flags SetOperandRangeError s)
      | r \<Rightarrow> r)"

definition Tick :: "(SoftCpu_c, unit) exec" where
  "Tick s =
     (let s = HandleCounters s; (fire, s) = CheckInterrupts s in
      if fire then
        (let s = s\<lparr>mCallStack := []\<rparr>;
             s = (if mInReset s then s\<lparr>mInstCnt := 0, mInReset := False\<rparr> else s)
         in Exchange s)
      else if \<not> mInReset s then catch_range_errors (burst (Suc (mInstructionBurstSize s)) s)
      else (Inr (), s))"

section \<open>Construction\<close>

text \<open>
  The constructors for a machine without configuration. A member that no constructor
  initialises keeps the value it has in the argument; the machine type inside the mode
  register is such a member.
\<close>

definition CpuState_new :: "CpuState_s \<Rightarrow> CpuState_s" where
  "CpuState_new c = c\<lparr>stA := (\<lambda>_. 0), stB := (\<lambda>_. 0), stS := (\<lambda>_. 0), stT := (\<lambda>_. 0),
     stV := (\<lambda>_ _. 0), VL := 0, VM := 0, ExchangePacketAddress := 0, ProgramAddress := 0,
     InstBaseAddr := 0, InstLimitAddr := 0, DataBaseAddr := 0, DataLimitAddr := 0,
     Mode := Mode_c_default (modeMachineType (Mode c)), Flags := 0, InterruptMask := 0,
     PeriodicInterruptLimit := 0, PeriodicInterruptCountDown := 0,
     PeriodicInterruptEnabled := False, Cluster := 0, TestAndSetBlocked := False,
     VectorNotUsed := True, EnableSecondVectorLogical := False, XmpProgramState := False,
     XmpEnhancedAddressingMode := False, BitMatrix := (\<lambda>_. 0), AddrMask := - 1, XMode := False\<rparr>"

definition SoftCpu_new :: "SoftCpu_c \<Rightarrow> SoftCpu_c" where
  "SoftCpu_new u =
     (let s = u\<lparr>mState := CpuState_new (mState u), mCallStack := [], mCpuId := 0,
                mInReset := True, mInstCnt := 0, mMemoryPokes := []\<rparr>;
          s = MasterClear s;
          x = IsXmp (GetMachineType s);
          s = upd_state (\<lambda>c. c\<lparr>InstBaseAddr := 0, InstLimitAddr := - 1, XMode := x,
                AddrMask := (if x then xmp_max else - 1)\<rparr>) s
      in InitNotIntFlags s)"

definition Mainframe_new :: "nat \<Rightarrow> MachineTypes_e \<Rightarrow> mainframe \<Rightarrow> mainframe option" where
  "Mainframe_new aMemSize aMachineType u =
     (if aMemSize > 128 * 1024 * 1024 then None
      else Some (u\<lparr>mMachineType := aMachineType, mMemory := (\<lambda>_. 0), mMemorySize := aMemSize * 8,
        mChannels := [], mClusters := [], mLastCpuIssuedCI := 0, mIoMasterClear := False,
        mRealTimeClock := 0,
        mCpus := [\<lparr>vTsBlocked = False, vSelectedForExternalInterrupts = False, vCluster = 0\<rparr>]\<rparr>))"

end
