(* ===== verification/Inst_Effects.thy ===== *)
theory Inst_Effects
  imports Cpu
begin

text \<open>
  What an instruction may do, stated once for all instructions. The locale
  \<open>inst_effects\<close> lists the primitive effects that the instructions are composed of,
  the ones reserved to the monitor mode with that premise, and the exceptions that they
  raise. Inside the locale every entry of the dispatch table is shown to keep the contract;
  each contract on the processor then only has to be checked against the primitives.
\<close>

definition inst_keeps ::
    "(SoftCpu_c \<Rightarrow> SoftCpu_c \<Rightarrow> bool) \<Rightarrow> (SoftCpu_c \<Rightarrow> exn \<Rightarrow> bool) \<Rightarrow> SoftCpu_c \<Rightarrow>
     (exn + nat \<times> bool) \<times> SoftCpu_c \<Rightarrow> bool" where
  "inst_keeps R E s out \<longleftrightarrow> keeps R E s out \<and> (\<forall>n b. fst out = Inr (n, b) \<longrightarrow> n \<le> 3)"

lemma CRAY_ASSERT_true: "c \<Longrightarrow> CRAY_ASSERT c rest = rest"
  by (rule ext) (simp add: CRAY_ASSERT_def)

lemma inst_keepsD: "inst_keeps R E s out \<Longrightarrow> keeps R E s out"
  by (simp add: inst_keeps_def)

text \<open>A property of every entry of a table and its index.\<close>

fun table_holds :: "(nat \<Rightarrow> 'a \<Rightarrow> bool) \<Rightarrow> nat \<Rightarrow> 'a list \<Rightarrow> bool" where
  "table_holds P n [] = True"
| "table_holds P n (x # xs) = (P n x \<and> table_holds P (Suc n) xs)"

lemma table_holds_nth: "table_holds P n xs \<Longrightarrow> i < length xs \<Longrightarrow> P (n + i) (xs ! i)"
  by (induction P n xs arbitrary: i rule: table_holds.induct) (auto simp: nth_Cons split: nat.splits)

lemma length_mInstImplementations: "length mInstImplementations = 128"
  by (simp add: mInstImplementations_def)

lemma FieldGH_less: "FieldGH w < 128"
proof -
  have "unat (FirstParcel w AND 0xfe00) \<le> 0xfe00"
    using word_and_le1[of "FirstParcel w" "0xfe00"] by (simp add: word_le_nat_alt)
  then show ?thesis by (simp add: FieldGH_def drop_bit_eq_div unat_div)
qed

locale inst_effects = step_contract R E
  for R :: "SoftCpu_c \<Rightarrow> SoftCpu_c \<Rightarrow> bool" and E :: "SoftCpu_c \<Rightarrow> exn \<Rightarrow> bool" +
  assumes eff_A: "R t (PutA i a t)"
    and eff_S: "R t (PutS i v t)"
    and eff_B: "R t (PutB i a t)"
    and eff_T: "R t (PutT i v t)"
    and eff_V: "R t (PutV i n v t)"
    and eff_BM: "R t (PutBM n v t)"
    and eff_VectorUsed: "R t (VectorUsed t)"
    and eff_VM: "R t (PutVM v t)"
    and eff_VL: "R t (SetVL k t)"
    and eff_P: "R t (PutP p t)"
    and eff_Flags: "R t (upd_Flags ff t)"
    and eff_FPE: "R t (upd_Mode (mFloatingPointErrorMode_update fm) t)"
    and eff_ORE: "R t (upd_Mode (mOperandRangeErrorMode_update fm) t)"
    and eff_BDM: "R t (upd_Mode (mBidirectionalMemoryMode_update fm) t)"
    and eff_BML: "R t (upd_Mode (mSv1BitMatrixLoaded_update fm) t)"
    and eff_Mask: "R t (CalcInterruptMask t)"
    and eff_cluster: "Cluster (mState t) \<noteq> 0 \<Longrightarrow> GetCluster_ok t \<Longrightarrow> R t (upd_cluster fc t)"
    and eff_Blocked: "R t (PutBlocked b t)"
    and eff_CallStack: "R t (t\<lparr>mCallStack := cs\<rparr>)"
    and eff_clock: "R t (t\<lparr>mMainframe := snd (GetRealTimeClock (mMainframe t))\<rparr>)"
    and eff_memory: "a < DataLimitAddr (mState t) \<Longrightarrow> unat a < mMemSizeInWords (mMainframe t) \<Longrightarrow>
      R t (upd_mainframe (MemWrite a v) t)"
    and eff_address: "IsMonitorMode t \<Longrightarrow> ix < GetChannelCnt t \<Longrightarrow> GetChannel ix t \<noteq> None \<Longrightarrow>
      keeps R E t (on_mainframe (SetAddress a ix) (PublishView t))"
    and eff_limit: "IsMonitorMode t \<Longrightarrow> ix < GetChannelCnt t \<Longrightarrow> R t (upd_mainframe (SetLimit a ix) t)"
    and eff_clear: "IsMonitorMode t \<Longrightarrow> ix < GetChannelCnt t \<Longrightarrow>
      R t (upd_mainframe (\<lambda>mf. ClearError ix (ClearInterrupt ix mf)) t)"
    and eff_master_clear: "IsMonitorMode t \<Longrightarrow> ix < GetChannelCnt t \<Longrightarrow>
      R t (upd_mainframe (\<lambda>mf. MainframeSideMasterClear ix (ClearError ix (ClearInterrupt ix mf))) t)"
    and eff_XA: "IsMonitorMode t \<Longrightarrow> R t (upd_state (ExchangePacketAddress_update fx) t)"
    and eff_set_clock: "IsMonitorMode t \<Longrightarrow> R t (upd_mainframe (SetRealTimeClock v) t)"
    and eff_IPI: "IsMonitorMode t \<Longrightarrow> R t (upd_mainframe (SetInterProcessorInterrupt_at n) t)"
    and eff_PCI: "IsMonitorMode t \<Longrightarrow>
      R t (upd_state (\<lambda>c. c\<lparr>PeriodicInterruptLimit := l, PeriodicInterruptCountDown := l\<rparr>) t)"
    and eff_PCI_enable: "IsMonitorMode t \<Longrightarrow> R t (upd_state (PeriodicInterruptEnabled_update fe) t)"
    and eff_SetCluster: "IsMonitorMode t \<Longrightarrow> ci \<le> length (mClusters (mMainframe t)) \<Longrightarrow>
      keeps R E t (SetCluster (of_nat ci) t)"
    and err_plain: "e \<noteq> AssertError \<Longrightarrow> E t e"
    and err_cluster: "Cluster (mState t) \<noteq> 0 \<Longrightarrow> \<not> GetCluster_ok t \<Longrightarrow> E t AssertError"
    and err_memory: "mMemSizeInWords (mMainframe t) = 0 \<Longrightarrow> E t AssertError"
    and err_VL: "\<not> VLen t \<le> cVecSize \<Longrightarrow> E t AssertError"
    and err_XMode: "\<not> (cpu_IsXmp t \<or> \<not> IsXMode t) \<Longrightarrow> E t AssertError"
    and err_BML: "IsSV1 t \<Longrightarrow> modeMachineType (Mode (mState t)) \<noteq> SV1 \<Longrightarrow> E t AssertError"
begin

section \<open>Rules in backward form\<close>

lemma R_step: "R t u \<Longrightarrow> R s t \<Longrightarrow> R s u"
  by (rule R_trans)

lemmas R_effects [exec_ok] =
  R_step[OF eff_A] R_step[OF eff_S] R_step[OF eff_B] R_step[OF eff_T] R_step[OF eff_V]
  R_step[OF eff_BM] R_step[OF eff_VectorUsed] R_step[OF eff_VM] R_step[OF eff_VL]
  R_step[OF eff_P] R_step[OF eff_Flags] R_step[OF eff_FPE] R_step[OF eff_ORE]
  R_step[OF eff_BDM] R_step[OF eff_BML] R_step[OF eff_Mask] R_step[OF eff_Blocked]
  R_step[OF eff_CallStack] R_step[OF eff_clock]

lemmas R_monitor_effects [exec_ok] =
  R_step[OF eff_limit] R_step[OF eff_clear] R_step[OF eff_master_clear] R_step[OF eff_XA]
  R_step[OF eff_set_clock] R_step[OF eff_IPI] R_step[OF eff_PCI] R_step[OF eff_PCI_enable]

lemma R_if [exec_ok]: "(c \<Longrightarrow> R s t) \<Longrightarrow> (\<not> c \<Longrightarrow> R s u) \<Longrightarrow> R s (if c then t else u)"
  by simp

lemma R_for_loop [exec_ok]: "R s t \<Longrightarrow> (\<And>i u. R s u \<Longrightarrow> R s (f i u)) \<Longrightarrow> R s (for_loop lo hi f t)"
  by (rule for_loop_within)

lemma inst_ret [exec_ok]: "R s t \<Longrightarrow> n \<le> 3 \<Longrightarrow> inst_keeps R E s (ret n t)"
  by (simp add: inst_keeps_def ret_def keeps_Inr)

lemma inst_ret_break [exec_ok]: "R s t \<Longrightarrow> n \<le> 3 \<Longrightarrow> inst_keeps R E s (ret_break n t)"
  by (simp add: inst_keeps_def ret_break_def keeps_Inr)

lemma inst_throw [exec_ok]: "R s t \<Longrightarrow> E t e \<Longrightarrow> inst_keeps R E s (Inl e, t)"
  by (simp add: inst_keeps_def keeps_Inl)

lemma inst_unknown [exec_ok]: "R s t \<Longrightarrow> inst_keeps R E s (CRAY_UNKNOWN t)"
  by (simp add: CRAY_UNKNOWN_def inst_throw inst_ret err_plain)

lemma inst_unimplemented [exec_ok]: "R s t \<Longrightarrow> inst_keeps R E s (CRAY_UNIMPLEMENTED t)"
  by (simp add: CRAY_UNIMPLEMENTED_def inst_throw inst_ret err_plain)

lemma inst_undocumented [exec_ok]:
  "R s t \<Longrightarrow> inst_keeps R E s (rest t) \<Longrightarrow> inst_keeps R E s (CRAY_UNDOCUMENTED c rest t)"
  by (simp add: CRAY_UNDOCUMENTED_def inst_throw err_plain)

lemma inst_assert [exec_ok]:
  "R s t \<Longrightarrow> (\<not> c \<Longrightarrow> E t AssertError) \<Longrightarrow> (c \<Longrightarrow> inst_keeps R E s (rest t)) \<Longrightarrow>
   inst_keeps R E s (CRAY_ASSERT c rest t)"
  by (simp add: CRAY_ASSERT_def inst_throw)

lemma inst_if [exec_ok]:
  "(c \<Longrightarrow> inst_keeps R E s x) \<Longrightarrow> (\<not> c \<Longrightarrow> inst_keeps R E s y) \<Longrightarrow>
   inst_keeps R E s (if c then x else y)"
  by simp

lemma inst_bindE:
  assumes "keeps R E s (m t)" and "\<And>x u. m t = (Inr x, u) \<Longrightarrow> R s u \<Longrightarrow> inst_keeps R E s (f x u)"
  shows "inst_keeps R E s (bindE m f t)"
  using assms by (auto simp: inst_keeps_def keeps_def bindE_def split: prod.splits sum.splits)

lemma inst_and_then [exec_ok]:
  "keeps R E s (m t) \<Longrightarrow> (\<And>u. R s u \<Longrightarrow> inst_keeps R E s (rest u)) \<Longrightarrow>
   inst_keeps R E s (and_then m rest t)"
  unfolding and_then_def by (rule inst_bindE)

section \<open>Memory\<close>

lemma ReadDataMem_error: "ReadDataMem a t = Inl e \<Longrightarrow> E t e"
  by (cases "mMemSizeInWords (mMainframe t) = 0")
    (auto simp: ReadDataMem_def DataAddress_def Let_def err_plain err_memory unat_of_nat
      split: if_splits dest!: mod_less_divisor intro: le_less_trans[OF mod_less_eq_dividend])

lemma keeps_with_read [exec_ok]:
  "R s t \<Longrightarrow> (\<And>v. keeps R E s (f v t)) \<Longrightarrow> keeps R E s (with_read a f t)"
  by (auto simp: with_read_def keeps_Inl ReadDataMem_error split: sum.splits)

lemma inst_with_read [exec_ok]:
  "R s t \<Longrightarrow> (\<And>v. inst_keeps R E s (f v t)) \<Longrightarrow> inst_keeps R E s (with_read a f t)"
  by (auto simp: with_read_def inst_throw ReadDataMem_error split: sum.splits)

lemma keeps_return [exec_ok]: "R s t \<Longrightarrow> keeps R E s (Inr x, t)"
  by (rule keeps_Inr)

lemma keeps_WriteDataMem [exec_ok]:
  assumes "R s t"
  shows "keeps R E s (WriteDataMem a v t)"
proof -
  let ?p = "DataAddress a t"
  have "\<not> unat ?p < mMemSizeInWords (mMainframe t) \<Longrightarrow> mMemSizeInWords (mMainframe t) = 0"
    by (cases "mMemSizeInWords (mMainframe t) = 0")
      (auto simp: DataAddress_def unat_of_nat dest!: mod_less_divisor
        intro: le_less_trans[OF mod_less_eq_dividend])
  with assms show ?thesis
    by (auto simp: WriteDataMem_def Let_def keeps_Inl err_plain err_memory not_le
        intro!: keeps_Inr R_step[OF eff_memory])
qed

lemma keeps_WriteDataMemAddr [exec_ok]: "R s t \<Longrightarrow> keeps R E s (WriteDataMemAddr a v t)"
  unfolding WriteDataMemAddr_def by (rule keeps_WriteDataMem)

lemmas keeps_loop [exec_ok] = keeps_forE

section \<open>Cluster registers and the vector registers\<close>

lemma R_cluster [exec_ok]:
  "R s t \<Longrightarrow> Cluster (mState t) \<noteq> 0 \<Longrightarrow> GetCluster_ok t \<Longrightarrow> R s (upd_cluster f t)"
  by (rule R_step[OF eff_cluster])

lemma R_PutSB [exec_ok]:
  "R s t \<Longrightarrow> Cluster (mState t) \<noteq> 0 \<Longrightarrow> GetCluster_ok t \<Longrightarrow> R s (PutSB j a t)"
  unfolding PutSB_def by (rule R_cluster)

lemma R_PutST [exec_ok]:
  "R s t \<Longrightarrow> Cluster (mState t) \<noteq> 0 \<Longrightarrow> GetCluster_ok t \<Longrightarrow> R s (PutST j v t)"
  unfolding PutST_def by (rule R_cluster)

lemma R_PutSM [exec_ok]:
  "R s t \<Longrightarrow> Cluster (mState t) \<noteq> 0 \<Longrightarrow> GetCluster_ok t \<Longrightarrow> R s (PutSM j b t)"
  unfolding PutSM_def by (rule R_cluster)

lemma cluster_kept:
  "Cluster (mState (PutA i a t)) = Cluster (mState t)"
  "Cluster (mState (PutSM j b t)) = Cluster (mState t)"
  "GetCluster_ok (PutSM j b t) = GetCluster_ok t"
  by (simp_all add: PutA_def PutSM_def upd_state_def upd_cluster_def upd_mainframe_def GetCluster_ok_def)

lemma inst_vector [exec_ok]: "R s t \<Longrightarrow> inst_keeps R E s (vector_inst i f t)"
  unfolding vector_inst_def vector_loop_def by (intro exec_ok err_VL) simp_all

section \<open>The instructions\<close>

lemma inst_CA: "R s t \<Longrightarrow> inst_keeps R E s (Inst_CA j k t)"
  unfolding Inst_CA_def Let_def
  by (intro exec_ok err_plain keeps_start[OF _ eff_address]) simp_all

lemma inst_CL: "R s t \<Longrightarrow> inst_keeps R E s (Inst_CL j k t)"
  unfolding Inst_CL_def Let_def by (intro exec_ok err_plain) simp_all

lemma inst_CI: "R s t \<Longrightarrow> inst_keeps R E s (Inst_CI j t)"
  unfolding Inst_CI_def Let_def by (intro exec_ok err_plain) simp_all

lemma inst_MC: "R s t \<Longrightarrow> inst_keeps R E s (Inst_MC j t)"
  unfolding Inst_MC_def Let_def by (intro exec_ok err_plain) simp_all

lemma inst_XA: "R s t \<Longrightarrow> inst_keeps R E s (Inst_XA j t)"
  unfolding Inst_XA_def Let_def by (intro exec_ok err_plain) simp_all

lemma inst_IP: "R s t \<Longrightarrow> inst_keeps R E s (Inst_IP j t)"
  unfolding Inst_IP_def Let_def by (intro exec_ok err_plain err_XMode) simp_all

lemma inst_CLN: "R s t \<Longrightarrow> inst_keeps R E s (Inst_CLN j t)"
  unfolding Inst_CLN_def Let_def
  by (intro exec_ok err_plain err_XMode keeps_start[OF _ eff_SetCluster]) simp_all

lemma inst_clocks: "R s t \<Longrightarrow> inst_keeps R E s (Inst_clocks j k t)"
  unfolding Inst_clocks_def Let_def by (intro exec_ok err_plain inst_IP inst_CLN) simp_all

lemma inst_maintenance: "R s t \<Longrightarrow> inst_keeps R E s (Inst_maintenance j k t)"
  unfolding Inst_maintenance_def by (intro exec_ok) simp_all

lemma inst_TS: "R s t \<Longrightarrow> inst_keeps R E s (Inst_TS jk t)"
  unfolding Inst_TS_def Let_def upd_TestAndSetBlockedCnt_def
  by (intro exec_ok err_plain err_cluster) (simp_all add: cluster_kept)

lemma inst_SM: "R s t \<Longrightarrow> inst_keeps R E s (Inst_SM b jk t)"
  unfolding Inst_SM_def
  by (intro exec_ok err_plain err_cluster) (simp_all add: word_neq_0_conv)

lemma inst_cond_jump: "R s t \<Longrightarrow> inst_keeps R E s (cond_jump c w t)"
  unfolding cond_jump_def by (intro exec_ok) simp_all

lemma inst_SR: "R s t \<Longrightarrow> inst_keeps R E s (Inst_SR i j t)"
proof -
  have host: "inst_keeps R E s (bindE (on_mainframe (SimToHost v)) (\<lambda>v s. CRAY_UNKNOWN (PutS i v s)) t)"
    if "R s t" for v
    using that by (auto simp: bindE_def on_mainframe_def SimToHost_def throwE_def err_plain
        intro!: exec_ok)
  show "R s t \<Longrightarrow> inst_keeps R E s (Inst_SR i j t)"
    unfolding Inst_SR_def by (intro exec_ok host) (auto simp: GetSR_def Let_def intro!: exec_ok)
qed

lemma machine_kept:
  "IsSV1 (for_loop lo hi (\<lambda>i u. PutBM i (f i u) (VectorUsed u)) t) = IsSV1 t"
  by (rule for_loop_preserves)
    (simp add: PutBM_def VectorUsed_def upd_state_def IsSV1_def GetMachineType_def)

lemma inst_BMM: "R s t \<Longrightarrow> IsSV1 t \<Longrightarrow> inst_keeps R E s (Inst_BMM j t)"
  unfolding Inst_BMM_def SetSv1BitMatrixLoaded_def
  by (intro exec_ok err_VL err_BML)
    (simp_all add: machine_kept, simp add: VectorUsed_def upd_state_def IsSV1_def GetMachineType_def
      machine_kept[unfolded IsSV1_def GetMachineType_def VectorUsed_def upd_state_def])

lemma R_BitMatrixRead [exec_ok]: "R s t \<Longrightarrow> R s (BitMatrixRead t)"
  unfolding BitMatrixRead_def by (intro exec_ok)

lemma inst_VxBM: "R s t \<Longrightarrow> inst_keeps R E s (Inst_VxBM i t)"
  unfolding Inst_VxBM_def Let_def by (intro exec_ok err_VL) simp_all

lemma inst_VM: "R s t \<Longrightarrow> inst_keeps R E s (Inst_VM j k t)"
  unfolding Inst_VM_def Let_def by (intro exec_ok err_VL) simp_all

lemma R_compress:
  assumes "R s t"
  shows "R s (fst (for_loop lo hi (\<lambda>Idx (u, NewVM, DstIdx).
           if c Idx u then (PutV i DstIdx (v Idx) u, f Idx NewVM, DstIdx + 1) else (u, NewVM, DstIdx))
         (t, x, d)))"
proof -
  let ?f = "\<lambda>Idx (u, NewVM, DstIdx). if c Idx u then (PutV i DstIdx (v Idx) u, f Idx NewVM, DstIdx + 1)
      else (u, NewVM, DstIdx)"
  have "R s (fst (?f Idx u))" if "R s (fst u)" for Idx u
    using that by (cases u) (simp add: exec_ok)
  then show ?thesis
    by (cases "lo \<le> hi") (rule for_loop_invariant[where I = "\<lambda>_ u. R s (fst u)"], simp_all add: assms)
qed

lemma inst_VM_compress: "R s t \<Longrightarrow> inst_keeps R E s (Inst_VM_compress i j k t)"
  unfolding Inst_VM_compress_def Let_def split_beta
  by (intro exec_ok err_VL R_compress[unfolded split_beta]) simp_all

lemmas inst_cases = inst_CA inst_CL inst_CI inst_MC inst_XA inst_clocks inst_maintenance inst_TS
  inst_SM inst_cond_jump inst_SR inst_BMM inst_VxBM inst_VM inst_VM_compress

section \<open>The dispatch table\<close>

lemma MemParcels_le: "MemParcels t \<le> 3"
  by (simp add: MemParcels_def)

lemma decode_0000:
  assumes "R s t"
  shows "FieldGH w = 0 \<Longrightarrow> inst_keeps R E s (Decode0000 w t)"
    and "FieldGH w = 1 \<Longrightarrow> inst_keeps R E s (Decode0001 w t)"
    and "FieldGH w = 2 \<Longrightarrow> inst_keeps R E s (Decode0002 w t)"
    and "FieldGH w = 3 \<Longrightarrow> inst_keeps R E s (Decode0003 w t)"
    and "FieldGH w = 4 \<Longrightarrow> inst_keeps R E s (Decode0004 w t)"
    and "FieldGH w = 5 \<Longrightarrow> inst_keeps R E s (Decode0005 w t)"
    and "FieldGH w = 6 \<Longrightarrow> inst_keeps R E s (Decode0006 w t)"
    and "FieldGH w = 7 \<Longrightarrow> inst_keeps R E s (Decode0007 w t)"
  using assms unfolding Decode0000_def Decode0001_def Decode0002_def Decode0003_def Decode0004_def Decode0005_def Decode0006_def Decode0007_def Let_def split_beta
  by (simp_all only: CRAY_ASSERT_true)
    (intro exec_ok inst_cases err_cluster err_VL; simp add: cluster_kept MemParcels_le word_gt_0 err_plain)+

lemma decode_0010:
  assumes "R s t"
  shows "FieldGH w = 8 \<Longrightarrow> inst_keeps R E s (Decode0010 w t)"
    and "FieldGH w = 9 \<Longrightarrow> inst_keeps R E s (Decode0011 w t)"
    and "FieldGH w = 10 \<Longrightarrow> inst_keeps R E s (Decode0012 w t)"
    and "FieldGH w = 11 \<Longrightarrow> inst_keeps R E s (Decode0013 w t)"
    and "FieldGH w = 12 \<Longrightarrow> inst_keeps R E s (Decode0014 w t)"
    and "FieldGH w = 13 \<Longrightarrow> inst_keeps R E s (Decode0015 w t)"
    and "FieldGH w = 14 \<Longrightarrow> inst_keeps R E s (Decode0016 w t)"
    and "FieldGH w = 15 \<Longrightarrow> inst_keeps R E s (Decode0017 w t)"
  using assms unfolding Decode0010_def Decode0011_def Decode0012_def Decode0013_def Decode0014_def Decode0015_def Decode0016_def Decode0017_def Let_def split_beta
  by (simp_all only: CRAY_ASSERT_true)
    (intro exec_ok inst_cases err_cluster err_VL; simp add: cluster_kept MemParcels_le word_gt_0 err_plain)+

lemma decode_0020:
  assumes "R s t"
  shows "FieldGH w = 16 \<Longrightarrow> inst_keeps R E s (Decode0020 w t)"
    and "FieldGH w = 17 \<Longrightarrow> inst_keeps R E s (Decode0021 w t)"
    and "FieldGH w = 18 \<Longrightarrow> inst_keeps R E s (Decode0022 w t)"
    and "FieldGH w = 19 \<Longrightarrow> inst_keeps R E s (Decode0023 w t)"
    and "FieldGH w = 20 \<Longrightarrow> inst_keeps R E s (Decode0024 w t)"
    and "FieldGH w = 21 \<Longrightarrow> inst_keeps R E s (Decode0025 w t)"
    and "FieldGH w = 22 \<Longrightarrow> inst_keeps R E s (Decode0026 w t)"
    and "FieldGH w = 23 \<Longrightarrow> inst_keeps R E s (Decode0027 w t)"
  using assms unfolding Decode0020_def Decode0021_def Decode0022_def Decode0023_def Decode0024_def Decode0025_def Decode0026_def Decode0027_def Let_def split_beta
  by (simp_all only: CRAY_ASSERT_true)
    (intro exec_ok inst_cases err_cluster err_VL; simp add: cluster_kept MemParcels_le word_gt_0 err_plain)+

lemma decode_0030:
  assumes "R s t"
  shows "FieldGH w = 24 \<Longrightarrow> inst_keeps R E s (Decode0030 w t)"
    and "FieldGH w = 25 \<Longrightarrow> inst_keeps R E s (Decode0031 w t)"
    and "FieldGH w = 26 \<Longrightarrow> inst_keeps R E s (Decode0032 w t)"
    and "FieldGH w = 27 \<Longrightarrow> inst_keeps R E s (Decode0033 w t)"
    and "FieldGH w = 28 \<Longrightarrow> inst_keeps R E s (Decode0034 w t)"
    and "FieldGH w = 29 \<Longrightarrow> inst_keeps R E s (Decode0035 w t)"
    and "FieldGH w = 30 \<Longrightarrow> inst_keeps R E s (Decode0036 w t)"
    and "FieldGH w = 31 \<Longrightarrow> inst_keeps R E s (Decode0037 w t)"
  using assms unfolding Decode0030_def Decode0031_def Decode0032_def Decode0033_def Decode0034_def Decode0035_def Decode0036_def Decode0037_def Let_def split_beta
  by (simp_all only: CRAY_ASSERT_true)
    (intro exec_ok inst_cases err_cluster err_VL; simp add: cluster_kept MemParcels_le word_gt_0 err_plain)+

lemma decode_0040:
  assumes "R s t"
  shows "FieldGH w = 32 \<Longrightarrow> inst_keeps R E s (Decode0040 w t)"
    and "FieldGH w = 33 \<Longrightarrow> inst_keeps R E s (Decode0041 w t)"
    and "FieldGH w = 34 \<Longrightarrow> inst_keeps R E s (Decode0042 w t)"
    and "FieldGH w = 35 \<Longrightarrow> inst_keeps R E s (Decode0043 w t)"
    and "FieldGH w = 36 \<Longrightarrow> inst_keeps R E s (Decode0044 w t)"
    and "FieldGH w = 37 \<Longrightarrow> inst_keeps R E s (Decode0045 w t)"
    and "FieldGH w = 38 \<Longrightarrow> inst_keeps R E s (Decode0046 w t)"
    and "FieldGH w = 39 \<Longrightarrow> inst_keeps R E s (Decode0047 w t)"
  using assms unfolding Decode0040_def Decode0041_def Decode0042_def Decode0043_def Decode0044_def Decode0045_def Decode0046_def Decode0047_def Let_def split_beta
  by (simp_all only: CRAY_ASSERT_true)
    (intro exec_ok inst_cases err_cluster err_VL; simp add: cluster_kept MemParcels_le word_gt_0 err_plain)+

lemma decode_0050:
  assumes "R s t"
  shows "FieldGH w = 40 \<Longrightarrow> inst_keeps R E s (Decode0050 w t)"
    and "FieldGH w = 41 \<Longrightarrow> inst_keeps R E s (Decode0051 w t)"
    and "FieldGH w = 42 \<Longrightarrow> inst_keeps R E s (Decode0052 w t)"
    and "FieldGH w = 43 \<Longrightarrow> inst_keeps R E s (Decode0053 w t)"
    and "FieldGH w = 44 \<Longrightarrow> inst_keeps R E s (Decode0054 w t)"
    and "FieldGH w = 45 \<Longrightarrow> inst_keeps R E s (Decode0055 w t)"
    and "FieldGH w = 46 \<Longrightarrow> inst_keeps R E s (Decode0056 w t)"
    and "FieldGH w = 47 \<Longrightarrow> inst_keeps R E s (Decode0057 w t)"
  using assms unfolding Decode0050_def Decode0051_def Decode0052_def Decode0053_def Decode0054_def Decode0055_def Decode0056_def Decode0057_def Let_def split_beta
  by (simp_all only: CRAY_ASSERT_true)
    (intro exec_ok inst_cases err_cluster err_VL; simp add: cluster_kept MemParcels_le word_gt_0 err_plain)+

lemma decode_0060:
  assumes "R s t"
  shows "FieldGH w = 48 \<Longrightarrow> inst_keeps R E s (Decode0060 w t)"
    and "FieldGH w = 49 \<Longrightarrow> inst_keeps R E s (Decode0061 w t)"
    and "FieldGH w = 50 \<Longrightarrow> inst_keeps R E s (Decode0062 w t)"
    and "FieldGH w = 51 \<Longrightarrow> inst_keeps R E s (Decode0063 w t)"
    and "FieldGH w = 52 \<Longrightarrow> inst_keeps R E s (Decode0064 w t)"
    and "FieldGH w = 53 \<Longrightarrow> inst_keeps R E s (Decode0065 w t)"
    and "FieldGH w = 54 \<Longrightarrow> inst_keeps R E s (Decode0066 w t)"
    and "FieldGH w = 55 \<Longrightarrow> inst_keeps R E s (Decode0067 w t)"
  using assms unfolding Decode0060_def Decode0061_def Decode0062_def Decode0063_def Decode0064_def Decode0065_def Decode0066_def Decode0067_def Let_def split_beta
  by (simp_all only: CRAY_ASSERT_true)
    (intro exec_ok inst_cases err_cluster err_VL; simp add: cluster_kept MemParcels_le word_gt_0 err_plain)+

lemma decode_0070:
  assumes "R s t"
  shows "FieldGH w = 56 \<Longrightarrow> inst_keeps R E s (Decode0070 w t)"
    and "FieldGH w = 57 \<Longrightarrow> inst_keeps R E s (Decode0071 w t)"
    and "FieldGH w = 58 \<Longrightarrow> inst_keeps R E s (Decode0072 w t)"
    and "FieldGH w = 59 \<Longrightarrow> inst_keeps R E s (Decode0073 w t)"
    and "FieldGH w = 60 \<Longrightarrow> inst_keeps R E s (Decode0074 w t)"
    and "FieldGH w = 61 \<Longrightarrow> inst_keeps R E s (Decode0075 w t)"
    and "FieldGH w = 62 \<Longrightarrow> inst_keeps R E s (Decode0076 w t)"
    and "FieldGH w = 63 \<Longrightarrow> inst_keeps R E s (Decode0077 w t)"
  using assms unfolding Decode0070_def Decode0071_def Decode0072_def Decode0073_def Decode0074_def Decode0075_def Decode0076_def Decode0077_def Let_def split_beta
  by (simp_all only: CRAY_ASSERT_true)
    (intro exec_ok inst_cases err_cluster err_VL; simp add: cluster_kept MemParcels_le word_gt_0 err_plain)+

lemma decode_0100:
  assumes "R s t"
  shows "FieldGH w div 8 = 8 \<Longrightarrow> inst_keeps R E s (Decode010x w t)"
    and "FieldGH w div 8 = 9 \<Longrightarrow> inst_keeps R E s (Decode011x w t)"
    and "FieldGH w div 8 = 10 \<Longrightarrow> inst_keeps R E s (Decode012x w t)"
    and "FieldGH w div 8 = 11 \<Longrightarrow> inst_keeps R E s (Decode013x w t)"
  using assms unfolding Decode010x_def Decode011x_def Decode012x_def Decode013x_def Let_def split_beta
  by (simp_all only: CRAY_ASSERT_true)
    (intro exec_ok inst_cases err_cluster err_VL; simp add: cluster_kept MemParcels_le word_gt_0 err_plain)+

lemma decode_0140:
  assumes "R s t"
  shows "FieldGH w = 96 \<Longrightarrow> inst_keeps R E s (Decode0140 w t)"
    and "FieldGH w = 97 \<Longrightarrow> inst_keeps R E s (Decode0141 w t)"
    and "FieldGH w = 98 \<Longrightarrow> inst_keeps R E s (Decode0142 w t)"
    and "FieldGH w = 99 \<Longrightarrow> inst_keeps R E s (Decode0143 w t)"
    and "FieldGH w = 100 \<Longrightarrow> inst_keeps R E s (Decode0144 w t)"
    and "FieldGH w = 101 \<Longrightarrow> inst_keeps R E s (Decode0145 w t)"
    and "FieldGH w = 102 \<Longrightarrow> inst_keeps R E s (Decode0146 w t)"
    and "FieldGH w = 103 \<Longrightarrow> inst_keeps R E s (Decode0147 w t)"
  using assms unfolding Decode0140_def Decode0141_def Decode0142_def Decode0143_def Decode0144_def Decode0145_def Decode0146_def Decode0147_def Let_def split_beta
  by (simp_all only: CRAY_ASSERT_true)
    (intro exec_ok inst_cases err_cluster err_VL; simp add: cluster_kept MemParcels_le word_gt_0 err_plain)+

lemma decode_0150:
  assumes "R s t"
  shows "FieldGH w = 104 \<Longrightarrow> inst_keeps R E s (Decode0150 w t)"
    and "FieldGH w = 105 \<Longrightarrow> inst_keeps R E s (Decode0151 w t)"
    and "FieldGH w = 106 \<Longrightarrow> inst_keeps R E s (Decode0152 w t)"
    and "FieldGH w = 107 \<Longrightarrow> inst_keeps R E s (Decode0153 w t)"
    and "FieldGH w = 108 \<Longrightarrow> inst_keeps R E s (Decode0154 w t)"
    and "FieldGH w = 109 \<Longrightarrow> inst_keeps R E s (Decode0155 w t)"
    and "FieldGH w = 110 \<Longrightarrow> inst_keeps R E s (Decode0156 w t)"
    and "FieldGH w = 111 \<Longrightarrow> inst_keeps R E s (Decode0157 w t)"
  using assms unfolding Decode0150_def Decode0151_def Decode0152_def Decode0153_def Decode0154_def Decode0155_def Decode0156_def Decode0157_def Let_def split_beta
  by (simp_all only: CRAY_ASSERT_true)
    (intro exec_ok inst_cases err_cluster err_VL; simp add: cluster_kept MemParcels_le word_gt_0 err_plain)+

lemma decode_0160:
  assumes "R s t"
  shows "FieldGH w = 112 \<Longrightarrow> inst_keeps R E s (Decode0160 w t)"
    and "FieldGH w = 113 \<Longrightarrow> inst_keeps R E s (Decode0161 w t)"
    and "FieldGH w = 114 \<Longrightarrow> inst_keeps R E s (Decode0162 w t)"
    and "FieldGH w = 115 \<Longrightarrow> inst_keeps R E s (Decode0163 w t)"
    and "FieldGH w = 116 \<Longrightarrow> inst_keeps R E s (Decode0164 w t)"
    and "FieldGH w = 117 \<Longrightarrow> inst_keeps R E s (Decode0165 w t)"
    and "FieldGH w = 118 \<Longrightarrow> inst_keeps R E s (Decode0166 w t)"
    and "FieldGH w = 119 \<Longrightarrow> inst_keeps R E s (Decode0167 w t)"
  using assms unfolding Decode0160_def Decode0161_def Decode0162_def Decode0163_def Decode0164_def Decode0165_def Decode0166_def Decode0167_def Let_def split_beta
  by (simp_all only: CRAY_ASSERT_true)
    (intro exec_ok inst_cases err_cluster err_VL; simp add: cluster_kept MemParcels_le word_gt_0 err_plain)+

lemma decode_0170:
  assumes "R s t"
  shows "FieldGH w = 120 \<Longrightarrow> inst_keeps R E s (Decode0170 w t)"
    and "FieldGH w = 121 \<Longrightarrow> inst_keeps R E s (Decode0171 w t)"
    and "FieldGH w = 122 \<Longrightarrow> inst_keeps R E s (Decode0172 w t)"
    and "FieldGH w = 123 \<Longrightarrow> inst_keeps R E s (Decode0173 w t)"
    and "FieldGH w = 124 \<Longrightarrow> inst_keeps R E s (Decode0174 w t)"
    and "FieldGH w = 125 \<Longrightarrow> inst_keeps R E s (Decode0175 w t)"
    and "FieldGH w = 126 \<Longrightarrow> inst_keeps R E s (Decode0176 w t)"
    and "FieldGH w = 127 \<Longrightarrow> inst_keeps R E s (Decode0177 w t)"
  using assms unfolding Decode0170_def Decode0171_def Decode0172_def Decode0173_def Decode0174_def Decode0175_def Decode0176_def Decode0177_def Let_def split_beta
  by (simp_all only: CRAY_ASSERT_true)
    (intro exec_ok inst_cases err_cluster err_VL; simp add: cluster_kept MemParcels_le word_gt_0 err_plain)+

lemmas decode_keeps = decode_0000 decode_0010 decode_0020 decode_0030 decode_0040 decode_0050
  decode_0060 decode_0070 decode_0100 decode_0140 decode_0150 decode_0160 decode_0170

lemma table_keeps:
  assumes "R s t" "FieldGH w < 128"
  shows "inst_keeps R E s ((mInstImplementations ! FieldGH w) w t)"
proof -
  have "table_holds (\<lambda>n D. FieldGH w = n \<longrightarrow> inst_keeps R E s (D w t)) 0 mInstImplementations"
    unfolding mInstImplementations_def table_holds.simps using assms(1)
    by (intro conjI impI decode_keeps TrueI; simp)
  from table_holds_nth[OF this, of "FieldGH w"] assms(2) show ?thesis
    by (simp add: length_mInstImplementations)
qed

lemma Decode_keeps: "R s t \<Longrightarrow> inst_keeps R E s (Decode w t)"
  unfolding Decode_def using FieldGH_less[of w] by (simp add: CRAY_ASSERT_true table_keeps)

section \<open>Steps and bursts\<close>

lemma SingleStep_keeps: "R s t \<Longrightarrow> keeps R E s (SingleStep t)"
  unfolding SingleStep_def
  by (auto simp: ReadInstMem_def Let_def err_plain split: sum.splits if_splits
      intro!: keeps_bindE keeps_Inl exec_ok Decode_keeps[THEN inst_keepsD])

lemma burst_keeps:
  assumes "R s t" and count: "\<And>u n. R u (u\<lparr>mInstCnt := n\<rparr>)"
  shows "keeps R E s (burst n t)"
  using assms(1)
proof (induction n arbitrary: t)
  case 0
  then show ?case by (simp add: keeps_Inr)
next
  case (Suc n)
  let ?u = "t\<lparr>mInstCnt := mInstCnt t + 1\<rparr>"
  have step: "keeps R E s (SingleStep ?u)"
    by (rule SingleStep_keeps) (rule R_trans[OF Suc.prems count])
  obtain r u where out: "SingleStep ?u = (r, u)" by force
  with step have "R s u" by (simp add: keeps_def)
  with step out show ?case
    by (auto simp: keeps_def split: sum.splits bool.splits dest: Suc.IH)
qed

end

end
