(* ===== verification/Sample_States.thy ===== *)
theory Sample_States
  imports Cpu
begin

text \<open>
  Concrete states on which the witnesses evaluate the properties: a cleared processor of a
  given machine type in a mainframe of 1024 words with one cluster and one output channel.
\<close>

definition sample_mode :: "MachineTypes_e \<Rightarrow> Mode_c" where
  "sample_mode mt = Mode_c_default mt"

definition sample_state :: "MachineTypes_e \<Rightarrow> CpuState_s" where
  "sample_state mt = \<lparr>stA = (\<lambda>_. 0), stB = (\<lambda>_. 0), stS = (\<lambda>_. 0), stT = (\<lambda>_. 0), stV = (\<lambda>_ _. 0),
     VL = 64, VM = 0, ExchangePacketAddress = 1, ProgramAddress = 0, InstBaseAddr = 0,
     InstLimitAddr = 1024, DataBaseAddr = 0, DataLimitAddr = 1024, Mode = sample_mode mt,
     Flags = 0, InterruptMask = 0, PeriodicInterruptLimit = 0, PeriodicInterruptCountDown = 5,
     PeriodicInterruptEnabled = False, Cluster = 1, TestAndSetBlocked = False,
     VectorNotUsed = True, EnableSecondVectorLogical = False, XmpProgramState = False,
     BitMatrix = (\<lambda>_. 0), AddrMask = (if IsXmp mt then xmp_max else - 1), XMode = IsXmp mt,
     XmpEnhancedAddressingMode = False\<rparr>"

definition sample_channel :: channel where
  "sample_channel = \<lparr>chKind = LoggerChannel False, mAddress = 0, mLimit = 2,
     mInterruptPending = False, mError = False, mActive = True, mChannelId = 8, chFile = [],
     chEof = False\<rparr>"

definition sample_cluster :: cluster where
  "sample_cluster = \<lparr>SB = (\<lambda>_. 0), ST = (\<lambda>_. 0), SM = (\<lambda>_. False), TestAndSetBlockedCnt = 0,
     ClusterCpuCnt = 1\<rparr>"

definition no_ints :: external_ints where
  "no_ints = \<lparr>xInterProcessor = False, xDeadLock = False, xMcu = False, xIo = False\<rparr>"

definition sample_mainframe :: "MachineTypes_e \<Rightarrow> mainframe" where
  "sample_mainframe mt = \<lparr>mMachineType = mt, mMemory = (\<lambda>_. 0), mMemorySize = 8192,
     mChannels = [Some sample_channel], mClusters = [sample_cluster],
     mCpus = [\<lparr>vTsBlocked = False, vSelectedForExternalInterrupts = False, vCluster = 1\<rparr>],
     mPending = (\<lambda>_. no_ints), mLastCpuIssuedCI = 0, mIoMasterClear = False,
     mRealTimeClock = 0, mRealTimeClockIncrement = 1, mRealTimeClockChunkLimit = 10,
     mLastRealTimeReading = 0, mUseHostRealTimeClock = True, mRealTimeStart = 0, mHostWall = 5,
     mDeltaClocks = (\<lambda>w. w)\<rparr>"

definition sample_cpu :: "MachineTypes_e \<Rightarrow> SoftCpu_c" where
  "sample_cpu mt = \<lparr>mState = sample_state mt, mCallStack = [], mCpuId = 0, mInReset = False,
     mThrowOnUnknown = False, mThrowOnUnimplemented = False, mTimerIncrement = 1000,
     mInstructionBurstSize = 99, mInstCnt = 0, mMemoryPokes = [],
     mMainframe = sample_mainframe mt\<rparr>"

lemmas sample_defs = sample_cpu_def sample_mainframe_def sample_state_def sample_mode_def
  sample_channel_def sample_cluster_def no_ints_def Mode_c_default_def

end
