(* ===== verification/Cpu_Contracts.thy ===== *)
theory Cpu_Contracts
  imports Inst_Effects Sample_States
begin

text \<open>
  Contracts on the whole processor: the isolation of user programs, the frame of the memory and
  the well-formedness of the state without failed assertions. Each is an interpretation of
  \<open>inst_effects\<close>, so that it holds for every instruction, and is then carried to the burst.
\<close>

section \<open>The channel operations and the rest of the mainframe\<close>

definition core :: "mainframe \<Rightarrow> memory \<times> nat \<times> cluster list \<times> MachineTypes_e \<times> nat" where
  "core mf = (mMemory mf, mMemorySize mf, mClusters mf, mMachineType mf, length (mChannels mf))"

lemma core_channel [simp]:
  "core (upd_chan ix f mf) = core mf" "core (RouteChannelInterrupt mf) = core mf"
  "core (SetInterruptPending b ix mf) = core mf" "core (SetInactive ix mf) = core mf"
  "core (SetLimit a ix mf) = core mf" "core (ClearInterrupt ix mf) = core mf"
  "core (ClearError ix mf) = core mf" "core (MainframeSideMasterClear ix mf) = core mf"
proof -
  show u: "core (upd_chan ix f mf) = core mf" for f mf by (simp add: core_def upd_chan_def)
  show r: "core (RouteChannelInterrupt mf) = core mf" for mf
    by (simp add: core_def RouteChannelInterrupt_def SetIoInterrupt_at_def split: option.splits)
  show p: "core (SetInterruptPending b ix mf) = core mf" for b mf
    by (simp add: SetInterruptPending_def Let_def u r)
  show i: "core (SetInactive ix mf) = core mf" for mf by (simp add: SetInactive_def u)
  show "core (SetLimit a ix mf) = core mf" "core (ClearInterrupt ix mf) = core mf"
    "core (ClearError ix mf) = core mf" "core (MainframeSideMasterClear ix mf) = core mf"
    by (simp_all add: SetLimit_def ClearInterrupt_def ClearError_def MainframeSideMasterClear_def
        Let_def u p i)
qed

lemma core_GetData: "core (snd (GetData ix mf)) = core mf"
  by (simp add: GetData_def MemReadNoWatchpoint_def throwE_def Let_def)

lemma core_drain: "core (snd (LoggerChannel_drain ix mf)) = core mf"
proof (induction ix mf rule: LoggerChannel_drain.induct)
  case (1 ix mf)
  obtain r mf' where out: "GetData ix mf = (r, mf')" by force
  have "core mf' = core mf" using core_GetData[of ix mf] out by simp
  moreover have "core (snd (LoggerChannel_drain ix mf')) = core mf'"
    if "ix < length (mChannels mf)" "mActive (chan mf ix)" "r = Inr v" for v
    using 1 out that by simp
  ultimately show ?case
    using out by (subst LoggerChannel_drain.simps) (auto split: sum.splits)
qed

lemma core_SetAddress: "core (snd (SetAddress a ix mf)) = core mf"
  by (auto simp: SetAddress_def SetActive_def HandleActivation_def Let_def core_drain
      split: prod.splits sum.splits ChannelKind.splits dest: arg_cong[where f = snd]
      dest!: arg_cong[where f = "\<lambda>p. core (snd p)"])

text \<open>A drain that starts with data to send never meets a failed assertion.\<close>

lemma GetData_no_assert:
  "mActive (chan mf ix) \<Longrightarrow> mAddress (chan mf ix) \<noteq> mLimit (chan mf ix) \<Longrightarrow>
   fst (GetData ix mf) \<noteq> Inl AssertError"
  by (simp add: GetData_def MemReadNoWatchpoint_def throwE_def Let_def)

lemma drain_no_assert:
  assumes "ix < length (mChannels mf)"
    "mActive (chan mf ix) \<Longrightarrow> mAddress (chan mf ix) \<noteq> mLimit (chan mf ix)"
  shows "fst (LoggerChannel_drain ix mf) \<noteq> Inl AssertError"
  using assms
proof (induction ix mf rule: LoggerChannel_drain.induct)
  case (1 ix mf)
  show ?case
  proof (cases "mActive (chan mf ix)")
    case False
    then show ?thesis by (subst LoggerChannel_drain.simps) simp
  next
    case True
    obtain r mf' where out: "GetData ix mf = (r, mf')" by force
    have "fst (LoggerChannel_drain ix mf') \<noteq> Inl AssertError" if "r = Inr v" for v
      using GetData_step[of ix mf v mf'] 1 out True that by simp
    with True 1(2,3) out GetData_no_assert[of mf ix] show ?thesis
      by (subst LoggerChannel_drain.simps) (auto split: sum.splits)
  qed
qed

lemma SetAddress_no_assert:
  assumes "ix < length (mChannels mf)"
  shows "fst (SetAddress a ix mf) \<noteq> Inl AssertError"
  using drain_no_assert[of ix] assms
  by (auto simp: SetAddress_def SetActive_def HandleActivation_def Let_def
      split: prod.splits sum.splits ChannelKind.splits dest!: arg_cong[where f = fst])

section \<open>Isolation of the user mode\<close>

text \<open>
  What only the monitor may change: the address ranges of the program, the exchange address,
  the cluster, the periodic interrupt, the mode bits that rule interrupts, the channels, the
  real-time clock and the interrupts pending at the processors.
\<close>

definition privileged_registers where
  "privileged_registers c =
     ((InstBaseAddr c, InstLimitAddr c, DataBaseAddr c, DataLimitAddr c),
      (ExchangePacketAddress c, Cluster c, XMode c, AddrMask c),
      (PeriodicInterruptLimit c, PeriodicInterruptCountDown c, PeriodicInterruptEnabled c),
      (mMonitorMode (Mode c), mInterruptMonitorMode (Mode c), mSelectedForExternalInterrupts (Mode c),
       mCorrectableMemoryErrorMode (Mode c), mUncorrectableMemoryErrorMode (Mode c)))"

definition privileged_devices where
  "privileged_devices mf =
     (mChannels mf, mRealTimeClock mf, mPending mf, mCpus mf, mMemorySize mf, mIoMasterClear mf)"

definition privileged where
  "privileged s =
     (privileged_registers (mState s), privileged_devices (mMainframe s), mCpuId s, mInReset s)"

definition user_isolated :: "SoftCpu_c \<Rightarrow> SoftCpu_c \<Rightarrow> bool" where
  "user_isolated s t \<longleftrightarrow> (\<not> IsMonitorMode s \<longrightarrow> privileged t = privileged s)"

lemmas update_defs = PutA_def PutS_def PutB_def PutT_def PutV_def PutBM_def VectorUsed_def PutVM_def
  SetVL_def PutVL_def PutP_def upd_Flags_def upd_Mode_def CalcInterruptMask_def PutBlocked_def
  upd_cluster_def upd_mainframe_def upd_state_def Let_def MemWrite_def

lemma monitor_privileged: "privileged t = privileged s \<Longrightarrow> IsMonitorMode t = IsMonitorMode s"
  by (simp add: privileged_def privileged_registers_def IsMonitorMode_def)

lemma clock_core:
  "core (snd (GetRealTimeClock mf)) = core mf"
  "privileged_devices (snd (GetRealTimeClock mf)) = privileged_devices mf"
  by (simp_all add: GetRealTimeClock_def core_def privileged_devices_def Let_def)

interpretation user: inst_effects user_isolated "\<lambda>_ _. True"
proof
  show "user_isolated s u" if "user_isolated s t" "user_isolated t u" for s t u
    using that monitor_privileged[of t s] by (auto simp: user_isolated_def)
  show "user_isolated t (t\<lparr>mMainframe := snd (GetRealTimeClock (mMainframe t))\<rparr>)" for t
    by (simp add: user_isolated_def privileged_def clock_core)
qed (simp_all add: keeps_def user_isolated_def privileged_def privileged_registers_def
    privileged_devices_def update_defs)

section \<open>Memory above the data limit\<close>

definition memory_frame :: "SoftCpu_c \<Rightarrow> SoftCpu_c \<Rightarrow> bool" where
  "memory_frame s t \<longleftrightarrow>
     DataLimitAddr (mState t) = DataLimitAddr (mState s) \<and>
     (\<forall>x. 8 * unat (DataLimitAddr (mState s)) \<le> x \<longrightarrow>
        mMemory (mMainframe t) x = mMemory (mMainframe s) x)"

lemma byte_address_le: "unat ((a :: uint32) * 8) \<le> 8 * unat a"
  by (simp add: unat_word_ariths)

lemma memory_frame_core:
  "core mf = core (mMainframe s) \<Longrightarrow> memory_frame s (s\<lparr>mMainframe := mf\<rparr>)"
  by (simp add: memory_frame_def core_def)

interpretation frame: inst_effects memory_frame "\<lambda>_ _. True"
proof
  show "memory_frame s u" if "memory_frame s t" "memory_frame t u" for s t u
    using that by (auto simp: memory_frame_def)
  show "memory_frame t (t\<lparr>mMainframe := snd (GetRealTimeClock (mMainframe t))\<rparr>)" for t
    by (simp add: memory_frame_core clock_core)
  show "memory_frame t (upd_mainframe (MemWrite a v) t)"
    if "a < DataLimitAddr (mState t)" "unat a < mMemSizeInWords (mMainframe t)" for a v t
    using that(1) byte_address_le[of a]
    by (auto simp: memory_frame_def update_defs store64_def word_less_nat_alt)
  show "keeps memory_frame (\<lambda>_ _. True) t (on_mainframe (SetAddress a ix) (PublishView t))" for a ix t
    using core_SetAddress[of a ix "mMainframe (PublishView t)"]
    by (auto simp: keeps_def memory_frame_def core_def on_mainframe_def PublishView_def upd_mainframe_def
        split: prod.splits)
  show "keeps memory_frame (\<lambda>_ _. True) t (SetCluster (of_nat ci) t)" for ci t
    by (auto simp: keeps_def memory_frame_def SetCluster_def bindE_def returnE_def
        upd_ClusterCpuCnt_def upd_mainframe_def upd_state_def Let_def)
qed (simp_all add: memory_frame_def update_defs core_channel[unfolded core_def, simplified] SetInterProcessorInterrupt_at_def SetRealTimeClock_def)

section \<open>Well-formed processors\<close>

text \<open>
  The states in which no assertion of the code can fail: the memory is not empty, the
  cluster number is in range, the vector length is that of a vector register, the mode
  register was built for the machine, and X mode is an X-MP.
\<close>

definition cpu_ok :: "SoftCpu_c \<Rightarrow> bool" where
  "cpu_ok s \<longleftrightarrow>
     0 < mMemSizeInWords (mMainframe s) \<and>
     unat (Cluster (mState s)) \<le> length (mClusters (mMainframe s)) \<and>
     1 \<le> VLen s \<and> VLen s \<le> cVecSize \<and>
     modeMachineType (Mode (mState s)) = GetMachineType s \<and>
     (IsXMode s \<longrightarrow> cpu_IsXmp s)"

definition keeps_ok :: "SoftCpu_c \<Rightarrow> SoftCpu_c \<Rightarrow> bool" where
  "keeps_ok s t \<longleftrightarrow> (cpu_ok s \<longrightarrow> cpu_ok t)"

definition no_assert :: "SoftCpu_c \<Rightarrow> exn \<Rightarrow> bool" where
  "no_assert s e \<longleftrightarrow> (cpu_ok s \<longrightarrow> e \<noteq> AssertError)"

lemma keeps_ok_core:
  assumes "core mf = core (mMainframe s)"
  shows "keeps_ok s (s\<lparr>mMainframe := mf\<rparr>)"
  using assms by (simp add: keeps_ok_def cpu_ok_def core_def mMemSizeInWords_def VLen_def
      GetMachineType_def IsXMode_def cpu_IsXmp_def)

lemmas cpu_ok_defs = keeps_ok_def no_assert_def cpu_ok_def mMemSizeInWords_def VLen_def
  GetMachineType_def IsXMode_def cpu_IsXmp_def update_defs

lemma SetVL_range: "1 \<le> VLen (SetVL k s)" "VLen (SetVL k s) \<le> cVecSize"
proof -
  let ?l = "ucast (RefAk k s AND 0x3f) :: uint8"
  have "unat (RefAk k s AND 0x3f) \<le> 63"
    using word_and_le1[of "RefAk k s" "0x3f"] by (simp add: word_le_nat_alt)
  then have "unat ?l \<le> 63" by (simp add: unsigned_ucast_eq take_bit_nat_eq_self)
  moreover have "?l \<noteq> 0 \<Longrightarrow> 1 \<le> unat ?l" by (simp add: Suc_le_eq unat_gt_0)
  ultimately show "1 \<le> VLen (SetVL k s)" "VLen (SetVL k s) \<le> cVecSize"
    by (auto simp: VLen_def SetVL_def PutVL_def upd_state_def Let_def cVecSize_def)
qed

lemma cluster_index:
  fixes c :: uint8
  shows "c \<noteq> 0 \<Longrightarrow> unat c \<le> n \<Longrightarrow> unat c - Suc 0 < n"
  using unat_gt_0[of c] by linarith

lemma unat_of_nat_le: "unat (of_nat n :: 'a::len word) \<le> n"
  by (simp add: unat_of_nat)

lemma SetCluster_ok:
  assumes "ci \<le> length (mClusters (mMainframe t))" "cpu_ok t"
  shows "keeps keeps_ok no_assert t (SetCluster (of_nat ci) t)"
proof -
  have "unat (of_nat ci :: uint8) \<le> length (mClusters (mMainframe t))"
    using assms(1) unat_of_nat_le[of ci] by (meson le_trans)
  with assms(2) show ?thesis
    by (auto simp: keeps_def cpu_ok_defs SetCluster_def bindE_def returnE_def upd_ClusterCpuCnt_def
        cluster_index)
qed

lemma SetAddress_ok:
  assumes "ix < GetChannelCnt t" "cpu_ok t"
  shows "keeps keeps_ok no_assert t (on_mainframe (SetAddress a ix) (PublishView t))"
proof -
  have "core (mMainframe (PublishView t)) = core (mMainframe t)" "ix < length (mChannels (mMainframe (PublishView t)))"
    using assms(1) by (simp_all add: core_def PublishView_def upd_mainframe_def GetChannelCnt_def)
  then show ?thesis
    using core_SetAddress[of a ix "mMainframe (PublishView t)"]
      SetAddress_no_assert[of ix "mMainframe (PublishView t)" a] keeps_ok_core[of _ t]
    by (auto simp: keeps_def no_assert_def on_mainframe_def split: prod.splits) (simp add: PublishView_def upd_mainframe_def)
qed

interpretation wf: inst_effects keeps_ok no_assert
proof
  show "keeps_ok s u" if "keeps_ok s t" "keeps_ok t u" for s t u
    using that by (auto simp: keeps_ok_def)
  show "no_assert s e" if "keeps_ok s t" "no_assert t e" for s t e
    using that by (auto simp: keeps_ok_def no_assert_def)
  show "keeps_ok t (SetVL k t)" for k t
    using SetVL_range[of k t] by (auto simp: cpu_ok_defs)
  show "keeps_ok t (t\<lparr>mMainframe := snd (GetRealTimeClock (mMainframe t))\<rparr>)" for t
    by (simp add: keeps_ok_core clock_core)
  show "keeps keeps_ok no_assert t (on_mainframe (SetAddress a ix) (PublishView t))"
    if "ix < GetChannelCnt t" for a ix t
    using SetAddress_ok[of ix t a] that by (auto simp: keeps_def keeps_ok_def no_assert_def)
  show "no_assert t AssertError" if "Cluster (mState t) \<noteq> 0" "\<not> GetCluster_ok t" for t
    using that cluster_index[of "Cluster (mState t)"] by (auto simp: no_assert_def cpu_ok_def GetCluster_ok_def)
  show "keeps keeps_ok no_assert t (SetCluster (of_nat ci) t)"
    if "ci \<le> length (mClusters (mMainframe t))" for ci t
    using SetCluster_ok[of ci t] that by (auto simp: keeps_def keeps_ok_def no_assert_def)
qed (simp_all add: cpu_ok_defs core_channel[unfolded core_def, simplified] SetInterProcessorInterrupt_at_def SetRealTimeClock_def
  IsSV1_def GetCluster_ok_def)

section \<open>Properties\<close>

text \<open>C1: user-mode isolation. However many instructions a burst runs in user mode, and
  whether it ends normally or with any exception, the state that only the monitor may change
  is what it was: the base and limit addresses, the exchange address, the cluster, the
  periodic interrupt, the mode bits that rule interrupts, the channels, the real-time clock,
  the pending interrupts of all processors and the size of the memory.\<close>

theorem user_mode_isolation:
  assumes "\<not> IsMonitorMode s"
  shows "privileged (snd (burst n s)) = privileged s"
proof -
  have "keeps user_isolated (\<lambda>_ _. True) s (burst n s)"
    by (rule user.burst_keeps) (simp_all add: user_isolated_def privileged_def)
  with assms show ?thesis by (simp add: keeps_def user_isolated_def)
qed

theorem user_mode_isolation_witness:
  "\<not> IsMonitorMode (sample_cpu XMP4xx) \<and>
   privileged (snd (burst 100 (sample_cpu XMP4xx))) = privileged (sample_cpu XMP4xx)"
  using user_mode_isolation[of "sample_cpu XMP4xx" 100]
  by (simp add: IsMonitorMode_def sample_defs)

text \<open>C2: the data limit protects memory. A burst of instructions, in any mode and however it
  ends, leaves every byte of memory from the data limit address on as it was.\<close>

theorem data_limit_protects_memory:
  assumes "8 * unat (DataLimitAddr (mState s)) \<le> x"
  shows "mMemory (mMainframe (snd (burst n s))) x = mMemory (mMainframe s) x"
proof -
  have "keeps memory_frame (\<lambda>_ _. True) s (burst n s)"
    by (rule frame.burst_keeps) (simp_all add: memory_frame_def)
  with assms show ?thesis by (simp add: keeps_def memory_frame_def)
qed

theorem data_limit_protects_memory_witness:
  "8 * unat (DataLimitAddr (mState (sample_cpu YMP))) \<le> 8192 \<and>
   mMemory (mMainframe (snd (burst 100 (sample_cpu YMP)))) 8192 = mMemory (mMainframe (sample_cpu YMP)) 8192"
  using data_limit_protects_memory[of "sample_cpu YMP" 8192 100] by (simp add: sample_defs)

text \<open>C9: no assertion fails. A burst that starts in a well-formed processor ends in a
  well-formed processor (the vector length stays between 1 and 64, the cluster number stays
  in range, the mode register stays that of the machine), and no assertion of the code fails
  on the way: neither the decoders' checks of their own opcode, nor those of the memory, the
  clusters, the channels and the vector length.\<close>

theorem burst_no_assert:
  assumes "cpu_ok s"
  shows "cpu_ok (snd (burst n s)) \<and> fst (burst n s) \<noteq> Inl AssertError"
proof -
  have "keeps keeps_ok no_assert s (burst n s)"
    by (rule wf.burst_keeps) (simp_all add: cpu_ok_defs)
  with assms show ?thesis by (auto simp: keeps_def keeps_ok_def no_assert_def)
qed

lemma sample_ok: "cpu_ok (sample_cpu mt)"
  by (simp add: cpu_ok_defs sample_defs cVecSize_def)

theorem burst_no_assert_witness:
  "cpu_ok (sample_cpu SV1) \<and> cpu_ok (snd (burst 100 (sample_cpu SV1))) \<and>
   fst (burst 100 (sample_cpu SV1)) \<noteq> Inl AssertError"
  using burst_no_assert[of "sample_cpu SV1" 100] by (simp add: sample_ok)

text \<open>program address increments. An instruction that returns reports an increment of at
  most three parcels, for every one of the 128 entries of the dispatch table.\<close>

theorem Decode_increment:
  assumes "Decode w s = (Inr (n, b), t)"
  shows "n \<le> 3"
proof -
  have "inst_keeps user_isolated (\<lambda>_ _. True) s (Decode w s)"
    by (rule user.Decode_keeps) (simp add: user_isolated_def)
  with assms show ?thesis by (simp add: inst_keeps_def)
qed

theorem Decode_increment_witness:
  "Decode 0 (sample_cpu J90) = (Inr (1, True), upd_Flags SetErrorExit (sample_cpu J90)) \<and> (1 :: nat) \<le> 3"
proof -
  have d: "Decode 0 (sample_cpu J90) = (Inr (1, True), upd_Flags SetErrorExit (sample_cpu J90))"
    by (simp add: Decode_def CRAY_ASSERT_def FieldGH_def FirstParcel_def mInstImplementations_def
        Decode0000_def ret_break_def)
  with Decode_increment[OF d] show ?thesis by simp
qed

end
