(* ===== verification/Cpu_Exchange.thy ===== *)
theory Cpu_Exchange
  imports Cpu_Contracts
begin

text \<open>
  The exchange of a program's context with the packet in memory, \<^verbatim>\<open>sim_lib/cray_softcpu.cpp\<close>
  with \<^verbatim>\<open>sim_lib/exchange_packet.h\<close>: which bits of the packet carry which register for each
  machine type, what two exchanges restore, what an exchange writes, and which interrupt
  flags it consumes. \<open>packet_of\<close> is taken apart into the packet of the plain fields and its
  sealing with the mode, the flags and the A and S registers.
\<close>

section \<open>Words of the packet\<close>

lemma packet_registers:
  fixes A :: "nat \<Rightarrow> CAddr_t" and S :: "nat \<Rightarrow> CInt_t" and ep :: ExchangePacket_c
  defines "n \<equiv> (if IsXmp (epMachineType ep) then 24 else 32)"
  defines "out \<equiv> for_loop 0 8 (\<lambda>i ep. SetS i (S i) (SetA i (A i) ep)) ep"
  shows "epMachineType out = epMachineType ep"
    "Data out w = (if w < 8 then SetBits (Data ep w) (n - 1) 0 (ucast (A w))
       else if w < 16 then S (w - 8) else Data ep w)"
proof -
  let ?I = "\<lambda>k (e :: ExchangePacket_c). epMachineType e = epMachineType ep \<and>
    (\<forall>w. Data e w = (if w < k then SetBits (Data ep w) (n - 1) 0 (ucast (A w))
       else if 8 \<le> w \<and> w < 8 + k then S (w - 8) else Data ep w))"
  have "?I 8 out"
    unfolding out_def
  proof (rule for_loop_invariant[where I = ?I])
    fix i e
    assume "i < 8" and I: "?I i e"
    then show "?I (Suc i) (SetS i (S i) (SetA i (A i) e))"
      by (auto simp: SetS_def SetA_def n_def cBitCnt_def less_Suc_eq)
  qed auto
  then show "epMachineType out = epMachineType ep"
    "Data out w = (if w < 8 then SetBits (Data ep w) (n - 1) 0 (ucast (A w))
       else if w < 16 then S (w - 8) else Data ep w)"
    by auto
qed


lemma GetMode_cong:
  assumes "epMachineType e = epMachineType e'"
    "IsXmp (epMachineType e) \<Longrightarrow> GetBits (Data e 1) 28 24 = GetBits (Data e' 1) 28 24 \<and>
      GetBits (Data e 2) 28 24 = GetBits (Data e' 2) 28 24"
    "\<not> IsXmp (epMachineType e) \<Longrightarrow> GetBits (Data e 6) 32 43 = GetBits (Data e' 6) 32 43 \<and>
      GetBits (Data e 6) 62 62 = GetBits (Data e' 6) 62 62"
  shows "GetMode e = GetMode e'"
  using assms by (simp add: GetMode_def)

lemmas field_defs = 
  GetProgramAddress_def GetXmpProgramAddress_def GetYmpProgramAddress_def
  SetProgramAddress_def SetXmpProgramAddress_def SetYmpProgramAddress_def
  GetInstBaseAddr_def GetXmpInstBaseAddr_def GetYmpInstBaseAddr_def
  SetInstBaseAddr_def SetXmpInstBaseAddr_def SetYmpInstBaseAddr_def
  GetInstLimitAddr_def GetXmpInstLimitAddr_def GetYmpInstLimitAddr_def
  SetInstLimitAddr_def SetXmpInstLimitAddr_def SetYmpInstLimitAddr_def
  GetDataBaseAddr_def GetXmpDataBaseAddr_def GetYmpDataBaseAddr_def
  SetDataBaseAddr_def SetXmpDataBaseAddr_def SetYmpDataBaseAddr_def
  GetDataLimitAddr_def GetXmpDataLimitAddr_def GetYmpDataLimitAddr_def
  SetDataLimitAddr_def SetXmpDataLimitAddr_def SetYmpDataLimitAddr_def

  GetExchangeAddress_def GetXmpExchangeAddress_def GetYmpExchangeAddress_def
  SetExchangeAddress_def SetXmpExchangeAddress_def SetYmpExchangeAddress_def
  GetVectorLength_def GetXmpVectorLength_def GetYmpVectorLength_def
  SetVectorLength_def SetXmpVectorLength_def SetYmpVectorLength_def
  GetClusterNumber_def GetXmpClusterNumber_def GetYmpClusterNumber_def
  SetClusterNumber_def SetXmpClusterNumber_def SetYmpClusterNumber_def
  SetVectorNotUsed_def SetXmpVectorNotUsed_def SetYmpVectorNotUsed_def
  SetProcessorNumber_def SetXmpProcessorNumber_def SetYmpProcessorNumber_def
  SetSyndrome_def SetXmpSyndrome_def SetYmpSyndrome_def SetXmpReadAddress_def
  GetXmpEnhancedAddressingMode_def SetXmpEnhancedAddressingMode_def
  GetXmpProgramState_def SetXmpProgramState_def
  GetXmpEnableSecondVectorLogical_def SetXmpEnableSecondVectorLogical_def
  SetYmpProcessorType_def

lemma bool8_bit: "(ucast (take_bit (Suc 0) (ucast (bool8 b) :: uint64)) :: uint8) \<noteq> 0 \<longleftrightarrow> b"
  "(ucast (ucast (bool8 b) mod 2 :: uint64) :: uint8) \<noteq> 0 \<longleftrightarrow> b"
  "(ucast (take_bit 1 (ucast (bool8 b) :: uint64)) :: uint8) \<noteq> 0 \<longleftrightarrow> b"
  by (cases b; simp add: bool8_def)+

lemma narrow_field:
  fixes a :: "'a::len word"
  assumes "LENGTH('a) \<le> 64" "unat a < 2 ^ n"
  shows "(ucast (take_bit n (ucast a :: uint64)) :: 'a word) = a"
proof (rule word_eq_by_bits)
  fix k :: nat
  assume "k < LENGTH('a)"
  moreover have "take_bit n a = a"
    using assms(2) by (simp add: word_unat_eq_iff unsigned_take_bit_eq take_bit_nat_eq_self)
  then have "bit a k \<Longrightarrow> k < n" by (metis bit_take_bit_iff)
  ultimately show "bit (ucast (take_bit n (ucast a :: uint64)) :: 'a word) k = bit a k"
    using assms(1) by (auto simp: bit_simps)
qed

definition known_machine :: "MachineTypes_e \<Rightarrow> bool" where
  "known_machine mt \<longleftrightarrow> mt \<noteq> C90 \<and> mt \<noteq> T90"

text \<open>Where the protection addresses sit: the top bit, the lowest bit and the shift.\<close>

definition prot_layout :: "MachineTypes_e \<Rightarrow> nat \<times> nat \<times> nat" where
  "prot_layout mt = (case mt of
     XMP1xx \<Rightarrow> (47, 29, 5) | XMP2xx \<Rightarrow> (45, 29, 5) | XMP4xx \<Rightarrow> (47, 30, 6)
   | YEL \<Rightarrow> (54, 32, 8) | J90 \<Rightarrow> (55, 34, 10) | SV1 \<Rightarrow> (55, 34, 10) | _ \<Rightarrow> (55, 32, 8))"

definition prot_fits :: "MachineTypes_e \<Rightarrow> CAddr_t \<Rightarrow> bool" where
  "prot_fits mt a \<longleftrightarrow> (case prot_layout mt of
     (t, l, sh) \<Rightarrow> push_bit sh (take_bit (Suc (t - l)) (drop_bit sh a)) = a)"

lemma prot_ranges:
  assumes "prot_layout mt = (t, l, sh)"
  shows "l \<le> t" "t \<le> 55" "28 < l" "\<not> IsXmp mt \<Longrightarrow> 31 < l" "IsXmp mt \<Longrightarrow> t \<le> 47"
  using assms by (cases mt; simp add: prot_layout_def; fail)+

definition put_prot :: "nat \<Rightarrow> nat \<Rightarrow> nat \<Rightarrow> nat \<Rightarrow> CAddr_t \<Rightarrow> ExchangePacket_c \<Rightarrow> ExchangePacket_c" where
  "put_prot t l sh w a ep = PutWord w (SetBits (Data ep w) t l (drop_bit sh (ucast a))) ep"

lemma put_prot_simps [simp]:
  "epMachineType (put_prot t l sh w a ep) = epMachineType ep"
  "Data (put_prot t l sh w a ep) v =
     (if v = w then SetBits (Data ep w) t l (drop_bit sh (ucast a)) else Data ep v)"
  by (simp_all add: put_prot_def)

lemma Prot_layout:
  assumes "known_machine (epMachineType ep)" "prot_layout (epMachineType ep) = (t, l, sh)"
  shows "GetProt w ep = Some (ucast (push_bit sh (GetBits (Data ep w) t l)))"
    "SetProt w a ep = Some (put_prot t l sh w a ep)"
  using assms unfolding put_prot_def
  by (cases "epMachineType ep"; force simp: known_machine_def prot_layout_def GetProt_def SetProt_def
      GetProtectionTop_def GetProtectionBits_def GetProtectionShift_def)+

lemma prot_fits_field:
  assumes "prot_fits mt a" "prot_layout mt = (t, l, sh)"
  shows "ucast (push_bit sh (take_bit (Suc (t - l)) (drop_bit sh (ucast a :: uint64)))) = a"
proof -
  have "ucast (push_bit sh (take_bit (Suc (t - l)) (drop_bit sh (ucast a :: uint64)))) =
      push_bit sh (take_bit (Suc (t - l)) (drop_bit sh a))"
    by (intro word_eq_by_bits) (auto simp: bit_simps dest: bit_imp_less_length)
  with assms show ?thesis by (simp add: prot_fits_def)
qed

lemma bits_other:
  "a \<le> 63 \<Longrightarrow> b \<le> a \<Longrightarrow> c \<le> 63 \<Longrightarrow> e \<le> c \<Longrightarrow> a < e \<or> c < b \<Longrightarrow>
   GetBits (SetBits d a b v) c e = GetBits d c e"
  by (rule GetBits_SetBits_other) (auto simp: max_def min_def)

lemma bits_same:
  "a \<le> 63 \<Longrightarrow> b \<le> a \<Longrightarrow> GetBits (SetBits d a b v) a b = take_bit (Suc (a - b)) v"
  by (simp add: GetBits_SetBits_same)

section \<open>The packet of a processor\<close>

text \<open>The packet before and after the mode, the flags and the registers are stored.\<close>

definition base_packet :: "SoftCpu_c \<Rightarrow> nat \<Rightarrow> nat \<Rightarrow> nat \<Rightarrow> ExchangePacket_c" where
  "base_packet s t l sh =
     (let c = mState s; xmp = cpu_IsXmp s;
          prot = put_prot t l sh;
          ep = ExchangePacket_new (GetMachineType s);
          ep = SetProcessorNumber (of_nat (mCpuId s)) ep;
          ep = SetSyndrome 0 ep;
          ep = SetProgramAddress (ProgramAddress c) ep;
          ep = (if xmp then SetXmpReadAddress 0 ep else ep);
          ep = prot 1 (InstBaseAddr c) ep;
          ep = prot 2 (InstLimitAddr c) ep;
          ep = SetVectorNotUsed (bool8 (VectorNotUsed c)) ep;
          ep = SetExchangeAddress (ExchangePacketAddress c) ep;
          ep = SetVectorLength (VL c) ep;
          ep = (if xmp then SetXmpEnhancedAddressingMode (bool8 (XmpEnhancedAddressingMode c)) ep else ep);
          ep = prot (if xmp then 4 else 3) (DataBaseAddr c) ep;
          ep = (if xmp then SetXmpProgramState (bool8 (XmpProgramState c)) ep else ep);
          ep = SetClusterNumber (Cluster c) ep
      in prot (if xmp then 5 else 4) (DataLimitAddr c) ep)"

definition seal_packet :: "SoftCpu_c \<Rightarrow> ExchangePacket_c \<Rightarrow> ExchangePacket_c" where
  "seal_packet s ep =
     (let c = mState s;
          ep = SetMode (Mode c) ep;
          ep = SetEnableSecondVectorLogical (bool8 (EnableSecondVectorLogical c)) ep;
          ep = SetFlag (FiringInterrupts s) ep
      in for_loop 0 8 (\<lambda>i ep. SetS i (stS c i) (SetA i (stA c i) ep)) ep)"

lemma unified_machine_type [simp]:
  "epMachineType (SetProcessorNumber v8 ep) = epMachineType ep"
  "epMachineType (SetSyndrome v8 ep) = epMachineType ep"
  "epMachineType (SetProgramAddress v ep) = epMachineType ep"
  "epMachineType (SetXmpReadAddress v ep) = epMachineType ep"
  "epMachineType (SetVectorNotUsed v8 ep) = epMachineType ep"
  "epMachineType (SetExchangeAddress v8 ep) = epMachineType ep"
  "epMachineType (SetVectorLength v8 ep) = epMachineType ep"
  "epMachineType (SetXmpEnhancedAddressingMode v8 ep) = epMachineType ep"
  "epMachineType (SetXmpProgramState v8 ep) = epMachineType ep"
  "epMachineType (SetClusterNumber v8 ep) = epMachineType ep"
  "epMachineType (SetEnableSecondVectorLogical v8 ep) = epMachineType ep"
  by (simp_all add: field_defs SetEnableSecondVectorLogical_def)

lemma packet_of_known:
  assumes "known_machine (GetMachineType s)" "prot_layout (GetMachineType s) = (t, l, sh)"
  shows "packet_of s = Some (seal_packet s (base_packet s t l sh))"
  using assms
  by (simp add: packet_of_def base_packet_def seal_packet_def Let_def cpu_IsXmp_def Prot_layout
      SetInstBaseAddr_def SetXmpInstBaseAddr_def SetYmpInstBaseAddr_def
      SetInstLimitAddr_def SetXmpInstLimitAddr_def SetYmpInstLimitAddr_def
      SetDataBaseAddr_def SetXmpDataBaseAddr_def SetYmpDataBaseAddr_def
      SetDataLimitAddr_def SetXmpDataLimitAddr_def SetYmpDataLimitAddr_def)


lemma sealed_type [simp]: "epMachineType (seal_packet s ep) = epMachineType ep"
  by (simp add: seal_packet_def Let_def packet_registers)

lemma base_type [simp]: "epMachineType (base_packet s t l sh) = GetMachineType s"
  by (simp add: base_packet_def Let_def)

text \<open>What each setter does to the words of the packet.\<close>

lemma xmp_words:
  assumes "IsXmp (epMachineType ep)"
  shows "Data (SetProcessorNumber v8 ep) w = (if w = 0 then SetBits (Data ep 0) 63 62 (ucast v8) else Data ep w)"
    "Data (SetSyndrome v8 ep) w = (if w = 0 then SetBits (Data ep 0) 59 52 (ucast v8) else Data ep w)"
    "Data (SetProgramAddress v ep) w = (if w = 0 then SetBits (Data ep 0) 47 24 (ucast v) else Data ep w)"
    "Data (SetXmpReadAddress v ep) w = (if w = 1 then SetBits (Data ep 1) 61 52 (drop_bit 6 (ucast v)) else Data ep w)"
    "Data (SetVectorNotUsed v8 ep) w = (if w = 2 then SetBits (Data ep 2) 63 63 (ucast v8) else Data ep w)"
    "Data (SetExchangeAddress v8 ep) w = (if w = 3 then SetBits (Data ep 3) 47 40 (ucast v8) else Data ep w)"
    "Data (SetVectorLength v8 ep) w = (if w = 3 then SetBits (Data ep 3) 39 33 (ucast v8) else Data ep w)"
    "Data (SetXmpEnhancedAddressingMode v8 ep) w = (if w = 4 then SetBits (Data ep 4) 63 63 (ucast v8) else Data ep w)"
    "Data (SetXmpProgramState v8 ep) w = (if w = 4 then SetBits (Data ep 4) 28 28 (ucast v8) else Data ep w)"
    "Data (SetClusterNumber v8 ep) w = (if w = 4 then SetBits (Data ep 4) 26 24 (ucast v8) else Data ep w)"
    "Data (SetMode m ep) w = (if w = 1 then SetBits (Data ep 1) 28 24 (ucast (GetRawValue m))
       else if w = 2 then SetBits (Data ep 2) 28 24 (ucast (drop_bit 5 (GetRawValue m))) else Data ep w)"
    "Data (SetFlag f ep) w = (if w = 3 then SetBits (SetBits (Data ep 3) 49 48 (ucast (drop_bit 9 f))) 32 24 (ucast f)
       else Data ep w)"
    "Data (SetEnableSecondVectorLogical v8 ep) w = (if w = 3 then SetBits (Data ep 3) 63 63 (ucast v8) else Data ep w)"
  using assms by (simp_all add: field_defs SetMode_def SetFlag_def SetEnableSecondVectorLogical_def Let_def)

lemma ymp_words:
  assumes "\<not> IsXmp (epMachineType ep)"
  shows "Data (SetProcessorNumber v8 ep) w = (if w = 0 then SetBits (Data ep 0) 63 56 (ucast v8) else Data ep w)"
    "Data (SetSyndrome v8 ep) w = (if w = 1 then SetBits (Data ep 1) 63 56 (ucast v8) else Data ep w)"
    "Data (SetProgramAddress v ep) w = (if w = 0 then SetBits (Data ep 0) 55 32 (ucast v) else Data ep w)"
    "Data (SetVectorNotUsed v8 ep) w = (if w = 6 then SetBits (Data ep 6) 63 63 (ucast v8) else Data ep w)"
    "Data (SetExchangeAddress v8 ep) w = (if w = 5 then SetBits (Data ep 5) 55 48 (ucast v8) else Data ep w)"
    "Data (SetVectorLength v8 ep) w = (if w = 5 then SetBits (Data ep 5) 47 41 (ucast v8) else Data ep w)"
    "Data (SetClusterNumber v8 ep) w = (if w = 5 then SetBits (Data ep 5) 39 32 (ucast v8) else Data ep w)"
    "w \<noteq> 6 \<Longrightarrow> Data (SetMode m ep) w = Data ep w"
    "Data (SetFlag f ep) w = (if w = 6 then SetBits (Data ep 6) 44 55 (ucast f) else Data ep w)"
    "w \<noteq> 6 \<Longrightarrow> Data (SetEnableSecondVectorLogical v8 ep) w = Data ep w"
  using assms by (simp_all add: field_defs SetMode_def SetFlag_def SetEnableSecondVectorLogical_def Let_def)

lemma new_words:
  "Data (ExchangePacket_new mt) w =
     (if w = 7 \<and> mt = J90 then SetBits 0 63 62 0 else if w = 7 \<and> mt = SV1 then SetBits 0 63 62 2 else 0)"
  by (simp add: ExchangePacket_new_def SetProcessorType_def SetYmpProcessorType_def Let_def)

text \<open>Sealing a packet leaves the other fields.\<close>

lemma sealed_fields_Xmp:
  assumes "c \<le> 63" "e \<le> c" "IsXmp (epMachineType ep)" "23 < e"
    and "w = 0 \<or> w = 4 \<or> w = 5 \<or> (w = 1 \<or> w = 2) \<and> 28 < e \<or> w = 3 \<and> 32 < e \<and> c < 48"
  shows "GetBits (Data (seal_packet s ep) w) c e = GetBits (Data ep w) c e"
  using assms
  by (elim disjE conjE) (simp_all add: seal_packet_def packet_registers Let_def bits_other xmp_words)

lemma sealed_fields_Ymp:
  assumes "c \<le> 63" "e \<le> c" "\<not> IsXmp (epMachineType ep)" "31 < e" "w < 6 \<or> w = 7"
  shows "GetBits (Data (seal_packet s ep) w) c e = GetBits (Data ep w) c e"
  using assms by (auto simp: seal_packet_def packet_registers Let_def bits_other ymp_words)

lemma sealed_registers:
  "i < 8 \<Longrightarrow> GetS i (seal_packet s ep) = stS (mState s) i"
  "i < 8 \<Longrightarrow> GetBits (Data (seal_packet s ep) i) (if IsXmp (epMachineType ep) then 23 else 31) 0 =
     take_bit (if IsXmp (epMachineType ep) then 24 else 32) (ucast (stA (mState s) i))"
  by (simp_all add: seal_packet_def GetS_def Let_def packet_registers bits_same)

text \<open>The fields of the unsealed packet.\<close>

lemma base_fields_Xmp:
  assumes "IsXmp (GetMachineType s)" "prot_layout (GetMachineType s) = (t, l, sh)"
  defines "q \<equiv> base_packet s t l sh" and "c \<equiv> mState s"
  shows "GetBits (Data q 0) 47 24 = take_bit 24 (ucast (ProgramAddress c))"
    "GetBits (Data q 1) t l = take_bit (Suc (t - l)) (drop_bit sh (ucast (InstBaseAddr c)))"
    "GetBits (Data q 2) t l = take_bit (Suc (t - l)) (drop_bit sh (ucast (InstLimitAddr c)))"
    "GetBits (Data q 3) 47 40 = take_bit 8 (ucast (ExchangePacketAddress c))"
    "GetBits (Data q 3) 39 33 = take_bit 7 (ucast (VL c))"
    "GetBits (Data q 4) 63 63 = take_bit 1 (ucast (bool8 (XmpEnhancedAddressingMode c)))"
    "GetBits (Data q 4) t l = take_bit (Suc (t - l)) (drop_bit sh (ucast (DataBaseAddr c)))"
    "GetBits (Data q 4) 28 28 = take_bit 1 (ucast (bool8 (XmpProgramState c)))"
    "GetBits (Data q 4) 26 24 = take_bit 3 (ucast (Cluster c))"
    "GetBits (Data q 5) t l = take_bit (Suc (t - l)) (drop_bit sh (ucast (DataLimitAddr c)))"
  using assms prot_ranges[OF assms(2)]
  by (simp_all add: base_packet_def Let_def cpu_IsXmp_def xmp_words new_words bits_same bits_other)

lemma base_fields_Ymp:
  assumes "\<not> IsXmp (GetMachineType s)" "prot_layout (GetMachineType s) = (t, l, sh)"
  defines "q \<equiv> base_packet s t l sh" and "c \<equiv> mState s"
  shows "GetBits (Data q 0) 55 32 = take_bit 24 (ucast (ProgramAddress c))"
    "GetBits (Data q 1) t l = take_bit (Suc (t - l)) (drop_bit sh (ucast (InstBaseAddr c)))"
    "GetBits (Data q 2) t l = take_bit (Suc (t - l)) (drop_bit sh (ucast (InstLimitAddr c)))"
    "GetBits (Data q 3) t l = take_bit (Suc (t - l)) (drop_bit sh (ucast (DataBaseAddr c)))"
    "GetBits (Data q 4) t l = take_bit (Suc (t - l)) (drop_bit sh (ucast (DataLimitAddr c)))"
    "GetBits (Data q 5) 55 48 = take_bit 8 (ucast (ExchangePacketAddress c))"
    "GetBits (Data q 5) 47 41 = take_bit 7 (ucast (VL c))"
    "GetBits (Data q 5) 39 32 = take_bit 8 (ucast (Cluster c))"
    "Data q 7 = Data (ExchangePacket_new (GetMachineType s)) 7"
  using assms prot_ranges[OF assms(2)]
  by (simp_all add: base_packet_def Let_def cpu_IsXmp_def ymp_words new_words bits_same bits_other)


text \<open>The mode comes back, with the second vector logical unit enabled as on the processor.\<close>

lemma sealed_mode:
  assumes "mode_valid (Mode c)" "modeMachineType (Mode c) = epMachineType ep" "c = mState s"
    and "\<not> IsXmp (epMachineType ep) \<Longrightarrow> mYmpEnableSecondVectorLogical (Mode c) = EnableSecondVectorLogical c"
  shows "GetMode (seal_packet s ep) = Mode c"
    "(GetEnableSecondVectorLogical (seal_packet s ep) \<noteq> 0) = EnableSecondVectorLogical c"
proof -
  define ep1 where "ep1 = SetEnableSecondVectorLogical (bool8 (EnableSecondVectorLogical c)) (SetMode (Mode c) ep)"
  have bool: "bool8 b \<noteq> 0 \<longleftrightarrow> b" for b by (simp add: bool8_def)
  have 1: "GetMode ep1 = Mode c"
  proof (cases "IsXmp (epMachineType ep)")
    case True
    then have "GetMode ep1 = GetMode (SetMode (Mode c) ep)"
      by (intro GetMode_cong) (simp_all add: ep1_def xmp_words)
    with assms show ?thesis by (simp add: GetMode_SetMode)
  next
    case False
    let ?m = "(Mode c)\<lparr>mYmpEnableSecondVectorLogical := EnableSecondVectorLogical c\<rparr>"
    from False have "ep1 = SetMode ?m (SetMode (Mode c) ep)"
      using assms(1,2) by (simp add: ep1_def SetEnableSecondVectorLogical_def GetMode_SetMode bool)
    moreover have "?m = Mode c" using assms(4)[OF False] by simp
    ultimately show ?thesis using assms(1,2) by (simp add: GetMode_SetMode)
  qed
  have seal: "seal_packet s ep = for_loop 0 8 (\<lambda>i ep. SetS i (stS c i) (SetA i (stA c i) ep))
      (SetFlag (FiringInterrupts s) ep1)"
    by (simp add: seal_packet_def ep1_def assms(3) Let_def)
  have "GetMode (seal_packet s ep) = GetMode (SetFlag (FiringInterrupts s) ep1)"
    unfolding seal by (intro GetMode_cong) (simp_all add: packet_registers bits_other GetBits_swap[of _ 32 43])
  then show m: "GetMode (seal_packet s ep) = Mode c" by (simp add: SetFlag_keeps_mode 1)
  show "(GetEnableSecondVectorLogical (seal_packet s ep) \<noteq> 0) = EnableSecondVectorLogical c"
  proof (cases "IsXmp (epMachineType ep)")
    case True
    then show ?thesis
      by (simp add: GetEnableSecondVectorLogical_def GetXmpEnableSecondVectorLogical_def seal ep1_def
          packet_registers xmp_words bits_other bits_same bool8_bit)
  next
    case False
    then show ?thesis using assms(4) by (simp add: GetEnableSecondVectorLogical_def m)
  qed
qed


section \<open>Restoring the packet\<close>

text \<open>What a packet of the machine can hold, and the context that it carries.\<close>

definition context_fits :: "SoftCpu_c \<Rightarrow> bool" where
  "context_fits s \<longleftrightarrow>
     (let c = mState s; mt = GetMachineType s in
      known_machine mt \<and> unat (ProgramAddress c) < 2 ^ 24 \<and>
      prot_fits mt (InstBaseAddr c) \<and> prot_fits mt (InstLimitAddr c) \<and>
      prot_fits mt (DataBaseAddr c) \<and> prot_fits mt (DataLimitAddr c) \<and> unat (VL c) < 2 ^ 7 \<and>
      mode_valid (Mode c) \<and> modeMachineType (Mode c) = mt \<and>
      XMode_of (Mode c) mt = Some (XMode c) \<and> AddrMask c = (if XMode c then xmp_max else - 1) \<and>
      (if IsXmp mt then unat (Cluster c) < 2 ^ 3
       else mYmpEnableSecondVectorLogical (Mode c) = EnableSecondVectorLogical c \<and>
         \<not> XmpEnhancedAddressingMode c))"

definition same_context :: "SoftCpu_c \<Rightarrow> SoftCpu_c \<Rightarrow> bool" where
  "same_context s u \<longleftrightarrow>
     (let c = mState s; d = mState u in
      ProgramAddress d = ProgramAddress c \<and> InstBaseAddr d = InstBaseAddr c \<and>
      InstLimitAddr d = InstLimitAddr c \<and> DataBaseAddr d = DataBaseAddr c \<and>
      DataLimitAddr d = DataLimitAddr c \<and> ExchangePacketAddress d = ExchangePacketAddress c \<and>
      VL d = VL c \<and> Mode d = Mode c \<and> Cluster d = Cluster c \<and>
      EnableSecondVectorLogical d = EnableSecondVectorLogical c \<and>
      XmpEnhancedAddressingMode d = XmpEnhancedAddressingMode c \<and>
      (cpu_IsXmp s \<longrightarrow> XmpProgramState d = XmpProgramState c) \<and>
      XMode d = XMode c \<and> AddrMask d = AddrMask c \<and>
      (\<forall>i<8. RefA i u = RefA i s \<and> RefS i u = RefS i s))"

lemma narrow_field_all:
  fixes a :: "'a::len word"
  assumes "LENGTH('a) \<le> 64" "LENGTH('a) \<le> n"
  shows "(ucast (take_bit n (ucast a :: uint64)) :: 'a word) = a"
  using assms by (intro word_eq_by_bits) (auto simp: bit_simps)

lemma cleared_flags_read:
  assumes "c \<le> 63" "e \<le> c"
    and "if IsXmp (epMachineType ep) then w = 3 \<longrightarrow> 32 < e \<and> c < 48 \<or> c < 24 else w = 6 \<longrightarrow> c < 44"
  shows "GetBits (Data (ClearFlags ep) w) c e = GetBits (Data ep w) c e"
  using assms by (cases "IsXmp (epMachineType ep)") (auto simp: ClearFlags_def xmp_words ymp_words bits_other SetBits_swap[of _ 44 55])

lemma packet_reads_Xmp:
  assumes fits: "context_fits s" and lay: "prot_layout (GetMachineType s) = (t, l, sh)"
    and xmp: "IsXmp (GetMachineType s)"
  defines "p \<equiv> ClearFlags (seal_packet s (base_packet s t l sh))" and "c \<equiv> mState s"
  shows "GetProgramAddress p = ProgramAddress c" "GetInstBaseAddr p = Some (InstBaseAddr c)"
    "GetInstLimitAddr p = Some (InstLimitAddr c)" "GetDataBaseAddr p = Some (DataBaseAddr c)"
    "GetDataLimitAddr p = Some (DataLimitAddr c)" "GetExchangeAddress p = ExchangePacketAddress c"
    "GetVectorLength p = VL c" "GetClusterNumber p = Cluster c"
    "(GetXmpEnhancedAddressingMode p \<noteq> 0) = XmpEnhancedAddressingMode c"
    "(GetXmpProgramState p \<noteq> 0) = XmpProgramState c"
proof -
  have prot: "GetProt w p = Some (ucast (push_bit sh (GetBits (Data p w) t l)))" for w
    using Prot_layout(1)[of p t l sh w] fits lay by (simp add: p_def context_fits_def Let_def)
  note ranges = prot_ranges[OF lay]
  have bits: "GetBits (Data p w) a b = GetBits (Data (base_packet s t l sh) w) a b"
    if "a \<le> 63" "b \<le> a" "23 < b"
      "w = 0 \<or> w = 4 \<or> w = 5 \<or> (w = 1 \<or> w = 2) \<and> 28 < b \<or> w = 3 \<and> 32 < b \<and> a < 48" for w a b
    using that xmp sealed_fields_Xmp[of a b "base_packet s t l sh" w s]
    by (subst p_def, subst cleared_flags_read) (auto simp del: One_nat_def)
  have "epMachineType p = GetMachineType s" by (simp add: p_def)
  then show "GetProgramAddress p = ProgramAddress c" "GetInstBaseAddr p = Some (InstBaseAddr c)"
    "GetInstLimitAddr p = Some (InstLimitAddr c)" "GetDataBaseAddr p = Some (DataBaseAddr c)"
    "GetDataLimitAddr p = Some (DataLimitAddr c)" "GetExchangeAddress p = ExchangePacketAddress c"
    "GetVectorLength p = VL c" "GetClusterNumber p = Cluster c"
    "(GetXmpEnhancedAddressingMode p \<noteq> 0) = XmpEnhancedAddressingMode c"
    "(GetXmpProgramState p \<noteq> 0) = XmpProgramState c"
    using xmp fits ranges
    by (simp_all add: GetProgramAddress_def GetXmpProgramAddress_def GetInstBaseAddr_def
        GetXmpInstBaseAddr_def GetInstLimitAddr_def GetXmpInstLimitAddr_def GetDataBaseAddr_def
        GetXmpDataBaseAddr_def GetDataLimitAddr_def GetXmpDataLimitAddr_def GetExchangeAddress_def
        GetXmpExchangeAddress_def GetVectorLength_def GetXmpVectorLength_def GetClusterNumber_def
        GetXmpClusterNumber_def GetXmpEnhancedAddressingMode_def GetXmpProgramState_def
        prot bits base_fields_Xmp[OF xmp lay] narrow_field narrow_field_all bool8_bit
        prot_fits_field[OF _ lay] context_fits_def Let_def c_def del: One_nat_def)
qed

lemma packet_reads_Ymp:
  assumes fits: "context_fits s" and lay: "prot_layout (GetMachineType s) = (t, l, sh)"
    and ymp: "\<not> IsXmp (GetMachineType s)"
  defines "p \<equiv> ClearFlags (seal_packet s (base_packet s t l sh))" and "c \<equiv> mState s"
  shows "GetProgramAddress p = ProgramAddress c" "GetInstBaseAddr p = Some (InstBaseAddr c)"
    "GetInstLimitAddr p = Some (InstLimitAddr c)" "GetDataBaseAddr p = Some (DataBaseAddr c)"
    "GetDataLimitAddr p = Some (DataLimitAddr c)" "GetExchangeAddress p = ExchangePacketAddress c"
    "GetVectorLength p = VL c" "GetClusterNumber p = Cluster c"
proof -
  have prot: "GetProt w p = Some (ucast (push_bit sh (GetBits (Data p w) t l)))" for w
    using Prot_layout(1)[of p t l sh w] fits lay by (simp add: p_def context_fits_def Let_def)
  note ranges = prot_ranges[OF lay] 
  have bits: "GetBits (Data p w) a b = GetBits (Data (base_packet s t l sh) w) a b"
    if "a \<le> 63" "b \<le> a" "31 < b" "w < 6" for w a b
    using that ymp by (simp add: p_def cleared_flags_read sealed_fields_Ymp)
  have "epMachineType p = GetMachineType s" by (simp add: p_def)
  then show "GetProgramAddress p = ProgramAddress c" "GetInstBaseAddr p = Some (InstBaseAddr c)"
    "GetInstLimitAddr p = Some (InstLimitAddr c)" "GetDataBaseAddr p = Some (DataBaseAddr c)"
    "GetDataLimitAddr p = Some (DataLimitAddr c)" "GetExchangeAddress p = ExchangePacketAddress c"
    "GetVectorLength p = VL c" "GetClusterNumber p = Cluster c"
    using ymp fits ranges
    by (simp_all add: GetProgramAddress_def GetYmpProgramAddress_def GetInstBaseAddr_def
        GetYmpInstBaseAddr_def GetInstLimitAddr_def GetYmpInstLimitAddr_def GetDataBaseAddr_def
        GetYmpDataBaseAddr_def GetDataLimitAddr_def GetYmpDataLimitAddr_def GetExchangeAddress_def
        GetYmpExchangeAddress_def GetVectorLength_def GetYmpVectorLength_def GetClusterNumber_def
        GetYmpClusterNumber_def
        prot bits base_fields_Ymp[OF ymp lay] narrow_field narrow_field_all
        prot_fits_field[OF _ lay] context_fits_def Let_def c_def del: One_nat_def)
qed


lemma packet_reads_registers:
  assumes fits: "context_fits s" and lay: "prot_layout (GetMachineType s) = (t, l, sh)"
  defines "p \<equiv> ClearFlags (seal_packet s (base_packet s t l sh))" and "c \<equiv> mState s"
  shows "GetMode p = Mode c" "(GetEnableSecondVectorLogical p \<noteq> 0) = EnableSecondVectorLogical c"
    "i < 8 \<Longrightarrow> GetS i p = stS c i" "i < 8 \<Longrightarrow> AddrMask c AND GetA i p = RefA i s"
proof -
  let ?q = "seal_packet s (base_packet s t l sh)"
  have sealed: "GetMode ?q = Mode c" "(GetEnableSecondVectorLogical ?q \<noteq> 0) = EnableSecondVectorLogical c"
    using fits by (intro sealed_mode; simp add: c_def context_fits_def Let_def)+
  then show "GetMode p = Mode c" by (simp add: p_def ClearFlags_def SetFlag_keeps_mode)
  then show "(GetEnableSecondVectorLogical p \<noteq> 0) = EnableSecondVectorLogical c"
    using sealed by (cases "IsXmp (GetMachineType s)")
      (simp_all add: GetEnableSecondVectorLogical_def p_def GetXmpEnableSecondVectorLogical_def
        ClearFlags_def xmp_words bits_other)
  show "GetS i p = stS c i" if "i < 8"
    using that sealed_registers(1)[of i s] by (cases "IsXmp (GetMachineType s)")
      (simp_all add: p_def c_def GetS_def ClearFlags_def xmp_words ymp_words)
  show "AddrMask c AND GetA i p = RefA i s" if i: "i < 8"
  proof (rule word_eq_by_bits)
    fix n :: nat
    let ?n = "if IsXmp (GetMachineType s) then 23 else 31"
    assume n: "n < LENGTH(32)"
    have x: "IsXmp (GetMachineType s) \<Longrightarrow> AddrMask c = mask 24"
      using fits by (auto simp: context_fits_def Let_def c_def XMode_of_def IsXmp_def xmp_max_mask)
    have "bit (GetBits (Data p i) ?n 0) n = bit (take_bit (Suc ?n) (ucast (stA c i) :: uint64)) n"
      using i sealed_registers(2)[of i s "base_packet s t l sh"]
      by (subst p_def, subst cleared_flags_read) (auto simp: c_def)
    then show "bit (AddrMask c AND GetA i p) n = bit (RefA i s) n"
      using n x by (cases "IsXmp (GetMachineType s)")
        (auto simp: bit_GetBits bit_simps GetA_def RefA_def GetAddrMask_def c_def)
  qed
qed

lemma SetCluster_returns:
  assumes "unat (Cluster (mState s)) \<le> length (mClusters (mMainframe s))"
    "unat ci \<le> length (mClusters (mMainframe s))"
  shows "\<exists>u. SetCluster ci s = (Inr (), u) \<and> mState u = (mState s)\<lparr>Cluster := ci\<rparr> \<and>
    mMachineType (mMainframe u) = mMachineType (mMainframe s)"
  using assms
  by (auto simp: SetCluster_def bindE_def returnE_def upd_ClusterCpuCnt_def Let_def upd_state_def
      upd_mainframe_def cluster_index)


lemma restore_registers:
  "for_loop 0 8 (\<lambda>i s. upd_state (\<lambda>c. c\<lparr>stA := (stA c)(i := A i), stS := (stS c)(i := S i)\<rparr>) s) s =
   upd_state (\<lambda>c. c\<lparr>stA := (\<lambda>i. if i < 8 then A i else stA c i),
      stS := (\<lambda>i. if i < 8 then S i else stS c i)\<rparr>) s"
  by (rule for_loop_invariant[where I = "\<lambda>k u. u = upd_state (\<lambda>c. c\<lparr>stA := (\<lambda>i. if i < k then A i else stA c i),
      stS := (\<lambda>i. if i < k then S i else stS c i)\<rparr>) s"]) (auto simp: upd_state_def less_Suc_eq fun_eq_iff)

lemma packet_reads:
  assumes "context_fits s" and "prot_layout (GetMachineType s) = (t, l, sh)"
  defines "p \<equiv> ClearFlags (seal_packet s (base_packet s t l sh))" and "c \<equiv> mState s"
  shows "GetProgramAddress p = ProgramAddress c" "GetInstBaseAddr p = Some (InstBaseAddr c)"
    "GetInstLimitAddr p = Some (InstLimitAddr c)" "GetDataBaseAddr p = Some (DataBaseAddr c)"
    "GetDataLimitAddr p = Some (DataLimitAddr c)" "GetExchangeAddress p = ExchangePacketAddress c"
    "GetVectorLength p = VL c" "GetClusterNumber p = Cluster c"
    "cpu_IsXmp s \<Longrightarrow> (GetXmpEnhancedAddressingMode p \<noteq> 0) = XmpEnhancedAddressingMode c"
    "cpu_IsXmp s \<Longrightarrow> (GetXmpProgramState p \<noteq> 0) = XmpProgramState c"
  unfolding p_def c_def cpu_IsXmp_def
  using packet_reads_Xmp[OF assms(1,2)] packet_reads_Ymp[OF assms(1,2)]
  by (cases "IsXmp (GetMachineType s)"; simp)+

lemma restore_packet:
  assumes fits: "context_fits s" and machine: "GetMachineType r = GetMachineType s"
    and clusters: "unat (Cluster (mState r)) \<le> length (mClusters (mMainframe r))"
      "unat (Cluster (mState s)) \<le> length (mClusters (mMainframe r))"
  shows "\<exists>ep u. packet_of s = Some ep \<and> RestoreFromExchangePacket (ClearFlags ep) r = (Inr (), u) \<and> same_context s u"
proof -
  obtain t l sh where lay: "prot_layout (GetMachineType s) = (t, l, sh)" by (metis prod_cases3)
  define p where "p = ClearFlags (seal_packet s (base_packet s t l sh))"
  have known: "known_machine (GetMachineType s)" using fits by (simp add: context_fits_def Let_def)
  have mode: "XMode_of (Mode (mState s)) (GetMachineType s) = Some (XMode (mState s))"
      "AddrMask (mState s) = (if XMode (mState s) then xmp_max else - 1)"
      "\<not> cpu_IsXmp s \<Longrightarrow> \<not> XmpEnhancedAddressingMode (mState s)"
    using fits by (simp_all add: context_fits_def Let_def cpu_IsXmp_def)
  note reads = packet_reads[OF fits lay, folded p_def] packet_reads_registers[OF fits lay, folded p_def]
  have xmp: "cpu_IsXmp r = cpu_IsXmp s" by (simp add: cpu_IsXmp_def machine)
  obtain v where v: "restore_first p r = Some v" "Cluster (mState v) = Cluster (mState r)" "mMainframe v = mMainframe r"
      "ProgramAddress (mState v) = ProgramAddress (mState s)" "InstBaseAddr (mState v) = InstBaseAddr (mState s)"
      "InstLimitAddr (mState v) = InstLimitAddr (mState s)" "DataBaseAddr (mState v) = DataBaseAddr (mState s)"
      "ExchangePacketAddress (mState v) = ExchangePacketAddress (mState s)" "VL (mState v) = VL (mState s)"
      "EnableSecondVectorLogical (mState v) = EnableSecondVectorLogical (mState s)"
      "XmpEnhancedAddressingMode (mState v) = XmpEnhancedAddressingMode (mState s)"
      "cpu_IsXmp s \<longrightarrow> XmpProgramState (mState v) = XmpProgramState (mState s)"
    using mode(3) by (simp add: restore_first_def reads xmp upd_state_def)
  obtain w where w: "SetCluster (Cluster (mState s)) v = (Inr (), w)"
      "mState w = (mState v)\<lparr>Cluster := Cluster (mState s)\<rparr>" "mMachineType (mMainframe w) = GetMachineType s"
    using SetCluster_returns[of v "Cluster (mState s)"] clusters machine v(2,3)
    by (auto simp: GetMachineType_def)
  let ?out = "restore_last p w"
  have "fst ?out = Inr () \<and> same_context s (snd ?out)"
    using mode reads v(4-) w(2,3)
    by (simp add: restore_last_def CalcInterruptMask_def upd_state_def restore_registers GetMachineType_def
        same_context_def Let_def RefA_def RefS_def GetAddrMask_def)
  then have "\<exists>u. RestoreFromExchangePacket p r = (Inr (), u) \<and> same_context s u"
    using v(1) w(1) by (simp add: RestoreFromExchangePacket_def reads bindE_Inr) (metis prod.collapse)
  with packet_of_known[OF known lay] show ?thesis by (auto simp: p_def)
qed


section \<open>Exchanging twice\<close>

lemma sealed_high_words:
  "16 \<le> w \<Longrightarrow> Data (seal_packet s (base_packet s t l sh)) w = 0"
  by (cases "IsXmp (GetMachineType s)")
    (simp_all add: seal_packet_def base_packet_def Let_def packet_registers xmp_words ymp_words
      new_words cpu_IsXmp_def)

lemma sealed_processor_type:
  assumes "prot_layout (GetMachineType s) = (t, l, sh)"
  defines "p \<equiv> seal_packet s (base_packet s t l sh)"
  shows "SetProcessorType p = p"
proof (cases "IsXmp (GetMachineType s)")
  case True
  then show ?thesis
    by (simp add: p_def SetProcessorType_def IsXmp_def Let_def) auto
next
  case False
  have d: "Data p 7 = SetBits (Data (ExchangePacket_new (GetMachineType s)) 7) 31 0 (ucast (stA (mState s) 7))"
    using False base_fields_Ymp(9)[OF False assms(1)]
    by (simp add: p_def seal_packet_def Let_def packet_registers ymp_words)
  have same: "SetYmpProcessorType v p = p"
    if "Data (ExchangePacket_new (GetMachineType s)) 7 = SetBits 0 63 62 (ucast v)" for v
    using d that
    by (simp add: SetYmpProcessorType_def PutWord_def SetBits_commute[of 31 0 63 62] SetBits_SetBits_same)
      (metis ExchangePacket_c.surjective fun_upd_triv ExchangePacket_c.update_convs(2))
  then show ?thesis by (simp add: SetProcessorType_def Let_def new_words p_def)
qed


definition packet_address :: "SoftCpu_c \<Rightarrow> nat" where
  "packet_address s = unat (ucast (ExchangePacketAddress (mState s)) * 16 * 8 :: CAddr_t)"

lemma read_written_packet:
  assumes "prot_layout (GetMachineType s) = (t, l, sh)"
    and "\<And>x. a \<le> x \<Longrightarrow> x < a + 128 \<Longrightarrow> mem x = Write_packet (seal_packet s (base_packet s t l sh)) a m x"
  shows "ExchangePacket_from (GetMachineType s) mem a = seal_packet s (base_packet s t l sh)"
proof -
  let ?p = "seal_packet s (base_packet s t l sh)" and ?z = "\<lparr>epMachineType = GetMachineType s, Data = \<lambda>_. 0\<rparr>"
  have "load64 mem (a + 8 * i) = load64 (Write_packet ?p a m) (a + 8 * i)" if "i < 16" for i
    using that by (intro load64_eqI assms(2)) auto
  then have "Data (Read_packet mem a ?z) i = Data ?p i" for i
    by (simp add: Read_packet_Data Write_packet_load sealed_high_words)
  then have "Data (Read_packet mem a ?z) = Data ?p" by (simp add: fun_eq_iff)
  moreover have "epMachineType (Read_packet mem a ?z) = epMachineType ?p" by (simp add: Read_packet_def)
  ultimately have "Read_packet mem a ?z = ?p" by simp
  then show ?thesis by (simp add: ExchangePacket_from_def sealed_processor_type[OF assms(1)])
qed

lemma SetCluster_memory: "mMemory (mMainframe (snd (SetCluster ci s))) = mMemory (mMainframe s)"
  by (simp add: SetCluster_def bindE_def returnE_def upd_ClusterCpuCnt_def Let_def upd_state_def
      upd_mainframe_def)

lemma restore_memory:
  "mMemory (mMainframe (snd (RestoreFromExchangePacket p s))) = mMemory (mMainframe s)"
proof -
  have m: "mMainframe (upd_state f s) = mMainframe s" for f s by (simp add: upd_state_def)
  have last: "mMemory (mMainframe (snd (restore_last p s))) = mMemory (mMainframe s)" for s
    by (simp add: restore_last_def Let_def restore_registers CalcInterruptMask_def m split: option.split)
  have first: "restore_first p s = Some u \<Longrightarrow> mMemory (mMainframe u) = mMemory (mMainframe s)" for u
    by (auto simp: restore_first_def upd_state_def split: bind_splits)
  show ?thesis
  proof (cases "restore_first p s")
    case None
    then show ?thesis by (simp add: RestoreFromExchangePacket_def upd_state_def)
  next
    case (Some u)
    then show ?thesis
      using SetCluster_memory[of "GetClusterNumber p" u] last first[OF Some]
      by (auto simp: RestoreFromExchangePacket_def bindE_def split: prod.split sum.split)
  qed
qed

lemma Exchange_known:
  assumes "packet_of s = Some ep"
  shows "Exchange s = RestoreFromExchangePacket (ClearFlags (ReadExchangePacket (ucast (ExchangePacketAddress (mState s)) * 16) s))
    (WriteExchangePacket ep (ucast (ExchangePacketAddress (mState s)) * 16)
      (upd_Flags (ClearBits (FiringInterrupts s AND handled_flags)) s))"
  using assms by (simp add: Exchange_def bindE_def CreateExchangePacket_def upd_Flags_def upd_state_def)

lemma Exchange_memory:
  assumes "packet_of s = Some ep"
  shows "mMemory (mMainframe (snd (Exchange s))) = Write_packet ep (packet_address s) (mMemory (mMainframe s))"
  by (simp add: Exchange_known[OF assms] restore_memory WriteExchangePacket_def packet_address_def
      upd_mainframe_def upd_Flags_def upd_state_def)

lemma sample_fits: "context_fits (sample_cpu XMP4xx)"
  by (simp add: context_fits_def sample_defs known_machine_def prot_fits_def prot_layout_def
      mode_valid_def GetMachineType_def XMode_of_def Let_def)

text \<open>C10: two exchanges restore the interrupted program. After the exchange that stores a program's
  context, let the machine reach any state whose exchange address is again that of the packet
  and whose memory still holds the packet. The next exchange returns without an exception to a
  state that shows the program what it saw before: program address, base and limit addresses,
  vector length, modes, cluster, and the A and S registers as the instructions read them. The
  context has to fit the packet's fields, which differ by machine type.\<close>

theorem exchange_twice:
  assumes fits: "context_fits s"
    and machine: "GetMachineType r = GetMachineType s"
    and address: "ExchangePacketAddress (mState r) = ExchangePacketAddress (mState s)"
    and memory: "\<And>x. packet_address s \<le> x \<Longrightarrow> x < packet_address s + 128 \<Longrightarrow>
      mMemory (mMainframe r) x = mMemory (mMainframe (snd (Exchange s))) x"
    and clusters: "unat (Cluster (mState r)) \<le> length (mClusters (mMainframe r))"
      "unat (Cluster (mState s)) \<le> length (mClusters (mMainframe r))"
  shows "\<exists>u. Exchange r = (Inr (), u) \<and> same_context s u"
proof -
  obtain t l sh where lay: "prot_layout (GetMachineType s) = (t, l, sh)" by (metis prod_cases3)
  let ?p = "seal_packet s (base_packet s t l sh)"
  have known: "known_machine (GetMachineType s)" using fits by (simp add: context_fits_def Let_def)
  note packet = packet_of_known[OF known lay]
  obtain ep where ep: "packet_of r = Some ep" using packet_of_known[of r t l sh] known lay machine by auto
  have "ReadExchangePacket (ucast (ExchangePacketAddress (mState r)) * 16) r = ?p"
    using read_written_packet[OF lay, of "packet_address s" "mMemory (mMainframe r)" "mMemory (mMainframe s)"]
      memory Exchange_memory[OF packet]
    by (simp add: ReadExchangePacket_def machine address packet_address_def)
  then show ?thesis
    using restore_packet[OF fits, of "WriteExchangePacket ep (ucast (ExchangePacketAddress (mState r)) * 16)
        (upd_Flags (ClearBits (FiringInterrupts r AND handled_flags)) r)"] machine clusters packet
    by (simp add: Exchange_known[OF ep] WriteExchangePacket_def upd_Flags_def upd_state_def upd_mainframe_def
        GetMachineType_def)
qed

definition sample_returned :: SoftCpu_c where
  "sample_returned = upd_mainframe
     (mMemory_update (\<lambda>_. mMemory (mMainframe (snd (Exchange (sample_cpu XMP4xx)))))) (sample_cpu XMP4xx)"

theorem exchange_twice_witness:
  "\<exists>u. Exchange sample_returned = (Inr (), u) \<and> same_context (sample_cpu XMP4xx) u"
proof (rule exchange_twice[OF sample_fits])
qed (simp_all add: sample_returned_def upd_mainframe_def GetMachineType_def sample_defs)


text \<open>An exchange writes its packet and nothing else. Whether the exchange returns or throws,
  every byte of memory outside the 128 bytes at the exchange address is what it was.\<close>

theorem exchange_frame:
  assumes "x < packet_address s \<or> packet_address s + 128 \<le> x"
  shows "mMemory (mMainframe (snd (Exchange s))) x = mMemory (mMainframe s) x"
proof (cases "packet_of s")
  case None
  then show ?thesis by (simp add: Exchange_def bindE_def CreateExchangePacket_def)
next
  case (Some ep)
  then show ?thesis using assms by (simp add: Exchange_memory Write_packet_outside)
qed

theorem exchange_frame_witness:
  "packet_address (sample_cpu J90) + 128 \<le> 256 \<and>
   mMemory (mMainframe (snd (Exchange (sample_cpu J90)))) 256 = 0"
  using exchange_frame[of 256 "sample_cpu J90"] by (simp add: packet_address_def sample_defs)

section \<open>Interrupt flags in an exchange\<close>

lemma bit_interrupt_flags:
  "bit F_InterProcessorInterrupt n \<longleftrightarrow> n = 10" "bit F_Deadlock n \<longleftrightarrow> n = 9"
  "bit F_ProgrammableClockInterrupt n \<longleftrightarrow> n = 8" "bit F_McuInterrupt n \<longleftrightarrow> n = 7"
  "bit F_FloatingPointError n \<longleftrightarrow> n = 6" "bit F_OperandRangeError n \<longleftrightarrow> n = 5"
  "bit F_ProgramRangeError n \<longleftrightarrow> n = 4" "bit F_MemoryError n \<longleftrightarrow> n = 3"
  "bit F_IoInterrupt n \<longleftrightarrow> n = 2" "bit F_ErrorExit n \<longleftrightarrow> n = 1" "bit F_NormalExit n \<longleftrightarrow> n = 0"
  unfolding F_InterProcessorInterrupt_def F_Deadlock_def F_ProgrammableClockInterrupt_def
    F_McuInterrupt_def F_FloatingPointError_def F_OperandRangeError_def F_ProgramRangeError_def
    F_MemoryError_def F_IoInterrupt_def F_ErrorExit_def F_NormalExit_def
  by (fact bit_mode_masks)+

lemma bit_InterruptMask:
  "bit (InterruptMaskFromState s) n \<Longrightarrow> n < 11"
  unfolding InterruptMaskFromState_def Let_def
  by (auto simp only: bit_or_iff bit_interrupt_flags bit_if_mask split: if_splits)

lemma bit_handled_flags: "bit handled_flags n \<longleftrightarrow> n < 11 \<and> n \<noteq> 8"
  unfolding handled_flags_def by (simp only: bit_or_iff bit_interrupt_flags) presburger

lemma bit_ClearBits: "bit (ClearBits m d) n \<longleftrightarrow> bit d n \<and> \<not> bit m n"
  using bit_imp_less_length[of d n] by (auto simp: ClearBits_def bit_and_iff bit_not_iff)

lemma sealed_flags: "GetFlag (seal_packet s ep) = FiringInterrupts s"
proof -
  have small: "FiringInterrupts s AND mask k = FiringInterrupts s" if "11 \<le> k" for k
    using that
    by (intro word_eq_by_bits) (auto simp: FiringInterrupts_def bit_simps dest: bit_InterruptMask)
  have "GetFlag (seal_packet s ep) = GetFlag (SetFlag (FiringInterrupts s)
      (SetEnableSecondVectorLogical (bool8 (EnableSecondVectorLogical (mState s))) (SetMode (Mode (mState s)) ep)))"
    by (simp add: GetFlag_def seal_packet_def Let_def packet_registers bits_other GetBits_swap[of _ 44 55])
  then show ?thesis by (simp add: GetFlag_SetFlag small)
qed

text \<open>C30: the interrupt flags in an exchange. The stored packet shows exactly the flags that are set
  and enabled, and only those are cleared in the processor, with the exception of the
  programmable clock's: a flag that the mask disables stays pending.\<close>

theorem exchange_flags:
  assumes "CreateExchangePacket s = (Inr ep, t)"
  shows "GetFlag ep = FiringInterrupts s \<and>
    (\<forall>n. bit (Flags (mState t)) n \<longleftrightarrow>
       bit (Flags (mState s)) n \<and> (bit (InterruptMaskFromState s) n \<longrightarrow> bit F_ProgrammableClockInterrupt n))"
proof -
  have ep: "packet_of s = Some ep" and t: "t = upd_Flags (ClearBits (FiringInterrupts s AND handled_flags)) s"
    using assms by (auto simp: CreateExchangePacket_def split: option.splits)
  have known: "known_machine (GetMachineType s)"
    using ep by (cases "GetMachineType s") (auto simp: known_machine_def packet_of_def Let_def cpu_IsXmp_def
        SetInstBaseAddr_def SetYmpInstBaseAddr_def SetProt_def GetProtectionTop_def)
  obtain a l sh where "prot_layout (GetMachineType s) = (a, l, sh)" by (metis prod_cases3)
  then have "GetFlag ep = FiringInterrupts s" using packet_of_known[OF known] ep by (auto simp: sealed_flags)
  then show ?thesis 
    by (auto simp: t upd_Flags_def upd_state_def bit_ClearBits bit_and_iff bit_handled_flags
        FiringInterrupts_def bit_interrupt_flags dest: bit_InterruptMask)
qed

theorem exchange_flags_witness:
  "\<exists>ep t. CreateExchangePacket (sample_cpu J90) = (Inr ep, t) \<and> GetFlag ep = FiringInterrupts (sample_cpu J90)"
proof -
  have "GetMachineType (sample_cpu J90) = J90" by (simp add: GetMachineType_def sample_defs)
  then have "packet_of (sample_cpu J90) = Some (seal_packet (sample_cpu J90) (base_packet (sample_cpu J90) 55 34 10))"
    by (intro packet_of_known) (simp_all add: known_machine_def prot_layout_def)
  then obtain ep t where e: "CreateExchangePacket (sample_cpu J90) = (Inr ep, t)"
    by (simp add: CreateExchangePacket_def)
  with exchange_flags[OF e] show ?thesis by auto
qed

end
