(* ===== verification/Cpu_Control.thy ===== *)
theory Cpu_Control
  imports Cpu_Exchange
begin

text \<open>
  Control of the processor, \<^verbatim>\<open>sim_lib/cray_softcpu.cpp\<close>: when an interrupt fires and what
  the monitor mode holds back, the programmable clock, the instruction burst and its count,
  the tick as the place where range errors become flags, and the dead start.
\<close>

section \<open>Interrupts\<close>

lemma bit_flag_setters:
  "bit (SetInterProcessorInterrupt d) n \<longleftrightarrow> bit d n \<or> n = 10" "bit (SetDeadlock d) n \<longleftrightarrow> bit d n \<or> n = 9"
  "bit (SetProgrammableClockInterrupt d) n \<longleftrightarrow> bit d n \<or> n = 8" "bit (SetMcuInterrupt d) n \<longleftrightarrow> bit d n \<or> n = 7"
  "bit (SetIoInterrupt d) n \<longleftrightarrow> bit d n \<or> n = 2"
  by (simp_all add: SetInterProcessorInterrupt_def SetDeadlock_def SetProgrammableClockInterrupt_def
      SetMcuInterrupt_def SetIoInterrupt_def bit_or_iff bit_interrupt_flags)

lemma mask_ignores [simp]:
  "InterruptMaskFromState (upd_Flags f s) = InterruptMaskFromState s"
  "InterruptMaskFromState (upd_mainframe g s) = InterruptMaskFromState s"
  by (simp_all add: InterruptMaskFromState_def upd_Flags_def upd_state_def upd_mainframe_def)

lemma Mirror_state:
  defines "t s \<equiv> MirrorExternalInterrupts s"
  shows "InterruptMaskFromState (t s) = InterruptMaskFromState s"
    "bit (Flags (mState (t s))) n \<longleftrightarrow> bit (Flags (mState s)) n \<or> n = 10 \<and> xInterProcessor (own_pending s) \<or>
       n = 9 \<and> xDeadLock (own_pending s) \<or> n = 7 \<and> xMcu (own_pending s) \<or> n = 2 \<and> xIo (own_pending s)"
    "mPending (mMainframe (t s)) = (mPending (mMainframe s))(mCpuId s := no_ints)"
proof -
  show "InterruptMaskFromState (t s) = InterruptMaskFromState s"
    by (simp add: t_def MirrorExternalInterrupts_def Let_def InitNotIntFlags_def)
  show "bit (Flags (mState (t s))) n \<longleftrightarrow> bit (Flags (mState s)) n \<or> n = 10 \<and> xInterProcessor (own_pending s) \<or>
       n = 9 \<and> xDeadLock (own_pending s) \<or> n = 7 \<and> xMcu (own_pending s) \<or> n = 2 \<and> xIo (own_pending s)"
    by (auto simp: t_def MirrorExternalInterrupts_def Let_def InitNotIntFlags_def upd_Flags_def upd_state_def upd_mainframe_def
       bit_flag_setters)
qed (simp add: t_def MirrorExternalInterrupts_def Let_def InitNotIntFlags_def upd_Flags_def upd_state_def upd_mainframe_def no_ints_def)

definition flag_pending :: "nat \<Rightarrow> SoftCpu_c \<Rightarrow> bool" where
  "flag_pending n s \<longleftrightarrow> (let p = own_pending s in
     bit (Flags (mState s)) n \<or> n = 10 \<and> xInterProcessor p \<or> n = 9 \<and> xDeadLock p \<or> n = 7 \<and> xMcu p \<or> n = 2 \<and> xIo p)"

lemma word_nonzero: "(w :: 'a::len word) \<noteq> 0 \<longleftrightarrow> (\<exists>n. bit w n)"
  using word_eq_by_bits[of w 0] by auto

lemma CheckInterrupts_result:
  "snd (CheckInterrupts s) = MirrorExternalInterrupts s"
  "fst (CheckInterrupts s) \<longleftrightarrow> (\<exists>n. bit (InterruptMaskFromState s) n \<and> flag_pending n s)"
proof -
  have nz: "a AND b \<noteq> 0 \<longleftrightarrow> (\<exists>n. bit a n \<and> bit b n)" for a b :: uint16
    unfolding word_nonzero bit_and_iff ..
  show "snd (CheckInterrupts s) = MirrorExternalInterrupts s" by (simp add: CheckInterrupts_def Let_def)
  have "fst (CheckInterrupts s) \<longleftrightarrow>
      InterruptMaskFromState s AND Flags (mState (MirrorExternalInterrupts s)) \<noteq> 0"
    by (simp add: CheckInterrupts_def Let_def Mirror_state(1))
  then show "fst (CheckInterrupts s) \<longleftrightarrow> (\<exists>n. bit (InterruptMaskFromState s) n \<and> flag_pending n s)"
    unfolding nz Mirror_state(2) by (simp add: flag_pending_def Let_def)
qed

text \<open>C37: when an interrupt fires. A check fires exactly if some interrupt is enabled and pending,
  either in the flags of the processor or as an external interrupt that another thread has
  raised; the external interrupts are taken over into the flags, none is lost, and only this
  processor's are reset.\<close>

theorem CheckInterrupts_spec:
  "(fst (CheckInterrupts s) \<longleftrightarrow> (\<exists>n. bit (InterruptMaskFromState s) n \<and> flag_pending n s)) \<and>
   (\<forall>n. bit (Flags (mState (snd (CheckInterrupts s)))) n \<longleftrightarrow> flag_pending n s) \<and>
   mPending (mMainframe (snd (CheckInterrupts s))) = (mPending (mMainframe s))(mCpuId s := no_ints)"
  by (simp add: CheckInterrupts_result Mirror_state flag_pending_def Let_def)

text \<open>C38: the monitor is not interrupted by devices. In monitor mode, out of reset and without the
  interrupt-monitor-mode bit, an interrupt fires only for the master control unit, a memory
  error or an exit instruction: I/O, interprocessor, deadlock and clock interrupts and the
  arithmetic and range errors wait for the next user program.\<close>

theorem monitor_mode_masks:
  assumes "IsMonitorMode s" "\<not> mInterruptMonitorMode (Mode (mState s))" "\<not> mInReset s"
  shows "fst (CheckInterrupts s) \<longleftrightarrow>
    xMcu (own_pending s) \<or> (\<exists>n \<in> {0, 1, 3, 7}. bit (Flags (mState s)) n)"
proof -
  have "bit (InterruptMaskFromState s) n \<longleftrightarrow> n \<in> {0, 1, 3, 7}" for n
    using assms by (auto simp: InterruptMaskFromState_def Let_def IsMonitorMode_def bit_or_iff bit_interrupt_flags)
  then show ?thesis by (auto simp: CheckInterrupts_result flag_pending_def Let_def)
qed

definition sample_monitor :: SoftCpu_c where
  "sample_monitor = upd_Mode (mMonitorMode_update (\<lambda>_. True)) (upd_Flags SetIoInterrupt (sample_cpu YMP))"

theorem monitor_mode_masks_witness:
  "IsMonitorMode sample_monitor \<and> bit (Flags (mState sample_monitor)) 2 \<and> \<not> fst (CheckInterrupts sample_monitor)"
proof -
  have s: "IsMonitorMode sample_monitor" "\<not> mInterruptMonitorMode (Mode (mState sample_monitor))"
      "\<not> mInReset sample_monitor" "\<not> xMcu (own_pending sample_monitor)"
      "bit (Flags (mState sample_monitor)) n \<longleftrightarrow> n = 2" for n
    by (simp_all add: sample_monitor_def upd_Mode_def upd_Flags_def upd_state_def sample_defs
        IsMonitorMode_def own_pending_def bit_flag_setters)
  with monitor_mode_masks[of sample_monitor] show ?thesis by simp
qed

section \<open>The programmable clock\<close>

text \<open>The calls of \<open>HandleCounters\<close> that it takes to count down from \<open>c\<close> in steps of \<open>inc\<close>.\<close>

definition countdown_calls :: "uint32 \<Rightarrow> uint32 \<Rightarrow> nat" where
  "countdown_calls c inc = (unat c + unat inc - 1) div unat inc"

lemma countdown_calls_0: "inc \<noteq> 0 \<Longrightarrow> countdown_calls 0 inc = 0"
  by (simp add: countdown_calls_def unat_gt_0)

lemma HandleCounters_step:
  assumes "PeriodicInterruptCountDown (mState s) \<noteq> 0" "mTimerIncrement s \<noteq> 0"
  defines "t \<equiv> HandleCounters s"
  shows "Flags (mState t) = Flags (mState s)" "mTimerIncrement t = mTimerIncrement s"
    "PeriodicInterruptEnabled (mState t) = PeriodicInterruptEnabled (mState s)"
    "PeriodicInterruptLimit (mState t) = PeriodicInterruptLimit (mState s)"
    "countdown_calls (PeriodicInterruptCountDown (mState s)) (mTimerIncrement s) =
       Suc (countdown_calls (PeriodicInterruptCountDown (mState t)) (mTimerIncrement s))"
proof -
  let ?c = "PeriodicInterruptCountDown (mState s)" and ?i = "mTimerIncrement s"
  have pos: "0 < unat ?c" "0 < unat ?i" using assms by (simp_all add: unat_gt_0)
  show "Flags (mState t) = Flags (mState s)" "mTimerIncrement t = mTimerIncrement s"
    "PeriodicInterruptEnabled (mState t) = PeriodicInterruptEnabled (mState s)"
    "PeriodicInterruptLimit (mState t) = PeriodicInterruptLimit (mState s)"
    using assms(1) by (simp_all add: t_def HandleCounters_def Let_def upd_state_def)
  show "countdown_calls ?c ?i = Suc (countdown_calls (PeriodicInterruptCountDown (mState t)) ?i)"
  proof (cases "?c < ?i")
    case True
    then have "countdown_calls ?c ?i = 1"
      using pos by (auto simp: countdown_calls_def word_less_nat_alt div_if)
    with True assms show ?thesis
      by (simp add: t_def HandleCounters_def Let_def upd_state_def countdown_calls_0)
  next
    case False
    then have le: "unat ?i \<le> unat ?c" by (simp add: word_less_nat_alt)
    then have "unat (?c - ?i) = unat ?c - unat ?i" by (simp add: unat_sub word_le_nat_alt)
    moreover have "PeriodicInterruptCountDown (mState t) = ?c - ?i"
      using assms(1) False by (simp add: t_def HandleCounters_def Let_def upd_state_def)
    ultimately show ?thesis
      using le pos by (simp add: countdown_calls_def) (simp add: le_div_geq)
  qed
qed

lemma HandleCounters_count:
  assumes "mTimerIncrement s \<noteq> 0" "PeriodicInterruptEnabled (mState s)"
    "n = countdown_calls (PeriodicInterruptCountDown (mState s)) (mTimerIncrement s)"
  shows "(\<forall>k\<le>n. Flags (mState ((HandleCounters ^^ k) s)) = Flags (mState s)) \<and>
    Flags (mState ((HandleCounters ^^ Suc n) s)) = SetProgrammableClockInterrupt (Flags (mState s)) \<and>
    PeriodicInterruptCountDown (mState ((HandleCounters ^^ Suc n) s)) = PeriodicInterruptLimit (mState s)"
  using assms
proof (induction n arbitrary: s)
  case 0
  then have "PeriodicInterruptCountDown (mState s) = 0"
    using HandleCounters_step(5)[of s] by auto
  with 0 show ?case by (simp add: HandleCounters_def Let_def upd_state_def upd_Flags_def)
next
  case (Suc n)
  then have c: "PeriodicInterruptCountDown (mState s) \<noteq> 0" by (auto simp: countdown_calls_0)
  note step = HandleCounters_step[OF c Suc.prems(1)]
  have IH: "(\<forall>k\<le>n. Flags (mState ((HandleCounters ^^ k) (HandleCounters s))) = Flags (mState s)) \<and>
    Flags (mState ((HandleCounters ^^ Suc n) (HandleCounters s))) = SetProgrammableClockInterrupt (Flags (mState s)) \<and>
    PeriodicInterruptCountDown (mState ((HandleCounters ^^ Suc n) (HandleCounters s))) = PeriodicInterruptLimit (mState s)"
    using Suc.IH[of "HandleCounters s"] Suc.prems step by simp
  have "Flags (mState ((HandleCounters ^^ k) s)) = Flags (mState s)" if "k \<le> Suc n" for k
  proof (cases k)
    case (Suc j)
    with IH that show ?thesis by (simp add: funpow_swap1)
  qed simp
  with IH show ?case by (simp add: funpow_swap1)
qed

text \<open>C36: the programmable clock is punctual. With the clock enabled, the interrupt flag is raised by
  the call of \<open>HandleCounters\<close> that follows \<open>ceil(countdown / increment)\<close> calls, not before; all
  flags are otherwise left alone, and the countdown starts again from the limit.\<close>

theorem clock_interrupt_punctual:
  assumes "mTimerIncrement s \<noteq> 0" "PeriodicInterruptEnabled (mState s)"
  shows "let n = countdown_calls (PeriodicInterruptCountDown (mState s)) (mTimerIncrement s) in
    (\<forall>k\<le>n. Flags (mState ((HandleCounters ^^ k) s)) = Flags (mState s)) \<and>
    Flags (mState ((HandleCounters ^^ Suc n) s)) = SetProgrammableClockInterrupt (Flags (mState s)) \<and>
    PeriodicInterruptCountDown (mState ((HandleCounters ^^ Suc n) s)) = PeriodicInterruptLimit (mState s)"
  unfolding Let_def by (rule HandleCounters_count[OF assms refl])


definition sample_clocked :: SoftCpu_c where
  "sample_clocked = upd_state (PeriodicInterruptEnabled_update (\<lambda>_. True)) (sample_cpu J90)"

theorem clock_interrupt_punctual_witness:
  "Flags (mState ((HandleCounters ^^ 1) sample_clocked)) = 0 \<and>
   Flags (mState ((HandleCounters ^^ Suc 1) sample_clocked)) = SetProgrammableClockInterrupt 0"
proof -
  have s: "mTimerIncrement sample_clocked = 1000" "PeriodicInterruptEnabled (mState sample_clocked)"
      "PeriodicInterruptCountDown (mState sample_clocked) = 5" "Flags (mState sample_clocked) = 0"
    by (simp_all add: sample_clocked_def upd_state_def sample_defs)
  have n: "countdown_calls 5 1000 = 1" by (simp add: countdown_calls_def)
  have "mTimerIncrement sample_clocked \<noteq> 0" by (simp add: s)
  from clock_interrupt_punctual[OF this s(2)] show ?thesis unfolding Let_def s n by blast
qed

section \<open>Bursts and ticks\<close>

text \<open>What no instruction changes: the instruction counter and the configuration.\<close>

definition fixed_part where
  "fixed_part s = ((mInReset s, mCpuId s, mThrowOnUnknown s, mThrowOnUnimplemented s),
     (mTimerIncrement s, mInstructionBurstSize s, mMemoryPokes s, mMachineType (mMainframe s)))"

definition counting :: "SoftCpu_c \<Rightarrow> SoftCpu_c \<Rightarrow> bool" where
  "counting s t \<longleftrightarrow> mInstCnt t = mInstCnt s \<and> fixed_part t = fixed_part s"

interpretation count: inst_effects counting "\<lambda>_ _. True"
proof
  show "counting t (t\<lparr>mMainframe := snd (GetRealTimeClock (mMainframe t))\<rparr>)" for t
    by (simp add: counting_def fixed_part_def GetRealTimeClock_def Let_def)
  show "keeps counting (\<lambda>_ _. True) t (on_mainframe (SetAddress a ix) (PublishView t))" for a ix t
    using core_SetAddress[of a ix "mMainframe (PublishView t)"]
    by (auto simp: keeps_def counting_def fixed_part_def core_def on_mainframe_def PublishView_def
        upd_mainframe_def split: prod.splits)
  show "keeps counting (\<lambda>_ _. True) t (SetCluster (of_nat ci) t)" for ci t
    by (auto simp: keeps_def counting_def fixed_part_def SetCluster_def bindE_def returnE_def
        upd_ClusterCpuCnt_def upd_mainframe_def upd_state_def Let_def)
qed (simp_all add: counting_def fixed_part_def update_defs core_channel[unfolded core_def, simplified]
  SetInterProcessorInterrupt_at_def SetRealTimeClock_def)

lemma burst_counting:
  "\<exists>k\<le>n. mInstCnt (snd (burst n s)) = mInstCnt s + of_nat k \<and> (0 < n \<longrightarrow> 0 < k) \<and>
     fixed_part (snd (burst n s)) = fixed_part s"
proof (induction n arbitrary: s)
  case (Suc n)
  define s' where "s' = s\<lparr>mInstCnt := mInstCnt s + 1\<rparr>"
  obtain r t where out: "SingleStep s' = (r, t)" by force
  have "keeps counting (\<lambda>_ _. True) s' (SingleStep s')"
    by (rule count.SingleStep_keeps) (simp add: counting_def)
  then have "counting s' t" by (simp add: keeps_def out)
  then have t: "mInstCnt t = mInstCnt s + 1" "fixed_part t = fixed_part s"
    by (simp_all add: counting_def s'_def fixed_part_def)
  show ?case
  proof (cases "r = Inr False")
    case True
    obtain k where "k \<le> n" "mInstCnt (snd (burst n t)) = mInstCnt t + of_nat k"
        "fixed_part (snd (burst n t)) = fixed_part t"
      using Suc.IH[of t] by blast
    then show ?thesis using True t out by (intro exI[of _ "Suc k"]) (simp add: s'_def)
  next
    case False
    then show ?thesis using t out
      by (intro exI[of _ 1]) (auto simp: s'_def split: sum.splits bool.splits)
  qed
qed simp

text \<open>Instruction counting. A burst of at most \<open>n\<close> instructions counts between one and \<open>n\<close>
  instructions, also where an instruction throws, and changes neither the reset state nor the
  configuration of the processor.\<close>

theorem burst_instruction_count:
  "\<exists>k\<le>n. mInstCnt (snd (burst n s)) = mInstCnt s + of_nat k \<and> (n = 0 \<or> 0 < k) \<and>
     fixed_part (snd (burst n s)) = fixed_part s"
  using burst_counting[of n s] by auto

text \<open>An exchange throws only for an unknown machine type or a cluster that does not exist.\<close>

lemma Exchange_errors: "fst (Exchange s) = Inl e \<Longrightarrow> e = GenericError \<or> e = AssertError"
  by (auto simp: Exchange_def bindE_def CreateExchangePacket_def RestoreFromExchangePacket_def
      restore_last_def SetCluster_def returnE_def upd_ClusterCpuCnt_def Let_def
      split: option.splits prod.splits sum.splits if_splits)

text \<open>The flag that stands for a range error, and the burst that a tick carries out.\<close>

definition range_flag :: "exn \<Rightarrow> nat option" where
  "range_flag e = (if e = InstFetchOutOfBoundsError then Some 4
     else if e = DataReadOutOfBoundsError \<or> e = DataWriteOutOfBoundsError then Some 5 else None)"

definition tick_burst :: "SoftCpu_c \<Rightarrow> (exn + unit) \<times> SoftCpu_c" where
  "tick_burst s = burst (Suc (mInstructionBurstSize s)) (snd (CheckInterrupts (HandleCounters s)))"

lemma before_burst:
  "InterruptMaskFromState (HandleCounters s) = InterruptMaskFromState s"
  "mInReset (HandleCounters s) = mInReset s" "mInReset (MirrorExternalInterrupts s) = mInReset s"
  "mInstructionBurstSize (MirrorExternalInterrupts (HandleCounters s)) = mInstructionBurstSize s"
  "bit (Flags (mState s)) n \<Longrightarrow> bit (Flags (mState (HandleCounters s))) n"
  by (simp_all add: HandleCounters_def MirrorExternalInterrupts_def InitNotIntFlags_def InterruptMaskFromState_def Let_def
      update_defs bit_flag_setters)

lemma Tick_caught:
  assumes "\<not> fst (CheckInterrupts (HandleCounters s))" "\<not> mInReset s" "tick_burst s = (Inl e, v)" "range_flag e = Some n"
  shows "Tick s = (Inr (), upd_Flags (\<lambda>f. f OR push_bit n 1) v)"
proof -
  have "Tick s = catch_range_errors (tick_burst s)"
    using assms(1,2) by (simp add: Tick_def Let_def case_prod_beta tick_burst_def CheckInterrupts_result(1) before_burst)
  moreover have "SetProgramRangeError = (\<lambda>f. f OR push_bit 4 1)" "SetOperandRangeError = (\<lambda>f. f OR push_bit 5 1)"
    by (simp_all add: fun_eq_iff SetProgramRangeError_def SetOperandRangeError_def F_ProgramRangeError_def F_OperandRangeError_def)
  ultimately show ?thesis
    using assms(3,4) by (auto simp: catch_range_errors_def range_flag_def split: if_splits)
qed

lemma Tick_fires:
  assumes "\<not> mInReset t" "bit (InterruptMaskFromState t) n" "bit (Flags (mState t)) n"
  shows "\<exists>u. Tick t = Exchange u \<and> bit (FiringInterrupts u) n"
proof -
  let ?d = "HandleCounters t"
  let ?u = "(MirrorExternalInterrupts ?d)\<lparr>mCallStack := []\<rparr>"
  have on: "bit (InterruptMaskFromState ?d) n" "bit (Flags (mState ?d)) n"
    using assms(2,3) before_burst(5)[of t n] by (simp_all add: before_burst)
  then have "fst (CheckInterrupts ?d)" by (auto simp: CheckInterrupts_result flag_pending_def Let_def)
  then have "Tick t = Exchange ?u"
    using assms(1) by (simp add: Tick_def Let_def case_prod_beta CheckInterrupts_result(1) before_burst)
  moreover have "InterruptMaskFromState ?u = InterruptMaskFromState (MirrorExternalInterrupts ?d)"
    by (simp add: InterruptMaskFromState_def)
  then have "bit (FiringInterrupts ?u) n"
    using on by (simp add: FiringInterrupts_def bit_and_iff Mirror_state(1,2))
  ultimately show ?thesis by blast
qed

text \<open>C39: range errors stay inside the processor. A tick never lets one of the three range errors
  out. When no interrupt fires, the processor is not in reset and its burst ends with such an error,
  the tick succeeds, and it sets the flag of the error, program range (bit 4) for a fetch and operand
  range (bit 5) for a load or a store, and changes nothing else of the state in which the error left
  the processor. If that is a user program, which for an operand error has the operand range mode
  on, then the next tick is an exchange, and the flag is among the interrupts that fire.\<close>

theorem Tick_range_errors:
  "fst (Tick s) \<notin> Inl ` {InstFetchOutOfBoundsError, DataReadOutOfBoundsError, DataWriteOutOfBoundsError} \<and>
   (\<forall>e n v. \<not> fst (CheckInterrupts (HandleCounters s)) \<and> \<not> mInReset s \<and> tick_burst s = (Inl e, v) \<and> range_flag e = Some n \<longrightarrow>
      (\<exists>t. Tick s = (Inr (), t) \<and> t = upd_Flags (\<lambda>f. f OR push_bit n 1) v \<and>
         (\<not> IsMonitorMode t \<and> (n = 5 \<longrightarrow> mOperandRangeErrorMode (Mode (mState t))) \<longrightarrow>
            (\<exists>u. Tick t = Exchange u \<and> bit (FiringInterrupts u) n))))"
    (is "_ \<notin> Inl ` ?E \<and> _")
proof (intro conjI allI impI)
  have "fst (catch_range_errors r) \<notin> Inl ` ?E" for r
    by (cases r; cases "fst r") (auto simp: catch_range_errors_def split: exn.splits)
  moreover have "fst (Exchange t) \<notin> Inl ` ?E" for t using Exchange_errors[of t] by auto
  ultimately show "fst (Tick s) \<notin> Inl ` ?E" by (simp add: Tick_def Let_def case_prod_beta)
next
  fix e n v
  assume a: "\<not> fst (CheckInterrupts (HandleCounters s)) \<and> \<not> mInReset s \<and> tick_burst s = (Inl e, v) \<and> range_flag e = Some n"
  let ?t = "upd_Flags (\<lambda>f. f OR push_bit n 1) v"
  have n: "n = 4 \<or> n = 5" using a by (auto simp: range_flag_def split: if_splits)
  have "fixed_part v = fixed_part (snd (CheckInterrupts (HandleCounters s)))"
    using burst_counting[of "Suc (mInstructionBurstSize s)" "snd (CheckInterrupts (HandleCounters s))"] a
    by (auto simp: tick_burst_def)
  then have r: "\<not> mInReset ?t"
    using a by (simp add: fixed_part_def CheckInterrupts_result before_burst upd_Flags_def upd_state_def)
  have f: "bit (Flags (mState ?t)) n"
    using n by (auto simp: upd_Flags_def upd_state_def bit_or_iff bit_push_bit_iff)
  have "bit (InterruptMaskFromState ?t) n"
    if "\<not> IsMonitorMode ?t" "n = 5 \<longrightarrow> mOperandRangeErrorMode (Mode (mState ?t))"
    using that n unfolding InterruptMaskFromState_def Let_def
    by (auto simp: IsMonitorMode_def bit_or_iff bit_interrupt_flags)
  then show "\<exists>t. Tick s = (Inr (), t) \<and> t = ?t \<and>
      (\<not> IsMonitorMode t \<and> (n = 5 \<longrightarrow> mOperandRangeErrorMode (Mode (mState t))) \<longrightarrow>
        (\<exists>u. Tick t = Exchange u \<and> bit (FiringInterrupts u) n))"
    using Tick_caught[of s e v n] Tick_fires[OF r _ f] a by blast
qed

text \<open>A user program that runs on behind its last instruction.\<close>

definition sample_runaway :: SoftCpu_c where
  "sample_runaway = upd_state (InstLimitAddr_update (\<lambda>_. 0)) (sample_cpu YMP)"

theorem Tick_range_errors_witness:
  "\<exists>t u. Tick sample_runaway = (Inr (), t) \<and> Flags (mState t) = 16 \<and> Tick t = Exchange u \<and> bit (FiringInterrupts u) 4"
proof -
  let ?s = sample_runaway
  define d where "d = snd (CheckInterrupts (HandleCounters ?s))"
  have d: "Flags (mState d) = 0" "InstLimitAddr (mState d) = 0" "\<not> IsMonitorMode d"
    by (simp_all add: d_def CheckInterrupts_result sample_runaway_def MirrorExternalInterrupts_def HandleCounters_def
        InitNotIntFlags_def own_pending_def Let_def update_defs sample_defs IsMonitorMode_def)
  have f: "\<not> fst (CheckInterrupts (HandleCounters ?s))"
    using d(1) unfolding d_def CheckInterrupts_result(1) by (simp add: CheckInterrupts_def Let_def)
  have "ReadInstMem p d = Inl InstFetchOutOfBoundsError" for p
    using d(2) by (simp add: ReadInstMem_def Let_def)
  then have b: "tick_burst ?s = (Inl InstFetchOutOfBoundsError, d\<lparr>mInstCnt := mInstCnt d + 1\<rparr>)"
    using d(2) by (simp add: tick_burst_def d_def[symmetric] SingleStep_def ReadInstMem_def Let_def)
  have "\<not> mInReset ?s" by (simp add: sample_runaway_def upd_state_def sample_defs)
  with f b Tick_range_errors[of ?s, THEN conjunct2, rule_format, of InstFetchOutOfBoundsError _ 4] obtain t where
    "Tick ?s = (Inr (), t)" "t = upd_Flags (\<lambda>f. f OR push_bit 4 1) (d\<lparr>mInstCnt := mInstCnt d + 1\<rparr>)"
    "\<not> IsMonitorMode t \<longrightarrow> (\<exists>u. Tick t = Exchange u \<and> bit (FiringInterrupts u) 4)" by (auto simp: range_flag_def)
  moreover from this have "Flags (mState t) = 16" "\<not> IsMonitorMode t"
    using d by (simp_all add: upd_Flags_def upd_state_def IsMonitorMode_def)
  ultimately show ?thesis by blast
qed

text \<open>A processor in reset with a pending MCU interrupt exchanges at its next tick.\<close>

lemma reset_tick_exchanges:
  assumes "mInReset s" "xMcu (own_pending s)"
  shows "\<exists>t. Tick s = Exchange t \<and> \<not> mInReset t \<and> mInstCnt t = 0 \<and> mCpuId t = mCpuId s \<and>
     ExchangePacketAddress (mState t) = ExchangePacketAddress (mState s) \<and> Cluster (mState t) = Cluster (mState s) \<and>
     mMainframe t = mMainframe (InitNotIntFlags s)"
proof -
  define d where "d = HandleCounters s"
  have d: "mInReset d" "ExchangePacketAddress (mState d) = ExchangePacketAddress (mState s)" "mMainframe d = mMainframe s"
      "mCpuId d = mCpuId s" "Cluster (mState d) = Cluster (mState s)" "xMcu (own_pending d)"
    using assms by (simp_all add: d_def HandleCounters_def Let_def own_pending_def update_defs)
  have "bit (InterruptMaskFromState d) 7"
    by (auto simp: InterruptMaskFromState_def Let_def bit_or_iff bit_interrupt_flags)
  then have fire: "fst (CheckInterrupts d)"
    using d(6) by (auto simp: CheckInterrupts_result flag_pending_def Let_def)
  define m where "m = MirrorExternalInterrupts d"
  have m: "mInReset m" "ExchangePacketAddress (mState m) = ExchangePacketAddress (mState s)" "mCpuId m = mCpuId s"
      "Cluster (mState m) = Cluster (mState s)"
      "mMainframe m = mMainframe (InitNotIntFlags s)"
    using d by (simp_all add: m_def MirrorExternalInterrupts_def Let_def InitNotIntFlags_def update_defs)
  have "Tick s = Exchange (m\<lparr>mCallStack := [], mInstCnt := 0, mInReset := False\<rparr>)"
    using fire m(1)
    by (simp add: Tick_def Let_def d_def[symmetric] case_prod_beta CheckInterrupts_result(1) m_def)
  then show ?thesis using m by (intro exI) auto
qed

text \<open>A dead start exchanges at once. After a master clear and a dead start, whatever state the
  processor was in, its next tick is an exchange at the exchange address that it held, from a
  memory into which the configured pokes were written; the processor has left the reset and
  its instruction count is zero.\<close>

theorem dead_start_exchanges:
  "\<exists>t. Tick (cpu_DeadStart (MasterClear s)) = Exchange t \<and> \<not> mInReset t \<and> mInstCnt t = 0 \<and>
     packet_address t = packet_address s \<and>
     mMemory (mMainframe t) = fold apply_poke (mMemoryPokes s) (mMemory (mMainframe s))"
proof -
  let ?s = "cpu_DeadStart (MasterClear s)"
  have "mInReset ?s" "xMcu (own_pending ?s)" "ExchangePacketAddress (mState ?s) = ExchangePacketAddress (mState s)"
      "mMemory (mMainframe (InitNotIntFlags ?s)) = fold apply_poke (mMemoryPokes s) (mMemory (mMainframe s))"
    by (simp_all add: cpu_DeadStart_def MasterClear_def Let_def own_pending_def cpu_SetMcuInterrupt_def
        InitNotIntFlags_def update_defs)
  then show ?thesis using reset_tick_exchanges[of ?s] by (auto simp: packet_address_def)
qed

end
