(* ===== verification/Mainframe_Contracts.thy ===== *)
theory Mainframe_Contracts
  imports Sample_States
begin

text \<open>
  What the mainframe and its channels promise the processors, \<^verbatim>\<open>sim_lib/cray_mainframe.cpp\<close>
  and \<^verbatim>\<open>sim_lib/cray_channels.cpp\<close>: the real-time clock, the routing of interrupts, the
  channels that read a buffer to its end, and the I/O master clear.
\<close>

section \<open>The real-time clock\<close>

lemma GetRealTimeClock_advances:
  assumes "mUseHostRealTimeClock mf" "0 < mRealTimeClockIncrement mf"
    and "unat (mLastRealTimeReading mf) + unat (mRealTimeClockIncrement mf) < 2 ^ 64"
    and "unat (mLastRealTimeReading mf) + unat (mRealTimeClockChunkLimit mf) < 2 ^ 64"
  shows "mLastRealTimeReading mf < fst (GetRealTimeClock mf)"
    "mLastRealTimeReading (snd (GetRealTimeClock mf)) = fst (GetRealTimeClock mf)"
proof -
  let ?l = "mLastRealTimeReading mf"
  have c: "?l \<le> ?l + mRealTimeClockChunkLimit mf"
    using assms(4) by (simp add: word_le_nat_alt unat_word_ariths)
  have i: "?l < ?l + mRealTimeClockIncrement mf"
    using assms(2,3) by (simp add: word_less_nat_alt unat_word_ariths)
  show "?l < fst (GetRealTimeClock mf)"
    using assms(1) c i by (auto simp: GetRealTimeClock_def Let_def intro: order.strict_trans1)
  show "mLastRealTimeReading (snd (GetRealTimeClock mf)) = fst (GetRealTimeClock mf)"
    using assms(1) by (simp add: GetRealTimeClock_def Let_def)
qed

text \<open>The real-time clock moves forward. Two readings of the host-based clock, with any reading
  of the host timer in between, even one that runs backwards, give strictly increasing values
  until the 64-bit counter is about to run over.\<close>

theorem real_time_increases:
  assumes "mUseHostRealTimeClock mf" "0 < mRealTimeClockIncrement mf"
    and "GetRealTimeClock mf = (v1, mf1)" "GetRealTimeClock (mf1\<lparr>mHostWall := w\<rparr>) = (v2, mf2)"
    and "unat v1 + unat (mRealTimeClockIncrement mf) < 2 ^ 64"
    and "unat v1 + unat (mRealTimeClockChunkLimit mf) < 2 ^ 64"
  shows "v1 < v2"
proof -
  have m: "mLastRealTimeReading mf1 = v1" "mRealTimeClockIncrement mf1 = mRealTimeClockIncrement mf"
      "mRealTimeClockChunkLimit mf1 = mRealTimeClockChunkLimit mf" "mUseHostRealTimeClock mf1"
    using assms(1,3) by (auto simp: GetRealTimeClock_def Let_def split: if_splits)
  then show ?thesis
    using GetRealTimeClock_advances(1)[of "mf1\<lparr>mHostWall := w\<rparr>"] assms by simp
qed

theorem real_time_increases_witness:
  "\<exists>v1 mf1 v2 mf2. GetRealTimeClock (sample_mainframe YMP) = (v1, mf1) \<and>
     GetRealTimeClock (mf1\<lparr>mHostWall := 0\<rparr>) = (v2, mf2) \<and> v1 < v2"
proof -
  have a: "GetRealTimeClock (sample_mainframe YMP) = (1, (sample_mainframe YMP)\<lparr>mLastRealTimeReading := 1\<rparr>)"
    by (simp add: GetRealTimeClock_def sample_mainframe_def Let_def)
  obtain v2 mf2 where b: "GetRealTimeClock ((sample_mainframe YMP)\<lparr>mLastRealTimeReading := 1, mHostWall := 0\<rparr>) = (v2, mf2)"
    by force
  have "1 < v2"
    by (rule real_time_increases[OF _ _ a b]) (simp_all add: sample_mainframe_def)
  with a b show ?thesis by auto
qed

section \<open>Routing an interrupt\<close>

lemma first_cpu_Some:
  "first_cpu P mf = Some i \<longleftrightarrow> i < length (mCpus mf) \<and> P (mCpus mf ! i) \<and> (\<forall>j<i. \<not> P (mCpus mf ! j))"
  unfolding first_cpu_def find_Some_iff by auto

lemma first_cpu_None: "first_cpu P mf = None \<longleftrightarrow> (\<forall>i<length (mCpus mf). \<not> P (mCpus mf ! i))"
  unfolding first_cpu_def find_None_iff by auto

text \<open>A channel interrupt reaches exactly one processor. It is the first one that has selected
  external interrupts; if there is none, the first one that waits for a semaphore; if there is
  none either, the one that last executed a CI instruction. Nothing else of the mainframe
  changes.\<close>

theorem channel_interrupt_routing:
  "\<exists>cpu. RouteChannelInterrupt mf = SetIoInterrupt_at cpu mf \<and>
     (if \<exists>c\<in>set (mCpus mf). vSelectedForExternalInterrupts c
      then cpu < length (mCpus mf) \<and> vSelectedForExternalInterrupts (mCpus mf ! cpu) \<and>
        (\<forall>j<cpu. \<not> vSelectedForExternalInterrupts (mCpus mf ! j))
      else if \<exists>c\<in>set (mCpus mf). vTsBlocked c
      then cpu < length (mCpus mf) \<and> vTsBlocked (mCpus mf ! cpu) \<and> (\<forall>j<cpu. \<not> vTsBlocked (mCpus mf ! j))
      else cpu = mLastCpuIssuedCI mf)"
proof -
  have ex: "(\<exists>c\<in>set (mCpus mf). P c) \<longleftrightarrow> first_cpu P mf \<noteq> None" for P
    unfolding first_cpu_None by (auto simp: in_set_conv_nth intro!: bexI[OF _ nth_mem])
  show ?thesis
  proof (cases "first_cpu vSelectedForExternalInterrupts mf")
    case (Some i)
    then show ?thesis
      unfolding ex by (intro exI[of _ i]) (simp add: RouteChannelInterrupt_def first_cpu_Some[THEN iffD1, OF Some])
  next
    case None
    note n = this
    show ?thesis
    proof (cases "first_cpu vTsBlocked mf")
      case (Some i)
      then show ?thesis
        unfolding ex by (intro exI[of _ i]) (simp add: RouteChannelInterrupt_def n first_cpu_Some[THEN iffD1, OF Some])
    qed (simp add: ex RouteChannelInterrupt_def n)
  qed
qed

theorem channel_interrupt_routing_witness:
  "RouteChannelInterrupt (sample_mainframe YMP) = SetIoInterrupt_at 0 (sample_mainframe YMP)"
  using channel_interrupt_routing[of "sample_mainframe YMP"] by (simp add: sample_mainframe_def)

section \<open>Output to the end of the buffer\<close>

lemma GetData_returns:
  assumes "ix < length (mChannels mf)" "mActive (chan mf ix)"
    and "unat (mAddress (chan mf ix)) < unat (mLimit (chan mf ix))"
    and "unat (mLimit (chan mf ix)) * 8 \<le> mMemorySize mf"
  defines "a \<equiv> mAddress (chan mf ix)"
  shows "\<exists>mf'. GetData ix mf = (Inr (SwapBytes64 (load64 (mMemory mf) (unat a * 8))), mf') \<and>
    chan mf' ix = (let c = (chan mf ix)\<lparr>mAddress := a + 1\<rparr> in
      if a + 1 = mLimit (chan mf ix) then c\<lparr>mInterruptPending := True, mActive := False\<rparr> else c) \<and>
    length (mChannels mf') = length (mChannels mf) \<and> mMemory mf' = mMemory mf \<and>
    mMemorySize mf' = mMemorySize mf"
proof -
  have ne: "a \<noteq> mLimit (chan mf ix)" using assms(3) by (auto simp: a_def)
  have "\<not> mMemorySize mf \<le> unat a * 8" using assms(3,4) by (simp add: a_def)
  then show ?thesis
    using assms(1,2) ne
    by (auto simp: GetData_def MemReadNoWatchpoint_def Let_def a_def SetInactive_def SetInterruptPending_def upd_chan_def
      RouteChannelInterrupt_def SetIoInterrupt_at_def chan_def split: option.splits)
qed


lemma unat_Suc_below: "unat (a :: uint32) < unat (l :: uint32) \<Longrightarrow> unat (a + 1) = Suc (unat a)"
  using unsigned_less[of l, where ?'a = nat] by (simp add: unat_word_ariths)

lemma drain_result:
  assumes "ix < length (mChannels mf)" "mActive (chan mf ix)"
    and "unat (mAddress (chan mf ix)) < unat (mLimit (chan mf ix))"
    and "unat (mLimit (chan mf ix)) * 8 \<le> mMemorySize mf"
  shows "\<exists>mf'. LoggerChannel_drain ix mf = (Inr (), mf') \<and>
    chan mf' ix = (chan mf ix)\<lparr>mAddress := mLimit (chan mf ix), mActive := False, mInterruptPending := True\<rparr> \<and>
    mMemory mf' = mMemory mf \<and> length (mChannels mf') = length (mChannels mf)"
  using assms
proof (induction "unat (mLimit (chan mf ix)) - unat (mAddress (chan mf ix))" arbitrary: mf rule: less_induct)
  case less
  let ?a = "mAddress (chan mf ix)" and ?l = "mLimit (chan mf ix)"
  obtain mf1 where g: "GetData ix mf = (Inr (SwapBytes64 (load64 (mMemory mf) (unat ?a * 8))), mf1)"
      "chan mf1 ix = (let c = (chan mf ix)\<lparr>mAddress := ?a + 1\<rparr> in
        if ?a + 1 = ?l then c\<lparr>mInterruptPending := True, mActive := False\<rparr> else c)"
      "length (mChannels mf1) = length (mChannels mf)" "mMemory mf1 = mMemory mf" "mMemorySize mf1 = mMemorySize mf"
    using GetData_returns[OF less.prems] by blast
  have d: "LoggerChannel_drain ix mf = LoggerChannel_drain ix mf1"
    using less.prems g(1) by (subst LoggerChannel_drain.simps) simp
  have u: "unat (?a + 1) = Suc (unat ?a)" by (rule unat_Suc_below[OF less.prems(3)])
  show ?case
  proof (cases "?a + 1 = ?l")
    case True
    then have "LoggerChannel_drain ix mf1 = (Inr (), mf1)"
      using g(2) by (subst LoggerChannel_drain.simps) (simp add: Let_def)
    then show ?thesis using d g True by (simp add: Let_def)
  next
    case False
    then have "unat (?a + 1) \<noteq> unat ?l" by (metis unsigned_word_eqI)
    with u less.prems(3) have lt: "unat (?a + 1) < unat ?l" by simp
    show ?thesis
      unfolding d using less.hyps[of mf1] less.prems(1,2,4) lt u g False by (simp add: Let_def)
  qed
qed

text \<open>an output channel drains its buffer. Activated on a buffer inside the memory, the logger
  channel reads up to the limit and stops exactly there: it returns without an exception,
  inactive, with its interrupt pending and the address equal to the limit, and memory is only
  read.\<close>

theorem logger_channel_drains:
  assumes "ix < length (mChannels mf)" "chKind (chan mf ix) = LoggerChannel False"
    and "\<not> mActive (chan mf ix)" "unat a < unat (mLimit (chan mf ix))"
    and "unat (mLimit (chan mf ix)) * 8 \<le> mMemorySize mf"
  shows "\<exists>mf'. SetAddress a ix mf = (Inr (), mf') \<and> mMemory mf' = mMemory mf \<and>
    chan mf' ix = (chan mf ix)\<lparr>mAddress := mLimit (chan mf ix), mActive := False,
      mInterruptPending := True, mError := False\<rparr>"
proof -
  let ?m = "upd_chan ix (mActive_update (\<lambda>_. True)) (upd_chan ix (mAddress_update (\<lambda>_. a)) mf)"
  have ne: "a \<noteq> mLimit (chan mf ix)" using assms(4) by auto
  have size: "mMemorySize ?m = mMemorySize mf" by (simp add: upd_chan_def)
  obtain mf1 where d: "LoggerChannel_drain ix ?m = (Inr (), mf1)" "mMemory mf1 = mMemory mf"
      "chan mf1 ix = (chan mf ix)\<lparr>mAddress := mLimit (chan mf ix), mActive := False, mInterruptPending := True\<rparr>"
      "ix < length (mChannels mf1)"
    using drain_result[of ix ?m] assms size by auto
  have "SetAddress a ix mf = (Inr (), upd_chan ix (mError_update (\<lambda>_. False)) mf1)"
    using assms(1,2,3) ne d(1) by (simp add: SetAddress_def SetActive_def HandleActivation_def Let_def)
  then show ?thesis using d by simp
qed


definition sample_idle :: mainframe where
  "sample_idle = upd_chan 0 (mActive_update (\<lambda>_. False)) (sample_mainframe YMP)"

theorem logger_channel_drains_witness:
  "\<exists>mf'. SetAddress 0 0 sample_idle = (Inr (), mf') \<and> mAddress (chan mf' 0) = 2 \<and>
     mInterruptPending (chan mf' 0)"
proof -
  have "\<exists>mf'. SetAddress 0 0 sample_idle = (Inr (), mf') \<and> mMemory mf' = mMemory sample_idle \<and>
    chan mf' 0 = (chan sample_idle 0)\<lparr>mAddress := mLimit (chan sample_idle 0), mActive := False,
      mInterruptPending := True, mError := False\<rparr>"
    by (rule logger_channel_drains)
      (simp_all add: sample_idle_def upd_chan_def chan_def sample_mainframe_def sample_channel_def)
  then show ?thesis
    by (auto simp: sample_idle_def upd_chan_def chan_def sample_mainframe_def sample_channel_def)
qed

section \<open>The I/O master clear\<close>

definition channel_cleared :: "channel \<Rightarrow> channel" where
  "channel_cleared c = c\<lparr>mAddress := 0, mLimit := 0, mInterruptPending := False, mError := False, mActive := False\<rparr>"

lemma MainframeSideMasterClear_result:
  assumes "ix < length (mChannels mf)"
  shows "MainframeSideMasterClear ix mf = upd_chan ix channel_cleared mf"
  using assms by (cases "the (mChannels mf ! ix)") (simp add: MainframeSideMasterClear_def
      SetInterruptPending_def SetInactive_def Let_def upd_chan_def chan_def channel_cleared_def)

lemma clear_loop:
  "k \<le> length (mChannels mf) \<Longrightarrow>
   for_loop 0 k (\<lambda>ix m. if mChannels m ! ix \<noteq> None then MainframeSideMasterClear ix m else m) mf =
   mf\<lparr>mChannels := map (map_option channel_cleared) (take k (mChannels mf)) @ drop k (mChannels mf)\<rparr>"
proof (induction k)
  case (Suc k)
  let ?cs = "mChannels mf"
  from Suc.prems have k: "k < length ?cs" by simp
  then have d: "drop k ?cs = ?cs ! k # drop (Suc k) ?cs" by (simp add: Cons_nth_drop_Suc)
  have t: "take (Suc k) ?cs = take k ?cs @ [?cs ! k]" using k by (simp add: take_Suc_conv_app_nth)
  let ?m = "mf\<lparr>mChannels := map (map_option channel_cleared) (take k ?cs) @ drop k ?cs\<rparr>"
  have "for_loop 0 (Suc k) (\<lambda>ix m. if mChannels m ! ix \<noteq> None then MainframeSideMasterClear ix m else m) mf =
      (if mChannels ?m ! k \<noteq> None then MainframeSideMasterClear k ?m else ?m)"
    using Suc.IH k by (simp add: for_loop_Suc)
  also have "mChannels ?m ! k = ?cs ! k" using k by (simp add: nth_append)
  also have "(if ?cs ! k \<noteq> None then MainframeSideMasterClear k ?m else ?m) =
      mf\<lparr>mChannels := map (map_option channel_cleared) (take (Suc k) ?cs) @ drop (Suc k) ?cs\<rparr>"
    using k by (auto simp: MainframeSideMasterClear_result upd_chan_def chan_def nth_append t d
        list_update_append)
  finally show ?case .
qed simp

text \<open>releasing the I/O master clear resets every channel. On the falling edge, and only there,
  each installed channel ends with address and limit zero, inactive, without error or pending
  interrupt, while its kind, number and file stay; nothing else of the mainframe changes, and
  no interrupt is raised on the way.\<close>

theorem io_master_clear:
  "IoMasterClear b mf =
     (if mIoMasterClear mf \<and> \<not> b
      then mf\<lparr>mChannels := map (map_option channel_cleared) (mChannels mf), mIoMasterClear := b\<rparr>
      else mf\<lparr>mIoMasterClear := b\<rparr>)"
  using clear_loop[of "length (mChannels mf)" mf] by (simp add: IoMasterClear_def Let_def)

section \<open>Deadlock\<close>

text \<open>a deadlock interrupt goes to the cluster. All processors of the deadlocked cluster get the
  interrupt, the others do not, and no other pending interrupt is lost or raised.\<close>

theorem deadlock_interrupts:
  assumes "c \<noteq> 0"
  shows "\<exists>mf'. HandleDeadLock c mf = (Inr (), mf') \<and>
    mf' = mf\<lparr>mPending := mPending mf'\<rparr> \<and>
    (\<forall>i. mPending mf' i = (if i < length (mCpus mf) \<and> ucast (vCluster (mCpus mf ! i)) = c
      then (mPending mf i)\<lparr>xDeadLock := True\<rparr> else mPending mf i))"
proof -
  let ?f = "\<lambda>Cpu m. if ucast (vCluster (mCpus m ! Cpu)) = c then SetDeadLockInterrupt_at Cpu m else m"
  let ?I = "\<lambda>k m. m = mf\<lparr>mPending := mPending m\<rparr> \<and> (\<forall>i. mPending m i =
      (if i < k \<and> ucast (vCluster (mCpus mf ! i)) = c then (mPending mf i)\<lparr>xDeadLock := True\<rparr> else mPending mf i))"
  have "?I (length (mCpus mf)) (for_loop 0 (length (mCpus mf)) ?f mf)"
  proof (rule for_loop_invariant[where I = ?I])
    fix i m
    assume I: "?I i m"
    then obtain P where m: "m = mf\<lparr>mPending := P\<rparr>" by blast
    then have P: "P j = (if j < i \<and> ucast (vCluster (mCpus mf ! j)) = c then (mPending mf j)\<lparr>xDeadLock := True\<rparr>
        else mPending mf j)" for j using I by simp
    show "?I (Suc i) (?f i m)"
      unfolding m by (auto simp: SetDeadLockInterrupt_at_def P less_Suc_eq)
  qed simp_all
  then show ?thesis using assms by (auto simp: HandleDeadLock_def)
qed

theorem deadlock_interrupts_witness:
  "\<exists>mf'. HandleDeadLock 1 (sample_mainframe YMP) = (Inr (), mf') \<and> xDeadLock (mPending mf' 0)"
  using deadlock_interrupts[of 1 "sample_mainframe YMP"] by (auto simp: sample_mainframe_def)


section \<open>Files as images of memory\<close>

lemma bytes_of_load64: "bytes_of_word (load64 m x) = map m [x..<x + 8]"
proof (rule nth_equalityI)
  fix k
  assume "k < length (bytes_of_word (load64 m x))"
  then have k: "k < 8" by (simp add: bytes_of_word_def)
  have "ucast (drop_bit (8 * k) (load64 m x)) = m (x + k)"
  proof (rule word_eq_by_bits)
    fix r :: nat
    assume "r < LENGTH(8)"
    then show "bit (ucast (drop_bit (8 * k) (load64 m x)) :: uint8) r = bit (m (x + k)) r"
      using k bit_load64[of k r m x] by (simp add: bit_simps)
  qed
  with k show "bytes_of_word (load64 m x) ! k = map m [x..<x + 8] ! k" by (simp add: bytes_of_word_def)
qed (simp add: bytes_of_word_def)

lemma output_tick:
  assumes "ix < length (mChannels mf)" "mActive (chan mf ix)"
    and "unat (mAddress (chan mf ix)) < unat (mLimit (chan mf ix))"
    and "unat (mLimit (chan mf ix)) * 8 \<le> mMemorySize mf"
  defines "a \<equiv> mAddress (chan mf ix)"
  shows "\<exists>mf'. FileOutputChannel_tick ix mf = (Inr (), mf') \<and>
    chan mf' ix = (let c = (chan mf ix)\<lparr>mAddress := a + 1,
        chFile := chFile (chan mf ix) @ map (mMemory mf) [8 * unat a..<8 * Suc (unat a)]\<rparr> in
      if a + 1 = mLimit (chan mf ix) then c\<lparr>mInterruptPending := True, mActive := False\<rparr> else c) \<and>
    length (mChannels mf') = length (mChannels mf) \<and> mMemory mf' = mMemory mf \<and>
    mMemorySize mf' = mMemorySize mf"
proof -
  obtain mf1 where g: "GetData ix mf = (Inr (SwapBytes64 (load64 (mMemory mf) (unat a * 8))), mf1)"
      "chan mf1 ix = (let c = (chan mf ix)\<lparr>mAddress := a + 1\<rparr> in
        if a + 1 = mLimit (chan mf ix) then c\<lparr>mInterruptPending := True, mActive := False\<rparr> else c)"
      "length (mChannels mf1) = length (mChannels mf)" "mMemory mf1 = mMemory mf" "mMemorySize mf1 = mMemorySize mf"
    using GetData_returns[OF assms(1-4)] unfolding a_def by blast
  have "[8 * unat a..<8 * Suc (unat a)] = [unat a * 8..<unat a * 8 + 8]"
    by (simp add: mult.commute add.commute)
  then show ?thesis
    using g assms(1,2) by (simp add: FileOutputChannel_tick_def bytes_of_load64 Let_def) (simp add: upd_chan_def)
qed

lemma output_ticks:
  assumes "ix < length (mChannels mf)" "mActive (chan mf ix)"
    and "unat (mAddress (chan mf ix)) + Suc n = unat (mLimit (chan mf ix))"
    and "unat (mLimit (chan mf ix)) * 8 \<le> mMemorySize mf"
  defines "c \<equiv> chan mf ix"
  shows "\<exists>mf'. forE [m..<m + Suc n] (\<lambda>_. FileOutputChannel_tick ix) mf = (Inr (), mf') \<and>
    chan mf' ix = c\<lparr>mAddress := mLimit c, mInterruptPending := True, mActive := False,
      chFile := chFile c @ map (mMemory mf) [8 * unat (mAddress c)..<8 * unat (mLimit c)]\<rparr> \<and>
    mMemory mf' = mMemory mf"
  using assms(1-4) unfolding c_def
proof (induction n arbitrary: mf m)
  case 0
  let ?a = "mAddress (chan mf ix)" and ?l = "mLimit (chan mf ix)"
  have lt: "unat ?a < unat ?l" and l: "unat ?l = Suc (unat ?a)" using 0 by simp_all
  have "unat (?a + 1) = unat ?l" using unat_Suc_below[OF lt] l by simp
  then have "?a + 1 = ?l" by (rule unsigned_word_eqI)
  then show ?case using output_tick[OF 0(1,2) lt 0(4)] l by (auto simp: Let_def)
next
  case (Suc n)
  let ?a = "mAddress (chan mf ix)" and ?l = "mLimit (chan mf ix)"
  have lt: "unat ?a < unat ?l" using Suc.prems by simp
  have u: "unat (?a + 1) = Suc (unat ?a)" by (rule unat_Suc_below[OF lt])
  then have ne: "?a + 1 \<noteq> ?l" using Suc.prems(3) by auto
  obtain mf1 where t: "FileOutputChannel_tick ix mf = (Inr (), mf1)"
      "chan mf1 ix = (chan mf ix)\<lparr>mAddress := ?a + 1,
        chFile := chFile (chan mf ix) @ map (mMemory mf) [8 * unat ?a..<8 * Suc (unat ?a)]\<rparr>"
      "length (mChannels mf1) = length (mChannels mf)" "mMemory mf1 = mMemory mf" "mMemorySize mf1 = mMemorySize mf"
    using output_tick[OF Suc.prems(1,2) lt Suc.prems(4)] ne by (auto simp: Let_def)
  have split: "[8 * unat ?a..<8 * unat ?l] = [8 * unat ?a..<8 * Suc (unat ?a)] @ [8 * Suc (unat ?a)..<8 * unat ?l]"
    using upt_add_eq_append[of "8 * unat ?a" "8 * Suc (unat ?a)" "8 * unat ?l - 8 * Suc (unat ?a)"] lt by simp
  have loop: "forE [m..<m + Suc (Suc n)] (\<lambda>_. FileOutputChannel_tick ix) mf =
      forE [Suc m..<Suc m + Suc n] (\<lambda>_. FileOutputChannel_tick ix) mf1"
    using t(1) by (simp add: upt_conv_Cons del: upt_Suc)
  show ?case
    unfolding loop split using Suc.IH[of mf1 "Suc m"] Suc.prems t u by simp
qed

text \<open>a file written by an output channel is the image of the buffer. One tick per word writes
  the bytes of memory from the address up to the limit, in their order in memory, behind what
  the file held; the channel then stops with its interrupt pending.\<close>

theorem file_output_image:
  assumes "ix < length (mChannels mf)" "mActive (chan mf ix)"
    and "unat (mAddress (chan mf ix)) + n = unat (mLimit (chan mf ix))" "0 < n"
    and "unat (mLimit (chan mf ix)) * 8 \<le> mMemorySize mf"
  shows "\<exists>mf'. forE [0..<n] (\<lambda>_. FileOutputChannel_tick ix) mf = (Inr (), mf') \<and>
    chFile (chan mf' ix) = chFile (chan mf ix) @
      map (mMemory mf) [8 * unat (mAddress (chan mf ix))..<8 * unat (mLimit (chan mf ix))] \<and>
    mInterruptPending (chan mf' ix) \<and> \<not> mActive (chan mf' ix) \<and> mMemory mf' = mMemory mf"
proof -
  obtain k where n: "n = Suc k" using assms(4) by (cases n) auto
  show ?thesis using output_ticks[of ix mf k 0] assms n by auto
qed

theorem file_output_image_witness:
  "\<exists>mf'. forE [0..<2] (\<lambda>_. FileOutputChannel_tick 0) (sample_mainframe YMP) = (Inr (), mf') \<and>
     chFile (chan mf' 0) = map (\<lambda>_. 0) [0..<(16::nat)]"
proof -
  have "\<exists>mf'. forE [0..<2] (\<lambda>_. FileOutputChannel_tick 0) (sample_mainframe YMP) = (Inr (), mf') \<and>
    chFile (chan mf' 0) = chFile (chan (sample_mainframe YMP) 0) @ map (mMemory (sample_mainframe YMP))
      [8 * unat (mAddress (chan (sample_mainframe YMP) 0))..<8 * unat (mLimit (chan (sample_mainframe YMP) 0))] \<and>
    mInterruptPending (chan mf' 0) \<and> \<not> mActive (chan mf' 0) \<and> mMemory mf' = mMemory (sample_mainframe YMP)"
    by (rule file_output_image) (simp_all add: chan_def sample_mainframe_def sample_channel_def)
  then show ?thesis by (auto simp: chan_def sample_mainframe_def sample_channel_def)
qed

end
