(* ===== verification/Inst_Semaphores.thy ===== *)
theory Inst_Semaphores
  imports Cpu_Contracts
begin

text \<open>
  The semaphores of a cluster, instructions 0003, 0072 and 0073: test and set as
  mutual exclusion between processors that share the mainframe, the count of processors that
  wait, and the semaphores as a register.
\<close>

section \<open>Test and set\<close>

lemma blocked_updates [simp]:
  "own_cluster (PutBlocked b s) = own_cluster s" "mMainframe (PutBlocked b s) = mMainframe s"
  "TestAndSetBlocked (mState (PutBlocked b s)) = b" "Cluster (mState (PutBlocked b s)) = Cluster (mState s)"
  by (simp_all add: PutBlocked_def own_cluster_def upd_state_def)

lemma cluster_updates:
  assumes "GetCluster_ok s"
  shows "own_cluster (upd_cluster f s) = f (own_cluster s)" "mState (upd_cluster f s) = mState s"
    "GetCluster_ok (upd_cluster f s)" "length (mClusters (mMainframe (upd_cluster f s))) = length (mClusters (mMainframe s))"
  using assms by (simp_all add: upd_cluster_def upd_mainframe_def own_cluster_def GetCluster_ok_def)

lemma Inst_TS_free:
  assumes "Cluster (mState s) \<noteq> 0" "GetCluster_ok s" "jk \<le> 31" "\<not> SM (own_cluster s) jk"
  shows "\<exists>t. Inst_TS jk s = (Inr (1, True), t) \<and> SM (own_cluster t) = (SM (own_cluster s))(jk := True) \<and>
    \<not> TestAndSetBlocked (mState t) \<and>
    TestAndSetBlockedCnt (own_cluster t) = TestAndSetBlockedCnt (own_cluster s) - (if TestAndSetBlocked (mState s) then 1 else 0) \<and>
    length (mClusters (mMainframe t)) = length (mClusters (mMainframe s)) \<and> Cluster (mState t) = Cluster (mState s)"
  using assms
  by (auto simp: Inst_TS_def CRAY_ASSERT_def ret_break_def Let_def PutSM_def upd_TestAndSetBlockedCnt_def cluster_updates)

lemma Inst_TS_taken:
  assumes "Cluster (mState s) \<noteq> 0" "GetCluster_ok s" "jk \<le> 31" "SM (own_cluster s) jk"
  shows "\<exists>t. Inst_TS jk s = (Inr (0, True), t) \<and> SM (own_cluster t) = SM (own_cluster s) \<and>
    TestAndSetBlocked (mState t) \<and>
    TestAndSetBlockedCnt (own_cluster t) = TestAndSetBlockedCnt (own_cluster s) + (if TestAndSetBlocked (mState s) then 0 else 1) \<and>
    length (mClusters (mMainframe t)) = length (mClusters (mMainframe s)) \<and> Cluster (mState t) = Cluster (mState s)"
  using assms
  by (auto simp: Inst_TS_def CRAY_ASSERT_def ret_break_def Let_def PutSM_def upd_TestAndSetBlockedCnt_def cluster_updates
     fun_upd_idem)

text \<open>
  Processors take turns on the shared mainframe. A turn runs the instruction on the
  processor's own state with the mainframe as the last turn left it; its outcome is whether
  the processor got the semaphore.
\<close>

definition on_shared :: "mainframe \<Rightarrow> SoftCpu_c \<Rightarrow> SoftCpu_c" where
  "on_shared mf s = s\<lparr>mMainframe := mf\<rparr>"

fun ts_turns :: "nat \<Rightarrow> mainframe \<Rightarrow> SoftCpu_c list \<Rightarrow> bool list" where
  "ts_turns jk mf [] = []"
| "ts_turns jk mf (s # ss) =
     (let (r, t) = Inst_TS jk (on_shared mf s)
      in (r = Inr (1, True)) # ts_turns jk (mMainframe t) ss)"

definition in_cluster :: "uint8 \<Rightarrow> mainframe \<Rightarrow> SoftCpu_c \<Rightarrow> bool" where
  "in_cluster c mf s \<longleftrightarrow> Cluster (mState s) = c \<and> c \<noteq> 0 \<and> unat c \<le> length (mClusters mf)"

lemma in_cluster_shared:
  assumes "in_cluster c mf s"
  shows "GetCluster_ok (on_shared mf s)" "Cluster (mState (on_shared mf s)) \<noteq> 0"
    "own_cluster (on_shared mf s) = mClusters mf ! (unat c - 1)"
  using assms cluster_index[of c "length (mClusters mf)"]
  by (auto simp: in_cluster_def GetCluster_ok_def on_shared_def own_cluster_def)

lemma ts_turns_taken:
  assumes "jk \<le> 31" "\<forall>s\<in>set ss. in_cluster c mf s" "SM (mClusters mf ! (unat c - 1)) jk"
  shows "ts_turns jk mf ss = replicate (length ss) False"
  using assms
proof (induction ss arbitrary: mf)
  case (Cons s ss)
  then have c: "in_cluster c mf s" by simp
  note sh = in_cluster_shared[OF c]
  obtain t where t: "Inst_TS jk (on_shared mf s) = (Inr (0, True), t)"
      "SM (own_cluster t) = SM (own_cluster (on_shared mf s))"
      "length (mClusters (mMainframe t)) = length (mClusters mf)" "Cluster (mState t) = Cluster (mState s)"
    using Inst_TS_taken[OF sh(2,1) Cons.prems(1)] Cons.prems(3) sh(3) by (auto simp: on_shared_def)
  have "ts_turns jk (mMainframe t) ss = replicate (length ss) False"
  proof (rule Cons.IH[OF Cons.prems(1)])
    show "\<forall>s\<in>set ss. in_cluster c (mMainframe t) s"
      using Cons.prems(2) t(3) by (simp add: in_cluster_def)
    show "SM (mClusters (mMainframe t) ! (unat c - 1)) jk"
      using t(2,4) Cons.prems(3) sh(3) c by (simp add: own_cluster_def in_cluster_def)
  qed
  then show ?case by (simp add: t(1))
qed simp

text \<open>C35: test and set is mutual exclusion. Let processors of one cluster execute the instruction on
  the same semaphore in any order, each as often as it likes: if the semaphore is free, exactly
  the first turn gets it, and all others block; if it is taken, all block.\<close>

theorem test_and_set_exclusive:
  assumes "jk \<le> 31" "\<forall>s\<in>set (s # ss). in_cluster c mf s"
  shows "ts_turns jk mf (s # ss) = (\<not> SM (mClusters mf ! (unat c - 1)) jk) # replicate (length ss) False"
proof (cases "SM (mClusters mf ! (unat c - 1)) jk")
  case True
  then show ?thesis using ts_turns_taken[OF assms True] by (simp del: ts_turns.simps)
next
  case False
  have c: "in_cluster c mf s" using assms(2) by simp
  note sh = in_cluster_shared[OF c]
  obtain t where t: "Inst_TS jk (on_shared mf s) = (Inr (1, True), t)"
      "SM (own_cluster t) = (SM (own_cluster (on_shared mf s)))(jk := True)"
      "length (mClusters (mMainframe t)) = length (mClusters mf)" "Cluster (mState t) = Cluster (mState s)"
    using Inst_TS_free[OF sh(2,1) assms(1)] False sh(3) by (auto simp: on_shared_def)
  have "ts_turns jk (mMainframe t) ss = replicate (length ss) False"
  proof (rule ts_turns_taken[OF assms(1)])
    show "\<forall>s\<in>set ss. in_cluster c (mMainframe t) s"
      using assms(2) t(3) by (simp add: in_cluster_def)
    show "SM (mClusters (mMainframe t) ! (unat c - 1)) jk"
      using t(2,4) sh(3) c by (simp add: own_cluster_def in_cluster_def)
  qed
  with False show ?thesis by (simp add: t(1))
qed

theorem test_and_set_exclusive_witness:
  "ts_turns 5 (sample_mainframe YMP) [sample_cpu YMP, sample_cpu YMP, sample_cpu YMP] = [True, False, False]"
  using test_and_set_exclusive[of 5 "sample_cpu YMP" "[sample_cpu YMP, sample_cpu YMP]" 1 "sample_mainframe YMP"]
  by (simp add: in_cluster_def sample_defs)

definition waiting :: "SoftCpu_c \<Rightarrow> uint64" where
  "waiting s = (if TestAndSetBlocked (mState s) then 1 else 0)"

text \<open>The count of blocked processors is exact. Each test and set moves the cluster's counter by
  what it does to the processor: one up when the processor starts to wait, one down when it
  stops waiting, and not at all when it tries again or gets the semaphore at once.\<close>

theorem blocked_count_exact:
  assumes "Cluster (mState s) \<noteq> 0" "GetCluster_ok s" "jk \<le> 31"
  shows "TestAndSetBlockedCnt (own_cluster (snd (Inst_TS jk s))) - waiting (snd (Inst_TS jk s)) =
    TestAndSetBlockedCnt (own_cluster s) - waiting s"
  using Inst_TS_free[OF assms(1-3)] Inst_TS_taken[OF assms(1-3)]
  by (cases "SM (own_cluster s) jk") (auto simp: waiting_def)

theorem blocked_count_exact_witness:
  "TestAndSetBlockedCnt (own_cluster (snd (Inst_TS 5 (sample_cpu YMP)))) -
     waiting (snd (Inst_TS 5 (sample_cpu YMP))) = 0"
  using blocked_count_exact[of "sample_cpu YMP" 5]
  by (simp add: GetCluster_ok_def own_cluster_def waiting_def sample_defs)


section \<open>Semaphores as a register\<close>

lemma bit_ReadSM: "bit (ReadSM sm) n \<longleftrightarrow> 32 \<le> n \<and> n < 64 \<and> sm (63 - n)"
proof -
  let ?f = "\<lambda>i RetVal. push_bit 1 (if sm i then RetVal OR push_bit 31 1 else RetVal) :: uint64"
  let ?I = "\<lambda>k (r :: uint64). \<forall>n. bit r n \<longleftrightarrow> 32 \<le> n \<and> n < 32 + k \<and> sm (k + 31 - n)"
  have "?I 32 (for_loop 0 32 ?f 0)"
  proof (rule for_loop_invariant[where I = ?I])
    fix i and r :: uint64
    assume i: "i < 32" and I: "?I i r"
    show "?I (Suc i) (?f i r)"
    proof
      fix n
      have "bit (?f i r) n \<longleftrightarrow> 0 < n \<and> n < 64 \<and> (bit r (n - 1) \<or> sm i \<and> n = 32)"
        by (auto simp: bit_push_bit_iff bit_or_iff bit_single simp del: push_bit_numeral push_bit_Suc
            push_bit_of_1 dest: bit_imp_less_length split: if_splits) (auto simp: bit_1_iff)
      also have "\<dots> \<longleftrightarrow> 32 \<le> n \<and> n < 32 + Suc i \<and> sm (Suc i + 31 - n)"
        using i I[rule_format, of "n - 1"] by (cases "n = 32") (auto simp: less_Suc_eq)
      finally show "bit (?f i r) n \<longleftrightarrow> 32 \<le> n \<and> n < 32 + Suc i \<and> sm (Suc i + 31 - n)" .
    qed
  qed simp_all
  then show ?thesis by (simp add: ReadSM_def)
qed

lemma StoreSM_result: "StoreSM v sm = (\<lambda>i. if i < 32 then bit v (63 - i) else sm i)"
  unfolding StoreSM_def
  by (subst for_loop_pointwise[where h = "\<lambda>i. bit v (63 - i)"]) auto

text \<open>the semaphore register. Reading the 32 semaphores into an S register puts semaphore 0 into
  the sign bit and leaves the lower half zero; storing a register and reading it back keeps the
  upper half, and storing what was read restores every semaphore.\<close>

theorem semaphore_register_roundtrip:
  "ReadSM (StoreSM v sm) = v AND push_bit 32 (mask 32) \<and>
   (\<forall>i. StoreSM (ReadSM sm) sm' i = (if i < 32 then sm i else sm' i))"
proof -
  have "ReadSM (StoreSM v sm) = v AND push_bit 32 (mask 32)"
    by (intro word_eq_by_bits) (auto simp: bit_ReadSM StoreSM_result bit_and_iff bit_push_bit_iff bit_mask_iff)
  then show ?thesis by (auto simp: StoreSM_result bit_ReadSM)
qed

end
