(* ===== verification/Inst_Vector.thy ===== *)
theory Inst_Vector
  imports Cpu_Contracts
begin

text \<open>
  The vector instructions 0140 to 0177: the integer product of the later machines against the
  product of two numbers, the element-wise instructions against their operations, and the
  merge under the vector mask.
\<close>

section \<open>The integer product\<close>

lemma sint_neg_bit: "sint (x :: uint64) < 0 \<longleftrightarrow> bit x 63"
  using bit_last_iff[of x] by simp

lemma take_bit_Suc_word:
  "n < LENGTH('a) \<Longrightarrow> take_bit (Suc n) (b :: 'a::len word) = take_bit n b + (if bit b n then push_bit n 1 else 0)"
proof -
  assume n: "n < LENGTH('a)"
  have "take_bit (Suc n) b = take_bit n b OR (if bit b n then push_bit n 1 else 0)"
    using n by (intro word_eq_by_bits) (auto simp: bit_simps less_Suc_eq)
  also have "\<dots> = take_bit n b + (if bit b n then push_bit n 1 else 0)"
    by (rule disjunctive_add[symmetric]) (auto simp: bit_simps)
  finally show ?thesis .
qed

text \<open>
  The first loop reads the multiplier from its top bit, which the code has placed at bit 62,
  and halves the multiplicand in each turn: \<open>n\<close> bits before the end, the multiplicand is
  \<open>n + 6\<close> places to the left.
\<close>

lemma IntMult_loop1_product:
  fixes A B :: uint64
  assumes "n \<le> 32" "take_bit 17 A = A"
  shows "IntMult_loop1 (push_bit (n + 6) A) (push_bit (63 - n) B) S5 = S5 + push_bit 7 (A * take_bit n B)"
  using assms(1)
proof (induction n arbitrary: S5)
  case 0
  show ?case by (subst IntMult_loop1.simps) (simp add: Let_def)
next
  case (Suc n)
  have high: "bit A k \<Longrightarrow> k < 17" for k using assms(2) by (metis bit_take_bit_iff)
  have S0: "push_bit 1 (push_bit (63 - Suc n) B) = push_bit (63 - n) B"
  proof -
    have "1 + (63 - Suc n) = 63 - n" using Suc.prems by simp
    then show ?thesis by (simp only: push_bit_push_bit)
  qed
  have sign: "sint (push_bit (63 - n) B) < 0 \<longleftrightarrow> bit B n"
    using Suc.prems by (simp add: sint_neg_bit bit_push_bit_iff)
  have S3: "drop_bit 1 (push_bit (Suc n + 6) A) = push_bit (n + 6) A"
    using Suc.prems
    by (intro word_eq_by_bits) (auto simp: bit_drop_bit_eq bit_push_bit_iff add.commute dest: high simp del: push_bit_Suc)
  have part: "push_bit (Suc n + 6) A = push_bit 7 (A * push_bit n 1)"
    by (simp add: push_bit_eq_mult power_add)
  have sum: "A * take_bit (Suc n) B = A * take_bit n B + (if bit B n then A * push_bit n 1 else 0)"
    using Suc.prems by (simp add: take_bit_Suc_word distrib_left)
  have zero: "take_bit (Suc n) B = 0" if z: "push_bit (63 - n) B = 0"
  proof (rule word_eq_by_bits)
    fix i :: nat
    have "\<not> bit (push_bit (63 - n) B) (63 - n + i)" unfolding z by simp
    then show "bit (take_bit (Suc n) B) i = bit (0 :: uint64) i"
      using Suc.prems by (auto simp: bit_take_bit_iff bit_push_bit_iff)
  qed
  have "IntMult_loop1 (push_bit (Suc n + 6) A) (push_bit (63 - Suc n) B) S5 =
      (let S5 = (if bit B n then S5 + push_bit (Suc n + 6) A else S5)
       in if push_bit (63 - n) B \<noteq> 0 then IntMult_loop1 (push_bit (n + 6) A) (push_bit (63 - n) B) S5 else S5)"
    by (subst IntMult_loop1.simps) (simp only: Let_def S0 sign S3)
  also have "\<dots> = S5 + push_bit 7 (A * take_bit (Suc n) B)"
  proof (cases "push_bit (63 - n) B = 0")
    case True
    then have "\<not> bit B n" using zero[OF True] by (metis bit_take_bit_iff lessI bit_0_eq bot_apply bot_bool_def)
    then show ?thesis using True zero[OF True] by simp
  next
    case False
    then show ?thesis
      using Suc.IH Suc.prems unfolding sum part Let_def
      by (simp add: push_bit_add algebra_simps del: push_bit_numeral)
  qed
  finally show ?case .
qed

lemma IntMult_loop2_product: "IntMult_loop2 A B = A * take_bit 15 B"
proof -
  let ?f = "\<lambda>n :: nat. \<lambda>(S3 :: uint64, S4 :: uint64, S6 :: uint64).
        let S0 = push_bit 63 S4; S4 = drop_bit 1 S4
        in (push_bit 1 S3, S4, if sint S0 < 0 then S6 + S3 else S6)"
  let ?I = "\<lambda>k s. s = (push_bit k A, drop_bit k B, A * take_bit k B)"
  have "?I 15 (for_loop 0 15 ?f (A, B, 0))"
  proof (rule for_loop_invariant[where I = ?I])
    fix i s
    assume i: "i < (15 :: nat)" and I: "?I i s"
    have sign: "sint (push_bit 63 (drop_bit i B)) < 0 \<longleftrightarrow> bit B i"
      by (simp add: sint_neg_bit bit_push_bit_iff bit_drop_bit_eq)
    have "A * take_bit (Suc i) B = A * take_bit i B + (if bit B i then push_bit i A else 0)"
      using i by (simp add: take_bit_Suc_word distrib_left push_bit_eq_mult)
    moreover have "push_bit 1 (push_bit i A) = push_bit (Suc i) A" "drop_bit 1 (drop_bit i B) = drop_bit (Suc i) B"
      by (simp_all only: push_bit_push_bit drop_bit_drop_bit plus_1_eq_Suc add.commute)
    ultimately show "?I (Suc i) (?f i s)" by (simp only: I case_prod_conv Let_def sign) simp
  qed simp_all
  then show ?thesis by (simp only: IntMult_loop2_def snd_conv)
qed


text \<open>The integer product of the later machines. With the operands shifted as the instruction
  documents, 31 places for the scalar and 16 for the vector element, the two loops compute the
  low 32 bits of the product of two 32-bit integers.\<close>

theorem IntMult_correct:
  fixes a b :: uint64
  assumes "take_bit 32 a = a" "take_bit 32 b = b"
  shows "IntMult (push_bit 31 a) (push_bit 16 b) = take_bit 32 (a * b)"
proof -
  define lo where "lo = take_bit 17 a"
  define hi where "hi = drop_bit 17 a"
  have bits: "bit a n \<Longrightarrow> n < 32" "bit b n \<Longrightarrow> n < 32" for n
    using assms by (metis bit_take_bit_iff)+
  have A: "push_bit 7 (push_bit 31 a AND (push_bit 48 1 - 1)) = push_bit (32 + 6) lo"
    unfolding mask_shift lo_def
    by (intro word_eq_by_bits) (auto simp: bit_simps dest: bits)
  have B: "push_bit 15 (push_bit 16 b AND (push_bit 48 1 - 1)) = push_bit (63 - 32) b"
    unfolding mask_shift
    by (intro word_eq_by_bits) (auto simp: bit_simps dest: bits)
  have hi: "drop_bit 48 (push_bit 31 a) AND (push_bit 15 1 - 1) = hi"
    unfolding mask_shift hi_def
    by (intro word_eq_by_bits) (auto simp: bit_simps dest: bits)
  have blo: "drop_bit 16 (push_bit 16 b) AND (push_bit 15 1 - 1) = take_bit 15 b"
    unfolding mask_shift
    by (intro word_eq_by_bits) (auto simp: bit_simps dest: bits)
  have one: "drop_bit 7 (9 + push_bit 7 (lo * take_bit 32 b)) = lo * b"
  proof -
    have "unat lo < 2 ^ 17" "unat b < 2 ^ 32"
      using assms(2) by (metis lo_def take_bit_nat_less_exp unsigned_take_bit_eq)+
    then have "unat lo * unat b < 2 ^ 17 * 2 ^ 32" by (intro mult_strict_mono) simp_all
    then have "unat (lo * b) < 2 ^ 49" by (simp add: unat_word_ariths)
    then have "take_bit 49 (lo * b) = lo * b"
      by (simp add: word_unat_eq_iff unsigned_take_bit_eq take_bit_nat_eq_self)
    then have x: "bit (lo * b) n \<Longrightarrow> n < 49" for n by (metis bit_take_bit_iff)
    have nine: "\<not> bit (9 :: uint64) n" if "7 \<le> n" for n
    proof -
      have "(9 :: uint64) = take_bit 7 9" by simp
      then show ?thesis using that by (metis bit_take_bit_iff not_le)
    qed
    have "9 + push_bit 7 (lo * b) = 9 OR push_bit 7 (lo * b)"
    proof (rule disjunctive_add)
      fix n
      show "\<not> bit (9 :: uint64) n \<or> \<not> bit (push_bit 7 (lo * b)) n"
        using nine[of n] by (cases "7 \<le> n") (auto simp only: bit_push_bit_iff not_le)
    qed
    moreover have "drop_bit 7 (9 OR push_bit 7 (lo * b)) = lo * b"
      by (intro word_eq_by_bits) (auto simp: bit_drop_bit_eq bit_or_iff bit_push_bit_iff nine dest: x)
    ultimately show ?thesis using assms(2) by simp
  qed
  have a: "a = lo + push_bit 17 hi"
    unfolding lo_def hi_def
    by (subst disjunctive_add) (auto intro!: word_eq_by_bits simp: bit_simps)
  have b: "b = take_bit 15 b + push_bit 15 (drop_bit 15 b)"
    by (subst disjunctive_add) (auto intro!: word_eq_by_bits simp: bit_simps)
  have "IntMult (push_bit 31 a) (push_bit 16 b) =
      (drop_bit 7 (9 + push_bit 7 (lo * take_bit 32 b)) + push_bit 17 (hi * take_bit 15 (take_bit 15 b)))
        AND (push_bit 32 1 - 1)"
    unfolding IntMult_def Let_def A B hi blo IntMult_loop2_product
    by (subst IntMult_loop1_product) (simp_all add: lo_def)
  also have "\<dots> = take_bit 32 (lo * b + push_bit 17 (hi * take_bit 15 b))"
    unfolding one mask_shift by (simp add: take_bit_eq_mask)
  also have "\<dots> = take_bit 32 (a * b)"
  proof -
    have "a * b = lo * b + push_bit 17 hi * (take_bit 15 b + push_bit 15 (drop_bit 15 b))"
      by (metis a b distrib_right)
    also have "\<dots> = lo * b + push_bit 17 (hi * take_bit 15 b) + push_bit 32 (hi * drop_bit 15 b)"
      by (simp add: push_bit_eq_mult algebra_simps)
    finally have "a * b = lo * b + push_bit 17 (hi * take_bit 15 b) + push_bit 32 (hi * drop_bit 15 b)" .
    moreover have "take_bit 32 (x + push_bit 32 y) = take_bit 32 x" for x y :: uint64
    proof -
      have t: "take_bit 32 w = ucast (ucast w :: uint32)" for w :: uint64
        by (intro word_eq_by_bits) (auto simp: bit_simps)
      have "(ucast (push_bit 32 y) :: uint32) = 0" by (intro word_eq_by_bits) (auto simp: bit_simps)
      then show ?thesis unfolding t by (simp add: ucast_down_arith)
    qed
    ultimately show ?thesis by (simp only:)
  qed
  finally show ?thesis .
qed


theorem IntMult_correct_witness:
  "IntMult (push_bit 31 0x12345678) (push_bit 16 0x9abcdef0) = take_bit 32 (0x12345678 * 0x9abcdef0)"
  by (rule IntMult_correct) simp_all

section \<open>Element-wise vector instructions\<close>

text \<open>The register file after an element-wise operation: the elements below the vector length change.\<close>

definition vector_result :: "nat \<Rightarrow> (nat \<Rightarrow> CInt_t) \<Rightarrow> SoftCpu_c \<Rightarrow> SoftCpu_c" where
  "vector_result i h s = upd_state (\<lambda>c. c\<lparr>stV := (stV c)(i := (\<lambda>n. if n < VLen s then h n else stV c i n)),
     VectorNotUsed := False\<rparr>) s"

lemma vector_loop_result:
  assumes "\<And>n V. n < VLen s \<Longrightarrow> (\<And>r m. r \<noteq> i \<or> n \<le> m \<Longrightarrow> V r m = stV (mState s) r m) \<Longrightarrow>
      f n (upd_state (stV_update (\<lambda>_. V)) s) = h n"
  shows "vector_inst i f s = (if VLen s \<le> cVecSize then ret 1 (vector_result i h s) else (Inl AssertError, s))"
proof -
  let ?u = "\<lambda>k. upd_state (stV_update (\<lambda>_. (stV (mState s))(i := (\<lambda>n. if n < k then h n else stV (mState s) i n)))) s"
  have "vector_loop i f s = ?u (VLen s)"
    unfolding vector_loop_def
  proof (rule for_loop_invariant[where I = "\<lambda>k u. u = ?u k"])
    fix n u
    assume n: "n < VLen s" and u: "u = ?u n"
    have "f n u = h n" unfolding u using n by (intro assms) auto
    then show "PutV i n (f n u) u = ?u (Suc n)"
      unfolding u by (auto simp: PutV_def upd_state_def fun_eq_iff less_Suc_eq)
  qed (simp_all add: upd_state_def)
  then show ?thesis
    by (auto simp: vector_inst_def CRAY_ASSERT_def VectorUsed_def upd_state_def vector_result_def)
qed

lemma vector_vector:
  "vector_inst i (\<lambda>n s. f (RefV j n s) (RefV k n s)) s =
     (if VLen s \<le> cVecSize then ret 1 (vector_result i (\<lambda>n. f (RefV j n s) (RefV k n s)) s) else (Inl AssertError, s))"
  by (rule vector_loop_result) (simp add: RefV_def upd_state_def)

lemma scalar_vector:
  "vector_inst i (\<lambda>n s. f (RefSj j s) (RefV k n s)) s =
     (if VLen s \<le> cVecSize then ret 1 (vector_result i (\<lambda>n. f (RefSj j s) (RefV k n s)) s) else (Inl AssertError, s))"
  by (rule vector_loop_result) (simp add: RefV_def RefSj_def upd_state_def)

text \<open>The operation of each opcode, octal 0141, 0143 and so on, and 0140, 0142 and so on.\<close>

definition vv_operations :: "(nat \<times> (CInt_t \<Rightarrow> CInt_t \<Rightarrow> CInt_t)) list" where
  "vv_operations = [(97, (AND)), (99, (OR)), (101, (XOR)), (109, (+)), (111, (-)), (113, float_mult),
     (115, float_mult), (117, RoundedMult), (119, ReciprocIterate), (121, float_add), (123, float_sub)]"

definition sv_operations :: "(nat \<times> (CInt_t \<Rightarrow> CInt_t \<Rightarrow> CInt_t)) list" where
  "sv_operations = [(96, (AND)), (98, (OR)), (100, (XOR)), (108, (+)), (110, (-)), (112, float_mult),
     (114, float_mult), (116, RoundedMult), (120, float_add), (122, float_sub)]"

text \<open>C34: element-wise vector instructions. Each of the eleven vector-vector and ten scalar-vector
  instructions applies its operation to the elements below the vector length and leaves the
  rest of the result register and all other registers alone. The operands are read as they
  were before the instruction, also where the result register is one of them. The operation of
  0162 and 0163 is the product of full precision, the same as that of 0160 and 0161: that is
  what the code computes, although its comments and disassembly and
  \<^verbatim>\<open>notes/floating_point_notes.txt\<close> call the two a product of half precision.\<close>

theorem vector_instructions:
  assumes "VLen s \<le> cVecSize"
  shows "(\<forall>(op, f) \<in> set vv_operations. FieldGH w = op \<longrightarrow>
      Decode w s = ret 1 (vector_result (FieldI w) (\<lambda>n. f (RefV (FieldJ w) n s) (RefV (FieldK w) n s)) s)) \<and>
    (\<forall>(op, f) \<in> set sv_operations. FieldGH w = op \<longrightarrow>
      Decode w s = ret 1 (vector_result (FieldI w) (\<lambda>n. f (RefSj (FieldJ w) s) (RefV (FieldK w) n s)) s))"
  using assms
  by (auto simp: vv_operations_def sv_operations_def Decode_def mInstImplementations_def CRAY_ASSERT_def Let_def
      vector_vector scalar_vector Decode0140_def Decode0141_def Decode0142_def Decode0143_def Decode0144_def
      Decode0145_def Decode0154_def Decode0155_def Decode0156_def Decode0157_def Decode0160_def Decode0161_def
      Decode0162_def Decode0163_def Decode0164_def Decode0165_def Decode0167_def Decode0170_def Decode0171_def
      Decode0172_def Decode0173_def)


theorem vector_instructions_witness:
  "FieldGH 0xc20000000000 = 97 \<and> Decode 0xc20000000000 (sample_cpu YMP) =
     ret 1 (vector_result 0 (\<lambda>n. RefV 0 n (sample_cpu YMP) AND RefV 0 n (sample_cpu YMP)) (sample_cpu YMP))"
proof -
  have v: "VLen (sample_cpu YMP) \<le> cVecSize" by (simp add: VLen_def cVecSize_def sample_defs)
  have f: "FieldGH 0xc20000000000 = 97" "FieldI 0xc20000000000 = 0" "FieldJ 0xc20000000000 = 0" "FieldK 0xc20000000000 = 0"
    by (simp_all add: FieldGH_def FieldI_def FieldJ_def FieldK_def FirstParcel_def)
  have m: "(97, (AND)) \<in> set vv_operations" by (simp add: vv_operations_def)
  show ?thesis
    using vector_instructions[OF v, of "0xc20000000000", THEN conjunct1, rule_format, OF m] f by simp
qed

lemma ElementMask_bit: "n < 64 \<Longrightarrow> v AND ElementMask n \<noteq> 0 \<longleftrightarrow> bit v (63 - n)"
proof -
  assume n: "n < 64"
  have top: "0x8000000000000000 = (push_bit 63 1 :: uint64)" by (simp add: push_bit_eq_mult)
  have "ElementMask n = push_bit (63 - n) 1"
    unfolding ElementMask_def top
    by (rule word_eq_by_bits, simp only: bit_drop_bit_eq o_apply bit_single) (use n in auto)
  then show ?thesis using n by (simp only: and_single_bit_eq_0) simp
qed

text \<open>vector merge. Element \<open>n\<close> of the result is taken from the first operand, a vector register
  or a scalar, where bit \<open>63 - n\<close> of the vector mask is set, and from the second otherwise.\<close>

theorem vector_merge:
  assumes "VLen s \<le> cVecSize"
  shows "(FieldGH w = 103 \<longrightarrow> Decode w s = ret 1 (vector_result (FieldI w)
      (\<lambda>n. if bit (VM (mState s)) (63 - n) then RefV (FieldJ w) n s else RefV (FieldK w) n s) s)) \<and>
    (FieldGH w = 102 \<longrightarrow> Decode w s = ret 1 (vector_result (FieldI w)
      (\<lambda>n. if bit (VM (mState s)) (63 - n) then RefSj (FieldJ w) s else RefV (FieldK w) n s) s))"
proof -
  have n: "n < 64" if "n < VLen s" for n using that assms by (simp add: cVecSize_def)
  have vv: "vector_inst i (\<lambda>n s. if VM (mState s) AND ElementMask n \<noteq> 0 then RefV j n s else RefV k n s) s =
      ret 1 (vector_result i (\<lambda>n. if bit (VM (mState s)) (63 - n) then RefV j n s else RefV k n s) s)" for i j k
    using assms by (subst vector_loop_result) (auto simp: RefV_def upd_state_def ElementMask_bit n)
  have sv: "vector_inst i (\<lambda>n s. if VM (mState s) AND ElementMask n \<noteq> 0 then RefSj j s else RefV k n s) s =
      ret 1 (vector_result i (\<lambda>n. if bit (VM (mState s)) (63 - n) then RefSj j s else RefV k n s) s)" for i j k
    using assms by (subst vector_loop_result) (auto simp: RefV_def RefSj_def upd_state_def ElementMask_bit n)
  have d: "FieldGH w = 103 \<Longrightarrow> Decode w s = Decode0147 w s" "FieldGH w = 102 \<Longrightarrow> Decode w s = Decode0146 w s"
    by (simp_all add: Decode_def mInstImplementations_def CRAY_ASSERT_def)
  have "FieldGH w = 103 \<Longrightarrow> ?thesis"
    by (simp only: d Decode0147_def CRAY_ASSERT_def Let_def vv if_True) simp
  moreover have "FieldGH w = 102 \<Longrightarrow> ?thesis"
    by (simp only: d Decode0146_def CRAY_ASSERT_def Let_def sv if_True) simp
  ultimately show ?thesis by blast
qed

theorem vector_merge_witness:
  "FieldGH 0xce0000000000 = 103 \<and> Decode 0xce0000000000 (sample_cpu YMP) =
     ret 1 (vector_result 0 (\<lambda>n. if bit (VM (mState (sample_cpu YMP))) (63 - n) then RefV 0 n (sample_cpu YMP)
       else RefV 0 n (sample_cpu YMP)) (sample_cpu YMP))"
proof -
  have v: "VLen (sample_cpu YMP) \<le> cVecSize" by (simp add: VLen_def cVecSize_def sample_defs)
  have f: "FieldGH 0xce0000000000 = 103" "FieldI 0xce0000000000 = 0" "FieldJ 0xce0000000000 = 0" "FieldK 0xce0000000000 = 0"
    by (simp_all add: FieldGH_def FieldI_def FieldJ_def FieldK_def FirstParcel_def)
  show ?thesis using vector_merge[OF v, of "0xce0000000000"] f by (simp only: simp_thms)
qed

end
