(* ===== verification/Data_Memory.thy ===== *)
theory Data_Memory
  imports Cpu_Contracts
begin

text \<open>
  Data memory as the instructions see it: loads and stores through the base and limit
  addresses, and the block transfers between memory and the T registers, 0036 and 0037. The
  properties rest on the cells of the mainframe's memory, the interpretation \<open>mem\<close>.
\<close>

section \<open>Data memory\<close>

text \<open>What an access depends on.\<close>

definition same_mapping :: "SoftCpu_c \<Rightarrow> SoftCpu_c \<Rightarrow> bool" where
  "same_mapping s t \<longleftrightarrow>
     DataBaseAddr (mState t) = DataBaseAddr (mState s) \<and> DataLimitAddr (mState t) = DataLimitAddr (mState s) \<and>
     Mode (mState t) = Mode (mState s) \<and> mMemorySize (mMainframe t) = mMemorySize (mMainframe s)"

lemma same_mapping_address: "same_mapping s t \<Longrightarrow> DataAddress a t = DataAddress a s"
  by (simp add: same_mapping_def DataAddress_def mMemSizeInWords_def)

definition in_limits :: "CAddr_t \<Rightarrow> SoftCpu_c \<Rightarrow> bool" where
  "in_limits a s \<longleftrightarrow> DataAddress a s < DataLimitAddr (mState s)"

lemma DataAddress_in_memory:
  assumes "0 < mMemSizeInWords (mMainframe s)"
  shows "unat (DataAddress a s) < mMemSizeInWords (mMainframe s)"
  using assms unat_of_nat_le[of "unat (a + DataBaseAddr (mState s)) mod mMemSizeInWords (mMainframe s)", where ?'a = 32]
  by (simp add: DataAddress_def) (meson le_less_trans mod_less_divisor)

lemma write_in_limits:
  assumes "0 < mMemSizeInWords (mMainframe s)" "in_limits a s"
  shows "WriteDataMem a v s = (Inr (), upd_mainframe (MemWrite (DataAddress a s) (SwapBytes64 v)) s)"
  using assms DataAddress_in_memory[OF assms(1), of a]
  by (simp add: WriteDataMem_def Let_def in_limits_def not_le)

lemma read_in_limits:
  assumes "0 < mMemSizeInWords (mMainframe s)" "in_limits a s"
  shows "ReadDataMem a s = Inr (SwapBytes64 (MemRead (DataAddress a s) (mMainframe s)))"
proof -
  have "\<not> DataLimitAddr (mState s) \<le> DataAddress a s" using assms(2) by (simp add: in_limits_def)
  then show ?thesis using DataAddress_in_memory[OF assms(1), of a] by (simp add: ReadDataMem_def Let_def)
qed

lemma write_mapping: "same_mapping s (upd_mainframe (MemWrite p v) s)"
  by (simp add: same_mapping_def upd_mainframe_def MemWrite_def)

lemma read_depends:
  assumes "same_mapping s t" "MemRead (DataAddress b s) (mMainframe t) = MemRead (DataAddress b s) (mMainframe s)"
  shows "ReadDataMem b t = ReadDataMem b s"
proof -
  have "DataLimitAddr (mState t) = DataLimitAddr (mState s)" "Mode (mState t) = Mode (mState s)"
      "mMemSizeInWords (mMainframe t) = mMemSizeInWords (mMainframe s)"
    using assms(1) by (simp_all add: same_mapping_def mMemSizeInWords_def)
  then show ?thesis unfolding ReadDataMem_def same_mapping_address[OF assms(1)] by (simp only: Let_def assms(2))
qed

lemma read_same_word:
  assumes "same_mapping s t" "unat (b + DataBaseAddr (mState s)) mod mMemSizeInWords (mMainframe s) =
    unat (a + DataBaseAddr (mState s)) mod mMemSizeInWords (mMainframe s)"
  shows "ReadDataMem b t = ReadDataMem a t"
proof -
  have "DataAddress b s = DataAddress a s" unfolding DataAddress_def assms(2) ..
  then show ?thesis by (simp only: ReadDataMem_def same_mapping_address[OF assms(1)])
qed

lemma store_then_load:
  assumes size: "0 < mMemSizeInWords (mMainframe s)" "mMemSizeInWords (mMainframe s) \<le> 2 ^ 29"
    and store: "WriteDataMem a v s = (Inr (), t)"
  shows "ReadDataMem a t = Inr (if in_limits a s then v else 0) \<and>
    (\<forall>b. DataAddress b s \<noteq> DataAddress a s \<longrightarrow> ReadDataMem b t = ReadDataMem b s)"
proof (cases "in_limits a s")
  case True
  have ok: "unat (DataAddress b s) < 2 ^ 29" for b
    using DataAddress_in_memory[OF size(1), of b] size(2) by simp
  have t: "t = upd_mainframe (MemWrite (DataAddress a s) (SwapBytes64 v)) s"
    using store write_in_limits[OF size(1) True] by simp
  have m: "same_mapping s t" unfolding t by (rule write_mapping)
  have "ReadDataMem b t = ReadDataMem b s" if "DataAddress b s \<noteq> DataAddress a s" for b
    using that mem.rd_other[OF ok[of a] ok[of b]]
    by (intro read_depends[OF m]) (simp add: t upd_mainframe_def)
  moreover have "ReadDataMem a t = Inr v"
  proof -
    have "0 < mMemSizeInWords (mMainframe t)" "in_limits a t"
      using size(1) True m by (simp_all add: same_mapping_def mMemSizeInWords_def in_limits_def same_mapping_address[OF m])
    then have "ReadDataMem a t = Inr (SwapBytes64 (MemRead (DataAddress a s) (mMainframe t)))"
      using read_in_limits[of t a] same_mapping_address[OF m, of a] by simp
    also have "mMainframe t = MemWrite (DataAddress a s) (SwapBytes64 v) (mMainframe s)"
      by (simp add: t upd_mainframe_def)
    finally show ?thesis by (simp add: mem.rd_same[OF ok])
  qed
  ultimately show ?thesis using True by simp
next
  case False
  then have "t = s \<and> \<not> mOperandRangeErrorMode (Mode (mState s))"
    using store by (auto simp: WriteDataMem_def Let_def in_limits_def not_less split: if_splits)
  moreover have "DataLimitAddr (mState s) \<le> DataAddress a s" using False by (simp add: in_limits_def not_less)
  ultimately show ?thesis using False by (auto simp: ReadDataMem_def Let_def)
qed

lemma store_mapping:
  assumes "0 < mMemSizeInWords (mMainframe s)" "WriteDataMem a v s = (Inr (), t)"
  shows "same_mapping s t"
proof (cases "in_limits a s")
  case True
  then show ?thesis using write_in_limits[OF assms(1) True] assms(2) by (auto intro: write_mapping)
next
  case False
  then have "t = s"
    using assms(2) by (auto simp: WriteDataMem_def Let_def in_limits_def not_less split: if_splits)
  then show ?thesis by (simp add: same_mapping_def)
qed

text \<open>C31: data memory behaves like memory. After a store that does not throw, a load of the same
  address returns the value, or zero where the address lies beyond the limit and the store was
  dropped; a load from any address that maps to another word returns what it did before, and
  throws where it did before. All addresses whose 32-bit sum with the base is the same modulo
  the memory size are one word: a load of any of them gives what a load of the stored address
  gives. The memory has between 1 and 2^29 words.\<close>

theorem load_after_store:
  assumes size: "0 < mMemSizeInWords (mMainframe s)" "mMemSizeInWords (mMainframe s) \<le> 2 ^ 29"
    and store: "WriteDataMem a v s = (Inr (), t)"
  shows "ReadDataMem a t = Inr (if in_limits a s then v else 0) \<and>
    (\<forall>b. DataAddress b s \<noteq> DataAddress a s \<longrightarrow> ReadDataMem b t = ReadDataMem b s) \<and>
    (\<forall>b. unat (b + DataBaseAddr (mState s)) mod mMemSizeInWords (mMainframe s) =
         unat (a + DataBaseAddr (mState s)) mod mMemSizeInWords (mMainframe s) \<longrightarrow> ReadDataMem b t = ReadDataMem a t)"
  using store_then_load[OF assms] read_same_word[OF store_mapping[OF size(1) store]] by blast

theorem load_after_store_witness:
  "ReadDataMem 5 (snd (WriteDataMem 5 0x1122334455667788 (sample_cpu YMP))) = Inr 0x1122334455667788"
proof -
  let ?s = "sample_cpu YMP"
  have s: "mMemSizeInWords (mMainframe ?s) = 1024" "in_limits 5 ?s"
    by (simp_all add: mMemSizeInWords_def in_limits_def DataAddress_def sample_defs)
  have w: "WriteDataMem 5 0x1122334455667788 ?s = (Inr (), snd (WriteDataMem 5 0x1122334455667788 ?s))"
    using write_in_limits[of ?s 5] s by simp
  show ?thesis using load_after_store[OF _ _ w] s by simp
qed

section \<open>Block transfers\<close>

text \<open>
  The data addresses of a block, without wrap-around, all within the limit.
\<close>

definition block_fits :: "CAddr_t \<Rightarrow> nat \<Rightarrow> SoftCpu_c \<Rightarrow> bool" where
  "block_fits a n s \<longleftrightarrow>
     unat (a + DataBaseAddr (mState s)) + n \<le> min (unat (DataLimitAddr (mState s))) (mMemSizeInWords (mMainframe s)) \<and>
     mMemSizeInWords (mMainframe s) \<le> 2 ^ 29"

lemma block_address:
  assumes "block_fits a n s" "i < n"
  shows "DataAddress (a + of_nat i) s = a + DataBaseAddr (mState s) + of_nat i"
    "unat (DataAddress (a + of_nat i) s) = unat (a + DataBaseAddr (mState s)) + i"
    "in_limits (a + of_nat i) s" "0 < mMemSizeInWords (mMainframe s)"
proof -
  let ?b = "a + DataBaseAddr (mState s)"
  have lt: "unat ?b + i < unat (DataLimitAddr (mState s))" "unat ?b + i < mMemSizeInWords (mMainframe s)"
      "mMemSizeInWords (mMainframe s) \<le> 2 ^ 29"
    using assms by (simp_all add: block_fits_def)
  have "unat (of_nat i :: CAddr_t) = i" using lt by (simp add: unat_of_nat)
  moreover from this have "unat (?b + of_nat i) = unat ?b + i"
    using lt by (subst unat_add_lem[THEN iffD1]) simp_all
  ultimately have u: "unat (a + of_nat i + DataBaseAddr (mState s)) = unat ?b + i" by (simp add: algebra_simps)
  show d: "DataAddress (a + of_nat i) s = ?b + of_nat i"
  proof -
    have "DataAddress (a + of_nat i) s = of_nat (unat (a + of_nat i + DataBaseAddr (mState s)))"
      unfolding DataAddress_def u using lt by simp
    then show ?thesis by (simp add: algebra_simps)
  qed
  show "unat (DataAddress (a + of_nat i) s) = unat ?b + i" using u by (simp add: d algebra_simps)
  then show "in_limits (a + of_nat i) s" using lt by (simp add: in_limits_def word_less_nat_alt)
  show "0 < mMemSizeInWords (mMainframe s)" using lt by simp
qed


text \<open>Storing a block is a loop over the memory, and loading one a loop over the registers.\<close>

lemma store_block:
  assumes fits: "block_fits a n s"
    and args: "\<And>f. addr (upd_mainframe f s) = a" "\<And>f i. val i (upd_mainframe f s) = v i"
  shows "forE [0..<n] (\<lambda>i s. WriteDataMem (addr s + of_nat i) (val i s) s) s =
    (Inr (), upd_mainframe (for_loop 0 n (\<lambda>i. MemWrite (DataAddress (a + of_nat i) s) (SwapBytes64 (v i)))) s)"
proof -
  let ?w = "\<lambda>i. MemWrite (DataAddress (a + of_nat i) s) (SwapBytes64 (v i))"
  let ?P = "\<lambda>u. same_mapping s u \<and> (\<exists>m. u = upd_mainframe (\<lambda>_. m) s)"
  have step: "WriteDataMem (addr u + of_nat i) (val i u) u = (Inr (), upd_mainframe (?w i) u) \<and> ?P (upd_mainframe (?w i) u)"
    if i: "i < n" and P: "?P u" for i u
  proof -
    obtain m where u: "u = upd_mainframe (\<lambda>_. m) s" using P by blast
    have au: "addr u = a" "val i u = v i" unfolding u by (rule args)+
    have map: "same_mapping s u" using P by simp
    have "in_limits (a + of_nat i) u" "0 < mMemSizeInWords (mMainframe u)"
      using block_address(3,4)[OF fits i] map
      by (simp_all add: in_limits_def same_mapping_address[OF map] same_mapping_def mMemSizeInWords_def)
    then have "WriteDataMem (addr u + of_nat i) (val i u) u = (Inr (), upd_mainframe (?w i) u)"
      by (simp add: write_in_limits au same_mapping_address[OF map])
    moreover have "same_mapping s (upd_mainframe (?w i) u)"
      using map by (simp add: same_mapping_def upd_mainframe_def MemWrite_def)
    moreover have "upd_mainframe (?w i) u = upd_mainframe (\<lambda>_. ?w i m) s" by (simp add: u upd_mainframe_def)
    ultimately show ?thesis by blast
  qed
  have start: "?P s" by (auto simp: same_mapping_def upd_mainframe_def intro: exI[of _ "mMainframe s"])
  have "forE [0..<n] (\<lambda>i s. WriteDataMem (addr s + of_nat i) (val i s) s) s =
      (Inr (), for_loop 0 n (\<lambda>i. upd_mainframe (?w i)) s)"
  proof (rule forE_for_loop(1)[where P = ?P])
    show "WriteDataMem (addr u + of_nat i) (val i u) u = (Inr (), upd_mainframe (?w i) u) \<and> ?P (upd_mainframe (?w i) u)"
      if "i < n" "?P u" for i u using that by (rule step)
  qed (rule start, simp)
  moreover have "for_loop 0 k (\<lambda>i. upd_mainframe (?w i)) s = upd_mainframe (for_loop 0 k ?w) s" for k
    by (induction k) (simp_all add: for_loop_Suc upd_mainframe_def)
  ultimately show ?thesis by simp
qed

lemma store_T_block_core:
  assumes "FieldGH w = 31" "n = TransferSize (FieldI w) s" "a = RefA 0 s" "block_fits a n s"
  shows "\<exists>t. Decode w s = (Inr (1, False), t) \<and> t = s\<lparr>mMainframe := mMainframe t\<rparr> \<and>
    (\<forall>i<n. ReadDataMem (a + of_nat i) t = Inr (RefT ((FieldJK w + i) mod 64) s)) \<and>
    (\<forall>b. (\<forall>i<n. DataAddress b s \<noteq> DataAddress (a + of_nat i) s) \<longrightarrow> ReadDataMem b t = ReadDataMem b s)"
proof -
  let ?v = "\<lambda>i. RefT ((FieldJK w + i) mod 64) s" and ?p = "\<lambda>i. DataAddress (a + of_nat i) s"
  let ?mf = "for_loop 0 n (\<lambda>i. MemWrite (?p i) (SwapBytes64 (?v i))) (mMainframe s)"
  define t where "t = upd_mainframe (\<lambda>_. ?mf) s"
  have ok: "unat (?p i) < 2 ^ 29" if "i < n" for i
    using block_address(2)[OF assms(4) that] that assms(4) by (simp add: block_fits_def)
  have inj: "i = j" if "i < n" "j < n" "?p i = ?p j" for i j
    using block_address(2)[OF assms(4)] that by (metis add_left_cancel)
  have "mMemorySize (for_loop 0 k (\<lambda>i. MemWrite (?p i) (SwapBytes64 (?v i))) mf) = mMemorySize mf" for k mf
    by (rule for_loop_preserves) (simp add: MemWrite_def)
  then have map: "same_mapping s t" by (simp add: t_def same_mapping_def upd_mainframe_def)
  have "Decode w s = and_then (forE [0..<n] (\<lambda>i s. WriteDataMem (RefA 0 s + of_nat i)
      (RefT ((FieldJK w + i) mod 64) s) s)) (ret 1) s"
    using assms(1,2) by (simp add: Decode_def mInstImplementations_def Decode0037_def CRAY_ASSERT_def)
  also have "\<dots> = (Inr (1, False), t)"
    unfolding and_then_def
    by (subst bindE_Inr[OF store_block[where a = a and v = ?v]])
      (use assms(3,4) in \<open>simp_all add: RefA_def RefT_def GetAddrMask_def upd_mainframe_def ret_def t_def\<close>)
  finally have run: "Decode w s = (Inr (1, False), t)" .
  have read: "ReadDataMem (a + of_nat i) t = Inr (?v i)" if i: "i < n" for i
  proof -
    have "in_limits (a + of_nat i) t" "0 < mMemSizeInWords (mMainframe t)"
      using block_address(3,4)[OF assms(4) i] map
      by (simp_all add: in_limits_def same_mapping_address[OF map] same_mapping_def mMemSizeInWords_def)
    moreover have "MemRead (?p i) ?mf = SwapBytes64 (?v i)" by (rule mem.rd_loop(1)) (use ok inj i in auto)
    moreover have "mMainframe t = ?mf" by (simp add: t_def upd_mainframe_def)
    ultimately show ?thesis using read_in_limits[of t "a + of_nat i"] same_mapping_address[OF map] by simp
  qed
  have other: "ReadDataMem b t = ReadDataMem b s" if b: "\<forall>i<n. DataAddress b s \<noteq> ?p i" for b
  proof (cases "n = 0")
    case True
    then show ?thesis by (simp add: t_def upd_mainframe_def)
  next
    case False
    have "unat (DataAddress b s) < 2 ^ 29"
      using DataAddress_in_memory[OF block_address(4)[OF assms(4)], of 0 b] assms(4) False by (simp add: block_fits_def)
    then have "MemRead (DataAddress b s) ?mf = MemRead (DataAddress b s) (mMainframe s)"
      by (intro mem.rd_loop(2)) (use ok inj b in auto)
    then show ?thesis by (intro read_depends[OF map]) (simp add: t_def upd_mainframe_def)
  qed
  show ?thesis using run read other by (intro exI[of _ t]) (simp add: t_def upd_mainframe_def)
qed

text \<open>a block store fills the block. The instruction 0037 stores T registers, from \<open>jk\<close> on and
  wrapping from 63 to 0, to successive words: afterwards each word of the block holds its
  register, every word outside the block is what it was, and no register has changed.\<close>

theorem store_T_block:
  assumes "FieldGH w = 31" "n = TransferSize (FieldI w) s" "a = RefA 0 s" "block_fits a n s"
  shows "\<exists>t. Decode w s = (Inr (1, False), t) \<and> t = s\<lparr>mMainframe := mMainframe t\<rparr> \<and>
    (\<forall>i<n. ReadDataMem (a + of_nat i) t = Inr (RefT ((FieldJK w + i) mod 64) s)) \<and>
    (\<forall>b. (\<forall>i<n. DataAddress b s \<noteq> DataAddress (a + of_nat i) s) \<longrightarrow> ReadDataMem b t = ReadDataMem b s)"
  by (rule store_T_block_core[OF assms])

definition sample_block :: SoftCpu_c where
  "sample_block = upd_state (\<lambda>c. c\<lparr>stA := (\<lambda>_. 3)\<rparr>) (sample_cpu YMP)"

lemma sample_block_facts:
  "TransferSize (FieldI 0x3e4000000000) sample_block = 3" "RefA 0 sample_block = 3" "block_fits 3 3 sample_block"
  by (simp_all add: sample_block_def TransferSize_def RefA_def GetAddrMask_def upd_state_def sample_defs
      block_fits_def mMemSizeInWords_def)

theorem store_T_block_witness:
  "\<exists>t. Decode 0x3e4000000000 sample_block = (Inr (1, False), t) \<and>
     ReadDataMem (3 + of_nat 2) t = Inr (RefT ((FieldJK 0x3e4000000000 + 2) mod 64) sample_block)"
proof -
  have "FieldGH 0x3e4000000000 = 31" by (simp add: FieldGH_def FirstParcel_def)
  from store_T_block[OF this sample_block_facts(1)[symmetric] sample_block_facts(2)[symmetric] sample_block_facts(3)]
  obtain t where "Decode 0x3e4000000000 sample_block = (Inr (1, False), t)"
      "\<forall>i<3. ReadDataMem (3 + of_nat i) t = Inr (RefT ((FieldJK 0x3e4000000000 + i) mod 64) sample_block)"
    by blast
  then show ?thesis by (metis lessI numeral_2_eq_2 numeral_3_eq_3)
qed

lemma load_block:
  assumes "\<And>i. i < n \<Longrightarrow> ReadDataMem (RefA 0 u + of_nat i) u = Inr (v i)"
  shows "forE [0..<n] (\<lambda>i s. with_read (RefA 0 s + of_nat i) (\<lambda>v s. (Inr (), PutT (r i) v s)) s) u =
    (Inr (), for_loop 0 n (\<lambda>i. PutT (r i) (v i)) u)"
proof (rule forE_for_loop(1)[where P = "\<lambda>x. \<exists>X. x = upd_state (stT_update (\<lambda>_. X)) u"])
  show "\<exists>X. u = upd_state (stT_update (\<lambda>_. X)) u" by (rule exI[of _ "stT (mState u)"]) (simp add: upd_state_def)
  fix i x
  assume i: "i < n" and "\<exists>X. x = upd_state (stT_update (\<lambda>_. X)) u"
  then obtain X where x: "x = upd_state (stT_update (\<lambda>_. X)) u" by blast
  have "ReadDataMem (RefA 0 x + of_nat i) x = ReadDataMem (RefA 0 u + of_nat i) u"
    by (simp add: x ReadDataMem_def DataAddress_def RefA_def GetAddrMask_def upd_state_def Let_def)
  then have "with_read (RefA 0 x + of_nat i) (\<lambda>v s. (Inr (), PutT (r i) v s)) x = (Inr (), PutT (r i) (v i) x)"
    using assms[OF i] by (simp add: with_read_def)
  moreover have "\<exists>Y. PutT (r i) (v i) x = upd_state (stT_update (\<lambda>_. Y)) u"
    by (rule exI[of _ "X(r i := v i)"]) (simp add: x PutT_def upd_state_def)
  ultimately show "with_read (RefA 0 x + of_nat i) (\<lambda>v s. (Inr (), PutT (r i) v s)) x = (Inr (), PutT (r i) (v i) x) \<and>
      (\<exists>Y. PutT (r i) (v i) x = upd_state (stT_update (\<lambda>_. Y)) u)" by blast
qed simp

lemma load_registers:
  "stT (mState (for_loop 0 n (\<lambda>i. PutT (r i) (h (r i))) u)) = (\<lambda>k. if \<exists>i<n. k = r i then h k else stT (mState u) k)"
proof -
  have "stT (mState (for_loop 0 n (\<lambda>i. PutT (r i) (h (r i))) u)) =
      (\<lambda>k. if \<exists>i<n. k = r i then h k else stT (mState u) k)"
    by (rule for_loop_invariant[where I = "\<lambda>n x. stT (mState x) = (\<lambda>k. if \<exists>i<n. k = r i then h k else stT (mState u) k)"])
      (auto simp: PutT_def upd_state_def less_Suc_eq fun_eq_iff)
  then show ?thesis .
qed

text \<open>a block load undoes a block store. Whatever the T registers hold in the meantime, the
  instruction 0036 with the same fields brings back every register that 0037 has stored, also
  where the block wraps around the register file, and leaves the other T registers alone.\<close>

theorem T_block_roundtrip:
  assumes "FieldGH w = 31" "FieldGH w' = 30" "FieldI w' = FieldI w" "FieldJK w' = FieldJK w"
    and "n = TransferSize (FieldI w) s" "block_fits (RefA 0 s) n s"
    and "Decode w s = (r, t)" "u = upd_state (stT_update (\<lambda>_. X)) t"
  shows "\<exists>u'. Decode w' u = (Inr (1, False), u') \<and>
    (\<forall>k. RefT k u' = (if \<exists>i<n. k = (FieldJK w + i) mod 64 then RefT k s else X k))"
proof -
  obtain t' where t': "Decode w s = (Inr (1, False), t')" "t' = s\<lparr>mMainframe := mMainframe t'\<rparr>"
      "\<forall>i<n. ReadDataMem (RefA 0 s + of_nat i) t' = Inr (RefT ((FieldJK w + i) mod 64) s)"
    using store_T_block_core[OF assms(1,5) refl assms(6)] by blast
  then have t: "t = t'" using assms(7) by simp
  have st: "mState t = mState s" using t'(2) unfolding t by (metis SoftCpu_c.select_convs(1) SoftCpu_c.surjective SoftCpu_c.update_convs(11))
  have u: "RefA i u = RefA i s" "TransferSize i u = TransferSize i s" "stT (mState u) = X" for i
    by (simp_all add: assms(8) TransferSize_def RefA_def GetAddrMask_def upd_state_def st)
  have read: "ReadDataMem (RefA 0 u + of_nat i) u = Inr (RefT ((FieldJK w + i) mod 64) s)" if "i < n" for i
  proof -
    have "ReadDataMem a u = ReadDataMem a t" for a
      by (simp add: assms(8) ReadDataMem_def DataAddress_def upd_state_def Let_def)
    then show ?thesis using t'(3) that by (simp add: u t)
  qed
  have "Decode w' u = and_then (forE [0..<n] (\<lambda>i s. with_read (RefA 0 s + of_nat i)
      (\<lambda>v s. (Inr (), PutT ((FieldJK w + i) mod 64) v s)) s)) (ret 1) u"
    using assms(2-5) by (simp add: Decode_def mInstImplementations_def Decode0036_def CRAY_ASSERT_def u)
  also have "\<dots> = (Inr (1, False), for_loop 0 n (\<lambda>i. PutT ((FieldJK w + i) mod 64) (RefT ((FieldJK w + i) mod 64) s)) u)"
    unfolding and_then_def
    using load_block[of n u "\<lambda>i. RefT ((FieldJK w + i) mod 64) s" "\<lambda>i. (FieldJK w + i) mod 64", OF read]
    by (simp add: bindE_def ret_def)
  finally show ?thesis
    using load_registers[of n "\<lambda>i. (FieldJK w + i) mod 64" "\<lambda>k. RefT k s" u] u(3) by (auto simp: RefT_def)
qed


theorem T_block_roundtrip_witness:
  "\<exists>u'. Decode 0x3c4000000000 (upd_state (stT_update (\<lambda>_ _. 7)) (snd (Decode 0x3e4000000000 sample_block))) =
     (Inr (1, False), u') \<and> RefT 40 u' = 7"
proof -
  have f: "FieldGH 0x3e4000000000 = 31" "FieldGH 0x3c4000000000 = 30" "FieldI 0x3c4000000000 = FieldI 0x3e4000000000"
      "FieldJK 0x3c4000000000 = FieldJK 0x3e4000000000" "FieldJK 0x3e4000000000 = 0"
    by (simp_all add: FieldGH_def FieldI_def FieldJK_def FirstParcel_def)
  have fits: "block_fits (RefA 0 sample_block) 3 sample_block" by (simp add: sample_block_facts)
  obtain r where d: "Decode 0x3e4000000000 sample_block = (r, snd (Decode 0x3e4000000000 sample_block))"
    by (metis prod.collapse)
  show ?thesis
    using T_block_roundtrip[OF f(1-4) sample_block_facts(1)[symmetric] fits d refl, of "\<lambda>_. 7"] f(5) by auto
qed

end
