(* ===== verification/Float_Results.thy ===== *)
theory Float_Results
  imports Complex_Main Cpu_Contracts Sample_States
begin

text \<open>
  What the floating point routines of \<^verbatim>\<open>sim_lib/cray_float.cpp\<close> compute, against the real
  numbers their operands stand for: normalization is exact, the sum and the product are
  within stated errors, and the reciprocal has the right exponent, sign and form.
\<close>

text \<open>The number of a word: a 48-bit fraction with one bit before the point.\<close>

definition float_value :: "CFloat_t \<Rightarrow> real" where
  "float_value v = (if IsPositive v then 1 else - 1) * of_int (uint (UFract v)) * 2 powi (Exp v - 47)"

lemma powi_shift: "d \<le> e \<Longrightarrow> (2 :: real) powi e = 2 ^ nat (e - d) * 2 powi d"
  by (simp add: power_int_add[symmetric] flip: power_int_of_nat)

lemma float_value_eqI:
  assumes "IsPositive v = IsPositive w" "RawExp v \<le> RawExp w"
    "uint (UFract v) = uint (UFract w) * 2 ^ nat (RawExp w - RawExp v)"
  shows "float_value v = float_value w"
  using assms powi_shift[of "Exp v - 47" "Exp w - 47"] by (simp add: float_value_def Exp_def)

lemma float_value_zero_fract: "UFract v = 0 \<Longrightarrow> float_value v = 0"
  by (simp add: float_value_def)

lemma Normalize_value:
  "float_value (Normalize v) = float_value v \<and>
   (IsNormalized (Normalize v) \<or> RawExp (Normalize v) \<le> ExpMin) \<and>
   (ExpMin \<le> RawExp v \<and> UFract v \<noteq> 0 \<longrightarrow> ExpMin \<le> RawExp (Normalize v))"
proof (cases "UFract v = 0")
  case True
  then show ?thesis by (simp add: Normalize_0_fract float_value_zero_fract ExpMin_def)
next
  case False
  then have "Normalize v = Normalize_loop v" by (simp add: Normalize_def UFract_def)
  then show ?thesis
    using float_value_eqI[of "Normalize_loop v" v] Normalize_loop_correct[of v] by auto
qed



section \<open>The product\<close>

lemma normalized_fract: "IsNormalized v \<Longrightarrow> 2 ^ 47 \<le> uint (UFract v)"
proof -
  assume "IsNormalized v"
  then have "bit (uint (UFract v)) 47" by (simp add: bit_uint_iff bit_UFract IsNormalized_bit)
  then show ?thesis
    by (smt (verit, best) bit_iff_odd div_pos_pos_trivial even_zero unsigned_greater_eq)
qed

lemma product_error:
  fixes f AB :: int
  assumes "e \<in> {0, 1 :: nat}" "2 ^ 94 \<le> AB" "2 ^ 47 \<le> f"
    "2 ^ (47 + e) * f \<le> AB + 18 * 2 ^ 39" "AB < 2 ^ (47 + e) * (f + 1) + 30 * 2 ^ 39"
  shows "2 ^ 46 * \<bar>2 ^ (47 + e) * f - AB\<bar> \<le> AB"
  using assms by (auto simp: abs_if)

text \<open>C32: accuracy of the product. The floating point product of two normalized numbers in range, the exponent of the
  product in range too, is within a relative error of \<open>2 ^ -46\<close> of the product of the real
  numbers, normalized and with the right sign; instruction 0064 puts it into \<open>Si\<close>.\<close>

theorem float_product_accuracy:
  assumes "IsNormalized a" "IsNormalized b" "ExpMin \<le> RawExp a" "ExpMin \<le> RawExp b"
    "ExpMin \<le> Exp a + Exp b + ExpOfs" "Exp a + Exp b + ExpOfs + 1 < 2 ^ 15"
    "FieldGH w = 52" "RefSj (FieldJ w) s = a" "RefSk (FieldK w) s = b"
  shows "RefS (FieldI w) (snd (Decode0064 w s)) = float_mult a b \<and>
    IsNormalized (float_mult a b) \<and>
    \<bar>float_value (float_mult a b) - float_value a * float_value b\<bar>
      \<le> \<bar>float_value a * float_value b\<bar> / 2 ^ 46"
proof -
  let ?r = "float_mult a b" and ?AB = "uint (UFract a) * uint (UFract b)"
  obtain e where e: "e \<in> {0, 1 :: nat}" "RawExp ?r = Exp a + Exp b + ExpOfs + int e"
    and r: "IsPositive ?r = (IsPositive a = IsPositive b)" "IsNormalized ?r"
    and f: "2 ^ (47 + e) * uint (UFract ?r) \<le> ?AB + 18 * 2 ^ 39"
      "?AB < 2 ^ (47 + e) * (uint (UFract ?r) + 1) + 30 * 2 ^ 39"
    using float_mult_correct[OF assms(1-6)] by blast
  let ?p = "2 powi (Exp a + Exp b - 94) :: real"
  let ?s = "if IsPositive ?r then 1 else - 1 :: real"
  have "2 ^ 47 * 2 ^ 47 \<le> ?AB"
    by (intro mult_mono normalized_fract assms) simp_all
  then have "2 ^ 46 * \<bar>2 ^ (47 + e) * uint (UFract ?r) - ?AB\<bar> \<le> ?AB"
    using e(1) f normalized_fract[OF r(2)] by (intro product_error) simp_all
  then have le: "2 ^ 46 * \<bar>2 ^ (47 + e) * of_int (uint (UFract ?r)) - of_int ?AB\<bar> \<le> (of_int ?AB :: real)"
    by (subst (asm) of_int_le_iff[symmetric, where 'a = real]) simp
  have v: "float_value ?r = ?s * (2 ^ (47 + e) * of_int (uint (UFract ?r)) * ?p)"
    using powi_shift[of "Exp a + Exp b - 94" "Exp ?r - 47"] e(2)
    by (simp add: float_value_def Exp_def nat_add_distrib)
  have ab: "float_value a * float_value b = ?s * (of_int ?AB * ?p)"
    using r(1) by (auto simp: float_value_def power_int_add[symmetric])
  have p: "0 < ?p" by simp
  have nonneg: "0 \<le> (of_int ?AB :: real)" by (subst of_int_0_le_iff) simp
  have "\<bar>float_value ?r - float_value a * float_value b\<bar> =
      \<bar>2 ^ (47 + e) * of_int (uint (UFract ?r)) - of_int ?AB\<bar> * ?p"
    unfolding v ab using p by (simp add: abs_mult left_diff_distrib[symmetric] right_diff_distrib[symmetric] del: of_int_mult)
  also have "\<dots> \<le> of_int ?AB / 2 ^ 46 * ?p"
    using le p by (intro mult_right_mono) (simp_all add: field_simps)
  also have "\<dots> = \<bar>float_value a * float_value b\<bar> / 2 ^ 46"
    unfolding ab using p nonneg by (simp add: abs_mult del: of_int_mult)
  finally show ?thesis using r(2) assms(7-9)
    by (simp add: Decode0064_def CRAY_ASSERT_def ret_def RefS_def PutS_def upd_state_def Let_def)
qed

section \<open>The sum\<close>

lemma Shift_error:
  assumes "0 \<le> F" "F < 2 ^ 48" "0 \<le> d"
  shows "0 \<le> Shift F (min 63 d)" "Shift F (min 63 d) \<le> F"
    "of_int (Shift F (min 63 d)) \<le> (of_int F / 2 ^ nat d :: real)"
    "of_int F / 2 ^ nat d < (of_int (Shift F (min 63 d)) + 1 :: real)"
proof -
  have eq: "Shift F (min 63 d) = F div 2 ^ nat d"
  proof (cases "63 < d")
    case True
    have "F < 2 ^ 63" using assms(2) by simp
    moreover have "(2 :: int) ^ 63 \<le> 2 ^ nat d" using True by (intro power_increasing) auto
    ultimately show ?thesis using True assms(1) by (simp add: Shift_def drop_bit_eq_div)
  qed (simp add: Shift_def drop_bit_eq_div)
  show "0 \<le> Shift F (min 63 d)" "Shift F (min 63 d) \<le> F"
    using assms(1) zdiv_mono2[of F 1 "2 ^ nat d"] unfolding eq
    by (simp_all add: pos_imp_zdiv_nonneg_iff)
  have "(of_int (F div 2 ^ nat d) :: real) = of_int \<lfloor>of_int F / of_int (2 ^ nat d) :: real\<rfloor>"
    by (simp only: floor_divide_of_int_eq)
  then show "of_int (Shift F (min 63 d)) \<le> (of_int F / 2 ^ nat d :: real)"
    "of_int F / 2 ^ nat d < (of_int (Shift F (min 63 d)) + 1 :: real)"
    unfolding eq by simp_all
qed

lemma add_fracts_signed:
  assumes "0 \<le> a" "0 \<le> b" "add_fracts p q a b = (r, m)"
  shows "(if r then 1 else - 1) * m = (if p then 1 else - 1) * a + (if q then 1 else - 1) * b"
    "0 \<le> m" "m \<le> a + b"
  using assms by (auto simp: add_fracts_def Let_def split: if_splits)

lemma float_add_shape:
  assumes "IsExpValid a" "IsExpValid b" "Exp b \<le> Exp a"
    "add_fracts (IsPositive a) (IsPositive b) (uint (UFract a))
       (Shift (uint (UFract b)) (min 63 (Exp a - Exp b))) = (r, m)"
  shows "float_add a b = UnderflowOrValue (Normalize
    (if \<bar>m\<bar> AND push_bit FractSize 1 \<noteq> 0 then CFloat_of (Exp a + 1) r (word_of_int (Shift m 1))
     else CFloat_of (Exp a) r (word_of_int m)))"
proof -
  have "UnderflowOrValue a = a" "UnderflowOrValue b = b"
    using assms(1,2) by (auto simp: UnderflowOrValue_def IsExpValid_def split: if_splits)
  moreover have "Shift f 0 = f" for f by (simp add: Shift_def)
  ultimately show ?thesis
    using assms(3,4) by (cases "Exp a = Exp b") (auto simp: float_add_def Let_def)
qed

lemma CFloat_of_value:
  assumes "0 \<le> m" "m < 2 ^ 48" "ExpMin \<le> E + ExpOfs" "E + ExpOfs < 2 ^ 15"
  shows "float_value (UnderflowOrValue (Normalize (CFloat_of E r (word_of_int m)))) =
    (if r then 1 else - 1) * of_int m * 2 powi (E - 47)"
proof -
  let ?c = "CFloat_of E r (word_of_int m)"
  have e: "RawExp ?c = E + ExpOfs"
    using assms(3,4) by (simp add: RawExp_CFloat_of take_bit_int_eq_self ExpMin_def)
  have m: "uint (UFract ?c) = m"
    using assms(1,2) by (simp add: UFract_CFloat_of unsigned_take_bit_eq uint_word_of_int take_bit_int_eq_self)
  have v: "float_value ?c = (if r then 1 else - 1) * of_int m * 2 powi (E - 47)"
    by (simp add: float_value_def m Exp_def e)
  have "float_value (UnderflowOrValue (Normalize ?c)) = float_value (Normalize ?c)"
  proof (cases "UFract ?c = 0")
    case False
    then show ?thesis using Normalize_value[of ?c] e assms(3) by (auto simp: UnderflowOrValue_def)
  qed (simp add: Normalize_0_fract)
  with v show ?thesis using Normalize_value[of ?c] by simp
qed

lemma sum_units:
  fixes x g m k :: int and Y :: real
  assumes m: "(if r then 1 else - 1) * m = (if p then 1 else - 1) * x + (if q then 1 else - 1) * g"
    and g: "of_int g \<le> Y" "Y < of_int g + 1" and k: "k = m \<or> k = m - 1"
  shows "\<bar>(if r then 1 else - 1) * of_int k -
      ((if p then 1 else - 1) * of_int x + (if q then 1 else - 1) * Y)\<bar> < 2"
proof -
  have "(if r then 1 else - 1) * of_int m =
      (if p then 1 else - 1) * of_int x + (if q then 1 else - 1) * (of_int g :: real)"
    using arg_cong[OF m, of "of_int :: int \<Rightarrow> real"] by (auto split: if_splits)
  with g k show ?thesis by (auto split: if_splits)
qed

lemma carry_bit:
  fixes m :: int
  assumes "0 \<le> m" "m < 2 ^ 49"
  shows "\<bar>m\<bar> AND push_bit FractSize 1 \<noteq> 0 \<longleftrightarrow> 2 ^ 48 \<le> m"
proof -
  have single: "m AND push_bit n 1 = (if bit m n then push_bit n 1 else 0)" for n
    by (rule bit_eqI) (auto simp: bit_simps)
  have "m div 2 ^ 48 = (if 2 ^ 48 \<le> m then 1 else 0)"
    using assms by (auto simp: div_pos_pos_trivial intro: int_div_pos_eq[where r = "m - 2 ^ 48"])
  then show ?thesis using assms(1) single[of 48] by (simp add: FractSize_def bit_iff_odd)
qed

lemma float_add_error:
  assumes "IsExpValid a" "IsExpValid b" "Exp b \<le> Exp a"
  shows "\<bar>float_value (float_add a b) - (float_value a + float_value b)\<bar> < 2 powi (Exp a - 46)"
proof -
  let ?u = "2 powi (Exp a - 47) :: real" and ?d = "Exp a - Exp b"
  let ?g = "Shift (uint (UFract b)) (min 63 ?d)" and ?Y = "of_int (uint (UFract b)) / 2 ^ nat ?d :: real"
  let ?s = "\<lambda>p. if p then 1 else - 1 :: real"
  obtain r m where rm: "add_fracts (IsPositive a) (IsPositive b) (uint (UFract a)) ?g = (r, m)"
    by force
  have g: "0 \<le> ?g" "?g \<le> uint (UFract b)" "of_int ?g \<le> ?Y" "?Y < of_int ?g + 1"
    using Shift_error[of "uint (UFract b)" ?d] UFract_less[of b] assms(3) by simp_all
  note m = add_fracts_signed[OF unsigned_greater_eq g(1) rm]
  have m49: "m < 2 ^ 49" using m(3) g(2) UFract_less[of a] UFract_less[of b] by simp
  have E: "ExpMin \<le> Exp a + ExpOfs" "Exp a + 1 + ExpOfs < 2 ^ 15"
    using assms(1) by (auto simp: IsExpValid_def Exp_def ExpMax_def split: if_splits)
  have va: "float_value a = ?s (IsPositive a) * of_int (uint (UFract a)) * ?u"
    by (simp add: float_value_def)
  have vb: "float_value b = ?s (IsPositive b) * ?Y * ?u"
    using powi_shift[of "Exp b - 47" "Exp a - 47"] assms(3) by (simp add: float_value_def)
  have shape: "float_add a b = UnderflowOrValue (Normalize (if 2 ^ 48 \<le> m
      then CFloat_of (Exp a + 1) r (word_of_int (Shift m 1)) else CFloat_of (Exp a) r (word_of_int m)))"
    using float_add_shape[OF assms rm] carry_bit[OF m(2) m49] by simp
  obtain k where k: "k = m \<or> k = m - 1" and v: "float_value (float_add a b) = ?s r * of_int k * ?u"
  proof (cases "2 ^ 48 \<le> m")
    case True
    have "float_value (float_add a b) = ?s r * of_int (m div 2) * 2 powi (Exp a + 1 - 47)"
      unfolding shape using True m(2) m49 E
      by (simp only: if_True Shift_def) (subst CFloat_of_value; simp add: drop_bit_eq_div)
    then have "float_value (float_add a b) = ?s r * of_int (2 * (m div 2)) * ?u"
      using powi_shift[of "Exp a - 47" "Exp a + 1 - 47"] by simp
    then show ?thesis by (rule that[rotated]) presburger
  next
    case False
    then have "float_value (float_add a b) = ?s r * of_int m * ?u"
      unfolding shape using m(2) E by (simp only: if_False) (subst CFloat_of_value; simp)
    then show ?thesis by (rule that[OF disjI1[OF refl]])
  qed
  have "float_value (float_add a b) - (float_value a + float_value b) =
      (?s r * of_int k - (?s (IsPositive a) * of_int (uint (UFract a)) + ?s (IsPositive b) * ?Y)) * ?u"
    unfolding v va vb by (simp add: algebra_simps)
  also have "\<bar>\<dots>\<bar> < 2 * ?u"
    using sum_units[OF m(1) g(3,4) k] by (simp add: abs_mult)
  also have "\<dots> = 2 powi (Exp a - 46)"
    using powi_shift[of "Exp a - 47" "Exp a - 46"] by simp
  finally show ?thesis .
qed

text \<open>C33: accuracy of the sum. The floating point sum of two numbers in range differs from the sum of the real numbers
  by less than two units in the last place of the larger operand (the bits shifted out when
  the fractions are aligned, and the bit lost by a carry), and so does the difference. For all
  words, in range or not, the sum does not depend on the order of the operands, subtraction is
  addition of the word with its sign bit flipped, and a word minus itself is zero. Instructions
  0062 and 0063 put the results into \<open>Si\<close>.\<close>

theorem float_sum_accuracy:
  assumes "IsExpValid a" "IsExpValid b"
    "RefSj (FieldJ w) s = a" "RefSk (FieldK w) s = b"
  shows "\<bar>float_value (float_add a b) - (float_value a + float_value b)\<bar> < 2 powi (max (Exp a) (Exp b) - 46) \<and>
    \<bar>float_value (float_sub a b) - (float_value a - float_value b)\<bar> < 2 powi (max (Exp a) (Exp b) - 46) \<and>
    (\<forall>x y. float_add x y = float_add y x \<and> float_sub x y = float_add x (y XOR push_bit 63 1) \<and> float_sub x x = 0) \<and>
    (FieldGH w = 50 \<longrightarrow> RefS (FieldI w) (snd (Decode0062 w s)) = float_add a b) \<and>
    (FieldGH w = 51 \<longrightarrow> RefS (FieldI w) (snd (Decode0063 w s)) = float_sub a b)"
proof -
  have sum: "\<bar>float_value (float_add x y) - (float_value x + float_value y)\<bar> < 2 powi (max (Exp x) (Exp y) - 46)"
    if v: "IsExpValid x" "IsExpValid y" for x y
  proof (cases "Exp y \<le> Exp x")
    case True
    then show ?thesis using float_add_error[OF v True] by simp
  next
    case False
    then show ?thesis
      using float_add_error[OF v(2,1)] by (simp add: float_add_commute[of x] add.commute max_def)
  qed
  have flip: "float_value (FlipSign b) = - float_value b" "Exp (FlipSign b) = Exp b"
      "IsExpValid (FlipSign b) = IsExpValid b"
    by (simp_all add: float_value_def Exp_def IsExpValid_def FlipSign_fields)
  have "\<bar>float_value (float_sub a b) - (float_value a - float_value b)\<bar> < 2 powi (max (Exp a) (Exp b) - 46)"
    using sum[of a "FlipSign b"] assms(1,2) by (simp add: flip float_sub_def float_neg_def)
  moreover have "float_add x y = float_add y x \<and> float_sub x y = float_add x (y XOR push_bit 63 1) \<and> float_sub x x = 0" for x y
    by (simp add: float_add_commute[of x y] float_sub_self)
      (simp add: float_sub_def float_neg_def FlipSign_def FractSignMask_def)
  moreover have "FieldGH w = 50 \<longrightarrow> RefS (FieldI w) (snd (Decode0062 w s)) = float_add a b"
    "FieldGH w = 51 \<longrightarrow> RefS (FieldI w) (snd (Decode0063 w s)) = float_sub a b"
    using assms(3,4) by (simp_all add: Decode0062_def Decode0063_def CRAY_ASSERT_def ret_def RefS_def PutS_def upd_state_def Let_def)
  ultimately show ?thesis using sum[OF assms(1,2)] by blast
qed

lemmas float_eval = IsExpValid_def IsNormalized_def RawExp_def Exp_def ExpMask_def ExpMin_def ExpMax_def
  ExpOfs_def ExpBitPos_def FractSize_def FieldGH_def FieldJ_def FieldK_def FirstParcel_def
  RefSj_def RefSk_def PutS_def upd_state_def

theorem float_sum_accuracy_witness:
  "\<bar>float_value (float_add 0x4001800000000000 0x4003C00000000000) -
     (float_value 0x4001800000000000 + float_value 0x4003C00000000000)\<bar> < 2 powi (2 - 46)"
  using conjunct1[OF float_sum_accuracy[of "0x4001800000000000" "0x4003C00000000000" "0x64CA00000000"
      "PutS 1 0x4001800000000000 (PutS 2 0x4003C00000000000 (sample_cpu YMP))"]]
  by (simp add: float_eval)

theorem float_product_accuracy_witness:
  "\<bar>float_value (float_mult 0x4001800000000000 0x4003C00000000000) -
      float_value 0x4001800000000000 * float_value 0x4003C00000000000\<bar>
    \<le> \<bar>float_value 0x4001800000000000 * float_value 0x4003C00000000000\<bar> / 2 ^ 46"
  using float_product_accuracy[of "0x4001800000000000" "0x4003C00000000000" "0x68CA00000000"
      "PutS 1 0x4001800000000000 (PutS 2 0x4003C00000000000 (sample_cpu YMP))"]
  by (simp add: float_eval)

text \<open>products commute. The order of the factors does not matter to any of the four products (plain, rounded,
  half precision, reciprocal iteration), special operands and integer products included, so
  instructions 0064 to 0067 give the same result with their source registers exchanged.\<close>

theorem products_commute:
  "float_mult a b = float_mult b a \<and> RoundedMult a b = RoundedMult b a \<and>
   HalfPrecisionMult a b = HalfPrecisionMult b a \<and> ReciprocIterate a b = ReciprocIterate b a"
  by (simp only: float_mult_def RoundedMult_def HalfPrecisionMult_def ReciprocIterate_def
      Mult_commute[of a b] simp_thms)

section \<open>The reciprocal\<close>

lemma ReciprocApprox_invalid:
  assumes "RawExp v \<le> 0x2001 \<or> 0x6000 \<le> RawExp v"
  shows "RawExp (ReciprocApprox v) = 0x6000 \<and> \<not> IsNormalized (ReciprocApprox v) \<and>
    IsPositive (ReciprocApprox v) = IsPositive v"
proof -
  have c: "\<not> ((word_of_int (RawExp v) :: uint16) < 0x6000 \<and> (word_of_int (RawExp v) :: uint16) > 0x2001)"
    using assms by (auto simp: word_less_def RawExp_uint16)
  have r: "ReciprocApprox v = CFloat_of (0x6000 - ExpOfs) (IsPositive v) (ReciprocApprox_fract v AND NOT (push_bit 47 1))"
    unfolding ReciprocApprox_def Let_def
    by (simp only: c simp_thms if_False case_prod_conv positive_drop) simp
  show ?thesis
    unfolding r by (simp add: RawExp_CFloat_of IsNormalized_bit CFloat_of_bits bit_simps take_bit_int_eq_self)
qed

text \<open>C40: reciprocal approximation. It looks its first guess up inside its table for every
  word; for an exponent in range the result has the reciprocal exponent, the sign of the
  operand, a normalized fraction of at most 33 bits; for any other exponent it is the
  overflow number with exponent \<open>060000\<close>, with the sign kept.\<close>

theorem reciprocal_approximation:
  "unat (drop_bit 40 v AND 127) < length ReciprocLookup_s \<and>
   IsPositive (ReciprocApprox v) = IsPositive v \<and>
   (if 0x2001 < RawExp v \<and> RawExp v < 0x6000
    then RawExp (ReciprocApprox v) = 2 * ExpOfs - 1 - RawExp v \<and> IsExpValid (ReciprocApprox v) \<and>
      IsNormalized (ReciprocApprox v) \<and> UFract (ReciprocApprox v) = ReciprocApprox_fract v \<and>
      2 ^ 15 dvd uint (ReciprocApprox_fract v)
    else RawExp (ReciprocApprox v) = 0x6000 \<and> \<not> IsNormalized (ReciprocApprox v))"
proof (cases "0x2001 < RawExp v \<and> RawExp v < 0x6000")
  case True
  have "take_bit 15 (uint (ReciprocApprox_fract v)) = 0"
    by (rule bit_eqI) (simp add: bit_take_bit_iff bit_uint_iff ReciprocApprox_fract_bits)
  then have "2 ^ 15 dvd uint (ReciprocApprox_fract v)" by (simp add: take_bit_eq_0_iff)
  then show ?thesis
    using True ReciprocApprox_valid[of v] ReciprocLookup_bounds[of v]
    by (simp add: IsExpValid_def ExpMax_def ExpMin_def ExpOfs_def)
next
  case False
  then show ?thesis using ReciprocApprox_invalid[of v] ReciprocLookup_bounds[of v] by auto
qed

end
