(* ===== verification/Operand_Results.thy ===== *)
theory Operand_Results
  imports Cpu_Contracts Sample_States
begin

text \<open>
  The operand formats and the bit operations of the instructions against plain words: the
  24-bit address class, the double shifts, the counts, the byte and bit orders, the mode
  and flag registers in an exchange packet, and packets in memory.
\<close>

lemmas field_eval = FieldGH_def FieldI_def FieldJ_def FieldK_def FirstParcel_def
  RefSj_def RefS_def PutS_def upd_state_def

section \<open>Addresses\<close>

text \<open>24-bit address arithmetic. The address class of the X-MP is arithmetic on 24-bit words: every operator keeps the
  stored 32-bit value below \<open>2 ^ 24\<close>, and what it stores is the sum, difference, product,
  bitwise combination, complement or negation of the 24-bit readings; the sign extension of
  an address is the sign extension of its reading.\<close>

theorem address_arithmetic:
  assumes "xmp_valid a" "xmp_valid b"
  shows "xmp_abs (xmp_plus a b) = xmp_abs a + xmp_abs b \<and> xmp_abs (xmp_minus a b) = xmp_abs a - xmp_abs b \<and>
    xmp_abs (xmp_times a b) = xmp_abs a * xmp_abs b \<and> xmp_abs (xmp_and a b) = xmp_abs a AND xmp_abs b \<and>
    xmp_abs (xmp_or a b) = xmp_abs a OR xmp_abs b \<and> xmp_abs (xmp_xor a b) = xmp_abs a XOR xmp_abs b \<and>
    xmp_abs (xmp_not a) = NOT (xmp_abs a) \<and> xmp_abs (xmp_uminus a) = - xmp_abs a \<and>
    SignExtend a = scast (xmp_abs a) \<and> SignExtendLongLong a = scast (xmp_abs a) \<and>
    (\<forall>c\<in>{xmp_plus a b, xmp_minus a b, xmp_times a b, xmp_and a b, xmp_or a b, xmp_xor a b,
        xmp_not a, xmp_uminus a}. xmp_valid c)"
  using assms xplus.abs_cop[of a b] xminus.abs_cop[of a b] xtimes.abs_cop[of a b] xand.abs_cop[of a b]
    xor.abs_cop[of a b] xxor.abs_cop[of a b]
  by (simp add: xmp_ops SignExtend_scast SignExtendLongLong_scast)

theorem address_arithmetic_witness:
  "xmp_abs (xmp_plus 0xffffff 2) = 1 \<and> xmp_valid (xmp_plus 0xffffff 2)"
  using address_arithmetic[of "0xffffff" 2] by (simp add: xmp_valid_def xmp_abs_def cMask_def cBitCnt_def)

section \<open>Shifts and counts\<close>

text \<open>Double shifts. Instructions 0056 and 0057 shift the 128-bit concatenation of two \<open>S\<close> registers by
  the amount in \<open>Ak\<close>, whatever that amount is (0, 64 to 127 and 128 or more have branches
  of their own in the code), and keep one half of the result.\<close>

theorem double_shifts:
  assumes "FieldGH w = 46" "FieldGH v = 47"
  shows "RefS (FieldI w) (snd (Decode0056 w s)) = ucast (drop_bit 64 (push_bit (unat (RefAk (FieldK w) s))
      (word_cat (RefS (FieldI w) s) (RefSj (FieldJ w) s) :: 128 word))) \<and>
    RefS (FieldI v) (snd (Decode0057 v s)) = ucast (drop_bit (unat (RefAk (FieldK v) s))
      (word_cat (RefSj (FieldJ v) s) (RefS (FieldI v) s) :: 128 word))"
  using assms by (simp add: Decode0056_def Decode0057_def CRAY_ASSERT_def ret_def RefS_def PutS_def
      upd_state_def Let_def DoubleShiftLeft_window DoubleShiftRight_window)

theorem double_shifts_witness:
  "RefS 1 (snd (Decode0056 0x5C5000000000 (PutS 2 0x8000000000000000 (PutS 1 1 (sample_cpu YMP))))) =
     ucast (drop_bit 64 (push_bit 1 (word_cat (1 :: uint64) (0x8000000000000000 :: uint64) :: 128 word)))"
  using conjunct1[OF double_shifts[of "0x5C5000000000" "0x5E5000000000"
      "PutS 2 0x8000000000000000 (PutS 1 1 (sample_cpu YMP))"]]
  by (simp add: field_eval RefAk_def)

lemma unat_of_nat_masked:
  assumes "m = mask 24 \<or> m = - 1" "k \<le> 64"
  shows "unat ((of_nat k :: CAddr_t) AND m) = k"
proof -
  have k: "k < 2 ^ 24" using assms(2) by simp
  then have "take_bit 24 (of_nat k :: CAddr_t) = of_nat k"
    by (simp add: take_bit_of_nat take_bit_nat_eq_self)
  with assms k show ?thesis
    by (auto simp: take_bit_eq_mask[symmetric] unsigned_of_nat take_bit_nat_eq_self)
qed

lemma card_bits_le: "card {n. bit (x :: uint64) n} \<le> 64"
proof -
  have "card {n. bit x n} \<le> card {..<64 :: nat}"
    by (rule card_mono) (use bit_imp_less_length[of x] in auto)
  then show ?thesis by simp
qed

text \<open>bit counts. Instructions 0026 and 0027 count: the number of ones of \<open>Sj\<close>, its parity, and the
  number of zeros above the highest one (64 for zero), whether address registers have 24 or
  32 bits.\<close>

theorem bit_counts:
  assumes "GetAddrMask s = xmp_max \<or> GetAddrMask s = - 1"
    "FieldGH w = 22" "FieldGH v = 23" "FieldK v = 0"
  shows "(FieldK w = 0 \<longrightarrow> unat (RefA (FieldI w) (snd (Decode0026 w s))) = card {n. bit (RefSj (FieldJ w) s) n}) \<and>
    (FieldK w = 1 \<longrightarrow> unat (RefA (FieldI w) (snd (Decode0026 w s))) = card {n. bit (RefSj (FieldJ w) s) n} mod 2) \<and>
    unat (RefA (FieldI v) (snd (Decode0027 v s))) =
      (if RefSj (FieldJ v) s = 0 then 64 else 63 - Max {m. bit (RefSj (FieldJ v) s) m})"
proof -
  let ?m = "GetAddrMask s"
  have put: "unat (RefA i (snd (ret (Suc 0) (PutA i (of_nat k) s)))) = k" if "k \<le> 64" for i k
    using unat_of_nat_masked[of ?m k] assms(1) that
    by (auto simp: RefA_def PutA_def ret_def upd_state_def GetAddrMask_def xmp_max_mask ac_simps)
  have parity: "(of_nat k AND 1 :: CAddr_t) = of_nat (k mod 2)" for k
    using take_bit_of_nat[of 1 k, where 'a = "32 word"]
    by (simp add: take_bit_eq_mod[of 1 k] and_one_eq)
  have "FieldK w = 0 \<longrightarrow> unat (RefA (FieldI w) (snd (Decode0026 w s))) = card {n. bit (RefSj (FieldJ w) s) n}"
    using assms(2) by (simp add: Decode0026_def CRAY_ASSERT_def Let_def PopulationCnt_card put card_bits_le)
  moreover have "FieldK w = 1 \<longrightarrow>
      unat (RefA (FieldI w) (snd (Decode0026 w s))) = card {n. bit (RefSj (FieldJ w) s) n} mod 2"
    using assms(2) put[of "card {n. bit (RefSj (FieldJ w) s) n} mod 2"]
    by (simp add: Decode0026_def CRAY_ASSERT_def Let_def PopulationCntParity_def PopulationCnt_card parity)
  moreover have "unat (RefA (FieldI v) (snd (Decode0027 v s))) =
      (if RefSj (FieldJ v) s = 0 then 64 else 63 - Max {m. bit (RefSj (FieldJ v) s) m})"
    using assms(3,4) put[of 64] put[of "63 - Max {m. bit (RefSj (FieldJ v) s) m}"]
    by (simp add: Decode0027_def CRAY_ASSERT_def Let_def LeadingZeroCnt_spec)
  ultimately show ?thesis by blast
qed

theorem bit_counts_witness:
  "unat (RefA 1 (snd (Decode0027 0x2E5000000000 (sample_cpu YMP)))) = 64"
  using bit_counts[of "sample_cpu YMP" "0x2C5000000000" "0x2E5000000000"]
  by (simp add: field_eval sample_defs GetAddrMask_def IsXmp_def)

section \<open>Byte and bit orders\<close>

text \<open>Byte and bit orders. The byte swap of 64-bit words, which every access to the big-endian memory applies, and
  the bit reversal undo themselves: the swap moves byte \<open>q\<close> to byte \<open>7 - q\<close> and the reversal
  moves bit \<open>n\<close> to bit \<open>63 - n\<close>, so the loop of the reversal ends for every word.\<close>

theorem orders_undo:
  assumes "q < 8" "r < 8"
  shows "SwapBytes64 (SwapBytes64 x) = x \<and> SwapBits (SwapBits x) = x \<and>
    bit (SwapBytes64 x) (8 * q + r) = bit x (8 * (7 - q) + r) \<and>
    bit (SwapBits x) (8 * q + r) = bit x (63 - (8 * q + r))"
  using assms bit_SwapBytes64[of q r x]
  by (simp add: SwapBits_is_reverse word_rev_rev bit_word_reverse_iff)

theorem orders_undo_witness: "bit (SwapBytes64 1) 56 \<and> bit (SwapBits (1 :: uint64)) 63"
  using orders_undo[of 7 0 1] orders_undo[of 7 7 1] by simp

section \<open>Mode and flags in a packet\<close>

text \<open>Mode and flags survive a packet. The mode and the flags written into an exchange packet are read back from the memory
  the packet was stored to, for every machine type: the mode unchanged if it uses only the
  bits its machine has, the flags as far as the layout has bits for them; storing a packet
  changes the sixteen words of the packet area only.\<close>

theorem packet_mode_flags_roundtrip:
  assumes "mode_valid m" "modeMachineType m = epMachineType ep" "epMachineType ep' = epMachineType ep"
    "x < a \<or> a + 128 \<le> x"
  shows "GetMode (Read_packet (Write_packet (SetFlag f (SetMode m ep)) a mem) a ep') = m \<and>
    GetFlag (Read_packet (Write_packet (SetFlag f (SetMode m ep)) a mem) a ep') =
      f AND (if IsXmp (epMachineType ep) then mask 11 else mask 12) \<and>
    Write_packet (SetFlag f (SetMode m ep)) a mem x = mem x"
proof -
  let ?p = "SetFlag f (SetMode m ep)"
  let ?r = "Read_packet (Write_packet ?p a mem) a ep'"
  have d: "Data ?r i = Data ?p i" if "i < 16" for i using that by (rule packet_memory_roundtrip)
  have t: "epMachineType ?r = epMachineType ?p"
    using assms(3) by (simp add: Read_packet_def)
  have "GetMode ?r = GetMode ?p" "GetFlag ?r = GetFlag ?p"
    using t by (simp_all add: GetMode_def GetFlag_def d)
  then show ?thesis
    using GetMode_SetMode[OF assms(1,2)] assms(4)
    by (simp add: SetFlag_keeps_mode GetFlag_SetFlag Write_packet_outside)
qed

theorem packet_mode_flags_roundtrip_witness:
  "GetMode (Read_packet (Write_packet (SetFlag 3 (SetMode (Mode_c_default YMP) (ExchangePacket_new YMP))) 128 (\<lambda>_. 0))
    128 (ExchangePacket_new YMP)) = Mode_c_default YMP"
  using packet_mode_flags_roundtrip[of "Mode_c_default YMP" "ExchangePacket_new YMP" "ExchangePacket_new YMP" 0 128 3 "\<lambda>_. 0"]
  by (simp add: mode_valid_def Mode_c_default_def ExchangePacket_new_def IsXmp_def)

end
