(* ===== verification/Iop_Devices.thy ===== *)
theory Iop_Devices
  imports Mainframe
begin

text \<open>
  The I/O processor's memory and its channels: the built-in channels declared in
  \<^verbatim>\<open>sim_lib/cray_iop.h\<close> and defined in \<^verbatim>\<open>sim_lib/cray_iop_built_in_channels.cpp\<close>, and the
  simple peripherals \<^verbatim>\<open>iop_era\<close> and \<^verbatim>\<open>iop_host_memory\<close>. Each channel is a
  record; \<open>DoIo\<close> takes the function code and the accumulator and returns the value read
  with the new state. What a channel reaches outside itself, the I/O memory, the buffer
  memory or the central memory, is an argument that is returned updated.
  Logging and debug events are left out.
\<close>

section \<open>The I/O memory\<close>

type_synonym IopInt = uint16

text \<open>\<open>IoMemAccess<uint16_t>\<close> by parcels and \<open>IoMemAccessByType<uint64_t>\<close> by words of four parcels.\<close>

definition IoMemRead16 :: "nat \<Rightarrow> memory \<Rightarrow> IopInt" where
  "IoMemRead16 aAddr m = load16 m (2 * aAddr)"

definition IoMemWrite16 :: "nat \<Rightarrow> IopInt \<Rightarrow> memory \<Rightarrow> memory" where
  "IoMemWrite16 aAddr v m = store16 (2 * aAddr) v m"

definition IoMemRead64 :: "nat \<Rightarrow> memory \<Rightarrow> uint64" where
  "IoMemRead64 aAddr m = load64 m (8 * aAddr)"

definition IoMemWrite64 :: "nat \<Rightarrow> uint64 \<Rightarrow> memory \<Rightarrow> memory" where
  "IoMemWrite64 aAddr v m = store64 (8 * aAddr) v m"

text \<open>\<open>BufferMemAccessByType<uint64_t>\<close>: the address runs around the end of the buffer memory.\<close>

definition BufferMemRead64 :: "nat \<Rightarrow> nat \<Rightarrow> memory \<Rightarrow> uint64" where
  "BufferMemRead64 sz aAddr m = load64 m ((aAddr * 8) mod sz)"

definition BufferMemWrite64 :: "nat \<Rightarrow> nat \<Rightarrow> uint64 \<Rightarrow> memory \<Rightarrow> memory" where
  "BufferMemWrite64 sz aAddr v m = store64 ((aAddr * 8) mod sz) v m"

text \<open>The advance of the word address and of the word count in the three transfer loops.\<close>

definition next_io_addr :: "IopInt \<Rightarrow> IopInt" where
  "next_io_addr a = (if a \<noteq> 0x3fff then a + 1 else 0)"

definition next_count :: "IopInt \<Rightarrow> IopInt" where
  "next_count n = (n - 1) AND 0x3fff"

lemma next_count_decreases:
  assumes "next_count n \<noteq> 0"
  shows "unat (next_count (next_count n)) < unat (next_count n)"
proof -
  let ?m = "next_count n"
  have m: "0x3fff = (mask 14 :: IopInt)" by (simp add: mask_eq_exp_minus_1)
  have "take_bit 14 (?m - 1) = ?m - 1"
  proof -
    have "unat (?m - 1) < unat ?m" using assms by (rule measure_unat)
    moreover have "unat ?m < 2 ^ 14"
      unfolding next_count_def m take_bit_eq_mask[symmetric]
      by (metis take_bit_nat_less_exp unsigned_take_bit_eq)
    ultimately have "take_bit 14 (unat (?m - 1)) = unat (?m - 1)" by (intro take_bit_nat_eq_self) simp
    then show ?thesis by (metis unsigned_take_bit_eq unsigned_word_eqI)
  qed
  then have "next_count ?m = ?m - 1"
    by (simp add: next_count_def[of ?m] m take_bit_eq_mask[symmetric] del: mask_numeral)
  then show ?thesis using measure_unat[OF assms] by simp
qed

section \<open>Program fetch request and program exit stack\<close>

record ChannelPFR_c =
  pfrRequestIdx :: IopInt
  pfrRequestFlag :: bool
  pfrInterruptEnabled :: bool

definition PFR_MasterClear :: "ChannelPFR_c \<Rightarrow> ChannelPFR_c" where
  "PFR_MasterClear ch = ch\<lparr>pfrRequestFlag := False, pfrInterruptEnabled := False\<rparr>"

definition SetRequestIdx :: "IopInt \<Rightarrow> ChannelPFR_c \<Rightarrow> ChannelPFR_c" where
  "SetRequestIdx aRequestIdx ch = ch\<lparr>pfrRequestIdx := aRequestIdx, pfrRequestFlag := True\<rparr>"

definition PFR_DoIo :: "nat \<Rightarrow> IopInt \<Rightarrow> ChannelPFR_c \<Rightarrow> IopInt \<times> ChannelPFR_c" where
  "PFR_DoIo aFunction aData ch =
     (if aFunction = 0 then (0, ch\<lparr>pfrRequestFlag := False\<rparr>)
      else if aFunction = 6 then (0, ch\<lparr>pfrInterruptEnabled := False\<rparr>)
      else if aFunction = 7 then (0, ch\<lparr>pfrInterruptEnabled := True\<rparr>)
      else if aFunction = 8 then (pfrRequestIdx ch, ch)
      else (0, ch))"

definition PFR_GetInterrupt :: "ChannelPFR_c \<Rightarrow> bool" where
  "PFR_GetInterrupt ch \<longleftrightarrow> pfrInterruptEnabled ch \<and> pfrRequestFlag ch"

record ChannelPXS_c =
  pxsBoundaryFlag :: bool
  pxsInterruptEnabled :: bool
  pxsE :: uint8
  pxsStack :: "nat \<Rightarrow> IopInt"

definition PXS_MasterClear :: "ChannelPXS_c \<Rightarrow> ChannelPXS_c" where
  "PXS_MasterClear ch = ch\<lparr>pxsE := 0, pxsStack := (\<lambda>_. 0), pxsBoundaryFlag := False, pxsInterruptEnabled := False\<rparr>"

definition SetE :: "uint8 \<Rightarrow> ChannelPXS_c \<Rightarrow> ChannelPXS_c" where
  "SetE aE ch = ch\<lparr>pxsE := aE AND 0xf\<rparr>"

definition GetAtE :: "ChannelPXS_c \<Rightarrow> IopInt" where
  "GetAtE ch = pxsStack ch (unat (pxsE ch))"

definition SetAtE :: "IopInt \<Rightarrow> ChannelPXS_c \<Rightarrow> ChannelPXS_c" where
  "SetAtE aAddr ch = ch\<lparr>pxsStack := (pxsStack ch)(unat (pxsE ch) := aAddr)\<rparr>"

definition GetAt :: "uint8 \<Rightarrow> ChannelPXS_c \<Rightarrow> IopInt" where
  "GetAt aE ch = pxsStack ch (unat (aE AND 0xf))"

definition PXS_Push :: "IopInt \<Rightarrow> (ChannelPXS_c, unit) exec" where
  "PXS_Push aAddr ch =
     (if \<not> pxsE ch \<le> 15 then (Inl AssertError, ch)
      else
        (let ch = ch\<lparr>pxsE := (pxsE ch + 1) AND 0xf\<rparr>;
             ch = SetAtE aAddr ch
         in (Inr (), if pxsBoundaryFlag ch then ch else ch\<lparr>pxsBoundaryFlag := (pxsE ch \<ge> 14)\<rparr>)))"

definition PXS_Pop :: "(ChannelPXS_c, IopInt) exec" where
  "PXS_Pop ch =
     (if \<not> pxsE ch \<le> 15 then (Inl AssertError, ch)
      else
        (let ch = (if pxsBoundaryFlag ch then ch else ch\<lparr>pxsBoundaryFlag := (pxsE ch = 0)\<rparr>);
             RetVal = GetAtE ch
         in (Inr RetVal, ch\<lparr>pxsE := (pxsE ch - 1) AND 0xf\<rparr>)))"

definition PXS_DoIo :: "nat \<Rightarrow> IopInt \<Rightarrow> ChannelPXS_c \<Rightarrow> IopInt \<times> ChannelPXS_c" where
  "PXS_DoIo aFunction aData ch =
     (if aFunction = 0 then (0, ch\<lparr>pxsBoundaryFlag := False\<rparr>)
      else if aFunction = 6 then (0, ch\<lparr>pxsInterruptEnabled := False\<rparr>)
      else if aFunction = 7 then (0, ch\<lparr>pxsInterruptEnabled := True\<rparr>)
      else if aFunction = 8 then (ucast (pxsE ch), ch)
      else if aFunction = 9 then (GetAtE ch, ch)
      else if aFunction = 12 then (0, SetE (ucast aData) ch)
      else if aFunction = 13 then (0, SetAtE aData ch)
      else (0, ch))"

definition PXS_GetInterrupt :: "ChannelPXS_c \<Rightarrow> bool" where
  "PXS_GetInterrupt ch \<longleftrightarrow> pxsInterruptEnabled ch \<and> pxsBoundaryFlag ch"

section \<open>Local memory errors and real-time clock\<close>

definition LME_DoIo :: "nat \<Rightarrow> IopInt \<Rightarrow> IopInt" where
  "LME_DoIo aFunction aData = 0"

text \<open>
  \<open>rtcWall\<close> is the reading of the host timer in nanoseconds since its last start, set by the
  environment; \<open>MasterClear\<close> restarts the timer.
\<close>

record ChannelRTC_c =
  rtcTimerLimit :: uint64
  rtcClockFrequency :: uint64
  rtcLastIntTick :: uint64
  rtcTickCnt :: uint32
  rtcInterrupt :: bool
  rtcInterruptEnabled :: bool
  rtcWall :: uint64

definition TimeToTick :: "uint64 \<Rightarrow> ChannelRTC_c \<Rightarrow> uint64" where
  "TimeToTick aTime ch = (aTime div 10000) * (rtcClockFrequency ch div 100000)"

definition RTC_MasterClear :: "ChannelRTC_c \<Rightarrow> ChannelRTC_c" where
  "RTC_MasterClear ch = ch\<lparr>rtcInterrupt := False, rtcInterruptEnabled := False, rtcWall := 0,
     rtcLastIntTick := 0, rtcTickCnt := 0\<rparr>"

definition RTC_DoIo :: "nat \<Rightarrow> IopInt \<Rightarrow> ChannelRTC_c \<Rightarrow> IopInt \<times> ChannelRTC_c" where
  "RTC_DoIo aFunction aData ch =
     (if aFunction = 0 then (0, ch\<lparr>rtcInterrupt := False\<rparr>)
      else if aFunction = 6 then (0, ch\<lparr>rtcInterruptEnabled := False\<rparr>)
      else if aFunction = 7 then (0, ch\<lparr>rtcInterruptEnabled := True\<rparr>)
      else if aFunction = 8 then (ucast (drop_bit 1 (TimeToTick (rtcWall ch) ch) AND 0xffff), ch)
      else (0, ch))"

definition RTC_Tick :: "ChannelRTC_c \<Rightarrow> ChannelRTC_c" where
  "RTC_Tick ch =
     (let ch = ch\<lparr>rtcTickCnt := rtcTickCnt ch + 1\<rparr> in
      if rtcTickCnt ch > 50 then
        (let ch = ch\<lparr>rtcTickCnt := 0\<rparr>;
             TickCnt = TimeToTick (rtcWall ch) ch
         in if TickCnt - rtcLastIntTick ch > rtcTimerLimit ch
            then ch\<lparr>rtcInterrupt := True, rtcLastIntTick := TickCnt\<rparr> else ch)
      else ch)"

definition RTC_GetInterrupt :: "ChannelRTC_c \<Rightarrow> bool" where
  "RTC_GetInterrupt ch \<longleftrightarrow> rtcInterruptEnabled ch \<and> rtcInterrupt ch"

section \<open>Buffer memory channel\<close>

record ChannelMOS_c =
  mosBufferMemoryAddr :: CAddr_t
  mosIoMemoryAddr :: IopInt
  mosTransferSize :: IopInt
  mosDone :: bool
  mosItoBActive :: bool
  mosBtoIActive :: bool
  mosInterruptEnabled :: bool

definition MOS_MasterClear :: "ChannelMOS_c \<Rightarrow> ChannelMOS_c" where
  "MOS_MasterClear ch = ch\<lparr>mosDone := False, mosBtoIActive := False, mosItoBActive := False,
     mosInterruptEnabled := True, mosBufferMemoryAddr := 0, mosIoMemoryAddr := 0, mosTransferSize := 0\<rparr>"

text \<open>A channel with the I/O memory and the buffer memory that it moves words between.\<close>

record mos_state =
  mosChannel :: ChannelMOS_c
  mosIoMemory :: memory
  mosBufferMemory :: memory

abbreviation upd_mos :: "(ChannelMOS_c \<Rightarrow> ChannelMOS_c) \<Rightarrow> mos_state \<Rightarrow> mos_state" where
  "upd_mos f s \<equiv> s\<lparr>mosChannel := f (mosChannel s)\<rparr>"

text \<open>One turn of the loop of \<open>DoTransfer\<close>.\<close>

definition MOS_step :: "nat \<Rightarrow> mos_state \<Rightarrow> mos_state" where
  "MOS_step sz s =
     (let ch = mosChannel s;
          io = unat (mosIoMemoryAddr ch); buf = unat (mosBufferMemoryAddr ch);
          s = (if mosItoBActive ch
               then s\<lparr>mosBufferMemory := BufferMemWrite64 sz buf
                 (SwapBytesInWords (IoMemRead64 io (mosIoMemory s))) (mosBufferMemory s)\<rparr> else s);
          s = (if mosBtoIActive ch
               then s\<lparr>mosIoMemory := IoMemWrite64 io
                 (SwapBytesInWords (BufferMemRead64 sz buf (mosBufferMemory s))) (mosIoMemory s)\<rparr> else s);
          s = upd_mos (\<lambda>ch. ch\<lparr>mosIoMemoryAddr := next_io_addr (mosIoMemoryAddr ch),
                mosBufferMemoryAddr := mosBufferMemoryAddr ch + 1,
                mosTransferSize := next_count (mosTransferSize ch)\<rparr>) s
      in if mosTransferSize (mosChannel s) = 0
         then upd_mos (\<lambda>ch. ch\<lparr>mosItoBActive := False, mosBtoIActive := False, mosDone := True\<rparr>) s else s)"

lemma MOS_step_channel:
  "mosTransferSize (mosChannel (MOS_step sz s)) = next_count (mosTransferSize (mosChannel s))"
  "mosItoBActive (mosChannel (MOS_step sz s)) \<longleftrightarrow>
     mosItoBActive (mosChannel s) \<and> next_count (mosTransferSize (mosChannel s)) \<noteq> 0"
  "mosBtoIActive (mosChannel (MOS_step sz s)) \<longleftrightarrow>
     mosBtoIActive (mosChannel s) \<and> next_count (mosTransferSize (mosChannel s)) \<noteq> 0"
  "mosDone (mosChannel (MOS_step sz s)) \<longleftrightarrow>
     mosDone (mosChannel s) \<or> next_count (mosTransferSize (mosChannel s)) = 0"
  "mosIoMemoryAddr (mosChannel (MOS_step sz s)) = next_io_addr (mosIoMemoryAddr (mosChannel s))"
  "mosBufferMemoryAddr (mosChannel (MOS_step sz s)) = mosBufferMemoryAddr (mosChannel s) + 1"
  "mosInterruptEnabled (mosChannel (MOS_step sz s)) = mosInterruptEnabled (mosChannel s)"
  by (simp_all add: MOS_step_def Let_def)

function MOS_loop :: "nat \<Rightarrow> (mos_state, unit) exec" where
  "MOS_loop sz s =
     (if mosItoBActive (mosChannel s) \<or> mosBtoIActive (mosChannel s) then
        if mosDone (mosChannel s) then (Inl AssertError, s) else MOS_loop sz (MOS_step sz s)
      else (Inr (), s))"
  by pat_completeness auto
termination
  by (relation "measure (\<lambda>(sz, s). if mosItoBActive (mosChannel s) \<or> mosBtoIActive (mosChannel s)
      then Suc (unat (next_count (mosTransferSize (mosChannel s)))) else 0)")
    (auto simp: MOS_step_channel next_count_decreases)

declare MOS_loop.simps [simp del]

definition MOS_DoTransfer :: "nat \<Rightarrow> (mos_state, unit) exec" where
  "MOS_DoTransfer sz s =
     (if mosItoBActive (mosChannel s) \<and> mosBtoIActive (mosChannel s) then (Inl AssertError, s)
      else MOS_loop sz s)"

definition MOS_DeadStart :: "nat \<Rightarrow> (mos_state, unit) exec" where
  "MOS_DeadStart sz s =
     MOS_DoTransfer sz (upd_mos (\<lambda>ch. (MOS_MasterClear ch)\<lparr>mosBtoIActive := True\<rparr>) s)"

definition MOS_DoIo :: "nat \<Rightarrow> nat \<Rightarrow> IopInt \<Rightarrow> (mos_state, IopInt) exec" where
  "MOS_DoIo sz aFunction aData s =
     (if aFunction = 0 then
        (Inr 0, upd_mos (\<lambda>ch. ch\<lparr>mosItoBActive := False, mosBtoIActive := False, mosDone := False\<rparr>) s)
      else if aFunction = 1 then (Inr 0, upd_mos (mosIoMemoryAddr_update (\<lambda>_. drop_bit 2 aData)) s)
      else if aFunction = 2 then
        (Inr 0, upd_mos (mosBufferMemoryAddr_update
          (\<lambda>a. (a AND 0x1ff) OR push_bit 9 (ucast (aData AND 0x7fff)))) s)
      else if aFunction = 3 then
        (Inr 0, upd_mos (mosBufferMemoryAddr_update
          (\<lambda>a. (a AND 0xfffffe00) OR ucast (aData AND 0x1ff))) s)
      else if aFunction = 4 then
        bindE (MOS_DoTransfer sz) (\<lambda>_. returnE 0)
          (upd_mos (\<lambda>ch. ch\<lparr>mosTransferSize := aData AND 0x3fff, mosBtoIActive := True, mosDone := False\<rparr>) s)
      else if aFunction = 5 then
        bindE (MOS_DoTransfer sz) (\<lambda>_. returnE 0)
          (upd_mos (\<lambda>ch. ch\<lparr>mosTransferSize := aData AND 0x3fff, mosItoBActive := True, mosDone := False\<rparr>) s)
      else if aFunction = 6 then (Inr 0, upd_mos (mosInterruptEnabled_update (\<lambda>_. False)) s)
      else if aFunction = 7 then (Inr 0, upd_mos (mosInterruptEnabled_update (\<lambda>_. True)) s)
      else (Inr 0, s))"

definition MOS_GetBusy :: "ChannelMOS_c \<Rightarrow> bool" where
  "MOS_GetBusy ch \<longleftrightarrow> mosItoBActive ch \<or> mosBtoIActive ch"

definition MOS_GetInterrupt :: "ChannelMOS_c \<Rightarrow> bool" where
  "MOS_GetInterrupt ch \<longleftrightarrow> mosInterruptEnabled ch \<and> mosDone ch"

section \<open>Error logging\<close>

record ChannelERA_c =
  eraInterruptEnabled :: bool
  eraDone :: bool

definition ERA_MasterClear :: "ChannelERA_c \<Rightarrow> ChannelERA_c" where
  "ERA_MasterClear ch = ch\<lparr>eraDone := False, eraInterruptEnabled := False\<rparr>"

definition ERA_DoIo :: "nat \<Rightarrow> IopInt \<Rightarrow> ChannelERA_c \<Rightarrow> IopInt \<times> ChannelERA_c" where
  "ERA_DoIo aFunction aData ch =
     (if aFunction = 0 then (0, ch\<lparr>eraDone := False\<rparr>)
      else if aFunction = 6 then (0, ch\<lparr>eraInterruptEnabled := False\<rparr>)
      else if aFunction = 7 then (0, ch\<lparr>eraInterruptEnabled := True\<rparr>)
      else (0, ch))"

definition ERA_GetInterrupt :: "ChannelERA_c \<Rightarrow> bool" where
  "ERA_GetInterrupt ch \<longleftrightarrow> eraInterruptEnabled ch \<and> eraDone ch"

section \<open>Central memory channel\<close>

record ChannelHostMemory_c =
  hmCentralMemoryAddr :: CAddr_t
  hmIoMemoryAddr :: IopInt
  hmTransferSize :: IopInt
  hmAllowItoC :: bool
  hmAllowCtoI :: bool
  hmDone :: bool
  hmItoCActive :: bool
  hmCtoIActive :: bool
  hmInterruptEnabled :: bool

definition HM_MasterClear :: "ChannelHostMemory_c \<Rightarrow> ChannelHostMemory_c" where
  "HM_MasterClear ch = ch\<lparr>hmDone := False, hmCtoIActive := False, hmItoCActive := False,
     hmInterruptEnabled := True, hmCentralMemoryAddr := 0, hmIoMemoryAddr := 0, hmTransferSize := 0\<rparr>"

record hm_state =
  hmChannel :: ChannelHostMemory_c
  hmIoMemory :: memory
  hmCentralMemory :: memory

abbreviation upd_hm :: "(ChannelHostMemory_c \<Rightarrow> ChannelHostMemory_c) \<Rightarrow> hm_state \<Rightarrow> hm_state" where
  "upd_hm f s \<equiv> s\<lparr>hmChannel := f (hmChannel s)\<rparr>"

text \<open>
  The central memory is accessed by pointer, without a check against its size: an address
  beyond the installed memory is outside the vector.
\<close>

definition HM_step :: "hm_state \<Rightarrow> hm_state" where
  "HM_step s =
     (let ch = hmChannel s;
          io = unat (hmIoMemoryAddr ch); loc = unat (hmCentralMemoryAddr ch) * 8;
          s = (if hmItoCActive ch
               then s\<lparr>hmCentralMemory := store64 loc
                 (SwapBytesInWords (IoMemRead64 io (hmIoMemory s))) (hmCentralMemory s)\<rparr> else s);
          s = (if hmCtoIActive ch
               then s\<lparr>hmIoMemory := IoMemWrite64 io
                 (SwapBytesInWords (load64 (hmCentralMemory s) loc)) (hmIoMemory s)\<rparr> else s);
          s = upd_hm (\<lambda>ch. ch\<lparr>hmIoMemoryAddr := next_io_addr (hmIoMemoryAddr ch),
                hmCentralMemoryAddr := hmCentralMemoryAddr ch + 1,
                hmTransferSize := next_count (hmTransferSize ch)\<rparr>) s
      in if hmTransferSize (hmChannel s) = 0
         then upd_hm (\<lambda>ch. ch\<lparr>hmItoCActive := False, hmCtoIActive := False, hmDone := True\<rparr>) s else s)"

lemma HM_step_channel:
  "hmTransferSize (hmChannel (HM_step s)) = next_count (hmTransferSize (hmChannel s))"
  "hmItoCActive (hmChannel (HM_step s)) \<longleftrightarrow>
     hmItoCActive (hmChannel s) \<and> next_count (hmTransferSize (hmChannel s)) \<noteq> 0"
  "hmCtoIActive (hmChannel (HM_step s)) \<longleftrightarrow>
     hmCtoIActive (hmChannel s) \<and> next_count (hmTransferSize (hmChannel s)) \<noteq> 0"
  "hmDone (hmChannel (HM_step s)) \<longleftrightarrow> hmDone (hmChannel s) \<or> next_count (hmTransferSize (hmChannel s)) = 0"
  "hmIoMemoryAddr (hmChannel (HM_step s)) = next_io_addr (hmIoMemoryAddr (hmChannel s))"
  "hmCentralMemoryAddr (hmChannel (HM_step s)) = hmCentralMemoryAddr (hmChannel s) + 1"
  by (simp_all add: HM_step_def Let_def)

function HM_DoTransfer :: "(hm_state, unit) exec" where
  "HM_DoTransfer s =
     (if hmItoCActive (hmChannel s) \<or> hmCtoIActive (hmChannel s) then
        if hmDone (hmChannel s) then (Inl AssertError, s) else HM_DoTransfer (HM_step s)
      else (Inr (), s))"
  by pat_completeness auto
termination
  by (relation "measure (\<lambda>s. if hmItoCActive (hmChannel s) \<or> hmCtoIActive (hmChannel s)
      then Suc (unat (next_count (hmTransferSize (hmChannel s)))) else 0)")
    (auto simp: HM_step_channel next_count_decreases)

declare HM_DoTransfer.simps [simp del]

definition HM_DoIo :: "nat \<Rightarrow> IopInt \<Rightarrow> (hm_state, IopInt) exec" where
  "HM_DoIo aFunction aData s =
     (if aFunction = 0 then
        (Inr 0, upd_hm (\<lambda>ch. ch\<lparr>hmItoCActive := False, hmCtoIActive := False, hmDone := False\<rparr>) s)
      else if aFunction = 1 then (Inr 0, upd_hm (hmIoMemoryAddr_update (\<lambda>_. drop_bit 2 aData)) s)
      else if aFunction = 2 then
        (Inr 0, upd_hm (hmCentralMemoryAddr_update
          (\<lambda>a. (a AND 0x1ff) OR push_bit 9 (ucast (aData AND 0x7fff)))) s)
      else if aFunction = 3 then
        (Inr 0, upd_hm (hmCentralMemoryAddr_update
          (\<lambda>a. (a AND 0xfffffe00) OR ucast (aData AND 0x1ff))) s)
      else if aFunction = 4 then
        bindE HM_DoTransfer (\<lambda>_. returnE 0)
          (if hmAllowCtoI (hmChannel s) then upd_hm (\<lambda>ch. ch\<lparr>hmTransferSize := aData AND 0x3fff,
             hmCtoIActive := True, hmItoCActive := False, hmDone := False\<rparr>) s else s)
      else if aFunction = 5 then
        bindE HM_DoTransfer (\<lambda>_. returnE 0)
          (if hmAllowItoC (hmChannel s) then upd_hm (\<lambda>ch. ch\<lparr>hmTransferSize := aData AND 0x3fff,
             hmItoCActive := True, hmCtoIActive := False, hmDone := False\<rparr>) s else s)
      else if aFunction = 6 then (Inr 0, upd_hm (hmInterruptEnabled_update (\<lambda>_. False)) s)
      else if aFunction = 7 then (Inr 0, upd_hm (hmInterruptEnabled_update (\<lambda>_. True)) s)
      else if aFunction = 12 then (Inl AssertError, s)
      else (Inr 0, s))"

definition HM_GetBusy :: "ChannelHostMemory_c \<Rightarrow> bool" where
  "HM_GetBusy ch \<longleftrightarrow> hmItoCActive ch \<or> hmCtoIActive ch"

definition HM_GetInterrupt :: "ChannelHostMemory_c \<Rightarrow> bool" where
  "HM_GetInterrupt ch \<longleftrightarrow> hmInterruptEnabled ch \<and> hmDone ch"

end
