(* ===== verification/Host_File.thy ===== *)
theory Host_File
  imports Mainframe
begin

text \<open>
  Host files as the C++ streams of the devices see them: a list of bytes with positioned reads
  and writes. A read that reaches past the end sets the end-of-file state; a write past the
  end fills the gap with zeros, as a sparse file reads back. \<open>le16\<close> and \<open>le32\<close> are the
  little-endian integers that the code reads and writes through pointer casts.
\<close>

type_synonym host_file = "uint8 list"

text \<open>The \<open>n\<close> bytes at a position, or fewer where the file ends.\<close>

definition file_read :: "nat \<Rightarrow> nat \<Rightarrow> host_file \<Rightarrow> uint8 list" where
  "file_read pos n f = take n (drop pos f)"

definition file_write :: "nat \<Rightarrow> uint8 list \<Rightarrow> host_file \<Rightarrow> host_file" where
  "file_write pos bs f = take pos f @ replicate (pos - length f) 0 @ bs @ drop (pos + length bs) f"

lemma length_file_read [simp]: "length (file_read pos n f) = min n (length f - pos)"
  by (simp add: file_read_def)

lemma length_file_write [simp]: "length (file_write pos bs f) = max (pos + length bs) (length f)"
  by (simp add: file_write_def)

lemma nth_file_write:
  "k < max (pos + length bs) (length f) \<Longrightarrow> file_write pos bs f ! k =
     (if pos \<le> k \<and> k < pos + length bs then bs ! (k - pos) else if k < length f then f ! k else 0)"
  by (auto simp: file_write_def nth_append min_def)

lemma nth_file_read: "k < n \<Longrightarrow> pos + k < length f \<Longrightarrow> file_read pos n f ! k = f ! (pos + k)"
  by (simp add: file_read_def)

text \<open>What a positioned write leaves for the reads.\<close>

lemma file_read_write_same [simp]: "file_read pos (length bs) (file_write pos bs f) = bs"
  by (rule nth_equalityI) (simp_all add: nth_file_read nth_file_write)

lemma file_read_write_other:
  assumes "pos + length bs \<le> q \<or> q + n \<le> pos" "q + n \<le> length f"
  shows "file_read q n (file_write pos bs f) = file_read q n f"
  using assms by (intro nth_equalityI) (auto simp: nth_file_read nth_file_write)

lemma file_write_write_same:
  "length bs = length cs \<Longrightarrow> file_write pos bs (file_write pos cs f) = file_write pos bs f"
  by (rule nth_equalityI) (auto simp: nth_file_write)

lemma file_write_append: "length f = pos \<Longrightarrow> file_write pos bs f = f @ bs"
  by (simp add: file_write_def)

text \<open>A file is extended piece by piece as it is by one write.\<close>

lemma file_write_concat:
  "file_write (pos + length bs) cs (file_write pos bs f) = file_write pos (bs @ cs) f"
  by (rule nth_equalityI) (auto simp: nth_file_write nth_append)

lemma file_read_append: "file_read pos (n + k) f = file_read pos n f @ file_read (pos + n) k f"
  unfolding file_read_def take_add[of n k] by (simp add: add.commute)

section \<open>Integers in files\<close>

definition le16_bytes :: "uint16 \<Rightarrow> uint8 list" where
  "le16_bytes w = [ucast w, ucast (drop_bit 8 w)]"

definition le16 :: "uint8 list \<Rightarrow> uint16" where
  "le16 bs = (case bs of b0 # b1 # _ \<Rightarrow> ucast b0 OR push_bit 8 (ucast b1) | _ \<Rightarrow> 0)"

definition le32_bytes :: "uint32 \<Rightarrow> uint8 list" where
  "le32_bytes w = map (\<lambda>k. ucast (drop_bit (8 * k) w)) [0..<4]"

definition le32 :: "uint8 list \<Rightarrow> uint32" where
  "le32 bs = (case bs of b0 # b1 # b2 # b3 # _ \<Rightarrow>
      ucast b0 OR push_bit 8 (ucast b1) OR push_bit 16 (ucast b2) OR push_bit 24 (ucast b3) | _ \<Rightarrow> 0)"

lemma length_le_bytes [simp]: "length (le16_bytes v) = 2" "length (le32_bytes w) = 4"
  by (simp_all add: le16_bytes_def le32_bytes_def)

lemma le16_le16_bytes [simp]: "le16 (le16_bytes w) = w"
proof (rule word_eq_by_bits)
  fix n :: nat
  assume n: "n < LENGTH(16)"
  have high: "\<not> bit (x :: uint8) k" if "8 \<le> k" for x k
    using that bit_imp_less_length[of x k] by auto
  from n have "n < 8 \<or> 8 \<le> n \<and> n - 8 < 8" by auto
  then show "bit (le16 (le16_bytes w)) n = bit w n"
    using n by (auto simp: le16_def le16_bytes_def bit_simps high)
qed

lemma le32_le32_bytes [simp]: "le32 (le32_bytes w @ rest) = w"
proof -
  have b: "bit (le32 (le32_bytes w @ rest)) (8 * q + r) = bit w (8 * q + r)" if "q < 4" "r < 8" for q r
  proof -
    have high: "\<not> bit (x :: uint8) n" if "8 \<le> n" for x n
      using that bit_imp_less_length[of x n] by auto
    from \<open>q < 4\<close> have "q = 0 \<or> q = 1 \<or> q = 2 \<or> q = 3" by arith
    with \<open>r < 8\<close> show ?thesis
      by (elim disjE) (simp_all add: le32_def le32_bytes_def upt_rec bit_simps high)
  qed
  show ?thesis
  proof (rule word_eq_by_bits)
    fix n :: nat
    assume "n < LENGTH(32)"
    then have "n = 8 * (n div 8) + n mod 8" "n div 8 < 4" "n mod 8 < 8" by auto
    then show "bit (le32 (le32_bytes w @ rest)) n = bit w n" using b by metis
  qed
qed

lemma le32_le32_bytes' [simp]: "le32 (le32_bytes w) = w"
  using le32_le32_bytes[of w "[]"] by simp

end
