(* ===== verification/Iop_Disk.thy ===== *)
theory Iop_Disk
  imports Iop_Devices Host_File
begin

text \<open>
  The disk unit of the I/O processor: class \<open>IopDiskDD29_c\<close> of \<^verbatim>\<open>sim_lib/iop_disk.h\<close> and
  \<^verbatim>\<open>.cpp\<close>. The disk image is a host file; the constructor creates it, so it exists. The status
  report, logging and debug events are left out.
\<close>

datatype Operations_e = Operation_Read | Operation_Write | Operation_Format | Operation_Idle

record IopDiskDD29_c =
  dkReadOnly :: bool
  dkNumHeads :: nat
  dkNumSectors :: nat
  dkNumTracks :: nat
  dkSectorSize :: nat
  dkIoMemoryAddr :: IopInt
  dkCurrentHead :: nat
  dkCurrentSector :: nat
  dkCurrentTrack :: nat
  dkDone :: bool
  dkOperation :: Operations_e
  dkInterruptEnabled :: bool
  dkMounted :: bool
  dkBufferEchoMode :: bool
  dkStatusResponseRegister :: IopInt
  dkBufferAB :: "nat \<Rightarrow> IopInt"  \<comment> \<open>512 parcels\<close>
  dkReads :: nat
  dkWrites :: nat
  dkImage :: host_file

record disk_state =
  dkUnit :: IopDiskDD29_c
  dkIoMemory :: memory

abbreviation upd_dk :: "(IopDiskDD29_c \<Rightarrow> IopDiskDD29_c) \<Rightarrow> disk_state \<Rightarrow> disk_state" where
  "upd_dk f s \<equiv> s\<lparr>dkUnit := f (dkUnit s)\<rparr>"

definition DK_MasterClear :: "IopDiskDD29_c \<Rightarrow> IopDiskDD29_c" where
  "DK_MasterClear d = d\<lparr>dkDone := False, dkOperation := Operation_Idle, dkInterruptEnabled := True,
     dkIoMemoryAddr := 0, dkCurrentHead := 0, dkCurrentSector := 0, dkCurrentTrack := 0,
     dkMounted := False, dkStatusResponseRegister := 0, dkBufferEchoMode := True\<rparr>"

definition DK_new :: "bool \<Rightarrow> nat \<Rightarrow> nat \<Rightarrow> nat \<Rightarrow> nat \<Rightarrow> host_file option \<Rightarrow> IopDiskDD29_c option" where
  "DK_new ReadOnly Heads Sectors Tracks SectorSize ImageFile =
     (if Heads = 0 \<or> Sectors = 0 \<or> Tracks = 0 \<or> SectorSize = 0 then None
      else Some (DK_MasterClear \<lparr>dkReadOnly = ReadOnly, dkNumHeads = Heads, dkNumSectors = Sectors,
        dkNumTracks = Tracks, dkSectorSize = SectorSize, dkIoMemoryAddr = 0, dkCurrentHead = 0,
        dkCurrentSector = 0, dkCurrentTrack = 0, dkDone = False, dkOperation = Operation_Idle,
        dkInterruptEnabled = False, dkMounted = False, dkBufferEchoMode = False,
        dkStatusResponseRegister = 0, dkBufferAB = (\<lambda>_. 0), dkReads = 0, dkWrites = 0,
        dkImage = (case ImageFile of Some f \<Rightarrow> f
          | None \<Rightarrow> file_write (Heads * Sectors * Tracks * SectorSize - 2) (le16_bytes 0) [])\<rparr>))"

section \<open>Sector transfers\<close>

text \<open>\<open>ImageOffset\<close> of the reads and writes, and of the formatting, in \<open>ExecOperation\<close>.\<close>

definition ImageOffset :: "IopDiskDD29_c \<Rightarrow> nat" where
  "ImageOffset d = dkSectorSize d *
     (dkCurrentTrack d * dkNumHeads d * dkNumSectors d + dkCurrentHead d * dkNumSectors d + dkCurrentSector d)"

definition FormatOffset :: "IopDiskDD29_c \<Rightarrow> nat" where
  "FormatOffset d = dkSectorSize d *
     (dkCurrentTrack d * dkNumHeads d * dkNumSectors d + dkCurrentSector d * dkNumHeads d + dkCurrentHead d)"

text \<open>One parcel to or from the I/O memory; the address register advances and wraps at 16 bits.\<close>

definition DK_put_parcel :: "IopInt \<Rightarrow> disk_state \<Rightarrow> disk_state" where
  "DK_put_parcel IopData s =
     (let a = dkIoMemoryAddr (dkUnit s)
      in upd_dk (dkIoMemoryAddr_update (\<lambda>_. a + 1))
           (s\<lparr>dkIoMemory := IoMemWrite16 (unat a) IopData (dkIoMemory s)\<rparr>))"

definition DK_get_parcel :: "disk_state \<Rightarrow> IopInt \<times> disk_state" where
  "DK_get_parcel s =
     (let a = dkIoMemoryAddr (dkUnit s)
      in (IoMemRead16 (unat a) (dkIoMemory s), upd_dk (dkIoMemoryAddr_update (\<lambda>_. a + 1)) s))"

text \<open>
  The body of the read loop, for the word at \<open>8 * i\<close> of the sector: a short read sets the
  end-of-file state, which the code asserts against.
\<close>

definition DK_read_word :: "nat \<Rightarrow> nat \<Rightarrow> (disk_state, unit) exec" where
  "DK_read_word ofs i s =
     (let bs = file_read (ofs + 8 * i) 8 (dkImage (dkUnit s)) in
      if length bs < 8 then (Inl AssertError, s)
      else
        (let Data = word_of_bytes bs
         in (Inr (), for_loop 0 4 (\<lambda>Idx. DK_put_parcel (SwapBytes16 (ucast (drop_bit (16 * Idx) Data)))) s)))"

text \<open>The body of the write loop: four parcels are collected and written as eight bytes.\<close>

definition DK_collect :: "disk_state \<Rightarrow> uint8 list \<times> disk_state" where
  "DK_collect s = for_loop 0 4 (\<lambda>Idx (bs, s). let (p, s) = DK_get_parcel s
      in (bs @ le16_bytes (SwapBytes16 p), s)) ([], s)"

definition DK_write_word :: "nat \<Rightarrow> nat \<Rightarrow> (disk_state, unit) exec" where
  "DK_write_word ofs i s =
     (let (bs, s) = DK_collect s
      in (Inr (), upd_dk (dkImage_update (file_write (ofs + 8 * i) bs)) s))"

definition DK_format_parcel :: "nat \<Rightarrow> nat \<Rightarrow> (disk_state, unit) exec" where
  "DK_format_parcel ofs i s =
     (Inr (), upd_dk (\<lambda>d. d\<lparr>dkImage := file_write (ofs + 2 * i) (le16_bytes 0) (dkImage d),
        dkIoMemoryAddr := dkIoMemoryAddr d + 1\<rparr>) s)"

text \<open>The copies between the echo buffer and the I/O memory.\<close>

definition DK_echo_read :: "disk_state \<Rightarrow> disk_state" where
  "DK_echo_read s =
     (let a = unat (dkIoMemoryAddr (dkUnit s));
          s = s\<lparr>dkIoMemory := for_loop 0 512
            (\<lambda>k. IoMemWrite16 (a + k) (dkBufferAB (dkUnit s) k)) (dkIoMemory s)\<rparr>
      in upd_dk (dkIoMemoryAddr_update (\<lambda>a. a + 512)) s)"

definition DK_echo_write :: "disk_state \<Rightarrow> disk_state" where
  "DK_echo_write s =
     (let a = unat (dkIoMemoryAddr (dkUnit s));
          s = upd_dk (dkBufferAB_update (\<lambda>b. for_loop 0 512
            (\<lambda>k b. b(k := IoMemRead16 (a + k) (dkIoMemory s))) b)) s
      in upd_dk (dkIoMemoryAddr_update (\<lambda>a. a + 512)) s)"

definition DK_finish :: "disk_state \<Rightarrow> disk_state" where
  "DK_finish s = upd_dk (\<lambda>d. d\<lparr>dkDone := True, dkOperation := Operation_Idle\<rparr>) s"

definition DK_ExecOperation :: "(disk_state, unit) exec" where
  "DK_ExecOperation s =
     (let d = dkUnit s; ofs = ImageOffset d in
      if dkBufferEchoMode d then
        (case dkOperation d of
           Operation_Idle \<Rightarrow> (Inr (), s)
         | Operation_Read \<Rightarrow> (Inr (), DK_finish (DK_echo_read s))
         | Operation_Write \<Rightarrow> (Inr (), DK_finish (DK_echo_write s))
         | Operation_Format \<Rightarrow> (Inr (), DK_finish (DK_echo_write s)))
      else
        (case dkOperation d of
           Operation_Idle \<Rightarrow> (Inr (), s)
         | Operation_Read \<Rightarrow>
             if \<not> dkMounted d \<or> dkDone d then (Inl AssertError, s)
             else bindE (forE [0..<dkSectorSize d div 8] (DK_read_word ofs)) (\<lambda>_ s. (Inr (), DK_finish s))
               (upd_dk (dkReads_update (\<lambda>n. n + dkSectorSize d div 1024)) s)
         | Operation_Write \<Rightarrow>
             if \<not> dkMounted d \<or> dkDone d \<or> dkReadOnly d then (Inl AssertError, s)
             else bindE (forE [0..<dkSectorSize d div 8] (DK_write_word ofs)) (\<lambda>_ s. (Inr (), DK_finish s))
               (upd_dk (dkWrites_update (\<lambda>n. n + dkSectorSize d div 1024)) s)
         | Operation_Format \<Rightarrow>
             if \<not> dkMounted d \<or> dkDone d \<or> dkReadOnly d then (Inl AssertError, s)
             else bindE (forE [0..<dkSectorSize d div 2] (DK_format_parcel (FormatOffset d)))
               (\<lambda>_ s. (Inr (), DK_finish s)) s))"

section \<open>The channel functions\<close>

text \<open>Function 1 by the upper bits of the parameter, and the registers that code 7 selects.\<close>

definition DK_set_status :: "IopInt \<Rightarrow> IopDiskDD29_c \<Rightarrow> IopDiskDD29_c" where
  "DK_set_status v d = d\<lparr>dkStatusResponseRegister := v, dkOperation := Operation_Idle, dkDone := True\<rparr>"

definition DK_read_register :: "IopInt \<Rightarrow> IopDiskDD29_c \<Rightarrow> IopDiskDD29_c" where
  "DK_read_register r d =
     (if r = 0 then DK_set_status (of_nat (dkCurrentTrack d)) d
      else if r = 1 then
        DK_set_status
          (if dkMounted d then
             (of_nat (dkCurrentHead d) AND 0xf) OR push_bit 5 1 OR
             (if dkNumHeads d * dkNumSectors d * dkNumTracks d * dkSectorSize d > 600000000
              then push_bit 6 1 else 0)
           else 0) d
      else if r = 2 \<or> r = 3 then DK_set_status 0 d
      else d)"

definition DK_SelectMode :: "IopInt \<Rightarrow> (disk_state, unit) exec" where
  "DK_SelectMode aData s =
     (let idle = (\<lambda>d :: IopDiskDD29_c. d\<lparr>dkOperation := Operation_Idle, dkDone := True\<rparr>);
          code = unat (drop_bit 9 (aData AND 0xfe00));
          s = upd_dk (dkBufferEchoMode_update (\<lambda>_. False)) s in
      if code = 4 then (Inl AssertError, s)
      else
        (Inr (), upd_dk (dkIoMemoryAddr_update (\<lambda>_. drop_bit 2 aData))
          (if code = 0 then upd_dk (\<lambda>d. idle (d\<lparr>dkMounted := False\<rparr>)) s
           else if code = 1 then upd_dk (\<lambda>d. idle (d\<lparr>dkMounted := True, dkCurrentHead := 0\<rparr>)) s
           else if code = 2 then upd_dk idle s
           else if code = 3 then upd_dk (\<lambda>d. idle (d\<lparr>dkCurrentTrack := 0\<rparr>)) s
           else if code = 5 then upd_dk (\<lambda>d. DK_set_status (of_nat (dkCurrentSector d)) d) s
           else if code = 6 then upd_dk (DK_set_status 0) s
           else if code = 7 then upd_dk (DK_read_register (aData AND 0x1ff)) s
           else s)))"

definition DK_DoIo :: "nat \<Rightarrow> IopInt \<Rightarrow> (disk_state, IopInt) exec" where
  "DK_DoIo aFunction aData s =
     (if aFunction = 0 then (Inr 0, upd_dk (\<lambda>d. d\<lparr>dkOperation := Operation_Idle, dkDone := False\<rparr>) s)
      else if aFunction = 1 then bindE (DK_SelectMode aData) (\<lambda>_. returnE 0) s
      else if aFunction = 2 then
        (if \<not> (dkMounted (dkUnit s) \<or> dkBufferEchoMode (dkUnit s)) then (Inl AssertError, s)
         else if aData AND 0xe0 \<noteq> 0 then (Inl AssertError, s)
         else bindE DK_ExecOperation (\<lambda>_. returnE 0)
           (upd_dk (\<lambda>d. d\<lparr>dkCurrentSector := unat (aData AND 0x1f), dkOperation := Operation_Read,
              dkDone := False\<rparr>) s))
      else if aFunction = 3 then
        (if \<not> (dkMounted (dkUnit s) \<or> dkBufferEchoMode (dkUnit s)) then (Inl AssertError, s)
         else bindE DK_ExecOperation (\<lambda>_. returnE 0)
           (upd_dk (\<lambda>d. d\<lparr>dkCurrentSector := unat (aData AND 0x1f),
              dkOperation := (if aData AND 0xe0 = 0 then Operation_Write else Operation_Format),
              dkDone := False\<rparr>) s))
      else if aFunction = 4 then
        (Inr 0, upd_dk (\<lambda>d. d\<lparr>dkMounted := True, dkCurrentHead := unat aData\<rparr>) s)
      else if aFunction = 5 then
        (Inr 0, upd_dk (\<lambda>d. d\<lparr>dkCurrentTrack := unat aData, dkOperation := Operation_Idle,
          dkStatusResponseRegister := of_nat (unat aData * 2 ^ 5), dkDone := True\<rparr>) s)
      else if aFunction = 6 then (Inr 0, upd_dk (dkInterruptEnabled_update (\<lambda>_. False)) s)
      else if aFunction = 7 then (Inr 0, upd_dk (dkInterruptEnabled_update (\<lambda>_. True)) s)
      else if aFunction = 8 then (Inr (dkIoMemoryAddr (dkUnit s)), s)
      else if aFunction = 9 then (Inr (dkStatusResponseRegister (dkUnit s)), s)
      else if aFunction = 12 then (Inr 0, upd_dk (dkIoMemoryAddr_update (\<lambda>_. aData)) s)
      else if aFunction = 13 then (Inr 0, upd_dk (dkStatusResponseRegister_update (\<lambda>_. aData)) s)
      else (Inr 0, s))"

definition DK_GetBusy :: "IopDiskDD29_c \<Rightarrow> bool" where
  "DK_GetBusy d \<longleftrightarrow> dkOperation d \<noteq> Operation_Idle"

definition DK_GetInterrupt :: "IopDiskDD29_c \<Rightarrow> bool" where
  "DK_GetInterrupt d \<longleftrightarrow> dkInterruptEnabled d \<and> dkDone d"

end
