(* ===== verification/Console.thy ===== *)
theory Console
  imports Cray_Prelude
begin

text \<open>
  The terminal connection of \<^verbatim>\<open>sim_lib/console.h\<close> and \<^verbatim>\<open>.cpp\<close>, and the console channels of
  \<^verbatim>\<open>sim_lib/iop_console.h\<close> and \<^verbatim>\<open>.cpp\<close> that stand on it. The socket is the environment: a
  received byte is a call of \<open>ReadHandler\<close>, the completion of a write a call of
  \<open>WriteHandler\<close>, and the two directions meet the program in \<open>mReceiveBuf\<close> and
  \<open>mTransmitQueue\<close>. Opening sockets, starting terminal programs and the log file are left
  out, and so is the polling of the host's event loop.
\<close>

type_synonym bytes = "uint8 list"

section \<open>Telnet negotiation\<close>

datatype TelnetStates_e = WaitIAC | WaitAction | WaitOption

record TelnetOptions_s =
  optDo :: bool
  optWill :: bool
  optOutstandingDoDont :: bool
  optOutstandingWillWont :: bool

record Console_c =
  conReceiveBuf :: uint8
  conReceiveFull :: bool
  conTransmitQueue :: "(bytes \<times> bool) list"
  conPollCnt :: nat
  conTelnetOptions :: "uint8 \<Rightarrow> TelnetOptions_s"
  conTelnetState :: TelnetStates_e
  conTelnetAction :: uint8
  conEatLF :: bool
  conEatNull :: bool
  conMapBackspace :: bool
  conBackspaceChar :: uint8

definition tcIAC :: uint8 where "tcIAC = 255"
definition tcDONT :: uint8 where "tcDONT = 254"
definition tcDO :: uint8 where "tcDO = 253"
definition tcWONT :: uint8 where "tcWONT = 252"
definition tcWILL :: uint8 where "tcWILL = 251"
definition tcNOP :: uint8 where "tcNOP = 241"

lemmas telnet_codes = tcIAC_def tcDONT_def tcDO_def tcWONT_def tcWILL_def tcNOP_def

definition optOPT_ECHO :: uint8 where "optOPT_ECHO = 1"
definition optSGA :: uint8 where "optSGA = 3"

definition SendStringInternal :: "bytes \<Rightarrow> bool \<Rightarrow> Console_c \<Rightarrow> Console_c" where
  "SendStringInternal aData aDoNotify c =
     c\<lparr>conTransmitQueue := conTransmitQueue c @ [(aData, aDoNotify)]\<rparr>"

text \<open>The constructor of \<open>std::string\<close> from a C string stops at the first zero byte.\<close>

definition c_string :: "bytes \<Rightarrow> bytes" where
  "c_string bs = takeWhile (\<lambda>b. b \<noteq> 0) bs"

definition upd_option :: "uint8 \<Rightarrow> (TelnetOptions_s \<Rightarrow> TelnetOptions_s) \<Rightarrow> Console_c \<Rightarrow> Console_c" where
  "upd_option aOption f c =
     c\<lparr>conTelnetOptions := (conTelnetOptions c)(aOption := f (conTelnetOptions c aOption))\<rparr>"

definition SendOptionString :: "uint8 \<Rightarrow> uint8 \<Rightarrow> bool \<Rightarrow> (Console_c, unit) exec" where
  "SendOptionString aAction aOption aRequest c =
     (let c = SendStringInternal (c_string [tcIAC, aAction, aOption, 0]) False c in
      if aAction = tcDO \<or> aAction = tcDONT then
        (Inr (), upd_option aOption (\<lambda>t. t\<lparr>optOutstandingDoDont := aRequest, optOutstandingWillWont := False\<rparr>) c)
      else if aAction = tcWILL \<or> aAction = tcWONT then
        (Inr (), upd_option aOption (\<lambda>t. t\<lparr>optOutstandingDoDont := False, optOutstandingWillWont := aRequest\<rparr>) c)
      else (Inl AssertError, c))"

text \<open>
  The answer to a request: the reply code, whether an outstanding request of our own
  suppresses it, and the new state of the option. \<open>supported\<close> tells the options \<open>OPT_ECHO\<close>
  and \<open>SGA\<close> from the others.
\<close>

definition supported :: "uint8 \<Rightarrow> bool" where
  "supported opt \<longleftrightarrow> opt = optOPT_ECHO \<or> opt = optSGA"

definition answer_option ::
    "uint8 \<Rightarrow> (TelnetOptions_s \<Rightarrow> bool) \<Rightarrow> bool \<Rightarrow> bool \<Rightarrow> uint8 \<Rightarrow> (Console_c, unit) exec" where
  "answer_option reply outstanding do will opt c =
     bindE (if \<not> outstanding (conTelnetOptions c opt) then SendOptionString reply opt False else returnE ())
       (\<lambda>_ c. (Inr (), upd_option opt (\<lambda>_. \<lparr>optDo = do, optWill = will,
          optOutstandingDoDont = False, optOutstandingWillWont = False\<rparr>) c)) c"

definition HandleOption :: "uint8 \<Rightarrow> uint8 \<Rightarrow> (Console_c, unit) exec" where
  "HandleOption action opt c =
     (if action = tcDO then
        answer_option (if supported opt then tcWILL else tcWONT) optOutstandingWillWont True (supported opt) opt c
      else if action = tcDONT then
        answer_option (if supported opt then tcWILL else tcWONT) optOutstandingWillWont False (supported opt) opt c
      else if action = tcWILL then
        answer_option (if supported opt then tcDO else tcDONT) optOutstandingDoDont (supported opt) True opt c
      else if action = tcWONT then
        answer_option (if supported opt then tcDO else tcDONT) optOutstandingDoDont (supported opt) False opt c
      else (Inl AssertError, c))"

text \<open>\<open>ReadHandler\<close> without an error, for the received byte; it ends with the byte kept or dropped.\<close>

definition ReadHandler :: "uint8 \<Rightarrow> (Console_c, unit) exec" where
  "ReadHandler b c =
     (if conReceiveFull c then (Inl AssertError, c)
      else
        (let c = c\<lparr>conReceiveBuf := b\<rparr> in
         case conTelnetState c of
           WaitIAC \<Rightarrow>
             (if b = tcIAC then (Inr (), c\<lparr>conTelnetState := WaitAction, conReceiveFull := False\<rparr>)
              else
                (let full = \<not> (conEatLF c \<and> b = 0x0a) \<and> \<not> (conEatNull c \<and> b = 0);
                     c = (if conMapBackspace c \<and> (b = 0x08 \<or> b = 0x7f)
                          then c\<lparr>conReceiveBuf := conBackspaceChar c\<rparr> else c)
                 in (Inr (), c\<lparr>conTelnetState := WaitIAC, conReceiveFull := full\<rparr>)))
         | WaitAction \<Rightarrow>
             (let c = c\<lparr>conTelnetAction := b\<rparr> in
              if b = tcDO \<or> b = tcDONT \<or> b = tcWILL \<or> b = tcWONT then
                (Inr (), c\<lparr>conTelnetState := WaitOption, conReceiveFull := False\<rparr>)
              else if b = tcNOP then (Inr (), c\<lparr>conTelnetState := WaitIAC, conReceiveFull := False\<rparr>)
              else (Inr (), c\<lparr>conTelnetState := WaitIAC, conReceiveFull := True\<rparr>))
         | WaitOption \<Rightarrow>
             bindE (HandleOption (conTelnetAction c) b)
               (\<lambda>_ c. (Inr (), c\<lparr>conTelnetState := WaitIAC, conReceiveFull := False\<rparr>)) c))"

definition GetChar :: "(Console_c, uint8) exec" where
  "GetChar c =
     (if \<not> conReceiveFull c then (Inl AssertError, c)
      else (Inr (conReceiveBuf c), c\<lparr>conReceiveFull := False\<rparr>))"

text \<open>\<open>CloseSocket\<close> after an error: the pending character is zeroed but stays pending.\<close>

definition CloseSocket :: "Console_c \<Rightarrow> Console_c" where
  "CloseSocket c = c\<lparr>conReceiveBuf := 0,
     conTelnetOptions := (\<lambda>_. \<lparr>optDo = False, optWill = False, optOutstandingDoDont = False,
        optOutstandingWillWont = False\<rparr>)\<rparr>"

text \<open>\<open>AcceptHandler\<close>: what a new connection is sent first.\<close>

definition AcceptHandler :: "(Console_c, unit) exec" where
  "AcceptHandler c =
     bindE (SendOptionString tcWILL optOPT_ECHO True) (\<lambda>_.
       bindE (SendOptionString tcWILL optSGA True) (\<lambda>_.
         SendOptionString tcWONT 34 True)) c"

section \<open>The output channel\<close>

text \<open>
  \<open>ChannelTO_c::DoIo\<close> translates the escape sequences of the Cray's terminals to those of
  ANSI terminals; \<open>toEscSequence\<close> is the sequence read so far.
\<close>

record ChannelTO_c =
  toDone :: bool
  toBusy :: bool
  toInterruptEnabled :: bool
  toEscSequence :: bytes

record ChannelTI_c =
  tiDone :: bool
  tiInterruptEnabled :: bool

record IopConsole_c =
  icTO :: ChannelTO_c
  icTI :: ChannelTI_c
  icConsole :: Console_c

abbreviation upd_TO :: "(ChannelTO_c \<Rightarrow> ChannelTO_c) \<Rightarrow> IopConsole_c \<Rightarrow> IopConsole_c" where
  "upd_TO f c \<equiv> c\<lparr>icTO := f (icTO c)\<rparr>"

definition ascii :: "string \<Rightarrow> bytes" where
  "ascii s = map (\<lambda>ch. of_nat (of_char ch :: nat)) s"

text \<open>Signed decimal numbers as \<open>std::stringstream\<close> prints them.\<close>

fun dec_digits :: "nat \<Rightarrow> bytes" where
  "dec_digits n = (if n < 10 then [of_nat (48 + n)] else dec_digits (n div 10) @ [of_nat (48 + n mod 10)])"

definition dec_string :: "int \<Rightarrow> bytes" where
  "dec_string i = (if i < 0 then 45 # dec_digits (nat (- i)) else dec_digits (nat i))"

definition esc :: "string \<Rightarrow> bytes" where
  "esc s = 0x1b # ascii s"

definition TO_MasterClear :: "ChannelTO_c \<Rightarrow> ChannelTO_c" where
  "TO_MasterClear ch = ch\<lparr>toDone := False, toBusy := False, toInterruptEnabled := True\<rparr>"

definition TO_SetDone :: "IopConsole_c \<Rightarrow> IopConsole_c" where
  "TO_SetDone c = upd_TO (\<lambda>ch. ch\<lparr>toBusy := False, toDone := True\<rparr>) c"

definition TO_Send :: "bytes \<Rightarrow> IopConsole_c \<Rightarrow> IopConsole_c" where
  "TO_Send aStr c =
     (let c = upd_TO (\<lambda>ch. ch\<lparr>toBusy := True, toDone := False\<rparr>) c
      in c\<lparr>icConsole := SendStringInternal aStr True (icConsole c)\<rparr>)"

text \<open>\<open>Send(char)\<close> goes through a C string, which is empty for the character zero.\<close>

definition TO_SendChar :: "uint8 \<Rightarrow> IopConsole_c \<Rightarrow> IopConsole_c" where
  "TO_SendChar aCh c = TO_Send (c_string [aCh, 0]) c"

definition push_esc :: "uint8 \<Rightarrow> IopConsole_c \<Rightarrow> IopConsole_c" where
  "push_esc Ch c = upd_TO (\<lambda>ch. ch\<lparr>toEscSequence := toEscSequence ch @ [Ch]\<rparr>) c"

definition clear_esc :: "IopConsole_c \<Rightarrow> IopConsole_c" where
  "clear_esc c = upd_TO (\<lambda>ch. ch\<lparr>toEscSequence := []\<rparr>) c"

definition flush_esc :: "uint8 \<Rightarrow> IopConsole_c \<Rightarrow> IopConsole_c" where
  "flush_esc Ch c =
     (let c = push_esc Ch c; c = TO_Send (toEscSequence (icTO c)) c in clear_esc c)"

text \<open>The sequences of two characters, and the line graphics after \<open>ESC G\<close>.\<close>

definition control_codes :: "(uint8 \<times> bytes) list" where
  "control_codes =
     [(84, esc ''[0K''), (42, esc ''[2J''), (82, esc ''[1M''), (106, esc ''[7m''), (107, esc ''[27m''),
      (110, esc ''[5m''), (111, esc ''[25m'')]"

definition graphics_codes :: "(uint8 \<times> bytes) list" where
  "graphics_codes =
     (let g = (\<lambda>ch. esc ''(0'' @ [ch] @ esc ''(B'') in
      [(65, g 0x6c), (66, g 0x6b), (67, g 0x6d), (68, g 0x6a), (69, g 0x77), (70, g 0x75),
       (71, g 0x74), (72, g 0x76), (73, g 0x71), (74, g 0x78), (75, g 0x6e)])"

definition TO_char :: "uint8 \<Rightarrow> IopConsole_c \<Rightarrow> IopConsole_c" where
  "TO_char Ch c =
     (case toEscSequence (icTO c) of
        [] \<Rightarrow>
          (if Ch = 0x1b then TO_SetDone (push_esc Ch c)
           else if Ch = 0x0c then TO_Send (esc ''[1C'') c
           else if Ch = 0x7f then TO_SetDone c
           else TO_SendChar Ch c)
      | [_] \<Rightarrow>
          (case map_of control_codes Ch of
             Some s \<Rightarrow> TO_Send s (clear_esc c)
           | None \<Rightarrow>
               if Ch = 61 \<or> Ch = 71 then TO_SetDone (push_esc Ch c) else flush_esc Ch c)
      | [_, e1] \<Rightarrow>
          (if e1 = 71 then
             (case map_of graphics_codes Ch of
                Some s \<Rightarrow> TO_Send s (clear_esc c)
              | None \<Rightarrow> flush_esc Ch c)
           else if e1 = 61 then TO_SetDone (push_esc Ch c)
           else flush_esc Ch c)
      | [_, _, e2] \<Rightarrow>
          clear_esc (TO_Send (esc ''['' @ dec_string (sint e2 - 32 + 1) @ ascii '';'' @
            dec_string (sint Ch - 32 + 1) @ ascii ''H'') (push_esc Ch c))
      | _ \<Rightarrow> flush_esc Ch c)"

definition TO_DoIo :: "nat \<Rightarrow> uint16 \<Rightarrow> IopConsole_c \<Rightarrow> uint16 \<times> IopConsole_c" where
  "TO_DoIo aFunction aData c =
     (if aFunction = 0 then (0, upd_TO (\<lambda>ch. ch\<lparr>toBusy := False, toDone := False\<rparr>) c)
      else if aFunction = 6 then (0, upd_TO (toInterruptEnabled_update (\<lambda>_. False)) c)
      else if aFunction = 7 then (0, upd_TO (toInterruptEnabled_update (\<lambda>_. True)) c)
      else if aFunction = 12 then
        (0, if toBusy (icTO c) then c else TO_char (ucast (aData AND 0x7f)) c)
      else (0, c))"

definition TO_GetInterrupt :: "ChannelTO_c \<Rightarrow> bool" where
  "TO_GetInterrupt ch \<longleftrightarrow> toInterruptEnabled ch \<and> toDone ch"

text \<open>\<open>WriteHandler\<close> without an error: the head of the queue has been sent.\<close>

definition WriteHandler :: "IopConsole_c \<Rightarrow> IopConsole_c" where
  "WriteHandler c =
     (case conTransmitQueue (icConsole c) of
        [] \<Rightarrow> c
      | (_, DoNotify) # q \<Rightarrow>
          (let c = c\<lparr>icConsole := (icConsole c)\<lparr>conTransmitQueue := q\<rparr>\<rparr>
           in if DoNotify then TO_SetDone c else c))"

section \<open>The input channel\<close>

abbreviation upd_TI :: "(ChannelTI_c \<Rightarrow> ChannelTI_c) \<Rightarrow> IopConsole_c \<Rightarrow> IopConsole_c" where
  "upd_TI f c \<equiv> c\<lparr>icTI := f (icTI c)\<rparr>"

definition TI_MasterClear :: "ChannelTI_c \<Rightarrow> ChannelTI_c" where
  "TI_MasterClear ch = ch\<lparr>tiDone := False, tiInterruptEnabled := True\<rparr>"

definition TI_DoIo :: "nat \<Rightarrow> uint16 \<Rightarrow> (IopConsole_c, uint16) exec" where
  "TI_DoIo aFunction aData c =
     (if aFunction = 0 then (Inr 0, upd_TI (tiDone_update (\<lambda>_. False)) c)
      else if aFunction = 6 then (Inr 0, upd_TI (tiInterruptEnabled_update (\<lambda>_. False)) c)
      else if aFunction = 7 then (Inr 0, upd_TI (tiInterruptEnabled_update (\<lambda>_. True)) c)
      else if aFunction = 8 then
        (if \<not> tiDone (icTI c) then (Inr 0, c)
         else case GetChar (icConsole c) of
           (Inl e, con) \<Rightarrow> (Inl e, c\<lparr>icConsole := con\<rparr>)
         | (Inr Data, con) \<Rightarrow>
             (Inr (ucast Data AND 0x7f), upd_TI (tiDone_update (\<lambda>_. False)) (c\<lparr>icConsole := con\<rparr>)))
      else (Inr 0, c))"

definition TI_GetInterrupt :: "ChannelTI_c \<Rightarrow> bool" where
  "TI_GetInterrupt ch \<longleftrightarrow> tiInterruptEnabled ch \<and> tiDone ch"

text \<open>
  \<open>Console_c::Tick\<close> with \<open>ReceiveHandlerDetail\<close> of the console channels, which sets the input
  done and ends the loop.
\<close>

definition Console_Tick :: "IopConsole_c \<Rightarrow> IopConsole_c" where
  "Console_Tick c =
     (let c = c\<lparr>icConsole := (icConsole c)\<lparr>conPollCnt := conPollCnt (icConsole c) + 1\<rparr>\<rparr> in
      if conPollCnt (icConsole c) > 1000 then
        (let c = (if conReceiveFull (icConsole c) then upd_TI (tiDone_update (\<lambda>_. True)) c else c)
         in c\<lparr>icConsole := (icConsole c)\<lparr>conPollCnt := 0\<rparr>\<rparr>)
      else c)"

end
