(* ===== verification/Iop_State.thy ===== *)
theory Iop_State
  imports Iop_Disk Console
begin

text \<open>
  An I/O processor and the cluster that connects several of them: the state of \<open>IopCpu_c\<close>
  (\<^verbatim>\<open>sim_lib/cray_iop.h\<close>), of \<open>IopIopChannel_c\<close> (\<^verbatim>\<open>sim_lib/iop_iop2iop.h\<close>), of
  \<open>IopCrayChannel_c\<close> (\<^verbatim>\<open>sim_lib/iop_iop2cray.h\<close>) and of \<open>IopCluster_c\<close>
  (\<^verbatim>\<open>sim_lib/iop_cluster.h\<close>), with the channel operations that reach another processor or the
  mainframe. The vector \<open>mIoChannels\<close> of pointers is a list of slots; a slot names a built-in
  channel of the processor, holds the record of a peripheral with one channel, or names an end
  of a link or a console by its index. Expanders, block multiplexers and concentrators are not
  installed.
\<close>

section \<open>State\<close>

record IopCrayChannel_c =
  ccIoMemoryAddr :: IopInt
  ccTransferSize :: IopInt
  ccAllowItoC :: bool
  ccAllowCtoI :: bool
  ccDone :: bool
  ccItoCActive :: bool
  ccCtoIActive :: bool
  ccInterruptEnabled :: bool
  ccHoldDisconnect :: bool
  ccReadyWaiting :: bool
  ccMsgBuffer :: "CInt_t list"
  ccCrayChannel :: nat  \<comment> \<open>the index of the mainframe side in \<open>mChannels\<close>\<close>

datatype iop_slot = SlotIOR | SlotPFR | SlotPXS | SlotLME | SlotRTC | SlotMOS
  | SlotERA ChannelERA_c | SlotHost ChannelHostMemory_c | SlotDisk IopDiskDD29_c
  | SlotCray IopCrayChannel_c | SlotAI nat | SlotAO nat | SlotTI nat | SlotTO nat

record IopCpu_c =
  iopA :: IopInt
  iopCarry :: IopInt
  iopB :: IopInt
  iopP :: IopInt
  iopOR :: "nat \<Rightarrow> IopInt"
  iopI :: IopInt
  iopISetIsWaiting :: bool
  iopInReset :: bool
  iopPFR :: ChannelPFR_c
  iopPXS :: ChannelPXS_c
  iopRTC :: ChannelRTC_c
  iopMOS :: ChannelMOS_c
  iopIoMemory :: memory
  iopIoChannels :: "iop_slot option list"
  iopConsoles :: "IopConsole_c list"
  iopInstCnt :: uint64
  iopInstructionBurstSize :: nat

text \<open>A link from a source to a destination processor, with both of its ends.\<close>

record IopIopChannel_c =
  lkSrcIop :: nat
  lkDstIop :: nat
  lkData :: IopInt
  lkDataValid :: bool
  lkThrottle :: nat
  lkAIInterruptEnabled :: bool
  lkAODone :: bool
  lkAOResetStalling :: bool
  lkAOInterruptEnabled :: bool
  lkAOCtrlReg :: IopInt
  lkAOThrottleCnt :: nat

record IopCluster_c =
  clIops :: "IopCpu_c list"
  clLinks :: "IopIopChannel_c list"
  clBufferMemory :: memory
  clBufferSize :: nat
  clMainframe :: mainframe
  clCpuMasterClears :: "bool list"  \<comment> \<open>the calls of \<open>Mainframe_c::CpuMasterClear\<close>, in order\<close>
  clStartupIopIdx :: nat
  clIopTickIdx :: nat

abbreviation iop :: "nat \<Rightarrow> IopCluster_c \<Rightarrow> IopCpu_c" where
  "iop n c \<equiv> clIops c ! n"

definition upd_iop :: "nat \<Rightarrow> (IopCpu_c \<Rightarrow> IopCpu_c) \<Rightarrow> IopCluster_c \<Rightarrow> IopCluster_c" where
  "upd_iop n f c = c\<lparr>clIops := (clIops c)[n := f (clIops c ! n)]\<rparr>"

definition upd_link :: "nat \<Rightarrow> (IopIopChannel_c \<Rightarrow> IopIopChannel_c) \<Rightarrow> IopCluster_c \<Rightarrow> IopCluster_c" where
  "upd_link l f c = c\<lparr>clLinks := (clLinks c)[l := f (clLinks c ! l)]\<rparr>"

definition upd_slot :: "nat \<Rightarrow> nat \<Rightarrow> iop_slot \<Rightarrow> IopCluster_c \<Rightarrow> IopCluster_c" where
  "upd_slot n i sl c = upd_iop n (\<lambda>p. p\<lparr>iopIoChannels := (iopIoChannels p)[i := Some sl]\<rparr>) c"

lemma upd_iop_simps [simp]:
  "length (clIops (upd_iop n f c)) = length (clIops c)" "clLinks (upd_iop n f c) = clLinks c"
  "clBufferMemory (upd_iop n f c) = clBufferMemory c" "clBufferSize (upd_iop n f c) = clBufferSize c"
  "clMainframe (upd_iop n f c) = clMainframe c" "clIopTickIdx (upd_iop n f c) = clIopTickIdx c"
  "clStartupIopIdx (upd_iop n f c) = clStartupIopIdx c"
  "clCpuMasterClears (upd_iop n f c) = clCpuMasterClears c"
  "n < length (clIops c) \<Longrightarrow> iop n (upd_iop n f c) = f (iop n c)"
  "n \<noteq> m \<Longrightarrow> iop m (upd_iop n f c) = iop m c"
  by (simp_all add: upd_iop_def)

lemma upd_link_simps [simp]:
  "clIops (upd_link l f c) = clIops c" "length (clLinks (upd_link l f c)) = length (clLinks c)"
  "l < length (clLinks c) \<Longrightarrow> clLinks (upd_link l f c) ! l = f (clLinks c ! l)"
  "clBufferMemory (upd_link l f c) = clBufferMemory c" "clBufferSize (upd_link l f c) = clBufferSize c"
  "clMainframe (upd_link l f c) = clMainframe c"
  by (simp_all add: upd_link_def)

section \<open>Access to the memories\<close>

text \<open>The states of the transfer channels within the cluster, and their way back.\<close>

definition mos_of :: "nat \<Rightarrow> IopCluster_c \<Rightarrow> mos_state" where
  "mos_of n c = \<lparr>mosChannel = iopMOS (iop n c), mosIoMemory = iopIoMemory (iop n c),
     mosBufferMemory = clBufferMemory c\<rparr>"

definition put_mos :: "nat \<Rightarrow> mos_state \<Rightarrow> IopCluster_c \<Rightarrow> IopCluster_c" where
  "put_mos n s c = (upd_iop n (\<lambda>p. p\<lparr>iopMOS := mosChannel s, iopIoMemory := mosIoMemory s\<rparr>) c)
     \<lparr>clBufferMemory := mosBufferMemory s\<rparr>"

definition at_mos :: "nat \<Rightarrow> (nat \<Rightarrow> (mos_state, 'a) exec) \<Rightarrow> (IopCluster_c, 'a) exec" where
  "at_mos n f c = (case f (clBufferSize c) (mos_of n c) of (r, s) \<Rightarrow> (r, put_mos n s c))"

definition at_hm :: "nat \<Rightarrow> nat \<Rightarrow> ChannelHostMemory_c \<Rightarrow> (hm_state, 'a) exec \<Rightarrow> (IopCluster_c, 'a) exec" where
  "at_hm n i ch f c =
     (case f \<lparr>hmChannel = ch, hmIoMemory = iopIoMemory (iop n c), hmCentralMemory = mMemory (clMainframe c)\<rparr> of
        (r, s) \<Rightarrow> (r, (upd_iop n (\<lambda>p. p\<lparr>iopIoMemory := hmIoMemory s\<rparr>) (upd_slot n i (SlotHost (hmChannel s)) c))
          \<lparr>clMainframe := (clMainframe c)\<lparr>mMemory := hmCentralMemory s\<rparr>\<rparr>))"

definition at_disk :: "nat \<Rightarrow> nat \<Rightarrow> IopDiskDD29_c \<Rightarrow> (disk_state, 'a) exec \<Rightarrow> (IopCluster_c, 'a) exec" where
  "at_disk n i d f c =
     (case f \<lparr>dkUnit = d, dkIoMemory = iopIoMemory (iop n c)\<rparr> of
        (r, s) \<Rightarrow> (r, upd_iop n (\<lambda>p. p\<lparr>iopIoMemory := dkIoMemory s\<rparr>) (upd_slot n i (SlotDisk (dkUnit s)) c)))"

definition at_console :: "nat \<Rightarrow> nat \<Rightarrow> (IopConsole_c, 'a) exec \<Rightarrow> (IopCluster_c, 'a) exec" where
  "at_console n k f c =
     (case f (iopConsoles (iop n c) ! k) of
        (r, t) \<Rightarrow> (r, upd_iop n (\<lambda>p. p\<lparr>iopConsoles := (iopConsoles p)[k := t]\<rparr>) c))"

section \<open>Master clear and dead start\<close>

definition CC_MasterClear :: "IopCrayChannel_c \<Rightarrow> IopCrayChannel_c" where
  "CC_MasterClear ch = ch\<lparr>ccDone := False, ccCtoIActive := False, ccItoCActive := False,
     ccInterruptEnabled := True, ccIoMemoryAddr := 0, ccTransferSize := 0, ccReadyWaiting := False,
     ccHoldDisconnect := False\<rparr>"

definition AI_MasterClear :: "IopIopChannel_c \<Rightarrow> IopIopChannel_c" where
  "AI_MasterClear lk = lk\<lparr>lkAIInterruptEnabled := True, lkDataValid := False\<rparr>"

definition AO_MasterClear :: "IopIopChannel_c \<Rightarrow> IopIopChannel_c" where
  "AO_MasterClear lk = lk\<lparr>lkAODone := False, lkDataValid := False, lkAOInterruptEnabled := True,
     lkAOCtrlReg := 0, lkAOResetStalling := False, lkAOThrottleCnt := 0\<rparr>"

definition Slot_MasterClear :: "nat \<Rightarrow> nat \<Rightarrow> IopCluster_c \<Rightarrow> IopCluster_c" where
  "Slot_MasterClear n i c =
     (case iopIoChannels (iop n c) ! i of
        None \<Rightarrow> c
      | Some sl \<Rightarrow> (case sl of
          SlotIOR \<Rightarrow> c
        | SlotPFR \<Rightarrow> upd_iop n (iopPFR_update PFR_MasterClear) c
        | SlotPXS \<Rightarrow> upd_iop n (iopPXS_update PXS_MasterClear) c
        | SlotLME \<Rightarrow> c
        | SlotRTC \<Rightarrow> upd_iop n (iopRTC_update RTC_MasterClear) c
        | SlotMOS \<Rightarrow> upd_iop n (iopMOS_update MOS_MasterClear) c
        | SlotERA ch \<Rightarrow> upd_slot n i (SlotERA (ERA_MasterClear ch)) c
        | SlotHost ch \<Rightarrow> upd_slot n i (SlotHost (HM_MasterClear ch)) c
        | SlotDisk d \<Rightarrow> upd_slot n i (SlotDisk (DK_MasterClear d)) c
        | SlotCray ch \<Rightarrow> upd_slot n i (SlotCray (CC_MasterClear ch)) c
        | SlotAI l \<Rightarrow> upd_link l AI_MasterClear c
        | SlotAO l \<Rightarrow> upd_link l AO_MasterClear c
        | SlotTI k \<Rightarrow> upd_iop n (\<lambda>p. p\<lparr>iopConsoles := (iopConsoles p)[k :=
            upd_TI TI_MasterClear (iopConsoles p ! k)]\<rparr>) c
        | SlotTO k \<Rightarrow> upd_iop n (\<lambda>p. p\<lparr>iopConsoles := (iopConsoles p)[k :=
            upd_TO TO_MasterClear (iopConsoles p ! k)]\<rparr>) c))"

definition Iop_MasterClear :: "nat \<Rightarrow> IopCluster_c \<Rightarrow> IopCluster_c" where
  "Iop_MasterClear n c =
     (let c = upd_iop n (\<lambda>p. p\<lparr>iopP := 0, iopPXS := SetE (pxsE (iopPXS p) + 1) (iopPXS p),
            iopI := 1, iopISetIsWaiting := False\<rparr>) c;
          c = for_loop 0 (length (iopIoChannels (iop n c))) (Slot_MasterClear n) c
      in upd_iop n (iopInstCnt_update (\<lambda>_. 0)) c)"

definition Iop_DeadStart :: "nat \<Rightarrow> (IopCluster_c, unit) exec" where
  "Iop_DeadStart n c = at_mos n MOS_DeadStart (Iop_MasterClear n c)"

section \<open>The link between two processors\<close>

definition AO_DoIo :: "nat \<Rightarrow> nat \<Rightarrow> IopInt \<Rightarrow> (IopCluster_c, IopInt) exec" where
  "AO_DoIo l aFunction aData c =
     (if aFunction = 0 then (Inr 0, upd_link l (\<lambda>k. k\<lparr>lkDataValid := False, lkAODone := False\<rparr>) c)
      else if aFunction = 1 then
        (if aData AND 4 \<noteq> 0 \<or> aData AND 3 = 1 then (Inl AssertError, c)
         else if aData AND 3 = 0 \<and> lkAOCtrlReg (clLinks c ! l) AND 3 = 3 then
           bindE (Iop_DeadStart (lkDstIop (clLinks c ! l)))
             (\<lambda>_ c. (Inr 0, upd_link l (\<lambda>k. k\<lparr>lkAOResetStalling := True, lkAOCtrlReg := aData\<rparr>) c)) c
         else (Inr 0, upd_link l (lkAOCtrlReg_update (\<lambda>_. aData)) c))
      else if aFunction = 6 then (Inr 0, upd_link l (lkAOInterruptEnabled_update (\<lambda>_. False)) c)
      else if aFunction = 7 then (Inr 0, upd_link l (lkAOInterruptEnabled_update (\<lambda>_. True)) c)
      else if aFunction = 12 then
        (Inr 0, upd_link l (\<lambda>k. k\<lparr>lkData := aData, lkDataValid := True, lkAODone := False\<rparr>) c)
      else (Inr 0, c))"

definition AI_DoIo :: "nat \<Rightarrow> nat \<Rightarrow> IopInt \<Rightarrow> IopCluster_c \<Rightarrow> IopInt \<times> IopCluster_c" where
  "AI_DoIo l aFunction aData c =
     (if aFunction = 0 then (0, upd_link l (lkDataValid_update (\<lambda>_. False)) c)
      else if aFunction = 6 then (0, upd_link l (lkAIInterruptEnabled_update (\<lambda>_. False)) c)
      else if aFunction = 7 then (0, upd_link l (lkAIInterruptEnabled_update (\<lambda>_. True)) c)
      else if aFunction = 8 then
        (lkData (clLinks c ! l), upd_link l (\<lambda>k. k\<lparr>lkDataValid := False, lkAODone := True\<rparr>) c)
      else (0, c))"

definition AO_StallIop :: "nat \<Rightarrow> IopCluster_c \<Rightarrow> bool \<times> IopCluster_c" where
  "AO_StallIop l c =
     (if lkAOResetStalling (clLinks c ! l) \<and> iopInReset (iop (lkDstIop (clLinks c ! l)) c) then (True, c)
      else
        (let c = (if lkAOResetStalling (clLinks c ! l)
                  then upd_link l (lkAOResetStalling_update (\<lambda>_. False)) c else c) in
         if lkDataValid (clLinks c ! l) then
           if lkAOThrottleCnt (clLinks c ! l) = 0
           then (False, upd_link l (\<lambda>k. k\<lparr>lkAOThrottleCnt := lkThrottle k\<rparr>) c)
           else (True, upd_link l (\<lambda>k. k\<lparr>lkAOThrottleCnt := lkAOThrottleCnt k - 1\<rparr>) c)
         else (False, c)))"

end
