(* ===== verification/Iop_Cray.thy ===== *)
theory Iop_Cray
  imports Iop_State
begin

text \<open>
  The channel between an I/O processor and the mainframe: class \<open>IopCrayChannel_c\<close> of
  \<^verbatim>\<open>sim_lib/iop_iop2cray.h\<close> and \<^verbatim>\<open>.cpp\<close>. Its mainframe side is the channel of
  \<^verbatim>\<open>sim_lib/cray_channels.h\<close> at \<open>ccCrayChannel\<close>. The words of a transfer are taken from or
  given to the mainframe one by one through \<open>GetData\<close> and \<open>SetData\<close>. \<open>DecodeBuffer\<close> only
  reports the packets it recognises; of it the model keeps which words it reads.
\<close>

record cc_state =
  ccsChannel :: IopCrayChannel_c
  ccsIoMemory :: memory
  ccsMainframe :: mainframe
  ccsCpuMasterClears :: "bool list"

abbreviation upd_cc :: "(IopCrayChannel_c \<Rightarrow> IopCrayChannel_c) \<Rightarrow> cc_state \<Rightarrow> cc_state" where
  "upd_cc f s \<equiv> s\<lparr>ccsChannel := f (ccsChannel s)\<rparr>"

section \<open>The transfer\<close>

text \<open>\<open>IsActive()\<close> of the mainframe side, and its operations on the state of the channel.\<close>

definition CC_IsActive :: "cc_state \<Rightarrow> bool" where
  "CC_IsActive s = mActive (chan (ccsMainframe s) (ccCrayChannel (ccsChannel s)))"

definition at_cray :: "(nat \<Rightarrow> (mainframe, 'a) exec) \<Rightarrow> (cc_state, 'a) exec" where
  "at_cray f s = (case f (ccCrayChannel (ccsChannel s)) (ccsMainframe s) of
      (r, mf) \<Rightarrow> (r, s\<lparr>ccsMainframe := mf\<rparr>))"

definition CC_put_word :: "(cc_state, unit) exec" where
  "CC_put_word s =
     (let Data = SwapBytes64 (SwapBytesInWords (IoMemRead64 (unat (ccIoMemoryAddr (ccsChannel s))) (ccsIoMemory s)))
      in at_cray (SetData Data False) (upd_cc (\<lambda>ch. ch\<lparr>ccMsgBuffer := ccMsgBuffer ch @ [Data]\<rparr>) s))"

definition CC_get_word :: "(cc_state, unit) exec" where
  "CC_get_word s = bindE (at_cray GetData) (\<lambda>Data s.
     (Inr (), (upd_cc (\<lambda>ch. ch\<lparr>ccMsgBuffer := ccMsgBuffer ch @ [Data]\<rparr>) s)
        \<lparr>ccsIoMemory := IoMemWrite64 (unat (ccIoMemoryAddr (ccsChannel s)))
           (SwapBytesInWords (SwapBytes64 Data)) (ccsIoMemory s)\<rparr>)) s"

text \<open>
  \<open>DecodeBuffer\<close>: a request from \<open>C1\<close> to a station \<open>A\<close>, or a response, is decoded from the
  six words of the packet.
\<close>

definition is_packet_A :: "uint64 \<Rightarrow> bool" where
  "is_packet_A w =
     (let DID = GetBitsReverse w 0 15; DTID = GetBits DID 0 7; DPT = GetBits DID 8 15;
          SID = GetBitsReverse w 16 31; STID = GetBits SID 0 7; SPT = GetBits SID 8 15
      in STID = 49 \<and> SPT = 67 \<and> DTID = 65 \<or> DTID = 49 \<and> DPT = 67 \<and> STID = 65)"

definition DecodeBuffer :: "(cc_state, unit) exec" where
  "DecodeBuffer s =
     (case ccMsgBuffer (ccsChannel s) of
        [] \<Rightarrow> (Inl UndefinedBehaviour, s)
      | w # ws \<Rightarrow> (if is_packet_A w \<and> length (w # ws) < 6 then (Inl UndefinedBehaviour, s) else (Inr (), s)))"

definition CC_advance :: "(cc_state, unit) exec" where
  "CC_advance s =
     (let s = upd_cc (\<lambda>ch. ch\<lparr>ccIoMemoryAddr := next_io_addr (ccIoMemoryAddr ch),
            ccTransferSize := next_count (ccTransferSize ch)\<rparr>) s in
      if ccTransferSize (ccsChannel s) = 0 then
        (let s = (if \<not> ccHoldDisconnect (ccsChannel s) \<and> ccItoCActive (ccsChannel s)
                  then s\<lparr>ccsMainframe := Disconnect (ccCrayChannel (ccsChannel s)) (ccsMainframe s)\<rparr> else s)
         in bindE DecodeBuffer (\<lambda>_ s. (Inr (), upd_cc (ccMsgBuffer_update (\<lambda>_. [])) s))
              (upd_cc (\<lambda>ch. ch\<lparr>ccItoCActive := False, ccCtoIActive := False, ccDone := True\<rparr>) s))
      else (Inr (), s))"

text \<open>One turn of the loop of \<open>DoTransfer\<close>.\<close>

definition CC_step :: "(cc_state, unit) exec" where
  "CC_step s =
     (if ccDone (ccsChannel s) then (Inl AssertError, s)
      else
        bindE (\<lambda>s. if ccItoCActive (ccsChannel s) then CC_put_word s else (Inr (), s)) (\<lambda>_.
          bindE (\<lambda>s. if ccCtoIActive (ccsChannel s) then CC_get_word s else (Inr (), s)) (\<lambda>_.
            CC_advance)) s)"

text \<open>What moving a word, and the end of a turn, leave of the channel.\<close>

lemma CC_word_channel:
  "ccTransferSize (ccsChannel (snd (CC_put_word s))) = ccTransferSize (ccsChannel s)"
  "ccItoCActive (ccsChannel (snd (CC_put_word s))) = ccItoCActive (ccsChannel s)"
  "ccCtoIActive (ccsChannel (snd (CC_put_word s))) = ccCtoIActive (ccsChannel s)"
  "ccDone (ccsChannel (snd (CC_put_word s))) = ccDone (ccsChannel s)"
  "ccTransferSize (ccsChannel (snd (CC_get_word s))) = ccTransferSize (ccsChannel s)"
  "ccItoCActive (ccsChannel (snd (CC_get_word s))) = ccItoCActive (ccsChannel s)"
  "ccCtoIActive (ccsChannel (snd (CC_get_word s))) = ccCtoIActive (ccsChannel s)"
  "ccDone (ccsChannel (snd (CC_get_word s))) = ccDone (ccsChannel s)"
  by (simp_all add: CC_put_word_def CC_get_word_def at_cray_def bindE_def Let_def split: prod.splits sum.splits)

lemma CC_advance_channel:
  "ccTransferSize (ccsChannel (snd (CC_advance s))) = next_count (ccTransferSize (ccsChannel s))"
  "ccItoCActive (ccsChannel (snd (CC_advance s))) \<longleftrightarrow>
     ccItoCActive (ccsChannel s) \<and> next_count (ccTransferSize (ccsChannel s)) \<noteq> 0"
  "ccCtoIActive (ccsChannel (snd (CC_advance s))) \<longleftrightarrow>
     ccCtoIActive (ccsChannel s) \<and> next_count (ccTransferSize (ccsChannel s)) \<noteq> 0"
  "ccDone (ccsChannel (snd (CC_advance s))) \<longleftrightarrow>
     ccDone (ccsChannel s) \<or> next_count (ccTransferSize (ccsChannel s)) = 0"
  by (auto simp: CC_advance_def Let_def bindE_def DecodeBuffer_def split: list.splits)

lemma CC_step_channel:
  assumes "CC_step s = (Inr x, t)"
  shows "ccTransferSize (ccsChannel t) = next_count (ccTransferSize (ccsChannel s))"
    "ccItoCActive (ccsChannel t) \<longleftrightarrow> ccItoCActive (ccsChannel s) \<and> next_count (ccTransferSize (ccsChannel s)) \<noteq> 0"
    "ccCtoIActive (ccsChannel t) \<longleftrightarrow> ccCtoIActive (ccsChannel s) \<and> next_count (ccTransferSize (ccsChannel s)) \<noteq> 0"
    "ccDone (ccsChannel t) \<longleftrightarrow> next_count (ccTransferSize (ccsChannel s)) = 0"
proof -
  let ?put = "\<lambda>s. if ccItoCActive (ccsChannel s) then CC_put_word s else (Inr (), s)"
  let ?get = "\<lambda>s. if ccCtoIActive (ccsChannel s) then CC_get_word s else (Inr (), s)"
  obtain u v where u: "?put s = (Inr (), u)" and v: "?get u = (Inr (), v)" and t: "t = snd (CC_advance v)"
    and d: "\<not> ccDone (ccsChannel s)"
    using assms by (auto simp: CC_step_def bindE_def split: if_splits prod.splits sum.splits)
  have eq: "ccTransferSize (ccsChannel v) = ccTransferSize (ccsChannel s)"
      "ccItoCActive (ccsChannel v) = ccItoCActive (ccsChannel s)"
      "ccCtoIActive (ccsChannel v) = ccCtoIActive (ccsChannel s)" "ccDone (ccsChannel v) = ccDone (ccsChannel s)"
    using CC_word_channel(1-4)[of s] CC_word_channel(5-8)[of u] u v by (simp_all split: if_splits)
  show "ccTransferSize (ccsChannel t) = next_count (ccTransferSize (ccsChannel s))"
    "ccItoCActive (ccsChannel t) \<longleftrightarrow> ccItoCActive (ccsChannel s) \<and> next_count (ccTransferSize (ccsChannel s)) \<noteq> 0"
    "ccCtoIActive (ccsChannel t) \<longleftrightarrow> ccCtoIActive (ccsChannel s) \<and> next_count (ccTransferSize (ccsChannel s)) \<noteq> 0"
    "ccDone (ccsChannel t) \<longleftrightarrow> next_count (ccTransferSize (ccsChannel s)) = 0"
    by (simp_all add: t CC_advance_channel eq d)
qed

function CC_DoTransfer :: "(cc_state, unit) exec" where
  "CC_DoTransfer s =
     (if (ccItoCActive (ccsChannel s) \<or> ccCtoIActive (ccsChannel s)) \<and> CC_IsActive s then
        (case CC_step s of
           (Inl e, s') \<Rightarrow> (Inl e, s')
         | (Inr _, s') \<Rightarrow> CC_DoTransfer s')
      else (Inr (), s))"
  by pat_completeness auto
termination
proof (relation "measure (\<lambda>s. if ccItoCActive (ccsChannel s) \<or> ccCtoIActive (ccsChannel s)
    then Suc (unat (next_count (ccTransferSize (ccsChannel s)))) else 0)", goal_cases)
  case (2 s r s' x)
  then have "CC_step s = (Inr x, s')" by (metis prod.inject sum.collapse(2))
  note st = CC_step_channel[OF this]
  show ?case
  proof (cases "next_count (ccTransferSize (ccsChannel s)) = 0")
    case True
    with 2 show ?thesis by (simp add: st)
  next
    case False
    from next_count_decreases[OF this] 2 show ?thesis by (auto simp: st)
  qed
qed simp

declare CC_DoTransfer.simps [simp del]

section \<open>The operations\<close>

definition CC_control :: "IopInt \<Rightarrow> (cc_state, unit) exec" where
  "CC_control aData s =
     (let s = (if aData AND 0x100 \<noteq> 0
               then s\<lparr>ccsMainframe := Disconnect (ccCrayChannel (ccsChannel s)) (ccsMainframe s)\<rparr> else s);
          s = upd_cc (ccHoldDisconnect_update (\<lambda>_. aData AND 0x200 \<noteq> 0)) s in
      if aData AND 0x800 \<noteq> 0 \<or> aData AND 0x1000 \<noteq> 0 \<or> aData AND 0x2000 \<noteq> 0 then (Inl AssertError, s)
      else (Inr (), s\<lparr>ccsMainframe := IoMasterClear (aData AND 0x4000 \<noteq> 0) (ccsMainframe s),
             ccsCpuMasterClears := ccsCpuMasterClears s @ [aData AND 0x8000 \<noteq> 0]\<rparr>))"

definition CC_DoIo :: "nat \<Rightarrow> IopInt \<Rightarrow> (cc_state, IopInt) exec" where
  "CC_DoIo aFunction aData s =
     (let ch = ccsChannel s in
      if aFunction = 0 then
        (Inr 0, upd_cc (\<lambda>ch. ch\<lparr>ccItoCActive := False, ccCtoIActive := False, ccDone := False\<rparr>) s)
      else if aFunction = 1 then
        (let s = upd_cc (ccIoMemoryAddr_update (\<lambda>_. drop_bit 2 aData)) s;
             s = (if ccAllowCtoI ch
                  then upd_cc (\<lambda>ch. ch\<lparr>ccCtoIActive := True, ccItoCActive := False, ccDone := False\<rparr>) s else s);
             s = (if ccAllowItoC ch
                  then upd_cc (\<lambda>ch. ch\<lparr>ccCtoIActive := False, ccItoCActive := True, ccDone := False\<rparr>) s else s)
         in bindE CC_DoTransfer (\<lambda>_. returnE 0) s)
      else if aFunction = 2 then (Inr 0, upd_cc (ccTransferSize_update (\<lambda>_. drop_bit 2 aData)) s)
      else if aFunction = 4 then
        (let s = (if ccAllowCtoI ch then upd_cc (ccReadyWaiting_update (\<lambda>_. False)) s else s)
         in if ccAllowItoC ch then bindE (CC_control aData) (\<lambda>_. returnE 0) s else (Inr 0, s))
      else if aFunction = 6 then (Inr 0, upd_cc (ccInterruptEnabled_update (\<lambda>_. False)) s)
      else if aFunction = 7 then (Inr 0, upd_cc (ccInterruptEnabled_update (\<lambda>_. True)) s)
      else if aFunction = 8 then (Inr (push_bit 2 (ccIoMemoryAddr ch)), s)
      else if aFunction = 9 then
        (if ccAllowCtoI ch then (Inr (if ccReadyWaiting ch then 0x8000 else 0), s)
         else if ccAllowItoC ch then (Inr 0, s) else (Inl AssertError, s))
      else (Inr 0, s))"

text \<open>The mainframe side went active.\<close>

definition CC_HandleActivation :: "(cc_state, unit) exec" where
  "CC_HandleActivation s =
     CC_DoTransfer (if \<not> ccCtoIActive (ccsChannel s) then upd_cc (ccReadyWaiting_update (\<lambda>_. True)) s else s)"

definition CC_GetBusy :: "IopCrayChannel_c \<Rightarrow> bool" where
  "CC_GetBusy ch \<longleftrightarrow> ccItoCActive ch \<or> ccCtoIActive ch"

definition CC_GetInterrupt :: "IopCrayChannel_c \<Rightarrow> bool" where
  "CC_GetInterrupt ch \<longleftrightarrow> ccInterruptEnabled ch \<and> ccDone ch"

definition at_cc :: "nat \<Rightarrow> nat \<Rightarrow> IopCrayChannel_c \<Rightarrow> (cc_state, 'a) exec \<Rightarrow> (IopCluster_c, 'a) exec" where
  "at_cc n i ch f c =
     (case f \<lparr>ccsChannel = ch, ccsIoMemory = iopIoMemory (iop n c), ccsMainframe = clMainframe c,
          ccsCpuMasterClears = clCpuMasterClears c\<rparr> of
        (r, s) \<Rightarrow> (r, (upd_iop n (\<lambda>p. p\<lparr>iopIoMemory := ccsIoMemory s\<rparr>) (upd_slot n i (SlotCray (ccsChannel s)) c))
          \<lparr>clMainframe := ccsMainframe s, clCpuMasterClears := ccsCpuMasterClears s\<rparr>))"

end
