(* ===== verification/Iop_Cpu.thy ===== *)
theory Iop_Cpu
  imports Iop_Cray
begin

text \<open>
  The processor of the I/O subsystem: class \<open>IopCpu_c\<close> of \<^verbatim>\<open>sim_lib/cray_iop.h\<close> and \<^verbatim>\<open>.cpp\<close>
  with its instructions, its interrupt entry and its burst of steps, and the cluster's round
  robin of \<^verbatim>\<open>sim_lib/iop_cluster.cpp\<close>. The instruction field \<open>f\<close> is written in decimal; the
  octal ranges of the code are given with each group. Break points, debug events, logging and
  the disassembly are left out.
\<close>

section \<open>The accumulator and the carry\<close>

text \<open>\<open>RefC_A\<close>: the 17 bits of carry and accumulator, and the assignment to both.\<close>

definition RefC_A :: "IopCpu_c \<Rightarrow> uint32" where
  "RefC_A p = ucast (iopA p) OR push_bit 16 (ucast (iopCarry p))"

definition SetC_A :: "uint32 \<Rightarrow> IopCpu_c \<Rightarrow> IopCpu_c" where
  "SetC_A aValue p = p\<lparr>iopA := ucast (aValue AND 0xffff), iopCarry := ucast (drop_bit 16 (aValue AND 0x10000))\<rparr>"

definition SetC :: "IopInt \<Rightarrow> IopCpu_c \<Rightarrow> IopCpu_c" where
  "SetC aValue p = p\<lparr>iopCarry := aValue AND 1\<rparr>"

definition SetB :: "IopInt \<Rightarrow> IopCpu_c \<Rightarrow> IopCpu_c" where
  "SetB aValue p = p\<lparr>iopB := aValue AND 0x1ff\<rparr>"

text \<open>The operand registers: \<open>RefOr\<close> by the field \<open>d\<close> and \<open>RefOrB\<close> by register B.\<close>

definition RefOr :: "nat \<Rightarrow> IopCpu_c \<Rightarrow> IopInt" where
  "RefOr d p = iopOR p d"

definition SetOr :: "nat \<Rightarrow> IopInt \<Rightarrow> IopCpu_c \<Rightarrow> IopCpu_c" where
  "SetOr d aValue p = p\<lparr>iopOR := (iopOR p)(d := aValue)\<rparr>"

definition mShiftRight :: "IopInt \<Rightarrow> IopCpu_c \<Rightarrow> IopCpu_c" where
  "mShiftRight aAmount p =
     SetC_A (if aAmount > 16 then 0 else drop_bit (unat aAmount) (RefC_A p)) p"

definition three_copies :: "uint32 \<Rightarrow> uint64" where
  "three_copies v = push_bit 34 (ucast v) OR push_bit 17 (ucast v) OR ucast v"

definition mRotateRight :: "IopInt \<Rightarrow> IopCpu_c \<Rightarrow> IopCpu_c" where
  "mRotateRight aAmount p =
     SetC_A (ucast (drop_bit (unat (aAmount AND 0x1f)) (three_copies (RefC_A p)))) p"

definition mShiftLeft :: "IopInt \<Rightarrow> IopCpu_c \<Rightarrow> IopCpu_c" where
  "mShiftLeft aAmount p =
     SetC_A (if aAmount > 17 then 0 else push_bit (unat aAmount) (RefC_A p)) p"

definition mRotateLeft :: "IopInt \<Rightarrow> IopCpu_c \<Rightarrow> IopCpu_c" where
  "mRotateLeft aAmount p =
     SetC_A (ucast (drop_bit 17 (push_bit (unat (aAmount AND 0x1f)) (three_copies (RefC_A p))))) p"

definition Increment :: "IopInt \<Rightarrow> IopCpu_c \<Rightarrow> IopCpu_c" where
  "Increment aAmount p = SetC_A (RefC_A p + ucast aAmount) p"

definition Decrement :: "IopInt \<Rightarrow> IopCpu_c \<Rightarrow> IopCpu_c" where
  "Decrement aAmount p = SetC_A (RefC_A p + (ucast (NOT aAmount) + 1)) p"

text \<open>\<open>RefA = aValue; RefC = 0;\<close> before the increment of a register by one or minus one.\<close>

definition StartCount :: "IopInt \<Rightarrow> IopCpu_c \<Rightarrow> IopCpu_c" where
  "StartCount aValue p = SetC 0 (p\<lparr>iopA := aValue\<rparr>)"

definition ReadMem :: "IopInt \<Rightarrow> IopCpu_c \<Rightarrow> IopInt" where
  "ReadMem aAddr p = IoMemRead16 (unat aAddr) (iopIoMemory p)"

definition WriteMem :: "IopInt \<Rightarrow> IopInt \<Rightarrow> IopCpu_c \<Rightarrow> IopCpu_c" where
  "WriteMem aAddr aData p = p\<lparr>iopIoMemory := IoMemWrite16 (unat aAddr) aData (iopIoMemory p)\<rparr>"

section \<open>Instructions on the registers and the memory\<close>

text \<open>The shifts and the immediate operands, 0004 to 0017; \<open>d\<close> has nine bits, \<open>k\<close> is the second parcel.\<close>

definition Decode_immediate :: "nat \<Rightarrow> IopInt \<Rightarrow> IopInt \<Rightarrow> IopCpu_c \<Rightarrow> IopInt \<times> IopCpu_c" where
  "Decode_immediate f d k p =
     (if f = 4 then (1, mShiftRight d p)
      else if f = 5 then (1, mShiftLeft d p)
      else if f = 6 then (1, mRotateRight d p)
      else if f = 7 then (1, mRotateLeft d p)
      else if f = 8 then (1, SetC_A (ucast d) p)
      else if f = 9 then (1, SetC_A (ucast (iopA p AND d)) p)
      else if f = 10 then (1, Increment d p)
      else if f = 11 then (1, Decrement d p)
      else if f = 12 then (2, SetC_A (ucast k) p)
      else if f = 13 then (2, SetC_A (ucast (iopA p AND k)) p)
      else if f = 14 then (2, Increment k p)
      else (2, Decrement k p))"

text \<open>The eight operations on an operand register, with its reader and writer: 0020 to 0027 and 0060 to 0067.\<close>

definition Decode_register ::
    "nat \<Rightarrow> (IopCpu_c \<Rightarrow> IopInt) \<Rightarrow> (IopInt \<Rightarrow> IopCpu_c \<Rightarrow> IopCpu_c) \<Rightarrow> IopCpu_c \<Rightarrow> IopCpu_c" where
  "Decode_register op rd wr p =
     (if op = 0 then SetC_A (ucast (rd p)) p
      else if op = 1 then SetC_A (ucast (iopA p AND rd p)) p
      else if op = 2 then Increment (rd p) p
      else if op = 3 then Decrement (rd p) p
      else if op = 4 then wr (iopA p) p
      else if op = 5 then (let p = Increment (rd p) p in wr (iopA p) p)
      else if op = 6 then (let p = StartCount 1 p; p = Increment (rd p) p in wr (iopA p) p)
      else (let p = StartCount (- 1) p; p = Increment (rd p) p in wr (iopA p) p))"

text \<open>
  The groups 0020 (operand register \<open>d\<close>), 0030 (the memory it points to), 0050 (register B)
  and 0060 (the operand register that B names).
\<close>

definition Decode_operand :: "nat \<Rightarrow> IopInt \<Rightarrow> IopCpu_c \<Rightarrow> IopCpu_c" where
  "Decode_operand f d p =
     (if f < 24 then Decode_register (f - 16) (RefOr (unat d)) (SetOr (unat d)) p
      else if f < 32 then
        Decode_register (f - 24) (\<lambda>p. ReadMem (RefOr (unat d) p) p)
          (\<lambda>v p. WriteMem (RefOr (unat d) p) v p) p
      else if f < 48 then Decode_register (f - 40) iopB SetB p
      else Decode_register (f - 48) (\<lambda>p. RefOr (unat (iopB p)) p) (\<lambda>v p. SetOr (unat (iopB p)) v p) p)"

text \<open>The shifts by register B, 0044 to 0047.\<close>

definition Decode_shift_B :: "nat \<Rightarrow> IopCpu_c \<Rightarrow> IopCpu_c" where
  "Decode_shift_B f p =
     (if f = 36 then mShiftRight (iopB p) p
      else if f = 37 then mShiftLeft (iopB p) p
      else if f = 38 then mRotateRight (iopB p) p
      else mRotateLeft (iopB p) p)"

text \<open>
  What an instruction returns: the increment of P, whether a waiting set of the interrupt flag
  is delayed further, and whether the burst of instructions ends.
\<close>

record inst_result =
  resIncrement :: IopInt
  resDelayISet :: bool
  resBreakBurst :: bool

definition plain :: "IopInt \<Rightarrow> inst_result" where
  "plain n = \<lparr>resIncrement = n, resDelayISet = False, resBreakBurst = False\<rparr>"

definition io_result :: inst_result where
  "io_result = \<lparr>resIncrement = 1, resDelayISet = True, resBreakBurst = True\<rparr>"

text \<open>An operation of the exit stack within the processor.\<close>

definition at_pxs :: "(ChannelPXS_c, 'a) exec \<Rightarrow> (IopCpu_c, 'a) exec" where
  "at_pxs f p = (case f (iopPXS p) of (r, s) \<Rightarrow> (r, p\<lparr>iopPXS := s\<rparr>))"

text \<open>PASS, EXIT and the interrupt flag: 0000 to 0003.\<close>

definition Decode_control :: "nat \<Rightarrow> (IopCpu_c, inst_result) exec" where
  "Decode_control f p =
     (if f = 0 then (Inr (plain 1), p)
      else if f = 1 then
        bindE (at_pxs PXS_Pop) (\<lambda>a p. (Inr \<lparr>resIncrement = 0, resDelayISet = True, resBreakBurst = True\<rparr>,
          p\<lparr>iopP := a\<rparr>)) p
      else if f = 2 then (Inr (plain 1), p\<lparr>iopI := 0, iopISetIsWaiting := False\<rparr>)
      else (Inr io_result, p\<lparr>iopISetIsWaiting := True\<rparr>))"

section \<open>Jumps and calls\<close>

definition jump_taken :: "nat \<Rightarrow> IopCpu_c \<Rightarrow> bool" where
  "jump_taken f p \<longleftrightarrow>
     f < 64 \<or> (if f mod 4 = 0 then iopCarry p = 0 else if f mod 4 = 1 then iopCarry p \<noteq> 0
       else if f mod 4 = 2 then iopA p = 0 else iopA p \<noteq> 0)"

definition jump_code :: "nat \<Rightarrow> nat" where
  "jump_code f = (if f < 64 then f mod 8 else (f div 4) mod 8)"

definition FetchRequest :: "IopInt \<Rightarrow> IopCpu_c \<Rightarrow> IopCpu_c" where
  "FetchRequest d p = (if RefOr (unat d) p = 0 then p\<lparr>iopPFR := SetRequestIdx d (iopPFR p)\<rparr> else p)"

text \<open>The call pushes the return address and only then moves P.\<close>

definition Call :: "IopInt \<Rightarrow> (IopCpu_c \<Rightarrow> IopInt) \<Rightarrow> (IopCpu_c, inst_result) exec" where
  "Call ret target p =
     bindE (at_pxs (PXS_Push ret)) (\<lambda>_ p.
       (Inr \<lparr>resIncrement = 0, resDelayISet = True, resBreakBurst = True\<rparr>, p\<lparr>iopP := target p\<rparr>)) (p\<lparr>iopP := ret\<rparr>)"

definition DecodeJump :: "nat \<Rightarrow> IopInt \<Rightarrow> IopInt \<Rightarrow> (IopCpu_c, inst_result) exec" where
  "DecodeJump f d k p =
     (let code = jump_code f; P = iopP p;
          jump = (\<lambda>a p. (Inr \<lparr>resIncrement = 0, resDelayISet = True, resBreakBurst = False\<rparr>, p\<lparr>iopP := a\<rparr>)) in
      if \<not> jump_taken f p then
        (Inr \<lparr>resIncrement = (if code = 5 \<or> code = 7 then 2 else 1), resDelayISet = True,
           resBreakBurst = False\<rparr>, p)
      else if code = 0 then jump (P + d) p
      else if code = 1 then jump (P - d) p
      else if code = 2 then Call (P + 1) (\<lambda>_. P + d) p
      else if code = 3 then Call (P + 1) (\<lambda>_. P - d) p
      else if code = 4 then (let p = FetchRequest d p in jump (RefOr (unat d) p) p)
      else if code = 5 then (let p = FetchRequest d p in jump (RefOr (unat d) p + k) p)
      else if code = 6 then Call (P + 1) (RefOr (unat d)) (FetchRequest d p)
      else Call (P + 2) (\<lambda>p. RefOr (unat d) p + k) (FetchRequest d p))"

end
