(* ===== verification/Iop_Exec.thy ===== *)
theory Iop_Exec
  imports Iop_Cpu
begin

text \<open>
  The channel interface \<open>IopChannel_i\<close> of \<^verbatim>\<open>sim_lib/cray_iop.h\<close> over the slots of a processor,
  the instructions that use it, the execution of instructions and interrupts
  (\<^verbatim>\<open>sim_lib/cray_iop.cpp\<close>), and the cluster's \<open>Tick\<close>, \<open>MasterClear\<close> and \<open>DeadStart\<close>
  (\<^verbatim>\<open>sim_lib/iop_cluster.cpp\<close>). A virtual call is a case distinction over the slot. A channel
  number past the vector \<open>mIoChannels\<close>, which the code does not check, is
  \<open>UndefinedBehaviour\<close>.
\<close>

section \<open>The channel interface\<close>

definition Slot_GetInterrupt :: "nat \<Rightarrow> iop_slot \<Rightarrow> IopCluster_c \<Rightarrow> bool" where
  "Slot_GetInterrupt n sl c =
     (case sl of
        SlotIOR \<Rightarrow> False
      | SlotPFR \<Rightarrow> PFR_GetInterrupt (iopPFR (iop n c))
      | SlotPXS \<Rightarrow> PXS_GetInterrupt (iopPXS (iop n c))
      | SlotLME \<Rightarrow> False
      | SlotRTC \<Rightarrow> RTC_GetInterrupt (iopRTC (iop n c))
      | SlotMOS \<Rightarrow> MOS_GetInterrupt (iopMOS (iop n c))
      | SlotERA ch \<Rightarrow> ERA_GetInterrupt ch
      | SlotHost ch \<Rightarrow> HM_GetInterrupt ch
      | SlotDisk d \<Rightarrow> DK_GetInterrupt d
      | SlotCray ch \<Rightarrow> CC_GetInterrupt ch
      | SlotAI l \<Rightarrow> lkAIInterruptEnabled (clLinks c ! l) \<and> lkDataValid (clLinks c ! l)
      | SlotAO l \<Rightarrow> lkAOInterruptEnabled (clLinks c ! l) \<and> lkAODone (clLinks c ! l)
      | SlotTI k \<Rightarrow> TI_GetInterrupt (icTI (iopConsoles (iop n c) ! k))
      | SlotTO k \<Rightarrow> TO_GetInterrupt (icTO (iopConsoles (iop n c) ! k)))"

definition Slot_GetDone :: "nat \<Rightarrow> iop_slot \<Rightarrow> IopCluster_c \<Rightarrow> bool" where
  "Slot_GetDone n sl c =
     (case sl of
        SlotIOR \<Rightarrow> True
      | SlotPFR \<Rightarrow> pfrRequestFlag (iopPFR (iop n c))
      | SlotPXS \<Rightarrow> pxsBoundaryFlag (iopPXS (iop n c))
      | SlotLME \<Rightarrow> False
      | SlotRTC \<Rightarrow> rtcInterrupt (iopRTC (iop n c))
      | SlotMOS \<Rightarrow> mosDone (iopMOS (iop n c))
      | SlotERA ch \<Rightarrow> eraDone ch
      | SlotHost ch \<Rightarrow> hmDone ch
      | SlotDisk d \<Rightarrow> dkDone d
      | SlotCray ch \<Rightarrow> ccDone ch
      | SlotAI l \<Rightarrow> lkDataValid (clLinks c ! l)
      | SlotAO l \<Rightarrow> lkAODone (clLinks c ! l)
      | SlotTI k \<Rightarrow> tiDone (icTI (iopConsoles (iop n c) ! k))
      | SlotTO k \<Rightarrow> toDone (icTO (iopConsoles (iop n c) ! k)))"

definition Slot_GetBusy :: "nat \<Rightarrow> iop_slot \<Rightarrow> IopCluster_c \<Rightarrow> bool" where
  "Slot_GetBusy n sl c =
     (case sl of
        SlotMOS \<Rightarrow> MOS_GetBusy (iopMOS (iop n c))
      | SlotHost ch \<Rightarrow> HM_GetBusy ch
      | SlotDisk d \<Rightarrow> DK_GetBusy d
      | SlotCray ch \<Rightarrow> CC_GetBusy ch
      | SlotAO l \<Rightarrow> \<not> lkDataValid (clLinks c ! l)
      | SlotTO k \<Rightarrow> toBusy (icTO (iopConsoles (iop n c) ! k))
      | _ \<Rightarrow> False)"

text \<open>The first channel with an interrupt, which both \<open>ChannelIOR_c::DoIo\<close> and \<open>Tick\<close> look for.\<close>

definition slot_interrupts :: "nat \<Rightarrow> IopCluster_c \<Rightarrow> nat \<Rightarrow> bool" where
  "slot_interrupts n c i =
     (case iopIoChannels (iop n c) ! i of None \<Rightarrow> False | Some sl \<Rightarrow> Slot_GetInterrupt n sl c)"

definition first_interrupt :: "nat \<Rightarrow> IopCluster_c \<Rightarrow> nat option" where
  "first_interrupt n c = List.find (slot_interrupts n c) [0..<length (iopIoChannels (iop n c))]"

definition IOR_DoIo :: "nat \<Rightarrow> nat \<Rightarrow> IopCluster_c \<Rightarrow> IopInt" where
  "IOR_DoIo n aFunction c =
     (if aFunction \<noteq> 8 then 0 else (case first_interrupt n c of Some i \<Rightarrow> of_nat i | None \<Rightarrow> 0))"

text \<open>An operation of a built-in channel: its value and the processor with the channel updated.\<close>

definition returning :: "nat \<Rightarrow> (IopCpu_c \<Rightarrow> IopInt \<times> IopCpu_c) \<Rightarrow> (IopCluster_c, IopInt) exec" where
  "returning n f c = (Inr (fst (f (iop n c))), upd_iop n (\<lambda>p. snd (f p)) c)"

definition Slot_DoIo :: "nat \<Rightarrow> nat \<Rightarrow> iop_slot \<Rightarrow> nat \<Rightarrow> IopInt \<Rightarrow> (IopCluster_c, IopInt) exec" where
  "Slot_DoIo n i sl aFunction aData c =
     (case sl of
        SlotIOR \<Rightarrow> (Inr (IOR_DoIo n aFunction c), c)
      | SlotPFR \<Rightarrow> returning n (\<lambda>p. apsnd (\<lambda>s. p\<lparr>iopPFR := s\<rparr>) (PFR_DoIo aFunction aData (iopPFR p))) c
      | SlotPXS \<Rightarrow> returning n (\<lambda>p. apsnd (\<lambda>s. p\<lparr>iopPXS := s\<rparr>) (PXS_DoIo aFunction aData (iopPXS p))) c
      | SlotLME \<Rightarrow> (Inr (LME_DoIo aFunction aData), c)
      | SlotRTC \<Rightarrow> returning n (\<lambda>p. apsnd (\<lambda>s. p\<lparr>iopRTC := s\<rparr>) (RTC_DoIo aFunction aData (iopRTC p))) c
      | SlotMOS \<Rightarrow> at_mos n (\<lambda>sz. MOS_DoIo sz aFunction aData) c
      | SlotERA ch \<Rightarrow> (case ERA_DoIo aFunction aData ch of (r, ch) \<Rightarrow> (Inr r, upd_slot n i (SlotERA ch) c))
      | SlotHost ch \<Rightarrow> at_hm n i ch (HM_DoIo aFunction aData) c
      | SlotDisk d \<Rightarrow> at_disk n i d (DK_DoIo aFunction aData) c
      | SlotCray ch \<Rightarrow> at_cc n i ch (CC_DoIo aFunction aData) c
      | SlotAI l \<Rightarrow> (case AI_DoIo l aFunction aData c of (r, c) \<Rightarrow> (Inr r, c))
      | SlotAO l \<Rightarrow> AO_DoIo l aFunction aData c
      | SlotTI k \<Rightarrow> at_console n k (TI_DoIo aFunction aData) c
      | SlotTO k \<Rightarrow> at_console n k (\<lambda>t. case TO_DoIo aFunction aData t of (r, t) \<Rightarrow> (Inr r, t)) c)"

text \<open>\<open>Tick\<close> of the channels that need it, and \<open>StallIop\<close>.\<close>

definition Slot_Tick :: "nat \<Rightarrow> nat \<Rightarrow> IopCluster_c \<Rightarrow> IopCluster_c" where
  "Slot_Tick n i c =
     (case iopIoChannels (iop n c) ! i of
        Some SlotRTC \<Rightarrow> upd_iop n (iopRTC_update RTC_Tick) c
      | Some (SlotTI k) \<Rightarrow>
          upd_iop n (\<lambda>p. p\<lparr>iopConsoles := (iopConsoles p)[k := Console_Tick (iopConsoles p ! k)]\<rparr>) c
      | _ \<Rightarrow> c)"

definition Slot_StallIop :: "nat \<Rightarrow> nat \<Rightarrow> IopCluster_c \<Rightarrow> bool \<times> IopCluster_c" where
  "Slot_StallIop n i c =
     (case iopIoChannels (iop n c) ! i of Some (SlotAO l) \<Rightarrow> AO_StallIop l c | _ \<Rightarrow> (False, c))"

fun first_stall :: "nat \<Rightarrow> nat list \<Rightarrow> IopCluster_c \<Rightarrow> bool \<times> IopCluster_c" where
  "first_stall n [] c = (False, c)"
| "first_stall n (i # is) c =
     (case Slot_StallIop n i c of (True, c) \<Rightarrow> (True, c) | (False, c) \<Rightarrow> first_stall n is c)"

section \<open>The instructions that use the channels\<close>

definition find_slot :: "nat \<Rightarrow> nat \<Rightarrow> (IopCluster_c, iop_slot option) exec" where
  "find_slot n i c =
     (if i < length (iopIoChannels (iop n c)) then (Inr (iopIoChannels (iop n c) ! i), c)
      else (Inl UndefinedBehaviour, c))"

text \<open>
  The tests of done and busy, 0040 to 0043. Those through register B assert that the channel
  of the field \<open>d\<close> exists, and take an absent channel of B as neither done nor busy.
\<close>

definition Decode_status :: "nat \<Rightarrow> nat \<Rightarrow> IopInt \<Rightarrow> (IopCluster_c, inst_result) exec" where
  "Decode_status n f d c =
     (let test = (if f = 32 \<or> f = 34 then Slot_GetDone else Slot_GetBusy);
          set = (\<lambda>b c. (Inr io_result, upd_iop n (SetC (of_bool b)) c)) in
      bindE (find_slot n (unat d)) (\<lambda>sl c.
        case sl of
          None \<Rightarrow> (Inl AssertError, c)
        | Some sl \<Rightarrow>
            if f < 34 then set (test n sl c) c
            else bindE (find_slot n (unat (iopB (iop n c)))) (\<lambda>sl c.
              set (case sl of None \<Rightarrow> False | Some sl \<Rightarrow> test n sl c) c) c) c)"

text \<open>0140 to 0177: the function is in the low four bits, the channel in \<open>d\<close> or in register B.\<close>

definition DecodeIo :: "nat \<Rightarrow> nat \<Rightarrow> IopInt \<Rightarrow> (IopCluster_c, inst_result) exec" where
  "DecodeIo n f d c =
     (let Function = f mod 16;
          Channel = unat (if f < 112 then d else iopB (iop n c)) in
      bindE (find_slot n Channel) (\<lambda>sl c.
        case sl of
          None \<Rightarrow>
            if f < 112 \<and> Function \<noteq> 0 \<and> Function \<noteq> 6 then (Inl AssertError, c)
            else (Inr \<lparr>resIncrement = 1, resDelayISet = False, resBreakBurst = True\<rparr>, c)
        | Some sl \<Rightarrow>
            bindE (Slot_DoIo n Channel sl Function (iopA (iop n c))) (\<lambda>ReadValue c.
              (Inr io_result, if f AND 12 = 8 then upd_iop n (SetC_A (ucast ReadValue)) c else c)) c) c)"

section \<open>The execution of instructions\<close>

definition at_iop :: "nat \<Rightarrow> (IopCpu_c, 'a) exec \<Rightarrow> (IopCluster_c, 'a) exec" where
  "at_iop n f c = (case f (iop n c) of (r, p) \<Rightarrow> (r, upd_iop n (\<lambda>_. p) c))"

definition pure_inst :: "nat \<Rightarrow> (IopCpu_c \<Rightarrow> IopInt \<times> IopCpu_c) \<Rightarrow> (IopCluster_c, inst_result) exec" where
  "pure_inst n f c = (Inr (plain (fst (f (iop n c)))), upd_iop n (\<lambda>p. snd (f p)) c)"

definition Iop_Decode :: "nat \<Rightarrow> IopInt \<Rightarrow> IopInt \<Rightarrow> (IopCluster_c, inst_result) exec" where
  "Iop_Decode n aFirstParcel aSecondParcel =
     (let f = unat (drop_bit 9 (aFirstParcel AND 0xfe00)); d = aFirstParcel AND 0x1ff; k = aSecondParcel in
      if f < 4 then at_iop n (Decode_control f)
      else if f < 16 then pure_inst n (Decode_immediate f d k)
      else if f < 32 then pure_inst n (\<lambda>p. (1, Decode_operand f d p))
      else if f < 36 then Decode_status n f d
      else if f < 40 then pure_inst n (\<lambda>p. (1, Decode_shift_B f p))
      else if f < 56 then pure_inst n (\<lambda>p. (1, Decode_operand f d p))
      else if f < 96 then at_iop n (DecodeJump f d k)
      else DecodeIo n f d)"

text \<open>\<open>SingleStep\<close> returns whether the burst ends.\<close>

definition Iop_SingleStep :: "nat \<Rightarrow> (IopCluster_c, bool) exec" where
  "Iop_SingleStep n c =
     (let p = iop n c;
          FirstParcel = IoMemRead16 (unat (iopP p)) (iopIoMemory p);
          SecondParcel = IoMemRead16 (unat ((iopP p + 1) AND 0xffff)) (iopIoMemory p)
      in bindE (Iop_Decode n FirstParcel SecondParcel) (\<lambda>r c.
           (Inr (resBreakBurst r), upd_iop n (\<lambda>p.
              (if \<not> resDelayISet r \<and> iopISetIsWaiting p then p\<lparr>iopI := 1, iopISetIsWaiting := False\<rparr> else p)
                \<lparr>iopP := iopP p + resIncrement r\<rparr>) c)) c)"

fun Iop_Burst :: "nat \<Rightarrow> nat \<Rightarrow> (IopCluster_c, unit) exec" where
  "Iop_Burst n 0 c = (Inr (), c)"
| "Iop_Burst n (Suc m) c =
     (case Iop_SingleStep n (upd_iop n (iopInstCnt_update (\<lambda>k. k + 1)) c) of
        (Inl e, c) \<Rightarrow> (Inl e, c)
      | (Inr brk, c) \<Rightarrow> if brk then (Inr (), c) else Iop_Burst n m c)"

text \<open>The entry of an interrupt, which also takes the processor out of reset.\<close>

definition Iop_Interrupt :: "nat \<Rightarrow> (IopCluster_c, unit) exec" where
  "Iop_Interrupt n =
     at_iop n (\<lambda>p.
       (let p = (if iopInReset p then p\<lparr>iopInstCnt := 0\<rparr> else p);
            p = p\<lparr>iopInReset := False, iopI := 0\<rparr>
        in bindE (at_pxs (PXS_Push (iopP p))) (\<lambda>_ p. (Inr (), p\<lparr>iopP := GetAt 0 (iopPXS p)\<rparr>)) p))"

definition Iop_Tick :: "nat \<Rightarrow> (IopCluster_c, unit) exec" where
  "Iop_Tick n c =
     (let cnt = length (iopIoChannels (iop n c));
          c = for_loop 0 cnt (Slot_Tick n) c in
      case first_stall n [0..<cnt] c of
        (True, c) \<Rightarrow> (Inr (), c)
      | (False, c) \<Rightarrow>
          bindE (if iopI (iop n c) \<noteq> 0 \<and> first_interrupt n c \<noteq> None then Iop_Interrupt n else returnE ())
            (\<lambda>_ c. if \<not> iopInReset (iop n c)
               then Iop_Burst n (Suc (iopInstructionBurstSize (iop n c))) c else (Inr (), c)) c)"

section \<open>The cluster\<close>

definition Cluster_MasterClear :: "IopCluster_c \<Rightarrow> IopCluster_c" where
  "Cluster_MasterClear c = for_loop 0 (length (clIops c)) Iop_MasterClear c"

definition Cluster_DeadStart :: "(IopCluster_c, unit) exec" where
  "Cluster_DeadStart c =
     (let c = Cluster_MasterClear c in
      if clStartupIopIdx c < length (clIops c) then Iop_DeadStart (clStartupIopIdx c) c else (Inr (), c))"

definition Cluster_Tick :: "(IopCluster_c, unit) exec" where
  "Cluster_Tick c =
     bindE (if clIopTickIdx c < length (clIops c) then Iop_Tick (clIopTickIdx c) else returnE ())
       (\<lambda>_ c. (Inr (), c\<lparr>clIopTickIdx := (if clIopTickIdx c + 1 \<ge> length (clIops c) then 0
          else clIopTickIdx c + 1)\<rparr>)) c"

end
