(* ===== verification/Sample_Iop.thy ===== *)
theory Sample_Iop
  imports Iop_Exec Sample_States
begin

text \<open>
  Concrete states of the I/O subsystem on which the witnesses evaluate the properties: two
  processors with their built-in channels, linked in both directions, over a buffer memory of
  64 words, with a console and a disk on the first.
\<close>

definition sample_console :: Console_c where
  "sample_console = \<lparr>conReceiveBuf = 0, conReceiveFull = False, conTransmitQueue = [], conPollCnt = 0,
     conTelnetOptions = (\<lambda>_. \<lparr>optDo = False, optWill = False, optOutstandingDoDont = False,
       optOutstandingWillWont = False\<rparr>),
     conTelnetState = WaitIAC, conTelnetAction = 0, conEatLF = True, conEatNull = True,
     conMapBackspace = True, conBackspaceChar = 8\<rparr>"

definition sample_iop_console :: IopConsole_c where
  "sample_iop_console = \<lparr>icTO = \<lparr>toDone = False, toBusy = False, toInterruptEnabled = True, toEscSequence = []\<rparr>,
     icTI = \<lparr>tiDone = False, tiInterruptEnabled = True\<rparr>, icConsole = sample_console\<rparr>"

definition sample_mos :: ChannelMOS_c where
  "sample_mos = \<lparr>mosBufferMemoryAddr = 0, mosIoMemoryAddr = 0, mosTransferSize = 0, mosDone = False,
     mosItoBActive = False, mosBtoIActive = False, mosInterruptEnabled = True\<rparr>"

definition sample_disk :: IopDiskDD29_c where
  "sample_disk = \<lparr>dkReadOnly = False, dkNumHeads = 2, dkNumSectors = 2, dkNumTracks = 2, dkSectorSize = 16,
     dkIoMemoryAddr = 0, dkCurrentHead = 0, dkCurrentSector = 0, dkCurrentTrack = 0, dkDone = False,
     dkOperation = Operation_Idle, dkInterruptEnabled = True, dkMounted = True, dkBufferEchoMode = False,
     dkStatusResponseRegister = 0, dkBufferAB = (\<lambda>_. 0), dkReads = 0, dkWrites = 0, dkImage = replicate 128 0\<rparr>"

definition sample_iop :: "iop_slot option list \<Rightarrow> IopCpu_c" where
  "sample_iop slots = \<lparr>iopA = 1, iopCarry = 0, iopB = 0, iopP = 0, iopOR = (\<lambda>_. 0), iopI = 1,
     iopISetIsWaiting = False, iopInReset = True,
     iopPFR = \<lparr>pfrRequestIdx = 0, pfrRequestFlag = False, pfrInterruptEnabled = False\<rparr>,
     iopPXS = \<lparr>pxsBoundaryFlag = False, pxsInterruptEnabled = False, pxsE = 0, pxsStack = (\<lambda>_. 0)\<rparr>,
     iopRTC = \<lparr>rtcTimerLimit = 79999, rtcClockFrequency = 80000000, rtcLastIntTick = 0, rtcTickCnt = 0,
       rtcInterrupt = False, rtcInterruptEnabled = False, rtcWall = 0\<rparr>,
     iopMOS = sample_mos, iopIoMemory = (\<lambda>_. 0), iopIoChannels = slots,
     iopConsoles = [sample_iop_console], iopInstCnt = 0, iopInstructionBurstSize = 0\<rparr>"

definition sample_slots :: "nat \<Rightarrow> iop_slot option list" where
  "sample_slots n = [Some SlotIOR, Some SlotPFR, Some SlotPXS, Some SlotLME, Some SlotRTC, Some SlotMOS,
     Some (SlotAI (1 - n)), Some (SlotAO n), None, Some (SlotTI 0), Some (SlotTO 0), Some (SlotDisk sample_disk)]"

definition sample_link :: "nat \<Rightarrow> IopIopChannel_c" where
  "sample_link n = \<lparr>lkSrcIop = n, lkDstIop = 1 - n, lkData = 0, lkDataValid = False, lkThrottle = 0,
     lkAIInterruptEnabled = True, lkAODone = False, lkAOResetStalling = False, lkAOInterruptEnabled = True,
     lkAOCtrlReg = 0, lkAOThrottleCnt = 0\<rparr>"

definition sample_iop_cluster :: IopCluster_c where
  "sample_iop_cluster = \<lparr>clIops = [sample_iop (sample_slots 0), sample_iop (sample_slots 1)],
     clLinks = [sample_link 0, sample_link 1], clBufferMemory = (\<lambda>_. 0), clBufferSize = 512,
     clMainframe = sample_mainframe J90, clCpuMasterClears = [], clStartupIopIdx = 0, clIopTickIdx = 0\<rparr>"

end
