(* ===== verification/Iop_Registers.thy ===== *)
theory Iop_Registers
  imports Sample_Iop
begin

text \<open>
  The registers of the I/O processor: its accumulator with the carry as a word of 17 bits, the
  bounds of its registers that every operation of a cluster keeps, and the return from calls
  and interrupts.
\<close>

section \<open>The accumulator as a word of 17 bits\<close>

definition acc :: "IopCpu_c \<Rightarrow> 17 word" where
  "acc p = ucast (RefC_A p)"

lemma bit_RefC_A:
  assumes "iopCarry p \<le> 1"
  shows "bit (RefC_A p) n \<longleftrightarrow> (if n < 16 then bit (iopA p) n else n = 16 \<and> iopCarry p = 1)"
proof -
  have "unat (iopCarry p) = 0 \<or> unat (iopCarry p) = 1"
    using assms by (auto simp: word_le_nat_alt)
  then have "iopCarry p = 0 \<or> iopCarry p = 1" by (metis unat_0 unat_1 unsigned_word_eqI)
  moreover have "\<not> bit (iopA p) n" if "16 \<le> n"
    using that bit_imp_less_length[of "iopA p" n] by auto
  ultimately show ?thesis by (auto simp: RefC_A_def bit_simps)
qed

lemma bit_acc: "bit (acc p) n \<longleftrightarrow> n < 17 \<and> bit (RefC_A p) n"
  by (simp add: acc_def bit_simps)

lemma RefC_A_acc: "iopCarry p \<le> 1 \<Longrightarrow> RefC_A p = ucast (acc p)"
  by (rule word_eq_by_bits) (auto simp: bit_acc bit_RefC_A bit_simps)

lemma SetC_A_simps [simp]:
  "iopA (SetC_A v p) = ucast v" "acc (SetC_A v p) = ucast v" "iopCarry (SetC_A v p) \<le> 1"
  "iopB (SetC_A v p) = iopB p" "iopP (SetC_A v p) = iopP p" "iopI (SetC_A v p) = iopI p"
  "iopPXS (SetC_A v p) = iopPXS p"
proof -
  have m: "0xffff = (mask 16 :: uint32)" "0x10000 = (push_bit 16 1 :: uint32)"
    by (simp_all add: mask_eq_exp_minus_1)
  show a: "iopA (SetC_A v p) = ucast v"
    unfolding SetC_A_def IopCpu_c.simps m by (rule word_eq_by_bits) (simp add: bit_simps del: mask_numeral)
  have "bit (iopCarry (SetC_A v p)) n \<longleftrightarrow> n = 0 \<and> bit v 16" for n
    by (auto simp: SetC_A_def m(2) bit_unsigned_iff bit_drop_bit_eq bit_and_iff bit_single simp del: push_bit_of_1 push_bit_numeral)
  then have c: "iopCarry (SetC_A v p) = of_bool (bit v 16)"
    by (intro word_eq_by_bits) (auto simp: bit_simps)
  then show le: "iopCarry (SetC_A v p) \<le> 1" by simp
  show "acc (SetC_A v p) = ucast v"
  proof (rule word_eq_by_bits)
    fix n :: nat
    assume "n < LENGTH(17)"
    then have "n < 16 \<or> n = 16" by auto
    then show "bit (acc (SetC_A v p)) n = bit (ucast v :: 17 word) n"
      by (elim disjE) (simp_all add: bit_acc bit_RefC_A[OF le] a c bit_simps)
  qed
qed (simp_all add: SetC_A_def)

lemma bit_three_copies:
  assumes "iopCarry p \<le> 1"
  shows "bit (three_copies (RefC_A p)) n \<longleftrightarrow> n < 51 \<and> bit (acc p) (n mod 17)"
proof -
  have low: "k < 17" if "bit (acc p) k" for k using that by (simp add: bit_acc)
  then have high: "\<not> bit (acc p) k" if "17 \<le> k" for k using that by (meson not_le)
  have "bit (three_copies (RefC_A p)) n \<longleftrightarrow> n < 64 \<and> (34 \<le> n \<and> bit (acc p) (n - 34) \<or>
      17 \<le> n \<and> bit (acc p) (n - 17) \<or> bit (acc p) n)"
    by (auto simp: three_copies_def RefC_A_acc[OF assms] bit_simps dest: low)
  moreover have "(34 \<le> n \<and> bit (acc p) (n - 34) \<or> 17 \<le> n \<and> bit (acc p) (n - 17) \<or> bit (acc p) n) \<longleftrightarrow>
      n < 51 \<and> bit (acc p) (n mod 17)"
  proof -
    consider "n < 17" | "17 \<le> n" "n < 34" | "34 \<le> n" "n < 51" | "51 \<le> n" by linarith
    then show ?thesis
    proof cases
      case 2
      then have "n mod 17 = n - 17" by (simp add: le_mod_geq)
      with 2 show ?thesis using high by simp
    next
      case 3
      then have "n mod 17 = n - 34" using le_mod_geq[of 17 n] le_mod_geq[of 17 "n - 17"] by simp
      with 3 show ?thesis using high[of n] high[of "n - 17"] by simp
    qed (use high in simp_all)
  qed
  ultimately show ?thesis by auto
qed

lemma amount_bits: "unat (a AND 0x1f :: IopInt) = unat a mod 32"
proof -
  have "(0x1f :: IopInt) = mask 5" by (simp add: mask_eq_exp_minus_1)
  then have "a AND 0x1f = take_bit 5 a" by (simp only: take_bit_eq_mask)
  then have "unat (a AND 0x1f) = take_bit 5 (unat a)" by (simp only: unsigned_take_bit_eq)
  then show ?thesis by (simp add: take_bit_eq_mod)
qed

text \<open>C4: The accumulator computes on 17 bits. With the carry a bit, the six operations on the
  accumulator are those of words of 17 bits whose top bit is the carry: the two shifts, the
  rotation to the right by the amount modulo 32, and addition. Subtraction adds the complement,
  so it leaves the difference in the accumulator and inverts the carry where it does not borrow.
  The rotation to the left is one only up to 17 places; from 18 to 31 places it shifts zeros in.
\<close>

theorem accumulator_refines_17_bits:
  assumes "iopCarry p \<le> 1"
  shows "acc (mShiftRight a p) = drop_bit (unat a) (acc p) \<and>
    acc (mShiftLeft a p) = push_bit (unat a) (acc p) \<and>
    acc (mRotateRight a p) = word_rotr (unat a mod 32) (acc p) \<and>
    acc (mRotateLeft a p) = (if unat a mod 32 \<le> 17 then word_rotl (unat a mod 32) (acc p)
           else push_bit (unat a mod 32 - 17) (acc p)) \<and>
    acc (Increment a p) = acc p + ucast a \<and> acc (Decrement a p) = acc p - ucast a + 2 ^ 16 \<and>
    iopA (Increment a p) = iopA p + a \<and> iopA (Decrement a p) = iopA p - a"
proof (intro conjI)
  show "acc (mShiftRight a p) = drop_bit (unat a) (acc p)"
    by (rule word_eq_by_bits)
      (auto simp: mShiftRight_def bit_simps bit_acc bit_RefC_A[OF assms] word_less_nat_alt dest: bit_imp_less_length)
  show "acc (mShiftLeft a p) = push_bit (unat a) (acc p)"
    by (rule word_eq_by_bits)
      (auto simp: mShiftLeft_def bit_simps bit_acc word_less_nat_alt)
  show "acc (mRotateRight a p) = word_rotr (unat a mod 32) (acc p)"
    by (rule word_eq_by_bits)
      (auto simp: mRotateRight_def amount_bits bit_simps bit_three_copies[OF assms] add.commute)
  show "acc (mRotateLeft a p) = (if unat a mod 32 \<le> 17 then word_rotl (unat a mod 32) (acc p)
           else push_bit (unat a mod 32 - 17) (acc p))"
  proof (rule word_eq_by_bits)
    fix n :: nat
    assume n: "n < LENGTH(17)"
    define r where "r = unat a mod 32"
    then have r: "r < 32" by simp
    have "bit (acc (mRotateLeft a p)) n \<longleftrightarrow> r \<le> n + 17 \<and> bit (acc p) ((n + 17 - r) mod 17)"
      using n r by (auto simp: mRotateLeft_def amount_bits bit_simps bit_three_copies[OF assms] r_def
        add.commute)
    also have "\<dots> \<longleftrightarrow> bit (if r \<le> 17 then word_rotl r (acc p) else push_bit (r - 17) (acc p)) n"
    proof (cases "r < 17")
      case False
      then consider "r = 17" | "17 < r" by linarith
      then show ?thesis using n by cases (auto simp: bit_simps)
    qed (use n in \<open>auto simp: bit_simps\<close>)
    finally show "bit (acc (mRotateLeft a p)) n = bit (if unat a mod 32 \<le> 17
        then word_rotl (unat a mod 32) (acc p) else push_bit (unat a mod 32 - 17) (acc p)) n"
      by (simp add: r_def)
  qed
  have u: "ucast (ucast v :: uint32) = (ucast v :: 17 word)" "ucast (ucast v :: uint32) = v" for v :: IopInt
    by (rule word_eq_by_bits, auto simp: bit_simps)+
  have acc: "ucast (RefC_A p) = acc p" "ucast (RefC_A p) = iopA p"
    by (auto intro!: word_eq_by_bits simp: acc_def bit_unsigned_iff bit_RefC_A[OF assms])
  show "acc (Increment a p) = acc p + ucast a"
    by (simp add: Increment_def ucast_down_arith acc u)
  show "iopA (Increment a p) = iopA p + a" 
    by (simp add: Increment_def ucast_down_arith acc u)
  have "ucast (NOT a) + ucast a = (ucast (NOT a) OR ucast a :: 17 word)"
    by (rule disjunctive_add_eq_or, rule word_eq_by_bits) (auto simp: bit_simps)
  also have "\<dots> = mask 16"
    by (rule word_eq_by_bits) (auto simp: bit_simps dest: bit_imp_less_length)
  finally have "ucast (NOT a) + 1 = (2 ^ 16 - ucast a :: 17 word)"
    by (simp add: mask_eq_exp_minus_1 algebra_simps)
  then show "acc (Decrement a p) = acc p - ucast a + 2 ^ 16"
    by (simp add: Decrement_def ucast_down_arith acc u)
  show "iopA (Decrement a p) = iopA p - a"
    by (simp add: Decrement_def ucast_down_arith acc u minus_eq_not_plus_1[of a, symmetric])
qed

theorem accumulator_refines_17_bits_witness:
  "iopCarry (sample_iop []) \<le> 1 \<and> acc (mRotateLeft 20 (sample_iop [])) = 8 \<and> acc (Decrement 1 (sample_iop [])) = 2 ^ 16"
proof -
  have "iopCarry (sample_iop []) \<le> 1" "acc (sample_iop []) = 1" by (simp_all add: acc_def RefC_A_def sample_iop_def)
  then show ?thesis
    using accumulator_refines_17_bits[of "sample_iop []" 20] accumulator_refines_17_bits[of "sample_iop []" 1] by simp
qed

section \<open>The bounds of the registers\<close>

text \<open>
  The carry and the interrupt flag are bits, register B has nine bits, and the exit stack
  pointer has four.
\<close>

definition registers_ok :: "IopCpu_c \<Rightarrow> bool" where
  "registers_ok p \<longleftrightarrow> iopCarry p \<le> 1 \<and> iopI p \<le> 1 \<and> iopB p \<le> 0x1ff \<and> pxsE (iopPXS p) \<le> 15"

definition cluster_ok :: "IopCluster_c \<Rightarrow> bool" where
  "cluster_ok c \<longleftrightarrow> (\<forall>p \<in> set (clIops c). registers_ok p)"

lemma and_mask_le: "(x :: 'a::len word) AND m \<le> m"
  by (rule word_and_le1)

lemma registers_ok_simps [simp]:
  "registers_ok (SetC_A v p) \<longleftrightarrow> iopI p \<le> 1 \<and> iopB p \<le> 0x1ff \<and> pxsE (iopPXS p) \<le> 15"
  "registers_ok (p\<lparr>iopIoMemory := m\<rparr>) = registers_ok p"
  "registers_ok (p\<lparr>iopPFR := a\<rparr>) = registers_ok p"
  "registers_ok (p\<lparr>iopRTC := b\<rparr>) = registers_ok p"
  "registers_ok (p\<lparr>iopMOS := d\<rparr>) = registers_ok p"
  "registers_ok (p\<lparr>iopIoChannels := e\<rparr>) = registers_ok p"
  "registers_ok (p\<lparr>iopConsoles := f\<rparr>) = registers_ok p"
  "registers_ok (p\<lparr>iopP := g\<rparr>) = registers_ok p"
  "registers_ok (p\<lparr>iopOR := h\<rparr>) = registers_ok p"
  "registers_ok (p\<lparr>iopA := k\<rparr>) = registers_ok p"
  "registers_ok (p\<lparr>iopInstCnt := l\<rparr>) = registers_ok p"
  "registers_ok (p\<lparr>iopInReset := q\<rparr>) = registers_ok p"
  "registers_ok (p\<lparr>iopISetIsWaiting := q\<rparr>) = registers_ok p"
  by (simp_all add: registers_ok_def)

lemma cluster_ok_simps [simp]:
  "cluster_ok (c\<lparr>clLinks := l\<rparr>) = cluster_ok c" "cluster_ok (c\<lparr>clMainframe := m\<rparr>) = cluster_ok c"
  "cluster_ok (c\<lparr>clBufferMemory := b\<rparr>) = cluster_ok c" "cluster_ok (c\<lparr>clIopTickIdx := k\<rparr>) = cluster_ok c"
  "cluster_ok (c\<lparr>clCpuMasterClears := d\<rparr>) = cluster_ok c" "cluster_ok (upd_link k f c) = cluster_ok c"
  by (simp_all add: cluster_ok_def)

text \<open>The invariant as a contract: once it holds it stays, on a return and on a throw.\<close>

abbreviation stays_ok :: "IopCluster_c \<Rightarrow> IopCluster_c \<Rightarrow> bool" where
  "stays_ok c d \<equiv> cluster_ok c \<longrightarrow> cluster_ok d"

interpretation reg: step_contract stays_ok "\<lambda>_ _. True"
  by unfold_locales auto

lemma upd_iop_ok:
  assumes "stays_ok c d" "\<And>p. registers_ok p \<Longrightarrow> registers_ok (f p)"
  shows "stays_ok c (upd_iop n f d)"
proof (cases "n < length (clIops d)")
  case True
  then show ?thesis using assms
    by (auto simp: cluster_ok_def upd_iop_def dest!: subsetD[OF set_update_subset_insert])
next
  case False
  then have "(clIops d)[n := f (iop n d)] = clIops d" by (intro list_update_beyond) simp
  then show ?thesis using assms(1) by (simp add: cluster_ok_def upd_iop_def)
qed

lemma upd_slot_ok: "stays_ok c d \<Longrightarrow> stays_ok c (upd_slot n i sl d)"
  unfolding upd_slot_def by (rule upd_iop_ok) simp_all


text \<open>The operations of one processor.\<close>

lemma exit_stack_ok [simp]:
  "pxsE (SetE e ch) \<le> 15" "pxsE (SetAtE a ch) = pxsE ch" "pxsE (PXS_MasterClear ch) \<le> 15"
  "pxsE ch \<le> 15 \<Longrightarrow> pxsE (snd (PXS_Push a ch)) \<le> 15"
  "pxsE ch \<le> 15 \<Longrightarrow> pxsE (snd (PXS_Pop ch)) \<le> 15"
  "pxsE ch \<le> 15 \<Longrightarrow> pxsE (snd (PXS_DoIo fn a ch)) \<le> 15"
  by (simp_all add: SetE_def SetAtE_def PXS_MasterClear_def PXS_Push_def PXS_Pop_def PXS_DoIo_def Let_def and_mask_le)

lemma accumulator_ok:
  assumes "registers_ok p"
  shows "registers_ok (mShiftRight a p)" "registers_ok (mShiftLeft a p)" "registers_ok (mRotateRight a p)"
    "registers_ok (mRotateLeft a p)" "registers_ok (Increment a p)" "registers_ok (Decrement a p)"
    "registers_ok (SetC v p)" "registers_ok (SetB v p)" "registers_ok (SetOr d v p)" "registers_ok (StartCount v p)"
    "registers_ok (WriteMem ad v p)" "registers_ok (FetchRequest v p)"
  using assms
  by (simp_all add: mShiftRight_def mShiftLeft_def mRotateRight_def mRotateLeft_def Increment_def Decrement_def
      SetOr_def WriteMem_def FetchRequest_def)
    (simp_all add: registers_ok_def SetC_def SetB_def StartCount_def and_mask_le)

lemma at_pxs_ok:
  assumes "registers_ok p" "\<And>ch. pxsE ch \<le> 15 \<Longrightarrow> pxsE (snd (f ch)) \<le> 15"
  shows "registers_ok (snd (at_pxs f p))"
  using assms(1) assms(2)[of "iopPXS p"] by (auto simp: at_pxs_def registers_ok_def split: prod.splits)

lemma Decode_register_ok:
  assumes "registers_ok p" "\<And>v q. registers_ok q \<Longrightarrow> registers_ok (wr v q)"
  shows "registers_ok (Decode_register op rd wr p)"
proof -
  have "iopI p \<le> 1" "iopB p \<le> 0x1ff" "pxsE (iopPXS p) \<le> 15" using assms(1) by (simp_all add: registers_ok_def)
  then show ?thesis using assms by (simp add: Decode_register_def Let_def accumulator_ok)
qed

lemma register_instructions_ok:
  assumes "registers_ok p"
  shows "registers_ok (snd (Decode_immediate f d k p))" "registers_ok (Decode_operand f d p)"
    "registers_ok (Decode_shift_B f p)"
proof -
  have "iopI p \<le> 1" "iopB p \<le> 0x1ff" "pxsE (iopPXS p) \<le> 15" using assms by (simp_all add: registers_ok_def)
  then show "registers_ok (snd (Decode_immediate f d k p))"
    using assms by (simp add: Decode_immediate_def accumulator_ok)
  show "registers_ok (Decode_operand f d p)"
    unfolding Decode_operand_def by (simp add: Decode_register_ok assms accumulator_ok)
  show "registers_ok (Decode_shift_B f p)"
    unfolding Decode_shift_B_def by (simp add: assms accumulator_ok)
qed

lemma snd_bindE:
  assumes "P (snd (m s))" "\<And>x t. P t \<Longrightarrow> P (snd (f x t))"
  shows "P (snd (bindE m f s))"
  using assms by (auto simp: bindE_def split: prod.splits sum.splits)

lemma control_instructions_ok:
  assumes "registers_ok p"
  shows "registers_ok (snd (Decode_control f p))" "registers_ok (snd (DecodeJump f d k p))"
proof -
  have "registers_ok (p\<lparr>iopI := 0, iopISetIsWaiting := False\<rparr>)" using assms by (simp add: registers_ok_def)
  then show "registers_ok (snd (Decode_control f p))"
    using assms unfolding Decode_control_def
    by (auto intro!: snd_bindE[where P = registers_ok] at_pxs_ok)
  have call: "registers_ok (snd (Call r t q))" if "registers_ok q" for r t q
    unfolding Call_def by (rule snd_bindE[where P = registers_ok]) (use that in \<open>simp_all add: at_pxs_ok\<close>)
  show "registers_ok (snd (DecodeJump f d k p))"
    using assms by (simp add: DecodeJump_def Let_def call accumulator_ok)
qed


text \<open>The operations of the cluster keep the invariant of all its processors.\<close>

lemma channel_state_ok:
  "stays_ok c (put_mos n s c)" "stays_ok c (snd (at_mos n mf c))" "stays_ok c (snd (at_hm n i hch hf c))"
  "stays_ok c (snd (at_disk n i d df c))" "stays_ok c (snd (at_console n k tf c))"
  "stays_ok c (snd (at_cc n i cch cf c))"
  by (auto simp: put_mos_def at_mos_def at_hm_def at_disk_def at_console_def at_cc_def split: prod.splits
      intro!: upd_iop_ok[THEN mp] upd_slot_ok[THEN mp])

lemma MasterClear_ok: "stays_ok c (Slot_MasterClear n i c)" "stays_ok c (Iop_MasterClear n c)"
proof -
  show slot: "stays_ok c (Slot_MasterClear n i c)" for i c
    by (auto simp: Slot_MasterClear_def split: option.splits iop_slot.splits
        intro!: upd_iop_ok[THEN mp] upd_slot_ok[THEN mp]) (auto simp: registers_ok_def)
  have start: "registers_ok p \<Longrightarrow> registers_ok (p\<lparr>iopP := 0, iopPXS := SetE e (iopPXS p),
      iopI := 1, iopISetIsWaiting := False\<rparr>)" for p e
    by (simp add: registers_ok_def)
  let ?c = "upd_iop n (\<lambda>p. p\<lparr>iopP := 0, iopPXS := SetE (pxsE (iopPXS p) + 1) (iopPXS p),
            iopI := 1, iopISetIsWaiting := False\<rparr>) c"
  have "stays_ok c ?c" by (rule upd_iop_ok) (simp, rule start)
  then have "stays_ok c (for_loop 0 k (Slot_MasterClear n) ?c)" for k
    by (rule reg.for_loop_within) (simp add: slot[THEN mp])
  then show "stays_ok c (Iop_MasterClear n c)"
    unfolding Iop_MasterClear_def Let_def by (rule upd_iop_ok) simp
qed

lemma DeadStart_ok: "stays_ok c (snd (Iop_DeadStart n c))"
  using MasterClear_ok(2) channel_state_ok(2) unfolding Iop_DeadStart_def by blast

lemma links_ok:
  "stays_ok c (snd (AO_DoIo l fn a c))" "stays_ok c (snd (AI_DoIo l fn a c))" "stays_ok c (snd (AO_StallIop l c))"
  using DeadStart_ok[of c "lkDstIop (clLinks c ! l)"]
  by (auto simp: AO_DoIo_def AI_DoIo_def AO_StallIop_def Let_def intro!: snd_bindE[where P = cluster_ok])

lemma returning_ok:
  assumes "\<And>p. registers_ok p \<Longrightarrow> registers_ok (snd (f p))"
  shows "stays_ok c (snd (returning n f c))"
  unfolding returning_def snd_conv by (rule upd_iop_ok) (simp_all add: assms)

lemma Slot_DoIo_ok: "stays_ok c (snd (Slot_DoIo n i sl fn a c))"
proof (cases sl)
  case SlotPXS
  have "registers_ok p \<Longrightarrow> registers_ok (p\<lparr>iopPXS := snd (PXS_DoIo fn a (iopPXS p))\<rparr>)" for p
    by (simp add: registers_ok_def)
  then show ?thesis unfolding Slot_DoIo_def SlotPXS iop_slot.case by (intro returning_ok) simp
next
  case (SlotERA ch)
  then show ?thesis using upd_slot_ok[of c c] by (simp add: Slot_DoIo_def split: prod.split)
next
  case (SlotAI l)
  then show ?thesis using links_ok(2)[of c l fn a] by (cases "AI_DoIo l fn a c") (simp add: Slot_DoIo_def)
qed (simp_all add: Slot_DoIo_def returning_ok[THEN mp] channel_state_ok[THEN mp] links_ok[THEN mp])


lemma at_iop_ok:
  assumes "\<And>p. registers_ok p \<Longrightarrow> registers_ok (snd (f p))"
  shows "stays_ok c (snd (at_iop n f c))"
proof
  assume c: "cluster_ok c"
  have eq: "snd (at_iop n f c) = upd_iop n (\<lambda>_. snd (f (iop n c))) c"
    by (cases "f (iop n c)") (simp add: at_iop_def)
  show "cluster_ok (snd (at_iop n f c))"
  proof (cases "n < length (clIops c)")
    case True
    with c have "registers_ok (snd (f (iop n c)))" by (intro assms) (simp add: cluster_ok_def)
    then have "stays_ok c (upd_iop n (\<lambda>_. snd (f (iop n c))) c)" by (intro upd_iop_ok) simp_all
    with c show ?thesis unfolding eq by blast
  next
    case False
    then have "(clIops c)[n := p] = clIops c" for p by (intro list_update_beyond) simp
    with c show ?thesis unfolding eq by (simp add: upd_iop_def)
  qed
qed

lemma find_slot_ok: "stays_ok c (snd (find_slot n i c))"
  by (simp add: find_slot_def)

lemma upd_iop_ok': "(\<And>p. registers_ok p \<Longrightarrow> registers_ok (f p)) \<Longrightarrow> stays_ok c (upd_iop n f c)"
  by (rule upd_iop_ok) simp_all

lemma channel_instructions_ok:
  "stays_ok c (snd (Decode_status n f d c))" "stays_ok c (snd (DecodeIo n f d c))"
proof -
  note bind = snd_bindE[where P = cluster_ok] and slot = find_slot_ok[THEN mp]
  show "stays_ok c (snd (Decode_status n f d c))"
    unfolding Decode_status_def Let_def
    by (intro impI bind slot) (auto split: option.split simp: accumulator_ok
        intro!: bind slot upd_iop_ok'[THEN mp])
  have SetC_A: "registers_ok p \<Longrightarrow> registers_ok (SetC_A v p)" for v p by (simp add: registers_ok_def)
  show "stays_ok c (snd (DecodeIo n f d c))"
    unfolding DecodeIo_def Let_def
    by (intro impI bind slot) (auto split: option.split simp: SetC_A simp del: registers_ok_simps(1)
        intro!: bind Slot_DoIo_ok[THEN mp] upd_iop_ok'[THEN mp])
qed

lemma Iop_Decode_ok: "stays_ok c (snd (Iop_Decode n first second c))"
  unfolding Iop_Decode_def Let_def pure_inst_def
  by (auto simp: channel_instructions_ok[THEN mp] register_instructions_ok control_instructions_ok
      intro!: at_iop_ok[THEN mp] upd_iop_ok'[THEN mp])

lemma Iop_SingleStep_ok: "stays_ok c (snd (Iop_SingleStep n c))"
  unfolding Iop_SingleStep_def Let_def
  by (intro impI snd_bindE[where P = cluster_ok] Iop_Decode_ok[THEN mp])
    (auto intro!: upd_iop_ok'[THEN mp] simp: registers_ok_def)

lemma Iop_Burst_ok: "stays_ok c (snd (Iop_Burst n m c))"
proof (induction n m c rule: Iop_Burst.induct)
  case (2 n m c)
  let ?c = "upd_iop n (iopInstCnt_update (\<lambda>k. k + 1)) c"
  have start: "stays_ok c ?c" by (rule upd_iop_ok') (simp add: registers_ok_def)
  have "stays_ok c (snd (Iop_SingleStep n ?c))" using Iop_SingleStep_ok[of ?c n] start by blast
  with 2 show ?case by (auto split: prod.splits sum.splits)
qed simp

lemma Iop_Interrupt_ok: "stays_ok c (snd (Iop_Interrupt n c))"
  unfolding Iop_Interrupt_def Let_def
  by (rule at_iop_ok, rule snd_bindE[where P = registers_ok], rule at_pxs_ok)
    (auto simp: registers_ok_def)

lemma first_stall_ok: "stays_ok c (snd (first_stall n is c))"
proof (induction n "is" c rule: first_stall.induct)
  case (2 n i "is" c)
  have "stays_ok c (snd (Slot_StallIop n i c))"
    using links_ok(3) by (auto simp: Slot_StallIop_def split: option.splits iop_slot.splits)
  with 2 show ?case by (auto split: prod.splits bool.splits)
qed simp

lemma Slot_Tick_ok: "stays_ok c (Slot_Tick n i c)"
  unfolding Slot_Tick_def
  by (auto split: option.splits iop_slot.splits intro!: upd_iop_ok'[THEN mp] simp: registers_ok_def)

lemma Iop_Tick_ok: "stays_ok c (snd (Iop_Tick n c))"
proof -
  have tick: "stays_ok c (for_loop 0 k (Slot_Tick n) c)" for k
    by (rule reg.for_loop_within) (use Slot_Tick_ok in blast)+
  let ?cnt = "length (iopIoChannels (iop n c))"
  obtain b d where st: "first_stall n [0..<?cnt] (for_loop 0 ?cnt (Slot_Tick n) c) = (b, d)" by fastforce
  have d: "stays_ok c d"
    using tick[of ?cnt] first_stall_ok[of "for_loop 0 ?cnt (Slot_Tick n) c" n "[0..<?cnt]"] by (auto simp: st)
  have int: "stays_ok d (snd ((if g then Iop_Interrupt n else returnE ()) d))" for g
    using Iop_Interrupt_ok[of d n] by (simp add: returnE_def)
  have "stays_ok d (snd (bindE (if g then Iop_Interrupt n else returnE ()) (\<lambda>_ c. if h c
      then Iop_Burst n (m c) c else (Inr (), c)) d))" for g h m
    using int Iop_Burst_ok by (intro impI snd_bindE[where P = cluster_ok]) auto
  with d show ?thesis unfolding Iop_Tick_def Let_def by (cases b) (simp_all add: st)
qed


text \<open>
  What happens to a cluster: its ticks, master clears and dead starts, an activation of a
  channel by the mainframe, the bytes that arrive at and leave a console, and the progress of
  the host timer that a real-time clock reads.
\<close>

inductive cluster_step :: "IopCluster_c \<Rightarrow> IopCluster_c \<Rightarrow> bool" where
  tick: "cluster_step c (snd (Cluster_Tick c))"
| master_clear: "cluster_step c (Cluster_MasterClear c)"
| dead_start: "cluster_step c (snd (Cluster_DeadStart c))"
| activation: "cluster_step c (snd (at_cc n i ch CC_HandleActivation c))"
| received: "cluster_step c (snd (at_console n k (\<lambda>t. case ReadHandler b (icConsole t) of
      (r, con) \<Rightarrow> (r, t\<lparr>icConsole := con\<rparr>)) c))"
| written: "cluster_step c (snd (at_console n k (\<lambda>t. (Inr (), WriteHandler t)) c))"
| timer: "cluster_step c (upd_iop n (iopRTC_update (rtcWall_update (\<lambda>_. w))) c)"

lemma cluster_operations_ok:
  "stays_ok c (Cluster_MasterClear c)" "stays_ok c (snd (Cluster_DeadStart c))" "stays_ok c (snd (Cluster_Tick c))"
proof -
  show clear: "stays_ok c (Cluster_MasterClear c)"
    unfolding Cluster_MasterClear_def by (rule reg.for_loop_within) (use MasterClear_ok(2) in blast)+
  then show "stays_ok c (snd (Cluster_DeadStart c))"
    unfolding Cluster_DeadStart_def Let_def using DeadStart_ok by auto
  show "stays_ok c (snd (Cluster_Tick c))"
    unfolding Cluster_Tick_def using Iop_Tick_ok
    by (intro impI snd_bindE[where P = cluster_ok]) (auto simp: returnE_def)
qed

lemma cluster_step_ok: "cluster_step c d \<Longrightarrow> stays_ok c d"
proof (induction rule: cluster_step.induct)
  case (timer c n w)
  show ?case by (rule upd_iop_ok') (simp add: registers_ok_def)
qed (rule cluster_operations_ok channel_state_ok)+

text \<open>C3: The registers of the I/O processors stay in bounds. Whatever happens to a cluster whose
  processors have a carry and an interrupt flag of one bit, a register B of nine bits and a
  stack pointer of four, and in whatever way the steps end, it remains so. Register B therefore
  never points outside the 512 operand registers, and the assertions of the exit stack cannot
  fail: every push and every pop returns.
\<close>

theorem iop_registers_in_bounds:
  assumes "cluster_step\<^sup>*\<^sup>* c d" "cluster_ok c" "p \<in> set (clIops d)"
  shows "cluster_ok d \<and> unat (iopB p) < 512 \<and> (iopCarry p = 0 \<or> iopCarry p = 1) \<and>
    fst (PXS_Push a (iopPXS p)) = Inr () \<and> (\<exists>v. fst (PXS_Pop (iopPXS p)) = Inr v)"
proof (intro conjI)
  from assms(1,2) show d: "cluster_ok d"
    by (induction rule: rtranclp_induct) (use cluster_step_ok in blast)+
  from d assms(3) have ok: "registers_ok p" by (simp add: cluster_ok_def)
  then show "unat (iopB p) < 512" by (simp add: registers_ok_def word_le_nat_alt)
  have "unat (iopCarry p) \<le> 1" using ok by (simp add: registers_ok_def word_le_nat_alt)
  then have "unat (iopCarry p) = 0 \<or> unat (iopCarry p) = 1" by linarith
  then show "iopCarry p = 0 \<or> iopCarry p = 1" by (metis unat_0 unat_1 unsigned_word_eqI)
  show "fst (PXS_Push a (iopPXS p)) = Inr ()" "\<exists>v. fst (PXS_Pop (iopPXS p)) = Inr v"
    using ok by (simp_all add: registers_ok_def PXS_Push_def PXS_Pop_def Let_def)
qed

theorem iop_registers_in_bounds_witness:
  "cluster_ok sample_iop_cluster \<and>
    list_all (\<lambda>p. unat (iopB p) < 512) (clIops (snd (Cluster_Tick sample_iop_cluster)))"
proof -
  have ok: "cluster_ok sample_iop_cluster"
    by (simp add: cluster_ok_def registers_ok_def sample_iop_cluster_def sample_iop_def)
  have "cluster_step\<^sup>*\<^sup>* sample_iop_cluster (snd (Cluster_Tick sample_iop_cluster))"
    by (rule r_into_rtranclp) (rule cluster_step.tick)
  from iop_registers_in_bounds[OF this ok] ok show ?thesis by (simp add: list_all_iff)
qed

section \<open>Calls, interrupts and returns\<close>

lemma unat_and_15: "unat (x AND 0xf :: uint8) = unat x mod 16"
proof -
  have m: "(0xf :: uint8) = mask 4" by (simp add: mask_eq_exp_minus_1)
  have "unat (take_bit 4 x) = take_bit 4 (unat x)" by (rule unsigned_take_bit_eq)
  then show ?thesis unfolding m take_bit_eq_mask[symmetric] by (simp add: take_bit_eq_mod)
qed

lemma stack_index:
  assumes "e \<le> 15"
  shows "unat ((e + 1) AND 0xf :: uint8) = (unat e + 1) mod 16"
proof -
  have e: "unat e \<le> 15" using assms by (simp add: word_le_nat_alt)
  have "unat (e + 1) = unat e + 1"
    by (rule unat_add_lem[THEN iffD1, THEN trans]) (use e in simp_all)
  then show ?thesis by (simp add: unat_and_15)
qed

lemma pop_after_push:
  assumes "pxsE ch \<le> 15" "PXS_Push a ch = (r, ch')"
  shows "r = Inr ()" "fst (PXS_Pop ch') = Inr a" "pxsE (snd (PXS_Pop ch')) = pxsE ch"
    "pxsStack ch' = (pxsStack ch)(unat ((pxsE ch + 1) AND 0xf) := a)"
proof -
  have e: "(pxsE ch + 1) AND 0xf \<le> 0xf" by (rule and_mask_le)
  have down: "((pxsE ch + 1) AND 0xf) - 1 AND 0xf = pxsE ch"
  proof (cases "pxsE ch = 15")
    case False
    then have less: "unat (pxsE ch) < 15" using assms(1) by (simp add: word_le_nat_alt word_unat_eq_iff)
    then have up: "unat (pxsE ch + 1) = unat (pxsE ch) + 1"
      by (intro unat_add_lem[THEN iffD1, THEN trans]) simp_all
    then have "(pxsE ch + 1) AND 0xf = pxsE ch + 1"
      using less by (intro word_unat_eq_iff[THEN iffD2]) (simp add: unat_and_15)
    then show ?thesis using less by (intro word_unat_eq_iff[THEN iffD2]) (simp add: unat_and_15)
  qed simp
  have ch': "r = Inr ()" "pxsE ch' = (pxsE ch + 1) AND 0xf"
      "pxsStack ch' = (pxsStack ch)(unat ((pxsE ch + 1) AND 0xf) := a)"
    using assms by (auto simp: PXS_Push_def SetAtE_def Let_def)
  then show "r = Inr ()" "pxsStack ch' = (pxsStack ch)(unat ((pxsE ch + 1) AND 0xf) := a)" by simp_all
  show "fst (PXS_Pop ch') = Inr a" "pxsE (snd (PXS_Pop ch')) = pxsE ch"
    using e ch' by (auto simp: PXS_Pop_def GetAtE_def Let_def down)
qed


lemma Call_result:
  assumes "pxsE (iopPXS p) \<le> 15" "PXS_Push rt (iopPXS p) = (x, ch)"
  shows "Call rt target p = (Inr \<lparr>resIncrement = 0, resDelayISet = True, resBreakBurst = True\<rparr>,
     p\<lparr>iopPXS := ch, iopP := target (p\<lparr>iopP := rt, iopPXS := ch\<rparr>)\<rparr>)"
  using pop_after_push(1)[OF assms] assms(2) by (simp add: Call_def bindE_def at_pxs_def)

lemma FetchRequest_simps [simp]:
  "iopPXS (FetchRequest d p) = iopPXS p" "iopOR (FetchRequest d p) = iopOR p" "iopP (FetchRequest d p) = iopP p"
  by (simp_all add: FetchRequest_def)

lemma DecodeJump_call:
  assumes "pxsE (iopPXS p) \<le> 15" "jump_code f \<in> {2, 3, 6, 7}" "jump_taken f p"
    "PXS_Push (iopP p + (if jump_code f = 7 then 2 else 1)) (iopPXS p) = (x, ch)"
  shows "iopPXS (snd (DecodeJump f d k p)) = ch"
    "iopP (snd (DecodeJump f d k p)) = (if jump_code f = 2 then iopP p + d else if jump_code f = 3 then iopP p - d
       else if jump_code f = 6 then iopOR p (unat d) else iopOR p (unat d) + k)"
  using assms Call_result[of p "iopP p + 1" x ch] Call_result[of "FetchRequest d p" "iopP p + 1" x ch]
    Call_result[of "FetchRequest d p" "iopP p + 2" x ch]
  by (auto simp: DecodeJump_def Let_def RefOr_def)

text \<open>C11: Calls and interrupts return. From any processor whose registers are in bounds, an
  interrupt clears the interrupt flag, ends the reset, and continues at the address in entry 0
  of the exit stack; a taken call (codes 2, 3, 6 and 7 of the jumps) continues at its target.
  Either saves where to go on, and when an EXIT meets the exit stack as it was left, it goes
  on there with the stack pointer as before. With the stack pointer at its maximum the
  interrupted address itself is written over entry 0, so the handler is not reached.
\<close>

theorem calls_and_interrupts_return:
  assumes "registers_ok (iop n c)" "n < length (clIops c)"
    and "Iop_Interrupt n c = (r, d)" "iopPXS q = iopPXS (iop n d)"
    and "registers_ok p" "jump_code f \<in> {2, 3, 6, 7}" "jump_taken f p"
    and "DecodeJump f op k p = (r', p')" "iopPXS q' = iopPXS p'"
  shows "r = Inr () \<and> iopI (iop n d) = 0 \<and> \<not> iopInReset (iop n d) \<and>
    iopP (iop n d) = (if pxsE (iopPXS (iop n c)) = 15 then iopP (iop n c) else pxsStack (iopPXS (iop n c)) 0) \<and>
    iopP (snd (Decode_control 1 q)) = iopP (iop n c) \<and>
    pxsE (iopPXS (snd (Decode_control 1 q))) = pxsE (iopPXS (iop n c)) \<and>
    iopP p' = (if jump_code f = 2 then iopP p + op else if jump_code f = 3 then iopP p - op
       else if jump_code f = 6 then iopOR p (unat op) else iopOR p (unat op) + k) \<and>
    iopP (snd (Decode_control 1 q')) = iopP p + (if jump_code f = 7 then 2 else 1) \<and>
    pxsE (iopPXS (snd (Decode_control 1 q'))) = pxsE (iopPXS p)"
proof (intro conjI)
  have exit: "iopP (snd (Decode_control 1 q)) = a \<and> pxsE (iopPXS (snd (Decode_control 1 q))) = pxsE ch"
    if "pxsE ch \<le> 15" "PXS_Push a ch = (x, iopPXS q)" for a ch x q
    using pop_after_push[OF that] by (auto simp: Decode_control_def bindE_def at_pxs_def split: prod.splits sum.splits)
  let ?p = "iop n c"
  have e: "pxsE (iopPXS ?p) \<le> 15" "pxsE (iopPXS p) \<le> 15" using assms(1,5) by (simp_all add: registers_ok_def)
  obtain x ch where push: "PXS_Push (iopP ?p) (iopPXS ?p) = (x, ch)" by fastforce
  note stack = pop_after_push[OF e(1) push]
  have wrap: "unat ((pxsE (iopPXS ?p) + 1) AND 0xf) = 0 \<longleftrightarrow> pxsE (iopPXS ?p) = 15"
  proof -
    have "(k + 1) mod 16 = 0 \<longleftrightarrow> k = 15" if "k \<le> 15" for k :: nat using that by presburger
    then show ?thesis
      using e(1) unfolding stack_index[OF e(1)] by (simp add: word_le_nat_alt word_unat_eq_iff)
  qed
  have d: "r = Inr ()" "iop n d = (if iopInReset ?p then ?p\<lparr>iopInstCnt := 0\<rparr> else ?p)
      \<lparr>iopInReset := False, iopI := 0, iopPXS := ch, iopP := GetAt 0 ch\<rparr>"
    using assms(2,3) push stack(1)
    by (cases "iopInReset ?p"; auto simp: Iop_Interrupt_def at_iop_def bindE_def at_pxs_def Let_def)+
  then show "r = Inr ()" "iopI (iop n d) = 0" "\<not> iopInReset (iop n d)" by simp_all
  show "iopP (iop n d) = (if pxsE (iopPXS ?p) = 15 then iopP ?p else pxsStack (iopPXS ?p) 0)"
    using wrap by (auto simp: d(2) GetAt_def stack(4))
  show "iopP (snd (Decode_control 1 q)) = iopP ?p" "pxsE (iopPXS (snd (Decode_control 1 q))) = pxsE (iopPXS ?p)"
    using exit[OF e(1), of "iopP ?p" x q] push assms(4) by (simp_all add: d(2))
  let ?ret = "iopP p + (if jump_code f = 7 then 2 else 1)"
  obtain y ch' where push': "PXS_Push ?ret (iopPXS p) = (y, ch')" by fastforce
  from DecodeJump_call[OF e(2) assms(6,7) push', of op k] assms(8)
  have p': "iopPXS p' = ch'" "iopP p' = (if jump_code f = 2 then iopP p + op else if jump_code f = 3
       then iopP p - op else if jump_code f = 6 then iopOR p (unat op) else iopOR p (unat op) + k)" by simp_all
  then show "iopP p' = (if jump_code f = 2 then iopP p + op else if jump_code f = 3 then iopP p - op
       else if jump_code f = 6 then iopOR p (unat op) else iopOR p (unat op) + k)" by simp
  show "iopP (snd (Decode_control 1 q')) = ?ret" "pxsE (iopPXS (snd (Decode_control 1 q'))) = pxsE (iopPXS p)"
    using exit[OF e(2), of ?ret y q'] push' assms(9) p'(1) by simp_all
qed

theorem calls_and_interrupts_return_witness:
  "iopP (snd (Decode_control 1 (iop 0 (snd (Iop_Interrupt 0 sample_iop_cluster))))) = 0 \<and>
   iopP (snd (Decode_control 1 (snd (DecodeJump 0x3a 5 0 (sample_iop []))))) = 1"
proof -
  have "registers_ok (iop 0 sample_iop_cluster)" "0 < length (clIops sample_iop_cluster)" "registers_ok (sample_iop [])"
      "jump_code 0x3a \<in> {2, 3, 6, 7}" "jump_taken 0x3a (sample_iop [])" "jump_code 0x3a = 2"
      "iopP (iop 0 sample_iop_cluster) = 0" "iopP (sample_iop []) = 0"
    by (simp_all add: registers_ok_def sample_iop_cluster_def sample_iop_def jump_code_def jump_taken_def)
  with calls_and_interrupts_return[OF this(1,2) prod.collapse[symmetric] refl this(3-5) prod.collapse[symmetric] refl]
  show ?thesis by simp
qed

end
