(* ===== verification/Iop_Transfers.thy ===== *)
theory Iop_Transfers
  imports Sample_Iop
begin

text \<open>
  The block transfers of the channels to the buffer memory and to the central memory: that
  their loops end after the programmed number of words without a failed assertion, and what
  they leave in the memories.
\<close>

section \<open>Counted transfers\<close>

text \<open>The number of words that a transfer count stands for: zero is the whole I/O memory.\<close>

definition transfer_words :: "IopInt \<Rightarrow> nat" where
  "transfer_words n = Suc (unat (next_count n))"

lemma unat_and_3fff: "unat (x AND 0x3fff :: IopInt) = unat x mod 0x4000"
proof -
  have m: "0x3fff = (mask 14 :: IopInt)" by (simp add: mask_eq_exp_minus_1)
  have "unat (take_bit 14 x) = take_bit 14 (unat x)" by (rule unsigned_take_bit_eq)
  then show ?thesis unfolding m take_bit_eq_mask[symmetric] by (simp add: take_bit_eq_mod)
qed

lemma and_3fff_eq_0: "x AND 0x3fff = 0 \<longleftrightarrow> unat (x :: IopInt) mod 0x4000 = 0"
  unfolding word_unat_eq_iff unat_and_3fff by simp

lemma unat_next_count: "unat (next_count n) = (if n AND 0x3fff = 0 then 0x3fff else unat (n AND 0x3fff) - 1)"
proof (cases "n = 0")
  case False
  then have n: "unat (n - 1) = unat n - 1" "0 < unat n" using unat_gt_0 by (blast intro: unat_minus_one)+
  have "(k - 1) mod 0x4000 = (if k mod 0x4000 = 0 then 0x3fff else k mod 0x4000 - 1)" if "0 < k" for k :: nat
    using that mod_Suc[of "k - 1" "0x4000"] by auto
  from this[OF n(2)] show ?thesis by (simp only: next_count_def unat_and_3fff and_3fff_eq_0 n(1))
qed (simp add: next_count_def)

lemma transfer_words: "transfer_words n = (if n AND 0x3fff = 0 then 0x4000 else unat (n AND 0x3fff))"
proof -
  have "0 < unat (n AND 0x3fff)" if "n AND 0x3fff \<noteq> 0" using that unat_gt_0 by blast
  then show ?thesis by (auto simp: transfer_words_def unat_next_count)
qed

lemma transfer_words_step:
  assumes "next_count n \<noteq> 0"
  shows "transfer_words n = Suc (transfer_words (next_count n))"
proof -
  have "next_count n AND 0x3fff = next_count n" by (simp add: next_count_def and.assoc)
  then have "unat (next_count (next_count n)) = unat (next_count n) - 1"
    using assms unat_next_count[of "next_count n"] by simp
  moreover have "0 < unat (next_count n)" using assms unat_gt_0 by blast
  ultimately have "unat (next_count n) = Suc (unat (next_count (next_count n)))" by simp
  then show ?thesis by (simp add: transfer_words_def)
qed

text \<open>
  The loop \<open>while (active) \<dots>\<close> of such a channel, by the reader of its state and by one turn: the
  turn counts down, and the turn that reaches zero ends the transfer and sets the done flag.
\<close>

locale counted_transfer =
  fixes loop :: "('s, unit) exec" and turn :: "'s \<Rightarrow> 's"
    and active :: "'s \<Rightarrow> bool" and finished :: "'s \<Rightarrow> bool" and count :: "'s \<Rightarrow> IopInt"
  assumes loop_unfold: "loop s = (if active s then if finished s then (Inl AssertError, s) else loop (turn s)
      else (Inr (), s))"
    and turn_count: "count (turn s) = next_count (count s)"
    and turn_active: "active (turn s) \<longleftrightarrow> active s \<and> next_count (count s) \<noteq> 0"
    and turn_finished: "finished (turn s) \<longleftrightarrow> finished s \<or> next_count (count s) = 0"
begin

lemma loop_result:
  assumes "active s" "\<not> finished s"
  shows "loop s = (Inr (), (turn ^^ transfer_words (count s)) s)"
    "\<not> active ((turn ^^ transfer_words (count s)) s)" "finished ((turn ^^ transfer_words (count s)) s)"
proof -
  have "loop s = (Inr (), (turn ^^ n) s) \<and> \<not> active ((turn ^^ n) s) \<and> finished ((turn ^^ n) s)"
    if "n = transfer_words (count s)" "active s" "\<not> finished s" for n s
    using that
  proof (induction n arbitrary: s)
    case 0
    then show ?case by (simp add: transfer_words_def)
  next
    case (Suc n)
    show ?case
    proof (cases "next_count (count s) = 0")
      case True
      with Suc.prems have "n = 0" "transfer_words (count s) = 1" by (simp_all add: transfer_words_def)
      with True Suc.prems show ?thesis
        using loop_unfold[of s] loop_unfold[of "turn s"] by (simp add: turn_active turn_finished)
    next
      case False
      with Suc.prems(1) have "n = transfer_words (count (turn s))"
        by (simp add: transfer_words_step turn_count)
      from Suc.IH[OF this] False Suc.prems show ?thesis
        using loop_unfold[of s] Suc.prems(1)[symmetric] by (simp add: turn_active turn_finished funpow_swap1)
    qed
  qed
  from this[OF refl assms] show "loop s = (Inr (), (turn ^^ transfer_words (count s)) s)"
    "\<not> active ((turn ^^ transfer_words (count s)) s)" "finished ((turn ^^ transfer_words (count s)) s)" by simp_all
qed

text \<open>The channel is active before each of its turns.\<close>

lemma active_before:
  assumes "active s" "k < transfer_words (count s)"
  shows "active ((turn ^^ k) s)"
proof -
  have "active ((turn ^^ k) s) \<and> transfer_words (count ((turn ^^ k) s)) = transfer_words (count s) - k"
    using assms(2)
  proof (induction k)
    case (Suc k)
    then have IH: "active ((turn ^^ k) s)" "transfer_words (count ((turn ^^ k) s)) = transfer_words (count s) - k"
      by simp_all
    with Suc.prems have "next_count (count ((turn ^^ k) s)) \<noteq> 0" by (auto simp: transfer_words_def)
    with IH show ?case using transfer_words_step[of "count ((turn ^^ k) s)"] by (simp add: turn_active turn_count)
  qed (simp add: assms(1))
  then show ?thesis by simp
qed

end

interpretation mos: counted_transfer "MOS_loop sz" "MOS_step sz"
  "\<lambda>s. mosItoBActive (mosChannel s) \<or> mosBtoIActive (mosChannel s)" "\<lambda>s. mosDone (mosChannel s)"
  "\<lambda>s. mosTransferSize (mosChannel s)"
  by unfold_locales (auto simp: MOS_loop.simps[of sz] MOS_step_channel)

interpretation hm: counted_transfer HM_DoTransfer HM_step
  "\<lambda>s. hmItoCActive (hmChannel s) \<or> hmCtoIActive (hmChannel s)" "\<lambda>s. hmDone (hmChannel s)"
  "\<lambda>s. hmTransferSize (hmChannel s)"
  by unfold_locales (auto simp: HM_DoTransfer.simps[of s for s] HM_step_channel)

section \<open>What a transfer moves\<close>

text \<open>The swap of the bytes of each parcel, which every transfer applies, undoes itself.\<close>

lemma bit_SwapBytes16: "bit (SwapBytes16 y) n \<longleftrightarrow> n < 16 \<and> bit y (if n < 8 then 8 + n else n - 8)"
  by (auto simp: SwapBytes16_def bit_simps dest: bit_imp_less_length)

lemma bit_SwapBytesInWords:
  assumes "q < 4" "r < 16"
  shows "bit (SwapBytesInWords x) (16 * q + r) \<longleftrightarrow> bit x (16 * q + (if r < 8 then 8 + r else r - 8))"
proof -
  have "q = 0 \<or> q = 1 \<or> q = 2 \<or> q = 3" using assms(1) by arith
  then show ?thesis
    using assms(2) by (elim disjE) (auto simp: SwapBytesInWords_def Let_def bit_simps bit_SwapBytes16 not_less)
qed

lemma SwapBytesInWords_twice: "SwapBytesInWords (SwapBytesInWords x) = x"
proof (rule word_eq_by_bits)
  fix n :: nat
  assume "n < LENGTH(64)"
  then have "n div 16 < 4" "n mod 16 < 16" "16 * (n div 16) + n mod 16 = n" by auto
  moreover have "bit (SwapBytesInWords (SwapBytesInWords x)) (16 * q + r) \<longleftrightarrow> bit x (16 * q + r)"
    if "q < 4" "r < 16" for q r
    using that bit_SwapBytesInWords[of q r "SwapBytesInWords x"]
      bit_SwapBytesInWords[of q "if r < 8 then 8 + r else r - 8" x] by (auto split: if_splits)
  ultimately show "bit (SwapBytesInWords (SwapBytesInWords x)) n = bit x n" by metis
qed

text \<open>The addresses after \<open>k\<close> turns.\<close>

lemma unat_next_io_addr:
  assumes "unat a < 0x4000"
  shows "unat (next_io_addr a) = (unat a + 1) mod 0x4000"
proof (cases "a = 0x3fff")
  case False
  then have "unat a \<noteq> 0x3fff" by (simp add: word_unat_eq_iff)
  moreover have "unat (a + 1) = unat a + 1"
    by (intro unat_add_lem[THEN iffD1, THEN trans]) (use assms in simp_all)
  ultimately show ?thesis using assms False by (simp add: next_io_addr_def)
qed (simp add: next_io_addr_def)

lemma next_io_addr_pow:
  assumes "unat a < 0x4000"
  shows "unat ((next_io_addr ^^ k) a) = (unat a + k) mod 0x4000"
  by (induction k) (use assms in \<open>simp_all add: unat_next_io_addr mod_Suc\<close>)


text \<open>The block of \<open>n\<close> words of the I/O memory from a word address on, as the loops go through it.\<close>

definition io_index :: "IopInt \<Rightarrow> nat \<Rightarrow> nat" where
  "io_index a k = (unat a + k) mod 0x4000"

lemma ring_index_inj:
  assumes "(a + i) mod n = (a + j) mod n" "i < n" "j < (n :: nat)"
  shows "i = j"
proof -
  have le: "i = j" if "(a + i) mod n = (a + j) mod n" "i \<le> j" "j < n" for i j
  proof -
    from that have "n dvd j - i" using mod_eq_dvd_iff_nat[of "a + i" "a + j" n] by simp
    with that show ?thesis by (auto dest: dvd_imp_le)
  qed
  show ?thesis using assms le[of i j] le[of j i] by (cases "i \<le> j") auto
qed

definition mos_index :: "nat \<Rightarrow> CAddr_t \<Rightarrow> nat \<Rightarrow> nat" where
  "mos_index w b k = (unat b + k) mod w"

lemma MOS_step_memories:
  "mosBufferMemory (MOS_step sz s) = (if mosItoBActive (mosChannel s)
     then BufferMemWrite64 sz (unat (mosBufferMemoryAddr (mosChannel s)))
       (SwapBytesInWords (IoMemRead64 (unat (mosIoMemoryAddr (mosChannel s))) (mosIoMemory s))) (mosBufferMemory s)
     else mosBufferMemory s)"
  "\<not> (mosItoBActive (mosChannel s) \<and> mosBtoIActive (mosChannel s)) \<Longrightarrow>
   mosIoMemory (MOS_step sz s) = (if mosBtoIActive (mosChannel s)
     then IoMemWrite64 (unat (mosIoMemoryAddr (mosChannel s)))
       (SwapBytesInWords (BufferMemRead64 sz (unat (mosBufferMemoryAddr (mosChannel s))) (mosBufferMemory s))) (mosIoMemory s)
     else mosIoMemory s)"
  by (simp_all add: MOS_step_def Let_def)

lemma MOS_turns_channel:
  "mosIoMemoryAddr (mosChannel ((MOS_step sz ^^ k) s)) = (next_io_addr ^^ k) (mosIoMemoryAddr (mosChannel s))"
  "mosBufferMemoryAddr (mosChannel ((MOS_step sz ^^ k) s)) = mosBufferMemoryAddr (mosChannel s) + of_nat k"
  "\<not> mosItoBActive (mosChannel s) \<Longrightarrow> \<not> mosItoBActive (mosChannel ((MOS_step sz ^^ k) s))"
  "\<not> mosBtoIActive (mosChannel s) \<Longrightarrow> \<not> mosBtoIActive (mosChannel ((MOS_step sz ^^ k) s))"
  by (induction k) (simp_all add: MOS_step_channel algebra_simps)

lemma buffer_address:
  assumes "unat b < 2 ^ 24" "k < 0x4000"
  shows "BufferMemRead64 (8 * w) (unat (b + of_nat k :: CAddr_t)) m = load64 m (8 * mos_index w b k)"
    and "BufferMemWrite64 (8 * w) (unat (b + of_nat k :: CAddr_t)) v m = store64 (8 * mos_index w b k) v m"
proof -
  have k: "unat (of_nat k :: CAddr_t) = k" using assms(2) by (simp add: unat_of_nat)
  have "unat (b + of_nat k) = unat b + k"
    using assms unat_add_lem[THEN iffD1, of b "of_nat k :: CAddr_t"] by (simp add: k)
  then have "unat (b + of_nat k) * 8 mod (8 * w) = 8 * mos_index w b k"
    by (simp add: mos_index_def mult.commute[of _ 8] mult_mod_right)
  then show "BufferMemRead64 (8 * w) (unat (b + of_nat k)) m = load64 m (8 * mos_index w b k)"
    "BufferMemWrite64 (8 * w) (unat (b + of_nat k)) v m = store64 (8 * mos_index w b k) v m"
    by (simp_all add: BufferMemRead64_def BufferMemWrite64_def)
qed

lemma transfer_words_le: "transfer_words n \<le> 0x4000"
proof -
  have "unat (n AND 0x3fff) \<le> 0x4000" by (simp add: unat_and_3fff)
  then show ?thesis by (simp add: transfer_words)
qed

text \<open>The memories after \<open>k\<close> turns in either direction.\<close>

lemma MOS_turns_store:
  assumes "mosItoBActive (mosChannel s)" "\<not> mosBtoIActive (mosChannel s)"
    "unat (mosIoMemoryAddr (mosChannel s)) < 0x4000" "unat (mosBufferMemoryAddr (mosChannel s)) < 2 ^ 24"
    "k \<le> transfer_words (mosTransferSize (mosChannel s))"
  shows "mosIoMemory ((MOS_step (8 * w) ^^ k) s) = mosIoMemory s \<and>
    mosBufferMemory ((MOS_step (8 * w) ^^ k) s) =
      for_loop 0 k (\<lambda>i. store64 (8 * mos_index w (mosBufferMemoryAddr (mosChannel s)) i)
        (SwapBytesInWords (IoMemRead64 (io_index (mosIoMemoryAddr (mosChannel s)) i) (mosIoMemory s)))) (mosBufferMemory s)"
  using assms(5)
proof (induction k)
  case (Suc k)
  let ?t = "(MOS_step (8 * w) ^^ k) s"
  have "mosItoBActive (mosChannel ?t)" "\<not> mosBtoIActive (mosChannel ?t)"
    using mos.active_before[of s k] MOS_turns_channel(4)[of s] assms(1,2) Suc.prems by auto
  moreover have "k < 0x4000" using Suc.prems transfer_words_le[of "mosTransferSize (mosChannel s)"] by simp
  ultimately show ?case
    using Suc.IH Suc.prems MOS_step_memories(1)[of "8 * w" ?t] MOS_step_memories(2)[of ?t "8 * w"]
    by (simp add: MOS_turns_channel next_io_addr_pow[OF assms(3)] buffer_address[OF assms(4)] io_index_def
        for_loop_Suc)
qed simp

lemma MOS_turns_load:
  assumes "mosBtoIActive (mosChannel s)" "\<not> mosItoBActive (mosChannel s)"
    "unat (mosIoMemoryAddr (mosChannel s)) < 0x4000" "unat (mosBufferMemoryAddr (mosChannel s)) < 2 ^ 24"
    "k \<le> transfer_words (mosTransferSize (mosChannel s))"
  shows "mosBufferMemory ((MOS_step (8 * w) ^^ k) s) = mosBufferMemory s \<and>
    mosIoMemory ((MOS_step (8 * w) ^^ k) s) =
      for_loop 0 k (\<lambda>i. store64 (8 * io_index (mosIoMemoryAddr (mosChannel s)) i)
        (SwapBytesInWords (load64 (mosBufferMemory s) (8 * mos_index w (mosBufferMemoryAddr (mosChannel s)) i)))) (mosIoMemory s)"
  using assms(5)
proof (induction k)
  case (Suc k)
  let ?t = "(MOS_step (8 * w) ^^ k) s"
  have "mosBtoIActive (mosChannel ?t)" "\<not> mosItoBActive (mosChannel ?t)"
    using mos.active_before[of s k] MOS_turns_channel(3)[of s] assms(1,2) Suc.prems by auto
  moreover have "k < 0x4000" using Suc.prems transfer_words_le[of "mosTransferSize (mosChannel s)"] by simp
  ultimately show ?case
    using Suc.IH Suc.prems MOS_step_memories(1)[of "8 * w" ?t] MOS_step_memories(2)[of ?t "8 * w"]
    by (simp add: MOS_turns_channel next_io_addr_pow[OF assms(3)] buffer_address[OF assms(4)] io_index_def
        for_loop_Suc IoMemWrite64_def)
qed simp


text \<open>C12: Buffer memory keeps what it is given. A transfer of any length up to the size of the
  buffer memory, started on an idle channel, ends without a failed assertion with the channel
  done and idle, changes only the addressed words, and leaves the I/O memory as it was. A later
  transfer back with the same addresses, whatever the I/O memory holds by then, restores the
  words of the block and no others. The I/O memory address runs around at 16384 words, the
  buffer memory address around the end of the buffer memory.
\<close>

theorem buffer_memory_roundtrip:
  assumes "\<not> MOS_GetBusy (mosChannel s)" "unat (mosIoMemoryAddr (mosChannel s)) < 0x4000"
    "unat (mosBufferMemoryAddr (mosChannel s)) < 2 ^ 24" "transfer_words n \<le> w"
    "MOS_DoIo (8 * w) 5 n s = (r, s1)"
    "\<not> MOS_GetBusy (mosChannel t)" "mosIoMemoryAddr (mosChannel t) = mosIoMemoryAddr (mosChannel s)"
    "mosBufferMemoryAddr (mosChannel t) = mosBufferMemoryAddr (mosChannel s)"
    "mosBufferMemory t = mosBufferMemory s1" "MOS_DoIo (8 * w) 4 n t = (r', t1)"
  shows "r = Inr 0 \<and> \<not> MOS_GetBusy (mosChannel s1) \<and> mosDone (mosChannel s1) \<and> mosIoMemory s1 = mosIoMemory s \<and>
    (\<forall>b < w. (\<forall>k < transfer_words n. b \<noteq> mos_index w (mosBufferMemoryAddr (mosChannel s)) k) \<longrightarrow>
       load64 (mosBufferMemory s1) (8 * b) = load64 (mosBufferMemory s) (8 * b)) \<and>
    r' = Inr 0 \<and> \<not> MOS_GetBusy (mosChannel t1) \<and> mosDone (mosChannel t1) \<and>
    (\<forall>k < transfer_words n. IoMemRead64 (io_index (mosIoMemoryAddr (mosChannel s)) k) (mosIoMemory t1) =
       IoMemRead64 (io_index (mosIoMemoryAddr (mosChannel s)) k) (mosIoMemory s)) \<and>
    (\<forall>b < 0x4000. (\<forall>k < transfer_words n. b \<noteq> io_index (mosIoMemoryAddr (mosChannel s)) k) \<longrightarrow>
       IoMemRead64 b (mosIoMemory t1) = IoMemRead64 b (mosIoMemory t))"
proof -
  define a b N where "a = mosIoMemoryAddr (mosChannel s)" "b = mosBufferMemoryAddr (mosChannel s)" "N = transfer_words n"
  let ?s = "upd_mos (\<lambda>ch. ch\<lparr>mosTransferSize := n AND 0x3fff, mosItoBActive := True, mosDone := False\<rparr>) s"
  let ?t = "upd_mos (\<lambda>ch. ch\<lparr>mosTransferSize := n AND 0x3fff, mosBtoIActive := True, mosDone := False\<rparr>) t"
  have N: "transfer_words (n AND 0x3fff) = N" "N \<le> 0x4000" "N \<le> w"
    using transfer_words_le[of n] assms(4) by (simp_all add: a_b_N_def transfer_words and.assoc)
  have idle: "\<not> mosItoBActive (mosChannel s)" "\<not> mosBtoIActive (mosChannel s)"
      "\<not> mosItoBActive (mosChannel t)" "\<not> mosBtoIActive (mosChannel t)"
    using assms(1,6) by (simp_all add: MOS_GetBusy_def)
  note s_end = mos.loop_result[of ?s "8 * w"] and t_end = mos.loop_result[of ?t "8 * w"]
  have s1: "r = Inr 0" "s1 = (MOS_step (8 * w) ^^ N) ?s"
    using assms(5) idle s_end(1) by (simp_all add: MOS_DoIo_def MOS_DoTransfer_def bindE_def returnE_def N)
  have t1: "r' = Inr 0" "t1 = (MOS_step (8 * w) ^^ N) ?t"
    using assms(10) idle t_end(1) by (simp_all add: MOS_DoIo_def MOS_DoTransfer_def bindE_def returnE_def N)
  have ended: "\<not> MOS_GetBusy (mosChannel s1)" "mosDone (mosChannel s1)" "\<not> MOS_GetBusy (mosChannel t1)"
      "mosDone (mosChannel t1)"
    using s_end(2,3) t_end(2,3) by (simp_all add: s1 t1 MOS_GetBusy_def N)
  have store: "mosIoMemory s1 = mosIoMemory s" "mosBufferMemory s1 = for_loop 0 N (\<lambda>i. store64 (8 * mos_index w b i)
      (SwapBytesInWords (IoMemRead64 (io_index a i) (mosIoMemory s)))) (mosBufferMemory s)"
    using MOS_turns_store[of ?s N w] idle assms(2,3) by (simp_all add: s1 N flip: a_b_N_def)
  have load: "mosIoMemory t1 = for_loop 0 N (\<lambda>i. store64 (8 * io_index a i)
      (SwapBytesInWords (load64 (mosBufferMemory t) (8 * mos_index w b i)))) (mosIoMemory t)"
    using MOS_turns_load[of ?t N w] idle assms(2,3,7,8) by (simp add: t1 N flip: a_b_N_def)
  have ring: "mos_index w b i = mos_index w b j \<Longrightarrow> i < N \<Longrightarrow> j < N \<Longrightarrow> i = j"
      "io_index a i = io_index a j \<Longrightarrow> i < N \<Longrightarrow> j < N \<Longrightarrow> i = j" for i j
    using N ring_index_inj[of _ i _ j] by (auto simp: mos_index_def io_index_def)
  have moved: "load64 (mosBufferMemory s1) (8 * mos_index w b k) =
      SwapBytesInWords (IoMemRead64 (io_index a k) (mosIoMemory s))" if "k < N" for k
    unfolding store by (rule words.rd_loop(1)) (use that ring(1) in auto)
  have moved': "load64 (mosIoMemory t1) (8 * io_index a k) =
      SwapBytesInWords (load64 (mosBufferMemory t) (8 * mos_index w b k))" if "k < N" for k
    unfolding load by (rule words.rd_loop(1)) (use that ring(2) in auto)
  have kept: "load64 (mosBufferMemory s1) (8 * x) = load64 (mosBufferMemory s) (8 * x)"
    if "\<forall>k < N. x \<noteq> mos_index w b k" for x
    unfolding store by (rule words.rd_loop(2)) (use that ring(1) in auto)
  have kept': "load64 (mosIoMemory t1) (8 * x) = load64 (mosIoMemory t) (8 * x)"
    if "\<forall>k < N. x \<noteq> io_index a k" for x
    unfolding load by (rule words.rd_loop(2)) (use that ring(2) in auto)
  have again: "IoMemRead64 (io_index a k) (mosIoMemory t1) = IoMemRead64 (io_index a k) (mosIoMemory s)"
    if "k < N" for k
    using moved[OF that] moved'[OF that] by (simp add: assms(9) SwapBytesInWords_twice IoMemRead64_def)
  show ?thesis
    unfolding a_b_N_def[symmetric]
    using ended kept kept' again by (simp add: s1(1) t1(1) store(1) IoMemRead64_def)
qed

theorem buffer_memory_roundtrip_witness:
  "\<exists>s1 t1. MOS_DoIo 512 5 4 \<lparr>mosChannel = sample_mos, mosIoMemory = (\<lambda>_. 7), mosBufferMemory = (\<lambda>_. 0)\<rparr> = (Inr 0, s1) \<and>
     MOS_DoIo 512 4 4 \<lparr>mosChannel = sample_mos, mosIoMemory = (\<lambda>_. 0), mosBufferMemory = mosBufferMemory s1\<rparr> = (Inr 0, t1) \<and>
     mosDone (mosChannel s1) \<and> IoMemRead64 3 (mosIoMemory t1) = IoMemRead64 3 (\<lambda>_. 7)"
proof -
  let ?s = "\<lparr>mosChannel = sample_mos, mosIoMemory = (\<lambda>_. 7), mosBufferMemory = (\<lambda>_. 0)\<rparr>"
  obtain r s1 where s1: "MOS_DoIo 512 5 4 ?s = (r, s1)" by fastforce
  let ?t = "\<lparr>mosChannel = sample_mos, mosIoMemory = (\<lambda>_. 0), mosBufferMemory = mosBufferMemory s1\<rparr>"
  obtain r' t1 where t1: "MOS_DoIo 512 4 4 ?t = (r', t1)" by fastforce
  have n: "transfer_words 4 = 4" by (simp add: transfer_words)
  have a: "io_index (mosIoMemoryAddr sample_mos) 3 = 3" by (simp add: io_index_def sample_mos_def)
  show ?thesis
    using buffer_memory_roundtrip[of ?s 4 64 r s1 ?t r' t1] s1 t1
    by (auto simp: n a MOS_GetBusy_def sample_mos_def io_index_def dest: spec[of _ 3])
qed

end
