(* ===== verification/Iop_Links.thy ===== *)
theory Iop_Links
  imports Sample_Iop
begin

text \<open>
  The links between I/O processors as one-place queues: what one processor sends the other
  receives, in order, once each; and the throttling of the sender lets it run again.
\<close>

section \<open>One-place queues\<close>

text \<open>
  The runs of two parties that hand values over through one place, with everything that was
  sent and everything that was received so far: the sender sends only when the place is free,
  the receiver takes only when it is full, and steps of a third kind do not touch the place.
\<close>

inductive handoff :: "('v \<Rightarrow> 's \<Rightarrow> 's) \<Rightarrow> ('s \<Rightarrow> 'v \<times> 's) \<Rightarrow> ('s \<Rightarrow> bool) \<Rightarrow> ('s \<Rightarrow> 's \<Rightarrow> bool) \<Rightarrow> 's \<Rightarrow>
    's \<Rightarrow> 'v list \<Rightarrow> 'v list \<Rightarrow> bool"
  for send receive full elsewhere s0 where
  start: "handoff send receive full elsewhere s0 s0 [] []"
| send: "handoff send receive full elsewhere s0 s sent got \<Longrightarrow> \<not> full s \<Longrightarrow>
    handoff send receive full elsewhere s0 (send v s) (sent @ [v]) got"
| receive: "handoff send receive full elsewhere s0 s sent got \<Longrightarrow> full s \<Longrightarrow> receive s = (v, t) \<Longrightarrow>
    handoff send receive full elsewhere s0 t sent (got @ [v])"
| elsewhere: "handoff send receive full elsewhere s0 s sent got \<Longrightarrow> elsewhere s t \<Longrightarrow>
    handoff send receive full elsewhere s0 t sent got"

locale one_place_queue =
  fixes send :: "'v \<Rightarrow> 's \<Rightarrow> 's" and receive :: "'s \<Rightarrow> 'v \<times> 's" and full :: "'s \<Rightarrow> bool"
    and content :: "'s \<Rightarrow> 'v" and elsewhere :: "'s \<Rightarrow> 's \<Rightarrow> bool" and ok :: "'s \<Rightarrow> bool"
  assumes ok_send: "ok s \<Longrightarrow> ok (send v s)" and ok_receive: "ok s \<Longrightarrow> ok (snd (receive s))"
    and ok_elsewhere: "ok s \<Longrightarrow> elsewhere s t \<Longrightarrow> ok t"
    and send_full: "ok s \<Longrightarrow> \<not> full s \<Longrightarrow> full (send v s) \<and> content (send v s) = v"
    and receive_content: "ok s \<Longrightarrow> full s \<Longrightarrow> fst (receive s) = content s \<and> \<not> full (snd (receive s))"
    and elsewhere_same: "ok s \<Longrightarrow> elsewhere s t \<Longrightarrow> full t = full s \<and> content t = content s"
begin

lemma in_order:
  assumes "handoff send receive full elsewhere s0 s sent got" "ok s0" "\<not> full s0"
  shows "ok s \<and> sent = got @ (if full s then [content s] else [])"
  using assms
proof (induction rule: handoff.induct)
  case (send s sent got v)
  then show ?case using ok_send[of s v] send_full[of s v] by auto
next
  case (receive s sent got v t)
  then show ?case using ok_receive[of s] receive_content[of s] by auto
next
  case (elsewhere s sent got t)
  then show ?case using ok_elsewhere[of s t] elsewhere_same[of s t] by auto
qed auto

end

section \<open>The link\<close>

text \<open>The accumulator output of function 014 octal, the input of function 010.\<close>

definition link_send :: "nat \<Rightarrow> IopInt \<Rightarrow> IopCluster_c \<Rightarrow> IopCluster_c" where
  "link_send l v c = snd (AO_DoIo l 12 v c)"

definition link_receive :: "nat \<Rightarrow> IopCluster_c \<Rightarrow> IopInt \<times> IopCluster_c" where
  "link_receive l c = AI_DoIo l 8 0 c"

text \<open>
  What else may happen: the interrupt enable functions at either end, the test for a stall, any
  change of the processors, and every function but the dead start on another link.
\<close>

inductive beside_link :: "nat \<Rightarrow> IopCluster_c \<Rightarrow> IopCluster_c \<Rightarrow> bool" for l where
  "fn = 6 \<or> fn = 7 \<Longrightarrow> beside_link l c (snd (AO_DoIo l fn a c))"
| "fn = 6 \<or> fn = 7 \<Longrightarrow> beside_link l c (snd (AI_DoIo l fn a c))"
| "beside_link l c (snd (AO_StallIop l c))"
| "beside_link l c (upd_iop n f c)"
| "l' \<noteq> l \<Longrightarrow> fn \<noteq> 1 \<Longrightarrow> beside_link l c (snd (AO_DoIo l' fn a c))"
| "l' \<noteq> l \<Longrightarrow> beside_link l c (snd (AI_DoIo l' fn a c))"

lemma upd_link_other [simp]: "l \<noteq> k \<Longrightarrow> clLinks (upd_link l f c) ! k = clLinks c ! k"
  by (simp add: upd_link_def)

lemma beside_link_same:
  assumes "beside_link l c d" "l < length (clLinks c)"
  shows "length (clLinks d) = length (clLinks c)" "lkDataValid (clLinks d ! l) = lkDataValid (clLinks c ! l)"
    "lkData (clLinks d ! l) = lkData (clLinks c ! l)"
  using assms
  by (induction rule: beside_link.induct)
    (auto simp: AO_DoIo_def AI_DoIo_def AO_StallIop_def Let_def split: if_splits)

interpretation lk: one_place_queue "link_send l" "link_receive l" "\<lambda>c. lkDataValid (clLinks c ! l)"
  "\<lambda>c. lkData (clLinks c ! l)" "beside_link l" "\<lambda>c. l < length (clLinks c)"
proof
  fix c d :: IopCluster_c and v
  assume l: "l < length (clLinks c)"
  show "l < length (clLinks (link_send l v c))" "l < length (clLinks (snd (link_receive l c)))"
    using l by (simp_all add: link_send_def link_receive_def AO_DoIo_def AI_DoIo_def)
  show "lkDataValid (clLinks (link_send l v c) ! l) \<and> lkData (clLinks (link_send l v c) ! l) = v"
    using l by (simp add: link_send_def AO_DoIo_def)
  show "fst (link_receive l c) = lkData (clLinks c ! l) \<and> \<not> lkDataValid (clLinks (snd (link_receive l c)) ! l)"
    using l by (simp add: link_receive_def AI_DoIo_def)
  assume "beside_link l c d"
  from beside_link_same[OF this l] l
  show "l < length (clLinks d)" "lkDataValid (clLinks d ! l) = lkDataValid (clLinks c ! l) \<and>
      lkData (clLinks d ! l) = lkData (clLinks c ! l)" by simp_all
qed

text \<open>C28: A link delivers in order. A run starts with an empty link and is made of sends (function
  014) while the link is empty, receives (function 010) while a value waits in it, the functions
  that enable or disable the interrupts of its ends, stall checks, steps of the processors, and
  functions on other links, in any order. In every such run the values read so far are the values sent so far, in order and without loss or repetition, but for at most
  one that is still in the link. The receiver's done flag tells exactly whether there is one.
  The busy flag of the sender's end is set when the link is empty and clear while a value waits.
  Clearing an end (function 0), dead start and master clear drop the value and are not part of
  the runs.
\<close>

theorem link_delivers_in_order:
  assumes "handoff (link_send l) (link_receive l) (\<lambda>c. lkDataValid (clLinks c ! l)) (beside_link l) c0 c sent got"
    "l < length (clLinks c0)" "\<not> lkDataValid (clLinks c0 ! l)"
  shows "sent = got @ (if Slot_GetDone n (SlotAI l) c then [lkData (clLinks c ! l)] else []) \<and>
    (Slot_GetBusy m (SlotAO l) c \<longleftrightarrow> sent = got)"
  using lk.in_order[OF assms] by (auto simp: Slot_GetDone_def Slot_GetBusy_def)

theorem link_delivers_in_order_witness:
  "\<exists>c. handoff (link_send 0) (link_receive 0) (\<lambda>c. lkDataValid (clLinks c ! 0)) (beside_link 0)
      sample_iop_cluster c [5, 6] [5] \<and> Slot_GetDone 1 (SlotAI 0) c \<and> lkData (clLinks c ! 0) = 6"
proof -
  let ?run = "handoff (link_send 0) (link_receive 0) (\<lambda>c. lkDataValid (clLinks c ! 0)) (beside_link 0) sample_iop_cluster"
  let ?c1 = "link_send 0 5 sample_iop_cluster"
  let ?c2 = "snd (link_receive 0 ?c1)"
  have l: "0 < length (clLinks sample_iop_cluster)" "\<not> lkDataValid (clLinks sample_iop_cluster ! 0)"
    by (simp_all add: sample_iop_cluster_def sample_link_def)
  have r0: "?run sample_iop_cluster [] []" by (rule handoff.start)
  have r1: "?run ?c1 [5] []" using handoff.send[OF r0, of 5] l(2) by simp
  have v: "lkDataValid (clLinks ?c1 ! 0)" "fst (link_receive 0 ?c1) = 5" "\<not> lkDataValid (clLinks ?c2 ! 0)"
    using l by (simp_all add: link_send_def link_receive_def AO_DoIo_def AI_DoIo_def)
  have r2: "?run ?c2 [5] [5]" using handoff.receive[OF r1, of 5 ?c2] v(1,2) prod.collapse[of "link_receive 0 ?c1"] by simp
  have r3: "?run (link_send 0 6 ?c2) [5, 6] [5]" using handoff.send[OF r2, of 6] v(3) by simp
  from link_delivers_in_order[OF this l, of 1 0] r3 show ?thesis by (auto split: if_splits)
qed

section \<open>Throttling\<close>

lemma AO_StallIop_valid:
  assumes "l < length (clLinks c)" "lkDataValid (clLinks c ! l)"
    "\<not> (lkAOResetStalling (clLinks c ! l) \<and> iopInReset (iop (lkDstIop (clLinks c ! l)) c))"
  shows "fst (AO_StallIop l c) \<longleftrightarrow> lkAOThrottleCnt (clLinks c ! l) \<noteq> 0"
    "clLinks (snd (AO_StallIop l c)) ! l = (clLinks c ! l)\<lparr>lkAOResetStalling := False,
       lkAOThrottleCnt := (if lkAOThrottleCnt (clLinks c ! l) = 0 then lkThrottle (clLinks c ! l)
         else lkAOThrottleCnt (clLinks c ! l) - 1)\<rparr>"
    "length (clLinks (snd (AO_StallIop l c))) = length (clLinks c)" "clIops (snd (AO_StallIop l c)) = clIops c"
  using assms by (auto simp: AO_StallIop_def Let_def)

definition stall_checks :: "nat \<Rightarrow> nat \<Rightarrow> IopCluster_c \<Rightarrow> IopCluster_c" where
  "stall_checks l k c = ((\<lambda>c. snd (AO_StallIop l c)) ^^ k) c"

text \<open>A throttled sender runs again, unless it is stalled by a reset. While a value waits in the link, its sender is stalled in
  exactly as many successive checks as its throttle counter says, and passes the next one, which
  sets the counter to the throttle of the link; so it runs once in every throttle + 1 checks.
\<close>

theorem throttled_sender_runs:
  assumes "l < length (clLinks c)" "lkDataValid (clLinks c ! l)"
    "\<not> (lkAOResetStalling (clLinks c ! l) \<and> iopInReset (iop (lkDstIop (clLinks c ! l)) c))"
    "lkAOThrottleCnt (clLinks c ! l) = m"
  shows "(\<forall>k < m. fst (AO_StallIop l (stall_checks l k c))) \<and> \<not> fst (AO_StallIop l (stall_checks l m c)) \<and>
    lkAOThrottleCnt (clLinks (stall_checks l (Suc m) c) ! l) = lkThrottle (clLinks c ! l)"
  using assms
proof (induction m arbitrary: c)
  case 0
  then show ?case using AO_StallIop_valid[OF 0(1-3)] by (simp add: stall_checks_def)
next
  case (Suc m)
  let ?d = "snd (AO_StallIop l c)"
  note d = AO_StallIop_valid[OF Suc.prems(1-3)]
  have shift: "stall_checks l (Suc k) c = stall_checks l k ?d" for k
    by (simp only: stall_checks_def funpow_Suc_right comp_def)
  have "(\<forall>k < m. fst (AO_StallIop l (stall_checks l k ?d))) \<and> \<not> fst (AO_StallIop l (stall_checks l m ?d)) \<and>
    lkAOThrottleCnt (clLinks (stall_checks l (Suc m) ?d) ! l) = lkThrottle (clLinks ?d ! l)"
    by (rule Suc.IH) (use Suc.prems d in simp_all)
  moreover have "fst (AO_StallIop l (stall_checks l 0 c))" using d(1) Suc.prems(4) by (simp add: stall_checks_def)
  ultimately show ?case using d(2) by (auto simp: shift less_Suc_eq_0_disj)
qed

theorem throttled_sender_runs_witness:
  "\<exists>c. lkAOThrottleCnt (clLinks c ! 0) = 2 \<and> fst (AO_StallIop 0 (stall_checks 0 1 c)) \<and>
     \<not> fst (AO_StallIop 0 (stall_checks 0 2 c))"
proof -
  let ?c = "upd_link 0 (\<lambda>k. k\<lparr>lkDataValid := True, lkAOThrottleCnt := 2\<rparr>) sample_iop_cluster"
  have l: "0 < length (clLinks ?c)" "lkDataValid (clLinks ?c ! 0)" "lkAOThrottleCnt (clLinks ?c ! 0) = 2"
      "\<not> (lkAOResetStalling (clLinks ?c ! 0) \<and> iopInReset (iop (lkDstIop (clLinks ?c ! 0)) ?c))"
    by (simp_all add: sample_iop_cluster_def sample_link_def upd_link_def)
  from throttled_sender_runs[OF l(1,2,4,3)] l(3) show ?thesis by (intro exI[of _ ?c]) auto
qed

end
