(* ===== verification/Disk_Results.thy ===== *)
theory Disk_Results
  imports Sample_Iop
begin

text \<open>
  The disk unit as an array of sectors. A parcel of the image is read by track, head, sector and
  position; a sector that is written becomes readable, the other sectors stay as they are.
\<close>

section \<open>Parcels in memory and in files\<close>

lemma parcel_bit_cases:
  assumes "n < (16 :: nat)"
  obtains "n < 8" | r where "n = 8 + r" "r < 8"
  using assms le_Suc_ex[of 8 n] by (cases "n < 8") auto

lemma bit_load16:
  "r < 8 \<Longrightarrow> bit (load16 m a) r \<longleftrightarrow> bit (m a) r" "r < 8 \<Longrightarrow> bit (load16 m a) (8 + r) \<longleftrightarrow> bit (m (a + 1)) r"
proof -
  have high: "\<not> bit (m a) k" if "8 \<le> k" for k using that bit_imp_less_length[of "m a" k] by auto
  show "r < 8 \<Longrightarrow> bit (load16 m a) r \<longleftrightarrow> bit (m a) r" "r < 8 \<Longrightarrow> bit (load16 m a) (8 + r) \<longleftrightarrow> bit (m (a + 1)) r"
    by (auto simp: load16_def bit_simps high)
qed

lemma load16_eqI: "m a = m' b \<Longrightarrow> m (a + 1) = m' (b + 1) \<Longrightarrow> load16 m a = load16 m' b"
  by (simp add: load16_def)

lemma load16_store16_same: "load16 (store16 a v m) a = v"
proof (rule word_eq_by_bits)
  fix n :: nat
  assume "n < LENGTH(16)"
  then have "n < 16" by simp
  then show "bit (load16 (store16 a v m) a) n = bit v n"
    by (cases rule: parcel_bit_cases) (simp_all add: bit_load16 store16_def bit_simps)
qed

lemma store16_load16: "store16 a (load16 m a) m = m"
proof
  fix x
  have "ucast (load16 m a) = m a"
    by (rule word_eq_by_bits) (simp add: bit_simps bit_load16)
  moreover have "ucast (drop_bit 8 (load16 m a)) = m (a + 1)"
    by (rule word_eq_by_bits) (simp add: bit_simps bit_load16)
  ultimately show "store16 a (load16 m a) m x = m x"
    by (auto simp: store16_def less_Suc_eq numeral_2_eq_2 dest!: le_Suc_ex)
qed

interpretation parcels: word_memory "\<lambda>_. True" "\<lambda>a m. IoMemRead16 a m" "\<lambda>a. IoMemWrite16 a"
proof
  fix a b :: nat and v w :: IopInt and m :: memory
  show "IoMemRead16 a (IoMemWrite16 a v m) = v" "IoMemWrite16 a (IoMemRead16 a m) m = m"
    by (simp_all add: IoMemRead16_def IoMemWrite16_def load16_store16_same store16_load16)
  show "IoMemWrite16 a v (IoMemWrite16 a w m) = IoMemWrite16 a v m"
    by (auto simp: IoMemWrite16_def store16_def)
  assume "a \<noteq> b"
  then show "IoMemRead16 b (IoMemWrite16 a v m) = IoMemRead16 b m"
    "IoMemWrite16 a v (IoMemWrite16 b w m) = IoMemWrite16 b w (IoMemWrite16 a v m)"
    by (auto simp: IoMemRead16_def IoMemWrite16_def store16_def fun_eq_iff intro!: load16_eqI)
qed

text \<open>The parcel at a byte position of a file, as the disk reads it.\<close>

definition file_parcel :: "host_file \<Rightarrow> nat \<Rightarrow> IopInt" where
  "file_parcel f pos = SwapBytes16 (load16 (\<lambda>i. f ! i) pos)"

lemma word_of_bytes_parcel:
  assumes "length bs = 8" "k < 4"
  shows "ucast (drop_bit (16 * k) (word_of_bytes bs)) = load16 (\<lambda>i. bs ! i) (2 * k)"
proof (rule word_eq_by_bits)
  fix n :: nat
  assume "n < LENGTH(16)"
  then have "n < 16" by simp
  then show "bit (ucast (drop_bit (16 * k) (word_of_bytes bs)) :: IopInt) n = bit (load16 (\<lambda>i. bs ! i) (2 * k)) n"
  proof (cases rule: parcel_bit_cases)
    case 1
    then show ?thesis using assms bit_load64[of "2 * k" n _ 0]
      by (simp add: word_of_bytes_def bit_simps bit_load16)
  next
    case (2 r)
    have "bit (load64 m 0) (16 * k + (8 + r)) = bit (m (2 * k + 1)) r" for m
    proof -
      have "16 * k + (8 + r) = 8 * (2 * k + 1) + r" by simp
      with 2 assms show ?thesis using bit_load64[of "2 * k + 1" r m 0] by (simp only:) simp
    qed
    with 2 show ?thesis using assms by (simp add: word_of_bytes_def bit_simps bit_load16)
  qed
qed

lemma load16_le16_bytes:
  assumes "f ! pos = le16_bytes v ! 0" "f ! (pos + 1) = le16_bytes v ! 1"
  shows "load16 (\<lambda>i. f ! i) pos = v"
proof (rule word_eq_by_bits)
  fix n :: nat
  assume "n < LENGTH(16)"
  then have "n < 16" by simp
  then show "bit (load16 (\<lambda>i. f ! i) pos) n = bit v n"
    by (cases rule: parcel_bit_cases) (use assms in \<open>simp_all add: bit_load16 le16_bytes_def bit_simps\<close>)
qed


section \<open>The sector loops\<close>

text \<open>The bytes of \<open>n\<close> parcels from an I/O memory address on, which runs around at 16 bits.\<close>

definition io_parcel :: "IopInt \<Rightarrow> memory \<Rightarrow> nat \<Rightarrow> IopInt" where
  "io_parcel a m j = IoMemRead16 (unat (a + of_nat j)) m"

definition parcel_bytes :: "IopInt \<Rightarrow> memory \<Rightarrow> nat \<Rightarrow> uint8 list" where
  "parcel_bytes a m n = concat (map (\<lambda>j. le16_bytes (SwapBytes16 (io_parcel a m j))) [0..<n])"

lemma length_parcel_bytes [simp]: "length (parcel_bytes a m n) = 2 * n"
  by (induction n) (simp_all add: parcel_bytes_def)

lemma parcel_bytes_Suc: "parcel_bytes a m (Suc n) = parcel_bytes a m n @ le16_bytes (SwapBytes16 (io_parcel a m n))"
  by (simp add: parcel_bytes_def)

lemma nth_parcel_bytes:
  assumes "j < n"
  shows "parcel_bytes a m n ! (2 * j) = le16_bytes (SwapBytes16 (io_parcel a m j)) ! 0"
    "parcel_bytes a m n ! (2 * j + 1) = le16_bytes (SwapBytes16 (io_parcel a m j)) ! 1"
  using assms by (induction n) (auto simp: parcel_bytes_Suc nth_append less_Suc_eq)

lemma parcel_bytes_add:
  "parcel_bytes a m (n + k) = parcel_bytes a m n @ parcel_bytes (a + of_nat n) m k"
  by (induction k) (simp_all add: parcel_bytes_Suc io_parcel_def algebra_simps, simp_all add: parcel_bytes_def)

lemma DK_collect_result:
  "DK_collect s = (parcel_bytes (dkIoMemoryAddr (dkUnit s)) (dkIoMemory s) 4,
     upd_dk (dkIoMemoryAddr_update (\<lambda>a. a + 4)) s)"
  by (simp add: DK_collect_def for_loop_def upt_rec DK_get_parcel_def Let_def parcel_bytes_def io_parcel_def
      add.assoc)

lemma forE_Suc:
  "forE [0..<q] f s = (Inr (), u) \<Longrightarrow> f q u = (Inr (), v) \<Longrightarrow> forE [0..<Suc q] f s = (Inr (), v)"
  by (simp add: forE_append)

lemma write_loop:
  assumes "ofs \<le> length (dkImage (dkUnit s))"
  shows "forE [0..<q] (DK_write_word ofs) s = (Inr (), upd_dk (\<lambda>d. d\<lparr>
      dkImage := file_write ofs (parcel_bytes (dkIoMemoryAddr d) (dkIoMemory s) (4 * q)) (dkImage d),
      dkIoMemoryAddr := dkIoMemoryAddr d + of_nat (4 * q)\<rparr>) s)"
proof (induction q)
  case 0
  have "file_write ofs [] (dkImage (dkUnit s)) = dkImage (dkUnit s)"
    using assms by (simp add: file_write_def)
  then show ?case by (simp add: parcel_bytes_def)
next
  case (Suc q)
  have "file_write (ofs + 8 * q) cs (file_write ofs (parcel_bytes a m (4 * q)) f) =
      file_write ofs (parcel_bytes a m (4 * q) @ cs) f" for cs a m f
    using file_write_concat[of ofs "parcel_bytes a m (4 * q)" cs f] by simp
  moreover have "parcel_bytes a m (4 * Suc q) = parcel_bytes a m (4 * q) @ parcel_bytes (a + 4 * of_nat q) m 4" for a m
    using parcel_bytes_add[of a m "4 * q" 4] by (simp add: add.commute)
  ultimately show ?case
    by (intro forE_Suc[OF Suc.IH]) (simp add: DK_write_word_def DK_collect_result algebra_simps)
qed

text \<open>A turn of the read loop, in terms of the parcels of the file.\<close>

lemma put_parcels:
  "for_loop 0 n (\<lambda>Idx. DK_put_parcel (v Idx)) s = upd_dk (dkIoMemoryAddr_update (\<lambda>a. a + of_nat n))
     (s\<lparr>dkIoMemory := for_loop 0 n (\<lambda>j. IoMemWrite16 (unat (dkIoMemoryAddr (dkUnit s) + of_nat j)) (v j)) (dkIoMemory s)\<rparr>)"
  by (induction n) (simp_all add: for_loop_Suc DK_put_parcel_def Let_def algebra_simps)

lemma DK_read_word_result:
  assumes "ofs + 8 * i + 8 \<le> length (dkImage (dkUnit s))"
  shows "DK_read_word ofs i s = (Inr (), for_loop 0 4 (\<lambda>k. DK_put_parcel
     (file_parcel (dkImage (dkUnit s)) (ofs + 8 * i + 2 * k))) s)"
proof -
  let ?bs = "file_read (ofs + 8 * i) 8 (dkImage (dkUnit s))"
  have len: "length ?bs = 8" using assms by simp
  have "SwapBytes16 (ucast (drop_bit (16 * k) (word_of_bytes ?bs))) =
      file_parcel (dkImage (dkUnit s)) (ofs + 8 * i + 2 * k)" if "k < 4" for k
    using that assms unfolding word_of_bytes_parcel[OF len that] file_parcel_def
    by (intro arg_cong[where f = SwapBytes16] load16_eqI) (simp_all add: nth_file_read algebra_simps)
  then have "for_loop 0 4 (\<lambda>k. DK_put_parcel (SwapBytes16 (ucast (drop_bit (16 * k) (word_of_bytes ?bs))))) s =
      for_loop 0 4 (\<lambda>k. DK_put_parcel (file_parcel (dkImage (dkUnit s)) (ofs + 8 * i + 2 * k))) s"
    unfolding for_loop_def by (intro fold_cong) simp_all
  then show ?thesis using len by (simp add: DK_read_word_def Let_def)
qed

lemma for_loop_add: "for_loop 0 (n + k) f s = for_loop 0 k (\<lambda>j. f (n + j)) (for_loop 0 n f s)"
  by (induction k) (simp_all add: for_loop_Suc)

lemma read_loop:
  assumes "ofs + 8 * q \<le> length (dkImage (dkUnit s))"
  shows "forE [0..<q] (DK_read_word ofs) s = (Inr (), for_loop 0 (4 * q) (\<lambda>j. DK_put_parcel
     (file_parcel (dkImage (dkUnit s)) (ofs + 2 * j))) s)"
  using assms
proof (induction q)
  case (Suc q)
  then have IH: "forE [0..<q] (DK_read_word ofs) s = (Inr (), for_loop 0 (4 * q) (\<lambda>j. DK_put_parcel
     (file_parcel (dkImage (dkUnit s)) (ofs + 2 * j))) s)" by simp
  have four: "4 * Suc q = 4 * q + 4" by simp
  show ?case
    unfolding four for_loop_add
    by (rule forE_Suc[OF IH], subst DK_read_word_result) (use Suc.prems in \<open>simp_all add: put_parcels algebra_simps\<close>)
qed simp


section \<open>The disk as an array of sectors\<close>

text \<open>The parcel \<open>j\<close> of a sector of the unit.\<close>

definition sector_parcel :: "IopDiskDD29_c \<Rightarrow> nat \<Rightarrow> nat \<Rightarrow> nat \<Rightarrow> nat \<Rightarrow> IopInt" where
  "sector_parcel d track head sector j =
     file_parcel (dkImage d) (ImageOffset (d\<lparr>dkCurrentTrack := track, dkCurrentHead := head, dkCurrentSector := sector\<rparr>) + 2 * j)"

definition on_disk :: "IopDiskDD29_c \<Rightarrow> nat \<Rightarrow> nat \<Rightarrow> nat \<Rightarrow> bool" where
  "on_disk d track head sector \<longleftrightarrow> track < dkNumTracks d \<and> head < dkNumHeads d \<and> sector < dkNumSectors d"

text \<open>
  A unit ready for a transfer: mounted and not in echo mode, positioned within its geometry, with
  a sector size that is a multiple of a word and an image that holds all its sectors.
\<close>

definition disk_ready :: "IopDiskDD29_c \<Rightarrow> bool" where
  "disk_ready d \<longleftrightarrow> dkMounted d \<and> \<not> dkBufferEchoMode d \<and> 8 dvd dkSectorSize d \<and>
     dkCurrentTrack d < dkNumTracks d \<and> dkCurrentHead d < dkNumHeads d \<and>
     dkSectorSize d * (dkNumTracks d * dkNumHeads d * dkNumSectors d) \<le> length (dkImage d)"

text \<open>The number of a sector on the disk: different sectors have different numbers.\<close>

definition sector_number :: "IopDiskDD29_c \<Rightarrow> nat \<Rightarrow> nat \<Rightarrow> nat \<Rightarrow> nat" where
  "sector_number d track head sector = (track * dkNumHeads d + head) * dkNumSectors d + sector"

lemma mixed_radix_inj:
  assumes "x * n + y = x' * n + y'" "y < n" "y' < (n :: nat)"
  shows "x = x' \<and> y = y'"
proof -
  have "(x * n + y) div n = x" "(x * n + y) mod n = y" "(x' * n + y') div n = x'" "(x' * n + y') mod n = y'"
    using assms(2,3) by simp_all
  with assms(1) show ?thesis by metis
qed

lemma sector_number_inj:
  assumes "on_disk d t h c" "on_disk d t' h' c'" "sector_number d t h c = sector_number d t' h' c'"
  shows "t = t' \<and> h = h' \<and> c = c'"
proof -
  from assms have "t * dkNumHeads d + h = t' * dkNumHeads d + h' \<and> c = c'"
    by (intro mixed_radix_inj) (auto simp: sector_number_def on_disk_def)
  moreover from this assms have "t = t' \<and> h = h'" by (intro mixed_radix_inj) (auto simp: on_disk_def)
  ultimately show ?thesis by blast
qed

lemma sector_number_less:
  assumes "on_disk d t h c"
  shows "sector_number d t h c < dkNumTracks d * dkNumHeads d * dkNumSectors d"
proof -
  have "t * dkNumHeads d + h < Suc t * dkNumHeads d" using assms by (simp add: on_disk_def)
  also have "\<dots> \<le> dkNumTracks d * dkNumHeads d" using assms by (intro mult_right_mono) (auto simp: on_disk_def)
  finally have "Suc (t * dkNumHeads d + h) * dkNumSectors d \<le> dkNumTracks d * dkNumHeads d * dkNumSectors d"
    by (intro mult_right_mono) auto
  then show ?thesis using assms by (simp add: sector_number_def on_disk_def)
qed

lemma ImageOffset_number:
  "ImageOffset (d\<lparr>dkCurrentTrack := t, dkCurrentHead := h, dkCurrentSector := c\<rparr>) = dkSectorSize d * sector_number d t h c"
  by (simp add: ImageOffset_def sector_number_def algebra_simps)


lemma file_parcel_written:
  assumes "j < n" "z * m + 2 * n \<le> length f" "z = 2 * n"
  shows "file_parcel (file_write (z * m) (parcel_bytes a io n) f) (z * m + 2 * j) = io_parcel a io j"
proof -
  have "load16 (\<lambda>i. file_write (z * m) (parcel_bytes a io n) f ! i) (z * m + 2 * j) =
      SwapBytes16 (io_parcel a io j)"
    using assms nth_parcel_bytes[of j n a io] by (intro load16_le16_bytes) (simp_all add: nth_file_write)
  then show ?thesis by (simp add: file_parcel_def)
qed

lemma file_parcel_elsewhere:
  assumes "j < n" "m \<noteq> m'" "z * m' + 2 * n \<le> length f" "z = 2 * n" "length bs = z"
  shows "file_parcel (file_write (z * m) bs f) (z * m' + 2 * j) = file_parcel f (z * m' + 2 * j)"
proof -
  have "Suc m \<le> m' \<or> Suc m' \<le> m" using assms(2) by auto
  then have "z * Suc m \<le> z * m' \<or> z * Suc m' \<le> z * m"
    using mult_le_mono2 by blast
  then show ?thesis unfolding file_parcel_def using assms
    by (intro arg_cong[where f = SwapBytes16] load16_eqI) (auto simp: nth_file_write)
qed

lemma sector_within:
  assumes "disk_ready d" "on_disk d t h c"
  shows "dkSectorSize d * sector_number d t h c + dkSectorSize d \<le> length (dkImage d)"
proof -
  have "dkSectorSize d * Suc (sector_number d t h c) \<le> dkSectorSize d * (dkNumTracks d * dkNumHeads d * dkNumSectors d)"
    using sector_number_less[OF assms(2)] by (intro mult_le_mono2) simp
  with assms(1) show ?thesis by (simp add: disk_ready_def)
qed

lemma DK_write:
  assumes "disk_ready (dkUnit s)" "\<not> dkReadOnly (dkUnit s)" "p AND 0xe0 = 0"
    "c = unat (p AND 0x1f)" "c < dkNumSectors (dkUnit s)"
  obtains d where "DK_DoIo 3 p s = (Inr 0, s\<lparr>dkUnit := d\<rparr>)" "dkDone d" "dkOperation d = Operation_Idle"
    "dkCurrentTrack d = dkCurrentTrack (dkUnit s)" "dkCurrentHead d = dkCurrentHead (dkUnit s)"
    "dkNumTracks d = dkNumTracks (dkUnit s)" "dkNumHeads d = dkNumHeads (dkUnit s)"
    "dkNumSectors d = dkNumSectors (dkUnit s)" "dkSectorSize d = dkSectorSize (dkUnit s)"
    "dkImage d = file_write (dkSectorSize (dkUnit s) * sector_number (dkUnit s) (dkCurrentTrack (dkUnit s))
        (dkCurrentHead (dkUnit s)) c) (parcel_bytes (dkIoMemoryAddr (dkUnit s)) (dkIoMemory s) (dkSectorSize (dkUnit s) div 2))
        (dkImage (dkUnit s))"
proof -
  let ?d = "dkUnit s"
  let ?s = "upd_dk (\<lambda>d. dkWrites_update (\<lambda>n. n + dkSectorSize ?d div 1024)
      (d\<lparr>dkCurrentSector := c, dkOperation := Operation_Write, dkDone := False\<rparr>)) s"
  let ?ofs = "dkSectorSize ?d * sector_number ?d (dkCurrentTrack ?d) (dkCurrentHead ?d) c"
  have ofs: "ImageOffset (?d\<lparr>dkCurrentSector := c, dkOperation := Operation_Write, dkDone := False\<rparr>) = ?ofs"
    by (simp add: ImageOffset_def sector_number_def algebra_simps)
  have "?ofs \<le> length (dkImage ?d)"
    using sector_within[of ?d "dkCurrentTrack ?d" "dkCurrentHead ?d" c] assms by (simp add: on_disk_def disk_ready_def)
  then have loop: "forE [0..<dkSectorSize ?d div 8] (DK_write_word ?ofs) ?s = (Inr (), upd_dk (\<lambda>d. d\<lparr>
      dkImage := file_write ?ofs (parcel_bytes (dkIoMemoryAddr d) (dkIoMemory ?s) (4 * (dkSectorSize ?d div 8))) (dkImage d),
      dkIoMemoryAddr := dkIoMemoryAddr d + of_nat (4 * (dkSectorSize ?d div 8))\<rparr>) ?s)"
    by (intro write_loop) simp
  have "4 * (dkSectorSize ?d div 8) = dkSectorSize ?d div 2" using assms(1) by (auto simp: disk_ready_def)
  note loop = loop[unfolded this]
  have "DK_DoIo 3 p s = (Inr 0, DK_finish (snd (forE [0..<dkSectorSize ?d div 8] (DK_write_word ?ofs) ?s)))"
    using loop ofs assms by (simp add: DK_DoIo_def DK_ExecOperation_def Let_def bindE_def returnE_def disk_ready_def)
  note r = this[unfolded loop snd_conv DK_finish_def, simplified]
  show thesis by (rule that[OF r]) simp_all
qed


lemma DK_read:
  assumes "disk_ready (dkUnit s)" "p AND 0xe0 = 0" "c = unat (p AND 0x1f)" "c < dkNumSectors (dkUnit s)"
    "dkSectorSize (dkUnit s) \<le> 2 ^ 17"
  obtains d m where "DK_DoIo 2 p s = (Inr 0, s\<lparr>dkIoMemory := m, dkUnit := d\<rparr>)" "dkDone d"
    "dkOperation d = Operation_Idle" "dkImage d = dkImage (dkUnit s)"
    "\<And>j. j < dkSectorSize (dkUnit s) div 2 \<Longrightarrow> io_parcel (dkIoMemoryAddr (dkUnit s)) m j =
       sector_parcel (dkUnit s) (dkCurrentTrack (dkUnit s)) (dkCurrentHead (dkUnit s)) c j"
proof -
  let ?d = "dkUnit s"
  let ?s = "upd_dk (\<lambda>d. dkReads_update (\<lambda>n. n + dkSectorSize ?d div 1024)
      (d\<lparr>dkCurrentSector := c, dkOperation := Operation_Read, dkDone := False\<rparr>)) s"
  let ?ofs = "dkSectorSize ?d * sector_number ?d (dkCurrentTrack ?d) (dkCurrentHead ?d) c"
  let ?m = "for_loop 0 (dkSectorSize ?d div 2) (\<lambda>j. IoMemWrite16 (unat (dkIoMemoryAddr ?d + of_nat j))
      (file_parcel (dkImage ?d) (?ofs + 2 * j))) (dkIoMemory s)"
  have ofs: "ImageOffset (?d\<lparr>dkCurrentSector := c, dkOperation := Operation_Read, dkDone := False\<rparr>) = ?ofs"
    by (simp add: ImageOffset_def sector_number_def algebra_simps)
  have size: "4 * (dkSectorSize ?d div 8) = dkSectorSize ?d div 2" "8 * (dkSectorSize ?d div 8) = dkSectorSize ?d"
    using assms(1) by (auto simp: disk_ready_def)
  have "?ofs + 8 * (dkSectorSize ?d div 8) \<le> length (dkImage ?d)"
    using sector_within[of ?d "dkCurrentTrack ?d" "dkCurrentHead ?d" c] assms
    unfolding size by (simp add: on_disk_def disk_ready_def)
  then have loop: "forE [0..<dkSectorSize ?d div 8] (DK_read_word ?ofs) ?s = (Inr (),
      upd_dk (dkIoMemoryAddr_update (\<lambda>a. a + of_nat (dkSectorSize ?d div 2))) (?s\<lparr>dkIoMemory := ?m\<rparr>))"
    using read_loop[of ?ofs "dkSectorSize ?d div 8" ?s] by (simp add: size put_parcels)
  have inj: "i = j" if "unat (dkIoMemoryAddr ?d + of_nat i) = unat (dkIoMemoryAddr ?d + of_nat j)"
    "i < dkSectorSize ?d div 2" "j < dkSectorSize ?d div 2" for i j
  proof -
    have "(of_nat i :: IopInt) = of_nat j" using that(1) by (simp add: word_unat_eq_iff[symmetric])
    then have "unat (of_nat i :: IopInt) = unat (of_nat j :: IopInt)" by simp
    moreover have "i < 2 ^ 16" "j < 2 ^ 16" using that(2,3) assms(5) by simp_all
    ultimately show ?thesis by (simp add: unat_of_nat)
  qed
  have parcel: "io_parcel (dkIoMemoryAddr ?d) ?m j =
      sector_parcel ?d (dkCurrentTrack ?d) (dkCurrentHead ?d) c j" if "j < dkSectorSize ?d div 2" for j
    unfolding io_parcel_def sector_parcel_def ImageOffset_number
    by (rule parcels.rd_loop(1)[where addr = "\<lambda>j. unat (dkIoMemoryAddr ?d + of_nat j)"]) (use inj that in auto)
  have "DK_DoIo 2 p s = (Inr 0, DK_finish (snd (forE [0..<dkSectorSize ?d div 8] (DK_read_word ?ofs) ?s)))"
    using loop ofs assms by (simp add: DK_DoIo_def DK_ExecOperation_def Let_def bindE_def returnE_def disk_ready_def)
  note r = this[unfolded loop snd_conv DK_finish_def, simplified]
  show thesis by (rule that[OF r]) (simp_all add: parcel)
qed

text \<open>C5: The disk is an array of sectors. On a unit that is ready, the function that writes a
  sector makes exactly that sector, at the current track and head, hold the parcels of the I/O
  memory and leaves every other sector of the disk and the I/O memory unchanged; the function
  that reads a sector copies its parcels to the I/O memory and leaves the image unchanged. Both
  end without a failed assertion, with the unit done and idle.
\<close>

theorem disk_is_array_of_sectors:
  assumes "disk_ready (dkUnit s)" "\<not> dkReadOnly (dkUnit s)" "p AND 0xe0 = 0"
    "c = unat (p AND 0x1f)" "c < dkNumSectors (dkUnit s)" "dkSectorSize (dkUnit s) \<le> 2 ^ 17"
    "DK_DoIo 3 p s = (r, s1)" "DK_DoIo 2 p s = (r', s2)"
  shows "r = Inr 0 \<and> dkDone (dkUnit s1) \<and> \<not> DK_GetBusy (dkUnit s1) \<and> dkIoMemory s1 = dkIoMemory s \<and>
    (\<forall>t h c' j. on_disk (dkUnit s) t h c' \<and> j < dkSectorSize (dkUnit s) div 2 \<longrightarrow>
       sector_parcel (dkUnit s1) t h c' j =
         (if t = dkCurrentTrack (dkUnit s) \<and> h = dkCurrentHead (dkUnit s) \<and> c' = c
          then io_parcel (dkIoMemoryAddr (dkUnit s)) (dkIoMemory s) j
          else sector_parcel (dkUnit s) t h c' j)) \<and>
    r' = Inr 0 \<and> dkDone (dkUnit s2) \<and> \<not> DK_GetBusy (dkUnit s2) \<and> dkImage (dkUnit s2) = dkImage (dkUnit s) \<and>
    (\<forall>j < dkSectorSize (dkUnit s) div 2. io_parcel (dkIoMemoryAddr (dkUnit s)) (dkIoMemory s2) j =
       sector_parcel (dkUnit s) (dkCurrentTrack (dkUnit s)) (dkCurrentHead (dkUnit s)) c j)"
proof -
  let ?d = "dkUnit s"
  let ?t = "dkCurrentTrack ?d" and ?h = "dkCurrentHead ?d" and ?z = "dkSectorSize ?d"
  obtain d where w: "DK_DoIo 3 p s = (Inr 0, s\<lparr>dkUnit := d\<rparr>)" "dkDone d" "dkOperation d = Operation_Idle"
    "dkNumHeads d = dkNumHeads ?d" "dkNumSectors d = dkNumSectors ?d" "dkSectorSize d = ?z"
    "dkImage d = file_write (?z * sector_number ?d ?t ?h c)
       (parcel_bytes (dkIoMemoryAddr ?d) (dkIoMemory s) (?z div 2)) (dkImage ?d)"
    using DK_write[OF assms(1-5)] by metis
  obtain d' m where rd: "DK_DoIo 2 p s = (Inr 0, s\<lparr>dkIoMemory := m, dkUnit := d'\<rparr>)" "dkDone d'"
    "dkOperation d' = Operation_Idle" "dkImage d' = dkImage ?d"
    "\<And>j. j < ?z div 2 \<Longrightarrow> io_parcel (dkIoMemoryAddr ?d) m j = sector_parcel ?d ?t ?h c j"
    using DK_read[OF assms(1,3-6)] by metis
  have z: "?z = 2 * (?z div 2)" using assms(1) by (auto simp: disk_ready_def)
  have here: "on_disk ?d ?t ?h c" using assms(1,5) by (simp add: disk_ready_def on_disk_def)
  have "sector_parcel d t h c' j = (if t = ?t \<and> h = ?h \<and> c' = c then io_parcel (dkIoMemoryAddr ?d) (dkIoMemory s) j
          else sector_parcel ?d t h c' j)" if "on_disk ?d t h c'" "j < ?z div 2" for t h c' j
  proof -
    have num: "sector_number d x y z = sector_number ?d x y z" for x y z by (simp add: sector_number_def w(4,5))
    note room = sector_within[OF assms(1) that(1)]
    show ?thesis
    proof (cases "t = ?t \<and> h = ?h \<and> c' = c")
      case True
      then show ?thesis using file_parcel_written[OF that(2) _ z] room z
        by (simp add: sector_parcel_def ImageOffset_number num w(6,7))
    next
      case False
      then have "sector_number ?d ?t ?h c \<noteq> sector_number ?d t h c'" using sector_number_inj[OF here that(1)] by auto
      from file_parcel_elsewhere[OF that(2) this _ z] room z
      have "sector_parcel d t h c' j = sector_parcel ?d t h c' j"
        by (simp add: sector_parcel_def ImageOffset_number num w(6,7))
      with False show ?thesis by auto
    qed
  qed
  with w rd assms(7,8) show ?thesis by (auto simp: DK_GetBusy_def)
qed

theorem disk_is_array_of_sectors_witness:
  "fst (DK_DoIo 3 1 \<lparr>dkUnit = sample_disk, dkIoMemory = (\<lambda>i. of_nat i)\<rparr>) = Inr 0 \<and>
   sector_parcel (dkUnit (snd (DK_DoIo 3 1 \<lparr>dkUnit = sample_disk, dkIoMemory = (\<lambda>i. of_nat i)\<rparr>))) 0 0 1 3 =
     io_parcel 0 (\<lambda>i. of_nat i) 3"
proof -
  let ?s = "\<lparr>dkUnit = sample_disk, dkIoMemory = (\<lambda>i. of_nat i)\<rparr>"
  have "disk_ready sample_disk" "\<not> dkReadOnly sample_disk" "dkSectorSize sample_disk = 16" "dkNumSectors sample_disk = 2"
      "dkCurrentTrack sample_disk = 0" "dkCurrentHead sample_disk = 0" "dkIoMemoryAddr sample_disk = 0"
      "on_disk sample_disk 0 0 1"
    by (simp_all add: disk_ready_def sample_disk_def on_disk_def)
  with disk_is_array_of_sectors[of ?s 1 1 "fst (DK_DoIo 3 1 ?s)" "snd (DK_DoIo 3 1 ?s)" "fst (DK_DoIo 2 1 ?s)" "snd (DK_DoIo 2 1 ?s)"]
  show ?thesis by simp
qed

section \<open>Formatting\<close>

text \<open>
  Formatting computes its position with heads and sectors exchanged: at head 0 and sector 1 of a
  unit with two of each, it clears the sector 0 of head 1.
\<close>

lemma format_hits_another_sector:
  "FormatOffset (sample_disk\<lparr>dkCurrentSector := 1\<rparr>) = ImageOffset (sample_disk\<lparr>dkCurrentHead := 1\<rparr>)"
  "FormatOffset (sample_disk\<lparr>dkCurrentSector := 1\<rparr>) \<noteq> ImageOffset (sample_disk\<lparr>dkCurrentSector := 1\<rparr>)"
  by (simp_all add: FormatOffset_def ImageOffset_def sample_disk_def)

end
