(* ===== verification/Console_Results.thy ===== *)
theory Console_Results
  imports Sample_Iop
begin

text \<open>
  The terminal connection against a description of its byte streams: what the program reads of
  the bytes that a telnet client sends.
\<close>

section \<open>The data in a telnet stream\<close>

text \<open>
  The character that a data byte stands for, if any: line feeds and zeros may be dropped, and
  the two backspace codes may be mapped to one.
\<close>

definition data_char :: "Console_c \<Rightarrow> uint8 \<Rightarrow> uint8 option" where
  "data_char c b =
     (if conEatLF c \<and> b = 10 \<or> conEatNull c \<and> b = 0 then None
      else Some (if conMapBackspace c \<and> (b = 8 \<or> b = 127) then conBackspaceChar c else b))"

definition is_negotiation :: "uint8 \<Rightarrow> bool" where
  "is_negotiation a \<longleftrightarrow> a = tcDO \<or> a = tcDONT \<or> a = tcWILL \<or> a = tcWONT"

text \<open>
  The characters of a stream: a negotiation of three bytes and the command NOP carry none, any
  other byte after an interpret-as-command code stands for itself.
\<close>

fun telnet_data :: "Console_c \<Rightarrow> bytes \<Rightarrow> bytes" where
  "telnet_data c [] = []"
| "telnet_data c (b # bs) =
     (if b = tcIAC then
        (case bs of
           [] \<Rightarrow> []
         | a # rest \<Rightarrow>
             if is_negotiation a then telnet_data c (drop 1 rest)
             else if a = tcNOP then telnet_data c rest
             else a # telnet_data c rest)
      else (case data_char c b of None \<Rightarrow> [] | Some ch \<Rightarrow> [ch]) @ telnet_data c bs)"

text \<open>The program reads each character before the next byte arrives.\<close>

fun receive_all :: "bytes \<Rightarrow> (Console_c, bytes) exec" where
  "receive_all [] c = (Inr [], c)"
| "receive_all (b # bs) c =
     bindE (ReadHandler b) (\<lambda>_ c.
       if conReceiveFull c then bindE GetChar (\<lambda>ch. bindE (receive_all bs) (\<lambda>rest. returnE (ch # rest))) c
       else receive_all bs c) c"

section \<open>The handler reads the data\<close>

text \<open>The settings of a console, which no byte changes.\<close>

definition same_settings :: "Console_c \<Rightarrow> Console_c \<Rightarrow> bool" where
  "same_settings c d \<longleftrightarrow> conEatLF d = conEatLF c \<and> conEatNull d = conEatNull c \<and>
     conMapBackspace d = conMapBackspace c \<and> conBackspaceChar d = conBackspaceChar c"

lemma same_settings_data:
  assumes "same_settings c d"
  shows "data_char d = data_char c"
proof
  fix b
  show "data_char d b = data_char c b" using assms by (auto simp: data_char_def same_settings_def)
qed

lemma same_settings_telnet:
  assumes "same_settings c d"
  shows "telnet_data d bs = telnet_data c bs"
proof (induction bs rule: length_induct)
  case (1 bs)
  then show ?case by (cases bs) (auto simp: same_settings_data[OF assms] split: list.split)
qed

lemma same_settings_trans: "same_settings c d \<Longrightarrow> same_settings d e \<Longrightarrow> same_settings c e"
  by (simp add: same_settings_def)

text \<open>Answers to a negotiation return, and change only the options and the transmit queue.\<close>

definition answers :: "Console_c \<Rightarrow> (exn + unit) \<times> Console_c \<Rightarrow> bool" where
  "answers c out \<longleftrightarrow> fst out = Inr () \<and> same_settings c (snd out) \<and>
     conReceiveFull (snd out) = conReceiveFull c \<and> conTelnetState (snd out) = conTelnetState c"

lemma SendOptionString_answers: "is_negotiation a \<Longrightarrow> answers c (SendOptionString a opt req c)"
  by (auto simp: answers_def SendOptionString_def SendStringInternal_def upd_option_def is_negotiation_def
      same_settings_def Let_def)

lemma answer_option_answers: "is_negotiation a \<Longrightarrow> answers c (answer_option a out d w opt c)"
proof -
  assume a: "is_negotiation a"
  obtain r e where s: "SendOptionString a opt False c = (r, e)" by fastforce
  with SendOptionString_answers[OF a, of c opt False]
  have e: "r = Inr ()" "same_settings c e" "conReceiveFull e = conReceiveFull c" "conTelnetState e = conTelnetState c"
    by (simp_all add: answers_def)
  have upd: "same_settings c (upd_option opt f d) = same_settings c d" "conReceiveFull (upd_option opt f d) = conReceiveFull d"
      "conTelnetState (upd_option opt f d) = conTelnetState d" for f d
    by (simp_all add: upd_option_def same_settings_def)
  have refl: "same_settings c c" by (simp add: same_settings_def)
  show ?thesis
  proof (cases "out (conTelnetOptions c opt)")
    case True
    then show ?thesis unfolding answers_def answer_option_def by (simp add: upd refl)
  next
    case False
    then show ?thesis unfolding answers_def answer_option_def bindE_def by (simp add: s e upd)
  qed
qed

lemma HandleOption_answers: "is_negotiation a \<Longrightarrow> answers c (HandleOption a opt c)"
proof -
  assume a: "is_negotiation a"
  have code: "is_negotiation (if s then tcWILL else tcWONT)" "is_negotiation (if s then tcDO else tcDONT)" for s
    by (simp_all add: is_negotiation_def)
  from a consider "a = tcDO" | "a = tcDONT" | "a = tcWILL" | "a = tcWONT" unfolding is_negotiation_def by blast
  then show ?thesis
    unfolding HandleOption_def by cases (simp_all add: answer_option_answers code)
qed

text \<open>The three kinds of turns of the handler from its state of rest.\<close>

definition at_rest :: "Console_c \<Rightarrow> bool" where
  "at_rest c \<longleftrightarrow> conTelnetState c = WaitIAC \<and> \<not> conReceiveFull c"

lemma receive_all_Cons:
  assumes "ReadHandler b c = (Inr (), d)"
  shows "receive_all (b # bs) c = (if conReceiveFull d
     then (case receive_all bs (d\<lparr>conReceiveFull := False\<rparr>) of
         (Inl e, d') \<Rightarrow> (Inl e, d') | (Inr rest, d') \<Rightarrow> (Inr (conReceiveBuf d # rest), d'))
     else receive_all bs d)"
  using assms by (simp add: bindE_def GetChar_def returnE_def split: prod.splits sum.splits)

text \<open>What the program has read when the rest of the stream has been read, too.\<close>

definition reads :: "bytes \<Rightarrow> Console_c \<Rightarrow> bytes \<Rightarrow> bool" where
  "reads bs c chars \<longleftrightarrow> fst (receive_all bs c) = Inr chars \<and> \<not> conReceiveFull (snd (receive_all bs c))"

lemma not_full_id: "\<not> conReceiveFull d \<Longrightarrow> d\<lparr>conReceiveFull := False\<rparr> = d"
  by (cases d) simp

lemma reads_Cons:
  assumes "ReadHandler b c = (Inr (), d)" "reads bs (d\<lparr>conReceiveFull := False\<rparr>) rest"
  shows "reads (b # bs) c (if conReceiveFull d then conReceiveBuf d # rest else rest)"
  using assms(2) not_full_id[of d] by (cases "conReceiveFull d")
    (auto simp: reads_def receive_all_Cons[OF assms(1)] simp del: receive_all.simps split: prod.splits sum.splits)

lemma reads_Nil: "\<not> conReceiveFull c \<Longrightarrow> reads [] c []"
  by (simp add: reads_def)

text \<open>The turns of the handler by its state.\<close>

lemma ReadHandler_data:
  assumes "at_rest c" "b \<noteq> tcIAC"
  obtains d where "ReadHandler b c = (Inr (), d)" "same_settings c d" "at_rest (d\<lparr>conReceiveFull := False\<rparr>)"
    "data_char c b = (if conReceiveFull d then Some (conReceiveBuf d) else None)"
proof -
  let ?d = "snd (ReadHandler b c)"
  have "ReadHandler b c = (Inr (), ?d)" "same_settings c ?d" "at_rest (?d\<lparr>conReceiveFull := False\<rparr>)"
    "data_char c b = (if conReceiveFull ?d then Some (conReceiveBuf ?d) else None)"
    using assms by (auto simp: ReadHandler_def at_rest_def same_settings_def data_char_def Let_def)
  then show thesis by (rule that)
qed

lemma ReadHandler_IAC:
  assumes "at_rest c"
  obtains d where "ReadHandler tcIAC c = (Inr (), d)" "same_settings c d" "\<not> conReceiveFull d"
    "conTelnetState d = WaitAction"
proof -
  let ?d = "snd (ReadHandler tcIAC c)"
  have "ReadHandler tcIAC c = (Inr (), ?d)" "same_settings c ?d" "\<not> conReceiveFull ?d" "conTelnetState ?d = WaitAction"
    using assms by (auto simp: ReadHandler_def at_rest_def same_settings_def Let_def)
  then show thesis by (rule that)
qed

lemma ReadHandler_action:
  assumes "conTelnetState c = WaitAction" "\<not> conReceiveFull c"
  obtains d where "ReadHandler a c = (Inr (), d)" "same_settings c d"
    "is_negotiation a \<Longrightarrow> conTelnetState d = WaitOption \<and> conTelnetAction d = a \<and> \<not> conReceiveFull d"
    "\<not> is_negotiation a \<Longrightarrow> at_rest (d\<lparr>conReceiveFull := False\<rparr>) \<and> conReceiveFull d = (a \<noteq> tcNOP) \<and> conReceiveBuf d = a"
proof -
  let ?d = "snd (ReadHandler a c)"
  have "ReadHandler a c = (Inr (), ?d)" "same_settings c ?d"
    "is_negotiation a \<Longrightarrow> conTelnetState ?d = WaitOption \<and> conTelnetAction ?d = a \<and> \<not> conReceiveFull ?d"
    "\<not> is_negotiation a \<Longrightarrow> at_rest (?d\<lparr>conReceiveFull := False\<rparr>) \<and> conReceiveFull ?d = (a \<noteq> tcNOP) \<and> conReceiveBuf ?d = a"
    using assms by (auto simp: ReadHandler_def at_rest_def same_settings_def is_negotiation_def Let_def)
  then show thesis by (rule that)
qed

lemma ReadHandler_option:
  assumes "conTelnetState c = WaitOption" "\<not> conReceiveFull c" "is_negotiation (conTelnetAction c)"
  obtains d where "ReadHandler opt c = (Inr (), d)" "same_settings c d" "at_rest d"
proof -
  let ?c = "c\<lparr>conReceiveBuf := opt\<rparr>"
  obtain r e where e: "HandleOption (conTelnetAction c) opt ?c = (r, e)" by fastforce
  from HandleOption_answers[OF assms(3), of ?c opt] e have "r = Inr ()" "same_settings c e"
    by (simp_all add: answers_def same_settings_def)
  with e assms show thesis
    by (intro that[of "e\<lparr>conTelnetState := WaitIAC, conReceiveFull := False\<rparr>"])
      (simp_all add: ReadHandler_def bindE_def at_rest_def same_settings_def)
qed

text \<open>C8: The program reads the data of a telnet stream. From the state of rest, for every sequence
  of bytes that a client may send, complete or cut off anywhere, the handler of received bytes
  returns without a failed assertion, and the characters the program reads are exactly the data
  of the stream: every negotiation of three bytes and every NOP is taken out, the dropped and
  mapped characters are treated as configured, and nothing is lost, repeated or reordered.
\<close>

theorem telnet_stream_is_read:
  assumes "at_rest c"
  shows "fst (receive_all bs c) = Inr (telnet_data c bs) \<and> \<not> conReceiveFull (snd (receive_all bs c))"
proof -
  have "reads bs c (telnet_data c bs)"
    using assms
  proof (induction bs arbitrary: c rule: length_induct)
    case (1 bs)
    show ?case
    proof (cases bs)
      case Nil
      with 1 show ?thesis by (simp add: reads_def at_rest_def)
    next
      case (Cons b rest)
      have IH: "reads bs' d (telnet_data c bs')" if "length bs' < length bs" "at_rest d" "same_settings c d" for bs' d
        using 1(1) that same_settings_telnet[OF that(3), of bs'] by metis
      show ?thesis
      proof (cases "b = tcIAC")
        case False
        obtain d where d: "ReadHandler b c = (Inr (), d)" "same_settings c d" "at_rest (d\<lparr>conReceiveFull := False\<rparr>)"
          "data_char c b = (if conReceiveFull d then Some (conReceiveBuf d) else None)"
          using ReadHandler_data[OF 1(2) False] by blast
        have "reads rest (d\<lparr>conReceiveFull := False\<rparr>) (telnet_data c rest)"
          using d(2) Cons by (intro IH d(3)) (simp_all add: same_settings_def)
        from reads_Cons[OF d(1) this] d(4) False show ?thesis by (simp add: Cons split: if_splits)
      next
        case True
        obtain d where d: "ReadHandler b c = (Inr (), d)" "same_settings c d" "\<not> conReceiveFull d"
          "conTelnetState d = WaitAction"
          using ReadHandler_IAC[OF 1(2)] True by metis
        show ?thesis
        proof (cases rest)
          case Nil
          with reads_Cons[OF d(1), of "[]" "[]"] reads_Nil[of "d\<lparr>conReceiveFull := False\<rparr>"] d(3) True Cons
          show ?thesis by simp
        next
          case (Cons a r)
          note rest = this
          obtain e where e: "ReadHandler a d = (Inr (), e)" "same_settings c e"
            "is_negotiation a \<Longrightarrow> conTelnetState e = WaitOption \<and> conTelnetAction e = a \<and> \<not> conReceiveFull e"
            "\<not> is_negotiation a \<Longrightarrow> at_rest (e\<lparr>conReceiveFull := False\<rparr>) \<and> conReceiveFull e = (a \<noteq> tcNOP) \<and> conReceiveBuf e = a"
            using ReadHandler_action[OF d(4,3), of a] same_settings_trans[OF d(2)] by metis
          have first: "reads (a # r) d xs \<Longrightarrow> reads bs c xs" for xs
            using reads_Cons[OF d(1), of "a # r" xs] d(3) not_full_id[of d] rest \<open>bs = b # rest\<close> by simp
          show ?thesis
          proof (cases "is_negotiation a")
            case False
            then have "reads r (e\<lparr>conReceiveFull := False\<rparr>) (telnet_data c r)"
              using e(2,4) rest \<open>bs = b # rest\<close> by (intro IH) (simp_all add: same_settings_def)
            from first[OF reads_Cons[OF e(1) this]] e(4)[OF False] False True show ?thesis
              by (simp add: rest \<open>bs = b # rest\<close> split: if_splits)
          next
            case neg: True
            note e' = e(3)[OF neg]
            have "reads r e (telnet_data c (drop 1 r))"
            proof (cases r)
              case Nil
              then show ?thesis using e' reads_Nil by simp
            next
              case (Cons opt r')
              obtain f where f: "ReadHandler opt e = (Inr (), f)" "same_settings e f" "at_rest f"
                using ReadHandler_option[of e opt] e' neg by metis
              have "reads r' f (telnet_data c r')"
                using same_settings_trans[OF e(2) f(2)] f(3) rest Cons \<open>bs = b # rest\<close> by (intro IH) simp_all
              moreover have "\<not> conReceiveFull f" using f(3) by (simp add: at_rest_def)
              ultimately show ?thesis using reads_Cons[OF f(1), of r'] not_full_id[of f] by (simp add: Cons)
            qed
            from reads_Cons[OF e(1), of r] this e' not_full_id[of e] have "reads (a # r) d (telnet_data c (drop 1 r))" by simp
            from first[OF this] neg True show ?thesis by (simp add: rest \<open>bs = b # rest\<close>)
          qed
        qed
      qed
    qed
  qed
  then show ?thesis by (simp add: reads_def)
qed

theorem telnet_stream_is_read_witness:
  "fst (receive_all [104, 255, 253, 1, 10, 105, 255, 241, 127, 255] sample_console) = Inr [104, 105, 8]"
proof -
  have "at_rest sample_console" by (simp add: at_rest_def sample_console_def)
  moreover have "data_char sample_console b = (if b = 10 \<or> b = 0 then None else Some (if b = 8 \<or> b = 127 then 8 else b))" for b
    by (simp add: data_char_def sample_console_def)
  ultimately show ?thesis
    using telnet_stream_is_read[of sample_console "[104, 255, 253, 1, 10, 105, 255, 241, 127, 255]"]
    by (simp add: is_negotiation_def telnet_codes del: receive_all.simps mask_8_bits)
qed

end
