(* ===== verification/Tape_File.thy ===== *)
theory Tape_File
  imports Host_File
begin

text \<open>
  Tape images: class \<open>TapFile_c\<close> of \<^verbatim>\<open>sim_lib/tap_file.h\<close> and \<^verbatim>\<open>.cpp\<close>. A tape is a host file
  of records; a record is its bytes between two 32-bit lengths and a file mark is the length
  zero. The class derives from \<open>std::fstream\<close>; the stream is the record \<open>fstream\<close> below with the
  operations that the code calls on it. Asserts are on, as in the default build.
\<close>

section \<open>The host stream\<close>

text \<open>
  A stream over one file, with the state bits and the one position that a file stream keeps
  for reading and writing. \<open>fsFile\<close> is \<open>None\<close> where the file does not exist.
\<close>

record fstream =
  fsFile :: "host_file option"
  fsOpen :: bool
  fsWritable :: bool
  fsPos :: nat
  fsEof :: bool
  fsFail :: bool

text \<open>
  \<open>read\<close>: nothing is read unless the state is good, and a short read sets both bits. \<open>seekg\<close>
  clears the end-of-file bit first. \<open>tellg\<close> is \<open>-1\<close> unless the state is good, \<open>tellp\<close> unless it
  has not failed.
\<close>

definition fs_read :: "nat \<Rightarrow> fstream \<Rightarrow> uint8 list \<times> fstream" where
  "fs_read n st =
     (if fsEof st \<or> fsFail st then ([], st\<lparr>fsFail := True\<rparr>)
      else
        (let bs = (case fsFile st of Some f \<Rightarrow> if fsOpen st then file_read (fsPos st) n f else [] | None \<Rightarrow> []);
             st = st\<lparr>fsPos := fsPos st + length bs\<rparr>
         in (bs, if length bs < n then st\<lparr>fsEof := True, fsFail := True\<rparr> else st)))"

definition fs_write :: "uint8 list \<Rightarrow> fstream \<Rightarrow> fstream" where
  "fs_write bs st =
     (case fsFile st of
        Some f \<Rightarrow> if fsOpen st \<and> fsWritable st \<and> \<not> fsEof st \<and> \<not> fsFail st
          then st\<lparr>fsFile := Some (file_write (fsPos st) bs f), fsPos := fsPos st + length bs\<rparr>
          else st\<lparr>fsFail := True\<rparr>
      | None \<Rightarrow> st\<lparr>fsFail := True\<rparr>)"

definition fs_seek :: "int \<Rightarrow> fstream \<Rightarrow> fstream" where
  "fs_seek target st =
     (let st = st\<lparr>fsEof := False\<rparr> in
      if fsFail st then st
      else if \<not> fsOpen st \<or> target < 0 then st\<lparr>fsFail := True\<rparr>
      else st\<lparr>fsPos := nat target\<rparr>)"

definition fs_seek_cur :: "int \<Rightarrow> fstream \<Rightarrow> fstream" where
  "fs_seek_cur delta st = fs_seek (int (fsPos st) + delta) st"

definition fs_seekp :: "int \<Rightarrow> fstream \<Rightarrow> fstream" where
  "fs_seekp target st =
     (if fsFail st then st
      else if \<not> fsOpen st \<or> target < 0 then st\<lparr>fsFail := True\<rparr>
      else st\<lparr>fsPos := nat target\<rparr>)"

definition fs_tellg :: "fstream \<Rightarrow> int" where
  "fs_tellg st = (if fsEof st \<or> fsFail st \<or> \<not> fsOpen st then -1 else int (fsPos st))"

definition fs_tellp :: "fstream \<Rightarrow> int" where
  "fs_tellp st = (if fsFail st \<or> \<not> fsOpen st then -1 else int (fsPos st))"

definition fs_clear :: "fstream \<Rightarrow> fstream" where
  "fs_clear st = st\<lparr>fsEof := False, fsFail := False\<rparr>"

text \<open>\<open>open\<close> in a mode that requires the file, and in the mode \<open>out\<close> that creates or empties it.\<close>

definition fs_open :: "bool \<Rightarrow> fstream \<Rightarrow> fstream" where
  "fs_open writable st =
     (if fsOpen st \<or> fsFile st = None then st\<lparr>fsFail := True\<rparr>
      else st\<lparr>fsOpen := True, fsWritable := writable, fsPos := 0, fsEof := False, fsFail := False\<rparr>)"

definition fs_create :: "fstream \<Rightarrow> fstream" where
  "fs_create st = (if fsOpen st then st\<lparr>fsFail := True\<rparr> else fs_open True (st\<lparr>fsFile := Some []\<rparr>))"

definition fs_close :: "fstream \<Rightarrow> fstream" where
  "fs_close st = (if fsOpen st then st\<lparr>fsOpen := False\<rparr> else st\<lparr>fsFail := True\<rparr>)"

definition resize_file :: "nat \<Rightarrow> host_file \<Rightarrow> host_file" where
  "resize_file n f = take n f @ replicate (n - length f) 0"

section \<open>The tape file\<close>

datatype Direction = Forward | Backward | NoDirection

datatype State_e = BeginningOfTape | EndOfTape | EndOfFile | EndOfRecord | Normal

record TapFile_c =
  tfStream :: fstream
  tfLastCmdDirection :: Direction
  tfCurRecordLeft :: uint32
  tfCurRecordStart :: int
  tfCurRecordValid :: bool
  tfCurRecordEof :: bool
  tfMode :: bool  \<comment> \<open>whether \<open>mMode\<close> contains \<open>ios_base::out\<close>\<close>

abbreviation upd_fs :: "(fstream \<Rightarrow> fstream) \<Rightarrow> TapFile_c \<Rightarrow> TapFile_c" where
  "upd_fs f t \<equiv> t\<lparr>tfStream := f (tfStream t)\<rparr>"

abbreviation tf_exists :: "TapFile_c \<Rightarrow> bool" where
  "tf_exists t \<equiv> fsFile (tfStream t) \<noteq> None"

definition TF_Reset :: "TapFile_c \<Rightarrow> TapFile_c" where
  "TF_Reset t = t\<lparr>tfCurRecordLeft := 0, tfCurRecordStart := 0, tfCurRecordValid := False\<rparr>"

text \<open>\<open>open\<close> with the mode of the image, \<open>open\<close> with \<open>ios_base::out\<close>, and \<open>close\<close>.\<close>

definition TF_opened :: "TapFile_c \<Rightarrow> TapFile_c" where
  "TF_opened t = (upd_fs (fs_seek 0) (upd_fs (fs_seekp 0) (TF_Reset t)))\<lparr>tfLastCmdDirection := NoDirection\<rparr>"

definition TF_open :: "bool \<Rightarrow> TapFile_c \<Rightarrow> TapFile_c" where
  "TF_open mode t = TF_opened ((upd_fs (fs_open mode) t)\<lparr>tfMode := mode\<rparr>)"

definition TF_create :: "TapFile_c \<Rightarrow> TapFile_c" where
  "TF_create t = TF_opened ((upd_fs fs_create t)\<lparr>tfMode := True\<rparr>)"

definition TF_close :: "TapFile_c \<Rightarrow> TapFile_c" where
  "TF_close t = (TF_Reset (upd_fs fs_close t))\<lparr>tfLastCmdDirection := NoDirection\<rparr>"

definition TF_ReOpen :: "TapFile_c \<Rightarrow> TapFile_c" where
  "TF_ReOpen t = (if fsOpen (tfStream t) then t else TF_open (tfMode t) t)"

definition TF_GetState :: "TapFile_c \<Rightarrow> State_e" where
  "TF_GetState t =
     (if \<not> tf_exists t then if tfLastCmdDirection t \<noteq> Forward then BeginningOfTape else EndOfTape
      else if \<not> fsOpen (tfStream t) then BeginningOfTape
      else if fsEof (tfStream t) then EndOfTape
      else if fs_tellg (tfStream t) = 0 then BeginningOfTape
      else if tfCurRecordEof t then EndOfFile
      else if \<not> tfCurRecordValid t then EndOfRecord
      else if tfCurRecordLeft t = 0 \<and> tfLastCmdDirection t = Backward then EndOfRecord
      else Normal)"

text \<open>
  \<open>read((char*)(&Size), 4)\<close>: a short read leaves the variable without a value. The checks of
  \<open>fail()\<close> that follow the stream operations throw \<open>Generic_x\<close>.
\<close>

definition TF_read_size :: "(TapFile_c \<Rightarrow> uint32 option \<times> TapFile_c)" where
  "TF_read_size t = (case fs_read 4 (tfStream t) of
      (bs, st) \<Rightarrow> (if length bs = 4 then Some (le32 bs) else None, t\<lparr>tfStream := st\<rparr>))"

definition TF_check :: "(TapFile_c, unit) exec" where
  "TF_check t = (if fsFail (tfStream t) then (Inl GenericError, t) else (Inr (), t))"

text \<open>Reading a length with its check; \<open>TF_check\<close> passes only where the length was read.\<close>

definition TF_checked_size :: "(TapFile_c, uint32) exec" where
  "TF_checked_size t =
     (case TF_read_size t of
        (sz, t) \<Rightarrow> if fsFail (tfStream t) then (Inl GenericError, t)
          else (case sz of Some w \<Rightarrow> (Inr w, t) | None \<Rightarrow> (Inl UndefinedBehaviour, t)))"

definition TF_seek_checked :: "int \<Rightarrow> (TapFile_c, unit) exec" where
  "TF_seek_checked delta t = TF_check (upd_fs (fs_seek_cur delta) t)"

text \<open>
  The skip over the bytes of a record and the comparison of its second length, in
  \<open>SeekToNextRecord\<close> and \<open>Read\<close>. Where the file ends before that length, the variable compared
  has no value.
\<close>

definition TF_skip_record :: "uint32 \<Rightarrow> (TapFile_c, unit) exec" where
  "TF_skip_record RecordSize =
     bindE (TF_seek_checked (int (unat RecordSize))) (\<lambda>_ t.
       case TF_read_size t of
         (e, t) \<Rightarrow>
           if fsFail (tfStream t) \<and> \<not> fsEof (tfStream t) then (Inl GenericError, t)
           else (case e of
               None \<Rightarrow> (Inl UndefinedBehaviour, t)
             | Some EndRecordSize \<Rightarrow>
                 if EndRecordSize \<noteq> RecordSize then (Inl GenericError, t) else (Inr (), t)))"

section \<open>Positioning\<close>

definition SeekToNextRecord :: "(TapFile_c, unit) exec" where
  "SeekToNextRecord t =
     (let t = t\<lparr>tfLastCmdDirection := Forward\<rparr> in
      if \<not> tf_exists t then (Inr (), t)
      else if tfCurRecordValid t \<and> \<not> tfCurRecordEof t then
        bindE (TF_seek_checked (int (unat (tfCurRecordLeft t + 4))))
          (\<lambda>_ t. (Inr (), t\<lparr>tfCurRecordValid := False\<rparr>)) t
      else if fsEof (tfStream t) then (Inr (), t)
      else
        (case TF_read_size t of
           (sz, t) \<Rightarrow>
             if fsEof (tfStream t) then (Inr (), t)
             else if fsFail (tfStream t) then (Inl GenericError, t)
             else (case sz of
                 None \<Rightarrow> (Inl UndefinedBehaviour, t)
               | Some RecordSize \<Rightarrow>
                   if RecordSize > 0 then
                     bindE (TF_skip_record RecordSize)
                       (\<lambda>_ t. (Inr (), t\<lparr>tfCurRecordEof := False, tfCurRecordValid := False\<rparr>)) t
                   else (Inr (), t\<lparr>tfCurRecordEof := True, tfCurRecordValid := True,
                     tfCurRecordLeft := 0, tfCurRecordStart := fs_tellg (tfStream t)\<rparr>))))"

text \<open>The part of \<open>SeekToPrevRecord\<close> for a record that is open, and for the gap after a record.\<close>

definition TF_prev_open :: "(TapFile_c, unit) exec" where
  "TF_prev_open t =
     bindE TF_check (\<lambda>_ t.
       let t = TF_Reset t in
       if tfCurRecordEof t then
         bindE TF_checked_size (\<lambda>RecordSize t.
           if RecordSize \<noteq> 0 then (Inl AssertError, t)
           else (Inr (), upd_fs (fs_seek_cur (-4)) t)) t
       else (Inr (), t)) (upd_fs (fs_seek (tfCurRecordStart t - 4)) t)"

definition TF_prev_closed :: "(TapFile_c, unit) exec" where
  "TF_prev_closed =
     bindE (TF_seek_checked (-4)) (\<lambda>_.
       bindE TF_checked_size (\<lambda>EndRecordSize.
         if EndRecordSize \<noteq> 0 then
           bindE (TF_seek_checked (- int (unat (EndRecordSize + 8)))) (\<lambda>_.
             bindE TF_checked_size (\<lambda>RecordSize t.
               if EndRecordSize \<noteq> RecordSize then (Inl GenericError, t)
               else (Inr (), upd_fs (fs_seek_cur (-4)) (TF_Reset t))))
         else (\<lambda>t. TF_seek_checked (-4) (t\<lparr>tfCurRecordEof := True, tfCurRecordValid := False\<rparr>))))"

definition SeekToPrevRecord :: "(TapFile_c, unit) exec" where
  "SeekToPrevRecord t =
     (let t = t\<lparr>tfLastCmdDirection := Backward\<rparr> in
      if \<not> tf_exists t then (Inr (), t)
      else
        (let t = (if fsEof (tfStream t) then upd_fs fs_clear t else t) in
         if fs_tellg (tfStream t) = 0 then (Inr (), (TF_Reset t)\<lparr>tfCurRecordEof := False\<rparr>)
         else if tfCurRecordValid t then TF_prev_open t
         else TF_prev_closed (t\<lparr>tfCurRecordEof := False\<rparr>)))"

definition SeekToBeginningOfTape :: "TapFile_c \<Rightarrow> TapFile_c" where
  "SeekToBeginningOfTape t =
     (let t = t\<lparr>tfLastCmdDirection := Backward\<rparr>;
          t = (if fsEof (tfStream t) then upd_fs fs_clear t else t)
      in upd_fs (fs_seek 0) ((TF_Reset t)\<lparr>tfCurRecordEof := False\<rparr>))"

section \<open>Reading\<close>

text \<open>The data part of \<open>Read\<close>, in a record that is open.\<close>

definition TF_read_data :: "uint32 \<Rightarrow> (TapFile_c, uint8 list) exec" where
  "TF_read_data aMaxSize t =
     (let ReadSize = min aMaxSize (tfCurRecordLeft t);
          (bs, st) = (if ReadSize \<noteq> 0 then fs_read (unat ReadSize) (tfStream t) else ([], tfStream t))
      in bindE TF_check (\<lambda>_.
           bindE (\<lambda>t. if aMaxSize \<ge> tfCurRecordLeft t
               then bindE TF_checked_size (\<lambda>_ t. (Inr (), t\<lparr>tfCurRecordValid := False\<rparr>)) t
               else (Inr (), t)) (\<lambda>_ t.
             (Inr bs, t\<lparr>tfCurRecordLeft := tfCurRecordLeft t - ReadSize\<rparr>))) (t\<lparr>tfStream := st\<rparr>))"

text \<open>The start of the next record: its length is checked against the second one, then the stream is moved back.\<close>

definition TF_enter_record :: "uint32 \<Rightarrow> uint32 \<Rightarrow> (TapFile_c, uint8 list) exec" where
  "TF_enter_record aMaxSize RecordSize t =
     bindE (\<lambda>t. if RecordSize > 0 then
         (let CurPos = fs_tellg (tfStream t)
          in bindE (TF_skip_record RecordSize) (\<lambda>_ t. TF_check (upd_fs (fs_seek CurPos) t)) t)
       else (Inr (), t)) (\<lambda>_ t.
         let t = t\<lparr>tfCurRecordLeft := RecordSize, tfCurRecordStart := fs_tellg (tfStream t),
               tfCurRecordValid := True, tfCurRecordEof := (RecordSize = 0)\<rparr>
         in if tfCurRecordEof t then (Inr [], t) else TF_read_data aMaxSize t) t"

definition Read :: "uint32 \<Rightarrow> (TapFile_c, uint8 list) exec" where
  "Read aMaxSize t =
     (let t = t\<lparr>tfLastCmdDirection := Forward\<rparr> in
      if \<not> tf_exists t then (Inr [], t)
      else if \<not> aMaxSize > 0 then (Inl AssertError, t)
      else if \<not> tfCurRecordValid t \<or> tfCurRecordEof t then
        if fsEof (tfStream t) then (Inr [], t)
        else
          (case TF_read_size t of
             (sz, t) \<Rightarrow>
               if fsEof (tfStream t) then (Inr [], t)
               else if fsFail (tfStream t) then (Inl GenericError, t)
               else (case sz of
                   None \<Rightarrow> (Inl UndefinedBehaviour, t)
                 | Some RecordSize \<Rightarrow> TF_enter_record aMaxSize RecordSize t))
      else TF_read_data aMaxSize t)"

section \<open>Writing\<close>

text \<open>\<open>Truncate\<close> at the position of the stream, which its callers have found good.\<close>

definition TF_Truncate :: "TapFile_c \<Rightarrow> TapFile_c" where
  "TF_Truncate t =
     (let OldDir = tfLastCmdDirection t; CurPos = fs_tellg (tfStream t); Mode = tfMode t;
          t = TF_close t;
          t = (if CurPos \<noteq> 0
               then TF_open Mode (upd_fs (fsFile_update (map_option (resize_file (nat CurPos)))) t)
               else TF_open Mode (TF_close (TF_create t)))
      in (upd_fs (fs_seek CurPos) t)\<lparr>tfLastCmdDirection := OldDir\<rparr>)"

text \<open>
  Where a record is to be written: inside a record the tape is cut at its start; in a gap it
  is cut unless the next record has the same length.
\<close>

definition TF_write_position :: "uint32 \<Rightarrow> (TapFile_c, unit) exec" where
  "TF_write_position RecordSize t =
     (if fsEof (tfStream t) then (Inr (), t)
      else if tfCurRecordValid t \<and> \<not> tfCurRecordEof t then
        bindE TF_check (\<lambda>_ t. (Inr (), TF_Truncate t)) (upd_fs (fs_seek (tfCurRecordStart t - 4)) t)
      else
        (case TF_read_size t of
           (sz, t) \<Rightarrow>
             if fsEof (tfStream t) then (Inr (), t)
             else if fsFail (tfStream t) then (Inl GenericError, t)
             else (case sz of
                 None \<Rightarrow> (Inl UndefinedBehaviour, t)
               | Some DiskRecordSize \<Rightarrow>
                   bindE (\<lambda>t. if DiskRecordSize \<noteq> 0 then
                       bindE (TF_seek_checked (int (unat DiskRecordSize))) (\<lambda>_.
                         bindE TF_checked_size (\<lambda>EndDiskRecordSize t.
                           if DiskRecordSize \<noteq> EndDiskRecordSize then (Inl GenericError, t)
                           else TF_seek_checked (- int (unat (DiskRecordSize + 4))) t)) t
                     else (Inr (), t)) (\<lambda>_.
                     bindE (TF_seek_checked (-4)) (\<lambda>_ t.
                       (Inr (), if DiskRecordSize \<noteq> RecordSize then TF_Truncate t else t))) t)))"

text \<open>The record itself, and the state in which it leaves the stream.\<close>

definition TF_put_record :: "uint8 list \<Rightarrow> (TapFile_c, unit) exec" where
  "TF_put_record aData t =
     (let RecordSize = (of_nat (length aData) :: uint32);
          t = (if fsEof (tfStream t) then upd_fs fs_clear t else t);
          t = upd_fs (\<lambda>st. fs_seekp (fs_tellg st) st) t;
          t = (if fsEof (tfStream t) then upd_fs fs_clear t else t);
          t = upd_fs (fs_write (le32_bytes RecordSize)) t;
          t = t\<lparr>tfCurRecordStart := fs_tellp (tfStream t), tfCurRecordLeft := 0\<rparr>
      in bindE TF_check (\<lambda>_.
           bindE (\<lambda>t. if RecordSize \<noteq> 0
               then bindE TF_check (\<lambda>_ t. TF_check (upd_fs (fs_write (le32_bytes RecordSize)) t))
                 (upd_fs (fs_write aData) t)
               else (Inr (), t)) (\<lambda>_ t.
             let Pos = fs_tellp (tfStream t);
                 t = upd_fs (fs_seekp Pos) (upd_fs (fs_seek Pos) t)
             in bindE TF_check (\<lambda>_ t.
                  (Inr (), t\<lparr>tfCurRecordEof := (RecordSize = 0), tfCurRecordValid := (RecordSize = 0)\<rparr>)) t)) t)"

definition WriteRecordInternal :: "uint8 list \<Rightarrow> (TapFile_c, unit) exec" where
  "WriteRecordInternal aData t =
     (let t = (if \<not> tf_exists t then TF_open (tfMode t) (TF_close (TF_create (TF_close t))) else t)
      in bindE (TF_write_position (of_nat (length aData))) (\<lambda>_. TF_put_record aData) t)"

definition WriteRecord :: "uint8 list \<Rightarrow> (TapFile_c, unit) exec" where
  "WriteRecord aData t =
     (let t = t\<lparr>tfLastCmdDirection := Forward\<rparr> in
      if aData = [] then (Inl AssertError, t) else WriteRecordInternal aData t)"

definition WriteEndOfFile :: "(TapFile_c, unit) exec" where
  "WriteEndOfFile t = WriteRecordInternal [] (t\<lparr>tfLastCmdDirection := Forward\<rparr>)"

end
