(* ===== verification/Tape_Results.thy ===== *)
theory Tape_Results
  imports Tape_File
begin

text \<open>
  Tape images refine a list of records. The abstract tape is the list of the items before the
  head, the list of those after it, and the bytes of the next record that have been read. The
  stream of a well-formed image is described by the bytes on both sides of its position.
\<close>

section \<open>The stream as two halves of a file\<close>

definition halves :: "host_file \<Rightarrow> host_file \<Rightarrow> fstream" where
  "halves p q = \<lparr>fsFile = Some (p @ q), fsOpen = True, fsWritable = True, fsPos = length p,
     fsEof = False, fsFail = False\<rparr>"

definition at_end :: "host_file \<Rightarrow> fstream" where
  "at_end p = (halves p [])\<lparr>fsEof := True, fsFail := True\<rparr>"

lemma halves_bits [simp]:
  "fsEof (halves p q) = False" "fsFail (halves p q) = False" "fsFile (halves p q) = Some (p @ q)"
  "fsOpen (halves p q) = True" "fs_tellg (halves p q) = int (length p)" "fs_tellp (halves p q) = int (length p)"
  "fsEof (at_end p) = True" "fsFail (at_end p) = True" "fsFile (at_end p) = Some p" "fsOpen (at_end p) = True"
  "fs_clear (at_end p) = halves p []"
  by (simp_all add: halves_def at_end_def fs_tellg_def fs_tellp_def fs_clear_def)

lemma read_halves: "fs_read (length bs) (halves p (bs @ q)) = (bs, halves (p @ bs) q)"
  by (simp add: fs_read_def halves_def file_read_def)

lemma read_at_end: "0 < n \<Longrightarrow> fs_read n (halves p []) = ([], at_end p)"
  by (simp add: fs_read_def halves_def at_end_def file_read_def)

lemma seek_forward: "fs_seek_cur (int (length bs)) (halves p (bs @ q)) = halves (p @ bs) q"
  by (simp add: fs_seek_cur_def fs_seek_def halves_def nat_add_distrib)

lemma seek_back: "fs_seek_cur (- int (length bs)) (halves (p @ bs) q) = halves p (bs @ q)"
  by (simp add: fs_seek_cur_def fs_seek_def halves_def)

lemma seek_to: "fs_seek (int (length p)) (halves (p @ bs) q) = halves p (bs @ q)"
  by (simp add: fs_seek_def halves_def)

lemma seek_here:
  "n = int (length p) \<Longrightarrow> fs_seek n (halves p q) = halves p q"
  "n = int (length p) \<Longrightarrow> fs_seekp n (halves p q) = halves p q"
  by (simp_all add: fs_seek_def fs_seekp_def halves_def)

lemma seek_start: "fs_seek 0 (halves p q) = halves [] (p @ q)"
  by (simp add: fs_seek_def halves_def)

lemma write_halves: "fs_write bs (halves p q) = halves (p @ bs) (drop (length bs) q)"
  by (simp add: fs_write_def halves_def file_write_def)

lemma take_drop_append [simp]: "take n d @ drop n d @ q = d @ q"
  by (simp add: append_assoc[symmetric] del: append_assoc)

section \<open>Items of a tape\<close>

datatype tape_item = Data "uint8 list" | Mark

fun item_data :: "tape_item \<Rightarrow> uint8 list" where
  "item_data (Data bs) = bs"
| "item_data Mark = []"

fun item_bytes :: "tape_item \<Rightarrow> uint8 list" where
  "item_bytes (Data bs) = le32_bytes (of_nat (length bs)) @ bs @ le32_bytes (of_nat (length bs))"
| "item_bytes Mark = le32_bytes 0"

fun item_ok :: "tape_item \<Rightarrow> bool" where
  "item_ok (Data bs) \<longleftrightarrow> bs \<noteq> [] \<and> length bs < 2 ^ 32 - 8"
| "item_ok Mark \<longleftrightarrow> True"

definition tape_image :: "tape_item list \<Rightarrow> uint8 list" where
  "tape_image xs = concat (map item_bytes xs)"

lemma tape_image_simps [simp]: "tape_image [] = []" "tape_image (x # xs) = item_bytes x @ tape_image xs"
    "tape_image (xs @ ys) = tape_image xs @ tape_image ys"
  by (simp_all add: tape_image_def)

text \<open>The abstract tape and its operations.\<close>

record tape =
  tpBefore :: "tape_item list"
  tpAfter :: "tape_item list"
  tpRead :: nat

definition spec_next :: "tape \<Rightarrow> tape" where
  "spec_next s = (case tpAfter s of [] \<Rightarrow> s
      | x # xs \<Rightarrow> \<lparr>tpBefore = tpBefore s @ [x], tpAfter = xs, tpRead = 0\<rparr>)"

definition spec_prev :: "tape \<Rightarrow> tape" where
  "spec_prev s = (if tpRead s \<noteq> 0 then s\<lparr>tpRead := 0\<rparr>
      else if tpBefore s = [] then s
      else \<lparr>tpBefore = butlast (tpBefore s), tpAfter = last (tpBefore s) # tpAfter s, tpRead = 0\<rparr>)"

definition spec_rewind :: "tape \<Rightarrow> tape" where
  "spec_rewind s = \<lparr>tpBefore = [], tpAfter = tpBefore s @ tpAfter s, tpRead = 0\<rparr>"

text \<open>At most \<open>n\<close> bytes of the next item; what reaches its end moves behind it.\<close>

definition spec_read :: "nat \<Rightarrow> tape \<Rightarrow> uint8 list \<times> tape" where
  "spec_read n s = (case tpAfter s of [] \<Rightarrow> ([], s)
      | x # xs \<Rightarrow>
          (let rest = drop (tpRead s) (item_data x) in
           if n \<ge> length rest then (rest, spec_next s)
           else (take n rest, s\<lparr>tpRead := tpRead s + n\<rparr>)))"

text \<open>A written item replaces one of the same length and otherwise ends the tape.\<close>

definition spec_write :: "tape_item \<Rightarrow> tape \<Rightarrow> tape" where
  "spec_write x s =
     \<lparr>tpBefore = tpBefore s @ [x],
      tpAfter = (case tpAfter s of
        y # ys \<Rightarrow> if tpRead s = 0 \<and> length (item_data y) = length (item_data x) then ys else [] | [] \<Rightarrow> []),
      tpRead = 0\<rparr>"

text \<open>
  The correspondence: in a gap, at the end after a read that found no record, or within a
  record. After a file mark its record counts as open.
\<close>

definition in_gap :: "tape \<Rightarrow> TapFile_c \<Rightarrow> bool" where
  "in_gap s t \<longleftrightarrow> tpRead s = 0 \<and>
     (tfStream t = halves (tape_image (tpBefore s)) (tape_image (tpAfter s)) \<or>
      tfStream t = at_end (tape_image (tpBefore s)) \<and> tpAfter s = []) \<and>
     (tfCurRecordValid t \<longrightarrow> tfCurRecordEof t \<and> tpBefore s \<noteq> [] \<and> last (tpBefore s) = Mark \<and>
        tfCurRecordStart t = int (length (tape_image (tpBefore s))))"

definition in_record :: "tape \<Rightarrow> TapFile_c \<Rightarrow> bool" where
  "in_record s t \<longleftrightarrow> tpRead s \<noteq> 0 \<and> (\<exists>d xs. tpAfter s = Data d # xs \<and> tpRead s < length d \<and>
     tfStream t = halves (tape_image (tpBefore s) @ le32_bytes (of_nat (length d)) @ take (tpRead s) d)
       (drop (tpRead s) d @ le32_bytes (of_nat (length d)) @ tape_image xs) \<and>
     tfCurRecordValid t \<and> \<not> tfCurRecordEof t \<and>
     tfCurRecordLeft t = of_nat (length d - tpRead s) \<and>
     tfCurRecordStart t = int (length (tape_image (tpBefore s))) + 4)"

definition represents :: "tape \<Rightarrow> TapFile_c \<Rightarrow> bool" where
  "represents s t \<longleftrightarrow> (in_gap s t \<or> in_record s t) \<and> tfMode t \<and> list_all item_ok (tpBefore s @ tpAfter s)"

section \<open>Steps of the code on a well-formed image\<close>

lemma read_size_halves:
  "tfStream t = halves p (le32_bytes w @ q) \<Longrightarrow>
     TF_read_size t = (Some w, t\<lparr>tfStream := halves (p @ le32_bytes w) q\<rparr>)"
  using read_halves[of "le32_bytes w" p q] by (simp add: TF_read_size_def)

lemma read_size_at_end:
  "tfStream t = halves p [] \<Longrightarrow> TF_read_size t = (None, t\<lparr>tfStream := at_end p\<rparr>)"
  by (simp add: TF_read_size_def read_at_end)

lemma checked_size_halves:
  "tfStream t = halves p (le32_bytes w @ q) \<Longrightarrow>
     TF_checked_size t = (Inr w, t\<lparr>tfStream := halves (p @ le32_bytes w) q\<rparr>)"
  by (simp add: TF_checked_size_def read_size_halves)

lemma seek_checked_forward:
  "tfStream t = halves p (bs @ q) \<Longrightarrow> n = int (length bs) \<Longrightarrow>
     TF_seek_checked n t = (Inr (), t\<lparr>tfStream := halves (p @ bs) q\<rparr>)"
  by (simp add: TF_seek_checked_def TF_check_def seek_forward)

lemma seek_checked_back:
  "tfStream t = halves p' q \<Longrightarrow> p' = p @ bs \<Longrightarrow> n = - int (length bs) \<Longrightarrow>
     TF_seek_checked n t = (Inr (), t\<lparr>tfStream := halves p (bs @ q)\<rparr>)"
  by (simp add: TF_seek_checked_def TF_check_def seek_back)

lemma skip_record_halves:
  "tfStream t = halves p (bs @ le32_bytes w @ q) \<Longrightarrow> unat w = length bs \<Longrightarrow>
     TF_skip_record w t = (Inr (), t\<lparr>tfStream := halves (p @ bs @ le32_bytes w) q\<rparr>)"
  by (simp add: TF_skip_record_def bindE_def seek_checked_forward[of t p bs] read_size_halves)

text \<open>The lengths of records fit in 32 bits.\<close>

lemma size_fits: "n < 2 ^ 32 \<Longrightarrow> unat (of_nat n :: uint32) = n"
  by (simp add: unsigned_of_nat take_bit_nat_eq_self)

lemma size_bounds:
  assumes "item_ok (Data d)"
  shows "unat (of_nat (length d) :: uint32) = length d" "(of_nat (length d) :: uint32) \<noteq> 0"
    "(0 :: uint32) < of_nat (length d)"
    "unat (of_nat (length d) + 8 :: uint32) = length d + 8"
    "unat (of_nat (length d) + 4 :: uint32) = length d + 4"
proof -
  have l: "0 < length d" "length d < 2 ^ 32 - 8" using assms by auto
  then show a: "unat (of_nat (length d) :: uint32) = length d"
    by (simp add: size_fits)
  with l show "(of_nat (length d) :: uint32) \<noteq> 0" by (metis unat_0 less_numeral_extra(3))
  then show "(0 :: uint32) < of_nat (length d)" by (simp add: word_gt_0)
  have e: "(of_nat (length d) + 8 :: uint32) = of_nat (length d + 8)"
    "(of_nat (length d) + 4 :: uint32) = of_nat (length d + 4)" by simp_all
  show "unat (of_nat (length d) + 8 :: uint32) = length d + 8"
    unfolding e by (rule size_fits) (use l in simp)
  show "unat (of_nat (length d) + 4 :: uint32) = length d + 4"
    unfolding e by (rule size_fits) (use l in simp)
qed

text \<open>How a represented tape stands: what each operation distinguishes.\<close>

lemma represents_cases:
  assumes "represents s t"
  obtains (gap) "in_gap s t" "tfStream t = halves (tape_image (tpBefore s)) (tape_image (tpAfter s))" "tpRead s = 0"
      "\<not> (tfCurRecordValid t \<and> \<not> tfCurRecordEof t)"
  | (ended) "in_gap s t" "tfStream t = at_end (tape_image (tpBefore s))" "tpAfter s = []" "tpRead s = 0"
      "\<not> (tfCurRecordValid t \<and> \<not> tfCurRecordEof t)"
  | (inside) d xs where "tpAfter s = Data d # xs" "tpRead s \<noteq> 0" "tpRead s < length d"
      "tfStream t = halves (tape_image (tpBefore s) @ le32_bytes (of_nat (length d)) @ take (tpRead s) d)
         (drop (tpRead s) d @ le32_bytes (of_nat (length d)) @ tape_image xs)"
      "tfCurRecordValid t" "\<not> tfCurRecordEof t" "tfCurRecordLeft t = of_nat (length d - tpRead s)"
      "tfCurRecordStart t = int (length (tape_image (tpBefore s))) + 4" "item_ok (Data d)"
  using assms unfolding represents_def in_gap_def in_record_def by (auto simp: that)

lemma represents_ok: "represents s t \<Longrightarrow> list_all item_ok (tpBefore s) \<and> list_all item_ok (tpAfter s) \<and> tfMode t"
  by (simp add: represents_def)

text \<open>A gap in which no record counts as open represents the tape.\<close>

lemma represents_gap:
  assumes "tfStream t = halves (tape_image b) (tape_image a)" "tfMode t" "list_all item_ok (b @ a)"
    and "tfCurRecordValid t \<longrightarrow> tfCurRecordEof t \<and> b \<noteq> [] \<and> last b = Mark \<and>
      tfCurRecordStart t = int (length (tape_image b))"
  shows "represents \<lparr>tpBefore = b, tpAfter = a, tpRead = 0\<rparr> t"
  using assms by (auto simp: represents_def in_gap_def)

lemma next_refines:
  assumes "represents s t"
  shows "\<exists>t'. SeekToNextRecord t = (Inr (), t') \<and> represents (spec_next s) t'"
  using assms
proof (cases rule: represents_cases)
  case ended
  with assms show ?thesis
    by (intro exI[of _ "t\<lparr>tfLastCmdDirection := Forward\<rparr>"])
      (auto simp: SeekToNextRecord_def spec_next_def represents_def in_gap_def)
next
  case gap
  show ?thesis
  proof (cases "tpAfter s")
    case Nil
    with gap assms show ?thesis
      by (auto simp: SeekToNextRecord_def spec_next_def read_size_at_end represents_def in_gap_def Let_def)
  next
    case (Cons x xs)
    have ok: "item_ok x" "list_all item_ok (tpBefore s @ x # xs)" "tfMode t"
      using represents_ok[OF assms] Cons by auto
    show ?thesis
    proof (cases x)
      case (Data d)
      note b = size_bounds[OF ok(1)[unfolded Data]]
      let ?le = "le32_bytes (of_nat (length d))"
      have t: "tfStream t = halves (tape_image (tpBefore s)) (?le @ d @ ?le @ tape_image xs)"
        using gap(2) Cons Data by simp
      show ?thesis
        unfolding SeekToNextRecord_def spec_next_def Cons
        using gap(4) ok Data b
        by (auto simp: t Let_def read_size_halves[OF t] read_size_halves bindE_def
            skip_record_halves[where bs = d] intro!: represents_gap)
    next
      case Mark
      then have t: "tfStream t = halves (tape_image (tpBefore s)) (le32_bytes 0 @ tape_image xs)"
        using gap(2) Cons by simp
      show ?thesis
        unfolding SeekToNextRecord_def spec_next_def Cons
        using gap(4) ok Mark
        by (auto simp: t Let_def read_size_halves intro!: represents_gap)
    qed
  qed
next
  case (inside d xs)
  note b = size_bounds[OF inside(9)]
  let ?le = "le32_bytes (of_nat (length d))" let ?rest = "drop (tpRead s) d"
  have l: "length d - tpRead s < 2 ^ 32 - 8" using inside(9) by auto
  have "unat (tfCurRecordLeft t + 4) = length (?rest @ ?le)"
  proof -
    have "tfCurRecordLeft t + 4 = of_nat (length d - tpRead s + 4)" using inside(7) by simp
    moreover have "unat (of_nat (length d - tpRead s + 4) :: uint32) = length d - tpRead s + 4"
      using l by (intro size_fits) simp
    ultimately show ?thesis by simp
  qed
  moreover have "tfStream t = halves (tape_image (tpBefore s) @ ?le @ take (tpRead s) d) ((?rest @ ?le) @ tape_image xs)"
    using inside(4) by simp
  ultimately show ?thesis
    unfolding SeekToNextRecord_def spec_next_def inside(1)
    using inside(5,6) represents_ok[OF assms] inside(1)
    by (auto simp: Let_def bindE_def seek_checked_forward[where bs = "?rest @ ?le"] intro!: represents_gap)
qed

lemma item_bytes_not_Nil [simp]: "item_bytes x \<noteq> []" "tape_image xs = [] \<longleftrightarrow> xs = []"
proof -
  show a: "item_bytes x \<noteq> []" for x
    by (metis append_is_Nil_conv item_bytes.elims length_le_bytes(2) list.size(3) zero_neq_numeral)
  show "tape_image xs = [] \<longleftrightarrow> xs = []" by (cases xs) (simp_all add: a)
qed

text \<open>The item behind the head is stepped over, whether its record is open or not.\<close>

lemma prev_open_mark:
  assumes "tfStream t = halves (tape_image b @ le32_bytes 0) q" "tfCurRecordEof t"
    and "tfCurRecordStart t = int (length (tape_image b)) + 4"
  shows "TF_prev_open t = (Inr (), (TF_Reset t)\<lparr>tfStream := halves (tape_image b) (le32_bytes 0 @ q)\<rparr>)"
proof -
  have "fs_seek_cur (-4) (halves (tape_image b @ le32_bytes 0) q) = halves (tape_image b) (le32_bytes 0 @ q)"
    using seek_back[of "le32_bytes 0"] by simp
  then show ?thesis
    using assms by (simp add: TF_prev_open_def TF_check_def TF_Reset_def bindE_def seek_to
        checked_size_halves Let_def)
qed

lemma prev_closed_data:
  assumes "tfStream t = halves (p @ item_bytes (Data d)) q" "item_ok (Data d)"
  shows "TF_prev_closed t = (Inr (), (TF_Reset t)\<lparr>tfStream := halves p (item_bytes (Data d) @ q)\<rparr>)"
proof -
  let ?w = "of_nat (length d) :: uint32"
  note b = size_bounds[OF assms(2)]
  have 1: "TF_seek_checked (-4) t = (Inr (), t\<lparr>tfStream := halves (p @ le32_bytes ?w @ d) (le32_bytes ?w @ q)\<rparr>)"
    by (rule seek_checked_back[OF assms(1)]) simp_all
  have 2: "TF_seek_checked (- int (length d + 8)) u =
      (Inr (), u\<lparr>tfStream := halves p (le32_bytes ?w @ d @ le32_bytes ?w @ q)\<rparr>)"
    if "tfStream u = halves (p @ le32_bytes ?w @ d @ le32_bytes ?w) q" for u
    using seek_checked_back[OF that, where p = p and bs = "le32_bytes ?w @ d @ le32_bytes ?w"
        and n = "- int (length d + 8)"] by simp
  have 3: "fs_seek_cur (-4) (halves (p @ le32_bytes ?w) x) = halves p (le32_bytes ?w @ x)" for x
    using seek_back[of "le32_bytes ?w"] by simp
  show ?thesis
    unfolding TF_prev_closed_def
    using b by (simp add: bindE_def 1 2[simplified] 3 checked_size_halves TF_Reset_def)
qed

lemma prev_closed_mark:
  assumes "tfStream t = halves (p @ le32_bytes 0) q"
  shows "TF_prev_closed t =
    (Inr (), t\<lparr>tfCurRecordEof := True, tfCurRecordValid := False, tfStream := halves p (le32_bytes 0 @ q)\<rparr>)"
proof -
  have 1: "TF_seek_checked (-4) u = (Inr (), u\<lparr>tfStream := halves p (le32_bytes 0 @ q)\<rparr>)"
    if "tfStream u = halves (p @ le32_bytes 0) q" for u
    by (rule seek_checked_back[OF that]) simp_all
  show ?thesis
    unfolding TF_prev_closed_def using assms by (simp add: bindE_def 1 checked_size_halves)
qed

lemma prev_refines_gap:
  assumes "represents s t" "tpRead s = 0" "in_gap s t"
  shows "\<exists>t'. SeekToPrevRecord t = (Inr (), t') \<and> represents (spec_prev s) t'"
proof -
  let ?t = "t\<lparr>tfLastCmdDirection := Backward, tfStream := halves (tape_image (tpBefore s)) (tape_image (tpAfter s))\<rparr>"
  let ?u = "t\<lparr>tfLastCmdDirection := Backward\<rparr>"
  have c: "(if fsEof (tfStream ?u) then upd_fs fs_clear ?u else ?u) = ?t" and f: "tf_exists ?u"
    using assms(3) by (cases t, auto simp: in_gap_def)
  have t: "SeekToPrevRecord t = (if tpBefore s = [] then (Inr (), (TF_Reset ?t)\<lparr>tfCurRecordEof := False\<rparr>)
      else if tfCurRecordValid t then TF_prev_open ?t else TF_prev_closed (?t\<lparr>tfCurRecordEof := False\<rparr>))"
    unfolding SeekToPrevRecord_def Let_def c using f by simp
  note ok = represents_ok[OF assms(1)]
  show ?thesis
  proof (cases "tpBefore s" rule: rev_cases)
    case Nil
    with assms(2) have "spec_prev s = \<lparr>tpBefore = [], tpAfter = tpAfter s, tpRead = 0\<rparr>"
      by (cases s) (simp add: spec_prev_def)
    with t ok Nil show ?thesis
      using represents_gap[of "(TF_Reset ?t)\<lparr>tfCurRecordEof := False\<rparr>" "[]" "tpAfter s"]
      by (simp add: TF_Reset_def)
  next
    case (snoc b x)
    have s': "spec_prev s = \<lparr>tpBefore = b, tpAfter = x # tpAfter s, tpRead = 0\<rparr>"
      using assms(2) snoc by (simp add: spec_prev_def)
    show ?thesis
    proof (cases "tfCurRecordValid t")
      case True
      with assms(3) snoc have m: "x = Mark" "tfCurRecordEof t" "tfCurRecordStart t = int (length (tape_image b)) + 4"
        by (auto simp: in_gap_def)
      then show ?thesis
        using t ok True snoc prev_open_mark[of ?t b "tape_image (tpAfter s)"]
        by (auto simp: s' TF_Reset_def intro!: represents_gap)
    next
      case False
      show ?thesis
      proof (cases x)
        case (Data d)
        then show ?thesis
          using t ok False snoc prev_closed_data[of "?t\<lparr>tfCurRecordEof := False\<rparr>" "tape_image b" d]
          by (auto simp: s' TF_Reset_def intro!: represents_gap)
      next
        case Mark
        then show ?thesis
          using t ok False snoc prev_closed_mark[of "?t\<lparr>tfCurRecordEof := False\<rparr>" "tape_image b"]
          by (auto simp: s' intro!: represents_gap)
      qed
    qed
  qed
qed

lemma prev_refines:
  assumes "represents s t"
  shows "\<exists>t'. SeekToPrevRecord t = (Inr (), t') \<and> represents (spec_prev s) t'"
  using assms
proof (cases rule: represents_cases)
  case (inside d xs)
  let ?t = "TF_Reset (t\<lparr>tfLastCmdDirection := Backward,
    tfStream := halves (tape_image (tpBefore s)) (tape_image (tpAfter s))\<rparr>)"
  have "SeekToPrevRecord t = (Inr (), ?t)"
    using inside(2-8) by (simp add: SeekToPrevRecord_def TF_prev_open_def TF_check_def bindE_def Let_def
        seek_to TF_Reset_def inside(1))
  moreover have "represents (spec_prev s) ?t"
    using inside(2) represents_ok[OF assms] by (auto simp: spec_prev_def represents_def in_gap_def TF_Reset_def)
  ultimately show ?thesis by blast
qed (use prev_refines_gap[OF assms] in blast)+

lemma rewind_refines:
  assumes "represents s t"
  shows "represents (spec_rewind s) (SeekToBeginningOfTape t)"
proof -
  have "tfStream (SeekToBeginningOfTape t) = halves [] (tape_image (tpBefore s @ tpAfter s))"
    using assms
    by (cases rule: represents_cases)
      (simp_all add: SeekToBeginningOfTape_def TF_Reset_def Let_def seek_start)
  then show ?thesis
    unfolding spec_rewind_def using represents_ok[OF assms]
    by (intro represents_gap) (simp_all add: SeekToBeginningOfTape_def TF_Reset_def Let_def)
qed

section \<open>Reading\<close>

lemma read_data_all:
  assumes "tfStream t = halves p (rest @ le32_bytes w @ q)" "tfCurRecordLeft t = of_nat (length rest)"
    and "rest \<noteq> []" "length rest < 2 ^ 32" "length rest \<le> unat n"
  shows "TF_read_data n t = (Inr rest, t\<lparr>tfStream := halves (p @ rest @ le32_bytes w) q,
    tfCurRecordValid := False, tfCurRecordLeft := 0\<rparr>)"
proof -
  note l = size_fits[OF assms(4)]
  have le: "of_nat (length rest) \<le> n" using assms(5) l by (simp add: word_le_nat_alt)
  have "(of_nat (length rest) :: uint32) \<noteq> 0" using l assms(3) by (metis length_0_conv unat_0)
  moreover have "fs_read (length rest) (tfStream t) = (rest, halves (p @ rest) (le32_bytes w @ q))"
    using assms(1) by (simp add: read_halves)
  ultimately show ?thesis
    using assms(2) le l by (simp add: TF_read_data_def TF_check_def bindE_def checked_size_halves min_def Let_def)
qed

lemma read_data_part:
  assumes "tfStream t = halves p (rest @ q)" "tfCurRecordLeft t = of_nat (length rest)"
    and "length rest < 2 ^ 32" "unat n < length rest" "n \<noteq> 0"
  shows "TF_read_data n t = (Inr (take (unat n) rest),
    t\<lparr>tfStream := halves (p @ take (unat n) rest) (drop (unat n) rest @ q),
      tfCurRecordLeft := of_nat (length rest - unat n)\<rparr>)"
proof -
  note l = size_fits[OF assms(3)]
  have lt: "\<not> of_nat (length rest) \<le> n" using assms(4) l by (simp add: word_le_nat_alt)
  then have m: "min n (of_nat (length rest)) = n" by (simp add: min_absorb1 linorder_not_le less_imp_le)
  have "(of_nat (length rest - unat n) :: uint32) = of_nat (length rest) - n"
    using assms(4) by (simp add: of_nat_diff)
  moreover have "fs_read (unat n) (tfStream t) = (take (unat n) rest,
      halves (p @ take (unat n) rest) (drop (unat n) rest @ q))"
    using assms(1,4) read_halves[of "take (unat n) rest" p "drop (unat n) rest @ q"] by simp
  ultimately show ?thesis
    using assms(2,5) lt m by (simp add: TF_read_data_def TF_check_def bindE_def Let_def)
qed

text \<open>Opening the record of an item leaves the stream before its data.\<close>

lemma enter_data:
  assumes "tfStream t = halves p (d @ le32_bytes (of_nat (length d)) @ q)" "item_ok (Data d)"
  shows "TF_enter_record n (of_nat (length d)) t = TF_read_data n
    (t\<lparr>tfStream := halves p (d @ le32_bytes (of_nat (length d)) @ q), tfCurRecordLeft := of_nat (length d),
       tfCurRecordStart := int (length p), tfCurRecordValid := True, tfCurRecordEof := False\<rparr>)"
proof -
  note b = size_bounds[OF assms(2)]
  have "fs_seek (int (length p)) (halves (p @ d @ le32_bytes (of_nat (length d))) q) = tfStream t"
    using assms(1) seek_to[of p "d @ le32_bytes (of_nat (length d))"] by simp
  then show ?thesis
    using assms(1) b by (simp add: TF_enter_record_def bindE_def skip_record_halves TF_check_def Let_def)
qed

lemma read_refines_gap:
  assumes "represents s t" "n \<noteq> 0" "tpRead s = 0" "tfStream t = halves (tape_image (tpBefore s)) (tape_image (tpAfter s))"
    and "\<not> (tfCurRecordValid t \<and> \<not> tfCurRecordEof t)"
  shows "\<exists>t'. Read n t = (Inr (fst (spec_read (unat n) s)), t') \<and> represents (snd (spec_read (unat n) s)) t'"
proof (cases "tpAfter s")
  case Nil
  with assms show ?thesis
    by (auto simp: Read_def spec_read_def read_size_at_end represents_def in_gap_def in_record_def Let_def word_gt_0)
next
  case (Cons x xs)
  have ok: "item_ok x" "list_all item_ok (tpBefore s @ x # xs)" "tfMode t"
    using represents_ok[OF assms(1)] Cons by auto
  let ?b = "tape_image (tpBefore s)" and ?t = "t\<lparr>tfLastCmdDirection := Forward\<rparr>"
  have start: "Read n t = TF_enter_record n w (?t\<lparr>tfStream := halves (?b @ le32_bytes w) q\<rparr>)"
    if "tape_image (tpAfter s) = le32_bytes w @ q" for w q
    using assms(2,4,5) that by (auto simp: Read_def Let_def read_size_halves word_gt_0)
  show ?thesis
  proof (cases x)
    case Mark
    then have "Read n t = TF_enter_record n 0 (?t\<lparr>tfStream := halves (?b @ le32_bytes 0) (tape_image xs)\<rparr>)"
      using Cons by (intro start) simp
    then show ?thesis
      using ok Mark assms(3) Cons
      by (auto simp: TF_enter_record_def bindE_def Let_def spec_read_def spec_next_def intro!: represents_gap)
  next
    case (Data d)
    let ?w = "of_nat (length d) :: uint32"
    let ?u = "?t\<lparr>tfStream := halves (?b @ le32_bytes ?w) (d @ le32_bytes ?w @ tape_image xs),
      tfCurRecordLeft := ?w, tfCurRecordStart := int (length ?b) + 4, tfCurRecordValid := True, tfCurRecordEof := False\<rparr>"
    have "Read n t = TF_enter_record n ?w (?t\<lparr>tfStream := halves (?b @ le32_bytes ?w)
        (d @ le32_bytes ?w @ tape_image xs)\<rparr>)"
      using Cons Data by (intro start) simp
    then have r: "Read n t = TF_read_data n ?u"
      using ok(1) Data by (subst (asm) enter_data) (simp_all, simp add: add.commute)
    have d: "d \<noteq> []" "length d < 2 ^ 32" using ok(1) Data by auto
    show ?thesis
    proof (cases "length d \<le> unat n")
      case True
      then show ?thesis
        using r d ok Data Cons assms(3) read_data_all[of ?u "?b @ le32_bytes ?w" d ?w "tape_image xs" n]
        by (auto simp: spec_read_def spec_next_def intro!: represents_gap)
    next
      case False
      moreover have "unat n \<noteq> 0" using assms(2) by (simp add: unat_eq_zero)
      ultimately show ?thesis
        using r d ok Data Cons assms(2,3)
          read_data_part[of ?u "?b @ le32_bytes ?w" d "le32_bytes ?w @ tape_image xs" n]
        by (auto simp: spec_read_def represents_def in_record_def)
    qed
  qed
qed

lemma read_refines:
  assumes "represents s t" "n \<noteq> 0"
  shows "\<exists>t'. Read n t = (Inr (fst (spec_read (unat n) s)), t') \<and> represents (snd (spec_read (unat n) s)) t'"
  using assms(1)
proof (cases rule: represents_cases)
  case gap
  then show ?thesis using read_refines_gap[OF assms] by blast
next
  case ended
  with assms show ?thesis
    by (auto simp: Read_def spec_read_def represents_def in_gap_def Let_def word_gt_0)
next
  case (inside d xs)
  let ?t = "t\<lparr>tfLastCmdDirection := Forward\<rparr>" and ?w = "of_nat (length d) :: uint32"
  let ?rest = "drop (tpRead s) d" and ?p = "tape_image (tpBefore s) @ le32_bytes (of_nat (length d)) @ take (tpRead s) d"
  have r: "Read n t = TF_read_data n ?t"
    using inside(4-6) assms(2) by (simp add: Read_def word_gt_0)
  have d: "?rest \<noteq> []" "length ?rest < 2 ^ 32" using inside(3,9) by auto
  note ok = represents_ok[OF assms(1)]
  show ?thesis
  proof (cases "length ?rest \<le> unat n")
    case True
    then show ?thesis
      using r d ok inside read_data_all[of ?t ?p ?rest ?w "tape_image xs" n]
      by (auto simp: spec_read_def spec_next_def intro!: represents_gap)
  next
    case False
    then have "unat n < length ?rest" by simp
    then show ?thesis
      using r d ok inside assms(2) read_data_part[of ?t ?p ?rest "le32_bytes ?w @ tape_image xs" n]
      by (auto simp: spec_read_def represents_def in_record_def take_add add.commute)
  qed
qed

section \<open>Writing\<close>

lemma truncate_halves:
  assumes "tfStream t = halves p q" "tfMode t"
  shows "tfStream (TF_Truncate t) = halves p [] \<and> tfMode (TF_Truncate t)"
  using assms
  by (auto simp: TF_Truncate_def Let_def TF_close_def TF_open_def TF_create_def TF_opened_def TF_Reset_def
      fs_close_def fs_open_def fs_create_def fs_seek_def fs_seekp_def resize_file_def halves_def fs_tellg_def)

lemma write_position_gap:
  assumes "represents s t" "tpRead s = 0" "tfStream t = halves (tape_image (tpBefore s)) (tape_image (tpAfter s))"
    and "\<not> (tfCurRecordValid t \<and> \<not> tfCurRecordEof t)" "tpAfter s = y # ys"
  shows "\<exists>t'. TF_write_position w t = (Inr (), t') \<and> tfMode t' \<and> tfStream t' =
    halves (tape_image (tpBefore s)) (if w = of_nat (length (item_data y)) then tape_image (tpAfter s) else [])"
proof -
  let ?b = "tape_image (tpBefore s)"
  have ok: "item_ok y" "tfMode t" using represents_ok[OF assms(1)] assms(5) by auto
  have b4: "TF_seek_checked (-4) u = (Inr (), u\<lparr>tfStream := halves ?b (le32_bytes v @ q)\<rparr>)"
    if "tfStream u = halves (?b @ le32_bytes v) q" for u v q
    by (rule seek_checked_back[OF that]) simp_all
  show ?thesis
  proof (cases y)
    case Mark
    then have "tfStream t = halves ?b (le32_bytes 0 @ tape_image ys)" using assms(3,5) by simp
    then show ?thesis
      using assms(4,5) ok Mark truncate_halves
      by (auto simp: TF_write_position_def Let_def read_size_halves bindE_def b4)
  next
    case (Data d)
    let ?w = "of_nat (length d) :: uint32"
    have "item_ok (Data d)" using ok(1) Data by simp
    note b = size_bounds[OF this]
    have over: "TF_seek_checked (- int (length d) - 4) u =
        (Inr (), u\<lparr>tfStream := halves (?b @ le32_bytes ?w) (d @ le32_bytes ?w @ q)\<rparr>)"
      if "tfStream u = halves (?b @ le32_bytes ?w @ d @ le32_bytes ?w) q" for u q
      using seek_checked_back[OF that, where p = "?b @ le32_bytes ?w" and bs = "d @ le32_bytes ?w"
          and n = "- int (length d) - 4"] by simp
    have "tfStream t = halves ?b (le32_bytes ?w @ d @ le32_bytes ?w @ tape_image ys)"
      using assms(3,5) Data by simp
    then show ?thesis
      using assms(4,5) ok Data b truncate_halves
      by (auto simp: TF_write_position_def Let_def read_size_halves bindE_def
          seek_checked_forward[where bs = d] checked_size_halves over b4)
  qed
qed

text \<open>The place of a write: what remains behind it on the tape.\<close>

lemma write_position_refines:
  assumes "represents s t" "item_ok x"
  shows "\<exists>t' r. TF_write_position (of_nat (length (item_data x))) t = (Inr (), t') \<and> tfMode t' \<and>
    (tfStream t' = halves (tape_image (tpBefore s)) r \<or> tfStream t' = at_end (tape_image (tpBefore s)) \<and> r = []) \<and>
    drop (length (item_bytes x)) r = tape_image (tpAfter (spec_write x s))"
  using assms(1)
proof (cases rule: represents_cases)
  case ended
  then show ?thesis
    using represents_ok[OF assms(1)] by (auto simp: TF_write_position_def spec_write_def)
next
  case (inside d xs)
  let ?u = "upd_fs (fs_seek (tfCurRecordStart t - 4)) t"
  have "tfStream ?u = halves (tape_image (tpBefore s)) (tape_image (tpAfter s))"
    using inside(4,8) by (simp add: seek_to inside(1))
  then have "tfStream (TF_Truncate ?u) = halves (tape_image (tpBefore s)) [] \<and> tfMode (TF_Truncate ?u)"
    using represents_ok[OF assms(1)] by (intro truncate_halves) simp_all
  then show ?thesis
    using inside \<open>tfStream ?u = _\<close>
    by (auto simp: TF_write_position_def spec_write_def bindE_def TF_check_def)
next
  case gap
  show ?thesis
  proof (cases "tpAfter s")
    case Nil
    with gap represents_ok[OF assms(1)] show ?thesis
      by (auto simp: TF_write_position_def spec_write_def read_size_at_end Let_def)
  next
    case (Cons y ys)
    have "item_ok y" using represents_ok[OF assms(1)] Cons by simp
    have len: "length (item_data z) < 2 ^ 32" if "item_ok z" for z
      using that by (cases z) auto
    have eq: "(of_nat (length (item_data x)) :: uint32) = of_nat (length (item_data y)) \<longleftrightarrow>
        length (item_data x) = length (item_data y)"
      using size_fits[OF len[OF assms(2)]] size_fits[OF len[OF \<open>item_ok y\<close>]] by metis
    have bytes: "length (item_bytes x) = length (item_bytes y)" if "length (item_data x) = length (item_data y)"
      using that assms(2) \<open>item_ok y\<close> by (cases x; cases y) auto
    from write_position_gap[OF assms(1) gap(3,2,4) Cons, of "of_nat (length (item_data x))"]
    obtain t' where t': "TF_write_position (of_nat (length (item_data x))) t = (Inr (), t')" "tfMode t'"
      "tfStream t' = halves (tape_image (tpBefore s))
        (if length (item_data x) = length (item_data y) then tape_image (tpAfter s) else [])"
      unfolding eq by blast
    show ?thesis
      by (rule exI[of _ t'], rule exI[of _ "if length (item_data x) = length (item_data y)
            then tape_image (tpAfter s) else []"])
        (use t' Cons gap(3) bytes in \<open>auto simp: spec_write_def\<close>)
  qed
qed

lemma put_record_halves:
  assumes "tfStream t = halves p r \<or> tfStream t = at_end p \<and> r = []" "item_ok x"
  shows "\<exists>t'. TF_put_record (item_data x) t = (Inr (), t') \<and> tfMode t' = tfMode t \<and>
    tfStream t' = halves (p @ item_bytes x) (drop (length (item_bytes x)) r) \<and>
    tfCurRecordEof t' = (x = Mark) \<and> tfCurRecordValid t' = (x = Mark) \<and>
    tfCurRecordStart t' = int (length p) + 4"
proof -
  let ?u = "t\<lparr>tfStream := halves p r\<rparr>"
  have start: "(if fsEof (tfStream t) then upd_fs fs_clear t else t) = ?u"
    using assms(1) by (cases t) auto
  have put: "TF_put_record d t = TF_put_record d ?u" for d
    unfolding TF_put_record_def start by simp
  show ?thesis
  proof (cases x)
    case Mark
    then show ?thesis
      unfolding put by (simp add: TF_put_record_def Let_def seek_here write_halves bindE_def TF_check_def)
  next
    case (Data d)
    with assms(2) have b: "(of_nat (length d) :: uint32) \<noteq> 0" using size_bounds by blast
    have "tape_item.Data d \<noteq> Mark" by simp
    with Data b show ?thesis
      unfolding put by (simp add: TF_put_record_def Let_def seek_here write_halves bindE_def TF_check_def add.commute)
  qed
qed

lemma write_refines:
  assumes "represents s t" "item_ok x"
  shows "\<exists>t'. WriteRecordInternal (item_data x) t = (Inr (), t') \<and> represents (spec_write x s) t'"
proof -
  have ex: "tf_exists t" using assms(1) by (cases rule: represents_cases) auto
  from write_position_refines[OF assms] obtain t1 r where
    t1: "TF_write_position (of_nat (length (item_data x))) t = (Inr (), t1)" "tfMode t1"
    "tfStream t1 = halves (tape_image (tpBefore s)) r \<or> tfStream t1 = at_end (tape_image (tpBefore s)) \<and> r = []"
    "drop (length (item_bytes x)) r = tape_image (tpAfter (spec_write x s))" by blast
  from put_record_halves[OF t1(3) assms(2)] obtain t2 where
    t2: "TF_put_record (item_data x) t1 = (Inr (), t2)" "tfMode t2 = tfMode t1"
    "tfStream t2 = halves (tape_image (tpBefore s) @ item_bytes x) (drop (length (item_bytes x)) r)"
    "tfCurRecordEof t2 = (x = Mark)" "tfCurRecordValid t2 = (x = Mark)"
    "tfCurRecordStart t2 = int (length (tape_image (tpBefore s))) + 4" by blast
  have "represents (spec_write x s) t2"
    using t1(2,4) t2 assms represents_ok[OF assms(1)]
    unfolding spec_write_def
    by (intro represents_gap) (auto split: list.splits)
  with ex t1(1) t2(1) show ?thesis
    by (simp add: WriteRecordInternal_def bindE_def)
qed

text \<open>The first write to a file that does not exist creates it.\<close>

lemma write_creates_tape:
  assumes "\<not> tf_exists t" "\<not> fsOpen (tfStream t)" "tfMode t" "item_ok x"
  shows "\<exists>t'. WriteRecordInternal (item_data x) t = (Inr (), t') \<and>
    represents \<lparr>tpBefore = [x], tpAfter = [], tpRead = 0\<rparr> t'"
proof -
  let ?t = "TF_open (tfMode t) (TF_close (TF_create (TF_close t)))"
  have s: "tfStream ?t = halves [] []" and m: "tfMode ?t"
    using assms(1-3)
    by (simp_all add: TF_close_def TF_open_def TF_create_def TF_opened_def TF_Reset_def
        fs_close_def fs_open_def fs_create_def fs_seek_def fs_seekp_def halves_def)
  have v: "\<not> tfCurRecordValid ?t"
    by (simp add: TF_open_def TF_opened_def TF_Reset_def)
  have "represents \<lparr>tpBefore = [], tpAfter = [], tpRead = 0\<rparr> ?t"
    using s m v by (intro represents_gap) simp_all
  then obtain t' where "WriteRecordInternal (item_data x) ?t = (Inr (), t')"
      "represents (spec_write x \<lparr>tpBefore = [], tpAfter = [], tpRead = 0\<rparr>) t'"
    using write_refines assms(4) by blast
  moreover have "WriteRecordInternal (item_data x) t = WriteRecordInternal (item_data x) ?t"
    unfolding WriteRecordInternal_def using assms(1) s by simp
  ultimately show ?thesis by (auto simp: spec_write_def)
qed

section \<open>Sequences of commands\<close>

datatype tape_cmd = CmdNext | CmdPrev | CmdRewind | CmdRead uint32 | CmdWrite "uint8 list" | CmdMark

fun cmd_ok :: "tape_cmd \<Rightarrow> bool" where
  "cmd_ok (CmdRead n) \<longleftrightarrow> n \<noteq> 0"
| "cmd_ok (CmdWrite d) \<longleftrightarrow> item_ok (Data d)"
| "cmd_ok _ \<longleftrightarrow> True"

definition without_value :: "('s, unit) exec \<Rightarrow> ('s, uint8 list) exec" where
  "without_value m = bindE m (\<lambda>_. returnE [])"

fun exec_cmd :: "tape_cmd \<Rightarrow> (TapFile_c, uint8 list) exec" where
  "exec_cmd CmdNext = without_value SeekToNextRecord"
| "exec_cmd CmdPrev = without_value SeekToPrevRecord"
| "exec_cmd CmdRewind = (\<lambda>t. (Inr [], SeekToBeginningOfTape t))"
| "exec_cmd (CmdRead n) = Read n"
| "exec_cmd (CmdWrite d) = without_value (WriteRecord d)"
| "exec_cmd CmdMark = without_value WriteEndOfFile"

fun spec_cmd :: "tape_cmd \<Rightarrow> tape \<Rightarrow> uint8 list \<times> tape" where
  "spec_cmd CmdNext s = ([], spec_next s)"
| "spec_cmd CmdPrev s = ([], spec_prev s)"
| "spec_cmd CmdRewind s = ([], spec_rewind s)"
| "spec_cmd (CmdRead n) s = spec_read (unat n) s"
| "spec_cmd (CmdWrite d) s = ([], spec_write (Data d) s)"
| "spec_cmd CmdMark s = ([], spec_write Mark s)"

fun run_cmds :: "tape_cmd list \<Rightarrow> (TapFile_c, uint8 list list) exec" where
  "run_cmds [] = returnE []"
| "run_cmds (c # cs) = bindE (exec_cmd c) (\<lambda>r. bindE (run_cmds cs) (\<lambda>rs. returnE (r # rs)))"

fun spec_run :: "tape_cmd list \<Rightarrow> tape \<Rightarrow> uint8 list list \<times> tape" where
  "spec_run [] s = ([], s)"
| "spec_run (c # cs) s = (case spec_cmd c s of (r, s) \<Rightarrow> apfst ((#) r) (spec_run cs s))"

lemma represents_direction:
  "represents s (t\<lparr>tfLastCmdDirection := d\<rparr>) \<longleftrightarrow> represents s t"
  by (simp add: represents_def in_gap_def in_record_def)

lemma command_refines:
  assumes "represents s t" "cmd_ok c"
  shows "\<exists>t'. exec_cmd c t = (Inr (fst (spec_cmd c s)), t') \<and> represents (snd (spec_cmd c s)) t'"
proof -
  have put: "\<exists>t'. WriteRecordInternal (item_data x) (t\<lparr>tfLastCmdDirection := Forward\<rparr>) = (Inr (), t') \<and>
      represents (spec_write x s) t'" if "item_ok x" for x
    using write_refines[of s "t\<lparr>tfLastCmdDirection := Forward\<rparr>" x] assms(1) that
    by (simp add: represents_direction)
  show ?thesis
  proof (cases c)
    case CmdNext
    with next_refines[OF assms(1)] show ?thesis by (auto simp: without_value_def bindE_def returnE_def)
  next
    case CmdPrev
    with prev_refines[OF assms(1)] show ?thesis by (auto simp: without_value_def bindE_def returnE_def)
  next
    case CmdRewind
    with rewind_refines[OF assms(1)] show ?thesis by simp
  next
    case (CmdRead n)
    with read_refines[OF assms(1)] assms(2) show ?thesis by simp
  next
    case (CmdWrite d)
    with assms(2) put[of "Data d"] show ?thesis
      by (auto simp: WriteRecord_def without_value_def bindE_def returnE_def Let_def)
  next
    case CmdMark
    with put[of Mark] show ?thesis
      by (auto simp: WriteEndOfFile_def without_value_def bindE_def returnE_def)
  qed
qed

text \<open>C6: A tape image is a list of records and file marks. On a writable image that is well formed
  and wherever the tape stands, in a gap, at the end or within a record, every sequence of reads
  of at least one byte, writes of records that are not empty and whose length and two markers
  fit 32 bits, file marks, skips forward and back and rewinds returns; the bytes that the reads give
  are those of the list of items on which the same commands are carried out, and the file is
  again the image of that list. A record that replaces one of the same length leaves the rest
  of the tape; any other write ends it. A read of exactly the rest of a record takes the end
  marker too and closes the record, so that the next read begins the next item: this is what
  the code does, and the comment above \<open>TapFile_c::Read\<close>, by which such a read stops before
  the end marker and one more read is needed to find the end of the record, is wrong.
\<close>

theorem tape_refines_record_list:
  assumes "represents s t" "list_all cmd_ok cs"
  shows "\<exists>t'. run_cmds cs t = (Inr (fst (spec_run cs s)), t') \<and> represents (snd (spec_run cs s)) t'"
  using assms
proof (induction cs arbitrary: s t)
  case Nil
  then show ?case by (simp add: returnE_def)
next
  case (Cons c cs)
  from command_refines[of s t c] Cons.prems obtain t1 where
    t1: "exec_cmd c t = (Inr (fst (spec_cmd c s)), t1)" "represents (snd (spec_cmd c s)) t1" by auto
  with Cons.IH[of _ t1] Cons.prems obtain t2 where
    "run_cmds cs t1 = (Inr (fst (spec_run cs (snd (spec_cmd c s)))), t2)"
    "represents (snd (spec_run cs (snd (spec_cmd c s)))) t2" by auto
  with t1 show ?case by (simp add: bindE_def returnE_def split_beta apfst_def map_prod_def)
qed

definition sample_tape :: TapFile_c where
  "sample_tape = \<lparr>tfStream = halves [] [], tfLastCmdDirection = NoDirection, tfCurRecordLeft = 0,
     tfCurRecordStart = 0, tfCurRecordValid = False, tfCurRecordEof = False, tfMode = True\<rparr>"

theorem tape_refines_record_list_witness:
  "\<exists>t. run_cmds [CmdWrite [65, 66, 67], CmdMark, CmdPrev, CmdPrev, CmdRead 2, CmdRead 9, CmdRead 9] sample_tape =
      (Inr [[], [], [], [], [65, 66], [67], []], t) \<and>
    fsFile (tfStream t) = Some (le32_bytes 3 @ [65, 66, 67] @ le32_bytes 3 @ le32_bytes 0)"
proof -
  let ?cs = "[CmdWrite [65, 66, 67], CmdMark, CmdPrev, CmdPrev, CmdRead 2, CmdRead 9, CmdRead 9]"
  let ?s = "\<lparr>tpBefore = [], tpAfter = [], tpRead = 0\<rparr>"
  have "represents ?s sample_tape" by (rule represents_gap) (simp_all add: sample_tape_def)
  moreover have "list_all cmd_ok ?cs" by simp
  moreover have r: "spec_run ?cs ?s = ([[], [], [], [], [65, 66], [67], []],
      \<lparr>tpBefore = [Data [65, 66, 67], Mark], tpAfter = [], tpRead = 0\<rparr>)"
    by (simp add: spec_write_def spec_prev_def spec_read_def spec_next_def Let_def)
  ultimately obtain t where t: "run_cmds ?cs sample_tape = (Inr (fst (spec_run ?cs ?s)), t)"
      "represents (snd (spec_run ?cs ?s)) t" using tape_refines_record_list by blast
  from t(2) have "fsFile (tfStream t) = Some (tape_image [Data [65, 66, 67], Mark])"
    unfolding r by (auto simp: represents_def in_gap_def in_record_def)
  with t(1) show ?thesis unfolding r by simp
qed

end
