(* ===== verification/Poked_Tape.thy ===== *)
theory Poked_Tape
  imports Tape_File
begin

text \<open>
  Tapes whose bytes are replaced while they are read: class \<open>PokedTapFile_c\<close> of
  \<^verbatim>\<open>sim_lib/poked_tap_file.h\<close> and \<^verbatim>\<open>.cpp\<close>. The class follows the position of the tape as a file
  index and an offset in that file, from the changes of \<open>tellg()\<close>; both are of type \<open>size_t\<close>,
  for which \<open>-1\<close> is the largest value. The pokes of the mounted image are a parameter of the
  state; they come from the configuration.
\<close>

record PokedTapFile_c =
  pkTape :: TapFile_c
  pkFileSizes :: "uint64 list"
  pkCurFileIdx :: uint64
  pkCurFileOfs :: uint64
  pkCurPokeMap :: "(uint64 \<rightharpoonup> uint8) list option"

abbreviation upd_tape :: "(TapFile_c \<Rightarrow> TapFile_c) \<Rightarrow> PokedTapFile_c \<Rightarrow> PokedTapFile_c" where
  "upd_tape f k \<equiv> k\<lparr>pkTape := f (pkTape k)\<rparr>"

definition PK_tellg :: "PokedTapFile_c \<Rightarrow> uint64" where
  "PK_tellg k = word_of_int (fs_tellg (tfStream (pkTape k)))"

definition PK_GetState :: "PokedTapFile_c \<Rightarrow> State_e" where
  "PK_GetState k = TF_GetState (pkTape k)"

text \<open>An operation of the base class.\<close>

definition at_tape :: "(TapFile_c, 'a) exec \<Rightarrow> (PokedTapFile_c, 'a) exec" where
  "at_tape f k = (case f (pkTape k) of (r, t) \<Rightarrow> (r, k\<lparr>pkTape := t\<rparr>))"

definition PK_SeekToNextRecord :: "(PokedTapFile_c, unit) exec" where
  "PK_SeekToNextRecord k =
     (let Base = PK_tellg k;
          Base = (if tfCurRecordValid (pkTape k) \<and> \<not> tfCurRecordEof (pkTape k) then Base - 4 else Base) in
      bindE (at_tape SeekToNextRecord) (\<lambda>_ k.
        let After = PK_tellg k in
        if PK_GetState k = EndOfFile \<or> PK_GetState k = EndOfTape then
          (Inr (), k\<lparr>pkCurFileIdx := pkCurFileIdx k + 1, pkCurFileOfs := 0\<rparr>)
        else if \<not> After \<ge> Base + 8 then (Inl AssertError, k)
        else (Inr (), k\<lparr>pkCurFileOfs := pkCurFileOfs k + (After - Base - 8)\<rparr>)) k)"

definition PK_SeekToPrevRecord :: "(PokedTapFile_c, unit) exec" where
  "PK_SeekToPrevRecord k =
     (let Base = PK_tellg k;
          Base = (if tfCurRecordValid (pkTape k) then Base + 4 else Base) in
      bindE (at_tape SeekToPrevRecord) (\<lambda>_ k.
        let After = PK_tellg k in
        if PK_GetState k = EndOfFile then
          if \<not> pkCurFileIdx k > 0 then (Inl AssertError, k)
          else
            (let k = k\<lparr>pkCurFileIdx := pkCurFileIdx k - 1\<rparr> in
             if unat (pkCurFileIdx k) < length (pkFileSizes k)
             then (Inr (), k\<lparr>pkCurFileOfs := pkFileSizes k ! unat (pkCurFileIdx k)\<rparr>)
             else (Inl UndefinedBehaviour, k))
        else if PK_GetState k = BeginningOfTape then
          (Inr (), k\<lparr>pkCurFileIdx := 0, pkCurFileOfs := 0\<rparr>)
        else if \<not> Base \<ge> After + 8 \<or> \<not> Base - After - 8 \<ge> pkCurFileOfs k then (Inl AssertError, k)
        else (Inr (), k\<lparr>pkCurFileOfs := pkCurFileOfs k - (Base - After - 8)\<rparr>)) k)"

text \<open>The replacement of the bytes read, by the pokes of the current file.\<close>

definition PK_apply :: "PokedTapFile_c \<Rightarrow> uint8 list \<Rightarrow> uint8 list" where
  "PK_apply k bs =
     (case pkCurPokeMap k of
        Some ps \<Rightarrow>
          if unat (pkCurFileIdx k) < length ps then
            map (\<lambda>i. case (ps ! unat (pkCurFileIdx k)) (pkCurFileOfs k + of_nat i) of
              Some v \<Rightarrow> v | None \<Rightarrow> bs ! i) [0..<length bs]
          else bs
      | None \<Rightarrow> bs)"

definition PK_Read :: "uint32 \<Rightarrow> (PokedTapFile_c, uint8 list) exec" where
  "PK_Read aMaxSize k =
     (let Base = PK_tellg k;
          Base = (if \<not> tfCurRecordValid (pkTape k) \<or> tfCurRecordEof (pkTape k) then Base + 4 else Base) in
      bindE (at_tape (Read aMaxSize)) (\<lambda>bs k.
        let After = PK_tellg k;
            After = (if \<not> tfCurRecordValid (pkTape k) then After - 4 else After);
            bs = PK_apply k bs in
        if PK_GetState k = EndOfFile \<or> PK_GetState k = EndOfTape then
          (Inr bs, k\<lparr>pkCurFileIdx := pkCurFileIdx k + 1, pkCurFileOfs := 0\<rparr>)
        else if \<not> After \<ge> Base then (Inl AssertError, k)
        else (Inr bs, k\<lparr>pkCurFileOfs := pkCurFileOfs k + (After - Base)\<rparr>)) k)"

definition PK_WriteRecord :: "uint8 list \<Rightarrow> (PokedTapFile_c, unit) exec" where
  "PK_WriteRecord aData = at_tape (WriteRecord aData)"

definition PK_WriteEndOfFile :: "(PokedTapFile_c, unit) exec" where
  "PK_WriteEndOfFile =
     bindE (at_tape WriteEndOfFile) (\<lambda>_ k. (Inr (), k\<lparr>pkCurFileIdx := pkCurFileIdx k + 1\<rparr>))"

definition PK_SeekToBeginningOfTape :: "PokedTapFile_c \<Rightarrow> PokedTapFile_c" where
  "PK_SeekToBeginningOfTape k = (upd_tape SeekToBeginningOfTape k)\<lparr>pkCurFileIdx := 0\<rparr>"

definition PK_close :: "PokedTapFile_c \<Rightarrow> PokedTapFile_c" where
  "PK_close k = (upd_tape TF_close k)\<lparr>pkCurFileIdx := 0, pkCurFileOfs := 0\<rparr>"

definition PK_ReOpen :: "PokedTapFile_c \<Rightarrow> PokedTapFile_c" where
  "PK_ReOpen = upd_tape TF_ReOpen"

text \<open>
  \<open>UpdateForNewFile\<close> reads the image to its end and records the size of each file. The inner
  loop reads up to a file mark, and gives no size where the tape ends before one; the value
  \<open>None\<close> of the loops is a run that does not end.
\<close>

partial_function (option) PK_scan_file :: "uint64 \<Rightarrow> TapFile_c \<Rightarrow> ((exn + uint64 option) \<times> TapFile_c) option" where
  "PK_scan_file FileSize t =
     (case Read (- 1) t of
        (Inl e, t) \<Rightarrow> Some (Inl e, t)
      | (Inr bs, t) \<Rightarrow>
          if TF_GetState t = EndOfTape then Some (Inr None, t)
          else if TF_GetState t = EndOfFile then Some (Inr (Some (FileSize + of_nat (length bs))), t)
          else PK_scan_file (FileSize + of_nat (length bs)) t)"

partial_function (option) PK_scan :: "PokedTapFile_c \<Rightarrow> ((exn + unit) \<times> PokedTapFile_c) option" where
  "PK_scan k =
     (if PK_GetState k = EndOfTape then Some (Inr (), k)
      else
        (case PK_scan_file 0 (pkTape k) of
           None \<Rightarrow> None
         | Some (Inl e, t) \<Rightarrow> Some (Inl e, k\<lparr>pkTape := t\<rparr>)
         | Some (Inr None, t) \<Rightarrow> PK_scan (k\<lparr>pkTape := t\<rparr>)
         | Some (Inr (Some sz), t) \<Rightarrow> PK_scan (k\<lparr>pkTape := t, pkFileSizes := pkFileSizes k @ [sz]\<rparr>)))"

text \<open>\<open>pokes\<close> are those that the configuration has for the file that is opened.\<close>

definition PK_UpdateForNewFile ::
    "(uint64 \<rightharpoonup> uint8) list option \<Rightarrow> PokedTapFile_c \<Rightarrow> ((exn + unit) \<times> PokedTapFile_c) option" where
  "PK_UpdateForNewFile pokes k =
     (let k = k\<lparr>pkCurFileIdx := 0, pkCurFileOfs := 0, pkCurPokeMap := pokes, pkFileSizes := []\<rparr> in
      if fsEof (tfStream (pkTape k)) \<or> fsFail (tfStream (pkTape k)) then Some (Inr (), k)
      else
        (case PK_scan (PK_SeekToBeginningOfTape k) of
           None \<Rightarrow> None
         | Some (Inl e, k) \<Rightarrow> Some (Inl e, k)
         | Some (Inr _, k) \<Rightarrow> Some (Inr (), PK_SeekToBeginningOfTape k)))"

definition PK_open ::
    "(uint64 \<rightharpoonup> uint8) list option \<Rightarrow> bool \<Rightarrow> PokedTapFile_c \<Rightarrow> ((exn + unit) \<times> PokedTapFile_c) option" where
  "PK_open pokes mode k = PK_UpdateForNewFile pokes (upd_tape (TF_open mode) k)"

end
