(* ===== verification/Iop_Bmx.thy ===== *)
theory Iop_Bmx
  imports Poked_Tape Iop_Devices
begin

text \<open>
  The block multiplexer channel and its tape units: classes \<open>IopChannelBmx_c\<close> and
  \<open>IopBmxTape_c\<close> of \<^verbatim>\<open>sim_lib/iop_bmx.h\<close> and \<^verbatim>\<open>.cpp\<close>. Function codes and commands are given as
  numbers; the octal codes of the source are in the order of the definitions. Two of the tape
  commands loop until a mark is found; the value \<open>None\<close> of an operation is a run that does not
  end. Set-up from the configuration, the mount command and the status reports are left out.
\<close>

section \<open>Tape units\<close>

record IopBmxTape_c =
  bmtTapeImage :: PokedTapFile_c
  bmtDeviceAddress :: uint8
  bmtCurrentCommand :: uint8
  bmtReads :: uint64
  bmtWrites :: uint64
  bmtIsReadOnly :: bool

definition BmxStat_ControlUnitEnd :: uint8 where "BmxStat_ControlUnitEnd = push_bit 2 1"
definition BmxStat_DeviceEnd :: uint8 where "BmxStat_DeviceEnd = push_bit 5 1"
definition BmxStat_UnitCheck :: uint8 where "BmxStat_UnitCheck = push_bit 6 1"
definition BmxStat_UnitException :: uint8 where "BmxStat_UnitException = push_bit 7 1"

definition at_image :: "(PokedTapFile_c, 'a) exec \<Rightarrow> (IopBmxTape_c, 'a) exec" where
  "at_image f d = (case f (bmtTapeImage d) of (r, k) \<Rightarrow> (r, d\<lparr>bmtTapeImage := k\<rparr>))"

definition status_if :: "State_e \<Rightarrow> uint8 \<Rightarrow> IopBmxTape_c \<Rightarrow> uint8" where
  "status_if st b d = (if PK_GetState (bmtTapeImage d) = st then b else 0)"

definition BMT_Reset :: "IopBmxTape_c \<Rightarrow> IopBmxTape_c" where
  "BMT_Reset d = d\<lparr>bmtCurrentCommand := 0\<rparr>"

definition BMT_TestIo :: uint8 where
  "BMT_TestIo = BmxStat_DeviceEnd OR BmxStat_ControlUnitEnd"

definition BMT_Write :: "uint8 list \<Rightarrow> (IopBmxTape_c, uint8) exec" where
  "BMT_Write aData d =
     (if bmtIsReadOnly d then (Inl AssertError, d)
      else
        bindE (at_image (\<lambda>k. PK_WriteRecord aData (PK_ReOpen k))) (\<lambda>_ d.
          (let d = d\<lparr>bmtWrites := bmtWrites d + of_nat (length aData)\<rparr>
           in (Inr (BmxStat_ControlUnitEnd OR status_if EndOfFile BmxStat_UnitException d), d))) d)"

definition BMT_Read :: "nat \<Rightarrow> (IopBmxTape_c, uint8 \<times> uint8 list) exec" where
  "BMT_Read aMaxSize =
     bindE (at_image (\<lambda>k. PK_Read (of_nat aMaxSize) (PK_ReOpen k))) (\<lambda>aData d.
       (let d = d\<lparr>bmtReads := bmtReads d + of_nat (length aData)\<rparr>
        in (Inr (BmxStat_ControlUnitEnd OR status_if EndOfFile BmxStat_UnitException d
                 OR status_if EndOfTape BmxStat_UnitCheck d, aData), d)))"

definition BMT_Sense :: "nat \<Rightarrow> (IopBmxTape_c, uint8 \<times> uint8 list) exec" where
  "BMT_Sense aMaxSize d =
     (if \<not> aMaxSize \<ge> 6 then (Inl AssertError, d)
      else (Inr (BmxStat_ControlUnitEnd,
        [0, push_bit 1 1 OR push_bit 6 (if bmtIsReadOnly d then 1 else 0), 0, 0, 0, 0]), d))"

text \<open>The loops over the records of a file, to the next mark in either direction.\<close>

partial_function (option) BMT_backspace_file :: "PokedTapFile_c \<Rightarrow> ((exn + unit) \<times> PokedTapFile_c) option" where
  "BMT_backspace_file k =
     (case PK_SeekToPrevRecord k of
        (Inl e, k) \<Rightarrow> Some (Inl e, k)
      | (Inr _, k) \<Rightarrow>
          if PK_GetState k = EndOfTape \<or> PK_GetState k = EndOfFile then Some (Inr (), k)
          else BMT_backspace_file k)"

partial_function (option) BMT_space_file :: "PokedTapFile_c \<Rightarrow> ((exn + unit) \<times> PokedTapFile_c) option" where
  "BMT_space_file k =
     (case PK_SeekToNextRecord k of
        (Inl e, k) \<Rightarrow> Some (Inl e, k)
      | (Inr _, k) \<Rightarrow>
          if PK_GetState k = EndOfTape \<or> PK_GetState k = EndOfFile then Some (Inr (), k)
          else BMT_space_file k)"

definition finish_motion ::
    "(IopBmxTape_c \<Rightarrow> uint8) \<Rightarrow> IopBmxTape_c \<Rightarrow> (exn + unit) \<times> PokedTapFile_c \<Rightarrow> (exn + uint8) \<times> IopBmxTape_c" where
  "finish_motion status d out =
     (case out of (r, k) \<Rightarrow>
        (let d = d\<lparr>bmtTapeImage := k\<rparr> in
         case r of Inl e \<Rightarrow> (Inl e, d)
         | Inr _ \<Rightarrow> (Inr (BmxStat_DeviceEnd OR BmxStat_ControlUnitEnd OR status d), d)))"

definition BMT_Control :: "uint8 \<Rightarrow> IopBmxTape_c \<Rightarrow> ((exn + uint8) \<times> IopBmxTape_c) option" where
  "BMT_Control aCommand d =
     (let k = PK_ReOpen (bmtTapeImage d); rewound = PK_close (PK_SeekToBeginningOfTape k);
          motion = unat (drop_bit 3 aCommand AND 7) in
      if drop_bit 2 aCommand AND 1 = 0 then
        Some (Inr (BmxStat_DeviceEnd OR BmxStat_ControlUnitEnd), d)
      else if motion = 0 then Some (finish_motion (\<lambda>_. 0) d (Inr (), rewound))
      else if motion = 1 then
        Some (finish_motion (status_if BeginningOfTape BmxStat_UnitCheck) d (Inr (), rewound))
      else if motion = 2 then Some (Inr (BmxStat_DeviceEnd OR BmxStat_ControlUnitEnd), d)
      else if motion = 3 then
        (if bmtIsReadOnly d then Some (Inl AssertError, d)
         else Some (finish_motion (\<lambda>_. 0) d (PK_WriteEndOfFile k)))
      else if motion = 4 then
        Some (finish_motion (\<lambda>d. status_if EndOfFile BmxStat_UnitException d OR
          status_if BeginningOfTape BmxStat_UnitCheck d) d (PK_SeekToPrevRecord k))
      else if motion = 5 then
        map_option (finish_motion (status_if BeginningOfTape BmxStat_UnitCheck) d) (BMT_backspace_file k)
      else if motion = 6 then
        Some (finish_motion (\<lambda>d. status_if EndOfFile BmxStat_UnitException d OR
          status_if EndOfTape BmxStat_UnitCheck d) d (PK_SeekToNextRecord k))
      else map_option (finish_motion (status_if EndOfTape BmxStat_UnitCheck) d) (BMT_space_file k))"

text \<open>A tape unit requests no service.\<close>

definition BMT_GetStatus :: uint8 where
  "BMT_GetStatus = BmxStat_DeviceEnd OR BmxStat_ControlUnitEnd"

definition BMT_GetRequestIn :: "IopBmxTape_c \<Rightarrow> bool" where "BMT_GetRequestIn d = False"
definition BMT_GetStatusIn :: "IopBmxTape_c \<Rightarrow> bool" where "BMT_GetStatusIn d = False"
definition BMT_GetDisconnectIn :: "IopBmxTape_c \<Rightarrow> bool" where "BMT_GetDisconnectIn d = False"

section \<open>The channel\<close>

record IopChannelBmx_c =
  bmDone :: bool
  bmBusy :: bool
  bmInterruptEnabled :: bool
  bmLocalMemoryAddress :: "nat \<Rightarrow> IopInt"
  bmByteCountStatusReg :: IopInt
  bmByteCountStatusRegValid :: bool
  bmStatusReg :: IopInt
  bmStatusRegValid :: bool
  bmChainingInterruptActive :: bool
  bmDevices :: "IopBmxTape_c option list"
  bmRequestInCnt :: nat
  bmStatusInCnt :: nat
  bmDisconnectInCnt :: nat
  bmActiveMemoryAddressIdx :: nat
  bmByteCounter :: IopInt
  bmNextByteCounter :: IopInt
  bmLoadByteCounter :: bool
  bmActiveDevice :: int
  bmDeviceStatus :: uint8
  bmSkipFlag :: bool
  bmStackStatusFlag :: bool
  bmChainingMode :: uint32
  bmInterruptMode :: uint32
  bmDelayCounter :: nat
  bmDelayLimit :: nat

record bmx_state =
  bmxChannel :: IopChannelBmx_c
  bmxIoMemory :: memory

abbreviation upd_bmx :: "(IopChannelBmx_c \<Rightarrow> IopChannelBmx_c) \<Rightarrow> bmx_state \<Rightarrow> bmx_state" where
  "upd_bmx f s \<equiv> s\<lparr>bmxChannel := f (bmxChannel s)\<rparr>"

definition count_devices :: "(IopBmxTape_c \<Rightarrow> bool) \<Rightarrow> IopChannelBmx_c \<Rightarrow> nat" where
  "count_devices P ch = length (List.filter (\<lambda>o_d. case o_d of Some d \<Rightarrow> P d | None \<Rightarrow> False) (bmDevices ch))"

definition UpdateXxxInCnts :: "IopChannelBmx_c \<Rightarrow> IopChannelBmx_c" where
  "UpdateXxxInCnts ch = ch\<lparr>bmRequestInCnt := count_devices BMT_GetRequestIn ch,
     bmStatusInCnt := count_devices BMT_GetStatusIn ch,
     bmDisconnectInCnt := count_devices BMT_GetDisconnectIn ch\<rparr>"

definition BMX_MasterClear :: "IopChannelBmx_c \<Rightarrow> IopChannelBmx_c" where
  "BMX_MasterClear ch = UpdateXxxInCnts (ch\<lparr>bmDone := False, bmBusy := False, bmInterruptEnabled := True,
     bmActiveDevice := -1, bmLocalMemoryAddress := (bmLocalMemoryAddress ch)(0 := 0, 1 := 0),
     bmChainingInterruptActive := False, bmActiveMemoryAddressIdx := 0, bmByteCounter := 0,
     bmNextByteCounter := 0, bmLoadByteCounter := False, bmDeviceStatus := 0, bmSkipFlag := False,
     bmStackStatusFlag := False, bmChainingMode := 0, bmInterruptMode := 0, bmDelayCounter := 0,
     bmByteCountStatusReg := 0, bmByteCountStatusRegValid := False, bmStatusReg := 0,
     bmStatusRegValid := False\<rparr>)"

definition GetDeviceInterrupt :: "IopChannelBmx_c \<Rightarrow> bool" where
  "GetDeviceInterrupt ch \<longleftrightarrow>
     (if bmInterruptMode ch = 1 then bmRequestInCnt ch > 0
      else if bmInterruptMode ch = 2 then bmStatusInCnt ch > 0
      else if bmInterruptMode ch = 3 then bmDisconnectInCnt ch > 0
      else False)"

definition BMX_GetInterrupt :: "IopChannelBmx_c \<Rightarrow> bool" where
  "BMX_GetInterrupt ch \<longleftrightarrow> (if bmInterruptEnabled ch \<and> bmDone ch then True else GetDeviceInterrupt ch)"

definition BMX_Tick :: "IopChannelBmx_c \<Rightarrow> IopChannelBmx_c" where
  "BMX_Tick ch =
     (if bmDelayCounter ch \<noteq> 0 then
        (let ch = ch\<lparr>bmDelayCounter := bmDelayCounter ch - 1\<rparr>
         in if bmDelayCounter ch = 0 then ch\<lparr>bmDone := True, bmBusy := False\<rparr> else ch)
      else ch)"

section \<open>Transfers between the I/O memory and a device\<close>

text \<open>
  The bytes of a write: lines of four parcels, the high byte of a parcel first, until the byte
  counter has run out. The low two bits of the address are replaced by the parcel number.
\<close>

definition parcel_address :: "IopInt \<Rightarrow> nat \<Rightarrow> nat" where
  "parcel_address LocalMemoryAddress Parcel = unat (LocalMemoryAddress AND 0xfffc) OR Parcel"

fun collect_line :: "memory \<Rightarrow> IopInt \<Rightarrow> nat list \<Rightarrow> nat \<Rightarrow> uint8 list \<times> nat" where
  "collect_line m L [] ByteCounter = ([], ByteCounter)"
| "collect_line m L (p # ps) ByteCounter =
     (let Word = IoMemRead16 (parcel_address L p) m;
          hi = ucast (drop_bit 8 Word); lo = ucast (Word AND 0xff) in
      if ByteCounter - 1 = 0 then ([hi], 0)
      else if ByteCounter - 2 = 0 then ([hi, lo], 0)
      else (case collect_line m L ps (ByteCounter - 2) of (bs, n) \<Rightarrow> (hi # lo # bs, n)))"

lemma collect_line_count: "snd (collect_line m L ps n) \<le> n"
proof (induction ps arbitrary: n)
  case (Cons p ps)
  from Cons[of "n - 2"] show ?case by (auto simp: Let_def split: prod.splits)
qed simp

function collect_bytes :: "memory \<Rightarrow> IopInt \<Rightarrow> nat \<Rightarrow> uint8 list" where
  "collect_bytes m L ByteCounter =
     (if ByteCounter = 0 then []
      else fst (collect_line m L [0, 1, 2, 3] ByteCounter) @
        collect_bytes m (L + 4) (snd (collect_line m L [0, 1, 2, 3] ByteCounter)))"
  by pat_completeness auto
termination
proof (relation "measure (\<lambda>(m, L, n). n)")
  fix m :: memory and L :: IopInt and n :: nat
  assume n: "n \<noteq> 0"
  have "snd (collect_line m L [0, 1, 2, 3] n) < n"
  proof (cases "n \<le> 2")
    case False
    have "snd (collect_line m L [1, 2, 3] (n - 2)) \<le> n - 2" by (rule collect_line_count)
    with False show ?thesis by (simp add: Let_def split_beta del: collect_line.simps(2))
        (simp add: Let_def split_beta)
  qed (use n in \<open>auto simp: Let_def\<close>)
  then show "((m, L + 4, snd (collect_line m L [0, 1, 2, 3] n)), m, L, n) \<in> measure (\<lambda>(m, L, n). n)"
    by simp
qed simp

declare collect_bytes.simps [simp del]

text \<open>The bytes of a read, into the same lines; an odd last byte is stored with a zero.\<close>

fun scatter_line :: "IopInt \<Rightarrow> nat list \<Rightarrow> uint8 list \<Rightarrow> memory \<Rightarrow> uint8 list \<times> memory" where
  "scatter_line L [] bs m = (bs, m)"
| "scatter_line L (p # ps) [] m = ([], m)"
| "scatter_line L (p # ps) [b] m =
     ([], IoMemWrite16 (parcel_address L p) (push_bit 8 (ucast b)) m)"
| "scatter_line L (p # ps) (b # c # bs) m =
     (let m = IoMemWrite16 (parcel_address L p) (push_bit 8 (ucast b) OR ucast c) m
      in if bs = [] then ([], m) else scatter_line L ps bs m)"

lemma scatter_line_count: "length (fst (scatter_line L ps bs m)) \<le> length bs"
  by (induction L ps bs m rule: scatter_line.induct) (auto simp: Let_def)

function scatter_bytes :: "IopInt \<Rightarrow> uint8 list \<Rightarrow> memory \<Rightarrow> IopInt \<times> memory" where
  "scatter_bytes L bs m =
     (if bs = [] then (L, m)
      else scatter_bytes (L + 4) (fst (scatter_line L [0, 1, 2, 3] bs m)) (snd (scatter_line L [0, 1, 2, 3] bs m)))"
  by pat_completeness auto
termination
proof (relation "measure (\<lambda>(L, bs, m). length bs)")
  fix L :: IopInt and bs :: "uint8 list" and m :: memory
  assume bs: "bs \<noteq> []"
  show "((L + 4, fst (scatter_line L [0, 1, 2, 3] bs m), snd (scatter_line L [0, 1, 2, 3] bs m)), L, bs, m)
      \<in> measure (\<lambda>(L, bs, m). length bs)"
  proof (cases bs rule: remdups_adj.cases)
    case (3 b c xs)
    then show ?thesis
      using scatter_line_count[of L "[1, 2, 3]" xs "IoMemWrite16 (parcel_address L 0) (push_bit 8 (ucast b) OR ucast c) m"]
      by (auto simp: Let_def split_beta)
  qed (use bs in auto)
qed simp

declare scatter_bytes.simps [simp del]

section \<open>Channel commands\<close>

text \<open>\<open>GetActiveDevice()\<close> indexes the vector of devices without a check.\<close>

definition active_device :: "(bmx_state, IopBmxTape_c option) exec" where
  "active_device s =
     (let ch = bmxChannel s in
      if 0 \<le> bmActiveDevice ch \<and> nat (bmActiveDevice ch) < length (bmDevices ch)
      then (Inr (bmDevices ch ! nat (bmActiveDevice ch)), s)
      else (Inl UndefinedBehaviour, s))"

definition put_device :: "IopBmxTape_c \<Rightarrow> bmx_state \<Rightarrow> bmx_state" where
  "put_device d = upd_bmx (\<lambda>ch. ch\<lparr>bmDevices := (bmDevices ch)[nat (bmActiveDevice ch) := Some d]\<rparr>)"

definition BMX_finished :: "bool \<Rightarrow> bmx_state \<Rightarrow> bmx_state" where
  "BMX_finished busy = upd_bmx (\<lambda>ch. ch\<lparr>bmDone := True, bmBusy := busy\<rparr>)"

definition bm_address :: "IopChannelBmx_c \<Rightarrow> IopInt" where
  "bm_address ch = bmLocalMemoryAddress ch (bmActiveMemoryAddressIdx ch)"

definition set_bm_address :: "IopInt \<Rightarrow> IopChannelBmx_c \<Rightarrow> IopChannelBmx_c" where
  "set_bm_address a ch = ch\<lparr>bmLocalMemoryAddress := (bmLocalMemoryAddress ch)(bmActiveMemoryAddressIdx ch := a)\<rparr>"

text \<open>
  After a write or control command: the address advances by an eighth of the bytes, where a
  read advances it by four for every eight bytes. The assert bounds what the device took.
\<close>

definition BMX_sent :: "nat \<Rightarrow> (exn + uint8) \<times> IopBmxTape_c \<Rightarrow> bmx_state \<Rightarrow> (exn + unit) \<times> bmx_state" where
  "BMX_sent BytesTransferred out s =
     (case out of (r, d) \<Rightarrow>
        (let s = put_device d s in
         case r of
           Inl e \<Rightarrow> (Inl e, s)
         | Inr st \<Rightarrow>
             (let s = upd_bmx (bmDeviceStatus_update (\<lambda>_. st)) s in
              if \<not> BytesTransferred \<le> unat (bmByteCounter (bmxChannel s)) then (Inl AssertError, s)
              else (Inr (), BMX_finished False (upd_bmx (\<lambda>ch. set_bm_address
                (bm_address ch + of_nat (BytesTransferred div 8))
                (ch\<lparr>bmByteCounter := bmByteCounter ch - of_nat BytesTransferred\<rparr>)) s)))))"

definition BMX_received ::
    "(exn + uint8 \<times> uint8 list) \<times> IopBmxTape_c \<Rightarrow> bmx_state \<Rightarrow> (exn + unit) \<times> bmx_state" where
  "BMX_received out s =
     (case out of (r, d) \<Rightarrow>
        (let s = put_device d s in
         case r of
           Inl e \<Rightarrow> (Inl e, s)
         | Inr (st, Bytes) \<Rightarrow>
             (let s = upd_bmx (bmDeviceStatus_update (\<lambda>_. st)) s in
              if \<not> length Bytes \<le> unat (bmByteCounter (bmxChannel s)) then (Inl AssertError, s)
              else
                (let (a, m) = scatter_bytes (bm_address (bmxChannel s)) Bytes (bmxIoMemory s)
                 in (Inr (), BMX_finished False (upd_bmx (\<lambda>ch. set_bm_address a
                      (ch\<lparr>bmByteCounter := bmByteCounter ch - of_nat (length Bytes)\<rparr>))
                      (s\<lparr>bmxIoMemory := m\<rparr>)))))))"

definition BMX_command :: "uint8 \<Rightarrow> bmx_state \<Rightarrow> ((exn + unit) \<times> bmx_state) option" where
  "BMX_command Command s =
     (case active_device s of
        (Inl e, s) \<Rightarrow> Some (Inl e, s)
      | (Inr None, s) \<Rightarrow> Some (Inl AssertError, s)
      | (Inr (Some d), s) \<Rightarrow>
          (let ch = bmxChannel s; n = unat (bmByteCounter ch); code = unat (Command AND 0xf);
               Bytes = collect_bytes (bmxIoMemory s) (bm_address ch) n in
           if Command = 0 then
             Some (Inr (), BMX_finished False (upd_bmx (bmDeviceStatus_update (\<lambda>_. BMT_TestIo)) s))
           else if code mod 4 = 1 then Some (BMX_sent (length Bytes) (BMT_Write Bytes d) s)
           else if code mod 4 = 3 then
             map_option (\<lambda>out. BMX_sent (length Bytes) out s) (BMT_Control Command d)
           else if code mod 4 = 2 then Some (BMX_received (BMT_Read n d) s)
           else if code = 4 then Some (BMX_received (BMT_Sense n d) s)
           else Some (Inl AssertError, s)))"

section \<open>The channel functions\<close>

text \<open>Function 1: the output tag lines, disconnect and resets, by the low bits of the parameter.\<close>

definition BMX_control :: "IopInt \<Rightarrow> (bmx_state, unit) exec" where
  "BMX_control aData s =
     (let sel = unat (aData AND 3) in
      if sel = 0 then (Inr (), BMX_finished False s)
      else if sel = 1 then
        bindE active_device (\<lambda>d s. case d of None \<Rightarrow> (Inl AssertError, s)
          | Some _ \<Rightarrow> (Inr (), BMX_finished False s)) s
      else if sel = 2 then
        bindE active_device (\<lambda>d s. (Inr (), BMX_finished False
          (case d of None \<Rightarrow> s | Some d \<Rightarrow> put_device (BMT_Reset d) s))) s
      else (Inr (), BMX_finished False
        (upd_bmx (\<lambda>ch. ch\<lparr>bmDevices := map (map_option BMT_Reset) (bmDevices ch)\<rparr>) s)))"

text \<open>Function 3: the first device that requests service.\<close>

definition BMX_request_in :: "bmx_state \<Rightarrow> bmx_state" where
  "BMX_request_in s =
     (case List.find (\<lambda>d. case d of Some d \<Rightarrow> BMT_GetRequestIn d | None \<Rightarrow> False) (bmDevices (bmxChannel s)) of
        Some (Some d) \<Rightarrow> BMX_finished False (upd_bmx (\<lambda>ch. ch\<lparr>bmActiveDevice := int (unat (bmtDeviceAddress d)),
          bmDeviceStatus := BMT_GetStatus\<rparr>) s)
      | _ \<Rightarrow> BMX_finished True s)"

text \<open>
  Function 013: by the precedence of the conditional operator the two lower fields are read
  only while the byte counter is not zero.
\<close>

definition BMX_input_tags :: "IopChannelBmx_c \<Rightarrow> IopInt" where
  "BMX_input_tags ch =
     (if bmByteCounter ch = 0 then push_bit 13 1
      else 0 OR push_bit 11 (of_nat (bmActiveMemoryAddressIdx ch)) OR
        push_bit 4 (of_bool (GetDeviceInterrupt ch)))"

definition BMX_DoIo :: "nat \<Rightarrow> IopInt \<Rightarrow> bmx_state \<Rightarrow> ((exn + IopInt) \<times> bmx_state) option" where
  "BMX_DoIo aFunction aData s =
     (let ch = bmxChannel s; sel = unat (aData AND 1) in
      if aFunction = 0 then
        Some (Inr 0, upd_bmx (\<lambda>ch. ch\<lparr>bmBusy := False, bmDone := False, bmInterruptEnabled := False\<rparr>) s)
      else if aFunction = 1 then Some (bindE (BMX_control aData) (\<lambda>_. returnE 0) s)
      else if aFunction = 2 then
        map_option (\<lambda>(r, s). (map_sum id (\<lambda>_. 0) r, s)) (BMX_command (ucast (aData AND 0xff)) s)
      else if aFunction = 3 then Some (Inr 0, BMX_request_in s)
      else if aFunction = 4 then Some (Inl AssertError, s)
      else if aFunction = 5 then
        Some (Inr 0, upd_bmx (\<lambda>ch. ch\<lparr>bmDelayCounter := bmDelayLimit ch, bmDone := False, bmBusy := True\<rparr>) s)
      else if aFunction = 6 then Some (Inr 0, upd_bmx (bmInterruptEnabled_update (\<lambda>_. False)) s)
      else if aFunction = 7 then Some (Inr 0, upd_bmx (bmInterruptEnabled_update (\<lambda>_. True)) s)
      else if aFunction = 8 then
        Some (Inr ((bmLocalMemoryAddress ch sel AND 0xfffe) OR (aData AND 1)),
          upd_bmx (bmChainingInterruptActive_update (\<lambda>_. False)) s)
      else if aFunction = 9 then
        (if bmByteCountStatusRegValid ch
         then Some (Inr (bmByteCountStatusReg ch), upd_bmx (bmByteCountStatusRegValid_update (\<lambda>_. False)) s)
         else Some (Inr (bmByteCounter ch), s))
      else if aFunction = 10 then
        (if bmStatusRegValid ch
         then Some (Inr (bmStatusReg ch), upd_bmx (bmStatusRegValid_update (\<lambda>_. False)) s)
         else Some (Inr (ucast (bmDeviceStatus ch) OR word_of_int (bmActiveDevice ch * 2 ^ 8)), s))
      else if aFunction = 11 then Some (Inr (BMX_input_tags ch), s)
      else if aFunction = 12 then
        Some (Inr 0, upd_bmx (\<lambda>ch. ch\<lparr>bmLocalMemoryAddress := (bmLocalMemoryAddress ch)(sel := aData AND 0xfffe),
          bmLoadByteCounter := True\<rparr>) s)
      else if aFunction = 13 then
        Some (Inr 0, upd_bmx (\<lambda>ch. (if bmLoadByteCounter ch then ch\<lparr>bmByteCounter := aData\<rparr>
          else ch\<lparr>bmNextByteCounter := aData\<rparr>)\<lparr>bmByteCountStatusReg := aData,
            bmByteCountStatusRegValid := True, bmLoadByteCounter := False\<rparr>) s)
      else if aFunction = 14 then
        Some (Inr 0, upd_bmx (\<lambda>ch. ch\<lparr>bmActiveDevice := int (unat (aData AND 0xff)),
          bmSkipFlag := (GetBit (ucast aData) 8 \<noteq> 0), bmStackStatusFlag := (GetBit (ucast aData) 9 \<noteq> 0),
          bmChainingMode := GetBits32 (ucast aData) 10 11, bmInterruptMode := GetBits32 (ucast aData) 12 13,
          bmStatusReg := aData, bmStatusRegValid := True\<rparr>) s)
      else Some (Inr 0, s))"

end
