(* ===== verification/Bmx_Results.thy ===== *)
theory Bmx_Results
  imports Iop_Bmx Tape_Results Disk_Results
begin

text \<open>
  Results on the block multiplexer and its tapes: what the channel moves between the I/O memory
  and a device, what a mounted tape records of its files, and a record that goes out to a tape
  and comes back.
\<close>

section \<open>The channel's transfers\<close>

text \<open>The address of the \<open>j\<close>-th parcel of a transfer: it runs around the 65536 parcels.\<close>

definition transfer_address :: "IopInt \<Rightarrow> nat \<Rightarrow> nat" where
  "transfer_address L j = parcel_address (L + 4 * of_nat (j div 4)) (j mod 4)"

lemma clear_low_bits: "unat (L AND 0xfffc :: IopInt) = 4 * (unat L div 4)"
proof -
  have "L AND 0xfffc = push_bit 2 (drop_bit 2 L)"
  proof (rule word_eq_by_bits)
    fix n :: nat
    assume "n < LENGTH(16)"
    moreover have "list_all (\<lambda>n. bit (L AND 0xfffc) n = bit (push_bit 2 (drop_bit 2 L)) n) [0..<16]"
      by (simp add: upt_rec bit_simps)
    ultimately show "bit (L AND 0xfffc) n = bit (push_bit 2 (drop_bit 2 L)) n" by (simp add: list_all_iff)
  qed
  then have "unat (L AND 0xfffc) = take_bit 16 (push_bit 2 (drop_bit 2 (take_bit 16 (unat L))))"
    by (simp add: unsigned_push_bit_eq unsigned_drop_bit_eq)
  also have "\<dots> = (4 * (unat L mod 2 ^ 16 div 4)) mod 2 ^ 16"
    by (simp add: take_bit_eq_mod push_bit_eq_mult drop_bit_eq_div)
  also have "\<dots> = 4 * (unat L div 4)" using unsigned_less[of L, where 'a = nat] by simp
  finally show ?thesis .
qed

lemma parcel_address_value:
  assumes "p < 4"
  shows "parcel_address L p = 4 * (unat L div 4) + p"
proof -
  have "push_bit 2 (unat L div 4) OR p = push_bit 2 (unat L div 4) + p"
  proof (rule disjunctive_add_eq_or[symmetric], rule bit_eqI)
    fix n
    have "\<not> bit p n" if "2 \<le> n"
    proof -
      have "(2::nat) ^ 2 \<le> 2 ^ n" using that by (intro power_increasing) simp_all
      then show ?thesis using assms by (simp add: bit_iff_odd)
    qed
    then show "bit (push_bit 2 (unat L div 4) AND p) n = bit 0 n" by (auto simp: bit_simps)
  qed
  then show ?thesis
    by (simp add: parcel_address_def clear_low_bits push_bit_eq_mult mult.commute)
qed

text \<open>The transfer addresses of up to 65536 parcels are different.\<close>

lemma transfer_address_value:
  "transfer_address L j = 4 * ((unat L div 4 + j div 4) mod 16384) + j mod 4"
proof -
  have "unat (L + 4 * of_nat (j div 4)) = (unat L + 4 * (j div 4)) mod 2 ^ 16"
  proof -
    have "L + 4 * of_nat (j div 4) = of_nat (unat L + 4 * (j div 4))" by simp
    then show ?thesis by (simp only: unsigned_of_nat take_bit_eq_mod) simp
  qed
  moreover have "((unat L + 4 * (j div 4)) mod 2 ^ 16) div 4 = (unat L div 4 + j div 4) mod 16384"
    using mod_mult2_eq[of "unat L + 4 * (j div 4)" 4 16384] by (simp add: add.commute)
  ultimately show ?thesis by (simp add: transfer_address_def parcel_address_value)
qed

lemma transfer_address_inj:
  assumes "i < 65536" "j < 65536" "transfer_address L i = transfer_address L j"
  shows "i = j"
proof -
  have split: "x = y \<and> a = b" if "4 * x + a = 4 * y + b" "a < 4" "b < 4" for x y a b :: nat
    using that by presburger
  have shift: "a = b" if "(c + a) mod 16384 = (c + b) mod 16384" "a < 16384" "b < 16384" "a \<le> b" for a b c :: nat
    using that mod_eq_dvd_iff_nat[of "c + a" "c + b" 16384] by (auto dest: dvd_imp_le)
  from split[OF assms(3)[unfolded transfer_address_value]]
  have q: "(unat L div 4 + i div 4) mod 16384 = (unat L div 4 + j div 4) mod 16384" and m: "i mod 4 = j mod 4"
    by simp_all
  from assms(1,2) have "i div 4 < 16384" "j div 4 < 16384" by simp_all
  with q shift[of "unat L div 4" "i div 4" "j div 4"] shift[of "unat L div 4" "j div 4" "i div 4"]
  have "i div 4 = j div 4" by (cases "i div 4 \<le> j div 4") auto
  with m show ?thesis by (metis div_mult_mod_eq)
qed

text \<open>The parcels of a list of bytes and the bytes of a list of parcels.\<close>

definition pack :: "uint8 \<Rightarrow> uint8 \<Rightarrow> IopInt" where
  "pack b c = push_bit 8 (ucast b) OR ucast c"

definition hi_byte :: "IopInt \<Rightarrow> uint8" where
  "hi_byte w = ucast (drop_bit 8 w)"

definition lo_byte :: "IopInt \<Rightarrow> uint8" where
  "lo_byte w = ucast (w AND 0xff)"

lemma unpack [simp]: "hi_byte (pack b c) = b" "lo_byte (pack b c) = c"
proof -
  have m: "(0xff :: IopInt) = mask 8" by (rule mask_8_bits)
  have high: "\<not> bit (x :: uint8) n" if "8 \<le> n" for x n
    using that bit_imp_less_length[of x n] by auto
  show "hi_byte (pack b c) = b"
  proof (rule word_eq_by_bits)
    fix n :: nat
    assume "n < LENGTH(8)"
    then show "bit (hi_byte (pack b c)) n = bit b n"
      by (auto simp: hi_byte_def pack_def bit_simps high)
  qed
  show "lo_byte (pack b c) = c"
  proof (rule word_eq_by_bits)
    fix n :: nat
    assume "n < LENGTH(8)"
    then show "bit (lo_byte (pack b c)) n = bit c n"
      unfolding lo_byte_def pack_def m by (simp add: bit_simps)
  qed
qed

fun parcels_of :: "uint8 list \<Rightarrow> IopInt list" where
  "parcels_of [] = []"
| "parcels_of [b] = [pack b 0]"
| "parcels_of (b # c # bs) = pack b c # parcels_of bs"

definition bytes_of :: "IopInt list \<Rightarrow> uint8 list" where
  "bytes_of ws = concat (map (\<lambda>w. [hi_byte w, lo_byte w]) ws)"

lemma bytes_of_simps [simp]: "bytes_of [] = []"
    "bytes_of (w # ws) = hi_byte w # lo_byte w # bytes_of ws"
    "bytes_of (xs @ ys) = bytes_of xs @ bytes_of ys"
  by (simp_all add: bytes_of_def)

lemma length_bytes_of [simp]: "length (bytes_of ws) = 2 * length ws"
  by (induction ws) simp_all

lemma length_parcels_of [simp]: "length (parcels_of bs) = (length bs + 1) div 2"
  by (induction bs rule: parcels_of.induct) simp_all

lemma bytes_of_parcels_of: "take (length bs) (bytes_of (parcels_of bs)) = bs"
  by (induction bs rule: parcels_of.induct) simp_all

text \<open>A write of parcels to a list of addresses, and a transfer in those terms.\<close>

definition write_list :: "nat list \<Rightarrow> IopInt list \<Rightarrow> memory \<Rightarrow> memory" where
  "write_list as ws m = fold (\<lambda>(a, w). IoMemWrite16 a w) (zip as ws) m"

definition transfer_addresses :: "IopInt \<Rightarrow> nat \<Rightarrow> nat list" where
  "transfer_addresses L k = map (transfer_address L) [0..<4 * k]"

lemma length_transfer_addresses [simp]: "length (transfer_addresses L k) = 4 * k"
  by (simp add: transfer_addresses_def)

lemma transfer_addresses_Suc:
  "transfer_addresses L (Suc k) = map (parcel_address L) [0, 1, 2, 3] @ transfer_addresses (L + 4) k"
proof -
  have "[0..<4 + 4 * k] = [0..<4] @ [4..<4 + 4 * k]" by (rule upt_add_eq_append) simp
  moreover have "[0..<4] = [0, 1, 2, 3 :: nat]" by (simp add: upt_rec)
  moreover have "[4..<4 + 4 * k] = map ((+) 4) [0..<4 * k]"
  proof -
    have "(+) 4 = (\<lambda>i. i + 4 :: nat)" by (rule ext) (rule add.commute)
    moreover have "[4..<4 + 4 * k] = map (\<lambda>i. i + 4) [0..<4 * k]"
      unfolding map_add_upt by (simp only: add.commute)
    ultimately show ?thesis by metis
  qed
  ultimately have "[0..<4 * Suc k] = [0, 1, 2, 3] @ map ((+) 4) [0..<4 * k]" by simp
  then have "transfer_addresses L (Suc k) =
      map (transfer_address L) ([0, 1, 2, 3] @ map ((+) 4) [0..<4 * k])"
    by (simp only: transfer_addresses_def)
  moreover have "transfer_address L j = parcel_address L j" if "j < 4" for j
    using that by (simp add: transfer_address_def)
  moreover have "transfer_address L (4 + j) = transfer_address (L + 4) j" for j
  proof -
    have "(4 + j) div 4 = Suc (j div 4)" by simp
    then have "L + 4 * of_nat ((4 + j) div 4) = L + 4 + 4 * of_nat (j div 4)"
      by (simp only: of_nat_Suc distrib_left add.assoc mult_1_right)
    then show ?thesis by (simp only: transfer_address_def) simp
  qed
  ultimately show ?thesis by (simp add: transfer_addresses_def)
qed

lemma scatter_line_list:
  "scatter_line L ps bs m = (drop (2 * length ps) bs, write_list (map (parcel_address L) ps) (parcels_of bs) m)"
proof (induction L ps bs m rule: scatter_line.induct)
  case (4 L p ps b c bs m)
  then show ?case by (cases "bs = []") (simp_all add: Let_def write_list_def pack_def)
qed (simp_all add: write_list_def pack_def)

lemma parcels_of_drop: "parcels_of (drop (2 * n) bs) = drop n (parcels_of bs)"
proof (induction n arbitrary: bs)
  case (Suc n)
  show ?case by (cases bs rule: parcels_of.cases) (simp_all add: Suc)
qed simp

lemma write_list_append:
  "write_list (as @ cs) ws m = write_list cs (drop (length as) ws) (write_list as ws m)"
proof -
  have "zip as (take (length as) ws) = zip as ws"
  proof (induction as arbitrary: ws)
    case (Cons a as)
    then show ?case by (cases ws) simp_all
  qed simp
  then have "zip (as @ cs) ws = zip as ws @ zip cs (drop (length as) ws)" by (simp add: zip_append1)
  then show ?thesis by (simp add: write_list_def)
qed

lemma scatter_bytes_list:
  "length bs \<le> 8 * k \<Longrightarrow> snd (scatter_bytes L bs m) = write_list (transfer_addresses L k) (parcels_of bs) m"
proof (induction k arbitrary: L bs m)
  case 0
  then show ?case by (simp add: scatter_bytes.simps write_list_def transfer_addresses_def)
next
  case (Suc k)
  show ?case
  proof (cases "bs = []")
    case True
    then show ?thesis by (simp add: scatter_bytes.simps write_list_def)
  next
    case False
    have "length (drop 8 bs) \<le> 8 * k" using Suc.prems by simp
    note rest = Suc.IH[OF this]
    have "write_list (transfer_addresses L (Suc k)) ws m' = write_list (transfer_addresses (L + 4) k) (drop 4 ws)
        (write_list (map (parcel_address L) [0, 1, 2, 3]) ws m')" for ws m'
      unfolding transfer_addresses_Suc write_list_append by (simp add: numeral_eq_Suc)
    with rest False show ?thesis
      using parcels_of_drop[of 4 bs] by (subst scatter_bytes.simps) (simp add: scatter_line_list)
  qed
qed

text \<open>What a list of different addresses reads back.\<close>

lemma read_write_list:
  "distinct as \<Longrightarrow> length ws \<le> length as \<Longrightarrow>
     map (\<lambda>a. IoMemRead16 a (write_list as ws m)) (take (length ws) as) = ws"
proof -
  have other: "IoMemRead16 a (write_list as ws m) = IoMemRead16 a m" if "a \<notin> set as" for a as ws m
    using that
  proof (induction as arbitrary: ws m)
    case (Cons b as)
    then show ?case by (cases ws) (simp_all add: write_list_def parcels.rd_other)
  qed (simp add: write_list_def)
  show "distinct as \<Longrightarrow> length ws \<le> length as \<Longrightarrow>
     map (\<lambda>a. IoMemRead16 a (write_list as ws m)) (take (length ws) as) = ws"
  proof (induction as arbitrary: ws m)
    case (Cons b as)
    show ?case
    proof (cases ws)
      case ws: (Cons w vs)
      have step: "write_list (b # as) (w # vs) m = write_list as vs (IoMemWrite16 b w m)"
        by (simp add: write_list_def)
      with Cons ws show ?thesis by (simp add: step other parcels.rd_same)
    qed simp
  qed simp
qed

lemma collect_line_list:
  "0 < n \<Longrightarrow> collect_line m L ps n =
     (take n (bytes_of (map (\<lambda>p. IoMemRead16 (parcel_address L p) m) ps)), n - 2 * length ps)"
proof (induction ps arbitrary: n)
  case (Cons p ps)
  consider "n = 1" | "n = 2" | q where "n = Suc (Suc q)" "0 < q"
  proof -
    assume "n = 1 \<Longrightarrow> thesis" "n = 2 \<Longrightarrow> thesis" "\<And>q. n = Suc (Suc q) \<Longrightarrow> 0 < q \<Longrightarrow> thesis"
    moreover have "n = 1 \<or> n = 2 \<or> n = Suc (Suc (n - 2)) \<and> 0 < n - 2" using Cons.prems by arith
    ultimately show thesis by blast
  qed
  then show ?case
  proof cases
    case 3
    with Cons.IH[of q] show ?thesis by (simp add: Let_def hi_byte_def lo_byte_def)
  qed (simp_all add: Let_def hi_byte_def lo_byte_def)
qed simp

lemma collect_bytes_list:
  "n \<le> 8 * k \<Longrightarrow> collect_bytes m L n =
     take n (bytes_of (map (\<lambda>a. IoMemRead16 a m) (transfer_addresses L k)))"
proof (induction k arbitrary: L n)
  case 0
  then show ?case by (simp add: collect_bytes.simps)
next
  case (Suc k)
  show ?case
  proof (cases "n = 0")
    case True
    then show ?thesis by (simp add: collect_bytes.simps)
  next
    case False
    define ws where "ws = map (\<lambda>p. IoMemRead16 (parcel_address L p) m) [0, 1, 2, 3]"
    have "map (\<lambda>a. IoMemRead16 a m) (transfer_addresses L (Suc k)) =
        ws @ map (\<lambda>a. IoMemRead16 a m) (transfer_addresses (L + 4) k)"
      unfolding transfer_addresses_Suc ws_def by simp
    moreover have "collect_line m L [0, 1, 2, 3] n = (take n (bytes_of ws), n - 8)"
      using collect_line_list[of n m L "[0, 1, 2, 3]"] False unfolding ws_def by (simp del: collect_line.simps)
    moreover have "length (bytes_of ws) = 8" by (simp add: ws_def)
    ultimately show ?thesis
      using Suc.IH[of "n - 8" "L + 4"] Suc.prems False
      by (subst collect_bytes.simps) (simp del: collect_line.simps length_bytes_of)
  qed
qed

text \<open>
  What a read has put into the memory is what a write from the same address sends: the two
  directions of the channel agree.
\<close>

theorem channel_transfer_roundtrip:
  assumes "length bs \<le> 2 ^ 17"
  shows "collect_bytes (snd (scatter_bytes L bs m)) L (length bs) = bs"
proof -
  let ?k = "16384 :: nat" and ?as = "transfer_addresses L 16384"
  have l: "length bs \<le> 8 * ?k" "length (parcels_of bs) \<le> length ?as" using assms by simp_all
  have "distinct ?as"
    by (auto simp: transfer_addresses_def distinct_map inj_on_def intro: transfer_address_inj)
  from read_write_list[OF this l(2)]
  have "take (length (parcels_of bs)) (map (\<lambda>a. IoMemRead16 a (snd (scatter_bytes L bs m))) ?as) = parcels_of bs"
    by (simp add: scatter_bytes_list[OF l(1)] take_map)
  moreover have "take (length bs) (bytes_of ws) = take (length bs) (bytes_of (take (length (parcels_of bs)) ws))" for ws
  proof -
    have "take (2 * n) (bytes_of ws) = bytes_of (take n ws)" for n ws
    proof (induction n arbitrary: ws)
      case (Suc n)
      then show ?case by (cases ws) simp_all
    qed simp
    moreover have "length bs \<le> 2 * length (parcels_of bs)" by simp
    ultimately show ?thesis by (metis min.absorb1 take_take)
  qed
  ultimately have "take (length bs) (bytes_of (map (\<lambda>a. IoMemRead16 a (snd (scatter_bytes L bs m))) ?as)) =
      take (length bs) (bytes_of (parcels_of bs))" by metis
  then show ?thesis unfolding collect_bytes_list[OF l(1)] bytes_of_parcels_of .
qed

lemma length_collect_bytes [simp]: "length (collect_bytes m L n) = n"
  using collect_bytes_list[of n n m L] by simp

section \<open>A tape unit\<close>

text \<open>A blank tape at its beginning, and the same tape with one record, closed by a rewind.\<close>

definition blank_unit :: "IopBmxTape_c \<Rightarrow> bool" where
  "blank_unit d \<longleftrightarrow> \<not> bmtIsReadOnly d \<and> pkCurPokeMap (bmtTapeImage d) = None \<and>
     tfStream (pkTape (bmtTapeImage d)) = halves [] [] \<and> tfMode (pkTape (bmtTapeImage d)) \<and>
     \<not> tfCurRecordValid (pkTape (bmtTapeImage d))"

definition written_unit :: "uint8 list \<Rightarrow> IopBmxTape_c \<Rightarrow> bool" where
  "written_unit bs d \<longleftrightarrow> pkCurPokeMap (bmtTapeImage d) = None \<and> tfMode (pkTape (bmtTapeImage d)) \<and>
     tfStream (pkTape (bmtTapeImage d)) = halves (item_bytes (tape_item.Data bs)) []"

definition rewound_unit :: "uint8 list \<Rightarrow> IopBmxTape_c \<Rightarrow> bool" where
  "rewound_unit bs d \<longleftrightarrow> pkCurPokeMap (bmtTapeImage d) = None \<and> tfMode (pkTape (bmtTapeImage d)) \<and>
     fsFile (tfStream (pkTape (bmtTapeImage d))) = Some (item_bytes (tape_item.Data bs)) \<and>
     \<not> fsOpen (tfStream (pkTape (bmtTapeImage d)))"

lemma write_blank_unit:
  assumes "blank_unit d" "item_ok (tape_item.Data bs)"
  shows "\<exists>d'. BMT_Write bs d = (Inr BmxStat_ControlUnitEnd, d') \<and> written_unit bs d'"
proof -
  let ?t = "(pkTape (bmtTapeImage d))\<lparr>tfLastCmdDirection := Forward\<rparr>"
  have t: "tfStream ?t = halves [] []" "tfMode ?t" "\<not> tfCurRecordValid ?t"
    using assms(1) by (simp_all add: blank_unit_def)
  then have "TF_write_position (of_nat (length bs)) ?t = (Inr (), ?t\<lparr>tfStream := at_end []\<rparr>)"
    by (simp add: TF_write_position_def read_size_at_end)
  moreover obtain t' where t': "TF_put_record (item_data (tape_item.Data bs)) (?t\<lparr>tfStream := at_end []\<rparr>) = (Inr (), t')"
    "tfMode t'" "tfStream t' = halves (item_bytes (tape_item.Data bs)) []" "\<not> tfCurRecordEof t'"
    using put_record_halves[of "?t\<lparr>tfStream := at_end []\<rparr>" "[]" "[]" "tape_item.Data bs"] assms(2) t(2) by auto
  ultimately have w: "WriteRecordInternal bs ?t = (Inr (), t')"
    using t(1) by (simp add: WriteRecordInternal_def bindE_def)
  have "bs \<noteq> []" using assms(2) by simp
  with w assms(1) t' show ?thesis
    by (auto simp: BMT_Write_def blank_unit_def written_unit_def at_image_def PK_ReOpen_def TF_ReOpen_def
        PK_WriteRecord_def at_tape_def WriteRecord_def bindE_def status_if_def PK_GetState_def TF_GetState_def Let_def)
qed

lemma rewind_unit:
  assumes "written_unit bs d"
  shows "\<exists>d'. BMT_Control 7 d = Some (Inr (BmxStat_DeviceEnd OR BmxStat_ControlUnitEnd), d') \<and> rewound_unit bs d'"
  using assms
  by (simp add: BMT_Control_def Let_def finish_motion_def written_unit_def rewound_unit_def PK_ReOpen_def TF_ReOpen_def
      PK_SeekToBeginningOfTape_def SeekToBeginningOfTape_def PK_close_def TF_close_def TF_Reset_def
      fs_close_def fs_seek_def halves_def)

lemma read_whole_record:
  assumes "tfStream t = halves p (item_bytes (tape_item.Data d) @ q)" "\<not> (tfCurRecordValid t \<and> \<not> tfCurRecordEof t)"
    and "item_ok (tape_item.Data d)" "length d \<le> unat n" "n \<noteq> 0"
  shows "\<exists>t'. Read n t = (Inr d, t') \<and> tfStream t' = halves (p @ item_bytes (tape_item.Data d)) q \<and>
    \<not> tfCurRecordValid t' \<and> \<not> tfCurRecordEof t'"
proof -
  let ?w = "of_nat (length d) :: uint32"
  let ?u = "t\<lparr>tfLastCmdDirection := Forward, tfStream := halves (p @ le32_bytes ?w) (d @ le32_bytes ?w @ q)\<rparr>"
  have "Read n t = TF_enter_record n ?w ?u"
    using assms(1,2,5) by (auto simp: Read_def Let_def read_size_halves word_gt_0)
  moreover have "d \<noteq> []" "length d < 2 ^ 32" using assms(3) by auto
  ultimately show ?thesis
    using assms(4) by (simp add: enter_data[OF _ assms(3)] read_data_all)
qed

lemma read_rewound_unit:
  assumes "rewound_unit bs d" "item_ok (tape_item.Data bs)" "length bs = n" "n < 2 ^ 16"
  shows "\<exists>d'. BMT_Read n d = (Inr (BmxStat_ControlUnitEnd, bs), d')"
proof -
  let ?k = "PK_ReOpen (bmtTapeImage d)" and ?n = "of_nat n :: uint32"
  have k: "tfStream (pkTape ?k) = halves [] (item_bytes (tape_item.Data bs) @ [])" "pkCurPokeMap ?k = None"
    "\<not> tfCurRecordValid (pkTape ?k)"
    using assms(1)
    by (simp_all add: rewound_unit_def PK_ReOpen_def TF_ReOpen_def TF_open_def TF_opened_def TF_Reset_def
        fs_open_def fs_seekp_def fs_seek_def halves_def)
  have n: "unat ?n = n" using assms(4) by (intro size_fits) simp
  moreover have "n \<noteq> 0" using assms(2,3) by auto
  ultimately obtain t' where t': "Read ?n (pkTape ?k) = (Inr bs, t')"
    "tfStream t' = halves (item_bytes (tape_item.Data bs)) []" "\<not> tfCurRecordValid t'" "\<not> tfCurRecordEof t'"
    using read_whole_record[OF k(1) _ assms(2), of ?n] k(3) assms(3) by (auto simp: unat_0_iff[symmetric] simp del: unat_0_iff)
  have len: "length (item_bytes (tape_item.Data bs)) = n + 8" using assms(3) by simp
  have "(4 :: uint64) \<le> word_of_int (int (n + 8)) - 4"
  proof -
    have "(word_of_int (int (n + 8)) :: uint64) - 4 = of_nat (n + 4)" by simp
    moreover have "unat (of_nat (n + 4) :: uint64) = n + 4"
      using assms(4) by (simp add: unsigned_of_nat take_bit_nat_eq_self del: of_nat_add)
    ultimately show ?thesis by (simp add: word_le_nat_alt del: of_nat_add)
  qed
  then show ?thesis
    using t' k by (simp add: BMT_Read_def at_image_def PK_Read_def at_tape_def bindE_def PK_tellg_def PK_apply_def
        PK_GetState_def TF_GetState_def status_if_def Let_def len del: item_bytes.simps)
qed

section \<open>A record out to a tape and back\<close>

text \<open>A sequence of channel functions with their parameters.\<close>

fun io_run :: "(nat \<times> IopInt) list \<Rightarrow> bmx_state \<Rightarrow> ((exn + unit) \<times> bmx_state) option" where
  "io_run [] s = Some (Inr (), s)"
| "io_run ((f, a) # fs) s =
     (case BMX_DoIo f a s of
        None \<Rightarrow> None
      | Some (Inl e, s) \<Rightarrow> Some (Inl e, s)
      | Some (Inr _, s) \<Rightarrow> io_run fs s)"

text \<open>The channel with one of its units selected and its first address register in use.\<close>

definition unit_ready :: "(IopBmxTape_c \<Rightarrow> bool) \<Rightarrow> bmx_state \<Rightarrow> bool" where
  "unit_ready P s \<longleftrightarrow> bmActiveMemoryAddressIdx (bmxChannel s) = 0 \<and>
     0 \<le> bmActiveDevice (bmxChannel s) \<and> nat (bmActiveDevice (bmxChannel s)) < length (bmDevices (bmxChannel s)) \<and>
     (\<exists>d. bmDevices (bmxChannel s) ! nat (bmActiveDevice (bmxChannel s)) = Some d \<and> P d)"

text \<open>Functions 014 and 015 set the address and the byte counter of the next transfer.\<close>

lemma enter_transfer:
  assumes "a AND 1 = 0" "unit_ready P s"
  shows "\<exists>s'. io_run ((12, a) # (13, n) # fs) s = io_run fs s' \<and> unit_ready P s' \<and>
    bmxIoMemory s' = bmxIoMemory s \<and> bm_address (bmxChannel s') = a AND 0xfffe \<and> bmByteCounter (bmxChannel s') = n"
proof -
  let ?ch = "(bmxChannel s)\<lparr>bmLocalMemoryAddress := (bmLocalMemoryAddress (bmxChannel s))(0 := a AND 0xfffe),
    bmByteCounter := n, bmByteCountStatusReg := n, bmByteCountStatusRegValid := True, bmLoadByteCounter := False\<rparr>"
  have "io_run ((12, a) # (13, n) # fs) s = io_run fs (s\<lparr>bmxChannel := ?ch\<rparr>)"
    using assms(1) by (simp add: BMX_DoIo_def Let_def)
  moreover have "unit_ready P (s\<lparr>bmxChannel := ?ch\<rparr>)" using assms(2) by (simp add: unit_ready_def)
  moreover have "bm_address ?ch = a AND 0xfffe" using assms(2) by (simp add: bm_address_def unit_ready_def)
  ultimately show ?thesis by (intro exI[of _ "s\<lparr>bmxChannel := ?ch\<rparr>"]) simp
qed

text \<open>Function 2 gives the low byte of its parameter as a command to the selected unit.\<close>

lemma run_command:
  assumes "BMX_command (ucast (c AND 0xff :: IopInt)) s = Some (Inr (), s')"
  shows "io_run ((2, c) # fs) s = io_run fs s'"
  using assms by (simp add: BMX_DoIo_def Let_def del: mask_8_bits)

lemma command_cases:
  assumes "active_device s = (Inr (Some d), s)"
  defines "bs \<equiv> collect_bytes (bmxIoMemory s) (bm_address (bmxChannel s)) (unat (bmByteCounter (bmxChannel s)))"
  shows "BMX_command 1 s = Some (BMX_sent (length bs) (BMT_Write bs d) s)"
    "BMX_command 7 s = map_option (\<lambda>out. BMX_sent (length bs) out s) (BMT_Control 7 d)"
    "BMX_command 2 s = Some (BMX_received (BMT_Read (unat (bmByteCounter (bmxChannel s))) d) s)"
  unfolding bs_def using assms(1) by (simp_all add: BMX_command_def Let_def)

lemma sent_unit:
  assumes "unit_ready P s" "n \<le> unat (bmByteCounter (bmxChannel s))" "unit_ready Q (put_device d' s)"
  shows "\<exists>s'. BMX_sent n (Inr st, d') s = (Inr (), s') \<and> unit_ready Q s' \<and> bmxIoMemory s' = bmxIoMemory s \<and>
    bmByteCounter (bmxChannel s') = bmByteCounter (bmxChannel s) - of_nat n"
  using assms by (simp add: BMX_sent_def Let_def BMX_finished_def put_device_def set_bm_address_def unit_ready_def)

lemma active_ready:
  assumes "unit_ready P s"
  obtains d where "active_device s = (Inr (Some d), s)" "P d"
    "\<And>d' Q. Q d' \<Longrightarrow> unit_ready Q (put_device d' s)"
proof -
  from assms obtain d where d: "bmDevices (bmxChannel s) ! nat (bmActiveDevice (bmxChannel s)) = Some d" "P d"
    by (auto simp: unit_ready_def)
  moreover have "active_device s = (Inr (Some d), s)"
    using assms d by (simp add: active_device_def unit_ready_def Let_def)
  moreover have "unit_ready Q (put_device d' s)" if "Q d'" for d' Q
    using assms that by (simp add: unit_ready_def put_device_def)
  ultimately show thesis using that by blast
qed

lemma write_command:
  assumes "unit_ready blank_unit s" "0 < bmByteCounter (bmxChannel s)"
    and "bs = collect_bytes (bmxIoMemory s) (bm_address (bmxChannel s)) (unat (bmByteCounter (bmxChannel s)))"
  shows "\<exists>s'. io_run ((2, 1) # fs) s = io_run fs s' \<and> unit_ready (written_unit bs) s' \<and>
    bmxIoMemory s' = bmxIoMemory s \<and> bmByteCounter (bmxChannel s') = 0"
proof -
  have "unat (bmByteCounter (bmxChannel s)) < 2 ^ 16" using unsigned_less[of "bmByteCounter (bmxChannel s)"] by simp
  moreover have "0 < unat (bmByteCounter (bmxChannel s))" using assms(2) by (simp add: word_less_nat_alt)
  ultimately have ok: "item_ok (tape_item.Data bs)" by (simp add: assms(3) flip: length_0_conv)
  from assms(1) obtain d where d: "active_device s = (Inr (Some d), s)" "blank_unit d"
    "\<And>d' Q. Q d' \<Longrightarrow> unit_ready Q (put_device d' s)" by (rule active_ready) blast
  from write_blank_unit[OF d(2) ok] obtain d' where
    d': "BMT_Write bs d = (Inr BmxStat_ControlUnitEnd, d')" "written_unit bs d'" by blast
  from d(3)[of "written_unit bs", OF d'(2)] have r: "unit_ready (written_unit bs) (put_device d' s)" .
  obtain s' where "BMX_sent (length bs) (Inr BmxStat_ControlUnitEnd, d') s = (Inr (), s')"
    "unit_ready (written_unit bs) s'" "bmxIoMemory s' = bmxIoMemory s" "bmByteCounter (bmxChannel s') = 0"
    using sent_unit[OF assms(1) _ r, of "length bs" BmxStat_ControlUnitEnd] by (auto simp: assms(3))
  moreover have "BMX_command (ucast (1 AND 0xff :: IopInt)) s =
      Some (BMX_sent (length bs) (Inr BmxStat_ControlUnitEnd, d') s)"
    using command_cases(1)[OF d(1)] d'(1) assms(3) by (simp del: mask_8_bits)
  ultimately show ?thesis using run_command[of 1 s s' fs] by auto
qed

lemma rewind_command:
  assumes "unit_ready (written_unit bs) s" "bmByteCounter (bmxChannel s) = 0"
  shows "\<exists>s'. io_run ((2, 7) # fs) s = io_run fs s' \<and> unit_ready (rewound_unit bs) s' \<and>
    bmxIoMemory s' = bmxIoMemory s"
proof -
  from assms(1) obtain d where d: "active_device s = (Inr (Some d), s)" "written_unit bs d"
    "\<And>d' Q. Q d' \<Longrightarrow> unit_ready Q (put_device d' s)" by (rule active_ready) blast
  from rewind_unit[OF d(2)] obtain d' where
    d': "BMT_Control 7 d = Some (Inr (BmxStat_DeviceEnd OR BmxStat_ControlUnitEnd), d')" "rewound_unit bs d'" by blast
  from d(3)[of "rewound_unit bs", OF d'(2)] have r: "unit_ready (rewound_unit bs) (put_device d' s)" .
  obtain s' where "BMX_sent 0 (Inr (BmxStat_DeviceEnd OR BmxStat_ControlUnitEnd), d') s = (Inr (), s')"
    "unit_ready (rewound_unit bs) s'" "bmxIoMemory s' = bmxIoMemory s"
    using sent_unit[OF assms(1) _ r, of 0 "BmxStat_DeviceEnd OR BmxStat_ControlUnitEnd"] by auto
  moreover have "BMX_command (ucast (7 AND 0xff :: IopInt)) s =
      Some (BMX_sent 0 (Inr (BmxStat_DeviceEnd OR BmxStat_ControlUnitEnd), d') s)"
    using command_cases(2)[OF d(1)] d'(1) assms(2) by (simp del: mask_8_bits)
  ultimately show ?thesis using run_command[of 7 s s' fs] by auto
qed

lemma read_command:
  assumes "unit_ready (rewound_unit bs) s" "unat (bmByteCounter (bmxChannel s)) = length bs" "bs \<noteq> []"
  shows "\<exists>s'. io_run [(2, 2)] s = Some (Inr (), s') \<and>
    bmxIoMemory s' = snd (scatter_bytes (bm_address (bmxChannel s)) bs (bmxIoMemory s)) \<and>
    bmDeviceStatus (bmxChannel s') = BmxStat_ControlUnitEnd \<and> bmByteCounter (bmxChannel s') = 0 \<and>
    bmDone (bmxChannel s')"
proof -
  have l: "length bs < 2 ^ 16"
    using unsigned_less[of "bmByteCounter (bmxChannel s)", where 'a = nat] assms(2) by simp
  then have ok: "item_ok (tape_item.Data bs)" using assms(3) by simp
  from assms(1) obtain d where d: "active_device s = (Inr (Some d), s)" "rewound_unit bs d"
    by (rule active_ready)
  from read_rewound_unit[OF d(2) ok refl l] obtain d' where
    d': "BMT_Read (length bs) d = (Inr (BmxStat_ControlUnitEnd, bs), d')" by blast
  have n: "bmByteCounter (bmxChannel s) = of_nat (length bs)" by (simp flip: assms(2))
  obtain s' where s': "BMX_received (Inr (BmxStat_ControlUnitEnd, bs), d') s = (Inr (), s')"
    "bmxIoMemory s' = snd (scatter_bytes (bm_address (bmxChannel s)) bs (bmxIoMemory s))"
    "bmDeviceStatus (bmxChannel s') = BmxStat_ControlUnitEnd" "bmByteCounter (bmxChannel s') = 0"
    "bmDone (bmxChannel s')"
    using assms(2) n by (simp add: BMX_received_def Let_def BMX_finished_def put_device_def
        set_bm_address_def bm_address_def split_beta)
  moreover have "BMX_command (ucast (2 AND 0xff :: IopInt)) s =
      Some (BMX_received (Inr (BmxStat_ControlUnitEnd, bs), d') s)"
    using command_cases(3)[OF d(1)] d' assms(2) by (simp del: mask_8_bits)
  ultimately show ?thesis using run_command[of 2 s s' "[]"] by auto
qed

text \<open>
  The bytes of a transfer where they lie in the I/O memory: it begins at the line of four parcels
  that holds the address, takes the high byte of a parcel before the low one, and runs around the
  end of the memory, in which a parcel is stored with its low byte first.
\<close>

definition transfer_byte :: "memory \<Rightarrow> IopInt \<Rightarrow> nat \<Rightarrow> uint8" where
  "transfer_byte m a i = m (2 * ((4 * (unat a div 4) + i div 2) mod 65536) + (1 - i mod 2))"

lemma parcel_bytes_in_memory:
  "hi_byte (IoMemRead16 p m) = m (2 * p + 1)" "lo_byte (IoMemRead16 p m) = m (2 * p)"
proof -
  have "IoMemRead16 p m = pack (m (2 * p + 1)) (m (2 * p))"
    by (simp add: IoMemRead16_def load16_def pack_def or.commute)
  then show "hi_byte (IoMemRead16 p m) = m (2 * p + 1)" "lo_byte (IoMemRead16 p m) = m (2 * p)" by simp_all
qed

lemma even_address: "(a :: IopInt) AND 1 = 0 \<Longrightarrow> a AND 0xfffe = a"
proof -
  assume a: "a AND 1 = 0"
  have m: "(0xfffe :: IopInt) = NOT 1" by simp
  have "\<not> bit a 0" using a by (simp add: and_one_eq bit_0 odd_iff_mod_2_eq_one)
  then show ?thesis unfolding m by (intro word_eq_by_bits) (auto simp: bit_simps intro: gr0I)
qed

lemma bytes_of_nth: "i < 2 * length ws \<Longrightarrow> bytes_of ws ! i = (if even i then hi_byte (ws ! (i div 2)) else lo_byte (ws ! (i div 2)))"
proof (induction ws arbitrary: i)
  case (Cons w ws)
  consider "i = 0" | "i = 1" | j where "i = Suc (Suc j)" by (metis One_nat_def not0_implies_Suc)
  then show ?case
  proof cases
    case 3
    then show ?thesis using Cons.IH[of j] Cons.prems by simp
  qed simp_all
qed simp

lemma collect_bytes_in_memory:
  assumes "n \<le> 2 ^ 17"
  shows "collect_bytes m L n = map (transfer_byte m L) [0..<n]"
proof (rule nth_equalityI)
  have c: "collect_bytes m L n = take n (bytes_of (map (\<lambda>a. IoMemRead16 a m) (transfer_addresses L 16384)))"
    using collect_bytes_list[of n 16384] assms by simp
  then show l: "length (collect_bytes m L n) = length (map (transfer_byte m L) [0..<n])" using assms by simp
  fix i
  assume "i < length (collect_bytes m L n)"
  then have i: "i < n" using l by simp
  have "transfer_address L (i div 2) = (4 * (unat L div 4) + i div 2) mod 65536"
    unfolding transfer_address_value using mod_mult2_eq[of "4 * (unat L div 4) + i div 2" 4 16384] by simp
  then have t: "transfer_byte m L i = m (2 * transfer_address L (i div 2) + (1 - i mod 2))"
    by (simp add: transfer_byte_def)
  have "i div 2 < 65536" using i assms by simp
  then have "collect_bytes m L n ! i = (if even i then m (2 * transfer_address L (i div 2) + 1) else m (2 * transfer_address L (i div 2)))"
    using i assms unfolding c by (simp add: bytes_of_nth transfer_addresses_def parcel_bytes_in_memory)
  then show "collect_bytes m L n ! i = map (transfer_byte m L) [0..<n] ! i"
    using i by (auto simp: t parity_cases mod2_eq_if)
qed

text \<open>C7: A record goes out to a tape and comes back. A unit is selected whose tape is blank, writable
  and has no pokes. The program enters an even address and a byte count that is not zero and gives
  the write and the rewind command: then the image file is one record, the bytes of the I/O memory
  in their order with the count before and after them. After the rewind it enters a second address
  and the same count and gives the read command: then these bytes are in the I/O memory at the
  second address, in the same order. Every function returns, and the channel is done with the
  status of a successful command. A transfer begins at the line of four parcels with its address,
  the high byte of each parcel first, and runs around the end of the memory.\<close>

theorem tape_unit_roundtrip:
  assumes "unit_ready blank_unit s" "n \<noteq> 0" "a AND 1 = 0" "b AND 1 = 0"
  shows "\<exists>s1 s'. io_run [(12, a), (13, n), (2, 1), (2, 7)] s = Some (Inr (), s1) \<and>
    unit_ready (\<lambda>d. fsFile (tfStream (pkTape (bmtTapeImage d))) = Some (le32_bytes (ucast n) @
      map (transfer_byte (bmxIoMemory s) a) [0..<unat n] @ le32_bytes (ucast n))) s1 \<and>
    io_run [(12, b), (13, n), (2, 2)] s1 = Some (Inr (), s') \<and>
    (\<forall>i<unat n. transfer_byte (bmxIoMemory s') b i = transfer_byte (bmxIoMemory s) a i) \<and>
    bmDeviceStatus (bmxChannel s') = BmxStat_ControlUnitEnd \<and> bmByteCounter (bmxChannel s') = 0 \<and>
    bmDone (bmxChannel s')"
proof -
  have even: "a AND 0xfffe = a" "b AND 0xfffe = b" using assms(3,4) by (simp_all add: even_address)
  define bs where "bs = collect_bytes (bmxIoMemory s) a (unat n)"
  have l: "length bs = unat n" by (simp add: bs_def)
  have n: "0 < n" "unat n \<le> 2 ^ 17" using assms(2) unsigned_less[of n, where 'a = nat] by (simp_all add: word_gt_0)
  have bs: "bs = map (transfer_byte (bmxIoMemory s) a) [0..<unat n]"
    unfolding bs_def by (rule collect_bytes_in_memory[OF n(2)])
  from enter_transfer[OF assms(3,1)] obtain s0 where
    s0: "io_run [(12, a), (13, n), (2, 1), (2, 7)] s = io_run [(2, 1), (2, 7)] s0"
      "unit_ready blank_unit s0" "bmxIoMemory s0 = bmxIoMemory s"
      "bm_address (bmxChannel s0) = a" "bmByteCounter (bmxChannel s0) = n" unfolding even by blast
  from write_command[OF s0(2), of bs] n s0(3-5) obtain s2 where
    s2: "io_run ((2, 1) # [(2, 7)]) s0 = io_run [(2, 7)] s2"
      "unit_ready (written_unit bs) s2" "bmxIoMemory s2 = bmxIoMemory s" "bmByteCounter (bmxChannel s2) = 0"
    unfolding bs_def by (simp del: io_run.simps) blast
  from rewind_command[OF s2(2,4)] obtain s1 where
    s1: "io_run ((2, 7) # []) s2 = io_run [] s1" "unit_ready (rewound_unit bs) s1" "bmxIoMemory s1 = bmxIoMemory s2" by blast
  have first: "io_run [(12, a), (13, n), (2, 1), (2, 7)] s = Some (Inr (), s1)" using s0(1) s2(1) s1(1) by simp
  from enter_transfer[OF assms(4) s1(2)] obtain s4 where
    s4: "io_run [(12, b), (13, n), (2, 2)] s1 = io_run [(2, 2)] s4"
      "unit_ready (rewound_unit bs) s4" "bm_address (bmxChannel s4) = b" "bmByteCounter (bmxChannel s4) = n"
    unfolding even by blast
  have "bs \<noteq> []" using l assms(2) by (metis length_0_conv unat_eq_zero)
  from read_command[OF s4(2) _ this] l s4(4) obtain s5 where
    s5: "io_run [(2, 2)] s4 = Some (Inr (), s5)" "bmxIoMemory s5 = snd (scatter_bytes b bs (bmxIoMemory s4))"
      "bmDeviceStatus (bmxChannel s5) = BmxStat_ControlUnitEnd" "bmByteCounter (bmxChannel s5) = 0"
      "bmDone (bmxChannel s5)" using s4(3) by (simp del: io_run.simps) blast
  have "collect_bytes (bmxIoMemory s5) b (unat n) = bs"
    unfolding s5(2) l[symmetric] by (rule channel_transfer_roundtrip) (use l n in simp)
  then have same: "transfer_byte (bmxIoMemory s5) b i = transfer_byte (bmxIoMemory s) a i" if "i < unat n" for i
    unfolding collect_bytes_in_memory[OF n(2)] bs using that by simp
  have "unit_ready (\<lambda>d. fsFile (tfStream (pkTape (bmtTapeImage d))) = Some (le32_bytes (ucast n) @ bs @ le32_bytes (ucast n))) s1"
    using s1(2) l by (auto simp: unit_ready_def rewound_unit_def)
  then show ?thesis using first s4(1) s5(1,3-5) same unfolding bs by (intro exI[of _ s1] exI[of _ s5]) (simp del: io_run.simps)
qed

definition sample_unit :: IopBmxTape_c where
  "sample_unit = \<lparr>bmtTapeImage = \<lparr>pkTape = sample_tape, pkFileSizes = [], pkCurFileIdx = 0, pkCurFileOfs = 0,
       pkCurPokeMap = None\<rparr>,
     bmtDeviceAddress = 0, bmtCurrentCommand = 0, bmtReads = 0, bmtWrites = 0, bmtIsReadOnly = False\<rparr>"

text \<open>A channel with one unit, selected by function 016, and a memory that is not constant.\<close>

definition sample_channel :: IopChannelBmx_c where
  "sample_channel = \<lparr>bmDone = False, bmBusy = False, bmInterruptEnabled = True, bmLocalMemoryAddress = (\<lambda>_. 0),
     bmByteCountStatusReg = 0, bmByteCountStatusRegValid = False, bmStatusReg = 0, bmStatusRegValid = False,
     bmChainingInterruptActive = False, bmDevices = [Some sample_unit], bmRequestInCnt = 0, bmStatusInCnt = 0,
     bmDisconnectInCnt = 0, bmActiveMemoryAddressIdx = 0, bmByteCounter = 0, bmNextByteCounter = 0,
     bmLoadByteCounter = False, bmActiveDevice = 0, bmDeviceStatus = 0, bmSkipFlag = False,
     bmStackStatusFlag = False, bmChainingMode = 0, bmInterruptMode = 0, bmDelayCounter = 0, bmDelayLimit = 10\<rparr>"

definition sample_bmx :: bmx_state where
  "sample_bmx = \<lparr>bmxChannel = sample_channel, bmxIoMemory = (\<lambda>a. of_nat (a mod 251))\<rparr>"

theorem tape_unit_roundtrip_witness:
  "\<exists>s t. io_run [(12, 0x1000), (13, 5), (2, 1), (2, 7)] sample_bmx = Some (Inr (), s) \<and>
    io_run [(12, 0x2000), (13, 5), (2, 2)] s = Some (Inr (), t) \<and>
    map (transfer_byte (bmxIoMemory t) 0x2000) [0..<5] = [161, 160, 163, 162, 165] \<and> bmDone (bmxChannel t)"
proof -
  have "unit_ready blank_unit sample_bmx"
    by (simp add: unit_ready_def sample_bmx_def sample_channel_def sample_unit_def blank_unit_def sample_tape_def)
  from tape_unit_roundtrip[OF this, of 5 "0x1000" "0x2000"] obtain s t where
    s: "io_run [(12, 0x1000), (13, 5), (2, 1), (2, 7)] sample_bmx = Some (Inr (), s)"
      "io_run [(12, 0x2000), (13, 5), (2, 2)] s = Some (Inr (), t)"
      "\<forall>i<5. transfer_byte (bmxIoMemory t) 0x2000 i = transfer_byte (bmxIoMemory sample_bmx) 0x1000 i" "bmDone (bmxChannel t)"
    by (auto simp del: io_run.simps)
  then have "map (transfer_byte (bmxIoMemory t) 0x2000) [0..<5] = map (transfer_byte (bmxIoMemory sample_bmx) 0x1000) [0..<5]"
    by simp
  also have "\<dots> = [161, 160, 163, 162, 165]"
    by (simp add: upt_rec transfer_byte_def sample_bmx_def)
  finally show ?thesis using s(1,2,4) by (intro exI[of _ s] exI[of _ t]) (simp del: io_run.simps)
qed

section \<open>Motion over a tape without a mark\<close>

text \<open>
  The Backspace File command looks for a mark or the end of the tape. At the beginning of a tape
  that has neither before it, every step leaves the tape where it is: the loop does not end.
\<close>

theorem backspace_file_diverges:
  assumes "PK_SeekToPrevRecord k = (Inr (), k)" "PK_GetState k = BeginningOfTape"
  shows "BMT_backspace_file k = None"
proof -
  have "x \<noteq> k" if "BMT_backspace_file x = Some y" for x y
    using that
    by (rule BMT_backspace_file.raw_induct[where P = "\<lambda>x y. x \<noteq> k", rotated]) (use assms in \<open>auto, blast\<close>)
  then show ?thesis by (cases "BMT_backspace_file k") auto
qed

definition sample_image :: PokedTapFile_c where
  "sample_image = upd_tape (tfLastCmdDirection_update (\<lambda>_. Backward)) (bmtTapeImage sample_unit)"

theorem backspace_file_diverges_witness:
  "BMT_backspace_file sample_image = None \<and> BMT_Control 0x2f (sample_unit\<lparr>bmtTapeImage := sample_image\<rparr>) = None"
proof -
  have "PK_SeekToPrevRecord sample_image = (Inr (), sample_image)" "PK_GetState sample_image = BeginningOfTape"
    by (simp_all add: sample_image_def sample_unit_def sample_tape_def PK_SeekToPrevRecord_def at_tape_def
        SeekToPrevRecord_def TF_Reset_def PK_GetState_def TF_GetState_def halves_def fs_tellg_def bindE_def Let_def)
  then have n: "BMT_backspace_file sample_image = None" by (rule backspace_file_diverges)
  moreover have "PK_ReOpen sample_image = sample_image"
    by (simp add: PK_ReOpen_def TF_ReOpen_def sample_image_def sample_unit_def sample_tape_def halves_def)
  ultimately show ?thesis by (simp add: BMT_Control_def Let_def)
qed

end
