(* ===== verification/Iop_Exp_Devices.thy ===== *)
theory Iop_Exp_Devices
  imports Poked_Tape Iop_Devices
begin

text \<open>
  The devices of the peripheral expander: the classes derived from \<open>IopExpDevice_i\<close> in
  \<^verbatim>\<open>sim_lib/iop_expander.h\<close> and \<^verbatim>\<open>.cpp\<close>, which are the tape, the dummy device, the printer, the
  clock and two disks. A device reaches the I/O memory through the channel's DMA, the clock of
  the host, and it calls \<open>IntStatusChanged\<close> of the channel where its interrupt changes; these
  are the environment of its operations. Set-up from the configuration, the mount command,
  status reports and logging are left out.
\<close>

section \<open>The environment and the common registers\<close>

record host_time =
  htYear :: uint16
  htMonth :: nat
  htDay :: nat
  htHours :: nat
  htMinutes :: nat
  htSeconds :: nat

text \<open>\<open>eeNotified\<close> records that the device has called \<open>IntStatusChanged\<close>.\<close>

record exp_env =
  eeIoMemory :: memory
  eeNow :: host_time
  eeNotified :: bool

definition IntStatusChanged_call :: "exp_env \<Rightarrow> exp_env" where
  "IntStatusChanged_call e = e\<lparr>eeNotified := True\<rparr>"

text \<open>The members that every device class declares; the clock has an interrupt for each channel.\<close>

record exp_base =
  xRegA :: IopInt
  xRegB :: IopInt
  xRegC :: IopInt
  xBusy :: bool
  xDone :: bool
  xInterruptEnabled :: bool

record exp_regs = exp_base +
  xInterruptActive :: bool

abbreviation (input) Control_Start :: IopInt where "Control_Start \<equiv> 1"
abbreviation (input) Control_Clear :: IopInt where "Control_Clear \<equiv> 2"
abbreviation (input) Control_Pulse :: IopInt where "Control_Pulse \<equiv> 4"

definition Status_DmaEnabled :: IopInt where "Status_DmaEnabled = push_bit 7 1"
definition Status_IntEnabled :: IopInt where "Status_IntEnabled = push_bit 9 1"
definition Status_Int :: IopInt where "Status_Int = push_bit 13 1"
definition Status_DeviceBusy :: IopInt where "Status_DeviceBusy = push_bit 14 1"
definition Status_DeviceDone :: IopInt where "Status_DeviceDone = push_bit 15 1"

definition flag_bit :: "bool \<Rightarrow> IopInt \<Rightarrow> IopInt" where
  "flag_bit b m = (if b then m else 0)"

definition exp_status :: "'a exp_base_scheme \<Rightarrow> bool \<Rightarrow> IopInt" where
  "exp_status d active =
     Status_DmaEnabled OR flag_bit (xInterruptEnabled d) Status_IntEnabled OR flag_bit active Status_Int OR
     flag_bit (xBusy d) Status_DeviceBusy OR flag_bit (xDone d) Status_DeviceDone"

text \<open>\<open>SetIntEnabled\<close> and \<open>SetIntActive\<close> of the devices with one interrupt.\<close>

definition SetIntEnabled :: "bool \<Rightarrow> 'a exp_base_scheme \<times> exp_env \<Rightarrow> 'a exp_base_scheme \<times> exp_env" where
  "SetIntEnabled b = (\<lambda>(d, e). (d\<lparr>xInterruptEnabled := b\<rparr>, IntStatusChanged_call e))"

definition SetIntActive :: "bool \<Rightarrow> 'a exp_regs_scheme \<times> exp_env \<Rightarrow> 'a exp_regs_scheme \<times> exp_env" where
  "SetIntActive b = (\<lambda>(d, e). (d\<lparr>xInterruptActive := b\<rparr>, IntStatusChanged_call e))"

definition upd_dev :: "('d \<Rightarrow> 'd) \<Rightarrow> 'd \<times> exp_env \<Rightarrow> 'd \<times> exp_env" where
  "upd_dev f = (\<lambda>(d, e). (f d, e))"

text \<open>The end of a command: not busy, done, with an interrupt.\<close>

definition dev_finish :: "'a exp_regs_scheme \<times> exp_env \<Rightarrow> 'a exp_regs_scheme \<times> exp_env" where
  "dev_finish s = SetIntActive True (upd_dev (\<lambda>d. d\<lparr>xDone := True, xBusy := False\<rparr>) s)"

text \<open>The check of the control bits and the clear bit, with which every \<open>Control\<close> but one begins.\<close>

definition control_clear :: "IopInt \<Rightarrow> 'a exp_regs_scheme \<times> exp_env \<Rightarrow> 'a exp_regs_scheme \<times> exp_env" where
  "control_clear aControl s = (if aControl AND Control_Clear \<noteq> 0 then SetIntActive False s else s)"

section \<open>Tape\<close>

record IopExpTape_c = exp_regs +
  xtRegAStat :: IopInt
  xtTapeImage :: PokedTapFile_c
  xtIsReadOnly :: bool
  xtReads :: uint64
  xtWrites :: uint64

type_synonym 'a tape_exec = "(IopExpTape_c \<times> exp_env, 'a) exec"

definition XT_SetRegA :: "IopInt \<Rightarrow> IopExpTape_c \<Rightarrow> IopExpTape_c" where
  "XT_SetRegA aValue d = d\<lparr>xRegA := aValue, xtRegAStat := 0\<rparr>"

definition XT_GetRegA :: "IopExpTape_c \<Rightarrow> IopInt" where
  "XT_GetRegA d =
     (let RetVal = xtRegAStat d OR flag_bit (xtIsReadOnly d) 0x4 in
      case PK_GetState (xtTapeImage d) of
        BeginningOfTape \<Rightarrow> RetVal OR 0x80
      | EndOfTape \<Rightarrow> RetVal OR 0x200
      | EndOfFile \<Rightarrow> RetVal OR 0x100
      | _ \<Rightarrow> RetVal)"

definition FinalizeControl :: "IopInt \<Rightarrow> IopExpTape_c \<times> exp_env \<Rightarrow> IopExpTape_c \<times> exp_env" where
  "FinalizeControl aStatus s =
     SetIntActive True (upd_dev (\<lambda>d. d\<lparr>xDone := True, xBusy := False, xtRegAStat := xtRegAStat d OR aStatus\<rparr>) s)"

text \<open>\<open>Status_Ready\<close> and \<open>Status_Ready | Status_Error\<close>.\<close>

abbreviation (input) XT_ready :: IopInt where "XT_ready \<equiv> 0x1"
abbreviation (input) XT_error :: IopInt where "XT_error \<equiv> 0x8001"

definition tape_state :: "IopExpTape_c \<times> exp_env \<Rightarrow> State_e" where
  "tape_state = (\<lambda>(d, e). PK_GetState (xtTapeImage d))"

definition XT_image :: "(PokedTapFile_c, 'a) exec \<Rightarrow> 'a tape_exec" where
  "XT_image f = (\<lambda>(d, e). case f (xtTapeImage d) of (r, k) \<Rightarrow> (r, (d\<lparr>xtTapeImage := k\<rparr>, e)))"

definition upd_image :: "(PokedTapFile_c \<Rightarrow> PokedTapFile_c) \<Rightarrow> IopExpTape_c \<times> exp_env \<Rightarrow> IopExpTape_c \<times> exp_env" where
  "upd_image f = upd_dev (\<lambda>d. d\<lparr>xtTapeImage := f (xtTapeImage d)\<rparr>)"

text \<open>The counts are negative numbers in register C.\<close>

definition tape_count :: "IopExpTape_c \<Rightarrow> int" where
  "tape_count d = - sint (xRegC d)"

text \<open>
  The bytes of a record into the I/O memory, two to a word, the first in the high half. The
  buffer has been extended to an even length.
\<close>

fun XT_store :: "uint8 list \<Rightarrow> IopExpTape_c \<times> exp_env \<Rightarrow> IopExpTape_c \<times> exp_env" where
  "XT_store (b # c # bs) (d, e) =
     XT_store bs (d\<lparr>xRegB := xRegB d + 1, xRegC := xRegC d + 1\<rparr>,
       e\<lparr>eeIoMemory := IoMemWrite16 (unat (xRegB d)) (push_bit 8 (ucast b) OR ucast c) (eeIoMemory e)\<rparr>)"
| "XT_store _ s = s"

definition XT_ReadForward :: "unit tape_exec" where
  "XT_ReadForward s =
     (let s = upd_image PK_ReOpen s; WordsToRead = tape_count (fst s) in
      if \<not> WordsToRead > 0 then (Inl AssertError, s)
      else
        bindE (XT_image (PK_Read (word_of_int (WordsToRead * 2)))) (\<lambda>TmpBuf s.
          (let s = XT_store (if length TmpBuf mod 2 \<noteq> 0 then TmpBuf @ [0] else TmpBuf) s
           in (Inr (), FinalizeControl
                (if tape_state s = EndOfTape \<or> tape_state s = EndOfFile then XT_error else XT_ready) s)))
          (upd_dev (\<lambda>d. d\<lparr>xtReads := xtReads d + word_of_int (WordsToRead div 2048)\<rparr>) s))"

text \<open>A rewind closes the image.\<close>

definition XT_Rewind :: "IopExpTape_c \<times> exp_env \<Rightarrow> IopExpTape_c \<times> exp_env" where
  "XT_Rewind s = upd_image PK_close (FinalizeControl XT_ready
     (upd_image PK_SeekToBeginningOfTape (upd_image PK_ReOpen s)))"

text \<open>The loop of the two space commands, over the records that are left to skip.\<close>

fun XT_space :: "(PokedTapFile_c, unit) exec \<Rightarrow> nat \<Rightarrow> unit tape_exec" where
  "XT_space seek 0 s = (Inr (), s)"
| "XT_space seek (Suc n) s =
     (case XT_image seek s of
        (Inl e, s) \<Rightarrow> (Inl e, s)
      | (Inr _, s) \<Rightarrow>
          if tape_state s = EndOfTape \<or> tape_state s = EndOfFile then (Inr (), FinalizeControl XT_error s)
          else XT_space seek n (upd_dev (\<lambda>d. d\<lparr>xRegC := xRegC d + 1\<rparr>) s))"

definition XT_Space :: "(PokedTapFile_c, unit) exec \<Rightarrow> unit tape_exec" where
  "XT_Space seek s =
     (let s = upd_image PK_ReOpen s; RecordsToSkip = tape_count (fst s) in
      if \<not> RecordsToSkip > 0 then (Inl AssertError, s)
      else bindE (XT_space seek (nat RecordsToSkip))
        (\<lambda>_ s. (Inr (), if xRegC (fst s) = 0 then FinalizeControl XT_ready s else s)) s)"

text \<open>The words of a write, taken from the I/O memory.\<close>

fun XT_load :: "nat \<Rightarrow> IopExpTape_c \<times> exp_env \<Rightarrow> uint8 list \<times> (IopExpTape_c \<times> exp_env)" where
  "XT_load 0 s = ([], s)"
| "XT_load (Suc n) (d, e) =
     (let Data = IoMemRead16 (unat (xRegB d)) (eeIoMemory e);
          (bs, s) = XT_load n (d\<lparr>xRegB := xRegB d + 1, xRegC := xRegC d + 1\<rparr>, e)
      in (ucast (drop_bit 8 Data) # ucast (Data AND 0xff) # bs, s))"

definition XT_WriteForward :: "unit tape_exec" where
  "XT_WriteForward s =
     (if xtIsReadOnly (fst s) then (Inl AssertError, s)
      else
        (let s = upd_image PK_ReOpen s; WordsToWrite = tape_count (fst s) in
         if \<not> WordsToWrite > 0 then (Inl AssertError, s)
         else
           (let s = upd_dev (\<lambda>d. d\<lparr>xtWrites := xtWrites d + word_of_int (WordsToWrite div 2048)\<rparr>) s;
                (TmpBuf, s) = XT_load (nat WordsToWrite) s
            in bindE (XT_image (PK_WriteRecord TmpBuf)) (\<lambda>_ s. (Inr (), FinalizeControl XT_ready s)) s)))"

definition XT_WriteEOF :: "unit tape_exec" where
  "XT_WriteEOF s =
     (if xtIsReadOnly (fst s) then (Inl AssertError, s)
      else bindE (XT_image PK_WriteEndOfFile) (\<lambda>_ s. (Inr (), FinalizeControl XT_ready s)) (upd_image PK_ReOpen s))"

definition XT_Start :: "unit tape_exec" where
  "XT_Start s =
     (let s = upd_dev (xtRegAStat_update (\<lambda>_. 0)) s; command = unat (drop_bit 3 (xRegA (fst s)) AND 7) in
      if command = 0 then XT_ReadForward s
      else if command = 1 then (Inr (), XT_Rewind s)
      else if command = 3 then XT_Space PK_SeekToNextRecord s
      else if command = 4 then XT_Space PK_SeekToPrevRecord s
      else if command = 5 then XT_WriteForward s
      else if command = 6 then XT_WriteEOF s
      else (Inl AssertError, s))"

definition XT_Control :: "IopInt \<Rightarrow> unit tape_exec" where
  "XT_Control aControl s =
     (if aControl AND NOT (Control_Start OR Control_Clear) \<noteq> 0 then (Inl AssertError, s)
      else
        (let s = control_clear aControl s in
         if aControl AND Control_Start \<noteq> 0 then XT_Start s else (Inr (), s)))"

section \<open>Dummy device\<close>

type_synonym IopExpDummyDevice_c = exp_regs

definition XD_Control :: "IopInt \<Rightarrow> (IopExpDummyDevice_c \<times> exp_env, unit) exec" where
  "XD_Control aControl s =
     (if aControl AND NOT (Control_Start OR Control_Clear OR Control_Pulse) \<noteq> 0 then (Inl AssertError, s)
      else (Inr (), control_clear aControl s))"

section \<open>Printer\<close>

text \<open>The print file is a list of bytes; it is opened, appended to and closed each time.\<close>

record IopExpPrinterDevice_c = exp_regs +
  xpStatus :: IopInt
  xpInGraphicsMode :: bool
  xpWrites :: uint64
  xpPrintFile :: host_file

definition text_bytes :: "string \<Rightarrow> uint8 list" where
  "text_bytes = map of_char"

text \<open>An unsigned number as \<open>ostream\<close> prints it.\<close>

fun decimal :: "nat \<Rightarrow> string" where
  "decimal n = (if n < 10 then [char_of (48 + n)] else decimal (n div 10) @ [char_of (48 + n mod 10)])"

declare decimal.simps [simp del]

definition print_bytes :: "uint8 list \<Rightarrow> IopExpPrinterDevice_c \<Rightarrow> IopExpPrinterDevice_c" where
  "print_bytes bs d = d\<lparr>xpPrintFile := xpPrintFile d @ bs\<rparr>"

text \<open>One word on the printer: sixteen dots, or two characters.\<close>

definition print_word :: "bool \<Rightarrow> IopInt \<Rightarrow> uint8 list" where
  "print_word graphics w =
     (if graphics then map (\<lambda>i. if push_bit i w AND 0x8000 = 0 then 0x20 else 0x58) [0..<16]
      else [ucast (drop_bit 8 w), ucast (w AND 0xff)])"

text \<open>The loop of \<open>SetRegC\<close>: register B counts up to zero and register C is the address.\<close>

function XP_print :: "memory \<Rightarrow> IopExpPrinterDevice_c \<Rightarrow> IopExpPrinterDevice_c" where
  "XP_print m d =
     (if xRegB d = 0 then d
      else XP_print m ((print_bytes (print_word (xpInGraphicsMode d) (IoMemRead16 (unat (xRegC d)) m)) d)
        \<lparr>xpWrites := xpWrites d + 1, xRegC := xRegC d + 1, xRegB := xRegB d + 1\<rparr>))"
  by pat_completeness auto
termination
proof (relation "measure (\<lambda>(m, d). unat (- xRegB d))")
  fix m :: memory and d :: IopExpPrinterDevice_c
  assume "xRegB d \<noteq> 0"
  then have "unat (- xRegB d - 1) < unat (- xRegB d)" by (intro measure_unat) simp
  then show "((m, (print_bytes (print_word (xpInGraphicsMode d) (IoMemRead16 (unat (xRegC d)) m)) d)
      \<lparr>xpWrites := xpWrites d + 1, xRegC := xRegC d + 1, xRegB := xRegB d + 1\<rparr>), m, d)
      \<in> measure (\<lambda>(m, d). unat (- xRegB d))"
    by (simp add: print_bytes_def)
qed simp

declare XP_print.simps [simp del]

definition XP_SetRegC :: "IopInt \<Rightarrow> IopExpPrinterDevice_c \<times> exp_env \<Rightarrow> IopExpPrinterDevice_c \<times> exp_env" where
  "XP_SetRegC aValue s =
     (case dev_finish (upd_dev (xRegC_update (\<lambda>_. aValue)) s) of
        (d, e) \<Rightarrow> ((XP_print (eeIoMemory e) d)\<lparr>xpStatus := 0x4000\<rparr>, e))"

text \<open>The command in register A, given with a pulse.\<close>

definition XP_command :: "IopExpPrinterDevice_c \<times> exp_env \<Rightarrow> IopExpPrinterDevice_c \<times> exp_env" where
  "XP_command s =
     (let s = upd_dev (\<lambda>d. d\<lparr>xDone := True, xBusy := False\<rparr>) s; code = xRegA (fst s) in
      if code = 6 then upd_dev (xpStatus_update (\<lambda>_. 0)) (SetIntActive False s)
      else if code = 4 then upd_dev (\<lambda>d. d\<lparr>xpStatus := 0, xpInGraphicsMode := False\<rparr>) s
      else if code = 1 then upd_dev (\<lambda>d. d\<lparr>xpStatus := 0, xpInGraphicsMode := True\<rparr>) s
      else if code = 3 then upd_dev (\<lambda>d. (print_bytes [10] d)\<lparr>xpStatus := 0x4000\<rparr>) (SetIntActive True s)
      else if code = 0 then upd_dev (\<lambda>d. (print_bytes [12] d)\<lparr>xpStatus := 0x4000\<rparr>) (SetIntActive True s)
      else upd_dev (\<lambda>d. (print_bytes (text_bytes (''------------------------- UNKOWN CODE '' @
             decimal (unat code) @ '' --------------------------'') @ [10]) d)\<lparr>xpStatus := 0\<rparr>) s)"

definition XP_Control :: "IopInt \<Rightarrow> (IopExpPrinterDevice_c \<times> exp_env, unit) exec" where
  "XP_Control aControl s =
     (if aControl AND NOT (Control_Start OR Control_Clear OR Control_Pulse) \<noteq> 0 then (Inl AssertError, s)
      else
        (let s = control_clear aControl s
         in (Inr (), if aControl AND Control_Pulse \<noteq> 0 then XP_command s else s)))"

section \<open>Clock\<close>

text \<open>A Hayes clock on a serial line: requests and answers are characters in register A.\<close>

record IopExpClockDevice_c = exp_base +
  xcInterruptActive :: "nat \<Rightarrow> bool"  \<comment> \<open>for 64 channels\<close>
  xcRequest :: "uint8 list"
  xcResponse :: "uint8 list"
  xcPrimaryChannelIdx :: nat
  xcRequestChannelIdx :: nat
  xcResponseChannelIdx :: nat
  xcYearLimit :: bool
  xcResponseTimer :: uint64
  xcResponseTimeout :: uint64

type_synonym 'a clock_exec = "(IopExpClockDevice_c \<times> exp_env, 'a) exec"

definition XC_SetIntActive :: "nat \<Rightarrow> bool \<Rightarrow> unit clock_exec" where
  "XC_SetIntActive aDeviceAddr b = (\<lambda>(d, e).
     if \<not> aDeviceAddr < 64 then (Inl AssertError, (d, e))
     else (Inr (), (d\<lparr>xcInterruptActive := (xcInterruptActive d)(aDeviceAddr := b)\<rparr>, IntStatusChanged_call e)))"

definition XC_SetRegA :: "nat \<Rightarrow> IopInt \<Rightarrow> unit clock_exec" where
  "XC_SetRegA aDeviceAddr aValue s =
     (let s = upd_dev (xRegA_update (\<lambda>_. aValue)) s in
      if \<not> aDeviceAddr < 64 then (Inl AssertError, s)
      else if xcInterruptActive (fst s) aDeviceAddr then XC_SetIntActive aDeviceAddr False s
      else (Inr (), s))"

text \<open>A character of the answer; the interrupt follows each of them, the last one included.\<close>

definition XC_GetRegA :: "nat \<Rightarrow> IopInt clock_exec" where
  "XC_GetRegA aDeviceAddr s =
     (if aDeviceAddr = xcResponseChannelIdx (fst s) then
        (case xcResponse (fst s) of
           [] \<Rightarrow> (Inr 0, s)
         | b # bs \<Rightarrow> bindE (XC_SetIntActive aDeviceAddr True) (\<lambda>_. returnE (ucast b))
             (upd_dev (xcResponse_update (\<lambda>_. bs)) s))
      else (Inr 0, s))"

definition XC_GetStatus :: "nat \<Rightarrow> IopExpClockDevice_c \<Rightarrow> exn + IopInt" where
  "XC_GetStatus aDeviceAddr d =
     (if \<not> aDeviceAddr < 64 then Inl AssertError else Inr (exp_status d (xcInterruptActive d aDeviceAddr)))"

text \<open>\<open>%02d\<close> of \<open>boost::format\<close>.\<close>

definition two_digits :: "nat \<Rightarrow> string" where
  "two_digits n = (if n < 10 then ''0'' @ decimal n else decimal n)"

definition clock_year :: "bool \<Rightarrow> uint16 \<Rightarrow> nat" where
  "clock_year limited Year = (if limited then unat (Year mod 20 + 80) else unat Year)"

definition clock_answer :: "uint8 list \<Rightarrow> bool \<Rightarrow> host_time \<Rightarrow> uint8 list" where
  "clock_answer request limited now =
     (if request = text_bytes ''ATLC'' \<or> request = text_bytes ''ATVD'' \<or> request = text_bytes ''ATVT''
      then text_bytes ''0'' @ [0x0d]
      else if request = text_bytes ''ATRT'' then
        text_bytes (two_digits (htHours now) @ two_digits (htMinutes now) @ two_digits (htSeconds now)) @ [0x0d]
      else if request = text_bytes ''ATRD'' then
        text_bytes (two_digits (clock_year limited (htYear now)) @ two_digits (htMonth now) @ two_digits (htDay now)) @ [0x0d]
      else text_bytes ''0'' @ [0x0d])"

definition ProcessRequest :: "IopExpClockDevice_c \<times> exp_env \<Rightarrow> IopExpClockDevice_c \<times> exp_env" where
  "ProcessRequest = (\<lambda>(d, e).
     (d\<lparr>xcResponse := clock_answer (xcRequest d) (xcYearLimit d) (eeNow e), xcResponseTimer := 1\<rparr>, e))"

definition XC_clear :: "nat \<Rightarrow> unit clock_exec" where
  "XC_clear aDeviceAddr =
     bindE (XC_SetIntActive aDeviceAddr False) (\<lambda>_ s. (Inr (),
       if aDeviceAddr = xcResponseChannelIdx (fst s) \<and> xcResponse (fst s) \<noteq> []
       then upd_dev (xcResponseTimer_update (\<lambda>_. 1)) s else s))"

definition XC_start :: "nat \<Rightarrow> unit clock_exec" where
  "XC_start aDeviceAddr s =
     (let c = (ucast (xRegA (fst s) AND 0xff) :: uint8) in
      XC_SetIntActive aDeviceAddr True
        (if c = 0x0d then upd_dev (xcRequest_update (\<lambda>_. [])) (ProcessRequest s)
         else upd_dev (xcRequest_update (\<lambda>r. r @ [c])) s))"

definition XC_Control :: "nat \<Rightarrow> IopInt \<Rightarrow> unit clock_exec" where
  "XC_Control aDeviceAddr aControl s =
     (if aControl AND NOT (Control_Start OR Control_Clear OR Control_Pulse) \<noteq> 0 then (Inl AssertError, s)
      else bindE (if aControl AND Control_Clear \<noteq> 0 then XC_clear aDeviceAddr else returnE ())
        (\<lambda>_. if aControl AND Control_Start \<noteq> 0 then XC_start aDeviceAddr else returnE ()) s)"

definition XC_Tick :: "unit clock_exec" where
  "XC_Tick s =
     (if xcResponseTimer (fst s) > 0 then
        (let s = upd_dev (\<lambda>d. d\<lparr>xcResponseTimer := xcResponseTimer d + 1\<rparr>) s in
         if xcResponseTimer (fst s) > xcResponseTimeout (fst s) then
           bindE (XC_SetIntActive (xcResponseChannelIdx (fst s)) True)
             (\<lambda>_ s. (Inr (), upd_dev (xcResponseTimer_update (\<lambda>_. 0)) s)) s
         else (Inr (), s))
      else (Inr (), s))"

section \<open>Disks\<close>

text \<open>The members that both disks declare; the image file need not exist.\<close>

record exp_disk = exp_regs +
  xkNumHeads :: nat
  xkNumSectors :: nat
  xkNumTracks :: nat
  xkSectorSize :: nat
  xkTrack :: nat
  xkHead :: nat
  xkStartSector :: nat
  xkReads :: uint64
  xkWrites :: uint64
  xkImage :: "host_file option"

definition XK_Create :: "'a exp_disk_scheme \<Rightarrow> 'a exp_disk_scheme" where
  "XK_Create d =
     (case xkImage d of
        Some _ \<Rightarrow> d
      | None \<Rightarrow> d\<lparr>xkImage := Some (replicate (xkNumSectors d * xkNumHeads d * xkNumTracks d * xkSectorSize d) 0)\<rparr>)"

definition SectorIdx :: "'a exp_disk_scheme \<Rightarrow> nat" where
  "SectorIdx d = xkTrack d * xkNumSectors d * xkNumHeads d + xkHead d * xkNumSectors d + xkStartSector d"

definition XK_image :: "'a exp_disk_scheme \<Rightarrow> host_file" where
  "XK_image d = (case xkImage d of Some f \<Rightarrow> f | None \<Rightarrow> [])"

text \<open>
  The bodies of the transfer loops, for the word at \<open>2 * i\<close>. A short read ends in the assertion;
  the store before it, of a variable without a value, is left out.
\<close>

definition XK_read_word :: "nat \<Rightarrow> nat \<Rightarrow> ('a exp_disk_scheme \<times> exp_env, unit) exec" where
  "XK_read_word ofs i = (\<lambda>(d, e).
     let bs = file_read (ofs + 2 * i) 2 (XK_image d) in
     if length bs < 2 then (Inl AssertError, (d, e))
     else (Inr (), (d\<lparr>xRegB := xRegB d + 1\<rparr>,
       e\<lparr>eeIoMemory := IoMemWrite16 (unat (xRegB d)) (SwapBytes16 (le16 bs)) (eeIoMemory e)\<rparr>)))"

definition XK_write_word :: "bool \<Rightarrow> nat \<Rightarrow> nat \<Rightarrow> ('a exp_disk_scheme \<times> exp_env, unit) exec" where
  "XK_write_word format ofs i = (\<lambda>(d, e).
     let w = (if format then 0 else SwapBytes16 (IoMemRead16 (unat (xRegB d)) (eeIoMemory e)))
     in (Inr (), (d\<lparr>xkImage := Some (file_write (ofs + 2 * i) (le16_bytes w) (XK_image d)),
       xRegB := xRegB d + 1\<rparr>, e)))"

text \<open>A transfer of a number of words, and the end of a command with its bit of register A.\<close>

definition XK_finish :: "IopInt \<Rightarrow> 'a exp_disk_scheme \<times> exp_env \<Rightarrow> 'a exp_disk_scheme \<times> exp_env" where
  "XK_finish m s = dev_finish (upd_dev (\<lambda>d. d\<lparr>xRegA := xRegA d AND NOT m\<rparr>) s)"

definition XK_read :: "nat \<Rightarrow> IopInt \<Rightarrow> ('a exp_disk_scheme \<times> exp_env, unit) exec" where
  "XK_read n m s =
     (let s = upd_dev XK_Create s; d = fst s
      in bindE (forE [0..<n] (XK_read_word (SectorIdx d * xkSectorSize d))) (\<lambda>_ s. (Inr (), XK_finish m s)) s)"

definition XK_write :: "bool \<Rightarrow> nat \<Rightarrow> IopInt \<Rightarrow> ('a exp_disk_scheme \<times> exp_env, unit) exec" where
  "XK_write format n m s =
     (let s = upd_dev XK_Create s; d = fst s
      in bindE (forE [0..<n] (XK_write_word format (SectorIdx d * xkSectorSize d)))
        (\<lambda>_ s. (Inr (), XK_finish m s)) s)"

section \<open>Ampex disk\<close>

record IopExpDiskAmpexDM980_c = exp_disk +
  xaSectorCnt :: nat

text \<open>Register C selects a register for the value in B, or the command of the next start.\<close>

definition XA_SetRegC :: "IopInt \<Rightarrow> IopExpDiskAmpexDM980_c \<Rightarrow> IopExpDiskAmpexDM980_c" where
  "XA_SetRegC aValue d =
     (let d = d\<lparr>xRegC := aValue\<rparr>; v = unat (xRegB d) in
      if aValue = 5 then d\<lparr>xkTrack := v\<rparr>
      else if aValue = 1 then d\<lparr>xkHead := v\<rparr>
      else if aValue = 2 then d\<lparr>xkStartSector := v\<rparr>
      else if aValue = 3 then d\<lparr>xaSectorCnt := v\<rparr>
      else d)"

definition XA_Start :: "(IopExpDiskAmpexDM980_c \<times> exp_env, unit) exec" where
  "XA_Start s =
     (let d = fst s; command = xRegC d; n = xkSectorSize d * xaSectorCnt d div 2;
          kilobytes = of_nat (xaSectorCnt d * xkSectorSize d div 1024) in
      if command = 0 then XK_read n 1 (upd_dev (\<lambda>d. d\<lparr>xkReads := xkReads d + kilobytes\<rparr>) s)
      else if command = 8 \<or> command = 16 then
        XK_write (command = 16) n 1 (upd_dev (\<lambda>d. d\<lparr>xkWrites := xkWrites d + kilobytes\<rparr>) s)
      else if command = 80 then
        (Inr (), XK_finish 1 (upd_dev (\<lambda>d. d\<lparr>xkTrack := 0, xkHead := 0, xkStartSector := 0\<rparr>) s))
      else if command = 32 then (Inr (), XK_finish 1 s)
      else (Inr (), s))"

definition XA_Control :: "IopInt \<Rightarrow> (IopExpDiskAmpexDM980_c \<times> exp_env, unit) exec" where
  "XA_Control aControl s =
     (if aControl AND NOT (Control_Start OR Control_Clear) \<noteq> 0 then (Inl AssertError, s)
      else
        (let s = control_clear aControl s in
         if aControl AND Control_Start \<noteq> 0 then XA_Start s else (Inr (), s)))"

section \<open>CDC disk\<close>

datatype CDC_States_e = State_Seek | State_GetHighHeadSector | State_GetLowHeadSector

record IopExpDiskCDC9448_96_c = exp_disk +
  xsSectorCnt :: "32 word"  \<comment> \<open>\<open>int32_t\<close>\<close>
  xsState :: CDC_States_e

text \<open>Register C is the cylinder, then the high parts of sector and count, then the low parts.\<close>

definition XS_SetRegC :: "IopInt \<Rightarrow> IopExpDiskCDC9448_96_c \<Rightarrow> IopExpDiskCDC9448_96_c" where
  "XS_SetRegC aValue d =
     (let d = d\<lparr>xRegC := aValue\<rparr> in
      case xsState d of
        State_Seek \<Rightarrow> d\<lparr>xkTrack := unat aValue\<rparr>
      | State_GetHighHeadSector \<Rightarrow> d\<lparr>xkStartSector := unat (drop_bit 5 aValue AND 32),
          xsSectorCnt := ucast (aValue AND 32), xsState := State_GetLowHeadSector\<rparr>
      | State_GetLowHeadSector \<Rightarrow> d\<lparr>xkStartSector := xkStartSector d OR unat (drop_bit 5 aValue AND 31),
          xsSectorCnt := xsSectorCnt d OR ucast (aValue AND 31),
          xkHead := unat (drop_bit 10 aValue AND 31)\<rparr>)"

text \<open>The count of a read is a negative number of six bits; the product is of type \<open>size_t\<close>.\<close>

definition XS_adjust_count :: "32 word \<Rightarrow> 32 word" where
  "XS_adjust_count n = - (if n AND 32 \<noteq> 0 then n OR NOT 63 else n)"

definition XS_bytes :: "IopExpDiskCDC9448_96_c \<Rightarrow> uint64" where
  "XS_bytes d = of_nat (xkSectorSize d) * scast (xsSectorCnt d)"

text \<open>A write takes the count as it is in the register.\<close>

definition XS_Start :: "(IopExpDiskCDC9448_96_c \<times> exp_env, unit) exec" where
  "XS_Start s =
     (if xsState (fst s) \<noteq> State_GetLowHeadSector then (Inl AssertError, s)
      else
        (let s = upd_dev (xsState_update (\<lambda>_. State_Seek)) s; command = xRegA (fst s) in
         if command = 0 then
           (let s = upd_dev (xsSectorCnt_update XS_adjust_count) s; bytes = XS_bytes (fst s)
            in XK_read (unat bytes div 2) 0x8000 (upd_dev (\<lambda>d. d\<lparr>xkReads := xkReads d + bytes div 1024\<rparr>) s))
         else if command = 0x700 \<or> command = 0x780 then
           (let bytes = XS_bytes (fst s)
            in XK_write (command = 0x780) (unat bytes div 2) 0x8000
              (upd_dev (\<lambda>d. d\<lparr>xkWrites := xkWrites d + bytes div 1024\<rparr>) s))
         else (Inl AssertError, s)))"

definition XS_Control :: "IopInt \<Rightarrow> (IopExpDiskCDC9448_96_c \<times> exp_env, unit) exec" where
  "XS_Control aControl s =
     (let s = (if aControl AND Control_Clear \<noteq> 0 then upd_dev (xsState_update (\<lambda>_. State_Seek)) (SetIntActive False s)
               else s);
          s = (if aControl AND Control_Pulse \<noteq> 0 then upd_dev (xsState_update (\<lambda>_. State_GetHighHeadSector)) s else s)
      in if aControl AND Control_Start \<noteq> 0 then XS_Start s else (Inr (), s))"

end
