(* ===== verification/Iop_Expander.thy ===== *)
theory Iop_Expander
  imports Iop_Exp_Devices
begin

text \<open>
  The peripheral expander: class \<open>IopChannelExp_c\<close> of \<^verbatim>\<open>sim_lib/iop_expander.h\<close> and \<^verbatim>\<open>.cpp\<close>. The
  vector of shared pointers is a list of device numbers into the list of the devices, since one
  device may have several channels. The virtual calls of \<open>IopExpDevice_i\<close> are case distinctions
  over the classes. The devices of the configuration are an argument of the set-up.
\<close>

datatype exp_device =
    DevTape IopExpTape_c
  | DevDummy IopExpDummyDevice_c
  | DevPrinter IopExpPrinterDevice_c
  | DevClock IopExpClockDevice_c
  | DevAmpex IopExpDiskAmpexDM980_c
  | DevCDC IopExpDiskCDC9448_96_c

section \<open>Construction of the devices\<close>

definition new_regs :: exp_regs where
  "new_regs = \<lparr>xRegA = 0, xRegB = 0, xRegC = 0, xBusy = False, xDone = True, xInterruptEnabled = False,
     xInterruptActive = False\<rparr>"

text \<open>The tape gets its image with the pokes configured for it.\<close>

definition XT_new :: "(uint64 \<rightharpoonup> uint8) list option \<Rightarrow> bool \<Rightarrow> bool \<Rightarrow> PokedTapFile_c \<Rightarrow> (exn + IopExpTape_c) option" where
  "XT_new pokes mode ReadOnly img =
     map_option (\<lambda>(r, k). map_sum id (\<lambda>_. exp_regs.extend new_regs
         \<lparr>xtRegAStat = 0, xtTapeImage = k, xtIsReadOnly = ReadOnly, xtReads = 0, xtWrites = 0\<rparr>) r)
       (PK_open pokes mode img)"

definition XP_new :: "host_file \<Rightarrow> IopExpPrinterDevice_c" where
  "XP_new PrintFile = exp_regs.extend new_regs
     \<lparr>xpStatus = 0, xpInGraphicsMode = False, xpWrites = 0, xpPrintFile = PrintFile\<rparr>"

definition XC_new :: "nat \<Rightarrow> nat \<Rightarrow> nat \<Rightarrow> uint64 \<Rightarrow> bool \<Rightarrow> IopExpClockDevice_c" where
  "XC_new Primary Request Response Timeout YearLimit =
     \<lparr>xRegA = 0, xRegB = 0, xRegC = 0, xBusy = False, xDone = False, xInterruptEnabled = False,
      xcInterruptActive = (\<lambda>_. False), xcRequest = [], xcResponse = [], xcPrimaryChannelIdx = Primary,
      xcRequestChannelIdx = Request, xcResponseChannelIdx = Response, xcYearLimit = YearLimit,
      xcResponseTimer = 0, xcResponseTimeout = Timeout\<rparr>"

definition new_disk :: "nat \<Rightarrow> nat \<Rightarrow> nat \<Rightarrow> nat \<Rightarrow> host_file option \<Rightarrow> exn + exp_disk" where
  "new_disk Heads Sectors Tracks SectorSize img =
     (if Heads = 0 \<or> Sectors = 0 \<or> Tracks = 0 \<or> SectorSize = 0 then Inl InvalidParameterError
      else Inr (exp_regs.extend new_regs \<lparr>xkNumHeads = Heads, xkNumSectors = Sectors, xkNumTracks = Tracks,
        xkSectorSize = SectorSize, xkTrack = 0, xkHead = 0, xkStartSector = 0, xkReads = 0, xkWrites = 0,
        xkImage = img\<rparr>))"

definition XA_new :: "nat \<Rightarrow> nat \<Rightarrow> nat \<Rightarrow> nat \<Rightarrow> host_file option \<Rightarrow> exn + IopExpDiskAmpexDM980_c" where
  "XA_new Heads Sectors Tracks SectorSize img =
     map_sum id (\<lambda>d. exp_disk.extend d \<lparr>xaSectorCnt = 0\<rparr>) (new_disk Heads Sectors Tracks SectorSize img)"

definition XS_new :: "nat \<Rightarrow> nat \<Rightarrow> nat \<Rightarrow> nat \<Rightarrow> host_file option \<Rightarrow> exn + IopExpDiskCDC9448_96_c" where
  "XS_new Heads Sectors Tracks SectorSize img =
     map_sum id (\<lambda>d. exp_disk.extend d \<lparr>xsSectorCnt = 0, xsState = State_Seek\<rparr>)
       (new_disk Heads Sectors Tracks SectorSize img)"

section \<open>Calls of a device\<close>

text \<open>An operation of one class, in a device of the union.\<close>

definition in_class :: "('d \<Rightarrow> exp_device) \<Rightarrow> 'd \<Rightarrow> ('d \<times> exp_env, 'a) exec \<Rightarrow> exp_env \<Rightarrow>
    (exn + 'a) \<times> (exp_device \<times> exp_env)" where
  "in_class C d m e = (case m (d, e) of (r, (d', e')) \<Rightarrow> (r, (C d', e')))"

type_synonym 'a dev_exec = "(exp_device \<times> exp_env, 'a) exec"

abbreviation returns :: "('s \<Rightarrow> 's) \<Rightarrow> ('s, unit) exec" where
  "returns f \<equiv> \<lambda>s. (Inr (), f s)"

fun Dev_SetRegA :: "nat \<Rightarrow> IopInt \<Rightarrow> unit dev_exec" where
  "Dev_SetRegA i v (DevTape d, e) = in_class DevTape d (returns (upd_dev (XT_SetRegA v))) e"
| "Dev_SetRegA i v (DevDummy d, e) = in_class DevDummy d (returns (upd_dev (xRegA_update (\<lambda>_. v)))) e"
| "Dev_SetRegA i v (DevPrinter d, e) = in_class DevPrinter d (returns (upd_dev (xRegA_update (\<lambda>_. v)))) e"
| "Dev_SetRegA i v (DevClock d, e) = in_class DevClock d (XC_SetRegA i v) e"
| "Dev_SetRegA i v (DevAmpex d, e) = in_class DevAmpex d (returns (upd_dev (xRegA_update (\<lambda>_. v)))) e"
| "Dev_SetRegA i v (DevCDC d, e) = in_class DevCDC d (returns (upd_dev (xRegA_update (\<lambda>_. v)))) e"

fun Dev_SetRegB :: "nat \<Rightarrow> IopInt \<Rightarrow> unit dev_exec" where
  "Dev_SetRegB i v (DevTape d, e) = in_class DevTape d (returns (upd_dev (xRegB_update (\<lambda>_. v)))) e"
| "Dev_SetRegB i v (DevDummy d, e) = in_class DevDummy d (returns (upd_dev (xRegB_update (\<lambda>_. v)))) e"
| "Dev_SetRegB i v (DevPrinter d, e) = in_class DevPrinter d (returns (upd_dev (xRegB_update (\<lambda>_. v)))) e"
| "Dev_SetRegB i v (DevClock d, e) = in_class DevClock d (returns (upd_dev (xRegB_update (\<lambda>_. v)))) e"
| "Dev_SetRegB i v (DevAmpex d, e) = in_class DevAmpex d (returns (upd_dev (xRegB_update (\<lambda>_. v)))) e"
| "Dev_SetRegB i v (DevCDC d, e) = in_class DevCDC d (returns (upd_dev (xRegB_update (\<lambda>_. v)))) e"

fun Dev_SetRegC :: "nat \<Rightarrow> IopInt \<Rightarrow> unit dev_exec" where
  "Dev_SetRegC i v (DevTape d, e) = in_class DevTape d (returns (upd_dev (xRegC_update (\<lambda>_. v)))) e"
| "Dev_SetRegC i v (DevDummy d, e) = in_class DevDummy d (returns (upd_dev (xRegC_update (\<lambda>_. v)))) e"
| "Dev_SetRegC i v (DevPrinter d, e) = in_class DevPrinter d (returns (XP_SetRegC v)) e"
| "Dev_SetRegC i v (DevClock d, e) = in_class DevClock d (returns (upd_dev (xRegC_update (\<lambda>_. v)))) e"
| "Dev_SetRegC i v (DevAmpex d, e) = in_class DevAmpex d (returns (upd_dev (XA_SetRegC v))) e"
| "Dev_SetRegC i v (DevCDC d, e) = in_class DevCDC d (returns (upd_dev (XS_SetRegC v))) e"

fun Dev_SetIntEnabled :: "bool \<Rightarrow> unit dev_exec" where
  "Dev_SetIntEnabled b (DevTape d, e) = in_class DevTape d (returns (SetIntEnabled b)) e"
| "Dev_SetIntEnabled b (DevDummy d, e) = in_class DevDummy d (returns (SetIntEnabled b)) e"
| "Dev_SetIntEnabled b (DevPrinter d, e) = in_class DevPrinter d (returns (SetIntEnabled b)) e"
| "Dev_SetIntEnabled b (DevClock d, e) = in_class DevClock d (returns (SetIntEnabled b)) e"
| "Dev_SetIntEnabled b (DevAmpex d, e) = in_class DevAmpex d (returns (SetIntEnabled b)) e"
| "Dev_SetIntEnabled b (DevCDC d, e) = in_class DevCDC d (returns (SetIntEnabled b)) e"

fun Dev_GetRegA :: "nat \<Rightarrow> IopInt dev_exec" where
  "Dev_GetRegA i (DevTape d, e) = (Inr (XT_GetRegA d), (DevTape d, e))"
| "Dev_GetRegA i (DevDummy d, e) = (Inr (xRegA d), (DevDummy d, e))"
| "Dev_GetRegA i (DevPrinter d, e) = (Inr (xpStatus d), (DevPrinter d, e))"
| "Dev_GetRegA i (DevClock d, e) = in_class DevClock d (XC_GetRegA i) e"
| "Dev_GetRegA i (DevAmpex d, e) = (Inr (xRegA d), (DevAmpex d, e))"
| "Dev_GetRegA i (DevCDC d, e) = (Inr (xRegA d), (DevCDC d, e))"

fun Dev_GetRegB :: "exp_device \<Rightarrow> IopInt" where
  "Dev_GetRegB (DevTape d) = xRegB d"
| "Dev_GetRegB (DevDummy d) = xRegB d"
| "Dev_GetRegB (DevPrinter d) = xRegB d"
| "Dev_GetRegB (DevClock d) = xRegB d"
| "Dev_GetRegB (DevAmpex d) = xRegB d"
| "Dev_GetRegB (DevCDC d) = xRegB d"

fun Dev_GetRegC :: "exp_device \<Rightarrow> IopInt" where
  "Dev_GetRegC (DevTape d) = xRegC d"
| "Dev_GetRegC (DevDummy d) = xRegC d"
| "Dev_GetRegC (DevPrinter d) = xRegC d"
| "Dev_GetRegC (DevClock d) = xRegC d"
| "Dev_GetRegC (DevAmpex d) = xRegC d"
| "Dev_GetRegC (DevCDC d) = xRegC d"

fun Dev_GetStatus :: "nat \<Rightarrow> exp_device \<Rightarrow> exn + IopInt" where
  "Dev_GetStatus i (DevTape d) = Inr (exp_status d (xInterruptActive d))"
| "Dev_GetStatus i (DevDummy d) = Inr (exp_status d (xInterruptActive d))"
| "Dev_GetStatus i (DevPrinter d) = Inr (exp_status d (xInterruptActive d))"
| "Dev_GetStatus i (DevClock d) = XC_GetStatus i d"
| "Dev_GetStatus i (DevAmpex d) = Inr (exp_status d (xInterruptActive d))"
| "Dev_GetStatus i (DevCDC d) = Inr (exp_status d (xInterruptActive d))"

fun Dev_Control :: "nat \<Rightarrow> IopInt \<Rightarrow> unit dev_exec" where
  "Dev_Control i v (DevTape d, e) = in_class DevTape d (XT_Control v) e"
| "Dev_Control i v (DevDummy d, e) = in_class DevDummy d (XD_Control v) e"
| "Dev_Control i v (DevPrinter d, e) = in_class DevPrinter d (XP_Control v) e"
| "Dev_Control i v (DevClock d, e) = in_class DevClock d (XC_Control i v) e"
| "Dev_Control i v (DevAmpex d, e) = in_class DevAmpex d (XA_Control v) e"
| "Dev_Control i v (DevCDC d, e) = in_class DevCDC d (XS_Control v) e"

fun Dev_NeedsTick :: "exp_device \<Rightarrow> bool" where
  "Dev_NeedsTick (DevClock d) = True"
| "Dev_NeedsTick _ = False"

fun Dev_Tick :: "unit dev_exec" where
  "Dev_Tick (DevClock d, e) = in_class DevClock d XC_Tick e"
| "Dev_Tick s = (Inr (), s)"

section \<open>The channel\<close>

datatype ExpOperation = Operation_ReadA | Operation_ReadB | Operation_ReadC | Operation_ReadInterrupt | ExpIdle

record IopChannelExp_c =
  exDone :: bool
  exBusy :: bool
  exInterruptEnabled :: bool
  exDeviceInterruptEnabled :: bool
  exDeviceInterruptPending :: bool
  exDevices :: "nat option list"
  exUnits :: "exp_device list"  \<comment> \<open>what the pointers of \<open>mDevices\<close> point to\<close>
  exTickedDevices :: "nat list"
  exDeviceIntMapping :: "uint8 list"
  exActiveChannel :: int
  exOperation :: ExpOperation

record exp_state =
  expChannel :: IopChannelExp_c
  expIoMemory :: memory
  expNow :: host_time

abbreviation upd_exp :: "(IopChannelExp_c \<Rightarrow> IopChannelExp_c) \<Rightarrow> exp_state \<Rightarrow> exp_state" where
  "upd_exp f s \<equiv> s\<lparr>expChannel := f (expChannel s)\<rparr>"

definition Exp_MasterClear :: "IopChannelExp_c \<Rightarrow> IopChannelExp_c" where
  "Exp_MasterClear ch = ch\<lparr>exDone := False, exBusy := False, exInterruptEnabled := True,
     exActiveChannel := -1, exOperation := ExpIdle\<rparr>"

text \<open>The device of a channel: \<open>None\<close> where there is none.\<close>

definition channel_unit :: "IopChannelExp_c \<Rightarrow> nat \<Rightarrow> exp_device option" where
  "channel_unit ch i = map_option (\<lambda>u. exUnits ch ! u) (exDevices ch ! i)"

text \<open>
  \<open>IntStatusChanged\<close>: the search stops at the first device that is enabled and active; the flag
  is cleared before it.
\<close>

definition int_pending :: "IopInt \<Rightarrow> bool" where
  "int_pending st \<longleftrightarrow> st AND Status_IntEnabled \<noteq> 0 \<and> st AND Status_Int \<noteq> 0"

fun find_pending :: "(nat \<times> exp_device option) list \<Rightarrow> exn + bool" where
  "find_pending [] = Inr False"
| "find_pending ((i, None) # ds) = find_pending ds"
| "find_pending ((i, Some d) # ds) =
     (case Dev_GetStatus i d of
        Inl e \<Rightarrow> Inl e
      | Inr st \<Rightarrow> if int_pending st then Inr True else find_pending ds)"

definition channel_list :: "IopChannelExp_c \<Rightarrow> (nat \<times> exp_device option) list" where
  "channel_list ch = map (\<lambda>i. (i, channel_unit ch i)) [0..<length (exDevices ch)]"

definition IntStatusChanged :: "(exp_state, unit) exec" where
  "IntStatusChanged s =
     (case find_pending (channel_list (expChannel s)) of
        Inl e \<Rightarrow> (Inl e, upd_exp (exDeviceInterruptPending_update (\<lambda>_. False)) s)
      | Inr b \<Rightarrow> (Inr (), upd_exp (exDeviceInterruptPending_update (\<lambda>_. b)) s))"

text \<open>
  An operation of the device number \<open>u\<close>. Where the device has called \<open>IntStatusChanged\<close> the flag
  is computed from the state that the device has at the end: no operation changes its interrupt
  after its last call. An exception of the device is passed on.
\<close>

definition at_unit :: "nat \<Rightarrow> 'a dev_exec \<Rightarrow> (exp_state, 'a) exec" where
  "at_unit u m s =
     (case m (exUnits (expChannel s) ! u, \<lparr>eeIoMemory = expIoMemory s, eeNow = expNow s, eeNotified = False\<rparr>) of
        (r, (d, e)) \<Rightarrow>
          (let s = (upd_exp (\<lambda>ch. ch\<lparr>exUnits := (exUnits ch)[u := d]\<rparr>) s)\<lparr>expIoMemory := eeIoMemory e\<rparr> in
           if eeNotified e then
             (case IntStatusChanged s of
                (Inl x, s) \<Rightarrow> (Inl x, s)
              | (Inr _, s) \<Rightarrow> (r, s))
           else (r, s)))"

text \<open>\<open>mDevices[mActiveChannel]\<close>, with the assertion that a channel has been selected.\<close>

definition active_unit :: "(exp_state, nat \<times> nat option) exec" where
  "active_unit s =
     (let ch = expChannel s; i = nat (exActiveChannel ch) in
      if exActiveChannel ch = -1 then (Inl AssertError, s)
      else if \<not> (0 \<le> exActiveChannel ch \<and> i < length (exDevices ch)) then (Inl UndefinedBehaviour, s)
      else (Inr (i, exDevices ch ! i), s))"

text \<open>An operation of the active device, if there is one, with the state of the channel after it.\<close>

definition Exp_finish :: "exp_state \<Rightarrow> exp_state" where
  "Exp_finish = upd_exp (\<lambda>ch. ch\<lparr>exBusy := False, exDone := True\<rparr>)"

definition Exp_device :: "(nat \<Rightarrow> unit dev_exec) \<Rightarrow> (exp_state, IopInt) exec" where
  "Exp_device m =
     bindE active_unit (\<lambda>(i, u).
       bindE (case u of Some u \<Rightarrow> at_unit u (m i) | None \<Rightarrow> returnE ()) (\<lambda>_ s. (Inr 0, Exp_finish s)))"

definition Exp_select_register :: "ExpOperation \<Rightarrow> (exp_state, IopInt) exec" where
  "Exp_select_register op s =
     (if exActiveChannel (expChannel s) = -1 then (Inl AssertError, s)
      else (Inr 0, Exp_finish (upd_exp (exOperation_update (\<lambda>_. op)) s)))"

text \<open>Function 6: a mask with a bit for each interrupt number; zero enables.\<close>

definition Exp_enable_all :: "bool \<Rightarrow> (exp_state, unit) exec" where
  "Exp_enable_all b s =
     forE [0..<length (exDevices (expChannel s))]
       (\<lambda>i s. case exDevices (expChannel s) ! i of None \<Rightarrow> (Inr (), s)
         | Some u \<Rightarrow> at_unit u (Dev_SetIntEnabled b) s) s"

definition Exp_enable_mask :: "IopInt \<Rightarrow> (exp_state, unit) exec" where
  "Exp_enable_mask aData =
     forE [0..<16] (\<lambda>n s. forE [0..<length (exDevices (expChannel s))]
       (\<lambda>i s. case exDevices (expChannel s) ! i of None \<Rightarrow> (Inr (), s)
         | Some u \<Rightarrow>
             if \<not> i < length (exDeviceIntMapping (expChannel s)) then (Inl UndefinedBehaviour, s)
             else if unat (exDeviceIntMapping (expChannel s) ! i) = n
             then at_unit u (Dev_SetIntEnabled (aData AND push_bit n 1 = 0)) s
             else (Inr (), s)) s)"

text \<open>Function 010: the register that was selected.\<close>

definition Exp_read_register :: "(exp_state, IopInt) exec" where
  "Exp_read_register =
     bindE active_unit (\<lambda>(i, u) s.
       case u of
         None \<Rightarrow> (Inr 0, s)
       | Some u \<Rightarrow>
           (case exOperation (expChannel s) of
              Operation_ReadA \<Rightarrow> at_unit u (Dev_GetRegA i) s
            | Operation_ReadB \<Rightarrow> (Inr (Dev_GetRegB (exUnits (expChannel s) ! u)), s)
            | Operation_ReadC \<Rightarrow> (Inr (Dev_GetRegC (exUnits (expChannel s) ! u)), s)
            | _ \<Rightarrow> (Inl AssertError, s)))"

text \<open>The status of the active device with the bits of the channel.\<close>

definition Exp_status :: "nat \<Rightarrow> nat option \<Rightarrow> IopChannelExp_c \<Rightarrow> exn + IopInt" where
  "Exp_status i u ch =
     map_sum id (\<lambda>st. st OR flag_bit (exInterruptEnabled ch) (push_bit 8 1) OR
         flag_bit (exBusy ch) (push_bit 11 1) OR flag_bit (exDone ch) (push_bit 12 1))
       (case u of Some u \<Rightarrow> Dev_GetStatus i (exUnits ch ! u) | None \<Rightarrow> Inr 0)"

text \<open>The first channel whose device has an interrupt.\<close>

fun first_interrupting :: "(nat \<times> exp_device option) list \<Rightarrow> exn + nat option" where
  "first_interrupting [] = Inr None"
| "first_interrupting ((i, None) # ds) = first_interrupting ds"
| "first_interrupting ((i, Some d) # ds) =
     (case Dev_GetStatus i d of
        Inl e \<Rightarrow> Inl e
      | Inr st \<Rightarrow> if st AND Status_Int \<noteq> 0 then Inr (Some i) else first_interrupting ds)"

definition Exp_interrupt_status :: "(exp_state, IopInt) exec" where
  "Exp_interrupt_status =
     bindE active_unit (\<lambda>(i, u) s.
       case Exp_status i u (expChannel s) of
         Inl e \<Rightarrow> (Inl e, s)
       | Inr st \<Rightarrow>
           (case first_interrupting (channel_list (expChannel s)) of
              Inl e \<Rightarrow> (Inl e, s)
            | Inr None \<Rightarrow> (Inr st, s)
            | Inr (Some k) \<Rightarrow> (Inr (st OR of_nat k), s)))"

definition Exp_channel_status :: "(exp_state, IopInt) exec" where
  "Exp_channel_status =
     bindE active_unit (\<lambda>(i, u) s.
       case Exp_status i u (expChannel s) of
         Inl e \<Rightarrow> (Inl e, s)
       | Inr st \<Rightarrow> (Inr (st OR of_nat i), s))"

definition Exp_DoIo :: "nat \<Rightarrow> IopInt \<Rightarrow> (exp_state, IopInt) exec" where
  "Exp_DoIo aFunction aData s =
     (if aFunction = 0 then
        (Inr 0, upd_exp (\<lambda>ch. ch\<lparr>exBusy := False, exDone := False, exInterruptEnabled := False\<rparr>) s)
      else if aFunction = 1 then Exp_select_register Operation_ReadA s
      else if aFunction = 2 then Exp_select_register Operation_ReadB s
      else if aFunction = 3 then Exp_select_register Operation_ReadC s
      else if aFunction = 4 then Exp_select_register Operation_ReadInterrupt s
      else if aFunction = 5 then (Inr 0, upd_exp (exActiveChannel_update (\<lambda>_. uint (aData AND 63))) s)
      else if aFunction = 6 then
        bindE (if aData = 0 \<or> aData = 0xffff then Exp_enable_all (aData = 0) else Exp_enable_mask aData)
          (\<lambda>_. returnE 0) s
      else if aFunction = 7 then
        (Inr 0, upd_exp (\<lambda>ch. ch\<lparr>exInterruptEnabled := (aData AND 1 \<noteq> 0),
          exDeviceInterruptEnabled := (aData AND 2 \<noteq> 0)\<rparr>) s)
      else if aFunction = 8 then Exp_read_register s
      else if aFunction = 9 then Exp_interrupt_status s
      else if aFunction = 11 then Exp_channel_status s
      else if aFunction = 12 then Exp_device (\<lambda>i. Dev_SetRegA i aData) s
      else if aFunction = 13 then Exp_device (\<lambda>i. Dev_SetRegB i aData) s
      else if aFunction = 14 then Exp_device (\<lambda>i. Dev_SetRegC i aData) s
      else if aFunction = 15 then Exp_device (\<lambda>i. Dev_Control i aData) s
      else (Inr 0, s))"

definition Exp_GetInterrupt :: "IopChannelExp_c \<Rightarrow> bool" where
  "Exp_GetInterrupt ch \<longleftrightarrow>
     (if exInterruptEnabled ch \<and> exDone ch then True else exDeviceInterruptEnabled ch \<and> exDeviceInterruptPending ch)"

definition Exp_Tick :: "(exp_state, unit) exec" where
  "Exp_Tick s = forE (exTickedDevices (expChannel s)) (\<lambda>u. at_unit u Dev_Tick) s"

section \<open>Set-up\<close>

text \<open>The channels of a device: the clock has two.\<close>

fun Dev_channels :: "nat \<Rightarrow> exp_device \<Rightarrow> nat list" where
  "Dev_channels c (DevClock d) = [xcPrimaryChannelIdx d, xcRequestChannelIdx d]"
| "Dev_channels c _ = [c]"

text \<open>
  A device of the configuration with its interrupt number; \<open>c\<close> is its channel. The vector is
  indexed with the channel before the comparison with its size. The last loop looks for the
  interrupt number among the channels that have a device, the new ones included.
\<close>

definition Exp_claim :: "nat \<Rightarrow> nat \<Rightarrow> (IopChannelExp_c, unit) exec" where
  "Exp_claim u c ch =
     (if \<not> c < length (exDevices ch) then (Inl UndefinedBehaviour, ch)
      else if exDevices ch ! c \<noteq> None then (Inl InvalidParameterError, ch)
      else (Inr (), ch\<lparr>exDevices := (exDevices ch)[c := Some u]\<rparr>))"

definition Exp_check_interrupt :: "uint8 \<Rightarrow> (IopChannelExp_c, unit) exec" where
  "Exp_check_interrupt DeviceInt ch =
     forE [0..<length (exDeviceIntMapping ch)]
       (\<lambda>i ch. if exDeviceIntMapping ch ! i = DeviceInt then
          if \<not> i < length (exDevices ch) then (Inl UndefinedBehaviour, ch)
          else if exDevices ch ! i \<noteq> None then (Inl InvalidParameterError, ch) else (Inr (), ch)
        else (Inr (), ch)) ch"

definition Exp_map_interrupt :: "uint8 \<Rightarrow> nat \<Rightarrow> (IopChannelExp_c, unit) exec" where
  "Exp_map_interrupt DeviceInt c ch =
     (if \<not> c < length (exDeviceIntMapping ch) then (Inl UndefinedBehaviour, ch)
      else (Inr (), ch\<lparr>exDeviceIntMapping := (exDeviceIntMapping ch)[c := DeviceInt]\<rparr>))"

definition Exp_add_device :: "exp_device \<times> nat \<times> uint8 \<Rightarrow> (IopChannelExp_c, unit) exec" where
  "Exp_add_device = (\<lambda>(d, c, DeviceInt) ch.
     if DeviceInt \<ge> 16 then (Inl InvalidParameterError, ch)
     else
       (let u = length (exUnits ch) in
        bindE (forE (Dev_channels c d) (Exp_claim u)) (\<lambda>_.
          bindE (Exp_check_interrupt DeviceInt) (\<lambda>_.
            forE (Dev_channels c d) (Exp_map_interrupt DeviceInt))) (ch\<lparr>exUnits := exUnits ch @ [d]\<rparr>)))"

fun Exp_add_devices :: "(exp_device \<times> nat \<times> uint8) list \<Rightarrow> (IopChannelExp_c, unit) exec" where
  "Exp_add_devices [] ch = (Inr (), ch)"
| "Exp_add_devices (d # ds) ch =
     (case Exp_add_device d ch of (Inl e, ch) \<Rightarrow> (Inl e, ch) | (Inr _, ch) \<Rightarrow> Exp_add_devices ds ch)"

text \<open>Dummies on the channels that are left, and the list of the devices with a tick.\<close>

definition Exp_add_dummies :: "IopChannelExp_c \<Rightarrow> IopChannelExp_c" where
  "Exp_add_dummies ch =
     for_loop 0 (length (exDevices ch)) (\<lambda>i ch. if exDevices ch ! i = None
       then ch\<lparr>exDevices := (exDevices ch)[i := Some (length (exUnits ch))], exUnits := exUnits ch @ [DevDummy new_regs]\<rparr>
       else ch) ch"

definition Exp_find_ticked :: "IopChannelExp_c \<Rightarrow> IopChannelExp_c" where
  "Exp_find_ticked ch = ch\<lparr>exTickedDevices := fold (\<lambda>u us. case u of
       Some u \<Rightarrow> if Dev_NeedsTick (exUnits ch ! u) \<and> u \<notin> set us then us @ [u] else us
     | None \<Rightarrow> us) (exDevices ch) (exTickedDevices ch)\<rparr>"

definition Exp_Setup :: "nat \<Rightarrow> (exp_device \<times> nat \<times> uint8) list \<Rightarrow> bool \<Rightarrow> (exp_state, unit) exec" where
  "Exp_Setup DeviceCount devices UseDummyDevices s =
     (let ch = (expChannel s)\<lparr>exDevices := replicate DeviceCount None, exDeviceIntMapping := replicate 64 0\<rparr> in
      case Exp_add_devices devices ch of
        (Inl e, ch) \<Rightarrow> (Inl e, s\<lparr>expChannel := ch\<rparr>)
      | (Inr _, ch) \<Rightarrow>
          (let ch = (if UseDummyDevices then Exp_add_dummies ch else ch)
           in IntStatusChanged (s\<lparr>expChannel := Exp_find_ticked ch\<rparr>)))"

end
