(* ===== verification/Expander_Results.thy ===== *)
theory Expander_Results
  imports Iop_Expander
begin

text \<open>
  Results on the peripheral expander: the interrupt flag that the channel keeps is exact, and
  what the devices do.
\<close>

section \<open>Devices report every change of their interrupt\<close>

text \<open>
  An operation of a device is quiet in a view of its interrupts if the view is the same
  wherever it has not called the channel back.
\<close>

definition quiet :: "('d \<Rightarrow> 'i) \<Rightarrow> 'd \<times> exp_env \<Rightarrow> 'd \<times> exp_env \<Rightarrow> bool" where
  "quiet ints s t \<longleftrightarrow> (eeNotified (snd s) \<longrightarrow> eeNotified (snd t)) \<and>
     (\<not> eeNotified (snd t) \<longrightarrow> ints (fst t) = ints (fst s))"

abbreviation any_exn :: "'s \<Rightarrow> exn \<Rightarrow> bool" where
  "any_exn \<equiv> \<lambda>_ _. True"

interpretation quiet: step_contract "quiet ints" any_exn for ints
  by unfold_locales (auto simp: quiet_def)

definition regs_ints :: "'a exp_regs_scheme \<Rightarrow> bool \<times> bool" where
  "regs_ints d = (xInterruptEnabled d, xInterruptActive d)"

definition clock_ints :: "IopExpClockDevice_c \<Rightarrow> bool \<times> (nat \<Rightarrow> bool)" where
  "clock_ints d = (xInterruptEnabled d, xcInterruptActive d)"

fun dev_ints :: "exp_device \<Rightarrow> bool \<times> (nat \<Rightarrow> bool)" where
  "dev_ints (DevTape d) = (xInterruptEnabled d, \<lambda>_. xInterruptActive d)"
| "dev_ints (DevDummy d) = (xInterruptEnabled d, \<lambda>_. xInterruptActive d)"
| "dev_ints (DevPrinter d) = (xInterruptEnabled d, \<lambda>_. xInterruptActive d)"
| "dev_ints (DevClock d) = (xInterruptEnabled d, xcInterruptActive d)"
| "dev_ints (DevAmpex d) = (xInterruptEnabled d, \<lambda>_. xInterruptActive d)"
| "dev_ints (DevCDC d) = (xInterruptEnabled d, \<lambda>_. xInterruptActive d)"

text \<open>The steps that the operations are made of.\<close>

lemma quiet_notified: "eeNotified (snd t) \<Longrightarrow> quiet ints s t"
  by (simp add: quiet_def)

lemma quiet_SetIntEnabled [simp]: "quiet ints s (SetIntEnabled b t)"
  by (rule quiet_notified) (simp add: SetIntEnabled_def IntStatusChanged_call_def split: prod.split)

lemma quiet_SetIntActive [simp]: "quiet ints s (SetIntActive b t)"
  by (rule quiet_notified) (simp add: SetIntActive_def IntStatusChanged_call_def split: prod.split)

lemma quiet_upd_dev:
  assumes "\<And>d. ints (f d) = ints d"
  shows "quiet ints s t \<Longrightarrow> quiet ints s (upd_dev f t)"
  by (auto simp: quiet_def upd_dev_def assms split: prod.split)

lemma quiet_dev_finish [simp]: "quiet ints s (dev_finish t)"
  by (simp add: dev_finish_def)

lemma quiet_control_clear [simp]: "quiet ints s s' \<Longrightarrow> quiet ints s (control_clear c s')"
  by (simp add: control_clear_def)

lemma quiet_notified_update: "eeNotified (snd s) \<Longrightarrow> quiet ints t (upd_dev f s)"
  by (auto simp: quiet_def upd_dev_def split: prod.split)

lemma quiet_regs_view: "quiet regs_ints s t \<Longrightarrow> quiet (\<lambda>d. (xInterruptEnabled d, \<lambda>_ :: nat. xInterruptActive d)) s t"
  by (auto simp: quiet_def regs_ints_def)

abbreviation quietly :: "('a exp_regs_scheme \<times> exp_env) \<Rightarrow> (exn + 'b) \<times> ('a exp_regs_scheme \<times> exp_env) \<Rightarrow> bool" where
  "quietly \<equiv> keeps (quiet regs_ints) any_exn"

lemma quietly_Inr: "quiet regs_ints s t \<Longrightarrow> quietly s (Inr x, t)"
  by (rule quiet.keeps_Inr)

lemma quietly_Inl: "quiet regs_ints s t \<Longrightarrow> quietly s (Inl e, t)"
  by (simp add: keeps_def)

lemma quiet_refl [simp]: "quiet ints s s"
  by (rule quiet.R_refl)

lemma quiet_regs_upd:
  assumes "quiet regs_ints s t" "\<And>d. xInterruptEnabled (f d) = xInterruptEnabled d"
    "\<And>d. xInterruptActive (f d) = xInterruptActive d"
  shows "quiet regs_ints s (upd_dev f t)"
  using assms(1) by (rule quiet_upd_dev[rotated]) (simp add: regs_ints_def assms(2,3))

section \<open>Tape\<close>

lemma quiet_FinalizeControl [simp]: "quiet ints s (FinalizeControl st t)"
  by (simp add: FinalizeControl_def)

lemma quiet_upd_image [simp]: "quiet regs_ints s t \<Longrightarrow> quiet regs_ints s (upd_image f t)"
  unfolding upd_image_def by (rule quiet_regs_upd) simp_all

lemma quietly_image: "quiet regs_ints s t \<Longrightarrow> quietly s (XT_image f t)"
  by (auto simp: XT_image_def keeps_def quiet_def regs_ints_def split: prod.splits)

lemma quiet_XT_store [simp]: "quiet regs_ints s t \<Longrightarrow> quiet regs_ints s (XT_store bs t)"
proof (induction bs t rule: XT_store.induct)
  case (1 b c bs d e)
  then show ?case by (simp add: quiet_def regs_ints_def)
qed simp_all

lemma quiet_XT_load [simp]: "quiet regs_ints s t \<Longrightarrow> quiet regs_ints s (snd (XT_load n t))"
proof (induction n t rule: XT_load.induct)
  case (2 n d e)
  then show ?case by (simp add: quiet_def regs_ints_def Let_def split_beta)
qed simp

lemma quietly_ReadForward: "quiet regs_ints s t \<Longrightarrow> quietly s (XT_ReadForward t)"
  unfolding XT_ReadForward_def Let_def
  by (auto intro!: quietly_Inl quietly_Inr quiet.keeps_bindE quietly_image quiet_regs_upd)

lemma quietly_space: "quiet regs_ints s t \<Longrightarrow> quietly s (XT_space seek n t)"
proof (induction n arbitrary: t)
  case (Suc n)
  have img: "quietly s (XT_image seek t)" using Suc.prems by (rule quietly_image)
  obtain r u where r: "XT_image seek t = (r, u)" by (cases "XT_image seek t")
  with img have u: "quiet regs_ints s u" by (simp add: keeps_def)
  from u have "quiet regs_ints s (upd_dev (\<lambda>d. d\<lparr>xRegC := xRegC d + 1\<rparr>) u)" by (rule quiet_regs_upd) simp_all
  with Suc.IH u show ?case by (auto simp: r quietly_Inl quietly_Inr split: sum.split)
qed (simp add: quietly_Inr)

lemma quietly_Space: "quiet regs_ints s t \<Longrightarrow> quietly s (XT_Space seek t)"
  unfolding XT_Space_def Let_def
  by (auto intro!: quietly_Inl quietly_Inr quiet.keeps_bindE quietly_space)

lemma quietly_WriteForward: "quiet regs_ints s t \<Longrightarrow> quietly s (XT_WriteForward t)"
  unfolding XT_WriteForward_def Let_def split_beta
  by (auto intro!: quietly_Inl quietly_Inr quiet.keeps_bindE quietly_image quiet_XT_load quiet_regs_upd)

lemma quietly_WriteEOF: "quiet regs_ints s t \<Longrightarrow> quietly s (XT_WriteEOF t)"
  unfolding XT_WriteEOF_def
  by (auto intro!: quietly_Inl quietly_Inr quiet.keeps_bindE quietly_image)

lemma quietly_XT_Control: "quietly s (XT_Control c s)"
proof -
  have "quietly s (XT_Start t)" if "quiet regs_ints s t" for t
  proof -
    have "quiet regs_ints s (upd_dev (xtRegAStat_update (\<lambda>_. 0)) t)"
      using that by (rule quiet_regs_upd) simp_all
    then show ?thesis
      unfolding XT_Start_def Let_def XT_Rewind_def
      by (auto intro!: quietly_Inl quietly_Inr quietly_ReadForward quietly_Space quietly_WriteForward quietly_WriteEOF)
  qed
  then show ?thesis unfolding XT_Control_def Let_def by (auto intro!: quietly_Inl quietly_Inr)
qed

section \<open>Printer and dummy\<close>

lemma quietly_XD_Control: "quietly s (XD_Control c s)"
  unfolding XD_Control_def by (auto intro!: quietly_Inl quietly_Inr)

lemma XP_print_ints [simp]: "xInterruptEnabled (XP_print m d) = xInterruptEnabled d"
    "xInterruptActive (XP_print m d) = xInterruptActive d"
proof (induction m d rule: XP_print.induct)
  case (1 m d)
  note IH = 1
  { case 1 show ?case using IH(1) by (subst XP_print.simps) (simp add: print_bytes_def)
  next case 2 show ?case using IH(2) by (subst XP_print.simps) (simp add: print_bytes_def) }
qed

lemma quiet_notifying: "eeNotified (snd t) \<Longrightarrow> snd u = snd t \<Longrightarrow> quiet ints s u"
  by (simp add: quiet_def)

lemma notified_SetIntActive [simp]: "eeNotified (snd (SetIntActive b s))"
  by (simp add: SetIntActive_def IntStatusChanged_call_def split: prod.split)

lemma notified_dev_finish [simp]: "eeNotified (snd (dev_finish s))"
  by (simp add: dev_finish_def)

lemma quietly_XP_SetRegC: "quietly s (returns (XP_SetRegC v) s)"
  by (rule quietly_Inr, rule quiet_notified)
    (metis (no_types, lifting) XP_SetRegC_def case_prod_beta notified_dev_finish snd_conv)

lemma quiet_XP_command: "quiet regs_ints s t \<Longrightarrow> quiet regs_ints s (XP_command t)"
  unfolding XP_command_def Let_def
  by (auto intro!: quiet_regs_upd simp: print_bytes_def)

lemma quietly_XP_Control: "quietly s (XP_Control c s)"
  unfolding XP_Control_def Let_def by (auto intro!: quietly_Inl quietly_Inr quiet_XP_command)

section \<open>Disks\<close>

lemma quiet_XK_Create [simp]: "quiet regs_ints s t \<Longrightarrow> quiet regs_ints s (upd_dev XK_Create t)"
  by (rule quiet_regs_upd) (simp_all add: XK_Create_def split: option.split)

lemma quietly_read_word: "quiet regs_ints s t \<Longrightarrow> quietly s (XK_read_word ofs i t)"
  by (auto simp: XK_read_word_def Let_def keeps_def quiet_def regs_ints_def split: prod.splits)

lemma quietly_write_word: "quiet regs_ints s t \<Longrightarrow> quietly s (XK_write_word f ofs i t)"
  by (auto simp: XK_write_word_def Let_def keeps_def quiet_def regs_ints_def split: prod.splits)

lemma quiet_XK_finish [simp]: "quiet ints s (XK_finish m t)"
  by (simp add: XK_finish_def)

lemma quietly_XK_read: "quiet regs_ints s t \<Longrightarrow> quietly s (XK_read n m t)"
  unfolding XK_read_def Let_def
  by (auto intro!: quietly_Inr quiet.keeps_bindE quiet.keeps_forE quietly_read_word)

lemma quietly_XK_write: "quiet regs_ints s t \<Longrightarrow> quietly s (XK_write f n m t)"
  unfolding XK_write_def Let_def
  by (auto intro!: quietly_Inr quiet.keeps_bindE quiet.keeps_forE quietly_write_word)

lemma quietly_XA_Control: "quietly s (XA_Control c s)"
proof -
  have "quietly s (XA_Start t)" if "quiet regs_ints s t" for t
    unfolding XA_Start_def Let_def using that
    by (auto intro!: quietly_Inl quietly_Inr quietly_XK_read quietly_XK_write quiet_regs_upd)
  then show ?thesis unfolding XA_Control_def Let_def by (auto intro!: quietly_Inl quietly_Inr)
qed

lemma quietly_XS_Control: "quietly s (XS_Control c s)"
proof -
  have start: "quietly s (XS_Start t)" if "quiet regs_ints s t" for t
    unfolding XS_Start_def Let_def using that
    by (auto intro!: quietly_Inl quietly_XK_read quietly_XK_write quiet_regs_upd)
  show ?thesis unfolding XS_Control_def Let_def by (auto intro!: quietly_Inr quiet_regs_upd start)
qed

lemma quiet_XA_SetRegC: "quiet regs_ints s (upd_dev (XA_SetRegC v) s)"
  by (rule quiet_regs_upd) (simp_all add: XA_SetRegC_def Let_def)

lemma quiet_XS_SetRegC: "quiet regs_ints s (upd_dev (XS_SetRegC v) s)"
  by (rule quiet_regs_upd) (simp_all add: XS_SetRegC_def Let_def split: CDC_States_e.split)

section \<open>Clock\<close>

abbreviation clock_quietly :: "IopExpClockDevice_c \<times> exp_env \<Rightarrow> (exn + 'b) \<times> (IopExpClockDevice_c \<times> exp_env) \<Rightarrow> bool" where
  "clock_quietly \<equiv> keeps (quiet clock_ints) any_exn"

lemma quiet_clock_upd:
  assumes "quiet clock_ints s t" "\<And>d. xInterruptEnabled (f d) = xInterruptEnabled d"
    "\<And>d. xcInterruptActive (f d) = xcInterruptActive d"
  shows "quiet clock_ints s (upd_dev f t)"
  using assms(1) by (rule quiet_upd_dev[rotated]) (simp add: clock_ints_def assms(2,3))

lemma clock_Inr: "quiet clock_ints s t \<Longrightarrow> clock_quietly s (Inr x, t)"
  by (rule quiet.keeps_Inr)

lemma clock_Inl: "quiet clock_ints s t \<Longrightarrow> clock_quietly s (Inl e, t)"
  by (simp add: keeps_def)

lemma quietly_XC_SetIntActive: "quiet clock_ints s t \<Longrightarrow> clock_quietly s (XC_SetIntActive i b t)"
  by (auto simp: XC_SetIntActive_def keeps_def quiet_def IntStatusChanged_call_def split: prod.splits)

lemma quietly_XC_SetRegA: "clock_quietly s (XC_SetRegA i v s)"
  unfolding XC_SetRegA_def Let_def
  by (auto intro!: clock_Inl clock_Inr quietly_XC_SetIntActive quiet_clock_upd)

lemma quietly_XC_GetRegA: "clock_quietly s (XC_GetRegA i s)"
  unfolding XC_GetRegA_def returnE_def
  by (auto intro!: clock_Inr quiet.keeps_bindE quietly_XC_SetIntActive quiet_clock_upd split: list.split)

lemma quietly_XC_Control: "clock_quietly s (XC_Control i c s)"
proof -
  have request: "quiet clock_ints s (ProcessRequest t)" if "quiet clock_ints s t" for t
    using that by (auto simp: ProcessRequest_def quiet_def clock_ints_def split: prod.splits)
  have start: "clock_quietly s (XC_start i t)" if "quiet clock_ints s t" for t
    unfolding XC_start_def Let_def using that
    by (auto intro!: quietly_XC_SetIntActive quiet_clock_upd request)
  show ?thesis
    unfolding XC_Control_def XC_clear_def returnE_def
    by (auto intro!: clock_Inl clock_Inr quiet.keeps_bindE quietly_XC_SetIntActive quiet_clock_upd start)
qed

lemma quietly_XC_Tick: "clock_quietly s (XC_Tick s)"
  unfolding XC_Tick_def Let_def
  by (auto intro!: clock_Inr quiet.keeps_bindE quietly_XC_SetIntActive quiet_clock_upd)

section \<open>The interrupt flag of the channel\<close>

lemma quiet_class:
  assumes "keeps (quiet ints) any_exn (d, e) (m (d, e))" "\<And>d d'. ints d = ints d' \<Longrightarrow> dev_ints (C d) = dev_ints (C d')"
  shows "keeps (quiet dev_ints) any_exn (C d, e) (in_class C d m e)"
  using assms(1) by (auto simp: in_class_def keeps_def quiet_def split: prod.splits intro: assms(2))

text \<open>Every operation of a device.\<close>

abbreviation dev_quietly :: "exp_device \<times> exp_env \<Rightarrow> (exn + 'b) \<times> (exp_device \<times> exp_env) \<Rightarrow> bool" where
  "dev_quietly \<equiv> keeps (quiet dev_ints) any_exn"

lemmas quiet_class_regs = quiet_class[of regs_ints, simplified regs_ints_def prod.inject]
lemmas quiet_class_clock = quiet_class[of clock_ints, simplified clock_ints_def prod.inject]

lemma quietly_plain: "(\<And>d. ints (f d) = ints d) \<Longrightarrow> keeps (quiet ints) any_exn s (returns (upd_dev f) s)"
  by (rule quiet.keeps_Inr, rule quiet_upd_dev) simp_all

lemma quietly_enable: "keeps (quiet ints) any_exn s (returns (SetIntEnabled b) s)"
  by (rule quiet.keeps_Inr) simp

lemma regs_ints_upd [simp]:
  "regs_ints (xRegA_update f d) = regs_ints d" "regs_ints (xRegB_update f d) = regs_ints d"
  "regs_ints (xRegC_update f d) = regs_ints d"
  by (simp_all add: regs_ints_def)

lemma clock_ints_upd [simp]:
  "clock_ints (xRegA_update f c) = clock_ints c" "clock_ints (xRegB_update f c) = clock_ints c"
  "clock_ints (xRegC_update f c) = clock_ints c"
  by (simp_all add: clock_ints_def)

lemmas quietly_devices = quietly_plain quietly_enable quietly_XT_Control quietly_XD_Control quietly_XP_SetRegC
  quietly_XP_Control quietly_XA_Control quietly_XS_Control quietly_XC_SetRegA quietly_XC_GetRegA
  quietly_XC_Control quietly_XC_Tick quiet.keeps_Inr[OF quiet_XA_SetRegC] quiet.keeps_Inr[OF quiet_XS_SetRegC]

lemma XT_SetRegA_ints [simp]: "regs_ints (XT_SetRegA v d) = regs_ints d"
  by (simp add: regs_ints_def XT_SetRegA_def)

lemma quietly_Dev:
  "dev_quietly (d, e) (Dev_SetRegA i v (d, e))"
  "dev_quietly (d, e) (Dev_SetRegB i v (d, e))"
  "dev_quietly (d, e) (Dev_SetRegC i v (d, e))"
  "dev_quietly (d, e) (Dev_SetIntEnabled b (d, e))"
  "dev_quietly (d, e) (Dev_GetRegA i (d, e))"
  "dev_quietly (d, e) (Dev_Control i v (d, e))"
  "dev_quietly (d, e) (Dev_Tick (d, e))"
proof -
  note cl = quiet_class_regs quiet_class_clock
  show "dev_quietly (d, e) (Dev_SetRegA i v (d, e))"
    by (cases d; (simp only: Dev_SetRegA.simps, rule cl, rule quietly_devices, simp_all))
  show "dev_quietly (d, e) (Dev_SetRegB i v (d, e))"
    by (cases d; (simp only: Dev_SetRegB.simps, rule cl, rule quietly_devices, simp_all))
  show "dev_quietly (d, e) (Dev_SetRegC i v (d, e))"
    by (cases d; (simp only: Dev_SetRegC.simps, rule cl, rule quietly_devices, simp_all))
  show "dev_quietly (d, e) (Dev_SetIntEnabled b (d, e))"
    by (cases d; (simp only: Dev_SetIntEnabled.simps, rule cl, rule quietly_devices, simp_all))
  show "dev_quietly (d, e) (Dev_Control i v (d, e))"
    by (cases d; (simp only: Dev_Control.simps, rule cl, rule quietly_devices, simp_all))
  show "dev_quietly (d, e) (Dev_GetRegA i (d, e))"
    by (cases d) (simp_all add: quiet.keeps_Inr, rule cl, rule quietly_devices, simp)
  show "dev_quietly (d, e) (Dev_Tick (d, e))"
    by (cases d) (simp_all add: quiet.keeps_Inr, rule cl, rule quietly_devices, simp)
qed

text \<open>What the search for an interrupting device finds.\<close>

definition unit_interrupts :: "nat \<Rightarrow> exp_device \<Rightarrow> bool" where
  "unit_interrupts i d \<longleftrightarrow> fst (dev_ints d) \<and> snd (dev_ints d) i"

lemma status_interrupts: "int_pending (exp_status d a) \<longleftrightarrow> xInterruptEnabled d \<and> a"
  by (auto simp: int_pending_def exp_status_def flag_bit_def Status_DmaEnabled_def Status_IntEnabled_def
      Status_Int_def Status_DeviceBusy_def Status_DeviceDone_def)

lemma GetStatus_interrupts:
  assumes "i < 64"
  obtains st where "Dev_GetStatus i d = Inr st" "int_pending st \<longleftrightarrow> unit_interrupts i d"
  using assms that by (cases d) (auto simp: unit_interrupts_def status_interrupts XC_GetStatus_def)

lemma find_pending_result:
  "(\<And>i d. (i, d) \<in> set ds \<Longrightarrow> i < 64) \<Longrightarrow>
     find_pending ds = Inr (\<exists>i d. (i, Some d) \<in> set ds \<and> unit_interrupts i d)"
proof (induction ds rule: find_pending.induct)
  case (3 i d ds)
  have "i < 64" using 3(2)[of i "Some d"] by simp
  then obtain st where st: "Dev_GetStatus i d = Inr st" "int_pending st \<longleftrightarrow> unit_interrupts i d"
    by (rule GetStatus_interrupts)
  have "find_pending ds = Inr (\<exists>i d. (i, Some d) \<in> set ds \<and> unit_interrupts i d)" if "\<not> int_pending st"
    using 3(2) by (intro 3(1)[OF st(1) that]) (meson list.set_intros(2))
  with st show ?case by auto
qed auto

text \<open>The channels and devices that make sense, and the exact flag.\<close>

definition channel_ok :: "IopChannelExp_c \<Rightarrow> bool" where
  "channel_ok ch \<longleftrightarrow> length (exDevices ch) \<le> 64 \<and>
     (\<forall>i < length (exDevices ch). \<forall>u. exDevices ch ! i = Some u \<longrightarrow> u < length (exUnits ch))"

definition some_interrupt :: "IopChannelExp_c \<Rightarrow> bool" where
  "some_interrupt ch \<longleftrightarrow> (\<exists>i < length (exDevices ch). \<exists>u. exDevices ch ! i = Some u \<and>
     unit_interrupts i (exUnits ch ! u))"

definition flag_exact :: "exp_state \<Rightarrow> bool" where
  "flag_exact s \<longleftrightarrow> channel_ok (expChannel s) \<and>
     exDeviceInterruptPending (expChannel s) = some_interrupt (expChannel s)"

lemma in_channel_list:
  "(i, Some d) \<in> set (channel_list ch) \<longleftrightarrow>
     i < length (exDevices ch) \<and> (\<exists>u. exDevices ch ! i = Some u \<and> d = exUnits ch ! u)"
  by (cases "exDevices ch ! i") (auto simp: channel_list_def channel_unit_def image_iff)

lemma IntStatusChanged_result:
  assumes "channel_ok (expChannel s)"
  shows "IntStatusChanged s = (Inr (), upd_exp (exDeviceInterruptPending_update (\<lambda>_. some_interrupt (expChannel s))) s)"
proof -
  have "find_pending (channel_list (expChannel s)) = Inr (some_interrupt (expChannel s))"
  proof -
    have "(\<exists>i d. (i, Some d) \<in> set (channel_list (expChannel s)) \<and> unit_interrupts i d) =
        some_interrupt (expChannel s)" by (simp add: some_interrupt_def in_channel_list) metis
    moreover have "find_pending (channel_list (expChannel s)) =
        Inr (\<exists>i d. (i, Some d) \<in> set (channel_list (expChannel s)) \<and> unit_interrupts i d)"
      using assms by (intro find_pending_result) (auto simp: channel_list_def channel_ok_def)
    ultimately show ?thesis by simp
  qed
  then show ?thesis by (simp add: IntStatusChanged_def)
qed

lemma channel_ok_upd:
  "channel_ok ch \<Longrightarrow> channel_ok (ch\<lparr>exUnits := (exUnits ch)[u := d]\<rparr>)"
  "channel_ok ch \<Longrightarrow> channel_ok (ch\<lparr>exDeviceInterruptPending := b\<rparr>)"
  by (simp_all add: channel_ok_def)

text \<open>A device whose operation is quiet leaves the flag exact.\<close>

lemma at_unit_exact:
  assumes "flag_exact s" "\<And>d e. dev_quietly (d, e) (m (d, e))"
  shows "flag_exact (snd (at_unit u m s))"
proof -
  let ?ch = "expChannel s"
  obtain r d e where m: "m (exUnits ?ch ! u, \<lparr>eeIoMemory = expIoMemory s, eeNow = expNow s, eeNotified = False\<rparr>) =
      (r, (d, e))" by (metis prod.exhaust)
  with assms(2)[of "exUnits ?ch ! u" "\<lparr>eeIoMemory = expIoMemory s, eeNow = expNow s, eeNotified = False\<rparr>"]
  have q: "\<not> eeNotified e \<Longrightarrow> dev_ints d = dev_ints (exUnits ?ch ! u)"
    by (simp add: keeps_def quiet_def)
  let ?t = "(upd_exp (\<lambda>ch. ch\<lparr>exUnits := (exUnits ch)[u := d]\<rparr>) s)\<lparr>expIoMemory := eeIoMemory e\<rparr>"
  have ok: "channel_ok (expChannel ?t)" using assms(1) by (simp add: flag_exact_def channel_ok_upd)
  show ?thesis
  proof (cases "eeNotified e")
    case True
    then have "snd (at_unit u m s) = upd_exp (exDeviceInterruptPending_update (\<lambda>_. some_interrupt (expChannel ?t))) ?t"
      using IntStatusChanged_result[OF ok] by (simp add: at_unit_def m)
    with ok show ?thesis by (simp add: flag_exact_def channel_ok_def some_interrupt_def)
  next
    case False
    then have "snd (at_unit u m s) = ?t" by (simp add: at_unit_def m)
    moreover have "dev_ints ((exUnits ?ch)[u := d] ! k) = dev_ints (exUnits ?ch ! k)"
      if "k < length (exUnits ?ch)" for k
      using q[OF False] that by (cases "u = k") simp_all
    then have "some_interrupt (expChannel ?t) = some_interrupt ?ch"
      using assms(1) by (simp add: some_interrupt_def unit_interrupts_def flag_exact_def channel_ok_def) metis
    ultimately show ?thesis using assms(1) ok by (simp add: flag_exact_def)
  qed
qed

text \<open>The channel functions, the tick and the master clear.\<close>

definition exactly :: "exp_state \<Rightarrow> exp_state \<Rightarrow> bool" where
  "exactly s t \<longleftrightarrow> (flag_exact s \<longrightarrow> flag_exact t)"

interpretation exact: step_contract exactly any_exn
  by unfold_locales (auto simp: exactly_def)

abbreviation stays_exact :: "exp_state \<Rightarrow> (exn + 'a) \<times> exp_state \<Rightarrow> bool" where
  "stays_exact \<equiv> keeps exactly any_exn"

lemma exact_Inr: "exactly s t \<Longrightarrow> stays_exact s (Inr x, t)"
  by (rule exact.keeps_Inr)

lemma exact_Inl: "exactly s t \<Longrightarrow> stays_exact s (Inl e, t)"
  by (simp add: keeps_def)

lemma exactly_refl [simp]: "exactly s s"
  by (simp add: exactly_def)

text \<open>What a change of the channel has to leave alone.\<close>

lemma exactly_upd:
  assumes "exactly s t" "\<And>ch. exDevices (f ch) = exDevices ch" "\<And>ch. exUnits (f ch) = exUnits ch"
    "\<And>ch. exDeviceInterruptPending (f ch) = exDeviceInterruptPending ch"
  shows "exactly s (upd_exp f t)"
  using assms by (simp add: exactly_def flag_exact_def channel_ok_def some_interrupt_def)

lemma exact_at_unit:
  assumes "exactly s t" "\<And>d e. dev_quietly (d, e) (m (d, e))"
  shows "stays_exact s (at_unit u m t)"
  using assms at_unit_exact[of t m u] by (simp add: keeps_def exactly_def)

lemma exact_active_unit: "exactly s t \<Longrightarrow> stays_exact s (active_unit t)"
  unfolding active_unit_def Let_def by (auto intro!: exact_Inl exact_Inr)

lemma exactly_finish: "exactly s t \<Longrightarrow> exactly s (Exp_finish t)"
  unfolding Exp_finish_def by (rule exactly_upd) simp_all

lemma exact_device:
  assumes "\<And>i d e. dev_quietly (d, e) (m i (d, e))"
  shows "stays_exact s (Exp_device m s)"
  unfolding Exp_device_def returnE_def
  by (auto intro!: exact.keeps_bindE exact_active_unit exact_at_unit assms exact_Inr exactly_finish
      split: option.split)

lemma exact_enable_all: "stays_exact s (Exp_enable_all b s)"
  unfolding Exp_enable_all_def
  by (rule exact.keeps_forE) (auto intro!: exact_at_unit exact_Inr quietly_Dev split: option.split)

lemma exact_enable_mask: "stays_exact s (Exp_enable_mask a s)"
  unfolding Exp_enable_mask_def
  by (intro exact.keeps_forE) (auto intro!: exact_at_unit exact_Inr exact_Inl quietly_Dev split: option.split)

lemma exact_read_register: "stays_exact s (Exp_read_register s)"
  unfolding Exp_read_register_def
  by (auto intro!: exact.keeps_bindE exact_active_unit exact_at_unit exact_Inr exact_Inl quietly_Dev
      split: option.split ExpOperation.split)

lemma exact_status: "stays_exact s (Exp_interrupt_status s)" "stays_exact s (Exp_channel_status s)"
  unfolding Exp_interrupt_status_def Exp_channel_status_def
  by (auto intro!: exact.keeps_bindE exact_active_unit exact_Inr exact_Inl split: option.split sum.split)

lemma exact_select: "stays_exact s (Exp_select_register op s)"
  unfolding Exp_select_register_def
  by (auto intro!: exact_Inr exact_Inl exactly_finish exactly_upd)

lemma exact_DoIo: "stays_exact s (Exp_DoIo f a s)"
  unfolding Exp_DoIo_def returnE_def
  by (simp add: exact_select exact_read_register exact_status)
    (auto intro!: exact_Inr exactly_upd exact.keeps_bindE exact_enable_all exact_enable_mask exact_device quietly_Dev)

lemma exact_Tick: "stays_exact s (Exp_Tick s)"
  unfolding Exp_Tick_def by (rule exact.keeps_forE) (auto intro!: exact_at_unit quietly_Dev)

text \<open>The set-up.\<close>

lemma claim_ok:
  assumes "channel_ok ch" "u < length (exUnits ch)"
  shows "channel_ok (snd (Exp_claim u c ch)) \<and> length (exUnits (snd (Exp_claim u c ch))) = length (exUnits ch)"
  using assms by (auto simp: Exp_claim_def channel_ok_def nth_list_update)

lemma claims_ok:
  assumes "channel_ok ch" "u < length (exUnits ch)"
  shows "channel_ok (snd (forE cs (Exp_claim u) ch))"
  using assms
proof (induction cs arbitrary: ch)
  case (Cons c cs)
  then show ?case using claim_ok[of ch u c] by (auto split: prod.split sum.split)
qed simp

lemma check_interrupt_state: "snd (Exp_check_interrupt n ch) = ch"
proof -
  have "snd (forE is f ch) = ch" if "\<And>i ch. snd (f i ch) = ch" for "is" and f :: "nat \<Rightarrow> (IopChannelExp_c, unit) exec"
    using that by (induction "is" arbitrary: ch) (auto split: prod.split sum.split, (metis snd_conv)+)
  then show ?thesis unfolding Exp_check_interrupt_def by simp
qed

lemma map_interrupts_ok: "channel_ok ch \<Longrightarrow> channel_ok (snd (forE cs (Exp_map_interrupt n) ch))"
proof (induction cs arbitrary: ch)
  case (Cons c cs)
  have "channel_ok (snd (Exp_map_interrupt n c ch))"
    using Cons.prems by (simp add: Exp_map_interrupt_def channel_ok_def)
  with Cons.IH show ?case by (auto split: prod.split sum.split)
qed simp

lemma add_device_ok:
  assumes "channel_ok ch"
  shows "channel_ok (snd (Exp_add_device d ch))"
proof -
  obtain x c n where d: "d = (x, c, n)" by (cases d)
  let ?ch = "ch\<lparr>exUnits := exUnits ch @ [x]\<rparr>"
  let ?out = "forE (Dev_channels c x) (Exp_claim (length (exUnits ch))) ?ch"
  have "channel_ok ?ch" using assms by (auto simp: channel_ok_def less_SucI)
  then have "channel_ok (snd ?out)" by (intro claims_ok) simp_all
  then show ?thesis
    using assms check_interrupt_state[of n "snd ?out"] map_interrupts_ok[of "snd ?out"]
    by (auto simp: d Exp_add_device_def bindE_def Let_def split: prod.split sum.split)
qed

lemma add_devices_ok: "channel_ok ch \<Longrightarrow> channel_ok (snd (Exp_add_devices ds ch))"
proof (induction ds arbitrary: ch)
  case (Cons d ds)
  then show ?case using add_device_ok[of ch d] by (auto split: prod.split sum.split)
qed simp

lemma add_dummies_ok:
  assumes "channel_ok ch"
  shows "channel_ok (Exp_add_dummies ch)"
proof -
  have "channel_ok (Exp_add_dummies ch) \<and> length (exDevices (Exp_add_dummies ch)) = length (exDevices ch)"
    unfolding Exp_add_dummies_def
    by (rule for_loop_invariant[where I = "\<lambda>_ s. channel_ok s \<and> length (exDevices s) = length (exDevices ch)"])
      (use assms in \<open>auto simp: channel_ok_def nth_list_update less_SucI split: if_splits\<close>)
  then show ?thesis ..
qed

lemma Setup_exact:
  assumes "Exp_Setup n ds dummies s0 = (Inr (), s)" "n \<le> 64"
  shows "flag_exact s"
proof -
  let ?ch = "(expChannel s0)\<lparr>exDevices := replicate n None, exDeviceIntMapping := replicate 64 0\<rparr>"
  obtain r ch where ch: "Exp_add_devices ds ?ch = (r, ch)" by (cases "Exp_add_devices ds ?ch")
  have "channel_ok ?ch" using assms(2) by (simp add: channel_ok_def)
  then have "channel_ok ch" using add_devices_ok[of ?ch ds] by (simp add: ch)
  then have "channel_ok (Exp_find_ticked (if dummies then Exp_add_dummies ch else ch))"
    using add_dummies_ok[of ch] by (simp add: channel_ok_def Exp_find_ticked_def)
  then have "IntStatusChanged (s0\<lparr>expChannel := Exp_find_ticked (if dummies then Exp_add_dummies ch else ch)\<rparr>) =
      (Inr (), s) \<Longrightarrow> flag_exact s"
    using IntStatusChanged_result[of "s0\<lparr>expChannel := Exp_find_ticked (if dummies then Exp_add_dummies ch else ch)\<rparr>"]
    by (auto simp: flag_exact_def channel_ok_def some_interrupt_def)
  with assms(1) show ?thesis by (simp add: Exp_Setup_def ch Let_def split: sum.splits)
qed

section \<open>The expander at work\<close>

text \<open>
  What happens to an expander: the program's functions, the ticks, master clears, the passing of
  time, and changes of the I/O memory by others.
\<close>

inductive exp_step :: "exp_state \<Rightarrow> exp_state \<Rightarrow> bool" where
  step_function: "exp_step s (snd (Exp_DoIo f a s))"
| step_tick: "exp_step s (snd (Exp_Tick s))"
| step_clear: "exp_step s (upd_exp Exp_MasterClear s)"
| step_time: "exp_step s (s\<lparr>expNow := t\<rparr>)"
| step_memory: "exp_step s (s\<lparr>expIoMemory := m\<rparr>)"

lemma exp_step_exact: "exp_step s t \<Longrightarrow> flag_exact s \<Longrightarrow> flag_exact t"
proof (induction rule: exp_step.induct)
  case (step_function s f a)
  then show ?case using exact_DoIo[of s f a] by (simp add: keeps_def exactly_def)
next
  case (step_tick s)
  then show ?case using exact_Tick[of s] by (simp add: keeps_def exactly_def)
qed (simp_all add: flag_exact_def channel_ok_def some_interrupt_def Exp_MasterClear_def)

text \<open>C14: The interrupt line of the expander is exact. The channel keeps a flag for the devices, which
  it computes again where a device calls it back. After any set-up with at most 64 channels and
  any sequence of functions, ticks and master clears, whether they return or throw, the
  interrupt is on exactly where the channel is done with its interrupt enabled, or device
  interrupts are enabled and some channel has a device whose interrupt is enabled and active.
\<close>

theorem expander_interrupt_exact:
  assumes "Exp_Setup n devices dummies s0 = (Inr (), s)" "n \<le> 64" "exp_step\<^sup>*\<^sup>* s t"
  shows "Exp_GetInterrupt (expChannel t) \<longleftrightarrow>
    exInterruptEnabled (expChannel t) \<and> exDone (expChannel t) \<or>
    exDeviceInterruptEnabled (expChannel t) \<and>
      (\<exists>i < length (exDevices (expChannel t)). \<exists>u. exDevices (expChannel t) ! i = Some u \<and>
         unit_interrupts i (exUnits (expChannel t) ! u))"
proof -
  from assms(3) Setup_exact[OF assms(1,2)] have "flag_exact t"
    by (induction rule: rtranclp_induct) (auto intro: exp_step_exact)
  then show ?thesis by (auto simp: Exp_GetInterrupt_def flag_exact_def some_interrupt_def)
qed

text \<open>A printer and a clock; the printer is told to print nothing and has an interrupt then.\<close>

definition sample_channel_exp :: IopChannelExp_c where
  "sample_channel_exp = \<lparr>exDone = False, exBusy = False, exInterruptEnabled = True, exDeviceInterruptEnabled = False,
     exDeviceInterruptPending = False, exDevices = [], exUnits = [], exTickedDevices = [], exDeviceIntMapping = [],
     exActiveChannel = -1, exOperation = ExpIdle\<rparr>"

definition sample_exp :: exp_state where
  "sample_exp = \<lparr>expChannel = sample_channel_exp, expIoMemory = (\<lambda>a. of_nat (a mod 251)),
     expNow = \<lparr>htYear = 2019, htMonth = 7, htDay = 4, htHours = 16, htMinutes = 5, htSeconds = 9\<rparr>\<rparr>"

definition sample_devices :: "(exp_device \<times> nat \<times> uint8) list" where
  "sample_devices = [(DevPrinter (XP_new []), 2, 1), (DevClock (XC_new 0 1 0 3 True), 0, 2)]"

fun exp_run :: "(nat \<times> IopInt) list \<Rightarrow> exp_state \<Rightarrow> exp_state" where
  "exp_run [] s = s"
| "exp_run ((f, a) # fs) s = exp_run fs (snd (Exp_DoIo f a s))"

lemma exp_run_steps: "exp_step\<^sup>*\<^sup>* s (exp_run fs s)"
  by (induction fs s rule: exp_run.induct) (auto intro: converse_rtranclp_into_rtranclp step_function)

theorem expander_interrupt_exact_witness:
  "Exp_GetInterrupt (expChannel (exp_run [(7, 2), (6, 0), (5, 2), (13, 0), (14, 0)]
     (snd (Exp_Setup 4 sample_devices False sample_exp))))"
proof -
  let ?s = "snd (Exp_Setup 4 sample_devices False sample_exp)"
  let ?t = "exp_run [(7, 2), (6, 0), (5, 2), (13, 0), (14, 0)] ?s"
  have "fst (Exp_Setup 4 sample_devices False sample_exp) = Inr ()" by code_simp
  then have init: "Exp_Setup 4 sample_devices False sample_exp = (Inr (), ?s)"
    by (metis prod.collapse)
  have "exDeviceInterruptEnabled (expChannel ?t)" by code_simp
  moreover have "2 < length (exDevices (expChannel ?t)) \<and> exDevices (expChannel ?t) ! 2 = Some 0" by code_simp
  moreover have "unit_interrupts 2 (exUnits (expChannel ?t) ! 0)" by code_simp
  moreover have n: "4 \<le> (64 :: nat)" by simp
  ultimately show ?thesis unfolding expander_interrupt_exact[OF init n exp_run_steps] by blast
qed

end
