(* ===== verification/Expander_Devices.thy ===== *)
theory Expander_Devices
  imports Iop_Expander Disk_Results
begin

text \<open>
  Results on the devices of the expander: the disks return what was written to them, the printer
  prints the words it is given, and the clock answers a request.
\<close>

section \<open>Disks\<close>

lemma le16_nth: "length bs = 2 \<Longrightarrow> le16 bs = load16 (\<lambda>i. bs ! i) 0"
  by (cases bs rule: remdups_adj.cases) (auto simp: le16_def load16_def)

text \<open>The write loop: the words from register B on, as the bytes of the file.\<close>

lemma XK_write_loop:
  assumes "xkImage d = Some f" "ofs \<le> length f"
  shows "forE [0..<n] (XK_write_word False ofs) (d, e) =
    (Inr (), (d\<lparr>xkImage := Some (file_write ofs (parcel_bytes (xRegB d) (eeIoMemory e) n) f),
      xRegB := xRegB d + of_nat n\<rparr>, e))"
proof (induction n)
  case 0
  have "file_write ofs [] f = f" using assms(2) by (simp add: file_write_def)
  then show ?case using assms(1) by (simp add: parcel_bytes_def)
next
  case (Suc n)
  have "file_write (ofs + 2 * n) cs (file_write ofs (parcel_bytes a m n) f) =
      file_write ofs (parcel_bytes a m n @ cs) f" for cs a m
    using file_write_concat[of ofs "parcel_bytes a m n" cs f] by simp
  then show ?case
    by (intro forE_Suc[OF Suc.IH])
      (simp add: XK_write_word_def XK_image_def parcel_bytes_Suc io_parcel_def algebra_simps)
qed

text \<open>The read loop, over the words of the file.\<close>

lemma XK_read_loop:
  assumes "xkImage d = Some f" "ofs + 2 * n \<le> length f"
  shows "forE [0..<n] (XK_read_word ofs) (d, e) =
    (Inr (), (d\<lparr>xRegB := xRegB d + of_nat n\<rparr>, e\<lparr>eeIoMemory :=
      for_loop 0 n (\<lambda>j. IoMemWrite16 (unat (xRegB d + of_nat j)) (file_parcel f (ofs + 2 * j))) (eeIoMemory e)\<rparr>))"
  using assms(2)
proof (induction n)
  case (Suc n)
  have "le16 (file_read (ofs + 2 * n) 2 f) = load16 (\<lambda>i. f ! i) (ofs + 2 * n)"
    using Suc.prems by (subst le16_nth) (auto simp: nth_file_read intro!: load16_eqI)
  then show ?case
    using Suc.prems assms(1)
    by (intro forE_Suc[OF Suc.IH])
      (simp_all add: XK_read_word_def XK_image_def Let_def file_parcel_def for_loop_Suc algebra_simps)
qed simp

text \<open>Different addresses of a loop of writes keep their values.\<close>

lemma written_parcels:
  assumes "j < n" "n \<le> 2 ^ 16"
  shows "io_parcel a (for_loop 0 n (\<lambda>j. IoMemWrite16 (unat (a + of_nat j)) (v j)) m) j = v j"
  unfolding io_parcel_def
proof (rule parcels.rd_loop(1)[OF _ _ assms(1)])
  fix i k
  assume "i < n" "k < n" "unat (a + of_nat i) = unat (a + of_nat k)"
  then have "unat (of_nat i :: IopInt) = unat (of_nat k :: IopInt)" by (simp add: word_unat_eq_iff[symmetric])
  with \<open>i < n\<close> \<open>k < n\<close> assms(2) show "i = k" by (simp add: unsigned_of_nat take_bit_nat_eq_self)
qed simp

lemma parcel_of_written:
  assumes "j < n" "ofs + 2 * n \<le> length (file_write ofs (parcel_bytes a m n) f)"
  shows "file_parcel (file_write ofs (parcel_bytes a m n) f) (ofs + 2 * j) = io_parcel a m j"
proof -
  have "load16 (\<lambda>i. file_write ofs (parcel_bytes a m n) f ! i) (ofs + 2 * j) = SwapBytes16 (io_parcel a m j)"
    using assms nth_parcel_bytes[of j n a m] by (intro load16_le16_bytes) (simp_all add: nth_file_write)
  then show ?thesis by (simp add: file_parcel_def)
qed

text \<open>The image after the file has been created, and a transfer of the Ampex disk as a whole.\<close>

lemma XK_Create_image: "\<exists>f. xkImage (XK_Create d) = Some f"
  by (auto simp: XK_Create_def split: option.split)

text \<open>The number of words of a transfer.\<close>

definition XA_words :: "IopExpDiskAmpexDM980_c \<Rightarrow> nat" where
  "XA_words d = xkSectorSize d * xaSectorCnt d div 2"

definition XA_offset :: "IopExpDiskAmpexDM980_c \<Rightarrow> nat" where
  "XA_offset d = SectorIdx d * xkSectorSize d"

lemma Create_simps [simp]: "xRegB (XK_Create d) = xRegB d" "SectorIdx (XK_Create d) = SectorIdx d"
    "xkSectorSize (XK_Create d) = xkSectorSize d" "xaSectorCnt (XK_Create a) = xaSectorCnt a"
    "xRegA (XK_Create d) = xRegA d" "xRegC (XK_Create d) = xRegC d"
    "XK_Create (d\<lparr>xkWrites := w\<rparr>) = (XK_Create d)\<lparr>xkWrites := w\<rparr>"
    "XK_Create (d\<lparr>xkReads := w\<rparr>) = (XK_Create d)\<lparr>xkReads := w\<rparr>"
  by (auto simp: XK_Create_def SectorIdx_def split: option.split)

lemma SectorIdx_simps [simp]: "SectorIdx (d\<lparr>xkWrites := w\<rparr>) = SectorIdx d" "SectorIdx (d\<lparr>xkReads := w\<rparr>) = SectorIdx d"
    "SectorIdx (d\<lparr>xkImage := f\<rparr>) = SectorIdx d" "SectorIdx (d\<lparr>xRegB := r\<rparr>) = SectorIdx d"
    "SectorIdx (d\<lparr>xRegA := r\<rparr>) = SectorIdx d" "SectorIdx (d\<lparr>xRegC := r\<rparr>) = SectorIdx d"
    "SectorIdx (d\<lparr>xDone := b\<rparr>) = SectorIdx d" "SectorIdx (d\<lparr>xBusy := b\<rparr>) = SectorIdx d"
    "SectorIdx (d\<lparr>xInterruptActive := b\<rparr>) = SectorIdx d"
  by (simp_all add: SectorIdx_def)

lemma XA_write_result:
  assumes "xRegC d = 8" "xkImage (XK_Create d) = Some f" "XA_offset d \<le> length f"
  shows "\<exists>d' e'. XA_Control 1 (d, e) = (Inr (), (d', e')) \<and> xDone d' \<and> \<not> xBusy d' \<and> xInterruptActive d' \<and>
    xkImage d' = Some (file_write (XA_offset d) (parcel_bytes (xRegB d) (eeIoMemory e) (XA_words d)) f) \<and>
    XA_offset d' = XA_offset d \<and> XA_words d' = XA_words d \<and> eeIoMemory e' = eeIoMemory e"
proof -
  let ?u = "(XK_Create d)\<lparr>xkWrites := xkWrites (XK_Create d) + of_nat (xaSectorCnt d * xkSectorSize d div 1024)\<rparr>"
  have "xkImage ?u = Some f" "xkWrites (XK_Create d) = xkWrites d"
    using assms(2) by (simp_all add: XK_Create_def split: option.split)
  with XK_write_loop[of ?u f "XA_offset d" "XA_words d" e] assms(1,3) show ?thesis
    by (simp add: XA_Control_def XA_Start_def control_clear_def Let_def XK_write_def upd_dev_def bindE_def
        XK_finish_def dev_finish_def SetIntActive_def IntStatusChanged_call_def XA_words_def XA_offset_def
        del: of_nat_mult)
qed

lemma XA_read_result:
  assumes "xRegC d = 0" "xkImage d = Some f" "XA_offset d + 2 * XA_words d \<le> length f"
  shows "\<exists>d' e'. XA_Control 1 (d, e) = (Inr (), (d', e')) \<and> xDone d' \<and> \<not> xBusy d' \<and> xInterruptActive d' \<and>
    eeIoMemory e' = for_loop 0 (XA_words d)
      (\<lambda>j. IoMemWrite16 (unat (xRegB d + of_nat j)) (file_parcel f (XA_offset d + 2 * j))) (eeIoMemory e)"
proof -
  let ?u = "d\<lparr>xkReads := xkReads d + of_nat (xaSectorCnt d * xkSectorSize d div 1024)\<rparr>"
  have "xkImage ?u = Some f" "XK_Create d = d" using assms(2) by (simp_all add: XK_Create_def)
  with XK_read_loop[of ?u f "XA_offset d" "XA_words d" e] assms(1,3) show ?thesis
    by (simp add: XA_Control_def XA_Start_def control_clear_def Let_def XK_read_def upd_dev_def bindE_def
        XK_finish_def dev_finish_def SetIntActive_def IntStatusChanged_call_def XA_words_def XA_offset_def
        del: of_nat_mult)
qed

text \<open>The program's read of the same sectors: a buffer address in B, the command in C.\<close>

definition read_back :: "IopInt \<Rightarrow> IopExpDiskAmpexDM980_c \<Rightarrow> IopExpDiskAmpexDM980_c" where
  "read_back b d = XA_SetRegC 0 (d\<lparr>xRegB := b\<rparr>)"

text \<open>C15: What is written to an Ampex disk of the expander is read back. (The other disk of the expander,
  the CDC disk, writes another number of sectors than it reads for the same count; it is not
  meant here.) The write command is started with a buffer
  of at most 65536 words, at sectors that begin within the image, which is created where there
  is none; then a read of the same sectors into a second buffer is started. Both commands end
  with the disk done, not busy and interrupting, the first leaves the memory as it is, and the
  words of the second buffer are those of the first.
\<close>

theorem expander_disk_roundtrip:
  assumes "xRegC d = 8" "xkImage (XK_Create d) = Some f" "XA_offset d \<le> length f" "XA_words d \<le> 2 ^ 16"
  shows "\<exists>d' e' d'' e''. XA_Control 1 (d, e) = (Inr (), (d', e')) \<and> xDone d' \<and> \<not> xBusy d' \<and> xInterruptActive d' \<and>
    eeIoMemory e' = eeIoMemory e \<and>
    XA_Control 1 (read_back b d', e') = (Inr (), (d'', e'')) \<and> xDone d'' \<and> \<not> xBusy d'' \<and> xInterruptActive d'' \<and>
    map (io_parcel b (eeIoMemory e'')) [0..<XA_words d] = map (io_parcel (xRegB d) (eeIoMemory e)) [0..<XA_words d]"
proof -
  let ?ofs = "XA_offset d" and ?n = "XA_words d"
  let ?f = "file_write ?ofs (parcel_bytes (xRegB d) (eeIoMemory e) ?n) f"
  from XA_write_result[OF assms(1-3), of e] obtain d' e' where
    w: "XA_Control 1 (d, e) = (Inr (), (d', e'))" "xDone d'" "\<not> xBusy d'" "xInterruptActive d'"
      "xkImage d' = Some ?f" "XA_offset d' = ?ofs" "XA_words d' = ?n" "eeIoMemory e' = eeIoMemory e" by blast
  let ?r = "read_back b d'"
  have r: "xRegC ?r = 0" "xkImage ?r = Some ?f" "XA_offset ?r = ?ofs" "XA_words ?r = ?n" "xRegB ?r = b"
    using w(5-7) by (simp_all add: read_back_def XA_SetRegC_def Let_def XA_offset_def XA_words_def)
  have len: "?ofs + 2 * ?n \<le> length ?f" by simp
  from XA_read_result[OF r(1,2), of e'] len r(3-5) obtain d'' e'' where
    s: "XA_Control 1 (?r, e') = (Inr (), (d'', e''))" "xDone d''" "\<not> xBusy d''" "xInterruptActive d''"
      "eeIoMemory e'' = for_loop 0 ?n
        (\<lambda>j. IoMemWrite16 (unat (b + of_nat j)) (file_parcel ?f (?ofs + 2 * j))) (eeIoMemory e')" by auto
  have "io_parcel b (eeIoMemory e'') j = io_parcel (xRegB d) (eeIoMemory e) j" if "j < ?n" for j
    unfolding s(5) written_parcels[OF that assms(4)] by (rule parcel_of_written[OF that len])
  then have "map (io_parcel b (eeIoMemory e'')) [0..<?n] = map (io_parcel (xRegB d) (eeIoMemory e)) [0..<?n]"
    by simp
  with w s show ?thesis by blast
qed

text \<open>A small disk without an image, told to write two sectors of four words.\<close>

definition sample_ampex :: IopExpDiskAmpexDM980_c where
  "sample_ampex = \<lparr>xRegA = 0, xRegB = 0x100, xRegC = 8, xBusy = False, xDone = True, xInterruptEnabled = True,
     xInterruptActive = False, xkNumHeads = 2, xkNumSectors = 3, xkNumTracks = 2, xkSectorSize = 8, xkTrack = 1,
     xkHead = 0, xkStartSector = 1, xkReads = 0, xkWrites = 0, xkImage = None, xaSectorCnt = 2\<rparr>"

definition sample_env :: exp_env where
  "sample_env = \<lparr>eeIoMemory = (\<lambda>a. of_nat (a mod 251)),
     eeNow = \<lparr>htYear = 2019, htMonth = 7, htDay = 4, htHours = 16, htMinutes = 5, htSeconds = 9\<rparr>, eeNotified = False\<rparr>"

theorem expander_disk_roundtrip_witness:
  "\<exists>d e. XA_Control 1 (read_back 0x400 (fst (snd (XA_Control 1 (sample_ampex, sample_env)))),
      snd (snd (XA_Control 1 (sample_ampex, sample_env)))) = (Inr (), (d, e)) \<and>
    map (io_parcel 0x400 (eeIoMemory e)) [0..<8] = map (io_parcel 0x100 (eeIoMemory sample_env)) [0..<8]"
proof -
  have n: "XA_words sample_ampex = 8" "xRegB sample_ampex = 0x100" by (simp_all add: XA_words_def sample_ampex_def)
  obtain f where f: "xkImage (XK_Create sample_ampex) = Some f" "length f = 96"
    by (auto simp: sample_ampex_def XK_Create_def)
  have "xRegC sample_ampex = 8" "XA_offset sample_ampex \<le> length f" "XA_words sample_ampex \<le> 2 ^ 16"
    by (simp_all add: f n) (simp_all add: sample_ampex_def XA_offset_def SectorIdx_def)
  from expander_disk_roundtrip[OF this(1) f(1) this(2,3), of sample_env "0x400"] n show ?thesis by auto
qed

text \<open>
  The count of a CDC disk is the negative number of sectors in six bits. A read takes it as that;
  a write takes the six bits as they are, so that a write of \<open>k\<close> sectors transfers \<open>64 - k\<close>.
\<close>

theorem cdc_write_count:
  assumes "1 \<le> k" "k \<le> 32" "xsSectorCnt d = of_nat (64 - k)"
  shows "XS_bytes d = of_nat (xkSectorSize d * (64 - k)) \<and>
    XS_bytes (xsSectorCnt_update XS_adjust_count d) = of_nat (xkSectorSize d * k)"
proof -
  have "list_all (\<lambda>k. (scast (of_nat (64 - k) :: 32 word) :: uint64) = of_nat (64 - k) \<and>
      scast (XS_adjust_count (of_nat (64 - k))) = (of_nat k :: uint64)) [1..<33]"
    by (simp add: upt_rec XS_adjust_count_def)
  then have "\<forall>k\<in>{1..<33}. (scast (of_nat (64 - k) :: 32 word) :: uint64) = of_nat (64 - k) \<and>
      scast (XS_adjust_count (of_nat (64 - k))) = (of_nat k :: uint64)"
    by (simp only: list_all_iff set_upt)
  moreover have "k \<in> {1..<33}" using assms(1,2) by simp
  ultimately show ?thesis using assms(3) by (simp add: XS_bytes_def)
qed

section \<open>Printer\<close>

text \<open>The number of words that register B counts, and what they print.\<close>

definition print_count :: "IopExpPrinterDevice_c \<Rightarrow> nat" where
  "print_count d = unat (- xRegB d)"

lemma XP_print_result:
  "XP_print m d = d\<lparr>xRegB := 0, xRegC := xRegC d + of_nat (print_count d), xpWrites := xpWrites d + of_nat (print_count d),
     xpPrintFile := xpPrintFile d @
       concat (map (\<lambda>j. print_word (xpInGraphicsMode d) (io_parcel (xRegC d) m j)) [0..<print_count d])\<rparr>"
proof (induction m d rule: XP_print.induct)
  case (1 m d)
  show ?case
  proof (cases "xRegB d = 0")
    case True
    then show ?thesis by (subst XP_print.simps) (simp add: print_count_def)
  next
    case False
    let ?d = "(print_bytes (print_word (xpInGraphicsMode d) (IoMemRead16 (unat (xRegC d)) m)) d)
        \<lparr>xpWrites := xpWrites d + 1, xRegC := xRegC d + 1, xRegB := xRegB d + 1\<rparr>"
    have "unat (- xRegB d) > 0" using False by (simp add: unat_gt_0)
    then have "unat (- xRegB d) = Suc (unat (- xRegB d - 1))"
      using False by (simp add: unat_minus_one)
    then have n: "print_count d = Suc (print_count ?d)" by (simp add: print_count_def print_bytes_def)
    have words: "map (\<lambda>j. print_word g (io_parcel a m j)) [0..<Suc k] =
        print_word g (IoMemRead16 (unat a) m) # map (\<lambda>j. print_word g (io_parcel (a + 1) m j)) [0..<k]" for g a k
    proof -
      have "map h [0..<Suc k] = h 0 # map (\<lambda>j. h (Suc j)) [0..<k]" for h :: "nat \<Rightarrow> uint8 list"
        by (simp add: upt_conv_Cons map_Suc_upt[symmetric] comp_def del: upt_Suc)
      from this[of "\<lambda>j. print_word g (io_parcel a m j)"] show ?thesis
        by (simp add: io_parcel_def add.assoc del: upt_Suc)
    qed
    have step: "XP_print m d = XP_print m ?d" by (subst XP_print.simps) (simp add: False)
    show ?thesis
      unfolding step 1[OF False] n words by (simp add: print_bytes_def add_ac)
  qed
qed

text \<open>
  Register C starts a print of the words at its address, as many as the negative number in B;
  the printer is done with an interrupt, B is zero and C is behind the last word.
\<close>

theorem printer_prints:
  "\<exists>d' e'. XP_SetRegC a (d, e) = (d', e') \<and> xDone d' \<and> \<not> xBusy d' \<and> xInterruptActive d' \<and> xpStatus d' = 0x4000 \<and>
    xRegB d' = 0 \<and> xRegC d' = a + of_nat (print_count d) \<and>
    xpPrintFile d' = xpPrintFile d @
      concat (map (\<lambda>j. print_word (xpInGraphicsMode d) (io_parcel a (eeIoMemory e) j)) [0..<print_count d])"
  by (simp add: XP_SetRegC_def XP_print_result dev_finish_def upd_dev_def SetIntActive_def IntStatusChanged_call_def
      print_count_def)

section \<open>Clock\<close>

text \<open>The program's side: a byte is put into register A and started; an answer is read byte by byte.\<close>

fun clock_send :: "nat \<Rightarrow> uint8 list \<Rightarrow> unit clock_exec" where
  "clock_send i [] s = (Inr (), s)"
| "clock_send i (b # bs) s =
     bindE (XC_SetRegA i (ucast b)) (\<lambda>_. bindE (XC_Control i Control_Start) (\<lambda>_. clock_send i bs)) s"

fun clock_ticks :: "nat \<Rightarrow> unit clock_exec" where
  "clock_ticks 0 s = (Inr (), s)"
| "clock_ticks (Suc n) s = bindE XC_Tick (\<lambda>_. clock_ticks n) s"

fun clock_reads :: "nat \<Rightarrow> nat \<Rightarrow> IopInt list clock_exec" where
  "clock_reads i 0 s = (Inr [], s)"
| "clock_reads i (Suc n) s = bindE (XC_GetRegA i) (\<lambda>w. bindE (clock_reads i n) (\<lambda>ws. returnE (w # ws))) s"

text \<open>The device after a byte: it is appended to the request, and a carriage return answers the request.\<close>

definition clock_take :: "nat \<Rightarrow> uint8 \<Rightarrow> host_time \<Rightarrow> IopExpClockDevice_c \<Rightarrow> IopExpClockDevice_c" where
  "clock_take i b now d =
     (let d = d\<lparr>xRegA := ucast b, xcInterruptActive := (xcInterruptActive d)(i := True)\<rparr> in
      if b = 0x0d
      then d\<lparr>xcRequest := [], xcResponse := clock_answer (xcRequest d) (xcYearLimit d) now, xcResponseTimer := 1\<rparr>
      else d\<lparr>xcRequest := xcRequest d @ [b]\<rparr>)"

lemma send_byte:
  assumes "i < 64"
  shows "clock_send i (b # bs) (d, e) = clock_send i bs (clock_take i b (eeNow e) d, IntStatusChanged_call e)"
proof -
  have b: "ucast (ucast b AND 0xff :: IopInt) = b" by (rule bit_word_eqI) (simp add: bit_simps)
  show ?thesis
    using assms b
    by (cases d) (simp add: XC_SetRegA_def XC_Control_def XC_start_def XC_SetIntActive_def upd_dev_def ProcessRequest_def
        bindE_def returnE_def IntStatusChanged_call_def Let_def clock_take_def)
qed

lemma send_request:
  assumes "i < 64" "0x0d \<notin> set req"
  shows "\<exists>d' e'. clock_send i (req @ [0x0d]) (d, e) = (Inr (), (d', e')) \<and>
    xcResponse d' = clock_answer (xcRequest d @ req) (xcYearLimit d) (eeNow e) \<and> xcResponseTimer d' = 1 \<and>
    xcRequest d' = [] \<and> xcResponseChannelIdx d' = xcResponseChannelIdx d \<and> xcResponseTimeout d' = xcResponseTimeout d"
  using assms(2)
proof (induction req arbitrary: d e)
  case Nil
  show ?case by (simp only: append_Nil send_byte[OF assms(1)]) (simp add: clock_take_def)
next
  case (Cons b req)
  from Cons.IH[of "clock_take i b (eeNow e) d" "IntStatusChanged_call e"] Cons.prems show ?case
    by (simp only: append_Cons send_byte[OF assms(1)]) (simp add: clock_take_def IntStatusChanged_call_def)
qed

text \<open>The response timer runs out after as many ticks as it has left, at least one.\<close>

lemma ticks_respond:
  assumes "xcResponseChannelIdx d < 64" "0 < xcResponseTimer d" "unat (xcResponseTimer d) < 2 ^ 64 - 1"
    "unat (xcResponseTimeout d) < 2 ^ 64 - 1"
    "n = max 1 (Suc (unat (xcResponseTimeout d)) - unat (xcResponseTimer d))"
  shows "\<exists>d' e'. clock_ticks n (d, e) = (Inr (), (d', e')) \<and> xcResponse d' = xcResponse d \<and>
    xcRequest d' = xcRequest d \<and> xcResponseTimer d' = 0 \<and> xcResponseChannelIdx d' = xcResponseChannelIdx d \<and>
    xcInterruptActive d' = (xcInterruptActive d)(xcResponseChannelIdx d := True)"
  using assms
proof (induction n arbitrary: d)
  case 0
  then show ?case by simp
next
  case (Suc n)
  have u: "unat (xcResponseTimer d + 1) = Suc (unat (xcResponseTimer d))"
    using Suc.prems(3) by (simp add: unat_word_ariths)
  show ?case
  proof (cases "unat (xcResponseTimer d) < unat (xcResponseTimeout d)")
    case True
    let ?d = "d\<lparr>xcResponseTimer := xcResponseTimer d + 1\<rparr>"
    have "XC_Tick (d, e) = (Inr (), (?d, e))"
      using True Suc.prems(2) by (simp add: XC_Tick_def upd_dev_def Let_def word_less_nat_alt u)
    moreover have "n = max 1 (Suc (unat (xcResponseTimeout ?d)) - unat (xcResponseTimer ?d))"
      using Suc.prems(5) True by (simp add: u)
    moreover have "0 < xcResponseTimer ?d" "unat (xcResponseTimer ?d) < 2 ^ 64 - 1"
      using True Suc.prems(4) by (simp_all add: word_less_nat_alt u)
    ultimately show ?thesis
      using Suc.IH[of ?d] Suc.prems(1,4) by (auto simp: bindE_def)
  next
    case False
    then have "n = 0" using Suc.prems(5) by simp
    moreover have "xcResponseTimer d + 1 > xcResponseTimeout d" using False by (simp add: word_less_nat_alt u)
    ultimately show ?thesis
      using Suc.prems(1,2) by (auto simp: bindE_def XC_Tick_def upd_dev_def XC_SetIntActive_def)
  qed
qed

text \<open>The answer is read byte by byte.\<close>

lemma reads_answer:
  assumes "i < 64" "xcResponseChannelIdx d = i"
  shows "\<exists>d' e'. clock_reads i (length (xcResponse d)) (d, e) = (Inr (map ucast (xcResponse d)), (d', e')) \<and> xcResponse d' = []"
  using assms
proof (induction "xcResponse d" arbitrary: d e)
  case Nil
  then show ?case by (simp add: Nil.hyps[symmetric] returnE_def)
next
  case (Cons b bs)
  let ?d = "d\<lparr>xcResponse := bs, xcInterruptActive := (xcInterruptActive d)(i := True)\<rparr>"
  have get: "XC_GetRegA i (d, e) = (Inr (ucast b), (?d, IntStatusChanged_call e))"
    using Cons.prems by (simp add: XC_GetRegA_def Cons.hyps(2)[symmetric] XC_SetIntActive_def upd_dev_def bindE_def returnE_def)
  from Cons.hyps(1)[of ?d "IntStatusChanged_call e"] Cons.prems show ?case
    by (auto simp: Cons.hyps(2)[symmetric] bindE_def get returnE_def)
qed

text \<open>C16: Clock requests are answered. A request sent byte by byte on any of the 64 channels to a clock
  that has no part of another request, and ended with a
  carriage return, makes the clock raise its interrupt on the response channel after its
  response timeout; reading register A on that channel then gives the bytes of the answer to
  the request, one after the other, and leaves no answer behind. The answers are the time in six
  digits to ATRT, the date to ATRD, and a zero to everything else. The date has the six digits
  of the protocol comment, YYMMDD, only when YearLimit is on; when it is off, the year has all
  its four digits, and the answer eight.
\<close>

theorem clock_answers:
  assumes "i < 64" "0x0d \<notin> set req" "xcResponseChannelIdx d < 64" "unat (xcResponseTimeout d) < 2 ^ 64 - 1" "xcRequest d = []"
  shows "\<exists>s1 s2 s3. clock_send i (req @ [0x0d]) (d, e) = (Inr (), s1) \<and>
    clock_ticks (max 1 (unat (xcResponseTimeout d))) s1 = (Inr (), s2) \<and>
    xcInterruptActive (fst s2) (xcResponseChannelIdx d) \<and>
    clock_reads (xcResponseChannelIdx d) (length (clock_answer req (xcYearLimit d) (eeNow e))) s2 =
      (Inr (map ucast (clock_answer req (xcYearLimit d) (eeNow e))), s3) \<and>
    xcResponse (fst s3) = [] \<and> xcRequest (fst s2) = []"
proof -
  obtain d1 e1 where send: "clock_send i (req @ [0x0d]) (d, e) = (Inr (), (d1, e1))"
    and d1: "xcResponse d1 = clock_answer req (xcYearLimit d) (eeNow e)" "xcResponseTimer d1 = 1" "xcRequest d1 = []"
      "xcResponseChannelIdx d1 = xcResponseChannelIdx d" "xcResponseTimeout d1 = xcResponseTimeout d"
    using send_request[OF assms(1,2), of d e] by (auto simp: assms(5))
  obtain d2 e2 where ticks: "clock_ticks (max 1 (unat (xcResponseTimeout d))) (d1, e1) = (Inr (), (d2, e2))"
    and d2: "xcResponse d2 = xcResponse d1" "xcRequest d2 = []" "xcResponseChannelIdx d2 = xcResponseChannelIdx d1"
      "xcInterruptActive d2 (xcResponseChannelIdx d)"
    using ticks_respond[of d1 "max 1 (unat (xcResponseTimeout d))" e1] assms(3,4) d1 by auto
  have "xcResponseChannelIdx d2 = xcResponseChannelIdx d" using d1 d2 by simp
  from reads_answer[OF assms(3) this, of e2] d1 d2 obtain s3 where
    "clock_reads (xcResponseChannelIdx d) (length (clock_answer req (xcYearLimit d) (eeNow e))) (d2, e2) =
      (Inr (map ucast (clock_answer req (xcYearLimit d) (eeNow e))), s3)" "xcResponse (fst s3) = []"
    by auto
  with send ticks d2 show ?thesis
    by (intro exI[of _ "(d1, e1)"] exI[of _ "(d2, e2)"] exI[of _ s3]) simp
qed

text \<open>The time of day: ATRT is answered with 160509 and a carriage return.\<close>

definition sample_time :: host_time where
  "sample_time = \<lparr>htYear = 2019, htMonth = 7, htDay = 4, htHours = 16, htMinutes = 5, htSeconds = 9\<rparr>"

definition sample_clock :: IopExpClockDevice_c where
  "sample_clock = XC_new 0 1 0 100 True"

lemma sample_clock [simp]:
  "xcResponseChannelIdx sample_clock = 0" "xcYearLimit sample_clock" "xcResponseTimeout sample_clock = 100"
  "xcRequest sample_clock = []"
  by (simp_all add: sample_clock_def XC_new_def)

definition sample_exp_env :: exp_env where
  "sample_exp_env = \<lparr>eeIoMemory = \<lambda>_. 0, eeNow = sample_time, eeNotified = False\<rparr>"

theorem clock_answers_witness:
  "\<exists>s1 s2 s3. clock_send 1 (text_bytes ''ATRT'' @ [0x0d]) (sample_clock, sample_exp_env) = (Inr (), s1) \<and>
     clock_ticks 100 s1 = (Inr (), s2) \<and> xcInterruptActive (fst s2) 0 \<and>
     clock_reads 0 7 s2 = (Inr (map ucast (text_bytes ''160509'' @ [0x0d])), s3) \<and>
     xcResponse (fst s3) = [] \<and> xcRequest (fst s2) = []"
proof -
  have "clock_answer (text_bytes ''ATRT'') True sample_time = text_bytes ''160509'' @ [0x0d]" by code_simp
  then have answer: "clock_answer (text_bytes ''ATRT'') (xcYearLimit sample_clock) (eeNow sample_exp_env) =
      text_bytes ''160509'' @ [0x0d]"
    by (simp only: sample_clock if_True sample_exp_env_def exp_env.select_convs)
  have len: "length (text_bytes ''160509'' @ [0x0d]) = 7" by (simp add: text_bytes_def)
  have max: "max 1 (unat (xcResponseTimeout sample_clock)) = 100" by simp
  have "0x0d \<notin> set (text_bytes ''ATRT'')" by code_simp
  from clock_answers[of 1 "text_bytes ''ATRT''" sample_clock sample_exp_env, OF _ this] show ?thesis
    unfolding answer len max sample_clock(1) by simp
qed

section \<open>Interrupt number zero\<close>

text \<open>
  The set-up refuses an interrupt number that a channel with a device has. A new device is
  entered before the check and has the number zero until it gets its own, so a device with the
  interrupt number zero is always refused.
\<close>

lemma check_interrupt_refuses:
  assumes "c < length (exDevices ch)" "exDevices ch ! c \<noteq> None" "c < length (exDeviceIntMapping ch)"
    "exDeviceIntMapping ch ! c = n"
  shows "Exp_check_interrupt n ch = (Inl InvalidParameterError, ch)"
proof -
  let ?f = "\<lambda>i ch. if exDeviceIntMapping ch ! i = n then
      if \<not> i < length (exDevices ch) then (Inl UndefinedBehaviour, ch)
      else if exDevices ch ! i \<noteq> None then (Inl InvalidParameterError, ch) else (Inr (), ch)
    else (Inr (), ch)"
  have indices: "[0..<length (exDeviceIntMapping ch)] = [0..<c] @ c # [Suc c..<length (exDeviceIntMapping ch)]"
    using assms(3) by (metis less_imp_le_nat upt_add_eq_append upt_conv_Cons le0 le_add_diff_inverse)
  have "k \<le> c \<Longrightarrow> forE [0..<k] ?f ch \<in> {(Inr (), ch), (Inl InvalidParameterError, ch)}" for k
  proof (induction k)
    case (Suc k)
    then show ?case using assms(1) by (auto simp: forE_append)
  qed simp
  from this[of c] have "forE [0..<c] ?f ch = (Inr (), ch) \<or> forE [0..<c] ?f ch = (Inl InvalidParameterError, ch)"
    by simp
  moreover have "?f c ch = (Inl InvalidParameterError, ch)" using assms by simp
  ultimately show ?thesis
    unfolding Exp_check_interrupt_def indices forE_append by (elim disjE) simp_all
qed

theorem setup_rejects_interrupt_zero:
  assumes "c < DeviceCount" "c < 64" "Dev_channels c d = [c]"
  shows "fst (Exp_Setup DeviceCount ((d, c, 0) # devices) dummies s) = Inl InvalidParameterError"
proof -
  let ?ch = "(expChannel s)\<lparr>exDevices := replicate DeviceCount None, exDeviceIntMapping := replicate 64 0\<rparr>"
  let ?ch' = "?ch\<lparr>exUnits := exUnits ?ch @ [d], exDevices := (exDevices ?ch)[c := Some (length (exUnits ?ch))]\<rparr>"
  have "Exp_check_interrupt 0 ?ch' = (Inl InvalidParameterError, ?ch')"
    using assms by (intro check_interrupt_refuses[of c]) auto
  then have "Exp_add_device (d, c, 0) ?ch = (Inl InvalidParameterError, ?ch')"
    using assms by (simp add: Exp_add_device_def Exp_claim_def bindE_def)
  then show ?thesis by (simp add: Exp_Setup_def)
qed

end
