(* ===== verification/Iop_Concentrator.thy ===== *)
theory Iop_Concentrator
  imports Iop_Devices
begin

text \<open>
  The concentrator, which couples an I/O processor to a front-end computer over a TCP
  connection: classes \<open>IopConcentrator_c\<close> and \<open>IopConcentratorChannel_c\<close> of
  \<^verbatim>\<open>sim_lib/iop_concentrator.h\<close> and \<^verbatim>\<open>.cpp\<close>. The bytes of a connection are a stream of
  messages, each a packet of six words, the LCP, and the subsegments that the LCP announces,
  every one of them behind its length in bytes. The socket is the environment: what completes
  on it is an event that \<open>Poll\<close> hands to the handlers, and what is written to it is the list
  \<open>cnSent\<close>. Listening for connections and logging are left out.
\<close>

section \<open>State\<close>

datatype RcvStates_e = State_RcvLcpPduLength | State_RcvLcpPduContent | State_RcvSegPduLength | State_RcvSegPduContent

datatype XmtStates_e = State_XmtLcpPduStart | State_XmtLcpPduContent | State_XmtSegPduStart | State_XmtSegPduContent

abbreviation (input) BytesPerLCP :: nat where "BytesPerLCP \<equiv> 48"
abbreviation (input) MaxTransmitBufs :: nat where "MaxTransmitBufs \<equiv> 16"
abbreviation (input) McLogon :: uint8 where "McLogon \<equiv> 1"
abbreviation (input) McStart :: uint8 where "McStart \<equiv> 4"

record IopConcentrator_c =
  cnAccepted :: bool
  cnBytesTransmitted :: uint64
  cnFromCrayData :: "uint64 list"
  cnLastRcvdMessageCode :: uint8
  cnLastXmitMessageCode :: uint8
  cnPduLength :: uint64
  cnPollCnt :: uint64
  cnReceiveBuf :: "uint8 list"
  cnRcvState :: RcvStates_e
  cnSegmentSize :: uint64
  cnSubsegmentCount :: uint64
  cnToCrayData :: "uint64 list"
  cnToCrayIdx :: nat
  cnTransmitBufIdx :: nat
  cnTransmitBufs :: "uint8 list list"
  cnXmtState :: XmtStates_e
  cnSent :: "uint8 list"

type_synonym 'a cn_exec = "(IopConcentrator_c, 'a) exec"

section \<open>Connection\<close>

definition ClearReceiveBuffers :: "IopConcentrator_c \<Rightarrow> IopConcentrator_c" where
  "ClearReceiveBuffers s = s\<lparr>cnToCrayData := [], cnToCrayIdx := 0, cnReceiveBuf := []\<rparr>"

definition ClearTransmitBuffers :: "IopConcentrator_c \<Rightarrow> IopConcentrator_c" where
  "ClearTransmitBuffers s = s\<lparr>cnFromCrayData := [], cnTransmitBufIdx := 0\<rparr>"

definition ClearBuffers :: "IopConcentrator_c \<Rightarrow> IopConcentrator_c" where
  "ClearBuffers s = ClearTransmitBuffers (ClearReceiveBuffers s)"

definition CloseConnSocket :: "IopConcentrator_c \<Rightarrow> IopConcentrator_c" where
  "CloseConnSocket s = (if cnAccepted s then s\<lparr>cnAccepted := False\<rparr> else s)"

definition CN_MasterClear :: "IopConcentrator_c \<Rightarrow> IopConcentrator_c" where
  "CN_MasterClear s = (ClearBuffers (CloseConnSocket s))
     \<lparr>cnRcvState := State_RcvLcpPduLength, cnPduLength := 0, cnXmtState := State_XmtLcpPduStart,
      cnBytesTransmitted := 0, cnSegmentSize := 0\<rparr>"

text \<open>
  A new concentrator. The constructor leaves \<open>mPollCnt\<close> and \<open>mSubsegmentCount\<close> without a
  value; they are arguments here.
\<close>

definition CN_new :: "uint64 \<Rightarrow> uint64 \<Rightarrow> IopConcentrator_c" where
  "CN_new PollCnt SubsegmentCount = CN_MasterClear
     \<lparr>cnAccepted = False, cnBytesTransmitted = 0, cnFromCrayData = [], cnLastRcvdMessageCode = 0,
      cnLastXmitMessageCode = 0, cnPduLength = 0, cnPollCnt = PollCnt, cnReceiveBuf = [],
      cnRcvState = State_RcvLcpPduLength, cnSegmentSize = 0, cnSubsegmentCount = SubsegmentCount,
      cnToCrayData = [], cnToCrayIdx = 0, cnTransmitBufIdx = 0,
      cnTransmitBufs = replicate MaxTransmitBufs [], cnXmtState = State_XmtLcpPduStart, cnSent = []\<rparr>"

text \<open>The handlers of the socket: \<open>AcceptHandler\<close>, \<open>ReadHandler\<close> and \<open>WriteHandler\<close>.\<close>

datatype net_event = NetAccept bool | NetRead "uint8 list option" | NetWritten bool

fun net_handler :: "net_event \<Rightarrow> IopConcentrator_c \<Rightarrow> IopConcentrator_c" where
  "net_handler (NetAccept ok) s = (if ok then ClearBuffers (s\<lparr>cnAccepted := True\<rparr>) else CloseConnSocket s)"
| "net_handler (NetRead None) s = CloseConnSocket s"
| "net_handler (NetRead (Some bs)) s = s\<lparr>cnReceiveBuf := cnReceiveBuf s @ bs\<rparr>"
| "net_handler (NetWritten ok) s = (if ok then s else CloseConnSocket s)"

definition Poll :: "net_event list \<Rightarrow> IopConcentrator_c \<Rightarrow> IopConcentrator_c" where
  "Poll evs s = fold net_handler evs s"

section \<open>Reception\<close>

text \<open>The length of a packet is an \<open>int\<close> of four bytes, widened to \<open>size_t\<close>.\<close>

definition pdu_length :: "uint8 list \<Rightarrow> uint64" where
  "pdu_length data = scast (push_bit 24 (ucast (data ! 0)) OR push_bit 16 (ucast (data ! 1)) OR
     push_bit 8 (ucast (data ! 2)) OR ucast (data ! 3) :: 32 word)"

definition be_word :: "uint8 list \<Rightarrow> uint64" where
  "be_word bs = fold (\<lambda>b word. push_bit 8 word OR ucast b) bs 0"

text \<open>
  The loop over the words of a packet: it ends where the length is zero, and reads behind the
  buffer where the length is no multiple of eight.
\<close>

function take_words :: "uint64 \<Rightarrow> uint8 list \<Rightarrow> (uint64 list \<times> uint8 list) option" where
  "take_words n data =
     (if n = 0 then Some ([], data)
      else if length data < 8 then None
      else map_option (\<lambda>(ws, rest). (be_word (take 8 data) # ws, rest)) (take_words (n - 8) (drop 8 data)))"
  by pat_completeness auto
termination by (relation "measure (\<lambda>(n, data). length data)") auto

declare take_words.simps [simp del]

definition rcv_words :: "unit cn_exec" where
  "rcv_words s =
     (case take_words (cnPduLength s) (cnReceiveBuf s) of
        None \<Rightarrow> (Inl UndefinedBehaviour, s)
      | Some (ws, rest) \<Rightarrow>
          (Inr (), s\<lparr>cnToCrayData := cnToCrayData s @ ws, cnReceiveBuf := rest, cnPduLength := 0\<rparr>))"

definition rcv_length :: "RcvStates_e \<Rightarrow> IopConcentrator_c \<Rightarrow> IopConcentrator_c" where
  "rcv_length next_state s = s\<lparr>cnPduLength := pdu_length (cnReceiveBuf s), cnReceiveBuf := drop 4 (cnReceiveBuf s),
     cnRcvState := next_state\<rparr>"

definition rcv_next :: "IopConcentrator_c \<Rightarrow> IopConcentrator_c" where
  "rcv_next s = s\<lparr>cnRcvState := (if cnSubsegmentCount s > 0 then State_RcvSegPduLength else State_RcvLcpPduLength)\<rparr>"

text \<open>\<open>data[i]\<close> behind the bytes that have been received is undefined.\<close>

definition rcv_lcp :: "unit cn_exec" where
  "rcv_lcp s =
     (let data = cnReceiveBuf s in
      if \<not> 6 < length data then (Inl UndefinedBehaviour, s)
      else bindE rcv_words (\<lambda>_ s. (Inr (), rcv_next s))
        (s\<lparr>cnSubsegmentCount := ucast (data ! 4), cnLastRcvdMessageCode := data ! 6\<rparr>))"

definition rcv_logon :: "IopConcentrator_c \<Rightarrow> IopConcentrator_c" where
  "rcv_logon s =
     (if cnLastRcvdMessageCode s = McLogon
      then s\<lparr>cnSegmentSize := (push_bit 8 (ucast (cnReceiveBuf s ! 6)) OR ucast (cnReceiveBuf s ! 7)) * 8\<rparr> else s)"

definition rcv_segment :: "unit cn_exec" where
  "rcv_segment s =
     (if cnLastRcvdMessageCode s = McLogon \<and> \<not> 7 < length (cnReceiveBuf s) then (Inl UndefinedBehaviour, s)
      else bindE rcv_words (\<lambda>_ s. (Inr (), rcv_next (s\<lparr>cnSubsegmentCount := cnSubsegmentCount s - 1\<rparr>))) (rcv_logon s))"

text \<open>One turn of the loop of \<open>ProcessReceivedBytes\<close>; it is false where the function returns.\<close>

definition rcv_step :: "bool cn_exec" where
  "rcv_step s =
     (let size = length (cnReceiveBuf s) in
      case cnRcvState s of
        State_RcvLcpPduLength \<Rightarrow> if size < 4 then (Inr False, s) else (Inr True, rcv_length State_RcvLcpPduContent s)
      | State_RcvLcpPduContent \<Rightarrow>
          if size < unat (cnPduLength s) then (Inr False, s) else bindE rcv_lcp (\<lambda>_. returnE True) s
      | State_RcvSegPduLength \<Rightarrow> if size < 4 then (Inr False, s) else (Inr True, rcv_length State_RcvSegPduContent s)
      | State_RcvSegPduContent \<Rightarrow>
          if size < unat (cnPduLength s) then (Inr False, s) else bindE rcv_segment (\<lambda>_. returnE True) s)"

definition in_content :: "IopConcentrator_c \<Rightarrow> nat" where
  "in_content s = (if cnRcvState s = State_RcvLcpPduContent \<or> cnRcvState s = State_RcvSegPduContent then 1 else 0)"

lemma take_words_rest: "take_words n data = Some (ws, rest) \<Longrightarrow> length rest \<le> length data"
proof (induction n data arbitrary: ws rest rule: take_words.induct)
  case (1 n data)
  show ?case
  proof (cases "n = 0 \<or> length data < 8")
    case True
    with 1(2) show ?thesis by (subst (asm) take_words.simps) (auto split: if_splits)
  next
    case False
    with 1(2) obtain ws' where "take_words (n - 8) (drop 8 data) = Some (ws', rest)"
      by (subst (asm) take_words.simps) auto
    from 1(1)[OF _ _ this] False show ?thesis by simp
  qed
qed

lemma rcv_words_buffer: "rcv_words s = (Inr x, t) \<Longrightarrow> length (cnReceiveBuf t) \<le> length (cnReceiveBuf s)"
  by (auto simp: rcv_words_def take_words_rest split: option.splits prod.splits)

lemma rcv_next_simps [simp]:
  "cnReceiveBuf (rcv_next s) = cnReceiveBuf s" "in_content (rcv_next s) = 0"
  by (auto simp: rcv_next_def in_content_def)

lemma rcv_step_decreases:
  assumes "rcv_step s = (Inr True, t)"
  shows "2 * length (cnReceiveBuf t) + in_content t < 2 * length (cnReceiveBuf s) + in_content s"
proof (cases "cnRcvState s")
  case State_RcvLcpPduContent
  with assms obtain u where
    "rcv_words (s\<lparr>cnSubsegmentCount := ucast (cnReceiveBuf s ! 4), cnLastRcvdMessageCode := cnReceiveBuf s ! 6\<rparr>) = (Inr (), u)"
    "t = rcv_next u"
    by (auto simp: rcv_step_def rcv_lcp_def bindE_def returnE_def Let_def split: if_splits prod.splits sum.splits)
  from rcv_words_buffer[OF this(1)] this(2) State_RcvLcpPduContent show ?thesis
    by (simp add: in_content_def[of s])
next
  case State_RcvSegPduContent
  with assms obtain v where
    "rcv_words (rcv_logon s) = (Inr (), v)" "t = rcv_next (v\<lparr>cnSubsegmentCount := cnSubsegmentCount v - 1\<rparr>)"
    by (auto simp: rcv_step_def rcv_segment_def bindE_def returnE_def split: if_splits prod.splits sum.splits)
  from rcv_words_buffer[OF this(1)] this(2) State_RcvSegPduContent show ?thesis
    by (simp add: in_content_def[of s] rcv_logon_def split: if_splits)
qed (use assms in \<open>auto simp: rcv_step_def rcv_length_def in_content_def split: if_splits\<close>)

function ProcessReceivedBytes :: "unit cn_exec" where
  "ProcessReceivedBytes s =
     (if cnReceiveBuf s = [] then (Inr (), s)
      else
        (case rcv_step s of
           (Inl e, s') \<Rightarrow> (Inl e, s')
         | (Inr b, s') \<Rightarrow> if b then ProcessReceivedBytes s' else (Inr (), s')))"
  by pat_completeness auto
termination
proof (relation "measure (\<lambda>s. 2 * length (cnReceiveBuf s) + in_content s)", goal_cases)
  case (2 s r s' b)
  then have "rcv_step s = (Inr True, s')" by auto
  from rcv_step_decreases[OF this] show ?case by simp
qed simp

declare ProcessReceivedBytes.simps [simp del]

definition CN_GetData :: "IopConcentrator_c \<Rightarrow> uint64 \<times> IopConcentrator_c" where
  "CN_GetData s =
     (if cnToCrayIdx s < length (cnToCrayData s) then
        (let Data = cnToCrayData s ! cnToCrayIdx s; s = s\<lparr>cnToCrayIdx := cnToCrayIdx s + 1\<rparr> in
         if cnToCrayIdx s \<ge> length (cnToCrayData s) then (Data, s\<lparr>cnToCrayData := [], cnToCrayIdx := 0\<rparr>)
         else (Data, s))
      else (0, s))"

definition HasData :: "IopConcentrator_c \<Rightarrow> bool" where
  "HasData s \<longleftrightarrow> cnToCrayIdx s < length (cnToCrayData s)"

definition IsReceptionComplete :: "IopConcentrator_c \<Rightarrow> bool" where
  "IsReceptionComplete s \<longleftrightarrow> (cnRcvState s = State_RcvLcpPduLength \<or> cnRcvState s = State_RcvSegPduLength) \<and>
     \<not> HasData s \<and> cnPduLength s = 0"

section \<open>Transmission\<close>

definition be_bytes :: "uint64 \<Rightarrow> uint8 list" where
  "be_bytes word = map (\<lambda>b. ucast (drop_bit (56 - 8 * b) word AND 0xff)) [0..<8]"

definition length_bytes :: "uint64 \<Rightarrow> uint8 list" where
  "length_bytes n = [ucast (drop_bit 24 n AND 0xff), ucast (drop_bit 16 n AND 0xff),
     ucast (drop_bit 8 n AND 0xff), ucast (n AND 0xff)]"

definition xmt_next :: "IopConcentrator_c \<Rightarrow> IopConcentrator_c" where
  "xmt_next s = s\<lparr>cnXmtState := (if cnSubsegmentCount s > 0 then State_XmtSegPduStart else State_XmtLcpPduStart)\<rparr>"

text \<open>The two cases of the content, entered with the bytes in front of it.\<close>

definition xmt_lcp :: "uint8 list \<Rightarrow> uint8 list cn_exec" where
  "xmt_lcp header s =
     (case cnFromCrayData s of
        [] \<Rightarrow> (Inl UndefinedBehaviour, s)
      | w # ws \<Rightarrow> (Inr (header @ concat (map be_bytes (w # ws))),
          xmt_next (s\<lparr>cnLastXmitMessageCode := ucast (drop_bit 8 w AND 0xff),
            cnSubsegmentCount := drop_bit 24 w AND 0xff\<rparr>)))"

definition xmt_segment :: "uint8 list \<Rightarrow> uint8 list cn_exec" where
  "xmt_segment header s =
     (let s' = s\<lparr>cnBytesTransmitted := cnBytesTransmitted s + of_nat (length (cnFromCrayData s) * 8)\<rparr>
      in (Inr (header @ concat (map be_bytes (cnFromCrayData s))),
          if cnBytesTransmitted s' \<ge> cnSegmentSize s' \<or> cnLastXmitMessageCode s' = McStart
          then xmt_next (s'\<lparr>cnSubsegmentCount := cnSubsegmentCount s' - 1\<rparr>) else s'))"

definition xmt_bytes :: "uint8 list cn_exec" where
  "xmt_bytes s =
     (case cnXmtState s of
        State_XmtLcpPduStart \<Rightarrow> xmt_lcp (length_bytes (of_nat BytesPerLCP)) (s\<lparr>cnXmtState := State_XmtLcpPduContent\<rparr>)
      | State_XmtLcpPduContent \<Rightarrow> xmt_lcp [] s
      | State_XmtSegPduStart \<Rightarrow>
          xmt_segment
            (length_bytes (if cnLastXmitMessageCode s = McStart then of_nat (length (cnFromCrayData s) * 8)
               else cnSegmentSize s))
            (s\<lparr>cnBytesTransmitted := 0, cnXmtState := State_XmtSegPduContent\<rparr>)
      | State_XmtSegPduContent \<Rightarrow> xmt_segment [] s)"

definition StartTransmit :: "unit cn_exec" where
  "StartTransmit = bindE xmt_bytes (\<lambda>bs s.
     (Inr (), s\<lparr>cnTransmitBufs := (cnTransmitBufs s)[cnTransmitBufIdx s := bs], cnFromCrayData := [],
        cnSent := cnSent s @ bs, cnTransmitBufIdx := (cnTransmitBufIdx s + 1) mod MaxTransmitBufs\<rparr>))"

definition CN_SetData :: "uint64 \<Rightarrow> IopConcentrator_c \<Rightarrow> IopConcentrator_c" where
  "CN_SetData aData s = s\<lparr>cnFromCrayData := cnFromCrayData s @ [aData]\<rparr>"

definition ProcessFromCrayData :: "unit cn_exec" where
  "ProcessFromCrayData s = (if cnAccepted s then StartTransmit s else (Inr (), s\<lparr>cnFromCrayData := []\<rparr>))"

text \<open>A tick polls the socket at every hundred and first time; \<open>evs\<close> is what has completed.\<close>

definition CN_Tick :: "net_event list \<Rightarrow> unit cn_exec" where
  "CN_Tick evs = bindE ProcessReceivedBytes (\<lambda>_ s.
     (let s = s\<lparr>cnPollCnt := cnPollCnt s + 1\<rparr>
      in (Inr (), if cnPollCnt s > 100 then (Poll evs s)\<lparr>cnPollCnt := 0\<rparr> else s)))"

section \<open>The channels\<close>

record IopConcentratorChannel_c =
  ncIoMemoryAddr :: IopInt
  ncTransferSize :: IopInt
  ncAllowIn :: bool
  ncAllowOut :: bool
  ncDone :: bool
  ncHoldDisconnect :: bool
  ncInActive :: bool
  ncInterruptEnabled :: bool
  ncOutActive :: bool
  ncReadyWaiting :: bool
  ncTransferDelay :: uint64
  ncTransferDelayCounter :: uint64
  ncWriteDisconnect :: bool

text \<open>A channel with the concentrator that it belongs to and the I/O memory.\<close>

record nc_state =
  ncsChannel :: IopConcentratorChannel_c
  ncsConcentrator :: IopConcentrator_c
  ncsIoMemory :: memory

abbreviation upd_nc :: "(IopConcentratorChannel_c \<Rightarrow> IopConcentratorChannel_c) \<Rightarrow> nc_state \<Rightarrow> nc_state" where
  "upd_nc f s \<equiv> s\<lparr>ncsChannel := f (ncsChannel s)\<rparr>"

definition NC_MasterClear :: "IopConcentratorChannel_c \<Rightarrow> IopConcentratorChannel_c" where
  "NC_MasterClear ch = ch\<lparr>ncDone := False, ncHoldDisconnect := False, ncInActive := False, ncInterruptEnabled := True,
     ncIoMemoryAddr := 0, ncOutActive := False, ncReadyWaiting := False, ncTransferSize := 0, ncWriteDisconnect := False\<rparr>"

definition NC_GetBusy :: "IopConcentratorChannel_c \<Rightarrow> bool" where
  "NC_GetBusy ch \<longleftrightarrow> ncInActive ch \<or> ncOutActive ch"

definition NC_GetInterrupt :: "IopConcentratorChannel_c \<Rightarrow> bool" where
  "NC_GetInterrupt ch \<longleftrightarrow> ncInterruptEnabled ch \<and> ncDone ch"

definition NC_start :: "IopInt \<Rightarrow> IopConcentratorChannel_c \<Rightarrow> IopConcentratorChannel_c" where
  "NC_start aData ch =
     (let ch = ch\<lparr>ncIoMemoryAddr := drop_bit 2 aData\<rparr>;
          ch = (if ncAllowIn ch then ch\<lparr>ncInActive := True, ncOutActive := False, ncDone := False\<rparr> else ch);
          ch = (if ncAllowOut ch then ch\<lparr>ncInActive := False, ncOutActive := True, ncDone := False\<rparr> else ch)
      in ch\<lparr>ncTransferDelayCounter := ncTransferDelay ch\<rparr>)"

definition NC_signals :: "IopInt \<Rightarrow> nc_state \<Rightarrow> nc_state" where
  "NC_signals aData s =
     (let s = (if ncAllowIn (ncsChannel s) then upd_nc (ncReadyWaiting_update (\<lambda>_. False)) s else s) in
      if ncAllowOut (ncsChannel s) then
        (let s = upd_nc (\<lambda>ch. ch\<lparr>ncWriteDisconnect := (aData AND 0x100 \<noteq> 0), ncHoldDisconnect := (aData AND 0x200 \<noteq> 0)\<rparr>) s
         in if aData AND 0x4000 \<noteq> 0 then s\<lparr>ncsConcentrator := CN_MasterClear (ncsConcentrator s)\<rparr> else s)
      else s)"

definition NC_DoIo :: "nat \<Rightarrow> IopInt \<Rightarrow> nc_state \<Rightarrow> IopInt \<times> nc_state" where
  "NC_DoIo aFunction aData s =
     (if aFunction = 0 then (0, upd_nc (\<lambda>ch. ch\<lparr>ncInActive := False, ncOutActive := False, ncDone := False\<rparr>) s)
      else if aFunction = 1 then (0, upd_nc (NC_start aData) s)
      else if aFunction = 2 then (0, upd_nc (ncTransferSize_update (\<lambda>_. drop_bit 2 aData)) s)
      else if aFunction = 3 then (0, s)
      else if aFunction = 4 then (0, NC_signals aData s)
      else if aFunction = 6 then (0, upd_nc (ncInterruptEnabled_update (\<lambda>_. False)) s)
      else if aFunction = 7 then (0, upd_nc (ncInterruptEnabled_update (\<lambda>_. True)) s)
      else if aFunction = 8 then (push_bit 2 (ncIoMemoryAddr (ncsChannel s)), s)
      else if aFunction = 9 then
        (let aData = (if ncAllowIn (ncsChannel s) then if ncReadyWaiting (ncsChannel s) then 0x8000 else 0 else aData);
             aData = (if ncAllowOut (ncsChannel s) then 0 else aData)
         in (aData, s))
      else (0, s))"

text \<open>One turn of the loop of \<open>Tick\<close>; it is false where the function returns.\<close>

definition NC_word_address :: "nc_state \<Rightarrow> nat" where
  "NC_word_address s = unat (ncIoMemoryAddr (ncsChannel s))"

definition NC_put_word :: "nc_state \<Rightarrow> nc_state" where
  "NC_put_word s = s\<lparr>ncsConcentrator :=
     CN_SetData (SwapBytes64 (SwapBytesInWords (IoMemRead64 (NC_word_address s) (ncsIoMemory s)))) (ncsConcentrator s)\<rparr>"

definition NC_get_word :: "nc_state \<Rightarrow> nc_state" where
  "NC_get_word s =
     (case CN_GetData (ncsConcentrator s) of
        (word, cn) \<Rightarrow> s\<lparr>ncsConcentrator := cn,
          ncsIoMemory := IoMemWrite64 (NC_word_address s) (SwapBytesInWords (SwapBytes64 word)) (ncsIoMemory s)\<rparr>)"

definition NC_advance :: "(nc_state, unit) exec" where
  "NC_advance s =
     (let s = upd_nc (\<lambda>ch. ch\<lparr>ncIoMemoryAddr := next_io_addr (ncIoMemoryAddr ch), ncTransferSize := next_count (ncTransferSize ch)\<rparr>) s in
      if ncTransferSize (ncsChannel s) = 0 \<or> ncAllowIn (ncsChannel s) \<and> IsReceptionComplete (ncsConcentrator s) then
        (let s = upd_nc (\<lambda>ch. ch\<lparr>ncInActive := False, ncOutActive := False, ncDone := True\<rparr>) s in
         if ncAllowOut (ncsChannel s) then
           (case ProcessFromCrayData (ncsConcentrator s) of (r, cn) \<Rightarrow> (r, s\<lparr>ncsConcentrator := cn\<rparr>))
         else (Inr (), s))
      else (Inr (), s))"

definition NC_step :: "(nc_state, bool) exec" where
  "NC_step s =
     (if ncDone (ncsChannel s) then (Inl AssertError, s)
      else
        (let s = (if ncOutActive (ncsChannel s) then NC_put_word s else s) in
         if ncInActive (ncsChannel s) \<and> \<not> HasData (ncsConcentrator s) then (Inr False, s)
         else bindE NC_advance (\<lambda>_. returnE True)
           (if ncInActive (ncsChannel s) then NC_get_word s else s)))"

lemma NC_word_channel [simp]:
  "ncsChannel (NC_put_word s) = ncsChannel s" "ncsChannel (NC_get_word s) = ncsChannel s"
  by (simp_all add: NC_put_word_def NC_get_word_def split: prod.split)

lemma NC_advance_channel:
  assumes "NC_advance s = (r, t)"
  shows "ncTransferSize (ncsChannel t) = next_count (ncTransferSize (ncsChannel s))"
    "NC_GetBusy (ncsChannel t) \<Longrightarrow> next_count (ncTransferSize (ncsChannel s)) \<noteq> 0"
  using assms by (auto simp: NC_advance_def Let_def NC_GetBusy_def split: if_splits prod.splits)

lemma NC_step_channel:
  assumes "NC_step s = (Inr True, t)"
  shows "ncTransferSize (ncsChannel t) = next_count (ncTransferSize (ncsChannel s))"
    "NC_GetBusy (ncsChannel t) \<Longrightarrow> next_count (ncTransferSize (ncsChannel s)) \<noteq> 0"
proof -
  obtain r u where "NC_advance u = (r, t)" "ncsChannel u = ncsChannel s"
    using assms by (auto simp: NC_step_def bindE_def returnE_def Let_def split: if_splits prod.splits sum.splits)
  from NC_advance_channel[OF this(1)] this(2)
  show "ncTransferSize (ncsChannel t) = next_count (ncTransferSize (ncsChannel s))"
    "NC_GetBusy (ncsChannel t) \<Longrightarrow> next_count (ncTransferSize (ncsChannel s)) \<noteq> 0"
    by simp_all
qed

function NC_transfer :: "(nc_state, unit) exec" where
  "NC_transfer s =
     (if NC_GetBusy (ncsChannel s) then
        (case NC_step s of
           (Inl e, s') \<Rightarrow> (Inl e, s')
         | (Inr b, s') \<Rightarrow> if b then NC_transfer s' else (Inr (), s'))
      else (Inr (), s))"
  by pat_completeness auto
termination
proof (relation "measure (\<lambda>s. if NC_GetBusy (ncsChannel s)
    then Suc (unat (next_count (ncTransferSize (ncsChannel s)))) else 0)", goal_cases)
  case (2 s r s' b)
  then have "NC_step s = (Inr True, s')" by auto
  note st = NC_step_channel[OF this]
  show ?case
  proof (cases "NC_GetBusy (ncsChannel s')")
    case True
    from next_count_decreases[OF st(2)[OF this]] 2 True show ?thesis by (simp add: st(1))
  qed (use 2 in simp)
qed simp

declare NC_transfer.simps [simp del]

definition NC_Tick :: "net_event list \<Rightarrow> (nc_state, unit) exec" where
  "NC_Tick evs s =
     (if ncAllowIn (ncsChannel s) then
        (case CN_Tick evs (ncsConcentrator s) of
           (Inl e, cn) \<Rightarrow> (Inl e, s\<lparr>ncsConcentrator := cn\<rparr>)
         | (Inr _, cn) \<Rightarrow> NC_transfer (s\<lparr>ncsConcentrator := cn\<rparr>))
      else NC_transfer s)"

end
