(* ===== verification/Concentrator_Results.thy ===== *)
theory Concentrator_Results
  imports Iop_Concentrator
begin

text \<open>
  Results on the concentrator: the bytes of a connection are decoded into the words of their
  messages however the network cuts them up, and the words that one concentrator sends are the
  words that another one receives.
\<close>

section \<open>Messages on the wire\<close>

definition word_bytes :: "uint64 list \<Rightarrow> uint8 list" where
  "word_bytes ws = concat (map be_bytes ws)"

definition pdu :: "uint64 list \<Rightarrow> uint8 list" where
  "pdu ws = length_bytes (of_nat (8 * length ws)) @ word_bytes ws"

text \<open>A message is its LCP and its subsegments; the first word of the LCP has their number and the code.\<close>

type_synonym conc_message = "uint64 list \<times> uint64 list list"

definition subsegments :: "uint64 \<Rightarrow> uint64" where
  "subsegments w = drop_bit 24 w AND 0xff"

definition message_code :: "uint64 \<Rightarrow> uint8" where
  "message_code w = ucast (drop_bit 8 w AND 0xff)"

definition wire :: "conc_message \<Rightarrow> uint8 list" where
  "wire m = pdu (fst m) @ concat (map pdu (snd m))"

definition message_words :: "conc_message \<Rightarrow> uint64 list" where
  "message_words m = fst m @ concat (snd m)"

definition packet_ok :: "uint64 list \<Rightarrow> bool" where
  "packet_ok ws \<longleftrightarrow> ws \<noteq> [] \<and> length ws < 2 ^ 28"

definition message_ok :: "conc_message \<Rightarrow> bool" where
  "message_ok m \<longleftrightarrow> packet_ok (fst m) \<and> list_all packet_ok (snd m) \<and> unat (subsegments (hd (fst m))) = length (snd m)"

lemma be_bytes_list:
  "be_bytes w = [ucast (drop_bit 56 w AND 0xff), ucast (drop_bit 48 w AND 0xff), ucast (drop_bit 40 w AND 0xff),
     ucast (drop_bit 32 w AND 0xff), ucast (drop_bit 24 w AND 0xff), ucast (drop_bit 16 w AND 0xff),
     ucast (drop_bit 8 w AND 0xff), ucast (w AND 0xff)]"
  by (simp add: be_bytes_def upt_rec)

lemma length_be_bytes [simp]: "length (be_bytes w) = 8"
  by (simp add: be_bytes_def)

text \<open>A byte shifted in behind those above it.\<close>

lemma shift_byte_in:
  fixes w :: uint64
  shows "push_bit 8 (drop_bit (8 + k) w) OR ucast (ucast (drop_bit k w AND 0xff) :: uint8) = drop_bit k w"
proof (rule bit_word_eqI)
  fix n assume "n < LENGTH(64)"
  then show "bit (push_bit 8 (drop_bit (8 + k) w) OR ucast (ucast (drop_bit k w AND 0xff) :: uint8)) n = bit (drop_bit k w) n"
    by (cases "n < 8") (auto simp: bit_simps)
qed

lemma be_word_be_bytes: "be_word (be_bytes w) = w"
proof -
  have top: "drop_bit 64 w = 0" by (rule bit_word_eqI) (simp add: bit_simps)
  show ?thesis
    using shift_byte_in[of 56 w] shift_byte_in[of 48 w] shift_byte_in[of 40 w] shift_byte_in[of 32 w]
      shift_byte_in[of 24 w] shift_byte_in[of 16 w] shift_byte_in[of 8 w] shift_byte_in[of 0 w]
    by (simp add: be_word_def be_bytes_list top del: mask_8_bits)
qed

lemma word_bytes_simps [simp]:
  "word_bytes [] = []" "word_bytes (w # ws) = be_bytes w @ word_bytes ws"
  "word_bytes (ws @ vs) = word_bytes ws @ word_bytes vs"
  by (simp_all add: word_bytes_def)

lemma length_word_bytes [simp]: "length (word_bytes ws) = 8 * length ws"
  by (induction ws) simp_all

lemma length_length_bytes [simp]: "length (length_bytes n) = 4"
  by (simp add: length_bytes_def)

lemma four_bytes:
  fixes n :: uint64
  shows "push_bit 24 (ucast (ucast (drop_bit 24 n AND 0xff) :: uint8)) OR push_bit 16 (ucast (ucast (drop_bit 16 n AND 0xff) :: uint8)) OR
    push_bit 8 (ucast (ucast (drop_bit 8 n AND 0xff) :: uint8)) OR ucast (ucast (n AND 0xff) :: uint8) = (ucast n :: 32 word)"
proof (rule bit_word_eqI)
  fix i assume i: "i < LENGTH(32)"
  consider "i < 8" | "8 \<le> i" "i < 16" | "16 \<le> i" "i < 24" | "24 \<le> i" by linarith
  then show "bit (push_bit 24 (ucast (ucast (drop_bit 24 n AND 0xff) :: uint8)) OR
      push_bit 16 (ucast (ucast (drop_bit 16 n AND 0xff) :: uint8)) OR
      push_bit 8 (ucast (ucast (drop_bit 8 n AND 0xff) :: uint8)) OR ucast (ucast (n AND 0xff) :: uint8) :: 32 word) i =
      bit (ucast n :: 32 word) i"
    by cases (use i in \<open>auto simp: bit_simps\<close>)
qed

lemma pdu_length_bytes:
  assumes "k < 2 ^ 31"
  shows "pdu_length (length_bytes (of_nat k) @ bs) = of_nat k"
proof -
  have "pdu_length (length_bytes (of_nat k) @ bs) = scast (ucast (of_nat k :: uint64) :: 32 word)"
    by (simp add: pdu_length_def length_bytes_def four_bytes[simplified])
  also have "(ucast (of_nat k :: uint64) :: 32 word) = of_nat k"
    using assms by (simp add: word_unat_eq_iff unsigned_ucast_eq unsigned_take_bit_eq unat_of_nat take_bit_nat_eq_self)
  also have "(scast (of_nat k :: 32 word) :: uint64) = of_nat k"
  proof -
    have "sint (of_nat k :: 32 word) = int k"
      using assms by (simp add: signed_of_nat signed_take_bit_int_eq_self)
    then show ?thesis by (simp add: scast_eq)
  qed
  finally show ?thesis .
qed

lemma take_words_bytes:
  assumes "length ws < 2 ^ 28"
  shows "take_words (of_nat (8 * length ws)) (word_bytes ws @ rest) = Some (ws, rest)"
  using assms
proof (induction ws)
  case Nil
  show ?case by (subst take_words.simps) simp
next
  case (Cons w ws)
  have u: "unat (of_nat (8 * length (w # ws)) :: uint64) = 8 * length (w # ws)"
    using Cons.prems by (simp only: unat_of_nat) (simp add: take_bit_nat_eq_self)
  then have "(of_nat (8 * length (w # ws)) :: uint64) \<noteq> 0" by (metis unat_0 length_Cons mult_eq_0_iff nat.distinct(1) zero_neq_numeral)
  moreover have "(of_nat (8 * length (w # ws)) :: uint64) - 8 = of_nat (8 * length ws)" by simp
  ultimately show ?case
    using Cons by (subst take_words.simps) (simp add: be_word_be_bytes)
qed

section \<open>Packets in a cut stream\<close>

text \<open>
  A packet, or the length in front of one, is consumed: as long as it has not arrived
  completely the receiver waits, then it takes it and leaves what is behind it.
\<close>

abbreviation with_buffer :: "IopConcentrator_c \<Rightarrow> uint8 list \<Rightarrow> IopConcentrator_c" where
  "with_buffer s b \<equiv> s\<lparr>cnReceiveBuf := b\<rparr>"

definition consumes :: "IopConcentrator_c \<Rightarrow> uint8 list \<Rightarrow> IopConcentrator_c \<Rightarrow> bool" where
  "consumes s p t \<longleftrightarrow> p \<noteq> [] \<and>
     (\<forall>b. length b < length p \<longrightarrow> rcv_step (with_buffer s b) = (Inr False, with_buffer s b)) \<and>
     (\<forall>b. rcv_step (with_buffer s (p @ b)) = (Inr True, with_buffer t b))"

inductive takes :: "IopConcentrator_c \<Rightarrow> uint8 list \<Rightarrow> IopConcentrator_c \<Rightarrow> bool" where
  takes_nil: "takes s [] s"
| takes_packet: "consumes s p t \<Longrightarrow> takes t bs u \<Longrightarrow> takes s (p @ bs) u"

lemma takes_append: "takes s as t \<Longrightarrow> takes t bs u \<Longrightarrow> takes s (as @ bs) u"
  by (induction rule: takes.induct) (auto intro: takes.intros)

lemma takes_one: "consumes s p t \<Longrightarrow> takes s p t"
  using takes_packet[OF _ takes_nil, of s p t] by simp

text \<open>What has arrived of such a stream is processed as far as possible, and the rest can follow.\<close>

lemma process_part:
  assumes "takes s (b @ rest) t"
  shows "\<exists>u c. ProcessReceivedBytes (with_buffer s b) = (Inr (), with_buffer u c) \<and> takes u (c @ rest) t \<and>
    (rest = [] \<longrightarrow> c = [] \<and> u = t)"
  using assms
proof (induction s "b @ rest" t arbitrary: b rule: takes.induct)
  case (takes_nil s)
  then show ?case
    by (intro exI[of _ s] exI[of _ "[]"]) (subst ProcessReceivedBytes.simps, auto intro: takes.takes_nil)
next
  case (takes_packet s p t bs u)
  note c = takes_packet.hyps(1)[unfolded consumes_def]
  show ?case
  proof (cases "length b < length p")
    case True
    have "ProcessReceivedBytes (with_buffer s b) = (Inr (), with_buffer s b)"
      using c True by (subst ProcessReceivedBytes.simps) simp
    moreover have "takes s (b @ rest) u"
      using takes.takes_packet[OF takes_packet.hyps(1,2)] takes_packet.hyps(4) by simp
    moreover have "rest \<noteq> []" using True takes_packet.hyps(4) by (auto dest: arg_cong[of _ _ length])
    ultimately show ?thesis by blast
  next
    case False
    then obtain b' where b: "b = p @ b'" and bs: "bs = b' @ rest"
      using takes_packet.hyps(4) by (auto simp: append_eq_append_conv2)
    have "ProcessReceivedBytes (with_buffer s b) = ProcessReceivedBytes (with_buffer t b')"
      using c b by (subst ProcessReceivedBytes.simps) simp
    with takes_packet.hyps(3)[OF bs] show ?thesis by simp
  qed
qed

text \<open>The bytes of a connection as they come in, each part processed on its own.\<close>

fun cn_receives :: "uint8 list list \<Rightarrow> unit cn_exec" where
  "cn_receives [] s = (Inr (), s)"
| "cn_receives (c # cs) s = bindE ProcessReceivedBytes (\<lambda>_. cn_receives cs) (with_buffer s (cnReceiveBuf s @ c))"

lemma receives_takes:
  assumes "takes s (b @ concat chunks) t" "chunks \<noteq> []"
  shows "cn_receives chunks (with_buffer s b) = (Inr (), with_buffer t [])"
  using assms
proof (induction chunks arbitrary: s b)
  case (Cons x chunks)
  from process_part[of s "b @ x" "concat chunks" t] Cons.prems obtain u c where
    p: "ProcessReceivedBytes (with_buffer s (b @ x)) = (Inr (), with_buffer u c)" and
    u: "takes u (c @ concat chunks) t" "concat chunks = [] \<longrightarrow> c = [] \<and> u = t" by auto
  show ?case
  proof (cases "chunks = []")
    case True
    with p u show ?thesis by (simp add: bindE_def)
  next
    case False
    from Cons.IH[OF u(1) this] p show ?thesis by (simp add: bindE_def)
  qed
qed simp

section \<open>Messages are received\<close>

lemma nth_word_bytes:
  assumes "ws \<noteq> []" "i < 8"
  shows "(word_bytes ws @ bs) ! i = be_bytes (hd ws) ! i"
  using assms by (cases ws) (simp_all add: nth_append)

lemma lcp_bytes:
  assumes "ws \<noteq> []"
  shows "(ucast ((word_bytes ws @ bs) ! 4) :: uint64) = subsegments (hd ws)" "(word_bytes ws @ bs) ! 6 = message_code (hd ws)"
proof -
  have "ucast (ucast (v AND 0xff) :: uint8) = v AND (0xff :: uint64)" for v
    by (rule bit_word_eqI) (auto simp: bit_simps)
  then show "(ucast ((word_bytes ws @ bs) ! 4) :: uint64) = subsegments (hd ws)"
    using assms by (simp add: nth_word_bytes be_bytes_list subsegments_def)
  show "(word_bytes ws @ bs) ! 6 = message_code (hd ws)"
    using assms by (simp add: nth_word_bytes be_bytes_list message_code_def)
qed

lemma consumes_length:
  assumes "n < 2 ^ 31" "cnRcvState s = State_RcvLcpPduLength \<and> next_state = State_RcvLcpPduContent \<or>
    cnRcvState s = State_RcvSegPduLength \<and> next_state = State_RcvSegPduContent"
  shows "consumes s (length_bytes (of_nat n)) (s\<lparr>cnPduLength := of_nat n, cnRcvState := next_state\<rparr>)"
proof -
  have "length_bytes (of_nat n) \<noteq> []" by (simp add: length_bytes_def)
  then show ?thesis
    using assms by (auto simp: consumes_def rcv_step_def rcv_length_def pdu_length_bytes)
qed

lemma rcv_words_packet:
  assumes "packet_ok ws" "cnPduLength s = of_nat (8 * length ws)" "cnReceiveBuf s = word_bytes ws @ b"
  shows "rcv_words s = (Inr (), s\<lparr>cnToCrayData := cnToCrayData s @ ws, cnReceiveBuf := b, cnPduLength := 0\<rparr>)"
  using assms by (simp add: rcv_words_def take_words_bytes[simplified] packet_ok_def)

lemma unat_packet_length: "packet_ok ws \<Longrightarrow> unat (of_nat (8 * length ws) :: uint64) = 8 * length ws"
  by (simp only: packet_ok_def unat_of_nat) (simp add: take_bit_nat_eq_self)

lemma consumes_lcp:
  assumes "packet_ok ws" "cnRcvState s = State_RcvLcpPduContent" "cnPduLength s = of_nat (8 * length ws)"
  shows "consumes s (word_bytes ws)
    (rcv_next (s\<lparr>cnSubsegmentCount := subsegments (hd ws), cnLastRcvdMessageCode := message_code (hd ws),
       cnToCrayData := cnToCrayData s @ ws, cnPduLength := 0\<rparr>))"
proof -
  have ws: "ws \<noteq> []" "8 \<le> length (word_bytes ws)" "word_bytes ws \<noteq> []"
    using assms(1) by (cases ws; auto simp: packet_ok_def be_bytes_list)+
  have "rcv_lcp (with_buffer s (word_bytes ws @ b)) =
      (Inr (), with_buffer (rcv_next (s\<lparr>cnSubsegmentCount := subsegments (hd ws), cnLastRcvdMessageCode := message_code (hd ws),
         cnToCrayData := cnToCrayData s @ ws, cnPduLength := 0\<rparr>)) b)" for b
    using ws assms
    by (cases s) (simp add: rcv_lcp_def Let_def lcp_bytes bindE_def rcv_words_packet rcv_next_def)
  then show ?thesis
    using ws assms by (auto simp: consumes_def rcv_step_def unat_packet_length[simplified] bindE_def returnE_def)
qed

definition logon_size :: "uint64 list \<Rightarrow> IopConcentrator_c \<Rightarrow> uint64" where
  "logon_size ws s = (if cnLastRcvdMessageCode s = McLogon then (hd ws AND 0xffff) * 8 else cnSegmentSize s)"

lemma two_bytes:
  fixes v :: uint64
  shows "push_bit 8 (ucast (ucast (drop_bit 8 v AND 0xff) :: uint8)) OR ucast (ucast (v AND 0xff) :: uint8) = v AND 0xffff"
proof -
  have mask: "(0xffff :: uint64) = mask 16" by (simp add: mask_eq_exp_minus_1)
  show ?thesis
  proof (rule bit_word_eqI)
    fix i assume i: "i < LENGTH(64)"
    consider "i < 8" | "8 \<le> i" "i < 16" | "16 \<le> i" by linarith
    then show "bit (push_bit 8 (ucast (ucast (drop_bit 8 v AND 0xff) :: uint8)) OR ucast (ucast (v AND 0xff) :: uint8) :: uint64) i =
        bit (v AND 0xffff) i"
      unfolding mask by cases (use i in \<open>auto simp: bit_simps\<close>)
  qed
qed

lemma rcv_logon_packet:
  assumes "ws \<noteq> []" "cnReceiveBuf s = word_bytes ws @ b"
  shows "rcv_logon s = s\<lparr>cnSegmentSize := logon_size ws s\<rparr>"
proof -
  have "(word_bytes ws @ b) ! 6 = ucast (drop_bit 8 (hd ws) AND 0xff)" "(word_bytes ws @ b) ! 7 = ucast (hd ws AND 0xff)"
    using assms(1) by (simp_all add: nth_word_bytes be_bytes_list)
  then have "push_bit 8 (ucast ((word_bytes ws @ b) ! 6)) OR ucast ((word_bytes ws @ b) ! 7) = hd ws AND (0xffff :: uint64)"
    by (simp only: two_bytes)
  then show ?thesis using assms(2) by (cases s) (simp add: rcv_logon_def logon_size_def)
qed

lemma consumes_segment:
  assumes "packet_ok ws" "cnRcvState s = State_RcvSegPduContent" "cnPduLength s = of_nat (8 * length ws)"
  shows "consumes s (word_bytes ws)
    (rcv_next (s\<lparr>cnSegmentSize := logon_size ws s, cnToCrayData := cnToCrayData s @ ws, cnPduLength := 0,
       cnSubsegmentCount := cnSubsegmentCount s - 1\<rparr>))"
proof -
  have ws: "ws \<noteq> []" "8 \<le> length (word_bytes ws)" "word_bytes ws \<noteq> []"
    using assms(1) by (cases ws; auto simp: packet_ok_def be_bytes_list)+
  have "rcv_segment (with_buffer s (word_bytes ws @ b)) =
      (Inr (), with_buffer (rcv_next (s\<lparr>cnSegmentSize := logon_size ws s, cnToCrayData := cnToCrayData s @ ws, cnPduLength := 0,
         cnSubsegmentCount := cnSubsegmentCount s - 1\<rparr>)) b)" for b
    using ws assms
    by (cases s) (simp add: rcv_segment_def rcv_logon_packet bindE_def rcv_words_packet rcv_next_def logon_size_def)
  then show ?thesis
    using ws assms by (auto simp: consumes_def rcv_step_def unat_packet_length[simplified] bindE_def returnE_def)
qed

lemma packet_length: "packet_ok ws \<Longrightarrow> 8 * length ws < 2 ^ 31"
  by (simp add: packet_ok_def)

text \<open>The subsegments that are left, and a whole message.\<close>

definition rcv_ready :: "nat \<Rightarrow> IopConcentrator_c \<Rightarrow> bool" where
  "rcv_ready n s \<longleftrightarrow> cnSubsegmentCount s = of_nat n \<and> cnPduLength s = 0 \<and>
     cnRcvState s = (if n > 0 then State_RcvSegPduLength else State_RcvLcpPduLength)"

lemma rcv_ready_next:
  assumes "cnSubsegmentCount s = of_nat n" "cnPduLength s = 0" "n < 256"
  shows "rcv_ready n (rcv_next s)"
proof -
  have "(0 < (of_nat n :: uint64)) = (0 < n)" using assms(3) by (simp add: word_less_nat_alt unat_of_nat take_bit_nat_eq_self)
  then show ?thesis using assms by (simp add: rcv_ready_def rcv_next_def)
qed

lemma takes_segment:
  assumes "rcv_ready (Suc n) s" "Suc n < 256" "packet_ok ws"
  shows "\<exists>t. takes s (pdu ws) t \<and> rcv_ready n t \<and> cnToCrayData t = cnToCrayData s @ ws"
proof -
  let ?u = "s\<lparr>cnPduLength := of_nat (8 * length ws), cnRcvState := State_RcvSegPduContent\<rparr>"
  let ?t = "?u\<lparr>cnSegmentSize := logon_size ws ?u, cnToCrayData := cnToCrayData ?u @ ws, cnPduLength := 0,
       cnSubsegmentCount := cnSubsegmentCount ?u - 1\<rparr>"
  have "consumes s (length_bytes (of_nat (8 * length ws))) ?u"
    using assms by (intro consumes_length packet_length) (simp_all add: rcv_ready_def)
  moreover have "consumes ?u (word_bytes ws) (rcv_next ?t)" using assms(3) by (intro consumes_segment) simp_all
  ultimately have "takes s (pdu ws) (rcv_next ?t)"
    unfolding pdu_def by (intro takes_append[OF takes_one takes_one])
  moreover have "rcv_ready n (rcv_next ?t)"
    using assms(1,2) by (intro rcv_ready_next) (simp_all add: rcv_ready_def)
  ultimately show ?thesis by (intro exI[of _ "rcv_next ?t"]) (simp add: rcv_next_def)
qed

lemma takes_segments:
  assumes "rcv_ready (length segs) s" "length segs < 256" "list_all packet_ok segs"
  shows "\<exists>t. takes s (concat (map pdu segs)) t \<and> rcv_ready 0 t \<and> cnToCrayData t = cnToCrayData s @ concat segs"
  using assms
proof (induction segs arbitrary: s)
  case (Cons ws segs)
  from takes_segment[of "length segs" s ws] Cons.prems obtain t where
    t: "takes s (pdu ws) t" "rcv_ready (length segs) t" "cnToCrayData t = cnToCrayData s @ ws" by auto
  from Cons.IH[OF t(2)] Cons.prems t(1,3) show ?case by (auto intro: takes_append)
qed (auto intro: takes_nil)

lemma takes_message:
  assumes "cnRcvState s = State_RcvLcpPduLength" "message_ok m"
  shows "\<exists>t. takes s (wire m) t \<and> rcv_ready 0 t \<and> cnToCrayData t = cnToCrayData s @ message_words m"
proof -
  let ?ws = "fst m"
  let ?u = "s\<lparr>cnPduLength := of_nat (8 * length ?ws), cnRcvState := State_RcvLcpPduContent\<rparr>"
  let ?t = "?u\<lparr>cnSubsegmentCount := subsegments (hd ?ws), cnLastRcvdMessageCode := message_code (hd ?ws),
       cnToCrayData := cnToCrayData ?u @ ?ws, cnPduLength := 0\<rparr>"
  note ok = assms(2)[unfolded message_ok_def]
  have "consumes s (length_bytes (of_nat (8 * length ?ws))) ?u"
    using assms(1) ok by (intro consumes_length packet_length) (simp_all add: rcv_ready_def)
  moreover have "consumes ?u (word_bytes ?ws) (rcv_next ?t)" using ok by (intro consumes_lcp) simp_all
  ultimately have lcp: "takes s (pdu ?ws) (rcv_next ?t)"
    unfolding pdu_def by (intro takes_append[OF takes_one takes_one])
  have "subsegments (hd ?ws) \<le> 0xff" unfolding subsegments_def by (rule word_and_le1)
  then have few: "length (snd m) < 256" using ok by (simp add: word_le_nat_alt del: mask_8_bits)
  have "of_nat (length (snd m)) = (of_nat (unat (subsegments (hd ?ws))) :: uint64)" using ok by simp
  then have "subsegments (hd ?ws) = of_nat (length (snd m))" by simp
  then have "rcv_ready (length (snd m)) (rcv_next ?t)" using few by (intro rcv_ready_next) simp_all
  from takes_segments[OF this few] ok obtain t where
    "takes (rcv_next ?t) (concat (map pdu (snd m))) t" "rcv_ready 0 t"
    "cnToCrayData t = cnToCrayData (rcv_next ?t) @ concat (snd m)" by auto
  with lcp show ?thesis
    unfolding wire_def message_words_def by (intro exI[of _ t]) (auto intro: takes_append simp: rcv_next_def)
qed

lemma takes_messages:
  assumes "cnRcvState s = State_RcvLcpPduLength" "list_all message_ok ms"
  shows "\<exists>t. takes s (concat (map wire ms)) t \<and> cnRcvState t = State_RcvLcpPduLength \<and>
    cnToCrayData t = cnToCrayData s @ concat (map message_words ms)"
  using assms
proof (induction ms arbitrary: s)
  case (Cons m ms)
  have "message_ok m" using Cons.prems(2) by simp
  from takes_message[OF Cons.prems(1) this] obtain t where
    t: "takes s (wire m) t" "rcv_ready 0 t" "cnToCrayData t = cnToCrayData s @ message_words m" by auto
  from t(2) have "cnRcvState t = State_RcvLcpPduLength" by (simp add: rcv_ready_def)
  from Cons.IH[OF this] Cons.prems t(1,3) show ?case by (auto intro: takes_append)
qed (auto intro: takes_nil)

lemma wire_Cons: "wire m \<noteq> []"
  by (simp add: wire_def pdu_def length_bytes_def)

lemma receives_messages:
  assumes "cnRcvState r = State_RcvLcpPduLength" "cnReceiveBuf r = []" "list_all message_ok ms"
    "concat chunks = concat (map wire ms)"
  shows "\<exists>u. cn_receives chunks r = (Inr (), u) \<and> cnToCrayData u = cnToCrayData r @ concat (map message_words ms) \<and>
    cnReceiveBuf u = [] \<and> cnRcvState u = State_RcvLcpPduLength"
proof (cases "chunks = []")
  case True
  then have "ms = []" using assms(4) by (cases ms) (simp_all add: wire_Cons)
  with True assms show ?thesis by simp
next
  case False
  from takes_messages[OF assms(1,3)] obtain t where
    t: "takes r (concat chunks) t" "cnRcvState t = State_RcvLcpPduLength"
      "cnToCrayData t = cnToCrayData r @ concat (map message_words ms)" by (auto simp: assms(4))
  have "with_buffer r [] = r" using assms(2) by simp
  with receives_takes[of r "[]" chunks t] t(1) False have "cn_receives chunks r = (Inr (), with_buffer t [])" by simp
  with t show ?thesis by simp
qed

text \<open>Messages are received however they are cut up. For any division of the bytes of a
  sequence of messages into parts that arrive one after the other, the concentrator queues
  exactly the words of the messages for the I/O processor, in order, keeps no byte back and
  waits for the next message.
\<close>

theorem concentrator_receives:
  assumes "cnRcvState r = State_RcvLcpPduLength" "cnReceiveBuf r = []" "list_all message_ok ms"
    "concat chunks = concat (map wire ms)"
  shows "\<exists>u. cn_receives chunks r = (Inr (), u) \<and> cnToCrayData u = cnToCrayData r @ concat (map message_words ms) \<and>
    cnReceiveBuf u = [] \<and> cnRcvState u = State_RcvLcpPduLength"
  by (rule receives_messages[OF assms])

definition sample_message :: conc_message where
  "sample_message = ([0x01000900, 1, 2, 3, 4, 5], [[0x1122334455667788]])"

lemma message_ok_sample: "message_ok sample_message"
  by (simp add: message_ok_def sample_message_def packet_ok_def subsegments_def del: mask_8_bits)

theorem concentrator_receives_witness:
  "\<exists>u. cn_receives (map (\<lambda>b. [b]) (wire sample_message)) (CN_new 0 0) = (Inr (), u) \<and>
     cnToCrayData u = [0x01000900, 1, 2, 3, 4, 5, 0x1122334455667788] \<and> cnReceiveBuf u = []"
proof -
  have "concat (map (\<lambda>b. [b]) bs) = bs" for bs :: "uint8 list" by (induction bs) simp_all
  then have "concat (map (\<lambda>b. [b]) (wire sample_message)) = concat (map wire [sample_message])" by simp
  moreover have "cnRcvState (CN_new 0 0) = State_RcvLcpPduLength" "cnReceiveBuf (CN_new 0 0) = []" "cnToCrayData (CN_new 0 0) = []"
    by (simp_all add: CN_new_def CN_MasterClear_def ClearBuffers_def ClearTransmitBuffers_def ClearReceiveBuffers_def)
  ultimately show ?thesis
    using concentrator_receives[of "CN_new 0 0" "[sample_message]" "map (\<lambda>b. [b]) (wire sample_message)"] message_ok_sample
    by (auto simp: message_words_def sample_message_def)
qed

section \<open>Messages are sent\<close>

text \<open>One transfer of the output channel, and the transfers of a whole subsegment.\<close>

definition cn_send :: "uint64 list \<Rightarrow> unit cn_exec" where
  "cn_send ws s = ProcessFromCrayData (fold CN_SetData ws s)"

fun cn_sends :: "uint64 list list \<Rightarrow> unit cn_exec" where
  "cn_sends [] s = (Inr (), s)"
| "cn_sends (ws # wss) s = bindE (cn_send ws) (\<lambda>_. cn_sends wss) s"

lemma sends_append: "cn_sends as s = (Inr (), t) \<Longrightarrow> cn_sends (as @ bs) s = cn_sends bs t"
  by (induction as s rule: cn_sends.induct) (auto simp: bindE_def split: prod.splits sum.splits)

lemma fold_SetData: "fold CN_SetData ws s = s\<lparr>cnFromCrayData := cnFromCrayData s @ ws\<rparr>"
  by (induction ws arbitrary: s) (simp_all add: CN_SetData_def)

lemma cn_send_words: "cn_send ws s = ProcessFromCrayData (s\<lparr>cnFromCrayData := cnFromCrayData s @ ws\<rparr>)"
  by (simp add: cn_send_def fold_SetData)

text \<open>
  A subsegment is one transfer after a start message. After another message it has the size
  that the logon has fixed and may be cut into several transfers.
\<close>

definition segment_transfers :: "uint8 \<Rightarrow> uint64 \<Rightarrow> uint64 list list \<Rightarrow> uint64 list \<Rightarrow> bool" where
  "segment_transfers code len wss seg \<longleftrightarrow> wss \<noteq> [] \<and> list_all (\<lambda>ws. ws \<noteq> []) wss \<and> concat wss = seg \<and> packet_ok seg \<and>
     (if code = McStart then length wss = 1 else len = of_nat (8 * length seg))"

text \<open>What is constant while a message is sent, with what has been sent.\<close>

definition sending :: "uint8 \<Rightarrow> uint64 \<Rightarrow> uint8 list \<Rightarrow> IopConcentrator_c \<Rightarrow> bool" where
  "sending code len sent s \<longleftrightarrow> cnAccepted s \<and> cnFromCrayData s = [] \<and> cnLastXmitMessageCode s = code \<and>
     cnSegmentSize s = len \<and> cnSent s = sent"

definition xmt_ready :: "nat \<Rightarrow> IopConcentrator_c \<Rightarrow> bool" where
  "xmt_ready n s \<longleftrightarrow> cnSubsegmentCount s = of_nat n \<and>
     cnXmtState s = (if n > 0 then State_XmtSegPduStart else State_XmtLcpPduStart)"

lemma xmt_ready_next:
  assumes "cnSubsegmentCount s = of_nat n" "n < 256"
  shows "xmt_ready n (xmt_next s)"
proof -
  have "(0 < (of_nat n :: uint64)) = (0 < n)" using assms(2) by (simp add: word_less_nat_alt unat_of_nat take_bit_nat_eq_self)
  then show ?thesis using assms by (simp add: xmt_ready_def xmt_next_def)
qed

lemma sending_next [simp]: "sending code len sent (xmt_next s) = sending code len sent s"
  by (simp add: sending_def xmt_next_def)

lemma send_lcp:
  assumes "cnXmtState s = State_XmtLcpPduStart" "sending code len sent s" "length ws = 6"
  shows "\<exists>t. cn_send ws s = (Inr (), t) \<and> sending (message_code (hd ws)) len (sent @ pdu ws) t \<and>
    xmt_ready (unat (subsegments (hd ws))) t"
proof -
  obtain w vs where ws: "ws = w # vs" using assms(3) by (cases ws) auto
  have len: "length_bytes (of_nat BytesPerLCP) = length_bytes (of_nat (8 * length ws))" using assms(3) by simp
  have "subsegments w \<le> 0xff" unfolding subsegments_def by (rule word_and_le1)
  then have few: "unat (subsegments w) < 256" by (simp add: word_le_nat_alt del: mask_8_bits)
  let ?t = "xmt_next (s\<lparr>cnFromCrayData := ws, cnXmtState := State_XmtLcpPduContent, cnLastXmitMessageCode := message_code w,
    cnSubsegmentCount := subsegments w\<rparr>)"
  have "cn_send ws s = (Inr (), ?t\<lparr>cnTransmitBufs := (cnTransmitBufs s)[cnTransmitBufIdx s := pdu ws], cnFromCrayData := [],
      cnSent := sent @ pdu ws, cnTransmitBufIdx := (cnTransmitBufIdx s + 1) mod MaxTransmitBufs\<rparr>)"
    using assms(1,2) ws len
    by (cases s) (simp add: cn_send_words ProcessFromCrayData_def StartTransmit_def xmt_bytes_def xmt_lcp_def
        sending_def bindE_def pdu_def word_bytes_def xmt_next_def message_code_def subsegments_def)
  moreover have "xmt_ready (unat (subsegments w)) ?t" using few by (intro xmt_ready_next) simp_all
  ultimately show ?thesis
    using assms(2) ws by (auto simp: sending_def xmt_ready_def xmt_next_def)
qed

lemma send_words:
  assumes "sending code len sent s"
    "cnXmtState s = State_XmtSegPduStart \<and> b = 0 \<and>
       header = length_bytes (if code = McStart then of_nat (length ws * 8) else len) \<or>
     cnXmtState s = State_XmtSegPduContent \<and> b = cnBytesTransmitted s \<and> header = []"
  shows "\<exists>t. cn_send ws s = (Inr (), t) \<and> sending code len (sent @ header @ word_bytes ws) t \<and>
    (if b + of_nat (length ws * 8) \<ge> len \<or> code = McStart
     then cnSubsegmentCount t = cnSubsegmentCount s - 1 \<and>
       cnXmtState t = (if cnSubsegmentCount s - 1 > 0 then State_XmtSegPduStart else State_XmtLcpPduStart)
     else cnSubsegmentCount t = cnSubsegmentCount s \<and> cnXmtState t = State_XmtSegPduContent \<and>
       cnBytesTransmitted t = b + of_nat (length ws * 8))"
proof (cases "b + of_nat (length ws * 8) \<ge> len \<or> code = McStart")
  case True
  with assms show ?thesis
    by (auto simp: cn_send_words ProcessFromCrayData_def StartTransmit_def xmt_bytes_def xmt_segment_def
      sending_def bindE_def word_bytes_def xmt_next_def Let_def)
next
  case False
  with assms show ?thesis
    by (auto simp: cn_send_words ProcessFromCrayData_def StartTransmit_def xmt_bytes_def xmt_segment_def
        sending_def bindE_def word_bytes_def xmt_next_def Let_def)
qed

lemma size_less:
  assumes "a < 2 ^ 31" "b < 2 ^ 31"
  shows "((of_nat a :: uint64) \<le> of_nat b) = (a \<le> b)"
  using assms by (simp add: word_le_nat_alt unat_of_nat take_bit_nat_eq_self)

lemma send_content:
  assumes "sending code len sent s" "cnXmtState s = State_XmtSegPduContent" "cnSubsegmentCount s = of_nat (Suc n)" "n < 256"
    "code \<noteq> McStart" "cnBytesTransmitted s = of_nat (8 * k)" "len = of_nat (8 * (k + length (concat wss)))"
    "k + length (concat wss) < 2 ^ 28" "list_all (\<lambda>ws. ws \<noteq> []) wss" "wss \<noteq> []"
  shows "\<exists>t. cn_sends wss s = (Inr (), t) \<and> sending code len (sent @ word_bytes (concat wss)) t \<and> xmt_ready n t"
  using assms
proof (induction wss arbitrary: s sent k)
  case (Cons ws wss)
  let ?b = "cnBytesTransmitted s + of_nat (length ws * 8)"
  have b: "?b = of_nat (8 * (k + length ws))" using Cons.prems(6) by (simp add: algebra_simps)
  have le: "len \<le> ?b \<longleftrightarrow> length (concat wss) = 0"
    unfolding b Cons.prems(7) using Cons.prems(8) by (subst size_less) auto
  from send_words[of code len sent s "cnBytesTransmitted s" "[]" ws] Cons.prems(1,2) obtain t where
    t: "cn_send ws s = (Inr (), t)" "sending code len (sent @ word_bytes ws) t" and
    st: "if length (concat wss) = 0
     then cnSubsegmentCount t = cnSubsegmentCount s - 1 \<and>
       cnXmtState t = (if cnSubsegmentCount s - 1 > 0 then State_XmtSegPduStart else State_XmtLcpPduStart)
     else cnSubsegmentCount t = cnSubsegmentCount s \<and> cnXmtState t = State_XmtSegPduContent \<and> cnBytesTransmitted t = ?b"
    using Cons.prems(5) unfolding le by auto
  show ?case
  proof (cases "wss = []")
    case True
    have "(0 < (of_nat n :: uint64)) = (0 < n)"
      using Cons.prems(4) by (simp add: word_less_nat_alt unat_of_nat take_bit_nat_eq_self)
    then have "xmt_ready n t" using st True Cons.prems(3) by (simp add: xmt_ready_def)
    with t True show ?thesis by (simp add: bindE_def)
  next
    case False
    then have "length (concat wss) \<noteq> 0" using Cons.prems(9) by (cases wss) auto
    with st have st: "cnSubsegmentCount t = of_nat (Suc n)" "cnXmtState t = State_XmtSegPduContent"
      "cnBytesTransmitted t = of_nat (8 * (k + length ws))"
      using Cons.prems(3) b by auto
    from Cons.IH[OF t(2) st(2,1) Cons.prems(4,5) st(3)] Cons.prems(7,8,9) False t(1) show ?thesis
      by (auto simp: bindE_def add.assoc)
  qed
qed simp

lemma send_segment:
  assumes "sending code len sent s" "xmt_ready (Suc n) s" "n < 256" "segment_transfers code len wss seg"
  shows "\<exists>t. cn_sends wss s = (Inr (), t) \<and> sending code len (sent @ pdu seg) t \<and> xmt_ready n t"
proof -
  note seg = assms(4)[unfolded segment_transfers_def]
  obtain ws wss' where wss: "wss = ws # wss'" using seg by (cases wss) auto
  let ?header = "length_bytes (if code = McStart then of_nat (length ws * 8) else len)"
  have header: "?header = length_bytes (of_nat (8 * length seg))"
    using seg wss by (auto simp: mult.commute)
  have s: "cnXmtState s = State_XmtSegPduStart" "cnSubsegmentCount s = of_nat (Suc n)"
    using assms(2) by (simp_all add: xmt_ready_def)
  have bytes: "pdu seg = ?header @ word_bytes ws @ word_bytes (concat wss')"
    using seg wss unfolding header by (auto simp: pdu_def)
  have le: "len \<le> 0 + of_nat (length ws * 8) \<longleftrightarrow> length (concat wss') = 0" if "code \<noteq> McStart"
  proof -
    have "len = of_nat (8 * (length ws + length (concat wss')))" "length ws + length (concat wss') < 2 ^ 28"
      using seg that wss by (auto simp: packet_ok_def)
    then show ?thesis using size_less[of "8 * (length ws + length (concat wss'))" "length ws * 8"] by auto
  qed
  from send_words[of code len sent s 0 ?header ws] assms(1) s obtain t where
    t: "cn_send ws s = (Inr (), t)" "sending code len (sent @ ?header @ word_bytes ws) t" and
    st: "if length (concat wss') = 0 \<or> code = McStart
     then cnSubsegmentCount t = cnSubsegmentCount s - 1 \<and>
       cnXmtState t = (if cnSubsegmentCount s - 1 > 0 then State_XmtSegPduStart else State_XmtLcpPduStart)
     else cnSubsegmentCount t = cnSubsegmentCount s \<and> cnXmtState t = State_XmtSegPduContent \<and>
       cnBytesTransmitted t = 0 + of_nat (length ws * 8)"
    using le by (cases "code = McStart") auto
  show ?thesis
  proof (cases "wss' = []")
    case True
    have "(0 < (of_nat n :: uint64)) = (0 < n)"
      using assms(3) by (simp add: word_less_nat_alt unat_of_nat take_bit_nat_eq_self)
    then have "xmt_ready n t" using st True s(2) by (simp add: xmt_ready_def)
    with t True show ?thesis by (simp add: bindE_def wss bytes)
  next
    case False
    then have "length (concat wss') \<noteq> 0" "code \<noteq> McStart"
      using seg wss by (cases wss'; auto split: if_splits)+
    with st s have st: "cnSubsegmentCount t = of_nat (Suc n)" "cnXmtState t = State_XmtSegPduContent"
      "cnBytesTransmitted t = of_nat (8 * length ws)" by (auto simp: mult.commute)
    have "\<exists>u. cn_sends wss' t = (Inr (), u) \<and>
        sending code len ((sent @ ?header @ word_bytes ws) @ word_bytes (concat wss')) u \<and> xmt_ready n u"
      using seg wss False \<open>code \<noteq> McStart\<close>
      by (intro send_content[OF t(2) st(2,1) assms(3) _ st(3)]) (auto simp: packet_ok_def)
    with t(1) show ?thesis by (auto simp: bindE_def wss bytes)
  qed
qed

definition message_transfers :: "uint64 \<Rightarrow> uint64 list list list \<Rightarrow> conc_message \<Rightarrow> bool" where
  "message_transfers len wsss m \<longleftrightarrow> length (fst m) = 6 \<and> unat (subsegments (hd (fst m))) = length (snd m) \<and>
     list_all2 (segment_transfers (message_code (hd (fst m))) len) wsss (snd m)"

lemma send_segments:
  assumes "list_all2 (segment_transfers code len) wsss segs" "sending code len sent s" "xmt_ready (length segs) s" "length segs < 256"
  shows "\<exists>t. cn_sends (concat wsss) s = (Inr (), t) \<and> sending code len (sent @ concat (map pdu segs)) t \<and> xmt_ready 0 t"
  using assms
proof (induction wsss segs arbitrary: s sent rule: list_all2_induct)
  case (Cons wss wsss seg segs)
  have "length segs < 256" using Cons.prems(3) by simp
  from send_segment[OF Cons.prems(1) _ this Cons.hyps(1)] Cons.prems(2) obtain t where
    t: "cn_sends wss s = (Inr (), t)" "sending code len (sent @ pdu seg) t" "xmt_ready (length segs) t" by auto
  from Cons.IH[OF t(2,3)] Cons.prems(3) show ?case by (auto simp: sends_append[OF t(1)])
qed auto

lemma send_message:
  assumes "message_transfers len wsss m" "sending code len sent s" "cnXmtState s = State_XmtLcpPduStart"
  shows "\<exists>t code'. cn_sends (fst m # concat wsss) s = (Inr (), t) \<and> sending code' len (sent @ wire m) t \<and>
    cnXmtState t = State_XmtLcpPduStart"
proof -
  note m = assms(1)[unfolded message_transfers_def]
  from send_lcp[OF assms(3,2), of "fst m"] m obtain u where
    u: "cn_send (fst m) s = (Inr (), u)" "sending (message_code (hd (fst m))) len (sent @ pdu (fst m)) u"
      "xmt_ready (length (snd m)) u" by auto
  have "subsegments (hd (fst m)) \<le> 0xff" unfolding subsegments_def by (rule word_and_le1)
  then have "length (snd m) < 256" using m by (simp add: word_le_nat_alt del: mask_8_bits)
  from send_segments[OF _ u(2,3) this] m obtain t where
    "cn_sends (concat wsss) u = (Inr (), t)"
    "sending (message_code (hd (fst m))) len ((sent @ pdu (fst m)) @ concat (map pdu (snd m))) t" "xmt_ready 0 t" by auto
  with u(1) show ?thesis by (auto simp: bindE_def wire_def xmt_ready_def)
qed

lemma send_messages:
  assumes "list_all2 (message_transfers len) wssss ms" "sending code len sent s" "cnXmtState s = State_XmtLcpPduStart"
  shows "\<exists>t. cn_sends (concat (map2 (\<lambda>m wsss. fst m # concat wsss) ms wssss)) s = (Inr (), t) \<and>
    cnSent t = sent @ concat (map wire ms) \<and> cnXmtState t = State_XmtLcpPduStart"
  using assms
proof (induction wssss ms arbitrary: s sent code rule: list_all2_induct)
  case Nil
  then show ?case by (simp add: sending_def)
next
  case (Cons wsss wssss m ms)
  from send_message[OF Cons.hyps(1) Cons.prems] obtain t code' where
    t: "cn_sends (fst m # concat wsss) s = (Inr (), t)" "sending code' len (sent @ wire m) t"
      "cnXmtState t = State_XmtLcpPduStart" by auto
  from Cons.IH[OF t(2,3)] show ?case
    using sends_append[OF t(1), of "concat (map2 (\<lambda>m wsss. fst m # concat wsss) ms wssss)"]
    by (simp del: cn_sends.simps) 
qed

lemma transfers_message_ok:
  assumes "message_transfers len wsss m"
  shows "message_ok m"
proof -
  have "list_all packet_ok (snd m)"
    using assms unfolding message_transfers_def
    by (auto simp: list_all2_conv_all_nth list_all_length segment_transfers_def)
  then show ?thesis using assms by (auto simp: message_transfers_def message_ok_def packet_ok_def)
qed

text \<open>C13: A concentrator link carries the words. One concentrator is given, transfer by transfer,
  the words of a sequence of messages: the six words of each LCP and then its subsegments, whole
  or, where the segment size is fixed, cut into several transfers. Whatever way the bytes that it
  writes to the connection are cut up on their way to another concentrator, that one queues
  exactly the words of the messages in their order.
\<close>

theorem concentrator_link:
  assumes "cnAccepted s" "cnFromCrayData s = []" "cnSent s = []" "cnXmtState s = State_XmtLcpPduStart"
    "list_all2 (message_transfers (cnSegmentSize s)) wssss ms"
    "cnRcvState r = State_RcvLcpPduLength" "cnReceiveBuf r = []"
  shows "\<exists>t. cn_sends (concat (map2 (\<lambda>m wsss. fst m # concat wsss) ms wssss)) s = (Inr (), t) \<and>
    (\<forall>chunks. concat chunks = cnSent t \<longrightarrow>
      (\<exists>u. cn_receives chunks r = (Inr (), u) \<and> cnToCrayData u = cnToCrayData r @ concat (map message_words ms)))"
proof -
  have "sending (cnLastXmitMessageCode s) (cnSegmentSize s) [] s" using assms(1-3) by (simp add: sending_def)
  from send_messages[OF assms(5) this assms(4)] obtain t where
    t: "cn_sends (concat (map2 (\<lambda>m wsss. fst m # concat wsss) ms wssss)) s = (Inr (), t)" "cnSent t = concat (map wire ms)" by auto
  have "list_all message_ok ms"
    using assms(5) by (auto simp: list_all2_conv_all_nth list_all_length intro: transfers_message_ok)
  from receives_messages[OF assms(6,7) this] t show ?thesis by fastforce
qed

definition sample_sender :: IopConcentrator_c where
  "sample_sender = (CN_new 0 0)\<lparr>cnAccepted := True, cnSegmentSize := 16\<rparr>"

theorem concentrator_link_witness:
  "\<exists>t u. cn_sends [[0x01000900, 1, 2, 3, 4, 5], [7], [8]] sample_sender = (Inr (), t) \<and>
     cn_receives (map (\<lambda>b. [b]) (cnSent t)) (CN_new 0 0) = (Inr (), u) \<and> cnToCrayData u = [0x01000900, 1, 2, 3, 4, 5, 7, 8]"
proof -
  have init: "cnRcvState (CN_new 0 0) = State_RcvLcpPduLength" "cnReceiveBuf (CN_new 0 0) = []" "cnToCrayData (CN_new 0 0) = []"
    "cnAccepted sample_sender" "cnFromCrayData sample_sender = []" "cnSent sample_sender = []"
    "cnXmtState sample_sender = State_XmtLcpPduStart" "cnSegmentSize sample_sender = 16"
    by (simp_all add: sample_sender_def CN_new_def CN_MasterClear_def CloseConnSocket_def ClearBuffers_def ClearTransmitBuffers_def
        ClearReceiveBuffers_def)
  let ?m = "([0x01000900, 1, 2, 3, 4, 5], [[7, 8]]) :: conc_message"
  have "list_all2 (message_transfers (cnSegmentSize sample_sender)) [[[[7], [8]]]] [?m]"
    by (simp add: init message_transfers_def segment_transfers_def packet_ok_def subsegments_def message_code_def del: mask_8_bits)
  from concentrator_link[OF init(4-7) this init(1,2)] obtain t where
    t: "cn_sends [[0x01000900, 1, 2, 3, 4, 5], [7], [8]] sample_sender = (Inr (), t)" and
    r: "\<And>chunks. concat chunks = cnSent t \<Longrightarrow>
      \<exists>u. cn_receives chunks (CN_new 0 0) = (Inr (), u) \<and> cnToCrayData u = [0x01000900, 1, 2, 3, 4, 5, 7, 8]"
    by (auto simp: init message_words_def simp del: cn_sends.simps)
  have "concat (map (\<lambda>b. [b]) bs) = bs" for bs :: "uint8 list" by (induction bs) simp_all
  from r[OF this] t show ?thesis by blast
qed

section \<open>The count of subsegments\<close>

text \<open>
  \<open>mSubsegmentCount\<close> is used by both directions. A message without subsegments that arrives
  between an LCP that announces one and its subsegment makes the count of the sender wrap
  around: after the subsegment it does not send the next LCP but takes it for a subsegment.
\<close>

definition sample_crossing :: "(exn + unit) \<times> IopConcentrator_c" where
  "sample_crossing =
     bindE (cn_send [0x01000900, 0, 0, 0, 0, 0]) (\<lambda>_. bindE (\<lambda>s. ProcessReceivedBytes (with_buffer s (wire ([0, 0, 0, 0, 0, 0], []))))
       (\<lambda>_. cn_send [1, 2])) sample_sender"

theorem crossing_breaks_framing:
  "fst sample_crossing = Inr () \<and> cnSubsegmentCount (snd sample_crossing) = - 1 \<and>
   cnXmtState (snd sample_crossing) = State_XmtSegPduStart"
  by code_simp

end
