(* ===== verification/Sim_Packet.thy ===== *)
theory Sim_Packet
  imports Mainframe
begin

text \<open>
  The packets that the simulated I/O subsystem exchanges with the mainframe, and the two
  channels that carry them: class \<open>IopEPacket_c\<close>, \<open>ReversePacket\<close> and the classes
  \<open>ChannelIToC_c\<close> and \<open>ChannelCToI_c\<close> of \<^verbatim>\<open>sim_lib/sim_iop.h\<close> and \<^verbatim>\<open>.cpp\<close>. A packet is the
  list of its words; the first word is the header, and a finished packet repeats it at its end.
\<close>

section \<open>Packets\<close>

type_synonym packet = "CInt_t list"

abbreviation (input) EP_cMagic :: uint8 where "EP_cMagic \<equiv> 45"
abbreviation (input) EP_cFlagAck :: uint8 where "EP_cFlagAck \<equiv> 0x40"
abbreviation (input) EP_cFlagIni :: uint8 where "EP_cFlagIni \<equiv> 0x20"

text \<open>\<open>mPacket[0]\<close>: every packet has a header before its fields are used.\<close>

definition EP_header :: "packet \<Rightarrow> CInt_t" where
  "EP_header p = p ! 0"

definition EP_put :: "nat \<Rightarrow> nat \<Rightarrow> CInt_t \<Rightarrow> packet \<Rightarrow> packet" where
  "EP_put lo hi v p = p[0 := SetBits (EP_header p) lo hi v]"

definition EP_GetMagic :: "packet \<Rightarrow> uint8" where "EP_GetMagic p = ucast (GetBits (EP_header p) 58 63)"
definition EP_GetLength :: "packet \<Rightarrow> uint16" where "EP_GetLength p = ucast (GetBits (EP_header p) 48 57)"
definition EP_GetProcess :: "packet \<Rightarrow> uint8" where "EP_GetProcess p = ucast (GetBits (EP_header p) 32 36)"
definition EP_GetFlags :: "packet \<Rightarrow> uint8" where "EP_GetFlags p = ucast (GetBits (EP_header p) 24 31)"
definition EP_GetLogicalPath :: "packet \<Rightarrow> uint8" where "EP_GetLogicalPath p = ucast (GetBits (EP_header p) 16 23)"
definition EP_GetSeq :: "packet \<Rightarrow> uint8" where "EP_GetSeq p = ucast (GetBits (EP_header p) 8 15)"
definition EP_GetAckSeq :: "packet \<Rightarrow> uint8" where "EP_GetAckSeq p = ucast (GetBits (EP_header p) 0 7)"

definition EP_SetMagic :: "uint8 \<Rightarrow> packet \<Rightarrow> packet" where "EP_SetMagic v = EP_put 58 63 (ucast v)"
definition EP_SetLength :: "uint16 \<Rightarrow> packet \<Rightarrow> packet" where "EP_SetLength v = EP_put 48 57 (ucast v)"
definition EP_SetFlags :: "uint8 \<Rightarrow> packet \<Rightarrow> packet" where "EP_SetFlags v = EP_put 24 31 (ucast v)"
definition EP_SetSeq :: "uint8 \<Rightarrow> packet \<Rightarrow> packet" where "EP_SetSeq v = EP_put 8 15 (ucast v)"
definition EP_SetAckSeq :: "uint8 \<Rightarrow> packet \<Rightarrow> packet" where "EP_SetAckSeq v = EP_put 0 7 (ucast v)"

text \<open>\<open>std::vector::resize\<close> and \<open>SetSize\<close>, for a number of words behind the header.\<close>

definition resize_packet :: "nat \<Rightarrow> packet \<Rightarrow> packet" where
  "resize_packet n p = take n p @ replicate (n - length p) 0"

definition EP_SetSize :: "nat \<Rightarrow> packet \<Rightarrow> packet" where
  "EP_SetSize aSize p = EP_SetLength (of_nat (aSize + 1)) (resize_packet (aSize + 1) p)"

definition EP_IsValid :: "packet \<Rightarrow> bool" where
  "EP_IsValid p \<longleftrightarrow> p ! 0 = p ! (length p - 1) \<and> EP_GetMagic p = EP_cMagic \<and> unat (EP_GetLength p) = length p - 1"

definition EP_Finalize :: "packet \<Rightarrow> packet" where
  "EP_Finalize p =
     (let p = EP_SetFlags EP_cFlagAck (EP_SetLength (of_nat (length p)) (EP_SetMagic EP_cMagic p))
      in p @ [p ! 0])"

text \<open>The source and the destination change places.\<close>

definition ReversePacket :: "packet \<Rightarrow> packet" where
  "ReversePacket p =
     (let DID = GetBitsReverse (p ! 0) 0 15; SID = GetBitsReverse (p ! 0) 16 31
      in p[0 := SetBitsReverse (SetBitsReverse (p ! 0) 0 15 SID) 16 31 DID])"

section \<open>From the I/O subsystem to the mainframe\<close>

text \<open>A channel is at the index \<open>icChannel\<close> of the mainframe.\<close>

record ChannelIToC_c =
  icPacketQueue :: "packet list"
  icPacket :: packet
  icPacketIdx :: nat
  icPacketValid :: bool
  icChannel :: nat

definition IC_SendPacket :: "packet \<Rightarrow> (ChannelIToC_c, unit) exec" where
  "IC_SendPacket aPacket ch =
     (if icPacketValid ch then (Inl AssertError, ch)
      else (Inr (), ch\<lparr>icPacket := aPacket, icPacketIdx := 0, icPacketValid := True\<rparr>))"

text \<open>\<open>QueuePacket\<close> without the count of the packets sent, which its callers keep.\<close>

definition IC_QueuePacket :: "packet \<Rightarrow> (ChannelIToC_c, unit) exec" where
  "IC_QueuePacket aPacket ch =
     (if \<not> icPacketValid ch then IC_SendPacket aPacket ch
      else (Inr (), ch\<lparr>icPacketQueue := icPacketQueue ch @ [aPacket]\<rparr>))"

definition IC_ReadyToSend :: "ChannelIToC_c \<Rightarrow> bool" where
  "IC_ReadyToSend ch \<longleftrightarrow> \<not> icPacketValid ch"

text \<open>The loop over the words of the packet; the channel goes inactive with the last one.\<close>

function IC_words :: "(ChannelIToC_c \<times> mainframe, unit) exec" where
  "IC_words (ch, mf) =
     (if mActive (chan mf (icChannel ch)) then
        if \<not> icPacketIdx ch < length (icPacket ch) then (Inl UndefinedBehaviour, (ch, mf))
        else
          (let word = icPacket ch ! icPacketIdx ch;
               ch = ch\<lparr>icPacketIdx := icPacketIdx ch + 1\<rparr>;
               complete = (icPacketIdx ch = length (icPacket ch)) in
           case SetData word complete (icChannel ch) mf of
             (Inl e, mf) \<Rightarrow> (Inl e, (ch, mf))
           | (Inr _, mf) \<Rightarrow> if complete then (Inr (), (ch\<lparr>icPacketValid := False\<rparr>, mf)) else IC_words (ch, mf))
      else (Inl AssertError, (ch, mf)))"
  by pat_completeness auto
termination
  by (relation "measure (\<lambda>(ch, mf). length (icPacket ch) - icPacketIdx ch)") auto

declare IC_words.simps [simp del]

definition IC_ChannelTick :: "(ChannelIToC_c \<times> mainframe, unit) exec" where
  "IC_ChannelTick = (\<lambda>(ch, mf).
     if \<not> icPacketValid ch then
       (case icPacketQueue ch of
          [] \<Rightarrow> (Inr (), (ch, mf))
        | p # ps \<Rightarrow>
            (case IC_SendPacket p ch of
               (Inl e, ch) \<Rightarrow> (Inl e, (ch, mf))
             | (Inr _, ch) \<Rightarrow> (Inr (), (ch\<lparr>icPacketQueue := ps\<rparr>, mf))))
     else if mActive (chan mf (icChannel ch)) then IC_words (ch, mf)
     else (Inr (), (ch, mf)))"

section \<open>From the mainframe to the I/O subsystem\<close>

record ChannelCToI_c =
  ciPacket :: packet
  ciPacketValid :: bool
  ciChannel :: nat

text \<open>\<open>ChannelTick\<close>: words are taken until the channel has reached its limit.\<close>

function CI_ChannelTick :: "(ChannelCToI_c \<times> mainframe, unit) exec" where
  "CI_ChannelTick (ch, mf) =
     (if ciChannel ch < length (mChannels mf) \<and> mActive (chan mf (ciChannel ch)) \<and> \<not> ciPacketValid ch then
        (case GetData (ciChannel ch) mf of
           (Inl e, mf') \<Rightarrow> (Inl e, (ch, mf'))
         | (Inr word, mf') \<Rightarrow>
             (let ch = ch\<lparr>ciPacket := ciPacket ch @ [word]\<rparr>
              in CI_ChannelTick
                   (if \<not> mActive (chan mf' (ciChannel ch)) then ch\<lparr>ciPacketValid := True\<rparr> else ch, mf')))
      else (Inr (), (ch, mf)))"
  by pat_completeness auto
termination
proof (relation "measure (\<lambda>(ch, mf). unat (mLimit (chan mf (ciChannel ch)) - mAddress (chan mf (ciChannel ch))))", goal_cases)
  case (2 ch mf r mf' v ch')
  then have step: "GetData (ciChannel ch) mf = (Inr v, mf')" by (metis sum.collapse(2) prod.inject)
  from 2 have "ciChannel ch < length (mChannels mf)" by simp
  note st = GetData_step[OF this step]
  show ?case using st(2) 2 by (simp add: st(3,4) distance_decreases)
qed simp

declare CI_ChannelTick.simps [simp del]

definition CI_GetPacket :: "(ChannelCToI_c, packet) exec" where
  "CI_GetPacket ch =
     (if \<not> ciPacketValid ch then (Inl AssertError, ch)
      else (Inr (ciPacket ch), ch\<lparr>ciPacketValid := False, ciPacket := []\<rparr>))"

end
