(* ===== verification/Sim_Disk.thy ===== *)
theory Sim_Disk
  imports Host_File
begin

text \<open>
  The disks of the simulated I/O subsystem: class \<open>SimIopDisk_c\<close> of \<^verbatim>\<open>sim_lib/sim_iop_disk.h\<close>
  and \<^verbatim>\<open>.cpp\<close>. A disk is an image file and a geometry; its sectors are copied, in lines of
  four words, straight from or to the memory of the mainframe. The constructor creates a
  missing image, so the image exists; offsets and counts of the configuration are natural
  numbers. The status report, logging and debug events are left out.
\<close>

section \<open>Geometries\<close>

datatype DeviceTypes_e =
    DD00 | DD19 | DD29 | DD49 | DD39 | DD10 | DD40 | DD50 | DD11 | DD41 | DD60 | DD61 | DD62 | DD42
  | DA62 | DA60 | DD301 | DA301 | DD302 | DA302 | DDESDI | DD3 | DDLDAS | DDAS2 | DD4 | RD1 | DDIMEM
  | DD5S | DD5I | DD_U | DD6S | DD7S | DD318 | DD501

record DiskGeometry_s =
  geoName :: string
  geoDeviceType :: DeviceTypes_e
  geoSectorSize :: uint32
  geoSectors :: nat
  geoHeads :: nat
  geoCylinders :: nat
  geoStripeFactor :: uint32

definition cDiskGeometry :: "DiskGeometry_s list" where
  "cDiskGeometry =
     [\<lparr>geoName = ''DD00'', geoDeviceType = DD00, geoSectorSize = 512, geoSectors = 42, geoHeads = 8, geoCylinders = 890, geoStripeFactor = 1\<rparr>,
      \<lparr>geoName = ''DD19'', geoDeviceType = DD19, geoSectorSize = 512, geoSectors = 18, geoHeads = 10, geoCylinders = 411, geoStripeFactor = 0\<rparr>,
      \<lparr>geoName = ''DD29'', geoDeviceType = DD29, geoSectorSize = 512, geoSectors = 18, geoHeads = 10, geoCylinders = 823, geoStripeFactor = 0\<rparr>,
      \<lparr>geoName = ''DD49'', geoDeviceType = DD49, geoSectorSize = 512, geoSectors = 42, geoHeads = 8, geoCylinders = 890, geoStripeFactor = 8\<rparr>,
      \<lparr>geoName = ''DD39'', geoDeviceType = DD39, geoSectorSize = 512, geoSectors = 24, geoHeads = 5, geoCylinders = 842, geoStripeFactor = 0\<rparr>,
      \<lparr>geoName = ''DD10'', geoDeviceType = DD10, geoSectorSize = 512, geoSectors = 12, geoHeads = 19, geoCylinders = 1420, geoStripeFactor = 0\<rparr>,
      \<lparr>geoName = ''DD40'', geoDeviceType = DD40, geoSectorSize = 512, geoSectors = 48, geoHeads = 19, geoCylinders = 1420, geoStripeFactor = 8\<rparr>,
      \<lparr>geoName = ''DD50'', geoDeviceType = DD50, geoSectorSize = 512, geoSectors = 42, geoHeads = 16, geoCylinders = 890, geoStripeFactor = 8\<rparr>,
      \<lparr>geoName = ''DD11'', geoDeviceType = DD11, geoSectorSize = 512, geoSectors = 12, geoHeads = 15, geoCylinders = 1635, geoStripeFactor = 0\<rparr>,
      \<lparr>geoName = ''DD41'', geoDeviceType = DD41, geoSectorSize = 512, geoSectors = 48, geoHeads = 15, geoCylinders = 1635, geoStripeFactor = 8\<rparr>,
      \<lparr>geoName = ''DD60'', geoDeviceType = DD60, geoSectorSize = 2048, geoSectors = 23, geoHeads = 2, geoCylinders = 2611, geoStripeFactor = 2\<rparr>,
      \<lparr>geoName = ''DD61'', geoDeviceType = DD61, geoSectorSize = 512, geoSectors = 11, geoHeads = 19, geoCylinders = 2611, geoStripeFactor = 11\<rparr>,
      \<lparr>geoName = ''DD62'', geoDeviceType = DD62, geoSectorSize = 512, geoSectors = 28, geoHeads = 9, geoCylinders = 2655, geoStripeFactor = 6\<rparr>,
      \<lparr>geoName = ''DD42'', geoDeviceType = DD42, geoSectorSize = 512, geoSectors = 48, geoHeads = 19, geoCylinders = 2611, geoStripeFactor = 8\<rparr>,
      \<lparr>geoName = ''DA62'', geoDeviceType = DA62, geoSectorSize = 2048, geoSectors = 28, geoHeads = 9, geoCylinders = 2655, geoStripeFactor = 6\<rparr>,
      \<lparr>geoName = ''DA60'', geoDeviceType = DA60, geoSectorSize = 8192, geoSectors = 23, geoHeads = 2, geoCylinders = 2611, geoStripeFactor = 2\<rparr>,
      \<lparr>geoName = ''DD301'', geoDeviceType = DD301, geoSectorSize = 512, geoSectors = 25, geoHeads = 7, geoCylinders = 1930, geoStripeFactor = 5\<rparr>,
      \<lparr>geoName = ''DA301'', geoDeviceType = DA301, geoSectorSize = 2048, geoSectors = 25, geoHeads = 7, geoCylinders = 1930, geoStripeFactor = 5\<rparr>,
      \<lparr>geoName = ''DD302'', geoDeviceType = DD302, geoSectorSize = 512, geoSectors = 28, geoHeads = 7, geoCylinders = 2251, geoStripeFactor = 4\<rparr>,
      \<lparr>geoName = ''DA302'', geoDeviceType = DA302, geoSectorSize = 2048, geoSectors = 28, geoHeads = 7, geoCylinders = 2251, geoStripeFactor = 4\<rparr>,
      \<lparr>geoName = ''DDESDI'', geoDeviceType = DDESDI, geoSectorSize = 512, geoSectors = 1, geoHeads = 1, geoCylinders = 170100, geoStripeFactor = 1\<rparr>,
      \<lparr>geoName = ''DD3'', geoDeviceType = DD3, geoSectorSize = 512, geoSectors = 1, geoHeads = 1, geoCylinders = 334200, geoStripeFactor = 1\<rparr>,
      \<lparr>geoName = ''DDLDAS'', geoDeviceType = DDLDAS, geoSectorSize = 512, geoSectors = 1, geoHeads = 1, geoCylinders = 1269114, geoStripeFactor = 1\<rparr>,
      \<lparr>geoName = ''DDAS2'', geoDeviceType = DDAS2, geoSectorSize = 512, geoSectors = 1, geoHeads = 1, geoCylinders = 2502000, geoStripeFactor = 1\<rparr>,
      \<lparr>geoName = ''DD4'', geoDeviceType = DD4, geoSectorSize = 512, geoSectors = 1, geoHeads = 1, geoCylinders = 653000, geoStripeFactor = 1\<rparr>,
      \<lparr>geoName = ''RD-1'', geoDeviceType = RD1, geoSectorSize = 512, geoSectors = 1, geoHeads = 1, geoCylinders = 334200, geoStripeFactor = 1\<rparr>,
      \<lparr>geoName = ''DDIMEM'', geoDeviceType = DDIMEM, geoSectorSize = 512, geoSectors = 1, geoHeads = 1, geoCylinders = 32768, geoStripeFactor = 1\<rparr>,
      \<lparr>geoName = ''DD5S'', geoDeviceType = DD5S, geoSectorSize = 512, geoSectors = 1, geoHeads = 1, geoCylinders = 781000, geoStripeFactor = 1\<rparr>,
      \<lparr>geoName = ''DD5I'', geoDeviceType = DD5I, geoSectorSize = 512, geoSectors = 1, geoHeads = 1, geoCylinders = 723000, geoStripeFactor = 1\<rparr>,
      \<lparr>geoName = ''DD_U'', geoDeviceType = DD_U, geoSectorSize = 512, geoSectors = 1, geoHeads = 1, geoCylinders = 0xfffffff, geoStripeFactor = 1\<rparr>,
      \<lparr>geoName = ''DD6S'', geoDeviceType = DD6S, geoSectorSize = 512, geoSectors = 1, geoHeads = 1, geoCylinders = 2389000, geoStripeFactor = 1\<rparr>,
      \<lparr>geoName = ''DD314'', geoDeviceType = DD7S, geoSectorSize = 512, geoSectors = 1, geoHeads = 1, geoCylinders = 1102000, geoStripeFactor = 1\<rparr>,
      \<lparr>geoName = ''DD318'', geoDeviceType = DD318, geoSectorSize = 512, geoSectors = 1, geoHeads = 1, geoCylinders = 2342634, geoStripeFactor = 1\<rparr>,
      \<lparr>geoName = ''DD501'', geoDeviceType = DD501, geoSectorSize = 512, geoSectors = 1, geoHeads = 1, geoCylinders = 6019481, geoStripeFactor = 1\<rparr>]"

section \<open>The disk\<close>

record SimIopDisk_c =
  sdDiskId :: string
  sdIopNumber :: uint8
  sdUnit :: uint8
  sdPysicalDeviceId :: uint32
  sdNumHeads :: nat
  sdNumSectors :: nat
  sdNumCylinders :: nat
  sdSectorSize :: uint32
  sdCurrentHead :: nat
  sdCurrentSector :: nat
  sdCurrentCylinder :: nat
  sdReads :: uint32
  sdWrites :: uint32
  sdImage :: host_file

text \<open>
  The entries of a disk's configuration, with the contents of the image file if it exists. A
  geometry entry that is missing makes \<open>get\<close> throw, as a wrong parameter does:
  \<open>InvalidParameter_x\<close> and the exceptions of \<open>get\<close> are property tree errors. Only the sector
  size has a default.
\<close>

record disk_config =
  dcImage :: "host_file option"
  dcPysicalDeviceId :: uint32
  dcIopNumber :: uint8
  dcUnit :: uint8
  dcDeviceType :: "string option"
  dcSectorCnt :: "nat option"
  dcHeads :: "nat option"
  dcSectors :: "nat option"
  dcCylinders :: "nat option"
  dcSectorSize :: "uint32 option"

definition get_positive :: "nat option \<Rightarrow> exn + nat" where
  "get_positive n = (case n of None \<Rightarrow> Inl InvalidParameterError
     | Some k \<Rightarrow> if k = 0 then Inl InvalidParameterError else Inr k)"

definition get_SectorSize :: "disk_config \<Rightarrow> exn + uint32" where
  "get_SectorSize cfg =
     (let s = (case dcSectorSize cfg of Some s \<Rightarrow> s | None \<Rightarrow> 4096)
      in if s = 0 \<or> s mod 1024 \<noteq> 0 then Inl InvalidParameterError else Inr s)"

text \<open>Heads, sectors, cylinders and the size of a sector, from one of the three kinds of entries.\<close>

definition SimDisk_geometry :: "disk_config \<Rightarrow> exn + (nat \<times> nat \<times> nat \<times> uint32)" where
  "SimDisk_geometry cfg =
     (case dcDeviceType cfg of
        Some ty \<Rightarrow>
          (case List.find (\<lambda>g. geoName g = ty) cDiskGeometry of
             None \<Rightarrow> Inl InvalidParameterError
           | Some g \<Rightarrow> Inr (geoHeads g, geoSectors g, geoCylinders g, geoSectorSize g * 8))
      | None \<Rightarrow>
          (case dcSectorCnt cfg of
             Some n \<Rightarrow>
               if n = 0 then Inl InvalidParameterError
               else (case get_SectorSize cfg of Inl e \<Rightarrow> Inl e | Inr s \<Rightarrow> Inr (1, 1, n, s))
           | None \<Rightarrow>
               (case get_positive (dcHeads cfg) of Inl e \<Rightarrow> Inl e | Inr heads \<Rightarrow>
                case get_positive (dcSectors cfg) of Inl e \<Rightarrow> Inl e | Inr sectors \<Rightarrow>
                case get_positive (dcCylinders cfg) of Inl e \<Rightarrow> Inl e | Inr cylinders \<Rightarrow>
                case get_SectorSize cfg of Inl e \<Rightarrow> Inl e | Inr s \<Rightarrow> Inr (heads, sectors, cylinders, s))))"

text \<open>A new image holds one zero byte.\<close>

definition SimDisk_new :: "string \<Rightarrow> disk_config \<Rightarrow> exn + SimIopDisk_c" where
  "SimDisk_new aDiskId cfg =
     (case SimDisk_geometry cfg of
        Inl e \<Rightarrow> Inl e
      | Inr (heads, sectors, cylinders, s) \<Rightarrow>
          Inr \<lparr>sdDiskId = aDiskId, sdIopNumber = dcIopNumber cfg, sdUnit = dcUnit cfg,
            sdPysicalDeviceId = dcPysicalDeviceId cfg, sdNumHeads = heads, sdNumSectors = sectors,
            sdNumCylinders = cylinders, sdSectorSize = s, sdCurrentHead = 0, sdCurrentSector = 0,
            sdCurrentCylinder = 0, sdReads = 0, sdWrites = 0,
            sdImage = (case dcImage cfg of Some f \<Rightarrow> f | None \<Rightarrow> [0])\<rparr>)"

section \<open>Transfers\<close>

definition SimDisk_ImageOffset :: "SimIopDisk_c \<Rightarrow> nat \<Rightarrow> nat \<Rightarrow> nat \<Rightarrow> nat" where
  "SimDisk_ImageOffset d aCylinder aHead aSector =
     unat (sdSectorSize d) * (aCylinder * sdNumHeads d * sdNumSectors d + aHead * sdNumSectors d + aSector)"

definition SimDisk_AccessSize :: "SimIopDisk_c \<Rightarrow> uint32 \<Rightarrow> nat" where
  "SimDisk_AccessSize d aSectorCnt = unat (sdSectorSize d) * unat aSectorCnt div 8"

definition SimDisk_position :: "nat \<Rightarrow> nat \<Rightarrow> nat \<Rightarrow> SimIopDisk_c \<Rightarrow> SimIopDisk_c" where
  "SimDisk_position aCylinder aHead aSector d =
     d\<lparr>sdCurrentCylinder := aCylinder, sdCurrentHead := aHead, sdCurrentSector := aSector\<rparr>"

text \<open>
  One line of a read. The buffer is a local array that the code does not initialise, so the
  read that meets the end of the file leaves what was in its bytes before: \<open>stale\<close>. The lines
  after it are zero.
\<close>

definition SimDisk_ReadLine ::
    "(nat \<Rightarrow> nat \<Rightarrow> uint8) \<Rightarrow> host_file \<Rightarrow> nat \<Rightarrow> CAddr_t \<Rightarrow> nat \<Rightarrow> bool \<times> mainframe \<Rightarrow> bool \<times> mainframe" where
  "SimDisk_ReadLine stale File ImageOffset aMainframeAddr i = (\<lambda>(eof, mf).
     let got = file_read (ImageOffset + 32 * i) 32 File;
         Bytes = (if eof then replicate 32 0 else got @ map (stale i) [length got..<32])
     in (eof \<or> length got < 32,
         for_loop 0 4 (\<lambda>j. MemWrite (aMainframeAddr + of_nat (4 * i + j))
           (word_of_bytes (take 8 (drop (8 * j) Bytes)))) mf))"

definition SimDisk_Read ::
    "(nat \<Rightarrow> nat \<Rightarrow> uint8) \<Rightarrow> nat \<Rightarrow> nat \<Rightarrow> nat \<Rightarrow> uint32 \<Rightarrow> CAddr_t \<Rightarrow> (SimIopDisk_c \<times> mainframe, unit) exec" where
  "SimDisk_Read stale aCylinder aHead aSector aSectorCnt aMainframeAddr = (\<lambda>(d, mf).
     let d = SimDisk_position aCylinder aHead aSector d;
         d = d\<lparr>sdReads := sdReads d + sdSectorSize d div 1024 * aSectorCnt\<rparr>
     in if SimDisk_AccessSize d aSectorCnt mod 4 \<noteq> 0 then (Inl AssertError, (d, mf))
        else (Inr (), (d, snd (for_loop 0 (SimDisk_AccessSize d aSectorCnt div 4)
          (SimDisk_ReadLine stale (sdImage d) (SimDisk_ImageOffset d aCylinder aHead aSector) aMainframeAddr)
          (False, mf)))))"

definition SimDisk_WriteLine :: "nat \<Rightarrow> CAddr_t \<Rightarrow> mainframe \<Rightarrow> nat \<Rightarrow> host_file \<Rightarrow> host_file" where
  "SimDisk_WriteLine ImageOffset aMainframeAddr mf i File =
     file_write (ImageOffset + 32 * i)
       (concat (map (\<lambda>j. bytes_of_word (MemRead (aMainframeAddr + of_nat (4 * i + j)) mf)) [0..<4])) File"

definition SimDisk_Write ::
    "nat \<Rightarrow> nat \<Rightarrow> nat \<Rightarrow> uint32 \<Rightarrow> CAddr_t \<Rightarrow> (SimIopDisk_c \<times> mainframe, unit) exec" where
  "SimDisk_Write aCylinder aHead aSector aSectorCnt aMainframeAddr = (\<lambda>(d, mf).
     let d = SimDisk_position aCylinder aHead aSector d;
         d = d\<lparr>sdWrites := sdWrites d + sdSectorSize d div 1024 * aSectorCnt\<rparr>
     in if SimDisk_AccessSize d aSectorCnt mod 4 \<noteq> 0 then (Inl AssertError, (d, mf))
        else (Inr (), (d\<lparr>sdImage := for_loop 0 (SimDisk_AccessSize d aSectorCnt div 4)
          (SimDisk_WriteLine (SimDisk_ImageOffset d aCylinder aHead aSector) aMainframeAddr mf)
          (sdImage d)\<rparr>, mf)))"

text \<open>The same by the index of the first sector, which is split into sector, head and cylinder.\<close>

definition SimDisk_Sector :: "SimIopDisk_c \<Rightarrow> nat \<Rightarrow> nat" where
  "SimDisk_Sector d aSectorIdx = aSectorIdx mod sdNumSectors d"

definition SimDisk_Head :: "SimIopDisk_c \<Rightarrow> nat \<Rightarrow> nat" where
  "SimDisk_Head d aSectorIdx = aSectorIdx div sdNumSectors d mod sdNumHeads d"

definition SimDisk_Cylinder :: "SimIopDisk_c \<Rightarrow> nat \<Rightarrow> nat" where
  "SimDisk_Cylinder d aSectorIdx = aSectorIdx div sdNumSectors d div sdNumHeads d"

definition SimDisk_ReadIdx ::
    "(nat \<Rightarrow> nat \<Rightarrow> uint8) \<Rightarrow> nat \<Rightarrow> uint32 \<Rightarrow> CAddr_t \<Rightarrow> (SimIopDisk_c \<times> mainframe, unit) exec" where
  "SimDisk_ReadIdx stale aSectorIdx aSectorCnt aMainframeAddr = (\<lambda>(d, mf).
     if \<not> SimDisk_Cylinder d aSectorIdx < sdNumCylinders d then (Inl AssertError, (d, mf))
     else SimDisk_Read stale (SimDisk_Cylinder d aSectorIdx) (SimDisk_Head d aSectorIdx)
       (SimDisk_Sector d aSectorIdx) aSectorCnt aMainframeAddr (d, mf))"

definition SimDisk_WriteIdx :: "nat \<Rightarrow> uint32 \<Rightarrow> CAddr_t \<Rightarrow> (SimIopDisk_c \<times> mainframe, unit) exec" where
  "SimDisk_WriteIdx aSectorIdx aSectorCnt aMainframeAddr = (\<lambda>(d, mf).
     if \<not> SimDisk_Cylinder d aSectorIdx < sdNumCylinders d then (Inl AssertError, (d, mf))
     else SimDisk_Write (SimDisk_Cylinder d aSectorIdx) (SimDisk_Head d aSectorIdx)
       (SimDisk_Sector d aSectorIdx) aSectorCnt aMainframeAddr (d, mf))"

end
