(* ===== verification/Host_Stream.thy ===== *)
theory Host_Stream
  imports Host_File Console
begin

text \<open>
  Host files by name, and the file streams that several devices open on them: the part of
  \<open>std::fstream\<close> and of \<open>boost::filesystem::path\<close> that the file peripherals use. A write shows
  in the file at once. Directories are created where they are missing, so only the files count;
  no name is that of a directory.
\<close>

section \<open>Names\<close>

type_synonym path = bytes
type_synonym host_files = "path \<Rightarrow> host_file option"

text \<open>\<open>operator/=\<close>: a separator comes between, unless there is one or one part is empty.\<close>

definition path_append :: "path \<Rightarrow> path \<Rightarrow> path" where
  "path_append p q =
     (if q = [] then p
      else if p = [] \<or> last p = 0x2f \<or> hd q = 0x2f then p @ q
      else p @ 0x2f # q)"

text \<open>The parts that \<open>strtok\<close> finds between slashes; empty parts do not count.\<close>

function path_parts :: "bytes \<Rightarrow> bytes list" where
  "path_parts [] = []"
| "path_parts (b # bs) =
     (if b = 0x2f then path_parts bs
      else (b # takeWhile (\<lambda>c. c \<noteq> 0x2f) bs) # path_parts (dropWhile (\<lambda>c. c \<noteq> 0x2f) bs))"
  by pat_completeness auto
termination by (relation "measure length") (auto simp: less_Suc_eq_le length_dropWhile_le)

section \<open>Streams\<close>

datatype open_mode = OpenIn | OpenOut | OpenAppend

record host_stream =
  hsPath :: "path option"
  hsMode :: open_mode
  hsPos :: nat
  hsEof :: bool
  hsFail :: bool
  hsBad :: bool

definition closed_stream :: host_stream where
  "closed_stream = \<lparr>hsPath = None, hsMode = OpenIn, hsPos = 0, hsEof = False, hsFail = False, hsBad = False\<rparr>"

definition hs_good :: "host_stream \<Rightarrow> bool" where
  "hs_good st \<longleftrightarrow> \<not> hsEof st \<and> \<not> hsFail st \<and> \<not> hsBad st"

definition hs_exists :: "path \<Rightarrow> host_files \<Rightarrow> bool" where
  "hs_exists p fs \<longleftrightarrow> fs p \<noteq> None"

text \<open>
  \<open>open\<close>: a stream that is open already only fails; success clears the state. \<open>OpenOut\<close> empties
  the file, and both it and \<open>OpenAppend\<close> create it.
\<close>

definition hs_open :: "open_mode \<Rightarrow> path \<Rightarrow> host_stream \<times> host_files \<Rightarrow> host_stream \<times> host_files" where
  "hs_open m p = (\<lambda>(st, fs).
     if hsPath st \<noteq> None \<or> m = OpenIn \<and> fs p = None then (st\<lparr>hsFail := True\<rparr>, fs)
     else
       (\<lparr>hsPath = Some p, hsMode = m, hsPos = 0, hsEof = False, hsFail = False, hsBad = False\<rparr>,
        case m of
          OpenIn \<Rightarrow> fs
        | OpenOut \<Rightarrow> fs(p \<mapsto> [])
        | OpenAppend \<Rightarrow> fs(p \<mapsto> case fs p of Some f \<Rightarrow> f | None \<Rightarrow> [])))"

definition hs_close :: "host_stream \<Rightarrow> host_stream" where
  "hs_close st = (if hsPath st = None then st\<lparr>hsFail := True\<rparr> else st\<lparr>hsPath := None\<rparr>)"

text \<open>The contents of the file that a stream is open on.\<close>

definition hs_file :: "host_stream \<Rightarrow> host_files \<Rightarrow> host_file" where
  "hs_file st fs = (case hsPath st of None \<Rightarrow> [] | Some p \<Rightarrow> case fs p of Some f \<Rightarrow> f | None \<Rightarrow> [])"

text \<open>
  \<open>read\<close> gives the bytes it got, whose number is \<open>gcount\<close>. A stream that is closed or open for
  writing only is at its end at once.
\<close>

definition hs_read :: "nat \<Rightarrow> host_stream \<times> host_files \<Rightarrow> bytes \<times> host_stream" where
  "hs_read n = (\<lambda>(st, fs).
     if \<not> hs_good st then ([], st\<lparr>hsFail := True\<rparr>)
     else
       (let bs = (if hsMode st = OpenIn then file_read (hsPos st) n (hs_file st fs) else []);
            st = st\<lparr>hsPos := hsPos st + length bs\<rparr>
        in (bs, if length bs < n then st\<lparr>hsEof := True, hsFail := True\<rparr> else st)))"

definition hs_write :: "bytes \<Rightarrow> host_stream \<times> host_files \<Rightarrow> host_stream \<times> host_files" where
  "hs_write bs = (\<lambda>(st, fs).
     if \<not> hs_good st then (st\<lparr>hsFail := True\<rparr>, fs)
     else
       (case hsPath st of
          None \<Rightarrow> (st\<lparr>hsBad := True\<rparr>, fs)
        | Some p \<Rightarrow>
            (if hsMode st = OpenIn then (st\<lparr>hsBad := True\<rparr>, fs)
             else
               (let f = hs_file st fs; pos = (if hsMode st = OpenAppend then length f else hsPos st)
                in (st\<lparr>hsPos := pos + length bs\<rparr>, fs(p \<mapsto> file_write pos bs f))))))"

section \<open>Reading back what was written\<close>

lemma hs_good_simps [simp]:
  "hs_good \<lparr>hsPath = a, hsMode = b, hsPos = c, hsEof = False, hsFail = False, hsBad = False\<rparr>"
  "hs_good (st\<lparr>hsPos := n\<rparr>) = hs_good st"
  by (simp_all add: hs_good_def)

text \<open>What a stream that is open for writing appends at its end stays behind what was there.\<close>

definition hs_writing :: "path \<Rightarrow> host_file \<Rightarrow> host_stream \<times> host_files \<Rightarrow> bool" where
  "hs_writing p f = (\<lambda>(st, fs).
     hs_good st \<and> hsPath st = Some p \<and> hsMode st \<noteq> OpenIn \<and> fs p = Some f \<and>
     (hsMode st = OpenOut \<longrightarrow> hsPos st = length f))"

definition hs_reading :: "path \<Rightarrow> nat \<Rightarrow> host_file \<Rightarrow> host_stream \<times> host_files \<Rightarrow> bool" where
  "hs_reading p pos f = (\<lambda>(st, fs).
     hs_good st \<and> hsPath st = Some p \<and> hsMode st = OpenIn \<and> fs p = Some f \<and> hsPos st = pos)"

lemma hs_open_out:
  "hsPath st = None \<Longrightarrow> hs_writing p [] (hs_open OpenOut p (st, fs))"
  by (simp add: hs_open_def hs_writing_def)

lemma hs_open_append:
  "hsPath st = None \<Longrightarrow> hs_writing p (case fs p of Some f \<Rightarrow> f | None \<Rightarrow> []) (hs_open OpenAppend p (st, fs))"
  by (simp add: hs_open_def hs_writing_def)

lemma hs_open_in:
  "hsPath st = None \<Longrightarrow> fs p = Some f \<Longrightarrow> hs_reading p 0 f (hs_open OpenIn p (st, fs))"
  by (simp add: hs_open_def hs_reading_def)

lemma hs_write_append: "hs_writing p f s \<Longrightarrow> hs_writing p (f @ bs) (hs_write bs s)"
  by (cases s; cases "hsMode (fst s)") (auto simp: hs_writing_def hs_write_def hs_file_def Let_def file_write_append)

lemma hs_read_next:
  assumes "hs_reading p pos f s" "pos + n \<le> length f" "hs_read n s = (bs, st')"
  shows "bs = file_read pos n f" "hs_reading p (pos + n) f (st', snd s)"
proof -
  have "min n (length f - pos) = n" using assms(2) by simp
  then show "bs = file_read pos n f" "hs_reading p (pos + n) f (st', snd s)"
    using assms(1,3) by (auto simp: hs_reading_def hs_read_def hs_file_def Let_def)
qed

lemma hs_write_other: "hs_writing p f s \<Longrightarrow> q \<noteq> p \<Longrightarrow> snd (hs_write bs s) q = snd s q"
  by (cases s) (auto simp: hs_writing_def hs_write_def hs_file_def Let_def)

end
