(* ===== verification/Sim_Iop.thy ===== *)
theory Sim_Iop
  imports Sim_Packet Sim_Disk Host_Stream
begin

text \<open>
  The cluster of simulated I/O processors: class \<open>SimIopCluster_c\<close> of \<^verbatim>\<open>sim_lib/sim_iop.h\<close> and
  \<^verbatim>\<open>.cpp\<close>, without its main loop, which \<^verbatim>\<open>Sim_Iop_Tick\<close> has, and its consoles, the classes
  \<open>SimIopDConsole_c\<close> and \<open>SimIopEConsole_c\<close> of \<^verbatim>\<open>sim_lib/sim_iop_con.h\<close> and \<^verbatim>\<open>.cpp\<close>. The model-D
  cluster speaks in packets of six words, the model-E cluster in packets with a header and a
  trailer. The completion of a write to a terminal is an event of its own; logging, the status
  reports and the commands are left out.
\<close>

section \<open>State\<close>

datatype IopRevision_e = IOSD | IOSE

datatype SimStates_e =
    SimReset | WaitTimeSent | WaitISent | WaitJSent | RunningJ90 | RunningYEL | KernelPanic

record SimIopConsole_c =
  scConsole :: Console_c
  scConsoleId :: nat
  scDev :: uint8
  scDisableAutoTerminal :: bool
  scSeqZSent :: uint8
  scSeqZReceived :: uint8

text \<open>
  The file peripherals: class \<open>SimIopPeripheral_c\<close> of \<^verbatim>\<open>sim_lib/sim_iop_periph.h\<close> with its four
  streams and the entries of its configuration.
\<close>

record SimIopPeripheral_c =
  pePrinterFile :: host_stream
  peTapeFile :: host_stream
  peDiskFile :: host_stream
  peFile :: host_stream
  pePrinterFileName :: path
  peDiskDir :: path
  peTapeDir :: path
  peLastTapeFile :: uint16
  peRewindOnClose :: bool

text \<open>
  A network interface: class \<open>SimIopEth_c\<close> of \<^verbatim>\<open>sim_lib/sim_iop_eth.h\<close> and its
  \<open>PacketCaptureThread_c\<close>. \<open>pcSent\<close> collects what the adapter was given to send. The interface has
  no thread when the adapter cannot be opened.
\<close>

record PacketCaptureThread_c =
  pcPacketQueue :: "bytes list"
  pcSent :: "bytes list"
  pcPaused :: bool
  pcFilterMac :: uint64

record SimIopEth_c =
  enChannelId :: nat
  enPacketsSent :: uint32
  enPacketsReceived :: uint32
  enBytesSent :: uint32
  enBytesReceived :: uint32
  enCrayPacketsSent :: uint32
  enCrayPacketsReceived :: uint32
  enRingOpAddr :: uint32
  enCpInQAddr :: uint32
  enCpOutQAddr :: uint32
  enCpQSize :: uint32
  enMtu :: uint32
  enBufferPtr :: CAddr_t
  enDevStruct :: CAddr_t
  enSimMacAddr :: uint64
  enPacketCaptureThread :: "PacketCaptureThread_c option"
  enThreadStarted :: bool

text \<open>
  The revision tells the class of all consoles. \<open>siDefaultConsole\<close> is a console as the
  constructor makes it from the default configuration; it does not initialise the sequence
  numbers. The image files are the contents of the files that the configuration names.
\<close>

record SimIopCluster_c =
  siState :: SimStates_e
  siIopRevision :: IopRevision_e
  siMasterCluster :: bool
  siIopId :: nat
  siSeqSent :: uint8
  siSeqReceived :: uint8
  siPacketsReceived :: nat
  siPacketsSent :: nat
  siDisks :: "SimIopDisk_c list"
  siConsoles :: "SimIopConsole_c list"
  siEthInterfaces :: "SimIopEth_c list"
  siIopPeripheral :: "SimIopPeripheral_c option"
  siHostFiles :: host_files
  siDefaultConsole :: SimIopConsole_c
  siIToCChannel :: ChannelIToC_c
  siCToIChannel :: ChannelCToI_c
  siMainframe :: mainframe
  siCpuMasterClears :: "bool list"  \<comment> \<open>the calls of \<open>Mainframe_c::CpuMasterClear\<close>, in order\<close>
  siKernelFile :: "host_file option"
  siKernelPreamble :: nat
  siParameterFile :: "host_file option"
  siRamFsFile :: "host_file option"
  siBootCluster :: uint32
  siBootChannel :: uint32
  siLogicalMainframeNumber :: uint8
  siOWSProtocolLevel :: uint8
  siRunLevel :: "uint8 option"
  siDontTouchExchangePacket :: bool

text \<open>What \<open>localtime\<close> tells, with the year in full.\<close>

record sim_time =
  htMonth :: nat
  htDay :: nat
  htYear :: nat
  htHour :: nat
  htMinute :: nat
  htSecond :: nat

section \<open>Sending\<close>

definition SI_QueuePacket :: "packet \<Rightarrow> (SimIopCluster_c, unit) exec" where
  "SI_QueuePacket aPacket cl =
     (case IC_QueuePacket aPacket (siIToCChannel cl) of
        (r, ch) \<Rightarrow> (r, cl\<lparr>siPacketsSent := siPacketsSent cl + 1, siIToCChannel := ch\<rparr>))"

definition SI_SendPacket :: "packet \<Rightarrow> (SimIopCluster_c, unit) exec" where
  "SI_SendPacket aPacket cl =
     bindE (SI_QueuePacket (EP_Finalize (EP_SetSeq (siSeqSent cl) (EP_SetAckSeq (siSeqReceived cl) aPacket))))
       (\<lambda>_ cl. (Inr (), cl\<lparr>siSeqSent := siSeqSent cl + 1\<rparr>)) cl"

text \<open>\<open>GenerateResponse\<close>, from a request and from an empty packet.\<close>

definition SI_GenerateResponse :: "packet \<Rightarrow> SimIopCluster_c \<Rightarrow> packet" where
  "SI_GenerateResponse aRequest cl =
     EP_SetFlags EP_cFlagAck (EP_SetSeq (siSeqSent cl) (EP_SetAckSeq (siSeqReceived cl) (EP_SetSize 0 aRequest)))"

text \<open>\<open>Data(i)\<close>: the words behind the header.\<close>

definition EP_put_Data :: "nat \<Rightarrow> CInt_t \<Rightarrow> packet \<Rightarrow> packet" where
  "EP_put_Data i v p = p[i + 1 := v]"

definition EP_Data :: "nat \<Rightarrow> packet \<Rightarrow> CInt_t" where
  "EP_Data i p = p ! (i + 1)"

definition SetBitsInPlace :: "nat \<Rightarrow> nat \<Rightarrow> nat \<Rightarrow> CInt_t \<Rightarrow> packet \<Rightarrow> packet" where
  "SetBitsInPlace i lo hi v p = EP_put_Data i (SetBits (EP_Data i p) lo hi v) p"

text \<open>
  The loop \<open>for (Idx = 0; Idx < n; ++Idx) Response.Data(Idx) = aPacket.Data(Idx)\<close>; it runs past
  the end of a vector when either packet is too short.
\<close>

definition copy_Data :: "nat \<Rightarrow> packet \<Rightarrow> packet \<Rightarrow> exn + packet" where
  "copy_Data n aPacket Response =
     (if n + 1 \<le> length Response \<and> n + 1 \<le> length aPacket
      then Inr (for_loop 0 n (\<lambda>Idx. EP_put_Data Idx (EP_Data Idx aPacket)) Response)
      else Inl UndefinedBehaviour)"

section \<open>Consoles\<close>

definition upd_console :: "nat \<Rightarrow> (SimIopConsole_c \<Rightarrow> SimIopConsole_c) \<Rightarrow> SimIopCluster_c \<Rightarrow> SimIopCluster_c" where
  "upd_console k f cl = cl\<lparr>siConsoles := (siConsoles cl)[k := f (siConsoles cl ! k)]\<rparr>"

definition SC_SendString :: "nat \<Rightarrow> bytes \<Rightarrow> SimIopCluster_c \<Rightarrow> SimIopCluster_c" where
  "SC_SendString k s = upd_console k (\<lambda>c. c\<lparr>scConsole := SendStringInternal s True (scConsole c)\<rparr>)"

text \<open>\<open>SendChar\<close> goes through a C string.\<close>

definition SC_SendChar :: "nat \<Rightarrow> uint8 \<Rightarrow> SimIopCluster_c \<Rightarrow> SimIopCluster_c" where
  "SC_SendChar k ch = SC_SendString k (c_string [ch])"

abbreviation crlf :: bytes where "crlf \<equiv> [0x0d, 0x0a]"

text \<open>\<open>Console->Reset()\<close>: only the model-E console has something to reset.\<close>

definition SC_Reset :: "IopRevision_e \<Rightarrow> SimIopConsole_c \<Rightarrow> SimIopConsole_c" where
  "SC_Reset Revision c = (case Revision of IOSE \<Rightarrow> c\<lparr>scSeqZSent := 0, scSeqZReceived := 0\<rparr> | IOSD \<Rightarrow> c)"

definition MakeConsoles :: "nat \<Rightarrow> SimIopCluster_c \<Rightarrow> SimIopCluster_c" where
  "MakeConsoles aMaxConsoleId cl =
     cl\<lparr>siConsoles := siConsoles cl @ map (\<lambda>n. (siDefaultConsole cl)\<lparr>scConsoleId := n, scDev := of_nat n\<rparr>)
       [length (siConsoles cl)..<aMaxConsoleId + 1]\<rparr>"

text \<open>The characters of some words: the words are byte-swapped in place and read as a string.\<close>

definition words_text :: "CInt_t list \<Rightarrow> bytes" where
  "words_text ws = concat (map (\<lambda>w. bytes_of_word (SwapBytes64 w)) ws)"

subsection \<open>Model D\<close>

definition T_PutChars :: CInt_t where "T_PutChars = 1"
definition T_OK :: CInt_t where "T_OK = 1"
definition T_InputReady :: CInt_t where "T_InputReady = 2"

definition T_reply :: "packet \<Rightarrow> packet" where
  "T_reply p = (let p = ReversePacket p in p[0 := SetBits (SetBits (p ! 0) 8 11 T_OK) 0 7 0])"

text \<open>The two sections of the string of a \<open>PutChars\<close> and an \<open>Eol\<close> packet differ in the line end.\<close>

definition HandleTPacket_console :: "nat \<Rightarrow> packet \<Rightarrow> (SimIopCluster_c, unit) exec" where
  "HandleTPacket_console k aPacket cl =
     (let Function = GetBits (aPacket ! 0) 12 15;
          ByteCnt = GetBits (aPacket ! 0) 0 7;
          text = take (unat ByteCnt) (words_text (tl aPacket))
      in if ByteCnt > 40 then (Inl AssertError, cl)
         else if Function = T_PutChars then SI_QueuePacket (T_reply aPacket) (SC_SendString k text cl)
         else if Function = 2 then SI_QueuePacket (T_reply aPacket) (SC_SendString k crlf (SC_SendString k text cl))
         else if Function = 4 \<or> Function = 5 then SI_QueuePacket (T_reply aPacket) cl
         else (Inl AssertError, cl))"

text \<open>\<open>SimIopDConsole_c::ReceiveHandlerDetail\<close>: one character in a packet of its own.\<close>

definition T_input_packet :: "nat \<Rightarrow> nat \<Rightarrow> uint8 \<Rightarrow> packet" where
  "T_input_packet IopId ConsoleId ch =
     [SetBits (SetBits (SetBits (SetBits (SetBits (SetBits 0 32 63 0x43310054) 24 31 (of_nat IopId)) 16 23 (of_nat ConsoleId))
        12 15 T_PutChars) 8 11 T_InputReady) 0 7 1,
      SwapBytes64 (word_of_bytes [ch]), SwapBytes64 0, SwapBytes64 0, SwapBytes64 0, SwapBytes64 0]"

definition D_ReceiveHandler :: "nat \<Rightarrow> (SimIopCluster_c, unit) exec" where
  "D_ReceiveHandler k cl =
     (let c = siConsoles cl ! k in
      case GetChar (scConsole c) of
        (Inl e, con) \<Rightarrow> (Inl e, upd_console k (scConsole_update (\<lambda>_. con)) cl)
      | (Inr ch, con) \<Rightarrow>
          SI_QueuePacket (T_input_packet (siIopId cl) (scConsoleId c) ch)
            (upd_console k (scConsole_update (\<lambda>_. con)) cl))"

subsection \<open>Model E\<close>

text \<open>The word of a \<open>z\<close> packet: type, flags, request, character count, device and sequence numbers.\<close>

definition Z_word :: "uint8 \<Rightarrow> uint64 \<Rightarrow> nat \<Rightarrow> SimIopConsole_c \<Rightarrow> uint8 \<Rightarrow> packet \<Rightarrow> packet" where
  "Z_word flags request count c dev p =
     SetBitsInPlace 0 0 7 (ucast (scSeqZReceived c))
       (SetBitsInPlace 0 8 15 (ucast (scSeqZSent c) + 1)
         (SetBitsInPlace 0 16 22 (ucast dev)
           (SetBitsInPlace 0 23 31 (of_nat count)
             (SetBitsInPlace 0 40 47 request
               (SetBitsInPlace 0 48 55 (ucast flags)
                 (SetBitsInPlace 0 56 63 0x7a p))))))"

definition SendTransmitAck :: "nat \<Rightarrow> (SimIopCluster_c, unit) exec" where
  "SendTransmitAck k cl =
     (let c = siConsoles cl ! k
      in SI_SendPacket (Z_word 0x08 4 0 c (scDev c) (EP_SetSize 1 (SI_GenerateResponse [] cl))) cl)"

text \<open>The string of a packet; the swapped words must be there.\<close>

definition Z_text :: "nat \<Rightarrow> packet \<Rightarrow> exn + bytes" where
  "Z_text CharCount aPacket =
     (if (CharCount + 7) div 8 + 2 \<le> length aPacket
      then Inr (take CharCount (words_text (take ((CharCount + 7) div 8) (drop 2 aPacket))))
      else Inl UndefinedBehaviour)"

definition Z_put_text :: "nat \<Rightarrow> nat \<Rightarrow> packet \<Rightarrow> (SimIopCluster_c, unit) exec" where
  "Z_put_text k CharCount aPacket cl =
     (case Z_text CharCount aPacket of
        Inl e \<Rightarrow> (Inl e, cl)
      | Inr text \<Rightarrow>
          (let cl = SC_SendString k text cl
           in if scDisableAutoTerminal (siConsoles cl ! k) then SendTransmitAck k cl else (Inr (), cl)))"

definition HandleIosEPacket_console :: "nat \<Rightarrow> packet \<Rightarrow> (SimIopCluster_c, unit) exec" where
  "HandleIosEPacket_console k aPacket cl =
     (let w = EP_Data 0 aPacket;
          Request = GetBits w 40 47;
          CharCount = unat (GetBits w 23 31);
          Dev = ucast (GetBits w 16 22);
          Flags = ucast (GetBits w 48 55);
          cl = upd_console k (\<lambda>c. c\<lparr>scSeqZReceived := ucast (GetBits w 8 15), scSeqZSent := ucast (GetBits w 0 7)\<rparr>) cl
      in if Request = 4 then Z_put_text k CharCount aPacket cl
         else if Request = 3 then (if CharCount \<noteq> 0 then Z_put_text k CharCount aPacket cl else (Inr (), cl))
         else if Request = 1 \<or> Request = 2 then
           SI_SendPacket (Z_word Flags Request 0 (siConsoles cl ! k) Dev (EP_SetSize 1 (SI_GenerateResponse aPacket cl))) cl
         else (Inl AssertError, cl))"

text \<open>
  The characters of one packet, at most seven: after each the terminal is polled. A list says
  what each round of polling brings; after its end nothing comes any more.
\<close>

fun Z_collect :: "nat \<Rightarrow> (Console_c \<Rightarrow> Console_c) list \<Rightarrow> Console_c \<Rightarrow> bytes \<times> (Console_c \<Rightarrow> Console_c) list \<times> Console_c" where
  "Z_collect 0 polls c = ([], polls, c)"
| "Z_collect (Suc n) polls c =
     (if conReceiveFull c then
        (let ch = conReceiveBuf c;
             c = c\<lparr>conReceiveFull := False\<rparr>;
             (polls, c) = (case polls of [] \<Rightarrow> ([], c) | poll # ps \<Rightarrow> (ps, poll c));
             (Str, polls, c) = Z_collect n polls c
         in (ch # Str, polls, c))
      else ([], polls, c))"

definition E_ReceiveHandler ::
    "nat \<Rightarrow> (Console_c \<Rightarrow> Console_c) list \<Rightarrow> (SimIopCluster_c, (Console_c \<Rightarrow> Console_c) list) exec" where
  "E_ReceiveHandler k polls cl =
     (case Z_collect 7 polls (scConsole (siConsoles cl ! k)) of
        (Str, polls, con) \<Rightarrow>
          (let cl = upd_console k (scConsole_update (\<lambda>_. con)) cl;
               c = siConsoles cl ! k;
               Response = EP_SetFlags EP_cFlagAck (EP_SetSize 2 []);
               Response = Z_word 0x02 4 (length Str) c (scDev c) Response;
               Response = EP_put_Data 1 (SwapBytes64 (word_of_bytes Str)) Response
           in bindE (SI_SendPacket Response) (\<lambda>_ cl. (Inr polls, cl)) cl))"

subsection \<open>Polling and completion\<close>

text \<open>
  \<open>Console_c::Tick\<close>: the loop sends what has come in until nothing more comes. Polling changes
  the connection only, so each round of it applies to the console's connection.
\<close>

definition poll_round :: "nat \<Rightarrow> (Console_c \<Rightarrow> Console_c) \<Rightarrow> SimIopCluster_c \<Rightarrow> SimIopCluster_c" where
  "poll_round k poll = upd_console k (\<lambda>c. c\<lparr>scConsole := poll (scConsole c)\<rparr>)"

definition SC_ReceiveHandler ::
    "nat \<Rightarrow> (Console_c \<Rightarrow> Console_c) list \<Rightarrow> (SimIopCluster_c, (Console_c \<Rightarrow> Console_c) list) exec" where
  "SC_ReceiveHandler k polls cl =
     (case siIopRevision cl of
        IOSE \<Rightarrow> E_ReceiveHandler k polls cl
      | IOSD \<Rightarrow> bindE (D_ReceiveHandler k) (\<lambda>_ cl. (Inr polls, cl)) cl)"

abbreviation has_input :: "nat \<Rightarrow> SimIopCluster_c \<Rightarrow> bool" where
  "has_input k cl \<equiv> conReceiveFull (scConsole (siConsoles cl ! k))"

lemma length_Z_collect: "length (fst (snd (Z_collect n polls c))) \<le> length polls"
proof (induction n arbitrary: polls c)
  case (Suc n)
  have "length (fst (snd (Z_collect n ps (poll c)))) \<le> Suc (length ps)" for ps poll c
    using Suc[of ps "poll c"] by simp
  moreover have "fst (snd (Z_collect n [] c')) = []" for c' using Suc[of "[]" c'] by simp
  ultimately show ?case by (cases polls) (auto simp: split_beta Let_def)
qed simp

lemma Z_collect_no_polls:
  "conReceiveFull c \<Longrightarrow> Z_collect (Suc n) [] c = ([conReceiveBuf c], [], c\<lparr>conReceiveFull := False\<rparr>)"
  by (cases n) simp_all

lemma consoles_SI_send [simp]:
  "siConsoles (snd (SI_QueuePacket p cl)) = siConsoles cl"
  "siConsoles (snd (SI_SendPacket p cl)) = siConsoles cl"
  by (simp_all add: SI_QueuePacket_def SI_SendPacket_def bindE_def split: prod.splits sum.splits)

lemma SC_ReceiveHandler_progress:
  assumes "k < length (siConsoles cl)" "has_input k cl" "SC_ReceiveHandler k polls cl = (Inr polls', cl')"
  shows "length polls' \<le> length polls" "polls = [] \<Longrightarrow> \<not> has_input k cl'" "length (siConsoles cl') = length (siConsoles cl)"
proof -
  have s: "SI_SendPacket p cl1 = (r, cl2) \<Longrightarrow> siConsoles cl2 = siConsoles cl1" for p cl1 r cl2
    using consoles_SI_send(2)[of p cl1] by simp
  have q: "SI_QueuePacket p cl1 = (r, cl2) \<Longrightarrow> siConsoles cl2 = siConsoles cl1" for p cl1 r cl2
    using consoles_SI_send(1)[of p cl1] by simp
  show "length polls' \<le> length polls"
    using assms length_Z_collect[of 7 polls "scConsole (siConsoles cl ! k)"]
    by (auto simp: SC_ReceiveHandler_def E_ReceiveHandler_def bindE_def Let_def
        split: IopRevision_e.splits prod.splits sum.splits)
  show "\<not> has_input k cl'" if "polls = []"
    using assms that Z_collect_no_polls[of "scConsole (siConsoles cl ! k)" 6]
    by (auto simp: SC_ReceiveHandler_def E_ReceiveHandler_def D_ReceiveHandler_def bindE_def Let_def GetChar_def
        upd_console_def dest!: s q split: IopRevision_e.splits prod.splits sum.splits)
  show "length (siConsoles cl') = length (siConsoles cl)"
    using assms
    by (auto simp: SC_ReceiveHandler_def E_ReceiveHandler_def D_ReceiveHandler_def bindE_def Let_def GetChar_def
        upd_console_def dest!: s q split: IopRevision_e.splits prod.splits sum.splits)
qed

function SC_TickLoop ::
    "nat \<Rightarrow> (Console_c \<Rightarrow> Console_c) list \<Rightarrow> (SimIopCluster_c, (Console_c \<Rightarrow> Console_c) list) exec" where
  "SC_TickLoop k polls cl =
     (if k < length (siConsoles cl) \<and> has_input k cl then
        (case SC_ReceiveHandler k polls cl of
           (Inl e, cl) \<Rightarrow> (Inl e, cl)
         | (Inr polls', cl') \<Rightarrow>
             (case polls' of
                [] \<Rightarrow> SC_TickLoop k [] cl'
              | poll # ps \<Rightarrow> SC_TickLoop k ps (poll_round k poll cl')))
      else (Inr polls, cl))"
  by pat_completeness auto
termination
proof (relation "measure (\<lambda>(k, polls, cl). 2 * length polls + (if has_input k cl then 1 else 0))", goal_cases)
  case (2 k polls cl r cl' polls')
  then have "SC_ReceiveHandler k polls cl = (Inr polls', cl')" by (metis sum.collapse(2) prod.inject)
  then show ?case using 2 SC_ReceiveHandler_progress[of k cl polls polls' cl'] by (cases polls) auto
next
  case (3 k polls cl r cl' polls' poll ps)
  then have "SC_ReceiveHandler k polls cl = (Inr polls', cl')" by (metis sum.collapse(2) prod.inject)
  then show ?case using 3 SC_ReceiveHandler_progress(1)[of k cl polls polls' cl'] by auto
qed simp

declare SC_TickLoop.simps [simp del]

definition SC_Tick :: "nat \<Rightarrow> (Console_c \<Rightarrow> Console_c) list \<Rightarrow> (SimIopCluster_c, unit) exec" where
  "SC_Tick k polls cl =
     (let cl = upd_console k (\<lambda>c. c\<lparr>scConsole := (scConsole c)\<lparr>conPollCnt := conPollCnt (scConsole c) + 1\<rparr>\<rparr>) cl in
      if conPollCnt (scConsole (siConsoles cl ! k)) > 1000 then
        bindE (SC_TickLoop k polls) (\<lambda>polls cl.
          (Inr (), upd_console k (\<lambda>c. c\<lparr>scConsole := (scConsole c)\<lparr>conPollCnt := 0\<rparr>\<rparr>)
             (case polls of [] \<Rightarrow> cl | poll # _ \<Rightarrow> poll_round k poll cl))) cl
      else (Inr (), cl))"

text \<open>
  \<open>WriteHandler\<close> without an error, for the head of the queue; the model-E console acknowledges
  when nothing more is queued, unless the terminal was disabled.
\<close>

definition SC_WriteHandler :: "nat \<Rightarrow> (SimIopCluster_c, unit) exec" where
  "SC_WriteHandler k cl =
     (let c = siConsoles cl ! k in
      case conTransmitQueue (scConsole c) of
        [] \<Rightarrow> (Inr (), cl)
      | (_, DoNotify) # q \<Rightarrow>
          (let cl = upd_console k (\<lambda>c. c\<lparr>scConsole := (scConsole c)\<lparr>conTransmitQueue := q\<rparr>\<rparr>) cl
           in if DoNotify \<and> siIopRevision cl = IOSE \<and> \<not> scDisableAutoTerminal c \<and> q = []
              then SendTransmitAck k cl else (Inr (), cl)))"

end
