(* ===== verification/Sim_Periph.thy ===== *)
theory Sim_Periph
  imports Sim_Iop
begin

text \<open>
  The file peripherals of the simulated I/O subsystem, which serve the \<open>F\<close> packets: class
  \<open>SimIopPeripheral_c\<close> of \<^verbatim>\<open>sim_lib/sim_iop_periph.h\<close> and \<^verbatim>\<open>.cpp\<close>. A printer, a tape, a disk and
  a file are streams on host files; data goes between them and the memory of the mainframe in
  lines of four words. Logging is left out.
\<close>

section \<open>Transfers\<close>

record io_buffer =
  ibAddr :: uint32
  ibDataLen :: uint32
  ibTransferLen :: uint32

type_synonym stream_state = "(host_stream \<times> host_files) \<times> mainframe"

text \<open>The number of lines; the length does not wrap, as it is widened first.\<close>

definition PE_AccessSize :: "io_buffer \<Rightarrow> nat" where
  "PE_AccessSize b = (unat (ibDataLen b) + 31) div 32"

definition PE_line :: "uint32 \<Rightarrow> nat \<Rightarrow> nat \<Rightarrow> mainframe \<Rightarrow> bytes" where
  "PE_line aAddr i LineSize mf =
     take LineSize (concat (map (\<lambda>j. bytes_of_word (MemRead (aAddr + of_nat (4 * i + j)) mf)) [0..<(LineSize + 7) div 8]))"

fun PE_WriteLines :: "uint32 \<Rightarrow> nat list \<Rightarrow> nat \<Rightarrow> (stream_state, nat) exec" where
  "PE_WriteLines aAddr [] DataLeft s = (Inr DataLeft, s)"
| "PE_WriteLines aAddr (i # is) DataLeft (sf, mf) =
     (let LineSize = min DataLeft 32;
          sf = hs_write (PE_line aAddr i LineSize mf) sf
      in if hsBad (fst sf) then (Inl AssertError, (sf, mf))
         else PE_WriteLines aAddr is (DataLeft - LineSize) (sf, mf))"

definition PE_Write_buffer :: "io_buffer \<Rightarrow> (stream_state, io_buffer) exec" where
  "PE_Write_buffer b s =
     (if ibDataLen b = 0 then (Inr b, s)
      else bindE (PE_WriteLines (ibAddr b) [0..<PE_AccessSize b] (unat (ibDataLen b))) (\<lambda>DataLeft s.
        if DataLeft \<noteq> 0 then (Inl AssertError, s)
        else (Inr (b\<lparr>ibTransferLen := ibDataLen b\<rparr>), s)) s)"

text \<open>
  One line of a read: the words that hold the bytes that came. The last of them may be short;
  the rest of it is what the uninitialised buffer held.
\<close>

definition PE_store_line :: "(nat \<Rightarrow> nat \<Rightarrow> uint8) \<Rightarrow> uint32 \<Rightarrow> nat \<Rightarrow> bytes \<Rightarrow> mainframe \<Rightarrow> mainframe" where
  "PE_store_line stale aAddr i got =
     for_loop 0 ((length got + 7) div 8) (\<lambda>j. MemWrite (aAddr + of_nat (4 * i + j))
       (word_of_bytes (take 8 (drop (8 * j) (got @ map (stale i) [length got..<32])))))"

fun PE_ReadLines :: "(nat \<Rightarrow> nat \<Rightarrow> uint8) \<Rightarrow> uint32 \<Rightarrow> nat list \<Rightarrow> nat \<Rightarrow> (stream_state, nat) exec" where
  "PE_ReadLines stale aAddr [] DataLeft s = (Inr DataLeft, s)"
| "PE_ReadLines stale aAddr (i # is) DataLeft ((st, fs), mf) =
     (let LineSize = min DataLeft 32;
          (got, st) = hs_read LineSize (st, fs)
      in if length got < LineSize \<and> \<not> hsEof st \<or> length got = LineSize \<and> hsBad st
         then (Inl AssertError, ((st, fs), mf))
         else
           (let mf = PE_store_line stale aAddr i got mf; DataLeft = DataLeft - length got
            in if hsEof st then (Inr DataLeft, ((st, fs), mf))
               else PE_ReadLines stale aAddr is DataLeft ((st, fs), mf)))"

definition PE_Read_buffer :: "(nat \<Rightarrow> nat \<Rightarrow> uint8) \<Rightarrow> io_buffer \<Rightarrow> (stream_state, io_buffer) exec" where
  "PE_Read_buffer stale b s =
     (if ibDataLen b = 0 then (Inr b, s)
      else if hsEof (fst (fst s)) then (Inr (b\<lparr>ibTransferLen := 0\<rparr>), s)
      else bindE (PE_ReadLines stale (ibAddr b) [0..<PE_AccessSize b] (unat (ibDataLen b))) (\<lambda>DataLeft s.
        if DataLeft \<noteq> 0 \<and> \<not> hsEof (fst (fst s)) then (Inl AssertError, s)
        else (Inr (b\<lparr>ibTransferLen := ibDataLen b - of_nat DataLeft\<rparr>), s)) s)"

text \<open>\<open>Write\<close> and \<open>Read\<close>, over the first \<open>aNumBuffers\<close> buffers.\<close>

fun PE_buffers :: "(io_buffer \<Rightarrow> (stream_state, io_buffer) exec) \<Rightarrow> nat \<Rightarrow> io_buffer list \<Rightarrow> (stream_state, io_buffer list) exec" where
  "PE_buffers f n [] s = (Inr [], s)"
| "PE_buffers f 0 bs s = (Inr bs, s)"
| "PE_buffers f (Suc n) (b # bs) s =
     (case f b s of
        (Inl e, s) \<Rightarrow> (Inl e, s)
      | (Inr b, s) \<Rightarrow> bindE (PE_buffers f n bs) (\<lambda>bs s. (Inr (b # bs), s)) s)"

definition PE_Write :: "nat \<Rightarrow> io_buffer list \<Rightarrow> (stream_state, io_buffer list) exec" where
  "PE_Write = PE_buffers PE_Write_buffer"

definition PE_Read :: "(nat \<Rightarrow> nat \<Rightarrow> uint8) \<Rightarrow> nat \<Rightarrow> io_buffer list \<Rightarrow> (stream_state, io_buffer list) exec" where
  "PE_Read stale = PE_buffers (PE_Read_buffer stale)"

section \<open>Packets\<close>

text \<open>A model-E answer is the packet behind a word of its own, with a lower-case letter in it.\<close>

definition PE_SendPacket :: "packet \<Rightarrow> bool \<Rightarrow> (SimIopCluster_c, unit) exec" where
  "PE_SendPacket aPacket aIosEStyle cl =
     (if \<not> aIosEStyle then SI_QueuePacket aPacket cl
      else
        (let Response = EP_SetSize (length aPacket + 1) (SI_GenerateResponse [] cl);
             Response = EP_put_Data 0 0x6600030000000000 Response;
             Response = for_loop 0 (length aPacket) (\<lambda>Idx. EP_put_Data (Idx + 1) (aPacket ! Idx)) Response
         in SI_SendPacket Response cl))"

definition F_OK :: CInt_t where "F_OK = 0"
definition F_ILDRV :: CInt_t where "F_ILDRV = 6"

definition F_Printer :: CInt_t where "F_Printer = 56"
definition F_Tape :: CInt_t where "F_Tape = 57"
definition F_Disk :: CInt_t where "F_Disk = 58"
definition F_File :: CInt_t where "F_File = 59"

lemmas f_codes = F_OK_def F_ILDRV_def F_Printer_def F_Tape_def F_Disk_def F_File_def

text \<open>Every branch answers with the packet, reversed, and a status.\<close>

definition F_reply :: "CInt_t \<Rightarrow> packet \<Rightarrow> packet" where
  "F_reply Status p =
     (let p = ReversePacket p; p = p[0 := SetBits (p ! 0) 0 6 Status]
      in p[0 := SetBits (p ! 0) 7 7 0])"

definition F_answer :: "CInt_t \<Rightarrow> packet \<Rightarrow> bool \<Rightarrow> (SimIopCluster_c, unit) exec" where
  "F_answer Status p aIosEStyle = PE_SendPacket (F_reply Status p) aIosEStyle"

text \<open>An operation on one of the streams of the peripherals.\<close>

definition PE_on_stream ::
    "(SimIopPeripheral_c \<Rightarrow> host_stream) \<Rightarrow> ((host_stream \<Rightarrow> host_stream) \<Rightarrow> SimIopPeripheral_c \<Rightarrow> SimIopPeripheral_c) \<Rightarrow>
     (stream_state, 'a) exec \<Rightarrow> (SimIopCluster_c, 'a) exec" where
  "PE_on_stream get upd f cl =
     (case siIopPeripheral cl of
        None \<Rightarrow> (Inl UndefinedBehaviour, cl)
      | Some pe \<Rightarrow>
          (case f ((get pe, siHostFiles cl), siMainframe cl) of
             (r, ((st, fs), mf)) \<Rightarrow>
               (r, cl\<lparr>siIopPeripheral := Some (upd (\<lambda>_. st) pe), siHostFiles := fs, siMainframe := mf\<rparr>)))"

definition upd_periph :: "(SimIopPeripheral_c \<Rightarrow> SimIopPeripheral_c) \<Rightarrow> SimIopCluster_c \<Rightarrow> SimIopCluster_c" where
  "upd_periph f cl = cl\<lparr>siIopPeripheral := map_option f (siIopPeripheral cl)\<rparr>"

definition PE_open :: "open_mode \<Rightarrow> path \<Rightarrow> (stream_state, unit) exec" where
  "PE_open m p = (\<lambda>(sf, mf). (Inr (), (hs_open m p sf, mf)))"

definition PE_close :: "(stream_state, unit) exec" where
  "PE_close = (\<lambda>((st, fs), mf). (Inr (), ((hs_close st, fs), mf)))"

section \<open>Open and close\<close>

definition PE_tape_path :: "SimIopPeripheral_c \<Rightarrow> uint16 \<Rightarrow> path" where
  "PE_tape_path pe FileNumber = path_append (peTapeDir pe) (dec_digits (unat FileNumber) @ ascii ''.dat'')"

definition F_OPN_tape :: "packet \<Rightarrow> bool \<Rightarrow> SimIopPeripheral_c \<Rightarrow> (SimIopCluster_c, unit) exec" where
  "F_OPN_tape p aIosEStyle pe cl =
     (let DoWrite = GetBits (p ! 5) 56 63 \<noteq> 0;
          FileNumber = ucast (GetBits (p ! 5) 16 31);
          FullPath = PE_tape_path pe FileNumber;
          cl = upd_periph (\<lambda>pe. pe\<lparr>peRewindOnClose := (GetBits (p ! 5) 48 55 \<noteq> 0), peLastTapeFile := FileNumber\<rparr>) cl
      in if \<not> hs_exists FullPath (siHostFiles cl) \<and> \<not> DoWrite then F_answer F_ILDRV p aIosEStyle cl
         else bindE (PE_on_stream peFile peFile_update (PE_open (if DoWrite then OpenOut else OpenIn) FullPath))
                (\<lambda>_. F_answer F_OK p aIosEStyle) cl)"

definition F_OPN :: "packet \<Rightarrow> bool \<Rightarrow> SimIopPeripheral_c \<Rightarrow> (SimIopCluster_c, unit) exec" where
  "F_OPN p aIosEStyle pe cl =
     (let ChannelNumber = GetBits (p ! 0) 16 21 in
      if ChannelNumber = F_Printer then
        bindE (PE_on_stream pePrinterFile pePrinterFile_update (PE_open OpenAppend (pePrinterFileName pe)))
          (\<lambda>_. F_answer F_OK p aIosEStyle) cl
      else if ChannelNumber = F_Disk then F_answer F_OK p aIosEStyle cl
      else if ChannelNumber = F_Tape then
        (if length p < 6 then (Inl UndefinedBehaviour, cl) else F_OPN_tape p aIosEStyle pe cl)
      else if ChannelNumber = F_File then F_answer F_OK p aIosEStyle cl
      else (Inl AssertError, cl))"

definition F_CLS :: "packet \<Rightarrow> bool \<Rightarrow> (SimIopCluster_c, unit) exec" where
  "F_CLS p aIosEStyle =
     (let ChannelNumber = GetBits (p ! 0) 16 21 in
      bindE
        (if ChannelNumber = F_Printer then PE_on_stream pePrinterFile pePrinterFile_update PE_close
         else if ChannelNumber = F_Disk then PE_on_stream peDiskFile peDiskFile_update PE_close
         else if ChannelNumber = F_Tape then
           bindE (\<lambda>cl. (Inr (), upd_periph (\<lambda>pe. pe\<lparr>peLastTapeFile :=
                    if peRewindOnClose pe then 0 else peLastTapeFile pe + 1\<rparr>) cl))
             (\<lambda>_. PE_on_stream peTapeFile peTapeFile_update PE_close)
         else if ChannelNumber = F_File then PE_on_stream peFile peFile_update PE_close
         else throwE AssertError)
        (\<lambda>_. F_answer F_OK p aIosEStyle))"

section \<open>Read and write\<close>

definition F_buffers :: "packet \<Rightarrow> io_buffer list" where
  "F_buffers p =
     [\<lparr>ibAddr = ucast (GetBits (p ! 2) 32 63), ibDataLen = ucast (GetBits (p ! 3) 32 63),
       ibTransferLen = ucast (GetBits (p ! 4) 32 63)\<rparr>,
      \<lparr>ibAddr = ucast (GetBits (p ! 2) 0 31), ibDataLen = ucast (GetBits (p ! 3) 0 31),
       ibTransferLen = ucast (GetBits (p ! 4) 0 31)\<rparr>]"

definition F_transfer_reply :: "io_buffer list \<Rightarrow> packet \<Rightarrow> packet" where
  "F_transfer_reply bs p =
     (let p = F_reply F_OK p;
          p = p[4 := SetBits (p ! 4) 32 63 (ucast (ibTransferLen (bs ! 0)))]
      in p[4 := SetBits (p ! 4) 0 31 (ucast (ibTransferLen (bs ! 1)))])"

definition F_RD :: "(nat \<Rightarrow> nat \<Rightarrow> uint8) \<Rightarrow> packet \<Rightarrow> bool \<Rightarrow> (SimIopCluster_c, unit) exec" where
  "F_RD stale p aIosEStyle =
     (let BufferCnt = (if GetBits (p ! 0) 8 15 = 7 then 2 else 1);
          ChannelNumber = GetBits (p ! 0) 16 21; bs = F_buffers p in
      bindE
        (if ChannelNumber = F_Printer then throwE AssertError
         else if ChannelNumber = F_Disk then returnE bs
         else if ChannelNumber = F_Tape then PE_on_stream peTapeFile peTapeFile_update (PE_Read stale BufferCnt bs)
         else if ChannelNumber = F_File then PE_on_stream peFile peFile_update (PE_Read stale BufferCnt bs)
         else throwE AssertError)
        (\<lambda>bs. PE_SendPacket (F_transfer_reply bs p) aIosEStyle))"

text \<open>The count of the buffers asks for the function code of a read, which a write never has.\<close>

definition F_WR :: "packet \<Rightarrow> bool \<Rightarrow> (SimIopCluster_c, unit) exec" where
  "F_WR p aIosEStyle =
     (let BufferCnt = (if GetBits (p ! 0) 8 15 = 7 then 2 else 1);
          ChannelNumber = GetBits (p ! 0) 16 21; bs = F_buffers p in
      bindE
        (if ChannelNumber = F_Printer then PE_on_stream pePrinterFile pePrinterFile_update (PE_Write BufferCnt bs)
         else if ChannelNumber = F_Disk then returnE bs
         else if ChannelNumber = F_Tape then PE_on_stream peTapeFile peTapeFile_update (PE_Write BufferCnt bs)
         else if ChannelNumber = F_File then PE_on_stream peFile peFile_update (PE_Write BufferCnt bs)
         else throwE AssertError)
        (\<lambda>bs. PE_SendPacket (F_transfer_reply bs p) aIosEStyle))"

section \<open>The file driver\<close>

text \<open>Two names of sixteen characters, or one of 480 with slashes in it.\<close>

definition F_path :: "packet \<Rightarrow> bool \<Rightarrow> SimIopPeripheral_c \<Rightarrow> path" where
  "F_path p aIosEStyle pe =
     (if \<not> aIosEStyle then
        path_append (path_append (peDiskDir pe) (c_string (words_text (take 2 (drop 1 p)))))
          (c_string (words_text (take 2 (drop 3 p))))
      else
        foldl path_append (peDiskDir pe) (path_parts (c_string (words_text (take 60 (drop 6 p))))))"

definition F_DRF32 :: "packet \<Rightarrow> bool \<Rightarrow> SimIopPeripheral_c \<Rightarrow> (SimIopCluster_c, unit) exec" where
  "F_DRF32 p aIosEStyle pe cl =
     (if GetBits (p ! 0) 16 21 \<noteq> F_File then (Inl AssertError, cl)
      else if length p < (if aIosEStyle then 66 else 6) then (Inl UndefinedBehaviour, cl)
      else
        (let DoWrite = GetBits (p ! 5) 56 63 \<noteq> 0;
             DoOverwrite = GetBits (p ! 5) 48 55 \<noteq> 0;
             FullPath = F_path p aIosEStyle pe
         in if hs_exists FullPath (siHostFiles cl) \<and> \<not> DoOverwrite \<and> DoWrite then F_answer F_ILDRV p aIosEStyle cl
            else if \<not> hs_exists FullPath (siHostFiles cl) \<and> \<not> DoWrite then F_answer F_ILDRV p aIosEStyle cl
            else bindE (PE_on_stream peFile peFile_update (PE_open (if DoWrite then OpenOut else OpenIn) FullPath))
                   (\<lambda>_. F_answer F_OK p aIosEStyle) cl))"

section \<open>The handler\<close>

definition PE_HandlePacket :: "(nat \<Rightarrow> nat \<Rightarrow> uint8) \<Rightarrow> packet \<Rightarrow> bool \<Rightarrow> (SimIopCluster_c, unit) exec" where
  "PE_HandlePacket stale aPacket aIosEStyle cl =
     (case siIopPeripheral cl of
        None \<Rightarrow> (Inl UndefinedBehaviour, cl)
      | Some pe \<Rightarrow>
          if aPacket = [] then (Inl UndefinedBehaviour, cl)
          else
            (let Function = GetBits (aPacket ! 0) 8 15 in
             if Function = 3 then F_OPN aPacket aIosEStyle pe cl
             else if Function = 4 then F_CLS aPacket aIosEStyle cl
             else if Function = 5 \<or> Function = 6 \<or> Function = 7 then
               (if length aPacket < 5 then (Inl UndefinedBehaviour, cl) else F_RD stale aPacket aIosEStyle cl)
             else if Function = 8 \<or> Function = 9 \<or> Function = 10 then
               (if length aPacket < 5 then (Inl UndefinedBehaviour, cl) else F_WR aPacket aIosEStyle cl)
             else if Function = 32 then F_DRF32 aPacket aIosEStyle pe cl
             else (Inl AssertError, cl)))"

definition PE_HandleIosDPacket :: "(nat \<Rightarrow> nat \<Rightarrow> uint8) \<Rightarrow> packet \<Rightarrow> (SimIopCluster_c, unit) exec" where
  "PE_HandleIosDPacket stale aPacket = PE_HandlePacket stale aPacket False"

text \<open>The embedded packet; the length of a valid packet of two words or more is at least two.\<close>

definition PE_HandleIosEPacket :: "(nat \<Rightarrow> nat \<Rightarrow> uint8) \<Rightarrow> packet \<Rightarrow> (SimIopCluster_c, unit) exec" where
  "PE_HandleIosEPacket stale aPacket cl =
     (if unat (EP_GetLength aPacket) < 2 \<or> length aPacket < unat (EP_GetLength aPacket) then (Inl UndefinedBehaviour, cl)
      else PE_HandlePacket stale (take (unat (EP_GetLength aPacket) - 2) (drop 2 aPacket)) True cl)"

end
