(* ===== verification/Sim_Eth.thy ===== *)
theory Sim_Eth
  imports Sim_Iop
begin

text \<open>
  The network interfaces of the simulated I/O subsystem: classes \<open>SimIopEth_c\<close> and
  \<open>PacketCaptureThread_c\<close> of \<^verbatim>\<open>sim_lib/sim_iop_eth.h\<close> and \<^verbatim>\<open>.cpp\<close>. Frames travel through two rings
  in the memory of the mainframe. A ring has a header of three words (the read index, the write
  index, and the number of its slots) and slots of 192 words: a word with the size of the frame,
  two bytes of padding, and the frame. The receive thread is an event, \<open>PC_Receive\<close>; the choice of
  the adapter and logging are left out, but not the reads of the memory that logging does.
\<close>

section \<open>The receive thread\<close>

definition frame_DstMac :: "bytes \<Rightarrow> uint64" where
  "frame_DstMac p = for_loop 0 6 (\<lambda>Idx m. SetBits m ((5 - Idx) * 8) ((5 - Idx) * 8 + 7) (ucast (p ! Idx))) 0"

definition frame_accepted :: "uint64 \<Rightarrow> uint64 \<Rightarrow> bool" where
  "frame_accepted FilterMac DstMac \<longleftrightarrow>
     DstMac = FilterMac \<or> DstMac = 0xffffffffff \<or> DstMac AND 0x010000000000 \<noteq> 0"

definition PC_Receive :: "bytes \<Rightarrow> PacketCaptureThread_c \<Rightarrow> PacketCaptureThread_c" where
  "PC_Receive p th =
     (if length p < 24 \<or> pcPaused th then th
      else if frame_accepted (pcFilterMac th) (frame_DstMac p)
      then th\<lparr>pcPacketQueue := pcPacketQueue th @ [p]\<rparr> else th)"

section \<open>Memory\<close>

definition on_sim_mainframe :: "(mainframe, 'a) exec \<Rightarrow> (SimIopCluster_c, 'a) exec" where
  "on_sim_mainframe f cl = (case f (siMainframe cl) of (r, mf) \<Rightarrow> (r, cl\<lparr>siMainframe := mf\<rparr>))"

definition MemWrite8 :: "CAddr_t \<Rightarrow> uint8 \<Rightarrow> mainframe \<Rightarrow> mainframe" where
  "MemWrite8 aAddr aVal mf = mf\<lparr>mMemory := (mMemory mf)(unat aAddr := aVal)\<rparr>"

definition MemReadNoWatchpoint8 :: "CAddr_t \<Rightarrow> (mainframe, uint8) exec" where
  "MemReadNoWatchpoint8 aAddr mf =
     (if unat aAddr \<ge> mMemorySize mf then (Inl ReadOutOfBoundsError, mf) else (Inr (mMemory mf (unat aAddr)), mf))"

text \<open>A word of a ring, in the byte order of the host.\<close>

definition ring_word :: "CAddr_t \<Rightarrow> (SimIopCluster_c, CInt_t) exec" where
  "ring_word aAddr = bindE (on_sim_mainframe (MemReadNoWatchpoint aAddr)) (\<lambda>v. returnE (SwapBytes64 v))"

text \<open>
  \<open>DumpMem\<close> reads the words whether they are printed or not, so it can throw. The memory ends
  before the addresses do.
\<close>

definition DumpMem :: "CAddr_t \<Rightarrow> nat \<Rightarrow> (SimIopCluster_c, unit) exec" where
  "DumpMem aBuffer aLength cl =
     (let End = aBuffer + of_nat aLength in
      if aBuffer < End \<and> (unat End - 1) * 8 \<ge> mMemorySize (siMainframe cl)
      then (Inl ReadOutOfBoundsError, cl) else (Inr (), cl))"

fun read_bytes :: "CAddr_t \<Rightarrow> nat \<Rightarrow> (mainframe, bytes) exec" where
  "read_bytes aAddr 0 mf = (Inr [], mf)"
| "read_bytes aAddr (Suc n) mf =
     (case MemReadNoWatchpoint8 aAddr mf of
        (Inl e, mf) \<Rightarrow> (Inl e, mf)
      | (Inr b, mf) \<Rightarrow> bindE (read_bytes (aAddr + 1) n) (\<lambda>bs mf. (Inr (b # bs), mf)) mf)"

definition write_bytes :: "CAddr_t \<Rightarrow> bytes \<Rightarrow> mainframe \<Rightarrow> mainframe" where
  "write_bytes aAddr bs = for_loop 0 (length bs) (\<lambda>Idx. MemWrite8 (aAddr + of_nat Idx) (bs ! Idx))"

section \<open>Interfaces\<close>

definition upd_eth :: "nat \<Rightarrow> (SimIopEth_c \<Rightarrow> SimIopEth_c) \<Rightarrow> SimIopCluster_c \<Rightarrow> SimIopCluster_c" where
  "upd_eth k f cl = cl\<lparr>siEthInterfaces := (siEthInterfaces cl)[k := f (siEthInterfaces cl ! k)]\<rparr>"

abbreviation eth :: "SimIopCluster_c \<Rightarrow> nat \<Rightarrow> SimIopEth_c" where
  "eth cl k \<equiv> siEthInterfaces cl ! k"

text \<open>The adapter is there when it could be opened.\<close>

definition SimIopEth_new :: "nat \<Rightarrow> uint64 \<Rightarrow> bool \<Rightarrow> SimIopEth_c" where
  "SimIopEth_new Channel SimMacAddr opened =
     \<lparr>enChannelId = Channel, enPacketsSent = 0, enPacketsReceived = 0, enBytesSent = 0, enBytesReceived = 0,
      enCrayPacketsSent = 0, enCrayPacketsReceived = 0, enRingOpAddr = 0, enCpInQAddr = 0, enCpOutQAddr = 0,
      enCpQSize = 0, enMtu = 0, enBufferPtr = 0, enDevStruct = 0, enSimMacAddr = SimMacAddr,
      enPacketCaptureThread =
        (if opened then Some \<lparr>pcPacketQueue = [], pcSent = [], pcPaused = True, pcFilterMac = SimMacAddr\<rparr> else None),
      enThreadStarted = False\<rparr>"

definition Eth_MasterClear :: "SimIopEth_c \<Rightarrow> SimIopEth_c" where
  "Eth_MasterClear e = e\<lparr>enPacketsReceived := 0\<rparr>"

definition upd_thread :: "(PacketCaptureThread_c \<Rightarrow> PacketCaptureThread_c) \<Rightarrow> SimIopEth_c \<Rightarrow> SimIopEth_c" where
  "upd_thread f e = e\<lparr>enPacketCaptureThread := map_option f (enPacketCaptureThread e)\<rparr>"

definition cEtherPacketSize :: uint64 where "cEtherPacketSize = 1536"

text \<open>The address of slot \<open>idx\<close>: the product is of 64 bits, the address of 32.\<close>

definition ring_slot :: "CAddr_t \<Rightarrow> uint64 \<Rightarrow> CAddr_t" where
  "ring_slot Q idx = Q + 3 + ucast (idx * cEtherPacketSize div 8)"

definition DumpQueues :: "nat \<Rightarrow> (SimIopCluster_c, unit) exec" where
  "DumpQueues k cl = bindE (DumpMem (enCpInQAddr (eth cl k)) 3) (\<lambda>_ cl. DumpMem (enCpOutQAddr (eth cl k)) 3 cl) cl"

section \<open>Packets\<close>

definition GetIosEPacket :: "packet \<Rightarrow> packet" where
  "GetIosEPacket aIosDPacket =
     for_loop 0 (length aIosDPacket) (\<lambda>Idx. EP_put_Data (Idx + 1) (aIosDPacket ! Idx))
       (EP_SetLength (of_nat (length aIosDPacket + 2)) (EP_SetSize (length aIosDPacket + 1) []))"

definition Eth_SendPacket :: "nat \<Rightarrow> packet \<Rightarrow> (SimIopCluster_c, unit) exec" where
  "Eth_SendPacket k aPacket cl =
     (let cl = upd_eth k (\<lambda>e. e\<lparr>enCrayPacketsSent := enCrayPacketsSent e + 1\<rparr>) cl in
      case siIopRevision cl of
        IOSE \<Rightarrow> SI_SendPacket aPacket cl
      | IOSD \<Rightarrow>
          (if EP_GetLength aPacket \<noteq> 8 then (Inl AssertError, cl)
           else if length aPacket < 8 then (Inl UndefinedBehaviour, cl)
           else SI_QueuePacket (ReversePacket (take 6 (drop 2 aPacket))) cl))"

text \<open>The packet of a request as its answer, with a status.\<close>

definition Eth_response :: "CInt_t \<Rightarrow> packet \<Rightarrow> SimIopCluster_c \<Rightarrow> exn + packet" where
  "Eth_response Status aPacket cl =
     (let n = unat (EP_GetLength aPacket) - 1 in
      case copy_Data n aPacket (EP_SetSize n (SI_GenerateResponse aPacket cl)) of
        Inl e \<Rightarrow> Inl e
      | Inr Response \<Rightarrow>
          (if length Response < 3 then Inl UndefinedBehaviour
           else Inr (SetBitsInPlace 1 0 6 Status (SetBitsInPlace 1 7 7 0 (SetBitsInPlace 0 56 63 0x6d Response)))))"

definition Eth_respond :: "nat \<Rightarrow> CInt_t \<Rightarrow> packet \<Rightarrow> (SimIopCluster_c, unit) exec" where
  "Eth_respond k Status aPacket cl =
     (case Eth_response Status aPacket cl of
        Inl e \<Rightarrow> (Inl e, cl)
      | Inr Response \<Rightarrow> Eth_SendPacket k Response cl)"

definition MPST_OK :: CInt_t where "MPST_OK = 0"
definition MPST_HDW :: CInt_t where "MPST_HDW = 1"
definition MPST_ILCHN :: CInt_t where "MPST_ILCHN = 3"

definition Eth_SendErrorResponse :: "nat \<Rightarrow> packet \<Rightarrow> CInt_t \<Rightarrow> (SimIopCluster_c, unit) exec" where
  "Eth_SendErrorResponse k aPacket aStatus = Eth_respond k aStatus aPacket"

text \<open>The message that tells the driver of a ring that has moved.\<close>

definition SLEEP_OUTPUT :: CInt_t where "SLEEP_OUTPUT = 1"
definition WAKEUP_INPUT :: CInt_t where "WAKEUP_INPUT = 2"
definition WAKEUP_OUTPUT :: CInt_t where "WAKEUP_OUTPUT = 3"

definition Eth_sleep_packet :: "nat \<Rightarrow> CInt_t \<Rightarrow> CInt_t \<Rightarrow> SimIopCluster_c \<Rightarrow> packet" where
  "Eth_sleep_packet k ReqType CurIndex cl =
     (let e = eth cl k;
          p = SetBitsInPlace 0 56 63 0x6d (EP_SetSize 7 (SI_GenerateResponse [] cl));
          p = (if siIopRevision cl = IOSE then SetBitsInPlace 1 32 47 0x004d (SetBitsInPlace 1 48 63 0x4331 p)
               else SetBitsInPlace 1 32 47 0x4331 (SetBitsInPlace 1 48 63 0x004d p));
          p = SetBitsInPlace 1 16 21 (of_nat (enChannelId e)) (SetBitsInPlace 1 22 24 0xff p);
          p = SetBitsInPlace 1 0 6 MPST_OK (SetBitsInPlace 1 7 7 0 (SetBitsInPlace 1 8 15 5 p));
          p = SetBitsInPlace 2 0 31 (ucast (enDevStruct e)) (SetBitsInPlace 2 32 63 (ucast (enBufferPtr e)) p)
      in SetBitsInPlace 3 0 31 CurIndex (SetBitsInPlace 3 32 63 ReqType p))"

section \<open>Sending frames\<close>

definition mac_bytes :: "uint64 \<Rightarrow> bytes" where
  "mac_bytes m = map (\<lambda>Idx. ucast (GetBits m ((5 - Idx) * 8) ((5 - Idx) * 8 + 7))) [0..<6]"

definition patch_src_mac :: "uint64 \<Rightarrow> bytes \<Rightarrow> bytes" where
  "patch_src_mac m p = for_loop 0 6 (\<lambda>Idx p. p[6 + Idx := mac_bytes m ! Idx]) p"

definition Eth_HandleTxPacket :: "nat \<Rightarrow> uint64 \<Rightarrow> (SimIopCluster_c, unit) exec" where
  "Eth_HandleTxPacket k aQueueIdx cl =
     (if enPacketCaptureThread (eth cl k) = None then (Inr (), cl)
      else
        (let Base = ring_slot (enCpOutQAddr (eth cl k)) aQueueIdx; PayloadStart = Base + 1 in
         bindE (ring_word Base) (\<lambda>EntryHead.
           let PayloadSize = ucast (GetBits EntryHead 0 31) :: uint32 in
           bindE (DumpMem PayloadStart (unat (PayloadSize + 2 + 7) div 8)) (\<lambda>_.
           bindE (on_sim_mainframe (read_bytes (PayloadStart * 8 + 2) (unat PayloadSize))) (\<lambda>TxPacket cl.
             if length TxPacket < 12 then (Inl UndefinedBehaviour, cl)
             else (Inr (), upd_eth k (\<lambda>e. upd_thread
                    (\<lambda>th. th\<lparr>pcSent := pcSent th @ [patch_src_mac (enSimMacAddr e) TxPacket]\<rparr>)
                    (e\<lparr>enPacketsSent := enPacketsSent e + 1, enBytesSent := enBytesSent e + PayloadSize\<rparr>)) cl)))) cl))"

text \<open>
  The loop over the slots. After its first turn the index is below the size of the ring and it
  comes back to where it was after as many turns, so a write index that is not met in a round is
  never met.
\<close>

fun Eth_TxLoop :: "nat \<Rightarrow> nat \<Rightarrow> CInt_t \<Rightarrow> CInt_t \<Rightarrow> CInt_t \<Rightarrow> bool \<Rightarrow> (SimIopCluster_c, bool) exec" where
  "Eth_TxLoop 0 k Size Idx WrIdx SendSleep cl = (Inl DoesNotReturn, cl)"
| "Eth_TxLoop (Suc n) k Size Idx WrIdx SendSleep cl =
     (if Idx = WrIdx then (Inr SendSleep, cl)
      else bindE (Eth_HandleTxPacket k Idx) (\<lambda>_ cl.
        if Size = 0 then (Inl UndefinedBehaviour, cl)
        else Eth_TxLoop n k Size ((Idx + 1) mod Size) WrIdx True cl) cl)"

definition Eth_HandleTxPackets :: "nat \<Rightarrow> (SimIopCluster_c, unit) exec" where
  "Eth_HandleTxPackets k cl =
     (let Q = enCpOutQAddr (eth cl k) in
      bindE (ring_word (Q + 0)) (\<lambda>RdIdx.
      bindE (ring_word (Q + 1)) (\<lambda>WrIdx.
      bindE (ring_word (Q + 2)) (\<lambda>ContSize.
        let Size = GetBits ContSize 0 31 in
        bindE (Eth_TxLoop (Suc (unat Size)) k Size RdIdx WrIdx False) (\<lambda>SendSleep cl.
          let cl = cl\<lparr>siMainframe := MemWrite Q (SwapBytes64 WrIdx) (siMainframe cl)\<rparr> in
          if SendSleep
          then bindE (Eth_SendPacket k (Eth_sleep_packet k SLEEP_OUTPUT RdIdx cl)) (\<lambda>_. DumpQueues k) cl
          else (Inr (), cl))))) cl)"

section \<open>Receiving frames\<close>

definition pop_frame :: "nat \<Rightarrow> SimIopCluster_c \<Rightarrow> SimIopCluster_c" where
  "pop_frame k = upd_eth k (upd_thread (\<lambda>th. th\<lparr>pcPacketQueue := tl (pcPacketQueue th)\<rparr>))"

text \<open>A frame is put into its slot: the size, the padding and the bytes.\<close>

definition store_frame :: "CAddr_t \<Rightarrow> bytes \<Rightarrow> mainframe \<Rightarrow> mainframe" where
  "store_frame ReplyBase Packet mf =
     (let PayloadStart = (ReplyBase + 1) * 8;
          mf = MemWrite ReplyBase (SwapBytes64 (of_nat (length Packet))) mf
      in write_bytes (PayloadStart + 2) Packet (MemWrite8 (PayloadStart + 1) 0 (MemWrite8 PayloadStart 0 mf)))"

definition Eth_queue_frame :: "nat \<Rightarrow> bytes \<Rightarrow> CInt_t \<Rightarrow> CInt_t \<Rightarrow> (SimIopCluster_c, unit) exec" where
  "Eth_queue_frame k Packet WrIdx NextWrIdx cl =
     (let Q = enCpInQAddr (eth cl k); ReplyBase = ring_slot Q WrIdx;
          cl = cl\<lparr>siMainframe := store_frame ReplyBase Packet (siMainframe cl)\<rparr>
      in bindE (DumpMem (ReplyBase + 1) ((length Packet + 2 + 7) div 8)) (\<lambda>_ cl.
           let cl = cl\<lparr>siMainframe := MemWrite (Q + 1) (SwapBytes64 NextWrIdx) (siMainframe cl)\<rparr>
           in bindE (Eth_SendPacket k (Eth_sleep_packet k WAKEUP_INPUT NextWrIdx cl)) (\<lambda>_. DumpQueues k) cl) cl)"

definition Eth_HandleRxPacket :: "nat \<Rightarrow> (SimIopCluster_c, unit) exec" where
  "Eth_HandleRxPacket k cl =
     (case enPacketCaptureThread (eth cl k) of
        None \<Rightarrow> (Inr (), cl)
      | Some th \<Rightarrow>
          (let Q = enCpInQAddr (eth cl k) in
           bindE (ring_word (Q + 0)) (\<lambda>RdIdx.
           bindE (ring_word (Q + 1)) (\<lambda>WrIdx.
           bindE (ring_word (Q + 2)) (\<lambda>ContSize cl.
             let Size = GetBits ContSize 0 31; NextWrIdx = (WrIdx + 1) mod Size in
             if Size = 0 then (Inl UndefinedBehaviour, cl)
             else if pcPacketQueue th = [] \<or> NextWrIdx = RdIdx then (Inr (), cl)
             else
               (let Packet = hd (pcPacketQueue th);
                    cl = upd_eth k (\<lambda>e. e\<lparr>enPacketsReceived := enPacketsReceived e + 1,
                           enBytesReceived := enBytesReceived e + of_nat (length Packet)\<rparr>) (pop_frame k cl)
                in if length Packet \<le> unat cEtherPacketSize then Eth_queue_frame k Packet WrIdx NextWrIdx cl
                   else (Inr (), cl))))) cl))"

definition Eth_Tick :: "nat \<Rightarrow> (SimIopCluster_c, unit) exec" where
  "Eth_Tick k cl =
     (case enPacketCaptureThread (eth cl k) of
        Some th \<Rightarrow> if pcPaused th then (Inr (), cl) else Eth_HandleRxPacket k cl
      | None \<Rightarrow> (Inr (), cl))"

section \<open>Requests\<close>

definition Eth_status :: "nat \<Rightarrow> SimIopCluster_c \<Rightarrow> CInt_t" where
  "Eth_status k cl = (if enPacketCaptureThread (eth cl k) \<noteq> None then MPST_OK else MPST_HDW)"

definition Eth_CLS :: "nat \<Rightarrow> packet \<Rightarrow> (SimIopCluster_c, unit) exec" where
  "Eth_CLS k aPacket =
     bindE (Eth_respond k MPST_OK aPacket)
       (\<lambda>_ cl. (Inr (), upd_eth k (upd_thread (\<lambda>th. th\<lparr>pcPaused := True\<rparr>)) cl))"

text \<open>Without an adapter the answer is made and not sent.\<close>

definition Eth_OPN :: "nat \<Rightarrow> packet \<Rightarrow> (SimIopCluster_c, unit) exec" where
  "Eth_OPN k aPacket cl =
     (if length aPacket < 8 then (Inl UndefinedBehaviour, cl)
      else
        (let cl = upd_eth k (\<lambda>e. e\<lparr>enRingOpAddr := ucast (GetBits (EP_Data 3 aPacket) 32 63),
                    enCpInQAddr := ucast (GetBits (EP_Data 4 aPacket) 32 63),
                    enCpOutQAddr := ucast (GetBits (EP_Data 4 aPacket) 0 31),
                    enCpQSize := ucast (GetBits (EP_Data 5 aPacket) 32 63),
                    enMtu := ucast (GetBits (EP_Data 5 aPacket) 0 31)\<rparr>) cl
         in case Eth_response (Eth_status k cl) aPacket cl of
              Inl e \<Rightarrow> (Inl e, cl)
            | Inr Response \<Rightarrow>
                (if length Response < 8 then (Inl UndefinedBehaviour, cl)
                 else if enPacketCaptureThread (eth cl k) = None then (Inr (), cl)
                 else bindE (Eth_SendPacket k (SetBitsInPlace 6 16 63 (enSimMacAddr (eth cl k)) Response))
                        (\<lambda>_ cl. (Inr (), upd_eth k (\<lambda>e. upd_thread (\<lambda>th. th\<lparr>pcPaused := False\<rparr>)
                           (e\<lparr>enThreadStarted := True\<rparr>)) cl)) cl)))"

text \<open>Only a wake-up of the output ring does something. The answer is made and not sent.\<close>

definition Eth_SLEEP :: "nat \<Rightarrow> packet \<Rightarrow> (SimIopCluster_c, unit) exec" where
  "Eth_SLEEP k aPacket cl =
     (if length aPacket < 6 then (Inl UndefinedBehaviour, cl)
      else
        bindE (DumpQueues k) (\<lambda>_ cl.
          case Eth_response (Eth_status k cl) aPacket cl of
            Inl e \<Rightarrow> (Inl e, cl)
          | Inr _ \<Rightarrow>
              bindE (if GetBits (EP_Data 3 aPacket) 32 63 = WAKEUP_OUTPUT then Eth_HandleTxPackets k else returnE ())
                (\<lambda>_. DumpQueues k) cl) cl)"

definition Eth_PROBE :: "nat \<Rightarrow> packet \<Rightarrow> (SimIopCluster_c, unit) exec" where
  "Eth_PROBE k aPacket cl = Eth_respond k (Eth_status k cl) aPacket cl"

definition Eth_IOCTL :: "nat \<Rightarrow> packet \<Rightarrow> (SimIopCluster_c, unit) exec" where
  "Eth_IOCTL k aPacket cl =
     (if length aPacket < 6 then (Inl UndefinedBehaviour, cl)
      else Eth_respond k (Eth_status k cl) aPacket cl)"

text \<open>The answer tells whether the request was for this interface.\<close>

definition Eth_HandleIosEPacket :: "nat \<Rightarrow> packet \<Rightarrow> (SimIopCluster_c, bool) exec" where
  "Eth_HandleIosEPacket k aPacket cl =
     (let cl = upd_eth k (\<lambda>e. e\<lparr>enCrayPacketsReceived := enCrayPacketsReceived e + 1\<rparr>) cl in
      if length aPacket < 3 then (Inl UndefinedBehaviour, cl)
      else if unat (GetBits (EP_Data 1 aPacket) 16 21) \<noteq> enChannelId (eth cl k) then (Inr False, cl)
      else if length aPacket < 4 then (Inl UndefinedBehaviour, cl)
      else
        (let Request = GetBits (EP_Data 1 aPacket) 8 15;
             cl = upd_eth k (\<lambda>e. e\<lparr>enBufferPtr := ucast (GetBits (EP_Data 2 aPacket) 32 63),
                    enDevStruct := ucast (GetBits (EP_Data 2 aPacket) 0 31)\<rparr>) cl
         in bindE
              (if Request = 2 then Eth_CLS k aPacket
               else if Request = 1 then Eth_OPN k aPacket
               else if Request = 5 then Eth_SLEEP k aPacket
               else if Request = 3 then Eth_PROBE k aPacket
               else if Request = 9 then Eth_IOCTL k aPacket
               else throwE AssertError)
              (\<lambda>_. returnE True) cl))"

definition Eth_HandleIosDPacket :: "nat \<Rightarrow> packet \<Rightarrow> (SimIopCluster_c, bool) exec" where
  "Eth_HandleIosDPacket k aIosDPacket = Eth_HandleIosEPacket k (GetIosEPacket aIosDPacket)"

section \<open>The interfaces of a cluster\<close>

text \<open>
  The first interface that takes the packet; a packet that none takes is refused by the first
  interface, if there is one.
\<close>

fun Eth_find :: "nat list \<Rightarrow> packet \<Rightarrow> (SimIopCluster_c, bool) exec" where
  "Eth_find [] p cl = (Inr False, cl)"
| "Eth_find (k # ks) p cl =
     (case Eth_HandleIosEPacket k p cl of
        (Inl e, cl) \<Rightarrow> (Inl e, cl)
      | (Inr Found, cl) \<Rightarrow> if Found then (Inr True, cl) else Eth_find ks p cl)"

definition Network_IosE :: "packet \<Rightarrow> (SimIopCluster_c, unit) exec" where
  "Network_IosE p cl =
     bindE (Eth_find [0..<length (siEthInterfaces cl)] p) (\<lambda>Found cl.
       if \<not> Found \<and> siEthInterfaces cl \<noteq> [] then Eth_SendErrorResponse 0 p MPST_ILCHN cl else (Inr (), cl)) cl"

definition Network_IosD :: "packet \<Rightarrow> (SimIopCluster_c, unit) exec" where
  "Network_IosD p = Network_IosE (GetIosEPacket p)"

definition Network_Tick :: "(SimIopCluster_c, unit) exec" where
  "Network_Tick cl = forE [0..<length (siEthInterfaces cl)] Eth_Tick cl"

end
