(* ===== verification/Sim_Iop_Tick.thy ===== *)
theory Sim_Iop_Tick
  imports Sim_Periph Sim_Eth
begin

text \<open>
  The packet handlers and the main loop of the simulated I/O subsystem, from
  \<^verbatim>\<open>sim_lib/sim_iop.cpp\<close>, with \<open>LoadImageFile\<close> and the typed memory write of
  \<^verbatim>\<open>sim_lib/cray_mainframe.cpp\<close> and \<^verbatim>\<open>.h\<close>. The master clear of the processors and the host's
  clock are arguments of the main loop.
\<close>

section \<open>Model-E packets\<close>

text \<open>The codes of \<open>RequestCodes_e\<close> and the like are the numbers of the enumerations.\<close>

definition OP_CLOCK :: CInt_t where "OP_CLOCK = 7"
definition OP_PANIC :: CInt_t where "OP_PANIC = 8"

definition O_clock_response :: "sim_time \<Rightarrow> packet \<Rightarrow> packet" where
  "O_clock_response t Response =
     (let p = SetBitsInPlace 0 40 47 OP_CLOCK (SetBitsInPlace 0 56 63 0x6f (EP_SetSize 8 Response));
          p = EP_put_Data 1 0 p;
          p = EP_put_Data 2 (of_nat (htMonth t)) p;
          p = EP_put_Data 3 (of_nat (htDay t)) p;
          p = EP_put_Data 4 (of_nat (htYear t)) p;
          p = EP_put_Data 5 (of_nat (htHour t)) p;
          p = EP_put_Data 6 (of_nat (htMinute t)) p
      in EP_put_Data 7 (of_nat (htSecond t)) p)"

text \<open>
  The panic text: the words from \<open>Data(2)\<close>, as many as the length less two says, which takes in
  the trailer of the packet; it ends at the first zero byte. Its length of the string is not
  needed past these words.
\<close>

definition O_panic_text :: "packet \<Rightarrow> bytes" where
  "O_panic_text aPacket = c_string (words_text (take (unat (EP_GetLength aPacket) - 2) (drop 3 aPacket)))"

definition panic_header :: bytes where
  "panic_header = ascii ''================== KERNEL PANIC ================'' @ crlf"

definition panic_footer :: bytes where
  "panic_footer = crlf @ ascii ''================================================'' @ crlf"

definition HandleIosEOPacket :: "sim_time \<Rightarrow> packet \<Rightarrow> (SimIopCluster_c, unit) exec" where
  "HandleIosEOPacket t aPacket cl =
     (let Request = GetBits (EP_Data 0 aPacket) 40 47;
          Response = SI_GenerateResponse aPacket cl
      in if EP_GetLogicalPath aPacket \<noteq> 7 then (Inl AssertError, cl)
         else if Request = OP_CLOCK then SI_SendPacket (O_clock_response t Response) cl
         else if Request = OP_PANIC then
           (Inr (), SC_SendString 0 panic_footer (SC_SendString 0 (O_panic_text aPacket)
              (SC_SendString 0 panic_header (MakeConsoles 0 cl))))
         else (Inl AssertError, cl))"

text \<open>Opening, closing and transfers of the ATM interface are answered, not carried out.\<close>

definition HandleIosEPPacket :: "packet \<Rightarrow> (SimIopCluster_c, unit) exec" where
  "HandleIosEPPacket aPacket cl =
     (let Request = GetBits (EP_Data 0 aPacket) 16 23;
          status = (if Request = 1 then 0xf0 else 0);
          Response = EP_SetSize 4 (SI_GenerateResponse aPacket cl)
      in if Request \<in> {1, 2, 3, 4} then
           (case copy_Data (unat (EP_GetLength aPacket) - 1) aPacket Response of
              Inl e \<Rightarrow> (Inl e, cl)
            | Inr Response \<Rightarrow> SI_SendPacket (SetBitsInPlace 0 8 15 status (SetBitsInPlace 0 56 63 0x70 Response)) cl)
         else (Inl AssertError, cl))"

subsection \<open>Disk packets\<close>

definition DRQ_ECHO :: CInt_t where "DRQ_ECHO = 0x01"
definition DRQ_READ :: CInt_t where "DRQ_READ = 0x02"
definition DRQ_WRITE :: CInt_t where "DRQ_WRITE = 0x03"
definition DRQ_WRITE_BEHIND :: CInt_t where "DRQ_WRITE_BEHIND = 0x04"
definition DRQ_CONFIGURE_UP :: CInt_t where "DRQ_CONFIGURE_UP = 0x09"
definition DRQ_CONFIGURE_DOWN :: CInt_t where "DRQ_CONFIGURE_DOWN = 0x0a"
definition DRQ_DIAGNOSTIC :: CInt_t where "DRQ_DIAGNOSTIC = 0x30"
definition DRQ_RESET :: CInt_t where "DRQ_RESET = 0x31"
definition DRQ_DESELECT :: CInt_t where "DRQ_DESELECT = 0x35"
definition DRQ_RETURN_GENERAL_STATUS :: CInt_t where "DRQ_RETURN_GENERAL_STATUS = 0x7c"
definition DRQ_RETURN_ACCUMULATED_STATUS :: CInt_t where "DRQ_RETURN_ACCUMULATED_STATUS = 0x7f"

lemmas drq_codes = DRQ_ECHO_def DRQ_READ_def DRQ_WRITE_def DRQ_WRITE_BEHIND_def DRQ_CONFIGURE_UP_def
  DRQ_CONFIGURE_DOWN_def DRQ_DIAGNOSTIC_def DRQ_RESET_def DRQ_DESELECT_def DRQ_RETURN_GENERAL_STATUS_def
  DRQ_RETURN_ACCUMULATED_STATUS_def

text \<open>A transfer on disk \<open>k\<close> of the cluster.\<close>

definition on_disk ::
    "nat \<Rightarrow> (SimIopDisk_c \<times> mainframe, unit) exec \<Rightarrow> (SimIopCluster_c, unit) exec" where
  "on_disk k f cl =
     (case f (siDisks cl ! k, siMainframe cl) of
        (r, (d, mf)) \<Rightarrow> (r, cl\<lparr>siDisks := (siDisks cl)[k := d], siMainframe := mf\<rparr>))"

text \<open>
  The response echoes \<open>n\<close> words of the request. It carries the request code given here: the
  write answers with the code of a read.
\<close>

definition D_respond :: "nat \<Rightarrow> CInt_t \<Rightarrow> packet \<Rightarrow> (SimIopCluster_c, unit) exec" where
  "D_respond n code aPacket cl =
     (case copy_Data n aPacket (EP_SetSize 68 (SI_GenerateResponse aPacket cl)) of
        Inl e \<Rightarrow> (Inl e, cl)
      | Inr Response \<Rightarrow>
          SI_SendPacket (SetBitsInPlace 0 32 39 0 (SetBitsInPlace 0 40 47 code (SetBitsInPlace 0 56 63 0x64 Response))) cl)"

definition D_channel :: "packet \<Rightarrow> uint8" where "D_channel p = ucast (GetBits (EP_Data 0 p) 16 20)"
definition D_unit :: "packet \<Rightarrow> uint8" where "D_unit p = ucast (GetBits (EP_Data 0 p) 21 24)"
definition D_code :: "packet \<Rightarrow> CInt_t" where "D_code p = GetBits (EP_Data 0 p) 40 47"
definition D_cylinder :: "packet \<Rightarrow> nat" where "D_cylinder p = unat (GetBits (EP_Data 2 p) 32 63)"
definition D_head :: "packet \<Rightarrow> CInt_t" where "D_head p = GetBits (EP_Data 2 p) 31 31"
definition D_sector :: "packet \<Rightarrow> CInt_t" where "D_sector p = GetBits (EP_Data 2 p) 30 30"
definition D_count :: "packet \<Rightarrow> uint32" where "D_count p = ucast (GetBits (EP_Data 2 p) 0 15)"
definition D_memory_type :: "packet \<Rightarrow> CInt_t" where "D_memory_type p = GetBits (EP_Data 4 p) 48 50"
definition D_address :: "packet \<Rightarrow> CAddr_t" where "D_address p = ucast (GetBits (EP_Data 4 p) 0 47)"

text \<open>The cylinder field is the index of a sector; head and sector must be zero.\<close>

definition D_transfer ::
    "(nat \<Rightarrow> uint32 \<Rightarrow> CAddr_t \<Rightarrow> (SimIopDisk_c \<times> mainframe, unit) exec) \<Rightarrow> nat \<Rightarrow> packet \<Rightarrow> nat \<Rightarrow> (SimIopCluster_c, unit) exec" where
  "D_transfer f n aPacket k cl =
     (if D_head aPacket \<noteq> 0 \<or> D_sector aPacket \<noteq> 0 \<or> D_memory_type aPacket \<noteq> 0 then (Inl AssertError, cl)
      else bindE (on_disk k (f (D_cylinder aPacket) (D_count aPacket) (D_address aPacket)))
        (\<lambda>_. D_respond n DRQ_READ aPacket) cl)"

definition D_matches_read :: "packet \<Rightarrow> SimIopDisk_c \<Rightarrow> bool" where
  "D_matches_read p d \<longleftrightarrow> sdPysicalDeviceId d = ucast (D_channel p) \<and> sdIopNumber d = EP_GetProcess p \<and> sdUnit d = D_unit p"

definition D_matches_write :: "packet \<Rightarrow> SimIopDisk_c \<Rightarrow> bool" where
  "D_matches_write p d \<longleftrightarrow> sdPysicalDeviceId d = ucast (D_channel p)"

definition disks_that :: "(SimIopDisk_c \<Rightarrow> bool) \<Rightarrow> SimIopCluster_c \<Rightarrow> nat list" where
  "disks_that P cl = filter (\<lambda>k. P (siDisks cl ! k)) [0..<length (siDisks cl)]"

text \<open>Word 4 is read in any case, so a shorter packet is read past its end.\<close>

definition HandleIosEDPacket :: "(nat \<Rightarrow> nat \<Rightarrow> uint8) \<Rightarrow> packet \<Rightarrow> (SimIopCluster_c, unit) exec" where
  "HandleIosEDPacket stale aPacket cl =
     (let RequestCode = D_code aPacket; len = unat (EP_GetLength aPacket) in
      if length aPacket < 6 then (Inl UndefinedBehaviour, cl)
      else if RequestCode = DRQ_READ then
        (case disks_that (D_matches_read aPacket) cl of
           [] \<Rightarrow> (Inl AssertError, cl)
         | ks \<Rightarrow> forE ks (D_transfer (SimDisk_ReadIdx stale) (len - 1) aPacket) cl)
      else if RequestCode = DRQ_WRITE \<or> RequestCode = DRQ_WRITE_BEHIND then
        (case disks_that (D_matches_write aPacket) cl of
           [] \<Rightarrow> (Inl AssertError, cl)
         | ks \<Rightarrow> forE ks (D_transfer SimDisk_WriteIdx len aPacket) cl)
      else if RequestCode \<in> {DRQ_CONFIGURE_DOWN, DRQ_CONFIGURE_UP, DRQ_RETURN_ACCUMULATED_STATUS,
          DRQ_RETURN_GENERAL_STATUS, DRQ_DIAGNOSTIC, DRQ_RESET, DRQ_DESELECT, DRQ_ECHO} then
        D_respond len RequestCode aPacket cl
      else (Inl AssertError, cl))"

definition HandleIosEZPacket :: "packet \<Rightarrow> (SimIopCluster_c, unit) exec" where
  "HandleIosEZPacket aPacket cl =
     (let Dev = unat (GetBits (EP_Data 0 aPacket) 16 22); cl = MakeConsoles Dev cl
      in case siIopRevision cl of
           IOSE \<Rightarrow> HandleIosEPacket_console Dev aPacket cl
         | IOSD \<Rightarrow> HandleTPacket_console Dev aPacket cl)"

section \<open>Model-D packets\<close>

definition HandleTPacket :: "packet \<Rightarrow> (SimIopCluster_c, unit) exec" where
  "HandleTPacket aPacket cl =
     (let IopNumber = GetBits (aPacket ! 0) 24 31; TTyNumber = unat (GetBits (aPacket ! 0) 16 23) in
      if unat IopNumber \<noteq> siIopId cl then (Inl AssertError, cl)
      else HandleTPacket_console TTyNumber aPacket (MakeConsoles TTyNumber cl))"

record A_request =
  aqFunctionCode :: uint64
  aqCylinder :: uint32
  aqHead :: uint32
  aqSector :: uint32
  aqWordCount :: uint32
  aqDataAddr :: CAddr_t
  aqTargetMem :: uint32
  aqDiag :: uint8
  aqIopNumber :: uint8
  aqUnitNumber :: uint8
  aqPhysicalChannel :: uint8

text \<open>The address of a sector has two layouts; the older one keeps the top bit of the cylinder apart.\<close>

definition A_decode :: "MachineTypes_e \<Rightarrow> packet \<Rightarrow> A_request" where
  "A_decode mt p =
     \<lparr>aqFunctionCode = GetBitsReverse (p ! 3) 32 39,
      aqCylinder = (if mt = YEL \<or> mt = YMP then ucast (GetBitsReverse (p ! 4) 2 31)
        else ucast (GetBitsReverse (p ! 4) 0 10) OR push_bit 11 (ucast (GetBitsReverse (p ! 2) 31 31))),
      aqHead = (if mt = YEL \<or> mt = YMP then ucast (GetBitsReverse (p ! 4) 0 0)
        else ucast (GetBitsReverse (p ! 4) 11 15)),
      aqSector = (if mt = YEL \<or> mt = YMP then ucast (GetBitsReverse (p ! 4) 1 1)
        else ucast (GetBitsReverse (p ! 4) 16 22)),
      aqWordCount = ucast (GetBitsReverse (p ! 4) 32 63),
      aqDataAddr = ucast (GetBitsReverse (p ! 3) 2 31),
      aqTargetMem = ucast (GetBitsReverse (p ! 3) 0 1),
      aqDiag = ucast (GetBitsReverse (p ! 1) 16 16),
      aqIopNumber = ucast (GetBitsReverse (p ! 3) 53 54),
      aqUnitNumber = ucast (GetBitsReverse (p ! 3) 55 56),
      aqPhysicalChannel = ucast (GetBitsReverse (p ! 3) 57 63)\<rparr>"

definition A_reply :: "packet \<Rightarrow> packet" where
  "A_reply p = (let p = ReversePacket p in p[3 := SetBitsReverse (p ! 3) 40 47 0])"

definition HandleAPacket :: "(nat \<Rightarrow> nat \<Rightarrow> uint8) \<Rightarrow> packet \<Rightarrow> (SimIopCluster_c, unit) exec" where
  "HandleAPacket stale aPacket cl =
     (let q = A_decode (mMachineType (siMainframe cl)) aPacket in
      if aqDiag q \<noteq> 0 \<or> aqTargetMem q \<noteq> 0 \<or> aqFunctionCode q \<notin> {1, 2, 12} then (Inl AssertError, cl)
      else
        (case disks_that (\<lambda>d. sdPysicalDeviceId d = ucast (aqPhysicalChannel q) \<and> sdIopNumber d = aqIopNumber q \<and>
             sdUnit d = aqUnitNumber q) cl of
           [] \<Rightarrow> (Inl GenericError, cl)
         | k # _ \<Rightarrow>
             (let n = of_nat (unat (aqWordCount q) * 8 div unat (sdSectorSize (siDisks cl ! k)));
                  c = unat (aqCylinder q); h = unat (aqHead q); s = unat (aqSector q)
              in bindE (on_disk k (if aqFunctionCode q = 1 then SimDisk_Read stale c h s n (aqDataAddr q)
                                   else SimDisk_Write c h s n (aqDataAddr q)))
                   (\<lambda>_. SI_QueuePacket (A_reply aPacket)) cl)))"

definition HandleKPacket :: "SimIopCluster_c \<Rightarrow> SimIopCluster_c" where
  "HandleKPacket cl = cl\<lparr>siState := KernelPanic\<rparr>"

section \<open>Booting\<close>

text \<open>\<open>LoadImageFile\<close>: the part of the file behind the preamble, if it fits.\<close>

definition LoadImageFile :: "host_file \<Rightarrow> CAddr_t \<Rightarrow> nat \<Rightarrow> (mainframe, unit) exec" where
  "LoadImageFile File aLoadAddr aPreamble mf =
     (if mMemorySize mf mod 8 \<noteq> 0 then (Inl AssertError, mf)
      else if unat aLoadAddr > mMemSizeInWords mf then (Inl GenericError, mf)
      else if length File < aPreamble \<or>
          (length File - aPreamble + 7) div 8 + unat aLoadAddr > mMemSizeInWords mf then (Inl GenericError, mf)
      else (Inr (), mf\<lparr>mMemory := (\<lambda>x. if 8 * unat aLoadAddr \<le> x \<and> x < 8 * unat aLoadAddr + (length File - aPreamble)
                                then File ! (aPreamble + (x - 8 * unat aLoadAddr)) else mMemory mf x)\<rparr>))"

text \<open>\<open>MemWriteNoWatchpointByType<CAddr_t>\<close>: the index counts 32-bit words.\<close>

definition MemWrite32 :: "CAddr_t \<Rightarrow> uint32 \<Rightarrow> mainframe \<Rightarrow> mainframe" where
  "MemWrite32 aAddr aVal mf =
     (let a = unat aAddr * 4
      in mf\<lparr>mMemory := (\<lambda>x. if a \<le> x \<and> x < a + 4 then ucast (drop_bit (8 * (x - a)) aVal) else mMemory mf x)\<rparr>)"

definition words_of_file :: "host_file \<Rightarrow> uint32" where
  "words_of_file f = of_nat ((length f + 7) div 8)"

definition if_patching :: "SimIopCluster_c \<Rightarrow> (mainframe \<Rightarrow> mainframe) \<Rightarrow> (mainframe, unit) exec" where
  "if_patching cl f mf = (Inr (), if siDontTouchExchangePacket cl then mf else f mf)"

definition load_ramfs :: "SimIopCluster_c \<Rightarrow> CAddr_t \<Rightarrow> (mainframe, unit) exec" where
  "load_ramfs cl RamFsStart =
     (case siRamFsFile cl of
        None \<Rightarrow> returnE ()
      | Some File \<Rightarrow> bindE (LoadImageFile File RamFsStart 0)
          (\<lambda>_. if_patching cl (MemWrite 0x9 (SwapBytes64 (ucast (words_of_file File))))))"

definition load_parameters :: "SimIopCluster_c \<Rightarrow> CAddr_t \<Rightarrow> (mainframe, unit) exec" where
  "load_parameters cl ParamStart =
     (case siParameterFile cl of
        None \<Rightarrow> returnE ()
      | Some File \<Rightarrow>
          (let ParamEnd = ParamStart + words_of_file File in
           bindE (LoadImageFile File ParamStart 0) (\<lambda>_.
             bindE (if_patching cl (MemWrite 0xf (SwapBytes64 (ucast ParamEnd)) \<circ> MemWrite 0xc (SwapBytes64 (ucast ParamStart))))
               (\<lambda>_. load_ramfs cl ParamEnd))))"

definition boot_A7 :: "SimIopCluster_c \<Rightarrow> uint32" where
  "boot_A7 cl = push_bit 16 (ucast (case siRunLevel cl of None \<Rightarrow> 0 | Some l \<Rightarrow> l)) OR
     push_bit 8 (ucast (siOWSProtocolLevel cl)) OR ucast (siLogicalMainframeNumber cl)"

definition load_kernel :: "SimIopCluster_c \<Rightarrow> (mainframe, unit) exec" where
  "load_kernel cl =
     (case siKernelFile cl of
        None \<Rightarrow> returnE ()
      | Some File \<Rightarrow>
          bindE (LoadImageFile File 0 (siKernelPreamble cl)) (\<lambda>_.
          bindE (load_parameters cl (words_of_file File)) (\<lambda>_.
            if_patching cl (MemWrite32 (7 * 2 + 1) (SwapBytes32 (boot_A7 cl)) \<circ>
              MemWrite32 (6 * 2 + 1) (SwapBytes32 (siBootChannel cl)) \<circ>
              MemWrite32 (5 * 2 + 1) (SwapBytes32 (siBootCluster cl))))))"

text \<open>
  The master clear of the processors is set and taken back. The calls are recorded for the theory
  \<^verbatim>\<open>Sim_System\<close>, which has the processors; nothing that follows in the tick touches the mainframe.
\<close>

definition SI_Boot :: "(SimIopCluster_c, unit) exec" where
  "SI_Boot cl =
     (if siMasterCluster cl then
        (let cl = cl\<lparr>siSeqSent := 0, siSeqReceived := 0, siConsoles := map (SC_Reset (siIopRevision cl)) (siConsoles cl)\<rparr>
         in case load_kernel cl (siMainframe cl) of
              (Inl e, mf) \<Rightarrow> (Inl e, cl\<lparr>siMainframe := mf\<rparr>)
            | (Inr _, mf) \<Rightarrow> (Inr (), cl\<lparr>siMainframe := mf, siCpuMasterClears := siCpuMasterClears cl @ [True, False]\<rparr>))
      else (Inr (), cl))"

definition time_packet :: "sim_time \<Rightarrow> packet" where
  "time_packet t = [of_nat (htMonth t), of_nat (htDay t), 1999, of_nat (htHour t), of_nat (htMinute t), of_nat (htSecond t)]"

definition I_packet :: packet where "I_packet = [0x4331004900000000, 0, 0, 0, 0, 0]"
definition I_answer :: packet where "I_answer = [0x0049433100000000, 0, 0, 0, 0, 0]"
definition J_packet :: packet where
  "J_packet = [0x4331004AFFFFFFFF, 0xFFFFFFFFFFFFFFFF, 0xFFFFFFFFFFFFFFFF, 0xFFFFFFFFFFFFFFFF, 0xFFFFFFFFFFFFFFFF, 0xFFFFFFFFFFFFFFFF]"
definition J_answer :: packet where
  "J_answer = [0x004A4331FFFFFFFF, 0xFFFFFFFFFFFFFFFF, 0xFFFFFFFFFFFFFFFF, 0xFFFFFFFFFFFFFFFF, 0xFFFFFFFFFFFFFFFF, 0xFFFFFFFFFFFFFFFF]"
definition C_packet :: packet where "C_packet = [0x4331004300000004, 0, 0, 0, 0, 0]"

section \<open>The main loop\<close>

text \<open>What the main loop takes from the host.\<close>

record sim_env =
  seTime :: sim_time
  seStale :: "nat \<Rightarrow> nat \<Rightarrow> uint8"

definition SI_GetPacket :: "(SimIopCluster_c, packet) exec" where
  "SI_GetPacket cl =
     (case CI_GetPacket (siCToIChannel cl) of (r, ch) \<Rightarrow> (r, cl\<lparr>siCToIChannel := ch\<rparr>))"

definition Tick_Reset :: "sim_env \<Rightarrow> (SimIopCluster_c, unit) exec" where
  "Tick_Reset env =
     bindE SI_Boot (\<lambda>_ cl.
       if siIopRevision cl = IOSD then
         bindE (SI_QueuePacket (time_packet (seTime env))) (\<lambda>_ cl. (Inr (), cl\<lparr>siState := WaitTimeSent\<rparr>)) cl
       else (Inr (), cl\<lparr>siState := RunningJ90\<rparr>))"

text \<open>The two states that wait for an answer and send the next packet.\<close>

definition Tick_answer :: "packet \<Rightarrow> packet \<Rightarrow> SimStates_e \<Rightarrow> (SimIopCluster_c, unit) exec" where
  "Tick_answer expected answer next_state cl =
     (if ciPacketValid (siCToIChannel cl) then
        bindE SI_GetPacket (\<lambda>Packet cl.
          if Packet \<noteq> expected then (Inl AssertError, cl)
          else bindE (SI_QueuePacket answer) (\<lambda>_ cl. (Inr (), cl\<lparr>siState := next_state\<rparr>)) cl) cl
      else (Inr (), cl))"

definition Dispatch_YEL :: "sim_env \<Rightarrow> packet \<Rightarrow> (SimIopCluster_c, unit) exec" where
  "Dispatch_YEL env Packet cl =
     (let PacketType = GetBitsReverse (Packet ! 0) 8 15 in
      if PacketType = 0x54 then HandleTPacket Packet cl
      else if PacketType = 0x41 then HandleAPacket (seStale env) Packet cl
      else if PacketType = 0x4b then (Inr (), HandleKPacket cl)
      else if PacketType = 0x4d then Network_IosD Packet cl
      else if PacketType = 0x46 then PE_HandleIosDPacket (seStale env) Packet cl
      else (Inl AssertError, cl))"

definition Tick_YEL :: "sim_env \<Rightarrow> (SimIopCluster_c, unit) exec" where
  "Tick_YEL env cl =
     (if ciPacketValid (siCToIChannel cl) then
        bindE SI_GetPacket (\<lambda>Packet cl.
          if length Packet \<noteq> 6 then (Inl AssertError, cl) else Dispatch_YEL env Packet cl) cl
      else (Inr (), cl))"

definition Dispatch_J90 :: "sim_env \<Rightarrow> packet \<Rightarrow> (SimIopCluster_c, unit) exec" where
  "Dispatch_J90 env Packet cl =
     (let PacketType = GetBits (EP_Data 0 Packet) 56 63 in
      if PacketType = 0x4f then HandleIosEOPacket (seTime env) Packet cl
      else if PacketType = 0x5a then HandleIosEZPacket Packet cl
      else if PacketType = 0x44 then HandleIosEDPacket (seStale env) Packet cl
      else if PacketType = 0x50 then HandleIosEPPacket Packet cl
      else if PacketType = 0x4d then Network_IosE Packet cl
      else if PacketType = 0x46 then
        (if siIopPeripheral cl = None then (Inl GenericError, cl) else PE_HandleIosEPacket (seStale env) Packet cl)
      else (Inl AssertError, cl))"

definition J90_packet :: "sim_env \<Rightarrow> packet \<Rightarrow> (SimIopCluster_c, unit) exec" where
  "J90_packet env Packet cl =
     (if \<not> EP_IsValid Packet then (Inl AssertError, cl)
      else
        (let cl = cl\<lparr>siSeqReceived := EP_GetSeq Packet, siPacketsReceived := siPacketsReceived cl + 1\<rparr>;
             cl = (if EP_GetFlags Packet AND EP_cFlagIni \<noteq> 0 then cl\<lparr>siSeqSent := 1\<rparr> else cl)
         in if EP_GetLength Packet > 1 then Dispatch_J90 env Packet cl else (Inr (), cl)))"

text \<open>
  A transfer holds several packets: each reaches to the next word that equals its header. What
  is left without such a word is dropped.
\<close>

definition next_packet :: "packet \<Rightarrow> (packet \<times> packet) option" where
  "next_packet raw =
     (case raw of
        [] \<Rightarrow> None
      | w # rest \<Rightarrow>
          (let body = takeWhile (\<lambda>x. x \<noteq> w) rest
           in if length body = length rest then None
              else Some (w # body @ [w], drop (length body + 1) rest)))"

lemma next_packet_shorter: "next_packet raw = Some (p, raw') \<Longrightarrow> length raw' < length raw"
  by (auto simp: next_packet_def Let_def split: list.splits if_splits)

function J90_packets :: "sim_env \<Rightarrow> packet \<Rightarrow> (SimIopCluster_c, unit) exec" where
  "J90_packets env raw cl =
     (case next_packet raw of
        None \<Rightarrow> (Inr (), cl)
      | Some (Packet, raw') \<Rightarrow>
          (case J90_packet env Packet cl of
             (Inl e, cl) \<Rightarrow> (Inl e, cl)
           | (Inr _, cl) \<Rightarrow> J90_packets env raw' cl))"
  by pat_completeness auto
termination
  by (relation "measure (\<lambda>(env, raw, cl). length raw)") (auto dest: next_packet_shorter)

declare J90_packets.simps [simp del]

definition Tick_J90 :: "sim_env \<Rightarrow> (SimIopCluster_c, unit) exec" where
  "Tick_J90 env cl =
     (if ciPacketValid (siCToIChannel cl) then bindE SI_GetPacket (J90_packets env) cl else (Inr (), cl))"

text \<open>The dump of a panic: line ends for zero bytes, one for a row of them.\<close>

definition panic_char :: "uint8 \<Rightarrow> bool \<times> SimIopCluster_c \<Rightarrow> bool \<times> SimIopCluster_c" where
  "panic_char ch = (\<lambda>(NewLinePrinted, cl).
     if ch = 0 then (True, if NewLinePrinted then cl else SC_SendString 0 crlf cl)
     else if ch = 0x0a \<or> ch = 0x0d then (NewLinePrinted, SC_SendString 0 crlf cl)
     else (False, SC_SendChar 0 ch cl))"

definition Tick_KernelPanic :: "(SimIopCluster_c, unit) exec" where
  "Tick_KernelPanic cl =
     (if ciPacketValid (siCToIChannel cl) \<and> siConsoles cl \<noteq> [] then
        bindE SI_GetPacket (\<lambda>Packet cl.
          (Inr (), snd (fold panic_char (words_text Packet) (False, SC_SendString 0 crlf cl)))) cl
      else (Inr (), cl))"

text \<open>
  \<open>Tick\<close> after the consoles have been ticked, which are events of their own: first the network
  interfaces, then the state machine.
\<close>

definition SI_Tick_state :: "sim_env \<Rightarrow> (SimIopCluster_c, unit) exec" where
  "SI_Tick_state env cl =
     (case siState cl of
        SimReset \<Rightarrow> Tick_Reset env cl
      | WaitTimeSent \<Rightarrow>
          (if IC_ReadyToSend (siIToCChannel cl)
           then bindE (SI_QueuePacket I_packet) (\<lambda>_ cl. (Inr (), cl\<lparr>siState := WaitISent\<rparr>)) cl
           else (Inr (), cl))
      | WaitISent \<Rightarrow> Tick_answer I_answer J_packet WaitJSent cl
      | WaitJSent \<Rightarrow> Tick_answer J_answer C_packet RunningYEL cl
      | RunningYEL \<Rightarrow> Tick_YEL env cl
      | RunningJ90 \<Rightarrow> Tick_J90 env cl
      | KernelPanic \<Rightarrow> Tick_KernelPanic cl)"

definition SI_Tick :: "sim_env \<Rightarrow> (SimIopCluster_c, unit) exec" where
  "SI_Tick env = bindE Network_Tick (\<lambda>_. SI_Tick_state env)"

text \<open>The channels, ticked by the mainframe, and the master clear of the cluster.\<close>

definition SI_ChannelTick_I :: "(SimIopCluster_c, unit) exec" where
  "SI_ChannelTick_I cl =
     (case IC_ChannelTick (siIToCChannel cl, siMainframe cl) of
        (r, (ch, mf)) \<Rightarrow> (r, cl\<lparr>siIToCChannel := ch, siMainframe := mf\<rparr>))"

definition SI_ChannelTick_C :: "(SimIopCluster_c, unit) exec" where
  "SI_ChannelTick_C cl =
     (case CI_ChannelTick (siCToIChannel cl, siMainframe cl) of
        (r, (ch, mf)) \<Rightarrow> (r, cl\<lparr>siCToIChannel := ch, siMainframe := mf\<rparr>))"

definition SI_MasterClear :: "SimIopCluster_c \<Rightarrow> SimIopCluster_c" where
  "SI_MasterClear cl =
     cl\<lparr>siConsoles := map (SC_Reset (siIopRevision cl)) (siConsoles cl), siState := SimReset\<rparr>"

end
