(* ===== verification/Sim_Disk_Results.thy ===== *)
theory Sim_Disk_Results
  imports Sim_Disk Mainframe_Contracts
begin

text \<open>
  What the disks of the simulated I/O subsystem promise: a sector index names the same place of
  the image as its cylinder, head and sector; what was written is read back, word by word, and
  neither the rest of the image nor the rest of the memory changes.
\<close>

section \<open>Positions\<close>

lemma mixed_radix:
  fixes n a b :: nat
  shows "n div a div b * b * a + n div a mod b * a + n mod a = n"
proof -
  have "n div a div b * b * a + n div a mod b * a = (n div a div b * b + n div a mod b) * a"
    by (simp only: distrib_right)
  also have "\<dots> = n div a * a" by (simp only: div_mult_mod_eq)
  finally show ?thesis by (simp only: div_mult_mod_eq)
qed

lemma ImageOffset_index:
  "SimDisk_ImageOffset d (SimDisk_Cylinder d n) (SimDisk_Head d n) (SimDisk_Sector d n) =
     unat (sdSectorSize d) * n"
  by (simp add: SimDisk_ImageOffset_def SimDisk_Cylinder_def SimDisk_Head_def SimDisk_Sector_def mixed_radix)

lemma Cylinder_less:
  assumes "0 < sdNumSectors d" "0 < sdNumHeads d"
  shows "SimDisk_Cylinder d n < sdNumCylinders d \<longleftrightarrow> n < sdNumCylinders d * sdNumHeads d * sdNumSectors d"
  using assms by (simp add: SimDisk_Cylinder_def div_less_iff_less_mult mult_ac)

section \<open>Flat loops\<close>

text \<open>A loop over lines of four words is a loop over words.\<close>

lemma for_loop_lines: "for_loop 0 n (\<lambda>i. for_loop 0 4 (\<lambda>j. f (4 * i + j))) s = for_loop 0 (4 * n) f s"
proof (induction n)
  case (Suc n)
  have "for_loop 0 4 (\<lambda>j. f (4 * n + j)) u = for_loop (4 * n) (4 * n + 4) f u" for u
    by (simp add: for_loop_def upt_rec)
  moreover have "for_loop (4 * n) (4 * n + 4) f (for_loop 0 (4 * n) f s) = for_loop 0 (4 * n + 4) f s"
    using upt_add_eq_append[of 0 "4 * n" 4] by (simp add: for_loop_def)
  ultimately have "for_loop 0 4 (\<lambda>j. f (4 * n + j)) (for_loop 0 (4 * n) f s) = for_loop 0 (4 * Suc n) f s"
    by (simp only: mult_Suc_right add.commute)
  then show ?case by (simp only: for_loop_Suc Suc zero_le)
qed simp

section \<open>The image\<close>

lemma length_bytes_of_word [simp]: "length (bytes_of_word w) = 8"
  by (simp add: bytes_of_word_def)

lemma word_of_bytes_of_word [simp]: "word_of_bytes (bytes_of_word w) = w"
proof (rule word_eq_by_bits)
  fix n :: nat
  assume "n < LENGTH(64)"
  then obtain q r where "n = 8 * q + r" "q < 8" "r < 8" using byte_index[of n] by auto
  then show "bit (word_of_bytes (bytes_of_word w)) n = bit w n"
    by (simp add: word_of_bytes_def bytes_of_word_def bit_load64 bit_simps)
qed

definition image_words :: "(nat \<Rightarrow> uint64) \<Rightarrow> nat \<Rightarrow> host_file" where
  "image_words val n = concat (map (\<lambda>k. bytes_of_word (val k)) [0..<n])"

lemma length_image_words [simp]: "length (image_words val n) = 8 * n"
  by (induction n) (simp_all add: image_words_def)

lemma image_words_add: "image_words val (n + m) = image_words val n @ image_words (\<lambda>k. val (n + k)) m"
  by (induction m) (simp_all add: image_words_def)

lemma image_words_1 [simp]: "image_words val (Suc 0) = bytes_of_word (val 0)"
  by (simp add: image_words_def)

lemma image_words_nth:
  assumes "k < n"
  shows "take 8 (drop (8 * k) (image_words val n)) = bytes_of_word (val k)"
proof -
  from assms obtain m where m: "n = k + (Suc 0 + m)" using less_iff_Suc_add by auto
  show ?thesis unfolding m image_words_add by simp
qed

lemma write_lines:
  "for_loop 0 (Suc n) (SimDisk_WriteLine off a mf) f =
     file_write off (image_words (\<lambda>k. MemRead (a + of_nat k) mf) (4 * Suc n)) f"
proof (induction n)
  case 0
  then show ?case by (simp add: for_loop_def SimDisk_WriteLine_def image_words_def)
next
  case (Suc n)
  let ?v = "\<lambda>k. MemRead (a + of_nat k) mf" and ?k = "4 * Suc n"
  have "SimDisk_WriteLine off a mf (Suc n) g =
      file_write (off + length (image_words ?v ?k)) (image_words (\<lambda>k. ?v (?k + k)) 4) g" for g
    by (simp add: SimDisk_WriteLine_def image_words_def[of _ 4] algebra_simps)
  then have "for_loop 0 (Suc (Suc n)) (SimDisk_WriteLine off a mf) f =
      file_write off (image_words ?v ?k @ image_words (\<lambda>k. ?v (?k + k)) 4) f"
    by (simp only: for_loop_Suc Suc file_write_concat zero_le)
  also have "\<dots> = file_write off (image_words ?v (?k + 4)) f"
    by (simp only: image_words_add)
  finally show ?case by (simp add: add.commute)
qed

text \<open>A read within the file copies its words; nothing is left over and nothing is filled.\<close>

lemma read_lines:
  assumes "off + 32 * n \<le> length f"
  shows "for_loop 0 n (SimDisk_ReadLine stale f off a) (False, mf) =
     (False, for_loop 0 (4 * n) (\<lambda>k. MemWrite (a + of_nat k) (word_of_bytes (file_read (off + 8 * k) 8 f))) mf)"
  using assms
proof (induction n)
  case (Suc n)
  let ?g = "\<lambda>k. MemWrite (a + of_nat k) (word_of_bytes (file_read (off + 8 * k) 8 f))"
  let ?B = "file_read (off + 32 * n) 32 f"
  have part: "take 8 (drop (8 * j) ?B) = file_read (off + 8 * (4 * n + j)) 8 f" if "j < 4" for j
    using that by (simp add: file_read_def drop_take min_def add.commute add.left_commute)
  have line: "SimDisk_ReadLine stale f off a n (False, u) = (False, for_loop 0 4 (\<lambda>j. ?g (4 * n + j)) u)" for u
  proof -
    have "for_loop 0 4 (\<lambda>j. MemWrite (a + of_nat (4 * n + j)) (word_of_bytes (take 8 (drop (8 * j) ?B)))) u =
        for_loop 0 4 (\<lambda>j. ?g (4 * n + j)) u"
      unfolding for_loop_def by (rule fold_cong) (simp_all add: part)
    then show ?thesis using Suc.prems by (simp add: SimDisk_ReadLine_def Let_def)
  qed
  have "for_loop 0 (Suc n) (SimDisk_ReadLine stale f off a) (False, mf) =
      (False, for_loop 0 4 (\<lambda>j. ?g (4 * n + j)) (for_loop 0 (4 * n) ?g mf))"
    using Suc by (simp add: for_loop_Suc line)
  also have "for_loop 0 4 (\<lambda>j. ?g (4 * n + j)) (for_loop 0 (4 * n) ?g mf) = for_loop 0 (4 * Suc n) ?g mf"
    by (simp only: for_loop_lines[of n ?g, symmetric] for_loop_lines[of "Suc n" ?g, symmetric] for_loop_Suc zero_le)
  finally show ?case .
qed simp

section \<open>Well-formed disks\<close>

definition SimDisk_wf :: "SimIopDisk_c \<Rightarrow> bool" where
  "SimDisk_wf d \<longleftrightarrow> 0 < sdNumHeads d \<and> 0 < sdNumSectors d \<and> 0 < sdNumCylinders d \<and>
     0 < unat (sdSectorSize d) \<and> 1024 dvd unat (sdSectorSize d)"

lemma geometry_table_ok:
  "list_all (\<lambda>g. 0 < geoHeads g \<and> 0 < geoSectors g \<and> 0 < geoCylinders g \<and>
     0 < unat (geoSectorSize g * 8) \<and> 1024 dvd unat (geoSectorSize g * 8)) cDiskGeometry"
  by (simp add: cDiskGeometry_def)

lemma get_SectorSize_ok:
  assumes "get_SectorSize cfg = Inr s"
  shows "0 < unat s \<and> 1024 dvd unat s"
proof -
  have s: "s \<noteq> 0" "s mod 1024 = 0"
    using assms by (auto simp: get_SectorSize_def Let_def split: if_splits)
  have "unat s mod 1024 = unat (s mod 1024)" by (simp add: unat_mod)
  with s show ?thesis by (simp add: unat_gt_0 mod_eq_0_iff_dvd)
qed

lemma SimDisk_geometry_ok:
  assumes "SimDisk_geometry cfg = Inr (heads, sectors, cylinders, s)"
  shows "0 < heads \<and> 0 < sectors \<and> 0 < cylinders \<and> 0 < unat s \<and> 1024 dvd unat s"
proof (cases "dcDeviceType cfg")
  case None
  then show ?thesis
    using assms by (auto simp: SimDisk_geometry_def get_positive_def dest: get_SectorSize_ok
        split: option.splits if_splits sum.splits)
next
  case (Some ty)
  with assms obtain g where g: "List.find (\<lambda>g. geoName g = ty) cDiskGeometry = Some g"
    "heads = geoHeads g" "sectors = geoSectors g" "cylinders = geoCylinders g" "s = geoSectorSize g * 8"
    by (auto simp: SimDisk_geometry_def split: option.splits)
  from g(1) have "g \<in> set cDiskGeometry" by (auto simp: find_Some_iff)
  with geometry_table_ok show ?thesis by (auto simp: list_all_iff g)
qed

text \<open>Every disk that the constructor makes is well-formed, and the transfers keep it so.\<close>

theorem sim_disk_new_wf: "SimDisk_new aDiskId cfg = Inr d \<Longrightarrow> SimDisk_wf d"
  by (auto simp: SimDisk_new_def SimDisk_wf_def dest!: SimDisk_geometry_ok split: sum.splits)

lemma SimDisk_Read_disk:
  "SimDisk_Read stale c h s n a (d, mf) = (r, (d', mf')) \<Longrightarrow>
     sdImage d' = sdImage d \<and> (SimDisk_wf d' \<longleftrightarrow> SimDisk_wf d) \<and> SimDisk_ImageOffset d' = SimDisk_ImageOffset d"
  by (auto simp: SimDisk_Read_def SimDisk_position_def SimDisk_wf_def SimDisk_ImageOffset_def fun_eq_iff Let_def
      split: if_splits)

lemma access_lines:
  assumes "SimDisk_wf d"
  shows "SimDisk_AccessSize d n = 4 * (SimDisk_AccessSize d n div 4)"
    "8 * SimDisk_AccessSize d n = unat (sdSectorSize d) * unat n"
proof -
  from assms obtain q where "unat (sdSectorSize d) = 1024 * q" by (auto simp: SimDisk_wf_def)
  then show "SimDisk_AccessSize d n = 4 * (SimDisk_AccessSize d n div 4)"
    "8 * SimDisk_AccessSize d n = unat (sdSectorSize d) * unat n"
    by (simp_all add: SimDisk_AccessSize_def)
qed

section \<open>Transfers\<close>

lemma unat_plus_of_nat:
  fixes a :: CAddr_t
  assumes "unat a + k < 2 ^ 32"
  shows "unat (a + of_nat k) = unat a + k"
proof -
  have "unat (of_nat k :: CAddr_t) = k" using assms by (simp add: unat_of_nat take_bit_nat_eq_self)
  with assms show ?thesis by (subst unat_add_lem[THEN iffD1]) simp_all
qed

lemma SimDisk_same [simp]:
  "SimDisk_AccessSize (SimDisk_position c h s d) = SimDisk_AccessSize d"
  "SimDisk_AccessSize (d\<lparr>sdReads := v\<rparr>) = SimDisk_AccessSize d"
  "SimDisk_AccessSize (d\<lparr>sdWrites := v\<rparr>) = SimDisk_AccessSize d"
  "SimDisk_AccessSize (d\<lparr>sdImage := f\<rparr>) = SimDisk_AccessSize d"
  "SimDisk_ImageOffset (SimDisk_position c h s d) = SimDisk_ImageOffset d"
  "SimDisk_ImageOffset (d\<lparr>sdReads := v\<rparr>) = SimDisk_ImageOffset d"
  "SimDisk_ImageOffset (d\<lparr>sdWrites := v\<rparr>) = SimDisk_ImageOffset d"
  "SimDisk_ImageOffset (d\<lparr>sdImage := f\<rparr>) = SimDisk_ImageOffset d"
  "sdImage (SimDisk_position c h s d) = sdImage d"
  "sdReads (SimDisk_position c h s d) = sdReads d"
  "sdWrites (SimDisk_position c h s d) = sdWrites d"
  "sdSectorSize (SimDisk_position c h s d) = sdSectorSize d"
  by (simp_all add: fun_eq_iff SimDisk_AccessSize_def SimDisk_ImageOffset_def SimDisk_position_def)

lemma SimDisk_Write_wf:
  assumes "SimDisk_wf d"
  shows "SimDisk_Write c h s n a (d, mf) =
     (Inr (), ((SimDisk_position c h s d)\<lparr>sdWrites := sdWrites d + sdSectorSize d div 1024 * n,
        sdImage := (if SimDisk_AccessSize d n = 0 then sdImage d else
          file_write (SimDisk_ImageOffset d c h s)
            (image_words (\<lambda>k. MemRead (a + of_nat k) mf) (SimDisk_AccessSize d n)) (sdImage d))\<rparr>, mf))"
proof -
  let ?l = "SimDisk_AccessSize d n div 4"
  have four: "SimDisk_AccessSize d n mod 4 = 0" "4 * ?l = SimDisk_AccessSize d n"
    using access_lines(1)[OF assms, of n] by presburger+
  have "for_loop 0 ?l (SimDisk_WriteLine off a mf) f =
      (if SimDisk_AccessSize d n = 0 then f
       else file_write off (image_words (\<lambda>k. MemRead (a + of_nat k) mf) (SimDisk_AccessSize d n)) f)" for off f
  proof (cases ?l)
    case 0
    with four show ?thesis by simp
  next
    case (Suc m)
    with write_lines[of m off a mf f] four(2) show ?thesis by auto
  qed
  then show ?thesis
    by (simp add: SimDisk_Write_def Let_def four)
qed

lemma SimDisk_Read_within:
  assumes "SimDisk_wf d" "SimDisk_ImageOffset d c h s + 8 * SimDisk_AccessSize d n \<le> length (sdImage d)"
  shows "SimDisk_Read stale c h s n a (d, mf) =
     (Inr (), ((SimDisk_position c h s d)\<lparr>sdReads := sdReads d + sdSectorSize d div 1024 * n\<rparr>,
        for_loop 0 (SimDisk_AccessSize d n) (\<lambda>k. MemWrite (a + of_nat k)
          (word_of_bytes (file_read (SimDisk_ImageOffset d c h s + 8 * k) 8 (sdImage d)))) mf))"
proof -
  let ?l = "SimDisk_AccessSize d n div 4"
  have four: "SimDisk_AccessSize d n mod 4 = 0" "4 * ?l = SimDisk_AccessSize d n"
    using access_lines(1)[OF assms(1), of n] by presburger+
  have "SimDisk_ImageOffset d c h s + 32 * ?l \<le> length (sdImage d)" using assms(2) four(2) by linarith
  from read_lines[OF this, of stale a mf] show ?thesis
    by (simp add: SimDisk_Read_def Let_def four)
qed

text \<open>A word read back from the image, and the words copied into the memory.\<close>

lemma read_image_words:
  assumes "k < n"
  shows "file_read (off + 8 * k) 8 (file_write off (image_words v n) f) = bytes_of_word (v k)"
proof -
  let ?f = "file_write off (image_words v n) f"
  have "file_read (off + 8 * k) 8 ?f = take 8 (drop (8 * k) (file_read off (8 * n) ?f))"
    using assms by (simp add: file_read_def drop_take min_def add.commute)
  also have "file_read off (8 * n) ?f = image_words v n"
    using file_read_write_same[of off "image_words v n" f] by simp
  finally show ?thesis using image_words_nth[OF assms] by simp
qed

lemma copied_words:
  fixes dst :: CAddr_t
  assumes "unat dst + n \<le> 2 ^ 29"
  shows "k < n \<Longrightarrow> MemRead (dst + of_nat k) (for_loop 0 n (\<lambda>k. MemWrite (dst + of_nat k) (v k)) mf) = v k"
    and "unat b < 2 ^ 29 \<Longrightarrow> unat b < unat dst \<or> unat dst + n \<le> unat b \<Longrightarrow>
      MemRead b (for_loop 0 n (\<lambda>k. MemWrite (dst + of_nat k) (v k)) mf) = MemRead b mf"
proof -
  have addr: "unat (dst + of_nat k) = unat dst + k" if "k < n" for k
  proof (rule unat_plus_of_nat)
    have "unat dst + k < 2 ^ 29" using that assms by linarith
    also have "(2 :: nat) ^ 29 < 2 ^ 32" by simp
    finally show "unat dst + k < 2 ^ 32" .
  qed
  have ok: "unat (dst + of_nat k) < 2 ^ 29" if "k < n" for k unfolding addr[OF that] using that assms by linarith
  have inj: "i = j" if "i < n" "j < n" "dst + of_nat i = dst + of_nat j" for i j
    using addr[OF that(1)] addr[OF that(2)] unfolding that(3) by linarith
  show "k < n \<Longrightarrow> MemRead (dst + of_nat k) (for_loop 0 n (\<lambda>k. MemWrite (dst + of_nat k) (v k)) mf) = v k"
    by (rule mem.rd_loop(1)[OF ok inj])
  show "MemRead b (for_loop 0 n (\<lambda>k. MemWrite (dst + of_nat k) (v k)) mf) = MemRead b mf"
    if b: "unat b < 2 ^ 29" "unat b < unat dst \<or> unat dst + n \<le> unat b"
  proof (rule mem.rd_loop(2)[OF ok inj b(1)])
    fix i
    assume "i < n"
    then have "unat (dst + of_nat i) \<noteq> unat b" using addr[of i] b(2) by linarith
    then show "dst + of_nat i \<noteq> b" by blast
  qed
qed

lemma SimDisk_Read_words:
  assumes "SimDisk_wf d" "0 < SimDisk_AccessSize d n"
    and "sdImage d = file_write (SimDisk_ImageOffset d c h s) (image_words v (SimDisk_AccessSize d n)) f"
  shows "SimDisk_Read stale c h s n a (d, mf) =
     (Inr (), ((SimDisk_position c h s d)\<lparr>sdReads := sdReads d + sdSectorSize d div 1024 * n\<rparr>,
        for_loop 0 (SimDisk_AccessSize d n) (\<lambda>k. MemWrite (a + of_nat k) (v k)) mf))"
proof -
  have "for_loop 0 (SimDisk_AccessSize d n) (\<lambda>k. MemWrite (a + of_nat k)
          (word_of_bytes (file_read (SimDisk_ImageOffset d c h s + 8 * k) 8 (sdImage d)))) mf =
      for_loop 0 (SimDisk_AccessSize d n) (\<lambda>k. MemWrite (a + of_nat k) (v k)) mf"
    unfolding for_loop_def assms(3) by (rule fold_cong) (simp_all add: read_image_words)
  with SimDisk_Read_within[OF assms(1), of c h s n stale a mf] show ?thesis by (simp add: assms(3))
qed

text \<open>What a disk of the simulated I/O subsystem writes is what it reads. On a disk that
  the constructor can make, a write of \<open>n\<close> sectors leaves the memory of the mainframe as it
  is, and a later read of the same sectors, into any place of the memory that has room for
  them, brings every word back and changes no other word of the memory, whatever the memory
  and the unused bytes of the line buffer hold by then. Bytes of the image outside the sectors
  stay as they were.\<close>

theorem sim_disk_roundtrip:
  assumes "SimDisk_wf d" "unat dst + SimDisk_AccessSize d n \<le> 2 ^ 29"
  shows "\<exists>d1 d2 mf2.
      SimDisk_Write c h s n src (d, mf) = (Inr (), (d1, mf)) \<and>
      SimDisk_Read stale c h s n dst (d1, mf1) = (Inr (), (d2, mf2)) \<and>
      (\<forall>k<SimDisk_AccessSize d n. MemRead (dst + of_nat k) mf2 = MemRead (src + of_nat k) mf) \<and>
      (\<forall>b. unat b < 2 ^ 29 \<and> (unat b < unat dst \<or> unat dst + SimDisk_AccessSize d n \<le> unat b) \<longrightarrow>
         MemRead b mf2 = MemRead b mf1) \<and>
      (\<forall>i<length (sdImage d). i < SimDisk_ImageOffset d c h s \<or>
         SimDisk_ImageOffset d c h s + 8 * SimDisk_AccessSize d n \<le> i \<longrightarrow> sdImage d2 ! i = sdImage d ! i)"
proof -
  let ?N = "SimDisk_AccessSize d n" and ?off = "SimDisk_ImageOffset d c h s"
  let ?v = "\<lambda>k. MemRead (src + of_nat k) mf"
  define d1 where "d1 = fst (snd (SimDisk_Write c h s n src (d, mf)))"
  note wr = SimDisk_Write_wf[OF assms(1), of c h s n src mf]
  have w: "SimDisk_Write c h s n src (d, mf) = (Inr (), (d1, mf))" by (simp add: d1_def wr)
  have wf: "SimDisk_wf d1" using assms(1) by (simp add: d1_def wr SimDisk_wf_def SimDisk_position_def)
  have same: "SimDisk_AccessSize d1 n = ?N" "SimDisk_ImageOffset d1 c h s = ?off" by (simp_all add: d1_def wr)
  show ?thesis
  proof (cases "?N = 0")
    case True
    have "sdImage d1 = sdImage d" using True by (simp add: d1_def wr)
    with w True show ?thesis by (auto simp: SimDisk_Read_def Let_def same)
  next
    case False
    have image: "sdImage d1 = file_write ?off (image_words ?v ?N) (sdImage d)" using False by (simp add: d1_def wr)
    let ?d2 = "(SimDisk_position c h s d1)\<lparr>sdReads := sdReads d1 + sdSectorSize d1 div 1024 * n\<rparr>"
    let ?mf2 = "for_loop 0 ?N (\<lambda>k. MemWrite (dst + of_nat k) (?v k)) mf1"
    have r: "SimDisk_Read stale c h s n dst (d1, mf1) = (Inr (), (?d2, ?mf2))"
      using SimDisk_Read_words[OF wf, of n c h s ?v "sdImage d" stale dst mf1] False by (simp add: same image)
    have "\<forall>i<length (sdImage d). i < ?off \<or> ?off + 8 * ?N \<le> i \<longrightarrow> sdImage ?d2 ! i = sdImage d ! i"
      by (auto simp: image nth_file_write)
    with w r copied_words[OF assms(2), of _ ?v mf1] show ?thesis by blast
  qed
qed

definition sample_sim_disk :: SimIopDisk_c where
  "sample_sim_disk = \<lparr>sdDiskId = ''0'', sdIopNumber = 1, sdUnit = 0, sdPysicalDeviceId = 3, sdNumHeads = 2,
     sdNumSectors = 5, sdNumCylinders = 7, sdSectorSize = 1024, sdCurrentHead = 0, sdCurrentSector = 0,
     sdCurrentCylinder = 0, sdReads = 0, sdWrites = 0, sdImage = [0]\<rparr>"

lemma sample_sim_disk_facts:
  "SimDisk_wf sample_sim_disk" "SimDisk_AccessSize sample_sim_disk 2 = 256"
  by (simp_all add: SimDisk_wf_def SimDisk_AccessSize_def sample_sim_disk_def)

theorem sim_disk_roundtrip_witness:
  "\<exists>d1 d2 mf2.
      SimDisk_Write 3 1 4 2 64 (sample_sim_disk, sample_idle) = (Inr (), (d1, sample_idle)) \<and>
      SimDisk_Read (\<lambda>_ _. 7) 3 1 4 2 4096 (d1, sample_idle) = (Inr (), (d2, mf2)) \<and>
      MemRead (4096 + of_nat 100) mf2 = MemRead (64 + of_nat 100) sample_idle"
proof -
  have "unat (4096 :: CAddr_t) + SimDisk_AccessSize sample_sim_disk 2 \<le> 2 ^ 29" "(100 :: nat) < SimDisk_AccessSize sample_sim_disk 2"
    by (simp_all add: sample_sim_disk_facts)
  then show ?thesis
    using sim_disk_roundtrip[OF sample_sim_disk_facts(1), of 4096 2 3 1 4 64 sample_idle "\<lambda>_ _. 7" sample_idle] by blast
qed

section \<open>Sector indices and the end of the image\<close>

text \<open>
  A sector index within the disk names the place that its number says, and one outside is
  refused before anything moves.
\<close>

theorem sim_disk_index:
  assumes "SimDisk_wf d"
  shows "SimDisk_ReadIdx stale i n a (d, mf) =
      (if i < sdNumCylinders d * sdNumHeads d * sdNumSectors d
       then SimDisk_Read stale (SimDisk_Cylinder d i) (SimDisk_Head d i) (SimDisk_Sector d i) n a (d, mf)
       else (Inl AssertError, (d, mf)))"
    and "SimDisk_WriteIdx i n a (d, mf) =
      (if i < sdNumCylinders d * sdNumHeads d * sdNumSectors d
       then SimDisk_Write (SimDisk_Cylinder d i) (SimDisk_Head d i) (SimDisk_Sector d i) n a (d, mf)
       else (Inl AssertError, (d, mf)))"
    and "SimDisk_ImageOffset d (SimDisk_Cylinder d i) (SimDisk_Head d i) (SimDisk_Sector d i) =
      unat (sdSectorSize d) * i"
  using assms Cylinder_less[of d i]
  by (simp_all add: SimDisk_ReadIdx_def SimDisk_WriteIdx_def ImageOffset_index SimDisk_wf_def)

text \<open>
  A read that begins past the end of the image: the first line takes what the buffer held,
  not zeros, because the end of the file is noticed only after that read; from the second
  line on the words are zero.
\<close>

lemma word_of_zeros: "word_of_bytes (replicate 8 0) = 0"
  by (simp add: word_of_bytes_def load64_def)

lemma read_lines_past_end:
  assumes "length f \<le> off"
  shows "for_loop 0 (Suc n) (SimDisk_ReadLine stale f off a) (False, mf) =
     (True, for_loop 0 (4 * Suc n) (\<lambda>k. MemWrite (a + of_nat k)
        (if k < 4 then word_of_bytes (take 8 (drop (8 * k) (map (stale 0) [0..<32]))) else 0)) mf)"
proof (induction n)
  case 0
  have "file_read off 32 f = []" using assms by (simp add: file_read_def)
  moreover have "for_loop 0 4 (\<lambda>k. MemWrite (a + of_nat k) (word_of_bytes (take 8 (drop (8 * k) (map (stale 0) [0..<32]))))) mf =
      for_loop 0 4 (\<lambda>k. MemWrite (a + of_nat k)
        (if k < 4 then word_of_bytes (take 8 (drop (8 * k) (map (stale 0) [0..<32]))) else 0)) mf"
    unfolding for_loop_def by (rule fold_cong) simp_all
  ultimately show ?case
    using assms by (simp add: for_loop_Suc[of 0 0] SimDisk_ReadLine_def Let_def del: upt_rec_numeral)
next
  case (Suc n)
  let ?g = "\<lambda>k. MemWrite (a + of_nat k)
        (if k < 4 then word_of_bytes (take 8 (drop (8 * k) (map (stale 0) [0..<32]))) else 0)"
  have line: "SimDisk_ReadLine stale f off a (Suc n) (True, u) = (True, for_loop 0 4 (\<lambda>j. ?g (4 * Suc n + j)) u)" for u
  proof -
    have z: "take 8 (replicate (32 - 8 * j) 0) = replicate 8 (0 :: uint8)" if "j < 4" for j
      using that by (simp add: min_def)
    have "for_loop 0 4 (\<lambda>j. MemWrite (a + of_nat (4 * Suc n + j)) (word_of_bytes (take 8 (drop (8 * j) (replicate 32 0))))) u =
        for_loop 0 4 (\<lambda>j. ?g (4 * Suc n + j)) u"
      unfolding for_loop_def by (rule fold_cong) (simp_all add: z word_of_zeros del: take_replicate)
    then show ?thesis by (simp add: SimDisk_ReadLine_def Let_def)
  qed
  show ?case
    by (simp only: for_loop_Suc[of 0 "Suc n"] Suc line zero_le for_loop_lines[of "Suc n" ?g, symmetric]
        for_loop_lines[of "Suc (Suc n)" ?g, symmetric] for_loop_Suc[of 0 "Suc n" "\<lambda>i. for_loop 0 4 (\<lambda>j. ?g (4 * i + j))"])
qed

theorem sim_disk_past_end:
  assumes "SimDisk_wf d" "length (sdImage d) \<le> SimDisk_ImageOffset d c h s" "k < SimDisk_AccessSize d n"
    and "unat dst + SimDisk_AccessSize d n \<le> 2 ^ 29"
  shows "MemRead (dst + of_nat k) (snd (snd (SimDisk_Read stale c h s n dst (d, mf)))) =
     (if k < 4 then word_of_bytes (take 8 (drop (8 * k) (map (stale 0) [0..<32]))) else 0)"
proof -
  let ?l = "SimDisk_AccessSize d n div 4"
  let ?v = "\<lambda>k. if k < 4 then word_of_bytes (take 8 (drop (8 * k) (map (stale 0) [0..<32]))) else 0"
  have four: "SimDisk_AccessSize d n mod 4 = 0" "4 * ?l = SimDisk_AccessSize d n"
    using access_lines(1)[OF assms(1), of n] by presburger+
  then obtain m where m: "?l = Suc m" using assms(3) by (cases ?l) auto
  have "snd (snd (SimDisk_Read stale c h s n dst (d, mf))) =
      for_loop 0 (SimDisk_AccessSize d n) (\<lambda>k. MemWrite (dst + of_nat k) (?v k)) mf"
    using read_lines_past_end[OF assms(2), of m stale dst mf] four(2)
    by (simp add: SimDisk_Read_def Let_def four(1)) (simp add: m)
  with copied_words(1)[OF assms(4,3), of ?v mf] show ?thesis by simp
qed

end
