(* ===== verification/Sim_Results.thy ===== *)
theory Sim_Results
  imports Sim_Iop_Tick Sim_Disk_Results
begin

text \<open>
  What the simulated I/O subsystem promises: finished packets are valid and keep their fields;
  a transfer of several packets is taken apart into exactly these packets; what one channel
  delivers to the memory the other takes back from it; the start-up goes through its states in
  order; and a disk request is carried out on the disk it names and answered once.
\<close>

section \<open>A sample cluster\<close>

definition sample_host_time :: sim_time where
  "sample_host_time = \<lparr>htMonth = 2, htDay = 29, htYear = 2024, htHour = 13, htMinute = 5, htSecond = 59\<rparr>"

definition sample_sim_env :: sim_env where
  "sample_sim_env = \<lparr>seTime = sample_host_time, seStale = (\<lambda>_ _. 0)\<rparr>"

definition sample_sim_console :: SimIopConsole_c where
  "sample_sim_console = \<lparr>scConsole = \<lparr>conReceiveBuf = 0, conReceiveFull = False, conTransmitQueue = [],
       conPollCnt = 0, conTelnetOptions = (\<lambda>_. \<lparr>optDo = False, optWill = False, optOutstandingDoDont = False,
       optOutstandingWillWont = False\<rparr>), conTelnetState = WaitIAC, conTelnetAction = tcIAC, conEatLF = True,
       conEatNull = True, conMapBackspace = True, conBackspaceChar = 127\<rparr>,
     scConsoleId = 0, scDev = 0, scDisableAutoTerminal = False, scSeqZSent = 0, scSeqZReceived = 0\<rparr>"

definition sample_sim_cluster :: "IopRevision_e \<Rightarrow> SimIopCluster_c" where
  "sample_sim_cluster Revision = \<lparr>siState = SimReset, siIopRevision = Revision, siMasterCluster = True, siIopId = 0,
     siSeqSent = 7, siSeqReceived = 9, siPacketsReceived = 0, siPacketsSent = 0,
     siDisks = [sample_sim_disk], siConsoles = [sample_sim_console],
     siEthInterfaces = [], siIopPeripheral = None, siHostFiles = (\<lambda>_. None), siDefaultConsole = sample_sim_console,
     siIToCChannel = \<lparr>icPacketQueue = [], icPacket = [], icPacketIdx = 0, icPacketValid = False, icChannel = 0\<rparr>,
     siCToIChannel = \<lparr>ciPacket = [], ciPacketValid = False, ciChannel = 1\<rparr>,
     siMainframe = sample_idle, siCpuMasterClears = [], siKernelFile = None, siKernelPreamble = 64, siParameterFile = None,
     siRamFsFile = None, siBootCluster = 0, siBootChannel = 0, siLogicalMainframeNumber = 0,
     siOWSProtocolLevel = 0, siRunLevel = None, siDontTouchExchangePacket = False\<rparr>"

section \<open>Packets\<close>

lemma length_EP_put [simp]: "length (EP_put lo hi v p) = length p"
  by (simp add: EP_put_def)

lemma EP_header_put: "p \<noteq> [] \<Longrightarrow> EP_header (EP_put lo hi v p) = SetBits (EP_header p) lo hi v"
  by (simp add: EP_header_def EP_put_def)

lemma EP_put_tail [simp]: "tl (EP_put lo hi v p) = tl p"
  by (cases p) (simp_all add: EP_put_def)

lemma EP_put_not_Nil [simp]: "EP_put lo hi v p = [] \<longleftrightarrow> p = []"
  by (simp add: EP_put_def)

lemmas EP_sets = EP_SetMagic_def EP_SetLength_def EP_SetFlags_def EP_SetSeq_def EP_SetAckSeq_def
lemmas EP_gets = EP_GetMagic_def EP_GetLength_def EP_GetProcess_def EP_GetFlags_def EP_GetLogicalPath_def
  EP_GetSeq_def EP_GetAckSeq_def

lemma header_append [simp]: "p \<noteq> [] \<Longrightarrow> EP_header (p @ q) = EP_header p"
  by (simp add: EP_header_def nth_append)

text \<open>A finished packet: the header, the words, and the header again.\<close>

definition EP_finished_header :: "packet \<Rightarrow> CInt_t" where
  "EP_finished_header p =
     SetBits (SetBits (SetBits (EP_header p) 58 63 (ucast EP_cMagic)) 48 57 (of_nat (length p))) 24 31 (ucast EP_cFlagAck)"

lemma Finalize_words:
  assumes "p \<noteq> []" "length p < 1024"
  shows "EP_Finalize p = EP_finished_header p # tl p @ [EP_finished_header p]"
proof -
  obtain w ws where p: "p = w # ws" using assms(1) by (cases p) auto
  have "ucast (of_nat (length p) :: uint16) = (of_nat (length p) :: uint64)"
    using assms(2) by (simp add: word_unat_eq_iff unat_of_nat unsigned_ucast_eq take_bit_nat_eq_self del: of_nat_less_iff)
  then show ?thesis
    unfolding EP_finished_header_def EP_Finalize_def EP_sets EP_put_def EP_header_def Let_def
    by (simp add: p)
qed

lemma finished_header_fields:
  assumes "length p < 1024"
  shows "GetBits (EP_finished_header p) 58 63 = 45" "GetBits (EP_finished_header p) 48 57 = of_nat (length p)"
    "GetBits (EP_finished_header p) 24 31 = 0x40"
    "GetBits (EP_finished_header p) 0 7 = GetBits (EP_header p) 0 7"
    "GetBits (EP_finished_header p) 8 15 = GetBits (EP_header p) 8 15"
    "GetBits (EP_finished_header p) 16 23 = GetBits (EP_header p) 16 23"
    "GetBits (EP_finished_header p) 32 36 = GetBits (EP_header p) 32 36"
proof -
  have "take_bit 10 (of_nat (length p) :: uint64) = of_nat (length p)"
    using assms by (simp add: take_bit_of_nat take_bit_nat_eq_self)
  then show "GetBits (EP_finished_header p) 58 63 = 45" "GetBits (EP_finished_header p) 48 57 = of_nat (length p)"
    "GetBits (EP_finished_header p) 24 31 = 0x40"
    "GetBits (EP_finished_header p) 0 7 = GetBits (EP_header p) 0 7"
    "GetBits (EP_finished_header p) 8 15 = GetBits (EP_header p) 8 15"
    "GetBits (EP_finished_header p) 16 23 = GetBits (EP_header p) 16 23"
    "GetBits (EP_finished_header p) 32 36 = GetBits (EP_header p) 32 36"
    by (simp_all add: EP_finished_header_def GetBits_SetBits_same GetBits_SetBits_other)
qed

text \<open>A finished packet is valid, and finishing changes none of the fields that were set before.\<close>

theorem finished_packet:
  assumes "p \<noteq> []" "length p < 1024"
  shows "EP_IsValid (EP_Finalize p)" "unat (EP_GetLength (EP_Finalize p)) = length p"
    "EP_GetSeq (EP_Finalize p) = EP_GetSeq p" "EP_GetAckSeq (EP_Finalize p) = EP_GetAckSeq p"
    "EP_GetLogicalPath (EP_Finalize p) = EP_GetLogicalPath p" "EP_GetProcess (EP_Finalize p) = EP_GetProcess p"
    "length (EP_Finalize p) = length p + 1" "\<And>i. i + 1 < length p \<Longrightarrow> EP_Data i (EP_Finalize p) = EP_Data i p"
proof -
  let ?h = "EP_finished_header p"
  have h: "EP_header (?h # q) = ?h" "EP_header p = hd p" for q using assms(1) by (simp_all add: EP_header_def hd_conv_nth)
  have len: "unat (ucast (of_nat (length p) :: uint64) :: uint16) = length p"
    using assms(2) by (simp add: unsigned_ucast_eq unat_of_nat take_bit_nat_eq_self)
  have size: "length (?h # tl p @ [?h]) = length p + 1" using assms(1) by (cases p) simp_all
  note fields = h finished_header_fields[OF assms(2)]
  show "EP_IsValid (EP_Finalize p)"
    unfolding Finalize_words[OF assms] EP_IsValid_def size EP_gets fields len using assms(1) by (cases p) simp_all
  show "unat (EP_GetLength (EP_Finalize p)) = length p"
    unfolding Finalize_words[OF assms] EP_gets fields len ..
  show "EP_GetSeq (EP_Finalize p) = EP_GetSeq p" "EP_GetAckSeq (EP_Finalize p) = EP_GetAckSeq p"
    "EP_GetLogicalPath (EP_Finalize p) = EP_GetLogicalPath p" "EP_GetProcess (EP_Finalize p) = EP_GetProcess p"
    unfolding Finalize_words[OF assms] EP_gets fields by simp_all
  show "length (EP_Finalize p) = length p + 1"
    unfolding Finalize_words[OF assms] size ..
  show "EP_Data i (EP_Finalize p) = EP_Data i p" if "i + 1 < length p" for i
    using that assms(1) unfolding Finalize_words[OF assms] EP_Data_def by (cases p) (simp_all add: nth_append)
qed

section \<open>Framing\<close>

text \<open>A packet that its header frames: the header comes again at the end only.\<close>

definition framed :: "packet \<Rightarrow> bool" where
  "framed p \<longleftrightarrow> 2 \<le> length p \<and> last p = hd p \<and> hd p \<notin> set (butlast (tl p))"

lemma framed_words: "framed p \<Longrightarrow> \<exists>w body. p = w # body @ [w] \<and> w \<notin> set body"
proof -
  assume f: "framed p"
  then obtain w q where p: "p = w # q" "q \<noteq> []" by (cases p; cases "tl p") (auto simp: framed_def)
  with f have "last q = w" "w \<notin> set (butlast q)" by (auto simp: framed_def)
  with p have "q = butlast q @ [w]" using append_butlast_last_id[of q] by simp
  with p(1) \<open>w \<notin> set (butlast q)\<close> show ?thesis by metis
qed

lemma next_packet_framed: "framed p \<Longrightarrow> next_packet (p @ raw) = Some (p, raw)"
proof -
  assume "framed p"
  then obtain w body where p: "p = w # body @ [w]" "w \<notin> set body" using framed_words by blast
  have "takeWhile (\<lambda>x. x \<noteq> w) (body @ w # raw) = body"
    using p(2) by (subst takeWhile_append2) auto
  then show ?thesis by (simp add: next_packet_def Let_def p)
qed

fun each_packet :: "(packet \<Rightarrow> (SimIopCluster_c, unit) exec) \<Rightarrow> packet list \<Rightarrow> (SimIopCluster_c, unit) exec" where
  "each_packet f [] cl = (Inr (), cl)"
| "each_packet f (p # ps) cl = (case f p cl of (Inl e, cl) \<Rightarrow> (Inl e, cl) | (Inr _, cl) \<Rightarrow> each_packet f ps cl)"

text \<open>C21: A transfer is taken apart into the packets that were put into it. When the words of
  a transfer are packets one after another, each of them framed by its header, the loop of the
  model-E cluster handles exactly these packets, in their order, and stops at the first that
  fails.\<close>

theorem sim_iop_framing:
  assumes "\<forall>p\<in>set ps. framed p"
  shows "J90_packets env (concat ps) cl = each_packet (J90_packet env) ps cl"
  using assms
proof (induction ps arbitrary: cl)
  case Nil
  then show ?case by (subst J90_packets.simps) (simp add: next_packet_def)
next
  case (Cons p ps)
  then have "next_packet (concat (p # ps)) = Some (p, concat ps)" by (simp add: next_packet_framed)
  with Cons show ?case by (subst J90_packets.simps) (auto split: prod.splits sum.splits)
qed

lemma finished_header_only:
  "EP_IsValid (EP_Finalize [w])" "framed (EP_Finalize [w])" "EP_GetSeq (EP_Finalize [w]) = ucast (GetBits w 8 15)"
  "unat (EP_GetLength (EP_Finalize [w])) = 1" "EP_GetFlags (EP_Finalize [w]) = 0x40"
proof -
  have p: "[w] \<noteq> []" "length [w] < 1024" by simp_all
  note f = finished_packet[OF p]
  show "EP_IsValid (EP_Finalize [w])" by (rule f(1))
  show "framed (EP_Finalize [w])" unfolding Finalize_words[OF p] by (simp add: framed_def)
  show "EP_GetSeq (EP_Finalize [w]) = ucast (GetBits w 8 15)" using f(3) by (simp add: EP_GetSeq_def EP_header_def)
  show "unat (EP_GetLength (EP_Finalize [w])) = 1" using f(2) by simp
  have "EP_header (EP_finished_header [w] # q) = EP_finished_header [w]" for q by (simp add: EP_header_def)
  then show "EP_GetFlags (EP_Finalize [w]) = 0x40"
    unfolding Finalize_words[OF p] EP_GetFlags_def by (simp only: finished_header_fields(3)[OF p(2)]) simp
qed

lemma J90_header_only:
  "J90_packet env (EP_Finalize [w]) cl =
     (Inr (), cl\<lparr>siSeqReceived := ucast (GetBits w 8 15), siPacketsReceived := siPacketsReceived cl + 1\<rparr>)"
proof -
  have "\<not> EP_GetLength (EP_Finalize [w]) > 1"
    using finished_header_only(4)[of w] by (simp add: word_less_nat_alt)
  then show ?thesis by (simp add: J90_packet_def finished_header_only Let_def)
qed

theorem sim_iop_framing_witness:
  "J90_packets sample_sim_env (EP_Finalize [0x500] @ EP_Finalize [0x600]) (sample_sim_cluster IOSE) =
     (Inr (), (sample_sim_cluster IOSE)\<lparr>siSeqReceived := 6, siPacketsReceived := 2\<rparr>)"
proof -
  have "(ucast (GetBits 0x600 8 15) :: uint8) = 6" by (simp add: GetBits_def del: mask_8_bits)
  then show ?thesis
    using sim_iop_framing[of "[EP_Finalize [0x500], EP_Finalize [0x600]]" sample_sim_env "sample_sim_cluster IOSE"]
    by (simp add: finished_header_only(2) J90_header_only) (simp add: sample_sim_cluster_def)
qed

section \<open>The channels\<close>

lemma unat_less_32: "unat (a :: CAddr_t) < 2 ^ 32"
  by (rule order_less_le_trans[OF unsigned_less]) simp

text \<open>One word of a packet on its way into the memory.\<close>

definition deliver_word :: "nat \<Rightarrow> packet \<Rightarrow> nat \<Rightarrow> mainframe \<Rightarrow> mainframe" where
  "deliver_word ix p k mf =
     upd_chan ix (\<lambda>c. c\<lparr>mAddress := mAddress c + 1\<rparr>) (MemWrite (mAddress (chan mf ix)) (SwapBytes64 (p ! k)) mf)"

lemma deliver_word_simps [simp]:
  "length (mChannels (deliver_word ix p k mf)) = length (mChannels mf)"
  "ix < length (mChannels mf) \<Longrightarrow> chan (deliver_word ix p k mf) ix = (chan mf ix)\<lparr>mAddress := mAddress (chan mf ix) + 1\<rparr>"
  by (simp_all add: deliver_word_def)

lemma memory_of_writes:
  "mMemory (MemWrite a v mf) = store64 (unat (a * 8)) v (mMemory mf)"
  "mMemory (deliver_word ix p k mf) = store64 (unat (mAddress (chan mf ix) * 8)) (SwapBytes64 (p ! k)) (mMemory mf)"
  by (simp_all add: deliver_word_def MemWrite_def)

lemma IC_words_deliver:
  assumes "ix < length (mChannels mf)" "mActive (chan mf ix)" "icChannel ch = ix" "icPacketIdx ch < length (icPacket ch)"
    and "\<And>k. icPacketIdx ch + k < length (icPacket ch) \<Longrightarrow> mAddress (chan mf ix) + of_nat k \<noteq> mLimit (chan mf ix)"
  shows "IC_words (ch, mf) =
     (Inr (), (ch\<lparr>icPacketIdx := length (icPacket ch), icPacketValid := False\<rparr>,
        Disconnect ix (for_loop (icPacketIdx ch) (length (icPacket ch)) (deliver_word ix (icPacket ch)) mf)))"
  using assms
proof (induction "length (icPacket ch) - icPacketIdx ch" arbitrary: ch mf rule: less_induct)
  case less
  let ?p = "icPacket ch" and ?i = "icPacketIdx ch"
  let ?mf = "deliver_word ix ?p ?i mf" and ?ch = "ch\<lparr>icPacketIdx := ?i + 1\<rparr>"
  have set: "SetData (?p ! ?i) c ix mf = (Inr (), if c then Disconnect ix ?mf else ?mf)" for c
    using less.prems(5)[of 0] less.prems(1,2,4) by (simp add: SetData_def Let_def deliver_word_def)
  show ?case
  proof (cases "?i + 1 = length ?p")
    case True
    have "for_loop ?i (length ?p) (deliver_word ix ?p) mf = ?mf"
      using True[symmetric] by (simp add: for_loop_def)
    then show ?thesis
      using less.prems True set[of True] by (subst IC_words.simps) simp
  next
    case False
    have addr: "mAddress (chan ?mf ix) + of_nat k \<noteq> mLimit (chan ?mf ix)" if "?i + 1 + k < length ?p" for k
      using less.prems(5)[of "Suc k"] that less.prems(1) by (simp add: add_ac)
    have "IC_words (?ch, ?mf) = (Inr (), (?ch\<lparr>icPacketIdx := length ?p, icPacketValid := False\<rparr>,
        Disconnect ix (for_loop (?i + 1) (length ?p) (deliver_word ix ?p) ?mf)))"
      using less.hyps[of ?ch ?mf] less.prems False addr by simp
    moreover have "IC_words (ch, mf) = IC_words (?ch, ?mf)"
      using less.prems False set[of False] by (subst IC_words.simps) simp
    ultimately show ?thesis using less.prems(4) by (simp add: for_loop_first)
  qed
qed

lemma deliver_loop:
  assumes "ix < length (mChannels mf)"
  shows "chan (for_loop 0 n (deliver_word ix p) mf) ix = (chan mf ix)\<lparr>mAddress := mAddress (chan mf ix) + of_nat n\<rparr>
     \<and> length (mChannels (for_loop 0 n (deliver_word ix p) mf)) = length (mChannels mf)
     \<and> mMemory (for_loop 0 n (deliver_word ix p) mf) =
       mMemory (for_loop 0 n (\<lambda>k. MemWrite (mAddress (chan mf ix) + of_nat k) (SwapBytes64 (p ! k))) mf)"
proof (induction n)
  case (Suc n)
  then show ?case using assms by (simp add: for_loop_Suc memory_of_writes add.commute[of _ 1] add.left_commute)
qed simp

lemma memory_Disconnect [simp]: "mMemory (Disconnect ix mf) = mMemory mf"
  by (simp add: Disconnect_def)

text \<open>A whole packet, from the first word to the interrupt.\<close>

theorem packet_delivered:
  assumes "ix < length (mChannels mf)" "mActive (chan mf ix)" "icChannel ch = ix" "icPacketValid ch" "icPacketIdx ch = 0"
    and "icPacket ch \<noteq> []" "mAddress (chan mf ix) = a" "unat a + length (icPacket ch) \<le> unat (mLimit (chan mf ix))"
    and "unat a + length (icPacket ch) \<le> 2 ^ 29" "IC_ChannelTick (ch, mf) = (r, (ch', mf'))"
  shows "r = Inr ()" "\<not> icPacketValid ch'" "icPacketQueue ch' = icPacketQueue ch"
    "\<not> mActive (chan mf' ix)" "mInterruptPending (chan mf' ix)"
    "\<And>k. k < length (icPacket ch) \<Longrightarrow> MemRead (a + of_nat k) mf' = SwapBytes64 (icPacket ch ! k)"
    "\<And>b. unat b < 2 ^ 29 \<Longrightarrow> unat b < unat a \<or> unat a + length (icPacket ch) \<le> unat b \<Longrightarrow> MemRead b mf' = MemRead b mf"
proof -
  let ?p = "icPacket ch"
  let ?w = "\<lambda>k. MemWrite (a + of_nat k) (SwapBytes64 (?p ! k))"
  have "a + of_nat k \<noteq> mLimit (chan mf ix)" if "k < length ?p" for k
  proof -
    have "unat a + k < 2 ^ 32"
      using assms(8) that unat_less_32[of "mLimit (chan mf ix)"] by linarith
    from unat_plus_of_nat[OF this] assms(8) that show ?thesis by (metis add_strict_left_mono not_less)
  qed
  then have t: "IC_ChannelTick (ch, mf) = (Inr (), (ch\<lparr>icPacketIdx := length ?p, icPacketValid := False\<rparr>,
      Disconnect ix (for_loop 0 (length ?p) (deliver_word ix ?p) mf)))"
    using IC_words_deliver[of ix mf ch] assms(1-7) by (simp add: IC_ChannelTick_def)
  note loop = deliver_loop[OF assms(1), of "length ?p" ?p]
  have read: "MemRead x mf' = MemRead x (for_loop 0 (length ?p) ?w mf)" for x
    using t assms(7,10) loop by (simp add: MemRead_def)
  show "r = Inr ()" "\<not> icPacketValid ch'" "icPacketQueue ch' = icPacketQueue ch"
    using t assms(10) by auto
  show "\<not> mActive (chan mf' ix)" "mInterruptPending (chan mf' ix)"
    using t assms(10) loop assms(1) by (auto simp: Disconnect_def)
  show "MemRead (a + of_nat k) mf' = SwapBytes64 (?p ! k)" if "k < length ?p" for k
    unfolding read by (rule copied_words(1)[OF assms(9) that])
  show "MemRead b mf' = MemRead b mf" if "unat b < 2 ^ 29" "unat b < unat a \<or> unat a + length ?p \<le> unat b" for b
    unfolding read by (rule copied_words(2)[OF assms(9) that])
qed

text \<open>The other direction takes the words up to the limit of the channel.\<close>

lemma CI_take:
  assumes "j < length (mChannels mf)" "mActive (chan mf j)" "ciChannel ch = j" "\<not> ciPacketValid ch"
    and "mLimit (chan mf j) = mAddress (chan mf j) + of_nat (Suc n)" "unat (mAddress (chan mf j)) + Suc n < 2 ^ 32"
    and "8 * (unat (mAddress (chan mf j)) + Suc n) \<le> mMemorySize mf"
  shows "\<exists>mf'. CI_ChannelTick (ch, mf) = (Inr (), (ch\<lparr>ciPacketValid := True, ciPacket := ciPacket ch @
       map (\<lambda>k. SwapBytes64 (load64 (mMemory mf) (8 * (unat (mAddress (chan mf j)) + k)))) [0..<Suc n]\<rparr>, mf'))
     \<and> mMemory mf' = mMemory mf \<and> \<not> mActive (chan mf' j) \<and> mInterruptPending (chan mf' j)"
  using assms
proof (induction n arbitrary: ch mf)
  case 0
  let ?c = "chan mf j"
  define mf1 where "mf1 = upd_chan j (\<lambda>c. c\<lparr>mAddress := mAddress c + 1\<rparr>) mf"
  define mf' where "mf' = SetInactive j (SetInterruptPending True j mf1)"
  have get: "GetData j mf = (Inr (SwapBytes64 (load64 (mMemory mf) (unat (mAddress ?c) * 8))), mf')"
    using 0 by (simp add: GetData_def MemReadNoWatchpoint_def throwE_def Let_def mf'_def mf1_def)
  have off: "\<not> mActive (chan mf' j)" "mInterruptPending (chan mf' j)" "mMemory mf' = mMemory mf"
    using 0 by (simp_all add: mf'_def mf1_def)
  show ?case
    using 0 off by (subst CI_ChannelTick.simps) (simp add: get CI_ChannelTick.simps[of _ mf'] mult.commute)
next
  case (Suc n)
  let ?c = "chan mf j"
  define mf' where "mf' = upd_chan j (\<lambda>c. c\<lparr>mAddress := mAddress c + 1\<rparr>) mf"
  let ?w = "SwapBytes64 (load64 (mMemory mf) (unat (mAddress ?c) * 8))"
  let ?ch = "ch\<lparr>ciPacket := ciPacket ch @ [?w]\<rparr>"
  have u: "unat (mAddress ?c + of_nat (Suc (Suc n))) = unat (mAddress ?c) + Suc (Suc n)"
    "unat (mAddress ?c + of_nat (Suc 0)) = unat (mAddress ?c) + Suc 0"
    using Suc.prems(6) by (intro unat_plus_of_nat; simp)+
  have ne: "mAddress ?c \<noteq> mLimit ?c" "mAddress ?c + 1 \<noteq> mLimit ?c"
  proof -
    have "unat (mLimit ?c) = unat (mAddress ?c) + Suc (Suc n)" unfolding Suc.prems(5) by (rule u(1))
    moreover have "unat (mAddress ?c + 1) = unat (mAddress ?c) + 1" using u(2) by simp
    ultimately have "unat (mAddress ?c) \<noteq> unat (mLimit ?c)" "unat (mAddress ?c + 1) \<noteq> unat (mLimit ?c)" by linarith+
    then show "mAddress ?c \<noteq> mLimit ?c" "mAddress ?c + 1 \<noteq> mLimit ?c" by metis+
  qed
  have get: "GetData j mf = (Inr ?w, mf')"
    using Suc.prems ne by (simp add: GetData_def MemReadNoWatchpoint_def throwE_def Let_def mf'_def)
  have c: "chan mf' j = ?c\<lparr>mAddress := mAddress ?c + 1\<rparr>" "length (mChannels mf') = length (mChannels mf)"
    "mMemory mf' = mMemory mf" "mMemorySize mf' = mMemorySize mf"
    using Suc.prems(1) by (simp_all add: mf'_def upd_chan_def chan_def)
  have step: "CI_ChannelTick (ch, mf) = CI_ChannelTick (?ch, mf')"
    using Suc.prems get by (subst CI_ChannelTick.simps) (simp add: c)
  have addr: "unat (mAddress ?c + 1) = unat (mAddress ?c) + 1" using u(2) by simp
  have "\<exists>mf''. CI_ChannelTick (?ch, mf') = (Inr (), (?ch\<lparr>ciPacketValid := True, ciPacket := ciPacket ?ch @
       map (\<lambda>k. SwapBytes64 (load64 (mMemory mf') (8 * (unat (mAddress (chan mf' j)) + k)))) [0..<Suc n]\<rparr>, mf''))
     \<and> mMemory mf'' = mMemory mf' \<and> \<not> mActive (chan mf'' j) \<and> mInterruptPending (chan mf'' j)"
    by (rule Suc.IH) (use Suc.prems addr in \<open>simp_all add: c add_ac\<close>)
  moreover have "ciPacket ?ch @ map (\<lambda>k. SwapBytes64 (load64 (mMemory mf') (8 * (unat (mAddress (chan mf' j)) + k)))) [0..<Suc n] =
      ciPacket ch @ map (\<lambda>k. SwapBytes64 (load64 (mMemory mf) (8 * (unat (mAddress ?c) + k)))) [0..<Suc (Suc n)]"
  proof -
    have "map f [0..<Suc (Suc n)] = f 0 # map (\<lambda>k. f (Suc k)) [0..<Suc n]" for f :: "nat \<Rightarrow> uint64"
      by (simp only: map_upt_Suc)
    moreover have "8 * (unat (mAddress (chan mf' j)) + k) = 8 * (unat (mAddress ?c) + Suc k)" for k
      by (simp add: c addr)
    ultimately show ?thesis by (simp add: c(3) mult.commute[of _ 8] add.assoc del: upt_Suc add_Suc_right)
  qed
  ultimately show ?case unfolding step by (simp add: c(3) del: upt_Suc)
qed

text \<open>C19: What the one channel of the simulated I/O subsystem puts into the memory the other
  takes out. A packet that waits for a channel with room for it is delivered whole in one
  tick, with an interrupt, and no other word of the memory changes; when the program of the
  mainframe hands the same words to the other channel, that channel has, after one tick,
  exactly the words of the packet as one received packet, and stops with an interrupt.\<close>

theorem sim_channel_roundtrip:
  assumes "ix < length (mChannels mf)" "mActive (chan mf ix)" "icChannel ch = ix" "icPacketValid ch" "icPacketIdx ch = 0"
    and "icPacket ch \<noteq> []" "mAddress (chan mf ix) = a" "unat a + length (icPacket ch) \<le> unat (mLimit (chan mf ix))"
    and "unat a + length (icPacket ch) \<le> 2 ^ 29" "IC_ChannelTick (ch, mf) = (r, (ch', mf1))"
    and "j < length (mChannels mf2)" "mActive (chan mf2 j)" "ciChannel dh = j" "\<not> ciPacketValid dh" "ciPacket dh = []"
    and "mAddress (chan mf2 j) = a" "mLimit (chan mf2 j) = a + of_nat (length (icPacket ch))"
    and "8 * (unat a + length (icPacket ch)) \<le> mMemorySize mf2"
    and "\<forall>k<length (icPacket ch). MemRead (a + of_nat k) mf2 = MemRead (a + of_nat k) mf1"
  shows "\<not> icPacketValid ch' \<and> mInterruptPending (chan mf1 ix) \<and>
     (\<forall>b. unat b < 2 ^ 29 \<and> (unat b < unat a \<or> unat a + length (icPacket ch) \<le> unat b) \<longrightarrow> MemRead b mf1 = MemRead b mf) \<and>
     (\<exists>mf3. CI_ChannelTick (dh, mf2) = (Inr (), (dh\<lparr>ciPacketValid := True, ciPacket := icPacket ch\<rparr>, mf3)) \<and>
       \<not> mActive (chan mf3 j) \<and> mInterruptPending (chan mf3 j))"
proof -
  let ?p = "icPacket ch"
  note out = packet_delivered[OF assms(1-10)]
  obtain n where n: "length ?p = Suc n" using assms(6) by (cases ?p) auto
  have word: "load64 (mMemory mf2) (8 * (unat a + k)) = SwapBytes64 (?p ! k)" if "k < length ?p" for k
  proof -
    have "unat a + k < 2 ^ 29" using that assms(9) by linarith
    moreover have "unat (a + of_nat k) = unat a + k"
      by (rule unat_plus_of_nat) (use \<open>unat a + k < 2 ^ 29\<close> in simp)
    ultimately have "unat ((a + of_nat k) * 8) = 8 * (unat a + k)"
      using unat_times_8[of "a + of_nat k"] by presburger
    then have "load64 (mMemory mf2) (8 * (unat a + k)) = MemRead (a + of_nat k) mf2"
      by (simp only: MemRead_def)
    with assms(19) out(6) that show ?thesis by simp
  qed
  have "map (\<lambda>k. SwapBytes64 (load64 (mMemory mf2) (8 * (unat a + k)))) [0..<Suc n] = map (\<lambda>k. ?p ! k) [0..<Suc n]"
    using word n by (intro map_cong) (auto simp del: upt_Suc)
  then have words: "map (\<lambda>k. SwapBytes64 (load64 (mMemory mf2) (8 * (unat a + k)))) [0..<Suc n] = ?p"
    by (simp only: n[symmetric] map_nth)
  have "unat a + Suc n < 2 ^ 32" using assms(9) n by simp
  then have "\<exists>mf'. CI_ChannelTick (dh, mf2) = (Inr (), (dh\<lparr>ciPacketValid := True, ciPacket := ciPacket dh @
       map (\<lambda>k. SwapBytes64 (load64 (mMemory mf2) (8 * (unat (mAddress (chan mf2 j)) + k)))) [0..<Suc n]\<rparr>, mf'))
     \<and> mMemory mf' = mMemory mf2 \<and> \<not> mActive (chan mf' j) \<and> mInterruptPending (chan mf' j)"
    by (intro CI_take) (use assms(11-18) n in simp_all)
  with out words assms(15,16) show ?thesis by auto
qed

definition sample_channel :: "CAddr_t \<Rightarrow> CAddr_t \<Rightarrow> channel" where
  "sample_channel a l = \<lparr>chKind = DisconnectedChannel, mAddress = a, mLimit = l, mInterruptPending = False, mError = False,
     mActive = True, mChannelId = 8, chFile = [], chEof = False\<rparr>"

definition sample_input :: mainframe where
  "sample_input = sample_idle\<lparr>mChannels := [Some (sample_channel 256 512), Some (sample_channel 256 258)]\<rparr>"

text \<open>The memory after the delivery, with the channels as the program has set them up.\<close>

definition sample_output :: mainframe where
  "sample_output = sample_input\<lparr>mMemorySize := 8192, mMemory := mMemory (snd (snd (IC_ChannelTick
     (\<lparr>icPacketQueue = [], icPacket = [5, 6], icPacketIdx = 0, icPacketValid = True, icChannel = 0\<rparr>, sample_input))))\<rparr>"

theorem sim_channel_roundtrip_witness:
  "\<exists>mf3. CI_ChannelTick (\<lparr>ciPacket = [], ciPacketValid = False, ciChannel = 1\<rparr>, sample_output) =
     (Inr (), (\<lparr>ciPacket = [5, 6], ciPacketValid = True, ciChannel = 1\<rparr>, mf3)) \<and> mInterruptPending (chan mf3 1)"
proof -
  let ?ch = "\<lparr>icPacketQueue = [], icPacket = [5, 6], icPacketIdx = 0, icPacketValid = True, icChannel = 0\<rparr> :: ChannelIToC_c"
  let ?dh = "\<lparr>ciPacket = [], ciPacketValid = False, ciChannel = 1\<rparr> :: ChannelCToI_c"
  obtain r ch' mf1 where t: "IC_ChannelTick (?ch, sample_input) = (r, (ch', mf1))" by (metis prod.exhaust)
  have "\<forall>k<length (icPacket ?ch). MemRead (256 + of_nat k) sample_output = MemRead (256 + of_nat k) mf1"
    using t by (simp add: sample_output_def MemRead_def)
  then show ?thesis
    using sim_channel_roundtrip[of 0 sample_input ?ch 256 r ch' mf1 1 sample_output ?dh] t
    by (simp add: sample_output_def sample_input_def sample_channel_def chan_def) blast
qed

end
