(* ===== verification/Sim_Contracts.thy ===== *)
theory Sim_Contracts
  imports Sim_Results
begin

text \<open>
  The contract that every handler of the simulated I/O subsystem keeps: it leaves the state of
  the main loop, the revision and the number of the disks alone, keeps the disks well-formed,
  and queues only valid packets on a model-E channel. On it rests the order of the states of
  the main loop over whole runs.
\<close>

section \<open>The contract\<close>

text \<open>The packets on their way to the mainframe.\<close>

definition pending_packets :: "ChannelIToC_c \<Rightarrow> packet list" where
  "pending_packets ch = (if icPacketValid ch then [icPacket ch] else []) @ icPacketQueue ch"

definition sim_packets_ok :: "SimIopCluster_c \<Rightarrow> bool" where
  "sim_packets_ok cl \<longleftrightarrow> siIopRevision cl = IOSE \<longrightarrow> list_all EP_IsValid (pending_packets (siIToCChannel cl))"

definition sim_disks_ok :: "SimIopCluster_c \<Rightarrow> bool" where
  "sim_disks_ok cl \<longleftrightarrow> list_all SimDisk_wf (siDisks cl)"

definition sim_same :: "SimIopCluster_c \<Rightarrow> SimIopCluster_c \<Rightarrow> bool" where
  "sim_same s t \<longleftrightarrow> siState t = siState s \<and> siIopRevision t = siIopRevision s \<and>
     length (siDisks t) = length (siDisks s) \<and> (sim_disks_ok s \<longrightarrow> sim_disks_ok t) \<and>
     (sim_packets_ok s \<longrightarrow> sim_packets_ok t)"

definition any_error :: "SimIopCluster_c \<Rightarrow> exn \<Rightarrow> bool" where
  "any_error s e \<longleftrightarrow> True"

interpretation sim: step_contract sim_same any_error
  by unfold_locales (auto simp: sim_same_def any_error_def)

abbreviation sim_keeps :: "SimIopCluster_c \<Rightarrow> (exn + 'a) \<times> SimIopCluster_c \<Rightarrow> bool" where
  "sim_keeps \<equiv> keeps sim_same any_error"

lemma sim_keeps_iff: "sim_keeps s out \<longleftrightarrow> sim_same s (snd out)"
  by (simp add: keeps_def any_error_def)

section \<open>The pieces\<close>

lemma pending_QueuePacket:
  "IC_QueuePacket p ch = (Inr (), ch') \<Longrightarrow> set (pending_packets ch') = insert p (set (pending_packets ch))"
  by (auto simp: IC_QueuePacket_def IC_SendPacket_def pending_packets_def split: if_splits)

lemma QueuePacket_returns: "fst (IC_QueuePacket p ch) = Inr ()"
  by (simp add: IC_QueuePacket_def IC_SendPacket_def)

lemma SI_QueuePacket_returns:
  "\<exists>ch. SI_QueuePacket p cl = (Inr (), cl\<lparr>siPacketsSent := siPacketsSent cl + 1, siIToCChannel := ch\<rparr>)"
  using QueuePacket_returns[of p "siIToCChannel cl"]
  by (cases "IC_QueuePacket p (siIToCChannel cl)") (auto simp: SI_QueuePacket_def)

lemma SI_SendPacket_returns:
  "\<exists>ch. SI_SendPacket p cl =
     (Inr (), cl\<lparr>siPacketsSent := siPacketsSent cl + 1, siIToCChannel := ch, siSeqSent := siSeqSent cl + 1\<rparr>)"
proof -
  obtain ch where "SI_QueuePacket (EP_Finalize (EP_SetSeq (siSeqSent cl) (EP_SetAckSeq (siSeqReceived cl) p))) cl =
      (Inr (), cl\<lparr>siPacketsSent := siPacketsSent cl + 1, siIToCChannel := ch\<rparr>)"
    using SI_QueuePacket_returns by blast
  then show ?thesis by (intro exI[of _ ch]) (simp add: SI_SendPacket_def bindE_def)
qed

lemma sim_QueuePacket:
  assumes "siIopRevision s = IOSE \<Longrightarrow> EP_IsValid p" "sim_same s t"
  shows "sim_keeps s (SI_QueuePacket p t)"
proof -
  obtain ch where ch: "IC_QueuePacket p (siIToCChannel t) = (Inr (), ch)"
    using QueuePacket_returns[of p "siIToCChannel t"] by (cases "IC_QueuePacket p (siIToCChannel t)") auto
  from pending_QueuePacket[OF ch] assms show ?thesis
    by (auto simp: sim_keeps_iff SI_QueuePacket_def ch sim_same_def sim_packets_ok_def sim_disks_ok_def list_all_iff)
qed

lemma sim_SendPacket:
  assumes "p \<noteq> []" "length p < 1024" "sim_same s t"
  shows "sim_keeps s (SI_SendPacket p t)"
  unfolding SI_SendPacket_def
proof (rule sim.keeps_bindE)
  let ?p = "EP_SetSeq (siSeqSent t) (EP_SetAckSeq (siSeqReceived t) p)"
  have "EP_IsValid (EP_Finalize ?p)"
    by (rule finished_packet(1)) (use assms(1,2) in \<open>simp_all add: EP_sets\<close>)
  then show "sim_keeps s (SI_QueuePacket (EP_Finalize ?p) t)" by (intro sim_QueuePacket assms(3))
qed (auto simp: sim_keeps_iff sim_same_def sim_disks_ok_def sim_packets_ok_def)

lemma sim_upd_console [intro]: "sim_same s t \<Longrightarrow> sim_same s (upd_console k f t)"
  by (simp add: sim_same_def upd_console_def sim_disks_ok_def sim_packets_ok_def)

lemma sim_SendString [intro]: "sim_same s t \<Longrightarrow> sim_same s (SC_SendString k x t)"
  by (simp add: SC_SendString_def sim_upd_console)

lemma sim_MakeConsoles [intro]: "sim_same s t \<Longrightarrow> sim_same s (MakeConsoles n t)"
  by (simp add: sim_same_def MakeConsoles_def sim_disks_ok_def sim_packets_ok_def)

lemma length_resize [simp]: "length (resize_packet n p) = n"
  by (simp add: resize_packet_def)

lemma length_SetSize [simp]: "length (EP_SetSize n p) = n + 1"
  by (simp add: EP_SetSize_def EP_sets)

lemma length_SetFlags [simp]: "length (EP_SetFlags v p) = length p"
  by (simp add: EP_sets)

lemma length_SetBitsInPlace [simp]: "length (SetBitsInPlace i lo hi v p) = length p" "length (EP_put_Data i v p) = length p"
  by (simp_all add: SetBitsInPlace_def EP_put_Data_def)

lemma length_copy_Data: "copy_Data n a p = Inr q \<Longrightarrow> length q = length p"
  by (auto simp: copy_Data_def split: if_splits intro: for_loop_preserves)

lemma length_Z_word [simp]: "length (Z_word fl rq ct c dv p) = length p"
  by (simp add: Z_word_def)

lemma length_not_Nil: "length p = Suc n \<Longrightarrow> p \<noteq> []"
  by auto


section \<open>The handlers\<close>

lemma length_GenerateResponse [simp]: "length (SI_GenerateResponse p cl) = 1"
  by (simp add: SI_GenerateResponse_def EP_sets)

lemma sim_SendPacket_words:
  "length p = Suc n \<Longrightarrow> n < 1023 \<Longrightarrow> sim_same s t \<Longrightarrow> sim_keeps s (SI_SendPacket p t)"
  by (rule sim_SendPacket) auto

lemma sim_error: "sim_same s t \<Longrightarrow> sim_keeps s (Inl e, t)"
  and sim_return: "sim_same s t \<Longrightarrow> sim_keeps s (Inr x, t)"
  by (simp_all add: sim_keeps_iff)

lemma sim_EO: "sim_same s t \<Longrightarrow> sim_keeps s (HandleIosEOPacket tm p t)"
  unfolding HandleIosEOPacket_def Let_def
  by (auto intro!: sim_error sim_return sim_SendPacket_words[where n = 8] simp: O_clock_response_def Let_def)

lemma sim_EP: "sim_same s t \<Longrightarrow> sim_keeps s (HandleIosEPPacket p t)"
  unfolding HandleIosEPPacket_def Let_def
  by (auto intro!: sim_error sim_SendPacket_words[where n = 4] dest: length_copy_Data split: sum.splits)

lemma sim_on_disk:
  assumes "sim_same s t" "\<And>d mf r d' mf'. f (d, mf) = (r, (d', mf')) \<Longrightarrow> SimDisk_wf d \<Longrightarrow> SimDisk_wf d'"
  shows "sim_keeps s (on_disk k f t)"
proof -
  obtain r d' mf' where f: "f (siDisks t ! k, siMainframe t) = (r, (d', mf'))" by (metis prod.exhaust)
  have "list_all SimDisk_wf ((siDisks t)[k := d'])" if "list_all SimDisk_wf (siDisks t)"
    using that assms(2)[OF f] by (cases "k < length (siDisks t)") (auto simp: list_all_length nth_list_update)
  with assms(1) f show ?thesis
    by (auto simp: sim_keeps_iff on_disk_def sim_same_def sim_disks_ok_def sim_packets_ok_def)
qed

lemma disk_transfers_wf:
  "SimDisk_Read stale c h sc n a (d, mf) = (r, (d', mf')) \<Longrightarrow> SimDisk_wf d \<Longrightarrow> SimDisk_wf d'"
  "SimDisk_Write c h sc n a (d, mf) = (r, (d', mf')) \<Longrightarrow> SimDisk_wf d \<Longrightarrow> SimDisk_wf d'"
  "SimDisk_ReadIdx stale i n a (d, mf) = (r, (d', mf')) \<Longrightarrow> SimDisk_wf d \<Longrightarrow> SimDisk_wf d'"
  "SimDisk_WriteIdx i n a (d, mf) = (r, (d', mf')) \<Longrightarrow> SimDisk_wf d \<Longrightarrow> SimDisk_wf d'"
  by (auto simp: SimDisk_Read_def SimDisk_Write_def SimDisk_ReadIdx_def SimDisk_WriteIdx_def SimDisk_wf_def
      SimDisk_position_def Let_def split: if_splits)

lemma sim_D_respond: "sim_same s t \<Longrightarrow> sim_keeps s (D_respond n c p t)"
  unfolding D_respond_def
  by (auto intro!: sim_error sim_SendPacket_words[where n = 68] dest: length_copy_Data split: sum.splits)

lemma sim_D_transfer:
  assumes "sim_same s t" "\<And>i n a d mf r d' mf'. f i n a (d, mf) = (r, (d', mf')) \<Longrightarrow> SimDisk_wf d \<Longrightarrow> SimDisk_wf d'"
  shows "sim_keeps s (D_transfer f n p k t)"
  unfolding D_transfer_def
  by (auto intro!: sim_error assms(1) sim.keeps_bindE sim_on_disk sim_D_respond dest: assms(2))

lemma sim_ED: "sim_same s t \<Longrightarrow> sim_keeps s (HandleIosEDPacket stale p t)"
  unfolding HandleIosEDPacket_def Let_def
  by (auto intro!: sim_error sim_D_respond sim.keeps_forE sim_D_transfer dest: disk_transfers_wf simp del: forE.simps
      split: list.splits)

lemma sim_Ack: "sim_same s t \<Longrightarrow> sim_keeps s (SendTransmitAck k t)"
  unfolding SendTransmitAck_def Let_def by (rule sim_SendPacket_words[where n = 1]) simp_all

lemma sim_put_text: "sim_same s t \<Longrightarrow> sim_keeps s (Z_put_text k n p t)"
  unfolding Z_put_text_def Let_def by (auto intro!: sim_error sim_return sim_Ack split: sum.splits)

lemma sim_console_E: "sim_same s t \<Longrightarrow> sim_keeps s (HandleIosEPacket_console k p t)"
  unfolding HandleIosEPacket_console_def Let_def
  by (auto intro!: sim_error sim_return sim_put_text sim_SendPacket_words[where n = 1])

lemma sim_console_D:
  "siIopRevision s = IOSD \<Longrightarrow> sim_same s t \<Longrightarrow> sim_keeps s (HandleTPacket_console k p t)"
  unfolding HandleTPacket_console_def Let_def by (auto intro!: sim_error sim_QueuePacket)

lemma sim_EZ:
  assumes "sim_same s t"
  shows "sim_keeps s (HandleIosEZPacket p t)"
proof -
  let ?n = "unat (GetBits (EP_Data 0 p) 16 22)"
  have m: "sim_same s (MakeConsoles ?n t)" using assms by (rule sim_MakeConsoles)
  then have "siIopRevision (MakeConsoles ?n t) = siIopRevision s" by (simp add: sim_same_def)
  then show ?thesis
    using sim_console_E[OF m] sim_console_D[OF _ m]
    by (cases "siIopRevision s") (simp_all add: HandleIosEZPacket_def Let_def)
qed

lemma sim_T: "siIopRevision s = IOSD \<Longrightarrow> sim_same s t \<Longrightarrow> sim_keeps s (HandleTPacket p t)"
  unfolding HandleTPacket_def Let_def by (auto intro!: sim_error sim_console_D)

lemma sim_A: "siIopRevision s = IOSD \<Longrightarrow> sim_same s t \<Longrightarrow> sim_keeps s (HandleAPacket stale p t)"
  unfolding HandleAPacket_def Let_def
  by (auto intro!: sim_error sim.keeps_bindE sim_on_disk sim_QueuePacket dest: disk_transfers_wf split: list.splits if_splits)

section \<open>Consoles and channels\<close>

lemma sim_E_receive: "sim_same s t \<Longrightarrow> sim_keeps s (E_ReceiveHandler k polls t)"
  unfolding E_ReceiveHandler_def Let_def
  by (auto intro!: sim.keeps_bindE sim_SendPacket_words[where n = 2] sim_return split: prod.splits)

lemma sim_D_receive: "siIopRevision s = IOSD \<Longrightarrow> sim_same s t \<Longrightarrow> sim_keeps s (D_ReceiveHandler k t)"
  unfolding D_ReceiveHandler_def Let_def
  by (auto intro!: sim_error sim_QueuePacket split: prod.splits sum.splits)

lemma sim_receive: "sim_same s t \<Longrightarrow> sim_keeps s (SC_ReceiveHandler k polls t)"
  unfolding SC_ReceiveHandler_def
  by (cases "siIopRevision t")
    (auto intro!: sim_E_receive sim.keeps_bindE sim_D_receive sim_return simp: sim_same_def)

lemma sim_TickLoop: "sim_same s t \<Longrightarrow> sim_keeps s (SC_TickLoop k polls t)"
proof (induction k polls t rule: SC_TickLoop.induct)
  case (1 k polls t)
  show ?case
  proof (cases "k < length (siConsoles t) \<and> has_input k t")
    case True
    obtain r t' where r: "SC_ReceiveHandler k polls t = (r, t')" by (metis prod.exhaust)
    have s: "sim_same s t'" using sim_receive[OF 1(3), of k polls] by (simp add: r sim_keeps_iff)
    have p: "sim_same s (poll_round k poll t')" for poll using s by (auto simp: poll_round_def)
    show ?thesis
    proof (cases r)
      case (Inl e)
      then show ?thesis using True r s by (subst SC_TickLoop.simps) (simp add: sim_error)
    next
      case (Inr polls')
      then show ?thesis
        using True r s p 1(1)[OF True r[symmetric, unfolded Inr] refl] 1(2)[OF True r[symmetric, unfolded Inr] refl]
        by (subst SC_TickLoop.simps) (auto split: list.splits)
    qed
  next
    case False
    then show ?thesis using 1(3) by (subst SC_TickLoop.simps) (auto simp: sim_keeps_iff)
  qed
qed

lemma sim_console_tick: "sim_same s t \<Longrightarrow> sim_keeps s (SC_Tick k polls t)"
  unfolding SC_Tick_def Let_def
  by (auto intro!: sim.keeps_bindE sim_TickLoop sim_return sim_upd_console simp: poll_round_def split: list.splits)

lemma sim_write_handler: "sim_same s t \<Longrightarrow> sim_keeps s (SC_WriteHandler k t)"
  unfolding SC_WriteHandler_def Let_def
  by (auto intro!: sim_return sim_Ack split: list.splits)

text \<open>A channel tick takes packets from the front of the queue only.\<close>

lemma IC_words_channel:
  "IC_words (ch, mf) = (r, (ch', mf')) \<Longrightarrow>
     icPacket ch' = icPacket ch \<and> icPacketQueue ch' = icPacketQueue ch \<and> (icPacketValid ch' \<longrightarrow> icPacketValid ch)"
proof (induction "(ch, mf)" arbitrary: ch mf rule: IC_words.induct)
  case (1 ch mf)
  from 1(2) show ?case
    by (subst (asm) IC_words.simps) (auto simp: Let_def split: if_splits prod.splits sum.splits dest!: 1(1)[rotated -1])
qed

lemma IC_tick_pending:
  assumes "IC_ChannelTick (ch, mf) = (r, (ch', mf'))"
  shows "set (pending_packets ch') \<subseteq> set (pending_packets ch)"
  using assms
  by (auto simp: IC_ChannelTick_def IC_SendPacket_def pending_packets_def dest: IC_words_channel
      split: if_splits list.splits)

lemma sim_channel_tick_I: "sim_same s t \<Longrightarrow> sim_keeps s (SI_ChannelTick_I t)"
  by (auto simp: sim_keeps_iff SI_ChannelTick_I_def sim_same_def sim_packets_ok_def sim_disks_ok_def list_all_iff
      dest!: IC_tick_pending split: prod.splits)

lemma sim_channel_tick_C: "sim_same s t \<Longrightarrow> sim_keeps s (SI_ChannelTick_C t)"
  by (auto simp: sim_keeps_iff SI_ChannelTick_C_def sim_same_def sim_packets_ok_def sim_disks_ok_def split: prod.splits)

lemma sim_get_packet: "sim_same s t \<Longrightarrow> sim_keeps s (SI_GetPacket t)"
  by (auto simp: sim_keeps_iff SI_GetPacket_def sim_same_def sim_packets_ok_def sim_disks_ok_def split: prod.splits)

section \<open>Network interfaces\<close>

lemma sim_upd_eth [intro]: "sim_same s t \<Longrightarrow> sim_same s (upd_eth k f t)"
  by (simp add: sim_same_def upd_eth_def sim_disks_ok_def sim_packets_ok_def)

lemma sim_put_mainframe [intro]: "sim_same s t \<Longrightarrow> sim_same s (t\<lparr>siMainframe := mf\<rparr>)"
  by (simp add: sim_same_def sim_disks_ok_def sim_packets_ok_def)

lemma sim_ring_word: "sim_same s t \<Longrightarrow> sim_keeps s (ring_word a t)"
  unfolding ring_word_def
  by (rule sim.keeps_bindE) (auto simp: on_sim_mainframe_def sim_keeps_iff returnE_def split: prod.splits)

lemma sim_on_mainframe: "sim_same s t \<Longrightarrow> sim_keeps s (on_sim_mainframe f t)"
  by (auto simp: on_sim_mainframe_def sim_keeps_iff split: prod.splits)

lemma sim_DumpMem: "sim_same s t \<Longrightarrow> sim_keeps s (DumpMem a n t)"
  by (simp add: DumpMem_def sim_keeps_iff Let_def)

lemma sim_DumpQueues: "sim_same s t \<Longrightarrow> sim_keeps s (DumpQueues k t)"
  unfolding DumpQueues_def by (intro sim.keeps_bindE sim_DumpMem)

lemma EP_GetLength_less: "unat (EP_GetLength p) < 1024"
proof -
  have "unat (GetBits (EP_header p) 48 57) < 1024" using unat_GetBits_less[of 48 57 "EP_header p"] by simp
  then show ?thesis by (simp add: EP_GetLength_def unsigned_ucast_eq unsigned_take_bit_eq take_bit_eq_mod)
qed

lemma Eth_response_length: "Eth_response st p cl = Inr q \<Longrightarrow> 3 \<le> length q \<and> length q < 1024"
  using EP_GetLength_less[of p] by (auto simp: Eth_response_def Let_def dest!: length_copy_Data split: sum.splits if_splits)

lemma sim_Eth_Send:
  assumes "3 \<le> length p" "length p < 1024" "sim_same s t"
  shows "sim_keeps s (Eth_SendPacket k p t)"
proof -
  have e: "sim_same s (upd_eth k f t)" for f using assms(3) by blast
  then have "siIopRevision (upd_eth k f t) = siIopRevision s" for f by (simp add: sim_same_def)
  then show ?thesis
    unfolding Eth_SendPacket_def Let_def
    using sim_SendPacket[of p s] assms(1,2) e sim_QueuePacket[of s _ "upd_eth k _ t"]
    by (cases "siIopRevision s") (auto simp: sim_error intro!: sim_SendPacket)
qed

lemma sim_Eth_respond: "sim_same s t \<Longrightarrow> sim_keeps s (Eth_respond k st p t)"
  unfolding Eth_respond_def by (auto intro!: sim_error sim_Eth_Send dest: Eth_response_length split: sum.splits)

lemma length_sleep_packet [simp]: "length (Eth_sleep_packet k ty ix cl) = 8"
  by (simp add: Eth_sleep_packet_def Let_def)

lemma sim_Tx: "sim_same s t \<Longrightarrow> sim_keeps s (Eth_HandleTxPacket k i t)"
  unfolding Eth_HandleTxPacket_def Let_def
  by (auto intro!: sim.keeps_bindE sim_ring_word sim_DumpMem sim_on_mainframe sim_error sim_return)

lemma sim_TxLoop: "sim_same s t \<Longrightarrow> sim_keeps s (Eth_TxLoop n k sz i w b t)"
  by (induction n arbitrary: i b t) (auto intro!: sim.keeps_bindE sim_Tx sim_error sim_return)

lemma sim_TxPackets: "sim_same s t \<Longrightarrow> sim_keeps s (Eth_HandleTxPackets k t)"
  unfolding Eth_HandleTxPackets_def Let_def
  by (auto intro!: sim.keeps_bindE sim_ring_word sim_TxLoop sim_Eth_Send sim_DumpQueues sim_return simp del: Eth_TxLoop.simps)

lemma sim_pop_frame [intro]: "sim_same s t \<Longrightarrow> sim_same s (pop_frame k t)"
  unfolding pop_frame_def by blast

lemma sim_Rx: "sim_same s t \<Longrightarrow> sim_keeps s (Eth_HandleRxPacket k t)"
  unfolding Eth_HandleRxPacket_def Eth_queue_frame_def Let_def
  by (auto intro!: sim.keeps_bindE sim_ring_word sim_Eth_Send sim_DumpMem sim_DumpQueues sim_return sim_error
      sim_put_mainframe sim_upd_eth sim_pop_frame split: option.splits)

lemma sim_Eth_Tick: "sim_same s t \<Longrightarrow> sim_keeps s (Eth_Tick k t)"
  unfolding Eth_Tick_def by (auto intro!: sim_Rx sim_return split: option.splits)

lemma sim_Network_Tick: "sim_same s t \<Longrightarrow> sim_keeps s (Network_Tick t)"
  unfolding Network_Tick_def by (rule sim.keeps_forE) (auto intro: sim_Eth_Tick)

lemma sim_Eth_requests:
  assumes "sim_same s t"
  shows "sim_keeps s (Eth_CLS k p t)" "sim_keeps s (Eth_OPN k p t)" "sim_keeps s (Eth_SLEEP k p t)"
    "sim_keeps s (Eth_PROBE k p t)" "sim_keeps s (Eth_IOCTL k p t)"
  unfolding Eth_CLS_def Eth_OPN_def Eth_SLEEP_def Eth_PROBE_def Eth_IOCTL_def Let_def
  using assms
  by (auto intro!: sim.keeps_bindE sim_Eth_respond sim_DumpQueues sim_TxPackets sim_Eth_Send sim_return sim_error
      dest: Eth_response_length simp: returnE_def split: sum.splits)

lemma sim_Eth_packet: "sim_same s t \<Longrightarrow> sim_keeps s (Eth_HandleIosEPacket k p t)"
  unfolding Eth_HandleIosEPacket_def Let_def
  by (auto intro!: sim.keeps_bindE sim_Eth_requests sim_return sim_error simp: returnE_def throwE_def)

lemma sim_Eth_find: "sim_same s t \<Longrightarrow> sim_keeps s (Eth_find ks p t)"
proof (induction ks arbitrary: t)
  case (Cons k ks)
  obtain r u where r: "Eth_HandleIosEPacket k p t = (r, u)" by (metis prod.exhaust)
  have "sim_same s u" using sim_Eth_packet[OF Cons.prems, of k p] by (simp add: r sim_keeps_iff)
  then show ?case using Cons.IH r by (auto simp: sim_return sim_error split: sum.splits)
qed (simp add: sim_return)

lemma sim_NetE: "sim_same s t \<Longrightarrow> sim_keeps s (Network_IosE p t)"
  unfolding Network_IosE_def Eth_SendErrorResponse_def
  by (auto intro!: sim.keeps_bindE sim_Eth_find sim_Eth_respond sim_return)

lemma sim_NetD: "sim_same s t \<Longrightarrow> sim_keeps s (Network_IosD p t)"
  unfolding Network_IosD_def by (rule sim_NetE)

section \<open>File peripherals\<close>

lemma length_F_reply [simp]: "length (F_reply st p) = length p" "length (F_transfer_reply bs p) = length p"
  by (simp_all add: F_transfer_reply_def F_reply_def ReversePacket_def Let_def)

text \<open>A model-D packet goes out as it is, so it is for a model-D cluster; a model-E packet is short.\<close>

definition F_style_ok :: "SimIopCluster_c \<Rightarrow> bool \<Rightarrow> packet \<Rightarrow> bool" where
  "F_style_ok s aIosEStyle p \<longleftrightarrow> (if aIosEStyle then length p < 1022 else siIopRevision s = IOSD)"

lemma sim_PE_Send:
  assumes "F_style_ok s b p" "length q = length p" "sim_same s t"
  shows "sim_keeps s (PE_SendPacket q b t)"
proof (cases b)
  case True
  have "length (for_loop 0 (length q) (\<lambda>i. EP_put_Data (i + 1) (q ! i)) r) = length r" for r
    by (rule for_loop_preserves) simp
  then show ?thesis
    unfolding PE_SendPacket_def Let_def
    using True assms by (auto simp: F_style_ok_def intro!: sim_SendPacket_words[where n = "length p + 1"])
next
  case False
  then show ?thesis using assms by (auto simp: PE_SendPacket_def F_style_ok_def intro!: sim_QueuePacket)
qed

lemma sim_F_answer: "F_style_ok s b p \<Longrightarrow> sim_same s t \<Longrightarrow> sim_keeps s (F_answer st p b t)"
  unfolding F_answer_def by (rule sim_PE_Send) simp_all

lemma sim_on_stream: "sim_same s t \<Longrightarrow> sim_keeps s (PE_on_stream get upd f t)"
  by (auto simp: PE_on_stream_def sim_keeps_iff sim_same_def sim_disks_ok_def sim_packets_ok_def
      split: option.splits prod.splits)

lemma sim_upd_periph [intro]: "sim_same s t \<Longrightarrow> sim_same s (upd_periph f t)"
  by (simp add: upd_periph_def sim_same_def sim_disks_ok_def sim_packets_ok_def)

lemma sim_F_functions:
  assumes "F_style_ok s b p" "sim_same s t"
  shows "sim_keeps s (F_OPN p b pe t)" "sim_keeps s (F_CLS p b t)" "sim_keeps s (F_RD stale p b t)"
    "sim_keeps s (F_WR p b t)" "sim_keeps s (F_DRF32 p b pe t)"
  unfolding F_OPN_def F_OPN_tape_def F_CLS_def F_RD_def F_WR_def F_DRF32_def Let_def
  using assms
  by (auto intro!: sim.keeps_bindE sim_F_answer sim_on_stream sim_PE_Send[OF assms(1)] sim_error sim_return
      simp: returnE_def throwE_def)

lemma sim_PE_handle: "F_style_ok s b p \<Longrightarrow> sim_same s t \<Longrightarrow> sim_keeps s (PE_HandlePacket stale p b t)"
  unfolding PE_HandlePacket_def Let_def by (auto intro!: sim_F_functions sim_error split: option.splits)

lemma sim_PE_IosD: "siIopRevision s = IOSD \<Longrightarrow> sim_same s t \<Longrightarrow> sim_keeps s (PE_HandleIosDPacket stale p t)"
  unfolding PE_HandleIosDPacket_def by (rule sim_PE_handle) (simp add: F_style_ok_def)

lemma sim_PE_IosE: "sim_same s t \<Longrightarrow> sim_keeps s (PE_HandleIosEPacket stale p t)"
  unfolding PE_HandleIosEPacket_def
  using EP_GetLength_less[of p] by (auto intro!: sim_PE_handle sim_error simp: F_style_ok_def)

section \<open>The main loop\<close>

lemma sim_dispatch_J90: "sim_same s t \<Longrightarrow> sim_keeps s (Dispatch_J90 env p t)"
  unfolding Dispatch_J90_def Let_def by (auto intro!: sim_error sim_EO sim_EZ sim_ED sim_EP sim_NetE sim_PE_IosE)

lemma sim_J90_packet: "sim_same s t \<Longrightarrow> sim_keeps s (J90_packet env p t)"
  unfolding J90_packet_def Let_def
  by (auto intro!: sim_error sim_return sim_dispatch_J90)
    (auto simp: sim_same_def sim_disks_ok_def sim_packets_ok_def)

lemma sim_J90_packets: "sim_same s t \<Longrightarrow> sim_keeps s (J90_packets env raw t)"
proof (induction env raw t rule: J90_packets.induct)
  case (1 env raw t)
  show ?case
  proof (cases "next_packet raw")
    case None
    then show ?thesis using 1(2) by (subst J90_packets.simps) (simp add: sim_return)
  next
    case (Some q)
    obtain p raw' where q: "q = (p, raw')" by (cases q)
    obtain r t' where r: "J90_packet env p t = (r, t')" by (metis prod.exhaust)
    have s: "sim_same s t'" using sim_J90_packet[OF 1(2), of env p] by (simp add: r sim_keeps_iff)
    show ?thesis
    proof (cases r)
      case (Inl e)
      then show ?thesis using Some q r s by (subst J90_packets.simps) (simp add: sim_error)
    next
      case (Inr u)
      then show ?thesis
        using Some q r 1(1)[OF Some q[symmetric] r[symmetric] Inr s] by (subst J90_packets.simps) simp
    qed
  qed
qed

lemma sim_panic_chars: "sim_same s t \<Longrightarrow> sim_same s (snd (fold panic_char bs (b, t)))"
proof (induction bs arbitrary: b t)
  case (Cons ch bs)
  obtain b' t' where e: "panic_char ch (b, t) = (b', t')" by (metis prod.exhaust)
  have "sim_same s t'"
    using e Cons.prems by (auto simp: panic_char_def SC_SendChar_def intro: sim_SendString split: if_splits)
  with Cons.IH e show ?case by simp
qed simp

text \<open>The states of the main loop as an abstract machine.\<close>

inductive sim_move :: "SimStates_e \<Rightarrow> SimStates_e \<Rightarrow> bool" where
  "sim_move SimReset WaitTimeSent"
| "sim_move SimReset RunningJ90"
| "sim_move WaitTimeSent WaitISent"
| "sim_move WaitISent WaitJSent"
| "sim_move WaitJSent RunningYEL"
| "sim_move RunningYEL KernelPanic"

inductive_simps sim_move_from [simp]:
  "sim_move SimReset x" "sim_move WaitTimeSent x" "sim_move WaitISent x" "sim_move WaitJSent x"
  "sim_move RunningYEL x" "sim_move RunningJ90 x" "sim_move KernelPanic x"

definition sim_wf :: "SimIopCluster_c \<Rightarrow> bool" where
  "sim_wf cl \<longleftrightarrow> sim_disks_ok cl \<and> sim_packets_ok cl \<and>
     (siIopRevision cl = IOSE \<longrightarrow> siState cl = SimReset \<or> siState cl = RunningJ90) \<and>
     (siIopRevision cl = IOSD \<longrightarrow> siState cl \<noteq> RunningJ90)"

text \<open>
  The tick of a state leads to the same state or along an arrow of the machine. For the
  relation between the clusters the state is set back.
\<close>

definition but_state :: "SimIopCluster_c \<Rightarrow> SimIopCluster_c \<Rightarrow> bool" where
  "but_state s t \<longleftrightarrow> sim_same s (t\<lparr>siState := siState s\<rparr>)"

lemma but_state_same: "sim_same s t \<Longrightarrow> but_state s (t\<lparr>siState := x\<rparr>)" "sim_same s t \<Longrightarrow> but_state s t"
  by (auto simp: but_state_def sim_same_def sim_disks_ok_def sim_packets_ok_def)

lemma sim_wf_kept:
  assumes "sim_wf s" "but_state s t"
    and "siIopRevision s = IOSE \<Longrightarrow> siState t = SimReset \<or> siState t = RunningJ90"
    and "siIopRevision s = IOSD \<Longrightarrow> siState t \<noteq> RunningJ90"
  shows "sim_wf t"
  using assms by (auto simp: sim_wf_def but_state_def sim_same_def sim_disks_ok_def sim_packets_ok_def)

lemma sim_boot: "sim_same s t \<Longrightarrow> sim_keeps s (SI_Boot t)"
  by (auto simp: sim_keeps_iff SI_Boot_def Let_def sim_same_def sim_disks_ok_def sim_packets_ok_def
      split: prod.splits sum.splits)

lemma bindE_Inr_iff: "bindE m f s = (Inr y, u) \<longleftrightarrow> (\<exists>x t. m s = (Inr x, t) \<and> f x t = (Inr y, u))"
  by (auto simp: bindE_def split: prod.splits sum.splits)

lemma sim_queued:
  "SI_QueuePacket p t = (r, u) \<Longrightarrow> (siIopRevision t = IOSE \<Longrightarrow> EP_IsValid p) \<Longrightarrow> sim_same t u"
  using sim_QueuePacket[of t p t] by (auto simp: sim_keeps_iff sim.R_refl)

lemma sim_dispatch_YEL:
  assumes "siIopRevision s = IOSD" "sim_same s t" "Dispatch_YEL env p t = (r, u)"
  shows "sim_same s u \<or> (\<exists>v. sim_same s v \<and> u = v\<lparr>siState := KernelPanic\<rparr>)"
  using assms sim_T[OF assms(1,2)] sim_A[OF assms(1,2)] sim_NetD[OF assms(2)] sim_PE_IosD[OF assms(1,2)]
  unfolding Dispatch_YEL_def Let_def HandleKPacket_def sim_keeps_iff
  by (auto split: if_splits) (metis snd_conv)+

lemma sim_tick_YEL:
  assumes "siIopRevision s = IOSD" "Tick_YEL env s = (r, u)"
  shows "sim_same s u \<or> (\<exists>v. sim_same s v \<and> u = v\<lparr>siState := KernelPanic\<rparr>)"
proof (cases "ciPacketValid (siCToIChannel s)")
  case True
  obtain g t where g: "SI_GetPacket s = (g, t)" by (metis prod.exhaust)
  have t: "sim_same s t" using sim_get_packet[OF sim.R_refl, of s] by (simp add: g sim_keeps_iff)
  show ?thesis
  proof (cases g)
    case (Inl e)
    then show ?thesis using assms(2) True g t by (simp add: Tick_YEL_def bindE_def)
  next
    case (Inr p)
    then have "(if length p \<noteq> 6 then (Inl AssertError, t) else Dispatch_YEL env p t) = (r, u)"
      using assms(2) True g by (simp add: Tick_YEL_def bindE_def)
    then show ?thesis using t sim_dispatch_YEL[OF assms(1) t, of env p r u] by (auto split: if_splits)
  qed
next
  case False
  then show ?thesis using assms(2) by (simp add: Tick_YEL_def sim.R_refl)
qed

lemma sim_tick_answer:
  assumes "siIopRevision s = IOSD" "Tick_answer expected answer next_state s = (r, u)"
  shows "sim_same s u \<or> (\<exists>v. sim_same s v \<and> u = v\<lparr>siState := next_state\<rparr>)"
proof (cases "ciPacketValid (siCToIChannel s)")
  case True
  obtain g t where g: "SI_GetPacket s = (g, t)" by (metis prod.exhaust)
  have t: "sim_same s t" using sim_get_packet[OF sim.R_refl, of s] by (simp add: g sim_keeps_iff)
  obtain q v where q: "SI_QueuePacket answer t = (q, v)" by (metis prod.exhaust)
  have v: "sim_same s v" using sim_QueuePacket[of s answer t] assms(1) t by (simp add: q sim_keeps_iff)
  show ?thesis
    using assms(2) True g q t v by (auto simp: Tick_answer_def bindE_def split: sum.splits if_splits)
next
  case False
  then show ?thesis using assms(2) by (simp add: Tick_answer_def sim.R_refl)
qed

lemma sim_tick_reset:
  assumes "Tick_Reset env s = (r, u)"
  shows "sim_same s u \<or> (\<exists>v. sim_same s v \<and> u = v\<lparr>siState := (if siIopRevision s = IOSD then WaitTimeSent else RunningJ90)\<rparr>)"
proof -
  obtain g t where g: "SI_Boot s = (g, t)" by (metis prod.exhaust)
  have t: "sim_same s t" using sim_boot[OF sim.R_refl, of s] by (simp add: g sim_keeps_iff)
  then have rev: "siIopRevision t = siIopRevision s" by (simp add: sim_same_def)
  obtain q v where q: "SI_QueuePacket (time_packet (seTime env)) t = (q, v)" by (metis prod.exhaust)
  have v: "siIopRevision s = IOSD \<Longrightarrow> sim_same s v"
    using sim_QueuePacket[of s "time_packet (seTime env)" t] t by (simp add: q sim_keeps_iff)
  show ?thesis
    using assms g q t v rev by (auto simp: Tick_Reset_def bindE_def split: sum.splits if_splits)
qed

lemma sim_tick_others:
  "Tick_J90 env s = (r, u) \<Longrightarrow> sim_same s u" "Tick_KernelPanic s = (r, u) \<Longrightarrow> sim_same s u"
proof -
  have "sim_keeps s (Tick_J90 env s)"
    unfolding Tick_J90_def
    by (auto intro!: sim.keeps_bindE sim_get_packet sim_J90_packets sim_return sim.R_refl)
  then show "Tick_J90 env s = (r, u) \<Longrightarrow> sim_same s u" by (simp add: sim_keeps_iff)
  have "sim_keeps s (Tick_KernelPanic s)"
    unfolding Tick_KernelPanic_def
    by (auto intro!: sim.keeps_bindE sim_get_packet sim_return sim_panic_chars sim_SendString sim.R_refl)
  then show "Tick_KernelPanic s = (r, u) \<Longrightarrow> sim_same s u" by (simp add: sim_keeps_iff)
qed

lemma sim_wf_IOSD: "sim_wf s \<Longrightarrow> siState s \<noteq> SimReset \<Longrightarrow> siState s \<noteq> RunningJ90 \<Longrightarrow> siIopRevision s = IOSD"
  by (cases "siIopRevision s") (auto simp: sim_wf_def)

lemma sim_moved:
  assumes "sim_wf s" "sim_same s u \<or> (\<exists>v. sim_same s v \<and> u = v\<lparr>siState := x\<rparr>)" "sim_move (siState s) x"
    and "if siIopRevision s = IOSE then x = RunningJ90 else x \<noteq> RunningJ90"
  shows "sim_wf u \<and> (siState u = siState s \<or> sim_move (siState s) (siState u))"
  using assms(2)
proof
  assume "sim_same s u"
  with assms(1) show ?thesis
    using sim_wf_kept[OF assms(1) but_state_same(2), of u] by (auto simp: sim_wf_def sim_same_def)
next
  assume "\<exists>v. sim_same s v \<and> u = v\<lparr>siState := x\<rparr>"
  then obtain v where v: "sim_same s v" "u = v\<lparr>siState := x\<rparr>" by blast
  have "sim_wf u"
    unfolding v(2) by (rule sim_wf_kept[OF assms(1) but_state_same(1)[OF v(1)]]) (use assms(4) in \<open>auto split: if_splits\<close>)
  with v(2) assms(3) show ?thesis by simp
qed

lemma sim_tick_time:
  assumes "siIopRevision s = IOSD" "siState s = WaitTimeSent" "SI_Tick_state env s = (r, u)"
  shows "sim_same s u \<or> (\<exists>v. sim_same s v \<and> u = v\<lparr>siState := WaitISent\<rparr>)"
proof -
  obtain q v where q: "SI_QueuePacket I_packet s = (q, v)" by (metis prod.exhaust)
  have "sim_same s v" using sim_QueuePacket[of s I_packet s] assms(1) by (simp add: q sim_keeps_iff sim.R_refl)
  with q assms(2,3) show ?thesis
    by (auto simp: SI_Tick_state_def bindE_def sim.R_refl split: sum.splits if_splits)
qed

lemma sim_state_move:
  assumes "sim_wf s" "SI_Tick_state env s = (r, u)"
  shows "sim_wf u \<and> (siState u = siState s \<or> sim_move (siState s) (siState u))"
proof (cases "siState s")
  case SimReset
  have "Tick_Reset env s = (r, u)" using assms(2) SimReset by (simp add: SI_Tick_state_def)
  from sim_tick_reset[OF this] show ?thesis
    by (rule sim_moved[OF assms(1)]) (cases "siIopRevision s"; simp add: SimReset)+
next
  case RunningJ90
  have "Tick_J90 env s = (r, u)" using assms(2) RunningJ90 by (simp add: SI_Tick_state_def)
  then have "sim_same s u" by (rule sim_tick_others(1))
  then show ?thesis
    using assms(1) sim_wf_kept[OF assms(1) but_state_same(2), of u] by (auto simp: sim_wf_def sim_same_def)
next
  case KernelPanic
  have "Tick_KernelPanic s = (r, u)" using assms(2) KernelPanic by (simp add: SI_Tick_state_def)
  then have "sim_same s u" by (rule sim_tick_others(2))
  then show ?thesis
    using assms(1) sim_wf_kept[OF assms(1) but_state_same(2), of u] by (auto simp: sim_wf_def sim_same_def)
next
  case RunningYEL
  with assms(1) have rev: "siIopRevision s = IOSD" by (intro sim_wf_IOSD) simp_all
  have "Tick_YEL env s = (r, u)" using assms(2) RunningYEL by (simp add: SI_Tick_state_def)
  from sim_tick_YEL[OF rev this] show ?thesis by (rule sim_moved[OF assms(1)]) (simp_all add: RunningYEL rev)
next
  case WaitISent
  with assms(1) have rev: "siIopRevision s = IOSD" by (intro sim_wf_IOSD) simp_all
  have "Tick_answer I_answer J_packet WaitJSent s = (r, u)" using assms(2) WaitISent by (simp add: SI_Tick_state_def)
  from sim_tick_answer[OF rev this] show ?thesis by (rule sim_moved[OF assms(1)]) (simp_all add: WaitISent rev)
next
  case WaitJSent
  with assms(1) have rev: "siIopRevision s = IOSD" by (intro sim_wf_IOSD) simp_all
  have "Tick_answer J_answer C_packet RunningYEL s = (r, u)" using assms(2) WaitJSent by (simp add: SI_Tick_state_def)
  from sim_tick_answer[OF rev this] show ?thesis by (rule sim_moved[OF assms(1)]) (simp_all add: WaitJSent rev)
next
  case WaitTimeSent
  with assms(1) have rev: "siIopRevision s = IOSD" by (intro sim_wf_IOSD) simp_all
  from sim_tick_time[OF rev WaitTimeSent assms(2)] show ?thesis
    by (rule sim_moved[OF assms(1)]) (simp_all add: WaitTimeSent rev)
qed

lemma sim_tick_move:
  assumes "sim_wf s" "SI_Tick env s = (r, u)"
  shows "sim_wf u \<and> (siState u = siState s \<or> sim_move (siState s) (siState u))"
proof -
  obtain g t where g: "Network_Tick s = (g, t)" by (metis prod.exhaust)
  have t: "sim_same s t" using sim_Network_Tick[OF sim.R_refl, of s] by (simp add: g sim_keeps_iff)
  have wf: "sim_wf t \<and> siState t = siState s"
    using assms(1) t sim_wf_kept[OF assms(1) but_state_same(2)[OF t]] by (auto simp: sim_wf_def sim_same_def)
  show ?thesis
  proof (cases g)
    case (Inl e)
    then show ?thesis using assms(2) g wf by (simp add: SI_Tick_def bindE_def)
  next
    case (Inr x)
    then have "SI_Tick_state env t = (r, u)" using assms(2) g by (simp add: SI_Tick_def bindE_def)
    then show ?thesis using sim_state_move[of t env r u] wf by simp
  qed
qed

section \<open>Runs\<close>

text \<open>
  What happens to a cluster: its ticks, the ticks of its channels and consoles, completed
  writes to terminals, frames from the network, and the steps of the rest of the mainframe. A master clear begins a new
  run.
\<close>

inductive sim_step :: "SimIopCluster_c \<Rightarrow> SimIopCluster_c \<Rightarrow> bool" where
  ticked: "SI_Tick env s = (r, t) \<Longrightarrow> sim_step s t"
| channel_I: "SI_ChannelTick_I s = (r, t) \<Longrightarrow> sim_step s t"
| channel_C: "SI_ChannelTick_C s = (r, t) \<Longrightarrow> sim_step s t"
| console: "SC_Tick k polls s = (r, t) \<Longrightarrow> sim_step s t"
| written: "SC_WriteHandler k s = (r, t) \<Longrightarrow> sim_step s t"
| frame: "t = upd_eth k (upd_thread (PC_Receive p)) s \<Longrightarrow> sim_step s t"
| elsewhere: "t = s\<lparr>siMainframe := mf\<rparr> \<Longrightarrow> sim_step s t"

lemma sim_step_move:
  assumes "sim_step s t" "sim_wf s"
  shows "sim_wf t \<and> (siState t = siState s \<or> sim_move (siState s) (siState t))"
proof -
  have same: "sim_wf t \<and> (siState t = siState s \<or> sim_move (siState s) (siState t))" if "sim_same s t"
    using that assms(2) sim_wf_kept[OF assms(2) but_state_same(2), of t] by (auto simp: sim_wf_def sim_same_def)
  from assms(1) show ?thesis
  proof cases
    case ticked
    then show ?thesis using sim_tick_move[OF assms(2)] by blast
  next
    case channel_I
    then show ?thesis using sim_channel_tick_I[OF sim.R_refl, of s] by (intro same) (simp add: sim_keeps_iff)
  next
    case channel_C
    then show ?thesis using sim_channel_tick_C[OF sim.R_refl, of s] by (intro same) (simp add: sim_keeps_iff)
  next
    case (console k polls)
    then show ?thesis using sim_console_tick[OF sim.R_refl, of s k polls] by (intro same) (simp add: sim_keeps_iff)
  next
    case (written k)
    then show ?thesis using sim_write_handler[OF sim.R_refl, of s k] by (intro same) (simp add: sim_keeps_iff)
  next
    case (frame k p)
    then show ?thesis by (intro same) (simp add: sim_upd_eth sim.R_refl)
  next
    case elsewhere
    then show ?thesis by (intro same) (simp add: sim_same_def sim_disks_ok_def sim_packets_ok_def)
  qed
qed

text \<open>C18: The simulated I/O subsystem starts up in order and sends only valid packets. Over any
  run of ticks, channel and console activity, completed writes and frames from the network,
  whatever the mainframe does in between, the main loop moves along the arrows of its start-up machine alone; its
  disks stay well-formed, every packet that waits for a model-E mainframe is valid, with the
  header repeated and the length right, and the two revisions stay in their own states.\<close>

theorem sim_iop_runs:
  assumes "sim_step\<^sup>*\<^sup>* s t" "sim_wf s"
  shows "sim_wf t \<and> sim_move\<^sup>*\<^sup>* (siState s) (siState t)"
  using assms
proof (induction rule: rtranclp_induct)
  case (step t u)
  then have "sim_wf u" "siState u = siState t \<or> sim_move (siState t) (siState u)"
    using sim_step_move[of t u] by auto
  with step show ?case by (auto intro: rtranclp.rtrancl_into_rtrancl)
qed simp

lemma sample_sim_wf: "sim_wf (sample_sim_cluster Revision)"
  by (simp add: sim_wf_def sample_sim_cluster_def sim_disks_ok_def sim_packets_ok_def pending_packets_def sample_sim_disk_facts)

lemma sample_first_tick:
  "SI_Tick sample_sim_env (sample_sim_cluster IOSD) =
     (Inr (), (sample_sim_cluster IOSD)\<lparr>siState := WaitTimeSent, siSeqSent := 0, siSeqReceived := 0, siPacketsSent := 1, siCpuMasterClears := [True, False],
        siIToCChannel := \<lparr>icPacketQueue = [], icPacket = time_packet sample_host_time, icPacketIdx = 0, icPacketValid = True, icChannel = 0\<rparr>\<rparr>)"
  by (simp add: SI_Tick_def SI_Tick_state_def Network_Tick_def Tick_Reset_def SI_Boot_def load_kernel_def sample_sim_cluster_def sample_sim_env_def Let_def
      returnE_def SC_Reset_def bindE_def SI_QueuePacket_def IC_QueuePacket_def IC_SendPacket_def)

theorem sim_iop_runs_witness:
  "\<exists>t. sim_step\<^sup>*\<^sup>* (sample_sim_cluster IOSD) t \<and> siState t = WaitTimeSent \<and> siPacketsSent t = 1 \<and>
     sim_wf t \<and> sim_move\<^sup>*\<^sup>* SimReset (siState t)"
proof -
  obtain t where t: "SI_Tick sample_sim_env (sample_sim_cluster IOSD) = (Inr (), t)"
    "siState t = WaitTimeSent" "siPacketsSent t = 1"
    using sample_first_tick by simp
  have run: "sim_step\<^sup>*\<^sup>* (sample_sim_cluster IOSD) t"
    by (rule r_into_rtranclp) (rule ticked[OF t(1)])
  have start: "siState (sample_sim_cluster IOSD) = SimReset" by (simp add: sample_sim_cluster_def)
  show ?thesis
    using sim_iop_runs[OF run sample_sim_wf] run t unfolding start by blast
qed

end
