(* ===== verification/Sim_Requests.thy ===== *)
theory Sim_Requests
  imports Sim_Contracts "HOL-Library.Multiset"
begin

text \<open>
  The requests of the mainframe from end to end: what a disk packet does to the disk and the
  memory and how it is answered, the text that reaches a terminal, and the order in which the
  packets for the mainframe wait.
\<close>

section \<open>Answers\<close>

lemma EP_Data_put [simp]:
  "i + 1 < length p \<Longrightarrow> EP_Data i (EP_put_Data j v p) = (if i = j then v else EP_Data i p)"
  by (simp add: EP_Data_def EP_put_Data_def nth_list_update)

lemma EP_put_Data_frame [simp]: "hd (EP_put_Data j v p) = hd p" "length (EP_put_Data j v p) = length p"
  by (cases p; simp add: EP_put_Data_def)+

lemma copy_loop:
  "length (for_loop 0 n (\<lambda>j. EP_put_Data j (EP_Data j a)) r) = length r"
  "i + 1 < length r \<Longrightarrow> EP_Data i (for_loop 0 n (\<lambda>j. EP_put_Data j (EP_Data j a)) r) = (if i < n then EP_Data i a else EP_Data i r)"
proof -
  show len: "length (for_loop 0 n (\<lambda>j. EP_put_Data j (EP_Data j a)) r) = length r" for n
    by (rule for_loop_preserves) simp
  show "EP_Data i (for_loop 0 n (\<lambda>j. EP_put_Data j (EP_Data j a)) r) = (if i < n then EP_Data i a else EP_Data i r)"
    if "i + 1 < length r"
    using that by (induction n) (auto simp: for_loop_Suc len less_Suc_eq)
qed

lemma copy_Data_words:
  assumes "n + 1 \<le> length r" "n + 1 \<le> length a"
  shows "\<exists>q. copy_Data n a r = Inr q \<and> length q = length r \<and>
     (\<forall>i. i + 1 < length r \<longrightarrow> EP_Data i q = (if i < n then EP_Data i a else EP_Data i r))"
  using assms copy_loop[where n = n and a = a and r = r] by (simp add: copy_Data_def)

text \<open>One packet more waits for the mainframe.\<close>

definition one_more :: "SimIopCluster_c \<Rightarrow> packet \<Rightarrow> ChannelIToC_c \<Rightarrow> bool" where
  "one_more cl r ch \<longleftrightarrow> mset (pending_packets ch) = add_mset r (mset (pending_packets (siIToCChannel cl)))"

definition numbered :: "packet \<Rightarrow> SimIopCluster_c \<Rightarrow> packet" where
  "numbered p cl = EP_Finalize (EP_SetSeq (siSeqSent cl) (EP_SetAckSeq (siSeqReceived cl) p))"

lemma QueuePacket_one_more:
  "\<exists>ch. SI_QueuePacket p cl = (Inr (), cl\<lparr>siPacketsSent := siPacketsSent cl + 1, siIToCChannel := ch\<rparr>) \<and> one_more cl p ch"
proof -
  obtain ch where ch: "IC_QueuePacket p (siIToCChannel cl) = (Inr (), ch)"
    using QueuePacket_returns[of p "siIToCChannel cl"] by (cases "IC_QueuePacket p (siIToCChannel cl)") auto
  then have "one_more cl p ch"
    by (auto simp: one_more_def IC_QueuePacket_def IC_SendPacket_def pending_packets_def split: if_splits)
  then show ?thesis using ch by (intro exI[of _ ch]) (simp add: SI_QueuePacket_def)
qed

lemma SendPacket_returns:
  "\<exists>ch. SI_SendPacket p cl = (Inr (), cl\<lparr>siPacketsSent := siPacketsSent cl + 1, siIToCChannel := ch, siSeqSent := siSeqSent cl + 1\<rparr>) \<and>
     one_more cl (numbered p cl) ch"
proof -
  obtain ch where "SI_QueuePacket (numbered p cl) cl = (Inr (), cl\<lparr>siPacketsSent := siPacketsSent cl + 1, siIToCChannel := ch\<rparr>)"
    "one_more cl (numbered p cl) ch"
    using QueuePacket_one_more by blast
  then show ?thesis by (intro exI[of _ ch]) (simp add: SI_SendPacket_def bindE_def numbered_def)
qed

lemma byte_of_field: "ucast (take_bit 8 (ucast (x :: uint8) :: uint64)) = x"
  by (rule bit_word_eqI) (auto simp: bit_simps)

lemma numbered_packet:
  assumes "p \<noteq> []" "length p < 1024"
  shows "EP_IsValid (numbered p cl)" "EP_GetSeq (numbered p cl) = siSeqSent cl" "EP_GetAckSeq (numbered p cl) = siSeqReceived cl"
    "\<And>i. i + 1 < length p \<Longrightarrow> EP_Data i (numbered p cl) = EP_Data i p"
proof -
  let ?q = "EP_SetSeq (siSeqSent cl) (EP_SetAckSeq (siSeqReceived cl) p)"
  have q: "?q \<noteq> []" "length ?q < 1024" "length ?q = length p" using assms by (simp_all add: EP_sets)
  note f = finished_packet[OF q(1,2)]
  have h: "EP_header ?q = SetBits (SetBits (hd p) 0 7 (ucast (siSeqReceived cl))) 8 15 (ucast (siSeqSent cl))"
    using assms(1) by (cases p) (simp_all add: EP_SetSeq_def EP_SetAckSeq_def EP_put_def EP_header_def)
  show "EP_IsValid (numbered p cl)" unfolding numbered_def by (rule f(1))
  have "EP_GetSeq ?q = siSeqSent cl" "EP_GetAckSeq ?q = siSeqReceived cl"
    unfolding EP_GetSeq_def EP_GetAckSeq_def h
    by (simp_all add: GetBits_SetBits_same GetBits_SetBits_other byte_of_field)
  then show "EP_GetSeq (numbered p cl) = siSeqSent cl" "EP_GetAckSeq (numbered p cl) = siSeqReceived cl"
    unfolding numbered_def f(3,4) by simp_all
  show "EP_Data i (numbered p cl) = EP_Data i p" if "i + 1 < length p" for i
    using that f(8)[of i] q(3) assms(1)
    by (cases p) (simp_all add: numbered_def EP_SetSeq_def EP_SetAckSeq_def EP_put_def EP_Data_def)
qed

text \<open>The response of a disk request: it echoes the words of the request behind its first.\<close>

lemma SetBitsInPlace_fields:
  assumes "Suc 0 < length p"
  shows "EP_Data 0 (SetBitsInPlace 0 lo hi v p) = SetBits (EP_Data 0 p) lo hi v"
    "i + 1 < length p \<Longrightarrow> 0 < i \<Longrightarrow> EP_Data i (SetBitsInPlace 0 lo hi v p) = EP_Data i p"
  using assms by (simp_all add: SetBitsInPlace_def)

text \<open>
  The answer of a disk request that is sent when the packet with the number \<open>ack\<close> was the last
  one received: it carries its own number, the response code and a status without error, and
  repeats the other words of the request but the last.
\<close>

definition disk_answer :: "packet \<Rightarrow> uint8 \<Rightarrow> uint8 \<Rightarrow> packet \<Rightarrow> bool" where
  "disk_answer p s ack r \<longleftrightarrow>
     EP_IsValid r \<and> EP_GetSeq r = s \<and> EP_GetAckSeq r = ack \<and>
     GetBits (EP_Data 0 r) 56 63 = 0x64 \<and> GetBits (EP_Data 0 r) 40 47 = DRQ_READ \<and> GetBits (EP_Data 0 r) 32 39 = 0 \<and>
     GetBits (EP_Data 0 r) 0 31 = GetBits (EP_Data 0 p) 0 31 \<and>
     (\<forall>i. 0 < i \<and> i + 2 < length p \<longrightarrow> EP_Data i r = EP_Data i p)"

lemma D_respond_sends:
  assumes "n + 1 \<le> length p" "n \<le> 68" "1 < n" "length p \<le> n + 2"
  shows "\<exists>R. D_respond n DRQ_READ p cl = SI_SendPacket R cl \<and> disk_answer p (siSeqSent cl) (siSeqReceived cl) (numbered R cl)"
proof -
  let ?S = "EP_SetSize 68 (SI_GenerateResponse p cl)"
  obtain q where q: "copy_Data n p ?S = Inr q" "length q = 69"
    "\<forall>i. i + 1 < 69 \<longrightarrow> EP_Data i q = (if i < n then EP_Data i p else EP_Data i ?S)"
    using copy_Data_words[of n ?S p] assms by auto
  let ?R = "SetBitsInPlace 0 32 39 0 (SetBitsInPlace 0 40 47 DRQ_READ (SetBitsInPlace 0 56 63 0x64 q))"
  have R: "?R \<noteq> []" "length ?R = 69" using q(2) length_not_Nil[of ?R 68] by simp_all
  note sent = numbered_packet[where p = ?R and cl = cl, unfolded R(2)]
  have "EP_Data i (numbered ?R cl) = EP_Data i p" if "0 < i" "i < n" for i
    using that assms(2) q(2,3) sent(4)[OF R(1), of i] by (simp add: SetBitsInPlace_fields)
  moreover have "EP_Data 0 (numbered ?R cl) = SetBits (SetBits (SetBits (EP_Data 0 p) 56 63 0x64) 40 47 DRQ_READ) 32 39 0"
    using assms(3) q(2,3) sent(4)[OF R(1), of 0] by (simp add: SetBitsInPlace_fields)
  ultimately have "disk_answer p (siSeqSent cl) (siSeqReceived cl) (numbered ?R cl)"
    using sent(1-3)[OF R(1)] assms(4)
    by (simp add: disk_answer_def GetBits_SetBits_same GetBits_SetBits_other drq_codes)
  then show ?thesis using q(1) by (intro exI[of _ ?R]) (simp add: D_respond_def)
qed

section \<open>Disk requests\<close>

lemma forE_single: "forE [k] f s = f k s"
  by (auto split: prod.splits sum.splits)

lemma on_disk_ok:
  "f (siDisks cl ! k, siMainframe cl) = (Inr (), (d, mf)) \<Longrightarrow>
     on_disk k f cl = (Inr (), cl\<lparr>siDisks := (siDisks cl)[k := d], siMainframe := mf\<rparr>)"
  by (simp add: on_disk_def)

text \<open>A request that asks for sectors in the central memory, of a length that fits the answer.\<close>

definition D_plain :: "packet \<Rightarrow> bool" where
  "D_plain p \<longleftrightarrow> 6 \<le> length p \<and> length p \<le> 69 \<and> unat (EP_GetLength p) + 1 = length p \<and>
     D_head p = 0 \<and> D_sector p = 0 \<and> D_memory_type p = 0"

lemma D_transfer_ok:
  assumes "D_plain p" "n + 1 \<le> length p" "length p \<le> n + 2"
    and "f (D_cylinder p) (D_count p) (D_address p) (siDisks cl ! k, siMainframe cl) = (Inr (), (d, mf))"
  shows "\<exists>ch r. D_transfer f n p k cl = (Inr (), cl\<lparr>siDisks := (siDisks cl)[k := d], siMainframe := mf,
      siPacketsSent := siPacketsSent cl + 1, siIToCChannel := ch, siSeqSent := siSeqSent cl + 1\<rparr>) \<and>
      one_more cl r ch \<and> disk_answer p (siSeqSent cl) (siSeqReceived cl) r"
proof -
  let ?cl = "cl\<lparr>siDisks := (siDisks cl)[k := d], siMainframe := mf\<rparr>"
  have "n \<le> 68" "1 < n" using assms(1-3) by (simp_all add: D_plain_def)
  then obtain R where "D_respond n DRQ_READ p ?cl = SI_SendPacket R ?cl" "disk_answer p (siSeqSent ?cl) (siSeqReceived ?cl) (numbered R ?cl)"
    using D_respond_sends[OF assms(2) _ _ assms(3), of ?cl] by blast
  moreover obtain ch where "SI_SendPacket R ?cl =
      (Inr (), ?cl\<lparr>siPacketsSent := siPacketsSent ?cl + 1, siIToCChannel := ch, siSeqSent := siSeqSent ?cl + 1\<rparr>)" "one_more ?cl (numbered R ?cl) ch"
    using SendPacket_returns[of R ?cl] by blast
  ultimately show ?thesis
    using assms(1) on_disk_ok[of "f (D_cylinder p) (D_count p) (D_address p)", OF assms(4)]
    by (intro exI[of _ ch] exI[of _ "numbered R ?cl"]) (simp add: D_transfer_def bindE_def D_plain_def one_more_def)
qed

lemma ED_read:
  assumes "D_plain p" "D_code p = DRQ_READ" "disks_that (D_matches_read p) cl = [k]"
  shows "HandleIosEDPacket stale p cl = D_transfer (SimDisk_ReadIdx stale) (unat (EP_GetLength p) - 1) p k cl"
  using assms by (simp add: HandleIosEDPacket_def Let_def D_plain_def forE_single del: forE.simps)

lemma ED_write:
  assumes "D_plain p" "D_code p = DRQ_WRITE \<or> D_code p = DRQ_WRITE_BEHIND" "disks_that (D_matches_write p) cl = [k]"
  shows "HandleIosEDPacket stale p cl = D_transfer SimDisk_WriteIdx (unat (EP_GetLength p)) p k cl"
  using assms by (auto simp: HandleIosEDPacket_def Let_def D_plain_def forE_single drq_codes simp del: forE.simps)

lemma SimDisk_Write_same:
  "SimDisk_Write c h s n a (d, mf) = (r, (d', mf')) \<Longrightarrow>
     sdIopNumber d' = sdIopNumber d \<and> sdUnit d' = sdUnit d \<and> sdPysicalDeviceId d' = sdPysicalDeviceId d \<and>
     sdNumHeads d' = sdNumHeads d \<and> sdNumSectors d' = sdNumSectors d \<and> sdNumCylinders d' = sdNumCylinders d"
  by (auto simp: SimDisk_Write_def SimDisk_position_def Let_def split: if_splits)

text \<open>C17: A write request and a read request move the data from end to end. When a model-E
  mainframe asks to write some sectors of a disk and then to read the same sectors to another
  place of its memory, with well-formed packets (head, sector and memory type 0, a length
  of 5 to 68 words) that match one disk of the cluster and no other, on sectors within that disk and a
  target within the first 2^29 words, both requests return. Exactly two packets are queued to
  the mainframe: an answer to the write and an answer to the read, valid, numbered with the next
  two sequence numbers, acknowledging the last packet received, with the response code and no
  error, and with the other fields of their request; the answer to the write also carries the
  code of a read. Every word that was in the memory at the address of the write is afterwards at
  the address of the read, and the rest of the memory is as it was.\<close>

theorem sim_iop_disk_requests:
  assumes "SimDisk_wf (siDisks cl ! k)" "k < length (siDisks cl)" "D_plain pw" "D_plain pr"
    and "D_code pw = DRQ_WRITE \<or> D_code pw = DRQ_WRITE_BEHIND" "D_code pr = DRQ_READ"
    and "disks_that (D_matches_write pw) cl = [k]" "disks_that (D_matches_read pr) cl = [k]"
    and "D_cylinder pr = D_cylinder pw" "D_count pr = D_count pw"
    and "D_cylinder pw < sdNumCylinders (siDisks cl ! k) * sdNumHeads (siDisks cl ! k) * sdNumSectors (siDisks cl ! k)"
    and "N = SimDisk_AccessSize (siDisks cl ! k) (D_count pw)" "unat (D_address pr) + N \<le> 2 ^ 29"
  shows "\<exists>cl1 cl2. HandleIosEDPacket stale pw cl = (Inr (), cl1) \<and> HandleIosEDPacket stale pr cl1 = (Inr (), cl2) \<and>
     siSeqSent cl2 = siSeqSent cl + 2 \<and> siPacketsSent cl2 = siPacketsSent cl + 2 \<and>
     (\<exists>r1 r2. mset (pending_packets (siIToCChannel cl2)) = {#r1, r2#} + mset (pending_packets (siIToCChannel cl)) \<and>
        disk_answer pw (siSeqSent cl) (siSeqReceived cl) r1 \<and> disk_answer pr (siSeqSent cl + 1) (siSeqReceived cl) r2) \<and>
     (\<forall>i<N. MemRead (D_address pr + of_nat i) (siMainframe cl2) = MemRead (D_address pw + of_nat i) (siMainframe cl)) \<and>
     (\<forall>b. unat b < 2 ^ 29 \<and> (unat b < unat (D_address pr) \<or> unat (D_address pr) + N \<le> unat b) \<longrightarrow>
        MemRead b (siMainframe cl2) = MemRead b (siMainframe cl))"
proof -
  let ?d = "siDisks cl ! k" and ?i = "D_cylinder pw" and ?mf = "siMainframe cl"
  let ?c = "SimDisk_Cylinder ?d ?i" and ?h = "SimDisk_Head ?d ?i" and ?s = "SimDisk_Sector ?d ?i"
  obtain d1 d2 mf2 where
    w: "SimDisk_Write ?c ?h ?s (D_count pw) (D_address pw) (?d, ?mf) = (Inr (), (d1, ?mf))" and
    r: "SimDisk_Read stale ?c ?h ?s (D_count pw) (D_address pr) (d1, ?mf) = (Inr (), (d2, mf2))" and
    same: "\<forall>i<N. MemRead (D_address pr + of_nat i) mf2 = MemRead (D_address pw + of_nat i) ?mf"
      "\<forall>b. unat b < 2 ^ 29 \<and> (unat b < unat (D_address pr) \<or> unat (D_address pr) + N \<le> unat b) \<longrightarrow> MemRead b mf2 = MemRead b ?mf"
    using sim_disk_roundtrip[OF assms(1), of "D_address pr" "D_count pw" ?c ?h ?s "D_address pw" ?mf stale ?mf] assms(12,13)
    by metis
  note kept = SimDisk_Write_same[OF w]
  have wf1: "SimDisk_wf d1" by (rule disk_transfers_wf(2)[OF w assms(1)])
  have place: "SimDisk_Cylinder d1 ?i = ?c" "SimDisk_Head d1 ?i = ?h" "SimDisk_Sector d1 ?i = ?s"
    using kept by (simp_all add: SimDisk_Cylinder_def SimDisk_Head_def SimDisk_Sector_def)
  have wi: "SimDisk_WriteIdx ?i (D_count pw) (D_address pw) (?d, ?mf) = (Inr (), (d1, ?mf))"
    using sim_disk_index(2)[OF assms(1)] assms(11) w by simp
  have ri: "SimDisk_ReadIdx stale ?i (D_count pw) (D_address pr) (d1, ?mf) = (Inr (), (d2, mf2))"
    using sim_disk_index(1)[OF wf1] assms(11) r kept place by simp
  obtain ch1 r1 where h1: "HandleIosEDPacket stale pw cl = (Inr (), cl\<lparr>siDisks := (siDisks cl)[k := d1], siMainframe := ?mf,
      siPacketsSent := siPacketsSent cl + 1, siIToCChannel := ch1, siSeqSent := siSeqSent cl + 1\<rparr>)" (is "_ = (_, ?cl1)")
    and a1: "one_more cl r1 ch1" "disk_answer pw (siSeqSent cl) (siSeqReceived cl) r1"
    using ED_write[OF assms(3,5,7), of stale] D_transfer_ok[of pw "unat (EP_GetLength pw)" SimDisk_WriteIdx cl k d1 ?mf] wi assms(3) by (auto simp: D_plain_def)
  have "disks_that (D_matches_read pr) ?cl1 = disks_that (D_matches_read pr) cl"
    using kept assms(2) by (auto simp: disks_that_def D_matches_read_def nth_list_update intro!: filter_cong)
  with assms(8) have only: "disks_that (D_matches_read pr) ?cl1 = [k]" by simp
  have at: "siDisks ?cl1 ! k = d1" "siMainframe ?cl1 = ?mf" using assms(2) by simp_all
  have "SimDisk_ReadIdx stale (D_cylinder pr) (D_count pr) (D_address pr) (siDisks ?cl1 ! k, siMainframe ?cl1) = (Inr (), (d2, mf2))"
    unfolding at assms(9,10) by (rule ri)
  moreover have "unat (EP_GetLength pr) - 1 + 1 \<le> length pr" "length pr \<le> unat (EP_GetLength pr) - 1 + 2"
    using assms(4) unfolding D_plain_def by linarith+
  ultimately obtain ch2 r2 where h2: "HandleIosEDPacket stale pr ?cl1 = (Inr (), ?cl1\<lparr>siDisks := (siDisks ?cl1)[k := d2], siMainframe := mf2,
      siPacketsSent := siPacketsSent ?cl1 + 1, siIToCChannel := ch2, siSeqSent := siSeqSent ?cl1 + 1\<rparr>)"
    and a2: "one_more ?cl1 r2 ch2" "disk_answer pr (siSeqSent ?cl1) (siSeqReceived ?cl1) r2"
    using ED_read[OF assms(4,6) only, of stale] D_transfer_ok[of pr "unat (EP_GetLength pr) - 1" "SimDisk_ReadIdx stale" ?cl1 k d2 mf2] assms(4) by metis
  moreover have "mset (pending_packets ch2) = {#r1, r2#} + mset (pending_packets (siIToCChannel cl))"
    using a1(1) a2(1) by (simp add: one_more_def)
  ultimately show ?thesis
    using h1 same a1(2) a2(2) by (intro exI[of _ ?cl1] exI conjI) auto
qed

text \<open>A write of two sectors from address 64, and their read to address 4096.\<close>

definition sample_request :: "CInt_t \<Rightarrow> CInt_t \<Rightarrow> packet" where
  "sample_request first addr = [0x0006000100000000, first, 0, 0x0000002200000002, 0, addr, 0x0006000100000000]"

lemma sample_request_fields:
  "GetBits (0x0006000100000000 :: uint64) 48 57 = 6" "GetBits (0x0006000100000000 :: uint64) 32 36 = 1"
  "GetBits (0x0000002200000002 :: uint64) 32 63 = 34" "GetBits (0x0000002200000002 :: uint64) 31 31 = 0"
  "GetBits (0x0000002200000002 :: uint64) 30 30 = 0" "GetBits (0x0000002200000002 :: uint64) 0 15 = 2"
  "GetBits (0x0000030000030000 :: uint64) 40 47 = 3" "GetBits (0x0000030000030000 :: uint64) 16 20 = 3"
  "GetBits (0x0000020000030000 :: uint64) 40 47 = 2" "GetBits (0x0000020000030000 :: uint64) 16 20 = 3"
  "GetBits (0x0000020000030000 :: uint64) 21 24 = 0" "GetBits (64 :: uint64) 48 50 = 0"
  "GetBits (64 :: uint64) 0 47 = 64" "GetBits (4096 :: uint64) 48 50 = 0" "GetBits (4096 :: uint64) 0 47 = 4096"
  by (simp_all add: GetBits_def del: mask_8_bits)

theorem sim_iop_disk_requests_witness:
  "\<exists>cl1 cl2. HandleIosEDPacket (\<lambda>_ _. 0) (sample_request 0x0000030000030000 64) (sample_sim_cluster IOSE) = (Inr (), cl1) \<and>
     HandleIosEDPacket (\<lambda>_ _. 0) (sample_request 0x0000020000030000 4096) cl1 = (Inr (), cl2) \<and>
     siSeqSent cl2 = 9 \<and> MemRead (4096 + of_nat 100) (siMainframe cl2) = MemRead (64 + of_nat 100) sample_idle"
proof -
  let ?cl = "sample_sim_cluster IOSE" and ?pw = "sample_request 0x0000030000030000 64" and ?pr = "sample_request 0x0000020000030000 4096"
  have disk: "siDisks ?cl = [sample_sim_disk]" "siMainframe ?cl = sample_idle" "siSeqSent ?cl = 7"
    by (simp_all add: sample_sim_cluster_def)
  have fields: "D_plain ?pw" "D_plain ?pr" "D_code ?pw = DRQ_WRITE" "D_code ?pr = DRQ_READ" "D_cylinder ?pw = 34"
    "D_cylinder ?pr = 34" "D_count ?pw = 2" "D_count ?pr = 2" "D_address ?pw = 64" "D_address ?pr = 4096"
    by (simp_all add: sample_request_def D_plain_def EP_GetLength_def EP_header_def D_head_def D_sector_def
        D_memory_type_def D_code_def D_cylinder_def D_count_def D_address_def EP_Data_def sample_request_fields drq_codes)
  have "D_matches_write ?pw sample_sim_disk" "D_matches_read ?pr sample_sim_disk"
    by (simp_all add: D_matches_write_def D_matches_read_def sample_request_def D_channel_def D_unit_def EP_GetProcess_def
        EP_header_def EP_Data_def sample_request_fields sample_sim_disk_def)
  then have only: "disks_that (D_matches_write ?pw) ?cl = [0]" "disks_that (D_matches_read ?pr) ?cl = [0]"
    by (simp_all add: disks_that_def disk)
  have "\<exists>cl1 cl2. HandleIosEDPacket (\<lambda>_ _. 0) ?pw ?cl = (Inr (), cl1) \<and> HandleIosEDPacket (\<lambda>_ _. 0) ?pr cl1 = (Inr (), cl2) \<and>
     siSeqSent cl2 = siSeqSent ?cl + 2 \<and> siPacketsSent cl2 = siPacketsSent ?cl + 2 \<and>
     (\<exists>r1 r2. mset (pending_packets (siIToCChannel cl2)) = {#r1, r2#} + mset (pending_packets (siIToCChannel ?cl)) \<and>
        disk_answer ?pw (siSeqSent ?cl) (siSeqReceived ?cl) r1 \<and> disk_answer ?pr (siSeqSent ?cl + 1) (siSeqReceived ?cl) r2) \<and>
     (\<forall>i<256. MemRead (D_address ?pr + of_nat i) (siMainframe cl2) = MemRead (D_address ?pw + of_nat i) (siMainframe ?cl)) \<and>
     (\<forall>b. unat b < 2 ^ 29 \<and> (unat b < unat (D_address ?pr) \<or> unat (D_address ?pr) + 256 \<le> unat b) \<longrightarrow>
        MemRead b (siMainframe cl2) = MemRead b (siMainframe ?cl))"
    by (rule sim_iop_disk_requests[where k = 0])
      (simp_all add: disk fields only sample_sim_disk_facts, simp add: sample_sim_disk_def)
  then obtain cl1 cl2 where "HandleIosEDPacket (\<lambda>_ _. 0) ?pw ?cl = (Inr (), cl1)" "HandleIosEDPacket (\<lambda>_ _. 0) ?pr cl1 = (Inr (), cl2)"
    "siSeqSent cl2 = 9" and words: "\<forall>i<256. MemRead (4096 + of_nat i) (siMainframe cl2) = MemRead (64 + of_nat i) sample_idle"
    by (auto simp: disk fields)
  moreover have "MemRead (4096 + of_nat 100) (siMainframe cl2) = MemRead (64 + of_nat 100) sample_idle"
    using words[rule_format, of 100] by simp
  ultimately show ?thesis by blast
qed

section \<open>The order of the packets\<close>

text \<open>
  While a packet is on its way, the next ones wait in their order. But the packet that comes
  when the channel has just finished one, before the next tick of the channel has fetched the
  first of the queue, is sent at once and overtakes those that wait.
\<close>

theorem queued_in_order:
  assumes "icPacketValid ch \<or> icPacketQueue ch = []"
  shows "\<exists>ch'. IC_QueuePacket p ch = (Inr (), ch') \<and> pending_packets ch' = pending_packets ch @ [p]"
  using assms by (auto simp: IC_QueuePacket_def IC_SendPacket_def pending_packets_def)

theorem queued_packet_overtakes:
  assumes "\<not> icPacketValid ch"
  shows "\<exists>ch'. IC_QueuePacket p ch = (Inr (), ch') \<and> pending_packets ch' = p # pending_packets ch"
  using assms by (auto simp: IC_QueuePacket_def IC_SendPacket_def pending_packets_def)

section \<open>Text\<close>

lemma bytes_of_word_of_bytes:
  assumes "length bs \<le> 8"
  shows "take (length bs) (bytes_of_word (word_of_bytes bs)) = bs"
proof (rule nth_equalityI)
  fix q
  assume "q < length (take (length bs) (bytes_of_word (word_of_bytes bs)))"
  then have q: "q < length bs" "q < 8" by simp_all
  have "ucast (drop_bit (8 * q) (word_of_bytes bs)) = bs ! q"
  proof (rule word_eq_by_bits)
    fix r :: nat
    assume "r < LENGTH(8)"
    then show "bit (ucast (drop_bit (8 * q) (word_of_bytes bs)) :: uint8) r = bit (bs ! q) r"
      using q bit_load64[of q r "\<lambda>i. if i < length bs then bs ! i else 0" 0] by (simp add: bit_simps word_of_bytes_def)
  qed
  then show "take (length bs) (bytes_of_word (word_of_bytes bs)) ! q = bs ! q"
    using q by (simp add: bytes_of_word_def)
qed (use assms in simp)

text \<open>
  The characters typed on a model-E terminal are the text that a terminal would read from the
  packet, and so is the one character of a model-D packet.
\<close>

theorem typed_text:
  assumes "length Str \<le> 7" "length p = 3"
  shows "Z_text (length Str) (EP_put_Data 1 (SwapBytes64 (word_of_bytes Str)) p) = Inr Str"
    "take 1 (words_text (tl (T_input_packet IopId ConsoleId ch))) = [ch]"
proof -
  have "(length Str + 7) div 8 \<le> 1" using assms(1) by simp
  then consider "Str = []" | "(length Str + 7) div 8 = 1" by (cases Str) (auto simp: le_Suc_eq)
  then show "Z_text (length Str) (EP_put_Data 1 (SwapBytes64 (word_of_bytes Str)) p) = Inr Str"
  proof cases
    case 2
    from assms(2) obtain a b c where "p = [a, b, c]" by (auto simp: numeral_3_eq_3 length_Suc_conv)
    with 2 show ?thesis
      using bytes_of_word_of_bytes[of Str] assms(1) by (simp add: Z_text_def EP_put_Data_def words_text_def)
  qed (use assms(2) in \<open>simp add: Z_text_def\<close>)
  show "take 1 (words_text (tl (T_input_packet IopId ConsoleId ch))) = [ch]"
    using bytes_of_word_of_bytes[of "[ch]"] by (simp add: T_input_packet_def words_text_def)
qed

end
