(* ===== verification/Sim_Periph_Results.thy ===== *)
theory Sim_Periph_Results
  imports Sim_Requests
begin

text \<open>
  What the file peripherals promise: a write appends exactly the bytes of the memory it names to
  the host file, and what was written to a file under some name comes back, word for word, from
  a later read of that name. The other files stay as they are. The results also show where the
  code falls short: a tape is opened on the stream of the files, so no tape is ever written.
\<close>

section \<open>Writing\<close>

text \<open>The bytes of the memory from a word address on.\<close>

definition mem_bytes :: "uint32 \<Rightarrow> nat \<Rightarrow> mainframe \<Rightarrow> bytes" where
  "mem_bytes a n mf = take n (image_words (\<lambda>k. MemRead (a + of_nat k) mf) ((n + 7) div 8))"

lemma length_mem_bytes [simp]: "length (mem_bytes a n mf) = n"
  by (simp add: mem_bytes_def)

lemma PE_line_bytes: "PE_line a i n mf = mem_bytes (a + of_nat (4 * i)) n mf"
  by (simp add: PE_line_def mem_bytes_def image_words_def add.assoc)

lemma mem_bytes_split:
  assumes "32 < n"
  shows "mem_bytes a n mf = mem_bytes a 32 mf @ mem_bytes (a + 4) (n - 32) mf"
proof -
  have w: "(n + 7) div 8 = 4 + (n - 32 + 7) div 8" using assms by simp
  show ?thesis
    unfolding mem_bytes_def w image_words_add using assms by (simp add: add.assoc)
qed

lemma PE_WriteLines_appends:
  assumes "hs_writing p f sf" "L = (n + 31) div 32"
  shows "\<exists>sf'. PE_WriteLines a [i..<i + L] n (sf, mf) = (Inr 0, (sf', mf)) \<and>
    hs_writing p (f @ mem_bytes (a + of_nat (4 * i)) n mf) sf' \<and> (\<forall>q. q \<noteq> p \<longrightarrow> snd sf' q = snd sf q)"
  using assms
proof (induction L arbitrary: i n f sf)
  case 0
  then have "n = 0" by simp
  with 0(1) show ?case by (auto simp: mem_bytes_def)
next
  case (Suc L)
  let ?d = "PE_line a i (min n 32) mf" and ?sf = "hs_write (PE_line a i (min n 32) mf) sf"
  have w: "hs_writing p (f @ ?d) ?sf" by (rule hs_write_append[OF Suc.prems(1)])
  then have ok: "\<not> hsBad (fst ?sf)" by (cases ?sf) (simp add: hs_writing_def hs_good_def)
  have L: "L = (n - min n 32 + 31) div 32" using Suc.prems(2) by (cases "n \<le> 32") auto
  have o: "\<forall>q. q \<noteq> p \<longrightarrow> snd ?sf q = snd sf q" using hs_write_other[OF Suc.prems(1)] by blast
  have list: "[i..<i + Suc L] = i # [Suc i..<Suc i + L]" by (simp add: upt_rec)
  from Suc.IH[OF w L, of "Suc i"] ok obtain sf' where
    r: "PE_WriteLines a [i..<i + Suc L] n (sf, mf) = (Inr 0, (sf', mf))"
    and w': "hs_writing p ((f @ ?d) @ mem_bytes (a + of_nat (4 * Suc i)) (n - min n 32) mf) sf'"
    and o': "\<forall>q. q \<noteq> p \<longrightarrow> snd sf' q = snd ?sf q"
    unfolding list by (auto simp: Let_def simp del: upt_Suc)
  have "?d @ mem_bytes (a + of_nat (4 * Suc i)) (n - min n 32) mf = mem_bytes (a + of_nat (4 * i)) n mf"
  proof (cases "n \<le> 32")
    case True
    then show ?thesis by (simp add: PE_line_bytes mem_bytes_def[of _ 0])
  next
    case False
    then show ?thesis by (simp add: PE_line_bytes mem_bytes_split[of n] ac_simps)
  qed
  with r w' o o' show ?case by (auto simp: add.assoc)
qed

lemma PE_Write_appends:
  assumes "hs_writing p f sf"
  shows "\<exists>sf'. PE_Write_buffer b (sf, mf) = (Inr (if ibDataLen b = 0 then b else b\<lparr>ibTransferLen := ibDataLen b\<rparr>), (sf', mf)) \<and>
    hs_writing p (f @ mem_bytes (ibAddr b) (unat (ibDataLen b)) mf) sf' \<and> (\<forall>q. q \<noteq> p \<longrightarrow> snd sf' q = snd sf q)"
proof (cases "ibDataLen b = 0")
  case True
  with assms show ?thesis by (auto simp: PE_Write_buffer_def mem_bytes_def)
next
  case False
  from PE_WriteLines_appends[OF assms refl, of "ibAddr b" 0 "unat (ibDataLen b)" mf] False show ?thesis
    by (auto simp: PE_Write_buffer_def PE_AccessSize_def bindE_def)
qed

section \<open>Reading\<close>

text \<open>The words of a file from a position on are put into the memory.\<close>

definition put_words :: "uint32 \<Rightarrow> nat \<Rightarrow> nat \<Rightarrow> host_file \<Rightarrow> mainframe \<Rightarrow> mainframe" where
  "put_words a n pos f = for_loop 0 n (\<lambda>k. MemWrite (a + of_nat k) (word_of_bytes (file_read (pos + 8 * k) 8 f)))"

lemma put_words_add: "put_words a (n + m) pos f mf = put_words (a + of_nat n) m (pos + 8 * n) f (put_words a n pos f mf)"
proof (induction m)
  case (Suc m)
  then show ?case by (simp add: put_words_def for_loop_Suc algebra_simps)
qed (simp add: put_words_def)

lemma store_line_words:
  assumes "m \<le> 4" "pos + 8 * m \<le> length f"
  shows "PE_store_line stale a i (file_read pos (8 * m) f) mf = put_words (a + of_nat (4 * i)) m pos f mf"
proof -
  have l: "length (file_read pos (8 * m) f) = 8 * m" using assms(2) by simp
  have part: "take 8 (drop (8 * j) (file_read pos (8 * m) f @ x)) = file_read (pos + 8 * j) 8 f" if "j < m" for j x
  proof -
    have "8 * j + 8 \<le> 8 * m" using that by simp
    then have "take 8 (drop (8 * j) (file_read pos (8 * m) f @ x)) = take 8 (drop (8 * j) (file_read pos (8 * m) f))"
      using l by simp
    also have "\<dots> = file_read (pos + 8 * j) 8 f"
      using \<open>8 * j + 8 \<le> 8 * m\<close> by (simp add: file_read_def drop_take min_def add.commute)
    finally show ?thesis .
  qed
  have word: "MemWrite (a + of_nat (4 * i + j)) (word_of_bytes (take 8 (drop (8 * j) (file_read pos (8 * m) f @ x)))) =
      MemWrite (a + of_nat (4 * i) + of_nat j) (word_of_bytes (file_read (pos + 8 * j) 8 f))" if "j < m" for j x
    by (simp only: part[OF that] of_nat_add add.assoc)
  have "(8 * m + 7) div 8 = m" by simp
  then show ?thesis
    unfolding PE_store_line_def put_words_def l for_loop_def
    by (intro fold_cong refl) (simp_all only: word set_upt atLeastLessThan_iff)
qed

lemma PE_ReadLines_words:
  assumes "hs_reading p pos f (st, fs)" "pos + 8 * m \<le> length f" "L = (8 * m + 31) div 32"
  shows "\<exists>st'. PE_ReadLines stale a [i..<i + L] (8 * m) ((st, fs), mf) =
      (Inr 0, ((st', fs), put_words (a + of_nat (4 * i)) m pos f mf)) \<and> hs_reading p (pos + 8 * m) f (st', fs)"
  using assms
proof (induction L arbitrary: i m pos st mf)
  case 0
  then have "m = 0" by simp
  with 0(1) show ?case by (auto simp: put_words_def)
next
  case (Suc L)
  define k where "k = min m 4"
  have k: "min (8 * m) 32 = 8 * k" "k \<le> m" "k \<le> 4" "pos + 8 * k \<le> length f" using Suc.prems(2) by (auto simp: k_def)
  have L: "L = (8 * (m - k) + 31) div 32" using Suc.prems(3) by (cases "m \<le> 4") (auto simp: k_def)
  obtain bs st' where r: "hs_read (8 * k) (st, fs) = (bs, st')" by (metis prod.exhaust)
  note nx = hs_read_next[OF Suc.prems(1) k(4) r]
  have good: "\<not> hsEof st'" "\<not> hsBad st'" using nx(2) by (auto simp: hs_reading_def hs_good_def)
  have len: "length bs = 8 * k" using k(4) by (simp add: nx(1))
  have list: "[i..<i + Suc L] = i # [Suc i..<Suc i + L]" by (simp add: upt_rec)
  have next_pos: "pos + 8 * k + 8 * (m - k) = pos + 8 * m" using k(2) by simp
  have rest: "8 * m - 8 * k = 8 * (m - k)" by simp
  let ?mf = "put_words (a + of_nat (4 * i)) k pos f mf"
  have r': "hs_reading p (pos + 8 * k) f (st', fs)" using nx(2) by simp
  from Suc.IH[OF r' _ L, of "Suc i" ?mf] Suc.prems(2) obtain st'' where
    IH: "PE_ReadLines stale a [Suc i..<Suc i + L] (8 * (m - k)) ((st', fs), ?mf) =
      (Inr 0, ((st'', fs), put_words (a + of_nat (4 * Suc i)) (m - k) (pos + 8 * k) f ?mf))"
    "hs_reading p (pos + 8 * m) f (st'', fs)" unfolding next_pos by auto
  have line: "PE_store_line stale a i bs mf = ?mf" unfolding nx(1) by (rule store_line_words[OF k(3,4)])
  have "put_words (a + of_nat (4 * Suc i)) (m - k) (pos + 8 * k) f ?mf = put_words (a + of_nat (4 * i)) m pos f mf"
  proof (cases "m \<le> 4")
    case True
    then show ?thesis by (simp add: k_def put_words_def[of _ 0])
  next
    case False
    then have "k = 4" by (simp add: k_def)
    with False put_words_add[of "a + of_nat (4 * i)" k "m - k" pos f mf] show ?thesis
      by (simp add: ac_simps)
  qed
  then show ?case
    unfolding list using IH k(1) r good len line rest by (auto simp: Let_def simp del: upt_Suc)
qed

lemma PE_Read_words:
  assumes "hs_reading p pos f (st, fs)" "pos + 8 * m \<le> length f" "unat (ibDataLen b) = 8 * m" "0 < m"
  shows "\<exists>st'. PE_Read_buffer stale b ((st, fs), mf) =
      (Inr (b\<lparr>ibTransferLen := ibDataLen b\<rparr>), ((st', fs), put_words (ibAddr b) m pos f mf)) \<and>
      hs_reading p (pos + 8 * m) f (st', fs)"
proof -
  have nz: "ibDataLen b \<noteq> 0" using assms(3,4) by auto
  have "\<not> hsEof st" using assms(1) by (simp add: hs_reading_def hs_good_def)
  with nz PE_ReadLines_words[OF assms(1,2) refl, of stale "ibAddr b" 0 mf] assms(3) show ?thesis
    by (auto simp: PE_Read_buffer_def PE_AccessSize_def bindE_def)
qed

text \<open>Past the end of the file nothing is transferred, and the answer says so.\<close>

lemma PE_Read_at_end:
  "hsEof st \<Longrightarrow> ibDataLen b \<noteq> 0 \<Longrightarrow> PE_Read_buffer stale b ((st, fs), mf) = (Inr (b\<lparr>ibTransferLen := 0\<rparr>), ((st, fs), mf))"
  by (simp add: PE_Read_buffer_def)

section \<open>Requests\<close>

text \<open>What an answer leaves alone.\<close>

definition same_devices :: "SimIopCluster_c \<Rightarrow> SimIopCluster_c \<Rightarrow> bool" where
  "same_devices s t \<longleftrightarrow> siMainframe t = siMainframe s \<and> siHostFiles t = siHostFiles s \<and>
     siIopPeripheral t = siIopPeripheral s"

lemma PE_Send_returns: "\<exists>t. PE_SendPacket q b cl = (Inr (), t) \<and> same_devices cl t"
proof -
  have "\<exists>t. SI_QueuePacket x u = (Inr (), t) \<and> same_devices u t" for x u
    using SI_QueuePacket_returns[of x u] by (auto simp: same_devices_def)
  moreover have "\<exists>t. SI_SendPacket x u = (Inr (), t) \<and> same_devices u t" for x u
    using SI_SendPacket_returns[of x u] by (auto simp: same_devices_def)
  ultimately show ?thesis by (auto simp: PE_SendPacket_def Let_def)
qed

text \<open>A request to the file driver, long enough for its style.\<close>

definition F_file_request :: "bool \<Rightarrow> CInt_t \<Rightarrow> packet \<Rightarrow> bool" where
  "F_file_request b fn p \<longleftrightarrow> (if b then 66 else 6) \<le> length p \<and> GetBits (p ! 0) 8 15 = fn \<and> GetBits (p ! 0) 16 21 = F_File"

definition file_open :: "SimIopPeripheral_c \<Rightarrow> host_stream \<Rightarrow> SimIopCluster_c \<Rightarrow> bool" where
  "file_open pe st cl \<longleftrightarrow> siIopPeripheral cl = Some (pe\<lparr>peFile := st\<rparr>)"

lemma file_open_frame: "file_open pe st cl \<Longrightarrow> file_open pe st (cl\<lparr>siMainframe := mf\<rparr>)"
  by (simp add: file_open_def)

lemma F_request_length: "F_file_request b fn p \<Longrightarrow> p \<noteq> [] \<and> \<not> length p < 5"
  by (auto simp: F_file_request_def split: if_splits)

lemma F_path_file [simp]: "F_path p b (pe\<lparr>peFile := st\<rparr>) = F_path p b pe"
  by (simp add: F_path_def)

lemma F_opens:
  assumes "file_open pe st cl" "hsPath st = None" "F_file_request b 32 p"
    and "if GetBits (p ! 5) 56 63 \<noteq> 0 then GetBits (p ! 5) 48 55 \<noteq> 0 \<or> siHostFiles cl (F_path p b pe) = None
         else siHostFiles cl (F_path p b pe) \<noteq> None"
  shows "\<exists>t st' fs. PE_HandlePacket stale p b cl = (Inr (), t) \<and> file_open pe st' t \<and> siMainframe t = siMainframe cl \<and>
    hs_open (if GetBits (p ! 5) 56 63 \<noteq> 0 then OpenOut else OpenIn) (F_path p b pe) (st, siHostFiles cl) = (st', fs) \<and>
    siHostFiles t = fs"
proof -
  let ?m = "if GetBits (p ! 5) 56 63 \<noteq> 0 then OpenOut else OpenIn"
  obtain st' fs where o: "hs_open ?m (F_path p b pe) (st, siHostFiles cl) = (st', fs)" by (metis prod.exhaust)
  let ?cl = "cl\<lparr>siIopPeripheral := Some (pe\<lparr>peFile := st'\<rparr>), siHostFiles := fs, siMainframe := siMainframe cl\<rparr>"
  obtain t where t: "PE_SendPacket (F_reply F_OK p) b ?cl = (Inr (), t)" "same_devices ?cl t"
    using PE_Send_returns by blast
  have len: "\<not> length p < (if b then 66 else 6)" "p \<noteq> []"
    using assms(3) F_request_length[OF assms(3)] by (auto simp: F_file_request_def)
  have refused: "\<not> (hs_exists (F_path p b pe) (siHostFiles cl) \<and> GetBits (p ! 5) 48 55 = 0 \<and> GetBits (p ! 5) 56 63 \<noteq> 0)"
    "\<not> (\<not> hs_exists (F_path p b pe) (siHostFiles cl) \<and> GetBits (p ! 5) 56 63 = 0)"
    using assms(4) by (auto simp: hs_exists_def split: if_splits)
  have "F_DRF32 p b (pe\<lparr>peFile := st\<rparr>) cl = (Inr (), t)"
    using len(1) refused assms(1,3) o t(1)
    by (auto simp: F_DRF32_def F_file_request_def Let_def PE_on_stream_def file_open_def PE_open_def bindE_def F_answer_def)
  then have "PE_HandlePacket stale p b cl = (Inr (), t)"
    using assms(1,3) len(2) by (simp add: PE_HandlePacket_def file_open_def F_file_request_def Let_def)
  with t(2) o show ?thesis by (auto simp: same_devices_def file_open_def)
qed

lemma F_closes:
  assumes "file_open pe st cl" "F_file_request b 4 p"
  shows "\<exists>t. PE_HandlePacket stale p b cl = (Inr (), t) \<and> file_open pe (hs_close st) t \<and>
    siMainframe t = siMainframe cl \<and> siHostFiles t = siHostFiles cl"
proof -
  let ?cl = "cl\<lparr>siIopPeripheral := Some (pe\<lparr>peFile := hs_close st\<rparr>), siHostFiles := siHostFiles cl, siMainframe := siMainframe cl\<rparr>"
  obtain t where t: "PE_SendPacket (F_reply F_OK p) b ?cl = (Inr (), t)" "same_devices ?cl t"
    using PE_Send_returns by blast
  have "F_CLS p b cl = (Inr (), t)"
    using assms t(1)
    by (simp add: F_CLS_def F_file_request_def Let_def f_codes PE_on_stream_def file_open_def PE_close_def bindE_def F_answer_def)
  then have "PE_HandlePacket stale p b cl = (Inr (), t)"
    using assms F_request_length[OF assms(2)] by (simp add: PE_HandlePacket_def file_open_def F_file_request_def Let_def)
  with t(2) show ?thesis by (auto simp: same_devices_def file_open_def)
qed

text \<open>Of a write the first buffer counts, whatever the function code.\<close>

lemma F_writes:
  assumes "file_open pe st cl" "F_file_request b fn p" "fn \<in> {8, 9, 10}" "hs_writing path f (st, siHostFiles cl)"
  shows "\<exists>t st'. PE_HandlePacket stale p b cl = (Inr (), t) \<and> file_open pe st' t \<and> siMainframe t = siMainframe cl \<and>
    hs_writing path (f @ mem_bytes (ibAddr (F_buffers p ! 0)) (unat (ibDataLen (F_buffers p ! 0))) (siMainframe cl))
      (st', siHostFiles t) \<and> (\<forall>q. q \<noteq> path \<longrightarrow> siHostFiles t q = siHostFiles cl q)"
proof -
  let ?b0 = "F_buffers p ! 0" and ?b1 = "F_buffers p ! 1"
  obtain st' fs b' where w: "PE_Write_buffer ?b0 ((st, siHostFiles cl), siMainframe cl) = (Inr b', ((st', fs), siMainframe cl))"
    "hs_writing path (f @ mem_bytes (ibAddr ?b0) (unat (ibDataLen ?b0)) (siMainframe cl)) (st', fs)"
    "\<forall>q. q \<noteq> path \<longrightarrow> fs q = siHostFiles cl q"
    using PE_Write_appends[OF assms(4), of ?b0 "siMainframe cl"] by auto
  let ?cl = "cl\<lparr>siIopPeripheral := Some (pe\<lparr>peFile := st'\<rparr>), siHostFiles := fs, siMainframe := siMainframe cl\<rparr>"
  obtain t where t: "PE_SendPacket (F_transfer_reply [b', ?b1] p) b ?cl = (Inr (), t)" "same_devices ?cl t"
    using PE_Send_returns by blast
  have two: "F_buffers p = [?b0, ?b1]" by (simp add: F_buffers_def)
  have "PE_Write (Suc 0) (F_buffers p) ((st, siHostFiles cl), siMainframe cl) = (Inr [b', ?b1], ((st', fs), siMainframe cl))"
    unfolding PE_Write_def by (subst two) (use w(1) in \<open>simp add: bindE_def\<close>)
  moreover have "(if GetBits (p ! 0) 8 15 = 7 then 2 else 1 :: nat) = Suc 0"
    using assms(2,3) by (auto simp: F_file_request_def)
  ultimately have "F_WR p b cl = (Inr (), t)"
    using assms(1,2) t(1)
    by (simp add: F_WR_def F_file_request_def Let_def f_codes PE_on_stream_def file_open_def bindE_def)
  then have "PE_HandlePacket stale p b cl = (Inr (), t)"
    using assms(1-3) F_request_length[OF assms(2)]
    by (auto simp: PE_HandlePacket_def file_open_def F_file_request_def Let_def)
  with t(2) w(2,3) show ?thesis by (auto simp: same_devices_def file_open_def)
qed

lemma F_reads:
  assumes "file_open pe st cl" "F_file_request b fn p" "fn \<in> {5, 6}" "hs_reading path pos f (st, siHostFiles cl)"
    and "unat (ibDataLen (F_buffers p ! 0)) = 8 * n" "0 < n" "pos + 8 * n \<le> length f"
  shows "\<exists>t st'. PE_HandlePacket stale p b cl = (Inr (), t) \<and> file_open pe st' t \<and> siHostFiles t = siHostFiles cl \<and>
    siMainframe t = put_words (ibAddr (F_buffers p ! 0)) n pos f (siMainframe cl) \<and>
    hs_reading path (pos + 8 * n) f (st', siHostFiles t)"
proof -
  let ?b0 = "F_buffers p ! 0" and ?b1 = "F_buffers p ! 1"
  let ?mf = "put_words (ibAddr ?b0) n pos f (siMainframe cl)"
  obtain st' b' where w: "PE_Read_buffer stale ?b0 ((st, siHostFiles cl), siMainframe cl) = (Inr b', ((st', siHostFiles cl), ?mf))"
    "hs_reading path (pos + 8 * n) f (st', siHostFiles cl)"
    using PE_Read_words[OF assms(4,7,5,6), of stale "siMainframe cl"] by auto
  let ?cl = "cl\<lparr>siIopPeripheral := Some (pe\<lparr>peFile := st'\<rparr>), siHostFiles := siHostFiles cl, siMainframe := ?mf\<rparr>"
  obtain t where t: "PE_SendPacket (F_transfer_reply [b', ?b1] p) b ?cl = (Inr (), t)" "same_devices ?cl t"
    using PE_Send_returns by blast
  have two: "F_buffers p = [?b0, ?b1]" by (simp add: F_buffers_def)
  have "PE_Read stale (Suc 0) (F_buffers p) ((st, siHostFiles cl), siMainframe cl) = (Inr [b', ?b1], ((st', siHostFiles cl), ?mf))"
    unfolding PE_Read_def by (subst two) (use w(1) in \<open>simp add: bindE_def\<close>)
  moreover have "(if GetBits (p ! 0) 8 15 = 7 then 2 else 1 :: nat) = Suc 0"
    using assms(2,3) by (auto simp: F_file_request_def)
  ultimately have "F_RD stale p b cl = (Inr (), t)"
    using assms(1,2) t(1)
    by (simp add: F_RD_def F_file_request_def Let_def f_codes PE_on_stream_def file_open_def bindE_def)
  then have "PE_HandlePacket stale p b cl = (Inr (), t)"
    using assms(1-3) F_request_length[OF assms(2)]
    by (auto simp: PE_HandlePacket_def file_open_def F_file_request_def Let_def)
  with t(2) w(2) show ?thesis by (auto simp: same_devices_def file_open_def)
qed

section \<open>Files come back\<close>

lemma mem_bytes_words: "mem_bytes a (8 * n) mf = image_words (\<lambda>k. MemRead (a + of_nat k) mf) n"
  by (simp add: mem_bytes_def)

lemma put_image_words: "put_words b n 0 (image_words v n) mf = for_loop 0 n (\<lambda>k. MemWrite (b + of_nat k) (v k)) mf"
proof -
  have "file_read (8 * k) 8 (image_words v n) = bytes_of_word (v k)" if "k < n" for k
    using image_words_nth[OF that, of v] by (simp add: file_read_def)
  then show ?thesis unfolding put_words_def for_loop_def by (intro fold_cong) simp_all
qed

text \<open>The fields of the packets: the address and the length of the first buffer.\<close>

abbreviation F_addr :: "packet \<Rightarrow> uint32" where "F_addr p \<equiv> ibAddr (F_buffers p ! 0)"
abbreviation F_len :: "packet \<Rightarrow> nat" where "F_len p \<equiv> unat (ibDataLen (F_buffers p ! 0))"

text \<open>C22: A file that a guest writes through the simulated I/O subsystem is the file it reads. When
  the guest opens a file for writing (a new one, or an old one to overwrite), writes \<open>n\<close> words from
  its memory and closes it, and later opens the same name for reading and reads \<open>n\<close> words, every
  request succeeds, every word comes back at the address the read names, whatever the memory held
  by then, no other word of the memory changes, the host file holds exactly the bytes written, and
  the other host files are untouched. This holds for the packets of both models.\<close>

theorem sim_file_roundtrip:
  assumes "file_open pe st cl" "hsPath st = None" "0 < n" "unat (F_addr rd) + n \<le> 2 ^ 29"
    and "F_file_request b 32 ow" "GetBits (ow ! 5) 56 63 \<noteq> 0"
    and "GetBits (ow ! 5) 48 55 \<noteq> 0 \<or> siHostFiles cl (F_path ow b pe) = None"
    and "F_file_request b 8 wr" "F_len wr = 8 * n" "F_file_request b 4 cs"
    and "F_file_request b 32 orr" "GetBits (orr ! 5) 56 63 = 0" "F_path orr b pe = F_path ow b pe"
    and "F_file_request b 5 rd" "F_len rd = 8 * n"
  shows "\<exists>cl1 cl2 cl3 cl4 cl5.
      PE_HandlePacket stale ow b cl = (Inr (), cl1) \<and> PE_HandlePacket stale wr b cl1 = (Inr (), cl2) \<and>
      PE_HandlePacket stale cs b cl2 = (Inr (), cl3) \<and>
      PE_HandlePacket stale orr b (cl3\<lparr>siMainframe := mf\<rparr>) = (Inr (), cl4) \<and>
      PE_HandlePacket stale rd b cl4 = (Inr (), cl5) \<and>
      (\<forall>k<n. MemRead (F_addr rd + of_nat k) (siMainframe cl5) = MemRead (F_addr wr + of_nat k) (siMainframe cl)) \<and>
      (\<forall>x. unat x < 2 ^ 29 \<and> (unat x < unat (F_addr rd) \<or> unat (F_addr rd) + n \<le> unat x) \<longrightarrow>
         MemRead x (siMainframe cl5) = MemRead x mf) \<and>
      siHostFiles cl5 = (siHostFiles cl)(F_path ow b pe \<mapsto> mem_bytes (F_addr wr) (8 * n) (siMainframe cl))"
proof -
  let ?p = "F_path ow b pe" and ?v = "\<lambda>k. MemRead (F_addr wr + of_nat k) (siMainframe cl)"
  let ?d = "image_words ?v n"
  obtain cl1 st1 where 1: "PE_HandlePacket stale ow b cl = (Inr (), cl1)" "file_open pe st1 cl1"
    "siMainframe cl1 = siMainframe cl" "hs_open OpenOut ?p (st, siHostFiles cl) = (st1, siHostFiles cl1)"
    using F_opens[OF assms(1,2,5), of stale] assms(6,7) by auto
  have w1: "hs_writing ?p [] (st1, siHostFiles cl1)" using hs_open_out[OF assms(2), of ?p "siHostFiles cl"] 1(4) by simp
  have "siHostFiles cl1 = (siHostFiles cl)(?p \<mapsto> [])" using 1(4) assms(2) by (auto simp: hs_open_def)
  then have o1: "siHostFiles cl1 q = siHostFiles cl q" if "q \<noteq> ?p" for q using that by simp
  have eight: "8 \<in> {8, 9, 10 :: CInt_t}" "5 \<in> {5, 6 :: CInt_t}" by simp_all
  obtain cl2 st2 where 2: "PE_HandlePacket stale wr b cl1 = (Inr (), cl2)" "file_open pe st2 cl2"
    "hs_writing ?p ?d (st2, siHostFiles cl2)" "\<forall>q. q \<noteq> ?p \<longrightarrow> siHostFiles cl2 q = siHostFiles cl1 q"
    using F_writes[OF 1(2) assms(8) eight(1) w1, of stale] by (auto simp: assms(9) mem_bytes_words 1(3))
  obtain cl3 where 3: "PE_HandlePacket stale cs b cl2 = (Inr (), cl3)" "file_open pe (hs_close st2) cl3"
    "siHostFiles cl3 = siHostFiles cl2"
    using F_closes[OF 2(2) assms(10), of stale] by blast
  let ?cl = "cl3\<lparr>siMainframe := mf\<rparr>"
  have closed: "hsPath (hs_close st2) = None" and held: "siHostFiles ?cl ?p = Some ?d"
    using 2(3) 3(3) by (auto simp: hs_close_def hs_writing_def)
  obtain cl4 st4 where 4: "PE_HandlePacket stale orr b ?cl = (Inr (), cl4)" "file_open pe st4 cl4"
    "siMainframe cl4 = mf" "hs_open OpenIn ?p (hs_close st2, siHostFiles ?cl) = (st4, siHostFiles cl4)"
    using F_opens[OF file_open_frame[OF 3(2)] closed assms(11), of mf stale] held by (auto simp: assms(12,13))
  have r4: "hs_reading ?p 0 ?d (st4, siHostFiles cl4)"
    using hs_open_in[of "hs_close st2" "siHostFiles ?cl" ?p ?d, OF closed held] 4(4) by simp
  have fits: "0 + 8 * n \<le> length ?d" by simp
  obtain cl5 where 5: "PE_HandlePacket stale rd b cl4 = (Inr (), cl5)" "siHostFiles cl5 = siHostFiles cl4"
    "siMainframe cl5 = for_loop 0 n (\<lambda>k. MemWrite (F_addr rd + of_nat k) (?v k)) mf"
    using F_reads[OF 4(2) assms(14) eight(2) r4 assms(15,3) fits, of stale] by (auto simp: put_image_words 4(3))
  have "siHostFiles cl4 = siHostFiles cl2" using 4(4) 3(3) by (auto simp: hs_open_def split: if_splits)
  then have "siHostFiles cl5 = (siHostFiles cl)(?p \<mapsto> mem_bytes (F_addr wr) (8 * n) (siMainframe cl))"
    using 2(3,4) o1 5(2) by (auto simp: fun_eq_iff hs_writing_def mem_bytes_words)
  moreover have "\<forall>k<n. MemRead (F_addr rd + of_nat k) (siMainframe cl5) = ?v k"
    unfolding 5(3) using copied_words(1)[OF assms(4), of _ ?v mf] by blast
  moreover have "\<forall>x. unat x < 2 ^ 29 \<and> (unat x < unat (F_addr rd) \<or> unat (F_addr rd) + n \<le> unat x) \<longrightarrow>
      MemRead x (siMainframe cl5) = MemRead x mf"
    unfolding 5(3) using copied_words(2)[OF assms(4), of _ ?v mf] by blast
  ultimately show ?thesis using 1(1) 2(1) 3(1) 4(1) 5(1) by (intro exI conjI)
qed

definition sample_periph :: SimIopPeripheral_c where
  "sample_periph = \<lparr>pePrinterFile = closed_stream, peTapeFile = closed_stream, peDiskFile = closed_stream,
     peFile = closed_stream, pePrinterFileName = ascii ''lp'', peDiskDir = ascii ''ex'', peTapeDir = ascii ''tapes'',
     peLastTapeFile = 0, peRewindOnClose = True\<rparr>"

definition sample_file_packet :: "CInt_t \<Rightarrow> CInt_t \<Rightarrow> CInt_t \<Rightarrow> CInt_t \<Rightarrow> packet" where
  "sample_file_packet fn addr len flags =
     [push_bit 8 fn + 0x3b0000, 0, push_bit 32 addr, push_bit 32 len, 0, push_bit 56 flags]"

lemma sample_file_requests:
  "F_file_request False 32 (sample_file_packet 32 0 0 f)" "F_file_request False 4 (sample_file_packet 4 0 0 f)"
  "F_file_request False 8 (sample_file_packet 8 a l f)" "F_file_request False 5 (sample_file_packet 5 a l f)"
  by (simp_all add: F_file_request_def sample_file_packet_def GetBits_def f_codes del: mask_8_bits)

lemma sample_file_buffers:
  "F_addr (sample_file_packet 8 100 24 0) = 100" "F_addr (sample_file_packet 5 200 24 0) = 200"
  "F_len (sample_file_packet 8 100 24 0) = 24" "F_len (sample_file_packet 5 200 24 0) = 24"
  by (simp_all add: sample_file_packet_def F_buffers_def GetBits_def del: mask_8_bits)

lemma sample_file_flags:
  "GetBits (sample_file_packet 32 0 0 1 ! 5) 56 63 \<noteq> 0" "GetBits (sample_file_packet 32 0 0 0 ! 5) 56 63 = 0"
  by (simp_all add: sample_file_packet_def GetBits_def del: mask_8_bits)

lemma no_text: "c_string (words_text [0, 0]) = []"
proof -
  have "SwapBytes64 0 = 0" by (simp add: SwapBytes64_def byte_of_def)
  then show ?thesis by (simp add: words_text_def bytes_of_word_def c_string_def upt_rec)
qed

lemma sample_file_path: "F_path (sample_file_packet 32 0 0 f) False sample_periph = ascii ''ex''"
proof -
  have "take 2 (drop 1 (sample_file_packet 32 0 0 f)) = [0, 0]" "take 2 (drop 3 (sample_file_packet 32 0 0 f)) = [0, 0]"
    by (simp_all add: sample_file_packet_def eval_nat_numeral)
  then show ?thesis unfolding F_path_def by (simp only: no_text) (simp add: path_append_def sample_periph_def)
qed

theorem sim_file_roundtrip_witness:
  "\<exists>cl cl1 cl2 cl3 cl4 cl5. cl = (sample_sim_cluster IOSD)\<lparr>siIopPeripheral := Some sample_periph\<rparr> \<and>
     PE_HandlePacket (\<lambda>_ _. 0) (sample_file_packet 32 0 0 1) False cl = (Inr (), cl1) \<and>
     PE_HandlePacket (\<lambda>_ _. 0) (sample_file_packet 8 100 24 0) False cl1 = (Inr (), cl2) \<and>
     PE_HandlePacket (\<lambda>_ _. 0) (sample_file_packet 4 0 0 0) False cl2 = (Inr (), cl3) \<and>
     PE_HandlePacket (\<lambda>_ _. 0) (sample_file_packet 32 0 0 0) False (cl3\<lparr>siMainframe := sample_idle\<rparr>) = (Inr (), cl4) \<and>
     PE_HandlePacket (\<lambda>_ _. 0) (sample_file_packet 5 200 24 0) False cl4 = (Inr (), cl5) \<and>
     MemRead 202 (siMainframe cl5) = MemRead 102 (siMainframe cl)"
proof -
  let ?cl = "(sample_sim_cluster IOSD)\<lparr>siIopPeripheral := Some sample_periph\<rparr>"
  note s = sample_file_buffers
  have o: "file_open sample_periph closed_stream ?cl" by (simp add: file_open_def sample_periph_def)
  have c: "hsPath closed_stream = None" by (simp add: closed_stream_def)
  have f: "GetBits (sample_file_packet 32 0 0 1 ! 5) 48 55 \<noteq> 0 \<or>
      siHostFiles ?cl (F_path (sample_file_packet 32 0 0 1) False sample_periph) = None"
    by (simp add: sample_sim_cluster_def)
  have a: "unat (F_addr (sample_file_packet 5 200 24 0)) + 3 \<le> 2 ^ 29" by (simp add: s)
  have l: "F_len (sample_file_packet 8 100 24 0) = 8 * 3" "F_len (sample_file_packet 5 200 24 0) = 8 * 3" by (simp_all add: s)
  have p: "F_path (sample_file_packet 32 0 0 0) False sample_periph = F_path (sample_file_packet 32 0 0 1) False sample_periph"
    by (simp only: sample_file_path)
  obtain cl1 cl2 cl3 cl4 cl5 where run:
    "PE_HandlePacket (\<lambda>_ _. 0) (sample_file_packet 32 0 0 1) False ?cl = (Inr (), cl1)"
    "PE_HandlePacket (\<lambda>_ _. 0) (sample_file_packet 8 100 24 0) False cl1 = (Inr (), cl2)"
    "PE_HandlePacket (\<lambda>_ _. 0) (sample_file_packet 4 0 0 0) False cl2 = (Inr (), cl3)"
    "PE_HandlePacket (\<lambda>_ _. 0) (sample_file_packet 32 0 0 0) False (cl3\<lparr>siMainframe := sample_idle\<rparr>) = (Inr (), cl4)"
    "PE_HandlePacket (\<lambda>_ _. 0) (sample_file_packet 5 200 24 0) False cl4 = (Inr (), cl5)"
    and copied: "\<forall>k<3. MemRead (F_addr (sample_file_packet 5 200 24 0) + of_nat k) (siMainframe cl5) =
      MemRead (F_addr (sample_file_packet 8 100 24 0) + of_nat k) (siMainframe ?cl)"
    using sim_file_roundtrip[where stale = "\<lambda>_ _. 0" and mf = sample_idle, OF o c _ a sample_file_requests(1) sample_file_flags(1) f
      sample_file_requests(3) l(1) sample_file_requests(2)[of 0] sample_file_requests(1) sample_file_flags(2) p sample_file_requests(4) l(2)] by auto
  have "MemRead 202 (siMainframe cl5) = MemRead 102 (siMainframe ?cl)" using copied[rule_format, of 2] by (simp add: s)
  with run show ?thesis by blast
qed

section \<open>Tapes\<close>

lemma PE_answer_periph: "siIopPeripheral (snd (F_answer st p b cl)) = siIopPeripheral cl"
  using PE_Send_returns[of "F_reply st p" b cl] by (auto simp: F_answer_def same_devices_def)

text \<open>
  An open request for a tape opens the stream of the files. The stream of the tapes stays closed,
  so that every write to a tape ends in a failed assertion.
\<close>

theorem tape_stream_never_opened:
  assumes "siIopPeripheral cl = Some pe" "p \<noteq> []" "GetBits (p ! 0) 8 15 = 3" "PE_HandlePacket stale p b cl = (r, t)"
  shows "\<exists>pe'. siIopPeripheral t = Some pe' \<and> peTapeFile pe' = peTapeFile pe"
proof -
  have a: "siIopPeripheral t = siIopPeripheral u" if "F_answer c p b u = (r, t)" for c u
    using PE_answer_periph[of c p b u] that by simp
  have "F_OPN p b pe cl = (r, t)" using assms by (simp add: PE_HandlePacket_def Let_def)
  then show ?thesis
    using assms(1)
    by (auto simp: F_OPN_def F_OPN_tape_def Let_def PE_on_stream_def PE_open_def bindE_def upd_periph_def
        dest!: a split: if_splits prod.splits)
qed

theorem tape_write_fails:
  assumes "siIopPeripheral cl = Some pe" "peTapeFile pe = closed_stream" "5 \<le> length p"
    and "GetBits (p ! 0) 8 15 \<in> {8, 9, 10}" "GetBits (p ! 0) 16 21 = F_Tape" "ibDataLen (F_buffers p ! 0) \<noteq> 0"
  shows "fst (PE_HandlePacket stale p b cl) = Inl AssertError"
proof -
  let ?b = "F_buffers p ! 0" and ?s = "((closed_stream, siHostFiles cl), siMainframe cl)"
  have "0 < unat (ibDataLen ?b)" using assms(6) by (simp add: unat_gt_0)
  then have lines: "[0..<PE_AccessSize ?b] = 0 # [Suc 0..<PE_AccessSize ?b]"
    by (subst upt_rec) (auto simp: PE_AccessSize_def)
  have "fst (PE_WriteLines (ibAddr ?b) [0..<PE_AccessSize ?b] (unat (ibDataLen ?b)) ?s) = Inl AssertError"
    unfolding lines by (simp add: hs_write_def closed_stream_def Let_def)
  then have "fst (PE_Write_buffer ?b ?s) = Inl AssertError"
    using assms(6) by (auto simp: PE_Write_buffer_def bindE_def split: prod.splits)
  moreover have "PE_Write (Suc 0) (F_buffers p) = PE_Write (Suc 0) [?b, F_buffers p ! 1]"
    by (rule arg_cong[where f = "PE_Write (Suc 0)"]) (simp add: F_buffers_def)
  ultimately have "fst (PE_Write (Suc 0) (F_buffers p) ?s) = Inl AssertError"
    by (auto simp: PE_Write_def split: prod.splits)
  moreover have "(if GetBits (p ! 0) 8 15 = 7 then 2 else 1 :: nat) = Suc 0" using assms(4) by auto
  ultimately have "fst (F_WR p b cl) = Inl AssertError"
    using assms(1,2,5) by (auto simp: F_WR_def Let_def f_codes PE_on_stream_def bindE_def split: prod.splits)
  moreover have "p \<noteq> []" using assms(3) by auto
  ultimately show ?thesis using assms(1,3,4) by (auto simp: PE_HandlePacket_def Let_def)
qed

end
