(* ===== verification/Sim_Network_Results.thy ===== *)
theory Sim_Network_Results
  imports Sim_Requests
begin

text \<open>
  What the network interfaces of the simulated I/O subsystem promise. The two rings in the memory
  of the mainframe are queues of frames, read off the memory by \<open>ring_frames\<close>: a wake-up sends
  the frames of the output ring in order and empties it, and a tick appends the next received frame
  to the input ring.
\<close>

section \<open>Rings as queues\<close>

text \<open>A word of a ring's header, and the frame in a slot.\<close>

definition header_word :: "CAddr_t \<Rightarrow> nat \<Rightarrow> memory \<Rightarrow> CInt_t" where
  "header_word Q i m = SwapBytes64 (load64 m (8 * (unat Q + i)))"

definition slot_base :: "CAddr_t \<Rightarrow> nat \<Rightarrow> nat" where
  "slot_base Q i = unat Q + 3 + 192 * i"

definition frame_size :: "CAddr_t \<Rightarrow> nat \<Rightarrow> memory \<Rightarrow> nat" where
  "frame_size Q i m = unat (GetBits (SwapBytes64 (load64 m (8 * slot_base Q i))) 0 31)"

definition frame_at :: "CAddr_t \<Rightarrow> nat \<Rightarrow> memory \<Rightarrow> bytes" where
  "frame_at Q i m = map (\<lambda>j. m (8 * slot_base Q i + 10 + j)) [0..<frame_size Q i m]"

definition ring_size :: "CAddr_t \<Rightarrow> memory \<Rightarrow> nat" where
  "ring_size Q m = unat (GetBits (header_word Q 2 m) 0 31)"

fun ring_slots :: "nat \<Rightarrow> nat \<Rightarrow> nat \<Rightarrow> nat list" where
  "ring_slots S i 0 = []"
| "ring_slots S i (Suc n) = i # ring_slots S ((i + 1) mod S) n"

definition ring_count :: "nat \<Rightarrow> nat \<Rightarrow> nat \<Rightarrow> nat" where
  "ring_count S r w = (if r \<le> w then w - r else w + S - r)"

definition ring_frames :: "CAddr_t \<Rightarrow> memory \<Rightarrow> bytes list" where
  "ring_frames Q m =
     (let S = ring_size Q m; r = unat (header_word Q 0 m); w = unat (header_word Q 1 m)
      in map (\<lambda>i. frame_at Q i m) (ring_slots S r (ring_count S r w)))"

text \<open>A ring that lies in the memory, with indices in range, and whose frames fit their slots.\<close>

definition ring_ok :: "CAddr_t \<Rightarrow> mainframe \<Rightarrow> bool" where
  "ring_ok Q mf \<longleftrightarrow>
     (let S = ring_size Q (mMemory mf) in
      unat (header_word Q 0 (mMemory mf)) < S \<and> unat (header_word Q 1 (mMemory mf)) < S \<and>
      slot_base Q S \<le> 2 ^ 29 \<and> 8 * slot_base Q S \<le> mMemorySize mf)"

definition frame_fits :: "bytes \<Rightarrow> bool" where
  "frame_fits p \<longleftrightarrow> 12 \<le> length p \<and> length p \<le> 1526"

lemma length_frame_at [simp]: "length (frame_at Q i m) = frame_size Q i m"
  by (simp add: frame_at_def)

lemma ring_slots_less: "i < S \<Longrightarrow> j \<in> set (ring_slots S i n) \<Longrightarrow> j < S"
  by (induction S i n rule: ring_slots.induct) auto

lemma ring_slots_snoc: "i < S \<Longrightarrow> ring_slots S i (Suc n) = ring_slots S i n @ [(i + n) mod S]"
proof (induction n arbitrary: i)
  case (Suc n)
  have "(i + 1) mod S < S" using Suc.prems by simp
  from Suc.IH[OF this] have "ring_slots S ((i + 1) mod S) (Suc n) =
      ring_slots S ((i + 1) mod S) n @ [((i + 1) mod S + n) mod S]" .
  moreover have "((i + 1) mod S + n) mod S = (i + Suc n) mod S" by (simp add: mod_add_left_eq)
  ultimately show ?case by simp
qed simp

lemma ring_count_step:
  assumes "r < S" "w < S" "r \<noteq> w"
  shows "ring_count S r w = Suc (ring_count S ((r + 1) mod S) w)"
proof (cases "r + 1 = S")
  case True
  with assms show ?thesis by (auto simp: ring_count_def)
next
  case False
  with assms show ?thesis by (auto simp: ring_count_def mod_less)
qed

lemma ring_count_append:
  assumes "r < S" "w < S" "(w + 1) mod S \<noteq> r"
  shows "ring_count S r ((w + 1) mod S) = Suc (ring_count S r w)" "(r + ring_count S r w) mod S = w"
    "ring_count S r w < S"
proof -
  show "ring_count S r ((w + 1) mod S) = Suc (ring_count S r w)"
    using assms by (cases "w + 1 = S") (auto simp: ring_count_def)
  show "(r + ring_count S r w) mod S = w" using assms(1,2) by (auto simp: ring_count_def)
  show "ring_count S r w < S" using assms(1,2) by (auto simp: ring_count_def)
qed

section \<open>Addresses\<close>

lemma unat_next_index:
  fixes Size Idx :: uint64
  assumes "unat Idx < unat Size"
  shows "unat ((Idx + 1) mod Size) = (unat Idx + 1) mod unat Size"
proof -
  have "unat Size < 2 ^ LENGTH(64)" by (rule unsigned_less)
  then have "unat Idx + 1 < 2 ^ 64" using assms by simp
  then have "unat (Idx + 1) = unat Idx + 1" by (subst unat_add_lem[THEN iffD1]) simp_all
  then show ?thesis by (simp add: unat_mod_distrib)
qed

lemma unat_ring_slot:
  assumes "slot_base Q S \<le> 2 ^ 29" "unat idx < S"
  shows "unat (ring_slot Q idx) = slot_base Q (unat idx)"
proof -
  have small: "unat idx * 1536 < 2 ^ 64" "unat Q + 3 + 192 * unat idx < 2 ^ 29"
    using assms by (auto simp: slot_base_def)
  have "unat (idx * cEtherPacketSize div 8) = unat (idx * cEtherPacketSize) div 8" by (simp add: unat_div_distrib)
  also have "unat (idx * cEtherPacketSize) = unat idx * 1536"
    using small(1) by (subst unat_mult_lem[THEN iffD1]) (simp_all add: cEtherPacketSize_def)
  finally have i: "unat (idx * cEtherPacketSize div 8) = 192 * unat idx" by simp
  have "ucast (idx * cEtherPacketSize div 8) = (of_nat (unat (idx * cEtherPacketSize div 8)) :: CAddr_t)"
    by (simp only: of_nat_unat)
  then have "ucast (idx * cEtherPacketSize div 8) = (of_nat (192 * unat idx) :: CAddr_t)" unfolding i .
  then have "ring_slot Q idx = Q + of_nat (3 + 192 * unat idx)" by (simp add: ring_slot_def add.assoc)
  then show ?thesis using small(2) by (simp only:) (subst unat_plus_of_nat; simp add: slot_base_def)
qed

lemma slot_base_mono: "i \<le> j \<Longrightarrow> slot_base Q i \<le> slot_base Q j"
  by (simp add: slot_base_def)

lemma slot_base_Suc: "slot_base Q (Suc i) = slot_base Q i + 192"
  by (simp add: slot_base_def)

lemma read_bytes_eq:
  assumes "unat a + n \<le> mMemorySize mf" "unat a + n \<le> 2 ^ 32"
  shows "read_bytes a n mf = (Inr (map (\<lambda>j. mMemory mf (unat a + j)) [0..<n]), mf)"
  using assms
proof (induction n arbitrary: a)
  case (Suc n)
  have a: "n \<noteq> 0 \<Longrightarrow> unat (a + 1) = unat a + 1" using Suc.prems(2) unat_plus_of_nat[of a 1] by simp
  have "map (\<lambda>j. mMemory mf (unat a + j)) [0..<Suc n] =
      mMemory mf (unat a) # map (\<lambda>j. mMemory mf (unat a + 1 + j)) [0..<n]"
    by (rule nth_equalityI) (auto simp: nth_Cons' nth_append less_Suc_eq)
  moreover have "read_bytes (a + 1) n mf = (Inr (map (\<lambda>j. mMemory mf (unat a + 1 + j)) [0..<n]), mf)"
    using Suc.IH[of "a + 1"] Suc.prems by (cases n) (simp_all add: a del: upt_Suc)
  ultimately show ?case using Suc.prems(1) by (simp add: MemReadNoWatchpoint8_def bindE_def del: upt_Suc)
qed simp

lemma ring_word_eq:
  "8 * unat a < mMemorySize (siMainframe cl) \<Longrightarrow>
     ring_word a cl = (Inr (SwapBytes64 (load64 (mMemory (siMainframe cl)) (8 * unat a))), cl)"
  by (simp add: ring_word_def bindE_def on_sim_mainframe_def MemReadNoWatchpoint_def returnE_def mult.commute)

lemma ring_header_words:
  assumes "unat Q + 3 \<le> 2 ^ 29" "8 * (unat Q + 3) \<le> mMemorySize (siMainframe cl)"
  shows "ring_word (Q + 0) cl = (Inr (header_word Q 0 (mMemory (siMainframe cl))), cl)"
    "ring_word (Q + 1) cl = (Inr (header_word Q 1 (mMemory (siMainframe cl))), cl)"
    "ring_word (Q + 2) cl = (Inr (header_word Q 2 (mMemory (siMainframe cl))), cl)"
proof -
  have "unat (Q + 1) = unat Q + 1" "unat (Q + 2) = unat Q + 2"
    using assms(1) unat_plus_of_nat[of Q 1] unat_plus_of_nat[of Q 2] by simp_all
  with assms(2) show "ring_word (Q + 0) cl = (Inr (header_word Q 0 (mMemory (siMainframe cl))), cl)"
    "ring_word (Q + 1) cl = (Inr (header_word Q 1 (mMemory (siMainframe cl))), cl)"
    "ring_word (Q + 2) cl = (Inr (header_word Q 2 (mMemory (siMainframe cl))), cl)"
    by (simp_all add: ring_word_eq header_word_def)
qed

lemma DumpMem_ok:
  assumes "unat a + n \<le> 2 ^ 29" "8 * (unat a + n) \<le> mMemorySize (siMainframe cl)"
  shows "DumpMem a n cl = (Inr (), cl)"
proof -
  have u: "unat (a + of_nat n) = unat a + n" using assms(1) by (intro unat_plus_of_nat) simp
  have "a < a + of_nat n \<Longrightarrow> 0 < n" by (cases n) simp_all
  moreover have "0 < n \<Longrightarrow> (unat a + n - 1) * 8 < 8 * (unat a + n)" by simp
  ultimately have "a < a + of_nat n \<Longrightarrow> (unat a + n - 1) * 8 < mMemorySize (siMainframe cl)"
    using assms(2) less_le_trans by blast
  then show ?thesis by (auto simp: DumpMem_def Let_def u)
qed

lemma ring_ok_parts:
  assumes "ring_ok Q mf"
  shows "slot_base Q (ring_size Q (mMemory mf)) \<le> 2 ^ 29" "8 * slot_base Q (ring_size Q (mMemory mf)) \<le> mMemorySize mf"
    "unat (header_word Q 0 (mMemory mf)) < ring_size Q (mMemory mf)"
    "unat (header_word Q 1 (mMemory mf)) < ring_size Q (mMemory mf)"
    "unat Q + 3 \<le> 2 ^ 29" "8 * (unat Q + 3) \<le> mMemorySize mf"
  using assms by (auto simp: ring_ok_def Let_def slot_base_def)

section \<open>Sending\<close>

definition sent_frame :: "nat \<Rightarrow> bytes \<Rightarrow> SimIopCluster_c \<Rightarrow> SimIopCluster_c" where
  "sent_frame k f = upd_eth k (\<lambda>e. upd_thread (\<lambda>th. th\<lparr>pcSent := pcSent th @ [patch_src_mac (enSimMacAddr e) f]\<rparr>)
     (e\<lparr>enPacketsSent := enPacketsSent e + 1, enBytesSent := enBytesSent e + of_nat (length f)\<rparr>))"

lemma Tx_step:
  assumes "enPacketCaptureThread (eth cl k) \<noteq> None" "enCpOutQAddr (eth cl k) = Q" "ring_ok Q (siMainframe cl)"
    and "unat idx < ring_size Q (mMemory (siMainframe cl))" "frame_fits (frame_at Q (unat idx) (mMemory (siMainframe cl)))"
  shows "Eth_HandleTxPacket k idx cl = (Inr (), sent_frame k (frame_at Q (unat idx) (mMemory (siMainframe cl))) cl)"
proof -
  let ?m = "mMemory (siMainframe cl)" and ?B = "slot_base Q (unat idx)" and ?n = "frame_size Q (unat idx) (mMemory (siMainframe cl))"
  note ok = ring_ok_parts[OF assms(3)]
  have n: "12 \<le> ?n" "?n \<le> 1526" using assms(5) by (simp_all add: frame_fits_def)
  have fit: "?B + 192 \<le> 2 ^ 29" "8 * (?B + 192) \<le> mMemorySize (siMainframe cl)"
    using ok(1,2) slot_base_mono[of "Suc (unat idx)" _ Q, OF Suc_leI[OF assms(4)]] by (simp_all add: slot_base_Suc)
  have base: "unat (ring_slot Q idx) = ?B" by (rule unat_ring_slot[OF ok(1) assms(4)])
  have start: "unat (ring_slot Q idx + 1) = ?B + 1"
    using fit(1) unat_plus_of_nat[of "ring_slot Q idx" 1] by (simp add: base)
  have bytes: "unat ((ring_slot Q idx + 1) * 8 + 2) = 8 * ?B + 10"
  proof -
    have "unat ((ring_slot Q idx + 1) * 8) = 8 * (?B + 1)" using fit(1) by (subst unat_times_8) (simp_all add: start)
    then show ?thesis using fit(1) unat_plus_of_nat[of "(ring_slot Q idx + 1) * 8" 2] by simp
  qed
  have head: "ring_word (ring_slot Q idx) cl = (Inr (SwapBytes64 (load64 ?m (8 * ?B))), cl)"
    using fit(2) by (subst ring_word_eq) (simp_all add: base)
  let ?s = "ucast (GetBits (SwapBytes64 (load64 ?m (8 * ?B))) 0 31) :: uint32"
  have size: "unat ?s = ?n"
    using n(2) by (simp add: frame_size_def unsigned_ucast_eq unsigned_take_bit_eq take_bit_nat_eq_self)
  have "unat (?s + 2 + 7) = ?n + 9"
    using unat_plus_of_nat[of ?s 9] n(2) by (simp add: size add.assoc)
  moreover have "(?n + 9) div 8 \<le> 191" using n(2) by simp
  ultimately have dump: "DumpMem (ring_slot Q idx + 1) (unat (?s + 2 + 7) div 8) cl = (Inr (), cl)"
    using fit by (intro DumpMem_ok) (simp_all add: start)
  have data: "read_bytes ((ring_slot Q idx + 1) * 8 + 2) ?n (siMainframe cl) = (Inr (frame_at Q (unat idx) ?m), siMainframe cl)"
  proof -
    have "8 * ?B + 10 + ?n \<le> mMemorySize (siMainframe cl)" "8 * ?B + 10 + ?n \<le> 2 ^ 32" using n(2) fit by simp_all
    then show ?thesis
      unfolding frame_at_def using read_bytes_eq[of "(ring_slot Q idx + 1) * 8 + 2" ?n "siMainframe cl"] by (simp only: bytes)
  qed
  have count: "?s = of_nat ?n" using size by (metis of_nat_unat ucast_id)
  show ?thesis
    unfolding Eth_HandleTxPacket_def Let_def assms(2) bindE_def on_sim_mainframe_def
    by (simp only: assms(1) head dump size data prod.case sum.case if_False)
      (use n(1) in \<open>simp add: sent_frame_def count\<close>)
qed

text \<open>A whole round of the loop.\<close>

lemma eth_upd_eth [simp]: "k < length (siEthInterfaces cl) \<Longrightarrow> eth (upd_eth k f cl) k = f (eth cl k)"
  by (simp add: upd_eth_def)

lemma upd_eth_frame [simp]:
  "siMainframe (upd_eth k f cl) = siMainframe cl" "length (siEthInterfaces (upd_eth k f cl)) = length (siEthInterfaces cl)"
  "siIopRevision (upd_eth k f cl) = siIopRevision cl"
  by (simp_all add: upd_eth_def)

definition eth_ready :: "nat \<Rightarrow> CAddr_t \<Rightarrow> SimIopCluster_c \<Rightarrow> bool" where
  "eth_ready k Q cl \<longleftrightarrow> k < length (siEthInterfaces cl) \<and> enPacketCaptureThread (eth cl k) \<noteq> None \<and>
     enCpOutQAddr (eth cl k) = Q"

lemma sent_frame_ready:
  assumes "eth_ready k Q cl"
  shows "eth_ready k Q (sent_frame k f cl)" "siMainframe (sent_frame k f cl) = siMainframe cl"
  using assms by (simp_all add: eth_ready_def sent_frame_def upd_thread_def)

lemma TxLoop_sends:
  assumes "eth_ready k Q cl" "ring_ok Q (siMainframe cl)" "ring_size Q (mMemory (siMainframe cl)) = unat Size"
    and "unat Idx < unat Size" "unat WrIdx < unat Size" "ring_count (unat Size) (unat Idx) (unat WrIdx) < n"
    and "\<And>i. i \<in> set (ring_slots (unat Size) (unat Idx) (ring_count (unat Size) (unat Idx) (unat WrIdx))) \<Longrightarrow>
      frame_fits (frame_at Q i (mMemory (siMainframe cl)))"
  shows "Eth_TxLoop n k Size Idx WrIdx b cl =
     (Inr (b \<or> Idx \<noteq> WrIdx), fold (sent_frame k) (map (\<lambda>i. frame_at Q i (mMemory (siMainframe cl)))
        (ring_slots (unat Size) (unat Idx) (ring_count (unat Size) (unat Idx) (unat WrIdx)))) cl)"
  using assms
proof (induction n arbitrary: Idx b cl)
  case (Suc n)
  let ?m = "mMemory (siMainframe cl)" and ?S = "unat Size"
  show ?case
  proof (cases "Idx = WrIdx")
    case True
    then show ?thesis by (simp add: ring_count_def)
  next
    case False
    then have ne: "unat Idx \<noteq> unat WrIdx" by (simp add: word_unat_eq_iff)
    let ?next = "(Idx + 1) mod Size" and ?cl = "sent_frame k (frame_at Q (unat Idx) (mMemory (siMainframe cl))) cl"
    note cnt = ring_count_step[OF Suc.prems(4,5) ne]
    have nx: "unat ?next = (unat Idx + 1) mod ?S" by (rule unat_next_index[OF Suc.prems(4)])
    have nz: "Size \<noteq> 0" using Suc.prems(4) by auto
    have lt: "unat ?next < ?S" using Suc.prems(4) by (simp add: nx)
    have tx: "Eth_HandleTxPacket k Idx cl = (Inr (), ?cl)"
      using Suc.prems(1-4) Suc.prems(7)[of "unat Idx"] cnt by (intro Tx_step) (auto simp: eth_ready_def)
    note fr = sent_frame_ready[OF Suc.prems(1), of "frame_at Q (unat Idx) ?m"]
    have slots: "ring_slots ?S (unat Idx) (ring_count ?S (unat Idx) (unat WrIdx)) =
        unat Idx # ring_slots ?S (unat ?next) (ring_count ?S (unat ?next) (unat WrIdx))"
      by (simp add: cnt nx)
    have "Eth_TxLoop n k Size ?next WrIdx True ?cl =
       (Inr (True \<or> ?next \<noteq> WrIdx), fold (sent_frame k) (map (\<lambda>i. frame_at Q i (mMemory (siMainframe ?cl)))
          (ring_slots ?S (unat ?next) (ring_count ?S (unat ?next) (unat WrIdx)))) ?cl)"
      by (rule Suc.IH) (use Suc.prems fr lt cnt slots nx in auto)
    then show ?thesis using False nz by (simp add: bindE_def tx slots fr(2))
  qed
qed simp

lemma fold_sent_frames:
  assumes "eth_ready k Q cl"
  shows "eth_ready k Q (fold (sent_frame k) fs cl)" "siMainframe (fold (sent_frame k) fs cl) = siMainframe cl"
    "enPacketCaptureThread (eth cl k) = Some th \<Longrightarrow> enPacketCaptureThread (eth (fold (sent_frame k) fs cl) k) =
       Some (th\<lparr>pcSent := pcSent th @ map (patch_src_mac (enSimMacAddr (eth cl k))) fs\<rparr>)"
    "enCpInQAddr (eth (fold (sent_frame k) fs cl) k) = enCpInQAddr (eth cl k)"
proof -
  have "eth_ready k Q (fold (sent_frame k) fs cl) \<and> siMainframe (fold (sent_frame k) fs cl) = siMainframe cl \<and>
    enCpInQAddr (eth (fold (sent_frame k) fs cl) k) = enCpInQAddr (eth cl k) \<and>
    (\<forall>th. enPacketCaptureThread (eth cl k) = Some th \<longrightarrow> enPacketCaptureThread (eth (fold (sent_frame k) fs cl) k) =
       Some (th\<lparr>pcSent := pcSent th @ map (patch_src_mac (enSimMacAddr (eth cl k))) fs\<rparr>))"
    using assms
  proof (induction fs arbitrary: cl)
    case (Cons f fs)
    have k: "k < length (siEthInterfaces cl)" using Cons.prems by (simp add: eth_ready_def)
    from Cons.IH[OF sent_frame_ready(1)[OF Cons.prems]] show ?case
      using sent_frame_ready(2)[OF Cons.prems] k by (auto simp: sent_frame_def upd_thread_def)
  qed simp
  then show "eth_ready k Q (fold (sent_frame k) fs cl)" "siMainframe (fold (sent_frame k) fs cl) = siMainframe cl"
    "enPacketCaptureThread (eth cl k) = Some th \<Longrightarrow> enPacketCaptureThread (eth (fold (sent_frame k) fs cl) k) =
       Some (th\<lparr>pcSent := pcSent th @ map (patch_src_mac (enSimMacAddr (eth cl k))) fs\<rparr>)"
    "enCpInQAddr (eth (fold (sent_frame k) fs cl) k) = enCpInQAddr (eth cl k)" by blast+
qed

text \<open>The message to the driver is always sent.\<close>

lemma EP_header_put_Data [simp]: "EP_header (EP_put_Data i v p) = EP_header p"
  by (simp add: EP_header_def EP_put_Data_def)

lemma EP_header_SetBitsInPlace [simp]: "EP_header (SetBitsInPlace i lo hi v p) = EP_header p"
  by (simp add: SetBitsInPlace_def)

lemma sleep_packet_length: "EP_GetLength (Eth_sleep_packet k ty ix cl) = 8"
proof -
  have "EP_GetLength (EP_SetSize 7 p) = 8" for p
    by (simp add: EP_SetSize_def EP_SetLength_def EP_GetLength_def EP_header_put resize_packet_def GetBits_SetBits_same)
  then show ?thesis by (simp add: Eth_sleep_packet_def Let_def EP_GetLength_def)
qed

definition same_eth :: "nat \<Rightarrow> SimIopCluster_c \<Rightarrow> SimIopCluster_c \<Rightarrow> bool" where
  "same_eth k s t \<longleftrightarrow> siMainframe t = siMainframe s \<and> length (siEthInterfaces t) = length (siEthInterfaces s) \<and>
     enPacketCaptureThread (eth t k) = enPacketCaptureThread (eth s k) \<and>
     enCpInQAddr (eth t k) = enCpInQAddr (eth s k) \<and> enCpOutQAddr (eth t k) = enCpOutQAddr (eth s k)"

text \<open>
  What a message to the driver says, on either revision: which driver (0x4331 and 0x4d), the
  channel, the status without error, the driver's own structure and buffer, the index and the
  type of the request. A model-E packet is also valid and carries the next sequence number.
\<close>

definition driver_told :: "SimIopCluster_c \<Rightarrow> nat \<Rightarrow> CInt_t \<Rightarrow> CInt_t \<Rightarrow> packet \<Rightarrow> bool" where
  "driver_told cl k ty ix r \<longleftrightarrow>
     (let w = (\<lambda>i. r ! (if siIopRevision cl = IOSE then i + 1 else i - 1)) in
      GetBits (w 1) 48 63 = 0x4331 \<and> GetBits (w 1) 32 47 = 0x4d \<and>
      GetBits (w 1) 16 21 = take_bit 6 (of_nat (enChannelId (eth cl k))) \<and> GetBits (w 1) 0 6 = MPST_OK \<and>
      GetBits (w 2) 0 31 = ucast (enDevStruct (eth cl k)) \<and> GetBits (w 2) 32 63 = ucast (enBufferPtr (eth cl k)) \<and>
      GetBits (w 3) 0 31 = take_bit 32 ix \<and> GetBits (w 3) 32 63 = take_bit 32 ty) \<and>
     (siIopRevision cl = IOSE \<longrightarrow> EP_IsValid r \<and> EP_GetSeq r = siSeqSent cl)"

lemma Data_SetBitsInPlace:
  "i + 1 < length p \<Longrightarrow> EP_Data i (SetBitsInPlace j lo hi v p) = (if i = j then SetBits (EP_Data i p) lo hi v else EP_Data i p)"
  by (simp add: SetBitsInPlace_def)

lemma ucast_field32: "take_bit 32 (ucast (x :: uint32) :: uint64) = ucast x"
  by (rule bit_word_eqI) (auto simp: bit_simps dest: bit_imp_le_length)

lemma ReversePacket_words:
  "ReversePacket (w # q) = SetBits (SetBits w 48 63 (GetBits w 32 47)) 32 47 (GetBits w 48 63) # q"
  by (simp add: ReversePacket_def Let_def GetBitsReverse_def SetBitsReverse_def GetBits_swap[of _ 63 48] GetBits_swap[of _ 47 32]
      SetBits_swap[of _ 63 48] SetBits_swap[of _ 47 32])

lemma sleep_packet_words:
  fixes k ty ix cl
  defines "p \<equiv> Eth_sleep_packet k ty ix cl"
  shows "length p = 8"
    "GetBits (EP_Data 1 p) 48 63 = (if siIopRevision cl = IOSE then 0x4331 else 0x4d)"
    "GetBits (EP_Data 1 p) 32 47 = (if siIopRevision cl = IOSE then 0x4d else 0x4331)"
    "GetBits (EP_Data 1 p) 16 21 = take_bit 6 (of_nat (enChannelId (eth cl k)))" "GetBits (EP_Data 1 p) 0 6 = MPST_OK"
    "GetBits (EP_Data 2 p) 0 31 = ucast (enDevStruct (eth cl k))" "GetBits (EP_Data 2 p) 32 63 = ucast (enBufferPtr (eth cl k))"
    "GetBits (EP_Data 3 p) 0 31 = take_bit 32 ix" "GetBits (EP_Data 3 p) 32 63 = take_bit 32 ty"
  by (simp_all add: p_def Eth_sleep_packet_def Let_def Data_SetBitsInPlace GetBits_SetBits_same GetBits_SetBits_other MPST_OK_def
      ucast_field32)

lemma eight_words: "length p = 8 \<Longrightarrow> \<exists>a b c d e x y z. p = [a, b, c, d, e, x, y, z]"
  by (auto simp: numeral_eq_Suc length_Suc_conv)

lemma sleep_packet_told:
  "siIopRevision cl = IOSE \<Longrightarrow> driver_told cl k ty ix (numbered (Eth_sleep_packet k ty ix cl) cl)"
  "siIopRevision cl = IOSD \<Longrightarrow> driver_told cl k ty ix (ReversePacket (take 6 (drop 2 (Eth_sleep_packet k ty ix cl))))"
proof -
  let ?p = "Eth_sleep_packet k ty ix cl"
  note p = sleep_packet_words[of k ty ix cl]
  have ne: "?p \<noteq> []" by (rule length_not_Nil[of _ 7]) (simp add: p(1))
  note n = numbered_packet[OF ne, unfolded p(1)]
  show "driver_told cl k ty ix (numbered ?p cl)" if "siIopRevision cl = IOSE"
    using n(1,2)[of cl] n(4)[of 1 cl] n(4)[of 2 cl] n(4)[of 3 cl] that p
    by (simp add: driver_told_def Let_def EP_Data_def)
  obtain a b w1 w2 w3 x y z where "?p = [a, b, w1, w2, w3, x, y, z]"
    using eight_words[OF p(1)] by blast
  then have at: "EP_Data 1 ?p = w1" "EP_Data 2 ?p = w2" "EP_Data 3 ?p = w3"
    "ReversePacket (take 6 (drop 2 ?p)) = SetBits (SetBits w1 48 63 (GetBits w1 32 47)) 32 47 (GetBits w1 48 63) # [w2, w3, x, y, z]"
    by (simp_all add: EP_Data_def ReversePacket_words)
  show "driver_told cl k ty ix (ReversePacket (take 6 (drop 2 ?p)))" if "siIopRevision cl = IOSD"
    unfolding at(4) using p(2-) that unfolding at(1-3)
    by (simp add: driver_told_def Let_def GetBits_SetBits_same GetBits_SetBits_other)
qed

lemma upd_eth_rest [simp]:
  "siSeqSent (upd_eth k f cl) = siSeqSent cl" "siSeqReceived (upd_eth k f cl) = siSeqReceived cl"
  "siIToCChannel (upd_eth k f cl) = siIToCChannel cl" "siIopRevision (upd_eth k f cl) = siIopRevision cl"
  by (simp_all add: upd_eth_def)

lemma sleep_packet_sent:
  assumes "k < length (siEthInterfaces cl)"
  shows "\<exists>t r. Eth_SendPacket k (Eth_sleep_packet k ty ix cl) cl = (Inr (), t) \<and> same_eth k cl t \<and>
     one_more cl r (siIToCChannel t) \<and> driver_told cl k ty ix r"
proof -
  let ?p = "Eth_sleep_packet k ty ix cl" and ?cl = "upd_eth k (\<lambda>e. e\<lparr>enCrayPacketsSent := enCrayPacketsSent e + 1\<rparr>) cl"
  have 1: "\<exists>t. SI_SendPacket ?p ?cl = (Inr (), t) \<and> same_eth k cl t \<and> one_more cl (numbered ?p cl) (siIToCChannel t)"
    using SendPacket_returns[of ?p ?cl] assms by (auto simp: same_eth_def one_more_def numbered_def)
  have 2: "\<exists>t. SI_QueuePacket q ?cl = (Inr (), t) \<and> same_eth k cl t \<and> one_more cl q (siIToCChannel t)" for q
    using QueuePacket_one_more[of q ?cl] assms by (auto simp: same_eth_def one_more_def)
  show ?thesis
    using 1 2[of "ReversePacket (take 6 (drop 2 ?p))"] sleep_packet_told[of cl k ty ix] sleep_packet_words(1)[of k ty ix cl]
    by (cases "siIopRevision cl") (auto simp: Eth_SendPacket_def Let_def sleep_packet_length)
qed

lemma DumpQueues_ok:
  assumes "unat (enCpInQAddr (eth cl k)) + 3 \<le> 2 ^ 29" "8 * (unat (enCpInQAddr (eth cl k)) + 3) \<le> mMemorySize (siMainframe cl)"
    and "unat (enCpOutQAddr (eth cl k)) + 3 \<le> 2 ^ 29" "8 * (unat (enCpOutQAddr (eth cl k)) + 3) \<le> mMemorySize (siMainframe cl)"
  shows "DumpQueues k cl = (Inr (), cl)"
  using assms by (simp add: DumpQueues_def bindE_def DumpMem_ok)

text \<open>Both rings of an interface lie in the memory.\<close>

definition rings_ok :: "nat \<Rightarrow> SimIopCluster_c \<Rightarrow> bool" where
  "rings_ok k cl \<longleftrightarrow> k < length (siEthInterfaces cl) \<and> ring_ok (enCpInQAddr (eth cl k)) (siMainframe cl) \<and>
     ring_ok (enCpOutQAddr (eth cl k)) (siMainframe cl)"

text \<open>The read index is set to the write index: the ring is empty.\<close>

lemma MemWrite_header:
  assumes "unat Q + 3 \<le> 2 ^ 29" "i < 3"
  shows "MemWrite (Q + of_nat i) (SwapBytes64 v) mf = mf\<lparr>mMemory := store64 (8 * (unat Q + i)) (SwapBytes64 v) (mMemory mf)\<rparr>"
proof -
  have "unat (Q + of_nat i) = unat Q + i" by (rule unat_plus_of_nat) (use assms in simp)
  moreover from this have "unat ((Q + of_nat i) * 8) = 8 * (unat Q + i)" using assms by (subst unat_times_8) simp_all
  ultimately show ?thesis by (simp add: MemWrite_def)
qed

lemma header_word_store:
  "header_word Q i (store64 (8 * (unat Q + j)) (SwapBytes64 v) m) = (if i = j then v else header_word Q i m)"
  by (cases i j rule: linorder_cases) (simp_all add: header_word_def load64_store64_other)

text \<open>The loop hands over all frames between the indices; then the read index is moved and the driver told.\<close>

lemma TxLoop_all:
  fixes cl k
  defines "Q \<equiv> enCpOutQAddr (eth cl k)" and "m \<equiv> mMemory (siMainframe cl)"
  defines "S \<equiv> GetBits (header_word Q 2 m) 0 31"
  assumes "eth_ready k Q cl" "ring_ok Q (siMainframe cl)" "list_all frame_fits (ring_frames Q m)"
  shows "Eth_TxLoop (Suc (unat S)) k S (header_word Q 0 m) (header_word Q 1 m) False cl =
    (Inr (header_word Q 0 m \<noteq> header_word Q 1 m), fold (sent_frame k) (ring_frames Q m) cl)"
proof -
  let ?r = "header_word Q 0 m" and ?w = "header_word Q 1 m"
  note parts = ring_ok_parts[OF assms(5), folded m_def]
  have S: "ring_size Q m = unat S" by (simp add: ring_size_def S_def)
  let ?n = "ring_count (unat S) (unat ?r) (unat ?w)"
  have frames: "ring_frames Q m = map (\<lambda>i. frame_at Q i m) (ring_slots (unat S) (unat ?r) ?n)"
    by (simp add: ring_frames_def Let_def S)
  have n: "?n < Suc (unat S)" using parts(3,4) by (auto simp: ring_count_def S)
  have fits: "frame_fits (frame_at Q i m)" if "i \<in> set (ring_slots (unat S) (unat ?r) ?n)" for i
    using assms(6) that by (auto simp: frames list_all_iff)
  show ?thesis
    unfolding frames using TxLoop_sends[OF assms(4,5), of S ?r ?w "Suc (unat S)" False, folded m_def, OF S _ _ n fits] parts(3,4)
    by (simp add: S)
qed

lemma HandleTxPackets_returns:
  fixes cl k
  defines "Q \<equiv> enCpOutQAddr (eth cl k)" and "m \<equiv> mMemory (siMainframe cl)"
  assumes "rings_ok k cl" "enPacketCaptureThread (eth cl k) = Some th" "list_all frame_fits (ring_frames Q m)"
  shows "\<exists>t. Eth_HandleTxPackets k cl = (Inr (), t) \<and> mMemory (siMainframe t) = store64 (8 * unat Q) (SwapBytes64 (header_word Q 1 m)) m \<and>
    enPacketCaptureThread (eth t k) = Some (th\<lparr>pcSent := pcSent th @ map (patch_src_mac (enSimMacAddr (eth cl k))) (ring_frames Q m)\<rparr>)"
proof -
  let ?r = "header_word Q 0 m" and ?w = "header_word Q 1 m"
  have Q: "enCpOutQAddr (eth cl k) = Q" and ok: "ring_ok Q (siMainframe cl)" and k: "k < length (siEthInterfaces cl)"
    using assms(3) by (simp_all add: rings_ok_def Q_def)
  note parts = ring_ok_parts[OF ok]
  have ready: "eth_ready k Q cl" using assms(4) k by (simp add: eth_ready_def Q)
  let ?cl1 = "fold (sent_frame k) (ring_frames Q m) cl"
  note f1 = fold_sent_frames[OF ready, where fs = "ring_frames Q m"]
  let ?cl2 = "?cl1\<lparr>siMainframe := (siMainframe cl)\<lparr>mMemory := store64 (8 * unat Q) (SwapBytes64 ?w) m\<rparr>\<rparr>"
  have wr: "MemWrite Q (SwapBytes64 ?w) (siMainframe ?cl1) = siMainframe ?cl2"
    unfolding f1(2) using MemWrite_header[OF parts(5), of 0 ?w "siMainframe cl", folded m_def] by simp
  have start: "Eth_HandleTxPackets k cl =
      (if ?r \<noteq> ?w then bindE (Eth_SendPacket k (Eth_sleep_packet k SLEEP_OUTPUT ?r ?cl2)) (\<lambda>_. DumpQueues k) ?cl2 else (Inr (), ?cl2))"
    using wr TxLoop_all[of k cl, unfolded Q, folded m_def, OF ready ok assms(5)]
    by (simp only: Eth_HandleTxPackets_def Let_def bindE_def Q ring_header_words[OF parts(5,6), folded m_def] prod.case sum.case)
      (simp cong: if_cong)
  obtain t where t: "Eth_HandleTxPackets k cl = (Inr (), t)" "same_eth k ?cl2 t"
  proof (cases "?r = ?w")
    case True
    with start that[of ?cl2] show ?thesis by (simp add: same_eth_def)
  next
    case False
    have "k < length (siEthInterfaces ?cl2)" using f1(1) by (simp add: eth_ready_def)
    from sleep_packet_sent[OF this, of SLEEP_OUTPUT ?r] obtain t where
      s: "Eth_SendPacket k (Eth_sleep_packet k SLEEP_OUTPUT ?r ?cl2) ?cl2 = (Inr (), t)" "same_eth k ?cl2 t" by blast
    have "DumpQueues k t = (Inr (), t)"
      using s(2) f1(1,4) parts(5,6) assms(3) ring_ok_parts(5,6)[of "enCpInQAddr (eth cl k)" "siMainframe cl"]
      by (intro DumpQueues_ok) (auto simp: same_eth_def rings_ok_def eth_ready_def)
    then show ?thesis using False start s that[of t] by (simp add: bindE_def)
  qed
  then show ?thesis using f1(3)[OF assms(4)] by (intro exI[of _ t]) (simp add: same_eth_def)
qed

text \<open>C23: The output ring of a network interface is a queue, and a wake-up from the driver sends what
  is in it. When both rings lie in the memory, their indices are in range and every queued frame
  fits its slot, handling the wake-up succeeds: the adapter is given exactly the frames between
  the read and the write index, in their order, across the end of the ring, each with the
  simulated source address; then the ring is empty, and of the memory only the word of the read
  index has changed.\<close>

theorem sim_network_sends:
  assumes "rings_ok k cl" "enPacketCaptureThread (eth cl k) = Some th"
    and "list_all frame_fits (ring_frames (enCpOutQAddr (eth cl k)) (mMemory (siMainframe cl)))"
  shows "\<exists>t th'. Eth_HandleTxPackets k cl = (Inr (), t) \<and> enPacketCaptureThread (eth t k) = Some th' \<and>
     pcSent th' = pcSent th @ map (patch_src_mac (enSimMacAddr (eth cl k)))
       (ring_frames (enCpOutQAddr (eth cl k)) (mMemory (siMainframe cl))) \<and>
     pcPacketQueue th' = pcPacketQueue th \<and>
     ring_frames (enCpOutQAddr (eth cl k)) (mMemory (siMainframe t)) = [] \<and>
     (\<forall>x. x < 8 * unat (enCpOutQAddr (eth cl k)) \<or> 8 * unat (enCpOutQAddr (eth cl k)) + 8 \<le> x \<longrightarrow>
        mMemory (siMainframe t) x = mMemory (siMainframe cl) x)"
proof -
  let ?Q = "enCpOutQAddr (eth cl k)" and ?m = "mMemory (siMainframe cl)"
  obtain t where t: "Eth_HandleTxPackets k cl = (Inr (), t)"
    "enPacketCaptureThread (eth t k) =
       Some (th\<lparr>pcSent := pcSent th @ map (patch_src_mac (enSimMacAddr (eth cl k))) (ring_frames ?Q ?m)\<rparr>)"
    and mem: "mMemory (siMainframe t) = store64 (8 * unat ?Q) (SwapBytes64 (header_word ?Q 1 ?m)) ?m"
    using HandleTxPackets_returns[OF assms] by blast
  have "ring_frames ?Q (mMemory (siMainframe t)) = []"
    using header_word_store[of ?Q _ 0 "header_word ?Q 1 ?m" ?m] by (simp add: ring_frames_def mem ring_count_def Let_def)
  then show ?thesis using t mem by (auto simp: store64_def)
qed

section \<open>Receiving\<close>

lemma ring_slots_map: "i < S \<Longrightarrow> ring_slots S i n = map (\<lambda>j. (i + j) mod S) [0..<n]"
  by (induction n) (simp_all add: ring_slots_snoc del: ring_slots.simps(2))

lemma end_not_in_slots:
  assumes "r < S" "n < S"
  shows "(r + n) mod S \<notin> set (ring_slots S r n)"
proof
  assume "(r + n) mod S \<in> set (ring_slots S r n)"
  then obtain j where j: "j < n" "(r + n) mod S = (r + j) mod S" by (auto simp: ring_slots_map[OF assms(1)])
  then have "S dvd (r + n) - (r + j)" by (subst (asm) mod_eq_dvd_iff_nat) simp_all
  then have "S \<le> n - j" using j(1) by (auto dest: dvd_imp_le)
  with assms(2) show False by simp
qed

lemma write_bytes_mem:
  assumes "unat a + length bs \<le> 2 ^ 32"
  shows "mMemory (write_bytes a bs mf) x =
     (if unat a \<le> x \<and> x < unat a + length bs then bs ! (x - unat a) else mMemory mf x)"
proof -
  have "mMemory (for_loop 0 n (\<lambda>i. MemWrite8 (a + of_nat i) (bs ! i)) mf) x =
      (if unat a \<le> x \<and> x < unat a + n then bs ! (x - unat a) else mMemory mf x)" if "n \<le> length bs" for n
    using that
  proof (induction n)
    case (Suc n)
    have "unat (a + of_nat n) = unat a + n" by (rule unat_plus_of_nat) (use assms Suc.prems in simp)
    with Suc show ?case by (auto simp: for_loop_Suc MemWrite8_def)
  qed auto
  then show ?thesis by (simp add: write_bytes_def)
qed

definition frame_stored :: "nat \<Rightarrow> bytes \<Rightarrow> memory \<Rightarrow> memory" where
  "frame_stored B p m = (\<lambda>x.
     if 8 * B + 10 \<le> x \<and> x < 8 * B + 10 + length p then p ! (x - (8 * B + 10))
     else if x = 8 * B + 8 \<or> x = 8 * B + 9 then 0
     else store64 (8 * B) (SwapBytes64 (of_nat (length p))) m x)"

lemma store_frame_mem:
  assumes "unat a + 192 \<le> 2 ^ 29" "length p \<le> 1526"
  shows "mMemory (store_frame a p mf) = frame_stored (unat a) p (mMemory mf)"
proof -
  have a8: "unat (a * 8) = 8 * unat a" using assms(1) by (intro unat_times_8) simp
  have a1: "unat (a + 1) = unat a + 1" using assms(1) unat_plus_of_nat[of a 1] by simp
  have b: "unat ((a + 1) * 8) = 8 * unat a + 8" using assms(1) by (subst unat_times_8) (simp_all add: a1)
  have c: "unat ((a + 1) * 8 + 1) = 8 * unat a + 9" "unat ((a + 1) * 8 + 2) = 8 * unat a + 10"
    using assms(1) unat_plus_of_nat[of "(a + 1) * 8" 1] unat_plus_of_nat[of "(a + 1) * 8" 2] by (simp_all only: b) simp_all
  have fit: "unat ((a + 1) * 8 + 2) + length p \<le> 2 ^ 32" unfolding c using assms by simp
  show ?thesis
    unfolding store_frame_def Let_def frame_stored_def
    by (rule ext) (simp only: write_bytes_mem[OF fit] c MemWrite8_def MemWrite_def a8 b mainframe.simps fun_upd_apply, simp)
qed

lemma frame_stored_outside:
  "length p \<le> 1526 \<Longrightarrow> x < 8 * B \<or> 8 * B + 1536 \<le> x \<Longrightarrow> frame_stored B p m x = m x"
  by (auto simp: frame_stored_def store64_def)

lemma frame_at_cong:
  assumes "\<And>x. 8 * slot_base Q i \<le> x \<Longrightarrow> x < 8 * slot_base Q i + 1536 \<Longrightarrow> m' x = m x" "frame_size Q i m \<le> 1526"
  shows "frame_at Q i m' = frame_at Q i m"
proof -
  have "load64 m' (8 * slot_base Q i) = load64 m (8 * slot_base Q i)" by (rule load64_eqI) (simp add: assms(1))
  then have "frame_size Q i m' = frame_size Q i m" by (simp add: frame_size_def)
  with assms show ?thesis by (auto simp: frame_at_def)
qed

lemma GetBits_low32: "GetBits d 0 31 = take_bit 32 d"
  by (rule word_eq_by_bits) (auto simp: bit_GetBits bit_take_bit_iff)

lemma frame_at_stored:
  assumes "length p \<le> 1526"
  shows "frame_at Q i (frame_stored (slot_base Q i) p m) = p"
proof -
  let ?B = "slot_base Q i"
  have "load64 (frame_stored ?B p m) (8 * ?B) = load64 (store64 (8 * ?B) (SwapBytes64 (of_nat (length p))) m) (8 * ?B)"
    by (rule load64_eqI) (simp add: frame_stored_def)
  moreover have "unat (GetBits (of_nat (length p)) 0 31) = length p"
    using assms by (simp add: GetBits_low32 take_bit_of_nat take_bit_nat_eq_self unat_of_nat)
  ultimately have "frame_size Q i (frame_stored ?B p m) = length p" by (simp add: frame_size_def)
  then show ?thesis unfolding frame_at_def by (intro nth_equalityI) (simp_all add: frame_stored_def)
qed

lemma header_word_cong: "(\<And>x. x < 8 * (unat Q + 3) \<Longrightarrow> m' x = m x) \<Longrightarrow> i < 3 \<Longrightarrow> header_word Q i m' = header_word Q i m"
  unfolding header_word_def by (rule arg_cong[where f = SwapBytes64], rule load64_eqI) simp

text \<open>A frame in the slot behind the last, and the write index moved on: the frame is appended.\<close>

lemma ring_frames_append:
  fixes m :: memory and Q :: CAddr_t
  defines "S \<equiv> ring_size Q m" and "r \<equiv> unat (header_word Q 0 m)" and "w \<equiv> unat (header_word Q 1 m)"
  assumes "r < S" "w < S" "(w + 1) mod S \<noteq> r" "frame_fits p" "list_all frame_fits (ring_frames Q m)" "unat v = (w + 1) mod S"
  shows "ring_frames Q (store64 (8 * (unat Q + 1)) (SwapBytes64 v) (frame_stored (slot_base Q w) p m)) = ring_frames Q m @ [p]"
proof -
  let ?f = "frame_stored (slot_base Q w) p m" and ?n = "ring_count S r w"
  let ?m = "store64 (8 * (unat Q + 1)) (SwapBytes64 v) ?f"
  have len: "length p \<le> 1526" using assms(7) by (simp add: frame_fits_def)
  note ap = ring_count_append[OF assms(4-6)]
  have hf: "header_word Q i ?f = header_word Q i m" if "i < 3" for i
    by (rule header_word_cong[OF _ that], rule frame_stored_outside[OF len]) (simp add: slot_base_def)
  have h: "header_word Q 0 ?m = header_word Q 0 m" "header_word Q 2 ?m = header_word Q 2 m" "header_word Q 1 ?m = v"
    by (subst header_word_store, simp add: hf)+
  have S': "ring_size Q ?m = S" by (simp only: ring_size_def h S_def)
  have slot: "8 * (unat Q + 3) \<le> 8 * slot_base Q i" for i by (simp add: slot_base_def)
  have new: "frame_at Q w ?m = p"
  proof -
    have "frame_at Q w ?m = frame_at Q w ?f"
      by (rule frame_at_cong) (use slot[of w] len in \<open>simp_all add: store64_def flip: length_frame_at\<close>, simp add: frame_at_stored)
    with frame_at_stored[OF len] show ?thesis by simp
  qed
  have old: "frame_at Q i ?m = frame_at Q i m" if "i \<in> set (ring_slots S r ?n)" for i
  proof -
    have "frame_fits (frame_at Q i m)"
      using assms(8) that by (auto simp: ring_frames_def Let_def list_all_iff S_def r_def w_def)
    then have small: "frame_size Q i m \<le> 1526" by (simp add: frame_fits_def)
    have "i \<noteq> w" using end_not_in_slots[OF assms(4) ap(3)] that by (auto simp: ap(2))
    then have apart: "slot_base Q i + 192 \<le> slot_base Q w \<or> slot_base Q w + 192 \<le> slot_base Q i"
      by (simp add: slot_base_def) linarith
    show ?thesis
    proof (rule frame_at_cong[OF _ small])
      fix x
      assume x: "8 * slot_base Q i \<le> x" "x < 8 * slot_base Q i + 1536"
      with slot[of i] have "?m x = ?f x" by (simp add: store64_def)
      also have "?f x = m x" by (rule frame_stored_outside[OF len]) (use x apart in linarith)
      finally show "?m x = m x" .
    qed
  qed
  have "ring_frames Q ?m = map (\<lambda>i. frame_at Q i ?m) (ring_slots S r (Suc ?n))"
    by (simp only: ring_frames_def Let_def S' h ap(1) assms(9) r_def[symmetric])
  also have "\<dots> = map (\<lambda>i. frame_at Q i m) (ring_slots S r ?n) @ [p]"
    using old new by (simp add: ring_slots_snoc[OF assms(4)] ap(2) del: ring_slots.simps)
  finally show ?thesis by (simp add: ring_frames_def Let_def S_def r_def w_def)
qed

text \<open>Storing a frame at a slot and moving the write index: what becomes of the memory.\<close>

lemma queue_frame_returns:
  fixes c k
  defines "Q \<equiv> enCpInQAddr (eth c k)" and "m \<equiv> mMemory (siMainframe c)"
  assumes "rings_ok k c" "unat w < ring_size Q m" "frame_fits p"
  shows "\<exists>t. Eth_queue_frame k p w v c = (Inr (), t) \<and> enPacketCaptureThread (eth t k) = enPacketCaptureThread (eth c k) \<and>
     mMemory (siMainframe t) = store64 (8 * (unat Q + 1)) (SwapBytes64 v) (frame_stored (slot_base Q (unat w)) p m) \<and>
     (\<exists>r. one_more c r (siIToCChannel t) \<and> driver_told c k WAKEUP_INPUT v r)"
proof -
  have ok: "ring_ok Q (siMainframe c)" and ok': "ring_ok (enCpOutQAddr (eth c k)) (siMainframe c)"
    and k: "k < length (siEthInterfaces c)"
    and Q: "enCpInQAddr (eth c k) = Q"
    using assms(3) by (simp_all add: rings_ok_def Q_def)
  note parts = ring_ok_parts[OF ok, folded m_def]
  have len: "length p \<le> 1526" using assms(5) by (simp add: frame_fits_def)
  have base: "unat (ring_slot Q w) = slot_base Q (unat w)" by (rule unat_ring_slot[OF parts(1) assms(4)])
  have fit: "slot_base Q (unat w) + 192 \<le> 2 ^ 29" "8 * (slot_base Q (unat w) + 192) \<le> mMemorySize (siMainframe c)"
    using parts(1,2) slot_base_mono[of "Suc (unat w)" _ Q, OF Suc_leI[OF assms(4)]] by (simp_all add: slot_base_Suc)
  let ?mf = "store_frame (ring_slot Q w) p (siMainframe c)"
  have mem: "mMemory ?mf = frame_stored (slot_base Q (unat w)) p m"
    unfolding m_def base[symmetric] by (rule store_frame_mem) (use fit len base in simp_all)
  have size: "mMemorySize ?mf = mMemorySize (siMainframe c)"
  proof -
    have "mMemorySize (for_loop 0 n (\<lambda>i. MemWrite8 (a + of_nat i) (bs ! i)) u) = mMemorySize u" for n a bs u
      by (rule for_loop_preserves) (simp add: MemWrite8_def)
    then show ?thesis by (simp add: store_frame_def Let_def write_bytes_def MemWrite8_def MemWrite_def)
  qed
  let ?c2 = "c\<lparr>siMainframe := ?mf\<rparr>"
  have start: "unat (ring_slot Q w + 1) = slot_base Q (unat w) + 1"
    using fit(1) unat_plus_of_nat[of "ring_slot Q w" 1, unfolded base] by simp
  have "(length p + 2 + 7) div 8 \<le> 191" using len by simp
  then have dump: "DumpMem (ring_slot Q w + 1) ((length p + 2 + 7) div 8) ?c2 = (Inr (), ?c2)"
    using fit by (intro DumpMem_ok) (simp_all add: start size)
  let ?mf3 = "?mf\<lparr>mMemory := store64 (8 * (unat Q + 1)) (SwapBytes64 v) (mMemory ?mf)\<rparr>"
  have wr: "MemWrite (Q + 1) (SwapBytes64 v) (siMainframe ?c2) = ?mf3"
    using MemWrite_header[OF parts(5), of 1 v ?mf] by simp
  let ?c3 = "?c2\<lparr>siMainframe := ?mf3\<rparr>"
  have k3: "k < length (siEthInterfaces ?c3)" using k by simp
  obtain t r where t: "Eth_SendPacket k (Eth_sleep_packet k WAKEUP_INPUT v ?c3) ?c3 = (Inr (), t)" "same_eth k ?c3 t"
    and r: "one_more ?c3 r (siIToCChannel t)" "driver_told ?c3 k WAKEUP_INPUT v r"
    using sleep_packet_sent[OF k3] by blast
  have dq: "DumpQueues k t = (Inr (), t)"
    using t(2) parts(5,6) ring_ok_parts(5,6)[OF ok'] by (intro DumpQueues_ok) (simp_all add: same_eth_def size Q)
  have "Eth_queue_frame k p w v c = (Inr (), t)"
    by (simp only: Eth_queue_frame_def Let_def Q bindE_def dump wr prod.case sum.case t(1) dq)
  moreover have "one_more c r (siIToCChannel t)" "driver_told c k WAKEUP_INPUT v r"
    using r by (simp_all add: one_more_def driver_told_def)
  ultimately show ?thesis using t(2) by (intro exI[of _ t]) (auto simp: same_eth_def mem)
qed

lemma frame_moved_outside:
  assumes "length p \<le> 1526"
    "x < 8 * unat Q + 8 \<or> 8 * unat Q + 16 \<le> x \<and> x < 8 * slot_base Q i \<or> 8 * slot_base Q i + 1536 \<le> x"
  shows "store64 (8 * (unat Q + 1)) v (frame_stored (slot_base Q i) p m) x = m x"
proof -
  have "x < 8 * (unat Q + 1) \<or> 8 * (unat Q + 1) + 8 \<le> x" using assms(2) by (auto simp: slot_base_def)
  then have "store64 (8 * (unat Q + 1)) v (frame_stored (slot_base Q i) p m) x = frame_stored (slot_base Q i) p m x"
    by (rule store64_outside)
  also have "\<dots> = m x" by (rule frame_stored_outside[OF assms(1)]) (use assms(2) in \<open>auto simp: slot_base_def\<close>)
  finally show ?thesis .
qed

text \<open>C24: The input ring of a network interface is a bounded queue, and the interface puts what it
  receives at its end. When both rings lie in the memory, the queued frames fit their slots and
  there is room, a tick of a running interface takes the first received frame out of its own
  queue and appends exactly it to the ring, and leaves the frames that are in the ring, the read
  index and the rest of the memory as they are. Exactly one packet is queued to the mainframe:
  it is addressed to the driver and says WAKEUP_INPUT, with the new write index, the channel and
  the driver's structure and buffer, and on a model E it is valid and carries the next sequence
  number. When the ring is full or nothing has come, nothing changes.\<close>

theorem sim_network_receives:
  fixes cl k
  defines "Q \<equiv> enCpInQAddr (eth cl k)" and "m \<equiv> mMemory (siMainframe cl)"
  assumes "rings_ok k cl" "enPacketCaptureThread (eth cl k) = Some th" "\<not> pcPaused th"
    and "list_all frame_fits (ring_frames Q m)" "list_all frame_fits (pcPacketQueue th)"
  shows "if pcPacketQueue th = [] \<or> (unat (header_word Q 1 m) + 1) mod ring_size Q m = unat (header_word Q 0 m)
     then Eth_Tick k cl = (Inr (), cl)
     else \<exists>t. Eth_Tick k cl = (Inr (), t) \<and>
       enPacketCaptureThread (eth t k) = Some (th\<lparr>pcPacketQueue := tl (pcPacketQueue th)\<rparr>) \<and>
       ring_frames Q (mMemory (siMainframe t)) = ring_frames Q m @ [hd (pcPacketQueue th)] \<and>
       header_word Q 0 (mMemory (siMainframe t)) = header_word Q 0 m \<and>
       (\<exists>r. mset (pending_packets (siIToCChannel t)) = add_mset r (mset (pending_packets (siIToCChannel cl))) \<and>
          driver_told cl k WAKEUP_INPUT (of_nat ((unat (header_word Q 1 m) + 1) mod ring_size Q m)) r) \<and>
       (\<forall>x. x < 8 * unat Q + 8 \<or> 8 * unat Q + 16 \<le> x \<and> x < 8 * slot_base Q (unat (header_word Q 1 m)) \<or>
          8 * slot_base Q (unat (header_word Q 1 m)) + 1536 \<le> x \<longrightarrow> mMemory (siMainframe t) x = m x)"
proof -
  define w where w: "w = header_word Q 1 m"
  let ?r = "header_word Q 0 m" and ?w = w and ?S = "GetBits (header_word Q 2 m) 0 31"
  let ?next = "(?w + 1) mod ?S"
  have ok: "ring_ok Q (siMainframe cl)" and ok': "ring_ok (enCpOutQAddr (eth cl k)) (siMainframe cl)"
    and k: "k < length (siEthInterfaces cl)"
    using assms(3) by (simp_all add: rings_ok_def Q_def)
  note parts = ring_ok_parts[OF ok, folded m_def, folded w]
  have S: "ring_size Q m = unat ?S" by (simp add: ring_size_def)
  have nz: "?S \<noteq> 0" using parts(3) by (auto simp: S)
  have nx: "unat ?next = (unat ?w + 1) mod ring_size Q m" unfolding S by (rule unat_next_index) (use parts(4) in \<open>simp add: S\<close>)
  then have full: "?next = ?r \<longleftrightarrow> (unat ?w + 1) mod ring_size Q m = unat ?r" by (metis word_unat_eq_iff)
  have words: "ring_word (Q + 0) cl = (Inr ?r, cl)" "ring_word (Q + 1) cl = (Inr ?w, cl)"
    "ring_word (Q + 2) cl = (Inr (header_word Q 2 m), cl)"
    unfolding w m_def by (rule ring_header_words[OF parts(5,6)])+
  let ?p = "hd (pcPacketQueue th)"
  let ?cl1 = "upd_eth k (\<lambda>e. e\<lparr>enPacketsReceived := enPacketsReceived e + 1,
      enBytesReceived := enBytesReceived e + of_nat (length ?p)\<rparr>) (pop_frame k cl)"
  have tick: "Eth_Tick k cl =
      (if pcPacketQueue th = [] \<or> ?next = ?r then (Inr (), cl)
       else if length ?p \<le> unat cEtherPacketSize then Eth_queue_frame k ?p ?w ?next ?cl1 else (Inr (), ?cl1))"
    using nz by (simp only: Eth_Tick_def Eth_HandleRxPacket_def assms(4,5) option.case Let_def bindE_def Q_def[symmetric]
        words prod.case sum.case if_False)
  show ?thesis
  proof (cases "pcPacketQueue th = [] \<or> ?next = ?r")
    case True
    with tick have "Eth_Tick k cl = (Inr (), cl)" by (simp only: if_True)
    with True show ?thesis unfolding full w[symmetric] by (simp only: if_True)
  next
    case False
    then have p: "frame_fits ?p" using assms(7) by (cases "pcPacketQueue th") simp_all
    then have len: "length ?p \<le> 1526" by (simp add: frame_fits_def)
    have cl1: "siMainframe ?cl1 = siMainframe cl" "enCpInQAddr (eth ?cl1 k) = Q" "rings_ok k ?cl1"
      "enPacketCaptureThread (eth ?cl1 k) = Some (th\<lparr>pcPacketQueue := tl (pcPacketQueue th)\<rparr>)"
      using k assms(3) by (simp_all add: pop_frame_def upd_thread_def Q_def assms(4) rings_ok_def)
    obtain t r where t: "Eth_queue_frame k ?p w ?next ?cl1 = (Inr (), t)"
      "enPacketCaptureThread (eth t k) = Some (th\<lparr>pcPacketQueue := tl (pcPacketQueue th)\<rparr>)"
      and mem: "mMemory (siMainframe t) = store64 (8 * (unat Q + 1)) (SwapBytes64 ?next) (frame_stored (slot_base Q (unat w)) ?p m)"
      and r: "one_more ?cl1 r (siIToCChannel t)" "driver_told ?cl1 k WAKEUP_INPUT ?next r"
      using queue_frame_returns[OF cl1(3) _ p, of w ?next] parts(4) unfolding cl1(1,2,4) m_def by blast
    have "Eth_Tick k cl = (Inr (), t)" using False len t(1) by (simp add: tick cEtherPacketSize_def)
    moreover have "ring_frames Q (mMemory (siMainframe t)) = ring_frames Q m @ [?p]"
      unfolding mem w by (rule ring_frames_append) (use parts False full p assms(6) nx in \<open>auto simp: w\<close>)
    moreover have "header_word Q 0 (mMemory (siMainframe t)) = header_word Q 0 m"
      unfolding mem header_word_store by (simp, rule header_word_cong, rule frame_stored_outside[OF len]) (simp_all add: slot_base_def)
    moreover have "mset (pending_packets (siIToCChannel t)) = add_mset r (mset (pending_packets (siIToCChannel cl)))"
      "driver_told cl k WAKEUP_INPUT (of_nat ((unat w + 1) mod ring_size Q m)) r"
      using r k unfolding nx[symmetric] by (simp_all add: one_more_def driver_told_def pop_frame_def upd_thread_def)
    moreover have "mMemory (siMainframe t) x = m x"
      if "x < 8 * unat Q + 8 \<or> 8 * unat Q + 16 \<le> x \<and> x < 8 * slot_base Q (unat ?w) \<or> 8 * slot_base Q (unat ?w) + 1536 \<le> x" for x
      unfolding mem by (rule frame_moved_outside[OF len that])
    ultimately show ?thesis using False t(2) unfolding full w[symmetric] by (simp only: if_False) blast
  qed
qed

section \<open>A sample interface\<close>

definition sample_frame :: bytes where
  "sample_frame = replicate 24 1"

text \<open>Two empty rings of two slots, and the output ring with a frame in it.\<close>

definition sample_rings :: memory where
  "sample_rings = store64 96 (SwapBytes64 2) (store64 4016 (SwapBytes64 2) (\<lambda>_. 0))"

definition sample_rings_out :: memory where
  "sample_rings_out = store64 (8 * (unat (500 :: CAddr_t) + 1)) (SwapBytes64 1) (frame_stored (slot_base 500 0) sample_frame sample_rings)"

definition sample_thread :: PacketCaptureThread_c where
  "sample_thread = \<lparr>pcPacketQueue = [sample_frame], pcSent = [], pcPaused = False, pcFilterMac = 0x010203040506\<rparr>"

definition sample_net_cluster :: "memory \<Rightarrow> SimIopCluster_c" where
  "sample_net_cluster m = (sample_sim_cluster IOSE)
     \<lparr>siEthInterfaces := [(SimIopEth_new 3 0x010203040506 True)\<lparr>enCpInQAddr := 10, enCpOutQAddr := 500,
        enPacketCaptureThread := Some sample_thread\<rparr>],
      siMainframe := sample_idle\<lparr>mMemory := m, mMemorySize := 2 ^ 20\<rparr>\<rparr>"

lemma load64_zero: "load64 (\<lambda>_. 0) a = 0"
  by (simp add: load64_def)

lemma SwapBytes64_zero [simp]: "SwapBytes64 0 = 0"
  by (simp add: SwapBytes64_def byte_of_def)

lemma sample_headers:
  "header_word 10 0 sample_rings = 0" "header_word 10 1 sample_rings = 0" "header_word 10 2 sample_rings = 2"
  "header_word 500 0 sample_rings = 0" "header_word 500 1 sample_rings = 0" "header_word 500 2 sample_rings = 2"
  by (simp_all add: header_word_def sample_rings_def load64_store64_other load64_zero)

lemmas sample_heads = sample_headers sample_headers[unfolded One_nat_def]

lemma sample_sizes:
  "header_word Q 2 m = 2 \<Longrightarrow> ring_size Q m = 2"
  by (simp add: ring_size_def GetBits_low32)

lemma sample_frame_fits: "frame_fits sample_frame"
  by (simp add: frame_fits_def sample_frame_def)

lemma sample_empty: "ring_frames 10 sample_rings = []" "ring_frames 500 sample_rings = []"
  by (simp_all add: ring_frames_def sample_heads ring_count_def)

lemma sample_out_frames: "ring_frames 500 sample_rings_out = [sample_frame]"
  using ring_frames_append[of 500 sample_rings sample_frame 1]
  by (simp add: sample_heads sample_sizes sample_empty sample_frame_fits sample_rings_out_def)

lemma sample_out_headers:
  "header_word 500 0 sample_rings_out = 0" "header_word 500 1 sample_rings_out = 1" "header_word 500 2 sample_rings_out = 2"
  "header_word 10 0 sample_rings_out = 0" "header_word 10 1 sample_rings_out = 0" "header_word 10 2 sample_rings_out = 2"
proof -
  have len: "length sample_frame \<le> 1526" by (simp add: sample_frame_def)
  have same: "frame_stored (slot_base 500 0) sample_frame sample_rings x = sample_rings x" if "x < 8 * (500 + 3)" for x
    by (rule frame_stored_outside[OF len]) (use that in \<open>simp add: slot_base_def\<close>)
  have out: "header_word 500 i (frame_stored (slot_base 500 0) sample_frame sample_rings) = header_word 500 i sample_rings" if "i < 3" for i
    by (rule header_word_cong[OF _ that]) (simp add: same)
  show "header_word 500 0 sample_rings_out = 0" "header_word 500 1 sample_rings_out = 1" "header_word 500 2 sample_rings_out = 2"
    unfolding sample_rings_out_def header_word_store by (simp_all add: out sample_heads)
  have inn: "header_word 10 i sample_rings_out = header_word 10 i sample_rings" if "i < 3" for i
    by (rule header_word_cong[OF _ that]) (simp add: sample_rings_out_def store64_outside same)
  show "header_word 10 0 sample_rings_out = 0" "header_word 10 1 sample_rings_out = 0" "header_word 10 2 sample_rings_out = 2"
    by (simp_all add: inn sample_heads)
qed

lemmas sample_out_heads = sample_out_headers sample_out_headers[unfolded One_nat_def]

lemma sample_net_facts:
  "eth (sample_net_cluster m) 0 = (SimIopEth_new 3 0x010203040506 True)\<lparr>enCpInQAddr := 10, enCpOutQAddr := 500,
        enPacketCaptureThread := Some sample_thread\<rparr>"
  "mMemory (siMainframe (sample_net_cluster m)) = m" "mMemorySize (siMainframe (sample_net_cluster m)) = 2 ^ 20"
  "length (siEthInterfaces (sample_net_cluster m)) = 1"
  by (simp_all add: sample_net_cluster_def)

lemma sample_rings_ok: "rings_ok 0 (sample_net_cluster sample_rings)" "rings_ok 0 (sample_net_cluster sample_rings_out)"
  by (simp_all add: rings_ok_def ring_ok_def Let_def sample_net_facts sample_heads sample_out_heads sample_sizes slot_base_def)

theorem sim_network_sends_witness:
  "\<exists>t th. Eth_HandleTxPackets 0 (sample_net_cluster sample_rings_out) = (Inr (), t) \<and>
     enPacketCaptureThread (eth t 0) = Some th \<and> pcSent th = [patch_src_mac 0x010203040506 sample_frame] \<and>
     ring_frames 500 (mMemory (siMainframe t)) = []"
proof -
  have "\<exists>t th'. Eth_HandleTxPackets 0 (sample_net_cluster sample_rings_out) = (Inr (), t) \<and>
      enPacketCaptureThread (eth t 0) = Some th' \<and>
      pcSent th' = pcSent sample_thread @ map (patch_src_mac 0x010203040506) (ring_frames 500 sample_rings_out) \<and>
      ring_frames 500 (mMemory (siMainframe t)) = []"
    using sim_network_sends[OF sample_rings_ok(2), of sample_thread]
    by (auto simp: sample_net_facts SimIopEth_new_def sample_out_frames sample_frame_fits)
  then show ?thesis by (simp add: sample_out_frames sample_thread_def)
qed

theorem sim_network_receives_witness:
  "\<exists>t. Eth_Tick 0 (sample_net_cluster sample_rings) = (Inr (), t) \<and>
     ring_frames 10 (mMemory (siMainframe t)) = [sample_frame]"
  using sim_network_receives[OF sample_rings_ok(1), of sample_thread]
  by (auto simp: sample_net_facts sample_heads sample_sizes sample_empty sample_thread_def sample_frame_fits)

section \<open>Where the queues fail\<close>

text \<open>
  A frame of 1534 to 1536 bytes is accepted but does not fit its slot: its end overwrites the
  whole size word of the next slot.
\<close>

theorem long_frame_overruns:
  assumes "unat a + 200 \<le> 2 ^ 29" "1534 \<le> length p" "length p \<le> 1536"
  shows "MemRead (a + 192) (store_frame a p mf) = word_of_bytes (take 8 (drop 1526 p))"
proof -
  have a1: "unat (a + 1) = unat a + 1" "unat (a + 192) = unat a + 192"
    using assms(1) unat_plus_of_nat[of a 1] unat_plus_of_nat[of a 192] by simp_all
  have b: "unat ((a + 1) * 8) = 8 * unat a + 8" "unat ((a + 192) * 8) = 8 * (unat a + 192)"
    using assms(1) by (subst unat_times_8; simp add: a1)+
  have c: "unat ((a + 1) * 8 + 2) = 8 * unat a + 10"
    using assms(1) unat_plus_of_nat[of "(a + 1) * 8" 2] by (simp only: b) simp
  have fit: "unat ((a + 1) * 8 + 2) + length p \<le> 2 ^ 32" unfolding c using assms by simp
  have "load64 (mMemory (store_frame a p mf)) (8 * (unat a + 192)) = load64 (\<lambda>i. p ! (1526 + i)) 0"
    unfolding store_frame_def Let_def
    by (rule load64_eqI) (use assms(2) in \<open>simp only: write_bytes_mem[OF fit] c, simp\<close>)
  also have "\<dots> = word_of_bytes (take 8 (drop 1526 p))"
    unfolding word_of_bytes_def by (rule load64_eqI) (use assms(2) in simp)
  finally show ?thesis by (simp only: MemRead_def b)
qed

text \<open>A wake-up with a write index outside the ring never returns.\<close>

theorem bad_write_index_never_returns:
  assumes "enPacketCaptureThread (eth cl k) = None" "Size \<noteq> 0" "Size \<le> WrIdx" "Idx \<noteq> WrIdx"
  shows "Eth_TxLoop n k Size Idx WrIdx b cl = (Inl DoesNotReturn, cl)"
  using assms(4)
proof (induction n arbitrary: Idx b)
  case (Suc n)
  have "(Idx + 1) mod Size < Size" using assms(2) by (simp add: word_mod_less_divisor word_gt_0)
  then have "(Idx + 1) mod Size \<noteq> WrIdx" using assms(3) by auto
  with Suc assms(1,2) show ?case by (simp add: Eth_HandleTxPacket_def bindE_def)
qed simp

text \<open>With a write index inside the ring it always does, within one round of the ring.\<close>

lemma HandleTxPacket_returns: "fst (Eth_HandleTxPacket k i cl) \<noteq> Inl DoesNotReturn"
proof -
  have "fst (read_bytes a n mf) \<noteq> Inl DoesNotReturn" for a n mf
  proof (induction n arbitrary: a mf)
    case (Suc n)
    then show ?case using Suc.IH[of "a + 1" mf]
      by (cases "read_bytes (a + 1) n mf") (auto simp: MemReadNoWatchpoint8_def bindE_def split: sum.splits)
  qed simp
  then show ?thesis
    by (auto simp: Eth_HandleTxPacket_def Let_def bindE_def ring_word_def on_sim_mainframe_def MemReadNoWatchpoint_def
        throwE_def returnE_def DumpMem_def split: prod.splits sum.splits if_splits) (metis fst_conv)+
qed

lemma TxLoop_returns_inside:
  assumes "unat Idx < unat Size" "unat WrIdx < unat Size" "ring_count (unat Size) (unat Idx) (unat WrIdx) < n"
  shows "fst (Eth_TxLoop n k Size Idx WrIdx b cl) \<noteq> Inl DoesNotReturn"
  using assms
proof (induction n arbitrary: Idx b cl)
  case (Suc n)
  show ?case
  proof (cases "Idx = WrIdx")
    case False
    then have ne: "unat Idx \<noteq> unat WrIdx" by (simp add: word_unat_eq_iff)
    have nx: "unat ((Idx + 1) mod Size) = (unat Idx + 1) mod unat Size" by (rule unat_next_index[OF Suc.prems(1)])
    moreover have "unat ((Idx + 1) mod Size) < unat Size" using Suc.prems(1) by (simp add: nx)
    ultimately have "fst (Eth_TxLoop n k Size ((Idx + 1) mod Size) WrIdx True u) \<noteq> Inl DoesNotReturn" for u
      using Suc.IH Suc.prems(2,3) ring_count_step[OF Suc.prems(1,2) ne] by simp
    then show ?thesis
      using False HandleTxPacket_returns[of k Idx cl] by (auto simp: bindE_def split: prod.splits sum.splits)
  qed simp
qed simp

text \<open>C25: Handling a wake-up of the output ring ends. If the write index is inside the ring, the loop
  over the slots comes to it within one round, wherever the read index stands and whatever the
  memory holds; the fuel of the model is never used up.\<close>

theorem sim_network_loop_ends:
  assumes "WrIdx < Size"
  shows "fst (Eth_TxLoop (Suc (unat Size)) k Size Idx WrIdx b cl) \<noteq> Inl DoesNotReturn"
proof (cases "unat Idx < unat Size")
  case True
  with assms show ?thesis by (intro TxLoop_returns_inside) (auto simp: word_less_nat_alt ring_count_def)
next
  case False
  have nz: "0 < unat Size" using assms by (auto simp: word_less_nat_alt)
  have "unat ((Idx + 1) mod Size) < unat Size" using nz by (simp add: unat_mod_distrib)
  then have "fst (Eth_TxLoop (unat Size) k Size ((Idx + 1) mod Size) WrIdx c u) \<noteq> Inl DoesNotReturn" for c u
    using assms by (intro TxLoop_returns_inside) (auto simp: word_less_nat_alt ring_count_def)
  then show ?thesis
    using HandleTxPacket_returns[of k Idx cl] by (auto simp: bindE_def split: prod.splits sum.splits)
qed

theorem sim_network_loop_ends_witness:
  "fst (Eth_TxLoop (Suc (unat (4 :: CInt_t))) 0 4 7 2 False (sample_net_cluster sample_rings)) \<noteq> Inl DoesNotReturn"
  by (rule sim_network_loop_ends) simp

end
