(* ===== verification/Sim_System.thy ===== *)
theory Sim_System
  imports Sim_Contracts Cpu_Control
begin

text \<open>
  A whole machine: the processors, the mainframe that they share, and the simulated I/O subsystems
  that boot it and serve it; \<open>Mainframe_c::CpuMasterClear\<close> of \<^verbatim>\<open>sim_lib/cray_mainframe.cpp\<close> and one
  turn of the loop of \<^verbatim>\<open>cray_sim/cray_sim.cpp\<close> that runs a machine with one thread. The copy of
  the mainframe in a processor or a cluster is replaced by the shared one before each operation.
\<close>

section \<open>State\<close>

record system_c =
  syCpus :: "SoftCpu_c list"
  sySims :: "SimIopCluster_c list"
  syMainframe :: mainframe
  syMemoryPokes :: "MemoryPoke_s list"
  syMemoryPokesProcessed :: bool
  syCpuMasterClear :: bool
  syStartupCpuIdx :: nat

definition Sys_on_cpu :: "nat \<Rightarrow> (SoftCpu_c, 'a) exec \<Rightarrow> (system_c, 'a) exec" where
  "Sys_on_cpu i f sy =
     (case f ((syCpus sy ! i)\<lparr>mMainframe := syMainframe sy\<rparr>) of
        (r, s) \<Rightarrow> (r, sy\<lparr>syCpus := (syCpus sy)[i := s], syMainframe := mMainframe (PublishView s)\<rparr>))"

definition Sys_on_sim :: "nat \<Rightarrow> (SimIopCluster_c, 'a) exec \<Rightarrow> (system_c, 'a) exec" where
  "Sys_on_sim k f sy =
     (case f ((sySims sy ! k)\<lparr>siMainframe := syMainframe sy\<rparr>) of
        (r, cl) \<Rightarrow> (r, sy\<lparr>sySims := (sySims sy)[k := cl], syMainframe := siMainframe cl\<rparr>))"

definition Sys_on_mainframe :: "(mainframe, 'a) exec \<Rightarrow> (system_c, 'a) exec" where
  "Sys_on_mainframe f sy = (case f (syMainframe sy) of (r, mf) \<Rightarrow> (r, sy\<lparr>syMainframe := mf\<rparr>))"

section \<open>The master clear of the processors\<close>

text \<open>The pokes of the configuration are made once, when the first processor leaves the reset.\<close>

definition Sys_pokes :: "system_c \<Rightarrow> system_c" where
  "Sys_pokes sy =
     (if syMemoryPokesProcessed sy then sy
      else sy\<lparr>syMainframe := (syMainframe sy)\<lparr>mMemory := fold apply_poke (syMemoryPokes sy) (mMemory (syMainframe sy))\<rparr>,
             syMemoryPokesProcessed := True\<rparr>)"

definition CpuMasterClear :: "bool \<Rightarrow> (system_c, unit) exec" where
  "CpuMasterClear aMasterClear sy =
     (if syCpuMasterClear sy = aMasterClear then (Inr (), sy)
      else
        bindE
          (if aMasterClear then forE [0..<length (syCpus sy)] (\<lambda>i. Sys_on_cpu i (\<lambda>s. (Inr (), MasterClear s)))
           else if \<not> syStartupCpuIdx sy < length (syCpus sy) then throwE AssertError
           else bindE (\<lambda>sy. (Inr (), Sys_pokes sy))
                  (\<lambda>_. Sys_on_cpu (syStartupCpuIdx sy) (\<lambda>s. (Inr (), cpu_DeadStart s))))
          (\<lambda>_ sy. (Inr (), sy\<lparr>syCpuMasterClear := aMasterClear\<rparr>)) sy)"

text \<open>The calls that a cluster has recorded are made.\<close>

fun Sys_calls :: "bool list \<Rightarrow> (system_c, unit) exec" where
  "Sys_calls [] = returnE ()"
| "Sys_calls (b # bs) = bindE (CpuMasterClear b) (\<lambda>_. Sys_calls bs)"

text \<open>\<open>Mainframe_c::DeadStart\<close>, before the main loop; that of a simulated subsystem does nothing.\<close>

definition Sys_DeadStart :: "(system_c, unit) exec" where
  "Sys_DeadStart sy =
     bindE (forE [0..<length (syCpus sy)] (\<lambda>i. Sys_on_cpu i (\<lambda>s. (Inr (), MasterClear s)))) (\<lambda>_ sy.
       (Inr (), sy\<lparr>syMainframe := for_loop 0 (length (mChannels (syMainframe sy)))
                     (\<lambda>ix m. if mChannels m ! ix \<noteq> None then MainframeSideMasterClear ix m else m) (syMainframe sy),
                   sySims := map SI_MasterClear (sySims sy)\<rparr>)) sy"

section \<open>A turn of the main loop\<close>

text \<open>What the turn takes from the host: the time, and what the terminals of each cluster have sent.\<close>

record system_env =
  ssEnv :: sim_env
  ssPolls :: "nat \<Rightarrow> nat \<Rightarrow> (Console_c \<Rightarrow> Console_c) list"

definition Sys_SimTick :: "system_env \<Rightarrow> nat \<Rightarrow> (system_c, unit) exec" where
  "Sys_SimTick env k =
     bindE (Sys_on_sim k (\<lambda>cl. bindE (\<lambda>cl. forE [0..<length (siConsoles cl)] (\<lambda>i. SC_Tick i (ssPolls env k i)) cl)
                               (\<lambda>_. SI_Tick (ssEnv env)) cl))
       (\<lambda>_ sy. let calls = siCpuMasterClears (sySims sy ! k)
               in Sys_calls calls (sy\<lparr>sySims := (sySims sy)[k := (sySims sy ! k)\<lparr>siCpuMasterClears := []\<rparr>]\<rparr>))"

definition Sys_CpusTick :: "(system_c, unit) exec" where
  "Sys_CpusTick sy = forE [0..<length (syCpus sy)] (\<lambda>i. Sys_on_cpu i Tick) sy"

text \<open>The channels in the order of the mainframe; two of them belong to each cluster.\<close>

definition Sys_ChannelTick_one :: "nat \<Rightarrow> (system_c, unit) exec" where
  "Sys_ChannelTick_one ix sy =
     (case List.find (\<lambda>k. icChannel (siIToCChannel (sySims sy ! k)) = ix) [0..<length (sySims sy)] of
        Some k \<Rightarrow> Sys_on_sim k SI_ChannelTick_I sy
      | None \<Rightarrow>
          (case List.find (\<lambda>k. ciChannel (siCToIChannel (sySims sy ! k)) = ix) [0..<length (sySims sy)] of
             Some k \<Rightarrow> Sys_on_sim k SI_ChannelTick_C sy
           | None \<Rightarrow> Sys_on_mainframe (ChannelTick_one ix) sy))"

definition Sys_ChannelTick :: "(system_c, unit) exec" where
  "Sys_ChannelTick sy = forE [0..<length (mChannels (syMainframe sy))] Sys_ChannelTick_one sy"

definition Sys_Tick :: "system_env \<Rightarrow> (system_c, unit) exec" where
  "Sys_Tick env =
     bindE (\<lambda>sy. forE [0..<length (sySims sy)] (Sys_SimTick env) sy) (\<lambda>_.
     bindE Sys_CpusTick (\<lambda>_.
     bindE (\<lambda>sy. (Inr (), sy\<lparr>syMainframe := UpdateRealTimeClock (syMainframe sy)\<rparr>)) (\<lambda>_.
     Sys_ChannelTick)))"

end
