(* ===== verification/Sim_System_Results.thy ===== *)
theory Sim_System_Results
  imports Sim_System
begin

text \<open>
  What a machine does when it is switched on: in its first turn the simulated I/O subsystem
  loads the kernel and releases the start-up processor, which exchanges into the kernel, while
  the other processors stay in reset.
\<close>

section \<open>Processors in reset\<close>

definition nothing_pending :: external_ints where
  "nothing_pending = \<lparr>xInterProcessor = False, xDeadLock = False, xMcu = False, xIo = False\<rparr>"

text \<open>A processor that stays in reset: nothing is pending and its clock interrupt is off.\<close>

definition cpu_idle :: "SoftCpu_c \<Rightarrow> bool" where
  "cpu_idle s \<longleftrightarrow> mInReset s \<and> Flags (mState s) = 0 \<and> \<not> PeriodicInterruptEnabled (mState s) \<and> own_pending s = nothing_pending"

lemma InitNotIntFlags_none:
  assumes "own_pending s = nothing_pending"
  shows "InitNotIntFlags s = s"
proof -
  have "(mPending (mMainframe s))(mCpuId s := nothing_pending) = mPending (mMainframe s)"
    using assms by (auto simp: own_pending_def)
  then show ?thesis by (cases s; cases "mMainframe s") (simp add: InitNotIntFlags_def upd_mainframe_def nothing_pending_def)
qed

lemma idle_tick:
  assumes "cpu_idle s"
  shows "\<exists>t. Tick s = (Inr (), t) \<and> cpu_idle t \<and> mCpuId t = mCpuId s \<and> mMainframe t = mMainframe s"
proof -
  define d where "d = HandleCounters s"
  have d: "mInReset d" "Flags (mState d) = 0" "\<not> PeriodicInterruptEnabled (mState d)" "mMainframe d = mMainframe s"
      "mCpuId d = mCpuId s" "own_pending d = nothing_pending"
    using assms by (simp_all add: cpu_idle_def d_def HandleCounters_def Let_def own_pending_def upd_state_def upd_Flags_def upd_Mode_def upd_mainframe_def)
  have f: "upd_Flags (\<lambda>x. x) d = d" by (cases d; cases "mState d") (simp add: upd_Flags_def upd_state_def)
  have m: "MirrorExternalInterrupts d = d"
    using d(6) f InitNotIntFlags_none[OF d(6)] by (simp add: MirrorExternalInterrupts_def Let_def nothing_pending_def)
  have "Tick s = (Inr (), d)"
    using d(1,2) by (simp add: Tick_def d_def[symmetric] CheckInterrupts_def m Let_def)
  then show ?thesis using d by (simp add: cpu_idle_def)
qed

lemma MasterClear_simps:
  "mInReset (MasterClear s)" "Flags (mState (MasterClear s)) = 0" "mCpuId (MasterClear s) = mCpuId s"
  "PeriodicInterruptEnabled (mState (MasterClear s)) = PeriodicInterruptEnabled (mState s)"
  "ExchangePacketAddress (mState (MasterClear s)) = ExchangePacketAddress (mState s)"
  "mMemoryPokes (MasterClear s) = mMemoryPokes s" "Cluster (mState (MasterClear s)) = Cluster (mState s)"
  "mMainframe (MasterClear s) = (mMainframe s)\<lparr>mPending := (mPending (mMainframe s))(mCpuId s := nothing_pending)\<rparr>"
  by (simp_all add: MasterClear_def Let_def InitNotIntFlags_def nothing_pending_def upd_state_def upd_Flags_def upd_Mode_def upd_mainframe_def CalcInterruptMask_def)

text \<open>An exchange leaves the interrupts that are pending, and does not reset the processor.\<close>

lemma SetCluster_keeps:
  "SetCluster c s = (r, t) \<Longrightarrow> mPending (mMainframe t) = mPending (mMainframe s) \<and> mInReset t = mInReset s \<and> mCpuId t = mCpuId s"
  by (auto simp: SetCluster_def bindE_def returnE_def upd_ClusterCpuCnt_def Let_def upd_state_def upd_mainframe_def
      split: if_splits)

lemma restore_keeps:
  assumes "RestoreFromExchangePacket p s = (r, t)"
  shows "mPending (mMainframe t) = mPending (mMainframe s) \<and> mInReset t = mInReset s \<and> mCpuId t = mCpuId s"
proof -
  have m: "mMainframe (upd_state f v) = mMainframe v" "mInReset (upd_state f v) = mInReset v" "mCpuId (upd_state f v) = mCpuId v"
    for f v by (simp_all add: upd_state_def)
  have last: "mPending (mMainframe (snd (restore_last p v))) = mPending (mMainframe v) \<and>
      mInReset (snd (restore_last p v)) = mInReset v \<and> mCpuId (snd (restore_last p v)) = mCpuId v" for v
    by (auto simp: restore_last_def Let_def restore_registers CalcInterruptMask_def m split: option.splits)
  have first: "restore_first p s = Some v \<Longrightarrow> mPending (mMainframe v) = mPending (mMainframe s) \<and>
      mInReset v = mInReset s \<and> mCpuId v = mCpuId s" for v
    by (auto simp: restore_first_def upd_state_def split: bind_splits)
  show ?thesis
  proof (cases "restore_first p s")
    case None
    then show ?thesis using assms by (auto simp: RestoreFromExchangePacket_def upd_state_def)
  next
    case (Some v)
    obtain g w where g: "SetCluster (GetClusterNumber p) v = (g, w)" by (metis prod.exhaust)
    show ?thesis
      using assms Some g SetCluster_keeps[OF g] first[OF Some] last[of w]
      by (cases g) (auto simp: RestoreFromExchangePacket_def bindE_def)
  qed
qed

lemma restore_program:
  assumes "RestoreFromExchangePacket p s = (Inr (), t)"
  shows "ProgramAddress (mState t) = GetProgramAddress p"
proof -
  have m: "mState (upd_state f v) = f (mState v)" for f v by (simp add: upd_state_def)
  have last: "ProgramAddress (mState (snd (restore_last p v))) = ProgramAddress (mState v)" for v
    by (auto simp: restore_last_def Let_def restore_registers CalcInterruptMask_def m split: option.splits)
  obtain v where v: "restore_first p s = Some v"
    using assms by (cases "restore_first p s") (auto simp: RestoreFromExchangePacket_def)
  then have "ProgramAddress (mState v) = GetProgramAddress p" by (auto simp: restore_first_def upd_state_def split: bind_splits)
  moreover obtain g w where g: "SetCluster (GetClusterNumber p) v = (g, w)" by (metis prod.exhaust)
  then have "ProgramAddress (mState w) = ProgramAddress (mState v)"
    by (auto simp: SetCluster_def bindE_def returnE_def upd_ClusterCpuCnt_def Let_def upd_state_def upd_mainframe_def split: if_splits)
  moreover have "ProgramAddress (mState t) = ProgramAddress (mState w)"
    using assms v g last[of w] by (cases g) (auto simp: RestoreFromExchangePacket_def bindE_def)
  ultimately show ?thesis by simp
qed

lemma Exchange_parts:
  assumes "Exchange s = (Inr (), t)"
  shows "\<exists>ep v. packet_of s = Some ep \<and> mMainframe v = (mMainframe s)\<lparr>mMemory := Write_packet ep (packet_address s) (mMemory (mMainframe s))\<rparr> \<and>
     mInReset v = mInReset s \<and> mCpuId v = mCpuId s \<and>
     RestoreFromExchangePacket (ClearFlags (ExchangePacket_from (GetMachineType s) (mMemory (mMainframe s)) (packet_address s))) v = (Inr (), t)"
proof -
  obtain ep where ep: "packet_of s = Some ep"
    using assms by (cases "packet_of s") (auto simp: Exchange_def bindE_def CreateExchangePacket_def)
  show ?thesis
    using assms ep
    by (intro exI[of _ ep] exI[of _ "WriteExchangePacket ep (ucast (ExchangePacketAddress (mState s)) * 16)
        (upd_Flags (ClearBits (FiringInterrupts s AND handled_flags)) s)"])
      (simp add: Exchange_known ReadExchangePacket_def WriteExchangePacket_def packet_address_def upd_Flags_def upd_state_def upd_mainframe_def)
qed

lemma Exchange_keeps:
  assumes "Exchange s = (Inr (), t)"
  shows "mPending (mMainframe t) = mPending (mMainframe s)" "mInReset t = mInReset s" "mCpuId t = mCpuId s"
  using Exchange_parts[OF assms] restore_keeps by fastforce+

lemma GetProgramAddress_ClearFlags: "GetProgramAddress (ClearFlags p) = GetProgramAddress p"
  by (simp add: ClearFlags_def SetFlag_def Let_def PutWord_def GetProgramAddress_def GetXmpProgramAddress_def
      GetYmpProgramAddress_def)

lemma Exchange_program:
  assumes "Exchange s = (Inr (), t)"
  shows "ProgramAddress (mState t) =
    GetProgramAddress (ExchangePacket_from (GetMachineType s) (mMemory (mMainframe s)) (packet_address s))"
  using Exchange_parts[OF assms] restore_program GetProgramAddress_ClearFlags by fastforce

text \<open>When an exchange returns, by the packet at the exchange address.\<close>

definition waiting_packet :: "SoftCpu_c \<Rightarrow> ExchangePacket_c" where
  "waiting_packet s = ExchangePacket_from (GetMachineType s) (mMemory (mMainframe s)) (packet_address s)"

lemma prot_known:
  assumes "known_machine (epMachineType p)"
  shows "\<exists>a b c d. GetInstBaseAddr p = Some a \<and> GetInstLimitAddr p = Some b \<and> GetDataBaseAddr p = Some c \<and> GetDataLimitAddr p = Some d"
proof -
  obtain t l sh where lay: "prot_layout (epMachineType p) = (t, l, sh)" by (metis prod_cases3)
  show ?thesis
    using assms lay
    by (simp add: GetInstBaseAddr_def GetXmpInstBaseAddr_def GetYmpInstBaseAddr_def GetInstLimitAddr_def GetXmpInstLimitAddr_def
        GetYmpInstLimitAddr_def GetDataBaseAddr_def GetXmpDataBaseAddr_def GetYmpDataBaseAddr_def GetDataLimitAddr_def
        GetXmpDataLimitAddr_def GetYmpDataLimitAddr_def Prot_layout)
qed

lemma Exchange_returns:
  assumes known: "known_machine (GetMachineType s)"
    and "unat (Cluster (mState s)) \<le> length (mClusters (mMainframe s))"
    and "unat (GetClusterNumber (waiting_packet s)) \<le> length (mClusters (mMainframe s))"
  shows "\<exists>t. Exchange s = (Inr (), t)"
proof -
  let ?p = "ClearFlags (waiting_packet s)"
  obtain t l sh where lay: "prot_layout (GetMachineType s) = (t, l, sh)" by (metis prod_cases3)
  note ep = packet_of_known[OF known lay]
  let ?v = "WriteExchangePacket (seal_packet s (base_packet s t l sh)) (ucast (ExchangePacketAddress (mState s)) * 16)
        (upd_Flags (ClearBits (FiringInterrupts s AND handled_flags)) s)"
  have v: "mClusters (mMainframe ?v) = mClusters (mMainframe s)" "Cluster (mState ?v) = Cluster (mState s)"
      "mMachineType (mMainframe ?v) = GetMachineType s"
    by (simp_all add: WriteExchangePacket_def upd_Flags_def upd_state_def upd_mainframe_def GetMachineType_def)
  have ty: "epMachineType ?p = GetMachineType s"
    by (simp add: waiting_packet_def ExchangePacket_from_def Read_packet_def SetProcessorType_def ClearFlags_def SetFlag_def
        PutWord_def Let_def SetYmpProcessorType_def)
  have cn: "GetClusterNumber ?p = GetClusterNumber (waiting_packet s)"
    by (simp add: ClearFlags_def SetFlag_def Let_def PutWord_def GetClusterNumber_def GetXmpClusterNumber_def GetYmpClusterNumber_def)
  have "known_machine (epMachineType ?p)" using known ty by simp
  then obtain a b c d where prot: "GetInstBaseAddr ?p = Some a" "GetInstLimitAddr ?p = Some b" "GetDataBaseAddr ?p = Some c"
      "GetDataLimitAddr ?p = Some d" using prot_known by blast
  obtain w where w: "restore_first ?p ?v = Some w" "Cluster (mState w) = Cluster (mState s)" "mMainframe w = mMainframe ?v"
    using prot v(2) by (simp add: restore_first_def upd_state_def)
  obtain u where u: "SetCluster (GetClusterNumber ?p) w = (Inr (), u)" "mMachineType (mMainframe u) = GetMachineType s"
    using SetCluster_returns[of w "GetClusterNumber ?p"] assms(2,3) w(2,3) v cn by auto
  have "\<exists>x. XMode_of m (GetMachineType s) = Some x" for m
    using known by (cases "GetMachineType s") (auto simp: XMode_of_def known_machine_def)
  then have "fst (restore_last ?p u) = Inr ()"
    using prot(4) u(2) by (simp add: restore_last_def Let_def restore_registers CalcInterruptMask_def GetMachineType_def upd_state_def split: option.split)
  then have "\<exists>t. RestoreFromExchangePacket ?p ?v = (Inr (), t)"
    using w(1) u(1) by (simp add: RestoreFromExchangePacket_def bindE_Inr) (metis prod.collapse)
  then show ?thesis by (simp add: Exchange_known[OF ep] ReadExchangePacket_def waiting_packet_def packet_address_def)
qed

section \<open>The master clear\<close>

definition sys_cpu :: "system_c \<Rightarrow> nat \<Rightarrow> SoftCpu_c" where
  "sys_cpu sy i = (syCpus sy ! i)\<lparr>mMainframe := syMainframe sy\<rparr>"

lemma on_cpu_eq: "f (sys_cpu sy i) = (r, t) \<Longrightarrow>
    Sys_on_cpu i f sy = (r, sy\<lparr>syCpus := (syCpus sy)[i := t], syMainframe := mMainframe (PublishView t)\<rparr>)"
  by (simp add: Sys_on_cpu_def sys_cpu_def)

lemma PublishView_simps [simp]:
  "mMemory (mMainframe (PublishView t)) = mMemory (mMainframe t)" "mPending (mMainframe (PublishView t)) = mPending (mMainframe t)"
  "mMachineType (mMainframe (PublishView t)) = mMachineType (mMainframe t)" "mClusters (mMainframe (PublishView t)) = mClusters (mMainframe t)"
  by (simp_all add: PublishView_def upd_mainframe_def)

text \<open>
  The part of a system that the boot is about: what a processor is, apart from its interrupts.
\<close>

definition cpu_same :: "SoftCpu_c \<Rightarrow> SoftCpu_c \<Rightarrow> bool" where
  "cpu_same s t \<longleftrightarrow> mCpuId t = mCpuId s \<and> mMemoryPokes t = mMemoryPokes s \<and>
     ExchangePacketAddress (mState t) = ExchangePacketAddress (mState s) \<and>
     PeriodicInterruptEnabled (mState t) = PeriodicInterruptEnabled (mState s) \<and> Cluster (mState t) = Cluster (mState s)"

definition sys_same :: "system_c \<Rightarrow> system_c \<Rightarrow> bool" where
  "sys_same sy t \<longleftrightarrow> length (syCpus t) = length (syCpus sy) \<and> (\<forall>i<length (syCpus sy). cpu_same (syCpus sy ! i) (syCpus t ! i)) \<and>
     sySims t = sySims sy \<and> syMemoryPokes t = syMemoryPokes sy \<and> syStartupCpuIdx t = syStartupCpuIdx sy \<and>
     mMachineType (syMainframe t) = mMachineType (syMainframe sy) \<and> mClusters (syMainframe t) = mClusters (syMainframe sy)"

lemma sys_same_trans: "sys_same a b \<Longrightarrow> sys_same b c \<Longrightarrow> sys_same a c"
  by (auto simp: sys_same_def cpu_same_def)

text \<open>Each processor has its index for its number.\<close>

definition sys_ids :: "system_c \<Rightarrow> bool" where
  "sys_ids sy \<longleftrightarrow> (\<forall>i<length (syCpus sy). mCpuId (syCpus sy ! i) = i)"

lemma sys_ids_update:
  "sys_ids sy \<Longrightarrow> mCpuId c = i \<Longrightarrow> sys_ids (sy\<lparr>syCpus := (syCpus sy)[i := c], syMainframe := m\<rparr>)"
  by (cases "i < length (syCpus sy)") (auto simp: sys_ids_def nth_list_update)

lemma clear_processors:
  assumes "sys_ids sy" "n \<le> length (syCpus sy)" "\<forall>i<length (syCpus sy). \<not> PeriodicInterruptEnabled (mState (syCpus sy ! i))"
  shows "\<exists>t. forE [0..<n] (\<lambda>i. Sys_on_cpu i (\<lambda>s. (Inr (), MasterClear s))) sy = (Inr (), t) \<and> sys_same sy t \<and>
     mMemory (syMainframe t) = mMemory (syMainframe sy) \<and> syMemoryPokesProcessed t = syMemoryPokesProcessed sy \<and>
     syCpuMasterClear t = syCpuMasterClear sy \<and> (\<forall>i<n. cpu_idle (sys_cpu t i))"
  using assms(2)
proof (induction n)
  case 0
  then show ?case by (simp add: sys_same_def cpu_same_def)
next
  case (Suc n)
  then obtain t where t: "forE [0..<n] (\<lambda>i. Sys_on_cpu i (\<lambda>s. (Inr (), MasterClear s))) sy = (Inr (), t)" "sys_same sy t"
    "mMemory (syMainframe t) = mMemory (syMainframe sy)" "syMemoryPokesProcessed t = syMemoryPokesProcessed sy"
    "\<forall>i<n. cpu_idle (sys_cpu t i)" "syCpuMasterClear t = syCpuMasterClear sy" by auto
  have n: "n < length (syCpus t)" using t(2) Suc.prems by (simp add: sys_same_def)
  have id: "mCpuId (syCpus t ! i) = i" if "i < length (syCpus sy)" for i
    using that t(2) assms(1) by (simp add: sys_same_def cpu_same_def sys_ids_def)
  let ?c = "MasterClear (sys_cpu t n)"
  let ?t = "t\<lparr>syCpus := (syCpus t)[n := ?c], syMainframe := mMainframe (PublishView ?c)\<rparr>"
  have step: "Sys_on_cpu n (\<lambda>s. (Inr (), MasterClear s)) t = (Inr (), ?t)" by (rule on_cpu_eq) simp
  have pend: "mPending (syMainframe ?t) = (mPending (syMainframe t))(n := nothing_pending)"
    using id[of n] Suc.prems by (simp add: MasterClear_simps sys_cpu_def)
  have idle: "cpu_idle (sys_cpu ?t i)" if i: "i < Suc n" for i
  proof (cases "i = n")
    case True
    then show ?thesis
      using n pend id[of n] Suc.prems assms(3) t(2)
      by (auto simp: cpu_idle_def sys_cpu_def own_pending_def MasterClear_simps sys_same_def cpu_same_def)
  next
    case False
    then show ?thesis
      using i t(5)[rule_format, of i] pend id[of i] Suc.prems by (auto simp: cpu_idle_def sys_cpu_def own_pending_def)
  qed
  have same: "sys_same t ?t"
    using n by (auto simp: sys_same_def cpu_same_def nth_list_update MasterClear_simps sys_cpu_def)
  have "forE [0..<Suc n] (\<lambda>i. Sys_on_cpu i (\<lambda>s. (Inr (), MasterClear s))) sy = (Inr (), ?t)"
    using t(1) step by (simp add: forE_append)
  moreover have "mMemory (syMainframe ?t) = mMemory (syMainframe sy)" using t(3) by (simp add: MasterClear_simps sys_cpu_def)
  ultimately show ?case using sys_same_trans[OF t(2) same] idle t(4,6) by (intro exI[of _ ?t]) auto
qed

definition boot_memory :: "system_c \<Rightarrow> memory \<Rightarrow> memory" where
  "boot_memory sy m = fold apply_poke (mMemoryPokes (syCpus sy ! syStartupCpuIdx sy))
     (fold apply_poke (if syMemoryPokesProcessed sy then [] else syMemoryPokes sy) m)"

text \<open>A machine that has not been started.\<close>

definition machine_off :: "system_c \<Rightarrow> bool" where
  "machine_off sy \<longleftrightarrow> sys_ids sy \<and> \<not> syCpuMasterClear sy \<and> syStartupCpuIdx sy < length (syCpus sy) \<and>
     (\<forall>i<length (syCpus sy). \<not> PeriodicInterruptEnabled (mState (syCpus sy ! i)))"

definition all_idle_but :: "nat \<Rightarrow> system_c \<Rightarrow> bool" where
  "all_idle_but k sy \<longleftrightarrow> (\<forall>i<length (syCpus sy). i \<noteq> k \<longrightarrow> cpu_idle (sys_cpu sy i))"

lemma DeadStart_simps:
  "mState (cpu_DeadStart s) = mState s" "mInReset (cpu_DeadStart s) = mInReset s" "mCpuId (cpu_DeadStart s) = mCpuId s"
  "mMemoryPokes (cpu_DeadStart s) = mMemoryPokes s"
  "mMainframe (cpu_DeadStart s) = (mMainframe s)\<lparr>mMemory := fold apply_poke (mMemoryPokes s) (mMemory (mMainframe s)),
     mPending := (mPending (mMainframe s))(mCpuId s := (mPending (mMainframe s) (mCpuId s))\<lparr>xMcu := True\<rparr>)\<rparr>"
  by (simp_all add: cpu_DeadStart_def cpu_SetMcuInterrupt_def upd_mainframe_def)

lemma master_clear_calls:
  assumes off: "machine_off sy"
  defines "k \<equiv> syStartupCpuIdx sy"
  shows "\<exists>t. Sys_calls [True, False] sy = (Inr (), t) \<and> sys_same sy t \<and> \<not> syCpuMasterClear t \<and>
     mMemory (syMainframe t) = boot_memory sy (mMemory (syMainframe sy)) \<and>
     all_idle_but k t \<and> mInReset (sys_cpu t k) \<and> xMcu (own_pending (sys_cpu t k))"
proof -
  let ?n = "length (syCpus sy)"
  have k: "k < ?n" and ids: "sys_ids sy" and off': "\<not> syCpuMasterClear sy" using off by (simp_all add: machine_off_def k_def)
  obtain a where a: "forE [0..<?n] (\<lambda>i. Sys_on_cpu i (\<lambda>s. (Inr (), MasterClear s))) sy = (Inr (), a)" "sys_same sy a"
    "mMemory (syMainframe a) = mMemory (syMainframe sy)" "syMemoryPokesProcessed a = syMemoryPokesProcessed sy"
    "\<forall>i<?n. cpu_idle (sys_cpu a i)"
    using clear_processors[of sy ?n] off by (auto simp: machine_off_def)
  let ?b = "a\<lparr>syCpuMasterClear := True\<rparr>"
  have first: "CpuMasterClear True sy = (Inr (), ?b)" using a(1) off' by (simp add: CpuMasterClear_def bindE_def)
  have st: "syStartupCpuIdx a = k" "length (syCpus a) = ?n" using a(2) by (simp_all add: sys_same_def k_def)
  let ?p = "Sys_pokes ?b" and ?d = "cpu_DeadStart (sys_cpu (Sys_pokes ?b) k)"
  let ?t = "?p\<lparr>syCpus := (syCpus ?p)[k := ?d], syMainframe := mMainframe (PublishView ?d), syCpuMasterClear := False\<rparr>"
  have p: "syCpus ?p = syCpus a" "sySims ?p = sySims a" "syMemoryPokes ?p = syMemoryPokes a" "syStartupCpuIdx ?p = k"
    "mPending (syMainframe ?p) = mPending (syMainframe a)" "mMachineType (syMainframe ?p) = mMachineType (syMainframe a)"
    "mClusters (syMainframe ?p) = mClusters (syMainframe a)"
    "mMemory (syMainframe ?p) = fold apply_poke (if syMemoryPokesProcessed sy then [] else syMemoryPokes sy) (mMemory (syMainframe sy))"
    using st(1) a(2,3,4) by (simp_all add: Sys_pokes_def sys_same_def)
  have "Sys_on_cpu k (\<lambda>s. (Inr (), cpu_DeadStart s)) ?p =
      (Inr (), ?p\<lparr>syCpus := (syCpus ?p)[k := ?d], syMainframe := mMainframe (PublishView ?d)\<rparr>)" by (rule on_cpu_eq) simp
  then have second: "CpuMasterClear False ?b = (Inr (), ?t)"
    using st k by (simp add: CpuMasterClear_def bindE_def)
  have id: "mCpuId (syCpus a ! i) = i" if "i < ?n" for i
    using that a(2) ids by (simp add: sys_same_def cpu_same_def sys_ids_def)
  have "sys_same a ?t"
    using st k by (auto simp: sys_same_def cpu_same_def nth_list_update DeadStart_simps sys_cpu_def p)
  then have same: "sys_same sy ?t" by (rule sys_same_trans[OF a(2)])
  have mem: "mMemory (syMainframe ?t) = boot_memory sy (mMemory (syMainframe sy))"
    using a(2) k by (simp add: DeadStart_simps sys_cpu_def p boot_memory_def k_def[symmetric] sys_same_def cpu_same_def)
  have idle: "all_idle_but k ?t"
    using a(5) id st(2) k by (auto simp: all_idle_but_def cpu_idle_def sys_cpu_def own_pending_def DeadStart_simps p)
  have "mInReset (sys_cpu ?t k)" "xMcu (own_pending (sys_cpu ?t k))"
    using a(5) k st(2) by (auto simp: cpu_idle_def sys_cpu_def own_pending_def DeadStart_simps p)
  with first second same mem idle show ?thesis by (intro exI[of _ ?t]) (simp add: bindE_def returnE_def)
qed

lemma idle_ticks:
  assumes "all_idle_but k sy" "k \<notin> set js" "set js \<subseteq> {..<length (syCpus sy)}" "sys_ids sy"
  shows "\<exists>t. forE js (\<lambda>i. Sys_on_cpu i Tick) sy = (Inr (), t) \<and> all_idle_but k t \<and> sys_ids t \<and>
     length (syCpus t) = length (syCpus sy) \<and> syCpus t ! k = syCpus sy ! k \<and>
     (\<exists>vs. syMainframe t = (syMainframe sy)\<lparr>mCpus := vs\<rparr>)"
  using assms
proof (induction js arbitrary: sy)
  case Nil
  then show ?case by (auto intro: exI[of _ "mCpus (syMainframe sy)"])
next
  case (Cons i js)
  have i: "i < length (syCpus sy)" "i \<noteq> k" "cpu_idle (sys_cpu sy i)"
    using Cons.prems(1-3) by (auto simp: all_idle_but_def)
  obtain c where c: "Tick (sys_cpu sy i) = (Inr (), c)" "cpu_idle c" "mCpuId c = i" "mMainframe c = syMainframe sy"
    using idle_tick[OF i(3)] i(1) Cons.prems(4) by (auto simp: sys_cpu_def sys_ids_def)
  let ?u = "sy\<lparr>syCpus := (syCpus sy)[i := c], syMainframe := mMainframe (PublishView c)\<rparr>"
  have step: "Sys_on_cpu i Tick sy = (Inr (), ?u)" using on_cpu_eq[of Tick sy i, OF c(1)] by simp
  obtain vs where vs: "syMainframe ?u = (syMainframe sy)\<lparr>mCpus := vs\<rparr>"
    by (simp add: PublishView_def upd_mainframe_def c(4))
  have "cpu_idle (sys_cpu ?u j)" if j: "j < length (syCpus sy)" "j \<noteq> k" for j
  proof (cases "j = i")
    case True
    then show ?thesis using c j by (auto simp: cpu_idle_def sys_cpu_def own_pending_def)
  next
    case False
    then have "cpu_idle (sys_cpu sy j)" using Cons.prems(1) j by (simp add: all_idle_but_def)
    then show ?thesis using c(4) False by (auto simp: cpu_idle_def sys_cpu_def own_pending_def)
  qed
  then have "all_idle_but k ?u" by (simp add: all_idle_but_def)
  moreover have "sys_ids ?u" using Cons.prems(4) c(3) by (rule sys_ids_update)
  ultimately obtain t where t: "forE js (\<lambda>i. Sys_on_cpu i Tick) ?u = (Inr (), t)" "all_idle_but k t" "sys_ids t"
    "length (syCpus t) = length (syCpus sy)" "syCpus t ! k = syCpus sy ! k" "\<exists>ws. syMainframe t = (syMainframe ?u)\<lparr>mCpus := ws\<rparr>"
    using Cons.IH[of ?u] Cons.prems(2,3) i(2) by auto
  then show ?case using step vs by (intro exI[of _ t]) auto
qed

text \<open>The dead start of the mainframe: all processors are in reset, and every cluster is about to boot.\<close>

lemma channels_cleared_memory:
  "mMemory (for_loop 0 n (\<lambda>ix m. if mChannels m ! ix \<noteq> None then MainframeSideMasterClear ix m else m) mf) = mMemory mf"
  by (rule for_loop_invariant[where I = "\<lambda>k m. mMemory m = mMemory mf"])
    (auto simp: MainframeSideMasterClear_def SetInterruptPending_def SetInactive_def upd_chan_def Let_def)

theorem dead_start_prepares:
  assumes "machine_off sy"
  shows "\<exists>t. Sys_DeadStart sy = (Inr (), t) \<and> machine_off t \<and> (\<forall>i<length (syCpus sy). mInReset (syCpus t ! i)) \<and>
     (\<forall>cl\<in>set (sySims t). siState cl = SimReset) \<and> mMemory (syMainframe t) = mMemory (syMainframe sy)"
proof -
  let ?n = "length (syCpus sy)"
  obtain a where a: "forE [0..<?n] (\<lambda>i. Sys_on_cpu i (\<lambda>s. (Inr (), MasterClear s))) sy = (Inr (), a)" "sys_same sy a"
    "mMemory (syMainframe a) = mMemory (syMainframe sy)" "\<forall>i<?n. cpu_idle (sys_cpu a i)" "syCpuMasterClear a = syCpuMasterClear sy"
    using clear_processors[of sy ?n] assms by (auto simp: machine_off_def)
  define mf where "mf = for_loop 0 (length (mChannels (syMainframe a)))
    (\<lambda>ix m. if mChannels m ! ix \<noteq> None then MainframeSideMasterClear ix m else m) (syMainframe a)"
  let ?t = "a\<lparr>syMainframe := mf, sySims := map SI_MasterClear (sySims a)\<rparr>"
  have "Sys_DeadStart sy = (Inr (), ?t)" using a(1) by (simp add: Sys_DeadStart_def bindE_def mf_def)
  moreover have "machine_off ?t"
    using a(2,5) assms by (simp add: machine_off_def sys_ids_def sys_same_def cpu_same_def)
  moreover have "mMemory mf = mMemory (syMainframe sy)" unfolding mf_def channels_cleared_memory by (rule a(3))
  ultimately show ?thesis
    using a(4) by (intro exI[of _ ?t]) (auto simp: SI_MasterClear_def cpu_idle_def sys_cpu_def)
qed

section \<open>The first turn\<close>

text \<open>A cluster that is about to boot: its terminals are not due and its adapters are paused.\<close>

definition boot_ready :: "SimIopCluster_c \<Rightarrow> bool" where
  "boot_ready cl \<longleftrightarrow> siState cl = SimReset \<and> siMasterCluster cl \<and> siCpuMasterClears cl = [] \<and>
     (\<forall>c\<in>set (siConsoles cl). conPollCnt (scConsole c) < 1000) \<and>
     (\<forall>e\<in>set (siEthInterfaces cl). \<forall>th. enPacketCaptureThread e = Some th \<longrightarrow> pcPaused th)"

lemma consoles_quiet:
  assumes "\<forall>i<n. conPollCnt (scConsole (siConsoles cl ! i)) < 1000" "n \<le> length (siConsoles cl)"
  shows "\<exists>cs. forE [0..<n] (\<lambda>i. SC_Tick i (polls i)) cl = (Inr (), cl\<lparr>siConsoles := cs\<rparr>) \<and>
     length cs = length (siConsoles cl) \<and> (\<forall>i. n \<le> i \<longrightarrow> cs ! i = siConsoles cl ! i)"
  using assms
proof (induction n)
  case 0
  then show ?case by (auto intro: exI[of _ "siConsoles cl"])
next
  case (Suc n)
  then obtain cs where cs: "forE [0..<n] (\<lambda>i. SC_Tick i (polls i)) cl = (Inr (), cl\<lparr>siConsoles := cs\<rparr>)"
    "length cs = length (siConsoles cl)" "\<forall>i. n \<le> i \<longrightarrow> cs ! i = siConsoles cl ! i" by auto
  then have "\<not> 1000 < Suc (conPollCnt (scConsole (cs ! n)))" using Suc.prems(1) by auto
  then have "\<exists>c. SC_Tick n (polls n) (cl\<lparr>siConsoles := cs\<rparr>) = (Inr (), cl\<lparr>siConsoles := cs[n := c]\<rparr>)"
    using Suc.prems(2) cs(2) by (auto simp: SC_Tick_def upd_console_def Let_def)
  with cs show ?case by (auto simp: forE_append)
qed

lemma network_quiet:
  "\<forall>e\<in>set (siEthInterfaces cl). \<forall>th. enPacketCaptureThread e = Some th \<longrightarrow> pcPaused th \<Longrightarrow> Network_Tick cl = (Inr (), cl)"
proof -
  assume quiet: "\<forall>e\<in>set (siEthInterfaces cl). \<forall>th. enPacketCaptureThread e = Some th \<longrightarrow> pcPaused th"
  have "forE ks Eth_Tick cl = (Inr (), cl)" if "set ks \<subseteq> {..<length (siEthInterfaces cl)}" for ks
    using that quiet by (induction ks) (auto simp: Eth_Tick_def split: option.split)
  from this[of "[0..<length (siEthInterfaces cl)]"] show ?thesis by (simp add: Network_Tick_def subset_eq)
qed

lemma load_kernel_cong:
  assumes "siKernelFile b = siKernelFile c" "siKernelPreamble b = siKernelPreamble c" "siParameterFile b = siParameterFile c"
    and "siRamFsFile b = siRamFsFile c" "siBootCluster b = siBootCluster c" "siBootChannel b = siBootChannel c"
    and "siLogicalMainframeNumber b = siLogicalMainframeNumber c" "siOWSProtocolLevel b = siOWSProtocolLevel c"
    and "siRunLevel b = siRunLevel c" "siDontTouchExchangePacket b = siDontTouchExchangePacket c"
  shows "load_kernel b = load_kernel c"
proof -
  have i: "if_patching b = if_patching c" by (intro ext) (simp add: if_patching_def assms)
  have r: "load_ramfs b = load_ramfs c" by (intro ext) (unfold load_ramfs_def assms i, rule refl)
  have p: "load_parameters b = load_parameters c" by (intro ext) (unfold load_parameters_def assms i r, rule refl)
  show ?thesis by (unfold load_kernel_def boot_A7_def assms i p, rule refl)
qed

lemma boots:
  assumes "boot_ready cl" "load_kernel cl (siMainframe cl) = (Inr (), mf)"
  shows "\<exists>t. bindE (\<lambda>cl. forE [0..<length (siConsoles cl)] (\<lambda>i. SC_Tick i (polls i)) cl) (\<lambda>_. SI_Tick env) cl = (Inr (), t) \<and>
     siMainframe t = mf \<and> siCpuMasterClears t = [True, False]"
proof -
  obtain cs where cs: "forE [0..<length (siConsoles cl)] (\<lambda>i. SC_Tick i (polls i)) cl = (Inr (), cl\<lparr>siConsoles := cs\<rparr>)"
    using consoles_quiet[of "length (siConsoles cl)" cl polls] assms(1) by (auto simp: boot_ready_def)
  let ?c = "cl\<lparr>siConsoles := cs\<rparr>"
  let ?b = "?c\<lparr>siSeqSent := 0, siSeqReceived := 0, siConsoles := map (SC_Reset (siIopRevision cl)) cs\<rparr>"
  have "load_kernel ?b = load_kernel cl" by (rule load_kernel_cong) simp_all
  then have boot: "SI_Boot ?c = (Inr (), ?b\<lparr>siMainframe := mf, siCpuMasterClears := [True, False]\<rparr>)"
    using assms by (simp add: SI_Boot_def Let_def boot_ready_def)
  have net: "Network_Tick ?c = (Inr (), ?c)" using assms(1) by (intro network_quiet) (simp add: boot_ready_def)
  show ?thesis
  proof (cases "siIopRevision cl")
    case IOSE
    then show ?thesis using cs boot net assms(1)
      by (simp add: bindE_def SI_Tick_def SI_Tick_state_def Tick_Reset_def boot_ready_def)
  next
    case IOSD
    obtain ch where "SI_QueuePacket (time_packet (seTime env)) (?b\<lparr>siMainframe := mf, siCpuMasterClears := [True, False]\<rparr>) =
        (Inr (), ?b\<lparr>siMainframe := mf, siCpuMasterClears := [True, False], siPacketsSent := siPacketsSent cl + 1, siIToCChannel := ch\<rparr>)"
      using SI_QueuePacket_returns[of "time_packet (seTime env)" "?b\<lparr>siMainframe := mf, siCpuMasterClears := [True, False]\<rparr>"] by auto
    then show ?thesis using IOSD cs boot net assms(1)
      by (simp add: bindE_def SI_Tick_def SI_Tick_state_def Tick_Reset_def boot_ready_def)
  qed
qed

lemma Sys_boots:
  assumes off: "machine_off sy" and sims: "sySims sy = [cl]" and ready: "boot_ready cl"
    and load: "load_kernel cl (syMainframe sy) = (Inr (), mf)"
  defines "k \<equiv> syStartupCpuIdx sy"
  shows "\<exists>t. Sys_SimTick env 0 sy = (Inr (), t) \<and> sys_ids t \<and> length (syCpus t) = length (syCpus sy) \<and>
     cpu_same (syCpus sy ! k) (syCpus t ! k) \<and> mMemory (syMainframe t) = boot_memory sy (mMemory mf) \<and>
     mMachineType (syMainframe t) = mMachineType mf \<and> mClusters (syMainframe t) = mClusters mf \<and>
     all_idle_but k t \<and> mInReset (sys_cpu t k) \<and> xMcu (own_pending (sys_cpu t k))"
proof -
  let ?cl = "cl\<lparr>siMainframe := syMainframe sy\<rparr>"
  have "boot_ready ?cl" using ready by (simp add: boot_ready_def)
  moreover have "load_kernel ?cl (siMainframe ?cl) = (Inr (), mf)"
    using load load_kernel_cong[of ?cl cl] by simp
  ultimately obtain c where c: "bindE (\<lambda>cl. forE [0..<length (siConsoles cl)] (\<lambda>i. SC_Tick i (ssPolls env 0 i)) cl)
      (\<lambda>_. SI_Tick (ssEnv env)) ?cl = (Inr (), c)" "siMainframe c = mf" "siCpuMasterClears c = [True, False]"
    using boots[of ?cl mf "ssPolls env 0" "ssEnv env"] by blast
  let ?s = "sy\<lparr>syMainframe := mf, sySims := [c\<lparr>siCpuMasterClears := []\<rparr>]\<rparr>"
  have off': "machine_off ?s" using off by (simp add: machine_off_def sys_ids_def)
  obtain t where t: "Sys_calls [True, False] ?s = (Inr (), t)" "sys_same ?s t" "mMemory (syMainframe t) = boot_memory ?s (mMemory mf)"
    "all_idle_but k t" "mInReset (sys_cpu t k)" "xMcu (own_pending (sys_cpu t k))"
    using master_clear_calls[OF off'] by (auto simp: k_def)
  have "Sys_SimTick env 0 sy = (Inr (), t)"
    using c t(1) by (simp add: Sys_SimTick_def bindE_def Sys_on_sim_def sims Let_def)
  moreover have "sys_ids t" using off' t(2) by (auto simp: machine_off_def sys_ids_def sys_same_def cpu_same_def)
  moreover have "cpu_same (syCpus sy ! k) (syCpus t ! k)" using t(2) off by (simp add: sys_same_def machine_off_def k_def)
  ultimately show ?thesis
    using t(2-) by (intro exI[of _ t]) (simp add: sys_same_def boot_memory_def)
qed

text \<open>The tick of the start-up processor after its master clear: it exchanges into the packet in the memory.\<close>

lemma startup_exchange:
  fixes s :: SoftCpu_c
  defines "mf \<equiv> mMainframe s"
  defines "p \<equiv> ExchangePacket_from (mMachineType mf) (mMemory mf) (packet_address s)"
  assumes "mInReset s" "xMcu (own_pending s)" "known_machine (mMachineType mf)"
    and "unat (GetClusterNumber p) \<le> length (mClusters mf)" "unat (Cluster (mState s)) \<le> length (mClusters mf)"
  shows "\<exists>u. Tick s = (Inr (), u) \<and> \<not> mInReset u \<and> mCpuId u = mCpuId s \<and> ProgramAddress (mState u) = GetProgramAddress p \<and>
     mPending (mMainframe u) = (mPending mf)(mCpuId s := nothing_pending) \<and>
     (\<forall>x. x < packet_address s \<or> packet_address s + 128 \<le> x \<longrightarrow> mMemory (mMainframe u) x = mMemory mf x)"
proof -
  obtain c where c: "Tick s = Exchange c" "\<not> mInReset c" "mCpuId c = mCpuId s"
    "ExchangePacketAddress (mState c) = ExchangePacketAddress (mState s)"
    "Cluster (mState c) = Cluster (mState s)" "mMainframe c = mMainframe (InitNotIntFlags s)"
    using reset_tick_exchanges[OF assms(3,4)] by blast
  have mf: "mMemory (mMainframe c) = mMemory mf" "mMachineType (mMainframe c) = mMachineType mf"
    "mClusters (mMainframe c) = mClusters mf" "packet_address c = packet_address s"
    using c(4,6) by (simp_all add: InitNotIntFlags_def upd_mainframe_def packet_address_def mf_def)
  have w: "waiting_packet c = p" by (simp add: waiting_packet_def p_def GetMachineType_def mf)
  obtain u where u: "Exchange c = (Inr (), u)"
    using Exchange_returns[of c] assms(5-7) c(5) by (auto simp: GetMachineType_def mf w)
  note uk = Exchange_keeps[OF u]
  obtain ep where ep: "packet_of c = Some ep" using Exchange_parts[OF u] by blast
  have "mMemory (mMainframe u) = Write_packet ep (packet_address c) (mMemory (mMainframe c))"
    using Exchange_memory[OF ep] by (simp add: u)
  moreover have "mPending (mMainframe u) = (mPending mf)(mCpuId s := nothing_pending)"
    using uk(1) c(6) by (simp add: InitNotIntFlags_def upd_mainframe_def nothing_pending_def mf_def)
  moreover have "ProgramAddress (mState u) = GetProgramAddress p"
    using Exchange_program[OF u] w by (simp add: waiting_packet_def)
  ultimately show ?thesis
    using c(1-3) u uk(2,3) mf(1,4) by (intro exI[of _ u]) (simp add: Write_packet_outside)
qed

text \<open>C20: A machine boots in its first turn. In a machine that has not been started, whose I/O
  subsystem has a kernel that fits the memory, one turn of the simulated I/O subsystem and of all
  processors succeeds. It loads the kernel and makes the pokes of the configuration; then the
  start-up processor has left the reset and is at the program address of the exchange packet
  that the loaded memory holds at its exchange address, all other processors stay in reset, and
  outside the packet the memory is as it was loaded. The packet has to name an existing cluster.\<close>

theorem machine_boots:
  fixes sy mf
  defines "k \<equiv> syStartupCpuIdx sy"
  defines "p \<equiv> ExchangePacket_from (mMachineType mf) (boot_memory sy (mMemory mf)) (packet_address (syCpus sy ! k))"
  assumes "machine_off sy" "sySims sy = [cl]" "boot_ready cl" "load_kernel cl (syMainframe sy) = (Inr (), mf)"
    and "known_machine (mMachineType mf)" "unat (GetClusterNumber p) \<le> length (mClusters mf)"
    and "unat (Cluster (mState (syCpus sy ! k))) \<le> length (mClusters mf)"
  shows "\<exists>t. bindE (Sys_SimTick env 0) (\<lambda>_. Sys_CpusTick) sy = (Inr (), t) \<and>
     ProgramAddress (mState (syCpus t ! k)) = GetProgramAddress p \<and> \<not> mInReset (syCpus t ! k) \<and>
     (\<forall>i<length (syCpus sy). i \<noteq> k \<longrightarrow> mInReset (syCpus t ! i)) \<and>
     (\<forall>x. x < packet_address (syCpus sy ! k) \<or> packet_address (syCpus sy ! k) + 128 \<le> x \<longrightarrow>
        mMemory (syMainframe t) x = boot_memory sy (mMemory mf) x)"
proof -
  let ?n = "length (syCpus sy)"
  have k: "k < ?n" using assms(3) by (simp add: machine_off_def k_def)
  obtain a where a: "Sys_SimTick env 0 sy = (Inr (), a)" "sys_ids a" "length (syCpus a) = ?n"
    "cpu_same (syCpus sy ! k) (syCpus a ! k)" "mMemory (syMainframe a) = boot_memory sy (mMemory mf)"
    "mMachineType (syMainframe a) = mMachineType mf" "mClusters (syMainframe a) = mClusters mf"
    "all_idle_but k a" "mInReset (sys_cpu a k)" "xMcu (own_pending (sys_cpu a k))"
    using Sys_boots[OF assms(3-6), of env] by (auto simp: k_def)
  obtain b where b: "forE [0..<k] (\<lambda>i. Sys_on_cpu i Tick) a = (Inr (), b)" "all_idle_but k b" "sys_ids b"
    "length (syCpus b) = ?n" "syCpus b ! k = syCpus a ! k" "\<exists>vs. syMainframe b = (syMainframe a)\<lparr>mCpus := vs\<rparr>"
    using idle_ticks[OF a(8) _ _ a(2), of "[0..<k]"] k a(3) by (auto simp: subset_eq)
  let ?s = "sys_cpu b k"
  have cpu: "mInReset ?s" "xMcu (own_pending ?s)"
    using a(9,10) b(5,6) by (auto simp: sys_cpu_def own_pending_def)
  have mf: "mMemory (mMainframe ?s) = boot_memory sy (mMemory mf)" "mMachineType (mMainframe ?s) = mMachineType mf"
    "mClusters (mMainframe ?s) = mClusters mf" "packet_address ?s = packet_address (syCpus sy ! k)"
    "Cluster (mState ?s) = Cluster (mState (syCpus sy ! k))"
    using a(4-7) b(5,6) by (auto simp: sys_cpu_def cpu_same_def packet_address_def)
  obtain u where u: "Tick ?s = (Inr (), u)" "\<not> mInReset u" "mCpuId u = mCpuId ?s" "ProgramAddress (mState u) = GetProgramAddress p"
    "mPending (mMainframe u) = (mPending (mMainframe ?s))(mCpuId ?s := nothing_pending)"
    "\<forall>x. x < packet_address (syCpus sy ! k) \<or> packet_address (syCpus sy ! k) + 128 \<le> x \<longrightarrow>
       mMemory (mMainframe u) x = boot_memory sy (mMemory mf) x"
    using startup_exchange[OF cpu, unfolded mf, folded p_def, OF assms(7-9)] by blast
  let ?d = "b\<lparr>syCpus := (syCpus b)[k := u], syMainframe := mMainframe (PublishView u)\<rparr>"
  have step: "Sys_on_cpu k Tick b = (Inr (), ?d)" using on_cpu_eq[of Tick b k "Inr ()" u] u(1) by simp
  have id: "mCpuId (syCpus b ! i) = i" if "i < ?n" for i using that b(3,4) by (simp add: sys_ids_def)
  have "mCpuId u = k" using u(3) id[OF k] by (simp add: sys_cpu_def)
  then have ids: "sys_ids ?d" by (rule sys_ids_update[OF b(3)])
  have idle: "all_idle_but k ?d"
    using b(2,4) u(5) id k by (simp add: all_idle_but_def cpu_idle_def sys_cpu_def own_pending_def)
  obtain t where t: "forE [Suc k..<?n] (\<lambda>i. Sys_on_cpu i Tick) ?d = (Inr (), t)" "all_idle_but k t"
    "length (syCpus t) = ?n" "syCpus t ! k = u" "\<exists>vs. syMainframe t = (syMainframe ?d)\<lparr>mCpus := vs\<rparr>"
    using idle_ticks[OF idle _ _ ids, of "[Suc k..<?n]"] b(4) k by (auto simp: subset_eq)
  have "[0..<?n] = [0..<k] @ [k..<?n]" using upt_add_eq_append[of 0 k "?n - k"] k by simp
  then have "[0..<?n] = [0..<k] @ k # [Suc k..<?n]" using upt_conv_Cons[OF k] by simp
  then have "Sys_CpusTick a = (Inr (), t)" using b(1) step t(1) a(3) by (simp add: Sys_CpusTick_def forE_append)
  moreover have "mInReset (syCpus t ! i)" if "i < ?n" "i \<noteq> k" for i
    using t(2,3) that by (auto simp: all_idle_but_def cpu_idle_def sys_cpu_def)
  moreover have "mMemory (syMainframe t) = mMemory (mMainframe u)" using t(5) by auto
  ultimately show ?thesis using a(1) t(4) u(2,4,6) by (intro exI[of _ t]) (simp add: bindE_def)
qed

text \<open>A machine of two processors, and a kernel that is an exchange packet with a program address.\<close>

definition sample_kernel :: host_file where
  "sample_kernel = [0, 0, 0x12, 0x34, 0, 0, 0, 0]"

definition sample_boot_cluster :: SimIopCluster_c where
  "sample_boot_cluster = (sample_sim_cluster IOSD)\<lparr>siKernelFile := Some sample_kernel, siKernelPreamble := 0,
     siDontTouchExchangePacket := True\<rparr>"

definition sample_boot_cpu :: SoftCpu_c where
  "sample_boot_cpu = (sample_cpu YMP)\<lparr>mState := (sample_state YMP)\<lparr>ExchangePacketAddress := 0, PeriodicInterruptEnabled := False\<rparr>\<rparr>"

definition sample_system :: system_c where
  "sample_system = \<lparr>syCpus = [sample_boot_cpu, sample_boot_cpu\<lparr>mCpuId := 1\<rparr>], sySims = [sample_boot_cluster],
     syMainframe = sample_mainframe YMP, syMemoryPokes = [], syMemoryPokesProcessed = False, syCpuMasterClear = False,
     syStartupCpuIdx = 0\<rparr>"

definition sample_loaded :: mainframe where
  "sample_loaded = (sample_mainframe YMP)\<lparr>mMemory := (\<lambda>x. if x < 8 then sample_kernel ! x else 0)\<rparr>"

lemma sample_kernel_length: "length sample_kernel = 8"
  by (simp add: sample_kernel_def)

lemma sample_load: "load_kernel sample_boot_cluster (syMainframe sample_system) = (Inr (), sample_loaded)"
  by (simp add: load_kernel_def sample_boot_cluster_def sample_sim_cluster_def sample_kernel_length LoadImageFile_def
      mMemSizeInWords_def sample_system_def sample_loaded_def sample_mainframe_def bindE_def load_parameters_def
      if_patching_def returnE_def cong: if_cong)

lemma sample_off: "machine_off sample_system" "boot_ready sample_boot_cluster"
  by (auto simp: machine_off_def sys_ids_def sample_system_def sample_boot_cpu_def sample_cpu_def less_Suc_eq boot_ready_def
      sample_boot_cluster_def sample_sim_cluster_def sample_sim_console_def)

lemma sample_boot_facts:
  "boot_memory sample_system (mMemory sample_loaded) = (\<lambda>x. if x < 8 then sample_kernel ! x else 0)"
  "packet_address (syCpus sample_system ! 0) = 0" "mMachineType sample_loaded = YMP" "length (mClusters sample_loaded) = 1"
  "Cluster (mState (syCpus sample_system ! 0)) = 1"
  by (simp_all add: boot_memory_def sample_system_def sample_boot_cpu_def sample_loaded_def sample_defs packet_address_def)

lemma sample_boot_packet:
  defines "p \<equiv> ExchangePacket_from YMP (\<lambda>x. if x < 8 then sample_kernel ! x else 0) 0"
  shows "GetProgramAddress p = 0x1234" "GetClusterNumber p = 0"
proof -
  have t: "epMachineType (Read_packet m 0 \<lparr>epMachineType = YMP, Data = d\<rparr>) = YMP" for m d by (simp add: Read_packet_def)
  have "Data p 0 = 0x0000123400000000" "Data p 5 = 0"
    by (simp_all add: p_def ExchangePacket_from_def SetProcessorType_def Let_def t Read_packet_Data)
      (simp_all add: load64_def sample_kernel_def SwapBytes64_def byte_of_def del: mask_8_bits)
  moreover have "epMachineType p = YMP" by (simp add: p_def ExchangePacket_from_def SetProcessorType_def Let_def t)
  ultimately show "GetProgramAddress p = 0x1234" "GetClusterNumber p = 0"
    by (simp_all add: GetProgramAddress_def GetYmpProgramAddress_def GetClusterNumber_def GetYmpClusterNumber_def
        IsXmp_def GetBits_def del: mask_8_bits)
qed

theorem machine_boots_witness:
  "\<exists>t. bindE (Sys_SimTick \<lparr>ssEnv = sample_sim_env, ssPolls = \<lambda>_ _. []\<rparr> 0) (\<lambda>_. Sys_CpusTick) sample_system = (Inr (), t) \<and>
     ProgramAddress (mState (syCpus t ! 0)) = 0x1234 \<and> \<not> mInReset (syCpus t ! 0) \<and> mInReset (syCpus t ! 1)"
proof -
  have k: "syStartupCpuIdx sample_system = 0" "sySims sample_system = [sample_boot_cluster]" "length (syCpus sample_system) = 2"
    by (simp_all add: sample_system_def)
  note f = sample_boot_facts sample_boot_packet
  have "known_machine (mMachineType sample_loaded)" by (simp add: f known_machine_def)
  then show ?thesis
    using machine_boots[of sample_system sample_boot_cluster sample_loaded "\<lparr>ssEnv = sample_sim_env, ssPolls = \<lambda>_ _. []\<rparr>",
      OF sample_off(1) k(2) sample_off(2) sample_load]
    by (auto simp: k f)
qed

end
