(* ===== verification/Mkfs_Layout.thy ===== *)
theory Mkfs_Layout
  imports Host_Stream
begin

text \<open>
  The on-disk structures of the UNICOS file system NC1FS, as \<^verbatim>\<open>mkfs_unicos/mkfs_unicos.cpp\<close>
  declares them: the templates for fields of a block, and one datatype for each struct, whose
  constructors are its members and whose function gives the place of a member: its word, its
  first bit counted from the left of the big-endian word, and its width. A struct is used
  through a pointer to a word of a block.
\<close>

section \<open>Fields\<close>

definition cBlockSize :: nat where "cBlockSize = 512"
definition BSIZE :: nat where "BSIZE = cBlockSize * 8"
definition SUPERB :: nat where "SUPERB = 1"

record IntField =
  tOfs :: nat
  tStart :: nat
  tSize :: nat

abbreviation bits_of_word :: "nat \<Rightarrow> nat \<Rightarrow> nat \<Rightarrow> IntField" where
  "bits_of_word w s n \<equiv> \<lparr>tOfs = w, tStart = s, tSize = n\<rparr>"

abbreviation whole_word :: "nat \<Rightarrow> IntField" where
  "whole_word w \<equiv> bits_of_word w 0 64"

text \<open>A struct or an array element inside another struct.\<close>

definition at_word :: "nat \<Rightarrow> IntField \<Rightarrow> IntField" where
  "at_word w f = f\<lparr>tOfs := w + tOfs f\<rparr>"

text \<open>
  The words of a block, by the offset of the word. The conversions of \<open>IntField_T\<close> to and from
  its value: the bits from \<open>tStart\<close> to \<open>tStart + tSize - 1\<close>, which are 63 and 64 less these
  from the right, of the word in the order of the Cray.
\<close>

definition word_at :: "nat \<Rightarrow> memory \<Rightarrow> uint64" where
  "word_at w blk = load64 blk (8 * w)"

definition put_word :: "nat \<Rightarrow> uint64 \<Rightarrow> memory \<Rightarrow> memory" where
  "put_word w v blk = store64 (8 * w) v blk"

definition IntField_get :: "IntField \<Rightarrow> nat \<Rightarrow> memory \<Rightarrow> uint64" where
  "IntField_get f aBase blk =
     GetBits (SwapBytes64 (word_at (aBase + tOfs f) blk)) (63 - tStart f) (64 - tStart f - tSize f)"

definition IntField_set :: "IntField \<Rightarrow> nat \<Rightarrow> uint64 \<Rightarrow> memory \<Rightarrow> memory" where
  "IntField_set f aBase aValue blk =
     (let Val = SwapBytes64 (word_at (aBase + tOfs f) blk);
          Val = SetBits Val (63 - tStart f) (64 - tStart f - tSize f) aValue
      in put_word (aBase + tOfs f) (SwapBytes64 Val) blk)"

text \<open>\<open>memcpy\<close> into a block, at a byte offset.\<close>

definition copy_bytes :: "nat \<Rightarrow> bytes \<Rightarrow> memory \<Rightarrow> memory" where
  "copy_bytes ofs bs blk = (\<lambda>x. if ofs \<le> x \<and> x < ofs + length bs then bs ! (x - ofs) else blk x)"

definition block_bytes :: "memory \<Rightarrow> bytes" where
  "block_bytes blk = List.map blk [0..<BSIZE]"

text \<open>\<open>StrField_T\<close>: a name of at most eight bytes, filled up with zeros. \<open>None\<close> is the failed assertion.\<close>

definition StrField_set :: "IntField \<Rightarrow> nat \<Rightarrow> bytes \<Rightarrow> memory \<Rightarrow> memory option" where
  "StrField_set f aBase aValue blk =
     (if length aValue \<le> 8
      then Some (copy_bytes (8 * (aBase + tOfs f)) aValue (put_word (aBase + tOfs f) 0 blk))
      else None)"

definition StrField_get :: "IntField \<Rightarrow> nat \<Rightarrow> memory \<Rightarrow> bytes" where
  "StrField_get f aBase blk = takeWhile (\<lambda>b. b \<noteq> 0) (List.map (\<lambda>i. blk (8 * (aBase + tOfs f) + i)) [0..<8])"

section \<open>The super block\<close>

datatype extent_t = nblks | blk

primrec extent_t_at :: "extent_t \<Rightarrow> IntField" where
  "extent_t_at nblks = bits_of_word 0 0 32"
| "extent_t_at blk = bits_of_word 0 32 32"

datatype nc1fdev_sb = fd_name | fd_sblk | fd_nblk | sb_ireg nat extent_t

text \<open>
  The index of an array member is added to the word of the array, \<open>tElement(mPtr + aOfs)\<close>,
  whatever the size of an element; the code uses only the first element of the arrays whose
  elements are larger than a word.
\<close>

primrec nc1fdev_sb_at :: "nc1fdev_sb \<Rightarrow> IntField" where
  "nc1fdev_sb_at fd_name = whole_word 0"
| "nc1fdev_sb_at fd_sblk = bits_of_word 1 0 32"
| "nc1fdev_sb_at fd_nblk = bits_of_word 1 32 32"
| "nc1fdev_sb_at (sb_ireg i e) = at_word (2 + i) (extent_t_at e)"

definition NC1MAXPART :: nat where "NC1MAXPART = 64"
definition NC1NSUPER :: nat where "NC1NSUPER = 10"
definition FsMAGIC_NC1 :: uint64 where "FsMAGIC_NC1 = 0x6e6331667331636e"
definition FsSECURE :: uint64 where "FsSECURE = 0xcd076d1771d670cd"
definition DbMAGIC_NC1 :: uint64 where "DbMAGIC_NC1 = 0x6e6331646231636e"
definition Fs_RRFILE :: uint64 where "Fs_RRFILE = 2"
definition Fs_RRALLUDATA :: uint64 where "Fs_RRALLUDATA = 0x2000"
definition Db_CHECKED :: uint64 where "Db_CHECKED = 0x20"

datatype nc1filsys =
    s_magic | s_fname | s_fpack | s_dev | s_fsize | s_isize | s_bigfile | s_bigunit
  | s_secure | s_maxlvl | s_minlvl | s_valcmp | s_time | s_dboff | s_root | s_error
  | s_mapoff | s_mapblks | s_nscpys | s_npart | s_ifract | s_sfs extent_t | s_flag
  | s_part nat nc1fdev_sb | s_iounit | s_numiresblks | s_priparts | s_priblock | s_prinblks
  | s_secparts | s_secblock | s_secnblks | s_sbdbparts | s_rootdparts | s_nudparts | s_nsema
  | s_priactive | s_sfs_arbiterid

definition s_part_end :: nat where "s_part_end = 23 + 6 * NC1MAXPART"

primrec nc1filsys_at :: "nc1filsys \<Rightarrow> IntField" where
  "nc1filsys_at s_magic = whole_word 0"
| "nc1filsys_at s_fname = whole_word 1"
| "nc1filsys_at s_fpack = whole_word 2"
| "nc1filsys_at s_dev = whole_word 3"
| "nc1filsys_at s_fsize = whole_word 4"
| "nc1filsys_at s_isize = whole_word 5"
| "nc1filsys_at s_bigfile = whole_word 6"
| "nc1filsys_at s_bigunit = whole_word 7"
| "nc1filsys_at s_secure = whole_word 8"
| "nc1filsys_at s_maxlvl = whole_word 9"
| "nc1filsys_at s_minlvl = whole_word 10"
| "nc1filsys_at s_valcmp = whole_word 11"
| "nc1filsys_at s_time = whole_word 12"
| "nc1filsys_at s_dboff = whole_word 13"
| "nc1filsys_at s_root = whole_word 14"
| "nc1filsys_at s_error = whole_word 15"
| "nc1filsys_at s_mapoff = whole_word 16"
| "nc1filsys_at s_mapblks = whole_word 17"
| "nc1filsys_at s_nscpys = whole_word 18"
| "nc1filsys_at s_npart = whole_word 19"
| "nc1filsys_at s_ifract = whole_word 20"
| "nc1filsys_at (s_sfs e) = at_word 21 (extent_t_at e)"
| "nc1filsys_at s_flag = whole_word 22"
| "nc1filsys_at (s_part i p) = at_word (23 + i) (nc1fdev_sb_at p)"
| "nc1filsys_at s_iounit = whole_word s_part_end"
| "nc1filsys_at s_numiresblks = whole_word (s_part_end + 1)"
| "nc1filsys_at s_priparts = whole_word (s_part_end + 2)"
| "nc1filsys_at s_priblock = whole_word (s_part_end + 3)"
| "nc1filsys_at s_prinblks = whole_word (s_part_end + 4)"
| "nc1filsys_at s_secparts = whole_word (s_part_end + 5)"
| "nc1filsys_at s_secblock = whole_word (s_part_end + 6)"
| "nc1filsys_at s_secnblks = whole_word (s_part_end + 7)"
| "nc1filsys_at s_sbdbparts = whole_word (s_part_end + 8)"
| "nc1filsys_at s_rootdparts = whole_word (s_part_end + 9)"
| "nc1filsys_at s_nudparts = whole_word (s_part_end + 10)"
| "nc1filsys_at s_nsema = whole_word (s_part_end + 11)"
| "nc1filsys_at s_priactive = whole_word (s_part_end + 12)"
| "nc1filsys_at s_sfs_arbiterid = whole_word (s_part_end + 13)"

section \<open>The dynamic block\<close>

definition FDNC1_SBDB :: uint64 where "FDNC1_SBDB = 8"
definition FDNC1_RTDIR :: uint64 where "FDNC1_RTDIR = 0x10"
definition FDNC1_SECALL :: uint64 where "FDNC1_SECALL = 0x40"
definition BITMAPID :: uint64 where "BITMAPID = 0x155555"
definition FREEMAP :: uint64 where "FREEMAP = 0x00465245454d4150"

datatype nc1fdev_db = fd_flag | db_ireg nat

primrec nc1fdev_db_at :: "nc1fdev_db \<Rightarrow> IntField" where
  "nc1fdev_db_at fd_flag = whole_word 0"
| "nc1fdev_db_at (db_ireg i) = at_word (1 + i) (whole_word 0)"

datatype lockinfo_t = hi_proc | hi_syscall | hi_pid | hi_time

primrec lockinfo_t_at :: "lockinfo_t \<Rightarrow> IntField" where
  "lockinfo_t_at hi_proc = whole_word 0"
| "lockinfo_t_at hi_syscall = bits_of_word 1 0 32"
| "lockinfo_t_at hi_pid = bits_of_word 1 32 32"
| "lockinfo_t_at hi_time = whole_word 2"

text \<open>
  The struct \<open>map\<close>. The type of \<open>bmp_begin\<close> is a pointer, for which \<open>numeric_limits\<close> has no
  digits: the field is 0 bits wide, and writing it writes the leftmost bit of its word.
\<close>

datatype bitmap_header =
    bmp_name | bmp_id | bmp_base | bmp_begin | bmp_next | bmp_total | bmp_avail | bmp_want
  | bmp_first | bmp_last | bmp_units | bmp_tnobim

primrec bitmap_header_at :: "bitmap_header \<Rightarrow> IntField" where
  "bitmap_header_at bmp_name = whole_word 0"
| "bitmap_header_at bmp_id = whole_word 1"
| "bitmap_header_at bmp_base = whole_word 2"
| "bitmap_header_at bmp_begin = bits_of_word 3 0 0"
| "bitmap_header_at bmp_next = whole_word 4"
| "bitmap_header_at bmp_total = whole_word 5"
| "bitmap_header_at bmp_avail = whole_word 6"
| "bitmap_header_at bmp_want = whole_word 7"
| "bitmap_header_at bmp_first = whole_word 8"
| "bitmap_header_at bmp_last = whole_word 9"
| "bitmap_header_at bmp_units = whole_word 10"
| "bitmap_header_at bmp_tnobim = whole_word 11"

datatype nc1dblock =
    db_magic | db_tfree | db_ifree | db_ninode | db_state | db_time | db_type | db_spart
  | db_ifptr | db_actype | db_flag | db_res nat | db_part nat nc1fdev_db
  | db_lockinf lockinfo_t | db_dpfptr | db_dsfptr | db_sfree | db_fpm bitmap_header

definition db_part_end :: nat where "db_part_end = 21 + 5 * NC1MAXPART"

text \<open>The ten reserved words \<open>db_res1\<close> to \<open>db_res10\<close> are \<open>db_res 1\<close> to \<open>db_res 10\<close>.\<close>

primrec nc1dblock_at :: "nc1dblock \<Rightarrow> IntField" where
  "nc1dblock_at db_magic = whole_word 0"
| "nc1dblock_at db_tfree = whole_word 1"
| "nc1dblock_at db_ifree = whole_word 2"
| "nc1dblock_at db_ninode = whole_word 3"
| "nc1dblock_at db_state = whole_word 4"
| "nc1dblock_at db_time = whole_word 5"
| "nc1dblock_at db_type = whole_word 6"
| "nc1dblock_at db_spart = whole_word 7"
| "nc1dblock_at db_ifptr = whole_word 8"
| "nc1dblock_at db_actype = whole_word 9"
| "nc1dblock_at db_flag = whole_word 10"
| "nc1dblock_at (db_res i) = whole_word (10 + i)"
| "nc1dblock_at (db_part i p) = at_word (21 + i) (nc1fdev_db_at p)"
| "nc1dblock_at (db_lockinf l) = at_word db_part_end (lockinfo_t_at l)"
| "nc1dblock_at db_dpfptr = whole_word (db_part_end + 3)"
| "nc1dblock_at db_dsfptr = whole_word (db_part_end + 4)"
| "nc1dblock_at db_sfree = whole_word (db_part_end + 5)"
| "nc1dblock_at (db_fpm b) = at_word (db_part_end + 6) (bitmap_header_at b)"

section \<open>Directory entries\<close>

text \<open>The name of an entry follows in the bytes from its third word on.\<close>

datatype cdirect = cd_ino | cd_sino | cd_reserved | cd_signature | cd_reclen | cd_namelen

primrec cdirect_at :: "cdirect \<Rightarrow> IntField" where
  "cdirect_at cd_ino = whole_word 0"
| "cdirect_at cd_sino = whole_word 1"
| "cdirect_at cd_reserved = bits_of_word 2 0 10"
| "cdirect_at cd_signature = bits_of_word 2 10 22"
| "cdirect_at cd_reclen = bits_of_word 2 32 22"
| "cdirect_at cd_namelen = bits_of_word 2 54 10"

definition UsedLength :: "nat \<Rightarrow> memory \<Rightarrow> nat" where
  "UsedLength aEntry b = ((unat (IntField_get (cdirect_at cd_namelen) aEntry b) + 7) div 8 + 3) * 8"

definition IsLast :: "nat \<Rightarrow> memory \<Rightarrow> bool" where
  "IsLast aEntry b \<longleftrightarrow> UsedLength aEntry b < unat (IntField_get (cdirect_at cd_reclen) aEntry b)"

text \<open>
  The constructor of \<open>DirEntry_s\<close>: a buffer of words for one entry, \<open>mStorage\<close>, with its size in
  bytes. The hash is over the words of the name, filled up with zeros.
\<close>

definition CalcHash :: "bytes \<Rightarrow> uint64" where
  "CalcHash aFileName =
     (let Length = length aFileName;
          Buffer = copy_bytes 0 aFileName (\<lambda>_. 0);
          XHash = fold (\<lambda>i h. h XOR SwapBytes64 (word_at i Buffer)) [0..<(Length + 7) div 8] 0;
          XHash2 = XHash + drop_bit 7 XHash + drop_bit 17 XHash + drop_bit 27 XHash +
                     drop_bit 37 XHash + drop_bit 47 XHash
      in XHash2 AND 0x3fffff)"

definition DirEntry_s :: "bytes \<Rightarrow> nat \<Rightarrow> memory \<times> nat" where
  "DirEntry_s aFileName aINodeIdx =
     (let NameLen = length aFileName;
          EntrySize = 3 + (NameLen + 8 - 1) div 8;
          e = (\<lambda>_. 0);
          e = IntField_set (cdirect_at cd_ino) 0 (of_nat aINodeIdx) e;
          e = IntField_set (cdirect_at cd_signature) 0 (CalcHash aFileName) e;
          e = IntField_set (cdirect_at cd_reclen) 0 (of_nat (EntrySize * 8)) e;
          e = IntField_set (cdirect_at cd_namelen) 0 (of_nat NameLen) e
      in (copy_bytes (3 * 8) aFileName e, EntrySize * 8))"

section \<open>I-nodes\<close>

definition SFSLK_SZ :: nat where "SFSLK_SZ = 5"
definition C1_EXTENT :: uint64 where "C1_EXTENT = 1"

datatype file_time = msec | usec

primrec file_time_at :: "file_time \<Rightarrow> IntField" where
  "file_time_at msec = bits_of_word 0 0 34"
| "file_time_at usec = bits_of_word 0 34 30"

datatype cdinode =
    cdi_rsrvd_1 | cdi_mode | cdi_msref | cdi_ms | cdi_nlink | cdi_uid | cdi_gid | cdi_acid | cdi_gen
  | cdi_size | cdi_moffset | cdi_blocks | cdi_extcomp | cdi_secrsvd1 | cdi_smallcompart | cdi_slevel
  | cdi_intcls | cdi_secflg | cdi_intcat | cdi_privs | cdi_acl | cdi_cpart | cdi_dmport | cdi_dmstate
  | cdi_dmkey | cdi_allocf | cdi_alloc | cdi_cblks | cdi_dmmid | cdi_at file_time | cdi_mt file_time
  | cdi_ct file_time | cdi_cbits | cdi_addr nat extent_t | cdi_slock nat | cdi_rsrvd_5 | cdi_applac
  | cdi_nindir | cdi_rsrvd | cdi_sitebits

primrec cdinode_at :: "cdinode \<Rightarrow> IntField" where
  "cdinode_at cdi_rsrvd_1 = bits_of_word 0 0 8"
| "cdinode_at cdi_mode = bits_of_word 0 8 24"
| "cdinode_at cdi_msref = bits_of_word 0 32 1"
| "cdinode_at cdi_ms = bits_of_word 0 33 14"
| "cdinode_at cdi_nlink = bits_of_word 0 47 17"
| "cdinode_at cdi_uid = bits_of_word 1 0 32"
| "cdinode_at cdi_gid = bits_of_word 1 32 32"
| "cdinode_at cdi_acid = bits_of_word 2 0 32"
| "cdinode_at cdi_gen = bits_of_word 2 32 32"
| "cdinode_at cdi_size = whole_word 3"
| "cdinode_at cdi_moffset = whole_word 4"
| "cdinode_at cdi_blocks = bits_of_word 5 0 52"
| "cdinode_at cdi_extcomp = bits_of_word 5 52 1"
| "cdinode_at cdi_secrsvd1 = bits_of_word 5 53 11"
| "cdinode_at cdi_smallcompart = whole_word 6"
| "cdinode_at cdi_slevel = bits_of_word 7 0 8"
| "cdinode_at cdi_intcls = bits_of_word 7 8 8"
| "cdinode_at cdi_secflg = bits_of_word 7 16 16"
| "cdinode_at cdi_intcat = bits_of_word 7 32 32"
| "cdinode_at cdi_privs = whole_word 8"
| "cdinode_at cdi_acl = whole_word 9"
| "cdinode_at cdi_cpart = bits_of_word 10 0 8"
| "cdinode_at cdi_dmport = bits_of_word 10 8 3"
| "cdinode_at cdi_dmstate = bits_of_word 10 11 5"
| "cdinode_at cdi_dmkey = bits_of_word 10 16 48"
| "cdinode_at cdi_allocf = bits_of_word 11 0 4"
| "cdinode_at cdi_alloc = bits_of_word 11 4 4"
| "cdinode_at cdi_cblks = bits_of_word 11 8 24"
| "cdinode_at cdi_dmmid = bits_of_word 11 32 32"
| "cdinode_at (cdi_at t) = at_word 12 (file_time_at t)"
| "cdinode_at (cdi_mt t) = at_word 13 (file_time_at t)"
| "cdinode_at (cdi_ct t) = at_word 14 (file_time_at t)"
| "cdinode_at cdi_cbits = whole_word 15"
| "cdinode_at (cdi_addr i e) = at_word (16 + i) (extent_t_at e)"
| "cdinode_at (cdi_slock i) = at_word (24 + i) (whole_word 0)"
| "cdinode_at cdi_rsrvd_5 = bits_of_word (24 + SFSLK_SZ + 1) 0 16"
| "cdinode_at cdi_applac = bits_of_word (24 + SFSLK_SZ + 1) 16 32"
| "cdinode_at cdi_nindir = bits_of_word (24 + SFSLK_SZ + 1) 14 16"
| "cdinode_at cdi_rsrvd = whole_word (24 + SFSLK_SZ + 1)"
| "cdinode_at cdi_sitebits = whole_word (24 + SFSLK_SZ + 2)"

definition cdinode_size :: nat where "cdinode_size = 32"

definition IFMT :: uint64 where "IFMT = 0xf000"
definition IFDIR :: uint64 where "IFDIR = 0x4000"
definition IFREG :: uint64 where "IFREG = 0x8000"
definition RT_UID :: uint32 where "RT_UID = 0"
definition RT_GID :: uint32 where "RT_GID = 0"
definition RT_MODE :: uint32 where "RT_MODE = 0x1ed"

section \<open>Reading fields that were written\<close>

text \<open>A field of a word that is inside it; two fields that do not overlap.\<close>

definition fits_word :: "IntField \<Rightarrow> bool" where
  "fits_word f \<longleftrightarrow> 0 < tSize f \<and> tStart f + tSize f \<le> 64"

definition apart :: "IntField \<Rightarrow> IntField \<Rightarrow> bool" where
  "apart f g \<longleftrightarrow> tOfs f \<noteq> tOfs g \<or> tStart f + tSize f \<le> tStart g \<or> tStart g + tSize g \<le> tStart f"

lemma at_word_simps [simp]:
  "at_word w (bits_of_word v s n) = bits_of_word (w + v) s n"
  by (simp add: at_word_def)

lemma word_at_put_word: "word_at v (put_word w x m) = (if v = w then x else word_at v m)"
  by (simp add: word_at_def put_word_def words.rd_other)

lemma word_at_copy_bytes:
  "8 * w + 8 \<le> ofs \<or> ofs + length bs \<le> 8 * w \<Longrightarrow> word_at w (copy_bytes ofs bs m) = word_at w m"
  unfolding word_at_def by (intro load64_eqI) (auto simp: copy_bytes_def)

lemma IntField_get_set:
  assumes "fits_word f"
  shows "IntField_get f b (IntField_set f b v m) = take_bit (tSize f) v"
proof -
  have "Suc (63 - (tStart f + (64 - (tStart f + tSize f)))) = tSize f"
    using assms by (simp add: fits_word_def)
  then show ?thesis
    using assms by (simp add: IntField_get_def IntField_set_def word_at_put_word GetBits_SetBits_same fits_word_def)
qed

lemma IntField_get_set_word:
  "v + tOfs f \<noteq> w + tOfs g \<Longrightarrow> IntField_get f v (IntField_set g w x m) = IntField_get f v m"
  by (simp add: IntField_get_def IntField_set_def word_at_put_word)

lemma IntField_get_set_other:
  assumes "fits_word f" "fits_word g" "apart f g"
  shows "IntField_get f b (IntField_set g b x m) = IntField_get f b m"
proof (cases "tOfs f = tOfs g")
  case True
  with assms show ?thesis
    by (simp add: IntField_get_def IntField_set_def word_at_put_word)
      (rule GetBits_SetBits_other; auto simp: apart_def fits_word_def)
qed (simp add: IntField_get_set_word)

lemma IntField_get_copy:
  "8 * (b + tOfs f) + 8 \<le> ofs \<or> ofs + length bs \<le> 8 * (b + tOfs f) \<Longrightarrow>
     IntField_get f b (copy_bytes ofs bs m) = IntField_get f b m"
  by (simp add: IntField_get_def word_at_copy_bytes)

end
