(* ===== verification/Mkfs_Image.thy ===== *)
theory Mkfs_Image
  imports Mkfs_Layout
begin

text \<open>
  \<open>DiskImage_c\<close> of \<^verbatim>\<open>mkfs_unicos/mkfs_unicos.cpp\<close>: the image of a disk on which a file system is
  made. The sparse map of blocks is total here: \<open>GetBlock\<close> puts zeros where a block is missing,
  and \<open>WriteToDisk\<close> writes zeros for it. A pointer into a block is a block number and a word.
  Sizes that are sums of disk sizes are natural numbers; block numbers keep their 32 bits.
\<close>

section \<open>Blocks and structs\<close>

record DiskImage_c =
  mStorage :: "nat \<Rightarrow> memory"
  mDiskSizeInBlocks :: nat

type_synonym 'a fs_exec = "(DiskImage_c, 'a) exec"

definition upd_block :: "nat \<Rightarrow> (memory \<Rightarrow> memory) \<Rightarrow> DiskImage_c \<Rightarrow> DiskImage_c" where
  "upd_block b f s = s\<lparr>mStorage := (mStorage s)(b := f (mStorage s b))\<rparr>"

text \<open>\<open>GetSuperBlock\<close> and \<open>GetDynamicBlock\<close>: the structs at the beginning of their blocks.\<close>

definition sb_get :: "nc1filsys \<Rightarrow> DiskImage_c \<Rightarrow> uint64" where
  "sb_get f s = IntField_get (nc1filsys_at f) 0 (mStorage s SUPERB)"

definition sb_set :: "nc1filsys \<Rightarrow> uint64 \<Rightarrow> DiskImage_c \<Rightarrow> DiskImage_c" where
  "sb_set f v = upd_block SUPERB (IntField_set (nc1filsys_at f) 0 v)"

definition sb_set_name :: "nc1filsys \<Rightarrow> bytes \<Rightarrow> unit fs_exec" where
  "sb_set_name f n s =
     (case StrField_set (nc1filsys_at f) 0 n (mStorage s SUPERB) of
        None \<Rightarrow> (Inl AssertError, s)
      | Some b \<Rightarrow> (Inr (), upd_block SUPERB (\<lambda>_. b) s))"

definition GetDynamicBlock :: "DiskImage_c \<Rightarrow> nat" where
  "GetDynamicBlock s = unat (sb_get s_dboff s)"

definition db_get :: "nc1dblock \<Rightarrow> DiskImage_c \<Rightarrow> uint64" where
  "db_get f s = IntField_get (nc1dblock_at f) 0 (mStorage s (GetDynamicBlock s))"

definition db_set :: "nc1dblock \<Rightarrow> uint64 \<Rightarrow> DiskImage_c \<Rightarrow> DiskImage_c" where
  "db_set f v s = upd_block (GetDynamicBlock s) (IntField_set (nc1dblock_at f) 0 v) s"

section \<open>Bit maps\<close>

definition GetMapBit :: "nat \<Rightarrow> uint64" where
  "GetMapBit aBitIdx = push_bit ((7 - aBitIdx mod 8) + (aBitIdx div 8) * 8) 1"

definition AllocateInMap :: "nat \<Rightarrow> nat \<Rightarrow> unit fs_exec" where
  "AllocateInMap aIdx aMapStart s =
     (let MapOfs = aIdx div 64;
          MapPage = MapOfs div cBlockSize;
          MapOfs = MapOfs mod cBlockSize;
          MapBit = GetMapBit (aIdx mod 64);
          AllocationMap = mStorage s (aMapStart + MapPage)
      in if word_at MapOfs AllocationMap AND MapBit \<noteq> 0 then (Inl AssertError, s)
         else (Inr (), upd_block (aMapStart + MapPage) (put_word MapOfs (word_at MapOfs AllocationMap OR MapBit)) s))"

text \<open>A search that returns from inside its loops.\<close>

primrec first_result :: "('a \<Rightarrow> 'b option) \<Rightarrow> 'a list \<Rightarrow> 'b option" where
  "first_result f [] = None"
| "first_result f (x # xs) = (case f x of Some r \<Rightarrow> Some r | None \<Rightarrow> first_result f xs)"

definition GetFreeEntry :: "nat \<Rightarrow> nat \<Rightarrow> nat fs_exec" where
  "GetFreeEntry aMapStart aMapBlockCnt s =
     (case first_result (\<lambda>Page. let Map = mStorage s (aMapStart + Page) in
             first_result (\<lambda>Idx.
               if word_at Idx Map \<noteq> -1
               then first_result (\<lambda>Bit.
                      if word_at Idx Map AND GetMapBit Bit = 0
                      then Some ((Page * cBlockSize + Idx) * 64 + Bit) else None) [0..<64]
               else None) [0..<cBlockSize]) [0..<aMapBlockCnt] of
        Some r \<Rightarrow> (Inr r, s)
      | None \<Rightarrow> (Inl GenericError, s))"

definition AllocateBlock :: "nat \<Rightarrow> unit fs_exec" where
  "AllocateBlock aBlock s =
     bindE (AllocateInMap aBlock (unat (sb_get s_mapoff s))) (\<lambda>_ s.
       (let s = db_set (db_fpm bmp_avail) (db_get (db_fpm bmp_avail) s - 1) s;
            s = db_set db_tfree (db_get db_tfree s - 1) s
        in (Inr (), s))) s"

definition GetFreeBlock :: "nat fs_exec" where
  "GetFreeBlock s =
     (let MapStart = unat (sb_get s_mapoff s); MapBlockCnt = unat (sb_get s_mapblks s)
      in bindE (GetFreeEntry MapStart MapBlockCnt) (\<lambda>RetVal.
           bindE (AllocateBlock RetVal) (\<lambda>_. returnE RetVal)) s)"

definition INode_region :: "DiskImage_c \<Rightarrow> nat" where
  "INode_region s = unat (sb_get (s_part 0 (sb_ireg 0 blk)) s)"

definition AllocateINodeIdx :: "nat \<Rightarrow> unit fs_exec" where
  "AllocateINodeIdx aINodeIdx s =
     bindE (AllocateInMap aINodeIdx (INode_region s)) (\<lambda>_ s.
       (let s = db_set db_ifree (db_get db_ifree s - 1) s;
            s = db_set db_ninode (db_get db_ninode s + 1) s;
            s = db_set (db_part 0 (db_ireg 0)) (db_get (db_part 0 (db_ireg 0)) s - 1) s
        in (Inr (), s))) s"

definition GetFreeINodeIdx :: "uint32 fs_exec" where
  "GetFreeINodeIdx s =
     bindE (GetFreeEntry (INode_region s) 1) (\<lambda>RetVal.
       bindE (AllocateINodeIdx RetVal) (\<lambda>_. returnE (of_nat RetVal))) s"

section \<open>I-nodes\<close>

definition GetINode :: "nat \<Rightarrow> DiskImage_c \<Rightarrow> nat \<times> nat" where
  "GetINode aINodeIdx s =
     (let INodeStartBlock = unat (ucast (sb_get (s_part 0 (sb_ireg 0 blk)) s) + 1 :: uint32);
          INodeBlock = INodeStartBlock + aINodeIdx div (cBlockSize div cdinode_size);
          INodeOfs = (aINodeIdx mod (cBlockSize div cdinode_size)) * cdinode_size
      in (INodeBlock, INodeOfs))"

definition ino_get :: "cdinode \<Rightarrow> nat \<times> nat \<Rightarrow> DiskImage_c \<Rightarrow> uint64" where
  "ino_get f p s = IntField_get (cdinode_at f) (snd p) (mStorage s (fst p))"

definition ino_set :: "cdinode \<Rightarrow> nat \<times> nat \<Rightarrow> uint64 \<Rightarrow> DiskImage_c \<Rightarrow> DiskImage_c" where
  "ino_set f p v = upd_block (fst p) (IntField_set (cdinode_at f) (snd p) v)"

text \<open>The index operator of \<open>cdi_addr\<close> fails its assertion past the last of the eight extents.\<close>

definition cdi_addr_size :: nat where "cdi_addr_size = 8"

section \<open>Directories\<close>

text \<open>
  The search for the last entry. The entry at the word \<open>loc\<close> is followed by the word at which
  the next one begins; an entry that is not inside the block is not read.
\<close>

function AppendToDir_find :: "memory \<Rightarrow> nat \<Rightarrow> exn + (nat \<times> nat)" where
  "AppendToDir_find b loc =
     (if cBlockSize < loc + 3 then Inl UndefinedBehaviour
      else
        (let InsertLocation = loc + UsedLength loc b div 8
         in if cBlockSize < InsertLocation then Inl AssertError
            else if IsLast loc b then Inr (loc, InsertLocation)
            else AppendToDir_find b InsertLocation))"
  by pat_completeness auto
termination by (relation "measure (\<lambda>(_, loc). cBlockSize - loc)") (auto simp: UsedLength_def)

declare AppendToDir_find.simps [simp del]

definition AppendToDir_insert :: "memory \<times> nat \<Rightarrow> nat \<Rightarrow> nat \<Rightarrow> unit fs_exec" where
  "AppendToDir_insert aDirEntry Block InsertLocation s =
     (if cBlockSize < InsertLocation + UsedLength 0 (fst aDirEntry) div 8 then (Inl AssertError, s)
      else
        (let s = upd_block Block (copy_bytes (8 * InsertLocation)
                   (List.map (fst aDirEntry) [0..<UsedLength 0 (fst aDirEntry)])) s;
             s = upd_block Block (IntField_set (cdirect_at cd_reclen) InsertLocation
                   (of_nat ((cBlockSize - InsertLocation) * 8))) s
         in (Inr (), s)))"

definition AppendToDir :: "nat \<Rightarrow> memory \<times> nat \<Rightarrow> unit fs_exec" where
  "AppendToDir aINode aDirEntry s =
     (let INode = GetINode aINode s in
      if ino_get cdi_mode INode s AND IFMT \<noteq> IFDIR then (Inl AssertError, s)
      else
        (let CurrBlock = ino_get (cdi_addr 0 blk) INode s;
             CurrBlockCnt = ino_get (cdi_addr 0 nblks) INode s
         in if unat (ino_get cdi_size INode s) \<noteq> unat CurrBlockCnt * BSIZE then (Inl AssertError, s)
            else if 1 < CurrBlockCnt then (Inl AssertError, s)
            else if CurrBlockCnt = 0 then
              bindE GetFreeBlock (\<lambda>NewBlock s.
                (let NewBlock = of_nat NewBlock :: uint32 in
                 if CurrBlock \<noteq> 0 then (Inl AssertError, s)
                 else
                   (let s = ino_set (cdi_addr 0 blk) INode (ucast NewBlock) s;
                        s = ino_set (cdi_addr 0 nblks) INode 1 s;
                        s = ino_set cdi_size INode (ino_get (cdi_addr 0 nblks) INode s * of_nat BSIZE) s;
                        s = ino_set cdi_blocks INode (ino_get (cdi_addr 0 nblks) INode s) s
                    in AppendToDir_insert aDirEntry (unat NewBlock) 0 s))) s
            else
              (case AppendToDir_find (mStorage s (unat CurrBlock)) 0 of
                 Inl e \<Rightarrow> (Inl e, s)
               | Inr (Dir, InsertLocation) \<Rightarrow>
                   (let s = upd_block (unat CurrBlock)
                          (\<lambda>b. IntField_set (cdirect_at cd_reclen) Dir (of_nat (UsedLength Dir b)) b) s
                    in AppendToDir_insert aDirEntry (unat CurrBlock) InsertLocation s))))"

section \<open>Files\<close>

text \<open>The local variables of \<open>AppendToFile\<close>; \<open>apData\<close> is the rest of the data.\<close>

record append_c =
  apData :: bytes
  apBlockDescIdx :: nat
  apCurrBlock :: uint32
  apCurrBlockCnt :: uint32
  apCurrEndBlock :: uint32
  apTotalBlocks :: nat

text \<open>The walk to the extent that holds the end of the file, with the bytes left in it.\<close>

function AppendToFile_walk :: "nat \<times> nat \<Rightarrow> nat \<Rightarrow> append_c \<Rightarrow> (nat \<times> append_c) fs_exec" where
  "AppendToFile_walk INode BytesInFileLeft a s =
     (let CurrBlockSize = unat (apCurrBlockCnt a) * BSIZE in
      if CurrBlockSize < BytesInFileLeft then
        (if \<not> Suc (apBlockDescIdx a) < cdi_addr_size then (Inl AssertError, s)
         else
           (let i = Suc (apBlockDescIdx a);
                CurrBlock = ucast (ino_get (cdi_addr i blk) INode s);
                CurrBlockCnt = ucast (ino_get (cdi_addr i nblks) INode s)
            in AppendToFile_walk INode (BytesInFileLeft - CurrBlockSize)
                 (a\<lparr>apBlockDescIdx := i, apCurrBlock := CurrBlock, apCurrBlockCnt := CurrBlockCnt,
                    apCurrEndBlock := CurrBlock + CurrBlockCnt,
                    apTotalBlocks := apTotalBlocks a + unat (apCurrBlockCnt a)\<rparr>) s))
      else (Inr (BytesInFileLeft, a), s))"
  by pat_completeness auto
termination by (relation "measure (\<lambda>(_, _, a, _). cdi_addr_size - apBlockDescIdx a)") auto

declare AppendToFile_walk.simps [simp del]

text \<open>One block is filled from its byte \<open>ofs\<close> on.\<close>

definition fill_block :: "nat \<Rightarrow> append_c \<times> DiskImage_c \<Rightarrow> append_c \<times> DiskImage_c" where
  "fill_block ofs = (\<lambda>(a, s).
     (let RoomLeft = min (BSIZE - ofs) (length (apData a))
      in (a\<lparr>apData := drop RoomLeft (apData a), apCurrBlock := apCurrBlock a + 1\<rparr>,
          upd_block (unat (apCurrBlock a)) (copy_bytes ofs (take RoomLeft (apData a))) s)))"

text \<open>The loop over the blocks that are allocated already; the loop around it is entered with data.\<close>

function AppendToFile_fill :: "uint32 \<Rightarrow> append_c \<times> DiskImage_c \<Rightarrow> uint32 \<times> append_c \<times> DiskImage_c" where
  "AppendToFile_fill BlocksNeeded (a, s) =
     (if apCurrBlock a \<noteq> apCurrEndBlock a \<and> apData a \<noteq> []
      then AppendToFile_fill (BlocksNeeded - 1) (fill_block 0 (a, s))
      else (BlocksNeeded, a, s))"
  by pat_completeness auto
termination
  by (relation "measure (\<lambda>(_, a, _). length (apData a))") (auto simp: fill_block_def Let_def BSIZE_def cBlockSize_def)

declare AppendToFile_fill.simps [simp del]

text \<open>One more block, merged with the extent that ends before it or as the next extent.\<close>

definition AppendToFile_extend :: "nat \<times> nat \<Rightarrow> append_c \<Rightarrow> append_c fs_exec" where
  "AppendToFile_extend INode a =
     bindE GetFreeBlock (\<lambda>New s.
       (let NewBlock = of_nat New :: uint32;
            a' = a\<lparr>apCurrBlock := NewBlock, apCurrEndBlock := NewBlock + 1, apCurrBlockCnt := 1,
                   apTotalBlocks := apTotalBlocks a + 1\<rparr>
        in if apCurrEndBlock a = NewBlock then
             (if \<not> apBlockDescIdx a < cdi_addr_size then (Inl AssertError, s)
              else (Inr a', ino_set (cdi_addr (apBlockDescIdx a) nblks) INode
                              (ucast (ucast (ino_get (cdi_addr (apBlockDescIdx a) nblks) INode s) + 1 :: uint32)) s))
           else
             (let first = (apCurrBlock a = 0 \<and> apCurrBlockCnt a = 0);
                  i = (if first then apBlockDescIdx a else Suc (apBlockDescIdx a))
              in if first \<and> apBlockDescIdx a \<noteq> 0 then (Inl AssertError, s)
                 else if \<not> i \<le> cdi_addr_size then (Inl AssertError, s)
                 else if \<not> i < cdi_addr_size then (Inl AssertError, s)
                 else
                   (let s = ino_set (cdi_addr i blk) INode (ucast NewBlock) s;
                        s = ino_set (cdi_addr i nblks) INode 1 s
                    in (Inr (a'\<lparr>apBlockDescIdx := i\<rparr>), s)))))"

lemma AppendToFile_fill_shrinks:
  "length (apData (fst (snd (AppendToFile_fill n (a, s))))) \<le> length (apData a)"
  "apCurrBlock a \<noteq> apCurrEndBlock a \<Longrightarrow> apData a \<noteq> [] \<Longrightarrow>
     length (apData (fst (snd (AppendToFile_fill n (a, s))))) < length (apData a)"
proof -
  show le: "length (apData (fst (snd (AppendToFile_fill n (a, s))))) \<le> length (apData a)" for n a s
  proof (induction n "(a, s)" arbitrary: a s rule: AppendToFile_fill.induct)
    case (1 n a s)
    show ?case
    proof (cases "apCurrBlock a \<noteq> apCurrEndBlock a \<and> apData a \<noteq> []")
      case True
      obtain a' s' where f: "fill_block 0 (a, s) = (a', s')" by (metis surj_pair)
      then have "length (apData a') \<le> length (apData a)" by (auto simp: fill_block_def Let_def)
      with True f "1"[OF True f] show ?thesis by (subst AppendToFile_fill.simps) simp
    qed (subst AppendToFile_fill.simps, auto)
  qed
  show "length (apData (fst (snd (AppendToFile_fill n (a, s))))) < length (apData a)"
    if "apCurrBlock a \<noteq> apCurrEndBlock a" "apData a \<noteq> []"
  proof -
    obtain a' s' where f: "fill_block 0 (a, s) = (a', s')" by (metis surj_pair)
    then have "length (apData a') < length (apData a)"
      using that by (auto simp: fill_block_def Let_def BSIZE_def cBlockSize_def)
    with le[of "n - 1" a' s'] that f show ?thesis by (subst AppendToFile_fill.simps) simp
  qed
qed

lemma AppendToFile_fill_stops:
  "apCurrBlock a = apCurrEndBlock a \<Longrightarrow> AppendToFile_fill n (a, s) = (n, a, s)"
  by (subst AppendToFile_fill.simps) simp

lemma AppendToFile_extend_data:
  assumes "AppendToFile_extend p a s = (Inr a', s')"
  shows "apData a' = apData a" "apCurrEndBlock a' = apCurrBlock a' + 1"
  using assms by (auto simp: AppendToFile_extend_def bindE_def Let_def split: prod.splits sum.splits if_splits)

text \<open>
  The loop of \<open>AppendToFile\<close>. The number of blocks needed has 32 bits; if it wraps to 0 where no
  block is left to fill, the loop goes on without any change.
\<close>

function AppendToFile_loop :: "nat \<times> nat \<Rightarrow> append_c \<Rightarrow> append_c fs_exec" where
  "AppendToFile_loop INode a s =
     (if apData a = [] then (Inr a, s)
      else
        (case AppendToFile_fill (of_nat ((length (apData a) + BSIZE - 1) div BSIZE)) (a, s) of
           (BlocksNeeded, a1, s1) \<Rightarrow>
             if BlocksNeeded \<noteq> 0 then
               (case AppendToFile_extend INode a1 s1 of
                  (Inl e, s2) \<Rightarrow> (Inl e, s2)
                | (Inr a2, s2) \<Rightarrow> AppendToFile_loop INode a2 s2)
             else if apData a1 = apData a then (Inl DoesNotReturn, s1)
             else AppendToFile_loop INode a1 s1))"
  by pat_completeness auto
termination
proof (relation "measure (\<lambda>(_, a, _). 2 * length (apData a) + (if apCurrBlock a = apCurrEndBlock a then 1 else 0))",
    goal_cases)
  case (2 p a s n a1s1 a1 s1 e s2 a2)
  then have f: "AppendToFile_fill (of_nat ((length (apData a) + BSIZE - 1) div BSIZE)) (a, s) = (n, a1, s1)"
    and x: "AppendToFile_extend p a1 s1 = (Inr a2, s2)" by auto
  have ne: "apCurrBlock a2 \<noteq> apCurrEndBlock a2" using AppendToFile_extend_data(2)[OF x] by simp
  show ?case
  proof (cases "apCurrBlock a = apCurrEndBlock a")
    case True
    with f have "a1 = a" by (simp add: AppendToFile_fill_stops)
    with True ne AppendToFile_extend_data(1)[OF x] show ?thesis by simp
  next
    case False
    with AppendToFile_fill_shrinks(2)[OF False \<open>apData a \<noteq> []\<close>, of _ s]
    have "length (apData a1) < length (apData a)" using f by (metis fst_conv snd_conv)
    with ne AppendToFile_extend_data(1)[OF x] show ?thesis by simp
  qed
next
  case (3 p a s n a1s1 a1 s1)
  then have f: "AppendToFile_fill (of_nat ((length (apData a) + BSIZE - 1) div BSIZE)) (a, s) = (n, a1, s1)" by auto
  have ne: "apCurrBlock a \<noteq> apCurrEndBlock a"
    using f 3 by (auto simp: AppendToFile_fill_stops)
  from AppendToFile_fill_shrinks(2)[OF ne \<open>apData a \<noteq> []\<close>, of _ s]
  have "length (apData a1) < length (apData a)" using f by (metis fst_conv snd_conv)
  with ne show ?case by simp
qed simp

declare AppendToFile_loop.simps [simp del]

definition AppendToFile :: "nat \<Rightarrow> bytes \<Rightarrow> unit fs_exec" where
  "AppendToFile aINode aData s =
     (let INode = GetINode aINode s;
          NewSize = unat (ino_get cdi_size INode s) + length aData;
          mode = ino_get cdi_mode INode s AND IFMT
      in if mode \<noteq> IFDIR \<and> mode \<noteq> IFREG then (Inl AssertError, s)
         else
           (let CurrBlock = ucast (ino_get (cdi_addr 0 blk) INode s);
                CurrBlockCnt = ucast (ino_get (cdi_addr 0 nblks) INode s);
                a = \<lparr>apData = aData, apBlockDescIdx = 0, apCurrBlock = CurrBlock, apCurrBlockCnt = CurrBlockCnt,
                     apCurrEndBlock = CurrBlock + CurrBlockCnt, apTotalBlocks = 0\<rparr>
            in bindE (AppendToFile_walk INode (unat (ino_get cdi_size INode s)) a) (\<lambda>(BytesInFileLeft, a) s.
                 (let a = a\<lparr>apCurrBlock := apCurrBlock a + of_nat (BytesInFileLeft div BSIZE),
                            apTotalBlocks := apTotalBlocks a + unat (apCurrBlockCnt a)\<rparr>;
                      (a, s) = (if apCurrBlock a \<noteq> apCurrEndBlock a
                                then fill_block (BytesInFileLeft mod BSIZE) (a, s) else (a, s))
                  in if apData a \<noteq> [] \<and> unat (ino_get cdi_blocks INode s) \<noteq> apTotalBlocks a
                     then (Inl AssertError, s)
                     else bindE (AppendToFile_loop INode a) (\<lambda>a s.
                       (let s = ino_set cdi_blocks INode (of_nat (apTotalBlocks a)) s;
                            s = ino_set cdi_size INode (of_nat NewSize) s
                        in (Inr (), s))) s)) s))"

section \<open>Making directories and files\<close>

text \<open>The fields that a new i-node is given; \<open>None\<close> leaves \<open>cdi_blocks\<close> as it is.\<close>

definition init_INode :: "nat \<times> nat \<Rightarrow> uint64 \<Rightarrow> uint64 \<Rightarrow> uint32 \<Rightarrow> uint32 \<Rightarrow> uint64 option \<Rightarrow> DiskImage_c \<Rightarrow> DiskImage_c" where
  "init_INode p mode nlink uid gid blocks s =
     (let s = ino_set cdi_mode p mode s;
          s = ino_set cdi_nlink p nlink s;
          s = ino_set cdi_uid p (ucast uid) s;
          s = ino_set cdi_gid p (ucast gid) s;
          s = ino_set cdi_size p 0 s;
          s = (case blocks of None \<Rightarrow> s | Some n \<Rightarrow> ino_set cdi_blocks p n s);
          s = ino_set cdi_nindir p 0 s
      in ino_set cdi_alloc p C1_EXTENT s)"

definition dot :: bytes where "dot = [0x2e]"
definition dotdot :: bytes where "dotdot = [0x2e, 0x2e]"

definition MkDir :: "uint32 \<Rightarrow> bytes \<Rightarrow> uint32 \<Rightarrow> uint32 \<Rightarrow> uint32 \<Rightarrow> uint32 fs_exec" where
  "MkDir aParentINodeIdx aName aUID aGID aMode s =
     bindE (if aParentINodeIdx \<noteq> 0 then GetFreeINodeIdx
            else (\<lambda>s. let root = ucast (sb_get s_root s) :: uint32 in
                        bindE (AllocateINodeIdx (unat root)) (\<lambda>_. returnE root) s)) (\<lambda>MyINodeIdx s.
       (let MyINode = GetINode (unat MyINodeIdx) s;
            s = init_INode MyINode (IFDIR OR ucast aMode) 2 aUID aGID (Some 0) s
        in bindE (AppendToDir (unat MyINodeIdx) (DirEntry_s dot (unat MyINodeIdx))) (\<lambda>_.
           bindE (AppendToDir (unat MyINodeIdx) (DirEntry_s dotdot
                    (unat (if aParentINodeIdx \<noteq> 0 then aParentINodeIdx else MyINodeIdx)))) (\<lambda>_.
           if aParentINodeIdx \<noteq> 0 then
             bindE (AppendToDir (unat aParentINodeIdx) (DirEntry_s aName (unat MyINodeIdx))) (\<lambda>_ s.
               (let Parent = GetINode (unat aParentINodeIdx) s
                in (Inr MyINodeIdx, ino_set cdi_nlink Parent (ino_get cdi_nlink Parent s + 1) s)))
           else returnE MyINodeIdx)) s)) s"

definition MakeRoot :: "uint32 fs_exec" where
  "MakeRoot = MkDir 0 [] RT_UID RT_GID RT_MODE"

definition MkFile :: "uint32 \<Rightarrow> bytes \<Rightarrow> uint32 \<Rightarrow> uint32 \<Rightarrow> uint32 \<Rightarrow> uint32 fs_exec" where
  "MkFile aParentINodeIdx aName aUID aGID aMode s =
     (if aParentINodeIdx = 0 then (Inl AssertError, s)
      else
        bindE GetFreeINodeIdx (\<lambda>MyINodeIdx s.
          (let MyINode = GetINode (unat MyINodeIdx) s;
               s = init_INode MyINode (IFREG OR ucast aMode) 1 aUID aGID None s
           in bindE (AppendToDir (unat aParentINodeIdx) (DirEntry_s aName (unat MyINodeIdx)))
                (\<lambda>_. returnE MyINodeIdx) s)) s)"

definition cCopyBuffer :: nat where "cCopyBuffer = 1024 * 1024"

text \<open>
  The loop of \<open>CopyFile\<close> over the stream of the local file. A read that gets nothing and does not
  end the file would be repeated forever.
\<close>

function CopyFile_loop :: "nat \<Rightarrow> host_files \<Rightarrow> host_stream \<Rightarrow> unit fs_exec" where
  "CopyFile_loop INodeIdx fs Strm s =
     (if hsEof Strm then (Inr (), s)
      else
        (case hs_read cCopyBuffer (Strm, fs) of
           (bs, Strm') \<Rightarrow>
             if hsBad Strm' then (Inl GenericError, s)
             else
               (case AppendToFile INodeIdx bs s of
                  (Inl e, s') \<Rightarrow> (Inl e, s')
                | (Inr _, s') \<Rightarrow>
                    if bs = [] \<and> \<not> hsEof Strm' then (Inl DoesNotReturn, s')
                    else CopyFile_loop INodeIdx fs Strm' s')))"
  by pat_completeness auto
termination
proof (relation "measure (\<lambda>(_, fs, st, _). if hsEof st then 0 else Suc (length (hs_file st fs) - hsPos st))",
    goal_cases)
  case (2 i fs st s bs st')
  then have r: "hs_read cCopyBuffer (st, fs) = (bs, st')" and st: "\<not> hsEof st" "\<not> (bs = [] \<and> \<not> hsEof st')" by auto
  show ?case
  proof (cases "hsEof st'")
    case False
    with r st have "hs_good st" "hsMode st = OpenIn" "bs = file_read (hsPos st) cCopyBuffer (hs_file st fs)" "bs \<noteq> []"
      "st' = st\<lparr>hsPos := hsPos st + length bs\<rparr>"
      by (auto simp: hs_read_def Let_def hs_good_def split: if_splits)
    then show ?thesis using st by (auto simp: hs_file_def file_read_def)
  qed (use st in simp)
qed simp

declare CopyFile_loop.simps [simp del]

definition CopyFile :: "host_files \<Rightarrow> uint32 \<Rightarrow> bytes \<Rightarrow> path \<Rightarrow> unit fs_exec" where
  "CopyFile fs aParentINodeIdx aName aLocalFileName s =
     (let Strm = fst (hs_open OpenIn aLocalFileName (closed_stream, fs)) in
      if \<not> hs_good Strm then (Inl GenericError, s)
      else bindE (MkFile aParentINodeIdx aName RT_UID RT_GID RT_MODE) (\<lambda>INodeIdx.
             CopyFile_loop (unat INodeIdx) fs Strm) s)"

section \<open>The file system\<close>

text \<open>A sequence of assignments to the members of a struct.\<close>

definition sb_set_all :: "(nc1filsys \<times> uint64) list \<Rightarrow> DiskImage_c \<Rightarrow> DiskImage_c" where
  "sb_set_all fs s = fold (\<lambda>(f, v). sb_set f v) fs s"

definition db_set_all :: "(nc1dblock \<times> uint64) list \<Rightarrow> DiskImage_c \<Rightarrow> DiskImage_c" where
  "db_set_all fs s = fold (\<lambda>(f, v). db_set f v) fs s"

text \<open>The places of the parts of the file system on a disk of \<open>D\<close> blocks.\<close>

definition MapBlockCnt :: "nat \<Rightarrow> nat" where
  "MapBlockCnt D = (D div 64 + cBlockSize - 1) div cBlockSize"

definition MapStart :: nat where "MapStart = SUPERB + NC1NSUPER"

definition DynamicBlockStart :: "nat \<Rightarrow> nat" where
  "DynamicBlockStart D = MapStart + MapBlockCnt D"

definition INodeCnt :: "nat \<Rightarrow> nat \<Rightarrow> nat" where
  "INodeCnt D aINodeRatio = min (D div aINodeRatio) (cBlockSize * 64)"

definition INodeBlockCnt :: "nat \<Rightarrow> nat \<Rightarrow> nat" where
  "INodeBlockCnt D aINodeRatio = 1 + (INodeCnt D aINodeRatio * cdinode_size + cBlockSize - 1) div cBlockSize"

definition INodeStart :: "nat \<Rightarrow> nat" where
  "INodeStart D = DynamicBlockStart D + 1"

definition SFSStart :: "nat \<Rightarrow> nat \<Rightarrow> nat" where
  "SFSStart D aINodeRatio = INodeStart D + INodeBlockCnt D aINodeRatio"

definition SFSBlockCnt :: nat where "SFSBlockCnt = 1"

definition WriteSuperBlock :: "bytes \<Rightarrow> bytes \<Rightarrow> bytes \<Rightarrow> uint8 \<Rightarrow> uint8 \<Rightarrow> nat \<Rightarrow> unit fs_exec" where
  "WriteSuperBlock aFsName aPackName aPartName aMajorDev aMinorDev aINodeRatio s =
     (let D = mDiskSizeInBlocks s;
          s = sb_set s_magic FsMAGIC_NC1 s
      in bindE (sb_set_name s_fname aFsName) (\<lambda>_.
         bindE (sb_set_name s_fpack aPackName) (\<lambda>_ s.
         (let s = sb_set_all
             [(s_dev, push_bit 8 (ucast aMajorDev) OR ucast aMinorDev),
              (s_fsize, of_nat D),
              (s_isize, of_nat (INodeCnt D aINodeRatio)),
              (s_bigfile, 0x8000),
              (s_bigunit, 21),
              (s_secure, FsSECURE),
              (s_time, 895339878),
              (s_dboff, of_nat (DynamicBlockStart D)),
              (s_root, 2),
              (s_error, 0),
              (s_mapoff, of_nat MapStart),
              (s_mapblks, of_nat (MapBlockCnt D)),
              (s_nscpys, of_nat NC1NSUPER),
              (s_npart, 1),
              (s_ifract, of_nat aINodeRatio),
              (s_sfs nblks, of_nat SFSBlockCnt),
              (s_sfs blk, of_nat (SFSStart D aINodeRatio)),
              (s_flag, Fs_RRFILE OR Fs_RRALLUDATA)] s
          in bindE (sb_set_name (s_part 0 fd_name) aPartName) (\<lambda>_ s.
               (Inr (), sb_set_all
                  [(s_part 0 fd_sblk, 0),
                   (s_part 0 fd_nblk, of_nat D),
                   (s_part 0 (sb_ireg 0 nblks), of_nat (INodeBlockCnt D aINodeRatio)),
                   (s_part 0 (sb_ireg 0 blk), of_nat (INodeStart D)),
                   (s_iounit, 0),
                   (s_numiresblks, 0),
                   (s_priparts, push_bit 63 1),
                   (s_priblock, 0),
                   (s_prinblks, of_nat D),
                   (s_secparts, 0),
                   (s_secblock, 0),
                   (s_secnblks, 0),
                   (s_sbdbparts, push_bit 63 1),
                   (s_rootdparts, push_bit 63 1),
                   (s_nudparts, 0),
                   (s_nsema, 0),
                   (s_priactive, push_bit 63 1),
                   (s_sfs_arbiterid, 0)] s)) s))) s)"

text \<open>\<open>(uint64_t)(-int(SuperBlock.s_root))\<close> is the number of i-nodes before the first two are allocated.\<close>

definition WriteDynamicBlock :: "nat \<Rightarrow> DiskImage_c \<Rightarrow> DiskImage_c" where
  "WriteDynamicBlock aINodeRatio s =
     (let D = mDiskSizeInBlocks s in db_set_all
        [(db_magic, DbMAGIC_NC1),
         (db_tfree, of_nat D),
         (db_ifree, of_nat (INodeCnt D aINodeRatio)),
         (db_ninode, - sb_get s_root s),
         (db_state, 0),
         (db_time, 895339878),
         (db_type, 0),
         (db_spart, 0),
         (db_ifptr, 0),
         (db_actype, 0),
         (db_flag, Db_CHECKED),
         (db_part 0 fd_flag, FDNC1_SBDB OR FDNC1_RTDIR OR FDNC1_SECALL),
         (db_part 0 (db_ireg 0), of_nat (INodeCnt D aINodeRatio)),
         (db_fpm bmp_name, FREEMAP),
         (db_fpm bmp_id, BITMAPID),
         (db_fpm bmp_base, 0),
         (db_fpm bmp_begin, 0),
         (db_fpm bmp_next, 0),
         (db_fpm bmp_total, of_nat D),
         (db_fpm bmp_avail, of_nat D),
         (db_fpm bmp_want, 0),
         (db_fpm bmp_first, 0),
         (db_fpm bmp_last, 0),
         (db_fpm bmp_units, 1),
         (db_fpm bmp_tnobim, of_nat D)] s)"

definition SFS_MAGIC :: uint64 where "SFS_MAGIC = 0x7366733131736673"

definition CreateSuperBlock :: "bytes \<Rightarrow> bytes \<Rightarrow> bytes \<Rightarrow> uint8 \<Rightarrow> uint8 \<Rightarrow> nat \<Rightarrow> unit fs_exec" where
  "CreateSuperBlock aFsName aPackName aPartName aMajorDev aMinorDev aINodeRatio s =
     (if aINodeRatio = 0 then (Inl UndefinedBehaviour, s)
      else
        (let D = mDiskSizeInBlocks s in
         bindE (WriteSuperBlock aFsName aPackName aPartName aMajorDev aMinorDev aINodeRatio) (\<lambda>_ s.
           (let s = WriteDynamicBlock aINodeRatio s;
                s = upd_block (SFSStart D aINodeRatio) (put_word 0 (SwapBytes64 SFS_MAGIC)) s;
                s = upd_block (SFSStart D aINodeRatio) (put_word 0xcb (SwapBytes64 SFS_MAGIC)) s
            in bindE (AllocateBlock 0) (\<lambda>_.
               bindE (forE [0..<NC1NSUPER] (\<lambda>i. AllocateBlock (SUPERB + i))) (\<lambda>_.
               bindE (forE [0..<MapBlockCnt D] (\<lambda>i. AllocateBlock (MapStart + i))) (\<lambda>_.
               bindE (AllocateBlock (DynamicBlockStart D)) (\<lambda>_.
               bindE (forE [0..<SFSBlockCnt] (\<lambda>i. AllocateBlock (SFSStart D aINodeRatio + i))) (\<lambda>_.
               bindE (forE [0..<INodeBlockCnt D aINodeRatio] (\<lambda>i. AllocateBlock (INodeStart D + i))) (\<lambda>_ s.
                 forE [0..<unat (sb_get s_root s)] AllocateINodeIdx s)))))) s)) s))"

definition lost_found :: bytes where
  "lost_found = [0x6c, 0x6f, 0x73, 0x74, 0x2b, 0x66, 0x6f, 0x75, 0x6e, 0x64]"

definition MakeFs :: "uint64 \<Rightarrow> bytes \<Rightarrow> bytes \<Rightarrow> bytes \<Rightarrow> uint8 \<Rightarrow> uint8 \<Rightarrow> nat \<Rightarrow> unit fs_exec" where
  "MakeFs aDiskSizeInBytes aFsName aPackName aPartName aMajorDev aMinorDev aINodeRatio s =
     (let s = s\<lparr>mDiskSizeInBlocks := unat (aDiskSizeInBytes + of_nat BSIZE - 1) div BSIZE\<rparr>
      in bindE (CreateSuperBlock aFsName aPackName aPartName aMajorDev aMinorDev aINodeRatio) (\<lambda>_.
         bindE MakeRoot (\<lambda>RootINodeIdx.
         bindE (MkDir RootINodeIdx lost_found RT_UID RT_GID RT_MODE) (\<lambda>_. returnE ()))) s)"

text \<open>The copies of the super block.\<close>

definition Finalize :: "DiskImage_c \<Rightarrow> DiskImage_c" where
  "Finalize s =
     for_loop 1 (unat (sb_get s_nscpys s)) (\<lambda>i s. upd_block (SUPERB + i) (\<lambda>_. mStorage s SUPERB) s) s"

text \<open>The image file: the blocks of the disk one after the other, with a check of the stream after each.\<close>

fun WriteToDisk_loop :: "nat list \<Rightarrow> DiskImage_c \<Rightarrow> host_stream \<times> host_files \<Rightarrow> (exn + unit) \<times> host_files" where
  "WriteToDisk_loop [] s F = (Inr (), snd F)"
| "WriteToDisk_loop (b # bs) s F =
     (let F = hs_write (block_bytes (mStorage s b)) F in
      if hsFail (fst F) \<or> hsBad (fst F) then (Inl GenericError, snd F) else WriteToDisk_loop bs s F)"

definition WriteToDisk :: "path \<Rightarrow> DiskImage_c \<Rightarrow> host_files \<Rightarrow> (exn + unit) \<times> host_files" where
  "WriteToDisk aFileName s fs =
     WriteToDisk_loop [0..<mDiskSizeInBlocks s] s (hs_open OpenOut aFileName (closed_stream, fs))"

section \<open>The program\<close>

text \<open>
  The command line; its arguments are C strings, so that they hold no zero byte. \<open>GetNextParam\<close> throws when nothing is left; all exceptions end in the message
  with the usage and are one here. \<open>strtoul\<close> with base 10 skips white space, takes a sign, and
  gives the largest number when the digits do not fit; without digits nothing is consumed.
\<close>

definition is_space_byte :: "uint8 \<Rightarrow> bool" where
  "is_space_byte c \<longleftrightarrow> c = 0x20 \<or> 9 \<le> c \<and> c \<le> 13"

definition is_digit_byte :: "uint8 \<Rightarrow> bool" where
  "is_digit_byte c \<longleftrightarrow> 0x30 \<le> c \<and> c \<le> 0x39"

definition strtoul10 :: "bytes \<Rightarrow> uint64 \<times> bytes" where
  "strtoul10 str =
     (let t = dropWhile is_space_byte str;
          neg = (t \<noteq> [] \<and> hd t = 0x2d);
          u = (if t \<noteq> [] \<and> (hd t = 0x2d \<or> hd t = 0x2b) then tl t else t);
          ds = takeWhile is_digit_byte u;
          n = foldl (\<lambda>a d. 10 * a + (unat d - 0x30)) 0 ds
      in if ds = [] then (0, str)
         else (if 2 ^ 64 \<le> n then -1 else if neg then - of_nat n else of_nat n, dropWhile is_digit_byte u))"

record mkfs_options =
  oImgFileName :: bytes
  oFsName :: bytes
  oPartitionName :: bytes
  oImageSize :: uint64
  oFileCopyList :: "(path \<times> bytes) list"
  oMajorDev :: uint8
  oMinorDev :: uint8

text \<open>
  \<open>EndPtr\<close> points into the string that \<open>GetNextParam\<close> returned and that is gone when \<open>EndPtr\<close> is
  read; what is read there, for the rest of the string that was there, is the parameter \<open>gone\<close>.
\<close>

definition parse_size :: "(bytes \<Rightarrow> bytes) \<Rightarrow> bytes \<Rightarrow> exn + uint64" where
  "parse_size gone str =
     (let (n, rest) = strtoul10 str; unit = gone rest in
      if unit = [] then Inr n
      else if unit = [0x6b, 0x62] then Inr (n * 1024)
      else if unit = [0x6d, 0x62] then Inr (n * (1024 * 1024))
      else if unit = [0x67, 0x62] then Inr (n * (1024 * 1024 * 1024))
      else if unit = [0x73] then Inr (n * (1024 * 4))
      else Inl GenericError)"

definition parse_device :: "(bytes \<Rightarrow> bytes) \<Rightarrow> bytes \<Rightarrow> exn + uint8" where
  "parse_device gone str =
     (let (n, rest) = strtoul10 str in if gone rest \<noteq> [] then Inl GenericError else Inr (ucast n))"

definition opt_o :: bytes where "opt_o = [0x2d, 0x6f]"
definition opt_s :: bytes where "opt_s = [0x2d, 0x73]"
definition opt_major :: bytes where "opt_major = [0x2d, 0x6d, 0x61, 0x6a, 0x6f, 0x72]"
definition opt_minor :: bytes where "opt_minor = [0x2d, 0x6d, 0x69, 0x6e, 0x6f, 0x72]"
definition opt_f :: bytes where "opt_f = [0x2d, 0x66]"
definition opt_cp :: bytes where "opt_cp = [0x2d, 0x63, 0x70]"
definition opt_p :: bytes where "opt_p = [0x2d, 0x70]"

fun parse_args :: "(bytes \<Rightarrow> bytes) \<Rightarrow> bytes list \<Rightarrow> mkfs_options \<Rightarrow> exn + mkfs_options" where
  "parse_args gone [] opts = Inr opts"
| "parse_args gone (p # ps) opts =
     (if p = opt_o then
        (if oImgFileName opts \<noteq> [] then Inl GenericError
         else case ps of [] \<Rightarrow> Inl GenericError | a # as \<Rightarrow> parse_args gone as (opts\<lparr>oImgFileName := a\<rparr>))
      else if p = opt_s then
        (case ps of [] \<Rightarrow> Inl GenericError
         | a # as \<Rightarrow> (case parse_size gone a of Inl e \<Rightarrow> Inl e | Inr n \<Rightarrow> parse_args gone as (opts\<lparr>oImageSize := n\<rparr>)))
      else if p = opt_major then
        (case ps of [] \<Rightarrow> Inl GenericError
         | a # as \<Rightarrow> (case parse_device gone a of Inl e \<Rightarrow> Inl e | Inr n \<Rightarrow> parse_args gone as (opts\<lparr>oMajorDev := n\<rparr>)))
      else if p = opt_minor then
        (case ps of [] \<Rightarrow> Inl GenericError
         | a # as \<Rightarrow> (case parse_device gone a of Inl e \<Rightarrow> Inl e | Inr n \<Rightarrow> parse_args gone as (opts\<lparr>oMinorDev := n\<rparr>)))
      else if p = opt_f then
        (if oFsName opts \<noteq> [] then Inl GenericError
         else case ps of [] \<Rightarrow> Inl GenericError | a # as \<Rightarrow> parse_args gone as (opts\<lparr>oFsName := a\<rparr>))
      else if p = opt_cp then
        (case ps of
           a # b # as \<Rightarrow> parse_args gone as (opts\<lparr>oFileCopyList := oFileCopyList opts @ [(a, b)]\<rparr>)
         | _ \<Rightarrow> Inl GenericError)
      else if p = opt_p then
        (if oPartitionName opts \<noteq> [] then Inl GenericError
         else case ps of [] \<Rightarrow> Inl GenericError | a # as \<Rightarrow> parse_args gone as (opts\<lparr>oPartitionName := a\<rparr>))
      else Inl GenericError)"

definition default_options :: mkfs_options where
  "default_options = \<lparr>oImgFileName = [], oFsName = [], oPartitionName = [], oImageSize = 0, oFileCopyList = [],
     oMajorDev = 34, oMinorDev = 0\<rparr>"

definition rootfs :: bytes where "rootfs = [0x72, 0x6f, 0x6f, 0x74, 0x66, 0x73]"
definition root_name :: bytes where "root_name = [0x72, 0x6f, 0x6f, 0x74]"

text \<open>The defaults and the checks after the loop over the arguments.\<close>

definition check_options :: "mkfs_options \<Rightarrow> exn + mkfs_options" where
  "check_options opts =
     (if oImgFileName opts = [] then Inl GenericError
      else
        (let opts = (if oFsName opts = [] then opts\<lparr>oFsName := rootfs\<rparr> else opts);
             opts = (if oPartitionName opts = [] then opts\<lparr>oPartitionName := root_name\<rparr> else opts)
         in if 7 < length (oFsName opts) \<or> 7 < length (oPartitionName opts) then Inl GenericError
            else if oImageSize opts = 0 \<or> oImageSize opts < 1024 * 1024 then Inl GenericError
            else Inr opts))"

primrec CopyFiles :: "host_files \<Rightarrow> (path \<times> bytes) list \<Rightarrow> unit fs_exec" where
  "CopyFiles fs [] = returnE ()"
| "CopyFiles fs (f # FileCopyList) = bindE (CopyFile fs 2 (snd f) (fst f)) (\<lambda>_. CopyFiles fs FileCopyList)"

definition blank_image :: "nat \<Rightarrow> DiskImage_c" where
  "blank_image D = \<lparr>mStorage = (\<lambda>_ _. 0), mDiskSizeInBlocks = D\<rparr>"

definition build_image :: "mkfs_options \<Rightarrow> host_files \<Rightarrow> (exn + unit) \<times> DiskImage_c" where
  "build_image opts fs =
     bindE (MakeFs (oImageSize opts) (oFsName opts) (oFsName opts) (oPartitionName opts) (oMajorDev opts) (oMinorDev opts) 4)
       (\<lambda>_. CopyFiles fs (oFileCopyList opts)) (blank_image 0)"

definition mkfs_main :: "(bytes \<Rightarrow> bytes) \<Rightarrow> bytes list \<Rightarrow> host_files \<Rightarrow> (exn + unit) \<times> host_files" where
  "mkfs_main gone args fs =
     (case parse_args gone args default_options of
        Inl e \<Rightarrow> (Inl e, fs)
      | Inr opts \<Rightarrow>
          (case check_options opts of
             Inl e \<Rightarrow> (Inl e, fs)
           | Inr opts \<Rightarrow>
               (case build_image opts fs of
                  (Inl e, _) \<Rightarrow> (Inl e, fs)
                | (Inr _, s) \<Rightarrow> WriteToDisk (oImgFileName opts) (Finalize s) fs)))"

end
