(* ===== verification/Mkfs_Alloc.thy ===== *)
theory Mkfs_Alloc
  imports Mkfs_Image
begin

text \<open>
  The bit maps of the file system maker: a map is a set of numbers, \<open>AllocateInMap\<close> adds one that
  is not in it, and \<open>GetFreeEntry\<close> finds the least that is not in it. Blocks and i-nodes are
  allocated in maps of their own, and the counters of the dynamic block follow.
\<close>

section \<open>Blocks of an image\<close>

lemma mStorage_upd_block [simp]:
  "mStorage (upd_block b f s) = (mStorage s)(b := f (mStorage s b))"
  "mDiskSizeInBlocks (upd_block b f s) = mDiskSizeInBlocks s"
  by (simp_all add: upd_block_def)

section \<open>Maps\<close>

definition map_pos :: "nat \<Rightarrow> nat" where
  "map_pos i = (7 - i mod 8) + (i div 8) * 8"

definition map_bit :: "nat \<Rightarrow> nat \<Rightarrow> DiskImage_c \<Rightarrow> bool" where
  "map_bit start n s \<longleftrightarrow>
     bit (word_at (n div 64 mod cBlockSize) (mStorage s (start + n div 64 div cBlockSize))) (map_pos (n mod 64))"

lemma map_pos_eq: "r < 8 \<Longrightarrow> map_pos (8 * q + r) = 8 * q + (7 - r)"
  by (simp add: map_pos_def)

lemma map_pos_map_pos [simp]: "map_pos (map_pos i) = i"
proof -
  have "map_pos i = 8 * (i div 8) + (7 - i mod 8)" using map_pos_eq[of "i mod 8" "i div 8"] by simp
  then show ?thesis using map_pos_eq[of "7 - i mod 8" "i div 8"] by simp
qed

lemma map_pos_less: "i < 64 \<Longrightarrow> map_pos i < 64"
  unfolding map_pos_def by presburger

lemma map_pos_inj: "map_pos i = map_pos j \<longleftrightarrow> i = j"
  by (metis map_pos_map_pos)

lemma GetMapBit_pos: "GetMapBit i = push_bit (map_pos i) 1"
  by (simp add: GetMapBit_def map_pos_def)

lemma map_word_clear: "i < 64 \<Longrightarrow> (w :: uint64) AND GetMapBit i = 0 \<longleftrightarrow> \<not> bit w (map_pos i)"
  unfolding GetMapBit_pos using map_pos_less[of i] by (intro and_single_bit_eq_0) simp

lemma map_word_full: "(w :: uint64) = -1 \<longleftrightarrow> (\<forall>i<64. bit w (map_pos i))"
proof
  assume "\<forall>i<64. bit w (map_pos i)"
  then have "bit w n" if "n < 64" for n using map_pos_less[OF that] map_pos_map_pos by metis
  then show "w = -1" by (intro word_eq_by_bits) simp
qed (simp add: map_pos_less)

lemma cell_of_number:
  assumes "w < cBlockSize" "i < 64"
  shows "((p * cBlockSize + w) * 64 + i) div 64 div cBlockSize = p"
    "((p * cBlockSize + w) * 64 + i) div 64 mod cBlockSize = w"
    "((p * cBlockSize + w) * 64 + i) mod 64 = i"
proof -
  have "((p * cBlockSize + w) * 64 + i) div 64 = p * cBlockSize + w"
    using assms(2) by (simp del: distrib_right_numeral)
  then show "((p * cBlockSize + w) * 64 + i) div 64 div cBlockSize = p"
    "((p * cBlockSize + w) * 64 + i) div 64 mod cBlockSize = w"
    using assms(1) by simp_all
  show "((p * cBlockSize + w) * 64 + i) mod 64 = i"
    using assms(2) by (simp del: distrib_right_numeral)
qed

lemma AllocateInMap_eq:
  "AllocateInMap n start s =
     (if map_bit start n s then (Inl AssertError, s)
      else (Inr (), upd_block (start + n div 64 div cBlockSize)
              (put_word (n div 64 mod cBlockSize)
                 (word_at (n div 64 mod cBlockSize) (mStorage s (start + n div 64 div cBlockSize)) OR
                  GetMapBit (n mod 64))) s))"
  by (simp add: AllocateInMap_def Let_def map_bit_def map_word_clear)

lemma map_bit_allocated:
  assumes "AllocateInMap n start s = (Inr (), s')"
  shows "map_bit start m s' \<longleftrightarrow> m = n \<or> map_bit start m s"
proof -
  have s': "mStorage s' = (mStorage s)(start + n div 64 div cBlockSize := put_word (n div 64 mod cBlockSize)
      (word_at (n div 64 mod cBlockSize) (mStorage s (start + n div 64 div cBlockSize)) OR GetMapBit (n mod 64))
      (mStorage s (start + n div 64 div cBlockSize)))"
    using assms by (auto simp: AllocateInMap_eq split: if_splits)
  show ?thesis
  proof (cases "m div 64 = n div 64")
    case True
    then have "m = n \<longleftrightarrow> m mod 64 = n mod 64" by (metis div_mod_decomp)
    then show ?thesis
      using True map_pos_less[of "n mod 64"]
      by (auto simp: map_bit_def s' word_at_put_word bit_or_iff GetMapBit_pos bit_single map_pos_inj simp del: push_bit_of_1)
  next
    case False
    then have "m div 64 div cBlockSize \<noteq> n div 64 div cBlockSize \<or> m div 64 mod cBlockSize \<noteq> n div 64 mod cBlockSize"
      by (metis div_mod_decomp)
    then show ?thesis using False by (auto simp: map_bit_def s' word_at_put_word)
  qed
qed

text \<open>The search finds the first number that is not in the map.\<close>

lemma first_result_append:
  "first_result f (xs @ ys) = (case first_result f xs of Some r \<Rightarrow> Some r | None \<Rightarrow> first_result f ys)"
  by (induction xs) (auto split: option.splits)

lemma first_result_None: "first_result f [0..<n] = None \<longleftrightarrow> (\<forall>x<n. f x = None)"
  by (induction n) (auto simp: first_result_append less_Suc_eq split: option.splits)

lemma first_result_Some:
  "first_result f [0..<n] = Some r \<longleftrightarrow> (\<exists>x<n. f x = Some r \<and> (\<forall>y<x. f y = None))"
proof (induction n)
  case (Suc n)
  show ?case
  proof (cases "f n")
    case None
    then show ?thesis using Suc by (auto simp: first_result_append less_Suc_eq split: option.splits)
  next
    case (Some q)
    show ?thesis
    proof (cases "\<forall>x<n. f x = None")
      case True
      then have "first_result f [0..<n] = None" by (simp add: first_result_None)
      with True Some show ?thesis by (auto simp: first_result_append less_Suc_eq)
    next
      case False
      then obtain p where "first_result f [0..<n] = Some p" by (metis first_result_None not_None_eq)
      with False Suc Some show ?thesis by (auto simp: first_result_append less_Suc_eq)
    qed
  qed
qed simp

lemma first_result_map: "first_result f (List.map g xs) = first_result (\<lambda>x. f (g x)) xs"
  by (induction xs) (auto split: option.splits)

lemma first_result_cong: "(\<And>x. x \<in> set xs \<Longrightarrow> f x = g x) \<Longrightarrow> first_result f xs = first_result g xs"
  by (induction xs) (auto split: option.splits)

text \<open>Two nested searches are one over the pairs of their counters.\<close>

lemma first_result_nested:
  "first_result (\<lambda>x. first_result (f x) [0..<b]) [0..<a] = first_result (\<lambda>n. f (n div b) (n mod b)) [0..<a * b]"
proof (induction a)
  case (Suc a)
  have "[a * b..<Suc a * b] = List.map (\<lambda>y. y + a * b) [0..<b]"
    by (simp add: map_add_upt add.commute)
  moreover have "[0..<Suc a * b] = [0..<a * b] @ [a * b..<Suc a * b]"
    using upt_add_eq_append[of 0 "a * b" b] by (simp add: add.commute)
  moreover have "first_result (\<lambda>y. f ((y + a * b) div b) ((y + a * b) mod b)) [0..<b] = first_result (f a) [0..<b]"
    by (rule first_result_cong) simp
  ultimately show ?case
    by (simp add: Suc first_result_append first_result_map split: option.splits del: upt_Suc)
      (simp add: upt_Suc_append first_result_append Suc split: option.splits)
qed simp

lemma GetFreeEntry_search:
  "GetFreeEntry start cnt s =
     (case first_result (\<lambda>n. if map_bit start n s then None else Some n) [0..<cnt * (cBlockSize * 64)] of
        Some r \<Rightarrow> (Inr r, s) | None \<Rightarrow> (Inl GenericError, s))"
proof -
  let ?w = "\<lambda>p w. word_at w (mStorage s (start + p))"
  let ?f = "\<lambda>p w i. if map_bit start ((p * cBlockSize + w) * 64 + i) s then None else Some ((p * cBlockSize + w) * 64 + i)"
  have inner: "(if ?w p w \<noteq> -1 then first_result (\<lambda>i. if ?w p w AND GetMapBit i = 0
        then Some ((p * cBlockSize + w) * 64 + i) else None) [0..<64] else None) = first_result (?f p w) [0..<64]"
    if w: "w < cBlockSize" for p w
  proof -
    have bits: "map_bit start ((p * cBlockSize + w) * 64 + i) s \<longleftrightarrow> bit (?w p w) (map_pos i)" if "i < 64" for i
      using w that by (simp only: map_bit_def cell_of_number)
    show ?thesis
    proof (cases "?w p w = -1")
      case True
      then have "first_result (?f p w) [0..<64] = None" using bits map_word_full by (simp add: first_result_None)
      with True show ?thesis by (simp only: simp_thms if_False)
    next
      case False
      then show ?thesis
        by (simp only: simp_thms if_True, intro first_result_cong) (simp add: bits map_word_clear del: distrib_right_numeral)
    qed
  qed
  have "first_result (\<lambda>p. first_result (\<lambda>w. if ?w p w \<noteq> -1 then first_result (\<lambda>i. if ?w p w AND GetMapBit i = 0
        then Some ((p * cBlockSize + w) * 64 + i) else None) [0..<64] else None) [0..<cBlockSize]) [0..<cnt] =
      first_result (\<lambda>p. first_result (\<lambda>w. first_result (?f p w) [0..<64]) [0..<cBlockSize]) [0..<cnt]"
    by (intro first_result_cong inner) simp
  also have "\<dots> = first_result (\<lambda>p. first_result (\<lambda>n. ?f p (n div 64) (n mod 64)) [0..<cBlockSize * 64]) [0..<cnt]"
    by (simp only: first_result_nested)
  also have "\<dots> = first_result (\<lambda>n. ?f (n div (cBlockSize * 64)) (n mod (cBlockSize * 64) div 64)
      (n mod (cBlockSize * 64) mod 64)) [0..<cnt * (cBlockSize * 64)]"
    by (simp only: first_result_nested)
  also have "\<dots> = first_result (\<lambda>n. if map_bit start n s then None else Some n) [0..<cnt * (cBlockSize * 64)]"
  proof (rule first_result_cong)
    fix n
    have "(n div (cBlockSize * 64) * cBlockSize + n mod (cBlockSize * 64) div 64) * 64 + n mod (cBlockSize * 64) mod 64 = n"
      by (metis add.assoc add_mult_distrib div_mult_mod_eq mult.assoc)
    then show "?f (n div (cBlockSize * 64)) (n mod (cBlockSize * 64) div 64) (n mod (cBlockSize * 64) mod 64) =
        (if map_bit start n s then None else Some n)" by (simp only:)
  qed
  finally show ?thesis by (simp add: GetFreeEntry_def Let_def)
qed

lemma GetFreeEntry_full:
  assumes "\<And>n. n < cnt * (cBlockSize * 64) \<Longrightarrow> map_bit start n s"
  shows "GetFreeEntry start cnt s = (Inl GenericError, s)"
proof -
  have "first_result (\<lambda>n. if map_bit start n s then None else Some n) [0..<cnt * (cBlockSize * 64)] = None"
    unfolding first_result_None using assms by simp
  then show ?thesis by (simp add: GetFreeEntry_search)
qed

lemma GetFreeEntry_least:
  assumes "n < cnt * (cBlockSize * 64)" "\<not> map_bit start n s" "\<And>m. m < n \<Longrightarrow> map_bit start m s"
  shows "GetFreeEntry start cnt s = (Inr n, s)"
proof -
  have "first_result (\<lambda>n. if map_bit start n s then None else Some n) [0..<cnt * (cBlockSize * 64)] = Some n"
    unfolding first_result_Some using assms by auto
  then show ?thesis by (simp add: GetFreeEntry_search)
qed

section \<open>The places of the file system\<close>

text \<open>The super block of a disk of \<open>D\<close> blocks, from 1 megabyte to 8 terabytes, with one i-node for four blocks.\<close>

definition fs_layout :: "nat \<Rightarrow> DiskImage_c \<Rightarrow> bool" where
  "fs_layout D s \<longleftrightarrow> 256 \<le> D \<and> D \<le> 2 ^ 31 \<and> mDiskSizeInBlocks s = D \<and>
     sb_get s_mapoff s = of_nat MapStart \<and> sb_get s_mapblks s = of_nat (MapBlockCnt D) \<and>
     sb_get s_dboff s = of_nat (DynamicBlockStart D) \<and> sb_get s_root s = 2 \<and>
     sb_get s_nscpys s = of_nat NC1NSUPER \<and> sb_get (s_part 0 (sb_ireg 0 blk)) s = of_nat (INodeStart D)"

definition map_cap :: "nat \<Rightarrow> nat" where
  "map_cap D = MapBlockCnt D * (cBlockSize * 64)"

lemma layout_sizes:
  assumes "256 \<le> D" "D \<le> 2 ^ 31"
  shows "MapBlockCnt D \<le> 2 ^ 16" "0 < MapBlockCnt D" "INodeCnt D 4 \<le> 2 ^ 15" "64 \<le> INodeCnt D 4"
    "INodeBlockCnt D 4 \<le> 2 ^ 12" "SFSStart D 4 < 2 ^ 18" "INodeStart D < 2 ^ 17" "DynamicBlockStart D < 2 ^ 17"
    "map_cap D < 2 ^ 31 + 2 ^ 15"
proof -
  show m: "MapBlockCnt D \<le> 2 ^ 16" "0 < MapBlockCnt D"
    using assms by (auto simp: MapBlockCnt_def cBlockSize_def)
  show i: "INodeCnt D 4 \<le> 2 ^ 15" "64 \<le> INodeCnt D 4" using assms by (auto simp: INodeCnt_def cBlockSize_def)
  then show b: "INodeBlockCnt D 4 \<le> 2 ^ 12" by (auto simp: INodeBlockCnt_def cdinode_size_def cBlockSize_def)
  show "SFSStart D 4 < 2 ^ 18" "INodeStart D < 2 ^ 17" "DynamicBlockStart D < 2 ^ 17"
    using m b by (auto simp: SFSStart_def INodeStart_def DynamicBlockStart_def MapStart_def SUPERB_def NC1NSUPER_def)
  show "map_cap D < 2 ^ 31 + 2 ^ 15"
    using assms by (auto simp: map_cap_def MapBlockCnt_def cBlockSize_def)
qed

lemma unat_of_nat_small: "n < 2 ^ LENGTH('a) \<Longrightarrow> unat (of_nat n :: 'a::len word) = n"
  by (simp add: unat_of_nat)

lemma ucast_of_nat_32: "(ucast (of_nat n :: uint64) :: uint32) = of_nat n"
  by (rule word_eq_by_bits) (simp add: bit_simps)

lemma layout_places:
  assumes "fs_layout D s"
  shows "unat (sb_get s_mapoff s) = MapStart" "unat (sb_get s_mapblks s) = MapBlockCnt D"
    "GetDynamicBlock s = DynamicBlockStart D" "INode_region s = INodeStart D"
    "GetINode i s = (INodeStart D + 1 + i div 16, i mod 16 * 32)"
proof -
  have D: "256 \<le> D" "D \<le> 2 ^ 31" using assms by (auto simp: fs_layout_def)
  note z = layout_sizes[OF D]
  show "unat (sb_get s_mapoff s) = MapStart" "unat (sb_get s_mapblks s) = MapBlockCnt D"
    "GetDynamicBlock s = DynamicBlockStart D" "INode_region s = INodeStart D"
    using assms z by (simp_all add: fs_layout_def GetDynamicBlock_def INode_region_def unat_of_nat_small
        MapStart_def SUPERB_def NC1NSUPER_def)
  have "(ucast (of_nat (INodeStart D) :: uint64) + 1 :: uint32) = of_nat (INodeStart D + 1)"
    by (simp add: ucast_of_nat_32)
  then have "unat (ucast (of_nat (INodeStart D) :: uint64) + 1 :: uint32) = INodeStart D + 1"
    using z(7) by (simp add: unat_of_nat_small del: of_nat_Suc of_nat_add)
  then show "GetINode i s = (INodeStart D + 1 + i div 16, i mod 16 * 32)"
    using assms by (simp add: GetINode_def fs_layout_def cBlockSize_def cdinode_size_def Let_def)
qed

lemma layout_frame:
  "fs_layout D s \<Longrightarrow> mStorage s' SUPERB = mStorage s SUPERB \<Longrightarrow> mDiskSizeInBlocks s' = mDiskSizeInBlocks s \<Longrightarrow>
     fs_layout D s'"
  by (simp add: fs_layout_def sb_get_def)

text \<open>The kinds of blocks, in their order on the disk.\<close>

definition is_map_block :: "nat \<Rightarrow> nat \<Rightarrow> bool" where
  "is_map_block D b \<longleftrightarrow> MapStart \<le> b \<and> b < DynamicBlockStart D"

lemma block_order:
  "SUPERB < MapStart" "MapStart \<le> DynamicBlockStart D" "DynamicBlockStart D < INodeStart D"
  "INodeStart D < SFSStart D r"
  by (auto simp: MapStart_def NC1NSUPER_def DynamicBlockStart_def INodeStart_def SFSStart_def INodeBlockCnt_def SUPERB_def)

lemma map_block_of: "n < map_cap D \<Longrightarrow> is_map_block D (MapStart + n div 64 div cBlockSize)"
  by (auto simp: is_map_block_def map_cap_def DynamicBlockStart_def cBlockSize_def less_mult_imp_div_less
      div_mult2_eq[symmetric] mult.commute)

lemma INode_map_block: "n < cBlockSize * 64 \<Longrightarrow> start + n div 64 div cBlockSize = start"
  by (simp add: cBlockSize_def)

section \<open>Counters\<close>

lemma whole_word_get_set [simp]:
  "IntField_get (whole_word w) b (IntField_set (whole_word v) c x m) =
     (if b + w = c + v then x else IntField_get (whole_word w) b m)"
  by (simp add: IntField_get_def IntField_set_def word_at_put_word GetBits_def SetBits_def)

definition counter_field :: "nc1dblock \<Rightarrow> bool" where
  "counter_field f \<longleftrightarrow> f \<in> {db_tfree, db_ifree, db_ninode, db_fpm bmp_avail, db_part 0 (db_ireg 0)}"

lemma counter_fields: "counter_field f \<Longrightarrow> counter_field g \<Longrightarrow>
    IntField_get (nc1dblock_at f) 0 (IntField_set (nc1dblock_at g) 0 x m) =
      (if f = g then x else IntField_get (nc1dblock_at f) 0 m)"
  by (auto simp: counter_field_def db_part_end_def NC1MAXPART_def)

lemma sb_get_upd_block: "b \<noteq> SUPERB \<Longrightarrow> sb_get f (upd_block b g s) = sb_get f s"
  by (simp add: sb_get_def)

lemma super_block_apart:
  "DynamicBlockStart D \<noteq> SUPERB" "is_map_block D b \<Longrightarrow> b \<noteq> SUPERB" "INodeStart D \<le> b \<Longrightarrow> b \<noteq> SUPERB"
  "is_map_block D b \<Longrightarrow> b < DynamicBlockStart D"
  using block_order(1) block_order(2,3)[of D] by (auto simp: is_map_block_def)

lemma layout_db_set:
  assumes "fs_layout D s"
  shows "fs_layout D (db_set f x s)"
    "b \<noteq> DynamicBlockStart D \<Longrightarrow> mStorage (db_set f x s) b = mStorage s b"
  using assms super_block_apart(1)[of D]
  by (simp_all add: db_set_def layout_places[OF assms] layout_frame[OF assms])

lemma db_get_set:
  assumes "fs_layout D s" "counter_field f" "counter_field g"
  shows "db_get f (db_set g x s) = (if f = g then x else db_get f s)"
  using assms layout_db_set(1)[OF assms(1), of g x]
  by (simp add: db_get_def layout_places) (simp add: db_set_def layout_places counter_fields)

section \<open>Allocation\<close>

definition counters_after :: "(nc1dblock \<Rightarrow> uint64) \<Rightarrow> DiskImage_c \<Rightarrow> DiskImage_c \<Rightarrow> bool" where
  "counters_after d s s' \<longleftrightarrow> (\<forall>f. counter_field f \<longrightarrow> db_get f s' = db_get f s + d f)"

lemma AllocateBlock_used:
  "fs_layout D s \<Longrightarrow> map_bit MapStart n s \<Longrightarrow> AllocateBlock n s = (Inl AssertError, s)"
  by (simp add: AllocateBlock_def AllocateInMap_eq bindE_def layout_places)

lemma AllocateBlock_free:
  assumes s: "fs_layout D s" and n: "n < map_cap D" "\<not> map_bit MapStart n s"
  obtains s' where "AllocateBlock n s = (Inr (), s')" "fs_layout D s'"
    "\<And>m. m < map_cap D \<Longrightarrow> map_bit MapStart m s' \<longleftrightarrow> m = n \<or> map_bit MapStart m s"
    "\<And>b. \<not> is_map_block D b \<Longrightarrow> b \<noteq> DynamicBlockStart D \<Longrightarrow> mStorage s' b = mStorage s b"
    "counters_after ((\<lambda>_. 0)(db_tfree := -1, db_fpm bmp_avail := -1)) s s'"
proof -
  obtain s1 where a: "AllocateInMap n MapStart s = (Inr (), s1)" using n by (simp add: AllocateInMap_eq)
  have b: "is_map_block D (MapStart + n div 64 div cBlockSize)" using map_block_of[OF n(1)] .
  have f1: "mStorage s1 c = mStorage s c" if "\<not> is_map_block D c" for c
    using a n b that by (auto simp: AllocateInMap_eq)
  have l1: "fs_layout D s1"
    using a n super_block_apart(2)[OF b] by (intro layout_frame[OF s]) (auto simp: AllocateInMap_eq)
  define s2 where "s2 = db_set (db_fpm bmp_avail) (db_get (db_fpm bmp_avail) s1 - 1) s1"
  define s' where "s' = db_set db_tfree (db_get db_tfree s2 - 1) s2"
  have l2: "fs_layout D s2" using layout_db_set(1)[OF l1] by (simp add: s2_def)
  have db: "db_get f s1 = db_get f s" for f
    using f1[of "DynamicBlockStart D"] s l1 by (simp add: db_get_def layout_places is_map_block_def)
  show ?thesis
  proof
    show "AllocateBlock n s = (Inr (), s')"
      using a by (simp add: AllocateBlock_def bindE_def layout_places[OF s] s'_def s2_def Let_def)
    show "fs_layout D s'" using layout_db_set(1)[OF l2] by (simp add: s'_def)
    show "map_bit MapStart m s' \<longleftrightarrow> m = n \<or> map_bit MapStart m s" if m: "m < map_cap D" for m
    proof -
      have "mStorage s' (MapStart + m div 64 div cBlockSize) = mStorage s1 (MapStart + m div 64 div cBlockSize)"
        using super_block_apart(4)[OF map_block_of[OF m]]
        by (simp add: s'_def s2_def layout_db_set(2)[OF l1] layout_db_set(2)[OF l2, unfolded s2_def])
      then have "map_bit MapStart m s' = map_bit MapStart m s1" by (simp add: map_bit_def)
      with map_bit_allocated[OF a] show ?thesis by simp
    qed
    show "mStorage s' b = mStorage s b" if "\<not> is_map_block D b" "b \<noteq> DynamicBlockStart D" for b
      using that f1 by (simp add: s'_def layout_db_set(2)[OF l2]) (simp add: s2_def layout_db_set(2)[OF l1])
    show "counters_after ((\<lambda>_. 0)(db_tfree := -1, db_fpm bmp_avail := -1)) s s'"
      unfolding counters_after_def
    proof (intro allI impI)
      fix f
      assume f: "counter_field f"
      have "counter_field db_tfree" "counter_field (db_fpm bmp_avail)" by (simp_all add: counter_field_def)
      with f show "db_get f s' = db_get f s + ((\<lambda>_. 0)(db_tfree := -1, db_fpm bmp_avail := -1)) f"
        by (simp add: s'_def db_get_set[OF l2]) (simp add: s2_def db_get_set[OF l1] db)
    qed
  qed
qed

lemma AllocateINodeIdx_free:
  assumes s: "fs_layout D s" and n: "n < cBlockSize * 64" "\<not> map_bit (INodeStart D) n s"
  obtains s' where "AllocateINodeIdx n s = (Inr (), s')" "fs_layout D s'"
    "\<And>m. m < cBlockSize * 64 \<Longrightarrow> map_bit (INodeStart D) m s' \<longleftrightarrow> m = n \<or> map_bit (INodeStart D) m s"
    "\<And>b. b \<noteq> INodeStart D \<Longrightarrow> b \<noteq> DynamicBlockStart D \<Longrightarrow> mStorage s' b = mStorage s b"
    "counters_after ((\<lambda>_. 0)(db_ifree := -1, db_ninode := 1, db_part 0 (db_ireg 0) := -1)) s s'"
proof -
  obtain s1 where a: "AllocateInMap n (INodeStart D) s = (Inr (), s1)" using n by (simp add: AllocateInMap_eq)
  have b: "INodeStart D + n div 64 div cBlockSize = INodeStart D" by (rule INode_map_block[OF n(1)])
  have f1: "mStorage s1 c = mStorage s c" if "c \<noteq> INodeStart D" for c
    using a n b that by (auto simp: AllocateInMap_eq)
  have l1: "fs_layout D s1"
    using a n b super_block_apart(3)[of D "INodeStart D"] by (intro layout_frame[OF s]) (auto simp: AllocateInMap_eq)
  define s2 where "s2 = db_set db_ifree (db_get db_ifree s1 - 1) s1"
  define s3 where "s3 = db_set db_ninode (db_get db_ninode s2 + 1) s2"
  define s' where "s' = db_set (db_part 0 (db_ireg 0)) (db_get (db_part 0 (db_ireg 0)) s3 - 1) s3"
  have l2: "fs_layout D s2" using layout_db_set(1)[OF l1] by (simp add: s2_def)
  have l3: "fs_layout D s3" using layout_db_set(1)[OF l2] by (simp add: s3_def)
  have db: "db_get f s1 = db_get f s" for f
    using f1[of "DynamicBlockStart D"] s l1 block_order(3)[of D] by (simp add: db_get_def layout_places)
  have f': "mStorage s' c = mStorage s1 c" if "c \<noteq> DynamicBlockStart D" for c
    using that by (simp add: s'_def layout_db_set(2)[OF l3])
      (simp add: s3_def layout_db_set(2)[OF l2], simp add: s2_def layout_db_set(2)[OF l1])
  show ?thesis
  proof
    show "AllocateINodeIdx n s = (Inr (), s')"
      using a by (simp add: AllocateINodeIdx_def bindE_def layout_places[OF s] s'_def s2_def s3_def Let_def)
    show "fs_layout D s'" using layout_db_set(1)[OF l3] by (simp add: s'_def)
    show "map_bit (INodeStart D) m s' \<longleftrightarrow> m = n \<or> map_bit (INodeStart D) m s" if m: "m < cBlockSize * 64" for m
      using f'[of "INodeStart D"] block_order(3)[of D] map_bit_allocated[OF a, of m]
      by (simp add: map_bit_def INode_map_block[OF m])
    show "mStorage s' b = mStorage s b" if "b \<noteq> INodeStart D" "b \<noteq> DynamicBlockStart D" for b
      using that f1 f' by simp
    show "counters_after ((\<lambda>_. 0)(db_ifree := -1, db_ninode := 1, db_part 0 (db_ireg 0) := -1)) s s'"
      unfolding counters_after_def
    proof (intro allI impI)
      fix f
      assume f: "counter_field f"
      have "counter_field db_ifree" "counter_field db_ninode" "counter_field (db_part 0 (db_ireg 0))"
        by (simp_all add: counter_field_def)
      with f show "db_get f s' = db_get f s + ((\<lambda>_. 0)(db_ifree := -1, db_ninode := 1, db_part 0 (db_ireg 0) := -1)) f"
        by (simp add: s'_def db_get_set[OF l3]) (simp add: s3_def db_get_set[OF l2], simp add: s2_def db_get_set[OF l1] db)
    qed
  qed
qed

end
