(* ===== verification/Mkfs_State.thy ===== *)
theory Mkfs_State
  imports Mkfs_Alloc
begin

text \<open>
  The state of an image between two operations of the file system maker: the super block is in
  place, the blocks below \<open>m\<close> and the i-nodes below \<open>k\<close> are allocated and no others, the counters
  agree with the maps, and the i-nodes from \<open>k\<close> on are still zeros. The maker frees nothing, so
  allocation takes block \<open>m\<close> and i-node \<open>k\<close>.
\<close>

section \<open>I-nodes\<close>

definition inode_block :: "nat \<Rightarrow> nat \<Rightarrow> nat" where
  "inode_block D i = INodeStart D + 1 + i div 16"

text \<open>The word \<open>w\<close> of i-node \<open>i\<close>, and a member in it.\<close>

definition iword :: "nat \<Rightarrow> nat \<Rightarrow> nat \<Rightarrow> DiskImage_c \<Rightarrow> uint64" where
  "iword D i w s = word_at (i mod 16 * 32 + w) (mStorage s (inode_block D i))"

definition member_of :: "cdinode \<Rightarrow> uint64 \<Rightarrow> uint64" where
  "member_of f w = GetBits (SwapBytes64 w) (63 - tStart (cdinode_at f)) (64 - tStart (cdinode_at f) - tSize (cdinode_at f))"

abbreviation inode_ptr :: "nat \<Rightarrow> nat \<Rightarrow> nat \<times> nat" where
  "inode_ptr D i \<equiv> (inode_block D i, i mod 16 * 32)"

lemma GetINode_ptr: "fs_layout D s \<Longrightarrow> GetINode i s = inode_ptr D i"
  by (simp add: layout_places(5) inode_block_def)

lemma ino_get_iword: "ino_get f (inode_ptr D i) s = member_of f (iword D i (tOfs (cdinode_at f)) s)"
  by (simp add: ino_get_def IntField_get_def member_of_def iword_def)

lemma inode_block_range:
  assumes "i < INodeCnt D 4"
  shows "INodeStart D < inode_block D i" "inode_block D i < SFSStart D 4"
proof -
  show "INodeStart D < inode_block D i" by (simp add: inode_block_def)
  have "INodeCnt D 4 * 32 + 512 - 1 = INodeCnt D 4 * 32 + 511" by simp
  then show "inode_block D i < SFSStart D 4"
    using assms by (simp add: inode_block_def SFSStart_def INodeBlockCnt_def cdinode_size_def cBlockSize_def)
qed

text \<open>Writing a member of one i-node.\<close>

lemma iword_ino_set:
  assumes "tOfs (cdinode_at f) < 32" "w < 32"
  shows "iword D j w (ino_set f (inode_ptr D i) v s) =
    (if j = i \<and> w = tOfs (cdinode_at f)
     then SwapBytes64 (SetBits (SwapBytes64 (iword D i w s)) (63 - tStart (cdinode_at f))
            (64 - tStart (cdinode_at f) - tSize (cdinode_at f)) v)
     else iword D j w s)"
proof -
  have "i mod 16 * 32 + tOfs (cdinode_at f) = j mod 16 * 32 + w \<and> inode_block D i = inode_block D j \<longleftrightarrow>
      j = i \<and> w = tOfs (cdinode_at f)"
  proof
    assume e: "i mod 16 * 32 + tOfs (cdinode_at f) = j mod 16 * 32 + w \<and> inode_block D i = inode_block D j"
    then have "(i mod 16 * 32 + tOfs (cdinode_at f)) div 32 = (j mod 16 * 32 + w) div 32" by simp
    with assms have "i mod 16 = j mod 16" by simp
    moreover have "i div 16 = j div 16" using e by (simp add: inode_block_def)
    ultimately show "j = i \<and> w = tOfs (cdinode_at f)" using e by (metis add_left_cancel div_mod_decomp)
  qed simp
  then show ?thesis
    by (auto simp: iword_def ino_set_def IntField_set_def Let_def word_at_put_word)
qed

lemma ino_set_blocks:
  "mStorage (ino_set f p v s) b = (if b = fst p then IntField_set (cdinode_at f) (snd p) v (mStorage s b) else mStorage s b)"
  "mDiskSizeInBlocks (ino_set f p v s) = mDiskSizeInBlocks s"
  by (auto simp: ino_set_def)

lemma ino_get_set:
  assumes "fits_word (cdinode_at f)"
  shows "ino_get f p (ino_set f p v s) = take_bit (tSize (cdinode_at f)) v"
  using assms by (simp add: ino_get_def ino_set_def IntField_get_set)

lemma ino_get_set_other:
  assumes "fits_word (cdinode_at f)" "fits_word (cdinode_at g)" "apart (cdinode_at f) (cdinode_at g)"
  shows "ino_get f p (ino_set g p v s) = ino_get f p s"
  using assms by (simp add: ino_get_def ino_set_def IntField_get_set_other)

section \<open>What an operation leaves alone\<close>

text \<open>What an operation on the i-nodes \<open>I\<close> and the blocks \<open>X\<close> leaves alone: the other i-nodes and blocks.\<close>

definition touches :: "nat \<Rightarrow> nat set \<Rightarrow> nat set \<Rightarrow> DiskImage_c \<Rightarrow> DiskImage_c \<Rightarrow> bool" where
  "touches D I X s s' \<longleftrightarrow> (\<forall>b. SFSStart D 4 < b \<and> b \<notin> X \<longrightarrow> mStorage s' b = mStorage s b) \<and>
     (\<forall>j w. j \<notin> I \<and> j < INodeCnt D 4 \<and> w < 32 \<longrightarrow> iword D j w s' = iword D j w s)"

lemma touches_refl: "touches D I X s s"
  by (simp add: touches_def)

lemma touches_trans: "touches D I X s t \<Longrightarrow> touches D I Y t u \<Longrightarrow> X \<subseteq> Z \<Longrightarrow> Y \<subseteq> Z \<Longrightarrow> touches D I Z s u"
  unfolding touches_def by (metis subsetD)

lemma touches_mono: "touches D I X s t \<Longrightarrow> I \<subseteq> J \<Longrightarrow> X \<subseteq> Y \<Longrightarrow> touches D J Y s t"
  unfolding touches_def by blast

section \<open>The invariant\<close>

definition fs_state :: "nat \<Rightarrow> nat \<Rightarrow> nat \<Rightarrow> DiskImage_c \<Rightarrow> bool" where
  "fs_state D m k s \<longleftrightarrow> fs_layout D s \<and> SFSStart D 4 < m \<and> m \<le> map_cap D \<and> k \<le> INodeCnt D 4 \<and>
     (\<forall>n<map_cap D. map_bit MapStart n s \<longleftrightarrow> n < m) \<and>
     (\<forall>n<cBlockSize * 64. map_bit (INodeStart D) n s \<longleftrightarrow> n < k) \<and>
     db_get db_tfree s = of_nat D - of_nat m \<and> db_get (db_fpm bmp_avail) s = of_nat D - of_nat m \<and>
     db_get db_ifree s = of_nat (INodeCnt D 4) - of_nat k \<and> db_get db_ninode s = of_nat k - 2 \<and>
     db_get (db_part 0 (db_ireg 0)) s = of_nat (INodeCnt D 4) - of_nat k \<and>
     (\<forall>i w. k \<le> i \<and> i < INodeCnt D 4 \<and> w < 32 \<longrightarrow> iword D i w s = 0)"

lemma fs_state_layout: "fs_state D m k s \<Longrightarrow> fs_layout D s"
  by (simp add: fs_state_def)

lemma fs_state_sizes:
  assumes "fs_state D m k s"
  shows "SFSStart D 4 < m" "m \<le> map_cap D" "m < 2 ^ 32 - 2 ^ 16" "k \<le> INodeCnt D 4" "INodeCnt D 4 \<le> 2 ^ 15"
proof -
  have D: "256 \<le> D" "D \<le> 2 ^ 31" using assms by (auto simp: fs_state_def fs_layout_def)
  show "SFSStart D 4 < m" "m \<le> map_cap D" "k \<le> INodeCnt D 4" "INodeCnt D 4 \<le> 2 ^ 15"
    using assms layout_sizes(3)[OF D] by (auto simp: fs_state_def)
  then show "m < 2 ^ 32 - 2 ^ 16" using layout_sizes(9)[OF D] by simp
qed

lemma fs_state_counters:
  assumes "fs_state D m k s" "counters_after d s s'"
  shows "db_get db_tfree s' = of_nat D - of_nat m + d db_tfree"
    "db_get (db_fpm bmp_avail) s' = of_nat D - of_nat m + d (db_fpm bmp_avail)"
    "db_get db_ifree s' = of_nat (INodeCnt D 4) - of_nat k + d db_ifree"
    "db_get db_ninode s' = of_nat k - 2 + d db_ninode"
    "db_get (db_part 0 (db_ireg 0)) s' = of_nat (INodeCnt D 4) - of_nat k + d (db_part 0 (db_ireg 0))"
  using assms by (simp_all add: fs_state_def counters_after_def counter_field_def)

lemma GetFreeBlock_state:
  assumes s: "fs_state D m k s" and m: "m < map_cap D"
  obtains s' where "GetFreeBlock s = (Inr m, s')" "fs_state D (Suc m) k s'"
    "\<And>b. SFSStart D 4 < b \<Longrightarrow> mStorage s' b = mStorage s b"
    "\<And>i w. i < INodeCnt D 4 \<Longrightarrow> iword D i w s' = iword D i w s"
proof -
  note l = fs_state_layout[OF s]
  have used: "map_bit MapStart n s \<longleftrightarrow> n < m" if "n < map_cap D" for n
    using s that by (simp add: fs_state_def)
  have e: "GetFreeEntry MapStart (MapBlockCnt D) s = (Inr m, s)"
    using m used by (intro GetFreeEntry_least) (auto simp: map_cap_def)
  from used[OF m] have "\<not> map_bit MapStart m s" by simp
  from AllocateBlock_free[OF l m this] obtain s' where a: "AllocateBlock m s = (Inr (), s')" "fs_layout D s'"
    and u: "\<And>n. n < map_cap D \<Longrightarrow> map_bit MapStart n s' \<longleftrightarrow> n = m \<or> map_bit MapStart n s"
    and f: "\<And>b. \<not> is_map_block D b \<Longrightarrow> b \<noteq> DynamicBlockStart D \<Longrightarrow> mStorage s' b = mStorage s b"
    and c: "counters_after ((\<lambda>_. 0)(db_tfree := -1, db_fpm bmp_avail := -1)) s s'" by blast
  have hi: "mStorage s' b = mStorage s b" if "INodeStart D \<le> b" for b
    using f[of b] that block_order(3)[of D] by (simp add: is_map_block_def)
  have iw: "iword D i w s' = iword D i w s" for i w
    by (simp add: iword_def hi inode_block_def)
  show ?thesis
  proof
    show "GetFreeBlock s = (Inr m, s')"
      using e a by (simp add: GetFreeBlock_def bindE_def returnE_def layout_places[OF l])
    show "mStorage s' b = mStorage s b" if "SFSStart D 4 < b" for b
      using that hi[of b] block_order(4)[of D 4] by simp
    show "iword D i w s' = iword D i w s" if "i < INodeCnt D 4" for i w by (rule iw)
    have "map_bit (INodeStart D) n s' = map_bit (INodeStart D) n s" for n by (simp add: map_bit_def hi)
    then show "fs_state D (Suc m) k s'"
      using s m a(2) fs_state_counters[OF s c] used by (auto simp: fs_state_def u iw less_Suc_eq)
  qed
qed

lemma GetFreeBlock_full:
  assumes s: "fs_state D (map_cap D) k s"
  shows "GetFreeBlock s = (Inl GenericError, s)"
proof -
  have "GetFreeEntry MapStart (MapBlockCnt D) s = (Inl GenericError, s)"
    using s by (intro GetFreeEntry_full) (auto simp: fs_state_def map_cap_def)
  then show ?thesis by (simp add: GetFreeBlock_def bindE_def layout_places[OF fs_state_layout[OF s]])
qed

lemma AllocateINodeIdx_state:
  assumes s: "fs_state D m k s" and k: "k < INodeCnt D 4"
  obtains s' where "AllocateINodeIdx k s = (Inr (), s')" "GetFreeINodeIdx s = (Inr (of_nat k), s')" "fs_state D m (Suc k) s'"
    "touches D {} {} s s'"
proof -
  note l = fs_state_layout[OF s]
  have k': "k < cBlockSize * 64" using k fs_state_sizes(5)[OF s] by (simp add: cBlockSize_def)
  have used: "map_bit (INodeStart D) n s \<longleftrightarrow> n < k" if "n < cBlockSize * 64" for n
    using s that by (simp add: fs_state_def)
  have e: "GetFreeEntry (INodeStart D) 1 s = (Inr k, s)"
    using k' used by (intro GetFreeEntry_least) auto
  from used[OF k'] have "\<not> map_bit (INodeStart D) k s" by simp
  from AllocateINodeIdx_free[OF l k' this] obtain s' where a: "AllocateINodeIdx k s = (Inr (), s')" "fs_layout D s'"
    and u: "\<And>n. n < cBlockSize * 64 \<Longrightarrow> map_bit (INodeStart D) n s' \<longleftrightarrow> n = k \<or> map_bit (INodeStart D) n s"
    and f: "\<And>b. b \<noteq> INodeStart D \<Longrightarrow> b \<noteq> DynamicBlockStart D \<Longrightarrow> mStorage s' b = mStorage s b"
    and c: "counters_after ((\<lambda>_. 0)(db_ifree := -1, db_ninode := 1, db_part 0 (db_ireg 0) := -1)) s s'" by blast
  have hi: "mStorage s' b = mStorage s b" if "INodeStart D < b" for b
    using f[of b] that block_order(3)[of D] by simp
  have iw: "iword D i w s' = iword D i w s" for i w
    by (simp add: iword_def hi inode_block_def)
  show ?thesis
  proof
    show "AllocateINodeIdx k s = (Inr (), s')" by (rule a(1))
    show "GetFreeINodeIdx s = (Inr (of_nat k), s')"
      using e a by (simp add: GetFreeINodeIdx_def bindE_def returnE_def layout_places[OF l])
    show "touches D {} {} s s'" using hi block_order(4)[of D 4] iw by (simp add: touches_def)
    have "map_bit MapStart n s' = map_bit MapStart n s" if "n < map_cap D" for n
      using f[of "MapStart + n div 64 div cBlockSize"] map_block_of[OF that] super_block_apart(4)[OF map_block_of[OF that]]
        block_order(3)[of D] by (simp add: map_bit_def)
    then show "fs_state D m (Suc k) s'"
      using s k a(2) fs_state_counters[OF s c] used by (auto simp: fs_state_def u iw less_Suc_eq)
  qed
qed

section \<open>Writes that keep the invariant\<close>

lemma fs_state_frame:
  assumes s: "fs_state D m k s" and same: "\<And>b. b \<le> INodeStart D \<Longrightarrow> mStorage s' b = mStorage s b"
    and size: "mDiskSizeInBlocks s' = mDiskSizeInBlocks s"
    and iw: "\<And>i w. k \<le> i \<Longrightarrow> i < INodeCnt D 4 \<Longrightarrow> w < 32 \<Longrightarrow> iword D i w s' = iword D i w s"
  shows "fs_state D m k s'"
proof -
  note l = fs_state_layout[OF s]
  have l': "fs_layout D s'"
    using same[of SUPERB] block_order(1) block_order(2,3)[of D] size by (intro layout_frame[OF l]) auto
  have m: "map_bit MapStart n s' = map_bit MapStart n s" if "n < map_cap D" for n
    using same[of "MapStart + n div 64 div cBlockSize"] super_block_apart(4)[OF map_block_of[OF that]] block_order(3)[of D]
    by (simp add: map_bit_def)
  have i: "map_bit (INodeStart D) n s' = map_bit (INodeStart D) n s" if "n < cBlockSize * 64" for n
    using same[of "INodeStart D"] by (simp add: map_bit_def INode_map_block[OF that])
  have d: "db_get f s' = db_get f s" for f
    using same[of "DynamicBlockStart D"] block_order(3)[of D] by (simp add: db_get_def layout_places[OF l] layout_places[OF l'])
  show ?thesis using s l' m i d iw by (simp add: fs_state_def)
qed

lemma fs_state_data:
  assumes "fs_state D m k s" "SFSStart D 4 < b"
  shows "fs_state D m k (upd_block b f s)"
    "i < INodeCnt D 4 \<Longrightarrow> iword D i w (upd_block b f s) = iword D i w s"
proof -
  have iw: "iword D i w (upd_block b f s) = iword D i w s" if "i < INodeCnt D 4" for i w
    using inode_block_range[OF that] assms(2) by (simp add: iword_def)
  then show "i < INodeCnt D 4 \<Longrightarrow> iword D i w (upd_block b f s) = iword D i w s" .
  show "fs_state D m k (upd_block b f s)"
    using assms block_order(4)[of D 4] by (intro fs_state_frame[OF assms(1)]) (auto simp: iw)
qed

lemma fs_state_ino_set:
  assumes "fs_state D m k s" "i < k" "tOfs (cdinode_at f) < 32"
  shows "fs_state D m k (ino_set f (inode_ptr D i) v s)"
proof (rule fs_state_frame[OF assms(1)])
  have i: "i < INodeCnt D 4" using assms(2) fs_state_sizes(4)[OF assms(1)] by simp
  show "mStorage (ino_set f (inode_ptr D i) v s) b = mStorage s b" if "b \<le> INodeStart D" for b
    using inode_block_range(1)[OF i] that by (simp add: ino_set_blocks)
  show "iword D j w (ino_set f (inode_ptr D i) v s) = iword D j w s" if "k \<le> j" "w < 32" for j w
    using that assms(2,3) by (simp add: iword_ino_set)
qed (simp add: ino_set_blocks)

lemma touches_data:
  assumes "SFSStart D 4 < b" "b \<in> X"
  shows "touches D {i} X s (upd_block b f s)"
proof -
  have "iword D j w (upd_block b f s) = iword D j w s" if "j < INodeCnt D 4" for j w
    using inode_block_range[OF that] assms(1) by (simp add: iword_def)
  then show ?thesis using assms by (auto simp: touches_def)
qed

lemma touches_ino_set:
  assumes "i < INodeCnt D 4" "tOfs (cdinode_at f) < 32"
  shows "touches D {i} X s (ino_set f (inode_ptr D i) v s)"
  using assms inode_block_range(2)[OF assms(1)] by (auto simp: touches_def ino_set_blocks iword_ino_set)

text \<open>The members that a directory or a file has after it was made.\<close>

definition inode_members :: "cdinode \<Rightarrow> bool" where
  "inode_members f \<longleftrightarrow> f \<in> {cdi_mode, cdi_nlink, cdi_uid, cdi_gid, cdi_size, cdi_blocks, cdi_alloc} \<or>
     (\<exists>i<8. f = cdi_addr i blk \<or> f = cdi_addr i nblks)"

lemma inode_members_fit: "inode_members f \<Longrightarrow> fits_word (cdinode_at f) \<and> tOfs (cdinode_at f) < 32"
  by (auto simp: inode_members_def fits_word_def)

lemma inode_members_apart: "inode_members f \<Longrightarrow> inode_members g \<Longrightarrow> f \<noteq> g \<Longrightarrow> apart (cdinode_at f) (cdinode_at g)"
  by (auto simp: inode_members_def apart_def)

lemma take_64 [simp]: "take_bit 64 (x :: uint64) = x"
  by (rule word_eq_by_bits) (simp add: bit_simps)

lemma member_get_set:
  assumes "inode_members f" "inode_members g"
  shows "ino_get f p (ino_set g p v s) = (if f = g then take_bit (tSize (cdinode_at f)) v else ino_get f p s)"
  using assms inode_members_fit inode_members_apart by (simp add: ino_get_set ino_get_set_other)

end
