(* ===== verification/Mkfs_Append.thy ===== *)
theory Mkfs_Append
  imports Mkfs_State
begin

text \<open>
  Appending to a file. A reader of the file system takes the blocks of all extents of an i-node,
  in order, and as many bytes as the i-node says. Since nothing is ever freed, the blocks that a
  file gets while it is copied follow each other, so that a file has one extent.
\<close>

section \<open>Reading a file\<close>

definition file_blocks :: "nat \<Rightarrow> DiskImage_c \<Rightarrow> nat list" where
  "file_blocks i s =
     (let p = GetINode i s in
      concat (List.map (\<lambda>e. let b = unat (ino_get (cdi_addr e blk) p s); n = unat (ino_get (cdi_addr e nblks) p s)
                            in [b..<b + n]) [0..<cdi_addr_size]))"

definition data_bytes :: "nat list \<Rightarrow> DiskImage_c \<Rightarrow> bytes" where
  "data_bytes bs s = concat (List.map (\<lambda>b. block_bytes (mStorage s b)) bs)"

definition read_file :: "nat \<Rightarrow> DiskImage_c \<Rightarrow> bytes" where
  "read_file i s = take (unat (ino_get cdi_size (GetINode i s) s)) (data_bytes (file_blocks i s) s)"

lemma length_block_bytes [simp]: "length (block_bytes b) = BSIZE"
  by (simp add: block_bytes_def)

lemma data_bytes_simps [simp]:
  "data_bytes [] s = []"
  "data_bytes (b # bs) s = block_bytes (mStorage s b) @ data_bytes bs s"
  "data_bytes (bs @ cs) s = data_bytes bs s @ data_bytes cs s"
  "length (data_bytes bs s) = length bs * BSIZE"
  by (auto simp: data_bytes_def length_concat comp_def sum_list_triv)

lemma data_bytes_cong: "(\<And>b. b \<in> set bs \<Longrightarrow> mStorage s' b = mStorage s b) \<Longrightarrow> data_bytes bs s' = data_bytes bs s"
  unfolding data_bytes_def by (intro arg_cong[where f = concat]) simp

lemma block_bytes_copy:
  assumes "ofs + length bs \<le> BSIZE"
  shows "block_bytes (copy_bytes ofs bs m) = take ofs (block_bytes m) @ bs @ drop (ofs + length bs) (block_bytes m)"
  using assms by (intro nth_equalityI) (auto simp: block_bytes_def copy_bytes_def nth_append)

text \<open>The number of blocks for so many bytes.\<close>

definition blocks_for :: "nat \<Rightarrow> nat" where
  "blocks_for n = (n + BSIZE - 1) div BSIZE"

lemma blocks_for_bounds: "n \<le> blocks_for n * BSIZE" "blocks_for n * BSIZE < n + BSIZE" "blocks_for n = 0 \<longleftrightarrow> n = 0"
  by (auto simp: blocks_for_def BSIZE_def cBlockSize_def)

lemma blocks_for_step: "BSIZE < n \<Longrightarrow> blocks_for n = Suc (blocks_for (n - BSIZE))"
  by (simp add: blocks_for_def BSIZE_def cBlockSize_def)

lemma blocks_for_one: "0 < n \<Longrightarrow> n \<le> BSIZE \<Longrightarrow> blocks_for n = 1"
  by (simp add: blocks_for_def BSIZE_def cBlockSize_def)

lemma blocks_for_add: "blocks_for (c * BSIZE + n) = c + blocks_for n"
  by (simp add: blocks_for_def BSIZE_def cBlockSize_def)

section \<open>The loop\<close>

lemma u32_next:
  assumes "0 < m" "m < 2 ^ 32"
  shows "(of_nat (m - 1) :: uint32) + 1 = of_nat m" "(of_nat (m - 1) :: uint32) \<noteq> of_nat m"
    "unat (of_nat (m - 1) :: uint32) = m - 1"
proof -
  show "(of_nat (m - 1) :: uint32) + 1 = of_nat m" using assms(1) by (cases m) simp_all
  show u: "unat (of_nat (m - 1) :: uint32) = m - 1" using assms by (intro unat_of_nat_small) simp
  have "unat (of_nat m :: uint32) = m" using assms by (intro unat_of_nat_small) simp
  with u assms(1) show "(of_nat (m - 1) :: uint32) \<noteq> of_nat m" by (metis diff_less less_irrefl zero_less_one)
qed

lemma u32_count: "n < 2 ^ 32 - 1 \<Longrightarrow> (ucast (ucast (of_nat n :: uint64) + 1 :: uint32) :: uint64) = of_nat (Suc n)"
proof -
  assume n: "n < 2 ^ 32 - 1"
  have "(ucast (of_nat n :: uint64) + 1 :: uint32) = of_nat (Suc n)" by (simp add: ucast_of_nat_32)
  moreover have "(ucast (of_nat (Suc n) :: uint32) :: uint64) = of_nat (Suc n)"
    using n by (intro word_unat_eq_iff[THEN iffD2]) (simp add: unat_of_nat_small unsigned_ucast_eq take_bit_nat_eq_self del: of_nat_Suc)
  ultimately show ?thesis by (simp only:)
qed

lemma fill_one:
  assumes "apCurrBlock a = of_nat (m - 1)" "apCurrEndBlock a = of_nat m" "0 < m" "m < 2 ^ 32" "apData a \<noteq> []"
  shows "AppendToFile_fill n (a, s) =
    (n - 1, a\<lparr>apData := drop BSIZE (apData a), apCurrBlock := of_nat m\<rparr>,
     upd_block (m - 1) (copy_bytes 0 (take BSIZE (apData a))) s)"
proof -
  have "fill_block 0 (a, s) = (a\<lparr>apData := drop BSIZE (apData a), apCurrBlock := of_nat m\<rparr>,
     upd_block (m - 1) (copy_bytes 0 (take BSIZE (apData a))) s)"
    using u32_next[OF assms(3,4)] assms(1) by (simp add: fill_block_def Let_def min_def)
  moreover have "AppendToFile_fill (n - 1) (a\<lparr>apData := drop BSIZE (apData a), apCurrBlock := of_nat m\<rparr>, t) =
      (n - 1, a\<lparr>apData := drop BSIZE (apData a), apCurrBlock := of_nat m\<rparr>, t)" for t
    using assms(2) by (intro AppendToFile_fill_stops) simp
  ultimately show ?thesis
    using u32_next(2)[OF assms(3,4)] assms(1,2,5) by (subst AppendToFile_fill.simps) simp
qed

text \<open>One more block for a file whose only extent ends at \<open>m\<close>.\<close>

lemma extend_merge:
  assumes s: "fs_state D m k s" "m < map_cap D" "i < k" and e: "apCurrEndBlock a = of_nat m" "apBlockDescIdx a = 0"
    and n: "ino_get (cdi_addr 0 nblks) (inode_ptr D i) s = of_nat n" "n < 2 ^ 32 - 1"
  obtains s' where
    "AppendToFile_extend (inode_ptr D i) a s =
       (Inr (a\<lparr>apCurrBlock := of_nat m, apCurrEndBlock := of_nat m + 1, apCurrBlockCnt := 1,
               apTotalBlocks := apTotalBlocks a + 1\<rparr>), s')"
    "fs_state D (Suc m) k s'" "touches D {i} {} s s'"
    "ino_get (cdi_addr 0 nblks) (inode_ptr D i) s' = of_nat (Suc n)"
    "\<And>f. inode_members f \<Longrightarrow> f \<noteq> cdi_addr 0 nblks \<Longrightarrow> ino_get f (inode_ptr D i) s' = ino_get f (inode_ptr D i) s"
proof -
  let ?p = "inode_ptr D i"
  have i: "i < INodeCnt D 4" using s(3) fs_state_sizes(4)[OF s(1)] by simp
  from GetFreeBlock_state[OF s(1,2)] obtain s1 where g: "GetFreeBlock s = (Inr m, s1)" "fs_state D (Suc m) k s1"
    and b1: "\<And>b. SFSStart D 4 < b \<Longrightarrow> mStorage s1 b = mStorage s b"
    and i1: "\<And>j w. j < INodeCnt D 4 \<Longrightarrow> iword D j w s1 = iword D j w s" by blast
  define s' where "s' = ino_set (cdi_addr 0 nblks) ?p (of_nat (Suc n)) s1"
  have mem: "inode_members (cdi_addr 0 nblks)" by (simp add: inode_members_def)
  have get1: "ino_get f ?p s1 = ino_get f ?p s" for f by (simp add: ino_get_iword i1[OF i])
  show ?thesis
  proof
    show "AppendToFile_extend ?p a s =
       (Inr (a\<lparr>apCurrBlock := of_nat m, apCurrEndBlock := of_nat m + 1, apCurrBlockCnt := 1,
               apTotalBlocks := apTotalBlocks a + 1\<rparr>), s')"
      using g(1) e n by (simp add: AppendToFile_extend_def bindE_def Let_def cdi_addr_size_def get1 u32_count s'_def del: of_nat_Suc)
    show "fs_state D (Suc m) k s'" unfolding s'_def
      using s(3) inode_members_fit[OF mem] by (intro fs_state_ino_set[OF g(2)]) auto
    have "touches D {i} {} s s1" using b1 i1 by (simp add: touches_def)
    moreover have "touches D {i} {} s1 s'"
      unfolding s'_def using i inode_members_fit[OF mem] by (intro touches_ino_set) auto
    ultimately show "touches D {i} {} s s'" by (rule touches_trans) simp_all
    have "take_bit 32 (of_nat (Suc n) :: uint64) = of_nat (Suc n)"
      using n(2) by (intro word_unat_eq_iff[THEN iffD2]) (simp add: unsigned_take_bit_eq unat_of_nat_small take_bit_nat_eq_self del: of_nat_Suc)
    then show "ino_get (cdi_addr 0 nblks) ?p s' = of_nat (Suc n)"
      by (simp add: s'_def member_get_set[OF mem mem] del: of_nat_Suc)
    show "ino_get f ?p s' = ino_get f ?p s" if "inode_members f" "f \<noteq> cdi_addr 0 nblks" for f
      using that by (simp add: s'_def member_get_set[OF _ mem] get1)
  qed
qed

text \<open>One turn of the loop with a free block \<open>m - 1\<close> at the end of the file.\<close>

lemma loop_turn:
  assumes s: "fs_state D m k s" "SFSStart D 4 < m - 1"
    and a: "apCurrBlock a = of_nat (m - 1)" "apCurrEndBlock a = of_nat m" "apData a \<noteq> []" "length (apData a) < 2 ^ 43"
  defines "a1 \<equiv> a\<lparr>apData := drop BSIZE (apData a), apCurrBlock := of_nat m\<rparr>"
    and "s1 \<equiv> upd_block (m - 1) (copy_bytes 0 (take BSIZE (apData a))) s"
  shows "AppendToFile_loop p a s =
    (if length (apData a) \<le> BSIZE then (Inr a1, s1)
     else case AppendToFile_extend p a1 s1 of
       (Inl e, s2) \<Rightarrow> (Inl e, s2) | (Inr a2, s2) \<Rightarrow> AppendToFile_loop p a2 s2)"
    "fs_state D m k s1" "touches D {i} {m - 1..} s s1" "i < INodeCnt D 4 \<Longrightarrow> ino_get f (inode_ptr D i) s1 = ino_get f (inode_ptr D i) s"
    "take (min BSIZE (length (apData a))) (block_bytes (mStorage s1 (m - 1))) = take BSIZE (apData a)"
proof -
  have m: "0 < m" "m < 2 ^ 32" using fs_state_sizes(1,3)[OF s(1)] by auto
  let ?n = "(length (apData a) + BSIZE - 1) div BSIZE"
  have f: "AppendToFile_fill (of_nat ?n) (a, s) = (of_nat ?n - 1, a1, s1)"
    using fill_one[OF a(1,2) m a(3)] by (simp add: a1_def s1_def)
  have n: "0 < ?n" "?n < 2 ^ 32" using a(3,4) blocks_for_bounds(3)[of "length (apData a)"]
    by (auto simp: blocks_for_def BSIZE_def cBlockSize_def)
  have z: "(of_nat ?n - 1 :: uint32) = 0 \<longleftrightarrow> length (apData a) \<le> BSIZE"
  proof -
    have u: "unat (of_nat ?n :: uint32) = ?n" using n(2) by (intro unat_of_nat_small) simp
    have "(of_nat ?n - 1 :: uint32) = 0 \<longleftrightarrow> (of_nat ?n :: uint32) = 1" by simp
    also have "\<dots> \<longleftrightarrow> ?n = 1" unfolding word_unat_eq_iff u by simp
    also have "\<dots> \<longleftrightarrow> length (apData a) \<le> BSIZE"
      using a(3) blocks_for_bounds(1,3)[of "length (apData a)"] blocks_for_one[of "length (apData a)"]
      by (auto simp: blocks_for_def)
    finally show ?thesis .
  qed
  have shorter: "apData a1 \<noteq> apData a"
  proof
    assume "apData a1 = apData a"
    then have "length (drop BSIZE (apData a)) = length (apData a)" by (simp add: a1_def)
    with a(3) show False by (cases "apData a") (auto simp: BSIZE_def cBlockSize_def)
  qed
  show "AppendToFile_loop p a s =
    (if length (apData a) \<le> BSIZE then (Inr a1, s1)
     else case AppendToFile_extend p a1 s1 of
       (Inl e, s2) \<Rightarrow> (Inl e, s2) | (Inr a2, s2) \<Rightarrow> AppendToFile_loop p a2 s2)"
  proof (cases "length (apData a) \<le> BSIZE")
    case True
    then have "apData a1 = []" by (simp add: a1_def)
    then have "AppendToFile_loop p a1 s1 = (Inr a1, s1)" by (simp add: AppendToFile_loop.simps)
    with True z f shorter a(3) show ?thesis by (subst AppendToFile_loop.simps) simp
  next
    case False
    with z f a(3) show ?thesis by (subst AppendToFile_loop.simps) simp
  qed
  show "fs_state D m k s1" unfolding s1_def by (rule fs_state_data(1)[OF s])
  show "touches D {i} {m - 1..} s s1" unfolding s1_def by (rule touches_data[OF s(2)]) simp
  show "ino_get f (inode_ptr D i) s1 = ino_get f (inode_ptr D i) s" if "i < INodeCnt D 4"
    unfolding s1_def ino_get_iword fs_state_data(2)[OF s that] ..
  show "take (min BSIZE (length (apData a))) (block_bytes (mStorage s1 (m - 1))) = take BSIZE (apData a)"
    by (cases "length (apData a) \<le> BSIZE") (simp_all add: s1_def block_bytes_copy)
qed

text \<open>What the loop leaves when it began with data and a free block \<open>m - 1\<close>.\<close>

definition filled :: "nat \<Rightarrow> nat \<Rightarrow> nat \<Rightarrow> nat \<Rightarrow> nat \<Rightarrow> append_c \<Rightarrow> DiskImage_c \<Rightarrow> append_c \<Rightarrow> DiskImage_c \<Rightarrow> nat \<Rightarrow> bool" where
  "filled D k i b0 m a s a' s' m' \<longleftrightarrow>
     Suc m' = m + blocks_for (length (apData a)) \<and>
     Suc (apTotalBlocks a') = apTotalBlocks a + blocks_for (length (apData a)) \<and> fs_state D m' k s' \<and>
     ino_get (cdi_addr 0 nblks) (inode_ptr D i) s' = of_nat (m' - b0) \<and>
     (\<forall>f. inode_members f \<and> f \<noteq> cdi_addr 0 nblks \<longrightarrow> ino_get f (inode_ptr D i) s' = ino_get f (inode_ptr D i) s) \<and>
     touches D {i} {m - 1..} s s' \<and> take (length (apData a)) (data_bytes [m - 1..<m'] s') = apData a"

lemma loop_fills:
  assumes "fs_state D m k s" "i < k" "SFSStart D 4 < b0" "b0 < m"
    and "ino_get (cdi_addr 0 nblks) (inode_ptr D i) s = of_nat (m - b0)"
    and "apCurrBlock a = of_nat (m - 1)" "apCurrEndBlock a = of_nat m" "apBlockDescIdx a = 0"
    and "apData a \<noteq> []" "length (apData a) < 2 ^ 43" "m + blocks_for (length (apData a)) \<le> Suc (map_cap D)"
  shows "\<exists>a' s' m'. AppendToFile_loop (inode_ptr D i) a s = (Inr a', s') \<and> filled D k i b0 m a s a' s' m'"
  using assms
proof (induction "length (apData a)" arbitrary: m s a rule: less_induct)
  case less
  let ?p = "inode_ptr D i" and ?d = "apData a"
  note s = less.prems(1)
  have i: "i < INodeCnt D 4" using less.prems(2) fs_state_sizes(4)[OF s] by simp
  have sfs: "SFSStart D 4 < m - 1" using less.prems(3,4) by simp
  define a1 where "a1 = a\<lparr>apData := drop BSIZE ?d, apCurrBlock := of_nat m\<rparr>"
  define s1 where "s1 = upd_block (m - 1) (copy_bytes 0 (take BSIZE ?d)) s"
  note turn = loop_turn[OF s sfs less.prems(6,7,9,10), folded a1_def s1_def]
  note get1 = turn(4)[OF i]
  show ?case
  proof (cases "length ?d \<le> BSIZE")
    case True
    then have one: "blocks_for (length ?d) = 1" using less.prems(9) by (intro blocks_for_one) auto
    moreover have "[m - 1..<m] = [m - 1]" using less.prems(4) by (cases m) auto
    moreover have "apTotalBlocks a1 = apTotalBlocks a" by (simp add: a1_def)
    ultimately have "filled D k i b0 m a s a1 s1 m"
      using True turn(2,3,5) get1 less.prems(5) by (simp add: filled_def)
    with turn(1) True show ?thesis by auto
  next
    case False
    define d1 where "d1 = drop BSIZE ?d"
    have d1: "length d1 = length ?d - BSIZE" "d1 \<noteq> []" "?d = take BSIZE ?d @ d1" using False by (auto simp: d1_def)
    have nb: "blocks_for (length ?d) = Suc (blocks_for (length d1))" using False d1(1) blocks_for_step[of "length ?d"] by simp
    have pos: "0 < blocks_for (length d1)" using d1(2) blocks_for_bounds(3)[of "length d1"] by simp
    have cap: "m < map_cap D" using less.prems(11) nb pos by simp
    have e1: "apCurrEndBlock a1 = of_nat m" "apBlockDescIdx a1 = 0" "apData a1 = d1" "apTotalBlocks a1 = apTotalBlocks a"
      using less.prems by (simp_all add: a1_def d1_def)
    have n1: "ino_get (cdi_addr 0 nblks) ?p s1 = of_nat (m - b0)" "m - b0 < 2 ^ 32 - 1"
      using less.prems(5) get1 fs_state_sizes(3)[OF s] by auto
    define a2 where "a2 = a1\<lparr>apCurrBlock := of_nat m, apCurrEndBlock := of_nat m + 1, apCurrBlockCnt := 1,
                 apTotalBlocks := apTotalBlocks a1 + 1\<rparr>"
    obtain s2 where x: "AppendToFile_extend ?p a1 s1 = (Inr a2, s2)"
      and s2: "fs_state D (Suc m) k s2" "touches D {i} {} s1 s2"
      "ino_get (cdi_addr 0 nblks) ?p s2 = of_nat (Suc (m - b0))"
      and m2: "\<And>f. inode_members f \<Longrightarrow> f \<noteq> cdi_addr 0 nblks \<Longrightarrow> ino_get f ?p s2 = ino_get f ?p s1"
      using extend_merge[OF turn(2) cap less.prems(2) e1(1,2) n1] unfolding a2_def by blast
    have a2: "apData a2 = d1" "apCurrBlock a2 = of_nat (Suc m - 1)" "apCurrEndBlock a2 = of_nat (Suc m)"
      "apBlockDescIdx a2 = 0" "apTotalBlocks a2 = apTotalBlocks a + 1"
      using e1 by (simp_all add: a2_def)
    have c2: "ino_get (cdi_addr 0 nblks) ?p s2 = of_nat (Suc m - b0)"
      using s2(3) less.prems(4) by (simp add: Suc_diff_le)
    have len: "length (apData a2) < length ?d" using a2(1) d1(1) False by (simp add: BSIZE_def cBlockSize_def)
    have "b0 < Suc m" "apData a2 \<noteq> []" "length (apData a2) < 2 ^ 43"
      "Suc m + blocks_for (length (apData a2)) \<le> Suc (map_cap D)"
      using less.prems(4,10,11) len a2(1) d1(2) nb by simp_all
    from less.hyps[OF len s2(1) less.prems(2,3) this(1) c2 a2(2,3,4) this(2-4)]
    obtain a' s' m' where r: "AppendToFile_loop ?p a2 s2 = (Inr a', s')" and F: "filled D k i b0 (Suc m) a2 s2 a' s' m'"
      by blast
    have tt: "touches D {i} {m..} s2 s'" and bb: "take (length d1) (data_bytes [m..<m'] s') = d1"
      and m': "Suc m' = Suc m + blocks_for (length d1)"
      using F unfolding filled_def a2(1) diff_Suc_1 by (blast, blast, blast)
    have "touches D {i} {m - 1..} s s1" "touches D {i} {m - 1..} s1 s2"
      using turn(3) touches_trans[OF touches_refl s2(2)] by auto
    then have T: "touches D {i} {m - 1..} s s'"
      using tt by (intro touches_trans[OF touches_trans[of D "{i}" _ s s1 _ s2] tt]) auto
    have blk1: "mStorage s' (m - 1) = mStorage s1 (m - 1)"
      using s2(2) tt sfs less.prems(4) by (auto simp: touches_def)
    have "[m - 1..<m'] = (m - 1) # [m..<m']" using less.prems(4) m' pos by (simp add: upt_conv_Cons)
    moreover have "block_bytes (mStorage s' (m - 1)) = take BSIZE ?d"
      using turn(5) False unfolding blk1 by (simp add: min_def)
    ultimately have B: "take (length ?d) (data_bytes [m - 1..<m'] s') = ?d"
      using bb d1 False by simp
    have "AppendToFile_loop ?p a s = (Inr a', s')" using turn(1) False x r by simp
    moreover have "filled D k i b0 m a s a' s' m'"
      unfolding filled_def using T B
    proof (intro conjI)
      show "Suc m' = m + blocks_for (length ?d)" using m' nb by simp
      show "Suc (apTotalBlocks a') = apTotalBlocks a + blocks_for (length ?d)" using F a2(1,5) nb by (auto simp: filled_def)
      show "fs_state D m' k s'" "ino_get (cdi_addr 0 nblks) ?p s' = of_nat (m' - b0)" using F by (simp_all only: filled_def)
      show "\<forall>f. inode_members f \<and> f \<noteq> cdi_addr 0 nblks \<longrightarrow> ino_get f ?p s' = ino_get f ?p s"
        using F get1 m2 by (simp add: filled_def)
    qed
    ultimately show ?thesis by blast
  qed
qed

text \<open>The first block of a file that has none.\<close>

lemma take_32_of_nat: "n < 2 ^ 32 \<Longrightarrow> take_bit 32 (of_nat n :: uint64) = of_nat n"
  by (intro word_unat_eq_iff[THEN iffD2]) (simp add: unsigned_take_bit_eq unat_of_nat_small take_bit_nat_eq_self)

lemma ucast_u32: "n < 2 ^ 32 \<Longrightarrow> (ucast (of_nat n :: uint32) :: uint64) = of_nat n"
  by (intro word_unat_eq_iff[THEN iffD2]) (simp add: unat_of_nat_small unsigned_ucast_eq take_bit_nat_eq_self)

lemma extend_first:
  assumes s: "fs_state D m k s" "m < map_cap D" "i < k"
    and a: "apCurrEndBlock a = 0" "apCurrBlock a = 0" "apCurrBlockCnt a = 0" "apBlockDescIdx a = 0"
  obtains s' where
    "AppendToFile_extend (inode_ptr D i) a s =
       (Inr (a\<lparr>apCurrBlock := of_nat m, apCurrEndBlock := of_nat m + 1, apCurrBlockCnt := 1,
               apTotalBlocks := apTotalBlocks a + 1\<rparr>), s')"
    "fs_state D (Suc m) k s'" "touches D {i} {} s s'"
    "ino_get (cdi_addr 0 blk) (inode_ptr D i) s' = of_nat m" "ino_get (cdi_addr 0 nblks) (inode_ptr D i) s' = 1"
    "\<And>f. inode_members f \<Longrightarrow> f \<noteq> cdi_addr 0 nblks \<Longrightarrow> f \<noteq> cdi_addr 0 blk \<Longrightarrow>
        ino_get f (inode_ptr D i) s' = ino_get f (inode_ptr D i) s"
proof -
  let ?p = "inode_ptr D i"
  have i: "i < INodeCnt D 4" using s(3) fs_state_sizes(4)[OF s(1)] by simp
  have m: "0 < m" "m < 2 ^ 32" using fs_state_sizes(1,3)[OF s(1)] by auto
  from GetFreeBlock_state[OF s(1,2)] obtain s1 where g: "GetFreeBlock s = (Inr m, s1)" "fs_state D (Suc m) k s1"
    and b1: "\<And>b. SFSStart D 4 < b \<Longrightarrow> mStorage s1 b = mStorage s b"
    and i1: "\<And>j w. j < INodeCnt D 4 \<Longrightarrow> iword D j w s1 = iword D j w s" by blast
  define s2 where "s2 = ino_set (cdi_addr 0 blk) ?p (of_nat m) s1"
  define s' where "s' = ino_set (cdi_addr 0 nblks) ?p 1 s2"
  have mem: "inode_members (cdi_addr 0 nblks)" "inode_members (cdi_addr 0 blk)" by (simp_all add: inode_members_def)
  have get1: "ino_get f ?p s1 = ino_get f ?p s" for f by (simp add: ino_get_iword i1[OF i])
  have "unat (of_nat m :: uint32) \<noteq> 0" using m by (simp add: unat_of_nat_small)
  then have m0: "(of_nat m :: uint32) \<noteq> 0" by auto
  show ?thesis
  proof
    show "AppendToFile_extend ?p a s =
       (Inr (a\<lparr>apCurrBlock := of_nat m, apCurrEndBlock := of_nat m + 1, apCurrBlockCnt := 1,
               apTotalBlocks := apTotalBlocks a + 1\<rparr>), s')"
      using g(1) a m0 m by (simp add: AppendToFile_extend_def bindE_def Let_def cdi_addr_size_def s'_def s2_def ucast_u32)
    have s2: "fs_state D (Suc m) k s2" unfolding s2_def
      using s(3) inode_members_fit[OF mem(2)] by (intro fs_state_ino_set[OF g(2)]) auto
    show "fs_state D (Suc m) k s'" unfolding s'_def
      using s(3) inode_members_fit[OF mem(1)] by (intro fs_state_ino_set[OF s2]) auto
    have "touches D {i} {} s s1" using b1 i1 by (simp add: touches_def)
    moreover have "touches D {i} {} s1 s2" "touches D {i} {} s2 s'"
      unfolding s'_def s2_def using i inode_members_fit[OF mem(1)] inode_members_fit[OF mem(2)]
      by (auto intro!: touches_ino_set)
    ultimately show "touches D {i} {} s s'" by (metis touches_trans order_refl)
    show "ino_get (cdi_addr 0 blk) ?p s' = of_nat m" "ino_get (cdi_addr 0 nblks) ?p s' = 1"
      using m(2) take_32_of_nat[of 1] by (simp_all add: s'_def s2_def member_get_set mem take_32_of_nat)
    show "ino_get f ?p s' = ino_get f ?p s" if "inode_members f" "f \<noteq> cdi_addr 0 nblks" "f \<noteq> cdi_addr 0 blk" for f
      using that by (simp add: s'_def s2_def member_get_set mem get1)
  qed
qed

text \<open>The loop for a file whose \<open>n\<close> blocks are full, and what it leaves.\<close>

definition extended :: "nat \<Rightarrow> nat \<Rightarrow> nat \<Rightarrow> nat \<Rightarrow> nat \<Rightarrow> append_c \<Rightarrow> DiskImage_c \<Rightarrow> append_c \<Rightarrow> DiskImage_c \<Rightarrow> bool" where
  "extended D k i m n a s a' s' \<longleftrightarrow>
     (let more = blocks_for (length (apData a)); n' = n + more; m' = m + more; p = inode_ptr D i in
      apTotalBlocks a' = apTotalBlocks a + more \<and> fs_state D m' k s' \<and>
      ino_get (cdi_addr 0 nblks) p s' = of_nat n' \<and>
      ino_get (cdi_addr 0 blk) p s' = of_nat (if n' = 0 then 0 else m' - n') \<and>
      (\<forall>f. inode_members f \<and> f \<noteq> cdi_addr 0 nblks \<and> f \<noteq> cdi_addr 0 blk \<longrightarrow> ino_get f p s' = ino_get f p s) \<and>
      touches D {i} {m..} s s' \<and> take (length (apData a)) (data_bytes [m..<m'] s') = apData a)"

lemma loop_aligned:
  assumes s: "fs_state D m k s" "i < k" "SFSStart D 4 < m - n" "n \<le> m"
    and a: "apBlockDescIdx a = 0" "length (apData a) < 2 ^ 43" "m + blocks_for (length (apData a)) \<le> map_cap D"
    and e: "ino_get (cdi_addr 0 nblks) (inode_ptr D i) s = of_nat n"
      "ino_get (cdi_addr 0 blk) (inode_ptr D i) s = of_nat (if n = 0 then 0 else m - n)"
      "apCurrBlock a = of_nat (if n = 0 then 0 else m)" "apCurrEndBlock a = apCurrBlock a"
      "n = 0 \<Longrightarrow> apCurrBlockCnt a = 0"
  shows "\<exists>a' s'. AppendToFile_loop (inode_ptr D i) a s = (Inr a', s') \<and> extended D k i m n a s a' s'"
proof (cases "apData a = []")
  case True
  then have "blocks_for (length (apData a)) = 0" by (simp add: blocks_for_bounds)
  with True show ?thesis
    using s e by (intro exI[of _ a] exI[of _ s]) (simp add: AppendToFile_loop.simps extended_def Let_def touches_refl)
next
  case False
  let ?p = "inode_ptr D i" and ?d = "apData a"
  have pos: "0 < blocks_for (length ?d)" using False blocks_for_bounds(3)[of "length ?d"] by simp
  have cap: "m < map_cap D" using a(3) pos by simp
  have need: "(of_nat ((length ?d + BSIZE - 1) div BSIZE) :: uint32) \<noteq> 0"
  proof -
    have "blocks_for (length ?d) < 2 ^ 32" using a(2) by (simp add: blocks_for_def BSIZE_def cBlockSize_def)
    then have "unat (of_nat (blocks_for (length ?d)) :: uint32) \<noteq> 0" using pos by (simp add: unat_of_nat_small)
    then show ?thesis by (auto simp: blocks_for_def)
  qed
  define a2 where "a2 = a\<lparr>apCurrBlock := of_nat m, apCurrEndBlock := of_nat m + 1, apCurrBlockCnt := 1,
                 apTotalBlocks := apTotalBlocks a + 1\<rparr>"
  have "\<exists>s2. AppendToFile_extend ?p a s = (Inr a2, s2) \<and> fs_state D (Suc m) k s2 \<and> touches D {i} {} s s2 \<and>
      ino_get (cdi_addr 0 blk) ?p s2 = of_nat (m - n) \<and> ino_get (cdi_addr 0 nblks) ?p s2 = of_nat (Suc n) \<and>
      (\<forall>f. inode_members f \<and> f \<noteq> cdi_addr 0 nblks \<and> f \<noteq> cdi_addr 0 blk \<longrightarrow> ino_get f ?p s2 = ino_get f ?p s)"
  proof (cases "n = 0")
    case True
    with e have "apCurrEndBlock a = 0" "apCurrBlock a = 0" "apCurrBlockCnt a = 0" by auto
    from extend_first[OF s(1) cap s(2) this a(1), folded a2_def]
    obtain s2 where "AppendToFile_extend ?p a s = (Inr a2, s2)" "fs_state D (Suc m) k s2" "touches D {i} {} s s2"
      "ino_get (cdi_addr 0 blk) ?p s2 = of_nat m" "ino_get (cdi_addr 0 nblks) ?p s2 = 1"
      "\<And>f. inode_members f \<Longrightarrow> f \<noteq> cdi_addr 0 nblks \<Longrightarrow> f \<noteq> cdi_addr 0 blk \<Longrightarrow> ino_get f ?p s2 = ino_get f ?p s"
      by blast
    with True show ?thesis by (intro exI[of _ s2]) simp
  next
    case False
    with e(3,4) have en: "apCurrEndBlock a = of_nat m" by simp
    have n: "n < 2 ^ 32 - 1" using s(4) fs_state_sizes(3)[OF s(1)] by simp
    from extend_merge[OF s(1) cap s(2) en a(1) e(1) n, folded a2_def]
    obtain s2 where "AppendToFile_extend ?p a s = (Inr a2, s2)" "fs_state D (Suc m) k s2" "touches D {i} {} s s2"
      "ino_get (cdi_addr 0 nblks) ?p s2 = of_nat (Suc n)"
      "\<And>f. inode_members f \<Longrightarrow> f \<noteq> cdi_addr 0 nblks \<Longrightarrow> ino_get f ?p s2 = ino_get f ?p s"
      by blast
    with e(2) False show ?thesis by (intro exI[of _ s2]) (simp add: inode_members_def)
  qed
  define n' where "n' = n + blocks_for (length (apData a))"
  define m' where "m' = m + blocks_for (length (apData a))"
  from \<open>\<exists>s2. _\<close> obtain s2 where x: "AppendToFile_extend ?p a s = (Inr a2, s2)"
    and s2: "fs_state D (Suc m) k s2" "touches D {i} {} s s2"
      "ino_get (cdi_addr 0 blk) ?p s2 = of_nat (m - n)" "ino_get (cdi_addr 0 nblks) ?p s2 = of_nat (Suc n)"
    and g2: "\<And>f. inode_members f \<Longrightarrow> f \<noteq> cdi_addr 0 nblks \<Longrightarrow> f \<noteq> cdi_addr 0 blk \<Longrightarrow> ino_get f ?p s2 = ino_get f ?p s"
    by blast
  have L: "AppendToFile_loop ?p a s = AppendToFile_loop ?p a2 s2"
    using False need x e(4) by (subst AppendToFile_loop.simps) (simp add: AppendToFile_fill_stops)
  have a2: "apData a2 = ?d" "apCurrBlock a2 = of_nat (Suc m - 1)" "apCurrEndBlock a2 = of_nat (Suc m)"
    "apBlockDescIdx a2 = 0" "apTotalBlocks a2 = apTotalBlocks a + 1" "apData a2 \<noteq> []" "length (apData a2) < 2 ^ 43"
    "Suc m + blocks_for (length (apData a2)) \<le> Suc (map_cap D)"
    using a False by (simp_all add: a2_def)
  have c2: "ino_get (cdi_addr 0 nblks) ?p s2 = of_nat (Suc m - (m - n))" "m - n < Suc m"
    using s2(4) s(4) by (simp_all add: Suc_diff_le)
  from loop_fills[OF s2(1) s(2,3) c2(2,1) a2(2,3,4,6-8)] obtain a' s' M where
    r: "AppendToFile_loop ?p a2 s2 = (Inr a', s')" and F: "filled D k i (m - n) (Suc m) a2 s2 a' s' M" by blast
  have M: "M = m'" using F a2(1) by (auto simp: filled_def m'_def)
  have mn: "m' - (m - n) = n'" "m' - n' = m - n" "n' \<noteq> 0" using s(4) pos by (auto simp: m'_def n'_def)
  have blk0: "inode_members (cdi_addr 0 blk)" "cdi_addr 0 blk \<noteq> cdi_addr 0 nblks" by (simp_all add: inode_members_def)
  have T: "touches D {i} {m..} s s'"
    using F s2(2) unfolding filled_def diff_Suc_1 by (meson touches_trans order_refl empty_subsetI)
  have "ino_get (cdi_addr 0 nblks) ?p s' = of_nat n'" "fs_state D m' k s'" "apTotalBlocks a' = apTotalBlocks a + blocks_for (length ?d)"
    "take (length ?d) (data_bytes [m..<m'] s') = ?d"
    "ino_get (cdi_addr 0 blk) ?p s' = of_nat (if n' = 0 then 0 else m' - n')"
    using F[unfolded filled_def M mn(1) a2(1,5) diff_Suc_1] blk0 s2(3) mn by auto
  moreover have "ino_get f ?p s' = ino_get f ?p s" if "inode_members f" "f \<noteq> cdi_addr 0 nblks" "f \<noteq> cdi_addr 0 blk" for f
    using F that g2 by (simp add: filled_def)
  ultimately have "extended D k i m n a s a' s'"
    using T unfolding extended_def Let_def n'_def m'_def by blast
  with L r show ?thesis by auto
qed

section \<open>Appending to the last file\<close>

text \<open>A file of \<open>sz\<close> bytes whose blocks are the last that were allocated, in one extent.\<close>

definition tail_file :: "nat \<Rightarrow> nat \<Rightarrow> nat \<Rightarrow> nat \<Rightarrow> DiskImage_c \<Rightarrow> bool" where
  "tail_file D m i sz s \<longleftrightarrow> (let p = inode_ptr D i; n = blocks_for sz in
     n \<le> m \<and> SFSStart D 4 < m - n \<and> ino_get (cdi_addr 0 nblks) p s = of_nat n \<and>
     ino_get (cdi_addr 0 blk) p s = of_nat (if n = 0 then 0 else m - n) \<and>
     (\<forall>e. 0 < e \<and> e < 8 \<longrightarrow> ino_get (cdi_addr e blk) p s = 0 \<and> ino_get (cdi_addr e nblks) p s = 0) \<and>
     ino_get cdi_blocks p s = of_nat n \<and> ino_get cdi_size p s = of_nat sz \<and>
     ino_get cdi_mode p s AND IFMT = IFREG)"

lemma last_block:
  "sz mod BSIZE \<noteq> 0 \<Longrightarrow> blocks_for sz = Suc (sz div BSIZE)"
  "sz mod BSIZE = 0 \<Longrightarrow> blocks_for sz = sz div BSIZE"
proof -
  have "blocks_for sz = sz div BSIZE + blocks_for (sz mod BSIZE)"
    using blocks_for_add[of "sz div BSIZE" "sz mod BSIZE"] by simp
  moreover have "sz mod BSIZE \<le> BSIZE" by (simp add: BSIZE_def cBlockSize_def)
  ultimately show "sz mod BSIZE \<noteq> 0 \<Longrightarrow> blocks_for sz = Suc (sz div BSIZE)"
    "sz mod BSIZE = 0 \<Longrightarrow> blocks_for sz = sz div BSIZE"
    using blocks_for_one[of "sz mod BSIZE"] blocks_for_bounds(3)[of "sz mod BSIZE"] by auto
qed

lemma take_beyond: "length xs = k \<Longrightarrow> take (k + x) (xs @ ys) = xs @ take x ys"
  by simp

lemma partial_fill:
  assumes "sz mod BSIZE \<noteq> 0" "sz mod BSIZE + length e \<le> BSIZE" "n = blocks_for sz" "n \<le> m"
  shows "take (sz + length e) (data_bytes [m - n..<m] (upd_block (m - 1) (copy_bytes (sz mod BSIZE) e) s)) =
    take sz (data_bytes [m - n..<m] s) @ e"
proof -
  obtain q where q: "n = Suc q" "q = sz div BSIZE" using assms(1,3) last_block(1) by auto
  then have sz: "sz = q * BSIZE + sz mod BSIZE" by simp
  let ?o = "sz mod BSIZE"
  obtain M where M: "m = Suc M" using assms(4) q(1) by (cases m) auto
  have r: "[m - n..<m] = [m - n..<M] @ [M]" using M q(1) by simp
  let ?t = "upd_block M (copy_bytes ?o e) s"
  have c: "data_bytes [m - n..<M] ?t = data_bytes [m - n..<M] s" by (rule data_bytes_cong) simp
  have l: "length (data_bytes [m - n..<M] s) = q * BSIZE" using assms(4) q(1) M by simp
  have b: "block_bytes (mStorage ?t M) = take ?o (block_bytes (mStorage s M)) @ e @
      drop (?o + length e) (block_bytes (mStorage s M))"
    using assms(2) by (simp add: block_bytes_copy)
  have "take (q * BSIZE + (?o + length e)) (data_bytes [m - n..<m] ?t) =
      data_bytes [m - n..<M] s @ take (?o + length e) (block_bytes (mStorage ?t M))"
    unfolding r data_bytes_simps(3) c take_beyond[OF l] by simp
  also have "\<dots> = (data_bytes [m - n..<M] s @ take ?o (block_bytes (mStorage s M))) @ e"
    using assms(2) unfolding b by simp
  also have "data_bytes [m - n..<M] s @ take ?o (block_bytes (mStorage s M)) = take (q * BSIZE + ?o) (data_bytes [m - n..<m] s)"
    unfolding r data_bytes_simps(3) take_beyond[OF l] by simp
  finally have "take (q * BSIZE + (?o + length e)) (data_bytes [m - n..<m] ?t) = take (q * BSIZE + ?o) (data_bytes [m - n..<m] s) @ e" .
  moreover have "sz + length e = q * BSIZE + (?o + length e)" using sz by linarith
  ultimately show ?thesis using sz M by (metis diff_Suc_1)
qed

lemma blocks_after_partial:
  assumes "R = min (BSIZE - sz mod BSIZE) l" "sz mod BSIZE \<noteq> 0"
  shows "blocks_for (sz + l) = blocks_for sz + blocks_for (l - R)" "R < l \<Longrightarrow> sz + R = blocks_for sz * BSIZE"
proof -
  obtain q where q: "blocks_for sz = Suc q" "sz = q * BSIZE + sz mod BSIZE" using last_block(1)[OF assms(2)] by auto
  have r: "sz mod BSIZE < BSIZE" by (simp add: BSIZE_def cBlockSize_def)
  show full: "sz + R = blocks_for sz * BSIZE" if "R < l" using that assms(1) q r by simp
  show "blocks_for (sz + l) = blocks_for sz + blocks_for (l - R)"
  proof (cases "R < l")
    case True
    then have "sz + l = blocks_for sz * BSIZE + (l - R)" using full by simp
    then show ?thesis by (simp add: blocks_for_add)
  next
    case False
    then have "R = l" "sz mod BSIZE + l \<le> BSIZE" using assms(1) r by auto
    moreover have "blocks_for (sz mod BSIZE + l) = 1" using assms(2) calculation(2) by (intro blocks_for_one) auto
    moreover have e: "sz + l = q * BSIZE + (sz mod BSIZE + l)" using q(2) by linarith
    ultimately have "blocks_for (sz + l) = q + 1" unfolding e blocks_for_add by simp
    with \<open>R = l\<close> show ?thesis using q(1) by (simp add: blocks_for_bounds(3))
  qed
qed

text \<open>How many bytes the last block of a file of \<open>sz\<close> bytes takes, of \<open>l\<close> bytes more.\<close>

definition room_left :: "nat \<Rightarrow> nat \<Rightarrow> nat" where
  "room_left sz l = (if sz mod BSIZE = 0 then 0 else min (BSIZE - sz mod BSIZE) l)"

definition after_partial :: "nat \<Rightarrow> nat \<Rightarrow> bytes \<Rightarrow> append_c" where
  "after_partial m sz d = (let n = blocks_for sz; e = of_nat (if n = 0 then 0 else m) in
     \<lparr>apData = drop (room_left sz (length d)) d, apBlockDescIdx = 0, apCurrBlock = e, apCurrBlockCnt = of_nat n,
      apCurrEndBlock = e, apTotalBlocks = n\<rparr>)"

definition partial_state :: "nat \<Rightarrow> nat \<Rightarrow> bytes \<Rightarrow> DiskImage_c \<Rightarrow> DiskImage_c" where
  "partial_state m sz d s =
     (if sz mod BSIZE = 0 then s
      else upd_block (m - 1) (copy_bytes (sz mod BSIZE) (take (room_left sz (length d)) d)) s)"

lemma partial_state_props:
  assumes s: "fs_state D m k s" and t: "tail_file D m i sz s"
  shows "fs_state D m k (partial_state m sz d s)" "touches D {i} {m - blocks_for sz..} s (partial_state m sz d s)"
    "j < INodeCnt D 4 \<Longrightarrow> ino_get f (inode_ptr D j) (partial_state m sz d s) = ino_get f (inode_ptr D j) s"
    "take (sz + room_left sz (length d)) (data_bytes [m - blocks_for sz..<m] (partial_state m sz d s)) =
       take sz (data_bytes [m - blocks_for sz..<m] s) @ take (room_left sz (length d)) d"
proof -
  have tf: "blocks_for sz \<le> m" "SFSStart D 4 < m - blocks_for sz" using t by (simp_all add: tail_file_def Let_def)
  have last: "SFSStart D 4 < m - 1" "m - 1 \<in> {m - blocks_for sz..}" if "sz mod BSIZE \<noteq> 0"
    using tf last_block(1)[OF that] by auto
  show "fs_state D m k (partial_state m sz d s)"
    using s last by (simp add: partial_state_def fs_state_data)
  show "touches D {i} {m - blocks_for sz..} s (partial_state m sz d s)"
    using last by (auto simp: partial_state_def touches_refl intro: touches_data)
  show "ino_get f (inode_ptr D j) (partial_state m sz d s) = ino_get f (inode_ptr D j) s" if "j < INodeCnt D 4"
    using last fs_state_data(2)[OF s _ that] by (simp add: partial_state_def ino_get_iword)
  show "take (sz + room_left sz (length d)) (data_bytes [m - blocks_for sz..<m] (partial_state m sz d s)) =
       take sz (data_bytes [m - blocks_for sz..<m] s) @ take (room_left sz (length d)) d"
  proof (cases "sz mod BSIZE = 0")
    case False
    define e where "e = take (room_left sz (length d)) d"
    have "sz mod BSIZE < BSIZE" by (simp add: BSIZE_def cBlockSize_def)
    then have "sz mod BSIZE + length e \<le> BSIZE" "length e = room_left sz (length d)"
      using False by (auto simp: e_def room_left_def)
    then show ?thesis
      using partial_fill[OF False _ refl tf(1), of e s] False by (simp add: partial_state_def e_def)
  qed (simp add: partial_state_def room_left_def)
qed

lemma AppendToFile_start:
  assumes s: "fs_state D m k s" "i < k" and t: "tail_file D m i sz s"
  shows "AppendToFile i d s = bindE (AppendToFile_loop (inode_ptr D i) (after_partial m sz d)) (\<lambda>a s.
       (Inr (), ino_set cdi_size (inode_ptr D i) (of_nat (sz + length d))
                  (ino_set cdi_blocks (inode_ptr D i) (of_nat (apTotalBlocks a)) s))) (partial_state m sz d s)"
proof -
  define n where "n = blocks_for sz"
  define b where "b = (if n = 0 then 0 else m - n)"
  let ?p = "inode_ptr D i"
  have i: "i < INodeCnt D 4" using s(2) fs_state_sizes(4)[OF s(1)] by simp
  have m: "m < 2 ^ 32" "0 < m" using fs_state_sizes(1,3)[OF s(1)] by auto
  have tf: "n \<le> m" "ino_get (cdi_addr 0 nblks) ?p s = of_nat n" "ino_get (cdi_addr 0 blk) ?p s = of_nat b"
    "ino_get cdi_blocks ?p s = of_nat n" "ino_get cdi_size ?p s = of_nat sz" "ino_get cdi_mode ?p s AND IFMT = IFREG"
    using t by (auto simp: tail_file_def Let_def n_def b_def)
  have szn: "sz \<le> n * BSIZE" unfolding n_def by (rule blocks_for_bounds)
  then have "sz \<le> 2 ^ 32 * 4096" using tf(1) m by (simp add: BSIZE_def cBlockSize_def)
  then have sz: "unat (of_nat sz :: uint64) = sz" by (intro unat_of_nat_small) simp
  have n: "unat (of_nat n :: uint32) = n" "unat (of_nat n :: uint64) = n"
    using tf(1) m by (simp_all add: unat_of_nat_small)
  have ifreg: "IFREG \<noteq> IFDIR" by (simp add: IFREG_def IFDIR_def)
  note GI = GetINode_ptr[OF fs_state_layout[OF s(1)]]
  define a where "a = \<lparr>apData = d, apBlockDescIdx = 0, apCurrBlock = of_nat b, apCurrBlockCnt = of_nat n,
      apCurrEndBlock = of_nat b + of_nat n, apTotalBlocks = 0\<rparr>"
  have w: "AppendToFile_walk ?p sz a s = (Inr (sz, a), s)"
    using szn n by (subst AppendToFile_walk.simps) (simp add: a_def)
  define a0 where "a0 = a\<lparr>apCurrBlock := of_nat b + of_nat (sz div BSIZE), apTotalBlocks := n\<rparr>"
  have bn: "of_nat b + of_nat n = (of_nat (if n = 0 then 0 else m) :: uint32)"
    using tf(1) by (simp add: b_def)
  have P: "(if apCurrBlock a0 \<noteq> apCurrEndBlock a0 then fill_block (sz mod BSIZE) (a0, s) else (a0, s)) =
      (after_partial m sz d, partial_state m sz d s)"
  proof (cases "sz mod BSIZE = 0")
    case True
    then have "sz div BSIZE = n" by (simp add: n_def last_block(2))
    with True show ?thesis
      using bn by (simp add: a0_def a_def after_partial_def partial_state_def room_left_def n_def Let_def)
  next
    case False
    then have q: "n = Suc (sz div BSIZE)" by (simp add: n_def last_block(1))
    then have "b + sz div BSIZE = m - 1" using tf(1) by (auto simp: b_def)
    then have c: "of_nat b + of_nat (sz div BSIZE) = (of_nat (m - 1) :: uint32)" by (metis of_nat_add)
    have nz: "n \<noteq> 0" using q by simp
    have e: "apCurrBlock a0 = of_nat (m - 1)" "apCurrEndBlock a0 = of_nat m" "apData a0 = d"
      using c bn nz by (simp_all add: a0_def a_def)
    then have "apCurrBlock a0 \<noteq> apCurrEndBlock a0" using u32_next[OF m(2,1)] by simp
    moreover have "fill_block (sz mod BSIZE) (a0, s) = (after_partial m sz d, partial_state m sz d s)"
      using False u32_next[OF m(2,1)] nz bn
      by (simp add: fill_block_def e Let_def partial_state_def room_left_def after_partial_def n_def[symmetric])
        (simp add: a0_def a_def)
    ultimately show ?thesis by simp
  qed
  have tot: "apTotalBlocks (after_partial m sz d) = n" by (simp add: after_partial_def Let_def n_def)
  have blks: "unat (ino_get cdi_blocks ?p (partial_state m sz d s)) = n"
    using partial_state_props(3)[OF s(1) t i] tf(4) n(2) by simp
  have A0: "a\<lparr>apCurrBlock := apCurrBlock a + of_nat (sz div BSIZE), apTotalBlocks := apTotalBlocks a + unat (apCurrBlockCnt a)\<rparr> = a0"
    using n(1) by (simp add: a0_def a_def)
  have "AppendToFile i d s = bindE (AppendToFile_walk ?p sz a) (\<lambda>(BytesInFileLeft, a) s.
         (case (if apCurrBlock a + of_nat (BytesInFileLeft div BSIZE) \<noteq> apCurrEndBlock a
                then fill_block (BytesInFileLeft mod BSIZE) (a\<lparr>apCurrBlock := apCurrBlock a + of_nat (BytesInFileLeft div BSIZE),
                            apTotalBlocks := apTotalBlocks a + unat (apCurrBlockCnt a)\<rparr>, s)
                else (a\<lparr>apCurrBlock := apCurrBlock a + of_nat (BytesInFileLeft div BSIZE),
                            apTotalBlocks := apTotalBlocks a + unat (apCurrBlockCnt a)\<rparr>, s)) of (a, s) \<Rightarrow>
           if apData a \<noteq> [] \<and> unat (ino_get cdi_blocks ?p s) \<noteq> apTotalBlocks a then (Inl AssertError, s)
           else bindE (AppendToFile_loop ?p a) (\<lambda>a s. (Inr (), ino_set cdi_size ?p (of_nat (sz + length d))
                  (ino_set cdi_blocks ?p (of_nat (apTotalBlocks a)) s))) s)) s"
    unfolding AppendToFile_def GI Let_def tf(5,6) sz
    using ifreg by (simp add: tf(2,3) ucast_of_nat_32 a_def cong: if_cong)
  also have "\<dots> = (case (if apCurrBlock a0 \<noteq> apCurrEndBlock a0 then fill_block (sz mod BSIZE) (a0, s) else (a0, s)) of (a, s) \<Rightarrow>
           if apData a \<noteq> [] \<and> unat (ino_get cdi_blocks ?p s) \<noteq> apTotalBlocks a then (Inl AssertError, s)
           else bindE (AppendToFile_loop ?p a) (\<lambda>a s. (Inr (), ino_set cdi_size ?p (of_nat (sz + length d))
                  (ino_set cdi_blocks ?p (of_nat (apTotalBlocks a)) s))) s)"
    unfolding bindE_Inr[where m = "AppendToFile_walk ?p sz a" and s = s, OF w] prod.case A0[symmetric] by simp
  finally show ?thesis unfolding P prod.case by (simp add: blks tot)
qed

lemma tail_file_reads:
  assumes s: "fs_layout D s" and m: "m < 2 ^ 32" and t: "tail_file D m i sz s"
  shows "file_blocks i s = [m - blocks_for sz..<m]" "read_file i s = take sz (data_bytes [m - blocks_for sz..<m] s)"
proof -
  let ?p = "inode_ptr D i" and ?n = "blocks_for sz"
  note GI = GetINode_ptr[OF s]
  have n: "?n \<le> m" using t by (simp add: tail_file_def Let_def)
  have sz: "sz \<le> 2 ^ 32 * 4096"
    using blocks_for_bounds(1)[of sz] n m by (simp add: BSIZE_def cBlockSize_def)
  have "[0..<cdi_addr_size] = 0 # [1..<8]" by (simp add: cdi_addr_size_def upt_conv_Cons)
  moreover have "\<forall>e\<in>set [1..<8]. [unat (ino_get (cdi_addr e blk) ?p s)..<unat (ino_get (cdi_addr e blk) ?p s) +
      unat (ino_get (cdi_addr e nblks) ?p s)] = []"
    using t by (simp add: tail_file_def Let_def)
  then have "concat (List.map (\<lambda>e. [unat (ino_get (cdi_addr e blk) ?p s)..<unat (ino_get (cdi_addr e blk) ?p s) +
      unat (ino_get (cdi_addr e nblks) ?p s)]) [1..<8]) = []" by simp
  ultimately have "file_blocks i s = [unat (ino_get (cdi_addr 0 blk) ?p s)..<unat (ino_get (cdi_addr 0 blk) ?p s) +
      unat (ino_get (cdi_addr 0 nblks) ?p s)]"
    by (simp add: file_blocks_def GI Let_def)
  moreover have "unat (ino_get (cdi_addr 0 nblks) ?p s) = ?n"
    "unat (ino_get (cdi_addr 0 blk) ?p s) = (if ?n = 0 then 0 else m - ?n)"
    using t n m by (simp_all add: tail_file_def Let_def unat_of_nat_small del: of_nat_diff)
  ultimately show F: "file_blocks i s = [m - ?n..<m]" using n by simp
  have "unat (ino_get cdi_size ?p s) = sz"
    using t sz by (simp add: tail_file_def Let_def unat_of_nat_small)
  then show "read_file i s = take sz (data_bytes [m - ?n..<m] s)" by (simp add: read_file_def GI F)
qed

lemma tail_file_read:
  assumes s: "fs_state D M k s" "m \<le> M" and t: "tail_file D m i sz s"
  shows "file_blocks i s = [m - blocks_for sz..<m]" "read_file i s = take sz (data_bytes [m - blocks_for sz..<m] s)"
proof -
  have "m < 2 ^ 32" using fs_state_sizes(3)[OF s(1)] s(2) by simp
  then show "file_blocks i s = [m - blocks_for sz..<m]" "read_file i s = take sz (data_bytes [m - blocks_for sz..<m] s)"
    using tail_file_reads[OF fs_state_layout[OF s(1)] _ t] by simp_all
qed

lemma AppendToFile_tail:
  assumes s: "fs_state D m k s" "i < k" and t: "tail_file D m i sz s" and d: "length d < 2 ^ 43"
    and room: "m - blocks_for sz + blocks_for (sz + length d) \<le> map_cap D"
  defines "m' \<equiv> m - blocks_for sz + blocks_for (sz + length d)"
  obtains s' where "AppendToFile i d s = (Inr (), s')" "fs_state D m' k s'" "tail_file D m' i (sz + length d) s'"
    "read_file i s' = read_file i s @ d" "touches D {i} {m - blocks_for sz..} s s'"
proof -
  let ?p = "inode_ptr D i" and ?n = "blocks_for sz" and ?R = "room_left sz (length d)"
  let ?a = "after_partial m sz d" and ?s1 = "partial_state m sz d s"
  have i: "i < INodeCnt D 4" using s(2) fs_state_sizes(4)[OF s(1)] by simp
  note P = partial_state_props[OF s(1) t, where d = d]
  note g1 = P(3)[OF i]
  have tf: "?n \<le> m" "SFSStart D 4 < m - ?n" using t by (simp_all add: tail_file_def Let_def)
  have N: "blocks_for (sz + length d) = ?n + blocks_for (length d - ?R)"
  proof (cases "sz mod BSIZE = 0")
    case True
    then have "sz = ?n * BSIZE" using last_block(2)[OF True] by (metis add.right_neutral div_mult_mod_eq)
    then show ?thesis using True blocks_for_add[of ?n "length d"] by (simp add: room_left_def)
  next
    case False
    then show ?thesis by (intro blocks_after_partial(1)) (simp_all add: room_left_def)
  qed
  have full: "sz + ?R = ?n * BSIZE" if "?R < length d"
    using that blocks_after_partial(2)[of ?R sz "length d"] last_block(2)[of sz] by (auto simp: room_left_def)
  have a: "apBlockDescIdx ?a = 0" "length (apData ?a) = length d - ?R" "apData ?a = drop ?R d"
    "apCurrBlock ?a = of_nat (if ?n = 0 then 0 else m)" "apCurrEndBlock ?a = apCurrBlock ?a"
    "?n = 0 \<Longrightarrow> apCurrBlockCnt ?a = 0" "apTotalBlocks ?a = ?n"
    by (simp_all add: after_partial_def Let_def)
  have cap: "m + blocks_for (length (apData ?a)) \<le> map_cap D" using room N tf(1) a(2) by simp
  have "ino_get (cdi_addr 0 nblks) ?p ?s1 = of_nat ?n"
    "ino_get (cdi_addr 0 blk) ?p ?s1 = of_nat (if ?n = 0 then 0 else m - ?n)"
    using t by (auto simp: g1 tail_file_def Let_def)
  moreover have "length (apData ?a) < 2 ^ 43" using d a(2) by simp
  ultimately obtain a' s2 where r: "AppendToFile_loop ?p ?a ?s1 = (Inr a', s2)" and X: "extended D k i m ?n ?a ?s1 a' s2"
    using loop_aligned[OF P(1) s(2) tf(2,1) a(1) _ cap _ _ a(4,5,6)] by blast
  have tot: "apTotalBlocks a' = ?n + blocks_for (length d - ?R)"
    and s2: "fs_state D (m + blocks_for (length d - ?R)) k s2"
    and nb: "ino_get (cdi_addr 0 nblks) ?p s2 = of_nat (?n + blocks_for (length d - ?R))"
    and bl: "ino_get (cdi_addr 0 blk) ?p s2 = of_nat (if ?n + blocks_for (length d - ?R) = 0 then 0
        else m + blocks_for (length d - ?R) - (?n + blocks_for (length d - ?R)))"
    and g2: "\<And>f. inode_members f \<Longrightarrow> f \<noteq> cdi_addr 0 nblks \<Longrightarrow> f \<noteq> cdi_addr 0 blk \<Longrightarrow> ino_get f ?p s2 = ino_get f ?p ?s1"
    and T2: "touches D {i} {m..} ?s1 s2"
    and dat: "take (length d - ?R) (data_bytes [m..<m + blocks_for (length d - ?R)] s2) = drop ?R d"
    using X unfolding extended_def Let_def a(3) a(7) length_drop by (blast, blast, blast, blast, blast, blast, blast)
  have m': "m' = m + blocks_for (length d - ?R)" using N tf(1) by (simp add: m'_def)
  define s3 where "s3 = ino_set cdi_blocks ?p (of_nat (apTotalBlocks a')) s2"
  define s' where "s' = ino_set cdi_size ?p (of_nat (sz + length d)) s3"
  have mem: "inode_members cdi_blocks" "inode_members cdi_size" "inode_members (cdi_addr 0 blk)"
    "inode_members (cdi_addr 0 nblks)" "inode_members cdi_mode"
    by (simp_all add: inode_members_def)
  have fit: "tOfs (cdinode_at cdi_blocks) < 32" "tOfs (cdinode_at cdi_size) < 32" by simp_all
  have s3: "fs_state D m' k s3" "touches D {i} {} s2 s3"
    unfolding s3_def using s2 m' by (auto intro!: fs_state_ino_set[OF _ s(2)] touches_ino_set[OF i])
  have s': "fs_state D m' k s'" "touches D {i} {} s3 s'"
    unfolding s'_def by (auto intro!: fs_state_ino_set[OF s3(1) s(2)] touches_ino_set[OF i])
  have T: "touches D {i} {m..} ?s1 s'"
    using T2 s3(2) s'(2) by (meson touches_trans order_refl empty_subsetI)
  have N': "blocks_for (sz + length d) = ?n + blocks_for (length d - ?R)" by (rule N)
  have n52: "take_bit 52 (of_nat (apTotalBlocks a') :: uint64) = of_nat (apTotalBlocks a')"
  proof -
    have "apTotalBlocks a' < 2 ^ 52" using tot fs_state_sizes(3)[OF s'(1)] m' tf(1) by simp
    then show ?thesis
      by (intro word_unat_eq_iff[THEN iffD2]) (simp add: unsigned_take_bit_eq unat_of_nat_small take_bit_nat_eq_self)
  qed
  have TF: "tail_file D m' i (sz + length d) s'"
  proof -
    have "ino_get (cdi_addr e blk) ?p s' = 0 \<and> ino_get (cdi_addr e nblks) ?p s' = 0" if e: "0 < e" "e < 8" for e
    proof -
      have "inode_members (cdi_addr e blk)" "inode_members (cdi_addr e nblks)" using e(2) by (auto simp: inode_members_def)
      then show ?thesis
        using t e by (simp add: s'_def s3_def member_get_set mem g2 g1 tail_file_def Let_def)
    qed
    moreover have "ino_get (cdi_addr 0 nblks) ?p s' = of_nat (blocks_for (sz + length d))"
      "ino_get (cdi_addr 0 blk) ?p s' = of_nat (if blocks_for (sz + length d) = 0 then 0 else m' - blocks_for (sz + length d))"
      "ino_get cdi_size ?p s' = of_nat (sz + length d)" "ino_get cdi_blocks ?p s' = of_nat (blocks_for (sz + length d))"
      using nb bl n52 tot by (simp_all add: s'_def s3_def member_get_set mem N m')
    moreover have "ino_get cdi_mode ?p s' AND IFMT = IFREG"
      using t by (simp add: s'_def s3_def member_get_set mem g2 g1 tail_file_def Let_def)
    moreover have "blocks_for (sz + length d) \<le> m'" "SFSStart D 4 < m' - blocks_for (sz + length d)"
      using tf N m' by simp_all
    ultimately show ?thesis by (simp add: tail_file_def Let_def)
  qed
  show ?thesis
  proof
    show "AppendToFile i d s = (Inr (), s')"
      unfolding AppendToFile_start[OF s t] bindE_def r s'_def s3_def by simp
    show "fs_state D m' k s'" "tail_file D m' i (sz + length d) s'" by (fact s' TF)+
    show "touches D {i} {m - ?n..} s s'" using P(2) T by (rule touches_trans) auto
    have data_same: "data_bytes bs s' = data_bytes bs s2" if "set bs \<subseteq> {b. SFSStart D 4 < b}" for bs
      using that s3(2) s'(2) by (intro data_bytes_cong) (auto simp: touches_def)
    have old: "data_bytes [m - ?n..<m] s2 = data_bytes [m - ?n..<m] ?s1"
      using T2 tf by (intro data_bytes_cong) (auto simp: touches_def)
    have app: "[m - ?n..<m'] = [m - ?n..<m] @ [m..<m']"
      using tf(1) m' upt_add_eq_append[of "m - ?n" m "m' - m"] by simp
    have "read_file i s' = take (sz + length d) (data_bytes [m - ?n..<m] s2 @ data_bytes [m..<m'] s2)"
    proof -
      have "m' - blocks_for (sz + length d) = m - ?n" using N m' by simp
      moreover have "data_bytes [m - ?n..<m'] s' = data_bytes [m - ?n..<m'] s2"
        using tf(2) by (intro data_same) auto
      ultimately show ?thesis
        using tail_file_read(2)[OF s'(1) order_refl TF] by (simp only: app data_bytes_simps(3))
    qed
    also have "\<dots> = take sz (data_bytes [m - ?n..<m] s) @ d"
    proof (cases "?R < length d")
      case True
      have len: "length (data_bytes [m - ?n..<m] s2) = sz + ?R" using full[OF True] tf(1) by simp
      have "sz + length d = (sz + ?R) + (length d - ?R)" using True by simp
      then have "take (sz + length d) (data_bytes [m - ?n..<m] s2 @ data_bytes [m..<m'] s2) =
          take (sz + ?R) (data_bytes [m - ?n..<m] ?s1) @ drop ?R d"
        using take_beyond[OF len] dat len old by (simp only: m' take_all order_refl)
      then show ?thesis unfolding P(4) by simp
    next
      case False
      then have R: "?R = length d" by (simp add: room_left_def split: if_splits)
      have "sz + length d \<le> length (data_bytes [m - ?n..<m] s2)"
      proof -
        have "blocks_for (sz + length d) = ?n" using N R by (simp add: blocks_for_bounds(3))
        then show ?thesis using blocks_for_bounds(1)[of "sz + length d"] tf(1) by simp
      qed
      then have "take (sz + length d) (data_bytes [m - ?n..<m] s2 @ data_bytes [m..<m'] s2) =
          take (sz + length d) (data_bytes [m - ?n..<m] ?s1)" unfolding old[symmetric] by simp
      then show ?thesis using P(4)[unfolded R] by simp
    qed
    finally show "read_file i s' = read_file i s @ d" by (simp add: tail_file_read(2)[OF s(1) order_refl t])
  qed
qed

text \<open>A file is left alone by what touches neither its i-node nor its blocks.\<close>

lemma ino_get_touches:
  assumes "touches D I X s s'" "i \<notin> I" "i < INodeCnt D 4" "tOfs (cdinode_at f) < 32"
  shows "ino_get f (inode_ptr D i) s' = ino_get f (inode_ptr D i) s"
  using assms by (simp add: ino_get_iword touches_def)

lemma tail_file_touches:
  assumes "tail_file D m i sz s" "touches D I X s s'" "i \<notin> I" "i < INodeCnt D 4"
  shows "tail_file D m i sz s'"
proof -
  have "ino_get f (inode_ptr D i) s' = ino_get f (inode_ptr D i) s" if "inode_members f" for f
    using ino_get_touches[OF assms(2-4)] inode_members_fit[OF that] by simp
  moreover have "inode_members (cdi_addr e nblks)" "inode_members (cdi_addr e blk)" if "e < 8" for e
    using that by (auto simp: inode_members_def)
  moreover have "inode_members cdi_blocks" "inode_members cdi_size" "inode_members cdi_mode"
    by (simp_all add: inode_members_def)
  ultimately show ?thesis using assms(1) by (simp add: tail_file_def Let_def)
qed

lemma read_file_touches:
  assumes s: "fs_state D M k s" "fs_state D M' k' s'" "m \<le> M" "m \<le> M'" and t: "tail_file D m i sz s"
    and f: "touches D I X s s'" "i \<notin> I" "i < INodeCnt D 4" "X \<inter> {m - blocks_for sz..<m} = {}"
  shows "read_file i s' = read_file i s"
proof -
  have t': "tail_file D m i sz s'" by (rule tail_file_touches[OF t f(1-3)])
  have lo: "SFSStart D 4 < m - blocks_for sz" using t by (simp add: tail_file_def Let_def)
  have "mStorage s' b = mStorage s b" if "b \<in> {m - blocks_for sz..<m}" for b
  proof -
    have "b \<notin> X" "SFSStart D 4 < b" using that f(4) lo by auto
    with f(1) show ?thesis by (simp add: touches_def)
  qed
  then have "data_bytes [m - blocks_for sz..<m] s' = data_bytes [m - blocks_for sz..<m] s"
    by (intro data_bytes_cong) simp
  then show ?thesis
    by (simp add: tail_file_read(2)[OF s(1,3) t] tail_file_read(2)[OF s(2,4) t'])
qed

section \<open>Copying a file\<close>

lemma blocks_for_mono: "a \<le> b \<Longrightarrow> blocks_for a \<le> blocks_for b"
  by (simp add: blocks_for_def div_le_mono)

text \<open>The rest of a local file, from a position on, goes to the end of the file in the image.\<close>

lemma CopyFile_loop_copies:
  assumes "fs_state D m k s" "i < k" "tail_file D m i pos s" "read_file i s = take pos f"
    and "hs_reading p pos f (Strm, fs)" "pos \<le> length f"
    and "m - blocks_for pos + blocks_for (length f) \<le> map_cap D"
  shows "\<exists>s' m'. m' = m - blocks_for pos + blocks_for (length f) \<and> CopyFile_loop i fs Strm s = (Inr (), s') \<and>
     fs_state D m' k s' \<and> tail_file D m' i (length f) s' \<and> read_file i s' = f \<and>
     touches D {i} {m - blocks_for pos..} s s'"
  using assms
proof (induction "length f - pos" arbitrary: m s pos Strm rule: less_induct)
  case less
  define bs where "bs = file_read pos cCopyBuffer f"
  have st: "hs_good Strm" "hsPos Strm = pos" "hsMode Strm = OpenIn" "hsPath Strm = Some p" "fs p = Some f"
    using less.prems(5) by (auto simp: hs_reading_def)
  then have eof0: "\<not> hsEof Strm" "\<not> hsBad Strm" by (auto simp: hs_good_def)
  define Strm' where "Strm' = snd (hs_read cCopyBuffer (Strm, fs))"
  have r: "hs_read cCopyBuffer (Strm, fs) = (bs, Strm')"
    using st by (simp add: Strm'_def hs_read_def hs_file_def bs_def Let_def)
  have Strm': "Strm' = (if length bs < cCopyBuffer then Strm\<lparr>hsPos := pos + length bs, hsEof := True, hsFail := True\<rparr>
      else Strm\<lparr>hsPos := pos + length bs\<rparr>)"
    using st by (auto simp: Strm'_def hs_read_def hs_file_def bs_def Let_def)
  have len: "length bs = min cCopyBuffer (length f - pos)" by (simp add: bs_def)
  have "length bs \<le> 1024 * 1024" by (simp add: len cCopyBuffer_def)
  then have d: "length bs < 2 ^ 43" by simp
  have upto: "pos + length bs \<le> length f" using len less.prems(6) by simp
  have cap: "m - blocks_for pos + blocks_for (pos + length bs) \<le> map_cap D"
    using blocks_for_mono[OF upto] less.prems(7) by simp
  define m1 where "m1 = m - blocks_for pos + blocks_for (pos + length bs)"
  obtain s1 where a: "AppendToFile i bs s = (Inr (), s1)" and s1: "fs_state D m1 k s1"
    "tail_file D m1 i (pos + length bs) s1" "read_file i s1 = read_file i s @ bs"
    "touches D {i} {m - blocks_for pos..} s s1"
    using AppendToFile_tail[OF less.prems(1,2,3) d cap] unfolding m1_def by blast
  have "take pos f @ bs = take (pos + length bs) f"
    unfolding bs_def file_read_def by (simp add: take_add min_def)
  then have rd: "read_file i s1 = take (pos + length bs) f" using s1(3) less.prems(4) by simp
  have nb: "\<not> hsBad Strm'" using eof0 by (simp add: Strm')
  have L: "CopyFile_loop i fs Strm s = (if bs = [] \<and> \<not> hsEof Strm' then (Inl DoesNotReturn, s1) else CopyFile_loop i fs Strm' s1)"
    using eof0 nb a by (subst CopyFile_loop.simps) (simp add: r)
  show ?case
  proof (cases "length bs < cCopyBuffer")
    case True
    then have e: "pos + length bs = length f" "hsEof Strm'" using len upto Strm' by auto
    then have "CopyFile_loop i fs Strm s = (Inr (), s1)" using L by (simp add: CopyFile_loop.simps)
    then show ?thesis using s1 rd e(1) by (auto simp: m1_def)
  next
    case False
    then have f: "length bs = cCopyBuffer" "bs \<noteq> []" using len by (auto simp: cCopyBuffer_def)
    have "hs_reading p (pos + length bs) f (Strm', fs)"
      using False Strm' st by (simp add: hs_reading_def)
    moreover have base: "m1 - blocks_for (pos + length bs) = m - blocks_for pos" by (simp add: m1_def)
    moreover have "length f - (pos + length bs) < length f - pos"
      using f len upto by (auto simp: cCopyBuffer_def)
    ultimately obtain s' m' where "m' = m - blocks_for pos + blocks_for (length f)" "CopyFile_loop i fs Strm' s1 = (Inr (), s')"
      "fs_state D m' k s'" "tail_file D m' i (length f) s'" "read_file i s' = f"
      "touches D {i} {m - blocks_for pos..} s1 s'"
      using less.hyps[of "pos + length bs" m1 s1 Strm'] s1(1,2) less.prems(2,7) rd upto by auto
    then show ?thesis using L f(2) touches_trans[OF s1(4)] by auto
  qed
qed

end
