(* ===== verification/Mkfs_Dirs.thy ===== *)
theory Mkfs_Dirs
  imports Mkfs_Append
begin

text \<open>
  Directories. A reader walks the entries of the block of a directory from each to the next by
  its record length; the last entry owns the rest of the block. Appending shortens the last
  entry and puts the new one behind it.
\<close>

section \<open>Reading a directory\<close>

type_synonym dirent = "nat \<times> bytes"

function read_dir_words :: "memory \<Rightarrow> nat \<Rightarrow> dirent list" where
  "read_dir_words b loc =
     (if cBlockSize < loc + 3 then []
      else
        (let ino = unat (IntField_get (cdirect_at cd_ino) loc b);
             len = unat (IntField_get (cdirect_at cd_namelen) loc b);
             rec = unat (IntField_get (cdirect_at cd_reclen) loc b) div 8
         in if rec = 0 then []
            else (ino, List.map (\<lambda>x. b (8 * (loc + 3) + x)) [0..<len]) # read_dir_words b (loc + rec)))"
  by pat_completeness auto
termination by (relation "measure (\<lambda>(_, loc). cBlockSize - loc)") auto

declare read_dir_words.simps [simp del]

definition read_dir :: "nat \<Rightarrow> DiskImage_c \<Rightarrow> dirent list" where
  "read_dir i s = concat (List.map (\<lambda>b. read_dir_words (mStorage s b) 0) (file_blocks i s))"

section \<open>Entries in a block\<close>

definition entry_words :: "bytes \<Rightarrow> nat" where
  "entry_words n = 3 + (length n + 7) div 8"

definition entry_at :: "memory \<Rightarrow> nat \<Rightarrow> dirent \<Rightarrow> nat \<Rightarrow> bool" where
  "entry_at b loc e w \<longleftrightarrow>
     IntField_get (cdirect_at cd_ino) loc b = of_nat (fst e) \<and> fst e < 2 ^ 32 \<and>
     unat (IntField_get (cdirect_at cd_reclen) loc b) = 8 * w \<and>
     unat (IntField_get (cdirect_at cd_namelen) loc b) = length (snd e) \<and>
     (\<forall>x<length (snd e). b (8 * (loc + 3) + x) = snd e ! x)"

text \<open>The entries of a path from one word to another, each as short as its name permits.\<close>

primrec dir_path :: "memory \<Rightarrow> nat \<Rightarrow> dirent list \<Rightarrow> nat \<Rightarrow> bool" where
  "dir_path b loc [] fin \<longleftrightarrow> loc = fin"
| "dir_path b loc (e # es) fin \<longleftrightarrow> entry_at b loc e (entry_words (snd e)) \<and> dir_path b (loc + entry_words (snd e)) es fin"

lemma dir_path_append:
  "dir_path b loc (es @ fs) fin \<longleftrightarrow> (\<exists>mid. dir_path b loc es mid \<and> dir_path b mid fs fin)"
  by (induction es arbitrary: loc) auto

lemma dir_path_le: "dir_path b loc es fin \<Longrightarrow> loc \<le> fin"
  by (induction es arbitrary: loc) force+

definition dir_block :: "memory \<Rightarrow> dirent list \<Rightarrow> nat \<Rightarrow> bool" where
  "dir_block b es fin \<longleftrightarrow> (\<exists>front e loc. es = front @ [e] \<and> dir_path b 0 front loc \<and>
     entry_at b loc e (cBlockSize - loc) \<and> fin = loc + entry_words (snd e) \<and> fin \<le> cBlockSize)"

lemma entry_used: "entry_at b loc e w \<Longrightarrow> UsedLength loc b = 8 * entry_words (snd e)"
  by (simp add: UsedLength_def entry_at_def entry_words_def)

lemma entry_last: "entry_at b loc e w \<Longrightarrow> IsLast loc b \<longleftrightarrow> entry_words (snd e) < w"
  using entry_used[of b loc e w] by (simp add: IsLast_def entry_at_def)

lemma find_last:
  assumes "dir_path b loc front mid" "entry_at b mid e (cBlockSize - mid)" "mid + entry_words (snd e) < cBlockSize"
  shows "AppendToDir_find b loc = Inr (mid, mid + entry_words (snd e))"
  using assms
proof (induction front arbitrary: loc)
  case Nil
  then have "entry_words (snd e) < cBlockSize - mid" "loc = mid" by auto
  moreover have "3 \<le> entry_words (snd e)" by (simp add: entry_words_def)
  ultimately show ?case
    using Nil entry_used[OF Nil(2)] entry_last[OF Nil(2)] by (subst AppendToDir_find.simps) (simp add: Let_def)
next
  case (Cons f fs)
  then have f: "entry_at b loc f (entry_words (snd f))" and p: "dir_path b (loc + entry_words (snd f)) fs mid" by auto
  have "loc + entry_words (snd f) \<le> mid" using dir_path_le[OF p] .
  moreover have "3 \<le> entry_words (snd f)" by (simp add: entry_words_def)
  ultimately have "loc + 3 \<le> cBlockSize" "loc + entry_words (snd f) \<le> cBlockSize" using Cons.prems(3) by auto
  then show ?case
    using Cons.IH[OF p Cons.prems(2,3)] entry_used[OF f] entry_last[OF f]
    by (subst AppendToDir_find.simps) (simp add: Let_def)
qed

lemma read_entry:
  assumes "entry_at b loc e w" "0 < w" "loc + 3 \<le> cBlockSize"
  shows "read_dir_words b loc = e # read_dir_words b (loc + w)"
proof -
  have "unat (of_nat (fst e) :: uint64) = fst e" using assms(1) by (intro unat_of_nat_small) (simp add: entry_at_def)
  moreover have "List.map (\<lambda>x. b (8 * (loc + 3) + x)) [0..<length (snd e)] = snd e"
    using assms(1) by (intro nth_equalityI) (auto simp: entry_at_def)
  ultimately show ?thesis
    using assms by (subst read_dir_words.simps) (simp add: entry_at_def Let_def)
qed

lemma read_dir_block:
  assumes "dir_block b es fin" shows "read_dir_words b 0 = es"
proof -
  have "read_dir_words b loc = front @ [e]"
    if "dir_path b loc front mid" "entry_at b mid e (cBlockSize - mid)" "mid + entry_words (snd e) \<le> cBlockSize"
    for front e loc mid
    using that
  proof (induction front arbitrary: loc)
    case Nil
    have w: "3 \<le> entry_words (snd e)" by (simp add: entry_words_def)
    then have "read_dir_words b mid = e # read_dir_words b (mid + (cBlockSize - mid))"
      using Nil by (intro read_entry) auto
    moreover have "read_dir_words b cBlockSize = []" by (subst read_dir_words.simps) simp
    ultimately show ?case using Nil w by simp
  next
    case (Cons f fs)
    then have f: "entry_at b loc f (entry_words (snd f))" and p: "dir_path b (loc + entry_words (snd f)) fs mid" by auto
    have "3 \<le> entry_words (snd f)" "3 \<le> entry_words (snd e)" by (simp_all add: entry_words_def)
    moreover have "loc + entry_words (snd f) \<le> mid" using dir_path_le[OF p] .
    ultimately have "read_dir_words b loc = f # read_dir_words b (loc + entry_words (snd f))"
      using Cons.prems(3) by (intro read_entry[OF f]) auto
    then show ?case using Cons.IH[OF p Cons.prems(2,3)] by simp
  qed
  then show ?thesis using assms by (auto simp: dir_block_def)
qed

section \<open>Writing entries\<close>

lemma entry_at_frame:
  assumes "\<And>x. 8 * loc \<le> x \<Longrightarrow> x < 8 * (loc + entry_words (snd e)) \<Longrightarrow> b' x = b x"
  shows "entry_at b' loc e w \<longleftrightarrow> entry_at b loc e w"
proof -
  have w: "word_at (loc + v) b' = word_at (loc + v) b" if "v < 3" for v
    unfolding word_at_def using that by (intro load64_eqI assms) (auto simp: entry_words_def)
  have f: "IntField_get f loc b' = IntField_get f loc b" if "tOfs f < 3" for f
    using w[OF that] by (simp add: IntField_get_def)
  have "b' (8 * (loc + 3) + x) = b (8 * (loc + 3) + x)" if "x < length (snd e)" for x
    using that by (intro assms) (auto simp: entry_words_def)
  then show ?thesis by (simp add: entry_at_def f)
qed

lemma dir_path_frame:
  assumes "\<And>x. x < 8 * fin \<Longrightarrow> b' x = b x"
  shows "dir_path b' loc es fin \<longleftrightarrow> dir_path b loc es fin"
proof (induction es arbitrary: loc)
  case (Cons e es)
  show ?case
  proof (cases "dir_path b (loc + entry_words (snd e)) es fin")
    case True
    then have "loc + entry_words (snd e) \<le> fin" by (rule dir_path_le)
    then have "entry_at b' loc e w \<longleftrightarrow> entry_at b loc e w" for w by (intro entry_at_frame assms) simp
    then show ?thesis using Cons by simp
  qed (simp add: Cons)
qed simp

lemma IntField_set_outside:
  "x < 8 * (base + tOfs f) \<or> 8 * (base + tOfs f) + 8 \<le> x \<Longrightarrow> IntField_set f base v b x = b x"
  by (simp add: IntField_set_def put_word_def Let_def store64_outside)

lemma cdirect_gets [simp]:
  "IntField_get (bits_of_word 2 32 22) l (IntField_set (bits_of_word 2 32 22) l v b) = take_bit 22 v"
  "IntField_get (bits_of_word 2 54 10) l (IntField_set (bits_of_word 2 32 22) l v b) = IntField_get (bits_of_word 2 54 10) l b"
  "IntField_get (whole_word 0) l (IntField_set (bits_of_word 2 s n) l v b) = IntField_get (whole_word 0) l b"
  by (simp_all add: IntField_get_set IntField_get_set_other IntField_get_set_word fits_word_def apart_def)

lemma set_reclen:
  assumes "entry_at b loc e w" "w' \<le> cBlockSize"
  shows "entry_at (IntField_set (cdirect_at cd_reclen) loc (of_nat (8 * w')) b) loc e w'"
proof -
  have "unat (take_bit 22 (of_nat (8 * w') :: uint64)) = 8 * w'"
    using assms(2) by (simp add: unsigned_take_bit_eq unat_of_nat_small take_bit_nat_eq_self cBlockSize_def del: of_nat_mult)
  moreover have "IntField_set (bits_of_word 2 32 22) loc v b (8 * (loc + 3) + x) = b (8 * (loc + 3) + x)" for v x
    by (rule IntField_set_outside) simp
  ultimately show ?thesis using assms(1) by (simp add: entry_at_def del: of_nat_mult)
qed

text \<open>The buffer that \<open>DirEntry_s\<close> fills.\<close>

lemma DirEntry_size: "snd (DirEntry_s n ino) = 8 * entry_words n"
  by (simp add: DirEntry_s_def Let_def entry_words_def)

lemma DirEntry_fields:
  assumes "length n < 1024" "ino < 2 ^ 32"
  shows "entry_at (fst (DirEntry_s n ino)) 0 (ino, n) (entry_words n)" "UsedLength 0 (fst (DirEntry_s n ino)) = 8 * entry_words n"
proof -
  have copy: "IntField_get (bits_of_word 2 s k) 0 (copy_bytes 24 n b) = IntField_get (bits_of_word 2 s k) 0 b"
    "IntField_get (whole_word 0) 0 (copy_bytes 24 n b) = IntField_get (whole_word 0) 0 b" for s k b
    by (simp_all add: IntField_get_copy)
  have n10: "unat (take_bit 10 (of_nat (length n) :: uint64)) = length n"
    using assms(1) by (simp add: unsigned_take_bit_eq unat_of_nat_small take_bit_nat_eq_self)
  have "entry_words n \<le> 131" using assms(1) by (simp add: entry_words_def)
  then have r22: "unat (take_bit 22 (of_nat (8 * entry_words n) :: uint64)) = 8 * entry_words n"
    by (simp add: unsigned_take_bit_eq unat_of_nat_small take_bit_nat_eq_self del: of_nat_mult)
  define b where "b = IntField_set (bits_of_word 2 10 22) 0 (CalcHash n) (IntField_set (whole_word 0) 0 (of_nat ino) (\<lambda>_. 0))"
  have ino: "IntField_get (whole_word 0) 0 b = of_nat ino" by (simp add: b_def IntField_get_set fits_word_def)
  have st: "fst (DirEntry_s n ino) = copy_bytes 24 n (IntField_set (bits_of_word 2 54 10) 0 (of_nat (length n))
      (IntField_set (bits_of_word 2 32 22) 0 (of_nat (8 * entry_words n)) b))"
    by (simp add: DirEntry_s_def Let_def entry_words_def mult.commute add.commute b_def)
  have "copy_bytes 24 n m (24 + x) = n ! x" if "x < length n" for m x
    using that by (simp add: copy_bytes_def)
  then show "entry_at (fst (DirEntry_s n ino)) 0 (ino, n) (entry_words n)"
    using assms(2) n10 r22 ino unfolding st
    by (simp add: entry_at_def copy IntField_get_set IntField_get_set_other fits_word_def apart_def del: of_nat_mult)
  then show "UsedLength 0 (fst (DirEntry_s n ino)) = 8 * entry_words n" using entry_used by fastforce
qed

lemma copy_entry:
  assumes "entry_at e 0 x w" "entry_words (snd x) = k"
  shows "entry_at (copy_bytes (8 * loc) (List.map e [0..<8 * k]) b) loc x w"
proof -
  let ?b = "copy_bytes (8 * loc) (List.map e [0..<8 * k]) b"
  have c: "?b (8 * loc + y) = e y" if "y < 8 * k" for y using that by (simp add: copy_bytes_def)
  have k: "3 \<le> k" using assms(2) by (simp add: entry_words_def)
  have w: "word_at (loc + v) ?b = word_at v e" if "v < 3" for v
    unfolding word_at_def
  proof (rule load64_eqI)
    fix q :: nat
    assume "q < 8"
    then have "8 * v + q < 8 * k" using that k by simp
    from c[OF this] show "?b (8 * (loc + v) + q) = e (8 * v + q)" by (simp add: algebra_simps)
  qed
  have n: "?b (8 * (loc + 3) + y) = e (24 + y)" if "y < length (snd x)" for y
  proof -
    have "24 + y < 8 * k" using that assms(2) by (auto simp: entry_words_def)
    from c[OF this] show ?thesis by (simp add: algebra_simps)
  qed
  have f: "IntField_get f loc ?b = IntField_get f 0 e" if "tOfs f < 3" for f
    using w[OF that] by (simp add: IntField_get_def)
  show ?thesis using assms(1) n by (simp add: entry_at_def f)
qed

text \<open>A new entry at a word, which owns the rest of the block.\<close>

definition put_entry :: "bytes \<Rightarrow> nat \<Rightarrow> nat \<Rightarrow> memory \<Rightarrow> memory" where
  "put_entry n ino loc b = IntField_set (cdirect_at cd_reclen) loc (of_nat ((cBlockSize - loc) * 8))
     (copy_bytes (8 * loc) (List.map (fst (DirEntry_s n ino)) [0..<UsedLength 0 (fst (DirEntry_s n ino))]) b)"

lemma put_entry:
  assumes "length n < 1024" "ino < 2 ^ 32" "loc + entry_words n \<le> cBlockSize"
  shows "entry_at (put_entry n ino loc b) loc (ino, n) (cBlockSize - loc)"
    "x < 8 * loc \<Longrightarrow> put_entry n ino loc b x = b x"
    "AppendToDir_insert (DirEntry_s n ino) B loc s = (Inr (), upd_block B (put_entry n ino loc) s)"
proof -
  note f = DirEntry_fields[OF assms(1,2)]
  have "entry_at (copy_bytes (8 * loc) (List.map (fst (DirEntry_s n ino)) [0..<8 * entry_words n]) b) loc (ino, n) (entry_words n)"
    using f(1) by (rule copy_entry) simp
  from set_reclen[OF this, of "cBlockSize - loc"] show "entry_at (put_entry n ino loc b) loc (ino, n) (cBlockSize - loc)"
    by (simp add: put_entry_def f(2) mult.commute)
  show "put_entry n ino loc b x = b x" if "x < 8 * loc"
    using that by (simp add: put_entry_def IntField_set_outside copy_bytes_def)
  show "AppendToDir_insert (DirEntry_s n ino) B loc s = (Inr (), upd_block B (put_entry n ino loc) s)"
    using assms(3) by (simp add: AppendToDir_insert_def f(2) Let_def upd_block_def put_entry_def)
qed

lemma put_first_entry:
  assumes "length n < 1024" "ino < 2 ^ 32"
  shows "dir_block (put_entry n ino 0 b) [(ino, n)] (entry_words n)"
proof -
  have "entry_words n \<le> cBlockSize" using assms(1) by (simp add: entry_words_def cBlockSize_def)
  then show ?thesis using put_entry(1)[of n ino 0 b] assms by (simp add: dir_block_def)
qed

lemma append_entry:
  assumes b: "dir_block b es fin" and n: "length n < 1024" "ino < 2 ^ 32" "fin + entry_words n \<le> cBlockSize"
  obtains loc where "AppendToDir_find b 0 = Inr (loc, fin)"
    "dir_block (put_entry n ino fin (IntField_set (cdirect_at cd_reclen) loc (of_nat (UsedLength loc b)) b))
       (es @ [(ino, n)]) (fin + entry_words n)"
proof -
  obtain front e loc where es: "es = front @ [e]" and p: "dir_path b 0 front loc"
    and l: "entry_at b loc e (cBlockSize - loc)" and fin: "fin = loc + entry_words (snd e)"
    using b by (auto simp: dir_block_def)
  have "0 < entry_words n" by (simp add: entry_words_def)
  then have lt: "fin < cBlockSize" using n(3) by simp
  define b1 where "b1 = IntField_set (cdirect_at cd_reclen) loc (of_nat (UsedLength loc b)) b"
  define b' where "b' = put_entry n ino fin b1"
  have "entry_at b1 loc e (entry_words (snd e))"
    using set_reclen[OF l, of "entry_words (snd e)"] lt fin by (simp add: b1_def entry_used[OF l])
  then have l': "entry_at b' loc e (entry_words (snd e))"
    using entry_at_frame[of loc e b' b1] put_entry(2)[OF n, of _ b1] by (simp add: fin b'_def)
  have "b' x = b x" if "x < 8 * loc" for x
    using that put_entry(2)[OF n, of x b1] IntField_set_outside[of x loc "cdirect_at cd_reclen"]
    by (simp add: b'_def b1_def fin)
  then have "dir_path b' 0 front loc" using p dir_path_frame[of loc b' b] by blast
  with l' have "dir_path b' 0 es fin" by (auto simp: es dir_path_append fin)
  moreover have "entry_at b' fin (ino, n) (cBlockSize - fin)" unfolding b'_def by (rule put_entry(1)[OF n])
  ultimately have "dir_block b' (es @ [(ino, n)]) (fin + entry_words n)"
    unfolding dir_block_def using n(3) by force
  then show ?thesis
    using that find_last[OF p l] lt fin by (simp add: b'_def b1_def)
qed

section \<open>Directories\<close>

text \<open>A directory of one block whose entries take \<open>fin\<close> words.\<close>

definition dir_inode :: "nat \<Rightarrow> nat \<Rightarrow> nat \<Rightarrow> dirent list \<Rightarrow> nat \<Rightarrow> DiskImage_c \<Rightarrow> bool" where
  "dir_inode D i bno es fin s \<longleftrightarrow> (let p = inode_ptr D i in
     SFSStart D 4 < bno \<and> bno < 2 ^ 32 \<and> ino_get cdi_mode p s AND IFMT = IFDIR \<and>
     ino_get (cdi_addr 0 blk) p s = of_nat bno \<and> ino_get (cdi_addr 0 nblks) p s = 1 \<and>
     (\<forall>e. 0 < e \<and> e < 8 \<longrightarrow> ino_get (cdi_addr e blk) p s = 0 \<and> ino_get (cdi_addr e nblks) p s = 0) \<and>
     ino_get cdi_size p s = of_nat BSIZE \<and> dir_block (mStorage s bno) es fin)"

lemma read_dir_inode:
  assumes s: "fs_layout D s" and d: "dir_inode D i bno es fin s"
  shows "read_dir i s = es"
proof -
  let ?p = "inode_ptr D i"
  have "[0..<cdi_addr_size] = 0 # [1..<8]" by (simp add: cdi_addr_size_def upt_conv_Cons)
  moreover have "\<forall>e\<in>set [1..<8]. [unat (ino_get (cdi_addr e blk) ?p s)..<unat (ino_get (cdi_addr e blk) ?p s) +
      unat (ino_get (cdi_addr e nblks) ?p s)] = []"
    using d by (simp add: dir_inode_def Let_def)
  then have "concat (List.map (\<lambda>e. [unat (ino_get (cdi_addr e blk) ?p s)..<unat (ino_get (cdi_addr e blk) ?p s) +
      unat (ino_get (cdi_addr e nblks) ?p s)]) [1..<8]) = []" by simp
  moreover have "unat (ino_get (cdi_addr 0 blk) ?p s) = bno" "unat (ino_get (cdi_addr 0 nblks) ?p s) = 1"
    using d by (simp_all add: dir_inode_def Let_def unat_of_nat_small)
  ultimately have "file_blocks i s = [bno]"
    by (simp add: file_blocks_def GetINode_ptr[OF s] Let_def)
  then show ?thesis
    using d read_dir_block by (auto simp: read_dir_def dir_inode_def Let_def)
qed

lemma dir_inode_touches:
  assumes "dir_inode D i bno es fin s" "touches D I X s s'" "i \<notin> I" "i < INodeCnt D 4" "bno \<notin> X"
  shows "dir_inode D i bno es fin s'"
proof -
  have "ino_get f (inode_ptr D i) s' = ino_get f (inode_ptr D i) s" if "inode_members f" for f
    using ino_get_touches[OF assms(2-4)] inode_members_fit[OF that] by simp
  moreover have "inode_members (cdi_addr e nblks)" "inode_members (cdi_addr e blk)" if "e < 8" for e
    using that by (auto simp: inode_members_def)
  moreover have "inode_members cdi_size" "inode_members cdi_mode" by (simp_all add: inode_members_def)
  moreover have "mStorage s' bno = mStorage s bno"
    using assms by (simp add: touches_def dir_inode_def Let_def)
  ultimately show ?thesis using assms(1) by (simp add: dir_inode_def Let_def)
qed

text \<open>Appending to a directory that has its block.\<close>

lemma AppendToDir_next:
  assumes s: "fs_state D m k s" "i < k" and d: "dir_inode D i bno es fin s"
    and n: "length n < 1024" "ino < 2 ^ 32" "fin + entry_words n \<le> cBlockSize"
  obtains s' where "AppendToDir i (DirEntry_s n ino) s = (Inr (), s')" "fs_state D m k s'"
    "dir_inode D i bno (es @ [(ino, n)]) (fin + entry_words n) s'" "touches D {i} {bno} s s'"
    "\<And>f. ino_get f (inode_ptr D i) s' = ino_get f (inode_ptr D i) s"
proof -
  let ?p = "inode_ptr D i"
  have i: "i < INodeCnt D 4" using s(2) fs_state_sizes(4)[OF s(1)] by simp
  have dd: "SFSStart D 4 < bno" "dir_block (mStorage s bno) es fin" using d by (simp_all add: dir_inode_def Let_def)
  from append_entry[OF dd(2) n] obtain loc where f: "AppendToDir_find (mStorage s bno) 0 = Inr (loc, fin)"
    and b: "dir_block (put_entry n ino fin (IntField_set (cdirect_at cd_reclen) loc (of_nat (UsedLength loc (mStorage s bno)))
      (mStorage s bno))) (es @ [(ino, n)]) (fin + entry_words n)" .
  define s1 where "s1 = upd_block bno (\<lambda>b. IntField_set (cdirect_at cd_reclen) loc (of_nat (UsedLength loc b)) b) s"
  define s' where "s' = upd_block bno (put_entry n ino fin) s1"
  have s1: "fs_state D m k s1" unfolding s1_def by (rule fs_state_data(1)[OF s(1) dd(1)])
  have g: "ino_get f ?p s' = ino_get f ?p s" for f
    unfolding s'_def s1_def ino_get_iword
    using fs_state_data(2)[OF s1 dd(1) i] fs_state_data(2)[OF s(1) dd(1) i] by (simp add: s1_def)
  show ?thesis
  proof
    have "unat (ino_get (cdi_addr 0 blk) ?p s) = bno" "unat (ino_get cdi_size ?p s) = BSIZE"
      using d by (simp_all add: dir_inode_def Let_def unat_of_nat_small BSIZE_def cBlockSize_def)
    then show "AppendToDir i (DirEntry_s n ino) s = (Inr (), s')"
      using d f put_entry(3)[OF n]
      by (simp add: AppendToDir_def GetINode_ptr[OF fs_state_layout[OF s(1)]] dir_inode_def Let_def s'_def s1_def)
    show "fs_state D m k s'" unfolding s'_def by (rule fs_state_data(1)[OF s1 dd(1)])
    show "dir_inode D i bno (es @ [(ino, n)]) (fin + entry_words n) s'"
      using d b by (simp add: dir_inode_def Let_def g) (simp add: s'_def s1_def)
    have "touches D {i} {bno} s s1" "touches D {i} {bno} s1 s'"
      unfolding s1_def s'_def by (auto intro: touches_data[OF dd(1)])
    then show "touches D {i} {bno} s s'" by (rule touches_trans) simp_all
    show "ino_get f ?p s' = ino_get f ?p s" for f by (rule g)
  qed
qed

end
