(* ===== verification/Mkfs_Make.thy ===== *)
theory Mkfs_Make
  imports Mkfs_Dirs
begin

text \<open>
  Making directories and files: each operation takes the next i-node and block, extends the
  directory by one entry, and leaves every other i-node and block alone.
\<close>

section \<open>New i-nodes\<close>

lemma member_of_0 [simp]: "member_of f 0 = 0"
proof -
  have "SwapBytes64 0 = 0" by (simp add: SwapBytes64_def byte_of_def)
  then show ?thesis by (simp add: member_of_def GetBits_def Let_def)
qed

lemma fresh_inode:
  assumes "fs_state D m k s" "k \<le> i" "i < INodeCnt D 4" "tOfs (cdinode_at f) < 32"
  shows "ino_get f (inode_ptr D i) s = 0"
  using assms by (simp add: ino_get_iword fs_state_def)

lemma nindir_apart: "inode_members f \<Longrightarrow> ino_get f p (ino_set cdi_nindir p v s) = ino_get f p s"
  by (rule ino_get_set_other) (auto simp: inode_members_def fits_word_def apart_def SFSLK_SZ_def)

definition blank_inode :: "nat \<Rightarrow> nat \<Rightarrow> uint64 \<Rightarrow> DiskImage_c \<Rightarrow> bool" where
  "blank_inode D i mode s \<longleftrightarrow> (let p = inode_ptr D i in
     ino_get cdi_mode p s = mode \<and> ino_get cdi_size p s = 0 \<and> ino_get cdi_blocks p s = 0 \<and>
     (\<forall>e<8. ino_get (cdi_addr e blk) p s = 0 \<and> ino_get (cdi_addr e nblks) p s = 0))"

lemma init_INode_blank:
  assumes s: "fs_state D m k s" "i < k" and z: "\<And>f. inode_members f \<Longrightarrow> ino_get f (inode_ptr D i) s = 0"
    and mode: "take_bit 24 mode = mode" and b: "blocks = None \<or> blocks = Some 0"
    and s'_def: "s' = init_INode (inode_ptr D i) mode nlink uid gid blocks s"
  shows "fs_state D m k s'" "touches D {i} {} s s'" "blank_inode D i mode s'"
proof -
  let ?p = "inode_ptr D i"
  have i: "i < INodeCnt D 4" using s(2) fs_state_sizes(4)[OF s(1)] by simp
  define t where "t = ino_set cdi_size ?p 0 (ino_set cdi_gid ?p (ucast gid) (ino_set cdi_uid ?p (ucast uid)
      (ino_set cdi_nlink ?p nlink (ino_set cdi_mode ?p mode s))))"
  define u where "u = (case blocks of None \<Rightarrow> t | Some n \<Rightarrow> ino_set cdi_blocks ?p n t)"
  have s': "s' = ino_set cdi_alloc ?p C1_EXTENT (ino_set cdi_nindir ?p 0 u)"
    by (simp add: s'_def init_INode_def Let_def t_def u_def split: option.splits)
  have mem: "inode_members cdi_mode" "inode_members cdi_nlink" "inode_members cdi_uid" "inode_members cdi_gid"
    "inode_members cdi_size" "inode_members cdi_blocks" "inode_members cdi_alloc"
    by (simp_all add: inode_members_def)
  have set1: "fs_state D m k (ino_set f ?p v x)" "touches D {i} {} s (ino_set f ?p v x)"
    if "fs_state D m k x" "touches D {i} {} s x" "tOfs (cdinode_at f) < 32" for f v x
  proof -
    show "fs_state D m k (ino_set f ?p v x)" by (rule fs_state_ino_set[OF that(1) s(2) that(3)])
    show "touches D {i} {} s (ino_set f ?p v x)"
      using touches_trans[OF that(2) touches_ino_set[OF i that(3)]] by simp
  qed
  have t: "fs_state D m k t" "touches D {i} {} s t"
    unfolding t_def by (intro set1 s(1) touches_refl; simp)+
  have u: "fs_state D m k u" "touches D {i} {} s u"
    using b t set1[OF t, of cdi_blocks] by (auto simp: u_def)
  have n: "fs_state D m k (ino_set cdi_nindir ?p 0 u)" "touches D {i} {} s (ino_set cdi_nindir ?p 0 u)"
    using set1[OF u, of cdi_nindir 0] by (simp_all add: SFSLK_SZ_def)
  show "fs_state D m k s'" "touches D {i} {} s s'" unfolding s' using set1[OF n, of cdi_alloc] by simp_all
  have t_get: "ino_get f ?p t = (if f = cdi_mode then mode else 0)"
    if "inode_members f" "f \<noteq> cdi_nlink" "f \<noteq> cdi_uid" "f \<noteq> cdi_gid" for f
    using that mode by (simp add: t_def member_get_set mem z)
  have u_get: "ino_get f ?p u = (if f = cdi_mode then mode else 0)"
    if "inode_members f" "f \<noteq> cdi_nlink" "f \<noteq> cdi_uid" "f \<noteq> cdi_gid" for f
    using b that t_get[OF that] by (auto simp: u_def member_get_set mem)
  have get: "ino_get f ?p s' = (if f = cdi_mode then mode else 0)"
    if "inode_members f" "f \<noteq> cdi_nlink" "f \<noteq> cdi_uid" "f \<noteq> cdi_gid" "f \<noteq> cdi_alloc" for f
    using that u_get[OF that(1-4)] by (simp add: s' member_get_set mem nindir_apart)
  have "inode_members (cdi_addr e nblks)" "inode_members (cdi_addr e blk)" if "e < 8" for e
    using that by (auto simp: inode_members_def)
  then show "blank_inode D i mode s'" by (simp add: blank_inode_def get mem)
qed

text \<open>The first entry of a new directory, which gets block \<open>m\<close>.\<close>

lemma AppendToDir_first:
  assumes s: "fs_state D m k s" "i < k" "m < map_cap D" and d: "blank_inode D i mode s" "mode AND IFMT = IFDIR"
    and n: "length n < 1024" "ino < 2 ^ 32"
  obtains s' where "AppendToDir i (DirEntry_s n ino) s = (Inr (), s')" "fs_state D (Suc m) k s'"
    "dir_inode D i m [(ino, n)] (entry_words n) s'" "touches D {i} {m} s s'"
proof -
  let ?p = "inode_ptr D i"
  have i: "i < INodeCnt D 4" using s(2) fs_state_sizes(4)[OF s(1)] by simp
  have m: "SFSStart D 4 < m" "m < 2 ^ 32" using fs_state_sizes(1,3)[OF s(1)] by auto
  have d0: "ino_get cdi_mode ?p s = mode" "ino_get cdi_size ?p s = 0"
    "\<And>e. e < 8 \<Longrightarrow> ino_get (cdi_addr e blk) ?p s = 0 \<and> ino_get (cdi_addr e nblks) ?p s = 0"
    using d(1) by (simp_all add: blank_inode_def Let_def)
  from GetFreeBlock_state[OF s(1,3)] obtain s1 where g: "GetFreeBlock s = (Inr m, s1)" "fs_state D (Suc m) k s1"
    and b1: "\<And>b. SFSStart D 4 < b \<Longrightarrow> mStorage s1 b = mStorage s b"
    and i1: "\<And>j w. j < INodeCnt D 4 \<Longrightarrow> iword D j w s1 = iword D j w s" by blast
  have mem: "inode_members (cdi_addr 0 nblks)" "inode_members (cdi_addr 0 blk)" "inode_members cdi_size"
    "inode_members cdi_blocks" "inode_members cdi_mode" by (simp_all add: inode_members_def)
  have mem': "inode_members (cdi_addr e nblks)" "inode_members (cdi_addr e blk)" if "e < 8" for e
    using that by (auto simp: inode_members_def)
  have get1: "ino_get f ?p s1 = ino_get f ?p s" for f by (simp add: ino_get_iword i1[OF i])
  have T1: "touches D {i} {m} s s1" using b1 i1 by (simp add: touches_def)
  have set1: "fs_state D (Suc m) k (ino_set f ?p v x)" "touches D {i} {m} s (ino_set f ?p v x)"
    if "fs_state D (Suc m) k x" "touches D {i} {m} s x" "inode_members f" for f v x
  proof -
    have f: "tOfs (cdinode_at f) < 32" using inode_members_fit[OF that(3)] by simp
    show "fs_state D (Suc m) k (ino_set f ?p v x)" by (rule fs_state_ino_set[OF that(1) s(2) f])
    show "touches D {i} {m} s (ino_set f ?p v x)"
      by (rule touches_trans[OF that(2) touches_ino_set[OF i f, of "{m}"]]) simp_all
  qed
  define s2 where "s2 = ino_set (cdi_addr 0 blk) ?p (of_nat m) s1"
  define s3 where "s3 = ino_set (cdi_addr 0 nblks) ?p 1 s2"
  define s4 where "s4 = ino_set cdi_size ?p (of_nat BSIZE) s3"
  define s5 where "s5 = ino_set cdi_blocks ?p 1 s4"
  define s' where "s' = upd_block m (put_entry n ino 0) s5"
  have one: "take_bit 32 (1 :: uint64) = 1" using take_32_of_nat[of 1] by simp
  have n3: "ino_get (cdi_addr 0 nblks) ?p s3 = 1" by (simp add: s3_def member_get_set mem one)
  have n4: "ino_get (cdi_addr 0 nblks) ?p s4 = 1" by (simp add: s4_def member_get_set mem n3)
  note st2 = set1[OF g(2) T1 mem(2), of "of_nat m", folded s2_def]
  note st3 = set1[OF st2 mem(1), of 1, folded s3_def]
  note st4 = set1[OF st3 mem(3), of "of_nat BSIZE", folded s4_def]
  note st5 = set1[OF st4 mem(4), of 1, folded s5_def]
  have g5: "ino_get f ?p s' = ino_get f ?p s5" for f
    unfolding s'_def ino_get_iword fs_state_data(2)[OF st5(1) m(1) i] ..
  have um: "unat (of_nat m :: uint32) = m" using m(2) by (simp add: unat_of_nat_small)
  have "entry_words n \<le> cBlockSize" using n(1) by (simp add: entry_words_def cBlockSize_def)
  then have ins: "AppendToDir_insert (DirEntry_s n ino) m 0 s5 = (Inr (), s')"
    unfolding s'_def using n by (intro put_entry(3)) simp_all
  show ?thesis
  proof
    show "AppendToDir i (DirEntry_s n ino) s = (Inr (), s')"
      using d0(1,2) d0(3)[of 0] d(2) ins n3 n4
      by (simp add: AppendToDir_def GetINode_ptr[OF fs_state_layout[OF s(1)]] Let_def bindE_def g(1) um ucast_u32[OF m(2)]
          s2_def[symmetric] s3_def[symmetric] s4_def[symmetric] s5_def[symmetric])
    show "fs_state D (Suc m) k s'" unfolding s'_def by (rule fs_state_data(1)[OF st5(1) m(1)])
    have "ino_get (cdi_addr 0 blk) ?p s5 = of_nat m" "ino_get (cdi_addr 0 nblks) ?p s5 = 1"
      "ino_get cdi_size ?p s5 = of_nat BSIZE" "ino_get cdi_mode ?p s5 = mode"
      using take_32_of_nat[OF m(2)] one by (simp_all add: s5_def s4_def s3_def s2_def member_get_set mem get1 d0(1))
    moreover have "ino_get (cdi_addr e blk) ?p s5 = 0 \<and> ino_get (cdi_addr e nblks) ?p s5 = 0" if "0 < e" "e < 8" for e
      using d0(3)[OF that(2)] mem'[OF that(2)] that by (simp add: s5_def s4_def s3_def s2_def member_get_set mem get1)
    ultimately show "dir_inode D i m [(ino, n)] (entry_words n) s'"
      using m d(2) put_first_entry[OF n] by (simp add: dir_inode_def Let_def g5) (simp add: s'_def)
    have "touches D {i} {m} s5 s'" unfolding s'_def by (rule touches_data[OF m(1)]) simp
    from touches_trans[OF st5(2) this] show "touches D {i} {m} s s'" by simp
  qed
qed

section \<open>Files\<close>

lemma mode_bits:
  "IFDIR OR ucast RT_MODE = (0x41ed :: uint64)" "IFREG OR ucast RT_MODE = (0x81ed :: uint64)"
  "(0x41ed :: uint64) AND IFMT = IFDIR" "(0x81ed :: uint64) AND IFMT = IFREG"
  by (simp_all add: IFDIR_def IFREG_def RT_MODE_def IFMT_def)

lemma inode_number: "k < INodeCnt D 4 \<Longrightarrow> fs_state D m k s \<Longrightarrow> unat (of_nat k :: uint32) = k \<and> k < 2 ^ 32"
  using fs_state_sizes(5)[of D m k s] by (simp add: unat_of_nat_small)

lemma blank_is_empty_file:
  assumes s: "fs_state D m k s" and b: "blank_inode D i mode s" "mode AND IFMT = IFREG"
  shows "tail_file D m i 0 s" "read_file i s = []"
proof -
  have "blocks_for 0 = 0" by (simp add: blocks_for_bounds(3))
  then show t: "tail_file D m i 0 s"
    using b fs_state_sizes(1)[OF s] by (auto simp: tail_file_def blank_inode_def Let_def)
  show "read_file i s = []" using tail_file_read(2)[OF s order_refl t] by simp
qed

lemma MkFile_entry:
  assumes s: "fs_state D m k s" "k < INodeCnt D 4" and p: "par < k" "0 < par" "dir_inode D par bno es fin s"
    and n: "length n < 1024" "fin + entry_words n \<le> cBlockSize"
  obtains s' where "MkFile (of_nat par) n RT_UID RT_GID RT_MODE s = (Inr (of_nat k), s')" "fs_state D m (Suc k) s'"
    "dir_inode D par bno (es @ [(k, n)]) (fin + entry_words n) s'" "tail_file D m k 0 s'" "read_file k s' = []"
    "touches D {par, k} {bno} s s'"
proof -
  have k: "unat (of_nat k :: uint32) = k" "k < 2 ^ 32" using inode_number[OF s(2,1)] by auto
  have par: "unat (of_nat par :: uint32) = par" "(of_nat par :: uint32) \<noteq> 0" "par < INodeCnt D 4"
  proof -
    show u: "unat (of_nat par :: uint32) = par" using p(1) k(2) by (simp add: unat_of_nat_small)
    then show "(of_nat par :: uint32) \<noteq> 0" using p(2) by auto
    show "par < INodeCnt D 4" using p(1) s(2) by simp
  qed
  obtain s1 where "AllocateINodeIdx k s = (Inr (), s1)"
    and g: "GetFreeINodeIdx s = (Inr (of_nat k), s1)" "fs_state D m (Suc k) s1"
    and T0: "touches D {} {} s s1" by (rule AllocateINodeIdx_state[OF s])
  have T1: "touches D {par, k} {bno} s s1" by (rule touches_mono[OF T0]) simp_all
  have z: "ino_get f (inode_ptr D k) s1 = 0" if "inode_members f" for f
    using fresh_inode[OF s(1) order_refl s(2)] inode_members_fit[OF that] ino_get_touches[OF T0 _ s(2)] by simp
  define s2 where "s2 = init_INode (inode_ptr D k) (IFREG OR ucast RT_MODE) 1 RT_UID RT_GID None s1"
  have "take_bit 24 (IFREG OR ucast RT_MODE :: uint64) = IFREG OR ucast RT_MODE" by (simp add: mode_bits)
  from init_INode_blank[OF g(2) lessI z this disjI1[OF refl] s2_def]
  have s2: "fs_state D m (Suc k) s2" "touches D {k} {} s1 s2" "blank_inode D k 0x81ed s2" by (simp_all add: mode_bits)
  have "dir_inode D par bno es fin s1"
    using par(3) by (intro dir_inode_touches[OF p(3) T0]) simp_all
  then have "dir_inode D par bno es fin s2"
    using p(1) par(3) by (intro dir_inode_touches[OF _ s2(2)]) auto
  from AppendToDir_next[OF s2(1) less_SucI[OF p(1)] this n(1) k(2) n(2)] obtain s'
    where a: "AppendToDir par (DirEntry_s n k) s2 = (Inr (), s')" and s': "fs_state D m (Suc k) s'"
      "dir_inode D par bno (es @ [(k, n)]) (fin + entry_words n) s'" "touches D {par} {bno} s2 s'" by blast
  have bl: "blank_inode D k 0x81ed s'"
  proof -
    have "ino_get f (inode_ptr D k) s' = ino_get f (inode_ptr D k) s2" if "inode_members f" for f
      using ino_get_touches[OF s'(3)] p(1) s(2) inode_members_fit[OF that] by simp
    moreover have "inode_members (cdi_addr e nblks)" "inode_members (cdi_addr e blk)" if "e < 8" for e
      using that by (auto simp: inode_members_def)
    ultimately show ?thesis using s2(3) by (simp add: blank_inode_def Let_def inode_members_def)
  qed
  show ?thesis
  proof
    show "MkFile (of_nat par) n RT_UID RT_GID RT_MODE s = (Inr (of_nat k), s')"
      using g(1) a par(1,2) k(1) GetINode_ptr[OF fs_state_layout[OF g(2)], of k]
      by (simp add: MkFile_def bindE_def returnE_def s2_def)
    show "fs_state D m (Suc k) s'" "dir_inode D par bno (es @ [(k, n)]) (fin + entry_words n) s'" by (rule s'(1,2))+
    show "tail_file D m k 0 s'" "read_file k s' = []"
      using blank_is_empty_file[OF s'(1) bl] by (simp_all add: mode_bits)
    have "touches D {par, k} {bno} s1 s2" "touches D {par, k} {bno} s2 s'"
      using touches_mono[OF s2(2)] touches_mono[OF s'(3)] by auto
    then show "touches D {par, k} {bno} s s'" using T1 by (meson touches_trans order_refl)
  qed
qed

lemma CopyFile_entry:
  assumes s: "fs_state D m k s" "k < INodeCnt D 4" and p: "par < k" "0 < par" "dir_inode D par bno es fin s" "bno < m"
    and n: "length n < 1024" "fin + entry_words n \<le> cBlockSize"
    and f: "fs path = Some f" "m + blocks_for (length f) \<le> map_cap D"
  defines "m' \<equiv> m + blocks_for (length f)"
  obtains s' where "CopyFile fs (of_nat par) n path s = (Inr (), s')" "fs_state D m' (Suc k) s'"
    "dir_inode D par bno (es @ [(k, n)]) (fin + entry_words n) s'" "tail_file D m' k (length f) s'" "read_file k s' = f"
    "touches D {par, k} (insert bno {m..}) s s'"
proof -
  have k: "unat (of_nat k :: uint32) = k" using inode_number[OF s(2,1)] by auto
  obtain s1 where a: "MkFile (of_nat par) n RT_UID RT_GID RT_MODE s = (Inr (of_nat k), s1)" and s1: "fs_state D m (Suc k) s1"
    "dir_inode D par bno (es @ [(k, n)]) (fin + entry_words n) s1" "tail_file D m k 0 s1" "read_file k s1 = []"
    "touches D {par, k} {bno} s s1" by (rule MkFile_entry[OF s p(1-3) n])
  define Strm where "Strm = fst (hs_open OpenIn path (closed_stream, fs))"
  have "hsPath closed_stream = None" by (simp add: closed_stream_def)
  from hs_open_in[of closed_stream fs path f, OF this f(1)]
  have r: "hs_reading path 0 f (Strm, fs)"
    by (simp add: Strm_def hs_open_def f(1) closed_stream_def)
  then have good: "hs_good Strm" by (simp add: hs_reading_def)
  have z: "blocks_for 0 = 0" by (simp add: blocks_for_bounds(3))
  obtain s' where c: "CopyFile_loop k fs Strm s1 = (Inr (), s')" "fs_state D m' (Suc k) s'"
    "tail_file D m' k (length f) s'" "read_file k s' = f" "touches D {k} {m..} s1 s'"
    using CopyFile_loop_copies[OF s1(1) lessI s1(3) _ r _ ] s1(4) f(2) by (auto simp: z m'_def)
  show ?thesis
  proof
    show "CopyFile fs (of_nat par) n path s = (Inr (), s')"
      using good a c(1) k by (simp add: CopyFile_def Strm_def[symmetric] Let_def bindE_def)
    show "fs_state D m' (Suc k) s'" "tail_file D m' k (length f) s'" "read_file k s' = f" by (rule c)+
    show "dir_inode D par bno (es @ [(k, n)]) (fin + entry_words n) s'"
      using p(1,4) s(2) by (intro dir_inode_touches[OF s1(2) c(5)]) auto
    show "touches D {par, k} (insert bno {m..}) s s'"
      by (rule touches_trans[OF s1(5) touches_mono[OF c(5), of "{par, k}" "insert bno {m..}"]]) auto
  qed
qed

section \<open>Directories\<close>

lemma dots: "length dot < 1024" "length dotdot < 1024" "entry_words dot = 4" "entry_words dotdot = 4"
  by (simp_all add: dot_def dotdot_def entry_words_def)

text \<open>A new directory with its entries for itself and for the one above it.\<close>

lemma new_directory:
  assumes s: "fs_state D m k s" "i < k" "m < map_cap D" and z: "\<And>f. inode_members f \<Longrightarrow> ino_get f (inode_ptr D i) s = 0"
    and up: "up < 2 ^ 32"
  obtains s1 s2 where
    "AppendToDir i (DirEntry_s dot i) (init_INode (inode_ptr D i) (IFDIR OR ucast RT_MODE) 2 RT_UID RT_GID (Some 0) s) = (Inr (), s1)"
    "AppendToDir i (DirEntry_s dotdot up) s1 = (Inr (), s2)" "fs_state D (Suc m) k s2"
    "dir_inode D i m [(i, dot), (up, dotdot)] 8 s2" "touches D {i} {m} s s2"
proof -
  define s0 where "s0 = init_INode (inode_ptr D i) (IFDIR OR ucast RT_MODE) 2 RT_UID RT_GID (Some 0) s"
  have "take_bit 24 (IFDIR OR ucast RT_MODE :: uint64) = IFDIR OR ucast RT_MODE" by (simp add: mode_bits)
  from init_INode_blank[OF s(1,2) z this disjI2[OF refl] s0_def]
  have s0: "fs_state D m k s0" "touches D {i} {} s s0" "blank_inode D i 0x41ed s0" by (simp_all add: mode_bits)
  have i: "i < 2 ^ 32" using s(2) fs_state_sizes(4,5)[OF s(1)] by simp
  obtain s1 where a: "AppendToDir i (DirEntry_s dot i) s0 = (Inr (), s1)" and s1: "fs_state D (Suc m) k s1"
    "dir_inode D i m [(i, dot)] 4 s1" "touches D {i} {m} s0 s1"
    using AppendToDir_first[OF s0(1) s(2,3) s0(3) mode_bits(3) dots(1) i] dots(3) by metis
  have "4 + entry_words dotdot \<le> cBlockSize" by (simp add: dots cBlockSize_def)
  from AppendToDir_next[OF s1(1) s(2) s1(2) dots(2) up this]
  obtain s2 where b: "AppendToDir i (DirEntry_s dotdot up) s1 = (Inr (), s2)" and s2: "fs_state D (Suc m) k s2"
    "dir_inode D i m [(i, dot), (up, dotdot)] 8 s2" "touches D {i} {m} s1 s2"
    by (auto simp: dots)
  have "touches D {i} {m} s s0" by (rule touches_mono[OF s0(2)]) simp_all
  then have "touches D {i} {m} s s2" using s1(3) s2(3) by (meson touches_trans order_refl)
  with that a b s2 show ?thesis by (simp add: s0_def)
qed

lemma MkDir_entry:
  assumes s: "fs_state D m k s" "k < INodeCnt D 4" "m < map_cap D"
    and p: "par < k" "0 < par" "dir_inode D par bno es fin s" "bno < m"
    and n: "length n < 1024" "fin + entry_words n \<le> cBlockSize"
  obtains s' where "MkDir (of_nat par) n RT_UID RT_GID RT_MODE s = (Inr (of_nat k), s')" "fs_state D (Suc m) (Suc k) s'"
    "dir_inode D par bno (es @ [(k, n)]) (fin + entry_words n) s'" "dir_inode D k m [(k, dot), (par, dotdot)] 8 s'"
    "touches D {par, k} {bno, m} s s'"
proof -
  have k: "unat (of_nat k :: uint32) = k" "k < 2 ^ 32" using inode_number[OF s(2,1)] by auto
  have par: "unat (of_nat par :: uint32) = par" "par < INodeCnt D 4" "par < 2 ^ 32"
    using p(1) k(2) s(2) by (simp_all add: unat_of_nat_small)
  then have par0: "(of_nat par :: uint32) \<noteq> 0" using p(2) by auto
  obtain s1 where "AllocateINodeIdx k s = (Inr (), s1)"
    and g: "GetFreeINodeIdx s = (Inr (of_nat k), s1)" "fs_state D m (Suc k) s1"
    and T0: "touches D {} {} s s1" by (rule AllocateINodeIdx_state[OF s(1,2)])
  have z: "ino_get f (inode_ptr D k) s1 = 0" if "inode_members f" for f
    using fresh_inode[OF s(1) order_refl s(2)] inode_members_fit[OF that] ino_get_touches[OF T0 _ s(2)] by simp
  obtain s2 s3 where
    a: "AppendToDir k (DirEntry_s dot k) (init_INode (inode_ptr D k) (IFDIR OR ucast RT_MODE) 2 RT_UID RT_GID (Some 0) s1) = (Inr (), s2)"
    and b: "AppendToDir k (DirEntry_s dotdot par) s2 = (Inr (), s3)" and s3: "fs_state D (Suc m) (Suc k) s3"
    "dir_inode D k m [(k, dot), (par, dotdot)] 8 s3" and T3: "touches D {k} {m} s1 s3"
    by (rule new_directory[OF g(2) lessI s(3) z par(3)])
  have "dir_inode D par bno es fin s1" using par(2) by (intro dir_inode_touches[OF p(3) T0]) simp_all
  then have d3: "dir_inode D par bno es fin s3" using p(1,4) par(2) by (intro dir_inode_touches[OF _ T3]) auto
  obtain s4 where c: "AppendToDir par (DirEntry_s n k) s3 = (Inr (), s4)" and s4: "fs_state D (Suc m) (Suc k) s4"
    "dir_inode D par bno (es @ [(k, n)]) (fin + entry_words n) s4" and T4: "touches D {par} {bno} s3 s4"
    by (rule AppendToDir_next[OF s3(1) less_SucI[OF p(1)] d3 n(1) k(2) n(2)])
  have mem: "inode_members cdi_nlink" by (simp add: inode_members_def)
  define s' where "s' = ino_set cdi_nlink (inode_ptr D par) (ino_get cdi_nlink (inode_ptr D par) s4 + 1) s4"
  have T5: "touches D {par} {} s4 s'" unfolding s'_def by (rule touches_ino_set[OF par(2)]) simp
  show ?thesis
  proof
    show "MkDir (of_nat par) n RT_UID RT_GID RT_MODE s = (Inr (of_nat k), s')"
      using g(1) a b c par(1) par0 k(1)
      by (simp add: MkDir_def bindE_def returnE_def Let_def GetINode_ptr[OF fs_state_layout[OF g(2)]]
          GetINode_ptr[OF fs_state_layout[OF s4(1)]] s'_def)
    show "fs_state D (Suc m) (Suc k) s'"
      unfolding s'_def by (rule fs_state_ino_set[OF s4(1) less_SucI[OF p(1)]]) simp
    have mem': "inode_members (cdi_addr e nblks)" "inode_members (cdi_addr e blk)" if "e < 8" for e
      using that by (auto simp: inode_members_def)
    have "inode_members cdi_mode" "inode_members cdi_size" by (simp_all add: inode_members_def)
    moreover have "mStorage s' bno = mStorage s4 bno"
      using T5 s4(2) by (simp add: touches_def dir_inode_def Let_def)
    ultimately show "dir_inode D par bno (es @ [(k, n)]) (fin + entry_words n) s'"
      using s4(2) mem' by (simp add: dir_inode_def Let_def) (simp add: s'_def member_get_set mem)
    have "m \<noteq> bno" "k \<noteq> par" using p(1,4) by auto
    then have "dir_inode D k m [(k, dot), (par, dotdot)] 8 s4" using s(2) by (intro dir_inode_touches[OF s3(2) T4]) auto
    then show "dir_inode D k m [(k, dot), (par, dotdot)] 8 s'"
      using \<open>k \<noteq> par\<close> s(2) by (intro dir_inode_touches[OF _ T5]) auto
    have "touches D {par, k} {bno, m} s s1" "touches D {par, k} {bno, m} s1 s3" "touches D {par, k} {bno, m} s3 s4"
      "touches D {par, k} {bno, m} s4 s'"
      using touches_mono[OF T0] touches_mono[OF T3] touches_mono[OF T4] touches_mono[OF T5] by auto
    then show "touches D {par, k} {bno, m} s s'" by (meson touches_trans order_refl)
  qed
qed

lemma MakeRoot_state:
  assumes s: "fs_state D m 2 s" "m < map_cap D"
  obtains s' where "MakeRoot s = (Inr 2, s')" "fs_state D (Suc m) 3 s'" "dir_inode D 2 m [(2, dot), (2, dotdot)] 8 s'"
proof -
  have i: "2 < INodeCnt D 4" using layout_sizes(4)[of D] fs_state_layout[OF s(1)] by (simp add: fs_layout_def)
  obtain s1 where g: "AllocateINodeIdx 2 s = (Inr (), s1)" and "GetFreeINodeIdx s = (Inr (of_nat 2), s1)"
    and s1: "fs_state D m (Suc 2) s1" and T0: "touches D {} {} s s1" by (rule AllocateINodeIdx_state[OF s(1) i])
  have z: "ino_get f (inode_ptr D 2) s1 = 0" if "inode_members f" for f
    using fresh_inode[OF s(1) order_refl i] inode_members_fit[OF that] ino_get_touches[OF T0 _ i] by simp
  obtain s2 s' where
    a: "AppendToDir 2 (DirEntry_s dot 2) (init_INode (inode_ptr D 2) (IFDIR OR ucast RT_MODE) 2 RT_UID RT_GID (Some 0) s1) = (Inr (), s2)"
    and b: "AppendToDir 2 (DirEntry_s dotdot 2) s2 = (Inr (), s')" and s': "fs_state D (Suc m) (Suc 2) s'"
    "dir_inode D 2 m [(2, dot), (2, dotdot)] 8 s'" and "touches D {2} {m} s1 s'"
    by (rule new_directory[OF s1 _ s(2) z, of 2]) simp_all
  show ?thesis
  proof
    have "sb_get s_root s = 2" using fs_state_layout[OF s(1)] by (simp add: fs_layout_def)
    then show "MakeRoot s = (Inr 2, s')"
      using g a b by (simp add: MakeRoot_def MkDir_def bindE_def returnE_def Let_def GetINode_ptr[OF fs_state_layout[OF s1]])
    show "fs_state D (Suc m) 3 s'" using s'(1) by (simp add: eval_nat_numeral)
    show "dir_inode D 2 m [(2, dot), (2, dotdot)] 8 s'" by (rule s'(2))
  qed
qed

end
