(* ===== verification/Mkfs_Create.thy ===== *)
theory Mkfs_Create
  imports Mkfs_Make
begin

text \<open>
  Making the file system: the super block and the dynamic block get their members, and the blocks
  of the file system itself are allocated in the order of the code. The end is the invariant
  with all blocks below the first data block in use.
\<close>

section \<open>Members of the super block\<close>

lemma sb_set_blocks [simp]:
  "b \<noteq> SUPERB \<Longrightarrow> mStorage (sb_set f v s) b = mStorage s b" "mDiskSizeInBlocks (sb_set f v s) = mDiskSizeInBlocks s"
  by (simp_all add: sb_set_def)

lemma sb_set_all_blocks [simp]:
  "b \<noteq> SUPERB \<Longrightarrow> mStorage (sb_set_all fs s) b = mStorage s b" "mDiskSizeInBlocks (sb_set_all fs s) = mDiskSizeInBlocks s"
  by (induction fs arbitrary: s) (auto simp: sb_set_all_def)

lemma sb_get_set:
  assumes "fits_word (nc1filsys_at f)" "fits_word (nc1filsys_at g)" "f = g \<or> apart (nc1filsys_at f) (nc1filsys_at g)"
  shows "sb_get f (sb_set g v s) = (if f = g then take_bit (tSize (nc1filsys_at f)) v else sb_get f s)"
  using assms by (auto simp: sb_get_def sb_set_def IntField_get_set IntField_get_set_other)

definition apart_from :: "nc1filsys \<Rightarrow> nc1filsys \<times> uint64 \<Rightarrow> bool" where
  "apart_from f g \<longleftrightarrow> fits_word (nc1filsys_at (fst g)) \<and> (f \<noteq> fst g \<longrightarrow> apart (nc1filsys_at f) (nc1filsys_at (fst g)))"

lemma sb_get_set_all:
  assumes "fits_word (nc1filsys_at f)" "list_all (apart_from f) gs" "distinct (List.map fst gs)"
  shows "sb_get f (sb_set_all gs s) =
    (case map_of gs f of Some v \<Rightarrow> take_bit (tSize (nc1filsys_at f)) v | None \<Rightarrow> sb_get f s)"
  using assms(2,3)
proof (induction gs arbitrary: s)
  case Nil
  then show ?case by (simp add: sb_set_all_def)
next
  case (Cons g gs)
  obtain h v where g: "g = (h, v)" by force
  have step: "sb_set_all (g # gs) s = sb_set_all gs (sb_set h v s)" by (simp add: sb_set_all_def g)
  have one: "sb_get f (sb_set h v s) = (if f = h then take_bit (tSize (nc1filsys_at f)) v else sb_get f s)"
    using Cons.prems(1) assms(1) by (intro sb_get_set) (auto simp: apart_from_def g)
  have none: "map_of gs h = None" using Cons.prems(2) by (simp add: g map_of_eq_None_iff)
  have IH: "sb_get f (sb_set_all gs t) = (case map_of gs f of Some v \<Rightarrow> take_bit (tSize (nc1filsys_at f)) v | None \<Rightarrow> sb_get f t)" for t
    using Cons by simp
  show ?case unfolding step IH one using none by (auto simp: g split: option.splits)
qed

lemma sb_set_name_ok:
  assumes "length n \<le> 8"
  obtains s' where "sb_set_name f n s = (Inr (), s')" "\<And>b. b \<noteq> SUPERB \<Longrightarrow> mStorage s' b = mStorage s b"
    "mDiskSizeInBlocks s' = mDiskSizeInBlocks s"
    "\<And>g. tOfs (nc1filsys_at g) \<noteq> tOfs (nc1filsys_at f) \<Longrightarrow> sb_get g s' = sb_get g s"
proof -
  let ?w = "tOfs (nc1filsys_at f)"
  define b where "b = copy_bytes (8 * ?w) n (put_word ?w 0 (mStorage s SUPERB))"
  define s' where "s' = upd_block SUPERB (\<lambda>_. b) s"
  have "sb_get g s' = sb_get g s" if "tOfs (nc1filsys_at g) \<noteq> ?w" for g
  proof -
    have "8 * tOfs (nc1filsys_at g) + 8 \<le> 8 * ?w \<or> 8 * ?w + length n \<le> 8 * tOfs (nc1filsys_at g)"
      using that assms by auto
    then show ?thesis
      using that by (simp add: sb_get_def s'_def b_def IntField_get_def word_at_copy_bytes word_at_put_word)
  qed
  moreover have "sb_set_name f n s = (Inr (), s')"
    using assms by (simp add: sb_set_name_def StrField_set_def s'_def b_def)
  ultimately show ?thesis using that[of s'] by (simp add: s'_def)
qed

lemma blank_size: "mDiskSizeInBlocks (blank_image D) = D"
  by (simp add: blank_image_def)

lemma WriteSuperBlock_layout:
  assumes D: "256 \<le> D" "D \<le> 2 ^ 31" and n: "length n1 \<le> 8" "length n2 \<le> 8" "length n3 \<le> 8"
  obtains s where "WriteSuperBlock n1 n2 n3 ma mi 4 (blank_image D) = (Inr (), s)" "fs_layout D s"
    "\<And>b. b \<noteq> SUPERB \<Longrightarrow> mStorage s b = (\<lambda>_. 0)"
proof -
  define L1 where "L1 =
             [(s_dev, push_bit 8 (ucast ma) OR ucast mi),
              (s_fsize, of_nat D),
              (s_isize, of_nat (INodeCnt D 4)),
              (s_bigfile, 0x8000),
              (s_bigunit, 21),
              (s_secure, FsSECURE),
              (s_time, 895339878),
              (s_dboff, of_nat (DynamicBlockStart D)),
              (s_root, 2),
              (s_error, 0),
              (s_mapoff, of_nat MapStart),
              (s_mapblks, of_nat (MapBlockCnt D)),
              (s_nscpys, of_nat NC1NSUPER),
              (s_npart, 1),
              (s_ifract, of_nat (4 :: nat)),
              (s_sfs nblks, of_nat SFSBlockCnt),
              (s_sfs blk, of_nat (SFSStart D 4)),
              (s_flag, Fs_RRFILE OR Fs_RRALLUDATA)]"
  define L2 where "L2 =
                  [(s_part 0 fd_sblk, 0),
                   (s_part 0 fd_nblk, of_nat D),
                   (s_part 0 (sb_ireg 0 nblks), of_nat (INodeBlockCnt D 4)),
                   (s_part 0 (sb_ireg 0 blk), of_nat (INodeStart D)),
                   (s_iounit, 0),
                   (s_numiresblks, 0),
                   (s_priparts, push_bit 63 1),
                   (s_priblock, 0),
                   (s_prinblks, of_nat D),
                   (s_secparts, 0),
                   (s_secblock, 0),
                   (s_secnblks, 0),
                   (s_sbdbparts, push_bit 63 1),
                   (s_rootdparts, push_bit 63 1),
                   (s_nudparts, 0),
                   (s_nsema, 0),
                   (s_priactive, push_bit 63 1),
                   (s_sfs_arbiterid, 0 :: uint64)]"
  let ?s0 = "sb_set s_magic FsMAGIC_NC1 (blank_image D)"
  obtain s1 where 1: "sb_set_name s_fname n1 ?s0 = (Inr (), s1)" "\<And>b. b \<noteq> SUPERB \<Longrightarrow> mStorage s1 b = mStorage ?s0 b"
    "mDiskSizeInBlocks s1 = mDiskSizeInBlocks ?s0" using sb_set_name_ok[OF n(1)] by metis
  obtain s2 where 2: "sb_set_name s_fpack n2 s1 = (Inr (), s2)" "\<And>b. b \<noteq> SUPERB \<Longrightarrow> mStorage s2 b = mStorage s1 b"
    "mDiskSizeInBlocks s2 = mDiskSizeInBlocks s1" using sb_set_name_ok[OF n(2)] by metis
  define s3 where "s3 = sb_set_all L1 s2"
  obtain s4 where 4: "sb_set_name (s_part 0 fd_name) n3 s3 = (Inr (), s4)" "\<And>b. b \<noteq> SUPERB \<Longrightarrow> mStorage s4 b = mStorage s3 b"
    "mDiskSizeInBlocks s4 = mDiskSizeInBlocks s3"
    "\<And>g. tOfs (nc1filsys_at g) \<noteq> tOfs (nc1filsys_at (s_part 0 fd_name)) \<Longrightarrow> sb_get g s4 = sb_get g s3"
    using sb_set_name_ok[OF n(3)] by metis
  define s where "s = sb_set_all L2 s4"
  have size: "mDiskSizeInBlocks s = D" using 1(3) 2(3) 4(3) by (simp add: s_def s3_def blank_image_def)
  have run: "WriteSuperBlock n1 n2 n3 ma mi 4 (blank_image D) = (Inr (), s)"
    unfolding WriteSuperBlock_def Let_def blank_size L1_def[symmetric] L2_def[symmetric]
    using 1(1) 2(1) 4(1) by (simp add: bindE_def s3_def[symmetric] s_def[symmetric])
  have d: "distinct (List.map fst L1)" "distinct (List.map fst L2)" by (simp_all add: L1_def L2_def)
  have fits: "fits_word (nc1filsys_at f)" if "f \<in> {s_dboff, s_root, s_mapoff, s_mapblks, s_nscpys, s_part 0 (sb_ireg 0 blk)}" for f
    using that by (auto simp: fits_word_def)
  have A1: "list_all (apart_from f) L1" "list_all (apart_from f) L2"
    if "f \<in> {s_dboff, s_root, s_mapoff, s_mapblks, s_nscpys, s_part 0 (sb_ireg 0 blk)}" for f
    using that by (auto simp: L1_def L2_def apart_from_def apart_def fits_word_def s_part_end_def NC1MAXPART_def)
  have L2: "sb_get f s = (case map_of L2 f of Some v \<Rightarrow> take_bit (tSize (nc1filsys_at f)) v | None \<Rightarrow> sb_get f s4)"
    if "f \<in> {s_dboff, s_root, s_mapoff, s_mapblks, s_nscpys, s_part 0 (sb_ireg 0 blk)}" for f
    unfolding s_def by (rule sb_get_set_all[OF fits[OF that] A1(2)[OF that] d(2)])
  have L1: "sb_get f s3 = (case map_of L1 f of Some v \<Rightarrow> take_bit (tSize (nc1filsys_at f)) v | None \<Rightarrow> sb_get f s2)"
    if "f \<in> {s_dboff, s_root, s_mapoff, s_mapblks, s_nscpys, s_part 0 (sb_ireg 0 blk)}" for f
    unfolding s3_def by (rule sb_get_set_all[OF fits[OF that] A1(1)[OF that] d(1)])
  have "INodeStart D < 2 ^ 32" using layout_sizes(7)[OF D] by simp
  then have i: "sb_get (s_part 0 (sb_ireg 0 blk)) s = of_nat (INodeStart D)"
    by (simp add: L2) (simp add: L2_def take_32_of_nat)
  have "sb_get s_dboff s = of_nat (DynamicBlockStart D)" "sb_get s_root s = 2" "sb_get s_mapoff s = of_nat MapStart"
    "sb_get s_mapblks s = of_nat (MapBlockCnt D)" "sb_get s_nscpys s = of_nat NC1NSUPER"
    by (simp_all add: L2 4(4) L1) (simp_all add: L2_def L1_def 4(4) L1)
  with i D size have "fs_layout D s" by (simp add: fs_layout_def)
  moreover have "mStorage s b = (\<lambda>_. 0)" if "b \<noteq> SUPERB" for b
    using that 1(2) 2(2) 4(2) by (simp add: s_def s3_def blank_image_def)
  ultimately show ?thesis using that run by blast
qed

section \<open>Members of the dynamic block\<close>

lemma db_set_all_Cons: "db_set_all ((f, v) # fs) s = db_set_all fs (db_set f v s)"
  by (simp add: db_set_all_def)

lemma db_set_all_layout:
  assumes "fs_layout D s"
  shows "fs_layout D (db_set_all fs s)" "b \<noteq> DynamicBlockStart D \<Longrightarrow> mStorage (db_set_all fs s) b = mStorage s b"
proof -
  have "fs_layout D (db_set_all fs s) \<and> (b \<noteq> DynamicBlockStart D \<longrightarrow> mStorage (db_set_all fs s) b = mStorage s b)"
    using assms
  proof (induction fs arbitrary: s)
    case Nil
    then show ?case by (simp add: db_set_all_def)
  next
    case (Cons g fs)
    obtain f v where "g = (f, v)" by force
    then show ?case using Cons.IH[OF layout_db_set(1)[OF Cons.prems]] layout_db_set(2)[OF Cons.prems] by (simp add: db_set_all_Cons)
  qed
  then show "fs_layout D (db_set_all fs s)" "b \<noteq> DynamicBlockStart D \<Longrightarrow> mStorage (db_set_all fs s) b = mStorage s b"
    by simp_all
qed

lemma db_get_set_all:
  assumes s: "fs_layout D s" and f: "nc1dblock_at f = whole_word w"
    and g: "list_all (\<lambda>g. fst g \<noteq> f \<longrightarrow> tOfs (nc1dblock_at (fst g)) \<noteq> w) gs" "distinct (List.map fst gs)"
  shows "db_get f (db_set_all gs s) = (case map_of gs f of Some v \<Rightarrow> v | None \<Rightarrow> db_get f s)"
  using s g
proof (induction gs arbitrary: s)
  case Nil
  then show ?case by (simp add: db_set_all_def)
next
  case (Cons g gs)
  obtain h v where g: "g = (h, v)" by force
  have "db_get f (db_set h v s) = (if h = f then v else db_get f s)"
    using Cons.prems f layout_db_set(1)[OF Cons.prems(1), of h v]
    by (auto simp: db_get_def layout_places g IntField_get_set_word db_set_def)
  moreover have "map_of gs h = None" using Cons.prems(3) by (simp add: g map_of_eq_None_iff)
  ultimately show ?case
    using Cons.IH[OF layout_db_set(1)[OF Cons.prems(1)]] Cons.prems(2,3)
    by (auto simp: g db_set_all_Cons split: option.splits)
qed

lemma WriteDynamicBlock_counters:
  assumes s: "fs_layout D s"
  defines "s' \<equiv> WriteDynamicBlock 4 s"
  shows "fs_layout D s'" "b \<noteq> DynamicBlockStart D \<Longrightarrow> mStorage s' b = mStorage s b"
    "db_get db_tfree s' = of_nat D" "db_get (db_fpm bmp_avail) s' = of_nat D" "db_get db_ifree s' = of_nat (INodeCnt D 4)"
    "db_get db_ninode s' = -2" "db_get (db_part 0 (db_ireg 0)) s' = of_nat (INodeCnt D 4)"
proof -
  define gs :: "(nc1dblock \<times> uint64) list" where "gs =
        [(db_magic, DbMAGIC_NC1),
         (db_tfree, of_nat D),
         (db_ifree, of_nat (INodeCnt D 4)),
         (db_ninode, - sb_get s_root s),
         (db_state, 0),
         (db_time, 895339878),
         (db_type, 0),
         (db_spart, 0),
         (db_ifptr, 0),
         (db_actype, 0),
         (db_flag, Db_CHECKED),
         (db_part 0 fd_flag, FDNC1_SBDB OR FDNC1_RTDIR OR FDNC1_SECALL),
         (db_part 0 (db_ireg 0), of_nat (INodeCnt D 4)),
         (db_fpm bmp_name, FREEMAP),
         (db_fpm bmp_id, BITMAPID),
         (db_fpm bmp_base, 0),
         (db_fpm bmp_begin, 0),
         (db_fpm bmp_next, 0),
         (db_fpm bmp_total, of_nat D),
         (db_fpm bmp_avail, of_nat D),
         (db_fpm bmp_want, 0),
         (db_fpm bmp_first, 0),
         (db_fpm bmp_last, 0),
         (db_fpm bmp_units, 1),
         (db_fpm bmp_tnobim, of_nat D)]"
  have "mDiskSizeInBlocks s = D" using s by (simp add: fs_layout_def)
  then have s': "s' = db_set_all gs s" by (simp add: s'_def WriteDynamicBlock_def Let_def gs_def)
  show "fs_layout D s'" "b \<noteq> DynamicBlockStart D \<Longrightarrow> mStorage s' b = mStorage s b"
    using db_set_all_layout[OF s] by (simp_all add: s')
  have dist: "distinct (List.map fst gs)" by (simp add: gs_def)
  have get: "db_get f s' = (case map_of gs f of Some v \<Rightarrow> v | None \<Rightarrow> db_get f s)"
    if cf: "counter_field f" for f
  proof -
    obtain w where w: "nc1dblock_at f = whole_word w" using cf by (auto simp: counter_field_def)
    have "list_all (\<lambda>g. fst g \<noteq> f \<longrightarrow> tOfs (nc1dblock_at (fst g)) \<noteq> w) gs"
      using cf w by (auto simp: counter_field_def gs_def db_part_end_def NC1MAXPART_def)
    from db_get_set_all[OF s w this dist] show ?thesis by (simp add: s')
  qed
  have "sb_get s_root s = 2" using s by (simp add: fs_layout_def)
  then show "db_get db_tfree s' = of_nat D" "db_get (db_fpm bmp_avail) s' = of_nat D" "db_get db_ifree s' = of_nat (INodeCnt D 4)"
    "db_get db_ninode s' = -2" "db_get (db_part 0 (db_ireg 0)) s' = of_nat (INodeCnt D 4)"
    by (simp_all add: get counter_field_def) (simp_all add: gs_def)
qed

section \<open>The blocks of the file system\<close>

text \<open>The state while the blocks \<open>A\<close> and the i-nodes \<open>J\<close> are allocated.\<close>

definition alloc_state :: "nat \<Rightarrow> nat set \<Rightarrow> nat set \<Rightarrow> DiskImage_c \<Rightarrow> bool" where
  "alloc_state D A J s \<longleftrightarrow> fs_layout D s \<and> finite A \<and> finite J \<and>
     (\<forall>n<map_cap D. map_bit MapStart n s \<longleftrightarrow> n \<in> A) \<and> (\<forall>n<cBlockSize * 64. map_bit (INodeStart D) n s \<longleftrightarrow> n \<in> J) \<and>
     db_get db_tfree s = of_nat D - of_nat (card A) \<and> db_get (db_fpm bmp_avail) s = of_nat D - of_nat (card A) \<and>
     db_get db_ifree s = of_nat (INodeCnt D 4) - of_nat (card J) \<and> db_get db_ninode s = of_nat (card J) - 2 \<and>
     db_get (db_part 0 (db_ireg 0)) s = of_nat (INodeCnt D 4) - of_nat (card J) \<and>
     (\<forall>i w. i < INodeCnt D 4 \<and> w < 32 \<longrightarrow> iword D i w s = 0)"

lemma alloc_block:
  assumes s: "alloc_state D A J s" and n: "n \<notin> A" "n < map_cap D"
  obtains s' where "AllocateBlock n s = (Inr (), s')" "alloc_state D (insert n A) J s'"
proof -
  have l: "fs_layout D s" and b: "\<not> map_bit MapStart n s" using s n by (auto simp: alloc_state_def)
  from AllocateBlock_free[OF l n(2) b] obtain s' where a: "AllocateBlock n s = (Inr (), s')" "fs_layout D s'"
    and u: "\<And>m. m < map_cap D \<Longrightarrow> map_bit MapStart m s' \<longleftrightarrow> m = n \<or> map_bit MapStart m s"
    and f: "\<And>b. \<not> is_map_block D b \<Longrightarrow> b \<noteq> DynamicBlockStart D \<Longrightarrow> mStorage s' b = mStorage s b"
    and c: "counters_after ((\<lambda>_. 0)(db_tfree := -1, db_fpm bmp_avail := -1)) s s'" by blast
  have hi: "mStorage s' b = mStorage s b" if "INodeStart D \<le> b" for b
    using f[of b] that block_order(3)[of D] by (simp add: is_map_block_def)
  have "map_bit (INodeStart D) m s' = map_bit (INodeStart D) m s" for m by (simp add: map_bit_def hi)
  moreover have "iword D i w s' = iword D i w s" for i w by (simp add: iword_def hi inode_block_def)
  moreover have "card (insert n A) = Suc (card A)" using s n(1) by (simp add: alloc_state_def)
  ultimately have "alloc_state D (insert n A) J s'"
    using s a(2) u c by (simp add: alloc_state_def counters_after_def counter_field_def)
  with that a(1) show ?thesis by blast
qed

lemma alloc_inode:
  assumes s: "alloc_state D A J s" and n: "n \<notin> J" "n < cBlockSize * 64"
  obtains s' where "AllocateINodeIdx n s = (Inr (), s')" "alloc_state D A (insert n J) s'"
proof -
  have l: "fs_layout D s" and b: "\<not> map_bit (INodeStart D) n s" using s n by (auto simp: alloc_state_def)
  from AllocateINodeIdx_free[OF l n(2) b] obtain s' where a: "AllocateINodeIdx n s = (Inr (), s')" "fs_layout D s'"
    and u: "\<And>m. m < cBlockSize * 64 \<Longrightarrow> map_bit (INodeStart D) m s' \<longleftrightarrow> m = n \<or> map_bit (INodeStart D) m s"
    and f: "\<And>b. b \<noteq> INodeStart D \<Longrightarrow> b \<noteq> DynamicBlockStart D \<Longrightarrow> mStorage s' b = mStorage s b"
    and c: "counters_after ((\<lambda>_. 0)(db_ifree := -1, db_ninode := 1, db_part 0 (db_ireg 0) := -1)) s s'" by blast
  have "map_bit MapStart m s' = map_bit MapStart m s" if "m < map_cap D" for m
    using f[of "MapStart + m div 64 div cBlockSize"] map_block_of[OF that] super_block_apart(4)[OF map_block_of[OF that]]
      block_order(3)[of D] by (simp add: map_bit_def)
  moreover have "iword D i w s' = iword D i w s" for i w
    using f block_order(3)[of D] by (simp add: iword_def inode_block_def)
  moreover have "card (insert n J) = Suc (card J)" using s n(1) by (simp add: alloc_state_def)
  ultimately have "alloc_state D A (insert n J) s'"
    using s a(2) u c by (simp add: alloc_state_def counters_after_def counter_field_def)
  with that a(1) show ?thesis by blast
qed

lemma alloc_blocks:
  assumes "alloc_state D A J s" "A \<inter> {base..<base + c} = {}" "base + c \<le> map_cap D"
  shows "\<exists>s'. forE [0..<c] (\<lambda>i. AllocateBlock (base + i)) s = (Inr (), s') \<and> alloc_state D (A \<union> {base..<base + c}) J s'"
  using assms(2,3)
proof (induction c)
  case 0
  then show ?case using assms(1) by simp
next
  case (Suc c)
  have "A \<inter> {base..<base + c} = {}" "base + c \<le> map_cap D" using Suc.prems by (auto simp: disjoint_iff)
  with Suc.IH obtain s1 where 1: "forE [0..<c] (\<lambda>i. AllocateBlock (base + i)) s = (Inr (), s1)"
    "alloc_state D (A \<union> {base..<base + c}) J s1" by blast
  have "base + c \<in> {base..<base + Suc c}" by simp
  then have "base + c \<notin> A \<union> {base..<base + c}" "base + c < map_cap D" using Suc.prems by (auto simp: disjoint_iff)
  from alloc_block[OF 1(2) this] obtain s2 where 2: "AllocateBlock (base + c) s1 = (Inr (), s2)"
    "alloc_state D (insert (base + c) (A \<union> {base..<base + c})) J s2" .
  moreover have "insert (base + c) (A \<union> {base..<base + c}) = A \<union> {base..<base + Suc c}" by auto
  ultimately show ?case using 1(1) by (auto simp: forE_append)
qed

lemma image_big_enough:
  assumes "256 \<le> D"
  shows "SFSStart D 4 + 3 \<le> map_cap D" "SFSStart D 4 + 3 \<le> D"
proof -
  have m: "MapBlockCnt D = (D div 64 + 511) div 512" by (simp add: MapBlockCnt_def cBlockSize_def)
  have i: "INodeBlockCnt D 4 \<le> 1 + (D div 4 * 32 + 511) div 512"
    unfolding INodeBlockCnt_def INodeCnt_def cBlockSize_def cdinode_size_def
    by (intro add_left_mono div_le_mono diff_le_mono add_right_mono mult_le_mono1) simp
  have s: "SFSStart D 4 = 12 + MapBlockCnt D + INodeBlockCnt D 4"
    by (simp add: SFSStart_def INodeStart_def DynamicBlockStart_def MapStart_def SUPERB_def NC1NSUPER_def)
  show "SFSStart D 4 + 3 \<le> D" using assms i unfolding s m by linarith
  show "SFSStart D 4 + 3 \<le> map_cap D" using assms i unfolding s m map_cap_def cBlockSize_def by linarith
qed

lemma CreateSuperBlock_state:
  assumes D: "256 \<le> D" "D \<le> 2 ^ 31" and n: "length n1 \<le> 8" "length n2 \<le> 8" "length n3 \<le> 8"
  obtains s where "CreateSuperBlock n1 n2 n3 ma mi 4 (blank_image D) = (Inr (), s)" "fs_state D (Suc (SFSStart D 4)) 2 s"
proof -
  let ?S = "SFSStart D 4"
  obtain s1 where 1: "WriteSuperBlock n1 n2 n3 ma mi 4 (blank_image D) = (Inr (), s1)" "fs_layout D s1"
    "\<And>b. b \<noteq> SUPERB \<Longrightarrow> mStorage s1 b = (\<lambda>_. 0)" using WriteSuperBlock_layout[OF D n] by metis
  define s2 where "s2 = WriteDynamicBlock 4 s1"
  note d = WriteDynamicBlock_counters[OF 1(2), folded s2_def]
  define s3 where "s3 = upd_block ?S (put_word 0xcb (SwapBytes64 SFS_MAGIC)) (upd_block ?S (put_word 0 (SwapBytes64 SFS_MAGIC)) s2)"
  have order: "SUPERB < ?S" "DynamicBlockStart D < ?S" "INodeStart D < ?S" "DynamicBlockStart D < INodeStart D"
    using block_order(1) block_order(2,3)[of D] block_order(4)[of D 4] by auto
  have l3: "fs_layout D s3" using order by (intro layout_frame[OF d(1)]) (simp_all add: s3_def)
  have z3: "mStorage s3 b = (\<lambda>_. 0)" if "b \<noteq> SUPERB" "b \<noteq> DynamicBlockStart D" "b < ?S" for b
    using that 1(3) d(2) by (simp add: s3_def)
  have zero: "word_at w (\<lambda>_. 0) = 0" for w by (simp add: word_at_def load64_def)
  have db3: "db_get f s3 = db_get f s2" for f
    using order l3 d(1) by (simp add: db_get_def layout_places) (simp add: s3_def)
  have "\<not> map_bit MapStart m s3" if "m < map_cap D" for m
    using z3[of "MapStart + m div 64 div cBlockSize"] map_block_of[OF that] super_block_apart(2,4)[OF map_block_of[OF that]] order
    by (simp add: map_bit_def zero)
  moreover have "\<not> map_bit (INodeStart D) m s3" if "m < cBlockSize * 64" for m
    using z3[of "INodeStart D"] super_block_apart(3)[of D "INodeStart D"] order
    by (simp add: map_bit_def zero INode_map_block[OF that])
  moreover have "iword D i w s3 = 0" if "i < INodeCnt D 4" for i w
    using z3[of "inode_block D i"] inode_block_range[OF that] super_block_apart(3)[of D "inode_block D i"] order
    by (simp add: iword_def zero)
  ultimately have a0: "alloc_state D {} {} s3" using l3 d(3-7) by (simp add: alloc_state_def db3)
  have cap: "?S + 3 \<le> map_cap D" by (rule image_big_enough(1)[OF D(1)])
  have S: "?S = INodeStart D + INodeBlockCnt D 4" "INodeStart D = Suc (DynamicBlockStart D)"
    "DynamicBlockStart D = MapStart + MapBlockCnt D" "MapStart = 11" "SUPERB + NC1NSUPER = 11" "SUPERB = 1"
    by (simp_all add: SFSStart_def INodeStart_def DynamicBlockStart_def MapStart_def SUPERB_def NC1NSUPER_def)
  obtain t0 where t0: "AllocateBlock 0 s3 = (Inr (), t0)" "alloc_state D {0} {} t0"
    using alloc_block[OF a0, of 0] cap by auto
  obtain t1 where t1: "forE [0..<NC1NSUPER] (\<lambda>i. AllocateBlock (SUPERB + i)) t0 = (Inr (), t1)"
    "alloc_state D ({0} \<union> {1..<11}) {} t1"
    using alloc_blocks[OF t0(2), of SUPERB NC1NSUPER] cap S by auto
  obtain t2 where t2: "forE [0..<MapBlockCnt D] (\<lambda>i. AllocateBlock (MapStart + i)) t1 = (Inr (), t2)"
    "alloc_state D ({0} \<union> {1..<11} \<union> {11..<DynamicBlockStart D}) {} t2"
    using alloc_blocks[OF t1(2), of MapStart "MapBlockCnt D"] cap S by auto
  obtain t3 where t3: "AllocateBlock (DynamicBlockStart D) t2 = (Inr (), t3)"
    "alloc_state D (insert (DynamicBlockStart D) ({0} \<union> {1..<11} \<union> {11..<DynamicBlockStart D})) {} t3"
    using alloc_block[OF t2(2), of "DynamicBlockStart D"] cap S by auto
  have A3: "insert (DynamicBlockStart D) ({0} \<union> {1..<11} \<union> {11..<DynamicBlockStart D}) = {..<INodeStart D}"
    using S by auto
  obtain t4 where t4: "forE [0..<SFSBlockCnt] (\<lambda>i. AllocateBlock (?S + i)) t3 = (Inr (), t4)"
    "alloc_state D ({..<INodeStart D} \<union> {?S..<?S + SFSBlockCnt}) {} t4"
    using alloc_blocks[OF t3(2)[unfolded A3], of ?S SFSBlockCnt] cap order by (auto simp: SFSBlockCnt_def)
  obtain t5 where t5: "forE [0..<INodeBlockCnt D 4] (\<lambda>i. AllocateBlock (INodeStart D + i)) t4 = (Inr (), t5)"
    "alloc_state D ({..<INodeStart D} \<union> {?S..<?S + SFSBlockCnt} \<union> {INodeStart D..<INodeStart D + INodeBlockCnt D 4}) {} t5"
    using alloc_blocks[OF t4(2), of "INodeStart D" "INodeBlockCnt D 4"] cap S(1) by (auto simp: disjoint_iff)
  have A5: "{..<INodeStart D} \<union> {?S..<?S + SFSBlockCnt} \<union> {INodeStart D..<INodeStart D + INodeBlockCnt D 4} = {..<Suc ?S}"
    using S(1) by (auto simp: SFSBlockCnt_def)
  have "0 < cBlockSize * 64" "1 < cBlockSize * 64" by (simp_all add: cBlockSize_def)
  then obtain t6 t7 where t6: "AllocateINodeIdx 0 t5 = (Inr (), t6)" "AllocateINodeIdx 1 t6 = (Inr (), t7)"
    "alloc_state D {..<Suc ?S} {1, 0} t7"
    using alloc_inode[OF t5(2)[unfolded A5], of 0] alloc_inode[of D "{..<Suc ?S}" "{0}" _ 1] by (metis empty_iff insert_iff zero_neq_one)
  have root: "unat (sb_get s_root t5) = 2" using t5(2) by (simp add: alloc_state_def fs_layout_def)
  have "[0..<2] = [0, 1]" by (simp add: upt_rec)
  then have "forE [0..<unat (sb_get s_root t5)] AllocateINodeIdx t5 = (Inr (), t7)" using t6 by (simp add: root)
  then have run: "CreateSuperBlock n1 n2 n3 ma mi 4 (blank_image D) = (Inr (), t7)"
    using 1(1) t0(1) t1(1) t2(1) t3(1) t4(1) t5(1)
    by (simp add: CreateSuperBlock_def Let_def blank_size bindE_def s2_def[symmetric] s3_def[symmetric])
  have "fs_state D (Suc ?S) 2 t7"
    using t6(3) cap layout_sizes(4)[OF D] by (auto simp: alloc_state_def fs_state_def)
  with that run show ?thesis by blast
qed

end
