(* ===== verification/Mkfs_Results.thy ===== *)
theory Mkfs_Results
  imports Mkfs_Create
begin

text \<open>
  What the program leaves in the image file: the root directory lists the files in the order of
  the command line, and each reads back as the local file was.
\<close>

section \<open>What the readers see\<close>

text \<open>The root directory \<open>es\<close>, and the files \<open>fs\<close> in the i-nodes from 4 on, all in blocks below \<open>m\<close>.\<close>

definition root_block :: "nat \<Rightarrow> nat" where
  "root_block D = Suc (SFSStart D 4)"

definition file_holds :: "nat \<Rightarrow> nat \<Rightarrow> nat \<Rightarrow> bytes \<Rightarrow> DiskImage_c \<Rightarrow> bool" where
  "file_holds D m i f s \<longleftrightarrow> (\<exists>e\<le>m. tail_file D e i (length f) s \<and> root_block D < e - blocks_for (length f) \<and> read_file i s = f)"

definition image_holds :: "nat \<Rightarrow> nat \<Rightarrow> dirent list \<Rightarrow> nat \<Rightarrow> bytes list \<Rightarrow> DiskImage_c \<Rightarrow> bool" where
  "image_holds D m es fin fs s \<longleftrightarrow> fs_layout D s \<and> m < 2 ^ 32 \<and> root_block D < m \<and> 4 + length fs \<le> INodeCnt D 4 \<and>
     dir_inode D 2 (root_block D) es fin s \<and> (\<forall>j<length fs. file_holds D m (4 + j) (fs ! j) s)"

lemma image_holds_reads:
  assumes "image_holds D m es fin fs s"
  shows "read_dir 2 s = es" "j < length fs \<Longrightarrow> read_file (4 + j) s = fs ! j"
  using assms read_dir_inode[of D s 2] by (auto simp: image_holds_def file_holds_def)

lemma file_holds_touches:
  assumes s: "fs_state D m k s" "fs_state D m' k' s'" "m \<le> m'" and h: "file_holds D m i f s"
    and t: "touches D I (insert (root_block D) {m..}) s s'" "i \<notin> I" "i < INodeCnt D 4"
  shows "file_holds D m' i f s'"
proof -
  obtain e where e: "e \<le> m" "tail_file D e i (length f) s" "root_block D < e - blocks_for (length f)" "read_file i s = f"
    using h by (auto simp: file_holds_def)
  have "insert (root_block D) {m..} \<inter> {e - blocks_for (length f)..<e} = {}" using e(1,3) by auto
  from read_file_touches[OF s(1,2) e(1) _ e(2) t this] e s(3) have "read_file i s' = f" by simp
  then show ?thesis
    unfolding file_holds_def using e s(3) tail_file_touches[OF e(2) t] by (intro exI[of _ e]) simp
qed

section \<open>Building an image\<close>

lemma lost_found_words: "entry_words lost_found = 5" "length lost_found < 1024"
  by (simp_all add: lost_found_def entry_words_def)

definition first_entries :: "dirent list" where
  "first_entries = [(2, dot), (2, dotdot), (3, lost_found)]"

definition disk_blocks :: "uint64 \<Rightarrow> nat" where
  "disk_blocks bytes = blocks_for (unat bytes)"

lemma disk_size:
  assumes "1024 * 1024 \<le> n" "n \<le> 2 ^ 43"
  shows "unat (n + of_nat BSIZE - 1) div BSIZE = disk_blocks n" "256 \<le> disk_blocks n" "disk_blocks n \<le> 2 ^ 31"
proof -
  have n: "1024 * 1024 \<le> unat n" "unat n \<le> 2 ^ 43"
    using assms by (simp_all add: word_le_nat_alt)
  have "n + of_nat BSIZE - 1 = of_nat (unat n + 4095)" by (simp add: BSIZE_def cBlockSize_def)
  moreover have "unat (of_nat (unat n + 4095) :: uint64) = unat n + 4095" using n(2) by (intro unat_of_nat_small) simp
  ultimately show "unat (n + of_nat BSIZE - 1) div BSIZE = disk_blocks n"
    by (simp only: disk_blocks_def blocks_for_def) (simp add: BSIZE_def cBlockSize_def)
  show "256 \<le> disk_blocks n" "disk_blocks n \<le> 2 ^ 31"
    using n by (auto simp: disk_blocks_def blocks_for_def BSIZE_def cBlockSize_def)
qed

lemma MakeFs_holds:
  assumes n: "1024 * 1024 \<le> n" "n \<le> 2 ^ 43" and names: "length n1 \<le> 8" "length n2 \<le> 8" "length n3 \<le> 8"
  defines "D \<equiv> disk_blocks n"
  obtains s where "MakeFs n n1 n2 n3 ma mi 4 (blank_image 0) = (Inr (), s)" "fs_state D (SFSStart D 4 + 3) 4 s"
    "image_holds D (SFSStart D 4 + 3) first_entries 13 [] s"
proof -
  note D = disk_size(2,3)[OF n, folded D_def]
  note cap = image_big_enough(1)[OF D(1)]
  obtain s1 where 1: "CreateSuperBlock n1 n2 n3 ma mi 4 (blank_image D) = (Inr (), s1)" "fs_state D (Suc (SFSStart D 4)) 2 s1"
    by (rule CreateSuperBlock_state[OF D names])
  have "Suc (SFSStart D 4) < map_cap D" using cap by simp
  from MakeRoot_state[OF 1(2) this] obtain s2 where 2: "MakeRoot s1 = (Inr 2, s2)" "fs_state D (Suc (Suc (SFSStart D 4))) 3 s2"
    "dir_inode D 2 (Suc (SFSStart D 4)) [(2, dot), (2, dotdot)] 8 s2" .
  have i: "3 < INodeCnt D 4" using layout_sizes(4)[OF D] by simp
  have m: "Suc (Suc (SFSStart D 4)) < map_cap D" "Suc (SFSStart D 4) < Suc (Suc (SFSStart D 4))" using cap by simp_all
  have w: "8 + entry_words lost_found \<le> cBlockSize" by (simp add: lost_found_words cBlockSize_def)
  obtain s3 where 3: "MkDir (of_nat 2) lost_found RT_UID RT_GID RT_MODE s2 = (Inr (of_nat 3), s3)"
    "fs_state D (Suc (Suc (Suc (SFSStart D 4)))) (Suc 3) s3"
    "dir_inode D 2 (Suc (SFSStart D 4)) ([(2, dot), (2, dotdot)] @ [(3, lost_found)]) (8 + entry_words lost_found) s3"
    by (rule MkDir_entry[OF 2(2) i m(1) _ _ 2(3) m(2) lost_found_words(2) w]) simp_all
  have blank: "blank_image 0\<lparr>mDiskSizeInBlocks := D\<rparr> = blank_image D" by (simp add: blank_image_def)
  have "MakeFs n n1 n2 n3 ma mi 4 (blank_image 0) = (Inr (), s3)"
    using 1(1) 2(1) 3(1) by (simp add: MakeFs_def Let_def disk_size(1)[OF n, folded D_def] blank bindE_def returnE_def)
  moreover have "fs_state D (SFSStart D 4 + 3) 4 s3" using 3(2) by (simp add: eval_nat_numeral)
  moreover have "image_holds D (SFSStart D 4 + 3) first_entries 13 [] s3"
    using 3(3) i fs_state_layout[OF 3(2)] fs_state_sizes(3)[OF 3(2)]
    by (simp add: image_holds_def root_block_def first_entries_def lost_found_words)
  ultimately show ?thesis using that by blast
qed

text \<open>The files of the command line that are there, with their names in the image.\<close>

definition file_entries :: "nat \<Rightarrow> (path \<times> bytes) list \<Rightarrow> dirent list" where
  "file_entries k cps = zip [k..<k + length cps] (List.map snd cps)"

lemma CopyFiles_hold:
  assumes "fs_state D m (4 + length L) s" "image_holds D m es fin L s" "SFSStart D 4 + 3 \<le> m"
    and "list_all2 (\<lambda>cp f. fs (fst cp) = Some f) cps files"
    and "4 + length L + length cps \<le> INodeCnt D 4" "\<forall>cp\<in>set cps. length (snd cp) < 1024"
    and "fin + (\<Sum>cp\<leftarrow>cps. entry_words (snd cp)) \<le> cBlockSize" "m + (\<Sum>f\<leftarrow>files. blocks_for (length f)) \<le> map_cap D"
  shows "\<exists>s'. CopyFiles fs cps s = (Inr (), s') \<and>
     fs_state D (m + (\<Sum>f\<leftarrow>files. blocks_for (length f))) (4 + length L + length cps) s' \<and>
     image_holds D (m + (\<Sum>f\<leftarrow>files. blocks_for (length f))) (es @ file_entries (4 + length L) cps)
       (fin + (\<Sum>cp\<leftarrow>cps. entry_words (snd cp))) (L @ files) s'"
  using assms
proof (induction cps arbitrary: m s es fin L files)
  case Nil
  then show ?case by (simp add: returnE_def file_entries_def)
next
  case (Cons cp cps)
  then obtain f fl where files: "files = f # fl" and f: "fs (fst cp) = Some f"
    and rest: "list_all2 (\<lambda>cp f. fs (fst cp) = Some f) cps fl" by (auto simp: list_all2_Cons1)
  let ?k = "4 + length L"
  have k: "?k < INodeCnt D 4" using Cons.prems(5) by simp
  have d: "dir_inode D 2 (root_block D) es fin s" "root_block D < m"
    using Cons.prems(2,3) by (simp_all add: image_holds_def)
  have nm: "length (snd cp) < 1024" "fin + entry_words (snd cp) \<le> cBlockSize" using Cons.prems(6,7) by simp_all
  have cap: "m + blocks_for (length f) \<le> map_cap D" using Cons.prems(8) by (simp add: files)
  let ?m = "m + blocks_for (length f)"
  have two: "(of_nat 2 :: uint32) = 2" by simp
  obtain s1 where c: "CopyFile fs (of_nat 2) (snd cp) (fst cp) s = (Inr (), s1)" and s1: "fs_state D ?m (Suc ?k) s1"
    "dir_inode D 2 (root_block D) (es @ [(?k, snd cp)]) (fin + entry_words (snd cp)) s1" "tail_file D ?m ?k (length f) s1"
    "read_file ?k s1 = f" "touches D {2, ?k} (insert (root_block D) {m..}) s s1"
    by (rule CopyFile_entry[where fs = fs and path = "fst cp" and f = f, OF Cons.prems(1) k _ _ d nm f cap]) simp_all
  have h1: "image_holds D ?m (es @ [(?k, snd cp)]) (fin + entry_words (snd cp)) (L @ [f]) s1"
    unfolding image_holds_def
  proof (intro conjI allI impI)
    show "fs_layout D s1" by (rule fs_state_layout[OF s1(1)])
    show "?m < 2 ^ 32" using fs_state_sizes(3)[OF s1(1)] by simp
    show "root_block D < ?m" using d(2) by simp
    show "4 + length (L @ [f]) \<le> INodeCnt D 4" using k by simp
    show "dir_inode D 2 (root_block D) (es @ [(?k, snd cp)]) (fin + entry_words (snd cp)) s1" by (rule s1(2))
    fix j
    assume j: "j < length (L @ [f])"
    show "file_holds D ?m (4 + j) ((L @ [f]) ! j) s1"
    proof (cases "j < length L")
      case True
      then have "file_holds D m (4 + j) (L ! j) s" using Cons.prems(2) by (simp add: image_holds_def)
      from file_holds_touches[OF Cons.prems(1) s1(1) _ this s1(5)] True k show ?thesis by (simp add: nth_append)
    next
      case False
      then have "j = length L" using j by simp
      moreover have "root_block D < ?m - blocks_for (length f)" using d(2) by simp
      ultimately show ?thesis using s1(3,4) by (auto simp: file_holds_def)
    qed
  qed
  have "\<exists>s'. CopyFiles fs cps s1 = (Inr (), s') \<and>
     fs_state D (?m + (\<Sum>f\<leftarrow>fl. blocks_for (length f))) (4 + length (L @ [f]) + length cps) s' \<and>
     image_holds D (?m + (\<Sum>f\<leftarrow>fl. blocks_for (length f))) ((es @ [(?k, snd cp)]) @ file_entries (4 + length (L @ [f])) cps)
       (fin + entry_words (snd cp) + (\<Sum>cp\<leftarrow>cps. entry_words (snd cp))) ((L @ [f]) @ fl) s'"
    by (rule Cons.IH[OF _ h1 _ rest]) (use s1(1) Cons.prems(3,5-8) in \<open>simp_all add: files\<close>)
  moreover have "file_entries ?k (cp # cps) = (?k, snd cp) # file_entries (Suc ?k) cps"
    by (simp add: file_entries_def upt_conv_Cons add.assoc del: upt_Suc)
  ultimately show ?case using c by (auto simp: files two bindE_def add.assoc)
qed


section \<open>The image file\<close>

text \<open>A disk that is read from the bytes of an image file.\<close>

definition load_image :: "bytes \<Rightarrow> DiskImage_c" where
  "load_image f =
     \<lparr>mStorage = (\<lambda>b x. if x < BSIZE \<and> b * BSIZE + x < length f then f ! (b * BSIZE + x) else 0),
      mDiskSizeInBlocks = length f div BSIZE\<rparr>"

definition same_bytes :: "memory \<Rightarrow> memory \<Rightarrow> bool" where
  "same_bytes a b \<longleftrightarrow> (\<forall>x<BSIZE. a x = b x)"

definition agree :: "nat set \<Rightarrow> DiskImage_c \<Rightarrow> DiskImage_c \<Rightarrow> bool" where
  "agree B s s' \<longleftrightarrow> mDiskSizeInBlocks s' = mDiskSizeInBlocks s \<and> (\<forall>b\<in>B. same_bytes (mStorage s' b) (mStorage s b))"

lemma agree_block: "agree B s s' \<Longrightarrow> b \<in> B \<Longrightarrow> same_bytes (mStorage s' b) (mStorage s b)"
  by (simp add: agree_def)

lemma same_bytes_word: "same_bytes a b \<Longrightarrow> w < cBlockSize \<Longrightarrow> word_at w a = word_at w b"
  unfolding word_at_def by (intro load64_eqI) (auto simp: same_bytes_def BSIZE_def)

lemma same_bytes_field: "same_bytes a b \<Longrightarrow> base + tOfs f < cBlockSize \<Longrightarrow> IntField_get f base a = IntField_get f base b"
  by (simp add: IntField_get_def same_bytes_word)

lemma data_bytes_nth: "b < length bs \<Longrightarrow> x < BSIZE \<Longrightarrow> data_bytes bs s ! (b * BSIZE + x) = mStorage s (bs ! b) x"
proof (induction bs arbitrary: b)
  case (Cons c bs)
  then show ?case by (cases b) (auto simp: nth_append block_bytes_def)
qed simp

lemma load_image_agrees: "mDiskSizeInBlocks s = D \<Longrightarrow> agree {..<D} s (load_image (data_bytes [0..<D] s))"
proof -
  assume D: "mDiskSizeInBlocks s = D"
  have "b * BSIZE + x < D * BSIZE" if "b < D" "x < BSIZE" for b x
  proof -
    have "b * BSIZE + x < Suc b * BSIZE" using that(2) by simp
    also have "\<dots> \<le> D * BSIZE" using that(1) by (intro mult_le_mono1) simp
    finally show ?thesis .
  qed
  moreover have "D * BSIZE div BSIZE = D" by (simp add: BSIZE_def cBlockSize_def)
  ultimately show ?thesis
    using D by (auto simp: agree_def same_bytes_def load_image_def data_bytes_nth)
qed

lemma WriteToDisk_loop_writes:
  assumes "hs_writing p f F"
  shows "\<exists>fs'. WriteToDisk_loop bs s F = (Inr (), fs') \<and> fs' p = Some (f @ data_bytes bs s) \<and> (\<forall>q. q \<noteq> p \<longrightarrow> fs' q = snd F q)"
  using assms
proof (induction bs arbitrary: f F)
  case Nil
  then show ?case by (auto simp: hs_writing_def split: prod.splits)
next
  case (Cons b bs)
  let ?F = "hs_write (block_bytes (mStorage s b)) F"
  have w: "hs_writing p (f @ block_bytes (mStorage s b)) ?F" by (rule hs_write_append[OF Cons.prems])
  then have "\<not> hsFail (fst ?F)" "\<not> hsBad (fst ?F)" by (auto simp: hs_writing_def hs_good_def split: prod.splits)
  then show ?case using Cons.IH[OF w] hs_write_other[OF Cons.prems] by (auto simp: Let_def)
qed

lemma WriteToDisk_file: "WriteToDisk p s fs = (Inr (), fs(p \<mapsto> data_bytes [0..<mDiskSizeInBlocks s] s))"
proof -
  have "hs_writing p [] (hs_open OpenOut p (closed_stream, fs))" by (intro hs_open_out) (simp add: closed_stream_def)
  from WriteToDisk_loop_writes[OF this, of "[0..<mDiskSizeInBlocks s]" s]
  obtain fs' where w: "WriteToDisk p s fs = (Inr (), fs')"
    "fs' p = Some (data_bytes [0..<mDiskSizeInBlocks s] s)"
    "\<forall>q. q \<noteq> p \<longrightarrow> fs' q = snd (hs_open OpenOut p (closed_stream, fs)) q"
    unfolding WriteToDisk_def append_Nil by blast
  have "snd (hs_open OpenOut p (closed_stream, fs)) q = fs q" if "q \<noteq> p" for q
    using that by (simp add: hs_open_def closed_stream_def)
  with w show ?thesis by (auto simp: fun_eq_iff)
qed

text \<open>\<open>Finalize\<close> fills the blocks of the copies, and no others.\<close>

lemma Finalize_blocks:
  assumes "fs_layout D s"
  shows "mStorage (Finalize s) b = (if SUPERB < b \<and> b < SUPERB + NC1NSUPER then mStorage s SUPERB else mStorage s b)"
    "mDiskSizeInBlocks (Finalize s) = mDiskSizeInBlocks s"
proof -
  have n: "unat (sb_get s_nscpys s) = NC1NSUPER"
    using assms by (simp add: fs_layout_def NC1NSUPER_def)
  have "(\<forall>b. mStorage (Finalize s) b = (if SUPERB < b \<and> b < SUPERB + NC1NSUPER then mStorage s SUPERB else mStorage s b)) \<and>
    mDiskSizeInBlocks (Finalize s) = mDiskSizeInBlocks s"
    unfolding Finalize_def n
    by (rule for_loop_invariant[where I = "\<lambda>n u. (\<forall>b. mStorage u b = (if SUPERB < b \<and> b < SUPERB + n then mStorage s SUPERB else mStorage s b)) \<and>
        mDiskSizeInBlocks u = mDiskSizeInBlocks s"]) (auto simp: NC1NSUPER_def)
  then show "mStorage (Finalize s) b = (if SUPERB < b \<and> b < SUPERB + NC1NSUPER then mStorage s SUPERB else mStorage s b)"
    "mDiskSizeInBlocks (Finalize s) = mDiskSizeInBlocks s" by simp_all
qed

text \<open>The disk that is read from the written file: the blocks of the image but for the copies.\<close>

definition live_blocks :: "nat \<Rightarrow> nat set" where
  "live_blocks m = insert SUPERB {MapStart..<m}"

lemma written_agrees:
  assumes l: "fs_layout D s" and m: "m \<le> D"
  shows "agree (live_blocks m) s (load_image (data_bytes [0..<D] (Finalize s)))"
proof -
  have D: "256 \<le> D" "mDiskSizeInBlocks s = D" using l by (auto simp: fs_layout_def)
  have a: "agree {..<D} (Finalize s) (load_image (data_bytes [0..<D] (Finalize s)))"
    by (rule load_image_agrees) (simp add: Finalize_blocks[OF l] D)
  have b: "b \<in> {..<D}" "mStorage (Finalize s) b = mStorage s b" if "b \<in> live_blocks m" for b
    using that m D(1) by (auto simp: live_blocks_def Finalize_blocks[OF l] MapStart_def SUPERB_def)
  show ?thesis
    unfolding agree_def
  proof (intro conjI ballI)
    show "mDiskSizeInBlocks (load_image (data_bytes [0..<D] (Finalize s))) = mDiskSizeInBlocks s"
      using a by (simp add: agree_def Finalize_blocks(2)[OF l])
    show "same_bytes (mStorage (load_image (data_bytes [0..<D] (Finalize s))) b) (mStorage s b)" if "b \<in> live_blocks m" for b
      using agree_block[OF a b(1)[OF that]] by (simp add: b(2)[OF that])
  qed
qed

lemma written_copies:
  assumes l: "fs_layout D s" and i: "i < NC1NSUPER"
  defines "im \<equiv> load_image (data_bytes [0..<D] (Finalize s))"
  shows "same_bytes (mStorage im (SUPERB + i)) (mStorage im SUPERB)"
proof -
  have D: "256 \<le> D" "mDiskSizeInBlocks s = D" using l by (auto simp: fs_layout_def)
  have a: "agree {..<D} (Finalize s) im"
    unfolding im_def by (rule load_image_agrees) (simp add: Finalize_blocks[OF l] D)
  have "SUPERB + i \<in> {..<D}" "SUPERB \<in> {..<D}" using i D(1) by (auto simp: SUPERB_def NC1NSUPER_def)
  from this[THEN agree_block[OF a]] show ?thesis
    using i by (auto simp: Finalize_blocks[OF l] same_bytes_def)
qed

subsection \<open>What a reader of the file sees\<close>

lemma agree_live:
  assumes "fs_layout D s" "SFSStart D 4 < m"
  shows "SUPERB \<in> live_blocks m" "DynamicBlockStart D \<in> live_blocks m" "INodeStart D \<in> live_blocks m"
    "is_map_block D b \<Longrightarrow> b \<in> live_blocks m" "i < INodeCnt D 4 \<Longrightarrow> inode_block D i \<in> live_blocks m"
    "SFSStart D 4 < b \<Longrightarrow> b < m \<Longrightarrow> b \<in> live_blocks m"
  using assms(2) block_order(2,3)[of D] block_order(4)[of D 4] inode_block_range[of i D]
  by (auto simp: live_blocks_def is_map_block_def)

lemma agree_layout:
  assumes l: "fs_layout D s" and a: "agree B s s'" "SUPERB \<in> B"
  shows "fs_layout D s'"
proof -
  have "sb_get f s' = sb_get f s" if "tOfs (nc1filsys_at f) < cBlockSize" for f
    using that agree_block[OF a] by (simp add: sb_get_def same_bytes_field)
  then show ?thesis using l a(1) by (simp add: fs_layout_def agree_def cBlockSize_def at_word_def)
qed

lemma agree_ino_get:
  assumes "agree (live_blocks m) s s'" "fs_layout D s" "SFSStart D 4 < m" "i < INodeCnt D 4" "tOfs (cdinode_at f) < 32"
  shows "ino_get f (inode_ptr D i) s' = ino_get f (inode_ptr D i) s"
proof -
  have "i mod 16 * 32 + tOfs (cdinode_at f) < cBlockSize"
    using assms(5) mod_less_divisor[of 16 i] by (simp add: cBlockSize_def)
  then show ?thesis
    using agree_block[OF assms(1) agree_live(5)[OF assms(2,3,4)]] by (simp add: ino_get_def same_bytes_field)
qed

lemma agree_tail_file:
  assumes "agree (live_blocks m) s s'" "fs_layout D s" "SFSStart D 4 < m" "i < INodeCnt D 4"
  shows "tail_file D e i sz s' = tail_file D e i sz s" "ino_get cdi_mode (inode_ptr D i) s' = ino_get cdi_mode (inode_ptr D i) s"
proof -
  have "ino_get f (inode_ptr D i) s' = ino_get f (inode_ptr D i) s" if "inode_members f" for f
    using agree_ino_get[OF assms] inode_members_fit[OF that] by simp
  moreover have "inode_members (cdi_addr e nblks)" "inode_members (cdi_addr e blk)" if "e < 8" for e
    using that by (auto simp: inode_members_def)
  moreover have "inode_members cdi_blocks" "inode_members cdi_size" "inode_members cdi_mode"
    by (simp_all add: inode_members_def)
  ultimately show "tail_file D e i sz s' = tail_file D e i sz s"
    "ino_get cdi_mode (inode_ptr D i) s' = ino_get cdi_mode (inode_ptr D i) s"
    by (simp_all add: tail_file_def Let_def)
qed

lemma agree_file_holds:
  assumes a: "agree (live_blocks m) s s'" and l: "fs_layout D s" and m: "SFSStart D 4 < m" "m < 2 ^ 32" and i: "i < INodeCnt D 4"
    and h: "file_holds D m i f s"
  shows "file_holds D m i f s'"
proof -
  obtain e where e: "e \<le> m" "tail_file D e i (length f) s" "root_block D < e - blocks_for (length f)" "read_file i s = f"
    using h by (auto simp: file_holds_def)
  have t: "tail_file D e i (length f) s'" using e(2) agree_tail_file(1)[OF a l m(1) i] by simp
  have l': "fs_layout D s'" by (rule agree_layout[OF l a agree_live(1)[OF l m(1)]])
  have "block_bytes (mStorage s' b) = block_bytes (mStorage s b)" if "b \<in> set [e - blocks_for (length f)..<e]" for b
  proof -
    have "b \<in> live_blocks m" using that e(1,3) by (intro agree_live(6)[OF l m(1)]) (auto simp: root_block_def)
    from agree_block[OF a this] show ?thesis by (simp add: same_bytes_def block_bytes_def)
  qed
  then have "data_bytes [e - blocks_for (length f)..<e] s' = data_bytes [e - blocks_for (length f)..<e] s"
    unfolding data_bytes_def by (intro arg_cong[where f = concat] map_cong) simp_all
  moreover have "e < 2 ^ 32" using e(1) m(2) by simp
  ultimately have "read_file i s' = read_file i s"
    using tail_file_reads(2)[OF l _ e(2)] tail_file_reads(2)[OF l' _ t] by simp
  then show ?thesis using e t by (auto simp: file_holds_def)
qed

lemma dir_block_cong:
  assumes "same_bytes a b" "dir_block b es fin"
  shows "dir_block a es fin"
proof -
  obtain front e loc where d: "es = front @ [e]" "dir_path b 0 front loc" "entry_at b loc e (cBlockSize - loc)"
    "fin = loc + entry_words (snd e)" "fin \<le> cBlockSize"
    using assms(2) by (auto simp: dir_block_def)
  have same: "a x = b x" if "x < 8 * fin" for x
    using that d(5) assms(1) by (simp add: same_bytes_def BSIZE_def)
  have "dir_path a 0 front loc" using d(2,4) same by (subst dir_path_frame[where b = b]) simp_all
  moreover have "entry_at a loc e (cBlockSize - loc)" using d(3,4) same by (subst entry_at_frame[where b = b]) simp_all
  ultimately show ?thesis using d by (auto simp: dir_block_def)
qed

lemma agree_dir_inode:
  assumes a: "agree (live_blocks m) s s'" and l: "fs_layout D s" and m: "SFSStart D 4 < m" "bno < m" and i: "i < INodeCnt D 4"
    and d: "dir_inode D i bno es fin s"
  shows "dir_inode D i bno es fin s'"
proof -
  have "ino_get f (inode_ptr D i) s' = ino_get f (inode_ptr D i) s" if "inode_members f" for f
    using agree_ino_get[OF a l m(1) i] inode_members_fit[OF that] by simp
  moreover have "inode_members (cdi_addr e nblks)" "inode_members (cdi_addr e blk)" if "e < 8" for e
    using that by (auto simp: inode_members_def)
  moreover have "inode_members cdi_size" "inode_members cdi_mode" by (simp_all add: inode_members_def)
  moreover have "same_bytes (mStorage s' bno) (mStorage s bno)"
    using d m(2) by (intro agree_block[OF a] agree_live(6)[OF l m(1)]) (auto simp: dir_inode_def Let_def)
  ultimately show ?thesis using d dir_block_cong by (auto simp: dir_inode_def Let_def)
qed

lemma agree_image_holds:
  assumes a: "agree (live_blocks m) s s'" and h: "image_holds D m es fin fs s"
  shows "image_holds D m es fin fs s'"
proof -
  have l: "fs_layout D s" and m: "SFSStart D 4 < m" "root_block D < m" "m < 2 ^ 32" and k: "4 + length fs \<le> INodeCnt D 4"
    and d: "dir_inode D 2 (root_block D) es fin s" and f: "\<forall>j<length fs. file_holds D m (4 + j) (fs ! j) s"
    using h by (auto simp: image_holds_def root_block_def)
  have "file_holds D m (4 + j) (fs ! j) s'" if "j < length fs" for j
    using that k f by (intro agree_file_holds[OF a l m(1,3)]) auto
  moreover have "dir_inode D 2 (root_block D) es fin s'" using k by (intro agree_dir_inode[OF a l m(1,2) _ d]) simp
  ultimately show ?thesis
    using agree_layout[OF l a agree_live(1)[OF l m(1)]] m k by (simp add: image_holds_def)
qed



section \<open>A full disk\<close>

text \<open>
  The map has a bit for each number below \<open>map_cap D\<close>, which is not below the size of the disk unless
  the size is rounded down. When all blocks of the disk are used the next one is past its end, and
  \<open>WriteToDisk\<close> does not write it; only at the end of the map the allocation fails.
\<close>

lemma GetFreeBlock_past_end:
  assumes "fs_state D D k s" "D < map_cap D"
  shows "\<exists>s'. GetFreeBlock s = (Inr D, s')"
proof -
  from GetFreeBlock_state[OF assms] obtain s' where "GetFreeBlock s = (Inr D, s')" .
  then show ?thesis ..
qed

lemma GetFreeINodeIdx_past_end:
  assumes s: "fs_state D m (INodeCnt D 4) s" and k: "INodeCnt D 4 < cBlockSize * 64"
  shows "\<exists>s'. GetFreeINodeIdx s = (Inr (of_nat (INodeCnt D 4)), s')"
proof -
  note l = fs_state_layout[OF s]
  have "GetFreeEntry (INodeStart D) 1 s = (Inr (INodeCnt D 4), s)"
    using s k by (intro GetFreeEntry_least) (auto simp: fs_state_def)
  moreover have "\<not> map_bit (INodeStart D) (INodeCnt D 4) s" using s k by (simp add: fs_state_def)
  from AllocateINodeIdx_free[OF l k this] obtain s' where "AllocateINodeIdx (INodeCnt D 4) s = (Inr (), s')" .
  ultimately show ?thesis by (simp add: GetFreeINodeIdx_def bindE_def returnE_def layout_places[OF l])
qed

section \<open>The program\<close>

text \<open>What the options ask for fits on the disk that they describe.\<close>

definition blocks_used :: "mkfs_options \<Rightarrow> bytes list \<Rightarrow> nat" where
  "blocks_used opts files = SFSStart (disk_blocks (oImageSize opts)) 4 + 3 + (\<Sum>f\<leftarrow>files. blocks_for (length f))"

definition image_fits :: "mkfs_options \<Rightarrow> bytes list \<Rightarrow> bool" where
  "image_fits opts files \<longleftrightarrow> (let D = disk_blocks (oImageSize opts) in
     oImageSize opts \<le> 2 ^ 43 \<and> (\<forall>cp\<in>set (oFileCopyList opts). length (snd cp) < 1024) \<and>
     13 + (\<Sum>cp\<leftarrow>oFileCopyList opts. entry_words (snd cp)) \<le> cBlockSize \<and>
     4 + length files \<le> INodeCnt D 4 \<and> blocks_used opts files \<le> min D (map_cap D))"

lemma mkfs_main_image:
  assumes p: "parse_args gone args default_options = Inr opts0" "check_options opts0 = Inr opts"
    and f: "list_all2 (\<lambda>cp f. fs (fst cp) = Some f) (oFileCopyList opts) files" and fits: "image_fits opts files"
  defines "D \<equiv> disk_blocks (oImageSize opts)" and "m \<equiv> blocks_used opts files"
  obtains image s where "mkfs_main gone args fs = (Inr (), fs(oImgFileName opts \<mapsto> image))" "length image = D * BSIZE"
    "agree (live_blocks m) s (load_image image)" "fs_state D m (4 + length files) s"
    "\<And>i. i < NC1NSUPER \<Longrightarrow> same_bytes (mStorage (load_image image) (SUPERB + i)) (mStorage (load_image image) SUPERB)"
    "image_holds D m (first_entries @ file_entries 4 (oFileCopyList opts))
       (13 + (\<Sum>cp\<leftarrow>oFileCopyList opts. entry_words (snd cp))) files s"
proof -
  have o: "1024 * 1024 \<le> oImageSize opts" "length (oFsName opts) \<le> 8" "length (oPartitionName opts) \<le> 8"
    using p(2) by (auto simp: check_options_def Let_def not_less split: if_splits)
  have n: "oImageSize opts \<le> 2 ^ 43" and fit: "m \<le> D" "m \<le> map_cap D" "4 + length files \<le> INodeCnt D 4"
    and w: "\<forall>cp\<in>set (oFileCopyList opts). length (snd cp) < 1024"
      "13 + (\<Sum>cp\<leftarrow>oFileCopyList opts. entry_words (snd cp)) \<le> cBlockSize"
    using fits by (auto simp: image_fits_def Let_def D_def m_def)
  have len: "length (oFileCopyList opts) = length files" using f by (rule list_all2_lengthD)
  obtain s1 where 1: "MakeFs (oImageSize opts) (oFsName opts) (oFsName opts) (oPartitionName opts) (oMajorDev opts)
      (oMinorDev opts) 4 (blank_image 0) = (Inr (), s1)" "fs_state D (SFSStart D 4 + 3) 4 s1"
    "image_holds D (SFSStart D 4 + 3) first_entries 13 [] s1"
    using MakeFs_holds[OF o(1) n o(2,2,3), folded D_def] by metis
  have "fs_state D (SFSStart D 4 + 3) (4 + length []) s1" using 1(2) by simp
  from CopyFiles_hold[OF this 1(3) order_refl f _ w(1,2)] fit len
  obtain s where 2: "CopyFiles fs (oFileCopyList opts) s1 = (Inr (), s)" "fs_state D m (4 + length files) s"
    "image_holds D m (first_entries @ file_entries 4 (oFileCopyList opts))
       (13 + (\<Sum>cp\<leftarrow>oFileCopyList opts. entry_words (snd cp))) files s"
    by (auto simp: m_def D_def blocks_used_def)
  have l: "fs_layout D s" by (rule fs_state_layout[OF 2(2)])
  have b: "build_image opts fs = (Inr (), s)" using 1(1) 2(1) by (simp add: build_image_def bindE_def)
  have size: "mDiskSizeInBlocks (Finalize s) = D" using l by (simp add: Finalize_blocks(2)[OF l] fs_layout_def)
  have "mkfs_main gone args fs = (Inr (), fs(oImgFileName opts \<mapsto> data_bytes [0..<D] (Finalize s)))"
    using p b by (simp add: mkfs_main_def WriteToDisk_file size)
  moreover have "length (data_bytes [0..<D] (Finalize s)) = D * BSIZE" by simp
  ultimately show ?thesis using that[OF _ _ written_agrees[OF l fit(1)] 2(2) written_copies[OF l] 2(3)] by blast
qed

text \<open>C26: What the program leaves in the image file when its options are accepted, the local files are
  there and all fits on the disk: the call succeeds and changes no other file, the file is as long as
  the disk, the root directory lists the entries of an empty file system and then the names of the
  copied files in the order of the command line with the i-nodes from 4 on, and the data behind each of
  these i-nodes are the bytes of the local file. The ten copies of the super block are the same.\<close>

theorem mkfs_files_read_back:
  assumes "parse_args gone args default_options = Inr opts0" "check_options opts0 = Inr opts"
    and "list_all2 (\<lambda>cp f. fs (fst cp) = Some f) (oFileCopyList opts) files" and "image_fits opts files"
  shows "\<exists>image. mkfs_main gone args fs = (Inr (), fs(oImgFileName opts \<mapsto> image)) \<and>
    length image = disk_blocks (oImageSize opts) * BSIZE \<and>
    read_dir 2 (load_image image) = first_entries @ file_entries 4 (oFileCopyList opts) \<and>
    (\<forall>j<length files. read_file (4 + j) (load_image image) = files ! j) \<and>
    (\<forall>i<NC1NSUPER. same_bytes (mStorage (load_image image) (SUPERB + i)) (mStorage (load_image image) SUPERB))"
proof -
  obtain image s where i: "mkfs_main gone args fs = (Inr (), fs(oImgFileName opts \<mapsto> image))"
    "length image = disk_blocks (oImageSize opts) * BSIZE"
    "agree (live_blocks (blocks_used opts files)) s (load_image image)"
    "\<forall>i<NC1NSUPER. same_bytes (mStorage (load_image image) (SUPERB + i)) (mStorage (load_image image) SUPERB)"
    "image_holds (disk_blocks (oImageSize opts)) (blocks_used opts files) (first_entries @ file_entries 4 (oFileCopyList opts))
       (13 + (\<Sum>cp\<leftarrow>oFileCopyList opts. entry_words (snd cp))) files s"
    using mkfs_main_image[OF assms] by metis
  from image_holds_reads[OF agree_image_holds[OF i(3,5)]] i(1,2,4) show ?thesis by blast
qed


text \<open>
  A disk of 1 MB with one file of three bytes: \<open>-o i -s 1mb -cp f g\<close>.
\<close>

definition sample_image_args :: "bytes list" where
  "sample_image_args = [opt_o, [0x69], opt_s, [0x31, 0x6d, 0x62], opt_cp, [0x66], [0x67]]"

definition sample_image_files :: host_files where
  "sample_image_files = [[0x66] \<mapsto> [1, 2, 3]]"

definition sample_image_options :: mkfs_options where
  "sample_image_options = \<lparr>oImgFileName = [0x69], oFsName = rootfs, oPartitionName = root_name, oImageSize = 1024 * 1024,
     oFileCopyList = [([0x66], [0x67])], oMajorDev = 34, oMinorDev = 0\<rparr>"

lemma sample_image_accepted:
  "parse_args (\<lambda>x. x) sample_image_args default_options = Inr (sample_image_options\<lparr>oFsName := [], oPartitionName := []\<rparr>)"
  "check_options (sample_image_options\<lparr>oFsName := [], oPartitionName := []\<rparr>) = Inr sample_image_options"
  by (simp_all add: sample_image_args_def sample_image_options_def opt_o_def opt_s_def opt_cp_def opt_f_def opt_p_def opt_major_def
      opt_minor_def default_options_def parse_size_def strtoul10_def is_space_byte_def is_digit_byte_def
      check_options_def rootfs_def root_name_def)

lemma sample_image_sizes:
  "disk_blocks (oImageSize sample_image_options) = 256" "SFSStart 256 4 = 18" "INodeCnt 256 4 = 64" "map_cap 256 = 32768"
  "blocks_used sample_image_options [[1, 2, 3]] = 22"
  by (simp_all add: sample_image_options_def disk_blocks_def blocks_for_def BSIZE_def cBlockSize_def SFSStart_def INodeStart_def
      DynamicBlockStart_def MapStart_def MapBlockCnt_def INodeBlockCnt_def INodeCnt_def cdinode_size_def SUPERB_def
      NC1NSUPER_def map_cap_def blocks_used_def)

lemma sample_image_fits: "image_fits sample_image_options [[1, 2, 3]]"
  by (simp add: image_fits_def sample_image_sizes) (simp add: sample_image_options_def entry_words_def cBlockSize_def)

lemma sample_image_there: "list_all2 (\<lambda>cp f. sample_image_files (fst cp) = Some f) (oFileCopyList sample_image_options) [[1, 2, 3]]"
  by (simp add: sample_image_files_def sample_image_options_def)

theorem mkfs_files_read_back_witness:
  "\<exists>image. mkfs_main (\<lambda>x. x) sample_image_args sample_image_files = (Inr (), sample_image_files([0x69] \<mapsto> image)) \<and>
    read_dir 2 (load_image image) = [(2, dot), (2, dotdot), (3, lost_found), (4, [0x67])] \<and>
    read_file 4 (load_image image) = [1, 2, 3]"
  using mkfs_files_read_back[OF sample_image_accepted sample_image_there sample_image_fits]
  by (auto simp: sample_image_options_def first_entries_def file_entries_def)


end
