(* ===== verification/Spec2Isabelle.thy ===== *)
theory Spec2Isabelle
  imports Cpu_Control Mainframe_Contracts Inst_Semaphores Inst_Vector Data_Memory Float_Results
    Operand_Results Iop_Registers Iop_Transfers Iop_Links Disk_Results Console_Results
    Tape_Results Bmx_Results Expander_Results Expander_Devices Concentrator_Results Sim_Requests
    Sim_Periph_Results Sim_Network_Results Sim_System_Results Mkfs_Results
begin

text \<open>
  \<^bold>\<open>The program.\<close> The simulator runs the software of Cray X-MP, Y-MP and J90 machines. A
  mainframe (\<^verbatim>\<open>src/simulator/sim_lib/cray_mainframe\<close>) has a memory, clusters of shared registers
  and channels, and one or more processors (\<^verbatim>\<open>cray_softcpu\<close> and the instruction headers
  \<^verbatim>\<open>cray_cpu_inst_*\<close>). Its input and output is the work of an I/O subsystem: a cluster
  (\<^verbatim>\<open>iop_cluster\<close>) of small processors (\<^verbatim>\<open>cray_iop\<close>), each with a table of channels through
  which it reaches disks, tapes, consoles, the buffer memory, its neighbours and the mainframe.
  Every part has a \<open>Tick\<close>; processors, channels and devices call each other through virtual
  interfaces and share the memories. The development models these parts as functions on explicit
  states. All file names below are relative to \<^verbatim>\<open>src/simulator/sim_lib\<close>. Beside the simulator
  stands \<^verbatim>\<open>mkfs_unicos\<close>, the program that makes the disks it runs from.

  \<^bold>\<open>Conventions.\<close> A C++ integer is a word of its width (\<open>uint64\<close>, \<open>uint32\<close>, \<open>uint16\<close>, \<open>uint8\<close>), so that
  overflow wraps as in the code; \<open>size_t\<close> is \<open>nat\<close> where no subtraction can wrap and \<open>uint64\<close> where
  it can. A class is a record with the names of its members behind a prefix of the class, an enum a
  datatype, a pointer between components an index or an argument. An operation that may throw is of
  type \<open>('s, 'a) exec\<close>, a function from the state to a sum of an exception and a result, with the
  state that it leaves; \<open>AssertError\<close> is a failed \<open>CRAY_ASSERT\<close>, \<open>UndefinedBehaviour\<close> an access
  outside a container, and the other constructors of \<open>exn\<close> are the exceptions of
  \<^verbatim>\<open>exceptions.h\<close>. Assertions are on, as in the default build. The host is little-endian.
  Octal codes of the source are written in decimal or hexadecimal.

  \<^bold>\<open>The theories, in the order of the code.\<close>
  \<^item> \<open>Cray_Prelude\<close>: integer types, exceptions, the \<open>exec\<close> combinators, loops, the lemma collections
    \<open>bitfield\<close> and \<open>exec_ok\<close>, and the locales \<open>field\<close>, \<open>field_pair\<close> and \<open>step_contract\<close>.
  \<^item> \<open>Cray_Utils\<close> (\<^verbatim>\<open>utils.h\<close>), \<open>Cray_Types\<close> (\<^verbatim>\<open>cray_types.h\<close>), \<open>Cray_Float\<close> (\<^verbatim>\<open>cray_float.cpp\<close>): byte and
    bit orders, bit ranges, the 24-bit address class, the floating point format.
  \<^item> \<open>Cray_Memory\<close>, \<open>Exchange_Packet\<close> (\<^verbatim>\<open>exchange_packet.h\<close>), \<open>Mainframe\<close> (\<^verbatim>\<open>cray_mainframe\<close>,
    \<^verbatim>\<open>cray_channels\<close>), \<open>Machine\<close> (the state and helpers of \<^verbatim>\<open>cray_softcpu.h\<close>).
  \<^item> \<open>Inst_0000_0037\<close>, \<open>Inst_0040_0077\<close>, \<open>Inst_0100_0137\<close>, \<open>Inst_0140_0177\<close>: one definition for each
    instruction of the header with that name; \<open>Cpu\<close>: dispatch, single step, exchange, interrupts,
    counters, tick and dead start of \<^verbatim>\<open>cray_softcpu.cpp\<close>.
  \<^item> \<open>Host_File\<close>, \<open>Tape_File\<close> (\<^verbatim>\<open>tap_file\<close>), \<open>Poked_Tape\<close> (\<^verbatim>\<open>poked_tap_file\<close>): host files and tape images.
  \<^item> \<open>Iop_Devices\<close> (\<^verbatim>\<open>cray_iop_built_in_channels.cpp\<close>, \<^verbatim>\<open>iop_era\<close>, \<^verbatim>\<open>iop_host_memory\<close>), \<open>Iop_Disk\<close>
    (\<^verbatim>\<open>iop_disk\<close>), \<open>Console\<close> (\<^verbatim>\<open>console\<close>, \<^verbatim>\<open>iop_console\<close>), \<open>Iop_Cray\<close> (\<^verbatim>\<open>iop_iop2cray\<close>), \<open>Iop_State\<close>
    (\<^verbatim>\<open>iop_iop2iop\<close>, the state of \<^verbatim>\<open>cray_iop.h\<close> and \<^verbatim>\<open>iop_cluster.h\<close>), \<open>Iop_Cpu\<close> and \<open>Iop_Exec\<close>
    (\<^verbatim>\<open>cray_iop.cpp\<close>, \<^verbatim>\<open>iop_cluster.cpp\<close>).
  \<^item> \<open>Iop_Bmx\<close> (\<^verbatim>\<open>iop_bmx\<close>), \<open>Iop_Exp_Devices\<close> and \<open>Iop_Expander\<close> (\<^verbatim>\<open>iop_expander\<close>),
    \<open>Iop_Concentrator\<close> (\<^verbatim>\<open>iop_concentrator\<close>): channels modelled with the I/O memory on their own; they
    are not among the channel kinds of the table of \<open>Iop_State\<close>.
  \<^item> \<open>Host_Stream\<close>: named host files and the streams that are opened on them.
  \<^item> \<open>Sim_Packet\<close>, \<open>Sim_Disk\<close> (\<^verbatim>\<open>sim_iop_disk\<close>), \<open>Sim_Iop\<close> (\<^verbatim>\<open>sim_iop_con\<close>, \<^verbatim>\<open>sim_iop.h\<close>), \<open>Sim_Periph\<close>
    (\<^verbatim>\<open>sim_iop_periph\<close>), \<open>Sim_Eth\<close> (\<^verbatim>\<open>sim_iop_eth\<close>) and \<open>Sim_Iop_Tick\<close> (\<^verbatim>\<open>sim_iop.cpp\<close>): the simulated I/O
    subsystem, which replaces the I/O processors by one object that speaks their packet protocols
    with the mainframe. Its calls of the master clear of the processors are recorded, in order.
  \<^item> \<open>Sim_System\<close>: the processors, the mainframe and the simulated I/O subsystems as one machine. The
    shared mainframe is handed to each part before its operation; the recorded master clears become
    those of \<^verbatim>\<open>Mainframe_c::CpuMasterClear\<close>, and \<open>Sys_Tick\<close> is one turn of the loop over the
    machine (\<^verbatim>\<open>cray_sim/cray_sim.cpp\<close> beside this directory).
  \<^item> \<open>Mkfs_Layout\<close> and \<open>Mkfs_Image\<close> (\<^verbatim>\<open>mkfs_unicos/mkfs_unicos.cpp\<close> beside this directory): the structures
    of the UNICOS file system, each a datatype of its members with their places, and the class
    \<open>DiskImage_c\<close> with the whole program around it. A block is a memory of 4096 bytes; a block that
    the sparse map of the code lacks holds zeros. What the code reads through a pointer into a
    string that is gone is the parameter \<open>gone\<close> of the command line. On the modelled host a file can
    always be opened for output, so the error \<open>Can't write to disk image\<close> does not come from there;
    the address of the first byte of an empty name, which \<open>CalcHash\<close> takes, is not read and is
    taken for defined.

  \<^bold>\<open>Interfaces.\<close> \<open>field\<close> is a getter and setter with their laws; bit ranges are fields
  (\<open>bit_range\<close>), and the mode and flag parts of a packet a \<open>field_pair\<close> (\<open>ymp_mode\<close>, \<open>ymp_flag\<close>).
  \<open>masked_operator\<close> is an operator of the address class against the one on 24-bit words
  (\<open>xplus\<close> and the other operators). \<open>word_memory\<close> is a memory of cells that a write changes one of;
  its models are the bytes of the host (\<open>words\<close>), the mainframe's memory (\<open>mem\<close>) and the I/O memory
  (\<open>parcels\<close>). \<open>step_contract\<close> is a relation between states that sequences, loops and exceptions
  keep; \<open>inst_effects\<close> extends it by the primitive effects of the instructions and derives the
  contract for the whole dispatch table. Its interpretations are the isolation of user programs
  (\<open>user\<close>), the frame of the memory (\<open>frame\<close>), the well-formedness without failed assertions (\<open>wf\<close>) and
  the clock (\<open>count\<close>). \<open>reg\<close>, \<open>quiet\<close>, \<open>exact\<close> and \<open>sim\<close> are contracts of the I/O processor, of the
  expander and of the simulated I/O subsystem. \<open>counted_transfer\<close> is the loop of a channel that counts words (\<open>mos\<close>, \<open>hm\<close>), and
  \<open>one_place_queue\<close> the link between two I/O processors (\<open>lk\<close>).

  \<^bold>\<open>What is shown.\<close>
  \<^item> \<open>Inst_Effects\<close>, \<open>Cpu_Contracts\<close>: a user program changes nothing that belongs to the monitor and
    no memory outside its data limits; a run of instructions meets no failed assertion and keeps
    the state well-formed.
  \<^item> \<open>Cpu_Exchange\<close>, \<open>Cpu_Control\<close>: exchanging twice restores the context; which flags an exchange
    passes on; when interrupts fire; the clock interrupt comes at its count; the tick turns range
    errors into flags; the dead start.
  \<^item> \<open>Data_Memory\<close>, \<open>Inst_Semaphores\<close>, \<open>Inst_Vector\<close>, \<open>Float_Results\<close>, \<open>Operand_Results\<close>: loads after
    stores, mutual exclusion by test and set, vector instructions element by element, error bounds of
    the floating point routines against real numbers, and the operand formats.
  \<^item> \<open>Mainframe_Contracts\<close>: interrupt routing and the channels of the mainframe.
  \<^item> \<open>Iop_Registers\<close>, \<open>Iop_Transfers\<close>, \<open>Iop_Links\<close>: every step of a cluster keeps the registers in their
    bounds; the accumulator is a 17-bit word; calls and interrupts return; block transfers move the
    programmed words; links deliver in order.
  \<^item> \<open>Disk_Results\<close>, \<open>Tape_Results\<close>, \<open>Bmx_Results\<close>, \<open>Console_Results\<close>: the disk image is an array of
    sectors, the tape image a list of records, a record sent to a tape unit comes back, and the
    telnet stream is read as its specification says.
  \<^item> \<open>Expander_Results\<close>, \<open>Expander_Devices\<close>: after any run the interrupt flag that the expander keeps
    agrees with its devices; its Ampex disk returns what was written; the clock answers.
  \<^item> \<open>Concentrator_Results\<close>: the words sent through one concentrator are the words received by
    another, for every way in which the network cuts the bytes.
  \<^item> \<open>Sim_Disk_Results\<close>, \<open>Sim_Results\<close>, \<open>Sim_Contracts\<close>, \<open>Sim_Requests\<close>: transfers are taken apart into
    their packets, what one channel delivers the other picks up, the main loop starts up in order
    and sends only valid packets over any run, and disk requests move the data from end to end.
  \<^item> \<open>Sim_Periph_Results\<close>, \<open>Sim_Network_Results\<close>: a guest file comes back as it was written; the rings
    of a network interface are queues, of which a wake-up sends all and a tick appends one frame.
  \<^item> \<open>Sim_System_Results\<close>: in the first turn of a machine the I/O subsystem loads the kernel and releases
    the start-up processor, which exchanges into the kernel; the other processors stay in reset.
  \<^item> \<open>Mkfs_Alloc\<close> to \<open>Mkfs_Create\<close>, \<open>Mkfs_Results\<close>: a bit map is a set whose least missing number is
    allocated; \<open>fs_state\<close> is the state between two operations, in which exactly the blocks and
    i-nodes below two bounds are taken and the counters agree; appending to a file and to a
    directory is taken step by step. A reader of the written image file, \<open>read_dir\<close> and \<open>read_file\<close>
    after \<open>load_image\<close>, finds the names and the contents of the copied files.

  \<open>Sample_States\<close> and \<open>Sample_Iop\<close> are the states on which the witnesses evaluate the properties.

  \<^bold>\<open>Loops and bounds.\<close> Loops are recursive functions with a measure: counted loops by \<open>for_loop\<close> and
  \<open>forE\<close>, channel loops by the 14-bit word count, which \<open>next_count\<close> lowers until it is zero, stream
  machines by the bytes that are left. Loops that need not end, the file spacing of
  the tape unit and the scan of a poked tape, are partial functions with the value \<open>None\<close> for a run
  that does not end. Only the loop over the output ring of a network interface has fuel, one more
  than the slots of the ring: the indices repeat after a round, so a run that needs more does not
  end, and its value is \<open>DoesNotReturn\<close>; \<open>sim_network_loop_ends\<close> shows when it ends. The loops that
  append to a file have measures; a turn of them that would repeat forever has the same value, which
  the results about the file system exclude. Disks have from 1 MB, the least size that the program
  accepts, to 8 TB, for which block numbers and the sizes of the maps have their widths, and the files
  of the command line fit on them (\<open>image_fits\<close>). The properties of the rotations and of the exit stack are stated for the
  amounts and pointers for which the code keeps them, and a burst is as long as the code makes it.

  \<^bold>\<open>Not modelled.\<close> Configuration and command parsing (property trees of a library; their values are
  arguments here), logging, printers, status reports, dumps, the disassembly, the history buffer,
  performance counters, break and watch points, and debug events, all of which only produce output.
  Sockets, host threads and terminal windows: what the code sees of them is the environment of the
  model. The task probes of operating systems, and PDCurses, the web server and the operating-system
  interfaces of the network adapters, which are third-party or host code. The thread per processor
  of a multi-threaded run: \<open>Sys_Tick\<close> is the turn of a machine that runs in one thread. The
  stand-alone tools that decode disk images, disassemble, and test the floating point routines.
\<close>

end
